(* ===== verification/Vera_Prelude.thy ===== *)
theory Vera_Prelude
  imports Main
begin

text \<open>
  What the components share: results with an error branch, keyed rows of a table, the
  collections of simplification rules, and the interfaces that several components
  implement (a compare-and-swap store, a machine with terminal states, a counter of
  fencing tokens). A Python \<^verbatim>\<open>raise\<close> is an \<^const>\<open>Inl\<close> value; a
  transaction that raises is rolled back by the connection's context manager, so it
  returns no new state at all.
\<close>

named_theorems result_simps \<open>rules that open a successful computation\<close>
named_theorems table_simps \<open>rules about rows found by their key\<close>

type_synonym ('e, 'a) result = "'e + 'a"

section \<open>Results\<close>

fun rbind :: "('e, 'a) result \<Rightarrow> ('a \<Rightarrow> ('e, 'b) result) \<Rightarrow> ('e, 'b) result" where
  "rbind (Inl e) f = Inl e"
| "rbind (Inr x) f = f x"

definition ensure :: "bool \<Rightarrow> 'e \<Rightarrow> ('e, unit) result" where
  "ensure b e = (if b then Inr () else Inl e)"

definition or_raise :: "'a option \<Rightarrow> 'e \<Rightarrow> ('e, 'a) result" where
  "or_raise x e = (case x of None \<Rightarrow> Inl e | Some v \<Rightarrow> Inr v)"

fun map_err :: "('e \<Rightarrow> 'f) \<Rightarrow> ('e, 'a) result \<Rightarrow> ('f, 'a) result" where
  "map_err h (Inl e) = Inl (h e)"
| "map_err h (Inr x) = Inr x"

fun rmap_list :: "('a \<Rightarrow> ('e, 'b) result) \<Rightarrow> 'a list \<Rightarrow> ('e, 'b list) result" where
  "rmap_list f [] = Inr []"
| "rmap_list f (x # xs) = rbind (f x) (\<lambda>y. rbind (rmap_list f xs) (\<lambda>ys. Inr (y # ys)))"

abbreviation ok :: "('e, 'a) result \<Rightarrow> bool" where
  "ok r \<equiv> \<exists>x. r = Inr x"

lemma rbind_Inr_iff [result_simps]: "rbind m f = Inr y \<longleftrightarrow> (\<exists>x. m = Inr x \<and> f x = Inr y)"
  by (cases m) auto

lemma rbind_Inl_iff: "rbind m f = Inl e \<longleftrightarrow> m = Inl e \<or> (\<exists>x. m = Inr x \<and> f x = Inl e)"
  by (cases m) auto

lemma rbind_assoc: "rbind (rbind m f) g = rbind m (\<lambda>x. rbind (f x) g)"
  by (cases m) auto

lemma rbind_cong [fundef_cong]:
  "m = m' \<Longrightarrow> (\<And>x. m' = Inr x \<Longrightarrow> f x = f' x) \<Longrightarrow> rbind m f = rbind m' f'"
  by (cases m') auto

lemma ensure_Inr_iff [result_simps]: "ensure b e = Inr u \<longleftrightarrow> b"
  by (simp add: ensure_def)

lemma ensure_Inl_iff: "ensure b e = Inl e' \<longleftrightarrow> \<not> b \<and> e' = e"
  by (auto simp: ensure_def)

lemma ensure_simps [simp]: "ensure True e = Inr ()" "ensure False e = Inl e"
  by (simp_all add: ensure_def)

lemma or_raise_Inr_iff [result_simps]: "or_raise x e = Inr v \<longleftrightarrow> x = Some v"
  by (auto simp: or_raise_def split: option.splits)

lemma or_raise_simps [simp]: "or_raise None e = Inl e" "or_raise (Some v) e = Inr v"
  by (simp_all add: or_raise_def)

lemma map_err_Inr_iff [result_simps]: "map_err h m = Inr x \<longleftrightarrow> m = Inr x"
  by (cases m) auto

lemma map_err_Inl_iff: "map_err h m = Inl e \<longleftrightarrow> (\<exists>e'. m = Inl e' \<and> e = h e')"
  by (cases m) auto

lemma rmap_list_length: "rmap_list f xs = Inr ys \<Longrightarrow> length ys = length xs"
  by (induction xs arbitrary: ys) (auto simp: result_simps)

lemma rmap_list_set: "rmap_list f xs = Inr ys \<Longrightarrow> y \<in> set ys \<Longrightarrow> \<exists>x\<in>set xs. f x = Inr y"
  by (induction xs arbitrary: ys) (auto simp: result_simps)

lemma rmap_list_member: "rmap_list f xs = Inr ys \<Longrightarrow> x \<in> set xs \<Longrightarrow> \<exists>y\<in>set ys. f x = Inr y"
  by (induction xs arbitrary: ys) (auto simp: result_simps)

lemma rmap_list_total: "(\<And>x. x \<in> set xs \<Longrightarrow> \<exists>y. f x = Inr y) \<Longrightarrow> \<exists>ys. rmap_list f xs = Inr ys"
proof (induction xs)
  case (Cons x xs)
  then obtain y ys where "f x = Inr y" "rmap_list f xs = Inr ys" by (meson list.set_intros)
  then show ?case by simp
qed simp

lemma rmap_list_map: "rmap_list f xs = Inr ys \<Longrightarrow> (\<And>x y. f x = Inr y \<Longrightarrow> g y = h x) \<Longrightarrow> map g ys = map h xs"
  by (induction xs arbitrary: ys) (auto simp: result_simps)

lemma rmap_list_hd_last:
  "rmap_list f xs = Inr ys \<Longrightarrow> xs \<noteq> [] \<Longrightarrow> ys \<noteq> [] \<and> f (hd xs) = Inr (hd ys) \<and> f (last xs) = Inr (last ys)"
proof (induction xs arbitrary: ys)
  case (Cons x xs)
  then show ?case by (cases xs) (force simp: result_simps)+
qed simp

lemma rmap_list_fixed: "(\<And>x. x \<in> set xs \<Longrightarrow> f x = Inr x) \<Longrightarrow> rmap_list f xs = Inr xs"
  by (induction xs) auto

lemma rmap_list_cong [fundef_cong]:
  "xs = ys \<Longrightarrow> (\<And>x. x \<in> set ys \<Longrightarrow> f x = g x) \<Longrightarrow> rmap_list f xs = rmap_list g ys"
  by (induction ys arbitrary: xs) (auto cong: rbind_cong)

text \<open>The range of an SQLite \<^verbatim>\<open>INTEGER\<close>: binding a larger one raises.\<close>

definition fits64 :: "int \<Rightarrow> bool" where
  "fits64 i \<longleftrightarrow> - (2 ^ 63) \<le> i \<and> i < 2 ^ 63"

section \<open>Rows found by a key\<close>

text \<open>
  A table with a primary key is the list of its rows in insertion order. \<open>row_of\<close>
  is \<^verbatim>\<open>SELECT * WHERE key=?\<close> with \<^verbatim>\<open>fetchone()\<close>, \<open>upd_row\<close> is
  \<^verbatim>\<open>UPDATE ... WHERE key=?\<close>, and an insert appends.
\<close>

definition row_of :: "('r \<Rightarrow> 'k) \<Rightarrow> 'k \<Rightarrow> 'r list \<Rightarrow> 'r option" where
  "row_of key k rows = find (\<lambda>r. key r = k) rows"

definition upd_row :: "('r \<Rightarrow> 'k) \<Rightarrow> 'k \<Rightarrow> ('r \<Rightarrow> 'r) \<Rightarrow> 'r list \<Rightarrow> 'r list" where
  "upd_row key k f rows = map (\<lambda>r. if key r = k then f r else r) rows"

definition distinct_keys :: "('r \<Rightarrow> 'k) \<Rightarrow> 'r list \<Rightarrow> bool" where
  "distinct_keys key rows \<longleftrightarrow> distinct (map key rows)"

lemma row_of_Nil [simp, table_simps]: "row_of key k [] = None"
  by (simp add: row_of_def)

lemma row_of_Cons: "row_of key k (r # rs) = (if key r = k then Some r else row_of key k rs)"
  by (simp add: row_of_def)

lemma row_of_Some: "row_of key k rows = Some r \<Longrightarrow> r \<in> set rows \<and> key r = k"
  by (auto simp: row_of_def find_Some_iff)

lemma row_of_None_iff: "row_of key k rows = None \<longleftrightarrow> k \<notin> key ` set rows"
  by (auto simp: row_of_def find_None_iff)

lemma row_of_append [table_simps]:
  "row_of key k (rows @ [r]) =
     (case row_of key k rows of Some x \<Rightarrow> Some x | None \<Rightarrow> if key r = k then Some r else None)"
  by (induction rows) (auto simp: row_of_Cons)

lemma row_of_map:
  "(\<And>r. key (f r) = key r) \<Longrightarrow> row_of key k (map f rows) = map_option f (row_of key k rows)"
  by (induction rows) (auto simp: row_of_Cons)

lemma row_of_upd:
  "(\<And>r. key r = k' \<Longrightarrow> key (f r) = k') \<Longrightarrow>
     row_of key k (upd_row key k' f rows) =
       (if k = k' then map_option f (row_of key k rows) else row_of key k rows)"
  by (induction rows) (auto simp: row_of_Cons upd_row_def)

lemma row_of_upd_same [table_simps]:
  "(\<And>r. key (f r) = key r) \<Longrightarrow> row_of key k (upd_row key k f rows) = map_option f (row_of key k rows)"
  by (induction rows) (auto simp: row_of_Cons upd_row_def)

lemma row_of_upd_other [table_simps]:
  "(\<And>r. key (f r) = key r) \<Longrightarrow> k \<noteq> k' \<Longrightarrow> row_of key k (upd_row key k' f rows) = row_of key k rows"
  by (induction rows) (auto simp: row_of_Cons upd_row_def)

lemma keys_upd_row [table_simps]:
  "(\<And>r. key (f r) = key r) \<Longrightarrow> map key (upd_row key k f rows) = map key rows"
  by (induction rows) (auto simp: upd_row_def)

lemma distinct_keys_upd:
  "(\<And>r. key (f r) = key r) \<Longrightarrow> distinct_keys key (upd_row key k f rows) = distinct_keys key rows"
  by (simp add: distinct_keys_def keys_upd_row)

lemma distinct_keys_append:
  "distinct_keys key (rows @ [r]) \<longleftrightarrow> distinct_keys key rows \<and> row_of key (key r) rows = None"
  by (auto simp: distinct_keys_def row_of_None_iff)

lemma row_of_member:
  "distinct_keys key rows \<Longrightarrow> r \<in> set rows \<Longrightarrow> row_of key (key r) rows = Some r"
proof (induction rows)
  case (Cons x xs)
  then show ?case
    by (auto simp: row_of_Cons distinct_keys_def)
qed simp

lemma set_upd_row:
  "r \<in> set (upd_row key k f rows) \<longleftrightarrow>
     (\<exists>x\<in>set rows. r = (if key x = k then f x else x))"
  unfolding upd_row_def set_map image_iff ..

section \<open>Labelled runs and the machines they refine\<close>

inductive runs :: "('s \<Rightarrow> 'l \<Rightarrow> 's \<Rightarrow> bool) \<Rightarrow> 's \<Rightarrow> 'l list \<Rightarrow> 's \<Rightarrow> bool" for step where
  runs_nil: "runs step s [] s"
| runs_step: "step s l t \<Longrightarrow> runs step t ls u \<Longrightarrow> runs step s (l # ls) u"

inductive_cases runs_NilE: "runs step s [] u"
inductive_cases runs_ConsE: "runs step s (l # ls) u"

lemma runs_invariant:
  assumes "\<And>s l t. step s l t \<Longrightarrow> I s \<Longrightarrow> I t"
  shows "runs step s ls u \<Longrightarrow> I s \<Longrightarrow> I u"
  by (induction rule: runs.induct) (auto intro: assms)

lemma runs_one: "step s l t \<Longrightarrow> runs step s [l] t"
  by (auto intro: runs.intros)

lemma runs_append: "runs step s ls t \<Longrightarrow> runs step t ms u \<Longrightarrow> runs step s (ls @ ms) u"
  by (induction rule: runs.induct) (auto intro: runs.intros)

text \<open>
  A store of keyed entries refines a small machine when each of its steps leaves an
  entry's status alone or moves it along an edge, never removes an entry, and creates
  entries in a start status only.
\<close>

locale status_machine =
  fixes step :: "'s \<Rightarrow> 'l \<Rightarrow> 's \<Rightarrow> bool"
    and status :: "'s \<Rightarrow> 'k \<Rightarrow> 'st option"
    and edge :: "'st \<Rightarrow> 'st \<Rightarrow> bool"
    and start :: "'st \<Rightarrow> bool"
  assumes step_new: "step s l t \<Longrightarrow> status s k = None \<Longrightarrow> status t k = Some q \<Longrightarrow> start q"
    and step_edge: "step s l t \<Longrightarrow> status s k = Some q \<Longrightarrow>
      \<exists>q'. status t k = Some q' \<and> (q' = q \<or> edge q q')"
begin

lemma run_edges:
  "runs step s ls t \<Longrightarrow> status s k = Some q \<Longrightarrow> \<exists>q'. status t k = Some q' \<and> edge\<^sup>*\<^sup>* q q'"
proof (induction arbitrary: q rule: runs.induct)
  case (runs_step s l t ls u)
  obtain q1 where q1: "status t k = Some q1" "q1 = q \<or> edge q q1"
    using step_edge [OF runs_step.hyps(1) runs_step.prems] by blast
  obtain q' where "status u k = Some q'" "edge\<^sup>*\<^sup>* q1 q'"
    using runs_step.IH [OF q1(1)] by blast
  with q1(2) show ?case by (auto intro: converse_rtranclp_into_rtranclp)
qed simp

lemma run_from_start:
  "runs step s ls t \<Longrightarrow> status s k = None \<Longrightarrow> status t k = Some q \<Longrightarrow> \<exists>q0. start q0 \<and> edge\<^sup>*\<^sup>* q0 q"
proof (induction arbitrary: q rule: runs.induct)
  case (runs_step s l t ls u)
  show ?case
  proof (cases "status t k")
    case None
    with runs_step show ?thesis by blast
  next
    case (Some q1)
    have "start q1" by (rule step_new [OF runs_step.hyps(1) runs_step.prems(1) Some])
    moreover have "edge\<^sup>*\<^sup>* q1 q"
      using run_edges [OF runs_step.hyps(2) Some] runs_step.prems(2) by auto
    ultimately show ?thesis by blast
  qed
qed simp

lemma run_terminal:
  assumes "runs step s ls t" "status s k = Some q" "\<And>q'. \<not> edge q q'"
  shows "status t k = Some q"
  using run_edges [OF assms(1,2)] assms(3) by (metis converse_rtranclpE)

end

text \<open>
  A store with a compare-and-swap counter: an operation is accepted only at the version it
  names, and accepting it moves the version on. So of two operations naming the same
  version at most one is accepted.
\<close>

locale cas_store =
  fixes step :: "'s \<Rightarrow> 'l \<Rightarrow> 's \<Rightarrow> bool"
    and version :: "'s \<Rightarrow> int"
    and expects :: "'l \<Rightarrow> int option"
  assumes step_expects: "step s l t \<Longrightarrow> expects l = Some n \<Longrightarrow> version s = n \<and> version t = n + 1"
    and step_mono: "step s l t \<Longrightarrow> version s \<le> version t"
begin

lemma run_mono: "runs step s ls t \<Longrightarrow> version s \<le> version t"
  by (induction rule: runs.induct) (auto dest: step_mono)

lemma run_after_excludes:
  assumes "runs step s ls t" "n < version s"
  shows "\<forall>l\<in>set ls. expects l \<noteq> Some n"
  using assms
proof (induction rule: runs.induct)
  case (runs_step s l t ls u)
  then show ?case using step_expects step_mono by fastforce
qed simp

lemma run_at_most_one:
  assumes "runs step s ls t"
  shows "length (filter (\<lambda>l. expects l = Some n) ls) \<le> 1"
  using assms
proof (induction rule: runs.induct)
  case (runs_step s l t ls u)
  show ?case
  proof (cases "expects l = Some n")
    case True
    then have "n < version t" using step_expects [OF runs_step.hyps(1)] by simp
    then have "filter (\<lambda>l. expects l = Some n) ls = []"
      using run_after_excludes [OF runs_step.hyps(2)] by (auto simp: filter_empty_conv)
    then show ?thesis by simp
  qed (use runs_step.IH in simp)
qed simp

end

end
