(* ===== verification/Py_Text.thy ===== *)
theory Py_Text
  imports Sha256
begin

text \<open>
  Python text as the components use it: \<^verbatim>\<open>str\<close> methods, decimal numerals,
  \<^verbatim>\<open>int(value, 16)\<close> and UTF-8. A Python \<^verbatim>\<open>str\<close> is a list of
  code points below 256, a \<^typ>\<open>char\<close> each; its UTF-8 bytes are again a
  \<^typ>\<open>string\<close>. The digest check at the end is the one the effect fence, the
  checkpoint ledger and the trust registry each write out.
\<close>

section \<open>Characters\<close>

abbreviation code :: "char \<Rightarrow> nat" where
  "code c \<equiv> of_char c"

definition is_digit :: "char \<Rightarrow> bool" where
  "is_digit c \<longleftrightarrow> 48 \<le> code c \<and> code c \<le> 57"

definition is_hex_char :: "char \<Rightarrow> bool" where
  "is_hex_char c \<longleftrightarrow> is_digit c \<or> (97 \<le> code c \<and> code c \<le> 102) \<or> (65 \<le> code c \<and> code c \<le> 70)"

definition is_lower_hex :: "char \<Rightarrow> bool" where
  "is_lower_hex c \<longleftrightarrow> is_digit c \<or> (97 \<le> code c \<and> code c \<le> 102)"

text \<open>The whitespace of C's \<^verbatim>\<open>isspace\<close>, and that of \<^verbatim>\<open>str.isspace\<close>.\<close>

definition is_c_space :: "char \<Rightarrow> bool" where
  "is_c_space c \<longleftrightarrow> (9 \<le> code c \<and> code c \<le> 13) \<or> code c = 32"

definition is_py_space :: "char \<Rightarrow> bool" where
  "is_py_space c \<longleftrightarrow> is_c_space c \<or> (28 \<le> code c \<and> code c \<le> 31) \<or> code c = 133 \<or> code c = 160"

definition lower_char :: "char \<Rightarrow> char" where
  "lower_char c =
     (if (65 \<le> code c \<and> code c \<le> 90) \<or> (192 \<le> code c \<and> code c \<le> 222 \<and> code c \<noteq> 215)
      then char_of (code c + 32) else c)"

definition py_lower :: "string \<Rightarrow> string" where
  "py_lower s = map lower_char s"

definition py_strip :: "string \<Rightarrow> string" where
  "py_strip s = rev (dropWhile is_py_space (rev (dropWhile is_py_space s)))"

definition ends_with :: "string \<Rightarrow> string \<Rightarrow> bool" where
  "ends_with s suf \<longleftrightarrow> length suf \<le> length s \<and> drop (length s - length suf) s = suf"

definition starts_with :: "string \<Rightarrow> string \<Rightarrow> bool" where
  "starts_with s pre \<longleftrightarrow> take (length pre) s = pre"

text \<open>\<^verbatim>\<open>s.split(sep, 1)\<close> at the first separator, and \<^verbatim>\<open>s.split(sep)\<close>.\<close>

fun split_once :: "char \<Rightarrow> string \<Rightarrow> string \<times> string" where
  "split_once sep [] = ([], [])"
| "split_once sep (c # cs) =
     (if c = sep then ([], cs) else (let (a, b) = split_once sep cs in (c # a, b)))"

fun split_all :: "char \<Rightarrow> string \<Rightarrow> string list" where
  "split_all sep [] = [[]]"
| "split_all sep (c # cs) =
     (if c = sep then [] # split_all sep cs
      else (case split_all sep cs of [] \<Rightarrow> [[c]] | w # ws \<Rightarrow> (c # w) # ws))"

section \<open>Decimal numerals\<close>

definition digit_char :: "nat \<Rightarrow> char" where
  "digit_char n = char_of (48 + n mod 10)"

fun show_nat :: "nat \<Rightarrow> string" where
  "show_nat n = (if n < 10 then [digit_char n] else show_nat (n div 10) @ [digit_char (n mod 10)])"

declare show_nat.simps [simp del]

definition show_int :: "int \<Rightarrow> string" where
  "show_int i = (if i < 0 then CHR ''-'' # show_nat (nat (- i)) else show_nat (nat i))"

definition digit_val :: "char \<Rightarrow> nat" where
  "digit_val c = code c - 48"

definition read_nat :: "string \<Rightarrow> nat" where
  "read_nat ds = foldl (\<lambda>acc c. acc * 10 + digit_val c) 0 ds"

section \<open>\<^verbatim>\<open>int(value, 16)\<close>\<close>

text \<open>
  The conversion first replaces the non-ASCII spaces of the text by blanks (an ASCII text
  is left as it is), then skips blanks, a sign and an \<^verbatim>\<open>0x\<close> prefix that one
  underscore may follow, and takes hexadecimal digits with single underscores between
  them, up to trailing blanks. Only whether it raises matters to the callers.
\<close>

definition to_ascii_spaces :: "string \<Rightarrow> string" where
  "to_ascii_spaces s =
     (if list_all (\<lambda>c. code c < 128) s then s
      else map (\<lambda>c. if code c < 127 then c
                     else if is_py_space c then CHR '' '' else CHR ''?'') s)"

definition skip_sign :: "string \<Rightarrow> string" where
  "skip_sign s = (case s of c # cs \<Rightarrow> if c = CHR ''+'' \<or> c = CHR ''-'' then cs else s | [] \<Rightarrow> s)"

definition skip_0x :: "string \<Rightarrow> string" where
  "skip_0x s =
     (case s of
        z # x # cs \<Rightarrow>
          if z = CHR ''0'' \<and> (x = CHR ''x'' \<or> x = CHR ''X'')
          then (case cs of u # us \<Rightarrow> if u = CHR ''_'' then us else cs | [] \<Rightarrow> cs)
          else s
      | _ \<Rightarrow> s)"

fun scan_hex :: "bool \<Rightarrow> string \<Rightarrow> string option" where
  "scan_hex underscore [] = (if underscore then None else Some [])"
| "scan_hex underscore (c # cs) =
     (if c = CHR ''_'' then (if underscore then None else scan_hex True cs)
      else if is_hex_char c then scan_hex False cs
      else if underscore then None else Some (c # cs))"

definition int16_accepts :: "string \<Rightarrow> bool" where
  "int16_accepts s =
     (let t = skip_0x (skip_sign (dropWhile is_c_space (to_ascii_spaces s)))
      in (case t of [] \<Rightarrow> False | c # _ \<Rightarrow> is_hex_char c)
         \<and> (case scan_hex False t of None \<Rightarrow> False | Some r \<Rightarrow> list_all is_c_space r))"

text \<open>The digest check that three components share.\<close>

datatype digest_fault = Digest_length | Digest_not_hex

definition digest_check :: "string \<Rightarrow> (digest_fault, string) result" where
  "digest_check value =
     (if length value \<noteq> 64 then Inl Digest_length
      else if \<not> int16_accepts value then Inl Digest_not_hex
      else Inr (py_lower value))"

section \<open>UTF-8\<close>

definition utf8_char :: "char \<Rightarrow> string" where
  "utf8_char c =
     (if code c < 128 then [c] else [char_of (192 + code c div 64), char_of (128 + code c mod 64)])"

definition utf8 :: "string \<Rightarrow> string" where
  "utf8 s = concat (map utf8_char s)"

fun utf8_decode :: "string \<Rightarrow> string" where
  "utf8_decode [] = []"
| "utf8_decode (b # bs) =
     (if code b < 128 then b # utf8_decode bs
      else (case bs of [] \<Rightarrow> []
            | b2 # rest \<Rightarrow> char_of ((code b - 192) * 64 + (code b2 - 128)) # utf8_decode rest))"

section \<open>Facts about numerals and encodings\<close>

lemma starts_with_simps [simp]:
  "starts_with s []"
  "\<not> starts_with [] (d # ds)"
  "starts_with (c # cs) (d # ds) \<longleftrightarrow> c = d \<and> starts_with cs ds"
  by (auto simp: starts_with_def)

lemma code_digit_char [simp]: "code (digit_char n) = 48 + n mod 10"
  by (simp add: digit_char_def)

lemma is_digit_digit_char [simp]: "is_digit (digit_char n)"
  by (simp add: is_digit_def)

lemma digit_val_digit_char [simp]: "digit_val (digit_char n) = n mod 10"
  by (simp add: digit_val_def)

lemma read_nat_append: "read_nat (ds @ [d]) = read_nat ds * 10 + digit_val d"
  by (simp add: read_nat_def)

lemma read_show_nat [simp]: "read_nat (show_nat n) = n"
proof (induction n rule: show_nat.induct)
  case (1 n)
  show ?case
  proof (cases "n < 10")
    case True
    then show ?thesis by (simp add: show_nat.simps read_nat_def)
  next
    case False
    with 1 have "read_nat (show_nat (n div 10)) = n div 10" by simp
    with False show ?thesis by (simp add: show_nat.simps [of n] read_nat_append)
  qed
qed

lemma show_nat_digits: "list_all is_digit (show_nat n)"
proof (induction n rule: show_nat.induct)
  case (1 n)
  then show ?case by (cases "n < 10") (simp_all add: show_nat.simps [of n])
qed

lemma show_nat_nonempty [simp]: "show_nat n \<noteq> []"
  by (simp add: show_nat.simps [of n])

lemma digit_char_eq_zero: "digit_char n = CHR ''0'' \<longleftrightarrow> n mod 10 = 0"
proof -
  have "digit_char n = CHR ''0'' \<longleftrightarrow> code (digit_char n) = code (CHR ''0'')"
    by (simp only: of_char_eq_iff)
  then show ?thesis by simp
qed

lemma show_nat_zero: "show_nat 0 = ''0''"
  by (simp add: show_nat.simps [of 0] digit_char_eq_zero)

lemma show_nat_no_leading_zero: "hd (show_nat n) = CHR ''0'' \<longleftrightarrow> n = 0"
proof (induction n rule: show_nat.induct)
  case (1 n)
  then show ?case
    by (cases "n < 10") (auto simp: show_nat.simps [of n] digit_char_eq_zero)
qed

lemma show_nat_inj: "show_nat m = show_nat n \<longleftrightarrow> m = n"
  by (metis read_show_nat)

lemma utf8_decode_char: "utf8_decode (utf8_char c @ bs) = c # utf8_decode bs"
proof (cases "code c < 128")
  case False
  have "code c < 256" by simp
  then have d: "code c div 64 < 4" "code c div 64 \<ge> 2" using False by linarith+
  then show ?thesis using False by (simp add: utf8_char_def)
qed (simp add: utf8_char_def)

lemma utf8_decode_utf8 [simp]: "utf8_decode (utf8 s) = s"
  by (induction s) (simp_all add: utf8_def utf8_decode_char)

lemma utf8_inj: "utf8 s = utf8 t \<longleftrightarrow> s = t"
  by (metis utf8_decode_utf8)

lemma utf8_ascii: "list_all (\<lambda>c. code c < 128) s \<Longrightarrow> utf8 s = s"
  by (induction s) (simp_all add: utf8_def utf8_char_def)

section \<open>Digests are accepted as they are\<close>

lemma hex_digit_lower: "is_lower_hex (hex_digit n)"
proof -
  have "n mod 16 < 16" by simp
  then have "n mod 16 \<le> 15" by linarith
  then show ?thesis by (simp add: hex_digit_def is_lower_hex_def is_digit_def)
qed

lemma sha256_length [simp]: "length (sha256_hexdigest m) = 64"
proof -
  obtain a b c d e f g h where "sha_final m = (a, b, c, d, e, f, g, h)"
    by (metis prod_cases3)
  then show ?thesis by (simp add: sha256_hexdigest_def be_bytes_def hex_byte_def)
qed

lemma sha256_lower_hex: "list_all is_lower_hex (sha256_hexdigest m)"
  by (auto simp: sha256_hexdigest_def list_all_iff hex_byte_def hex_digit_lower)

lemma lower_hex_facts:
  assumes "is_lower_hex c"
  shows "is_hex_char c" "code c < 128" "lower_char c = c" "\<not> is_c_space c"
    "c \<noteq> CHR ''_''" "c \<noteq> CHR ''+''" "c \<noteq> CHR ''-''" "c \<noteq> CHR ''x''" "c \<noteq> CHR ''X''"
  using assms by (auto simp: is_lower_hex_def is_hex_char_def is_digit_def lower_char_def is_c_space_def)

lemma scan_hex_lower: "list_all is_lower_hex s \<Longrightarrow> scan_hex False s = Some []"
  by (induction s) (simp_all add: lower_hex_facts)

lemma digest_check_lower_hex:
  assumes "length s = 64" and lh: "list_all is_lower_hex s"
  shows "digest_check s = Inr s"
proof -
  obtain a b r where s: "s = a # b # r"
    using assms(1) by (cases s; cases "tl s") auto
  have "to_ascii_spaces s = s"
    using lh by (simp add: to_ascii_spaces_def list_all_iff lower_hex_facts(2))
  moreover have "dropWhile is_c_space s = s" "skip_sign s = s" "skip_0x s = s"
    using lh by (auto simp: s skip_sign_def skip_0x_def lower_hex_facts(4-9))
  ultimately have "int16_accepts s"
    using lh scan_hex_lower [OF lh] by (simp add: int16_accepts_def Let_def s lower_hex_facts(1))
  moreover have "py_lower s = s"
    using lh by (induction s) (simp_all add: py_lower_def lower_hex_facts(3))
  ultimately show ?thesis using assms(1) by (simp add: digest_check_def)
qed

lemma digest_check_sha256 [simp]: "digest_check (sha256_hexdigest m) = Inr (sha256_hexdigest m)"
  by (rule digest_check_lower_hex) (simp_all add: sha256_lower_hex)

text \<open>Lower-casing a digest keeps it a digest, and a second time changes nothing.\<close>

lemma code_lower:
  "code (lower_char c) = (if (65 \<le> code c \<and> code c \<le> 90) \<or> (192 \<le> code c \<and> code c \<le> 222 \<and> code c \<noteq> 215)
     then code c + 32 else code c)"
  using nat_of_char_less_256 [of c] by (auto simp: lower_char_def)

lemma char_by_code: "c = d \<longleftrightarrow> code c = (code d :: nat)"
  by (simp add: of_char_eq_iff)

lemma lower_char_facts:
  "is_c_space (lower_char c) = is_c_space c" "is_hex_char (lower_char c) = is_hex_char c"
  "lower_char c = CHR ''_'' \<longleftrightarrow> c = CHR ''_''" "lower_char c = CHR ''+'' \<longleftrightarrow> c = CHR ''+''"
  "lower_char c = CHR ''-'' \<longleftrightarrow> c = CHR ''-''" "lower_char c = CHR ''0'' \<longleftrightarrow> c = CHR ''0''"
  "(lower_char c = CHR ''x'' \<or> lower_char c = CHR ''X'') \<longleftrightarrow> (c = CHR ''x'' \<or> c = CHR ''X'')"
  "is_py_space (lower_char c) = is_py_space c" "(code (lower_char c) < 128) = (code c < 128)"
  "(code (lower_char c) < 127) = (code c < 127)" "lower_char (lower_char c) = lower_char c"
  by (auto simp: char_by_code is_c_space_def is_hex_char_def is_digit_def is_py_space_def code_lower)

lemma dropWhile_lower: "dropWhile is_c_space (map lower_char s) = map lower_char (dropWhile is_c_space s)"
  by (simp add: dropWhile_map comp_def lower_char_facts)

lemma skip_sign_lower: "skip_sign (map lower_char s) = map lower_char (skip_sign s)"
  by (cases s) (simp_all add: skip_sign_def lower_char_facts)

lemma skip_0x_lower: "skip_0x (map lower_char s) = map lower_char (skip_0x s)"
proof (cases s)
  case (Cons z t)
  then show ?thesis
    by (cases t; cases "tl t") (auto simp: skip_0x_def lower_char_facts)
qed (simp add: skip_0x_def)

lemma scan_hex_lower_map: "scan_hex u (map lower_char s) = map_option (map lower_char) (scan_hex u s)"
  by (induction s arbitrary: u) (auto simp: lower_char_facts)

lemma to_ascii_spaces_lower: "to_ascii_spaces (map lower_char s) = map lower_char (to_ascii_spaces s)"
proof -
  have "lower_char CHR '' '' = CHR '' ''" "lower_char CHR ''?'' = CHR ''?''" by (simp_all add: lower_char_def)
  then show ?thesis by (auto simp: to_ascii_spaces_def list_all_iff lower_char_facts)
qed

lemma int16_accepts_lower: "int16_accepts (py_lower s) = int16_accepts s"
proof -
  define t where "t = skip_0x (skip_sign (dropWhile is_c_space (to_ascii_spaces s)))"
  have "skip_0x (skip_sign (dropWhile is_c_space (to_ascii_spaces (py_lower s)))) = map lower_char t"
    unfolding t_def py_lower_def to_ascii_spaces_lower dropWhile_lower skip_sign_lower skip_0x_lower ..
  moreover have "(case map lower_char t of [] \<Rightarrow> False | c # _ \<Rightarrow> is_hex_char c) = (case t of [] \<Rightarrow> False | c # _ \<Rightarrow> is_hex_char c)"
    by (cases t) (simp_all add: lower_char_facts)
  moreover have "(case scan_hex False (map lower_char t) of None \<Rightarrow> False | Some r \<Rightarrow> list_all is_c_space r) =
      (case scan_hex False t of None \<Rightarrow> False | Some r \<Rightarrow> list_all is_c_space r)"
    unfolding scan_hex_lower_map by (cases "scan_hex False t") (simp_all add: list_all_iff lower_char_facts)
  ultimately show ?thesis unfolding int16_accepts_def Let_def t_def [symmetric] by simp
qed

lemma digest_check_idem: "digest_check v = Inr d \<Longrightarrow> digest_check d = Inr d"
  by (auto simp: digest_check_def int16_accepts_lower split: if_splits)
    (simp_all add: py_lower_def comp_def lower_char_facts)
text \<open>Sample digests, for concrete instances.\<close>

definition hex64 :: "char \<Rightarrow> string" where
  "hex64 c = replicate 64 c"

lemma hex64_simps [simp]:
  "hex64 c = hex64 d \<longleftrightarrow> c = d" "hex64 c \<noteq> []" "length (hex64 c) = 64"
  by (simp_all add: hex64_def)

lemma digest_check_hex64 [simp]: "is_lower_hex c \<Longrightarrow> digest_check (hex64 c) = Inr (hex64 c)"
  by (rule digest_check_lower_hex) (auto simp: hex64_def list_all_iff)

lemma is_lower_hex_samples [simp]:
  "is_lower_hex CHR ''a''" "is_lower_hex CHR ''b''" "is_lower_hex CHR ''c''" "is_lower_hex CHR ''d''"
  "is_lower_hex CHR ''e''" "is_lower_hex CHR ''f''" "is_lower_hex CHR ''0''"
  by (simp_all add: is_lower_hex_def is_digit_def)

end
