(* ===== verification/Json.thy ===== *)
theory Json
  imports Py_Text
begin

text \<open>
  JSON values, the compact writer of \<^verbatim>\<open>json.dumps(..., ensure_ascii=False,
  separators=(",", ":"))\<close> and the reader of \<^verbatim>\<open>json.loads\<close> with its two
  hooks. A Python \<^verbatim>\<open>dict\<close> is an association list in insertion order. A float
  is named by its text, since the program never computes with one. The reader has fuel;
  \<open>loads\<close> gives twice the length of the text plus one, which is never exhausted
  (\<open>loads_fuel\<close>).
\<close>

datatype json =
    JNull
  | JBool bool
  | JInt int
  | JFloat string
  | JStr string
  | JArr "json list"
  | JObj "(string \<times> json) list"

section \<open>The writer\<close>

definition esc_char :: "char \<Rightarrow> string" where
  "esc_char c =
     (if c = CHR 0x22 then [CHR 0x5C, CHR 0x22]
      else if c = CHR 0x5C then [CHR 0x5C, CHR 0x5C]
      else if c = CHR 0x0A then [CHR 0x5C, CHR ''n'']
      else if c = CHR 0x0D then [CHR 0x5C, CHR ''r'']
      else if c = CHR 0x09 then [CHR 0x5C, CHR ''t'']
      else if c = CHR 0x0C then [CHR 0x5C, CHR ''f'']
      else if c = CHR 0x08 then [CHR 0x5C, CHR ''b'']
      else if code c < 32
      then [CHR 0x5C, CHR ''u'', CHR ''0'', CHR ''0'', hex_digit (code c div 16), hex_digit (code c)]
      else [c])"

definition quote :: "string \<Rightarrow> string" where
  "quote s = CHR 0x22 # concat (map esc_char s) @ [CHR 0x22]"

fun sep_by :: "string list \<Rightarrow> string" where
  "sep_by [] = []"
| "sep_by [x] = x"
| "sep_by (x # y # ys) = x @ CHR '','' # sep_by (y # ys)"

fun json_text :: "json \<Rightarrow> string" where
  "json_text JNull = ''null''"
| "json_text (JBool b) = (if b then ''true'' else ''false'')"
| "json_text (JInt i) = show_int i"
| "json_text (JFloat t) = t"
| "json_text (JStr s) = quote s"
| "json_text (JArr vs) = CHR ''['' # sep_by (map json_text vs) @ '']''"
| "json_text (JObj kvs) =
     CHR ''{'' # sep_by (map (\<lambda>(k, v). quote k @ CHR '':'' # json_text v) kvs) @ ''}''"

section \<open>The reader\<close>

datatype json_error =
    JSONDecodeError
  | Duplicate_key string
  | Non_finite string
  | Beyond_latin1
  | Out_of_fuel

record json_hooks =
  object_pairs :: "(string \<times> json) list \<Rightarrow> (json_error, json) result"
  parse_constant :: "string \<Rightarrow> (json_error, json) result"

definition is_ws :: "char \<Rightarrow> bool" where
  "is_ws c \<longleftrightarrow> c = CHR '' '' \<or> c = CHR 0x09 \<or> c = CHR 0x0A \<or> c = CHR 0x0D"

abbreviation skip_ws :: "string \<Rightarrow> string" where
  "skip_ws s \<equiv> dropWhile is_ws s"

definition hex_val :: "char \<Rightarrow> nat" where
  "hex_val c =
     (if is_digit c then code c - 48
      else if 97 \<le> code c \<and> code c \<le> 102 then code c - 87 else code c - 55)"

definition unescape :: "char \<Rightarrow> char option" where
  "unescape c =
     (if c = CHR 0x22 \<or> c = CHR 0x5C \<or> c = CHR ''/'' then Some c
      else if c = CHR ''b'' then Some (CHR 0x08)
      else if c = CHR ''f'' then Some (CHR 0x0C)
      else if c = CHR ''n'' then Some (CHR 0x0A)
      else if c = CHR ''r'' then Some (CHR 0x0D)
      else if c = CHR ''t'' then Some (CHR 0x09) else None)"

text \<open>The body of a string literal, after its opening quote.\<close>

fun scan_str :: "string \<Rightarrow> (json_error, string \<times> string) result" where
  "scan_str [] = Inl JSONDecodeError"
| "scan_str (c # cs) =
     (if c = CHR 0x22 then Inr ([], cs)
      else if code c < 32 then Inl JSONDecodeError
      else if c \<noteq> CHR 0x5C then rbind (scan_str cs) (\<lambda>(s, r). Inr (c # s, r))
      else (case cs of
              [] \<Rightarrow> Inl JSONDecodeError
            | e # es \<Rightarrow>
                if e = CHR ''u''
                then (case es of
                        h1 # h2 # h3 # h4 # rest \<Rightarrow>
                          if is_hex_char h1 \<and> is_hex_char h2 \<and> is_hex_char h3 \<and> is_hex_char h4
                          then if hex_val h1 = 0 \<and> hex_val h2 = 0
                               then rbind (scan_str rest)
                                      (\<lambda>(s, r). Inr (char_of (hex_val h3 * 16 + hex_val h4) # s, r))
                               else Inl Beyond_latin1
                          else Inl JSONDecodeError
                      | _ \<Rightarrow> Inl JSONDecodeError)
                else (case unescape e of
                        None \<Rightarrow> Inl JSONDecodeError
                      | Some d \<Rightarrow> rbind (scan_str es) (\<lambda>(s, r). Inr (d # s, r)))))"

text \<open>A number: the integer part, then a fraction and an exponent when they are there.\<close>

definition scan_frac :: "string \<Rightarrow> string \<times> string" where
  "scan_frac s =
     (case s of
        p # ds \<Rightarrow>
          if p = CHR ''.'' \<and> takeWhile is_digit ds \<noteq> []
          then (p # takeWhile is_digit ds, dropWhile is_digit ds) else ([], s)
      | [] \<Rightarrow> ([], s))"

definition scan_exp :: "string \<Rightarrow> string \<times> string" where
  "scan_exp s =
     (case s of
        e # es \<Rightarrow>
          if e = CHR ''e'' \<or> e = CHR ''E''
          then (let (sg, ds) = (case es of
                                  c # cs \<Rightarrow> if c = CHR ''+'' \<or> c = CHR ''-'' then ([c], cs) else ([], es)
                                | [] \<Rightarrow> ([], es))
                in if takeWhile is_digit ds \<noteq> []
                   then (e # sg @ takeWhile is_digit ds, dropWhile is_digit ds) else ([], s))
          else ([], s)
      | [] \<Rightarrow> ([], s))"

definition scan_digits :: "string \<Rightarrow> string \<times> string" where
  "scan_digits s =
     (case s of
        c # cs \<Rightarrow> if c = CHR ''0'' then ([c], cs) else (takeWhile is_digit s, dropWhile is_digit s)
      | [] \<Rightarrow> ([], []))"

definition scan_number :: "string \<Rightarrow> (json_error, json \<times> string) result" where
  "scan_number s =
     (let (neg, t) = (case s of c # cs \<Rightarrow> if c = CHR ''-'' then (True, cs) else (False, s)
                              | [] \<Rightarrow> (False, s));
          (ds, r1) = scan_digits t
      in if ds = [] then Inl JSONDecodeError
         else (let (fr, r2) = scan_frac r1; (ex, r3) = scan_exp r2
               in if fr = [] \<and> ex = []
                  then Inr (JInt (if neg then - int (read_nat ds) else int (read_nat ds)), r1)
                  else Inr (JFloat ((if neg then ''-'' else []) @ ds @ fr @ ex), r3)))"

fun parse_value :: "json_hooks \<Rightarrow> nat \<Rightarrow> string \<Rightarrow> (json_error, json \<times> string) result"
and parse_elems :: "json_hooks \<Rightarrow> nat \<Rightarrow> string \<Rightarrow> (json_error, json list \<times> string) result"
and parse_members :: "json_hooks \<Rightarrow> nat \<Rightarrow> string \<Rightarrow> (json_error, (string \<times> json) list \<times> string) result"
where
  "parse_value H 0 s = Inl Out_of_fuel"
| "parse_value H (Suc n) s =
     (case s of
        [] \<Rightarrow> Inl JSONDecodeError
      | c # cs \<Rightarrow>
          if c = CHR 0x22 then rbind (scan_str cs) (\<lambda>(t, r). Inr (JStr t, r))
          else if c = CHR ''{''
          then (let cs' = skip_ws cs
                in if starts_with cs' ''}'' then rbind (object_pairs H []) (\<lambda>v. Inr (v, tl cs'))
                   else rbind (parse_members H n cs')
                          (\<lambda>(kvs, r). rbind (object_pairs H kvs) (\<lambda>v. Inr (v, r))))
          else if c = CHR ''[''
          then (let cs' = skip_ws cs
                in if starts_with cs' '']'' then Inr (JArr [], tl cs')
                   else rbind (parse_elems H n cs') (\<lambda>(vs, r). Inr (JArr vs, r)))
          else if starts_with s ''null'' then Inr (JNull, drop 4 s)
          else if starts_with s ''true'' then Inr (JBool True, drop 4 s)
          else if starts_with s ''false'' then Inr (JBool False, drop 5 s)
          else if starts_with s ''NaN''
          then rbind (parse_constant H ''NaN'') (\<lambda>v. Inr (v, drop 3 s))
          else if starts_with s ''Infinity''
          then rbind (parse_constant H ''Infinity'') (\<lambda>v. Inr (v, drop 8 s))
          else if starts_with s ''-Infinity''
          then rbind (parse_constant H ''-Infinity'') (\<lambda>v. Inr (v, drop 9 s))
          else scan_number s)"
| "parse_elems H 0 s = Inl Out_of_fuel"
| "parse_elems H (Suc n) s =
     rbind (parse_value H n s) (\<lambda>(v, r).
       (case skip_ws r of
          c # cs \<Rightarrow>
            if c = CHR '']'' then Inr ([v], cs)
            else if c = CHR '',''
            then rbind (parse_elems H n (skip_ws cs)) (\<lambda>(vs, r'). Inr (v # vs, r'))
            else Inl JSONDecodeError
        | [] \<Rightarrow> Inl JSONDecodeError))"
| "parse_members H 0 s = Inl Out_of_fuel"
| "parse_members H (Suc n) s =
     (case s of
        q # cs \<Rightarrow>
          if q \<noteq> CHR 0x22 then Inl JSONDecodeError
          else rbind (scan_str cs) (\<lambda>(k, r).
            (case skip_ws r of
               c # cs' \<Rightarrow>
                 if c \<noteq> CHR '':'' then Inl JSONDecodeError
                 else rbind (parse_value H n (skip_ws cs')) (\<lambda>(v, r').
                   (case skip_ws r' of
                      d # ds \<Rightarrow>
                        if d = CHR ''}'' then Inr ([(k, v)], ds)
                        else if d = CHR '',''
                        then rbind (parse_members H n (skip_ws ds))
                               (\<lambda>(kvs, r''). Inr ((k, v) # kvs, r''))
                        else Inl JSONDecodeError
                    | [] \<Rightarrow> Inl JSONDecodeError))
             | [] \<Rightarrow> Inl JSONDecodeError))
      | [] \<Rightarrow> Inl JSONDecodeError)"

definition loads :: "json_hooks \<Rightarrow> string \<Rightarrow> (json_error, json) result" where
  "loads H s =
     rbind (parse_value H (2 * length s + 1) (skip_ws s)) (\<lambda>(v, r).
       if skip_ws r = [] then Inr v else Inl JSONDecodeError)"

text \<open>
  \<^verbatim>\<open>dict(pairs)\<close> keeps a repeated key at its first place with its last value; the
  hook of the strict readers refuses it instead.
\<close>

fun dict_set :: "(string \<times> 'v) list \<Rightarrow> string \<Rightarrow> 'v \<Rightarrow> (string \<times> 'v) list" where
  "dict_set [] k v = [(k, v)]"
| "dict_set ((k', v') # kvs) k v =
     (if k' = k then (k, v) # kvs else (k', v') # dict_set kvs k v)"

definition dict_of :: "(string \<times> 'v) list \<Rightarrow> (string \<times> 'v) list" where
  "dict_of kvs = foldl (\<lambda>d (k, v). dict_set d k v) [] kvs"

fun unique_pairs ::
  "(string \<times> json) list \<Rightarrow> (string \<times> json) list \<Rightarrow> (json_error, (string \<times> json) list) result" where
  "unique_pairs seen [] = Inr seen"
| "unique_pairs seen ((k, v) # kvs) =
     (if k \<in> fst ` set seen then Inl (Duplicate_key k) else unique_pairs (seen @ [(k, v)]) kvs)"

definition plain_hooks :: json_hooks where
  "plain_hooks = \<lparr>object_pairs = (\<lambda>kvs. Inr (JObj (dict_of kvs))),
                  parse_constant = (\<lambda>t. Inr (JFloat t))\<rparr>"

definition strict_hooks :: json_hooks where
  "strict_hooks = \<lparr>object_pairs = (\<lambda>kvs. rbind (unique_pairs [] kvs) (\<lambda>d. Inr (JObj d))),
                   parse_constant = (\<lambda>t. Inl (Non_finite t))\<rparr>"

section \<open>What the reader gives back\<close>

definition delim :: "string \<Rightarrow> bool" where
  "delim r \<longleftrightarrow> r = [] \<or> hd r = CHR '','' \<or> hd r = CHR '']'' \<or> hd r = CHR ''}''"

fun wf_json :: "json \<Rightarrow> bool" where
  "wf_json (JFloat t) = False"
| "wf_json (JArr vs) = (\<forall>v\<in>set vs. wf_json v)"
| "wf_json (JObj kvs) = (distinct (map fst kvs) \<and> (\<forall>kv\<in>set kvs. wf_json (snd kv)))"
| "wf_json _ = True"

lemma hex_val_hex_digit [simp]: "hex_val (hex_digit n) = n mod 16"
proof -
  have "n mod 16 < 16" by simp
  then have "n mod 16 \<le> 15" by linarith
  then show ?thesis by (simp add: hex_val_def hex_digit_def is_digit_def)
qed

lemma is_hex_char_hex_digit [simp]: "is_hex_char (hex_digit n)"
  by (simp add: hex_digit_lower lower_hex_facts(1))

lemma esc_char_control:
  "code c < 32 \<Longrightarrow> hex_val (hex_digit (code c div 16)) * 16 + hex_val (hex_digit (code c)) = code c"
proof -
  assume "code c < 32"
  then have "code c div 16 mod 16 = code c div 16" by simp
  then show ?thesis by (simp only: hex_val_hex_digit) simp
qed

lemma scan_str_esc: "scan_str (esc_char c @ r) = rbind (scan_str r) (\<lambda>(s, r'). Inr (c # s, r'))"
proof (cases "code c < 32 \<and> c \<noteq> CHR 0x0A \<and> c \<noteq> CHR 0x0D \<and> c \<noteq> CHR 0x09 \<and> c \<noteq> CHR 0x0C \<and> c \<noteq> CHR 0x08")
  case True
  then have lt: "code c < 32" by (rule conjunct1)
  have "c \<noteq> CHR 0x22" "c \<noteq> CHR 0x5C"
    by (rule notI, use lt in simp)+
  with True have esc: "esc_char c =
      [CHR 0x5C, CHR ''u'', CHR ''0'', CHR ''0'', hex_digit (code c div 16), hex_digit (code c)]"
    by (simp add: esc_char_def)
  have zero: "is_hex_char (CHR ''0'')" "hex_val (CHR ''0'') = 0"
    by (simp_all add: is_hex_char_def is_digit_def hex_val_def)
  have "char_of (hex_val (hex_digit (code c div 16)) * 16 + hex_val (hex_digit (code c))) = c"
    using esc_char_control [of c] True by (simp only: char_of_char) 
  then show ?thesis by (simp add: esc zero del: hex_val_hex_digit)
next
  case False
  then show ?thesis by (auto simp: esc_char_def unescape_def)
qed

lemma scan_str_quote: "scan_str (concat (map esc_char s) @ CHR 0x22 # r) = Inr (s, r)"
  by (induction s) (simp_all add: scan_str_esc)

lemma delim_digit: "delim r \<Longrightarrow> takeWhile is_digit r = [] \<and> dropWhile is_digit r = r"
  by (cases r) (auto simp: delim_def is_digit_def)

lemma delim_scan: "delim r \<Longrightarrow> scan_frac r = ([], r) \<and> scan_exp r = ([], r)"
  by (cases r) (auto simp: delim_def scan_frac_def scan_exp_def)

lemma scan_digits_show: "delim r \<Longrightarrow> scan_digits (show_nat n @ r) = (show_nat n, r)"
proof -
  assume r: "delim r"
  obtain d ds where sn: "show_nat n = d # ds" by (cases "show_nat n") simp_all
  have dg: "list_all is_digit (show_nat n)" by (rule show_nat_digits)
  show ?thesis
  proof (cases "d = CHR ''0''")
    case True
    then have "n = 0" using show_nat_no_leading_zero [of n] sn by simp
    then show ?thesis by (simp add: show_nat_zero scan_digits_def)
  next
    case False
    have "takeWhile is_digit (show_nat n @ r) = show_nat n \<and> dropWhile is_digit (show_nat n @ r) = r"
      using dg delim_digit [OF r] by (simp add: list_all_iff takeWhile_append dropWhile_append)
    then show ?thesis using False by (simp add: scan_digits_def sn)
  qed
qed

lemma is_digit_not_minus: "is_digit c \<Longrightarrow> c \<noteq> CHR ''-''"
  by (auto simp: is_digit_def)

lemma scan_number_show: "delim r \<Longrightarrow> scan_number (show_int i @ r) = Inr (JInt i, r)"
proof -
  assume r: "delim r"
  obtain d ds where sn: "show_nat (nat \<bar>i\<bar>) = d # ds" by (cases "show_nat (nat \<bar>i\<bar>)") simp_all
  have d: "d \<noteq> CHR ''-''" using show_nat_digits [of "nat \<bar>i\<bar>"] sn is_digit_not_minus by simp
  show ?thesis
    using scan_digits_show [OF r, of "nat \<bar>i\<bar>"] delim_scan [OF r] d sn read_show_nat [of "nat \<bar>i\<bar>"]
    by (cases "i < 0") (simp_all add: show_int_def scan_number_def)
qed

text \<open>The first character of a value decides how it is read.\<close>

lemma show_int_head:
  obtains c cs where "show_int i = c # cs" "is_digit c \<or> (c = CHR ''-'' \<and> cs \<noteq> [] \<and> is_digit (hd cs))"
proof -
  have "list_all is_digit (show_nat (nat \<bar>i\<bar>))" "show_nat (nat \<bar>i\<bar>) \<noteq> []"
    by (simp_all add: show_nat_digits)
  then show ?thesis
    by (cases "show_nat (nat \<bar>i\<bar>)"; cases "i < 0") (auto simp: show_int_def intro: that)
qed

lemma is_digit_neq:
  assumes "is_digit c"
  shows "c \<noteq> CHR 0x22" "c \<noteq> CHR ''{''" "c \<noteq> CHR ''[''" "c \<noteq> CHR ''n''" "c \<noteq> CHR ''t''"
    "c \<noteq> CHR ''f''" "c \<noteq> CHR ''N''" "c \<noteq> CHR ''I''" "c \<noteq> CHR ''-''" "\<not> is_ws c"
  using assms by (auto simp: is_digit_def is_ws_def)

lemma parse_value_int: "delim r \<Longrightarrow> parse_value H (Suc n) (show_int i @ r) = Inr (JInt i, r)"
proof -
  assume r: "delim r"
  obtain c cs where h: "show_int i = c # cs"
    and d: "is_digit c \<or> (c = CHR ''-'' \<and> cs \<noteq> [] \<and> is_digit (hd cs))"
    by (rule show_int_head)
  have "parse_value H (Suc n) (show_int i @ r) = scan_number (show_int i @ r)"
    using d
  proof
    assume "is_digit c"
    then show ?thesis by (simp add: h is_digit_neq)
  next
    assume m: "c = CHR ''-'' \<and> cs \<noteq> [] \<and> is_digit (hd cs)"
    then obtain e es where "cs = e # es" "is_digit e" by (cases cs) auto
    then show ?thesis using m by (simp add: h is_digit_neq)
  qed
  with r show ?thesis by (simp add: scan_number_show)
qed

lemma json_text_head: "wf_json v \<Longrightarrow> \<exists>c cs. json_text v = c # cs \<and> \<not> is_ws c \<and> c \<noteq> CHR '']''"
proof (cases v)
  case (JInt i)
  obtain c cs where "show_int i = c # cs" "is_digit c \<or> c = CHR ''-''"
    by (metis show_int_head)
  then show ?thesis using JInt by (auto simp: is_digit_neq is_ws_def is_digit_def)
qed (auto simp: quote_def is_ws_def)

lemma skip_ws_json [simp]: "wf_json v \<Longrightarrow> skip_ws (json_text v @ r) = json_text v @ r"
  using json_text_head [of v] by auto


section \<open>Round trip\<close>

definition reads_back :: "json_hooks \<Rightarrow> json \<Rightarrow> bool" where
  "reads_back H v \<longleftrightarrow>
     (\<forall>n r. 2 * length (json_text v) + 1 \<le> n \<longrightarrow> delim r \<longrightarrow> parse_value H n (json_text v @ r) = Inr (v, r))"

lemma reads_backD:
  "reads_back H v \<Longrightarrow> 2 * length (json_text v) + 1 \<le> n \<Longrightarrow> delim r \<Longrightarrow>
     parse_value H n (json_text v @ r) = Inr (v, r)"
  by (simp add: reads_back_def)

lemma reads_backI:
  assumes "\<And>m r. 2 * length (json_text v) \<le> m \<Longrightarrow> delim r \<Longrightarrow>
     parse_value H (Suc m) (json_text v @ r) = Inr (v, r)"
  shows "reads_back H v"
  unfolding reads_back_def
proof (intro allI impI)
  fix n r assume "2 * length (json_text v) + 1 \<le> n" "delim r"
  then show "parse_value H n (json_text v @ r) = Inr (v, r)"
    using assms [of "n - 1" r] by simp
qed

lemma delim_simps [simp]: "delim []" "delim (CHR '','' # r)" "delim (CHR '']'' # r)" "delim (CHR ''}'' # r)"
  by (simp_all add: delim_def)

lemma not_is_ws [simp]:
  "\<not> is_ws (CHR '','')" "\<not> is_ws (CHR '']'')" "\<not> is_ws (CHR ''}'')" "\<not> is_ws (CHR '':'')"
  "\<not> is_ws (CHR 0x22)"
  by (simp_all add: is_ws_def)

lemma sep_by_Cons: "xs \<noteq> [] \<Longrightarrow> sep_by (x # xs) = x @ CHR '','' # sep_by xs"
  by (cases xs) simp_all

lemma parse_elems_text:
  assumes "\<And>v. v \<in> set vs \<Longrightarrow> reads_back H v \<and> wf_json v" and "vs \<noteq> []"
    and "2 * length (sep_by (map json_text vs)) + 2 \<le> n"
  shows "parse_elems H n (sep_by (map json_text vs) @ CHR '']'' # r) = Inr (vs, r)"
  using assms
proof (induction vs arbitrary: n)
  case (Cons v vs)
  obtain m where n: "n = Suc m" using Cons.prems(3) by (cases n) auto
  have v: "reads_back H v" "wf_json v" using Cons.prems(1) by auto
  show ?case
  proof (cases vs)
    case Nil
    have "parse_value H m (json_text v @ CHR '']'' # r) = Inr (v, CHR '']'' # r)"
      using v Cons.prems(3) n Nil by (intro reads_backD) auto
    then show ?thesis by (simp add: n Nil)
  next
    case (Cons w ws)
    define rest where "rest = sep_by (map json_text vs)"
    have sep: "sep_by (map json_text (v # vs)) = json_text v @ CHR '','' # rest"
      unfolding rest_def by (simp add: sep_by_Cons local.Cons)
    have len: "2 * length (json_text v) + 2 * length rest + 4 \<le> n"
      using Cons.prems(3) unfolding sep by simp
    obtain c cs where w: "json_text w = c # cs" "\<not> is_ws c"
      using json_text_head [of w] Cons.prems(1) local.Cons by auto
    have rest_head: "skip_ws (rest @ CHR '']'' # r) = rest @ CHR '']'' # r"
      using w by (cases ws) (simp_all add: rest_def local.Cons)
    have "parse_value H m (json_text v @ CHR '','' # rest @ CHR '']'' # r) =
        Inr (v, CHR '','' # rest @ CHR '']'' # r)"
      using v len n by (intro reads_backD) auto
    moreover have "parse_elems H m (rest @ CHR '']'' # r) = Inr (vs, r)"
      unfolding rest_def using Cons.prems len n local.Cons
      by (intro Cons.IH) (auto simp: rest_def)
    ultimately show ?thesis unfolding sep n by (simp add: rest_head)
  qed
qed simp

definition member_text :: "string \<times> json \<Rightarrow> string" where
  "member_text kv = quote (fst kv) @ CHR '':'' # json_text (snd kv)"

lemma json_text_obj: "json_text (JObj kvs) = CHR ''{'' # sep_by (map member_text kvs) @ ''}''"
proof -
  have "(\<lambda>(k, v). quote k @ CHR '':'' # json_text v) = member_text"
    by (auto simp: member_text_def)
  then show ?thesis by simp
qed

lemma parse_members_text:
  assumes "\<And>kv. kv \<in> set kvs \<Longrightarrow> reads_back H (snd kv) \<and> wf_json (snd kv)" and "kvs \<noteq> []"
    and "2 * length (sep_by (map member_text kvs)) + 2 \<le> n"
  shows "parse_members H n (sep_by (map member_text kvs) @ CHR ''}'' # r) = Inr (kvs, r)"
  using assms
proof (induction kvs arbitrary: n)
  case (Cons kv kvs)
  obtain m where n: "n = Suc m" using Cons.prems(3) by (cases n) auto
  obtain k v where kv: "kv = (k, v)" by (cases kv)
  have v: "reads_back H v" "wf_json v" using Cons.prems(1) [of kv] by (auto simp: kv)
  show ?case
  proof (cases kvs)
    case Nil
    have "parse_value H m (json_text v @ CHR ''}'' # r) = Inr (v, CHR ''}'' # r)"
      using v Cons.prems(3) n Nil by (intro reads_backD) (auto simp: member_text_def kv)
    then show ?thesis
      using v(2) by (simp add: n Nil kv member_text_def quote_def scan_str_quote)
  next
    case (Cons w ws)
    define rest where "rest = sep_by (map member_text kvs)"
    have sep: "sep_by (map member_text (kv # kvs)) = member_text kv @ CHR '','' # rest"
      unfolding rest_def by (simp add: sep_by_Cons local.Cons)
    have len: "2 * length (json_text v) + 2 * length rest + 4 \<le> n"
      using Cons.prems(3) unfolding sep by (simp add: member_text_def kv)
    have rest_head: "skip_ws (rest @ CHR ''}'' # r) = rest @ CHR ''}'' # r"
      by (cases ws) (simp_all add: rest_def local.Cons member_text_def quote_def)
    have "parse_value H m (json_text v @ CHR '','' # rest @ CHR ''}'' # r) =
        Inr (v, CHR '','' # rest @ CHR ''}'' # r)"
      using v len n by (intro reads_backD) auto
    moreover have "parse_members H m (rest @ CHR ''}'' # r) = Inr (kvs, r)"
      unfolding rest_def using Cons.prems len n local.Cons
      by (intro Cons.IH) (auto simp: rest_def)
    ultimately show ?thesis
      using v(2) unfolding sep n by (simp add: rest_head kv member_text_def quote_def scan_str_quote)
  qed
qed simp


lemma parse_value_arr:
  "\<not> is_ws c \<Longrightarrow> c \<noteq> CHR '']'' \<Longrightarrow> t = c # t' \<Longrightarrow>
     parse_value H (Suc m) (CHR ''['' # t) = rbind (parse_elems H m t) (\<lambda>(vs, r). Inr (JArr vs, r))"
  by simp

lemma parse_value_obj:
  "t = CHR 0x22 # t' \<Longrightarrow>
     parse_value H (Suc m) (CHR ''{'' # t) =
       rbind (parse_members H m t) (\<lambda>(kvs, r). rbind (object_pairs H kvs) (\<lambda>v. Inr (v, r)))"
  by simp

section \<open>The fuel is enough\<close>

lemma scan_str_shorter: "scan_str s = Inr (t, r) \<Longrightarrow> length r < length s"
proof (induction "length s" arbitrary: s t r rule: less_induct)
  case less
  show ?case
  proof (cases s)
    case (Cons c cs)
    have IH: "\<And>z t r. scan_str z = Inr (t, r) \<Longrightarrow> length z < Suc (length cs) \<Longrightarrow> length r < Suc (length cs)"
      using less(1) Cons by fastforce
    from less(2) show ?thesis unfolding Cons scan_str.simps(2) [of c cs]
      by (auto simp: result_simps simp del: scan_str.simps dest: IH
          split: if_splits list.splits option.splits)
  qed (use less(2) in simp)
qed

lemma takeWhile_dropWhile_length: "length (takeWhile P s) + length (dropWhile P s) = length s"
  by (metis length_append takeWhile_dropWhile_id)

lemma scan_digits_shorter: "scan_digits s = (ds, r) \<Longrightarrow> ds \<noteq> [] \<Longrightarrow> length r < length s"
  using takeWhile_dropWhile_length [of is_digit s]
  by (auto simp: scan_digits_def split: list.splits if_splits)

lemma scan_frac_le: "scan_frac s = (f, r) \<Longrightarrow> length r \<le> length s"
  by (auto simp: scan_frac_def split: list.splits if_splits intro: le_SucI length_dropWhile_le)

lemma scan_exp_le: "scan_exp s = (f, r) \<Longrightarrow> length r \<le> length s"
  by (auto simp: scan_exp_def Let_def split: list.splits if_splits prod.splits
      intro: le_SucI length_dropWhile_le)

lemma scan_number_shorter: "scan_number s = Inr (v, r) \<Longrightarrow> length r < length s"
proof -
  assume a: "scan_number s = Inr (v, r)"
  define t where "t = (case s of c # cs \<Rightarrow> if c = CHR ''-'' then cs else s | [] \<Rightarrow> s)"
  have t: "length t \<le> length s" by (simp add: t_def split: list.splits)
  obtain ds r1 where d: "scan_digits t = (ds, r1)" by (cases "scan_digits t")
  obtain fr r2 where f: "scan_frac r1 = (fr, r2)" by (cases "scan_frac r1")
  obtain ex r3 where e: "scan_exp r2 = (ex, r3)" by (cases "scan_exp r2")
  have "ds \<noteq> [] \<and> (r = r1 \<or> r = r3)"
    using a d f e by (cases s) (auto simp: scan_number_def t_def Let_def split: if_splits)
  then show ?thesis
    using scan_digits_shorter [OF d] scan_frac_le [OF f] scan_exp_le [OF e] t by auto
qed

lemma scan_str_fuel: "scan_str s \<noteq> Inl Out_of_fuel"
proof (induction "length s" arbitrary: s rule: less_induct)
  case less
  show ?case
  proof (cases s)
    case (Cons c cs)
    have IH: "\<And>z. length z < length s \<Longrightarrow> scan_str z \<noteq> Inl Out_of_fuel"
      using less by blast
    show ?thesis unfolding Cons scan_str.simps(2) [of c cs]
      by (simp add: rbind_Inl_iff Cons IH del: scan_str.simps split: list.split option.split)
  qed simp
qed

lemma scan_number_fuel: "scan_number s \<noteq> Inl Out_of_fuel"
  by (auto simp: scan_number_def Let_def split: prod.splits if_splits)

lemma skip_ws_Cons_shorter: "skip_ws r = c # cs \<Longrightarrow> length cs < length r"
  using length_dropWhile_le [of is_ws r] by simp

lemma tl_skip_shorter: "length (tl (skip_ws cs)) \<le> length cs"
  using length_dropWhile_le [of is_ws cs] by simp

lemma less_skip_ws: "n < length (skip_ws s) \<Longrightarrow> n < length s"
  by (meson length_dropWhile_le less_le_trans)

lemma parse_shorter:
  "parse_value H n s = Inr (v, r) \<Longrightarrow> length r < length s"
  "parse_elems H n s = Inr (vs, r) \<Longrightarrow> length r < length s"
  "parse_members H n s = Inr (kvs, r) \<Longrightarrow> length r < length s"
proof (induction n arbitrary: s v r vs kvs)
  case (Suc n)
  {
    case 1
    then show ?case
      using tl_skip_shorter [of "tl s"] length_dropWhile_le [of is_ws "tl s"]
      by (auto simp: result_simps Let_def split: list.splits if_splits
          dest!: Suc.IH(2) Suc.IH(3) scan_str_shorter scan_number_shorter)
  next
    case 2
    then obtain v0 r0 where v0: "parse_value H n s = Inr (v0, r0)"
      and rest: "(case skip_ws r0 of
          c # cs \<Rightarrow>
            if c = CHR '']'' then Inr ([v0], cs)
            else if c = CHR '',''
            then rbind (parse_elems H n (skip_ws cs)) (\<lambda>(vs, r'). Inr (v0 # vs, r'))
            else Inl JSONDecodeError
        | [] \<Rightarrow> Inl JSONDecodeError) = Inr (vs, r)"
      by (auto simp: result_simps)
    show ?case
      using rest Suc.IH(1) [OF v0] skip_ws_Cons_shorter [of r0]
      by (cases "skip_ws r0") (auto simp: result_simps split: if_splits
          dest!: Suc.IH(2) less_skip_ws)
  next
    case 3
    note pm = 3
    obtain q cs where s: "s = q # cs" using pm by (cases s) auto
    have q: "q = CHR 0x22" using pm s by (cases "q = CHR 0x22") simp_all
    obtain k r0 where k: "scan_str cs = Inr (k, r0)" using pm s q by (cases "scan_str cs") auto
    obtain c1 cs1 where c1: "skip_ws r0 = c1 # cs1" using pm s q k by (cases "skip_ws r0") auto
    have c: "c1 = CHR '':''" using pm s q k c1 by (cases "c1 = CHR '':''") simp_all
    obtain v1 r1 where v1: "parse_value H n (skip_ws cs1) = Inr (v1, r1)"
      using pm s q k c1 c by (cases "parse_value H n (skip_ws cs1)") auto
    have "length r1 < length s"
      using scan_str_shorter [OF k] skip_ws_Cons_shorter [OF c1] less_skip_ws [OF Suc.IH(1) [OF v1]] s
      by simp
    then show ?case
      using pm s q k c1 c v1 skip_ws_Cons_shorter [of r1]
      by (cases "skip_ws r1") (auto simp: result_simps split: if_splits
          dest!: Suc.IH(3) less_skip_ws)
  }
qed simp_all


lemma parse_fuel:
  assumes "\<And>kvs. object_pairs H kvs \<noteq> Inl Out_of_fuel" "\<And>t. parse_constant H t \<noteq> Inl Out_of_fuel"
  shows "2 * length s + 1 \<le> n \<Longrightarrow> parse_value H n s \<noteq> Inl Out_of_fuel"
    "2 * length s + 2 \<le> n \<Longrightarrow> parse_elems H n s \<noteq> Inl Out_of_fuel"
    "2 * length s + 2 \<le> n \<Longrightarrow> parse_members H n s \<noteq> Inl Out_of_fuel"
proof (induction n arbitrary: s)
  case (Suc n)
  {
    case 1
    show ?case
    proof (cases s)
      case (Cons c cs)
      have "length (skip_ws cs) \<le> length cs" by (rule length_dropWhile_le)
      then have "parse_elems H n (skip_ws cs) \<noteq> Inl Out_of_fuel" "parse_members H n (skip_ws cs) \<noteq> Inl Out_of_fuel"
        using 1 Cons by (auto intro!: Suc.IH)
      then show ?thesis
        by (simp add: Cons rbind_Inl_iff assms scan_str_fuel scan_number_fuel Let_def split: prod.splits)
    qed simp
  next
    case 2
    have v: "parse_value H n s \<noteq> Inl Out_of_fuel" using 2 by (intro Suc.IH) auto
    have "parse_elems H n (skip_ws cs) \<noteq> Inl Out_of_fuel"
      if "parse_value H n s = Inr (v, r)" "skip_ws r = c # cs" for v r c cs
    proof (intro Suc.IH)
      have "length (skip_ws cs) \<le> length cs" by (rule length_dropWhile_le)
      then show "2 * length (skip_ws cs) + 2 \<le> n"
        using parse_shorter(1) [OF that(1)] skip_ws_Cons_shorter [OF that(2)] 2 by linarith
    qed
    then show ?case
      using v by (auto simp: rbind_Inl_iff split: prod.splits list.split)
  next
    case 3
    have v: "parse_value H n (skip_ws cs1) \<noteq> Inl Out_of_fuel"
      if "s = q # cs" "scan_str cs = Inr (k, r0)" "skip_ws r0 = c1 # cs1" for q cs k r0 c1 cs1
    proof (intro Suc.IH)
      have "length (skip_ws cs1) \<le> length cs1" by (rule length_dropWhile_le)
      then show "2 * length (skip_ws cs1) + 1 \<le> n"
        using scan_str_shorter [OF that(2)] skip_ws_Cons_shorter [OF that(3)] that(1) 3 by simp
    qed
    have m: "parse_members H n (skip_ws ds) \<noteq> Inl Out_of_fuel"
      if "s = q # cs" "scan_str cs = Inr (k, r0)" "skip_ws r0 = c1 # cs1"
        "parse_value H n (skip_ws cs1) = Inr (v, r1)" "skip_ws r1 = d # ds" for q cs k r0 c1 cs1 v r1 d ds
    proof (intro Suc.IH)
      have "length (skip_ws ds) \<le> length ds" by (rule length_dropWhile_le)
      moreover have "length (skip_ws cs1) \<le> length cs1" by (rule length_dropWhile_le)
      ultimately show "2 * length (skip_ws ds) + 2 \<le> n"
        using scan_str_shorter [OF that(2)] skip_ws_Cons_shorter [OF that(3)] that(1)
          parse_shorter(1) [OF that(4)] skip_ws_Cons_shorter [OF that(5)] 3 by simp
    qed
    show ?case
    proof (cases s)
      case (Cons q cs)
      show ?thesis
        using v [OF Cons] m [OF Cons]
        by (auto simp: Cons rbind_Inl_iff scan_str_fuel split: prod.splits list.split)
    qed simp
  }
qed simp_all

section \<open>The contract of the hooks\<close>

text \<open>
  What the readers of the program promise of their hooks: an object whose keys are
  distinct is built as it stands, and no hook runs out of fuel.
\<close>

locale json_reader =
  fixes H :: json_hooks
  assumes hook_distinct: "distinct (map fst kvs) \<Longrightarrow> object_pairs H kvs = Inr (JObj kvs)"
    and hook_object_fuel: "object_pairs H kvs \<noteq> Inl Out_of_fuel"
    and hook_constant_fuel: "parse_constant H t \<noteq> Inl Out_of_fuel"
begin

lemma reads_back_wf: "wf_json v \<Longrightarrow> reads_back H v"
proof (induction v)
  case (JArr vs)
  then have vs: "\<And>v. v \<in> set vs \<Longrightarrow> reads_back H v \<and> wf_json v" by simp
  show ?case
  proof (rule reads_backI)
    fix m r assume n: "2 * length (json_text (JArr vs)) \<le> m"
    show "parse_value H (Suc m) (json_text (JArr vs) @ r) = Inr (JArr vs, r)"
    proof (cases vs)
      case Nil
      then show ?thesis by simp
    next
      case (Cons w ws)
      obtain c cs where w: "json_text w = c # cs" "\<not> is_ws c" "c \<noteq> CHR '']''"
        using json_text_head [of w] vs Cons by auto
      define t where "t = sep_by (map json_text vs) @ CHR '']'' # r"
      have "parse_elems H m t = Inr (vs, r)"
        unfolding t_def using vs n Cons by (intro parse_elems_text) auto
      moreover have "t = c # tl t"
        unfolding t_def using w by (cases ws) (simp_all add: Cons)
      then have "parse_value H (Suc m) (CHR ''['' # t) =
          rbind (parse_elems H m t) (\<lambda>(vs, r). Inr (JArr vs, r))"
        by (rule parse_value_arr [OF w(2,3)])
      moreover have "json_text (JArr vs) @ r = CHR ''['' # t" by (simp add: t_def)
      ultimately show ?thesis by (simp only: rbind.simps prod.case)
    qed
  qed
next
  case (JObj kvs)
  then have kvs: "\<And>kv. kv \<in> set kvs \<Longrightarrow> reads_back H (snd kv) \<and> wf_json (snd kv)"
    by (metis snds.intros wf_json.simps(3))
  show ?case
  proof (rule reads_backI)
    fix m r assume n: "2 * length (json_text (JObj kvs)) \<le> m"
    show "parse_value H (Suc m) (json_text (JObj kvs) @ r) = Inr (JObj kvs, r)"
    proof (cases kvs)
      case Nil
      then show ?thesis using hook_distinct [of "[]"] by simp
    next
      case (Cons w ws)
      define t where "t = sep_by (map member_text kvs) @ CHR ''}'' # r"
      have len: "2 * length (sep_by (map member_text kvs)) + 2 \<le> m"
        using n unfolding json_text_obj by simp
      have "parse_members H m t = Inr (kvs, r)"
        unfolding t_def using kvs Cons len by (intro parse_members_text) auto
      moreover have "t = CHR 0x22 # tl t"
        unfolding t_def by (cases ws) (simp_all add: Cons member_text_def quote_def)
      then have "parse_value H (Suc m) (CHR ''{'' # t) =
          rbind (parse_members H m t) (\<lambda>(kvs, r). rbind (object_pairs H kvs) (\<lambda>v. Inr (v, r)))"
        by (rule parse_value_obj)
      moreover have "object_pairs H kvs = Inr (JObj kvs)"
        using JObj.prems by (simp add: hook_distinct)
      moreover have "json_text (JObj kvs) @ r = CHR ''{'' # t"
        unfolding json_text_obj t_def by simp
      ultimately show ?thesis by (simp only: rbind.simps prod.case)
    qed
  qed
next
  case (JInt i)
  show ?case by (rule reads_backI) (simp add: parse_value_int del: parse_value.simps)
qed (auto intro!: reads_backI simp: quote_def scan_str_quote)

lemma loads_text: "wf_json v \<Longrightarrow> loads H (json_text v) = Inr v"
  using reads_backD [OF reads_back_wf, of v "2 * length (json_text v) + 1" "[]"] skip_ws_json [of v "[]"]
  by (simp add: loads_def)

lemma loads_fuel: "loads H s \<noteq> Inl Out_of_fuel"
proof -
  have "parse_value H (2 * length s + 1) (skip_ws s) \<noteq> Inl Out_of_fuel"
    using length_dropWhile_le [of is_ws s]
    by (intro parse_fuel hook_object_fuel hook_constant_fuel) simp
  then show ?thesis by (auto simp: loads_def rbind_Inl_iff split: if_splits)
qed

end

lemma dict_set_fresh: "k \<notin> fst ` set d \<Longrightarrow> dict_set d k v = d @ [(k, v)]"
  by (induction d) auto

lemma dict_of_distinct_acc:
  "distinct (map fst (d @ kvs)) \<Longrightarrow> foldl (\<lambda>d (k, v). dict_set d k v) d kvs = d @ kvs"
proof (induction kvs arbitrary: d)
  case (Cons kv kvs)
  obtain k v where kv: "kv = (k, v)" by (cases kv)
  have "k \<notin> fst ` set d" using Cons.prems by (auto simp: kv)
  then show ?case using Cons.prems Cons.IH [of "d @ [kv]"] by (simp add: kv dict_set_fresh)
qed simp

lemma dict_of_distinct: "distinct (map fst kvs) \<Longrightarrow> dict_of kvs = kvs"
  using dict_of_distinct_acc [of "[]" kvs] by (simp add: dict_of_def)

lemma unique_pairs_distinct:
  "distinct (map fst (seen @ kvs)) \<Longrightarrow> unique_pairs seen kvs = Inr (seen @ kvs)"
proof (induction kvs arbitrary: seen)
  case (Cons kv kvs)
  obtain k v where kv: "kv = (k, v)" by (cases kv)
  have "k \<notin> fst ` set seen" using Cons.prems by (auto simp: kv)
  then show ?case using Cons.prems Cons.IH [of "seen @ [kv]"] by (simp add: kv)
qed simp

lemma unique_pairs_fuel: "unique_pairs seen kvs \<noteq> Inl Out_of_fuel"
  by (induction seen kvs rule: unique_pairs.induct) auto

lemma unique_pairs_result: "unique_pairs seen kvs = Inr d \<Longrightarrow> d = seen @ kvs"
  by (induction seen kvs rule: unique_pairs.induct) (auto split: if_splits)

interpretation plain_reader: json_reader plain_hooks
  by unfold_locales (simp_all add: plain_hooks_def dict_of_distinct)

interpretation strict_reader: json_reader strict_hooks
  using unique_pairs_distinct [of "[]"] unique_pairs_fuel
  by unfold_locales (auto simp: strict_hooks_def rbind_Inl_iff)

lemmas loads_text_plain [simp] = plain_reader.loads_text
  and loads_text_strict [simp] = strict_reader.loads_text

text \<open>Distinct values have distinct texts.\<close>

lemma json_text_inj: "wf_json v \<Longrightarrow> wf_json w \<Longrightarrow> json_text v = json_text w \<longleftrightarrow> v = w"
  by (metis strict_reader.loads_text sum.inject(2))

end
