(* ===== verification/Canonical.thy ===== *)
theory Canonical
  imports Json "HOL-Library.Char_ord" "HOL-Library.List_Lexorder"
begin

text \<open>
  The two canonical JSON encodings the ledgers hash:
  \<^verbatim>\<open>portfolio_runtime.lantern.canonical\<close> (normalised values with keys in
  UTF-16 order) and \<^verbatim>\<open>r8a0.canonical\<close> (sorted keys). What they take from
  \<^verbatim>\<open>datetime\<close> and from float printing is the parameter \<open>py_env\<close>:
  \<open>fromisoformat\<close> gives the instant a timestamp text denotes, already in UTC,
  \<open>float_repr\<close> the text \<^verbatim>\<open>repr\<close> gives a finite float,
  \<open>float_trunc\<close> the integer \<^verbatim>\<open>int\<close> makes of it and \<open>float_equal\<close>
  whether it equals a number. The theory shows that a
  canonical text reads back as the value it was made from, that equal texts come from
  equal values, and that re-encoding is a fixed point.
\<close>

record utc_time =
  t_year :: nat
  t_month :: nat
  t_day :: nat
  t_hour :: nat
  t_minute :: nat
  t_second :: nat
  t_micro :: nat

datatype iso_parse = Iso_invalid | Iso_naive | Iso_overflow | Iso_utc utc_time

record py_env =
  fromisoformat :: "string \<Rightarrow> iso_parse"
  float_repr :: "string \<Rightarrow> string option"
  float_trunc :: "string \<Rightarrow> int option"
  float_equal :: "string \<Rightarrow> json \<Rightarrow> bool"

datatype canon_error =
    Surrogate_code_point
  | Invalid_timestamp
  | Naive_timestamp
  | Timestamp_overflow
  | Bad_path
  | Absolute_path
  | Path_traversal
  | Path_not_normalized
  | Integer_range
  | Float_excluded
  | Duplicate_key_after_validation string
  | Float_not_finite

definition MAX_SAFE_INTEGER :: int where
  "MAX_SAFE_INTEGER = 2 ^ 53 - 1"

definition validate_string :: "string \<Rightarrow> (canon_error, string) result" where
  "validate_string s =
     rbind (ensure (\<not> (\<exists>c\<in>set s. 0xD800 \<le> code c \<and> code c \<le> 0xDFFF)) Surrogate_code_point)
       (\<lambda>_. Inr s)"

section \<open>Timestamps and paths\<close>

definition pad :: "nat \<Rightarrow> nat \<Rightarrow> string" where
  "pad w n = replicate (w - length (show_nat n)) CHR ''0'' @ show_nat n"

text \<open>\<^verbatim>\<open>isoformat\<close> of an instant in UTC, up to its offset.\<close>

definition iso_body :: "utc_time \<Rightarrow> string" where
  "iso_body t =
     pad 4 (t_year t) @ ''-'' @ pad 2 (t_month t) @ ''-'' @ pad 2 (t_day t) @ ''T'' @
     pad 2 (t_hour t) @ '':'' @ pad 2 (t_minute t) @ '':'' @ pad 2 (t_second t) @
     (if t_micro t \<noteq> 0 then ''.'' @ pad 6 (t_micro t) else [])"

definition normalize_timestamp :: "py_env \<Rightarrow> string \<Rightarrow> (canon_error, string) result" where
  "normalize_timestamp E value =
     (let text = py_strip value;
          text = (if ends_with text ''Z'' then butlast text @ ''+00:00'' else text)
      in (case fromisoformat E text of
            Iso_invalid \<Rightarrow> Inl Invalid_timestamp
          | Iso_naive \<Rightarrow> Inl Naive_timestamp
          | Iso_overflow \<Rightarrow> Inl Timestamp_overflow
          | Iso_utc t \<Rightarrow> Inr (iso_body t @ ''Z'')))"

definition path_parts :: "string \<Rightarrow> string list" where
  "path_parts s = filter (\<lambda>p. p \<noteq> [] \<and> p \<noteq> ''.'') (split_all CHR ''/'' s)"

fun join_slash :: "string list \<Rightarrow> string" where
  "join_slash [] = []"
| "join_slash [p] = p"
| "join_slash (p # q # ps) = p @ CHR ''/'' # join_slash (q # ps)"

definition normalize_relative_posix_path :: "string \<Rightarrow> (canon_error, string) result" where
  "normalize_relative_posix_path value0 =
     rbind (validate_string value0) (\<lambda>value.
     rbind (ensure (value \<noteq> [] \<and> CHR 0x5C \<notin> set value) Bad_path) (\<lambda>_.
     rbind (ensure (\<not> starts_with value ''/'') Absolute_path) (\<lambda>_.
       let parts = path_parts value
       in rbind (ensure (parts \<noteq> [] \<and> ''..'' \<notin> set parts) Path_traversal) (\<lambda>_.
          rbind (ensure (join_slash parts = value) Path_not_normalized) (\<lambda>_. Inr (join_slash parts))))))"

section \<open>Normal values\<close>

definition utf16_sort_key :: "string \<Rightarrow> string" where
  "utf16_sort_key s = concat (map (\<lambda>c. [CHR 0x00, c]) s)"

definition path_hint :: "string option \<Rightarrow> bool" where
  "path_hint h = (case h of None \<Rightarrow> False | Some k \<Rightarrow> k = ''path'' \<or> ends_with k ''_path'')"

definition time_hint :: "string option \<Rightarrow> bool" where
  "time_hint h = (case h of None \<Rightarrow> False | Some k \<Rightarrow> ends_with k ''_at'')"

fun normalize_value :: "py_env \<Rightarrow> string option \<Rightarrow> json \<Rightarrow> (canon_error, json) result"
and normalize_list :: "py_env \<Rightarrow> json list \<Rightarrow> (canon_error, json list) result"
and normalize_items ::
  "py_env \<Rightarrow> (string \<times> json) list \<Rightarrow> (string \<times> json) list \<Rightarrow> (canon_error, (string \<times> json) list) result"
where
  "normalize_value E h JNull = Inr JNull"
| "normalize_value E h (JBool b) = Inr (JBool b)"
| "normalize_value E h (JInt i) =
     rbind (ensure (\<bar>i\<bar> \<le> MAX_SAFE_INTEGER) Integer_range) (\<lambda>_. Inr (JInt i))"
| "normalize_value E h (JFloat t) = Inl Float_excluded"
| "normalize_value E h (JStr s) =
     rbind (validate_string s) (\<lambda>checked.
       if path_hint h then rbind (normalize_relative_posix_path checked) (\<lambda>p. Inr (JStr p))
       else if time_hint h then rbind (normalize_timestamp E checked) (\<lambda>t. Inr (JStr t))
       else Inr (JStr checked))"
| "normalize_value E h (JArr vs) = rbind (normalize_list E vs) (\<lambda>ws. Inr (JArr ws))"
| "normalize_value E h (JObj kvs) =
     rbind (normalize_items E [] kvs) (\<lambda>d. Inr (JObj (sort_key (\<lambda>kv. utf16_sort_key (fst kv)) d)))"
| "normalize_list E [] = Inr []"
| "normalize_list E (v # vs) =
     rbind (normalize_value E None v) (\<lambda>w. rbind (normalize_list E vs) (\<lambda>ws. Inr (w # ws)))"
| "normalize_items E seen [] = Inr seen"
| "normalize_items E seen ((k0, v) # kvs) =
     rbind (validate_string k0) (\<lambda>k.
     rbind (ensure (k \<notin> fst ` set seen) (Duplicate_key_after_validation k)) (\<lambda>_.
     rbind (normalize_value E (Some k) v) (\<lambda>w. normalize_items E (seen @ [(k, w)]) kvs)))"

definition canonical_json :: "py_env \<Rightarrow> json \<Rightarrow> (canon_error, string) result" where
  "canonical_json E v = rbind (normalize_value E None v) (\<lambda>w. Inr (json_text w))"

definition canonical_json_bytes :: "py_env \<Rightarrow> json \<Rightarrow> (canon_error, string) result" where
  "canonical_json_bytes E v = rbind (canonical_json E v) (\<lambda>t. Inr (utf8 t))"

text \<open>\<^verbatim>\<open>sha256_hex\<close> of a \<^verbatim>\<open>str\<close>: the digest of its UTF-8 bytes.\<close>

definition sha256_hex :: "string \<Rightarrow> string" where
  "sha256_hex s = sha256_hexdigest (utf8 s)"

definition canonical_digest :: "py_env \<Rightarrow> json \<Rightarrow> (canon_error, string) result" where
  "canonical_digest E v = rbind (canonical_json_bytes E v) (\<lambda>b. Inr (sha256_hexdigest b))"

definition strict_json_loads :: "string \<Rightarrow> (json_error, json) result" where
  "strict_json_loads s = loads strict_hooks s"

section \<open>The encoding of the recovery slice\<close>

fun r8_prepare :: "py_env \<Rightarrow> json \<Rightarrow> (canon_error, json) result" where
  "r8_prepare E (JFloat t) =
     (case float_repr E t of None \<Rightarrow> Inl Float_not_finite | Some r \<Rightarrow> Inr (JFloat r))"
| "r8_prepare E (JArr vs) = rbind (rmap_list (r8_prepare E) vs) (\<lambda>ws. Inr (JArr ws))"
| "r8_prepare E (JObj kvs) =
     rbind (rmap_list (\<lambda>kv. rbind (r8_prepare E (snd kv)) (\<lambda>w. Inr (fst kv, w))) (sort_key fst kvs))
       (\<lambda>d. Inr (JObj d))"
| "r8_prepare E v = Inr v"

definition canonical_dumps :: "py_env \<Rightarrow> json \<Rightarrow> (canon_error, string) result" where
  "canonical_dumps E v = rbind (r8_prepare E v) (\<lambda>w. Inr (json_text w))"

definition canonical_sha256 :: "py_env \<Rightarrow> json \<Rightarrow> (canon_error, string) result" where
  "canonical_sha256 E v = rbind (canonical_dumps E v) (\<lambda>t. Inr (sha256_hexdigest (utf8 t)))"

definition strict_loads :: "string \<Rightarrow> (json_error, json) result" where
  "strict_loads s = loads strict_hooks s"

section \<open>Facts about normal values\<close>

lemma validate_string_ok [simp]: "validate_string s = Inr s"
proof -
  have "\<not> 0xD800 \<le> code c" for c
    using nat_of_char_less_256 [of c] by linarith
  then show ?thesis by (simp add: validate_string_def)
qed

abbreviation key_order :: "string \<times> json \<Rightarrow> string" where
  "key_order \<equiv> \<lambda>kv. utf16_sort_key (fst kv)"

definition norm_item :: "py_env \<Rightarrow> string \<times> json \<Rightarrow> string \<times> json \<Rightarrow> bool" where
  "norm_item E kv kw \<longleftrightarrow>
     fst kw = fst kv \<and> normalize_value E (Some (fst kv)) (snd kv) = Inr (snd kw)"

lemma normalize_list_Inr:
  "normalize_list E vs = Inr ws \<longleftrightarrow> list_all2 (\<lambda>v w. normalize_value E None v = Inr w) vs ws"
  by (induction vs arbitrary: ws) (auto simp: result_simps list_all2_Cons1)

lemma normalize_items_Inr:
  "normalize_items E seen kvs = Inr d \<longleftrightarrow>
     (\<exists>ws. d = seen @ ws \<and> list_all2 (norm_item E) kvs ws \<and> distinct (map fst kvs)
        \<and> fst ` set seen \<inter> fst ` set kvs = {})"
proof (induction kvs arbitrary: seen)
  case (Cons kv kvs)
  obtain k v where kv: "kv = (k, v)" by (cases kv)
  show ?case
  proof
    assume "normalize_items E seen (kv # kvs) = Inr d"
    then obtain w where w: "k \<notin> fst ` set seen" "normalize_value E (Some k) v = Inr w"
      "normalize_items E (seen @ [(k, w)]) kvs = Inr d"
      by (auto simp: kv result_simps)
    then show "\<exists>ws. d = seen @ ws \<and> list_all2 (norm_item E) (kv # kvs) ws \<and> distinct (map fst (kv # kvs))
        \<and> fst ` set seen \<inter> fst ` set (kv # kvs) = {}"
      unfolding Cons.IH by (auto simp: kv norm_item_def list_all2_Cons1)
  next
    assume "\<exists>ws. d = seen @ ws \<and> list_all2 (norm_item E) (kv # kvs) ws \<and> distinct (map fst (kv # kvs))
        \<and> fst ` set seen \<inter> fst ` set (kv # kvs) = {}"
    then obtain w ws where "d = seen @ (k, w) # ws" "normalize_value E (Some k) v = Inr w"
      "list_all2 (norm_item E) kvs ws" "distinct (map fst (kv # kvs))"
      "fst ` set seen \<inter> fst ` set (kv # kvs) = {}"
      by (auto simp: kv norm_item_def list_all2_Cons1)
    then have "normalize_items E (seen @ [(k, w)]) kvs = Inr d" "k \<notin> fst ` set seen"
      unfolding Cons.IH by (auto simp: kv)
    then show "normalize_items E seen (kv # kvs) = Inr d"
      using \<open>normalize_value E (Some k) v = Inr w\<close> by (simp add: kv)
  qed
qed auto

lemma norm_item_keys: "list_all2 (norm_item E) kvs ws \<Longrightarrow> map fst ws = map fst kvs"
  by (induction kvs ws rule: list_all2_induct) (auto simp: norm_item_def)

lemma normalize_obj_Inr:
  "normalize_value E h (JObj kvs) = Inr w \<longleftrightarrow>
     (\<exists>ws. w = JObj (sort_key key_order ws) \<and> list_all2 (norm_item E) kvs ws \<and> distinct (map fst kvs))"
  by (auto simp: result_simps normalize_items_Inr)

lemma distinct_sort_key: "distinct (map fst (sort_key f ws)) \<longleftrightarrow> distinct (map fst ws)"
  by (metis distinct_map distinct_sort set_sort)

lemma list_all2_same_mem: "list_all2 P xs ys \<Longrightarrow> y \<in> set ys \<Longrightarrow> \<exists>x\<in>set xs. P x y"
  by (induction xs ys rule: list_all2_induct) auto

lemma normalize_wf: "normalize_value E h v = Inr w \<Longrightarrow> wf_json w"
proof (induction v arbitrary: h w)
  case (JArr vs)
  then obtain ws where w: "w = JArr ws" "list_all2 (\<lambda>v w. normalize_value E None v = Inr w) vs ws"
    by (auto simp: result_simps normalize_list_Inr)
  have "wf_json x" if "x \<in> set ws" for x
    using list_all2_same_mem [OF w(2) that] JArr.IH by blast
  then show ?case by (simp add: w(1))
next
  case (JObj kvs)
  from JObj.prems obtain ws where w: "w = JObj (sort_key key_order ws)"
    "list_all2 (norm_item E) kvs ws" "distinct (map fst kvs)"
    unfolding normalize_obj_Inr by blast
  have "wf_json (snd kw)" if "kw \<in> set ws" for kw
    using list_all2_same_mem [OF w(2) that] JObj.IH by (auto simp: norm_item_def)
  then show ?case using w norm_item_keys [OF w(2)] by (auto simp: distinct_sort_key)
qed (auto simp: result_simps split: if_splits)

text \<open>
  What the encoding relies on of \<^verbatim>\<open>datetime\<close>: the ISO text of an instant it has
  parsed denotes that instant again.
\<close>

definition iso_stable :: "py_env \<Rightarrow> bool" where
  "iso_stable E \<longleftrightarrow>
     (\<forall>s t. fromisoformat E s = Iso_utc t \<longrightarrow> fromisoformat E (iso_body t @ ''+00:00'') = Iso_utc t)"

lemma show_nat_not_space: "c \<in> set (show_nat n) \<Longrightarrow> \<not> is_py_space c"
  using show_nat_digits [of n] by (auto simp: list_all_iff is_digit_def is_py_space_def is_c_space_def)

lemma pad_head: "\<exists>c cs. pad w n = c # cs \<and> \<not> is_py_space c"
proof (cases "w - length (show_nat n)")
  case 0
  then show ?thesis
    using show_nat_not_space [of _ n] by (cases "show_nat n") (auto simp: pad_def)
qed (simp add: pad_def is_py_space_def is_c_space_def)

lemma strip_iso: "py_strip (iso_body t @ ''Z'') = iso_body t @ ''Z''"
proof -
  obtain c cs where c: "pad 4 (t_year t) = c # cs" "\<not> is_py_space c"
    using pad_head by blast
  then have "dropWhile is_py_space (iso_body t @ ''Z'') = iso_body t @ ''Z''"
    by (simp add: iso_body_def)
  then show ?thesis by (simp add: py_strip_def is_py_space_def is_c_space_def)
qed

lemma normalize_timestamp_idem:
  assumes "iso_stable E" and "normalize_timestamp E s = Inr r"
  shows "normalize_timestamp E r = Inr r"
proof -
  obtain u t where u: "fromisoformat E u = Iso_utc t" and r: "r = iso_body t @ ''Z''"
    using assms(2) by (auto simp: normalize_timestamp_def Let_def split: iso_parse.splits if_splits)
  have "ends_with (iso_body t @ ''Z'') ''Z''" by (simp add: ends_with_def)
  moreover have "fromisoformat E (iso_body t @ ''+00:00'') = Iso_utc t"
    using assms(1) u by (simp add: iso_stable_def)
  ultimately show ?thesis
    by (simp add: normalize_timestamp_def r strip_iso butlast_append)
qed

lemma normalize_path_idem:
  assumes "normalize_relative_posix_path s = Inr r"
  shows "normalize_relative_posix_path r = Inr r"
proof -
  have "r = s" using assms by (auto simp: normalize_relative_posix_path_def Let_def result_simps)
  then show ?thesis using assms by simp
qed

lemma normalize_idem:
  assumes "iso_stable E"
  shows "normalize_value E h v = Inr w \<Longrightarrow> normalize_value E h w = Inr w"
proof (induction v arbitrary: h w)
  case (JStr s)
  then show ?case
    using normalize_timestamp_idem [OF assms] normalize_path_idem
    by (auto simp: result_simps split: if_splits)
next
  case (JArr vs)
  then obtain ws where w: "w = JArr ws" "list_all2 (\<lambda>v w. normalize_value E None v = Inr w) vs ws"
    by (auto simp: result_simps normalize_list_Inr)
  have "normalize_value E None x = Inr x" if "x \<in> set ws" for x
    using list_all2_same_mem [OF w(2) that] JArr.IH by blast
  then show ?case using w by (simp add: normalize_list_Inr list_all2_same result_simps)
next
  case (JObj kvs)
  from JObj.prems obtain ws where w: "w = JObj (sort_key key_order ws)"
    "list_all2 (norm_item E) kvs ws" "distinct (map fst kvs)"
    unfolding normalize_obj_Inr by blast
  have "norm_item E kw kw" if "kw \<in> set ws" for kw
    using list_all2_same_mem [OF w(2) that] JObj.IH by (auto simp: norm_item_def)
  then have "list_all2 (norm_item E) (sort_key key_order ws) (sort_key key_order ws)"
    by (simp add: list_all2_same)
  then show ?case
    unfolding w(1) normalize_obj_Inr using w(3) norm_item_keys [OF w(2)]
    by (intro exI [of _ "sort_key key_order ws"]) (simp add: distinct_sort_key sort_key_id_if_sorted)
qed (auto simp: result_simps)

section \<open>Payloads without hinted keys\<close>

text \<open>
  The records, receipts and events the ledgers build themselves have no path or timestamp
  keys; on these the encoding is the value with its keys sorted, and nothing depends on
  \<open>py_env\<close>.
\<close>

fun plain_json :: "json \<Rightarrow> bool" where
  "plain_json (JFloat t) = False"
| "plain_json (JInt i) = (\<bar>i\<bar> \<le> MAX_SAFE_INTEGER)"
| "plain_json (JArr vs) = (\<forall>v\<in>set vs. plain_json v)"
| "plain_json (JObj kvs) =
     (distinct (map fst kvs) \<and>
      (\<forall>kv\<in>set kvs. \<not> path_hint (Some (fst kv)) \<and> \<not> time_hint (Some (fst kv)) \<and> plain_json (snd kv)))"
| "plain_json _ = True"

fun sorted_keys :: "json \<Rightarrow> json" where
  "sorted_keys (JArr vs) = JArr (map sorted_keys vs)"
| "sorted_keys (JObj kvs) = JObj (sort_key key_order (map (\<lambda>kv. (fst kv, sorted_keys (snd kv))) kvs))"
| "sorted_keys v = v"

lemma normalize_plain:
  "plain_json v \<Longrightarrow> \<not> path_hint h \<Longrightarrow> \<not> time_hint h \<Longrightarrow> normalize_value E h v = Inr (sorted_keys v)"
proof (induction v arbitrary: h)
  case (JArr vs)
  have "list_all2 (\<lambda>v w. normalize_value E None v = Inr w) vs (map sorted_keys vs)"
    using JArr by (auto simp: list_all2_map2 list_all2_same path_hint_def time_hint_def)
  then show ?case by (simp add: result_simps normalize_list_Inr)
next
  case (JObj kvs)
  have "list_all2 (norm_item E) kvs (map (\<lambda>kv. (fst kv, sorted_keys (snd kv))) kvs)"
    unfolding list_all2_map2 list_all2_same
  proof
    fix kv assume kv: "kv \<in> set kvs"
    then have "normalize_value E (Some (fst kv)) (snd kv) = Inr (sorted_keys (snd kv))"
      using JObj by (metis plain_json.simps(4) snds.intros)
    then show "norm_item E kv (fst kv, sorted_keys (snd kv))" by (simp add: norm_item_def)
  qed
  then show ?case using JObj.prems(1) unfolding normalize_obj_Inr by auto
qed auto

lemma canonical_json_plain: "plain_json v \<Longrightarrow> canonical_json E v = Inr (json_text (sorted_keys v))"
  by (simp add: canonical_json_def normalize_plain path_hint_def time_hint_def)

lemma canonical_digest_plain:
  "plain_json v \<Longrightarrow> canonical_digest E v = Inr (sha256_hex (json_text (sorted_keys v)))"
  by (simp add: canonical_digest_def canonical_json_bytes_def canonical_json_plain sha256_hex_def)

lemma sorted_keys_wf: "wf_json v \<Longrightarrow> wf_json (sorted_keys v)"
proof (induction v)
  case (JObj kvs)
  have "map fst (map (\<lambda>kv. (fst kv, sorted_keys (snd kv))) kvs) = map fst kvs" by simp
  then show ?case using JObj by (auto simp: distinct_sort_key simp del: map_map)
qed auto

lemma sorted_keys_plain: "plain_json v \<Longrightarrow> plain_json (sorted_keys v)"
proof (induction v)
  case (JObj kvs)
  have "map fst (map (\<lambda>kv. (fst kv, sorted_keys (snd kv))) kvs) = map fst kvs" by simp
  then show ?case using JObj
    by (auto simp: distinct_sort_key simp del: map_map)
qed auto

lemma sorted_keys_idem: "sorted_keys (sorted_keys v) = sorted_keys v"
proof (induction v)
  case (JObj kvs)
  define ws where "ws = map (\<lambda>kv. (fst kv, sorted_keys (snd kv))) kvs"
  have fix_ws: "map (\<lambda>kv. (fst kv, sorted_keys (snd kv))) (sort_key key_order ws) = sort_key key_order ws"
  proof (rule map_idI)
    fix kw assume "kw \<in> set (sort_key key_order ws)"
    then obtain kv where "kv \<in> set kvs" "kw = (fst kv, sorted_keys (snd kv))" by (auto simp: ws_def)
    then show "(fst kw, sorted_keys (snd kw)) = kw" using JObj by (metis fst_conv snd_conv snds.intros)
  qed
  show ?case unfolding sorted_keys.simps ws_def [symmetric] fix_ws
    by (simp add: sort_key_id_if_sorted)
qed auto

text \<open>Fields of an object, as \<^verbatim>\<open>payload[key]\<close> and \<^verbatim>\<open>payload.get(key)\<close> see them.\<close>

fun jget :: "string \<Rightarrow> json \<Rightarrow> json option" where
  "jget k (JObj kvs) = map_of kvs k"
| "jget k _ = None"

lemma map_of_sort_key: "distinct (map fst kvs) \<Longrightarrow> map_of (sort_key f kvs) k = map_of kvs k"
  using map_of_inject_set [of "sort_key f kvs" kvs] by (simp add: distinct_sort_key)

lemma jget_sorted_keys:
  "distinct (map fst kvs) \<Longrightarrow> jget k (sorted_keys (JObj kvs)) = map_option sorted_keys (map_of kvs k)"
  by (simp add: map_of_sort_key comp_def) (induction kvs; auto)

section \<open>The two encodings agree on such payloads\<close>

lemma utf16_sort_key_le: "utf16_sort_key a \<le> utf16_sort_key b \<longleftrightarrow> a \<le> b"
proof (induction a arbitrary: b)
  case Nil
  then show ?case by (simp add: utf16_sort_key_def)
next
  case (Cons x xs)
  then show ?case by (cases b) (auto simp: utf16_sort_key_def)
qed

lemma sort_key_cong_order: "(\<And>x y. f x \<le> f y \<longleftrightarrow> g x \<le> g y) \<Longrightarrow> sort_key f xs = sort_key g xs"
proof -
  assume fg: "\<And>x y. f x \<le> f y \<longleftrightarrow> g x \<le> g y"
  have "insort_key f x ys = insort_key g x ys" for x ys
    by (induction ys) (simp_all add: fg)
  then show ?thesis by (induction xs) simp_all
qed

lemma sort_key_order_fst: "sort_key key_order kvs = sort_key fst kvs"
  by (rule sort_key_cong_order) (rule utf16_sort_key_le)

lemma r8_prepare_plain: "wf_json v \<Longrightarrow> r8_prepare E v = Inr (sorted_keys v)"
proof (induction v)
  case (JArr vs)
  then have "rmap_list (r8_prepare E) vs = Inr (map sorted_keys vs)"
    by (induction vs) auto
  then show ?case by simp
next
  case (JObj kvs)
  define g where "g = (\<lambda>kv. (fst kv, sorted_keys (snd kv)) :: string \<times> json)"
  have item: "rbind (r8_prepare E (snd kv)) (\<lambda>w. Inr (fst kv, w)) = Inr (g kv)" if "kv \<in> set kvs" for kv
    using that JObj by (metis g_def rbind.simps(2) snds.intros wf_json.simps(3))
  have "rmap_list (\<lambda>kv. rbind (r8_prepare E (snd kv)) (\<lambda>w. Inr (fst kv, w))) xs = Inr (map g xs)"
    if "set xs \<subseteq> set kvs" for xs
    using that by (induction xs) (auto simp: item)
  moreover have "map g (sort_key fst xs) = sort_key fst (map g xs)" for xs
  proof (induction xs)
    case (Cons x xs)
    have "map g (insort_key fst x ys) = insort_key fst (g x) (map g ys)" for ys
      by (induction ys) (simp_all add: g_def)
    with Cons show ?case by simp
  qed simp
  ultimately show ?case by (simp add: sort_key_order_fst g_def)
qed auto

lemma plain_is_wf: "plain_json v \<Longrightarrow> wf_json v"
  by (induction v) (auto intro: snds.intros)

lemma encodings_agree: "plain_json v \<Longrightarrow> canonical_json E v = canonical_dumps E v"
  by (simp add: canonical_json_plain canonical_dumps_def r8_prepare_plain plain_is_wf)

lemma sorted_keys_wf_plain: "plain_json v \<Longrightarrow> wf_json (sorted_keys v)"
  by (simp add: sorted_keys_wf plain_is_wf)

text \<open>Python's \<^verbatim>\<open>None\<close> is \<^verbatim>\<open>null\<close>; \<open>py_get\<close> is \<^verbatim>\<open>dict.get\<close>.\<close>

definition opt_str :: "string option \<Rightarrow> json" where
  "opt_str s = (case s of None \<Rightarrow> JNull | Some t \<Rightarrow> JStr t)"

definition py_get :: "string \<Rightarrow> json \<Rightarrow> json" where
  "py_get k payload = (case jget k payload of None \<Rightarrow> JNull | Some v \<Rightarrow> v)"

text \<open>The text and digest of a payload without hinted keys.\<close>

definition text_of :: "json \<Rightarrow> string" where
  "text_of v = json_text (sorted_keys v)"

definition digest_of :: "json \<Rightarrow> string" where
  "digest_of v = sha256_hex (text_of v)"

lemma plain_opt_str [simp]: "plain_json (opt_str s)" "sorted_keys (opt_str s) = opt_str s"
  by (simp_all add: opt_str_def split: option.splits)

lemma opt_str_inj [simp]: "opt_str s = opt_str t \<longleftrightarrow> s = t" "opt_str s = JStr k \<longleftrightarrow> s = Some k"
  by (auto simp: opt_str_def split: option.splits)

lemma canonical_text: "plain_json v \<Longrightarrow> canonical_json E v = Inr (text_of v)"
  by (simp add: text_of_def canonical_json_plain)

lemma canonical_digest_of: "plain_json v \<Longrightarrow> canonical_digest E v = Inr (digest_of v)"
  by (simp add: digest_of_def text_of_def canonical_digest_plain)

lemma loads_text_of: "plain_json v \<Longrightarrow> loads plain_hooks (text_of v) = Inr (sorted_keys v)"
  "plain_json v \<Longrightarrow> loads strict_hooks (text_of v) = Inr (sorted_keys v)"
  by (simp_all add: text_of_def sorted_keys_wf_plain)

lemma text_of_sorted [simp]: "text_of (sorted_keys v) = text_of v" "digest_of (sorted_keys v) = digest_of v"
  by (simp_all add: text_of_def digest_of_def sorted_keys_idem)

lemma canonical_dumps_wf: "wf_json v \<Longrightarrow> canonical_dumps E v = Inr (text_of v)"
  by (simp add: canonical_dumps_def r8_prepare_plain text_of_def)

lemma canonical_sha256_wf: "wf_json v \<Longrightarrow> canonical_sha256 E v = Inr (digest_of v)"
  by (simp add: canonical_sha256_def canonical_dumps_wf digest_of_def sha256_hex_def)

lemma strict_loads_text_of: "wf_json v \<Longrightarrow> strict_loads (text_of v) = Inr (sorted_keys v)"
  by (simp add: strict_loads_def text_of_def sorted_keys_wf)

lemma text_of_inj: "wf_json v \<Longrightarrow> wf_json w \<Longrightarrow> text_of v = text_of w \<longleftrightarrow> sorted_keys v = sorted_keys w"
  by (simp add: text_of_def json_text_inj sorted_keys_wf)

lemma text_of_field:
  assumes "wf_json (JObj kvs)" "wf_json (JObj kvs')" "text_of (JObj kvs) = text_of (JObj kvs')"
  shows "map_option sorted_keys (map_of kvs k) = map_option sorted_keys (map_of kvs' k)"
proof -
  have "jget k (sorted_keys (JObj kvs)) = jget k (sorted_keys (JObj kvs'))"
    using assms by (simp only: text_of_inj)
  then show ?thesis using assms(1,2) by (simp only: jget_sorted_keys wf_json.simps)
qed

text \<open>A field of a normalised object is the normalised field.\<close>

lemma norm_items_get:
  "list_all2 (norm_item E) kvs ws \<Longrightarrow> map_of kvs k = Some v \<Longrightarrow>
     \<exists>x. normalize_value E (Some k) v = Inr x \<and> map_of ws k = Some x"
  by (induction kvs ws rule: list_all2_induct) (auto simp: norm_item_def split: if_splits)

lemma normalize_obj_get:
  assumes "normalize_value E h (JObj kvs) = Inr w" "map_of kvs k = Some v"
  shows "\<exists>x. normalize_value E (Some k) v = Inr x \<and> jget k w = Some x"
proof -
  obtain ws where ws: "w = JObj (sort_key key_order ws)" "list_all2 (norm_item E) kvs ws" "distinct (map fst kvs)"
    using assms(1) unfolding normalize_obj_Inr by blast
  then have "map_of (sort_key key_order ws) k = map_of ws k"
    using norm_item_keys [OF ws(2)] by (intro map_of_sort_key) simp
  then show ?thesis using norm_items_get [OF ws(2) assms(2)] ws(1) by simp
qed

lemma py_get_sorted:
  "distinct (map fst kvs) \<Longrightarrow>
     py_get k (sorted_keys (JObj kvs)) = (case map_of kvs k of None \<Rightarrow> JNull | Some v \<Rightarrow> sorted_keys v)"
  unfolding py_get_def by (simp only: jget_sorted_keys) (simp split: option.splits)

text \<open>An integer that was encoded is in range.\<close>

lemma normalize_obj_int:
  assumes "normalize_value E h (JObj kvs) = Inr w" "(k, JInt i) \<in> set kvs"
  shows "\<bar>i\<bar> \<le> MAX_SAFE_INTEGER"
proof -
  obtain ws where "list_all2 (norm_item E) kvs ws"
    using assms(1) unfolding normalize_obj_Inr by blast
  then obtain kw where "norm_item E (k, JInt i) kw"
    using assms(2) by (metis in_set_conv_nth list_all2_conv_all_nth)
  then show ?thesis by (simp add: norm_item_def result_simps)
qed

lemma canonical_digest_int:
  "canonical_digest E (JObj kvs) = Inr d \<Longrightarrow> (k, JInt i) \<in> set kvs \<Longrightarrow> \<bar>i\<bar> \<le> MAX_SAFE_INTEGER"
  by (auto simp: canonical_digest_def canonical_json_bytes_def canonical_json_def result_simps
      simp del: normalize_value.simps dest: normalize_obj_int)

lemma canonical_json_int:
  "canonical_json E (JObj kvs) = Inr t \<Longrightarrow> (k, JInt i) \<in> set kvs \<Longrightarrow> \<bar>i\<bar> \<le> MAX_SAFE_INTEGER"
  by (auto simp: canonical_json_def result_simps simp del: normalize_value.simps dest: normalize_obj_int)

text \<open>An environment in which no text is a timestamp, for concrete instances.\<close>

definition demo_env :: py_env where
  "demo_env = \<lparr>fromisoformat = (\<lambda>_. Iso_invalid), float_repr = (\<lambda>_. None), float_trunc = (\<lambda>_. None),
     float_equal = (\<lambda>_ _. False)\<rparr>"

lemma demo_env_stable [simp]: "iso_stable demo_env"
  by (simp add: iso_stable_def demo_env_def)

lemmas plain_eval = path_hint_def time_hint_def ends_with_def MAX_SAFE_INTEGER_def

section \<open>What a canonical encoding promises\<close>

text \<open>Two byte strings that SHA-256 does not tell apart.\<close>

definition collides :: "string \<Rightarrow> string \<Rightarrow> bool" where
  "collides a b \<longleftrightarrow> a \<noteq> b \<and> sha256_hexdigest a = sha256_hexdigest b"

locale canonical_codec =
  fixes canon :: "json \<Rightarrow> (canon_error, json) result"
    and enc :: "json \<Rightarrow> (canon_error, string) result"
  assumes enc_canon: "enc v = rbind (canon v) (\<lambda>w. Inr (json_text w))"
    and canon_wf: "wf_json v \<Longrightarrow> canon v = Inr w \<Longrightarrow> wf_json w"
begin

lemma enc_text: "enc v = Inr t \<Longrightarrow> \<exists>w. canon v = Inr w \<and> t = json_text w"
  by (auto simp: enc_canon result_simps)

lemma enc_loads:
  assumes "wf_json v" and "enc v = Inr t"
  shows "\<exists>w. canon v = Inr w \<and> loads strict_hooks t = Inr w \<and> loads plain_hooks t = Inr w"
  using enc_text [OF assms(2)] canon_wf [OF assms(1)] by auto

lemma enc_inj:
  assumes "wf_json v" "wf_json v'" "enc v = Inr t" "enc v' = Inr t"
  shows "canon v = canon v'"
  using enc_loads [OF assms(1,3)] enc_loads [OF assms(2,4)] by auto

lemma digest_binds:
  assumes "wf_json v" "wf_json v'" "enc v = Inr t" "enc v' = Inr t'"
    and "sha256_hex t = sha256_hex t'"
  shows "canon v = canon v' \<or> collides (utf8 t) (utf8 t')"
  using enc_inj [OF assms(1,2,3)] assms(4,5) by (auto simp: collides_def sha256_hex_def utf8_inj)

end

interpretation lantern: canonical_codec "normalize_value E None" "canonical_json E" for E
  by unfold_locales (auto simp: canonical_json_def intro: normalize_wf)

interpretation r8a0: canonical_codec "r8_prepare E" "canonical_dumps E" for E
  by unfold_locales (auto simp: canonical_dumps_def r8_prepare_plain intro: sorted_keys_wf)

section \<open>Chains of digests\<close>

text \<open>
  A journal links its rows: each stores its predecessor's digest and the digest of its own
  content, which includes that link. \<open>mat\<close> is the material a row's digest is taken of.
\<close>

fun chained :: "('r \<Rightarrow> string) \<Rightarrow> ('r \<Rightarrow> string) \<Rightarrow> ('r \<Rightarrow> string) \<Rightarrow> string \<Rightarrow> 'r list \<Rightarrow> bool" where
  "chained link dig mat p [] = True"
| "chained link dig mat p (r # rs) =
     (link r = p \<and> dig r = sha256_hexdigest (mat r) \<and> chained link dig mat (dig r) rs)"

definition chain_head :: "('r \<Rightarrow> string) \<Rightarrow> string \<Rightarrow> 'r list \<Rightarrow> string" where
  "chain_head dig p rs = (if rs = [] then p else dig (last rs))"

lemma chain_head_simps [simp]:
  "chain_head dig p [] = p" "chain_head dig p (rs @ [r]) = dig r"
  "chain_head dig p (r # rs) = chain_head dig (dig r) rs"
  by (simp_all add: chain_head_def)

lemma chained_append:
  "chained link dig mat p (rs @ [r]) \<longleftrightarrow>
     chained link dig mat p rs \<and> link r = chain_head dig p rs \<and> dig r = sha256_hexdigest (mat r)"
  by (induction rs arbitrary: p) auto

locale digest_chain =
  fixes link :: "'r \<Rightarrow> string" and dig :: "'r \<Rightarrow> string" and mat :: "'r \<Rightarrow> string"
    and valid :: "'r \<Rightarrow> bool"
  assumes mat_link: "valid r \<Longrightarrow> valid r' \<Longrightarrow> mat r = mat r' \<Longrightarrow> link r = link r'"
begin

lemma same_head_same_material:
  assumes "chained link dig mat p rs" "chained link dig mat p rs'" "length rs = length rs'"
    and "chain_head dig p rs = chain_head dig p rs'"
    and "\<forall>r\<in>set rs. valid r" "\<forall>r\<in>set rs'. valid r"
  shows "map mat rs = map mat rs' \<or> (\<exists>i<length rs. collides (mat (rs ! i)) (mat (rs' ! i)))"
  using assms
proof (induction rs arbitrary: rs' rule: rev_induct)
  case (snoc r rs)
  obtain s ss where rs': "rs' = ss @ [s]" using snoc.prems(3) by (cases rs' rule: rev_cases) auto
  have heads: "dig r = dig s" using snoc.prems(4) by (simp add: rs')
  have len: "length ss = length rs" using snoc.prems(3) by (simp add: rs')
  have eq: "sha256_hexdigest (mat r) = sha256_hexdigest (mat s)"
    using snoc.prems(1,2) heads by (simp add: rs' chained_append)
  show ?case
  proof (cases "mat r = mat s")
    case False
    then have "collides (mat ((rs @ [r]) ! length rs)) (mat (rs' ! length rs))"
      using eq len by (simp add: rs' collides_def nth_append)
    then show ?thesis by (intro disjI2 exI [of _ "length rs"]) simp
  next
    case True
    have "link r = link s" using mat_link [OF _ _ True] snoc.prems(5,6) by (simp add: rs')
    then have "map mat rs = map mat ss \<or> (\<exists>i<length rs. collides (mat (rs ! i)) (mat (ss ! i)))"
      using snoc.prems len by (intro snoc.IH) (auto simp: rs' chained_append)
    then show ?thesis
    proof
      assume "\<exists>i<length rs. collides (mat (rs ! i)) (mat (ss ! i))"
      then obtain i where "i < length rs" "collides (mat (rs ! i)) (mat (ss ! i))" by blast
      then show ?thesis
        using len by (intro disjI2 exI [of _ i]) (simp add: rs' nth_append)
    qed (simp add: rs' True)
  qed
qed simp

end

end
