(* ===== verification/Effect_Fence.thy ===== *)
theory Effect_Fence
  imports Canonical
begin

text \<open>
  \<^verbatim>\<open>vera_assurance.effect_fence\<close>: the durable single-use fence every external
  effect passes (\<^verbatim>\<open>EffectFence\<close>) and the snapshot ledger with compare-and-swap
  generations (\<^verbatim>\<open>AtomicCurrentnessStore\<close>). The table \<^verbatim>\<open>effects\<close> is
  the list of its rows; a row and an \<^verbatim>\<open>EffectReceipt\<close> have the same fields.
  Each \<^verbatim>\<open>BEGIN IMMEDIATE\<close> block is one atomic step, so the interleavings of
  several processes are the sequences of these steps (\<open>fence_step\<close>).
\<close>

section \<open>The effect fence\<close>

datatype effect_state =
    RESERVED
  | EXECUTING
  | COMMITTED
  | ATTEMPTED_UNKNOWN
  | RECONCILED_COMMITTED
  | RECONCILED_NO_EFFECT
  | CANCELLED_PRE_DISPATCH

record effect_receipt =
  er_effect_id :: string
  er_request_digest :: string
  er_state :: effect_state
  er_permit :: string
  er_authority :: string
  er_currentness :: string
  er_result :: "string option"
  er_reconciliation :: "string option"

type_synonym fence = "effect_receipt list"

datatype fence_error =
    Fence_digest string digest_fault
  | Fence_empty_id string
  | Different_binding
  | Not_dispatchable effect_state
  | Lost_atomic_race
  | Only_executing_settles
  | Completion_needs_result
  | Cancel_after_dispatch
  | Barrier_active "(string \<times> effect_state) list"
  | Occurred_needs_result
  | No_effect_carries_result
  | Only_ambiguous_reconciles
  | Fence_key_error string
  | Row_is_none
  | Stale_generation
  | Snapshot_mismatch
  | Payload_predates_restart
  | Payload_mismatch
  | Fence_canon canon_error
  | Fence_json json_error

definition require_digest :: "string \<Rightarrow> string \<Rightarrow> (fence_error, string) result" where
  "require_digest value label = map_err (Fence_digest label) (digest_check value)"

definition require_id :: "string \<Rightarrow> string \<Rightarrow> (fence_error, string) result" where
  "require_id value label = rbind (ensure (value \<noteq> []) (Fence_empty_id label)) (\<lambda>_. Inr value)"

abbreviation effect_row :: "string \<Rightarrow> fence \<Rightarrow> effect_receipt option" where
  "effect_row eid F \<equiv> row_of er_effect_id eid F"

text \<open>
  \<^verbatim>\<open>UPDATE effects SET ... WHERE effect_id=? AND state IN states\<close>, with the number
  of rows it changes as \<^verbatim>\<open>total_changes\<close> of the fresh connection sees it.
\<close>

definition update_effects ::
  "string \<Rightarrow> effect_state set \<Rightarrow> (effect_receipt \<Rightarrow> effect_receipt) \<Rightarrow> fence \<Rightarrow> fence \<times> nat" where
  "update_effects eid states f F =
     (map (\<lambda>r. if er_effect_id r = eid \<and> er_state r \<in> states then f r else r) F,
      length (filter (\<lambda>r. er_effect_id r = eid \<and> er_state r \<in> states) F))"

definition reserve ::
  "fence \<Rightarrow> string \<Rightarrow> string \<Rightarrow> string \<Rightarrow> string \<Rightarrow> string \<Rightarrow> (fence_error, effect_receipt \<times> fence) result" where
  "reserve F effect_id0 request_digest0 permit0 authority0 currentness0 =
     rbind (require_id effect_id0 ''effect_id'') (\<lambda>eid.
     rbind (require_digest request_digest0 ''request_digest'') (\<lambda>request.
     rbind (require_digest permit0 ''mechanical_permit_digest'') (\<lambda>permit.
     rbind (require_digest authority0 ''authority_evidence_digest'') (\<lambda>authority.
     rbind (require_digest currentness0 ''currentness_evidence_digest'') (\<lambda>currentness.
       case effect_row eid F of
         Some receipt \<Rightarrow>
           if er_request_digest receipt = request \<and> er_permit receipt = permit \<and>
              er_authority receipt = authority \<and> er_currentness receipt = currentness
           then Inr (receipt, F) else Inl Different_binding
       | None \<Rightarrow>
           let receipt = \<lparr>er_effect_id = eid, er_request_digest = request, er_state = RESERVED,
                 er_permit = permit, er_authority = authority, er_currentness = currentness,
                 er_result = None, er_reconciliation = None\<rparr>
           in Inr (receipt, F @ [receipt]))))))"

text \<open>The second transaction of \<^verbatim>\<open>claim_dispatch\<close>.\<close>

definition claim_tx :: "fence \<Rightarrow> string \<Rightarrow> (fence_error, fence) result" where
  "claim_tx F eid =
     rbind (or_raise (effect_row eid F) Row_is_none) (\<lambda>receipt.
     rbind (ensure (er_state receipt = RESERVED) (Not_dispatchable (er_state receipt))) (\<lambda>_.
       let (F', changes) = update_effects eid {RESERVED} (\<lambda>r. r\<lparr>er_state := EXECUTING\<rparr>) F
       in rbind (ensure (changes = 1) Lost_atomic_race) (\<lambda>_. Inr F')))"

text \<open>
  The whole call: the reservation is committed by its own transaction, so it stays when the
  claim after it is refused.
\<close>

definition claim_dispatch ::
  "fence \<Rightarrow> string \<Rightarrow> string \<Rightarrow> string \<Rightarrow> string \<Rightarrow> string \<Rightarrow> (fence_error, effect_receipt) result \<times> fence" where
  "claim_dispatch F eid request permit authority currentness =
     (case reserve F eid request permit authority currentness of
        Inl e \<Rightarrow> (Inl e, F)
      | Inr (requested, F1) \<Rightarrow>
          (case claim_tx F1 eid of
             Inl e \<Rightarrow> (Inl e, F1)
           | Inr F2 \<Rightarrow>
               (Inr (requested\<lparr>er_state := EXECUTING, er_result := None, er_reconciliation := None\<rparr>), F2)))"

definition settle ::
  "fence \<Rightarrow> string \<Rightarrow> string option \<Rightarrow> bool \<Rightarrow> (fence_error, effect_receipt \<times> fence) result" where
  "settle F effect_id result_digest0 completion_known =
     rbind (require_id effect_id ''effect_id'') (\<lambda>_.
     rbind (case result_digest0 of None \<Rightarrow> Inr None
            | Some d \<Rightarrow> rbind (require_digest d ''result_digest'') (\<lambda>x. Inr (Some x))) (\<lambda>result_digest.
     rbind (or_raise (effect_row effect_id F) (Fence_key_error effect_id)) (\<lambda>receipt.
     rbind (ensure (er_state receipt = EXECUTING) Only_executing_settles) (\<lambda>_.
     rbind (ensure (\<not> (completion_known \<and> result_digest = None)) Completion_needs_result) (\<lambda>_.
       let st = (if completion_known then COMMITTED else ATTEMPTED_UNKNOWN);
           (F', changes) = update_effects effect_id {EXECUTING}
             (\<lambda>r. r\<lparr>er_state := st, er_result := result_digest\<rparr>) F
       in rbind (ensure (changes = 1) Lost_atomic_race) (\<lambda>_.
            Inr (receipt\<lparr>er_state := st, er_result := result_digest, er_reconciliation := None\<rparr>, F')))))))"

definition cancel_before_dispatch :: "fence \<Rightarrow> string \<Rightarrow> (fence_error, effect_receipt \<times> fence) result" where
  "cancel_before_dispatch F effect_id =
     rbind (require_id effect_id ''effect_id'') (\<lambda>_.
     rbind (or_raise (effect_row effect_id F) (Fence_key_error effect_id)) (\<lambda>receipt.
     rbind (ensure (er_state receipt = RESERVED) Cancel_after_dispatch) (\<lambda>_.
       let (F', _) = update_effects effect_id {RESERVED} (\<lambda>r. r\<lparr>er_state := CANCELLED_PRE_DISPATCH\<rparr>) F
       in Inr (receipt\<lparr>er_state := CANCELLED_PRE_DISPATCH, er_result := None, er_reconciliation := None\<rparr>, F'))))"

definition all_effects :: "fence \<Rightarrow> effect_receipt list" where
  "all_effects F = sort_key er_effect_id F"

definition unresolved :: "fence \<Rightarrow> effect_receipt list" where
  "unresolved F =
     sort_key er_effect_id (filter (\<lambda>r. er_state r \<in> {RESERVED, EXECUTING, ATTEMPTED_UNKNOWN}) F)"

definition assert_clear :: "fence \<Rightarrow> (fence_error, unit) result" where
  "assert_clear F =
     ensure (unresolved F = [])
       (Barrier_active (map (\<lambda>r. (er_effect_id r, er_state r)) (unresolved F)))"

definition reconcile_unknown ::
  "fence \<Rightarrow> string \<Rightarrow> bool \<Rightarrow> string option \<Rightarrow> string \<Rightarrow> (fence_error, effect_receipt \<times> fence) result" where
  "reconcile_unknown F effect_id effect_occurred result_digest0 evidence0 =
     rbind (require_id effect_id ''effect_id'') (\<lambda>_.
     rbind (require_digest evidence0 ''reconciliation_evidence_digest'') (\<lambda>evidence.
     rbind (if effect_occurred
            then (case result_digest0 of
                    None \<Rightarrow> Inl Occurred_needs_result
                  | Some d \<Rightarrow> rbind (require_digest d ''result_digest'') (\<lambda>x. Inr (Some x, RECONCILED_COMMITTED)))
            else rbind (ensure (result_digest0 = None) No_effect_carries_result)
                   (\<lambda>_. Inr (None, RECONCILED_NO_EFFECT))) (\<lambda>(result_digest, target).
     rbind (or_raise (effect_row effect_id F) (Fence_key_error effect_id)) (\<lambda>receipt.
     rbind (ensure (er_state receipt \<in> {EXECUTING, ATTEMPTED_UNKNOWN}) Only_ambiguous_reconciles) (\<lambda>_.
       let (F', changes) = update_effects effect_id {EXECUTING, ATTEMPTED_UNKNOWN}
             (\<lambda>r. r\<lparr>er_state := target, er_result := result_digest, er_reconciliation := Some evidence\<rparr>) F
       in rbind (ensure (changes = 1) Lost_atomic_race) (\<lambda>_.
            Inr (receipt\<lparr>er_state := target, er_result := result_digest,
                         er_reconciliation := Some evidence\<rparr>, F')))))))"

definition read_effect :: "fence \<Rightarrow> string \<Rightarrow> (fence_error, effect_receipt) result" where
  "read_effect F effect_id = or_raise (effect_row effect_id F) (Fence_key_error effect_id)"

section \<open>The currentness store\<close>

record currentness_row =
  cr_subject_id :: string
  cr_generation :: int
  cr_snapshot_digest :: string
  cr_payload_digest :: string
  cr_payload_json :: "string option"

record currentness_snapshot =
  cs_subject_id :: string
  cs_generation :: int
  cs_snapshot_digest :: string
  cs_payload_digest :: string

type_synonym currentness = "currentness_row list"

definition snapshot_body :: "string \<Rightarrow> int \<Rightarrow> string \<Rightarrow> json" where
  "snapshot_body subject_id generation payload_digest =
     JObj [(''subject_id'', JStr subject_id), (''generation'', JInt generation),
           (''payload_digest'', JStr payload_digest)]"

definition upsert_currentness :: "currentness_row \<Rightarrow> currentness \<Rightarrow> currentness" where
  "upsert_currentness row C =
     (if row_of cr_subject_id (cr_subject_id row) C = None then C @ [row]
      else upd_row cr_subject_id (cr_subject_id row) (\<lambda>_. row) C)"

definition publish ::
  "py_env \<Rightarrow> currentness \<Rightarrow> string \<Rightarrow> json \<Rightarrow> int option \<Rightarrow>
     (fence_error, currentness_snapshot \<times> currentness) result" where
  "publish E C subject_id payload expected_generation =
     rbind (ensure (subject_id \<noteq> []) (Fence_empty_id ''subject_id'')) (\<lambda>_.
     rbind (map_err Fence_canon (canonical_json E payload)) (\<lambda>payload_json.
       let payload_digest = sha256_hex payload_json;
           current_generation = map_option cr_generation (row_of cr_subject_id subject_id C)
       in rbind (ensure (current_generation = expected_generation) Stale_generation) (\<lambda>_.
            let generation = (case current_generation of None \<Rightarrow> 0 | Some g \<Rightarrow> g + 1)
            in rbind (map_err Fence_canon
                   (canonical_digest E (snapshot_body subject_id generation payload_digest))) (\<lambda>snapshot_digest.
               let row = \<lparr>cr_subject_id = subject_id, cr_generation = generation,
                     cr_snapshot_digest = snapshot_digest, cr_payload_digest = payload_digest,
                     cr_payload_json = Some payload_json\<rparr>
               in Inr (\<lparr>cs_subject_id = subject_id, cs_generation = generation,
                        cs_snapshot_digest = snapshot_digest, cs_payload_digest = payload_digest\<rparr>,
                       upsert_currentness row C)))))"

definition read_currentness ::
  "py_env \<Rightarrow> currentness \<Rightarrow> string \<Rightarrow> (fence_error, currentness_snapshot) result" where
  "read_currentness E C subject_id =
     rbind (or_raise (row_of cr_subject_id subject_id C) (Fence_key_error subject_id)) (\<lambda>row.
     rbind (map_err Fence_canon
         (canonical_digest E (snapshot_body (cr_subject_id row) (cr_generation row) (cr_payload_digest row))))
       (\<lambda>expected_snapshot.
     rbind (ensure (expected_snapshot = cr_snapshot_digest row) Snapshot_mismatch) (\<lambda>_.
       Inr \<lparr>cs_subject_id = cr_subject_id row, cs_generation = cr_generation row,
            cs_snapshot_digest = cr_snapshot_digest row, cs_payload_digest = cr_payload_digest row\<rparr>)))"

definition read_payload :: "currentness \<Rightarrow> string \<Rightarrow> (fence_error, json) result" where
  "read_payload C subject_id =
     rbind (or_raise (row_of cr_subject_id subject_id C) (Fence_key_error subject_id)) (\<lambda>row.
     rbind (or_raise (cr_payload_json row) Payload_predates_restart) (\<lambda>payload_json.
     rbind (ensure (sha256_hex payload_json = cr_payload_digest row) Payload_mismatch) (\<lambda>_.
       map_err Fence_json (loads plain_hooks payload_json))))"

section \<open>The machine the fence implements\<close>

fun fence_edge :: "effect_state \<Rightarrow> effect_state \<Rightarrow> bool" where
  "fence_edge RESERVED q = (q = EXECUTING \<or> q = CANCELLED_PRE_DISPATCH)"
| "fence_edge EXECUTING q =
     (q = COMMITTED \<or> q = ATTEMPTED_UNKNOWN \<or> q = RECONCILED_COMMITTED \<or> q = RECONCILED_NO_EFFECT)"
| "fence_edge ATTEMPTED_UNKNOWN q = (q = RECONCILED_COMMITTED \<or> q = RECONCILED_NO_EFFECT)"
| "fence_edge _ q = False"

definition effect_status :: "fence \<Rightarrow> string \<Rightarrow> effect_state option" where
  "effect_status F eid = map_option er_state (effect_row eid F)"

definition same_binding :: "effect_receipt \<Rightarrow> effect_receipt \<Rightarrow> bool" where
  "same_binding r r' \<longleftrightarrow>
     er_effect_id r' = er_effect_id r \<and> er_request_digest r' = er_request_digest r \<and>
     er_permit r' = er_permit r \<and> er_authority r' = er_authority r \<and>
     er_currentness r' = er_currentness r"

text \<open>What the columns of a row say about each other in each state.\<close>

definition receipt_ok :: "effect_receipt \<Rightarrow> bool" where
  "receipt_ok r \<longleftrightarrow>
     er_effect_id r \<noteq> [] \<and>
     (case er_state r of
        RESERVED \<Rightarrow> er_result r = None \<and> er_reconciliation r = None
      | EXECUTING \<Rightarrow> er_result r = None \<and> er_reconciliation r = None
      | COMMITTED \<Rightarrow> er_result r \<noteq> None \<and> er_reconciliation r = None
      | ATTEMPTED_UNKNOWN \<Rightarrow> er_reconciliation r = None
      | RECONCILED_COMMITTED \<Rightarrow> er_result r \<noteq> None \<and> er_reconciliation r \<noteq> None
      | RECONCILED_NO_EFFECT \<Rightarrow> er_result r = None \<and> er_reconciliation r \<noteq> None
      | CANCELLED_PRE_DISPATCH \<Rightarrow> er_result r = None \<and> er_reconciliation r = None)"

definition fence_ok :: "fence \<Rightarrow> bool" where
  "fence_ok F \<longleftrightarrow> distinct_keys er_effect_id F \<and> (\<forall>r\<in>set F. receipt_ok r)"

datatype fence_label =
    L_reserve string string string string string
  | L_claim string
  | L_settle string "string option" bool
  | L_cancel string
  | L_reconcile string bool "string option" string

inductive fence_step :: "fence \<Rightarrow> fence_label \<Rightarrow> fence \<Rightarrow> bool" where
  step_reserve: "reserve F eid rd pd ad cd = Inr (r, F') \<Longrightarrow> fence_step F (L_reserve eid rd pd ad cd) F'"
| step_claim: "claim_tx F eid = Inr F' \<Longrightarrow> fence_step F (L_claim eid) F'"
| step_settle: "settle F eid res known = Inr (r, F') \<Longrightarrow> fence_step F (L_settle eid res known) F'"
| step_cancel: "cancel_before_dispatch F eid = Inr (r, F') \<Longrightarrow> fence_step F (L_cancel eid) F'"
| step_reconcile: "reconcile_unknown F eid occ res ev = Inr (r, F') \<Longrightarrow>
     fence_step F (L_reconcile eid occ res ev) F'"

inductive_cases fence_claimE: "fence_step F (L_claim eid) F'"

definition fence_updates :: "fence \<Rightarrow> string \<Rightarrow> (effect_receipt \<Rightarrow> effect_receipt) \<Rightarrow> fence \<Rightarrow> bool" where
  "fence_updates F eid f F' \<longleftrightarrow>
     (\<exists>r. effect_row eid F = Some r \<and> fence_edge (er_state r) (er_state (f r)) \<and> same_binding r (f r)
        \<and> (receipt_ok r \<longrightarrow> receipt_ok (f r))
        \<and> (\<forall>k. effect_row k F' = (if k = eid then Some (f r) else effect_row k F)))"

lemma effect_row_update:
  assumes "\<And>r. er_effect_id (f r) = er_effect_id r"
  shows "effect_row k (fst (update_effects eid S f F)) =
    (if k = eid then map_option (\<lambda>r. if er_state r \<in> S then f r else r) (effect_row k F)
     else effect_row k F)"
  by (induction F) (auto simp: update_effects_def row_of_Cons assms)

lemma update_effects_keys:
  assumes "\<And>r. er_effect_id (f r) = er_effect_id r"
  shows "map er_effect_id (fst (update_effects eid S f F)) = map er_effect_id F"
  by (induction F) (auto simp: update_effects_def assms)

lemma update_effects_member:
  "r' \<in> set (fst (update_effects eid S f F)) \<Longrightarrow>
     r' \<in> set F \<or> (\<exists>r\<in>set F. er_effect_id r = eid \<and> er_state r \<in> S \<and> r' = f r)"
  by (auto simp: update_effects_def)

text \<open>With a primary key, exactly the row that was read is changed.\<close>

lemma update_effects_count:
  assumes "distinct_keys er_effect_id F" "effect_row eid F = Some r" "er_state r \<in> S"
  shows "snd (update_effects eid S f F) = 1"
  using assms
proof (induction F)
  case (Cons x xs)
  show ?case
  proof (cases "er_effect_id x = eid")
    case True
    then have "eid \<notin> er_effect_id ` set xs" using Cons.prems(1) by (auto simp: distinct_keys_def)
    then have "filter (\<lambda>r. er_effect_id r = eid \<and> er_state r \<in> S) xs = []"
      by (auto simp: filter_empty_conv)
    then show ?thesis using Cons.prems True by (simp add: update_effects_def row_of_Cons)
  next
    case False
    then show ?thesis using Cons by (simp add: update_effects_def row_of_Cons distinct_keys_def)
  qed
qed simp

lemma update_effects_updates:
  assumes "effect_row eid F = Some r" "er_state r \<in> S" "\<And>r. er_effect_id (f r) = er_effect_id r"
    and "fence_edge (er_state r) (er_state (f r))" "same_binding r (f r)" "receipt_ok r \<Longrightarrow> receipt_ok (f r)"
  shows "fence_updates F eid f (fst (update_effects eid S f F))"
  using assms effect_row_update [of f _ eid S F, OF assms(3)] by (simp add: fence_updates_def)

lemma reserve_Inr:
  assumes "reserve F eid rd pd ad cd = Inr (r, F')"
  shows "(F' = F \<and> effect_row eid F = Some r) \<or>
    (effect_row eid F = None \<and> F' = F @ [r] \<and> er_effect_id r = eid \<and> er_state r = RESERVED \<and> receipt_ok r)"
  using assms
  by (auto simp: reserve_def require_id_def Let_def result_simps receipt_ok_def
      split: option.splits if_splits)

lemma claim_tx_Inr:
  assumes "claim_tx F eid = Inr F'"
  shows "\<exists>r. effect_row eid F = Some r \<and> er_state r = RESERVED
    \<and> F' = fst (update_effects eid {RESERVED} (\<lambda>r. r\<lparr>er_state := EXECUTING\<rparr>) F)"
  using assms by (auto simp: claim_tx_def result_simps case_prod_beta)

lemma cancel_Inr:
  assumes "cancel_before_dispatch F eid = Inr (r', F')"
  shows "\<exists>r. effect_row eid F = Some r \<and> er_state r = RESERVED
    \<and> F' = fst (update_effects eid {RESERVED} (\<lambda>r. r\<lparr>er_state := CANCELLED_PRE_DISPATCH\<rparr>) F)"
  using assms by (auto simp: cancel_before_dispatch_def result_simps case_prod_beta)

definition settled :: "bool \<Rightarrow> effect_state" where
  "settled known = (if known then COMMITTED else ATTEMPTED_UNKNOWN)"

lemma settle_Inr:
  assumes "settle F eid res known = Inr (r', F')"
  shows "\<exists>r d. effect_row eid F = Some r \<and> er_state r = EXECUTING \<and> (known \<longrightarrow> d \<noteq> None)
    \<and> F' = fst (update_effects eid {EXECUTING} (\<lambda>r. r\<lparr>er_state := settled known, er_result := d\<rparr>) F)"
proof -
  from assms obtain r d where "effect_row eid F = Some r" "er_state r = EXECUTING"
    "\<not> (known \<and> d = None)"
    "(let (G, n) = update_effects eid {EXECUTING} (\<lambda>r. r\<lparr>er_state := settled known, er_result := d\<rparr>) F
      in rbind (ensure (n = 1) Lost_atomic_race) (\<lambda>_. Inr (r\<lparr>er_state := settled known,
            er_result := d, er_reconciliation := None\<rparr>, G))) = Inr (r', F')"
    unfolding settle_def rbind_Inr_iff ensure_Inr_iff or_raise_Inr_iff Let_def settled_def by blast
  then show ?thesis by (intro exI [of _ r] exI [of _ d]) (auto simp: result_simps case_prod_beta)
qed

definition reconciled :: "string option \<Rightarrow> effect_state" where
  "reconciled d = (if d = None then RECONCILED_NO_EFFECT else RECONCILED_COMMITTED)"

abbreviation reconcile_row :: "string option \<Rightarrow> string \<Rightarrow> effect_receipt \<Rightarrow> effect_receipt" where
  "reconcile_row d e \<equiv> \<lambda>r. r\<lparr>er_state := reconciled d, er_result := d, er_reconciliation := Some e\<rparr>"

lemma reconcile_Inr:
  assumes "reconcile_unknown F eid occ res ev = Inr (r', F')"
  shows "\<exists>r d e. effect_row eid F = Some r \<and> er_state r \<in> {EXECUTING, ATTEMPTED_UNKNOWN}
    \<and> F' = fst (update_effects eid {EXECUTING, ATTEMPTED_UNKNOWN} (reconcile_row d e) F)"
proof -
  from assms obtain e d st r where step: "effect_row eid F = Some r"
    "er_state r \<in> {EXECUTING, ATTEMPTED_UNKNOWN}"
    "(if occ then (case res of None \<Rightarrow> Inl Occurred_needs_result
        | Some x \<Rightarrow> rbind (require_digest x ''result_digest'') (\<lambda>x. Inr (Some x, RECONCILED_COMMITTED)))
      else rbind (ensure (res = None) No_effect_carries_result) (\<lambda>_. Inr (None, RECONCILED_NO_EFFECT)))
     = Inr (d, st)"
    "(let (G, n) = update_effects eid {EXECUTING, ATTEMPTED_UNKNOWN}
         (\<lambda>r. r\<lparr>er_state := st, er_result := d, er_reconciliation := Some e\<rparr>) F
      in rbind (ensure (n = 1) Lost_atomic_race) (\<lambda>_. Inr (r\<lparr>er_state := st,
            er_result := d, er_reconciliation := Some e\<rparr>, G))) = Inr (r', F')"
    unfolding reconcile_unknown_def rbind_Inr_iff ensure_Inr_iff or_raise_Inr_iff split_paired_Ex prod.case
    by blast
  from step(3) have "st = reconciled d"
    by (auto simp: result_simps reconciled_def split: if_splits option.splits)
  with step show ?thesis
    by (intro exI [of _ r] exI [of _ d] exI [of _ e]) (auto simp: result_simps case_prod_beta)
qed

lemmas binding_simps = same_binding_def receipt_ok_def settled_def reconciled_def

text \<open>Every accepted step appends one reserved row, changes nothing, or moves one row along an edge.\<close>

lemma fence_step_cases:
  assumes "fence_step F l F'"
  shows "F' = F \<or> (\<exists>r. F' = F @ [r] \<and> effect_row (er_effect_id r) F = None \<and> er_state r = RESERVED \<and> receipt_ok r)
    \<or> (\<exists>eid S f. fence_updates F eid f F' \<and> F' = fst (update_effects eid S f F)
        \<and> (\<forall>r. er_effect_id (f r) = er_effect_id r)
        \<and> (\<forall>r. er_state r \<in> S \<longrightarrow> receipt_ok r \<longrightarrow> receipt_ok (f r)))"
  using assms
proof cases
  case (step_reserve eid rd pd ad cd r)
  then show ?thesis using reserve_Inr by fast
next
  case (step_claim eid)
  then show ?thesis
    using claim_tx_Inr [OF step_claim(2)]
    by (intro disjI2 exI [of _ eid] exI [of _ "{RESERVED}"] exI [of _ "\<lambda>r. r\<lparr>er_state := EXECUTING\<rparr>"])
      (auto intro!: update_effects_updates simp: binding_simps)
next
  case (step_cancel eid r)
  then show ?thesis
    using cancel_Inr [OF step_cancel(2)]
    by (intro disjI2 exI [of _ eid] exI [of _ "{RESERVED}"]
        exI [of _ "\<lambda>r. r\<lparr>er_state := CANCELLED_PRE_DISPATCH\<rparr>"])
      (auto intro!: update_effects_updates simp: binding_simps)
next
  case (step_settle eid res known r)
  obtain r0 d where "effect_row eid F = Some r0" "er_state r0 = EXECUTING" "known \<longrightarrow> d \<noteq> None"
    "F' = fst (update_effects eid {EXECUTING} (\<lambda>r. r\<lparr>er_state := settled known, er_result := d\<rparr>) F)"
    using settle_Inr [OF step_settle(2)] by blast
  then show ?thesis
    by (intro disjI2 exI [of _ eid] exI [of _ "{EXECUTING}"]
        exI [of _ "\<lambda>r. r\<lparr>er_state := settled known, er_result := d\<rparr>"])
      (auto intro!: update_effects_updates simp: binding_simps)
next
  case (step_reconcile eid occ res ev r)
  obtain r0 d e where "effect_row eid F = Some r0" "er_state r0 \<in> {EXECUTING, ATTEMPTED_UNKNOWN}"
    "F' = fst (update_effects eid {EXECUTING, ATTEMPTED_UNKNOWN} (reconcile_row d e) F)"
    using reconcile_Inr [OF step_reconcile(2)] by blast
  then show ?thesis
    by (intro disjI2 exI [of _ eid] exI [of _ "{EXECUTING, ATTEMPTED_UNKNOWN}"] exI [of _ "reconcile_row d e"])
      (auto intro!: update_effects_updates simp: binding_simps)
qed

lemma fence_step_ok: "fence_step F l F' \<Longrightarrow> fence_ok F \<Longrightarrow> fence_ok F'"
proof (drule fence_step_cases, elim disjE exE conjE)
  fix eid S f
  assume F: "fence_ok F" "F' = fst (update_effects eid S f F)" "\<forall>r. er_effect_id (f r) = er_effect_id r"
    "\<forall>r. er_state r \<in> S \<longrightarrow> receipt_ok r \<longrightarrow> receipt_ok (f r)"
  have "receipt_ok r" if "r \<in> set F'" for r
    using update_effects_member [of r eid S f F] that F by (auto simp: fence_ok_def)
  moreover have "distinct_keys er_effect_id F'"
    using F update_effects_keys [of f eid S F] by (simp add: fence_ok_def distinct_keys_def)
  ultimately show "fence_ok F'" by (simp add: fence_ok_def)
qed (auto simp: fence_ok_def distinct_keys_append)

lemma fence_step_row:
  assumes "fence_step F l F'"
  shows "effect_row k F' = effect_row k F
    \<or> (effect_row k F = None \<and> (\<exists>r. effect_row k F' = Some r \<and> er_state r = RESERVED))
    \<or> (\<exists>r r'. effect_row k F = Some r \<and> effect_row k F' = Some r'
         \<and> fence_edge (er_state r) (er_state r') \<and> same_binding r r')"
  using fence_step_cases [OF assms]
proof (elim disjE exE conjE)
  fix eid f assume "fence_updates F eid f F'"
  then show ?thesis by (cases "k = eid") (auto simp: fence_updates_def)
qed (auto simp: row_of_append split: option.splits)

interpretation fence_machine: status_machine fence_step effect_status fence_edge "\<lambda>q. q = RESERVED"
proof unfold_locales
  fix F l F' k q
  assume "fence_step F l F'" "effect_status F k = None" "effect_status F' k = Some q"
  then show "q = RESERVED" using fence_step_row [of F l F' k] by (auto simp: effect_status_def)
next
  fix F l F' k q
  assume "fence_step F l F'" "effect_status F k = Some q"
  then show "\<exists>q'. effect_status F' k = Some q' \<and> (q' = q \<or> fence_edge q q')"
    using fence_step_row [of F l F' k] by (auto simp: effect_status_def)
qed

lemma fence_step_binding:
  "fence_step F l F' \<Longrightarrow> effect_row k F = Some r \<Longrightarrow> \<exists>r'. effect_row k F' = Some r' \<and> same_binding r r'"
  using fence_step_row [of F l F' k] by (auto simp: same_binding_def)

lemma fence_run_binding:
  "runs fence_step F ls F' \<Longrightarrow> effect_row k F = Some r \<Longrightarrow> \<exists>r'. effect_row k F' = Some r' \<and> same_binding r r'"
proof (induction arbitrary: r rule: runs.induct)
  case (runs_step F l G ls H)
  obtain r1 where "effect_row k G = Some r1" "same_binding r r1"
    using fence_step_binding [OF runs_step.hyps(1) runs_step.prems] by blast
  then show ?case using runs_step.IH by (fastforce simp: same_binding_def)
qed (simp add: same_binding_def)

definition was_claimed :: "effect_state \<Rightarrow> bool" where
  "was_claimed q \<longleftrightarrow> q \<noteq> RESERVED \<and> q \<noteq> CANCELLED_PRE_DISPATCH"

lemma claimed_stays: "fence_edge\<^sup>*\<^sup>* q q' \<Longrightarrow> was_claimed q \<Longrightarrow> was_claimed q'"
proof (induction rule: rtranclp_induct)
  case (step y z)
  then show ?case by (cases y) (auto simp: was_claimed_def)
qed simp

lemma claim_step:
  assumes "fence_step F (L_claim eid) F'"
  shows "effect_status F eid = Some RESERVED \<and> effect_status F' eid = Some EXECUTING"
proof -
  obtain r where r: "effect_row eid F = Some r" "er_state r = RESERVED"
    "F' = fst (update_effects eid {RESERVED} (\<lambda>r. r\<lparr>er_state := EXECUTING\<rparr>) F)"
    using assms claim_tx_Inr by (blast elim: fence_claimE)
  then show ?thesis
    using effect_row_update [of "\<lambda>r. r\<lparr>er_state := EXECUTING\<rparr>" eid eid "{RESERVED}" F]
    by (simp add: effect_status_def)
qed

lemma claimed_no_claim:
  assumes "runs fence_step F ls F'" "effect_status F eid = Some q" "was_claimed q"
  shows "L_claim eid \<notin> set ls"
  using assms
proof (induction arbitrary: q rule: runs.induct)
  case (runs_step F l G ls H)
  obtain q1 where q1: "effect_status G eid = Some q1" "q1 = q \<or> fence_edge q q1"
    using fence_machine.step_edge [OF runs_step.hyps(1) runs_step.prems(1)] by blast
  have "was_claimed q1" using q1(2) claimed_stays [of q q1] runs_step.prems(2) by auto
  moreover have "l \<noteq> L_claim eid"
    using claim_step [of F eid G] runs_step.hyps(1) runs_step.prems by (auto simp: was_claimed_def)
  ultimately show ?case using runs_step.IH q1(1) by auto
qed simp

lemma claims_at_most_once:
  assumes "runs fence_step F ls F'"
  shows "length (filter (\<lambda>l. l = L_claim eid) ls) \<le> 1"
  using assms
proof (induction rule: runs.induct)
  case (runs_step F l G ls H)
  show ?case
  proof (cases "l = L_claim eid")
    case True
    then have "effect_status G eid = Some EXECUTING" using claim_step runs_step.hyps(1) by blast
    then have "L_claim eid \<notin> set ls"
      using claimed_no_claim runs_step.hyps(2) by (auto simp: was_claimed_def)
    then have "filter (\<lambda>l. l = L_claim eid) ls = []" by (auto simp: filter_empty_conv)
    then show ?thesis by simp
  qed (use runs_step.IH in simp)
qed simp

lemma claim_tx_total:
  assumes "fence_ok F" "effect_status F eid = Some RESERVED"
  shows "ok (claim_tx F eid)"
proof -
  obtain r where r: "effect_row eid F = Some r" "er_state r = RESERVED"
    using assms(2) by (auto simp: effect_status_def)
  have "snd (update_effects eid {RESERVED} (\<lambda>r. r\<lparr>er_state := EXECUTING\<rparr>) F) = 1"
    using update_effects_count [OF _ r(1)] assms(1) r(2) by (simp add: fence_ok_def)
  then show ?thesis using r by (simp add: claim_tx_def case_prod_beta)
qed

section \<open>What the fence guarantees\<close>

lemma claim_dispatch_claims:
  assumes "claim_dispatch F eid rd pd ad cd = (Inr r, F')"
  shows "\<exists>r1 F1. reserve F eid rd pd ad cd = Inr (r1, F1) \<and> claim_tx F1 eid = Inr F'
    \<and> fence_step F1 (L_claim eid) F'"
  using assms by (auto simp: claim_dispatch_def intro: step_claim split: sum.splits)

lemma claim_dispatch_refused:
  assumes "effect_status F eid = Some q" "q \<noteq> RESERVED"
  shows "\<exists>e. claim_dispatch F eid rd pd ad cd = (Inl e, F)"
proof (cases "reserve F eid rd pd ad cd")
  case (Inr p)
  obtain r F1 where p: "p = (r, F1)" by (cases p)
  then have "F1 = F" "effect_row eid F = Some r"
    using reserve_Inr [of F eid rd pd ad cd r F1] Inr assms by (auto simp: effect_status_def)
  then show ?thesis using assms Inr p
    by (auto simp: claim_dispatch_def claim_tx_def effect_status_def)
qed (simp add: claim_dispatch_def)

definition digests_bind :: "effect_receipt \<Rightarrow> string \<Rightarrow> string \<Rightarrow> string \<Rightarrow> string \<Rightarrow> bool" where
  "digests_bind r rd pd ad cd \<longleftrightarrow>
     digest_check rd = Inr (er_request_digest r) \<and> digest_check pd = Inr (er_permit r) \<and>
     digest_check ad = Inr (er_authority r) \<and> digest_check cd = Inr (er_currentness r)"

lemma reserve_ok_iff:
  "reserve F eid rd pd ad cd = Inr (r, F') \<longleftrightarrow>
     eid \<noteq> [] \<and> digests_bind r rd pd ad cd \<and>
     (case effect_row eid F of Some r0 \<Rightarrow> r = r0 \<and> F' = F
      | None \<Rightarrow> F' = F @ [r] \<and> er_effect_id r = eid \<and> er_state r = RESERVED
          \<and> er_result r = None \<and> er_reconciliation r = None)"
  by (cases r)
    (auto simp: reserve_def require_id_def require_digest_def Let_def result_simps digests_bind_def
      split: option.splits)

definition fence_example :: fence where
  "fence_example =
     [\<lparr>er_effect_id = ''mail-1'', er_request_digest = hex64 CHR ''a'', er_state = EXECUTING,
       er_permit = hex64 CHR ''b'', er_authority = hex64 CHR ''c'', er_currentness = hex64 CHR ''d'',
       er_result = None, er_reconciliation = None\<rparr>]"

lemmas fence_eval = reserve_def claim_tx_def claim_dispatch_def settle_def reconcile_unknown_def
  require_id_def require_digest_def update_effects_def row_of_Cons Let_def fence_example_def

lemma fence_example_run:
  "claim_dispatch [] ''mail-1'' (hex64 CHR ''a'') (hex64 CHR ''b'') (hex64 CHR ''c'') (hex64 CHR ''d'') =
     (Inr (hd fence_example), fence_example)"
  by (simp add: fence_eval)

text \<open>
  C1: An effect is dispatched at most once. After \<^verbatim>\<open>claim_dispatch\<close> has returned a
  receipt for an effect id, no sequence of further fence operations, by any number of
  processes, contains another accepted claim of it, and \<^verbatim>\<open>claim_dispatch\<close> with any
  evidence is refused without changing the fence.
\<close>

theorem dispatch_single_use:
  assumes "claim_dispatch F eid rd pd ad cd = (Inr r, F1)" and "runs fence_step F1 ls F2"
  shows "L_claim eid \<notin> set ls \<and> (\<exists>e. claim_dispatch F2 eid rd' pd' ad' cd' = (Inl e, F2))"
proof -
  have st: "effect_status F1 eid = Some EXECUTING"
    using claim_dispatch_claims [OF assms(1)] claim_step by blast
  obtain q where q: "effect_status F2 eid = Some q" "fence_edge\<^sup>*\<^sup>* EXECUTING q"
    using fence_machine.run_edges [OF assms(2) st] by blast
  have "was_claimed q" using claimed_stays [OF q(2)] by (simp add: was_claimed_def)
  then show ?thesis
    using claimed_no_claim [OF assms(2) st] claim_dispatch_refused [OF q(1)] by (simp add: was_claimed_def)
qed

theorem dispatch_single_use_witness:
  "\<exists>e. claim_dispatch fence_example ''mail-1'' (hex64 CHR ''a'') (hex64 CHR ''b'')
     (hex64 CHR ''c'') (hex64 CHR ''d'') = (Inl e, fence_example)"
  using dispatch_single_use [OF fence_example_run runs_nil] by blast

text \<open>
  On a fence that satisfies the row invariant, \<^verbatim>\<open>claim_dispatch\<close> succeeds exactly
  when the id is a non-empty string, the four digests pass the check, and the id is new or
  still reserved under the same (lower-cased) digests: with the primary key in place the
  lost-race branch is never taken.
\<close>

lemma claim_dispatch_iff:
  assumes "fence_ok F"
  shows "(\<exists>r F'. claim_dispatch F eid rd pd ad cd = (Inr r, F')) \<longleftrightarrow>
    eid \<noteq> [] \<and> (\<exists>b. digests_bind b rd pd ad cd \<and>
      (case effect_row eid F of None \<Rightarrow> True | Some r \<Rightarrow> b = r \<and> er_state r = RESERVED))"
proof
  assume "\<exists>r F'. claim_dispatch F eid rd pd ad cd = (Inr r, F')"
  then obtain r F' r1 F1 where c: "reserve F eid rd pd ad cd = Inr (r1, F1)" "fence_step F1 (L_claim eid) F'"
    using claim_dispatch_claims by blast
  then have "effect_status F1 eid = Some RESERVED" using claim_step by blast
  then show "eid \<noteq> [] \<and> (\<exists>b. digests_bind b rd pd ad cd \<and>
      (case effect_row eid F of None \<Rightarrow> True | Some r \<Rightarrow> b = r \<and> er_state r = RESERVED))"
    using c(1) unfolding reserve_ok_iff by (auto simp: effect_status_def split: option.splits)
next
  assume "eid \<noteq> [] \<and> (\<exists>b. digests_bind b rd pd ad cd \<and>
      (case effect_row eid F of None \<Rightarrow> True | Some r \<Rightarrow> b = r \<and> er_state r = RESERVED))"
  then obtain b where b: "eid \<noteq> []" "digests_bind b rd pd ad cd"
    "\<And>r. effect_row eid F = Some r \<Longrightarrow> b = r \<and> er_state r = RESERVED"
    by (auto split: option.splits)
  obtain r1 F1 where r1: "reserve F eid rd pd ad cd = Inr (r1, F1)" "effect_status F1 eid = Some RESERVED"
  proof (cases "effect_row eid F")
    case None
    let ?r = "b\<lparr>er_effect_id := eid, er_state := RESERVED, er_result := None, er_reconciliation := None\<rparr>"
    have "reserve F eid rd pd ad cd = Inr (?r, F @ [?r])"
      unfolding reserve_ok_iff using None b by (simp add: digests_bind_def)
    then show ?thesis using None by (intro that [of ?r "F @ [?r]"]) (simp_all add: effect_status_def row_of_append)
  next
    case (Some r)
    then have "reserve F eid rd pd ad cd = Inr (r, F)" unfolding reserve_ok_iff using b by simp
    then show ?thesis using Some b by (intro that [of r F]) (simp_all add: effect_status_def)
  qed
  have "fence_ok F1" by (rule fence_step_ok [OF step_reserve [OF r1(1)] assms])
  then obtain F2 where "claim_tx F1 eid = Inr F2" using claim_tx_total r1(2) by blast
  then show "\<exists>r F'. claim_dispatch F eid rd pd ad cd = (Inr r, F')"
    using r1(1) by (auto simp: claim_dispatch_def)
qed

lemma claim_dispatch_iff_witness:
  "\<exists>r F'. claim_dispatch fence_example ''mail-2'' (hex64 CHR ''a'') (hex64 CHR ''b'')
     (hex64 CHR ''c'') (hex64 CHR ''d'') = (Inr r, F')"
proof -
  have "fence_ok fence_example"
    by (simp add: fence_example_def fence_ok_def distinct_keys_def receipt_ok_def)
  from claim_dispatch_iff [OF this, of "''mail-2''" "hex64 CHR ''a''" "hex64 CHR ''b''" "hex64 CHR ''c''"
      "hex64 CHR ''d''"]
  show ?thesis
    by (simp add: fence_example_def row_of_Cons digests_bind_def
        exI [of _ "hd fence_example", unfolded fence_example_def])
qed

text \<open>
  The binding of an effect id is for ever: once a reservation has been accepted, a later
  reservation of the same id, after any sequence of fence operations, is accepted only with
  digests that normalise to the same four values, and then changes nothing.
\<close>

lemma reservation_binding_permanent:
  assumes "reserve F eid rd pd ad cd = Inr (r, F1)" "runs fence_step F1 ls F2"
    and "reserve F2 eid rd' pd' ad' cd' = Inr (r', F3)"
  shows "F3 = F2 \<and> same_binding r r' \<and> digests_bind r rd' pd' ad' cd'"
proof -
  have "effect_row eid F1 = Some r"
    using assms(1) unfolding reserve_ok_iff by (auto simp: row_of_append split: option.splits)
  then obtain r2 where "effect_row eid F2 = Some r2" "same_binding r r2"
    using fence_run_binding [OF assms(2)] by blast
  then show ?thesis using assms(3) unfolding reserve_ok_iff by (auto simp: same_binding_def digests_bind_def)
qed

lemma reservation_binding_permanent_witness:
  "reserve fence_example ''mail-1'' (hex64 CHR ''a'') (hex64 CHR ''b'') (hex64 CHR ''c'') (hex64 CHR ''d'')
     = Inr (hd fence_example, fence_example)
   \<and> digests_bind (hd fence_example) (hex64 CHR ''a'') (hex64 CHR ''b'') (hex64 CHR ''c'') (hex64 CHR ''d'')"
proof
  show r: "reserve fence_example ''mail-1'' (hex64 CHR ''a'') (hex64 CHR ''b'') (hex64 CHR ''c'') (hex64 CHR ''d'')
     = Inr (hd fence_example, fence_example)"
    by (simp add: fence_eval)
  show "digests_bind (hd fence_example) (hex64 CHR ''a'') (hex64 CHR ''b'') (hex64 CHR ''c'') (hex64 CHR ''d'')"
    using reservation_binding_permanent [OF r runs_nil r] by simp
qed

lemma unresolved_set: "set (unresolved F) = {r \<in> set F. \<exists>q. fence_edge (er_state r) q}"
proof -
  have "q \<in> {RESERVED, EXECUTING, ATTEMPTED_UNKNOWN} \<longleftrightarrow> (\<exists>q'. fence_edge q q')" for q
    by (cases q) auto
  then show ?thesis by (simp add: unresolved_def)
qed

lemma assert_clear_iff: "assert_clear F = Inr () \<longleftrightarrow> (\<forall>r\<in>set F. \<forall>q. \<not> fence_edge (er_state r) q)"
proof -
  have "unresolved F = [] \<longleftrightarrow> set (unresolved F) = {}" by simp
  also have "\<dots> \<longleftrightarrow> (\<forall>r\<in>set F. \<forall>q. \<not> fence_edge (er_state r) q)" unfolding unresolved_set by blast
  finally show ?thesis by (simp add: assert_clear_def result_simps)
qed

text \<open>
  The barrier waits for evidence. When an effect has been dispatched and
  \<^verbatim>\<open>assert_clear\<close> later passes, the effect's outcome is on record: it was committed with
  a result digest, or reconciled with a reconciliation evidence digest.
\<close>

lemma barrier_needs_outcome:
  assumes "fence_ok F" "effect_status F eid = Some EXECUTING" "runs fence_step F ls F'"
    and "assert_clear F' = Inr ()"
  shows "\<exists>r. effect_row eid F' = Some r \<and>
    (er_state r = COMMITTED \<and> er_result r \<noteq> None \<or>
     er_state r = RECONCILED_COMMITTED \<and> er_result r \<noteq> None \<and> er_reconciliation r \<noteq> None \<or>
     er_state r = RECONCILED_NO_EFFECT \<and> er_reconciliation r \<noteq> None)"
proof -
  obtain r where r: "effect_row eid F' = Some r" "fence_edge\<^sup>*\<^sup>* EXECUTING (er_state r)"
    using fence_machine.run_edges [OF assms(3,2)] by (auto simp: effect_status_def)
  have mem: "r \<in> set F'" using row_of_Some [OF r(1)] by simp
  have "receipt_ok r"
    using runs_invariant [where I = fence_ok, OF fence_step_ok assms(3,1)] mem by (simp add: fence_ok_def)
  moreover have "\<not> fence_edge (er_state r) q" for q using assms(4) mem by (simp add: assert_clear_iff)
  moreover have "was_claimed (er_state r)" using claimed_stays [OF r(2)] by (simp add: was_claimed_def)
  ultimately show ?thesis using r(1)
    by (cases "er_state r") (auto simp: receipt_ok_def was_claimed_def)
qed

lemma barrier_needs_outcome_witness:
  "\<exists>F' r. effect_row ''mail-1'' F' = Some r \<and> assert_clear F' = Inr () \<and> er_result r \<noteq> None"
proof -
  obtain r F' where s: "settle fence_example ''mail-1'' (Some (hex64 CHR ''e'')) True = Inr (r, F')"
    "assert_clear F' = Inr ()"
    by (simp add: fence_eval assert_clear_def unresolved_def)
  have "fence_ok fence_example" "effect_status fence_example ''mail-1'' = Some EXECUTING"
    by (simp_all add: fence_example_def fence_ok_def distinct_keys_def receipt_ok_def effect_status_def row_of_Cons)
  from barrier_needs_outcome [OF this runs_one [where step = fence_step, OF step_settle [OF s(1)]] s(2)] s
  show ?thesis by (auto simp: fence_eval)
qed

section \<open>What the currentness store guarantees\<close>

definition stored :: "currentness \<Rightarrow> string \<Rightarrow> int" where
  "stored C subject = (case row_of cr_subject_id subject C of None \<Rightarrow> -1 | Some r \<Rightarrow> cr_generation r)"

lemma row_of_upsert:
  "row_of cr_subject_id k (upsert_currentness row C) =
     (if k = cr_subject_id row then Some row else row_of cr_subject_id k C)"
  by (auto simp: upsert_currentness_def row_of_upd row_of_append split: option.splits)

lemma publish_Inr:
  assumes "publish E C subject payload expected = Inr (snap, C')"
  shows "\<exists>t row. canonical_json E payload = Inr t \<and> subject \<noteq> []
    \<and> map_option cr_generation (row_of cr_subject_id subject C) = expected
    \<and> row = \<lparr>cr_subject_id = subject, cr_generation = stored C subject + 1,
           cr_snapshot_digest = cs_snapshot_digest snap, cr_payload_digest = sha256_hex t,
           cr_payload_json = Some t\<rparr>
    \<and> canonical_digest E (snapshot_body subject (stored C subject + 1) (sha256_hex t)) = Inr (cs_snapshot_digest snap)
    \<and> snap = \<lparr>cs_subject_id = subject, cs_generation = stored C subject + 1,
           cs_snapshot_digest = cs_snapshot_digest snap, cs_payload_digest = sha256_hex t\<rparr>
    \<and> C' = upsert_currentness row C"
  using assms
  by (auto simp: publish_def result_simps Let_def stored_def split: option.splits)

inductive publish_step ::
  "py_env \<Rightarrow> currentness \<Rightarrow> string \<times> json \<times> int option \<Rightarrow> currentness \<Rightarrow> bool" for E where
  step_publish: "publish E C subject payload expected = Inr (snap, C') \<Longrightarrow>
     publish_step E C (subject, payload, expected) C'"

definition publish_expects :: "string \<Rightarrow> string \<times> json \<times> int option \<Rightarrow> int option" where
  "publish_expects subject l =
     (if fst l = subject then Some (case snd (snd l) of None \<Rightarrow> -1 | Some g \<Rightarrow> g) else None)"

lemma publish_step_stored:
  assumes "publish_step E C l C'"
  shows "stored C' k = (if fst l = k then stored C k + 1 else stored C k)
    \<and> (fst l = k \<longrightarrow> publish_expects k l = Some (stored C k))"
  using assms
proof cases
  case (step_publish subject payload expected snap)
  show ?thesis using publish_Inr [OF step_publish(2)] step_publish(1)
    by (auto simp: stored_def row_of_upsert publish_expects_def split: option.splits)
qed

interpretation currentness_cas: cas_store "publish_step E" "\<lambda>C. stored C k" "publish_expects k" for E k
proof unfold_locales
  fix C l C' n
  assume "publish_step E C l C'" "publish_expects k l = Some n"
  then show "stored C k = n \<and> stored C' k = n + 1"
    using publish_step_stored [of E C l C' k] by (auto simp: publish_expects_def split: if_splits)
next
  fix C l C' assume "publish_step E C l C'"
  then show "stored C k \<le> stored C' k" using publish_step_stored [of E C l C' k] by simp
qed

text \<open>
  Publishing is a compare-and-swap. In any sequence of accepted publications, at most
  one per subject names a given expected generation, whichever processes issue them.
\<close>

lemma publish_compare_and_swap:
  assumes "runs (publish_step E) C ls C'"
  shows "length (filter (\<lambda>l. fst l = subject \<and> snd (snd l) = expected) ls) \<le> 1"
proof -
  let ?n = "case expected of None \<Rightarrow> -1 | Some g \<Rightarrow> g"
  have "length (filter (\<lambda>l. fst l = subject \<and> snd (snd l) = expected) ls)
      \<le> length (filter (\<lambda>l. publish_expects subject l = Some ?n) ls)"
    by (induction ls) (auto simp: publish_expects_def)
  also have "\<dots> \<le> 1" by (rule currentness_cas.run_at_most_one [OF assms])
  finally show ?thesis .
qed

lemma publish_demo: "ok (publish demo_env [] ''repo'' (JObj [(''head'', JInt 7)]) None)"
proof -
  have p: "plain_json (JObj [(''head'', JInt 7)])"
    by (simp add: plain_eval)
  have b: "plain_json (snapshot_body s 0 d)" for s d
    by (simp add: snapshot_body_def plain_eval)
  show ?thesis
    by (simp add: publish_def Let_def canonical_json_plain [OF p] canonical_digest_plain [OF b])
qed

lemma publish_compare_and_swap_witness:
  "\<exists>C'. runs (publish_step demo_env) [] [(''repo'', JObj [(''head'', JInt 7)], None)] C' \<and>
     length (filter (\<lambda>l. fst l = ''repo'' \<and> snd (snd l) = None) [(''repo'', JObj [(''head'', JInt 7)], None :: int option)]) \<le> 1"
proof -
  obtain snap C' where "publish demo_env [] ''repo'' (JObj [(''head'', JInt 7)]) None = Inr (snap, C')"
    using publish_demo by auto
  then have r: "runs (publish_step demo_env) [] [(''repo'', JObj [(''head'', JInt 7)], None)] C'"
    by (intro runs_one step_publish)
  from publish_compare_and_swap [OF this] r show ?thesis by blast
qed

text \<open>
  What was published is what is read: after a publication the snapshot reads back with
  its digests verified, the payload reads back as the normalised value, and every other
  subject reads as before.
\<close>

lemma publish_read_roundtrip:
  assumes "publish E C subject payload expected = Inr (snap, C')"
  shows "read_currentness E C' subject = Inr snap
    \<and> (\<exists>w. normalize_value E None payload = Inr w \<and> read_payload C' subject = Inr w)
    \<and> (\<forall>k. k \<noteq> subject \<longrightarrow>
          read_currentness E C' k = read_currentness E C k \<and> read_payload C' k = read_payload C k)"
proof -
  obtain t row where t: "canonical_json E payload = Inr t"
    "row = \<lparr>cr_subject_id = subject, cr_generation = stored C subject + 1,
           cr_snapshot_digest = cs_snapshot_digest snap, cr_payload_digest = sha256_hex t,
           cr_payload_json = Some t\<rparr>"
    "canonical_digest E (snapshot_body subject (stored C subject + 1) (sha256_hex t)) = Inr (cs_snapshot_digest snap)"
    "snap = \<lparr>cs_subject_id = subject, cs_generation = stored C subject + 1,
           cs_snapshot_digest = cs_snapshot_digest snap, cs_payload_digest = sha256_hex t\<rparr>"
    "C' = upsert_currentness row C"
    using publish_Inr [OF assms] by blast
  have row: "row_of cr_subject_id k C' = (if k = subject then Some row else row_of cr_subject_id k C)" for k
    by (simp add: t(2,5) row_of_upsert)
  have "read_currentness E C' subject = Inr snap"
    using t(4) by (simp add: read_currentness_def row t(2,3))
  obtain w where w: "normalize_value E None payload = Inr w" "t = json_text w"
    using lantern.enc_text [OF t(1)] by blast
  then have "read_payload C' subject = Inr w"
    by (simp add: read_payload_def row t(2) normalize_wf)
  moreover have "read_currentness E C' k = read_currentness E C k \<and> read_payload C' k = read_payload C k"
    if "k \<noteq> subject" for k
    using that by (simp add: read_currentness_def read_payload_def row)
  ultimately show ?thesis using \<open>read_currentness E C' subject = Inr snap\<close> w(1) by blast
qed

lemma publish_read_roundtrip_witness:
  "\<exists>snap C'. publish demo_env [] ''repo'' (JObj [(''head'', JInt 7)]) None = Inr (snap, C') \<and>
     read_currentness demo_env C' ''repo'' = Inr snap"
proof -
  obtain snap C' where p: "publish demo_env [] ''repo'' (JObj [(''head'', JInt 7)]) None = Inr (snap, C')"
    using publish_demo by auto
  from publish_read_roundtrip [OF p] p show ?thesis by blast
qed

end
