(* ===== verification/Py_Values.thy ===== *)
theory Py_Values
  imports Canonical
begin

text \<open>
  The Python operations the stores apply to a value they have read back from a JSON column:
  subscripting, \<^verbatim>\<open>tuple\<close>, \<^verbatim>\<open>str\<close> and \<^verbatim>\<open>int\<close>. A column that
  was tampered with can hold any value, so each of them is modelled on every JSON value
  with the exception it raises. The text and the truncation of a float come from
  \<open>py_env\<close>.
\<close>

datatype py_exc = KeyError string | TypeError | ValueError | AttributeError

definition is_dict :: "json \<Rightarrow> bool" where
  "is_dict v = (case v of JObj _ \<Rightarrow> True | _ \<Rightarrow> False)"

text \<open>\<^verbatim>\<open>payload[key]\<close> and \<^verbatim>\<open>payload.get(key)\<close>, which need a dict.\<close>

definition py_item :: "string \<Rightarrow> json \<Rightarrow> (py_exc, json) result" where
  "py_item k payload =
     (if is_dict payload then or_raise (jget k payload) (KeyError k) else Inl TypeError)"

definition py_dict_get :: "string \<Rightarrow> json \<Rightarrow> (py_exc, json) result" where
  "py_dict_get k payload = (if is_dict payload then Inr (py_get k payload) else Inl AttributeError)"

fun py_tuple :: "json \<Rightarrow> (py_exc, json list) result" where
  "py_tuple (JArr vs) = Inr vs"
| "py_tuple (JStr s) = Inr (map (\<lambda>c. JStr [c]) s)"
| "py_tuple (JObj kvs) = Inr (map (\<lambda>kv. JStr (fst kv)) kvs)"
| "py_tuple _ = Inl TypeError"

text \<open>
  \<^verbatim>\<open>dict(value)\<close>: a dict, or an iterable of pairs with text keys; a pair whose key is
  not text is refused here, where the encoders refuse the dict it would make.
\<close>

definition py_pair :: "json \<Rightarrow> (py_exc, string \<times> json) result" where
  "py_pair v =
     rbind (py_tuple v) (\<lambda>xs.
       (case xs of
          [JStr k, w] \<Rightarrow> Inr (k, w)
        | [_, w] \<Rightarrow> Inl TypeError
        | _ \<Rightarrow> Inl ValueError))"

definition py_dict :: "json \<Rightarrow> (py_exc, json) result" where
  "py_dict v =
     (if is_dict v then Inr v
      else rbind (py_tuple v) (\<lambda>xs. rbind (rmap_list py_pair xs) (\<lambda>kvs. Inr (JObj (dict_of kvs)))))"

section \<open>Text of a value\<close>

definition is_printable :: "char \<Rightarrow> bool" where
  "is_printable c \<longleftrightarrow> 32 \<le> code c \<and> \<not> (127 \<le> code c \<and> code c \<le> 160) \<and> code c \<noteq> 173"

definition repr_char :: "char \<Rightarrow> char \<Rightarrow> string" where
  "repr_char q c =
     (if c = q \<or> c = CHR 0x5C then [CHR 0x5C, c]
      else if c = CHR 0x0A then [CHR 0x5C, CHR ''n'']
      else if c = CHR 0x0D then [CHR 0x5C, CHR ''r'']
      else if c = CHR 0x09 then [CHR 0x5C, CHR ''t'']
      else if is_printable c then [c]
      else [CHR 0x5C, CHR ''x'', hex_digit (code c div 16), hex_digit (code c)])"

definition repr_str :: "string \<Rightarrow> string" where
  "repr_str s =
     (let q = (if CHR 0x27 \<in> set s \<and> CHR 0x22 \<notin> set s then CHR 0x22 else CHR 0x27)
      in q # concat (map (repr_char q) s) @ [q])"

fun comma_join :: "string list \<Rightarrow> string" where
  "comma_join [] = []"
| "comma_join [x] = x"
| "comma_join (x # y # ys) = x @ '', '' @ comma_join (y # ys)"

fun py_repr :: "py_env \<Rightarrow> json \<Rightarrow> string" where
  "py_repr E JNull = ''None''"
| "py_repr E (JBool b) = (if b then ''True'' else ''False'')"
| "py_repr E (JInt i) = show_int i"
| "py_repr E (JFloat t) = (case float_repr E t of
       Some r \<Rightarrow> r
     | None \<Rightarrow> if t = ''NaN'' then ''nan'' else if starts_with t ''-'' then ''-inf'' else ''inf'')"
| "py_repr E (JStr s) = repr_str s"
| "py_repr E (JArr vs) = ''['' @ comma_join (map (py_repr E) vs) @ '']''"
| "py_repr E (JObj kvs) =
     ''{'' @ comma_join (map (\<lambda>(k, v). repr_str k @ '': '' @ py_repr E v) kvs) @ ''}''"

definition py_str :: "py_env \<Rightarrow> json \<Rightarrow> string" where
  "py_str E v = (case v of JStr s \<Rightarrow> s | _ \<Rightarrow> py_repr E v)"

section \<open>Integer of a value\<close>

fun scan_dec :: "bool \<Rightarrow> nat \<Rightarrow> string \<Rightarrow> (nat \<times> string) option" where
  "scan_dec underscore n [] = (if underscore then None else Some (n, []))"
| "scan_dec underscore n (c # cs) =
     (if c = CHR ''_'' then (if underscore then None else scan_dec True n cs)
      else if is_digit c then scan_dec False (10 * n + digit_val c) cs
      else if underscore then None else Some (n, c # cs))"

definition int10 :: "string \<Rightarrow> int option" where
  "int10 s =
     (let t = dropWhile is_c_space (to_ascii_spaces s);
          u = skip_sign t;
          sign = (if starts_with t ''-'' then -1 else 1)
      in (case u of
            [] \<Rightarrow> None
          | c # _ \<Rightarrow>
              if \<not> is_digit c then None
              else (case scan_dec False 0 u of
                      None \<Rightarrow> None
                    | Some (n, r) \<Rightarrow> if list_all is_c_space r then Some (sign * int n) else None)))"

fun py_int :: "py_env \<Rightarrow> json \<Rightarrow> (py_exc, int) result" where
  "py_int E (JInt i) = Inr i"
| "py_int E (JBool b) = Inr (if b then 1 else 0)"
| "py_int E (JStr s) = or_raise (int10 s) ValueError"
| "py_int E (JFloat t) = or_raise (float_trunc E t) ValueError"
| "py_int E _ = Inl TypeError"

section \<open>Equality of values\<close>

text \<open>
  \<^verbatim>\<open>==\<close>: truth values are the integers 0 and 1, a float is compared by value (which
  \<open>py_env\<close> decides), lists in order and dicts by key.
\<close>

fun num_value :: "json \<Rightarrow> int option" where
  "num_value (JBool b) = Some (if b then 1 else 0)"
| "num_value (JInt i) = Some i"
| "num_value _ = None"

fun is_number :: "json \<Rightarrow> bool" where
  "is_number (JFloat t) = True"
| "is_number v = (num_value v \<noteq> None)"

function (sequential) py_eq :: "py_env \<Rightarrow> json \<Rightarrow> json \<Rightarrow> bool" where
  "py_eq E (JArr xs) (JArr ys) = (length xs = length ys \<and> (\<forall>p\<in>set (zip xs ys). py_eq E (fst p) (snd p)))"
| "py_eq E (JObj xs) (JObj ys) =
     (length xs = length ys \<and>
      (\<forall>kv\<in>set xs. case map_of ys (fst kv) of None \<Rightarrow> False | Some w \<Rightarrow> py_eq E (snd kv) w))"
| "py_eq E (JFloat t) w = (is_number w \<and> float_equal E t w)"
| "py_eq E v (JFloat t) = (is_number v \<and> float_equal E t v)"
| "py_eq E v w = (if num_value v \<noteq> None then num_value v = num_value w else v = w)"
  by pat_completeness auto
termination
  by (relation "measure (\<lambda>(_, v, _). size v)")
    (auto dest!: set_zip_leftD simp: less_Suc_eq_le size_list_estimation' split: prod.splits
      intro: order_trans [OF _ size_list_estimation'])

section \<open>On what the stores themselves write\<close>

lemma py_str_simps [simp]: "py_str E (JStr s) = s" "py_str E (JInt i) = show_int i"
  by (simp_all add: py_str_def)

lemma is_dict_simps [simp]: "is_dict (JObj kvs)" "is_dict (sorted_keys (JObj kvs))"
  by (simp_all add: is_dict_def)

lemma py_dict_obj [simp]: "is_dict v \<Longrightarrow> py_dict v = Inr v"
  by (simp add: py_dict_def)

lemma py_item_obj [simp]: "py_item k (JObj kvs) = or_raise (map_of kvs k) (KeyError k)"
  by (simp add: py_item_def)

lemma py_item_sorted:
  "distinct (map fst kvs) \<Longrightarrow>
     py_item k (sorted_keys (JObj kvs)) = or_raise (map_option sorted_keys (map_of kvs k)) (KeyError k)"
  unfolding py_item_def by (simp only: jget_sorted_keys is_dict_simps if_True)

lemma py_dict_get_sorted:
  "distinct (map fst kvs) \<Longrightarrow>
     py_dict_get k (sorted_keys (JObj kvs)) =
       Inr (case map_of kvs k of None \<Rightarrow> JNull | Some v \<Rightarrow> sorted_keys v)"
  unfolding py_dict_get_def by (simp only: py_get_sorted is_dict_simps if_True)

end
