(* ===== verification/Memory_Ledger.thy ===== *)
theory Memory_Ledger
  imports Py_Values
begin

text \<open>
  \<^verbatim>\<open>vera_memory.ledger\<close>: admission of memory records under an expected head, with
  replay of operations, supersession of records and a digest chain of heads. The record
  \<open>ledger\<close> is the database file: the rows of \<^verbatim>\<open>records\<close> and
  \<^verbatim>\<open>operations\<close> and the two values of \<^verbatim>\<open>meta\<close>.
\<close>

section \<open>Requests and payloads\<close>

datatype memory_class = AUTOBIOGRAPHICAL | WORKING_PROJECT | HISTORICAL_AUDIT

fun memory_class_value :: "memory_class \<Rightarrow> string" where
  "memory_class_value AUTOBIOGRAPHICAL = ''AUTOBIOGRAPHICAL''"
| "memory_class_value WORKING_PROJECT = ''WORKING_PROJECT''"
| "memory_class_value HISTORICAL_AUDIT = ''HISTORICAL_AUDIT''"

record admission_request =
  aq_record_id :: string
  aq_text :: string
  aq_memory_class :: memory_class
  aq_source_actor :: string
  aq_authority_ref :: string
  aq_privacy_ref :: string
  aq_provenance_refs :: "string list"
  aq_operation_id :: string
  aq_project_id :: string
  aq_governed_identity_id :: string
  aq_supersedes :: "string option"

datatype ledger_error =
    Empty_field string
  | Provenance_empty
  | Provenance_repeated
  | Supersedes_empty
  | Ledger_config string
  | Scope_mismatch
  | Expected_head_required
  | Replay_differs
  | Stale_memory_head
  | Record_exists
  | Predecessor_not_current
  | Unique_digest
  | Ledger_canon canon_error
  | Ledger_json json_error
  | Ledger_key_error string
  | Corrupt_json
  | Duplicate_stored_key
  | Non_finite_stored
  | Payload_digest_mismatch
  | Corrupt_values
  | Lineage_mismatch
  | Multiple_successors
  | Successor_mismatch
  | Status_contradicts
  | Bad_memory_class
  | Ledger_py py_exc
  | Bad_binding

datatype memory_status = CURRENT | SUPERSEDED

record record_row =
  rr_record_id :: string
  rr_payload_json :: string
  rr_status :: memory_status
  rr_superseded_by :: "string option"
  rr_record_digest :: string
  rr_supersedes_id :: "string option"

record operation_row =
  op_operation_id :: string
  op_request_digest :: string
  op_record_id :: string
  op_receipt_json :: string

record ledger =
  ld_project_id :: string
  ld_identity_id :: string
  ld_records :: "record_row list"
  ld_operations :: "operation_row list"
  ld_generation :: int
  ld_head :: string

fun first_empty :: "(string \<times> string) list \<Rightarrow> string option" where
  "first_empty [] = None"
| "first_empty ((v, label) # rest) = (if v = [] then Some label else first_empty rest)"

definition validate_request :: "admission_request \<Rightarrow> (ledger_error, unit) result" where
  "validate_request q =
     (case first_empty [(aq_record_id q, ''record_id''), (aq_text q, ''text''),
          (aq_source_actor q, ''source_actor''), (aq_authority_ref q, ''authority_ref''),
          (aq_privacy_ref q, ''privacy_ref''), (aq_operation_id q, ''operation_id''),
          (aq_project_id q, ''project_id''), (aq_governed_identity_id q, ''governed_identity_id'')] of
        Some label \<Rightarrow> Inl (Empty_field label)
      | None \<Rightarrow>
          rbind (ensure (\<forall>ref\<in>set (aq_provenance_refs q). ref \<noteq> []) Provenance_empty) (\<lambda>_.
          rbind (ensure (length (aq_provenance_refs q) = card (set (aq_provenance_refs q))) Provenance_repeated) (\<lambda>_.
          ensure (aq_supersedes q \<noteq> Some []) Supersedes_empty)))"

definition request_fields :: "admission_request \<Rightarrow> (string \<times> json) list" where
  "request_fields q =
     [(''record_id'', JStr (aq_record_id q)), (''text'', JStr (aq_text q)),
      (''memory_class'', JStr (memory_class_value (aq_memory_class q))),
      (''source_actor'', JStr (aq_source_actor q)), (''authority_ref'', JStr (aq_authority_ref q)),
      (''privacy_ref'', JStr (aq_privacy_ref q)),
      (''provenance_refs'', JArr (map JStr (aq_provenance_refs q))),
      (''operation_id'', JStr (aq_operation_id q)), (''project_id'', JStr (aq_project_id q)),
      (''governed_identity_id'', JStr (aq_governed_identity_id q)),
      (''supersedes'', opt_str (aq_supersedes q))]"

definition request_payload :: "admission_request \<Rightarrow> (ledger_error, json) result" where
  "request_payload q = rbind (validate_request q) (\<lambda>_. Inr (JObj (request_fields q)))"

definition request_digest :: "py_env \<Rightarrow> admission_request \<Rightarrow> (ledger_error, string) result" where
  "request_digest E q = rbind (request_payload q) (\<lambda>p. map_err Ledger_canon (canonical_digest E p))"

definition record_payload :: "py_env \<Rightarrow> admission_request \<Rightarrow> (ledger_error, json) result" where
  "record_payload E q =
     rbind (request_digest E q) (\<lambda>d. Inr (JObj (request_fields q @ [(''request_digest'', JStr d)])))"

section \<open>Stored payloads\<close>

definition strict_record_payload ::
  "py_env \<Rightarrow> string \<Rightarrow> string \<Rightarrow> string \<Rightarrow> (ledger_error, json) result" where
  "strict_record_payload E raw record_id digest =
     rbind (case loads strict_hooks raw of
              Inr v \<Rightarrow> Inr v
            | Inl (Duplicate_key k) \<Rightarrow> Inl Duplicate_stored_key
            | Inl (Non_finite t) \<Rightarrow> Inl Non_finite_stored
            | Inl _ \<Rightarrow> Inl Corrupt_json) (\<lambda>payload.
     rbind (ensure (is_dict payload \<and>
                    py_get ''record_id'' payload = JStr record_id) Payload_digest_mismatch) (\<lambda>_.
     rbind (map_err (\<lambda>_. Corrupt_values) (canonical_json E payload)) (\<lambda>normalized.
     rbind (map_err (\<lambda>_. Corrupt_values) (canonical_digest E payload)) (\<lambda>actual_digest.
     rbind (ensure (normalized = raw \<and> actual_digest = digest) Payload_digest_mismatch) (\<lambda>_.
       Inr payload)))))"

section \<open>Opening a ledger\<close>

text \<open>
  \<^verbatim>\<open>_init_db\<close>: a file whose table has no \<^verbatim>\<open>supersedes_id\<close> column is upgraded row by
  row; a value bound to the TEXT column keeps its text, and a list or object cannot be
  bound. A file without \<^verbatim>\<open>meta\<close> rows gets the genesis head.
\<close>

definition genesis_head :: string where
  "genesis_head = sha256_hexdigest ''vera-memory-genesis-v1''"

fun bind_text :: "json \<Rightarrow> (ledger_error, string option) result" where
  "bind_text JNull = Inr None"
| "bind_text (JStr s) = Inr (Some s)"
| "bind_text (JInt i) = Inr (Some (show_int i))"
| "bind_text (JBool b) = Inr (Some (if b then ''1'' else ''0''))"
| "bind_text _ = Inl Bad_binding"

definition migrate_row :: "py_env \<Rightarrow> record_row \<Rightarrow> (ledger_error, record_row) result" where
  "migrate_row E r =
     rbind (strict_record_payload E (rr_payload_json r) (rr_record_id r) (rr_record_digest r)) (\<lambda>payload.
     rbind (bind_text (py_get ''supersedes'' payload)) (\<lambda>s. Inr (r\<lparr>rr_supersedes_id := s\<rparr>)))"

definition open_ledger ::
  "py_env \<Rightarrow> string \<Rightarrow> string \<Rightarrow> bool \<Rightarrow> record_row list \<Rightarrow> operation_row list \<Rightarrow> (int \<times> string) option \<Rightarrow>
     (ledger_error, ledger) result" where
  "open_ledger E project_id identity_id has_supersedes_id rows ops meta =
     rbind (ensure (project_id \<noteq> []) (Ledger_config ''project_id'')) (\<lambda>_.
     rbind (ensure (identity_id \<noteq> []) (Ledger_config ''identity_id'')) (\<lambda>_.
     rbind (if has_supersedes_id then Inr rows else rmap_list (migrate_row E) rows) (\<lambda>rows'.
       let (generation, head) = (case meta of None \<Rightarrow> (0, genesis_head) | Some m \<Rightarrow> m)
       in Inr \<lparr>ld_project_id = project_id, ld_identity_id = identity_id, ld_records = rows',
               ld_operations = ops, ld_generation = generation, ld_head = head\<rparr>)))"

section \<open>Admission\<close>

abbreviation record_row_of :: "string \<Rightarrow> ledger \<Rightarrow> record_row option" where
  "record_row_of k L \<equiv> row_of rr_record_id k (ld_records L)"

abbreviation operation_of :: "string \<Rightarrow> ledger \<Rightarrow> operation_row option" where
  "operation_of k L \<equiv> row_of op_operation_id k (ld_operations L)"

definition head_material :: "string \<Rightarrow> int \<Rightarrow> string \<Rightarrow> string \<Rightarrow> string option \<Rightarrow> json" where
  "head_material previous generation record_id record_digest supersedes =
     JObj [(''previous_head'', JStr previous), (''generation'', JInt generation),
           (''record_id'', JStr record_id), (''record_digest'', JStr record_digest),
           (''supersedes'', opt_str supersedes)]"

definition admission_receipt :: "admission_request \<Rightarrow> string \<Rightarrow> string \<Rightarrow> string \<Rightarrow> int \<Rightarrow> json" where
  "admission_receipt q request_dig record_dig new_head new_generation =
     JObj [(''schema'', JStr ''VERA_MONO_MEMORY_ADMISSION_RECEIPT_V1''),
           (''operation_id'', JStr (aq_operation_id q)), (''record_id'', JStr (aq_record_id q)),
           (''request_digest'', JStr request_dig), (''record_digest'', JStr record_dig),
           (''memory_class'', JStr (memory_class_value (aq_memory_class q))),
           (''project_id'', JStr (aq_project_id q)),
           (''governed_identity_id'', JStr (aq_governed_identity_id q)),
           (''authority_ref'', JStr (aq_authority_ref q)), (''privacy_ref'', JStr (aq_privacy_ref q)),
           (''provenance_refs'', JArr (map JStr (aq_provenance_refs q))),
           (''store_head'', JStr new_head), (''generation'', JInt new_generation),
           (''claim_ceiling'',
             JStr ''LOCAL_DURABLE_RECORD_NOT_SELF_AUTHENTICATING_POLICY_OR_CURRENT_TRUTH'')]"

definition supersede_predecessor ::
  "admission_request \<Rightarrow> record_row list \<Rightarrow> (ledger_error, record_row list) result" where
  "supersede_predecessor q rows =
     (case aq_supersedes q of
        None \<Rightarrow> Inr rows
      | Some p \<Rightarrow>
          rbind (ensure (map_option rr_status (row_of rr_record_id p rows) = Some CURRENT) Predecessor_not_current)
            (\<lambda>_. Inr (upd_row rr_record_id p
                (\<lambda>r. r\<lparr>rr_status := SUPERSEDED, rr_superseded_by := Some (aq_record_id q)\<rparr>) rows)))"

definition admit_new ::
  "py_env \<Rightarrow> ledger \<Rightarrow> admission_request \<Rightarrow> string \<Rightarrow> (ledger_error, json \<times> ledger) result" where
  "admit_new E L q expected_head =
     rbind (ensure (ld_head L = expected_head) Stale_memory_head) (\<lambda>_.
     rbind (ensure (record_row_of (aq_record_id q) L = None) Record_exists) (\<lambda>_.
     rbind (supersede_predecessor q (ld_records L)) (\<lambda>rows.
     rbind (record_payload E q) (\<lambda>payload.
     rbind (map_err Ledger_canon (canonical_digest E payload)) (\<lambda>record_digest.
     rbind (map_err Ledger_canon (canonical_json E payload)) (\<lambda>payload_json.
     rbind (ensure (record_digest \<notin> rr_record_digest ` set rows) Unique_digest) (\<lambda>_.
       let row = \<lparr>rr_record_id = aq_record_id q, rr_payload_json = payload_json, rr_status = CURRENT,
             rr_superseded_by = None, rr_record_digest = record_digest, rr_supersedes_id = aq_supersedes q\<rparr>;
           new_generation = ld_generation L + 1
       in rbind (map_err Ledger_canon (canonical_digest E
              (head_material (ld_head L) new_generation (aq_record_id q) record_digest (aq_supersedes q))))
            (\<lambda>new_head.
          rbind (request_digest E q) (\<lambda>request_dig.
          let receipt = admission_receipt q request_dig record_digest new_head new_generation
          in rbind (map_err Ledger_canon (canonical_json E receipt)) (\<lambda>receipt_json.
             let op = \<lparr>op_operation_id = aq_operation_id q, op_request_digest = request_dig,
                   op_record_id = aq_record_id q, op_receipt_json = receipt_json\<rparr>
             in Inr (receipt, L\<lparr>ld_records := rows @ [row], ld_operations := ld_operations L @ [op],
                   ld_generation := new_generation, ld_head := new_head\<rparr>)))))))))))"

definition admit ::
  "py_env \<Rightarrow> ledger \<Rightarrow> admission_request \<Rightarrow> string \<Rightarrow> (ledger_error, json \<times> ledger) result" where
  "admit E L q expected_head =
     rbind (validate_request q) (\<lambda>_.
     rbind (ensure (aq_project_id q = ld_project_id L \<and> aq_governed_identity_id q = ld_identity_id L)
              Scope_mismatch) (\<lambda>_.
     rbind (ensure (expected_head \<noteq> []) Expected_head_required) (\<lambda>_.
       case operation_of (aq_operation_id q) L of
         Some replay \<Rightarrow>
           rbind (request_digest E q) (\<lambda>d.
           rbind (ensure (op_request_digest replay = d) Replay_differs) (\<lambda>_.
           rbind (map_err Ledger_json (loads plain_hooks (op_receipt_json replay))) (\<lambda>receipt.
             Inr (receipt, L))))
       | None \<Rightarrow> admit_new E L q expected_head)))"

section \<open>Reading\<close>

record memory_record =
  mr_record_id :: json
  mr_text :: json
  mr_memory_class :: memory_class
  mr_source_actor :: json
  mr_authority_ref :: json
  mr_privacy_ref :: json
  mr_provenance_refs :: "json list"
  mr_operation_id :: json
  mr_project_id :: json
  mr_governed_identity_id :: json
  mr_supersedes :: json
  mr_status :: memory_status
  mr_superseded_by :: "string option"
  mr_record_digest :: string

definition parse_memory_class :: "json \<Rightarrow> (ledger_error, memory_class) result" where
  "parse_memory_class v =
     or_raise (find (\<lambda>c. v = JStr (memory_class_value c)) [AUTOBIOGRAPHICAL, WORKING_PROJECT, HISTORICAL_AUDIT])
       Bad_memory_class"

definition field :: "string \<Rightarrow> json \<Rightarrow> (ledger_error, json) result" where
  "field k payload = map_err Ledger_py (py_item k payload)"

definition make_record :: "json \<Rightarrow> record_row \<Rightarrow> (ledger_error, memory_record) result" where
  "make_record payload row =
     rbind (field ''record_id'' payload) (\<lambda>rid.
     rbind (field ''text'' payload) (\<lambda>txt.
     rbind (rbind (field ''memory_class'' payload) parse_memory_class) (\<lambda>cls.
     rbind (field ''source_actor'' payload) (\<lambda>actor.
     rbind (field ''authority_ref'' payload) (\<lambda>authority.
     rbind (field ''privacy_ref'' payload) (\<lambda>privacy.
     rbind (rbind (field ''provenance_refs'' payload) (\<lambda>v. map_err Ledger_py (py_tuple v))) (\<lambda>refs.
     rbind (field ''operation_id'' payload) (\<lambda>oid.
     rbind (field ''project_id'' payload) (\<lambda>pid.
     rbind (field ''governed_identity_id'' payload) (\<lambda>gid.
     rbind (field ''supersedes'' payload) (\<lambda>sup.
       Inr \<lparr>mr_record_id = rid, mr_text = txt, mr_memory_class = cls, mr_source_actor = actor,
            mr_authority_ref = authority, mr_privacy_ref = privacy, mr_provenance_refs = refs,
            mr_operation_id = oid, mr_project_id = pid, mr_governed_identity_id = gid,
            mr_supersedes = sup, mr_status = rr_status row, mr_superseded_by = rr_superseded_by row,
            mr_record_digest = rr_record_digest row\<rparr>)))))))))))"

definition successors :: "ledger \<Rightarrow> string \<Rightarrow> record_row list" where
  "successors L k = filter (\<lambda>r. rr_supersedes_id r = Some k) (ld_records L)"

definition successor_id :: "py_env \<Rightarrow> ledger \<Rightarrow> string \<Rightarrow> (ledger_error, string option) result" where
  "successor_id E L record_id =
     (case successors L record_id of
        [] \<Rightarrow> Inr None
      | [s] \<Rightarrow>
          rbind (strict_record_payload E (rr_payload_json s) (rr_record_id s) (rr_record_digest s)) (\<lambda>payload.
          rbind (ensure (py_get ''supersedes'' payload = JStr record_id) Successor_mismatch) (\<lambda>_.
            Inr (Some (rr_record_id s))))
      | _ \<Rightarrow> Inl Multiple_successors)"

definition read_record ::
  "py_env \<Rightarrow> ledger \<Rightarrow> string \<Rightarrow> string option \<Rightarrow> (ledger_error, memory_record) result" where
  "read_record E L record_id expected_head =
     rbind (ensure (expected_head = None \<or> expected_head = Some (ld_head L)) Stale_memory_head) (\<lambda>_.
     rbind (or_raise (record_row_of record_id L) (Ledger_key_error record_id)) (\<lambda>row.
     rbind (strict_record_payload E (rr_payload_json row) record_id (rr_record_digest row)) (\<lambda>payload.
     rbind (ensure (opt_str (rr_supersedes_id row) = py_get ''supersedes'' payload) Lineage_mismatch) (\<lambda>_.
     rbind (successor_id E L record_id) (\<lambda>succ.
     rbind (ensure (rr_superseded_by row = succ \<and>
                    rr_status row = (if succ = None \<or> succ = Some [] then CURRENT else SUPERSEDED))
              Status_contradicts) (\<lambda>_.
       make_record payload row))))))"

section \<open>Payloads the ledger writes\<close>

definition request_json :: "admission_request \<Rightarrow> json" where
  "request_json q = JObj (request_fields q)"

definition record_json :: "admission_request \<Rightarrow> json" where
  "record_json q = JObj (request_fields q @ [(''request_digest'', JStr (digest_of (request_json q)))])"

definition record_row_for :: "admission_request \<Rightarrow> record_row" where
  "record_row_for q = \<lparr>rr_record_id = aq_record_id q, rr_payload_json = text_of (record_json q),
     rr_status = CURRENT, rr_superseded_by = None, rr_record_digest = digest_of (record_json q),
     rr_supersedes_id = aq_supersedes q\<rparr>"

definition next_head :: "ledger \<Rightarrow> admission_request \<Rightarrow> string" where
  "next_head L q = digest_of (head_material (ld_head L) (ld_generation L + 1) (aq_record_id q)
     (digest_of (record_json q)) (aq_supersedes q))"

definition receipt_for :: "ledger \<Rightarrow> admission_request \<Rightarrow> json" where
  "receipt_for L q = admission_receipt q (digest_of (request_json q)) (digest_of (record_json q))
     (next_head L q) (ld_generation L + 1)"

definition operation_for :: "ledger \<Rightarrow> admission_request \<Rightarrow> operation_row" where
  "operation_for L q = \<lparr>op_operation_id = aq_operation_id q, op_request_digest = digest_of (request_json q),
     op_record_id = aq_record_id q, op_receipt_json = text_of (receipt_for L q)\<rparr>"

lemma record_row_for_simps [simp]:
  "rr_record_id (record_row_for q) = aq_record_id q"
  "rr_payload_json (record_row_for q) = text_of (record_json q)"
  "rr_status (record_row_for q) = CURRENT"
  "rr_superseded_by (record_row_for q) = None"
  "rr_record_digest (record_row_for q) = digest_of (record_json q)"
  "rr_supersedes_id (record_row_for q) = aq_supersedes q"
  by (simp_all add: record_row_for_def)

lemma plain_request [simp]: "plain_json (request_json q)"
  by (simp add: request_json_def request_fields_def plain_eval)

lemma plain_record [simp]: "plain_json (record_json q)"
  by (simp add: record_json_def request_fields_def plain_eval)

lemma plain_head_material: "\<bar>g\<bar> \<le> MAX_SAFE_INTEGER \<Longrightarrow> plain_json (head_material p g i d s)"
  by (simp add: head_material_def path_hint_def time_hint_def ends_with_def)

lemma plain_receipt: "\<bar>g\<bar> \<le> MAX_SAFE_INTEGER \<Longrightarrow> plain_json (admission_receipt q rd d h g)"
  by (simp add: admission_receipt_def path_hint_def time_hint_def ends_with_def)

lemma request_digest_Inr: "validate_request q = Inr () \<Longrightarrow> request_digest E q = Inr (digest_of (request_json q))"
  by (simp add: request_digest_def request_payload_def canonical_digest_of flip: request_json_def)

lemma record_payload_Inr: "validate_request q = Inr () \<Longrightarrow> record_payload E q = Inr (record_json q)"
  by (simp add: record_payload_def request_digest_Inr record_json_def)

lemma record_field:
  "jget k (sorted_keys (record_json q)) =
     map_option sorted_keys (map_of (request_fields q @ [(''request_digest'', JStr (digest_of (request_json q)))]) k)"
  unfolding record_json_def by (rule jget_sorted_keys) (simp add: request_fields_def)

lemma record_is_dict: "is_dict (sorted_keys (record_json q))"
  unfolding record_json_def by (rule is_dict_simps)

lemma strict_record_payload_own:
  "strict_record_payload E (text_of (record_json q)) (aq_record_id q) (digest_of (record_json q)) =
     Inr (sorted_keys (record_json q))"
proof -
  have "py_get ''record_id'' (sorted_keys (record_json q)) = JStr (aq_record_id q)"
    by (simp add: py_get_def record_field request_fields_def)
  then show ?thesis using record_is_dict [of q]
    by (simp add: strict_record_payload_def loads_text_of canonical_text canonical_digest_of sorted_keys_plain)
qed

lemma record_supersedes: "py_get ''supersedes'' (sorted_keys (record_json q)) = opt_str (aq_supersedes q)"
  by (simp add: py_get_def record_field request_fields_def)

definition record_for :: "admission_request \<Rightarrow> record_row \<Rightarrow> memory_record" where
  "record_for q row = \<lparr>mr_record_id = JStr (aq_record_id q), mr_text = JStr (aq_text q),
     mr_memory_class = aq_memory_class q, mr_source_actor = JStr (aq_source_actor q),
     mr_authority_ref = JStr (aq_authority_ref q), mr_privacy_ref = JStr (aq_privacy_ref q),
     mr_provenance_refs = map JStr (aq_provenance_refs q), mr_operation_id = JStr (aq_operation_id q),
     mr_project_id = JStr (aq_project_id q), mr_governed_identity_id = JStr (aq_governed_identity_id q),
     mr_supersedes = opt_str (aq_supersedes q), mr_status = rr_status row,
     mr_superseded_by = rr_superseded_by row, mr_record_digest = rr_record_digest row\<rparr>"

lemma parse_memory_class_value [simp]: "parse_memory_class (JStr (memory_class_value c)) = Inr c"
  by (cases c) (simp_all add: parse_memory_class_def)

lemma make_record_own: "make_record (sorted_keys (record_json q)) row = Inr (record_for q row)"
proof -
  have "field k (sorted_keys (record_json q)) = map_err Ledger_py
      (or_raise (map_option sorted_keys
        (map_of (request_fields q @ [(''request_digest'', JStr (digest_of (request_json q)))]) k)) (KeyError k))" for k
    unfolding field_def record_json_def by (subst py_item_sorted) (simp_all add: request_fields_def)
  then show ?thesis
    by (simp add: make_record_def request_fields_def record_for_def comp_def)
qed

lemma admit_new_Inr:
  assumes "validate_request q = Inr ()" "admit_new E L q h = Inr (receipt, L')"
  shows "ld_head L = h \<and> record_row_of (aq_record_id q) L = None \<and> \<bar>ld_generation L + 1\<bar> \<le> MAX_SAFE_INTEGER
    \<and> receipt = receipt_for L q
    \<and> (\<exists>rows. supersede_predecessor q (ld_records L) = Inr rows
         \<and> digest_of (record_json q) \<notin> rr_record_digest ` set rows
         \<and> L' = L\<lparr>ld_records := rows @ [record_row_for q],
               ld_operations := ld_operations L @ [operation_for L q],
               ld_generation := ld_generation L + 1, ld_head := next_head L q\<rparr>)"
proof -
  from assms(2) obtain x where
    "canonical_digest E (head_material (ld_head L) (ld_generation L + 1) (aq_record_id q)
        (digest_of (record_json q)) (aq_supersedes q)) = Inr x"
    using assms(1) by (auto simp: admit_new_def result_simps record_payload_Inr canonical_digest_of Let_def)
  then have g: "\<bar>ld_generation L + 1\<bar> \<le> MAX_SAFE_INTEGER"
    unfolding head_material_def by (rule canonical_digest_int [where k = "''generation''"]) simp
  show ?thesis
    using assms(2) g
    by (auto simp: admit_new_def result_simps record_payload_Inr [OF assms(1)] request_digest_Inr [OF assms(1)]
        canonical_digest_of canonical_text plain_head_material plain_receipt Let_def
        record_row_for_def operation_for_def receipt_for_def next_head_def)
qed

section \<open>The ledger invariant\<close>

definition row_from :: "admission_request \<Rightarrow> record_row \<Rightarrow> bool" where
  "row_from q r \<longleftrightarrow> aq_record_id q \<noteq> [] \<and> rr_record_id r = aq_record_id q \<and>
     rr_payload_json r = text_of (record_json q) \<and> rr_record_digest r = digest_of (record_json q) \<and>
     rr_supersedes_id r = aq_supersedes q"

definition successor_ids :: "record_row list \<Rightarrow> string \<Rightarrow> string list" where
  "successor_ids rows k = map rr_record_id (filter (\<lambda>r. rr_supersedes_id r = Some k) rows)"

definition lineage_ok :: "record_row list \<Rightarrow> record_row \<Rightarrow> bool" where
  "lineage_ok rows r \<longleftrightarrow>
     successor_ids rows (rr_record_id r) = (case rr_superseded_by r of None \<Rightarrow> [] | Some s \<Rightarrow> [s]) \<and>
     rr_status r = (if rr_superseded_by r = None then CURRENT else SUPERSEDED)"

definition rows_ok :: "record_row list \<Rightarrow> bool" where
  "rows_ok rows \<longleftrightarrow> distinct_keys rr_record_id rows \<and> (\<forall>r\<in>set rows. \<exists>q. row_from q r) \<and>
     (\<forall>r\<in>set rows. lineage_ok rows r) \<and>
     (\<forall>r\<in>set rows. \<forall>k. rr_supersedes_id r = Some k \<longrightarrow> row_of rr_record_id k rows \<noteq> None)"

lemma successor_ids_append:
  "successor_ids (rows @ [n]) k = successor_ids rows k @ (if rr_supersedes_id n = Some k then [rr_record_id n] else [])"
  by (simp add: successor_ids_def)

lemma successor_ids_upd:
  assumes "\<And>r. rr_record_id (f r) = rr_record_id r" "\<And>r. rr_supersedes_id (f r) = rr_supersedes_id r"
  shows "successor_ids (upd_row rr_record_id p f rows) k = successor_ids rows k"
  by (induction rows) (auto simp: successor_ids_def upd_row_def assms)

lemma successor_ids_fresh:
  assumes "rows_ok rows" "row_of rr_record_id k rows = None"
  shows "successor_ids rows k = []"
  using assms by (auto simp: rows_ok_def successor_ids_def filter_empty_conv)

lemma rows_ok_append:
  assumes "rows_ok rows" "row_of rr_record_id (aq_record_id q) rows = None" "aq_supersedes q = None"
    and "aq_record_id q \<noteq> []"
  shows "rows_ok (rows @ [record_row_for q])"
proof -
  have "row_from q (record_row_for q)" using assms(4) by (simp add: row_from_def)
  moreover have "lineage_ok (rows @ [record_row_for q]) (record_row_for q)"
    using successor_ids_fresh [OF assms(1,2)] assms(3)
    by (simp add: lineage_ok_def successor_ids_append)
  moreover have "lineage_ok (rows @ [record_row_for q]) r" if "r \<in> set rows" for r
    using assms(1,3) that by (simp add: rows_ok_def lineage_ok_def successor_ids_append)
  ultimately show ?thesis
    using assms(1-3)
    by (auto simp: rows_ok_def distinct_keys_append row_of_append split: option.splits)
qed

abbreviation mark_superseded :: "string \<Rightarrow> record_row \<Rightarrow> record_row" where
  "mark_superseded n \<equiv> \<lambda>r. r\<lparr>rr_status := SUPERSEDED, rr_superseded_by := Some n\<rparr>"

lemma rows_ok_supersede:
  assumes ok: "rows_ok rows" and fresh: "row_of rr_record_id (aq_record_id q) rows = None"
    and q: "aq_supersedes q = Some p" "aq_record_id q \<noteq> []"
    and pred: "row_of rr_record_id p rows = Some x" "rr_status x = CURRENT"
  shows "rows_ok (upd_row rr_record_id p (mark_superseded (aq_record_id q)) rows @ [record_row_for q])"
    (is "rows_ok (?rows @ [?n])")
proof -
  have row: "row_of rr_record_id k ?rows = (if k = p then map_option (mark_superseded (aq_record_id q))
      (row_of rr_record_id k rows) else row_of rr_record_id k rows)" for k
    by (simp add: row_of_upd)
  have ids: "successor_ids (?rows @ [?n]) k = successor_ids rows k @ (if k = p then [aq_record_id q] else [])" for k
    using q by (simp add: successor_ids_append successor_ids_upd)
  have p: "rr_record_id x = p" "x \<in> set rows" using row_of_Some [OF pred(1)] by auto
  have old: "lineage_ok rows y" if "y \<in> set rows" for y using ok that by (simp add: rows_ok_def)
  have none: "successor_ids rows p = []"
    using old [OF p(2)] pred(2) p(1) by (auto simp: lineage_ok_def split: if_splits)
  have lin: "lineage_ok (?rows @ [?n]) r" if mem: "r \<in> set ?rows" for r
  proof -
    obtain y where y: "y \<in> set rows" "r = (if rr_record_id y = p then mark_superseded (aq_record_id q) y else y)"
      using mem unfolding set_upd_row by blast
    then show ?thesis using old [OF y(1)] none by (auto simp: lineage_ok_def ids)
  qed
  have "aq_record_id q \<noteq> p" using fresh pred(1) by auto
  then have "lineage_ok (?rows @ [?n]) ?n"
    using successor_ids_fresh [OF ok fresh] by (simp add: lineage_ok_def ids)
  moreover have "\<exists>q'. row_from q' r" if "r \<in> set ?rows" for r
    using ok that by (fastforce simp: rows_ok_def set_upd_row row_from_def)
  moreover have "row_from q ?n" using q by (simp add: row_from_def)
  moreover have "row_of rr_record_id k (?rows @ [?n]) \<noteq> None"
    if "r \<in> set (?rows @ [?n])" "rr_supersedes_id r = Some k" for r k
    using that ok q(1) pred(1)
    by (auto simp: row_of_append row set_upd_row rows_ok_def split: option.splits if_splits)
  moreover have "distinct_keys rr_record_id (?rows @ [?n])"
    using ok fresh \<open>aq_record_id q \<noteq> p\<close>
    by (simp add: distinct_keys_append row distinct_keys_upd rows_ok_def)
  ultimately show ?thesis using lin unfolding rows_ok_def by auto
qed

lemma admit_new_rows_ok:
  assumes "validate_request q = Inr ()" "admit_new E L q h = Inr (receipt, L')" "rows_ok (ld_records L)"
  shows "rows_ok (ld_records L')"
proof -
  obtain rows where s: "supersede_predecessor q (ld_records L) = Inr rows"
    "record_row_of (aq_record_id q) L = None" "ld_records L' = rows @ [record_row_for q]"
    using admit_new_Inr [OF assms(1,2)] by auto
  have n: "aq_record_id q \<noteq> []"
    using assms(1) by (auto simp: validate_request_def split: if_splits)
  show ?thesis
  proof (cases "aq_supersedes q")
    case None
    then show ?thesis using s rows_ok_append [OF assms(3) s(2) None n] by (simp add: supersede_predecessor_def)
  next
    case (Some p)
    then show ?thesis using s rows_ok_supersede [OF assms(3) s(2) Some n]
      by (auto simp: supersede_predecessor_def result_simps)
  qed
qed

section \<open>Runs of a ledger\<close>

inductive ledger_step :: "py_env \<Rightarrow> ledger \<Rightarrow> admission_request \<times> string \<Rightarrow> ledger \<Rightarrow> bool" for E where
  step_admit: "admit E L q h = Inr (receipt, L') \<Longrightarrow> ledger_step E L (q, h) L'"

inductive_cases ledger_stepE: "ledger_step E L l L'"

definition ledger_ok :: "ledger \<Rightarrow> bool" where
  "ledger_ok L \<longleftrightarrow> rows_ok (ld_records L)"

lemma admit_cases:
  assumes "admit E L q h = Inr (receipt, L')"
  shows "validate_request q = Inr () \<and>
    ((\<exists>r. operation_of (aq_operation_id q) L = Some r \<and> L' = L
        \<and> op_request_digest r = digest_of (request_json q) \<and> loads plain_hooks (op_receipt_json r) = Inr receipt) \<or>
     (operation_of (aq_operation_id q) L = None \<and> admit_new E L q h = Inr (receipt, L')))"
  using assms by (auto simp: admit_def result_simps request_digest_Inr split: option.splits)

lemma ledger_step_ok: "ledger_step E L l L' \<Longrightarrow> ledger_ok L \<Longrightarrow> ledger_ok L'"
  by (elim ledger_stepE) (auto dest!: admit_cases simp: ledger_ok_def admit_new_rows_ok)

lemma ledger_run_ok: "runs (ledger_step E) L ls L' \<Longrightarrow> ledger_ok L \<Longrightarrow> ledger_ok L'"
  by (rule runs_invariant [where I = ledger_ok and step = "ledger_step E"]) (blast intro: ledger_step_ok)

text \<open>Rows keep their content and operations stay, whatever is admitted later.\<close>

lemma row_from_upd: "row_from q (mark_superseded n r) = row_from q r"
  by (simp add: row_from_def)

lemma supersede_keeps:
  assumes "supersede_predecessor q rows = Inr rows'" "row_of rr_record_id k rows = Some r" "row_from q0 r"
  shows "\<exists>r'. row_of rr_record_id k rows' = Some r' \<and> row_from q0 r'"
  using assms
  by (auto simp: supersede_predecessor_def result_simps row_of_upd row_from_upd split: option.splits)

lemma supersede_fresh:
  "supersede_predecessor q rows = Inr rows' \<Longrightarrow> row_of rr_record_id k rows = None \<Longrightarrow>
     row_of rr_record_id k rows' = None"
  by (cases "aq_supersedes q") (auto simp: supersede_predecessor_def result_simps row_of_upd)

lemma ledger_step_keeps:
  assumes "ledger_step E L l L'"
  shows "record_row_of k L = Some r \<Longrightarrow> row_from q r \<Longrightarrow> \<exists>r'. record_row_of k L' = Some r' \<and> row_from q r'"
    and "operation_of j L = Some p \<Longrightarrow> operation_of j L' = Some p"
    and "ld_project_id L' = ld_project_id L \<and> ld_identity_id L' = ld_identity_id L"
proof -
  obtain q' h receipt where a: "admit E L q' h = Inr (receipt, L')" using assms by (auto elim: ledger_stepE)
  have step: "L' = L \<or> (\<exists>rows n p. supersede_predecessor q' (ld_records L) = Inr rows \<and>
      ld_records L' = rows @ [n] \<and> ld_operations L' = ld_operations L @ [p])"
    using admit_cases [OF a] admit_new_Inr [of q' E L h receipt L'] by auto
  show "\<exists>r'. record_row_of k L' = Some r' \<and> row_from q r'" if "record_row_of k L = Some r" "row_from q r"
    using step supersede_keeps [OF _ that, of q'] that by (fastforce simp: row_of_append)
  show "operation_of j L' = Some p" if "operation_of j L = Some p"
    using step that by (auto simp: row_of_append)
  show "ld_project_id L' = ld_project_id L \<and> ld_identity_id L' = ld_identity_id L"
    using admit_cases [OF a] admit_new_Inr [of q' E L h receipt L'] by auto
qed

lemma ledger_run_keeps:
  assumes "runs (ledger_step E) L ls L'"
  shows "record_row_of k L = Some r \<Longrightarrow> row_from q r \<Longrightarrow> \<exists>r'. record_row_of k L' = Some r' \<and> row_from q r'"
    and "operation_of j L = Some p \<Longrightarrow> operation_of j L' = Some p"
    and "ld_project_id L' = ld_project_id L \<and> ld_identity_id L' = ld_identity_id L"
  using assms
proof (induction arbitrary: r rule: runs.induct)
  case (runs_step L l M ls N)
  note step = ledger_step_keeps [OF runs_step.hyps(1)]
  show "\<exists>r'. record_row_of k N = Some r' \<and> row_from q r'" if "record_row_of k L = Some r" "row_from q r" for r
    using step(1) [OF that] runs_step.IH(1) by blast
  show "operation_of j N = Some p" if "operation_of j L = Some p"
    using step(2) [OF that] runs_step.IH(2) by blast
  show "ld_project_id N = ld_project_id L \<and> ld_identity_id N = ld_identity_id L"
    using step(3) runs_step.IH(3) by simp
qed auto

section \<open>Reading a ledger that was built by admissions\<close>

lemma successor_id_ok:
  assumes "rows_ok (ld_records L)" "successor_ids (ld_records L) k = (case s of None \<Rightarrow> [] | Some i \<Rightarrow> [i])"
  shows "successor_id E L k = Inr s \<and> s \<noteq> Some []"
proof (cases s)
  case None
  then show ?thesis using assms(2) by (simp add: successor_id_def successors_def successor_ids_def)
next
  case (Some i)
  then obtain x where x: "successors L k = [x]" "rr_record_id x = i"
    using assms(2) by (auto simp: successors_def successor_ids_def map_eq_Cons_conv)
  then have "x \<in> set (successors L k)" by simp
  then have mem: "x \<in> set (ld_records L)" "rr_supersedes_id x = Some k"
    by (simp_all add: successors_def)
  then obtain q where "row_from q x" using assms(1) by (auto simp: rows_ok_def)
  then show ?thesis using x mem Some strict_record_payload_own [of E q] record_supersedes [of q]
    by (auto simp: successor_id_def row_from_def)
qed

lemma read_record_unfold:
  assumes "rows_ok (ld_records L)" "record_row_of k L = Some r" "row_from q r"
  shows "read_record E L k None =
    rbind (successor_id E L k) (\<lambda>succ.
    rbind (ensure (rr_superseded_by r = succ \<and>
             rr_status r = (if succ = None \<or> succ = Some [] then CURRENT else SUPERSEDED)) Status_contradicts)
      (\<lambda>_. Inr (record_for q r)))"
proof -
  have "rr_record_id r = k" using row_of_Some [OF assms(2)] by simp
  then show ?thesis
    using assms(2,3) strict_record_payload_own [of E q]
    by (simp add: read_record_def row_from_def record_supersedes make_record_own)
qed

lemma read_record_ok:
  assumes "rows_ok (ld_records L)" "record_row_of k L = Some r" "row_from q r"
  shows "read_record E L k None = Inr (record_for q r)"
proof -
  have r: "rr_record_id r = k" "r \<in> set (ld_records L)" using row_of_Some [OF assms(2)] by auto
  then have "lineage_ok (ld_records L) r" using assms(1) by (simp add: rows_ok_def)
  then show ?thesis
    unfolding read_record_unfold [OF assms] using r successor_id_ok [OF assms(1), of k "rr_superseded_by r" E]
    by (auto simp: lineage_ok_def)
qed

lemma open_ledger_new:
  "open_ledger E p i b [] [] None = Inr L \<Longrightarrow>
     ledger_ok L \<and> ld_records L = [] \<and> ld_generation L = 0 \<and> ld_head L = genesis_head"
  by (auto simp: open_ledger_def result_simps ledger_ok_def rows_ok_def distinct_keys_def split: if_splits)

definition sample_request :: admission_request where
  "sample_request = \<lparr>aq_record_id = ''r1'', aq_text = ''hello'', aq_memory_class = WORKING_PROJECT,
     aq_source_actor = ''a'', aq_authority_ref = ''b'', aq_privacy_ref = ''c'', aq_provenance_refs = [''d''],
     aq_operation_id = ''op1'', aq_project_id = ''vera'', aq_governed_identity_id = ''id'',
     aq_supersedes = None\<rparr>"

definition sample_ledger :: ledger where
  "sample_ledger = \<lparr>ld_project_id = ''vera'', ld_identity_id = ''id'', ld_records = [], ld_operations = [],
     ld_generation = 0, ld_head = genesis_head\<rparr>"

lemma sample_open: "open_ledger E ''vera'' ''id'' True [] [] None = Inr sample_ledger"
  by (simp add: open_ledger_def sample_ledger_def)

lemma genesis_nonempty: "genesis_head \<noteq> []"
  using sha256_length [of "''vera-memory-genesis-v1''"] unfolding genesis_head_def by force

lemma sample_valid: "validate_request sample_request = Inr ()"
  by (simp add: validate_request_def sample_request_def)

lemma sample_admit: "\<exists>receipt L'. admit E sample_ledger sample_request genesis_head = Inr (receipt, L')"
proof -
  have "\<bar>0 + 1\<bar> \<le> MAX_SAFE_INTEGER" by (simp add: MAX_SAFE_INTEGER_def)
  then have "\<exists>receipt L'. admit_new E sample_ledger sample_request genesis_head = Inr (receipt, L')"
    by (simp add: admit_new_def record_payload_Inr [OF sample_valid] request_digest_Inr [OF sample_valid]
        canonical_digest_of canonical_text plain_head_material plain_receipt Let_def
        supersede_predecessor_def sample_ledger_def sample_request_def [THEN arg_cong, of aq_supersedes])
  then show ?thesis
    by (simp add: admit_def sample_valid genesis_nonempty)
      (simp add: sample_ledger_def sample_request_def)
qed

section \<open>What the ledger guarantees\<close>

text \<open>
  Admit, then read. After a new admission into a consistent ledger, and after any
  further admissions, the record reads back without any corruption report and with exactly
  the content of the request; only its supersession status may have moved on.
\<close>

lemma admit_read_roundtrip:
  assumes "ledger_ok L" "operation_of (aq_operation_id q) L = None"
    and "admit E L q h = Inr (receipt, L1)" "runs (ledger_step E) L1 ls L2"
  shows "\<exists>row. read_record E L2 (aq_record_id q) None = Inr (record_for q row)
    \<and> record_row_of (aq_record_id q) L2 = Some row \<and> ledger_ok L2"
proof -
  have new: "validate_request q = Inr ()" "admit_new E L q h = Inr (receipt, L1)"
    using admit_cases [OF assms(3)] assms(2) by auto
  have "row_of rr_record_id (aq_record_id q) (rows @ [record_row_for q]) = Some (record_row_for q)"
    if "supersede_predecessor q (ld_records L) = Inr rows" for rows
    using that admit_new_Inr [OF new] supersede_fresh by (auto simp: row_of_append)
  then have row: "record_row_of (aq_record_id q) L1 = Some (record_row_for q)"
    using admit_new_Inr [OF new] by auto
  have "row_from q (record_row_for q)"
    using new(1) by (auto simp: row_from_def validate_request_def split: if_splits)
  then obtain row where row2: "record_row_of (aq_record_id q) L2 = Some row" "row_from q row"
    using ledger_run_keeps(1) [OF assms(4) row] by blast
  have "ledger_ok L2"
    by (rule ledger_run_ok [OF assms(4) ledger_step_ok [OF step_admit [OF assms(3)] assms(1)]])
  then show ?thesis using row2 read_record_ok [of L2 "aq_record_id q" row q E] by (auto simp: ledger_ok_def)
qed

lemma admit_read_roundtrip_witness:
  "\<exists>receipt L1 row. admit demo_env sample_ledger sample_request genesis_head = Inr (receipt, L1) \<and>
     read_record demo_env L1 ''r1'' None = Inr (record_for sample_request row)"
proof -
  obtain receipt L1 where a: "admit demo_env sample_ledger sample_request genesis_head = Inr (receipt, L1)"
    using sample_admit by blast
  have "ledger_ok sample_ledger" using open_ledger_new [OF sample_open] by simp
  moreover have "operation_of (aq_operation_id sample_request) sample_ledger = None"
    by (simp add: sample_ledger_def)
  ultimately have "\<exists>row. read_record demo_env L1 (aq_record_id sample_request) None = Inr (record_for sample_request row)"
    using admit_read_roundtrip [OF _ _ a runs_nil] by blast
  moreover have "aq_record_id sample_request = ''r1''" by (simp add: sample_request_def)
  ultimately show ?thesis using a by auto
qed

text \<open>
  A replayed operation is answered, not executed again: once an admission has been
  accepted, repeating the request after any further admissions, with any non-empty expected
  head, returns the original receipt and leaves the ledger as it is.
\<close>

lemma admit_replay_idempotent:
  assumes "operation_of (aq_operation_id q) L = None" "admit E L q h = Inr (receipt, L1)"
    and "runs (ledger_step E) L1 ls L2" "h' \<noteq> []"
  shows "admit E L2 q h' = Inr (sorted_keys receipt, L2)"
proof -
  have new: "validate_request q = Inr ()" "admit_new E L q h = Inr (receipt, L1)"
    using admit_cases [OF assms(2)] assms(1) by auto
  note a = admit_new_Inr [OF new]
  then have "operation_of (aq_operation_id q) L1 = Some (operation_for L q)"
    using assms(1) by (auto simp: row_of_append operation_for_def)
  then have op: "operation_of (aq_operation_id q) L2 = Some (operation_for L q)"
    by (rule ledger_run_keeps(2) [OF assms(3)])
  have scope: "aq_project_id q = ld_project_id L2 \<and> aq_governed_identity_id q = ld_identity_id L2"
    using assms(2) a ledger_run_keeps(3) [OF assms(3)] by (auto simp: admit_def result_simps)
  have "plain_json (receipt_for L q)" using a by (simp add: receipt_for_def plain_receipt)
  then show ?thesis
    using new(1) scope assms(4) op a
    by (simp add: admit_def request_digest_Inr operation_for_def loads_text_of)
qed

lemma admit_replay_idempotent_witness:
  "\<exists>receipt L1. admit demo_env sample_ledger sample_request genesis_head = Inr (receipt, L1) \<and>
     admit demo_env L1 sample_request ''any'' = Inr (sorted_keys receipt, L1)"
proof -
  obtain receipt L1 where a: "admit demo_env sample_ledger sample_request genesis_head = Inr (receipt, L1)"
    using sample_admit by blast
  have "operation_of (aq_operation_id sample_request) sample_ledger = None"
    by (simp add: sample_ledger_def)
  from admit_replay_idempotent [OF this a runs_nil, of "''any''"] a show ?thesis by auto
qed

text \<open>
  C20: A status flip is seen. In a consistent ledger, if somebody rewrites the mutable columns
  \<^verbatim>\<open>status\<close> and \<^verbatim>\<open>superseded_by\<close> of one row to other values, reading that
  record fails with the contradiction error: a superseded record cannot be revived this way.
\<close>

theorem status_flip_detected:
  assumes "ledger_ok L" "record_row_of k L = Some r"
    and "(st, sb) \<noteq> (rr_status r, rr_superseded_by r)"
  shows "read_record E (L\<lparr>ld_records := upd_row rr_record_id k
    (\<lambda>x. x\<lparr>rr_status := st, rr_superseded_by := sb\<rparr>) (ld_records L)\<rparr>) k None = Inl Status_contradicts"
proof -
  let ?f = "\<lambda>x. x\<lparr>rr_status := st, rr_superseded_by := sb\<rparr> :: record_row"
  let ?L = "L\<lparr>ld_records := upd_row rr_record_id k ?f (ld_records L)\<rparr>"
  have r: "rr_record_id r = k" "r \<in> set (ld_records L)" using row_of_Some [OF assms(2)] by auto
  obtain q where q: "row_from q r" using assms(1) r(2) by (auto simp: ledger_ok_def rows_ok_def)
  have lin: "lineage_ok (ld_records L) r" using assms(1) r(2) by (simp add: ledger_ok_def rows_ok_def)
  have succ: "successor_id E L k = Inr (rr_superseded_by r) \<and> rr_superseded_by r \<noteq> Some []"
    using successor_id_ok [of L k "rr_superseded_by r" E] lin assms(1) r(1)
    by (auto simp: lineage_ok_def ledger_ok_def)
  let ?cols = "\<lambda>x. (rr_payload_json x, rr_record_id x, rr_record_digest x)"
  have "map ?cols (filter (\<lambda>r. rr_supersedes_id r = Some k) (upd_row rr_record_id k ?f rows)) =
        map ?cols (filter (\<lambda>r. rr_supersedes_id r = Some k) rows)" for rows
    by (induction rows) (auto simp: upd_row_def)
  then have "map ?cols (successors ?L k) = map ?cols (successors L k)" by (simp add: successors_def)
  then have "successor_id E ?L k = successor_id E L k"
    by (auto simp: successor_id_def split: list.splits)
  moreover have "record_row_of k ?L = Some (?f r)" using assms(2) by (simp add: row_of_upd)
  ultimately show ?thesis
    using q r(1) succ lin assms(3) strict_record_payload_own [of E q]
    by (auto simp: read_record_def row_from_def record_supersedes lineage_ok_def split: if_splits)
qed

definition superseded_ledger :: ledger where
  "superseded_ledger = sample_ledger\<lparr>ld_records :=
     [mark_superseded ''r2'' (record_row_for sample_request),
      record_row_for (sample_request\<lparr>aq_record_id := ''r2'', aq_supersedes := Some ''r1''\<rparr>)]\<rparr>"

lemma superseded_ledger_ok: "ledger_ok superseded_ledger"
proof -
  let ?q = "sample_request\<lparr>aq_record_id := ''r2'', aq_supersedes := Some ''r1''\<rparr>"
  have one: "rows_ok [record_row_for sample_request]"
    using rows_ok_append [of "[]" sample_request] by (simp add: sample_request_def rows_ok_def distinct_keys_def)
  have "rows_ok (upd_row rr_record_id ''r1'' (mark_superseded (aq_record_id ?q)) [record_row_for sample_request] @ [record_row_for ?q])"
    by (rule rows_ok_supersede [OF one, where x = "record_row_for sample_request"])
      (simp_all add: row_of_Cons, simp_all add: sample_request_def)
  moreover have "aq_record_id sample_request = ''r1''" by (simp add: sample_request_def)
  ultimately show ?thesis by (simp add: ledger_ok_def superseded_ledger_def upd_row_def)
qed

theorem status_flip_detected_witness:
  "read_record demo_env (superseded_ledger\<lparr>ld_records := upd_row rr_record_id ''r1''
    (\<lambda>x. x\<lparr>rr_status := CURRENT, rr_superseded_by := None\<rparr>) (ld_records superseded_ledger)\<rparr>) ''r1'' None
   = Inl Status_contradicts"
proof -
  have "aq_record_id sample_request = ''r1''" by (simp add: sample_request_def)
  then have "record_row_of ''r1'' superseded_ledger = Some (mark_superseded ''r2'' (record_row_for sample_request))"
    by (simp add: superseded_ledger_def row_of_Cons)
  from status_flip_detected [OF superseded_ledger_ok this] show ?thesis by simp
qed

section \<open>The head commits to the history\<close>

text \<open>
  The rows of a ledger in the order of their admission, each with the head it was admitted
  under and the head it produced.
\<close>

record head_link =
  hl_previous :: string
  hl_generation :: int
  hl_record_id :: string
  hl_record_digest :: string
  hl_supersedes :: "string option"
  hl_head :: string

definition link_material :: "head_link \<Rightarrow> string" where
  "link_material l = utf8 (text_of (head_material (hl_previous l) (hl_generation l) (hl_record_id l)
     (hl_record_digest l) (hl_supersedes l)))"

fun history :: "string \<Rightarrow> int \<Rightarrow> record_row list \<Rightarrow> head_link list" where
  "history p g [] = []"
| "history p g (r # rs) =
     (let m = head_material p (g + 1) (rr_record_id r) (rr_record_digest r) (rr_supersedes_id r)
      in \<lparr>hl_previous = p, hl_generation = g + 1, hl_record_id = rr_record_id r,
          hl_record_digest = rr_record_digest r, hl_supersedes = rr_supersedes_id r, hl_head = digest_of m\<rparr>
         # history (digest_of m) (g + 1) rs)"

lemma history_chained: "chained hl_previous hl_head link_material p (history p g rs)"
  by (induction rs arbitrary: p g) (auto simp: Let_def link_material_def digest_of_def sha256_hex_def)

lemma history_length [simp]: "length (history p g rs) = length rs"
  by (induction rs arbitrary: p g) (auto simp: Let_def)

lemma history_append:
  "history p g (rs @ [r]) = history p g rs @ history (chain_head hl_head p (history p g rs)) (g + int (length rs)) [r]"
  by (induction rs arbitrary: p g) (auto simp: Let_def ac_simps)

lemma wf_head_material: "wf_json (sorted_keys (head_material p g i d s))"
  by (rule sorted_keys_wf) (simp add: head_material_def opt_str_def split: option.splits)

lemma head_material_inj:
  "text_of (head_material p g i d s) = text_of (head_material p' g' i' d' s') \<longleftrightarrow>
     p = p' \<and> g = g' \<and> i = i' \<and> d = d' \<and> s = s'"
proof
  assume "text_of (head_material p g i d s) = text_of (head_material p' g' i' d' s')"
  then have eq: "sorted_keys (head_material p g i d s) = sorted_keys (head_material p' g' i' d' s')"
    by (simp add: text_of_def json_text_inj wf_head_material)
  have field: "jget k (sorted_keys (head_material p g i d s)) = jget k (head_material p g i d s)" for k p g i d s
    unfolding head_material_def by (subst jget_sorted_keys) auto
  have "jget k (head_material p g i d s) = jget k (head_material p' g' i' d' s')" for k
    using field eq by metis
  from this [of "''previous_head''"] this [of "''generation''"] this [of "''record_id''"]
    this [of "''record_digest''"] this [of "''supersedes''"]
  show "p = p' \<and> g = g' \<and> i = i' \<and> d = d' \<and> s = s'" by (simp add: head_material_def)
qed simp

interpretation head_chain: digest_chain hl_previous hl_head link_material "\<lambda>_. True"
  by unfold_locales (simp add: link_material_def utf8_inj head_material_inj)

abbreviation committed_columns :: "record_row \<Rightarrow> string \<times> string \<times> string option" where
  "committed_columns r \<equiv> (rr_record_id r, rr_record_digest r, rr_supersedes_id r)"

lemma history_columns: "map committed_columns rs = map committed_columns rs' \<Longrightarrow> history p g rs = history p g rs'"
proof (induction rs arbitrary: rs' p g)
  case (Cons r rs)
  then obtain r' rs2 where r: "rs' = r' # rs2" "committed_columns r = committed_columns r'"
    "map committed_columns rs = map committed_columns rs2" by (cases rs') auto
  show ?case using r(2) Cons.IH [OF r(3)] by (simp add: r(1) Let_def)
qed simp

lemma supersede_columns:
  "supersede_predecessor q rows = Inr rows' \<Longrightarrow> map committed_columns rows' = map committed_columns rows"
  by (cases "aq_supersedes q") (auto simp: supersede_predecessor_def result_simps upd_row_def)

definition ledger_history :: "ledger \<Rightarrow> head_link list" where
  "ledger_history L = history genesis_head 0 (ld_records L)"

definition head_ok :: "ledger \<Rightarrow> bool" where
  "head_ok L \<longleftrightarrow> ledger_ok L \<and> ld_generation L = int (length (ld_records L)) \<and>
     ld_head L = chain_head hl_head genesis_head (ledger_history L)"

lemma ledger_step_head_ok:
  assumes "ledger_step E L l L'" "head_ok L"
  shows "head_ok L'"
proof -
  obtain q h receipt where a: "admit E L q h = Inr (receipt, L')" using assms(1) by (auto elim: ledger_stepE)
  have ok: "ledger_ok L'" using ledger_step_ok [OF assms(1)] assms(2) by (simp add: head_ok_def)
  show ?thesis
  proof (cases "operation_of (aq_operation_id q) L")
    case None
    then have new: "validate_request q = Inr ()" "admit_new E L q h = Inr (receipt, L')"
      using admit_cases [OF a] by auto
    then obtain rows where r: "supersede_predecessor q (ld_records L) = Inr rows"
      "ld_records L' = rows @ [record_row_for q]" "ld_generation L' = ld_generation L + 1" "ld_head L' = next_head L q"
      using admit_new_Inr [OF new] by auto
    have "history genesis_head 0 rows = ledger_history L"
      unfolding ledger_history_def using supersede_columns [OF r(1)] by (rule history_columns)
    moreover have "length rows = length (ld_records L)"
      using arg_cong [OF supersede_columns [OF r(1)], of length] by simp
    ultimately show ?thesis using ok assms(2) r
      by (simp add: head_ok_def ledger_history_def history_append next_head_def Let_def)
  qed (use admit_cases [OF a] assms(2) in auto)
qed

lemma new_ledger_head_ok:
  assumes "open_ledger E p i b [] [] None = Inr L0" "runs (ledger_step E) L0 ls L"
  shows "head_ok L"
proof -
  have "head_ok L0" using open_ledger_new [OF assms(1)] by (simp add: head_ok_def ledger_history_def)
  then show ?thesis
    using runs_invariant [where I = head_ok and step = "ledger_step E"] ledger_step_head_ok assms(2) by blast
qed

lemma history_nth:
  "j < length rs \<Longrightarrow> hl_record_id (history p g rs ! j) = rr_record_id (rs ! j) \<and>
     hl_record_digest (history p g rs ! j) = rr_record_digest (rs ! j)"
  by (induction rs arbitrary: p g j) (auto simp: Let_def nth_Cons split: nat.splits)

text \<open>
  C32: The head commits to everything admitted. Two ledgers built from empty files that show
  the same generation and the same head hold the same records with the same payload bytes in
  the same order; otherwise two of the head materials or payloads they actually hashed are an
  explicit SHA-256 collision.
\<close>

theorem head_commits_to_records:
  assumes "open_ledger E p i b [] [] None = Inr L0" "runs (ledger_step E) L0 ls L"
    and "open_ledger E' p' i' b' [] [] None = Inr L0'" "runs (ledger_step E') L0' ls' L'"
    and "ld_generation L = ld_generation L'" "ld_head L = ld_head L'"
  shows "map (\<lambda>r. (rr_record_id r, rr_payload_json r)) (ld_records L) =
         map (\<lambda>r. (rr_record_id r, rr_payload_json r)) (ld_records L')
    \<or> (\<exists>j<length (ld_records L).
         collides (link_material (ledger_history L ! j)) (link_material (ledger_history L' ! j)) \<or>
         collides (utf8 (rr_payload_json (ld_records L ! j))) (utf8 (rr_payload_json (ld_records L' ! j))))"
proof -
  have ok: "head_ok L" "head_ok L'" using new_ledger_head_ok assms(1-4) by blast+
  then have len: "length (ld_records L) = length (ld_records L')" using assms(5) by (simp add: head_ok_def)
  have "map link_material (ledger_history L) = map link_material (ledger_history L')
      \<or> (\<exists>j<length (ledger_history L).
          collides (link_material (ledger_history L ! j)) (link_material (ledger_history L' ! j)))"
    using ok len assms(6)
    by (intro head_chain.same_head_same_material [where p = genesis_head])
      (auto simp: ledger_history_def history_chained head_ok_def)
  then show ?thesis
  proof
    assume mats: "map link_material (ledger_history L) = map link_material (ledger_history L')"
    have same: "rr_record_id (ld_records L ! j) = rr_record_id (ld_records L' ! j) \<and>
        rr_record_digest (ld_records L ! j) = rr_record_digest (ld_records L' ! j)" if j: "j < length (ld_records L)" for j
    proof -
      have "link_material (ledger_history L ! j) = link_material (ledger_history L' ! j)"
        using arg_cong [OF mats, of "\<lambda>xs. xs ! j"] j len by (simp add: ledger_history_def)
      then show ?thesis using history_nth [of j "ld_records L"] history_nth [of j "ld_records L'"] j len
        by (simp add: link_material_def utf8_inj head_material_inj ledger_history_def)
    qed
    have dig: "rr_record_digest r = sha256_hex (rr_payload_json r)"
      if "r \<in> set (ld_records L) \<union> set (ld_records L')" for r
      using ok that by (auto simp: head_ok_def ledger_ok_def rows_ok_def row_from_def digest_of_def)
    show ?thesis
    proof (cases "\<exists>j<length (ld_records L).
        collides (utf8 (rr_payload_json (ld_records L ! j))) (utf8 (rr_payload_json (ld_records L' ! j)))")
      case False
      have "rr_payload_json (ld_records L ! j) = rr_payload_json (ld_records L' ! j)"
        if "j < length (ld_records L)" for j
        using False that same [OF that] dig [of "ld_records L ! j"] dig [of "ld_records L' ! j"] len
        by (auto simp: collides_def sha256_hex_def utf8_inj)
      then show ?thesis using same len by (intro disjI1 nth_equalityI) auto
    qed blast
  qed (auto simp: ledger_history_def)
qed

theorem head_commits_to_records_witness:
  "\<exists>receipt L1. admit demo_env sample_ledger sample_request genesis_head = Inr (receipt, L1) \<and>
     map (\<lambda>r. (rr_record_id r, rr_payload_json r)) (ld_records L1) =
     map (\<lambda>r. (rr_record_id r, rr_payload_json r)) (ld_records L1)"
proof -
  obtain receipt L1 where a: "admit demo_env sample_ledger sample_request genesis_head = Inr (receipt, L1)"
    using sample_admit by blast
  have run: "runs (ledger_step demo_env) sample_ledger [(sample_request, genesis_head)] L1"
    by (rule runs_one [where step = "ledger_step demo_env", OF step_admit [OF a]])
  from head_commits_to_records [OF sample_open run sample_open run refl refl] a
  show ?thesis by blast
qed

end
