(* ===== verification/Recovery_Checkpoints.thy ===== *)
theory Recovery_Checkpoints
  imports Py_Values
begin

text \<open>
  \<^verbatim>\<open>vera_recovery.native\<close>: the checkpoint ledger with compare-and-swap heads. The
  record \<open>ckpt_store\<close> is the database file (the rows of \<^verbatim>\<open>checkpoints\<close> and
  the two values of \<^verbatim>\<open>meta\<close>) with the ids the object was opened with. The text
  of \<^verbatim>\<open>datetime.now(timezone.utc).isoformat()\<close> is the argument \<open>now\<close>.
\<close>

record checkpoint =
  cp_checkpoint_id :: string
  cp_generation :: int
  cp_predecessor_head :: string
  cp_checkpoint_digest :: string
  cp_project_id :: string
  cp_identity_id :: string
  cp_runtime_id :: string
  cp_memory_head_digest :: string
  cp_control_source_digest :: string
  cp_created_at :: string
  cp_commitments :: "json list"
  cp_unfinished_work :: "json list"

record ckpt_row =
  kr_checkpoint_id :: string
  kr_generation :: int
  kr_predecessor_head :: string
  kr_checkpoint_digest :: string
  kr_payload_json :: string

record ckpt_store =
  ks_project_id :: string
  ks_identity_id :: string
  ks_rows :: "ckpt_row list"
  ks_generation :: int
  ks_head :: string

datatype ckpt_error =
    Ckpt_text string
  | Ckpt_digest string digest_fault
  | Ckpt_items string
  | Ckpt_replay_differs
  | Stale_checkpoint_head
  | Ckpt_integrity
  | Ckpt_overflow
  | Ckpt_canon canon_error
  | Ckpt_json json_error
  | Ckpt_py py_exc
  | Unsupported_schema
  | Ckpt_digest_mismatch
  | Ckpt_key_error string

section \<open>Operations\<close>

definition ckpt_require_text :: "string \<Rightarrow> string \<Rightarrow> (ckpt_error, string) result" where
  "ckpt_require_text value label = rbind (ensure (value \<noteq> []) (Ckpt_text label)) (\<lambda>_. Inr value)"

definition ckpt_require_digest :: "string \<Rightarrow> string \<Rightarrow> (ckpt_error, string) result" where
  "ckpt_require_digest value label = map_err (Ckpt_digest label) (digest_check value)"

definition require_string_tuple :: "string list \<Rightarrow> string \<Rightarrow> (ckpt_error, string list) result" where
  "require_string_tuple value label =
     rbind (ensure (\<forall>item\<in>set value. item \<noteq> []) (Ckpt_items label)) (\<lambda>_. Inr value)"

definition GENESIS_PAYLOAD :: json where
  "GENESIS_PAYLOAD =
     JObj [(''schema'', JStr ''VERA_MONO_RECOVERY_CHECKPOINT_HEAD_V1''), (''generation'', JInt 0),
           (''predecessor_head'', JStr (hex64 CHR ''0''))]"

definition ckpt_genesis_head :: "py_env \<Rightarrow> (canon_error, string) result" where
  "ckpt_genesis_head E = canonical_sha256 E GENESIS_PAYLOAD"

text \<open>
  \<^verbatim>\<open>__init__\<close> and \<^verbatim>\<open>_init_db\<close> on a file with the given rows and, when it was
  opened before, its generation and head.
\<close>

definition open_checkpoints ::
  "py_env \<Rightarrow> string \<Rightarrow> string \<Rightarrow> ckpt_row list \<Rightarrow> (int \<times> string) option \<Rightarrow> (ckpt_error, ckpt_store) result" where
  "open_checkpoints E project_id identity_id rows meta =
     rbind (ensure (project_id \<noteq> []) (Ckpt_text ''project_id'')) (\<lambda>_.
     rbind (ensure (identity_id \<noteq> []) (Ckpt_text ''identity_id'')) (\<lambda>_.
     rbind (case meta of Some m \<Rightarrow> Inr m
            | None \<Rightarrow> rbind (map_err Ckpt_canon (ckpt_genesis_head E)) (\<lambda>h. Inr (0, h))) (\<lambda>m.
       Inr \<lparr>ks_project_id = project_id, ks_identity_id = identity_id, ks_rows = rows,
            ks_generation = fst m, ks_head = snd m\<rparr>)))"

definition from_row :: "py_env \<Rightarrow> string \<Rightarrow> json \<Rightarrow> (ckpt_error, checkpoint) result" where
  "from_row E checkpoint_digest payload =
     rbind (map_err Ckpt_py (py_dict_get ''schema'' payload)) (\<lambda>schema.
     rbind (ensure (schema = JStr ''VERA_MONO_RECOVERY_CHECKPOINT_V1'') Unsupported_schema) (\<lambda>_.
     rbind (map_err Ckpt_canon (canonical_sha256 E payload)) (\<lambda>actual.
     rbind (ensure (actual = checkpoint_digest) Ckpt_digest_mismatch) (\<lambda>_. map_err Ckpt_py (
       rbind (py_item ''checkpoint_id'' payload) (\<lambda>cid.
       rbind (rbind (py_item ''generation'' payload) (py_int E)) (\<lambda>gen.
       rbind (py_item ''predecessor_head'' payload) (\<lambda>pred.
       rbind (py_item ''project_id'' payload) (\<lambda>pid.
       rbind (py_item ''identity_id'' payload) (\<lambda>iid.
       rbind (py_item ''runtime_id'' payload) (\<lambda>rid.
       rbind (py_item ''memory_head_digest'' payload) (\<lambda>mem.
       rbind (py_item ''control_source_digest'' payload) (\<lambda>ctl.
       rbind (py_item ''created_at'' payload) (\<lambda>cat.
       rbind (rbind (py_item ''commitments'' payload) py_tuple) (\<lambda>commitments.
       rbind (rbind (py_item ''unfinished_work'' payload) py_tuple) (\<lambda>unfinished.
         Inr \<lparr>cp_checkpoint_id = py_str E cid, cp_generation = gen, cp_predecessor_head = py_str E pred,
              cp_checkpoint_digest = checkpoint_digest, cp_project_id = py_str E pid,
              cp_identity_id = py_str E iid, cp_runtime_id = py_str E rid,
              cp_memory_head_digest = py_str E mem, cp_control_source_digest = py_str E ctl,
              cp_created_at = py_str E cat, cp_commitments = commitments,
              cp_unfinished_work = unfinished\<rparr>))))))))))))))))"

definition checkpoint_fields ::
  "ckpt_store \<Rightarrow> string \<Rightarrow> string \<Rightarrow> string \<Rightarrow> string \<Rightarrow> string \<Rightarrow> string list \<Rightarrow> string list \<Rightarrow> (string \<times> json) list" where
  "checkpoint_fields S checkpoint_id runtime_id memory_head control_source created_at commitments unfinished =
     [(''schema'', JStr ''VERA_MONO_RECOVERY_CHECKPOINT_V1''), (''checkpoint_id'', JStr checkpoint_id),
      (''generation'', JInt (ks_generation S + 1)), (''predecessor_head'', JStr (ks_head S)),
      (''project_id'', JStr (ks_project_id S)), (''identity_id'', JStr (ks_identity_id S)),
      (''runtime_id'', JStr runtime_id), (''memory_head_digest'', JStr memory_head),
      (''control_source_digest'', JStr control_source), (''created_at'', JStr created_at),
      (''commitments'', JArr (map JStr commitments)), (''unfinished_work'', JArr (map JStr unfinished))]"

text \<open>The comparisons of a replay, evaluated from left to right.\<close>

definition replay_differs ::
  "json \<Rightarrow> string \<Rightarrow> string \<Rightarrow> string \<Rightarrow> string list \<Rightarrow> string list \<Rightarrow> (py_exc, bool) result" where
  "replay_differs payload runtime_id memory_head control_source commitments unfinished =
     rbind (py_item ''runtime_id'' payload) (\<lambda>a. if a \<noteq> JStr runtime_id then Inr True else
     rbind (py_item ''memory_head_digest'' payload) (\<lambda>b. if b \<noteq> JStr memory_head then Inr True else
     rbind (py_item ''control_source_digest'' payload) (\<lambda>c. if c \<noteq> JStr control_source then Inr True else
     rbind (rbind (py_item ''commitments'' payload) py_tuple) (\<lambda>d. if d \<noteq> map JStr commitments then Inr True else
     rbind (rbind (py_item ''unfinished_work'' payload) py_tuple) (\<lambda>e. Inr (e \<noteq> map JStr unfinished))))))"

definition append_row ::
  "py_env \<Rightarrow> ckpt_store \<Rightarrow> string \<Rightarrow> json \<Rightarrow> (ckpt_error, checkpoint \<times> ckpt_store) result" where
  "append_row E S checkpoint_id payload =
     rbind (map_err Ckpt_canon (canonical_sha256 E payload)) (\<lambda>digest.
     rbind (map_err Ckpt_canon (canonical_dumps E payload)) (\<lambda>payload_json.
       let next_generation = ks_generation S + 1
       in rbind (ensure (\<bar>next_generation\<bar> < 2 ^ 63) Ckpt_overflow) (\<lambda>_.
          rbind (ensure (next_generation \<notin> kr_generation ` set (ks_rows S) \<and>
                         digest \<notin> kr_checkpoint_digest ` set (ks_rows S)) Ckpt_integrity) (\<lambda>_.
            let row = \<lparr>kr_checkpoint_id = checkpoint_id, kr_generation = next_generation,
                  kr_predecessor_head = ks_head S, kr_checkpoint_digest = digest,
                  kr_payload_json = payload_json\<rparr>;
                S' = S\<lparr>ks_rows := ks_rows S @ [row], ks_generation := next_generation, ks_head := digest\<rparr>
            in rbind (from_row E digest payload) (\<lambda>c. Inr (c, S'))))))"

definition append_checkpoint ::
  "py_env \<Rightarrow> ckpt_store \<Rightarrow> string \<Rightarrow> string \<Rightarrow> string \<Rightarrow> string \<Rightarrow> string \<Rightarrow> string list \<Rightarrow> string list \<Rightarrow>
     string option \<Rightarrow> string \<Rightarrow> (ckpt_error, checkpoint \<times> ckpt_store) result" where
  "append_checkpoint E S checkpoint_id0 runtime_id0 memory_head0 control_source0 expected_head0
     commitments0 unfinished0 created_at now =
     rbind (ckpt_require_text checkpoint_id0 ''checkpoint_id'') (\<lambda>checkpoint_id.
     rbind (ckpt_require_text runtime_id0 ''runtime_id'') (\<lambda>runtime_id.
     rbind (ckpt_require_digest memory_head0 ''memory_head_digest'') (\<lambda>memory_head.
     rbind (ckpt_require_digest control_source0 ''control_source_digest'') (\<lambda>control_source.
     rbind (ckpt_require_digest expected_head0 ''expected_head'') (\<lambda>expected_head.
     rbind (require_string_tuple commitments0 ''commitments'') (\<lambda>commitments.
     rbind (require_string_tuple unfinished0 ''unfinished_work'') (\<lambda>unfinished.
     rbind (case created_at of None \<Rightarrow> Inr now | Some t \<Rightarrow> ckpt_require_text t ''created_at'') (\<lambda>timestamp.
       case row_of kr_checkpoint_id checkpoint_id (ks_rows S) of
         Some existing \<Rightarrow>
           rbind (map_err Ckpt_json (strict_loads (kr_payload_json existing))) (\<lambda>payload.
           rbind (map_err Ckpt_py (replay_differs payload runtime_id memory_head control_source
                commitments unfinished)) (\<lambda>differs.
           rbind (ensure (\<not> differs) Ckpt_replay_differs) (\<lambda>_.
           rbind (from_row E (kr_checkpoint_digest existing) payload) (\<lambda>c. Inr (c, S)))))
       | None \<Rightarrow>
           rbind (ensure (ks_head S = expected_head) Stale_checkpoint_head) (\<lambda>_.
             append_row E S checkpoint_id (JObj (checkpoint_fields S checkpoint_id runtime_id memory_head
               control_source timestamp commitments unfinished)))))))))))"

definition read_row :: "py_env \<Rightarrow> ckpt_row \<Rightarrow> (ckpt_error, checkpoint) result" where
  "read_row E row =
     rbind (map_err Ckpt_json (strict_loads (kr_payload_json row))) (from_row E (kr_checkpoint_digest row))"

definition read_checkpoint :: "py_env \<Rightarrow> ckpt_store \<Rightarrow> string \<Rightarrow> (ckpt_error, checkpoint) result" where
  "read_checkpoint E S checkpoint_id =
     rbind (or_raise (row_of kr_checkpoint_id checkpoint_id (ks_rows S)) (Ckpt_key_error checkpoint_id))
       (read_row E)"

definition read_checkpoint_digest :: "py_env \<Rightarrow> ckpt_store \<Rightarrow> string \<Rightarrow> (ckpt_error, checkpoint) result" where
  "read_checkpoint_digest E S digest0 =
     rbind (ckpt_require_digest digest0 ''checkpoint_digest'') (\<lambda>digest.
     rbind (or_raise (row_of kr_checkpoint_digest digest (ks_rows S)) (Ckpt_key_error digest)) (read_row E))"

text \<open>\<^verbatim>\<open>ORDER BY generation DESC LIMIT 1\<close>.\<close>

definition latest_checkpoint :: "py_env \<Rightarrow> ckpt_store \<Rightarrow> (ckpt_error, checkpoint option) result" where
  "latest_checkpoint E S =
     (case sort_key (\<lambda>r. - kr_generation r) (ks_rows S) of
        [] \<Rightarrow> Inr None
      | row # _ \<Rightarrow> rbind (read_row E row) (\<lambda>c. Inr (Some c)))"

section \<open>Rows and the checkpoints they stand for\<close>

definition checkpoint_pairs :: "checkpoint \<Rightarrow> (string \<times> json) list" where
  "checkpoint_pairs c =
     [(''schema'', JStr ''VERA_MONO_RECOVERY_CHECKPOINT_V1''), (''checkpoint_id'', JStr (cp_checkpoint_id c)),
      (''generation'', JInt (cp_generation c)), (''predecessor_head'', JStr (cp_predecessor_head c)),
      (''project_id'', JStr (cp_project_id c)), (''identity_id'', JStr (cp_identity_id c)),
      (''runtime_id'', JStr (cp_runtime_id c)), (''memory_head_digest'', JStr (cp_memory_head_digest c)),
      (''control_source_digest'', JStr (cp_control_source_digest c)), (''created_at'', JStr (cp_created_at c)),
      (''commitments'', JArr (cp_commitments c)), (''unfinished_work'', JArr (cp_unfinished_work c))]"

abbreviation checkpoint_json :: "checkpoint \<Rightarrow> json" where
  "checkpoint_json c \<equiv> JObj (checkpoint_pairs c)"

definition valid_cp :: "checkpoint \<Rightarrow> bool" where
  "valid_cp c \<longleftrightarrow> (\<exists>xs ys. cp_commitments c = map JStr xs \<and> cp_unfinished_work c = map JStr ys) \<and>
     cp_checkpoint_digest c = digest_of (checkpoint_json c)"

definition row_for :: "checkpoint \<Rightarrow> ckpt_row" where
  "row_for c = \<lparr>kr_checkpoint_id = cp_checkpoint_id c, kr_generation = cp_generation c,
     kr_predecessor_head = cp_predecessor_head c, kr_checkpoint_digest = cp_checkpoint_digest c,
     kr_payload_json = text_of (checkpoint_json c)\<rparr>"

lemma row_for_simps [simp]:
  "kr_checkpoint_id (row_for c) = cp_checkpoint_id c" "kr_generation (row_for c) = cp_generation c"
  "kr_predecessor_head (row_for c) = cp_predecessor_head c"
  "kr_checkpoint_digest (row_for c) = cp_checkpoint_digest c"
  "kr_payload_json (row_for c) = text_of (checkpoint_json c)"
  by (simp_all add: row_for_def)

lemma checkpoint_keys_distinct: "distinct (map fst (checkpoint_pairs c))"
  by (simp add: checkpoint_pairs_def)

lemma wf_checkpoint: "valid_cp c \<Longrightarrow> wf_json (checkpoint_json c)"
  by (auto simp: valid_cp_def checkpoint_pairs_def)

lemma sorted_JStr [simp]: "sorted_keys (JArr (map JStr xs)) = JArr (map JStr xs)"
  by (simp add: comp_def)

lemma from_row_own:
  assumes "valid_cp c"
  shows "from_row E (cp_checkpoint_digest c) (checkpoint_json c) = Inr c"
    and "from_row E (cp_checkpoint_digest c) (sorted_keys (checkpoint_json c)) = Inr c"
proof -
  obtain xs ys where c: "cp_commitments c = map JStr xs" "cp_unfinished_work c = map JStr ys"
    "cp_checkpoint_digest c = digest_of (checkpoint_json c)" using assms by (auto simp: valid_cp_def)
  have wf: "wf_json (checkpoint_json c)" "wf_json (sorted_keys (checkpoint_json c))"
    using wf_checkpoint [OF assms] sorted_keys_wf by blast+
  show "from_row E (cp_checkpoint_digest c) (checkpoint_json c) = Inr c"
    using c canonical_sha256_wf [OF wf(1)]
    by (simp add: from_row_def py_dict_get_def py_get_def) (simp add: checkpoint_pairs_def)
  show "from_row E (cp_checkpoint_digest c) (sorted_keys (checkpoint_json c)) = Inr c"
    using c canonical_sha256_wf [OF wf(2)]
    by (simp add: from_row_def py_dict_get_sorted py_item_sorted checkpoint_keys_distinct del: sorted_keys.simps)
      (simp add: checkpoint_pairs_def comp_def)
qed

lemma strict_loads_own: "valid_cp c \<Longrightarrow> strict_loads (text_of (checkpoint_json c)) = Inr (sorted_keys (checkpoint_json c))"
  by (rule strict_loads_text_of) (rule wf_checkpoint)

lemma read_row_own: "valid_cp c \<Longrightarrow> read_row E (row_for c) = Inr c"
  by (simp add: read_row_def strict_loads_own from_row_own del: sorted_keys.simps)

definition fresh_checkpoint ::
  "ckpt_store \<Rightarrow> string \<Rightarrow> string \<Rightarrow> string \<Rightarrow> string \<Rightarrow> string \<Rightarrow> string list \<Rightarrow> string list \<Rightarrow> checkpoint" where
  "fresh_checkpoint S cid rid mem ctl t xs ys =
     \<lparr>cp_checkpoint_id = cid, cp_generation = ks_generation S + 1, cp_predecessor_head = ks_head S,
      cp_checkpoint_digest = digest_of (JObj (checkpoint_fields S cid rid mem ctl t xs ys)),
      cp_project_id = ks_project_id S, cp_identity_id = ks_identity_id S, cp_runtime_id = rid,
      cp_memory_head_digest = mem, cp_control_source_digest = ctl, cp_created_at = t,
      cp_commitments = map JStr xs, cp_unfinished_work = map JStr ys\<rparr>"

lemma fresh_pairs:
  "checkpoint_pairs (fresh_checkpoint S cid rid mem ctl t xs ys) = checkpoint_fields S cid rid mem ctl t xs ys"
  by (simp add: checkpoint_pairs_def checkpoint_fields_def fresh_checkpoint_def)

lemma fresh_valid: "valid_cp (fresh_checkpoint S cid rid mem ctl t xs ys)"
proof -
  let ?c = "fresh_checkpoint S cid rid mem ctl t xs ys"
  have "cp_checkpoint_digest ?c = digest_of (checkpoint_json ?c)"
    unfolding fresh_pairs by (simp add: fresh_checkpoint_def)
  moreover have "cp_commitments ?c = map JStr xs" "cp_unfinished_work ?c = map JStr ys"
    by (simp_all add: fresh_checkpoint_def)
  ultimately show ?thesis unfolding valid_cp_def by blast
qed

lemma append_row_Inr:
  assumes "append_row E S cid (JObj (checkpoint_fields S cid rid mem ctl t xs ys)) = Inr (c, S')"
  shows "c = fresh_checkpoint S cid rid mem ctl t xs ys
    \<and> kr_checkpoint_digest (row_for c) \<notin> kr_checkpoint_digest ` set (ks_rows S)
    \<and> S' = S\<lparr>ks_rows := ks_rows S @ [row_for c], ks_generation := ks_generation S + 1,
          ks_head := cp_checkpoint_digest c\<rparr>"
proof -
  define d where "d = fresh_checkpoint S cid rid mem ctl t xs ys"
  have v: "valid_cp d" by (simp add: d_def fresh_valid)
  have p: "checkpoint_fields S cid rid mem ctl t xs ys = checkpoint_pairs d" by (simp add: d_def fresh_pairs)
  have dig: "digest_of (checkpoint_json d) = cp_checkpoint_digest d" using v by (simp add: valid_cp_def)
  have "row_for d = \<lparr>kr_checkpoint_id = cid, kr_generation = ks_generation S + 1,
      kr_predecessor_head = ks_head S, kr_checkpoint_digest = cp_checkpoint_digest d,
      kr_payload_json = text_of (checkpoint_json d)\<rparr>"
    by (simp add: row_for_def d_def fresh_checkpoint_def)
  then show ?thesis
    using assms wf_checkpoint [OF v] from_row_own(1) [OF v, of E] dig unfolding p d_def [symmetric]
    by (auto simp: append_row_def canonical_sha256_wf canonical_dumps_wf result_simps Let_def)
qed

section \<open>The store invariant\<close>

definition own_row :: "ckpt_row \<Rightarrow> bool" where
  "own_row r \<longleftrightarrow> (\<exists>c. valid_cp c \<and> r = row_for c)"

definition row_bytes :: "ckpt_row \<Rightarrow> string" where
  "row_bytes r = utf8 (kr_payload_json r)"

definition genesis_text :: string where
  "genesis_text = text_of GENESIS_PAYLOAD"

abbreviation genesis_digest :: string where
  "genesis_digest \<equiv> sha256_hexdigest (utf8 genesis_text)"

definition ckpt_ok :: "ckpt_store \<Rightarrow> bool" where
  "ckpt_ok S \<longleftrightarrow> (\<forall>r\<in>set (ks_rows S). own_row r) \<and> distinct_keys kr_checkpoint_id (ks_rows S) \<and>
     distinct_keys kr_checkpoint_digest (ks_rows S) \<and>
     (\<forall>i<length (ks_rows S). kr_generation (ks_rows S ! i) = int i + 1) \<and>
     ks_generation S = int (length (ks_rows S)) \<and>
     chained kr_predecessor_head kr_checkpoint_digest row_bytes genesis_digest (ks_rows S) \<and>
     ks_head S = chain_head kr_checkpoint_digest genesis_digest (ks_rows S)"

datatype ckpt_call =
  Append_call string string string string string "string list" "string list" "string option" string

inductive ckpt_step :: "py_env \<Rightarrow> ckpt_store \<Rightarrow> ckpt_call \<Rightarrow> ckpt_store \<Rightarrow> bool" for E where
  step_append: "append_checkpoint E S cid rid mem ctl h xs ys t now = Inr (c, S') \<Longrightarrow>
     ckpt_step E S (Append_call cid rid mem ctl h xs ys t now) S'"

inductive_cases ckpt_stepE: "ckpt_step E S l S'"

text \<open>An accepted append is a replay that changes nothing, or adds one checkpoint on top of the head.\<close>

lemma append_cases:
  assumes "append_checkpoint E S cid rid mem ctl h xs ys t now = Inr (c, S')"
  shows "(S' = S \<and> row_of kr_checkpoint_id cid (ks_rows S) \<noteq> None) \<or>
    (row_of kr_checkpoint_id cid (ks_rows S) = None \<and> digest_check h = Inr (ks_head S)
      \<and> (\<exists>mem' ctl'. digest_check mem = Inr mem' \<and> digest_check ctl = Inr ctl' \<and>
           append_row E S cid (JObj (checkpoint_fields S cid rid mem' ctl'
             (case t of None \<Rightarrow> now | Some u \<Rightarrow> u) xs ys)) = Inr (c, S')))"
  using assms
  by (cases t; cases "row_of kr_checkpoint_id cid (ks_rows S)")
    (auto simp: append_checkpoint_def ckpt_require_text_def ckpt_require_digest_def require_string_tuple_def
      result_simps)

lemma append_adds:
  assumes "append_checkpoint E S cid rid mem ctl h xs ys t now = Inr (c, S')"
    and "row_of kr_checkpoint_id cid (ks_rows S) = None"
  shows "valid_cp c \<and> cp_checkpoint_id c = cid \<and> cp_generation c = ks_generation S + 1
    \<and> cp_predecessor_head c = ks_head S \<and> digest_check h = Inr (ks_head S)
    \<and> cp_checkpoint_digest c \<notin> kr_checkpoint_digest ` set (ks_rows S)
    \<and> S' = S\<lparr>ks_rows := ks_rows S @ [row_for c], ks_generation := ks_generation S + 1,
          ks_head := cp_checkpoint_digest c\<rparr>
    \<and> cp_runtime_id c = rid \<and> digest_check mem = Inr (cp_memory_head_digest c)
    \<and> digest_check ctl = Inr (cp_control_source_digest c)
    \<and> cp_commitments c = map JStr xs \<and> cp_unfinished_work c = map JStr ys"
proof -
  obtain mem' ctl' t' where a: "digest_check h = Inr (ks_head S)"
    "digest_check mem = Inr mem'" "digest_check ctl = Inr ctl'"
    "append_row E S cid (JObj (checkpoint_fields S cid rid mem' ctl' t' xs ys)) = Inr (c, S')"
    using append_cases [OF assms(1)] assms(2) by blast
  note r = append_row_Inr [OF a(4)]
  then have c: "c = fresh_checkpoint S cid rid mem' ctl' t' xs ys" by blast
  have "valid_cp c" unfolding c by (rule fresh_valid)
  moreover have "cp_checkpoint_id c = cid" "cp_generation c = ks_generation S + 1"
    "cp_predecessor_head c = ks_head S" "cp_runtime_id c = rid" "cp_memory_head_digest c = mem'"
    "cp_control_source_digest c = ctl'" "cp_commitments c = map JStr xs" "cp_unfinished_work c = map JStr ys"
    unfolding c by (simp_all add: fresh_checkpoint_def)
  ultimately show ?thesis using r a(1-3) by (metis row_for_simps(4))
qed

lemma append_ok:
  assumes "append_checkpoint E S cid rid mem ctl h xs ys t now = Inr (c, S')" "ckpt_ok S"
  shows "ckpt_ok S'"
proof (cases "row_of kr_checkpoint_id cid (ks_rows S)")
  case None
  note a = append_adds [OF assms(1) None]
  have "cp_checkpoint_digest c = sha256_hexdigest (row_bytes (row_for c))"
    using a by (simp add: valid_cp_def digest_of_def sha256_hex_def row_bytes_def)
  moreover have "row_of kr_checkpoint_digest (cp_checkpoint_digest c) (ks_rows S) = None"
    using a by (simp add: row_of_None_iff)
  moreover have "own_row (row_for c)" using a by (auto simp: own_row_def)
  ultimately show ?thesis using a assms(2) None
    by (auto simp: ckpt_ok_def distinct_keys_append chained_append nth_append less_Suc_eq)
qed (use append_cases [OF assms(1)] assms(2) in auto)

lemma ckpt_step_ok: "ckpt_step E S l S' \<Longrightarrow> ckpt_ok S \<Longrightarrow> ckpt_ok S'"
  by (elim ckpt_stepE) (blast intro: append_ok)

lemma open_checkpoints_ok: "open_checkpoints E p i [] None = Inr S \<Longrightarrow> ckpt_ok S"
proof -
  assume "open_checkpoints E p i [] None = Inr S"
  moreover have "ckpt_genesis_head E = Inr genesis_digest"
    unfolding ckpt_genesis_head_def genesis_text_def
    by (subst canonical_sha256_wf) (simp_all add: GENESIS_PAYLOAD_def digest_of_def sha256_hex_def)
  ultimately show ?thesis
    by (auto simp: open_checkpoints_def result_simps ckpt_ok_def distinct_keys_def)
qed

lemma ckpt_run_ok: "runs (ckpt_step E) S ls S' \<Longrightarrow> ckpt_ok S \<Longrightarrow> ckpt_ok S'"
  by (rule runs_invariant [where I = ckpt_ok and step = "ckpt_step E"]) (blast intro: ckpt_step_ok)

lemma ckpt_step_row:
  assumes "ckpt_step E S l S'" "row_of kr_checkpoint_id k (ks_rows S) = Some r"
  shows "row_of kr_checkpoint_id k (ks_rows S') = Some r"
proof -
  obtain cid rid mem ctl h xs ys t now c where a: "append_checkpoint E S cid rid mem ctl h xs ys t now = Inr (c, S')"
    using assms(1) by (auto elim: ckpt_stepE)
  show ?thesis
  proof (cases "row_of kr_checkpoint_id cid (ks_rows S)")
    case None
    then show ?thesis using append_adds [OF a None] assms(2) by (auto simp: row_of_append)
  qed (use append_cases [OF a] assms(2) in auto)
qed

lemma ckpt_run_row:
  "runs (ckpt_step E) S ls S' \<Longrightarrow> row_of kr_checkpoint_id k (ks_rows S) = Some r \<Longrightarrow>
     row_of kr_checkpoint_id k (ks_rows S') = Some r"
  by (rule runs_invariant [where I = "\<lambda>S. row_of kr_checkpoint_id k (ks_rows S) = Some r" and step = "ckpt_step E"])
    (blast intro: ckpt_step_row)

lemma sort_key_least_last:
  "(\<And>y. y \<in> set xs \<Longrightarrow> f x < f y) \<Longrightarrow> sort_key f (xs @ [x]) = x # sort_key f xs"
proof (induction xs)
  case (Cons y xs)
  then have "f x < f y" "sort_key f (xs @ [x]) = x # sort_key f xs" by auto
  then show ?case by auto
qed simp

lemma latest_last:
  assumes "ckpt_ok S" "ks_rows S = rows @ [row_for c]" "valid_cp c"
  shows "latest_checkpoint E S = Inr (Some c)"
proof -
  have gen: "kr_generation (ks_rows S ! i) = int i + 1" if "i < length (ks_rows S)" for i
    using assms(1) that by (simp add: ckpt_ok_def)
  have "cp_generation c = int (length rows) + 1" using gen [of "length rows"] assms(2) by simp
  moreover have "kr_generation r \<le> int (length rows)" if mem: "r \<in> set rows" for r
  proof -
    obtain i where i: "i < length rows" "r = rows ! i" using mem by (metis in_set_conv_nth)
    then show ?thesis using gen [of i] assms(2) by (simp add: nth_append)
  qed
  ultimately have "- kr_generation (row_for c) < - kr_generation r" if "r \<in> set rows" for r
    using that by fastforce
  then have "sort_key (\<lambda>r. - kr_generation r) (ks_rows S) = row_for c # sort_key (\<lambda>r. - kr_generation r) rows"
    unfolding assms(2) by (rule sort_key_least_last)
  then show ?thesis using assms(3) by (simp add: latest_checkpoint_def read_row_own)
qed

lemma replay_own:
  assumes "valid_cp c" "cp_commitments c = map JStr xs" "cp_unfinished_work c = map JStr ys"
  shows "replay_differs (sorted_keys (checkpoint_json c)) (cp_runtime_id c) (cp_memory_head_digest c)
     (cp_control_source_digest c) xs ys = Inr False"
proof -
  have "py_item k (sorted_keys (checkpoint_json c)) =
      or_raise (map_option sorted_keys (map_of (checkpoint_pairs c) k)) (KeyError k)" for k
    by (rule py_item_sorted [OF checkpoint_keys_distinct])
  then show ?thesis using assms(2,3)
    by (simp add: replay_differs_def checkpoint_pairs_def comp_def del: sorted_keys.simps(2))
qed

section \<open>What the checkpoint store guarantees\<close>

text \<open>
  A checkpoint reads back as it was written. After a new checkpoint has been appended it
  is the latest one, and after any further appends it reads back unchanged by its id and by
  its digest with the digest verified; repeating the append with the same content returns it
  again without changing the store, whatever head the caller expects.
\<close>

lemma checkpoint_roundtrip:
  assumes "ckpt_ok S" "row_of kr_checkpoint_id cid (ks_rows S) = None"
    and "append_checkpoint E S cid rid mem ctl h xs ys t now = Inr (c, S1)"
    and "runs (ckpt_step E) S1 ls S2" "digest_check h' = Inr h2" "t' \<noteq> Some []"
  shows "latest_checkpoint E S1 = Inr (Some c) \<and> read_checkpoint E S2 cid = Inr c
    \<and> read_checkpoint_digest E S2 (cp_checkpoint_digest c) = Inr c
    \<and> append_checkpoint E S2 cid rid mem ctl h' xs ys t' now' = Inr (c, S2)"
proof -
  note a = append_adds [OF assms(3,2)]
  have v: "valid_cp c" using a by blast
  have ok: "ckpt_ok S1" "ckpt_ok S2"
    using append_ok [OF assms(3,1)] ckpt_run_ok [OF assms(4)] by blast+
  have row: "row_of kr_checkpoint_id cid (ks_rows S2) = Some (row_for c)"
    by (rule ckpt_run_row [OF assms(4)]) (use a assms(2) in \<open>simp add: row_of_append\<close>)
  then have "row_for c \<in> set (ks_rows S2)" using row_of_Some by fast
  then have drow: "row_of kr_checkpoint_digest (cp_checkpoint_digest c) (ks_rows S2) = Some (row_for c)"
    using row_of_member [of kr_checkpoint_digest "ks_rows S2" "row_for c"] ok(2) by (simp add: ckpt_ok_def)
  have dig: "digest_check (cp_checkpoint_digest c) = Inr (cp_checkpoint_digest c)"
    using v by (simp add: valid_cp_def digest_of_def sha256_hex_def)
  have "latest_checkpoint E S1 = Inr (Some c)" by (rule latest_last [OF ok(1) _ v]) (use a in simp)
  moreover have "read_checkpoint E S2 cid = Inr c" by (simp add: read_checkpoint_def row read_row_own v)
  moreover have "read_checkpoint_digest E S2 (cp_checkpoint_digest c) = Inr c"
    by (simp add: read_checkpoint_digest_def ckpt_require_digest_def dig drow read_row_own v)
  moreover have "append_checkpoint E S2 cid rid mem ctl h' xs ys t' now' = Inr (c, S2)"
  proof -
    have pre: "cid \<noteq> []" "rid \<noteq> []" "\<forall>x\<in>set xs. x \<noteq> []" "\<forall>y\<in>set ys. y \<noteq> []"
      using assms(3) by (auto simp: append_checkpoint_def ckpt_require_text_def require_string_tuple_def result_simps)
    have "rid = cp_runtime_id c" using a by blast
    then show ?thesis
      using a pre assms(5,6) row replay_own [OF v] from_row_own(2) [OF v, of E]
      by (cases t') (simp_all add: append_checkpoint_def ckpt_require_text_def ckpt_require_digest_def
          require_string_tuple_def strict_loads_own [OF v] del: sorted_keys.simps)
  qed
  ultimately show ?thesis by blast
qed

definition sample_store :: ckpt_store where
  "sample_store = \<lparr>ks_project_id = ''vera'', ks_identity_id = ''id'', ks_rows = [], ks_generation = 0,
     ks_head = genesis_digest\<rparr>"

lemma sample_store_ok: "ckpt_ok sample_store"
  by (simp add: sample_store_def ckpt_ok_def distinct_keys_def)

lemma sample_append:
  "\<exists>c S'. append_checkpoint E sample_store ''k1'' ''rt'' (hex64 CHR ''a'') (hex64 CHR ''b'') genesis_digest
     [''keep''] [] None ''2026-01-01T00:00:00+00:00'' = Inr (c, S')"
proof -
  let ?c = "fresh_checkpoint sample_store ''k1'' ''rt'' (hex64 CHR ''a'') (hex64 CHR ''b'')
    ''2026-01-01T00:00:00+00:00'' [''keep''] []"
  note v = fresh_valid [of sample_store "''k1''" "''rt''" "hex64 CHR ''a''" "hex64 CHR ''b''"
      "''2026-01-01T00:00:00+00:00''" "[''keep'']" "[]"]
  have "\<exists>c S'. append_row E sample_store ''k1'' (checkpoint_json ?c) = Inr (c, S')"
    using from_row_own(1) [OF v, of E] v
    by (simp add: append_row_def canonical_sha256_wf [OF wf_checkpoint [OF v]] canonical_dumps_wf [OF wf_checkpoint [OF v]]
        valid_cp_def Let_def) (simp add: sample_store_def)
  then show ?thesis
    by (simp add: append_checkpoint_def ckpt_require_text_def ckpt_require_digest_def require_string_tuple_def
        fresh_pairs) (simp add: sample_store_def)
qed

lemma checkpoint_roundtrip_witness:
  "\<exists>c S'. append_checkpoint demo_env sample_store ''k1'' ''rt'' (hex64 CHR ''a'') (hex64 CHR ''b'') genesis_digest
     [''keep''] [] None ''2026-01-01T00:00:00+00:00'' = Inr (c, S') \<and> read_checkpoint demo_env S' ''k1'' = Inr c"
proof -
  obtain c S' where a: "append_checkpoint demo_env sample_store ''k1'' ''rt'' (hex64 CHR ''a'') (hex64 CHR ''b'')
     genesis_digest [''keep''] [] None ''2026-01-01T00:00:00+00:00'' = Inr (c, S')"
    using sample_append by blast
  have "row_of kr_checkpoint_id ''k1'' (ks_rows sample_store) = None" by (simp add: sample_store_def)
  from checkpoint_roundtrip [OF sample_store_ok this a runs_nil digest_check_sha256, of None] a show ?thesis by auto
qed

lemma chained_link_nth:
  "chained link dig mat p rs \<Longrightarrow> i < length rs \<Longrightarrow> link (rs ! i) = (if i = 0 then p else dig (rs ! (i - 1)))"
  by (induction rs arbitrary: p i) (auto simp: nth_Cons split: nat.splits)

lemma not_genesis_bytes: "own_row r \<Longrightarrow> row_bytes r \<noteq> utf8 genesis_text"
proof
  assume "own_row r" "row_bytes r = utf8 genesis_text"
  then obtain c where c: "valid_cp c" "text_of (checkpoint_json c) = text_of GENESIS_PAYLOAD"
    by (auto simp: own_row_def row_bytes_def utf8_inj genesis_text_def)
  have "wf_json GENESIS_PAYLOAD" by (simp add: GENESIS_PAYLOAD_def)
  from text_of_field [OF wf_checkpoint [OF c(1)] this [unfolded GENESIS_PAYLOAD_def], of "''schema''"] c(2)
  show False by (simp add: GENESIS_PAYLOAD_def checkpoint_pairs_def)
qed

text \<open>
  The checkpoint history never forks. In a store built by appends from an empty file, two
  checkpoints with the same predecessor head are the same checkpoint; the only way out is a
  stored payload that collides with the genesis payload under SHA-256.
\<close>

lemma checkpoints_never_fork:
  assumes "open_checkpoints E p i [] None = Inr S0" "runs (ckpt_step E) S0 ls S"
    and "r \<in> set (ks_rows S)" "r' \<in> set (ks_rows S)" "kr_predecessor_head r = kr_predecessor_head r'"
  shows "r = r' \<or> (\<exists>x\<in>set (ks_rows S). collides (row_bytes x) (utf8 genesis_text))"
proof -
  have ok: "ckpt_ok S" by (rule ckpt_run_ok [OF assms(2) open_checkpoints_ok [OF assms(1)]])
  have genesis: "\<exists>x\<in>set (ks_rows S). collides (row_bytes x) (utf8 genesis_text)"
    if k: "k < length (ks_rows S)" "kr_checkpoint_digest (ks_rows S ! k) = genesis_digest" for k
  proof -
    have mem: "ks_rows S ! k \<in> set (ks_rows S)" using k(1) by simp
    then have own: "own_row (ks_rows S ! k)" using ok by (simp add: ckpt_ok_def)
    then have "kr_checkpoint_digest (ks_rows S ! k) = sha256_hexdigest (row_bytes (ks_rows S ! k))"
      by (auto simp: own_row_def valid_cp_def digest_of_def sha256_hex_def row_bytes_def)
    then show ?thesis using mem k(2) not_genesis_bytes [OF own] unfolding collides_def by metis
  qed
  obtain a b where a: "a < length (ks_rows S)" "r = ks_rows S ! a"
    and b: "b < length (ks_rows S)" "r' = ks_rows S ! b"
    using assms(3,4) by (metis in_set_conv_nth)
  have chain: "chained kr_predecessor_head kr_checkpoint_digest row_bytes genesis_digest (ks_rows S)"
    using ok by (simp add: ckpt_ok_def)
  have link: "kr_predecessor_head (ks_rows S ! k) =
      (if k = 0 then genesis_digest else kr_checkpoint_digest (ks_rows S ! (k - 1)))"
    if "k < length (ks_rows S)" for k
    by (rule chained_link_nth [OF chain that])
  have inj: "x = y" if "x < length (ks_rows S)" "y < length (ks_rows S)"
    "kr_checkpoint_digest (ks_rows S ! x) = kr_checkpoint_digest (ks_rows S ! y)" for x y
    using ok that by (auto simp: ckpt_ok_def distinct_keys_def distinct_conv_nth)
  show ?thesis
  proof (cases "a = b \<or> a = 0 \<or> b = 0")
    case True
    then show ?thesis
      using a b assms(5) link [OF a(1)] link [OF b(1)] genesis [of "a - 1"] genesis [of "b - 1"]
      by (auto split: if_splits)
  next
    case False
    then have "kr_checkpoint_digest (ks_rows S ! (a - 1)) = kr_checkpoint_digest (ks_rows S ! (b - 1))"
      using assms(5) a b link [OF a(1)] link [OF b(1)] by simp
    then have "a - 1 = b - 1" using inj a b by simp
    then have "a = b" using False by linarith
    then show ?thesis using a b by simp
  qed
qed

lemma sample_store_open: "open_checkpoints E ''vera'' ''id'' [] None = Inr sample_store"
  by (simp add: open_checkpoints_def ckpt_genesis_head_def canonical_sha256_wf GENESIS_PAYLOAD_def
      sample_store_def genesis_text_def digest_of_def sha256_hex_def)

lemma checkpoints_never_fork_witness:
  "\<exists>c S'. append_checkpoint demo_env sample_store ''k1'' ''rt'' (hex64 CHR ''a'') (hex64 CHR ''b'') genesis_digest
     [''keep''] [] None ''2026-01-01T00:00:00+00:00'' = Inr (c, S') \<and>
     (row_for c = hd (ks_rows S') \<or> (\<exists>x\<in>set (ks_rows S'). collides (row_bytes x) (utf8 genesis_text)))"
proof -
  obtain c S' where a: "append_checkpoint demo_env sample_store ''k1'' ''rt'' (hex64 CHR ''a'') (hex64 CHR ''b'')
     genesis_digest [''keep''] [] None ''2026-01-01T00:00:00+00:00'' = Inr (c, S')"
    using sample_append by blast
  have "row_of kr_checkpoint_id ''k1'' (ks_rows sample_store) = None" by (simp add: sample_store_def)
  then have "ks_rows S' = [row_for c]" using append_adds [OF a] by (simp add: sample_store_def)
  then have m: "row_for c \<in> set (ks_rows S')" "hd (ks_rows S') \<in> set (ks_rows S')"
    "kr_predecessor_head (row_for c) = kr_predecessor_head (hd (ks_rows S'))" by simp_all
  from checkpoints_never_fork [OF sample_store_open runs_one [where step = "ckpt_step demo_env", OF step_append [OF a]] m] a
  show ?thesis by blast
qed

interpretation checkpoint_chain: digest_chain kr_predecessor_head kr_checkpoint_digest row_bytes own_row
proof unfold_locales
  fix r r' assume "own_row r" "own_row r'" "row_bytes r = row_bytes r'"
  then obtain c c' where c: "valid_cp c" "valid_cp c'" "r = row_for c" "r' = row_for c'"
    "text_of (checkpoint_json c) = text_of (checkpoint_json c')"
    by (auto simp: own_row_def row_bytes_def utf8_inj)
  from text_of_field [OF wf_checkpoint [OF c(1)] wf_checkpoint [OF c(2)] c(5), of "''predecessor_head''"] c(3,4)
  show "kr_predecessor_head r = kr_predecessor_head r'" by (simp add: checkpoint_pairs_def)
qed

text \<open>
  The recovery head commits to every checkpoint. Two stores built from empty files with
  the same generation and head hold the same payload bytes in the same order, or the payloads
  at some position are an explicit SHA-256 collision.
\<close>

lemma checkpoint_head_commits:
  assumes "open_checkpoints E p i [] None = Inr S0" "runs (ckpt_step E) S0 ls S"
    and "open_checkpoints E' p' i' [] None = Inr S0'" "runs (ckpt_step E') S0' ls' S'"
    and "ks_generation S = ks_generation S'" "ks_head S = ks_head S'"
  shows "map kr_payload_json (ks_rows S) = map kr_payload_json (ks_rows S')
    \<or> (\<exists>j<length (ks_rows S). collides (row_bytes (ks_rows S ! j)) (row_bytes (ks_rows S' ! j)))"
proof -
  have ok: "ckpt_ok S" "ckpt_ok S'"
    using ckpt_run_ok assms(2,4) open_checkpoints_ok assms(1,3) by blast+
  have own: "(\<forall>r\<in>set (ks_rows T). own_row r) \<and> ks_generation T = int (length (ks_rows T)) \<and>
      ks_head T = chain_head kr_checkpoint_digest genesis_digest (ks_rows T) \<and>
      chained kr_predecessor_head kr_checkpoint_digest row_bytes genesis_digest (ks_rows T)"
    if "ckpt_ok T" for T using that unfolding ckpt_ok_def by blast
  note facts = own [OF ok(1), THEN conjunct2, THEN conjunct2, THEN conjunct2]
    own [OF ok(1), THEN conjunct1] own [OF ok(1), THEN conjunct2]
    own [OF ok(2), THEN conjunct2, THEN conjunct2, THEN conjunct2]
    own [OF ok(2), THEN conjunct1] own [OF ok(2), THEN conjunct2]
  have "map row_bytes (ks_rows S) = map row_bytes (ks_rows S')
    \<or> (\<exists>j<length (ks_rows S). collides (row_bytes (ks_rows S ! j)) (row_bytes (ks_rows S' ! j)))"
    by (rule checkpoint_chain.same_head_same_material [OF facts(1) facts(4)])
      (use facts assms(5,6) in simp_all)
  moreover have "map row_bytes xs = map utf8 (map kr_payload_json xs)" for xs by (simp add: row_bytes_def)
  moreover have "inj utf8" by (simp add: inj_def utf8_inj)
  ultimately show ?thesis by (metis inj_map_eq_map)
qed

lemma checkpoint_head_commits_witness:
  "\<exists>c S'. append_checkpoint demo_env sample_store ''k1'' ''rt'' (hex64 CHR ''a'') (hex64 CHR ''b'') genesis_digest
     [''keep''] [] None ''2026-01-01T00:00:00+00:00'' = Inr (c, S') \<and>
     (map kr_payload_json (ks_rows S') = map kr_payload_json (ks_rows S')
      \<or> (\<exists>j<length (ks_rows S'). collides (row_bytes (ks_rows S' ! j)) (row_bytes (ks_rows S' ! j))))"
proof -
  obtain c S' where a: "append_checkpoint demo_env sample_store ''k1'' ''rt'' (hex64 CHR ''a'') (hex64 CHR ''b'')
     genesis_digest [''keep''] [] None ''2026-01-01T00:00:00+00:00'' = Inr (c, S')"
    using sample_append by blast
  note r = runs_one [where step = "ckpt_step demo_env", OF step_append [OF a]]
  from checkpoint_head_commits [OF sample_store_open r sample_store_open r refl refl] a show ?thesis by blast
qed

end
