(* ===== verification/Lifecycle_Journal.thy ===== *)
theory Lifecycle_Journal
  imports Py_Values
begin

text \<open>
  \<^verbatim>\<open>vera_core.lifecycle_journal\<close>: the append-only journal of lifecycle events, each
  row holding its predecessor's digest and its own. The record \<open>journal\<close> is the database
  file. The digest of an event is taken of its normalised body, so what the theorems show of
  the stored events is stated about normalised payloads.
\<close>

record lifecycle_event =
  le_sequence :: int
  le_transition_id :: string
  le_event_type :: string
  le_predecessor :: string
  le_digest :: string
  le_payload :: json

record lifecycle_row =
  lr_sequence :: int
  lr_transition_id :: string
  lr_event_type :: string
  lr_predecessor :: string
  lr_digest :: string
  lr_payload_json :: string

record journal =
  jn_rows :: "lifecycle_row list"
  jn_sequence :: int
  jn_head :: string

datatype journal_error =
    Empty_transition_id
  | Empty_event_type
  | Replay_payload_differs
  | Journal_integrity
  | Sequence_gap
  | Predecessor_mismatch
  | Event_digest_mismatch
  | Meta_sequence_mismatch
  | Meta_head_mismatch
  | Journal_canon canon_error
  | Journal_json json_error
  | Journal_py py_exc

section \<open>Operations\<close>

definition GENESIS_HEAD :: string where
  "GENESIS_HEAD = sha256_hexdigest ''vera-mono-lifecycle-journal-genesis-v1''"

definition open_journal :: "lifecycle_row list \<Rightarrow> (int \<times> string) option \<Rightarrow> journal" where
  "open_journal rows meta =
     (let (sequence, head) = (case meta of None \<Rightarrow> (0, GENESIS_HEAD) | Some m \<Rightarrow> m)
      in \<lparr>jn_rows = rows, jn_sequence = sequence, jn_head = head\<rparr>)"

definition lifecycle_row_event :: "lifecycle_row \<Rightarrow> (journal_error, lifecycle_event) result" where
  "lifecycle_row_event row =
     rbind (map_err Journal_json (loads plain_hooks (lr_payload_json row))) (\<lambda>payload.
       Inr \<lparr>le_sequence = lr_sequence row, le_transition_id = lr_transition_id row,
            le_event_type = lr_event_type row, le_predecessor = lr_predecessor row,
            le_digest = lr_digest row, le_payload = payload\<rparr>)"

definition event_body :: "int \<Rightarrow> string \<Rightarrow> string \<Rightarrow> string \<Rightarrow> json \<Rightarrow> json" where
  "event_body sequence transition_id event_type predecessor payload =
     JObj [(''schema'', JStr ''VERA_MONO_LIFECYCLE_EVENT_V1''), (''sequence'', JInt sequence),
           (''transition_id'', JStr transition_id), (''event_type'', JStr event_type),
           (''predecessor_event_digest'', JStr predecessor), (''payload'', payload)]"

definition find_event :: "string \<Rightarrow> string \<Rightarrow> journal \<Rightarrow> lifecycle_row option" where
  "find_event transition_id event_type J =
     find (\<lambda>r. lr_transition_id r = transition_id \<and> lr_event_type r = event_type) (jn_rows J)"

definition journal_append ::
  "py_env \<Rightarrow> journal \<Rightarrow> string \<Rightarrow> string \<Rightarrow> (string \<times> json) list \<Rightarrow>
     (journal_error, lifecycle_event \<times> journal) result" where
  "journal_append E J transition_id event_type payload =
     rbind (ensure (transition_id \<noteq> []) Empty_transition_id) (\<lambda>_.
     rbind (ensure (event_type \<noteq> []) Empty_event_type) (\<lambda>_.
     rbind (map_err Journal_canon (canonical_json E (JObj payload))) (\<lambda>payload_json.
       case find_event transition_id event_type J of
         Some replay \<Rightarrow>
           rbind (lifecycle_row_event replay) (\<lambda>existing.
           rbind (map_err Journal_py (py_dict (le_payload existing))) (\<lambda>d.
           rbind (map_err Journal_canon (canonical_json E d)) (\<lambda>existing_json.
           rbind (ensure (existing_json = payload_json) Replay_payload_differs) (\<lambda>_. Inr (existing, J)))))
       | None \<Rightarrow>
           let next_sequence = jn_sequence J + 1
           in rbind (map_err Journal_canon (canonical_digest E
                (event_body next_sequence transition_id event_type (jn_head J) (JObj payload)))) (\<lambda>digest.
              rbind (ensure (next_sequence \<notin> lr_sequence ` set (jn_rows J) \<and>
                             digest \<notin> lr_digest ` set (jn_rows J)) Journal_integrity) (\<lambda>_.
                let row = \<lparr>lr_sequence = next_sequence, lr_transition_id = transition_id,
                      lr_event_type = event_type, lr_predecessor = jn_head J, lr_digest = digest,
                      lr_payload_json = payload_json\<rparr>
                in Inr (\<lparr>le_sequence = next_sequence, le_transition_id = transition_id,
                         le_event_type = event_type, le_predecessor = jn_head J, le_digest = digest,
                         le_payload = JObj payload\<rparr>,
                        \<lparr>jn_rows = jn_rows J @ [row], jn_sequence = next_sequence, jn_head = digest\<rparr>))))))"

text \<open>The loop of \<^verbatim>\<open>verify_chain\<close>, with its two variables.\<close>

fun verify_rows ::
  "py_env \<Rightarrow> string \<Rightarrow> int \<Rightarrow> lifecycle_row list \<Rightarrow> (journal_error, string \<times> int) result" where
  "verify_rows E predecessor expected [] = Inr (predecessor, expected)"
| "verify_rows E predecessor expected (row # rows) =
     rbind (lifecycle_row_event row) (\<lambda>event.
     rbind (ensure (le_sequence event = expected) Sequence_gap) (\<lambda>_.
     rbind (ensure (le_predecessor event = predecessor) Predecessor_mismatch) (\<lambda>_.
     rbind (map_err Journal_py (py_dict (le_payload event))) (\<lambda>payload.
     rbind (map_err Journal_canon (canonical_digest E (event_body (le_sequence event)
        (le_transition_id event) (le_event_type event) (le_predecessor event) payload))) (\<lambda>observed.
     rbind (ensure (observed = le_digest event) Event_digest_mismatch) (\<lambda>_.
       verify_rows E (le_digest event) (expected + 1) rows))))))"

definition by_sequence :: "journal \<Rightarrow> lifecycle_row list" where
  "by_sequence J = sort_key lr_sequence (jn_rows J)"

definition verify_chain :: "py_env \<Rightarrow> journal \<Rightarrow> (journal_error, string) result" where
  "verify_chain E J =
     rbind (verify_rows E GENESIS_HEAD 1 (by_sequence J)) (\<lambda>(predecessor, expected).
     rbind (ensure (jn_sequence J = expected - 1) Meta_sequence_mismatch) (\<lambda>_.
       let expected_head = (if by_sequence J \<noteq> [] then predecessor else GENESIS_HEAD)
       in rbind (ensure (jn_head J = expected_head) Meta_head_mismatch) (\<lambda>_. Inr expected_head)))"

definition journal_events ::
  "journal \<Rightarrow> string option \<Rightarrow> (journal_error, lifecycle_event list) result" where
  "journal_events J transition_id =
     rmap_list lifecycle_row_event
       (sort_key lr_sequence (filter (\<lambda>r. transition_id = None \<or> transition_id = Some (lr_transition_id r))
          (jn_rows J)))"

definition journal_latest ::
  "journal \<Rightarrow> string option \<Rightarrow> (journal_error, lifecycle_event option) result" where
  "journal_latest J transition_id =
     (case sort_key (\<lambda>r. - lr_sequence r)
         (filter (\<lambda>r. transition_id = None \<or> transition_id = Some (lr_transition_id r)) (jn_rows J)) of
        [] \<Rightarrow> Inr None
      | row # _ \<Rightarrow> rbind (lifecycle_row_event row) (\<lambda>e. Inr (Some e)))"

definition has_event :: "journal \<Rightarrow> string \<Rightarrow> string \<Rightarrow> bool" where
  "has_event J transition_id event_type = (find_event transition_id event_type J \<noteq> None)"

section \<open>Rows the journal writes\<close>

lemma not_hinted [simp]: "\<not> path_hint (Some ''payload'')" "\<not> time_hint (Some ''payload'')"
  by (simp_all add: plain_eval)

text \<open>Normalising a body normalises its payload: putting the normal payload in changes nothing.\<close>

lemma normalize_body:
  assumes "iso_stable E" "normalize_value E None (JObj kvs) = Inr w"
  shows "canonical_json_bytes E (event_body s t e p w) = canonical_json_bytes E (event_body s t e p (JObj kvs))"
proof -
  have hint: "normalize_value E (Some ''payload'') (JObj xs) = normalize_value E None (JObj xs)" for xs by simp
  obtain ws where w: "w = JObj ws" using assms(2) unfolding normalize_obj_Inr by blast
  have "normalize_value E (Some ''payload'') w = Inr w"
    using normalize_idem [OF assms] hint w by metis
  then have "normalize_value E None (event_body s t e p w) = normalize_value E None (event_body s t e p (JObj kvs))"
    using assms(2) hint [of kvs] by (simp add: event_body_def del: normalize_value.simps(7)) simp
  then show ?thesis by (simp add: canonical_json_bytes_def canonical_json_def)
qed

definition row_body :: "lifecycle_row \<Rightarrow> json \<Rightarrow> json" where
  "row_body r payload = event_body (lr_sequence r) (lr_transition_id r) (lr_event_type r) (lr_predecessor r) payload"

definition sound_row :: "py_env \<Rightarrow> lifecycle_row \<Rightarrow> bool" where
  "sound_row E r \<longleftrightarrow> (\<exists>w. is_dict w \<and> normalize_value E None w = Inr w \<and> lr_payload_json r = json_text w \<and>
     canonical_digest E (row_body r w) = Inr (lr_digest r))"

fun linked :: "py_env \<Rightarrow> string \<Rightarrow> int \<Rightarrow> lifecycle_row list \<Rightarrow> bool" where
  "linked E p n [] = True"
| "linked E p n (r # rs) =
     (lr_predecessor r = p \<and> lr_sequence r = n \<and> sound_row E r \<and> linked E (lr_digest r) (n + 1) rs)"

lemma linked_append:
  "linked E p n (rs @ [r]) \<longleftrightarrow>
     linked E p n rs \<and> lr_predecessor r = chain_head lr_digest p rs \<and> lr_sequence r = n + int (length rs) \<and>
     sound_row E r"
  by (induction rs arbitrary: p n) (auto simp: ac_simps)

lemma linked_sorted: "linked E p n rs \<Longrightarrow> sorted (map lr_sequence rs) \<and> (\<forall>r\<in>set rs. n \<le> lr_sequence r)"
proof (induction rs arbitrary: p n)
  case (Cons r rs)
  then have "sorted (map lr_sequence rs)" "\<forall>x\<in>set rs. n + 1 \<le> lr_sequence x" by auto
  then show ?case using Cons.prems by force
qed simp

lemma sound_row_verifies:
  assumes "sound_row E r"
  shows "verify_rows E (lr_predecessor r) (lr_sequence r) (r # rs) = verify_rows E (lr_digest r) (lr_sequence r + 1) rs"
proof -
  obtain w where w: "is_dict w" "normalize_value E None w = Inr w" "lr_payload_json r = json_text w"
    "canonical_digest E (row_body r w) = Inr (lr_digest r)"
    using assms by (auto simp: sound_row_def)
  then show ?thesis
    by (simp add: lifecycle_row_event_def normalize_wf [OF w(2)] row_body_def)
qed

lemma linked_verifies:
  "linked E p n rs \<Longrightarrow> verify_rows E p n rs = Inr (chain_head lr_digest p rs, n + int (length rs))"
proof (induction rs arbitrary: p n)
  case (Cons r rs)
  then have "verify_rows E p n (r # rs) = verify_rows E (lr_digest r) (n + 1) rs"
    using sound_row_verifies [of E r rs] by (simp del: verify_rows.simps)
  then show ?case using Cons by (simp del: verify_rows.simps)
qed simp

definition journal_ok :: "py_env \<Rightarrow> journal \<Rightarrow> bool" where
  "journal_ok E J \<longleftrightarrow> linked E GENESIS_HEAD 1 (jn_rows J) \<and> jn_sequence J = int (length (jn_rows J)) \<and>
     jn_head J = chain_head lr_digest GENESIS_HEAD (jn_rows J)"

lemma journal_ok_order: "journal_ok E J \<Longrightarrow> by_sequence J = jn_rows J"
  by (auto simp: journal_ok_def by_sequence_def dest!: linked_sorted intro: sort_key_id_if_sorted)

lemma journal_ok_verifies: "journal_ok E J \<Longrightarrow> verify_chain E J = Inr (jn_head J)"
  by (simp add: verify_chain_def journal_ok_order) (auto simp: journal_ok_def linked_verifies)

inductive journal_step :: "py_env \<Rightarrow> journal \<Rightarrow> string \<times> string \<times> (string \<times> json) list \<Rightarrow> journal \<Rightarrow> bool" for E where
  step_journal: "journal_append E J t e payload = Inr (ev, J') \<Longrightarrow> journal_step E J (t, e, payload) J'"

inductive_cases journal_stepE: "journal_step E J l J'"

lemma append_new:
  assumes "journal_append E J t e payload = Inr (ev, J')" "find_event t e J = None" "iso_stable E"
  shows "\<exists>r w. normalize_value E None (JObj payload) = Inr w \<and> sound_row E r \<and> lr_payload_json r = json_text w
    \<and> lr_sequence r = jn_sequence J + 1 \<and> lr_predecessor r = jn_head J \<and> lr_transition_id r = t \<and> lr_event_type r = e
    \<and> J' = \<lparr>jn_rows = jn_rows J @ [r], jn_sequence = jn_sequence J + 1, jn_head = lr_digest r\<rparr>
    \<and> ev = \<lparr>le_sequence = lr_sequence r, le_transition_id = t, le_event_type = e, le_predecessor = lr_predecessor r,
             le_digest = lr_digest r, le_payload = JObj payload\<rparr>"
proof -
  from assms(1,2) obtain w d where w: "normalize_value E None (JObj payload) = Inr w"
    and d: "canonical_digest E (event_body (jn_sequence J + 1) t e (jn_head J) (JObj payload)) = Inr d"
    and J': "J' = \<lparr>jn_rows = jn_rows J @ [\<lparr>lr_sequence = jn_sequence J + 1, lr_transition_id = t, lr_event_type = e,
        lr_predecessor = jn_head J, lr_digest = d, lr_payload_json = json_text w\<rparr>],
        jn_sequence = jn_sequence J + 1, jn_head = d\<rparr>"
      "ev = \<lparr>le_sequence = jn_sequence J + 1, le_transition_id = t, le_event_type = e, le_predecessor = jn_head J,
             le_digest = d, le_payload = JObj payload\<rparr>"
    by (auto simp: journal_append_def canonical_json_def result_simps Let_def simp del: normalize_value.simps)
  obtain ws where ws: "w = JObj ws" using w unfolding normalize_obj_Inr by blast
  define r where "r = \<lparr>lr_sequence = jn_sequence J + 1, lr_transition_id = t, lr_event_type = e,
        lr_predecessor = jn_head J, lr_digest = d, lr_payload_json = json_text w\<rparr>"
  have "canonical_digest E (row_body r w) = Inr d"
    using d normalize_body [OF assms(3) w] by (simp add: canonical_digest_def row_body_def r_def)
  then have "sound_row E r"
    using ws normalize_idem [OF assms(3) w] unfolding sound_row_def by (intro exI [of _ w]) (simp add: r_def is_dict_def)
  then show ?thesis using w J' by (intro exI [of _ r] exI [of _ w]) (simp add: r_def)
qed

lemma append_replay:
  assumes "journal_append E J t e payload = Inr (ev, J')" "find_event t e J = Some r"
  shows "J' = J \<and> lifecycle_row_event r = Inr ev"
  using assms by (auto simp: journal_append_def result_simps)

lemma journal_step_ok:
  assumes "journal_step E J l J'" "journal_ok E J" "iso_stable E"
  shows "journal_ok E J'"
proof -
  obtain t e payload ev where a: "journal_append E J t e payload = Inr (ev, J')"
    using assms(1) by (auto elim: journal_stepE)
  show ?thesis
  proof (cases "find_event t e J")
    case None
    from append_new [OF a None assms(3)] assms(2) show ?thesis
      by (auto simp: journal_ok_def linked_append)
  qed (use append_replay [OF a] assms(2) in auto)
qed

lemma journal_run_ok: "runs (journal_step E) J ls J' \<Longrightarrow> iso_stable E \<Longrightarrow> journal_ok E J \<Longrightarrow> journal_ok E J'"
  by (rule runs_invariant [where I = "journal_ok E" and step = "journal_step E"]) (blast intro: journal_step_ok)+

lemma open_journal_ok: "journal_ok E (open_journal [] None)"
  by (simp add: journal_ok_def open_journal_def)

lemma find_append_Some: "find P xs = Some x \<Longrightarrow> find P (xs @ ys) = Some x"
  by (induction xs) auto

lemma find_append_None: "find P xs = None \<Longrightarrow> find P (xs @ ys) = find P ys"
  by (induction xs) (auto split: if_splits)

lemma journal_step_find:
  assumes "journal_step E J l J'" "iso_stable E" "find_event t e J = Some r"
  shows "find_event t e J' = Some r"
proof -
  obtain t' e' payload ev where a: "journal_append E J t' e' payload = Inr (ev, J')"
    using assms(1) by (auto elim: journal_stepE)
  show ?thesis
  proof (cases "find_event t' e' J")
    case None
    from append_new [OF a None assms(2)] assms(3) show ?thesis
      by (auto simp: find_event_def find_append_Some)
  qed (use append_replay [OF a] assms(3) in auto)
qed

lemma journal_run_find:
  "runs (journal_step E) J ls J' \<Longrightarrow> iso_stable E \<Longrightarrow> find_event t e J = Some r \<Longrightarrow> find_event t e J' = Some r"
  by (rule runs_invariant [where I = "\<lambda>J. find_event t e J = Some r" and step = "journal_step E"])
    (blast intro: journal_step_find)+

section \<open>What a verified journal pins down\<close>

definition row_payload :: "lifecycle_row \<Rightarrow> (journal_error, json) result" where
  "row_payload r =
     rbind (map_err Journal_json (loads plain_hooks (lr_payload_json r))) (\<lambda>p. map_err Journal_py (py_dict p))"

definition event_bytes :: "py_env \<Rightarrow> lifecycle_row \<Rightarrow> string" where
  "event_bytes E r =
     (case row_payload r of
        Inl _ \<Rightarrow> []
      | Inr p \<Rightarrow> (case canonical_json_bytes E (row_body r p) of Inl _ \<Rightarrow> [] | Inr b \<Rightarrow> b))"

definition readable :: "py_env \<Rightarrow> lifecycle_row \<Rightarrow> bool" where
  "readable E r \<longleftrightarrow> (\<exists>p b. row_payload r = Inr p \<and> canonical_json_bytes E (row_body r p) = Inr b)"

text \<open>The event a row stands for, with its payload in normal form.\<close>

definition stored_event :: "py_env \<Rightarrow> lifecycle_row \<Rightarrow> int \<times> string \<times> string \<times> (journal_error, json) result" where
  "stored_event E r = (lr_sequence r, lr_transition_id r, lr_event_type r,
     rbind (row_payload r) (\<lambda>p. map_err Journal_canon (normalize_value E None p)))"

lemma py_dict_is_dict: "py_dict v = Inr d \<Longrightarrow> is_dict d"
  by (auto simp: py_dict_def result_simps split: if_splits)

lemma readable_normal:
  assumes "row_payload r = Inr p" "canonical_json_bytes E (row_body r p) = Inr b"
  shows "\<exists>w W. normalize_value E None p = Inr w \<and> b = utf8 (json_text W) \<and> wf_json W
    \<and> jget ''sequence'' W = Some (JInt (lr_sequence r)) \<and> jget ''transition_id'' W = Some (JStr (lr_transition_id r))
    \<and> jget ''event_type'' W = Some (JStr (lr_event_type r))
    \<and> jget ''predecessor_event_digest'' W = Some (JStr (lr_predecessor r)) \<and> jget ''payload'' W = Some w"
proof -
  have "is_dict p" using assms(1) by (auto simp: row_payload_def result_simps dest: py_dict_is_dict)
  then obtain kvs where p: "p = JObj kvs" by (cases p) (simp_all add: is_dict_def)
  obtain W where W: "normalize_value E None (row_body r p) = Inr W" "b = utf8 (json_text W)"
    using assms(2) by (auto simp: canonical_json_bytes_def canonical_json_def result_simps simp del: normalize_value.simps)
  note get = normalize_obj_get [OF W(1) [unfolded row_body_def event_body_def]]
  have "\<exists>x. normalize_value E (Some ''payload'') p = Inr x \<and> jget ''payload'' W = Some x"
    by (rule get) simp
  moreover have "jget ''sequence'' W = Some (JInt (lr_sequence r))"
    using get [of "''sequence''" "JInt (lr_sequence r)"] by (auto simp: result_simps)
  moreover have "jget ''transition_id'' W = Some (JStr (lr_transition_id r))"
    using get [of "''transition_id''" "JStr (lr_transition_id r)"] by (auto simp: plain_eval)
  moreover have "jget ''event_type'' W = Some (JStr (lr_event_type r))"
    using get [of "''event_type''" "JStr (lr_event_type r)"] by (auto simp: plain_eval)
  moreover have "jget ''predecessor_event_digest'' W = Some (JStr (lr_predecessor r))"
    using get [of "''predecessor_event_digest''" "JStr (lr_predecessor r)"] by (auto simp: plain_eval)
  ultimately show ?thesis using W(2) normalize_wf [OF W(1)] by (auto simp: p)
qed

lemma same_bytes_same_event:
  assumes "readable E r" "readable E r'" "event_bytes E r = event_bytes E r'"
  shows "stored_event E r = stored_event E r' \<and> lr_predecessor r = lr_predecessor r'"
proof -
  obtain p b p' b' where p: "row_payload r = Inr p" "canonical_json_bytes E (row_body r p) = Inr b"
    "row_payload r' = Inr p'" "canonical_json_bytes E (row_body r' p') = Inr b'"
    using assms(1,2) by (auto simp: readable_def)
  have "b = b'" using assms(3) p by (simp add: event_bytes_def)
  moreover obtain w W where W: "normalize_value E None p = Inr w" "b = utf8 (json_text W)" "wf_json W"
    "jget ''sequence'' W = Some (JInt (lr_sequence r))" "jget ''transition_id'' W = Some (JStr (lr_transition_id r))"
    "jget ''event_type'' W = Some (JStr (lr_event_type r))"
    "jget ''predecessor_event_digest'' W = Some (JStr (lr_predecessor r))" "jget ''payload'' W = Some w"
    using readable_normal [OF p(1,2)] by blast
  moreover obtain w' W' where W': "normalize_value E None p' = Inr w'" "b' = utf8 (json_text W')" "wf_json W'"
    "jget ''sequence'' W' = Some (JInt (lr_sequence r'))" "jget ''transition_id'' W' = Some (JStr (lr_transition_id r'))"
    "jget ''event_type'' W' = Some (JStr (lr_event_type r'))"
    "jget ''predecessor_event_digest'' W' = Some (JStr (lr_predecessor r'))" "jget ''payload'' W' = Some w'"
    using readable_normal [OF p(3,4)] by blast
  ultimately have "W = W'" by (simp add: utf8_inj json_text_inj)
  then show ?thesis using W W' p by (simp add: stored_event_def)
qed

interpretation journal_chain: digest_chain lr_predecessor lr_digest "event_bytes E" "readable E" for E
  by unfold_locales (blast dest: same_bytes_same_event)

lemma verify_rows_chained:
  "verify_rows E p n rs = Inr (p', n') \<Longrightarrow>
     chained lr_predecessor lr_digest (event_bytes E) p rs \<and> (\<forall>r\<in>set rs. readable E r)
     \<and> p' = chain_head lr_digest p rs \<and> n' = n + int (length rs)"
proof (induction rs arbitrary: p n)
  case (Cons r rs)
  then obtain v where v: "row_payload r = Inr v" "lr_sequence r = n" "lr_predecessor r = p"
    "canonical_digest E (row_body r v) = Inr (lr_digest r)" "verify_rows E (lr_digest r) (n + 1) rs = Inr (p', n')"
    by (auto simp: lifecycle_row_event_def row_payload_def row_body_def result_simps)
  then obtain b where "canonical_json_bytes E (row_body r v) = Inr b" "lr_digest r = sha256_hexdigest b"
    by (auto simp: canonical_digest_def result_simps)
  then have "readable E r" "lr_digest r = sha256_hexdigest (event_bytes E r)"
    using v(1) by (auto simp: readable_def event_bytes_def)
  then show ?case using Cons.IH [OF v(5)] v(3) by simp
qed simp

section \<open>What the journal guarantees\<close>

text \<open>
  C22: A verified head pins the journal down, for any database content. If
  \<^verbatim>\<open>verify_chain\<close> accepts two files with equally many rows and returns the same head,
  the files hold the same events (sequence, transition, type and normalised payload) in the
  same order, or two event bodies at the same position are an explicit SHA-256 collision.
\<close>

theorem journal_tamper_evident:
  assumes "verify_chain E J = Inr h" "verify_chain E J' = Inr h"
    and "length (jn_rows J) = length (jn_rows J')"
  shows "map (stored_event E) (by_sequence J) = map (stored_event E) (by_sequence J')
    \<or> (\<exists>i<length (jn_rows J). collides (event_bytes E (by_sequence J ! i)) (event_bytes E (by_sequence J' ! i)))"
proof -
  have ver: "chained lr_predecessor lr_digest (event_bytes E) GENESIS_HEAD (by_sequence K)
      \<and> (\<forall>r\<in>set (by_sequence K). readable E r) \<and> h = chain_head lr_digest GENESIS_HEAD (by_sequence K)"
    if "verify_chain E K = Inr h" for K
    using that by (auto simp: verify_chain_def result_simps Let_def dest!: verify_rows_chained split: if_splits)
  have len: "length (by_sequence J) = length (by_sequence J')" using assms(3) by (simp add: by_sequence_def)
  have "map (event_bytes E) (by_sequence J) = map (event_bytes E) (by_sequence J') \<or>
      (\<exists>i<length (by_sequence J). collides (event_bytes E (by_sequence J ! i)) (event_bytes E (by_sequence J' ! i)))"
    using ver [OF assms(1)] ver [OF assms(2)]
    by (intro journal_chain.same_head_same_material [OF _ _ len]) auto
  then show ?thesis
  proof
    assume eq: "map (event_bytes E) (by_sequence J) = map (event_bytes E) (by_sequence J')"
    have "stored_event E (by_sequence J ! i) = stored_event E (by_sequence J' ! i)"
      if "i < length (by_sequence J)" for i
      using arg_cong [OF eq, of "\<lambda>xs. xs ! i"] that len ver [OF assms(1)] ver [OF assms(2)]
        same_bytes_same_event [of E "by_sequence J ! i" "by_sequence J' ! i"] by simp
    then show ?thesis using len by (intro disjI1 nth_equalityI) auto
  qed (simp add: by_sequence_def)
qed

text \<open>A file with one event, and the file in which the payload of the event is spaced.\<close>

lemma sample_payload_texts:
  "loads plain_hooks ''{\"n\":1}'' = Inr (JObj [(''n'', JInt 1)])"
  "loads plain_hooks ''{ \"n\": 1 }'' = Inr (JObj [(''n'', JInt 1)])"
  by code_simp+

definition sample_event_row :: "string \<Rightarrow> string \<Rightarrow> lifecycle_row" where
  "sample_event_row digest payload_json = \<lparr>lr_sequence = 1, lr_transition_id = ''t1'', lr_event_type = ''OPENED'',
     lr_predecessor = GENESIS_HEAD, lr_digest = digest, lr_payload_json = payload_json\<rparr>"

definition sample_journal_file :: "string \<Rightarrow> string \<Rightarrow> journal" where
  "sample_journal_file digest payload_json = open_journal [sample_event_row digest payload_json] (Some (1, digest))"

lemma sample_journal_file_appended:
  "\<exists>ev d. journal_append demo_env (open_journal [] None) ''t1'' ''OPENED'' [(''n'', JInt 1)] = Inr (ev, sample_journal_file d ''{\"n\":1}'')
     \<and> canonical_digest demo_env (event_body 1 ''t1'' ''OPENED'' GENESIS_HEAD (JObj [(''n'', JInt 1)])) = Inr d"
proof -
  have p: "plain_json (JObj [(''n'', JInt 1)])" "plain_json (event_body 1 ''t1'' ''OPENED'' GENESIS_HEAD (JObj [(''n'', JInt 1)]))"
    by (simp_all add: event_body_def plain_eval)
  have t: "text_of (JObj [(''n'', JInt 1)]) = ''{\"n\":1}''" by code_simp
  show ?thesis
    using canonical_text [OF p(1), of demo_env] canonical_digest_of [OF p(2), of demo_env]
    by (simp add: journal_append_def open_journal_def find_event_def Let_def t sample_journal_file_def sample_event_row_def)
qed

lemma sample_journal_file_verifies:
  assumes "canonical_digest demo_env (event_body 1 ''t1'' ''OPENED'' GENESIS_HEAD (JObj [(''n'', JInt 1)])) = Inr d"
    and "loads plain_hooks payload_json = Inr (JObj [(''n'', JInt 1)])"
  shows "verify_chain demo_env (sample_journal_file d payload_json) = Inr d"
  using assms by (simp add: verify_chain_def sample_journal_file_def sample_event_row_def open_journal_def by_sequence_def lifecycle_row_event_def)

theorem journal_tamper_evident_witness:
  "\<exists>ev J J' h. journal_append demo_env (open_journal [] None) ''t1'' ''OPENED'' [(''n'', JInt 1)] = Inr (ev, J)
     \<and> verify_chain demo_env J = Inr h \<and> verify_chain demo_env J' = Inr h \<and> jn_rows J \<noteq> jn_rows J'
     \<and> map (stored_event demo_env) (by_sequence J) = map (stored_event demo_env) (by_sequence J')"
proof -
  obtain ev d where a: "journal_append demo_env (open_journal [] None) ''t1'' ''OPENED'' [(''n'', JInt 1)] = Inr (ev, sample_journal_file d ''{\"n\":1}'')"
    and d: "canonical_digest demo_env (event_body 1 ''t1'' ''OPENED'' GENESIS_HEAD (JObj [(''n'', JInt 1)])) = Inr d"
    using sample_journal_file_appended by blast
  let ?J = "sample_journal_file d ''{\"n\":1}''" and ?J' = "sample_journal_file d ''{ \"n\": 1 }''"
  have v: "verify_chain demo_env ?J = Inr d" "verify_chain demo_env ?J' = Inr d"
    using sample_journal_file_verifies [OF d] sample_payload_texts by blast+
  have rows: "length (jn_rows ?J) = length (jn_rows ?J')" "jn_rows ?J \<noteq> jn_rows ?J'"
    "by_sequence ?J = jn_rows ?J" "by_sequence ?J' = jn_rows ?J'" "length (jn_rows ?J) = 1"
    by (simp_all add: sample_journal_file_def open_journal_def by_sequence_def sample_event_row_def)
  have "event_bytes demo_env (by_sequence ?J ! 0) = event_bytes demo_env (by_sequence ?J' ! 0)"
    using sample_payload_texts
    by (simp add: sample_journal_file_def open_journal_def by_sequence_def sample_event_row_def event_bytes_def row_payload_def row_body_def)
  then have "map (stored_event demo_env) (by_sequence ?J) = map (stored_event demo_env) (by_sequence ?J')"
    using journal_tamper_evident [OF v rows(1)] rows(5) by (auto simp: collides_def)
  with a v rows(2) show ?thesis by blast
qed

text \<open>
  Every journal built by appends verifies: from an empty file, after any sequence of
  accepted appends, \<^verbatim>\<open>verify_chain\<close> succeeds and returns the stored head. What it
  needs of \<^verbatim>\<open>datetime\<close> is that the ISO text of a parsed instant parses to it again.
\<close>

lemma appended_journal_verifies:
  assumes "iso_stable E" "runs (journal_step E) (open_journal [] None) ls J"
  shows "verify_chain E J = Inr (jn_head J)"
  by (rule journal_ok_verifies [OF journal_run_ok [OF assms(2,1) open_journal_ok]])

lemma sample_journal_append:
  "\<exists>ev J. journal_append demo_env (open_journal [] None) ''t1'' ''OPENED'' [(''n'', JInt 1)] = Inr (ev, J)"
  using sample_journal_file_appended by blast

lemma appended_journal_verifies_witness:
  "\<exists>ev J. journal_append demo_env (open_journal [] None) ''t1'' ''OPENED'' [(''n'', JInt 1)] = Inr (ev, J) \<and>
     verify_chain demo_env J = Inr (jn_head J)"
proof -
  obtain ev J where a: "journal_append demo_env (open_journal [] None) ''t1'' ''OPENED'' [(''n'', JInt 1)] = Inr (ev, J)"
    using sample_journal_append by blast
  from appended_journal_verifies [OF demo_env_stable runs_one [where step = "journal_step demo_env", OF step_journal [OF a]]] a
  show ?thesis by blast
qed

text \<open>
  A repeated append is answered with the stored event. After an event has been appended,
  and after any further appends, appending it again with a payload of the same normal form
  returns that event, with its payload normalised, and leaves the journal as it is; with a
  payload of another normal form it is refused.
\<close>

lemma journal_replay:
  assumes "iso_stable E" "find_event t e J = None" "journal_append E J t e payload = Inr (ev, J1)"
    and "runs (journal_step E) J1 ls J2" "normalize_value E None (JObj payload') = Inr w'"
  shows "\<exists>w. normalize_value E None (JObj payload) = Inr w \<and>
    journal_append E J2 t e payload' = (if w' = w then Inr (ev\<lparr>le_payload := w\<rparr>, J2) else Inl Replay_payload_differs)"
proof -
  obtain r w where r: "normalize_value E None (JObj payload) = Inr w" "lr_payload_json r = json_text w"
    "lr_transition_id r = t" "lr_event_type r = e"
    "J1 = \<lparr>jn_rows = jn_rows J @ [r], jn_sequence = jn_sequence J + 1, jn_head = lr_digest r\<rparr>"
    "ev = \<lparr>le_sequence = lr_sequence r, le_transition_id = t, le_event_type = e, le_predecessor = lr_predecessor r,
             le_digest = lr_digest r, le_payload = JObj payload\<rparr>"
    using append_new [OF assms(3,2,1)] by blast
  have "find_event t e J1 = Some r" using assms(2) r by (simp add: find_event_def find_append_None)
  then have f: "find_event t e J2 = Some r" by (rule journal_run_find [OF assms(4,1)])
  obtain ws where ws: "w = JObj ws" using r(1) unfolding normalize_obj_Inr by blast
  have ev: "lifecycle_row_event r = Inr (ev\<lparr>le_payload := w\<rparr>)"
    using r by (simp add: lifecycle_row_event_def normalize_wf [OF r(1)])
  have pre: "t \<noteq> []" "e \<noteq> []" using assms(3) by (auto simp: journal_append_def result_simps)
  have "json_text w = json_text w' \<longleftrightarrow> w' = w"
    using json_text_inj normalize_wf r(1) assms(5) by metis
  then have "journal_append E J2 t e payload' = (if w' = w then Inr (ev\<lparr>le_payload := w\<rparr>, J2) else Inl Replay_payload_differs)"
    using pre ev f assms(5) normalize_idem [OF assms(1) r(1)] ws
    by (simp add: journal_append_def canonical_json_def del: normalize_value.simps)
  then show ?thesis using r(1) by blast
qed

lemma journal_replay_witness:
  "\<exists>ev J. journal_append demo_env (open_journal [] None) ''t1'' ''OPENED'' [(''n'', JInt 1)] = Inr (ev, J) \<and>
     journal_append demo_env J ''t1'' ''OPENED'' [(''n'', JInt 2)] = Inl Replay_payload_differs"
proof -
  obtain ev J where a: "journal_append demo_env (open_journal [] None) ''t1'' ''OPENED'' [(''n'', JInt 1)] = Inr (ev, J)"
    using sample_journal_append by blast
  have n: "normalize_value demo_env None (JObj [(''n'', JInt i)]) = Inr (JObj [(''n'', JInt i)])" if "\<bar>i\<bar> \<le> 2" for i
    using that by (simp add: MAX_SAFE_INTEGER_def)
  have f: "find_event ''t1'' ''OPENED'' (open_journal [] None) = None" by (simp add: find_event_def open_journal_def)
  from journal_replay [OF demo_env_stable f a runs_nil n [of 2]] n [of 1] a show ?thesis by auto
qed

end
