(* ===== verification/Outbound_Trust.thy ===== *)
theory Outbound_Trust
  imports Py_Values
begin

text \<open>
  \<^verbatim>\<open>vera_core.outbound_trust\<close>: the registry of outbound authorities with its event
  chain. The record \<open>registry\<close> is the database file. Each mutation is one transaction
  (\<open>register_tx\<close>, \<open>rotate_tx\<close>, \<open>revoke_tx\<close>, \<open>reactivate_tx\<close>) that
  appends the event and rewrites the authority row, followed by \<^verbatim>\<open>assert_current\<close>
  on the committed state, which replays the whole event history (\<open>trust_verify_chain\<close>).
\<close>

record authority_row =
  au_scope_key :: string
  au_authority_id :: string
  au_role :: string
  au_provider_id :: "string option"
  au_generation :: int
  au_epoch :: int
  au_key_id :: string
  au_key_digest :: string
  au_enabled :: int

record trust_event =
  te_generation :: int
  te_scope_key :: string
  te_event_type :: string
  te_predecessor :: string
  te_digest :: string
  te_payload_json :: string

record registry =
  tr_authorities :: "authority_row list"
  tr_events :: "trust_event list"
  tr_generation :: int
  tr_head :: string

record trust_state =
  ts_authority_id :: string
  ts_role :: string
  ts_provider_id :: "string option"
  ts_generation :: int
  ts_epoch :: int
  ts_key_id :: string
  ts_key_digest :: string
  ts_enabled :: bool

record currentness_receipt =
  tc_authority_id :: string
  tc_role :: string
  tc_provider_id :: "string option"
  tc_generation :: int
  tc_epoch :: int
  tc_key_id :: string
  tc_key_digest :: string
  tc_registry_generation :: int
  tc_registry_head :: string
  tc_receipt_digest :: string

datatype trust_error =
    Trust_text string
  | Trust_digest string digest_fault
  | Unsupported_role string
  | Scope_carries_provider string
  | Trust_key_error string
  | Stale_registry_generation
  | Scope_registered
  | Scope_not_registered
  | Authority_mismatch
  | Stale_authority_generation
  | Revoked_cannot_rotate
  | Rotation_keeps_key
  | Authority_scope_mismatch
  | Stale_revocation_epoch
  | Already_revoked
  | Not_revoked
  | Authority_revoked
  | Verifier_key_stale
  | Event_generation_gap
  | Trust_predecessor_mismatch
  | Payload_invalid_json
  | Payload_not_object
  | Trust_digest_mismatch
  | Payload_field_set
  | Scope_binding_mismatch
  | Generation_invalid
  | Epoch_invalid
  | Enabled_not_bool
  | Invalid_transition string
  | Unknown_event_type string
  | Trust_meta_generation
  | Trust_meta_head
  | Projection_diverges
  | Trust_integrity
  | Trust_canon canon_error

section \<open>Scopes\<close>

definition TRUST_GENESIS_HEAD :: string where
  "TRUST_GENESIS_HEAD = sha256_hexdigest ''vera-mono-outbound-trust-genesis-v1''"

definition TRUST_ROLES :: "string list" where
  "TRUST_ROLES = [''PC'', ''PROVIDER'', ''RECONCILIATION'']"

definition trust_require_text :: "string \<Rightarrow> string \<Rightarrow> (trust_error, string) result" where
  "trust_require_text value label = rbind (ensure (value \<noteq> []) (Trust_text label)) (\<lambda>_. Inr value)"

definition trust_require_digest :: "string \<Rightarrow> string \<Rightarrow> (trust_error, string) result" where
  "trust_require_digest value label = map_err (Trust_digest label) (digest_check value)"

text \<open>
  The provider id comes from a caller or from a stored event, so it is a JSON value here;
  a caller's \<^verbatim>\<open>None\<close> is \<^verbatim>\<open>null\<close>.
\<close>

definition scope_key :: "string \<Rightarrow> json \<Rightarrow> (trust_error, string) result" where
  "scope_key role0 provider_id =
     rbind (trust_require_text role0 ''role'') (\<lambda>role.
     rbind (ensure (role \<in> set TRUST_ROLES) (Unsupported_role role)) (\<lambda>_.
       if role = ''PROVIDER''
       then (case provider_id of
               JStr p \<Rightarrow> rbind (trust_require_text p ''provider_id'') (\<lambda>provider. Inr (role @ '':'' @ provider))
             | _ \<Rightarrow> Inl (Trust_text ''provider_id''))
       else rbind (ensure (provider_id = JNull) (Scope_carries_provider role)) (\<lambda>_. Inr role)))"

abbreviation authority_of :: "string \<Rightarrow> registry \<Rightarrow> authority_row option" where
  "authority_of k R \<equiv> row_of au_scope_key k (tr_authorities R)"

definition open_registry ::
  "authority_row list \<Rightarrow> trust_event list \<Rightarrow> (int \<times> string) option \<Rightarrow> registry" where
  "open_registry rows events meta =
     (let (generation, head) = (case meta of None \<Rightarrow> (0, TRUST_GENESIS_HEAD) | Some m \<Rightarrow> m)
      in \<lparr>tr_authorities = rows, tr_events = events, tr_generation = generation, tr_head = head\<rparr>)"

definition state_of :: "authority_row \<Rightarrow> trust_state" where
  "state_of row =
     \<lparr>ts_authority_id = au_authority_id row, ts_role = au_role row, ts_provider_id = au_provider_id row,
      ts_generation = au_generation row, ts_epoch = au_epoch row, ts_key_id = au_key_id row,
      ts_key_digest = au_key_digest row, ts_enabled = (au_enabled row \<noteq> 0)\<rparr>"

definition read_scope :: "registry \<Rightarrow> string \<Rightarrow> string option \<Rightarrow> (trust_error, trust_state) result" where
  "read_scope R role provider_id =
     rbind (scope_key role (opt_str provider_id)) (\<lambda>k.
     rbind (or_raise (authority_of k R) (Trust_key_error k)) (\<lambda>row. Inr (state_of row)))"

definition has_scope :: "registry \<Rightarrow> string \<Rightarrow> string option \<Rightarrow> (trust_error, bool) result" where
  "has_scope R role provider_id =
     (case read_scope R role provider_id of
        Inr _ \<Rightarrow> Inr True
      | Inl (Trust_key_error k) \<Rightarrow> Inr False
      | Inl e \<Rightarrow> Inl e)"

section \<open>Events\<close>

definition authority_payload ::
  "string \<Rightarrow> string \<Rightarrow> string option \<Rightarrow> int \<Rightarrow> int \<Rightarrow> string \<Rightarrow> string \<Rightarrow> bool \<Rightarrow> (string \<times> json) list" where
  "authority_payload authority_id role provider_id generation epoch key_id key_digest enabled =
     [(''authority_id'', JStr authority_id), (''role'', JStr role), (''provider_id'', opt_str provider_id),
      (''authority_generation'', JInt generation), (''revocation_epoch'', JInt epoch),
      (''key_id'', JStr key_id), (''key_digest'', JStr key_digest), (''enabled'', JBool enabled)]"

definition trust_event_body :: "int \<Rightarrow> string \<Rightarrow> string \<Rightarrow> string \<Rightarrow> json \<Rightarrow> json" where
  "trust_event_body generation scope event_type predecessor payload =
     JObj [(''schema'', JStr ''VERA_MONO_OUTBOUND_TRUST_EVENT_V1''), (''registry_generation'', JInt generation),
           (''scope_key'', JStr scope), (''event_type'', JStr event_type),
           (''predecessor_digest'', JStr predecessor), (''payload'', payload)]"

text \<open>\<^verbatim>\<open>_append_event_locked\<close> followed by \<^verbatim>\<open>_advance_meta\<close>.\<close>

definition append_event ::
  "py_env \<Rightarrow> registry \<Rightarrow> string \<Rightarrow> string \<Rightarrow> (string \<times> json) list \<Rightarrow> (trust_error, registry) result" where
  "append_event E R scope event_type payload =
     (let generation = tr_generation R + 1
      in rbind (map_err Trust_canon (canonical_digest E
            (trust_event_body generation scope event_type (tr_head R) (JObj payload)))) (\<lambda>digest.
         rbind (map_err Trust_canon (canonical_json E (JObj payload))) (\<lambda>payload_json.
         rbind (ensure (generation \<notin> te_generation ` set (tr_events R) \<and>
                        digest \<notin> te_digest ` set (tr_events R)) Trust_integrity) (\<lambda>_.
           let event = \<lparr>te_generation = generation, te_scope_key = scope, te_event_type = event_type,
                 te_predecessor = tr_head R, te_digest = digest, te_payload_json = payload_json\<rparr>
           in Inr (R\<lparr>tr_events := tr_events R @ [event], tr_generation := generation, tr_head := digest\<rparr>)))))"

section \<open>Replaying the history\<close>

text \<open>
  Python's \<^verbatim>\<open>==\<close> on the values the encoder admits: truth values count as the
  integers 0 and 1, and the order of keys does not matter.
\<close>

fun unbool :: "json \<Rightarrow> json" where
  "unbool (JBool b) = JInt (if b then 1 else 0)"
| "unbool (JArr vs) = JArr (map unbool vs)"
| "unbool (JObj kvs) = JObj (map (\<lambda>kv. (fst kv, unbool (snd kv))) kvs)"
| "unbool v = v"

definition unbool_eq :: "json \<Rightarrow> json \<Rightarrow> bool" where
  "unbool_eq a b \<longleftrightarrow> sorted_keys (unbool a) = sorted_keys (unbool b)"

type_synonym projection = "(string \<times> json) list"

definition projections_eq :: "projection \<Rightarrow> projection \<Rightarrow> bool" where
  "projections_eq p q \<longleftrightarrow>
     (\<forall>k \<in> fst ` set p \<union> fst ` set q.
        (case (map_of p k, map_of q k) of (Some a, Some b) \<Rightarrow> unbool_eq a b | _ \<Rightarrow> False))"

definition required_fields :: "string list" where
  "required_fields =
     [''authority_id'', ''role'', ''provider_id'', ''authority_generation'', ''revocation_epoch'',
      ''key_id'', ''key_digest'', ''enabled'']"

definition check_payload ::
  "py_env \<Rightarrow> string \<Rightarrow> (string \<times> json) list \<Rightarrow> (trust_error, int \<times> int \<times> bool) result" where
  "check_payload E scope payload =
     rbind (ensure (fst ` set payload = set required_fields) Payload_field_set) (\<lambda>_.
     let get = (\<lambda>k. py_get k (JObj payload))
     in rbind (scope_key (py_str E (get ''role'')) (get ''provider_id'')) (\<lambda>expected_scope.
        rbind (ensure (expected_scope = scope) Scope_binding_mismatch) (\<lambda>_.
        rbind (trust_require_text (py_str E (get ''authority_id'')) ''authority_id'') (\<lambda>_.
        rbind (trust_require_text (py_str E (get ''key_id'')) ''key_id'') (\<lambda>_.
        rbind (trust_require_digest (py_str E (get ''key_digest'')) ''key_digest'') (\<lambda>_.
        rbind (case get ''authority_generation'' of
                 JInt g \<Rightarrow> rbind (ensure (1 \<le> g) Generation_invalid) (\<lambda>_. Inr g)
               | _ \<Rightarrow> Inl Generation_invalid) (\<lambda>g.
        rbind (case get ''revocation_epoch'' of
                 JInt e \<Rightarrow> rbind (ensure (0 \<le> e) Epoch_invalid) (\<lambda>_. Inr e)
               | _ \<Rightarrow> Inl Epoch_invalid) (\<lambda>e.
        rbind (case get ''enabled'' of JBool b \<Rightarrow> Inr b | _ \<Rightarrow> Inl Enabled_not_bool) (\<lambda>b.
          Inr (g, e, b))))))))))"

definition check_transition ::
  "string \<Rightarrow> json option \<Rightarrow> json \<Rightarrow> int \<Rightarrow> int \<Rightarrow> bool \<Rightarrow> (trust_error, unit) result" where
  "check_transition event_type prior payload generation epoch enabled =
     (let same = (\<lambda>p k. unbool_eq (py_get k payload) (py_get k p));
          step = (\<lambda>p k v d. unbool_eq v (case py_get k p of JInt i \<Rightarrow> JInt (i + d) | x \<Rightarrow> x))
      in if event_type = ''REGISTER''
         then ensure (prior = None \<and> generation = 1 \<and> epoch = 0 \<and> enabled) (Invalid_transition event_type)
         else if event_type = ''ROTATE''
         then (case prior of
                 None \<Rightarrow> Inl (Invalid_transition event_type)
               | Some p \<Rightarrow> ensure (py_get ''enabled'' p = JBool True \<and> same p ''authority_id''
                     \<and> step p ''authority_generation'' (JInt generation) 1
                     \<and> step p ''revocation_epoch'' (JInt epoch) 0 \<and> enabled
                     \<and> \<not> (same p ''key_id'' \<and> same p ''key_digest'')) (Invalid_transition event_type))
         else if event_type = ''REVOKE''
         then (case prior of
                 None \<Rightarrow> Inl (Invalid_transition event_type)
               | Some p \<Rightarrow> ensure (py_get ''enabled'' p = JBool True \<and> same p ''authority_id''
                     \<and> step p ''authority_generation'' (JInt generation) 0
                     \<and> step p ''revocation_epoch'' (JInt epoch) 1
                     \<and> same p ''key_id'' \<and> same p ''key_digest'' \<and> \<not> enabled) (Invalid_transition event_type))
         else if event_type = ''REACTIVATE''
         then (case prior of
                 None \<Rightarrow> Inl (Invalid_transition event_type)
               | Some p \<Rightarrow> ensure (py_get ''enabled'' p = JBool False
                     \<and> step p ''authority_generation'' (JInt generation) 1
                     \<and> step p ''revocation_epoch'' (JInt epoch) 0 \<and> enabled) (Invalid_transition event_type))
         else Inl (Unknown_event_type event_type))"

definition load_payload :: "string \<Rightarrow> (trust_error, (string \<times> json) list) result" where
  "load_payload s =
     rbind (map_err (\<lambda>_. Payload_invalid_json) (loads plain_hooks s)) (\<lambda>v.
       (case v of JObj kvs \<Rightarrow> Inr kvs | _ \<Rightarrow> Inl Payload_not_object))"

fun verify_events ::
  "py_env \<Rightarrow> string \<Rightarrow> int \<Rightarrow> projection \<Rightarrow> trust_event list \<Rightarrow>
     (trust_error, string \<times> int \<times> projection) result" where
  "verify_events E predecessor expected projection [] = Inr (predecessor, expected, projection)"
| "verify_events E predecessor expected projection (row # rows) =
     rbind (ensure (te_generation row = expected) Event_generation_gap) (\<lambda>_.
     rbind (ensure (te_predecessor row = predecessor) Trust_predecessor_mismatch) (\<lambda>_.
     rbind (load_payload (te_payload_json row)) (\<lambda>payload.
     rbind (map_err Trust_canon (canonical_digest E (trust_event_body expected (te_scope_key row)
        (te_event_type row) predecessor (JObj payload)))) (\<lambda>observed.
     rbind (ensure (observed = te_digest row) Trust_digest_mismatch) (\<lambda>_.
     rbind (check_payload E (te_scope_key row) payload) (\<lambda>(generation, epoch, enabled).
     rbind (check_transition (te_event_type row) (map_of projection (te_scope_key row)) (JObj payload)
        generation epoch enabled) (\<lambda>_.
       verify_events E observed (expected + 1) (dict_set projection (te_scope_key row) (JObj payload)) rows)))))))"

definition row_payload_json :: "authority_row \<Rightarrow> json" where
  "row_payload_json row =
     JObj (authority_payload (au_authority_id row) (au_role row) (au_provider_id row) (au_generation row)
       (au_epoch row) (au_key_id row) (au_key_digest row) (au_enabled row \<noteq> 0))"

definition stored_projection :: "registry \<Rightarrow> projection" where
  "stored_projection R =
     foldl (\<lambda>d row. dict_set d (au_scope_key row) (row_payload_json row)) []
       (sort_key au_scope_key (tr_authorities R))"

definition trust_verify_chain :: "py_env \<Rightarrow> registry \<Rightarrow> (trust_error, string) result" where
  "trust_verify_chain E R =
     (let rows = sort_key te_generation (tr_events R)
      in rbind (verify_events E TRUST_GENESIS_HEAD 1 [] rows) (\<lambda>(predecessor, expected, projection).
         rbind (ensure (tr_generation R = expected - 1) Trust_meta_generation) (\<lambda>_.
         rbind (ensure (tr_head R = (if rows \<noteq> [] then predecessor else TRUST_GENESIS_HEAD)) Trust_meta_head) (\<lambda>_.
         rbind (ensure (projections_eq (stored_projection R) projection) Projection_diverges) (\<lambda>_.
           Inr (tr_head R))))))"

section \<open>Currentness\<close>

definition receipt_body :: "authority_row \<Rightarrow> registry \<Rightarrow> string \<Rightarrow> string \<Rightarrow> string option \<Rightarrow> string \<Rightarrow> string \<Rightarrow> json" where
  "receipt_body row R authority_id role provider_id key_id key_digest =
     JObj [(''schema'', JStr ''VERA_MONO_AUTHORITY_CURRENTNESS_RECEIPT_V1''), (''authority_id'', JStr authority_id),
           (''role'', JStr role), (''provider_id'', opt_str provider_id),
           (''authority_generation'', JInt (au_generation row)), (''revocation_epoch'', JInt (au_epoch row)),
           (''key_id'', JStr key_id), (''key_digest'', JStr key_digest),
           (''registry_generation'', JInt (tr_generation R)), (''registry_head_digest'', JStr (tr_head R))]"

definition assert_current ::
  "py_env \<Rightarrow> registry \<Rightarrow> string \<Rightarrow> string \<Rightarrow> string \<Rightarrow> string \<Rightarrow> string option \<Rightarrow>
     (trust_error, currentness_receipt) result" where
  "assert_current E R authority_id0 role key_id0 key_digest0 provider_id =
     rbind (trust_verify_chain E R) (\<lambda>_.
     rbind (scope_key role (opt_str provider_id)) (\<lambda>k.
     rbind (trust_require_text authority_id0 ''authority_id'') (\<lambda>authority_id.
     rbind (trust_require_text key_id0 ''key_id'') (\<lambda>key_id.
     rbind (trust_require_digest key_digest0 ''key_digest'') (\<lambda>key_digest.
     rbind (or_raise (authority_of k R) Scope_not_registered) (\<lambda>row.
     rbind (ensure (au_enabled row = 1) Authority_revoked) (\<lambda>_.
     rbind (ensure (au_authority_id row = authority_id) Authority_mismatch) (\<lambda>_.
     rbind (ensure (au_key_id row = key_id \<and> au_key_digest row = key_digest) Verifier_key_stale) (\<lambda>_.
     rbind (map_err Trust_canon (canonical_digest E
         (receipt_body row R authority_id role provider_id key_id key_digest))) (\<lambda>digest.
       Inr \<lparr>tc_authority_id = authority_id, tc_role = role, tc_provider_id = provider_id,
            tc_generation = au_generation row, tc_epoch = au_epoch row, tc_key_id = key_id,
            tc_key_digest = key_digest, tc_registry_generation = tr_generation R,
            tc_registry_head = tr_head R, tc_receipt_digest = digest\<rparr>))))))))))"

definition trust_states :: "py_env \<Rightarrow> registry \<Rightarrow> (trust_error, trust_state list) result" where
  "trust_states E R =
     rbind (trust_verify_chain E R) (\<lambda>_. Inr (map state_of (sort_key au_scope_key (tr_authorities R))))"

definition trust_context :: "py_env \<Rightarrow> registry \<Rightarrow> (trust_error, json) result" where
  "trust_context E R =
     rbind (trust_verify_chain E R) (\<lambda>head.
     rbind (trust_states E R) (\<lambda>states.
       Inr (JObj [(''schema'', JStr ''VERA_MONO_OUTBOUND_TRUST_CONTEXT_V1''),
                  (''registry_generation'', JInt (tr_generation R)), (''registry_head_digest'', JStr head),
                  (''scopes'', JArr (map (\<lambda>s. JObj (authority_payload (ts_authority_id s) (ts_role s)
                     (ts_provider_id s) (ts_generation s) (ts_epoch s) (ts_key_id s) (ts_key_digest s)
                     (ts_enabled s))) states))])))"

section \<open>Mutations\<close>

definition register_tx ::
  "py_env \<Rightarrow> registry \<Rightarrow> string \<Rightarrow> string \<Rightarrow> string \<Rightarrow> string \<Rightarrow> string option \<Rightarrow> int \<Rightarrow> (trust_error, registry) result" where
  "register_tx E R authority_id0 role key_id0 key_digest0 provider_id expected_registry =
     rbind (scope_key role (opt_str provider_id)) (\<lambda>k.
     rbind (trust_require_text authority_id0 ''authority_id'') (\<lambda>authority_id.
     rbind (trust_require_text key_id0 ''key_id'') (\<lambda>key_id.
     rbind (trust_require_digest key_digest0 ''key_digest'') (\<lambda>key_digest.
     rbind (ensure (tr_generation R = expected_registry) Stale_registry_generation) (\<lambda>_.
     rbind (ensure (authority_of k R = None) Scope_registered) (\<lambda>_.
       let row = \<lparr>au_scope_key = k, au_authority_id = authority_id, au_role = role,
             au_provider_id = provider_id, au_generation = 1, au_epoch = 0, au_key_id = key_id,
             au_key_digest = key_digest, au_enabled = 1\<rparr>
       in append_event E (R\<lparr>tr_authorities := tr_authorities R @ [row]\<rparr>) k ''REGISTER''
            (authority_payload authority_id role provider_id 1 0 key_id key_digest True)))))))"

definition rotate_tx ::
  "py_env \<Rightarrow> registry \<Rightarrow> string \<Rightarrow> string \<Rightarrow> string \<Rightarrow> string \<Rightarrow> string option \<Rightarrow> int \<Rightarrow> int \<Rightarrow> (trust_error, registry) result" where
  "rotate_tx E R authority_id0 role key_id0 key_digest0 provider_id expected_registry expected_generation =
     rbind (scope_key role (opt_str provider_id)) (\<lambda>k.
     rbind (trust_require_text key_id0 ''key_id'') (\<lambda>key_id.
     rbind (trust_require_digest key_digest0 ''key_digest'') (\<lambda>key_digest.
     rbind (trust_require_text authority_id0 ''authority_id'') (\<lambda>authority_id.
     rbind (ensure (tr_generation R = expected_registry) Stale_registry_generation) (\<lambda>_.
     rbind (or_raise (authority_of k R) Scope_not_registered) (\<lambda>row.
     rbind (ensure (au_authority_id row = authority_id) Authority_mismatch) (\<lambda>_.
     rbind (ensure (au_generation row = expected_generation) Stale_authority_generation) (\<lambda>_.
     rbind (ensure (au_enabled row = 1) Revoked_cannot_rotate) (\<lambda>_.
     rbind (ensure (\<not> (au_key_id row = key_id \<and> au_key_digest row = key_digest)) Rotation_keeps_key) (\<lambda>_.
       append_event E (R\<lparr>tr_authorities := upd_row au_scope_key k
            (\<lambda>r. r\<lparr>au_generation := expected_generation + 1, au_key_id := key_id, au_key_digest := key_digest\<rparr>)
            (tr_authorities R)\<rparr>) k ''ROTATE''
         (authority_payload authority_id role provider_id (expected_generation + 1) (au_epoch row)
            key_id key_digest True)))))))))))"

definition revoke_tx ::
  "py_env \<Rightarrow> registry \<Rightarrow> string \<Rightarrow> string \<Rightarrow> string option \<Rightarrow> int \<Rightarrow> int \<Rightarrow> (trust_error, registry) result" where
  "revoke_tx E R authority_id0 role provider_id expected_registry expected_epoch =
     rbind (scope_key role (opt_str provider_id)) (\<lambda>k.
     rbind (trust_require_text authority_id0 ''authority_id'') (\<lambda>authority_id.
     rbind (ensure (tr_generation R = expected_registry) Stale_registry_generation) (\<lambda>_.
     rbind (or_raise (authority_of k R) Authority_scope_mismatch) (\<lambda>row.
     rbind (ensure (au_authority_id row = authority_id) Authority_scope_mismatch) (\<lambda>_.
     rbind (ensure (au_epoch row = expected_epoch) Stale_revocation_epoch) (\<lambda>_.
     rbind (ensure (au_enabled row = 1) Already_revoked) (\<lambda>_.
       append_event E (R\<lparr>tr_authorities := upd_row au_scope_key k
            (\<lambda>r. r\<lparr>au_epoch := expected_epoch + 1, au_enabled := 0\<rparr>) (tr_authorities R)\<rparr>) k ''REVOKE''
         (authority_payload authority_id role provider_id (au_generation row) (expected_epoch + 1)
            (au_key_id row) (au_key_digest row) False))))))))"

definition reactivate_tx ::
  "py_env \<Rightarrow> registry \<Rightarrow> string \<Rightarrow> string \<Rightarrow> string \<Rightarrow> string \<Rightarrow> string option \<Rightarrow> int \<Rightarrow> int \<Rightarrow> int \<Rightarrow>
     (trust_error, registry) result" where
  "reactivate_tx E R authority_id0 role key_id0 key_digest0 provider_id expected_registry
     expected_generation expected_epoch =
     rbind (scope_key role (opt_str provider_id)) (\<lambda>k.
     rbind (trust_require_text authority_id0 ''authority_id'') (\<lambda>authority_id.
     rbind (trust_require_text key_id0 ''key_id'') (\<lambda>key_id.
     rbind (trust_require_digest key_digest0 ''key_digest'') (\<lambda>key_digest.
     rbind (ensure (tr_generation R = expected_registry) Stale_registry_generation) (\<lambda>_.
     rbind (or_raise (authority_of k R) Scope_not_registered) (\<lambda>row.
     rbind (ensure (au_enabled row = 0) Not_revoked) (\<lambda>_.
     rbind (ensure (au_generation row = expected_generation) Stale_authority_generation) (\<lambda>_.
     rbind (ensure (au_epoch row = expected_epoch) Stale_revocation_epoch) (\<lambda>_.
       append_event E (R\<lparr>tr_authorities := upd_row au_scope_key k
            (\<lambda>r. r\<lparr>au_authority_id := authority_id, au_generation := expected_generation + 1,
                 au_key_id := key_id, au_key_digest := key_digest, au_enabled := 1\<rparr>) (tr_authorities R)\<rparr>)
         k ''REACTIVATE''
         (authority_payload authority_id role provider_id (expected_generation + 1) expected_epoch
            key_id key_digest True))))))))))"

text \<open>The public operations: the committed transaction, then \<^verbatim>\<open>assert_current\<close> on it.\<close>

definition register ::
  "py_env \<Rightarrow> registry \<Rightarrow> string \<Rightarrow> string \<Rightarrow> string \<Rightarrow> string \<Rightarrow> string option \<Rightarrow> int \<Rightarrow>
     (trust_error, currentness_receipt) result \<times> registry" where
  "register E R authority_id role key_id key_digest provider_id expected_registry =
     (case register_tx E R authority_id role key_id key_digest provider_id expected_registry of
        Inl e \<Rightarrow> (Inl e, R)
      | Inr R' \<Rightarrow> (assert_current E R' authority_id role key_id key_digest provider_id, R'))"

definition rotate_key ::
  "py_env \<Rightarrow> registry \<Rightarrow> string \<Rightarrow> string \<Rightarrow> string \<Rightarrow> string \<Rightarrow> string option \<Rightarrow> int \<Rightarrow> int \<Rightarrow>
     (trust_error, currentness_receipt) result \<times> registry" where
  "rotate_key E R authority_id role key_id key_digest provider_id expected_registry expected_generation =
     (case rotate_tx E R authority_id role key_id key_digest provider_id expected_registry expected_generation of
        Inl e \<Rightarrow> (Inl e, R)
      | Inr R' \<Rightarrow> (assert_current E R' authority_id role key_id key_digest provider_id, R'))"

definition revoke ::
  "py_env \<Rightarrow> registry \<Rightarrow> string \<Rightarrow> string \<Rightarrow> string option \<Rightarrow> int \<Rightarrow> int \<Rightarrow> (trust_error, int) result \<times> registry" where
  "revoke E R authority_id role provider_id expected_registry expected_epoch =
     (case revoke_tx E R authority_id role provider_id expected_registry expected_epoch of
        Inl e \<Rightarrow> (Inl e, R)
      | Inr R' \<Rightarrow> (Inr (expected_epoch + 1), R'))"

definition reactivate ::
  "py_env \<Rightarrow> registry \<Rightarrow> string \<Rightarrow> string \<Rightarrow> string \<Rightarrow> string \<Rightarrow> string option \<Rightarrow> int \<Rightarrow> int \<Rightarrow> int \<Rightarrow>
     (trust_error, currentness_receipt) result \<times> registry" where
  "reactivate E R authority_id role key_id key_digest provider_id expected_registry expected_generation
     expected_epoch =
     (case reactivate_tx E R authority_id role key_id key_digest provider_id expected_registry
         expected_generation expected_epoch of
        Inl e \<Rightarrow> (Inl e, R)
      | Inr R' \<Rightarrow> (assert_current E R' authority_id role key_id key_digest provider_id, R'))"

section \<open>Rows and their events\<close>

definition row_pairs :: "authority_row \<Rightarrow> (string \<times> json) list" where
  "row_pairs a = authority_payload (au_authority_id a) (au_role a) (au_provider_id a) (au_generation a)
     (au_epoch a) (au_key_id a) (au_key_digest a) (au_enabled a \<noteq> 0)"

definition row_wf :: "authority_row \<Rightarrow> bool" where
  "row_wf a \<longleftrightarrow> scope_key (au_role a) (opt_str (au_provider_id a)) = Inr (au_scope_key a) \<and>
     au_authority_id a \<noteq> [] \<and> au_key_id a \<noteq> [] \<and> digest_check (au_key_digest a) = Inr (au_key_digest a) \<and>
     1 \<le> au_generation a \<and> 0 \<le> au_epoch a \<and> au_enabled a \<in> {0, 1}"

definition change_ok :: "string \<Rightarrow> authority_row option \<Rightarrow> authority_row \<Rightarrow> bool" where
  "change_ok ety prior a \<longleftrightarrow>
     (case prior of
        None \<Rightarrow> ety = ''REGISTER'' \<and> au_generation a = 1 \<and> au_epoch a = 0 \<and> au_enabled a = 1
      | Some p \<Rightarrow>
          (ety = ''ROTATE'' \<and> au_enabled p = 1 \<and> au_authority_id a = au_authority_id p
             \<and> au_generation a = au_generation p + 1 \<and> au_epoch a = au_epoch p \<and> au_enabled a = 1
             \<and> \<not> (au_key_id a = au_key_id p \<and> au_key_digest a = au_key_digest p)) \<or>
          (ety = ''REVOKE'' \<and> au_enabled p = 1 \<and> au_authority_id a = au_authority_id p
             \<and> au_generation a = au_generation p \<and> au_epoch a = au_epoch p + 1 \<and> au_enabled a = 0
             \<and> au_key_id a = au_key_id p \<and> au_key_digest a = au_key_digest p) \<or>
          (ety = ''REACTIVATE'' \<and> au_enabled p = 0 \<and> au_generation a = au_generation p + 1
             \<and> au_epoch a = au_epoch p \<and> au_enabled a = 1))"

lemma row_pairs_distinct: "distinct (map fst (row_pairs a))"
  by (simp add: row_pairs_def authority_payload_def)

lemma row_payload_pairs: "row_payload_json a = JObj (row_pairs a)"
  by (simp add: row_payload_json_def row_pairs_def)

lemma row_get:
  "py_get k (sorted_keys (JObj (row_pairs a))) =
     (case map_of (row_pairs a) k of None \<Rightarrow> JNull | Some v \<Rightarrow> sorted_keys v)"
  by (rule py_get_sorted [OF row_pairs_distinct])

lemma scope_key_inj:
  assumes "scope_key r (opt_str p) = Inr k" "scope_key r' (opt_str p') = Inr k"
  shows "r = r' \<and> p = p'"
  using assms
  by (cases p; cases p')
    (auto simp: scope_key_def trust_require_text_def TRUST_ROLES_def opt_str_def result_simps split: if_splits)

lemma unbool_eq_simps [simp]:
  "unbool_eq (JStr a) (JStr b) \<longleftrightarrow> a = b" "unbool_eq (JInt i) (JInt j) \<longleftrightarrow> i = j"
  by (simp_all add: unbool_eq_def)

lemma check_payload_own:
  assumes "row_wf a" "sorted_keys (JObj (row_pairs a)) = JObj kvs"
  shows "check_payload E (au_scope_key a) kvs = Inr (au_generation a, au_epoch a, au_enabled a \<noteq> 0)"
proof -
  have get: "py_get k (JObj kvs) = (case map_of (row_pairs a) k of None \<Rightarrow> JNull | Some v \<Rightarrow> sorted_keys v)" for k
    using row_get [of k a] by (simp only: assms(2))
  have "kvs = sort_key key_order (map (\<lambda>kv. (fst kv, sorted_keys (snd kv))) (row_pairs a))"
    using assms(2) by simp
  then have "fst ` set kvs = fst ` set (row_pairs a)" by (simp add: image_image)
  then have "fst ` set kvs = set required_fields"
    by (simp add: row_pairs_def authority_payload_def required_fields_def)
  then show ?thesis
    using assms(1)
    by (simp add: check_payload_def get row_pairs_def authority_payload_def row_wf_def
        trust_require_text_def trust_require_digest_def)
qed

lemma check_transition_own:
  assumes "change_ok ety prior a" "\<forall>p. prior = Some p \<longrightarrow> au_enabled p \<in> {0, 1}"
  shows "check_transition ety (map_option (\<lambda>p. sorted_keys (JObj (row_pairs p))) prior)
    (sorted_keys (JObj (row_pairs a))) (au_generation a) (au_epoch a) (au_enabled a \<noteq> 0) = Inr ()"
proof (cases prior)
  case None
  then show ?thesis using assms by (simp add: change_ok_def check_transition_def)
next
  case (Some p)
  have get: "py_get ''authority_id'' (sorted_keys (JObj (row_pairs x))) = JStr (au_authority_id x)"
    "py_get ''authority_generation'' (sorted_keys (JObj (row_pairs x))) = JInt (au_generation x)"
    "py_get ''revocation_epoch'' (sorted_keys (JObj (row_pairs x))) = JInt (au_epoch x)"
    "py_get ''key_id'' (sorted_keys (JObj (row_pairs x))) = JStr (au_key_id x)"
    "py_get ''key_digest'' (sorted_keys (JObj (row_pairs x))) = JStr (au_key_digest x)"
    "py_get ''enabled'' (sorted_keys (JObj (row_pairs x))) = JBool (au_enabled x \<noteq> 0)" for x
    unfolding row_get by (simp_all add: row_pairs_def authority_payload_def)
  show ?thesis using assms Some
    by (auto simp: change_ok_def check_transition_def get Let_def simp del: sorted_keys.simps)
qed

lemma verify_events_append:
  "verify_events E p n pr (rs @ [r]) =
     rbind (verify_events E p n pr rs) (\<lambda>(p', n', pr'). verify_events E p' n' pr' [r])"
proof (induction rs arbitrary: p n pr)
  case (Cons x xs)
  then show ?case by (simp add: rbind_assoc case_prod_beta cong: rbind_cong del: verify_events.simps(1))
qed simp

lemma verify_events_generations:
  "verify_events E p n pr rs = Inr (p', n', pr') \<Longrightarrow>
     n' = n + int (length rs) \<and> sorted (map te_generation rs) \<and> (\<forall>r\<in>set rs. n \<le> te_generation r)
     \<and> p' = chain_head te_digest p rs"
proof (induction rs arbitrary: p n pr)
  case (Cons r rs)
  then obtain pr2 where "te_generation r = n" "verify_events E (te_digest r) (n + 1) pr2 rs = Inr (p', n', pr')"
    by (auto simp: result_simps)
  with Cons.IH [OF this(2)] show ?case by force
qed simp

lemma plain_row_pairs:
  "\<bar>au_generation a\<bar> \<le> MAX_SAFE_INTEGER \<Longrightarrow> \<bar>au_epoch a\<bar> \<le> MAX_SAFE_INTEGER \<Longrightarrow> plain_json (JObj (row_pairs a))"
  by (simp add: row_pairs_def authority_payload_def path_hint_def time_hint_def ends_with_def)

lemma plain_trust_body:
  "plain_json p \<Longrightarrow> \<bar>n\<bar> \<le> MAX_SAFE_INTEGER \<Longrightarrow> plain_json (trust_event_body n k ety h p)"
  by (simp add: trust_event_body_def path_hint_def time_hint_def ends_with_def)

lemma trust_body_sorted: "digest_of (trust_event_body n k ety h (sorted_keys p)) = digest_of (trust_event_body n k ety h p)"
  by (simp add: digest_of_def text_of_def trust_event_body_def sorted_keys_idem)

lemma append_event_Inr:
  assumes "append_event E R k ety (row_pairs a) = Inr R'"
  shows "\<exists>ev. R' = R\<lparr>tr_events := tr_events R @ [ev], tr_generation := tr_generation R + 1, tr_head := te_digest ev\<rparr>
    \<and> te_generation ev = tr_generation R + 1 \<and> te_scope_key ev = k \<and> te_event_type ev = ety
    \<and> te_predecessor ev = tr_head R \<and> te_payload_json ev = text_of (JObj (row_pairs a))
    \<and> te_digest ev = digest_of (trust_event_body (tr_generation R + 1) k ety (tr_head R) (JObj (row_pairs a)))
    \<and> \<bar>tr_generation R + 1\<bar> \<le> MAX_SAFE_INTEGER \<and> plain_json (JObj (row_pairs a))"
proof -
  obtain d t where dt: "canonical_digest E (trust_event_body (tr_generation R + 1) k ety (tr_head R) (JObj (row_pairs a))) = Inr d"
    "canonical_json E (JObj (row_pairs a)) = Inr t"
    "R' = R\<lparr>tr_events := tr_events R @ [\<lparr>te_generation = tr_generation R + 1, te_scope_key = k, te_event_type = ety,
        te_predecessor = tr_head R, te_digest = d, te_payload_json = t\<rparr>], tr_generation := tr_generation R + 1,
        tr_head := d\<rparr>"
    using assms by (auto simp: append_event_def result_simps Let_def)
  have n: "\<bar>tr_generation R + 1\<bar> \<le> MAX_SAFE_INTEGER"
    using dt(1) unfolding trust_event_body_def by (rule canonical_digest_int [where k = "''registry_generation''"]) simp
  have p: "plain_json (JObj (row_pairs a))"
    using canonical_json_int [OF dt(2), of "''authority_generation''"] canonical_json_int [OF dt(2), of "''revocation_epoch''"]
    by (intro plain_row_pairs) (simp_all add: row_pairs_def authority_payload_def)
  have "d = digest_of (trust_event_body (tr_generation R + 1) k ety (tr_head R) (JObj (row_pairs a)))"
    "t = text_of (JObj (row_pairs a))"
    using dt(1,2) canonical_digest_of [OF plain_trust_body [OF p n]] canonical_text [OF p] by auto
  then show ?thesis using dt(3) n p
    by (intro exI [of _ "\<lparr>te_generation = tr_generation R + 1, te_scope_key = k, te_event_type = ety,
        te_predecessor = tr_head R, te_digest = d, te_payload_json = t\<rparr>"]) simp
qed

lemma verify_own_event:
  assumes "row_wf a" "change_ok ety prior a" "\<forall>p. prior = Some p \<longrightarrow> au_enabled p \<in> {0, 1}"
    and "map_of pr (au_scope_key a) = map_option (\<lambda>p. sorted_keys (JObj (row_pairs p))) prior"
    and ev: "te_generation ev = n" "te_scope_key ev = au_scope_key a" "te_event_type ev = ety" "te_predecessor ev = h"
      "te_payload_json ev = text_of (JObj (row_pairs a))"
      "te_digest ev = digest_of (trust_event_body n (au_scope_key a) ety h (JObj (row_pairs a)))"
    and plain: "plain_json (JObj (row_pairs a))" "\<bar>n\<bar> \<le> MAX_SAFE_INTEGER"
  shows "verify_events E h n pr [ev] =
    Inr (te_digest ev, n + 1, dict_set pr (au_scope_key a) (sorted_keys (JObj (row_pairs a))))"
proof -
  obtain kvs where kvs: "sorted_keys (JObj (row_pairs a)) = JObj kvs" by simp
  have load: "load_payload (te_payload_json ev) = Inr kvs"
    using loads_text_of(1) [OF plain(1)] by (simp add: load_payload_def ev kvs del: sorted_keys.simps)
  have "plain_json (JObj kvs)" using sorted_keys_plain [OF plain(1)] unfolding kvs .
  then have dig: "canonical_digest E (trust_event_body n (au_scope_key a) ety h (JObj kvs)) = Inr (te_digest ev)"
    using trust_body_sorted [of n "au_scope_key a" ety h "JObj (row_pairs a)"] plain(2) ev(6)
    by (subst canonical_digest_of) (auto simp: kvs plain_trust_body simp del: plain_json.simps sorted_keys.simps)
  have trans: "check_transition ety (map_of pr (au_scope_key a)) (JObj kvs) (au_generation a) (au_epoch a)
      (au_enabled a \<noteq> 0) = Inr ()"
    using check_transition_own [OF assms(2,3)] assms(4) kvs by (simp del: sorted_keys.simps)
  show ?thesis
    using dig trans check_payload_own [OF assms(1) kvs, of E]
    by (simp add: ev(1-4) load kvs del: sorted_keys.simps)
qed

end
