(* ===== verification/Trust_Guarantees.thy ===== *)
theory Trust_Guarantees
  imports Outbound_Trust "HOL-Library.Multiset"
begin

text \<open>
  What the outbound trust registry guarantees: every registry its own mutations build passes
  \<^verbatim>\<open>verify_chain\<close>, mutations are a compare-and-swap on the registry generation, a
  revoked authority is never current until it is reactivated, and an authority generation
  names one verifier key for ever.
\<close>

section \<open>Steps\<close>

datatype trust_call =
    L_register string string string string "string option" int
  | L_rotate string string string string "string option" int int
  | L_revoke string string "string option" int int
  | L_reactivate string string string string "string option" int int int

inductive trust_step :: "py_env \<Rightarrow> registry \<Rightarrow> trust_call \<Rightarrow> registry \<Rightarrow> bool" for E where
  step_register: "register_tx E R aid role kid kd prov g = Inr R' \<Longrightarrow>
     trust_step E R (L_register aid role kid kd prov g) R'"
| step_rotate: "rotate_tx E R aid role kid kd prov g ag = Inr R' \<Longrightarrow>
     trust_step E R (L_rotate aid role kid kd prov g ag) R'"
| step_revoke: "revoke_tx E R aid role prov g e = Inr R' \<Longrightarrow>
     trust_step E R (L_revoke aid role prov g e) R'"
| step_reactivate: "reactivate_tx E R aid role kid kd prov g ag e = Inr R' \<Longrightarrow>
     trust_step E R (L_reactivate aid role kid kd prov g ag e) R'"

fun call_expects :: "trust_call \<Rightarrow> int" where
  "call_expects (L_register aid role kid kd prov g) = g"
| "call_expects (L_rotate aid role kid kd prov g ag) = g"
| "call_expects (L_revoke aid role prov g e) = g"
| "call_expects (L_reactivate aid role kid kd prov g ag e) = g"

fun call_scope :: "trust_call \<Rightarrow> (trust_error, string) result" where
  "call_scope (L_register aid role kid kd prov g) = scope_key role (opt_str prov)"
| "call_scope (L_rotate aid role kid kd prov g ag) = scope_key role (opt_str prov)"
| "call_scope (L_revoke aid role prov g e) = scope_key role (opt_str prov)"
| "call_scope (L_reactivate aid role kid kd prov g ag e) = scope_key role (opt_str prov)"

fun call_event :: "trust_call \<Rightarrow> string" where
  "call_event (L_register aid role kid kd prov g) = ''REGISTER''"
| "call_event (L_rotate aid role kid kd prov g ag) = ''ROTATE''"
| "call_event (L_revoke aid role prov g e) = ''REVOKE''"
| "call_event (L_reactivate aid role kid kd prov g ag e) = ''REACTIVATE''"

text \<open>Every mutation writes one row of its scope and appends the event of that row.\<close>

definition row_written :: "registry \<Rightarrow> authority_row \<Rightarrow> authority_row list \<Rightarrow> bool" where
  "row_written R a rows \<longleftrightarrow>
     (\<forall>j. row_of au_scope_key j rows = (if j = au_scope_key a then Some a else authority_of j R)) \<and>
     (distinct_keys au_scope_key (tr_authorities R) \<longrightarrow> distinct_keys au_scope_key rows)"

definition mutated :: "py_env \<Rightarrow> registry \<Rightarrow> trust_call \<Rightarrow> authority_row \<Rightarrow> registry \<Rightarrow> bool" where
  "mutated E R l a R' \<longleftrightarrow> row_wf a \<and> change_ok (call_event l) (authority_of (au_scope_key a) R) a \<and>
     call_scope l = Inr (au_scope_key a) \<and> call_expects l = tr_generation R \<and>
     (\<exists>rows. row_written R a rows \<and>
        append_event E (R\<lparr>tr_authorities := rows\<rparr>) (au_scope_key a) (call_event l) (row_pairs a) = Inr R')"

lemma row_written_append:
  "authority_of (au_scope_key a) R = None \<Longrightarrow> row_written R a (tr_authorities R @ [a])"
  by (auto simp: row_written_def row_of_append distinct_keys_append split: option.splits)

lemma row_written_update:
  assumes "authority_of k R = Some r" "\<And>x. au_scope_key (f x) = au_scope_key x"
  shows "row_written R (f r) (upd_row au_scope_key k f (tr_authorities R))"
  using assms row_of_Some [OF assms(1)]
  by (auto simp: row_written_def row_of_upd distinct_keys_upd)

lemma trust_step_mutated:
  assumes "trust_step E R l R'" and rows: "\<forall>r\<in>set (tr_authorities R). row_wf r"
  shows "\<exists>a. mutated E R l a R'"
  using assms(1)
proof cases
  case (step_register aid role kid kd prov g)
  then obtain k kd' where k: "scope_key role (opt_str prov) = Inr k" "digest_check kd = Inr kd'"
    "aid \<noteq> []" "kid \<noteq> []" "tr_generation R = g" "authority_of k R = None"
    by (auto simp: register_tx_def trust_require_text_def trust_require_digest_def result_simps)
  let ?a = "\<lparr>au_scope_key = k, au_authority_id = aid, au_role = role, au_provider_id = prov, au_generation = 1,
     au_epoch = 0, au_key_id = kid, au_key_digest = kd', au_enabled = 1\<rparr>"
  have "mutated E R l ?a R'"
    using step_register k row_written_append [of ?a R] digest_check_idem [OF k(2)]
    by (auto simp: mutated_def register_tx_def trust_require_text_def trust_require_digest_def
        row_wf_def change_ok_def row_pairs_def Let_def)
  then show ?thesis ..
next
  case (step_rotate aid role kid kd prov g ag)
  then obtain k kd' r where k: "scope_key role (opt_str prov) = Inr k" "digest_check kd = Inr kd'"
    "aid \<noteq> []" "kid \<noteq> []" "tr_generation R = g" "authority_of k R = Some r" "au_authority_id r = aid"
    "au_generation r = ag" "au_enabled r = 1" "\<not> (au_key_id r = kid \<and> au_key_digest r = kd')"
    by (auto simp: rotate_tx_def trust_require_text_def trust_require_digest_def result_simps)
  let ?f = "\<lambda>r. r\<lparr>au_generation := ag + 1, au_key_id := kid, au_key_digest := kd'\<rparr> :: authority_row"
  have r: "row_wf r" "au_scope_key r = k" using row_of_Some [OF k(6)] rows by auto
  have same: "role = au_role r \<and> prov = au_provider_id r"
    using scope_key_inj [OF k(1)] r by (auto simp: row_wf_def)
  have "mutated E R l (?f r) R'"
    using step_rotate k r same row_written_update [OF k(6), of ?f] digest_check_idem [OF k(2)]
    by (auto simp: mutated_def rotate_tx_def trust_require_text_def trust_require_digest_def
        row_wf_def change_ok_def row_pairs_def)
  then show ?thesis ..
next
  case (step_revoke aid role prov g e)
  then obtain k r where k: "scope_key role (opt_str prov) = Inr k"
    "aid \<noteq> []" "tr_generation R = g" "authority_of k R = Some r" "au_authority_id r = aid"
    "au_epoch r = e" "au_enabled r = 1"
    by (auto simp: revoke_tx_def trust_require_text_def result_simps)
  let ?f = "\<lambda>r. r\<lparr>au_epoch := e + 1, au_enabled := 0\<rparr> :: authority_row"
  have r: "row_wf r" "au_scope_key r = k" using row_of_Some [OF k(4)] rows by auto
  have same: "role = au_role r \<and> prov = au_provider_id r"
    using scope_key_inj [OF k(1)] r by (auto simp: row_wf_def)
  have "mutated E R l (?f r) R'"
    using step_revoke k r same row_written_update [OF k(4), of ?f]
    by (auto simp: mutated_def revoke_tx_def trust_require_text_def row_wf_def change_ok_def row_pairs_def)
  then show ?thesis ..
next
  case (step_reactivate aid role kid kd prov g ag e)
  then obtain k kd' r where k: "scope_key role (opt_str prov) = Inr k" "digest_check kd = Inr kd'"
    "aid \<noteq> []" "kid \<noteq> []" "tr_generation R = g" "authority_of k R = Some r"
    "au_enabled r = 0" "au_generation r = ag" "au_epoch r = e"
    by (auto simp: reactivate_tx_def trust_require_text_def trust_require_digest_def result_simps)
  let ?f = "\<lambda>r. r\<lparr>au_authority_id := aid, au_generation := ag + 1, au_key_id := kid, au_key_digest := kd',
     au_enabled := 1\<rparr> :: authority_row"
  have r: "row_wf r" "au_scope_key r = k" using row_of_Some [OF k(6)] rows by auto
  have same: "role = au_role r \<and> prov = au_provider_id r"
    using scope_key_inj [OF k(1)] r by (auto simp: row_wf_def)
  have "mutated E R l (?f r) R'"
    using step_reactivate k r same row_written_update [OF k(6), of ?f] digest_check_idem [OF k(2)]
    by (auto simp: mutated_def reactivate_tx_def trust_require_text_def trust_require_digest_def
        row_wf_def change_ok_def row_pairs_def)
  then show ?thesis ..
qed

section \<open>The invariant\<close>

definition trust_ok :: "py_env \<Rightarrow> registry \<Rightarrow> bool" where
  "trust_ok E R \<longleftrightarrow> distinct_keys au_scope_key (tr_authorities R) \<and> (\<forall>r\<in>set (tr_authorities R). row_wf r) \<and>
     (\<exists>pr. verify_events E TRUST_GENESIS_HEAD 1 [] (tr_events R) = Inr (tr_head R, tr_generation R + 1, pr) \<and>
        (\<forall>k. map_of pr k = map_option (\<lambda>a. sorted_keys (JObj (row_pairs a))) (authority_of k R)))"

lemma map_of_dict_set: "map_of (dict_set d k v) j = (if j = k then Some v else map_of d j)"
  by (induction d k v rule: dict_set.induct) auto

lemma rows_wf_written:
  assumes "row_written R a rows" "row_wf a" "distinct_keys au_scope_key rows"
    and "\<forall>r\<in>set (tr_authorities R). row_wf r"
  shows "\<forall>r\<in>set rows. row_wf r"
proof
  fix r assume "r \<in> set rows"
  then have "row_of au_scope_key (au_scope_key r) rows = Some r" by (rule row_of_member [OF assms(3)])
  then have "r = a \<or> authority_of (au_scope_key r) R = Some r"
    using assms(1) by (auto simp: row_written_def split: if_splits)
  then show "row_wf r" using assms(2,4) row_of_Some by fast
qed

lemma mutated_ok:
  assumes "mutated E R l a R'" "trust_ok E R"
  shows "trust_ok E R'"
proof -
  define S where "S rows = R\<lparr>tr_authorities := rows\<rparr>" for rows
  obtain rows where rows: "row_written R a rows"
    "append_event E (S rows) (au_scope_key a) (call_event l) (row_pairs a) = Inr R'"
    and a: "row_wf a" "change_ok (call_event l) (authority_of (au_scope_key a) R) a"
    using assms(1) by (auto simp: mutated_def S_def)
  obtain ev where ev: "R' = (S rows)\<lparr>tr_events := tr_events R @ [ev], tr_generation := tr_generation R + 1, tr_head := te_digest ev\<rparr>"
    "te_generation ev = tr_generation R + 1" "te_scope_key ev = au_scope_key a" "te_event_type ev = call_event l"
    "te_predecessor ev = tr_head R" "te_payload_json ev = text_of (JObj (row_pairs a))"
    "te_digest ev = digest_of (trust_event_body (tr_generation R + 1) (au_scope_key a) (call_event l) (tr_head R) (JObj (row_pairs a)))"
    "\<bar>tr_generation R + 1\<bar> \<le> MAX_SAFE_INTEGER" "plain_json (JObj (row_pairs a))"
    using append_event_Inr [OF rows(2)] by (auto simp: S_def)
  obtain pr where pr: "verify_events E TRUST_GENESIS_HEAD 1 [] (tr_events R) = Inr (tr_head R, tr_generation R + 1, pr)"
    "\<And>k. map_of pr k = map_option (\<lambda>a. sorted_keys (JObj (row_pairs a))) (authority_of k R)"
    using assms(2) by (auto simp: trust_ok_def)
  have en: "\<forall>p. authority_of (au_scope_key a) R = Some p \<longrightarrow> au_enabled p \<in> {0, 1}"
    using assms(2) row_of_Some by (fastforce simp: trust_ok_def row_wf_def)
  have "verify_events E TRUST_GENESIS_HEAD 1 [] (tr_events R') =
      Inr (tr_head R', tr_generation R' + 1, dict_set pr (au_scope_key a) (sorted_keys (JObj (row_pairs a))))"
    using verify_own_event [OF a en pr(2) ev(2-7) ev(9,8), of E] pr(1)
    by (simp add: ev(1) verify_events_append S_def del: sorted_keys.simps verify_events.simps)
  moreover have "map_of (dict_set pr (au_scope_key a) (sorted_keys (JObj (row_pairs a)))) k =
      map_option (\<lambda>a. sorted_keys (JObj (row_pairs a))) (authority_of k R')" for k
    using rows(1) pr(2) by (simp add: map_of_dict_set ev(1) S_def row_written_def del: sorted_keys.simps)
  moreover have d: "distinct_keys au_scope_key rows"
    using rows(1) assms(2) by (simp add: row_written_def trust_ok_def)
  moreover have "\<forall>r\<in>set rows. row_wf r"
    by (rule rows_wf_written [OF rows(1) a(1) d]) (use assms(2) in \<open>simp add: trust_ok_def\<close>)
  ultimately show ?thesis by (auto simp: trust_ok_def ev(1) S_def simp del: sorted_keys.simps)
qed

lemma trust_ok_rows: "trust_ok E R \<Longrightarrow> \<forall>r\<in>set (tr_authorities R). row_wf r"
  by (simp add: trust_ok_def)

lemma trust_step_ok: "trust_step E R l R' \<Longrightarrow> trust_ok E R \<Longrightarrow> trust_ok E R'"
  using trust_step_mutated [OF _ trust_ok_rows] mutated_ok by blast

lemma trust_run_ok: "runs (trust_step E) R ls R' \<Longrightarrow> trust_ok E R \<Longrightarrow> trust_ok E R'"
  by (rule runs_invariant [where I = "trust_ok E" and step = "trust_step E"]) (blast intro: trust_step_ok)+

lemma open_registry_ok: "trust_ok E (open_registry [] [] None)"
  by (simp add: trust_ok_def open_registry_def distinct_keys_def)

section \<open>The stored table is the projection\<close>

lemma sort_key_map_snd:
  "map (\<lambda>kv. (fst kv, g (snd kv))) (sort_key key_order xs) = sort_key key_order (map (\<lambda>kv. (fst kv, g (snd kv))) xs)"
proof (induction xs)
  case (Cons x xs)
  have "map (\<lambda>kv. (fst kv, g (snd kv))) (insort_key key_order x ys) =
      insort_key key_order (fst x, g (snd x)) (map (\<lambda>kv. (fst kv, g (snd kv))) ys)" for ys
    by (induction ys) auto
  with Cons show ?case by simp
qed simp

lemma unbool_sorted: "unbool (sorted_keys v) = sorted_keys (unbool v)"
proof (induction v)
  case (JObj kvs)
  then have eq: "map (\<lambda>kv. (fst kv, unbool (sorted_keys (snd kv)))) kvs = map (\<lambda>kv. (fst kv, sorted_keys (unbool (snd kv)))) kvs"
    by (auto intro: snds.intros)
  have "unbool (sorted_keys (JObj kvs)) = JObj (sort_key key_order (map (\<lambda>kv. (fst kv, unbool (sorted_keys (snd kv)))) kvs))"
    by (simp add: sort_key_map_snd [of unbool] comp_def)
  also have "\<dots> = sorted_keys (unbool (JObj kvs))" unfolding eq by (simp add: comp_def)
  finally show ?case .
qed auto

lemma unbool_eq_sorted: "unbool_eq v (sorted_keys v)"
  by (simp add: unbool_eq_def unbool_sorted sorted_keys_idem)

lemma foldl_dict_set:
  "map_of (foldl (\<lambda>d row. dict_set d (key row) (val row)) d rows) k =
     (case row_of key k (rev rows) of None \<Rightarrow> map_of d k | Some r \<Rightarrow> Some (val r))"
proof (induction rows arbitrary: d)
  case (Cons x xs)
  then show ?case by (simp add: row_of_append map_of_dict_set split: option.splits)
qed simp

lemma row_of_permuted:
  assumes "distinct_keys key rows" "mset rows' = mset rows"
  shows "row_of key k rows' = row_of key k rows"
proof -
  have d: "distinct_keys key rows'" "set rows' = set rows"
    using assms by (metis distinct_keys_def mset_map mset_eq_imp_distinct_iff, metis set_mset_mset)
  show ?thesis
  proof (cases "row_of key k rows")
    case None
    then show ?thesis using d(2) by (metis row_of_None_iff)
  next
    case (Some r)
    then show ?thesis using row_of_Some [OF Some] row_of_member [OF d(1), of r] d(2) by simp
  qed
qed

lemma stored_projection_get:
  "distinct_keys au_scope_key (tr_authorities R) \<Longrightarrow>
     map_of (stored_projection R) k = map_option row_payload_json (authority_of k R)"
  unfolding stored_projection_def foldl_dict_set
  by (subst row_of_permuted [of au_scope_key "tr_authorities R"]) (auto split: option.splits)

lemma trust_ok_verifies:
  assumes "trust_ok E R"
  shows "trust_verify_chain E R = Inr (tr_head R)"
proof -
  obtain pr where pr: "verify_events E TRUST_GENESIS_HEAD 1 [] (tr_events R) = Inr (tr_head R, tr_generation R + 1, pr)"
    "\<And>k. map_of pr k = map_option (\<lambda>a. sorted_keys (JObj (row_pairs a))) (authority_of k R)"
    "distinct_keys au_scope_key (tr_authorities R)"
    using assms by (auto simp: trust_ok_def)
  note v = verify_events_generations [OF pr(1)]
  then have sorted: "sort_key te_generation (tr_events R) = tr_events R" by (simp add: sort_key_id_if_sorted)
  have head: "tr_head R = (if tr_events R \<noteq> [] then tr_head R else TRUST_GENESIS_HEAD)" using pr(1) by auto
  have "projections_eq (stored_projection R) pr"
    unfolding projections_eq_def
  proof
    fix k assume "k \<in> fst ` set (stored_projection R) \<union> fst ` set pr"
    then have "map_of (stored_projection R) k \<noteq> None \<or> map_of pr k \<noteq> None" by (auto simp: map_of_eq_None_iff)
    then show "case (map_of (stored_projection R) k, map_of pr k) of (Some a, Some b) \<Rightarrow> unbool_eq a b | _ \<Rightarrow> False"
      using unbool_eq_sorted by (auto simp: stored_projection_get [OF pr(3)] pr(2) row_payload_pairs simp del: sorted_keys.simps)
  qed
  then show ?thesis using pr(1) head by (simp add: trust_verify_chain_def sorted)
qed

section \<open>What one step does to the rows\<close>

lemma mutated_rows:
  assumes "mutated E R l a R'"
  shows "authority_of k R' = (if k = au_scope_key a then Some a else authority_of k R)"
proof -
  obtain rows where rows: "row_written R a rows"
    "append_event E (R\<lparr>tr_authorities := rows\<rparr>) (au_scope_key a) (call_event l) (row_pairs a) = Inr R'"
    using assms by (auto simp: mutated_def)
  have "tr_authorities R' = rows" using append_event_Inr [OF rows(2)] by auto
  then show ?thesis using rows(1) by (simp add: row_written_def)
qed

lemma trust_step_row:
  assumes "trust_step E R l R'" "trust_ok E R"
  shows "authority_of k R' = authority_of k R \<or>
    (call_scope l = Inr k \<and> (\<exists>a. authority_of k R' = Some a \<and> change_ok (call_event l) (authority_of k R) a))"
proof -
  obtain a where a: "mutated E R l a R'"
    using trust_step_mutated [OF assms(1) trust_ok_rows [OF assms(2)]] by blast
  show ?thesis using mutated_rows [OF a, of k] a by (auto simp: mutated_def)
qed

definition ahead :: "authority_row \<Rightarrow> authority_row \<Rightarrow> bool" where
  "ahead a b \<longleftrightarrow> au_generation a \<le> au_generation b \<and>
     (au_generation a = au_generation b \<longrightarrow>
        au_authority_id a = au_authority_id b \<and> au_key_id a = au_key_id b \<and> au_key_digest a = au_key_digest b \<and>
        (au_enabled b = 1 \<longrightarrow> au_enabled a = 1 \<and> au_epoch a = au_epoch b))"

lemma ahead_refl [simp]: "ahead a a"
  by (simp add: ahead_def)

lemma ahead_trans: "ahead a b \<Longrightarrow> ahead b c \<Longrightarrow> ahead a c"
  by (auto simp: ahead_def)

lemma change_ahead: "change_ok ety (Some a) b \<Longrightarrow> ahead a b"
  by (auto simp: change_ok_def ahead_def)

lemma trust_run_ahead:
  "runs (trust_step E) R ls R' \<Longrightarrow> trust_ok E R \<Longrightarrow> authority_of k R = Some a \<Longrightarrow>
     \<exists>b. authority_of k R' = Some b \<and> ahead a b"
proof (induction arbitrary: a rule: runs.induct)
  case (runs_step R l S ls T)
  obtain b where b: "authority_of k S = Some b" "ahead a b"
    using trust_step_row [OF runs_step.hyps(1) runs_step.prems(1), of k] runs_step.prems(2) change_ahead by fastforce
  show ?case
    using runs_step.IH [OF trust_step_ok [OF runs_step.hyps(1) runs_step.prems(1)] b(1)] b(2) ahead_trans by blast
qed simp

lemma trust_run_disabled:
  "runs (trust_step E) R ls R' \<Longrightarrow> trust_ok E R \<Longrightarrow> authority_of k R = Some a \<Longrightarrow> au_enabled a = 0 \<Longrightarrow>
     \<forall>l\<in>set ls. call_event l = ''REACTIVATE'' \<longrightarrow> call_scope l \<noteq> Inr k \<Longrightarrow>
     \<exists>b. authority_of k R' = Some b \<and> au_enabled b = 0"
proof (induction arbitrary: a rule: runs.induct)
  case (runs_step R l S ls T)
  have "authority_of k S = Some a"
    using trust_step_row [OF runs_step.hyps(1) runs_step.prems(1), of k] runs_step.prems(2-4)
    by (auto simp: change_ok_def)
  then show ?case
    using runs_step.IH [OF trust_step_ok [OF runs_step.hyps(1) runs_step.prems(1)]] runs_step.prems(3,4) by auto
qed simp

lemma assert_current_Inr:
  assumes "assert_current E R aid role kid kd prov = Inr rc"
  shows "\<exists>k a. scope_key role (opt_str prov) = Inr k \<and> authority_of k R = Some a \<and> au_enabled a = 1
    \<and> tc_authority_id rc = au_authority_id a \<and> tc_key_id rc = au_key_id a \<and> tc_key_digest rc = au_key_digest a
    \<and> tc_generation rc = au_generation a \<and> tc_epoch rc = au_epoch a
    \<and> tc_registry_generation rc = tr_generation R \<and> tc_registry_head rc = tr_head R"
  using assms by (auto simp: assert_current_def trust_require_text_def trust_require_digest_def result_simps)

lemma trust_step_generation:
  assumes "trust_step E R l R'"
  shows "call_expects l = tr_generation R \<and> tr_generation R' = tr_generation R + 1"
proof -
  have app: "append_event E R0 k ety p = Inr R1 \<Longrightarrow> tr_generation R1 = tr_generation R0 + 1" for R0 k ety p R1
    by (auto simp: append_event_def result_simps Let_def)
  show ?thesis using assms
    by cases (auto simp: register_tx_def rotate_tx_def revoke_tx_def reactivate_tx_def result_simps Let_def dest!: app)
qed

interpretation registry_cas: cas_store "trust_step E" tr_generation "\<lambda>l. Some (call_expects l)" for E
  by unfold_locales (auto dest: trust_step_generation)

lemma registry_run_ok: "runs (trust_step E) (open_registry [] [] None) ls R \<Longrightarrow> trust_ok E R"
  by (rule trust_run_ok [OF _ open_registry_ok])

text \<open>The row a committed mutation leaves is the one its caller asked for.\<close>

lemma append_event_authorities: "append_event E R k ety p = Inr R' \<Longrightarrow> tr_authorities R' = tr_authorities R"
  by (auto simp: append_event_def result_simps Let_def)

definition asked :: "string \<Rightarrow> string \<Rightarrow> string \<Rightarrow> authority_row \<Rightarrow> bool" where
  "asked aid kid kd a \<longleftrightarrow> au_authority_id a = aid \<and> au_key_id a = kid \<and> digest_check kd = Inr (au_key_digest a) \<and>
     au_enabled a = 1 \<and> aid \<noteq> [] \<and> kid \<noteq> []"

lemma tx_asked:
  "register_tx E R aid role kid kd prov g = Inr R' \<Longrightarrow>
     \<exists>k a. scope_key role (opt_str prov) = Inr k \<and> authority_of k R' = Some a \<and> asked aid kid kd a"
  "rotate_tx E R aid role kid kd prov g ag = Inr R' \<Longrightarrow>
     \<exists>k a. scope_key role (opt_str prov) = Inr k \<and> authority_of k R' = Some a \<and> asked aid kid kd a"
  "reactivate_tx E R aid role kid kd prov g ag e = Inr R' \<Longrightarrow>
     \<exists>k a. scope_key role (opt_str prov) = Inr k \<and> authority_of k R' = Some a \<and> asked aid kid kd a"
  by (auto simp: register_tx_def rotate_tx_def reactivate_tx_def trust_require_text_def trust_require_digest_def
      result_simps Let_def asked_def row_of_append row_of_upd dest!: append_event_authorities)

lemma step_current:
  assumes "trust_step E R l R'" "trust_ok E R" "call_scope l = Inr k"
    and "scope_key role (opt_str prov) = Inr k" "authority_of k R' = Some a" "asked aid kid kd a"
  shows "\<exists>rc. assert_current E R' aid role kid kd prov = Inr rc"
proof -
  obtain b where b: "mutated E R l b R'" using trust_step_mutated [OF assms(1) trust_ok_rows [OF assms(2)]] by blast
  then have "b = a" using mutated_rows [OF b, of k] assms(3,5) by (auto simp: mutated_def)
  then obtain rows where "append_event E (R\<lparr>tr_authorities := rows\<rparr>) (au_scope_key a) (call_event l) (row_pairs a) = Inr R'"
    using b by (auto simp: mutated_def)
  from append_event_Inr [OF this] have "plain_json (JObj (row_pairs a))" "\<bar>tr_generation R'\<bar> \<le> MAX_SAFE_INTEGER" by auto
  then have "plain_json (receipt_body a R' aid role prov kid kd')" for kd'
    by (simp add: row_pairs_def authority_payload_def receipt_body_def path_hint_def time_hint_def ends_with_def)
  then show ?thesis
    using trust_ok_verifies [OF trust_step_ok [OF assms(1,2)]] assms(4-6)
    by (simp add: assert_current_def trust_require_text_def trust_require_digest_def asked_def canonical_digest_of)
qed

lemma revoke_disables:
  assumes "runs (trust_step E) (open_registry [] [] None) ls0 R"
    and "revoke E R aid role prov g e = (Inr n, R1)" "runs (trust_step E) R1 ls R2"
    and "\<forall>l\<in>set ls. call_event l = ''REACTIVATE'' \<longrightarrow> call_scope l \<noteq> scope_key role (opt_str prov)"
  shows "\<exists>k b. scope_key role (opt_str prov) = Inr k \<and> authority_of k R2 = Some b \<and> au_enabled b = 0"
proof -
  have tx: "revoke_tx E R aid role prov g e = Inr R1" using assms(2) by (auto simp: revoke_def split: sum.splits)
  note st = step_revoke [OF tx]
  have ok: "trust_ok E R" "trust_ok E R1"
    using registry_run_ok [OF assms(1)] trust_step_ok [OF st] by blast+
  obtain a where a: "mutated E R (L_revoke aid role prov g e) a R1"
    using trust_step_mutated [OF st trust_ok_rows [OF ok(1)]] by blast
  then have k: "scope_key role (opt_str prov) = Inr (au_scope_key a)" "au_enabled a = 0"
    by (auto simp: mutated_def change_ok_def split: option.splits)
  have row: "authority_of (au_scope_key a) R1 = Some a" using mutated_rows [OF a] by simp
  obtain b where "authority_of (au_scope_key a) R2 = Some b" "au_enabled b = 0"
    using trust_run_disabled [OF assms(3) ok(2) row k(2)] assms(4) k(1) by auto
  then show ?thesis using k(1) by blast
qed

lemma disabled_not_current:
  assumes "scope_key role (opt_str prov) = Inr k" "authority_of k R = Some b" "au_enabled b = 0"
  shows "\<exists>err. assert_current E R aid role kid kd prov = Inl err"
proof (cases "assert_current E R aid role kid kd prov")
  case (Inr rc)
  then show ?thesis using assert_current_Inr [OF Inr] assms by auto
qed simp

section \<open>Guarantees\<close>

text \<open>
  C6: Revocation takes effect and lasts. Once \<^verbatim>\<open>revoke\<close> has been accepted for a scope,
  \<^verbatim>\<open>assert_current\<close> refuses every key and identity in that scope after any sequence
  of registry mutations, as long as the scope is not reactivated.
\<close>

theorem revoked_never_current:
  assumes "runs (trust_step E) (open_registry [] [] None) ls0 R"
    and "revoke E R aid role prov g e = (Inr n, R1)" "runs (trust_step E) R1 ls R2"
    and "\<forall>l\<in>set ls. call_event l = ''REACTIVATE'' \<longrightarrow> call_scope l \<noteq> scope_key role (opt_str prov)"
  shows "\<exists>err. assert_current E R2 aid' role kid kd prov = Inl err"
  using revoke_disables [OF assms] disabled_not_current by blast

text \<open>
  A generation names one key. If \<^verbatim>\<open>assert_current\<close> succeeds for a scope at two
  points of a registry's life and both receipts carry the same authority generation, then
  they carry the same authority, key id, key digest and revocation epoch: a key that was
  rotated away or revoked in between cannot come back under the old generation.
\<close>

lemma generation_names_one_key:
  assumes "runs (trust_step E) (open_registry [] [] None) ls0 R" "runs (trust_step E) R ls R2"
    and "assert_current E R aid role kid kd prov = Inr rc" "assert_current E R2 aid' role kid' kd' prov = Inr rc2"
    and "tc_generation rc = tc_generation rc2"
  shows "tc_authority_id rc = tc_authority_id rc2 \<and> tc_key_id rc = tc_key_id rc2
    \<and> tc_key_digest rc = tc_key_digest rc2 \<and> tc_epoch rc = tc_epoch rc2"
proof -
  obtain k a where a: "scope_key role (opt_str prov) = Inr k" "authority_of k R = Some a"
    "tc_authority_id rc = au_authority_id a" "tc_key_id rc = au_key_id a" "tc_key_digest rc = au_key_digest a"
    "tc_generation rc = au_generation a" "tc_epoch rc = au_epoch a"
    using assert_current_Inr [OF assms(3)] by blast
  obtain b where b: "authority_of k R2 = Some b" "ahead a b"
    using trust_run_ahead [OF assms(2) registry_run_ok [OF assms(1)] a(2)] by blast
  have "au_enabled b = 1" "tc_authority_id rc2 = au_authority_id b" "tc_key_id rc2 = au_key_id b"
    "tc_key_digest rc2 = au_key_digest b" "tc_generation rc2 = au_generation b" "tc_epoch rc2 = au_epoch b"
    using assert_current_Inr [OF assms(4)] a(1) b(1) by auto
  then show ?thesis using a b(2) assms(5) by (simp add: ahead_def)
qed

text \<open>
  Every registry that its own mutations built passes \<^verbatim>\<open>verify_chain\<close>: replaying
  the whole event history with all its transition checks gives exactly the stored table, the
  stored generation and the stored head.
\<close>

lemma registry_history_verifies:
  assumes "runs (trust_step E) (open_registry [] [] None) ls R"
  shows "trust_verify_chain E R = Inr (tr_head R)"
  by (rule trust_ok_verifies [OF registry_run_ok [OF assms]])

text \<open>
  Mutations are a compare-and-swap on the registry generation: in any sequence of
  accepted mutations, by any number of processes, at most one names a given expected
  generation.
\<close>

lemma registry_compare_and_swap:
  assumes "runs (trust_step E) R ls R'"
  shows "length (filter (\<lambda>l. call_expects l = g) ls) \<le> 1"
  using registry_cas.run_at_most_one [OF assms, of g] by simp

text \<open>
  A committed mutation always returns its receipt. On a registry built by its own
  mutations, when the transaction of \<^verbatim>\<open>register\<close>, \<^verbatim>\<open>rotate\<close> or
  \<^verbatim>\<open>reactivate\<close> commits, the \<^verbatim>\<open>assert_current\<close> that follows it succeeds: the
  caller never gets an error for a change that was made.
\<close>

lemma committed_mutation_is_current:
  assumes "runs (trust_step E) (open_registry [] [] None) ls R"
  shows "(register_tx E R aid role kid kd prov g = Inr R' \<longrightarrow>
      (\<exists>rc. register E R aid role kid kd prov g = (Inr rc, R')))
    \<and> (rotate_tx E R aid role kid kd prov g ag = Inr R' \<longrightarrow>
      (\<exists>rc. rotate_key E R aid role kid kd prov g ag = (Inr rc, R')))
    \<and> (reactivate_tx E R aid role kid kd prov g ag e = Inr R' \<longrightarrow>
      (\<exists>rc. reactivate E R aid role kid kd prov g ag e = (Inr rc, R')))"
proof (intro conjI impI)
  note ok = registry_run_ok [OF assms]
  assume tx: "register_tx E R aid role kid kd prov g = Inr R'"
  show "\<exists>rc. register E R aid role kid kd prov g = (Inr rc, R')"
    using tx_asked(1) [OF tx] step_current [OF step_register [OF tx] ok] tx by (auto simp: register_def)
next
  note ok = registry_run_ok [OF assms]
  assume tx: "rotate_tx E R aid role kid kd prov g ag = Inr R'"
  show "\<exists>rc. rotate_key E R aid role kid kd prov g ag = (Inr rc, R')"
    using tx_asked(2) [OF tx] step_current [OF step_rotate [OF tx] ok] tx by (auto simp: rotate_key_def)
next
  note ok = registry_run_ok [OF assms]
  assume tx: "reactivate_tx E R aid role kid kd prov g ag e = Inr R'"
  show "\<exists>rc. reactivate E R aid role kid kd prov g ag e = (Inr rc, R')"
    using tx_asked(3) [OF tx] step_current [OF step_reactivate [OF tx] ok] tx by (auto simp: reactivate_def)
qed

section \<open>Concrete instances\<close>

abbreviation new_registry :: registry where
  "new_registry \<equiv> open_registry [] [] None"

lemma sample_scope: "scope_key ''RECONCILIATION'' (opt_str None) = Inr ''RECONCILIATION''"
  by (simp add: scope_key_def trust_require_text_def TRUST_ROLES_def opt_str_def)

definition sample_event :: "int \<Rightarrow> string \<Rightarrow> string \<Rightarrow> int \<Rightarrow> bool \<Rightarrow> json" where
  "sample_event n ety h e enabled = trust_event_body n ''RECONCILIATION'' ety h
     (JObj (authority_payload ''auth'' ''RECONCILIATION'' None 1 e ''k1'' (hex64 CHR ''a'') enabled))"

definition registered_event :: json where
  "registered_event = sample_event 1 ''REGISTER'' TRUST_GENESIS_HEAD 0 True"

definition revoked_event :: json where
  "revoked_event = sample_event 2 ''REVOKE'' (digest_of registered_event) 1 False"

definition sample_row :: authority_row where
  "sample_row = \<lparr>au_scope_key = ''RECONCILIATION'', au_authority_id = ''auth'', au_role = ''RECONCILIATION'', au_provider_id = None,
     au_generation = 1, au_epoch = 0, au_key_id = ''k1'', au_key_digest = hex64 CHR ''a'', au_enabled = 1\<rparr>"

definition sample_registry :: registry where
  "sample_registry = \<lparr>tr_authorities = [sample_row],
     tr_events = [\<lparr>te_generation = 1, te_scope_key = ''RECONCILIATION'', te_event_type = ''REGISTER'',
        te_predecessor = TRUST_GENESIS_HEAD, te_digest = digest_of registered_event,
        te_payload_json = text_of (JObj (row_pairs sample_row))\<rparr>],
     tr_generation = 1, tr_head = digest_of registered_event\<rparr>"

lemma sample_plain: "\<bar>e\<bar> \<le> 5 \<Longrightarrow> plain_json (JObj (authority_payload ''auth'' ''RECONCILIATION'' None 1 e ''k1'' (hex64 CHR ''a'') b))"
  by (simp add: authority_payload_def plain_eval)

lemma sample_event_plain: "\<bar>e\<bar> \<le> 5 \<Longrightarrow> \<bar>n\<bar> \<le> 5 \<Longrightarrow> plain_json (sample_event n ety h e b)"
  unfolding sample_event_def by (rule plain_trust_body [OF sample_plain]) (simp_all add: MAX_SAFE_INTEGER_def)

lemma sample_register:
  "register_tx demo_env new_registry ''auth'' ''RECONCILIATION'' ''k1'' (hex64 CHR ''a'') None 0 = Inr sample_registry"
  by (simp add: register_tx_def sample_scope trust_require_text_def trust_require_digest_def open_registry_def
      append_event_def canonical_digest_of [OF sample_event_plain] canonical_text [OF sample_plain] sample_registry_def sample_row_def
      row_pairs_def registered_event_def flip: sample_event_def)

lemma sample_run:
  "runs (trust_step demo_env) new_registry [L_register ''auth'' ''RECONCILIATION'' ''k1'' (hex64 CHR ''a'') None 0] sample_registry"
  by (rule runs_one [where step = "trust_step demo_env", OF step_register [OF sample_register]])

lemma events_differ: "text_of revoked_event \<noteq> text_of registered_event"
proof
  assume eq: "text_of revoked_event = text_of registered_event"
  have "wf_json revoked_event" "wf_json registered_event"
    by (simp_all add: plain_is_wf sample_event_plain revoked_event_def registered_event_def)
  from text_of_field [OF this [unfolded revoked_event_def registered_event_def sample_event_def trust_event_body_def]
      eq [unfolded revoked_event_def registered_event_def sample_event_def trust_event_body_def],
      of "''registry_generation''"]
  show False by simp
qed

lemma sample_revoke:
  "collides (utf8 (text_of revoked_event)) (utf8 (text_of registered_event)) \<or>
     (\<exists>R1. revoke demo_env sample_registry ''auth'' ''RECONCILIATION'' None 1 0 = (Inr 1, R1))"
proof (cases "digest_of revoked_event = digest_of registered_event")
  case True
  then show ?thesis using events_differ by (simp add: collides_def utf8_inj digest_of_def sha256_hex_def)
next
  case False
  have ev: "canonical_digest demo_env (trust_event_body 2 ''RECONCILIATION'' ''REVOKE'' (digest_of registered_event)
      (JObj (authority_payload ''auth'' ''RECONCILIATION'' None 1 1 ''k1'' (hex64 CHR ''a'') False))) = Inr (digest_of revoked_event)"
    using canonical_digest_of [OF sample_event_plain, of 1 2] by (simp add: revoked_event_def sample_event_def)
  have "\<exists>R1. revoke_tx demo_env sample_registry ''auth'' ''RECONCILIATION'' None 1 0 = Inr R1"
    using False ev canonical_text [OF sample_plain, of 1 demo_env False]
    by (simp add: revoke_tx_def sample_scope trust_require_text_def sample_registry_def sample_row_def row_of_Cons
        append_event_def)
  then show ?thesis by (auto simp: revoke_def)
qed

theorem revoked_never_current_witness:
  "collides (utf8 (text_of revoked_event)) (utf8 (text_of registered_event)) \<or>
     (\<exists>R1 err. revoke demo_env sample_registry ''auth'' ''RECONCILIATION'' None 1 0 = (Inr 1, R1) \<and>
        assert_current demo_env R1 ''auth'' ''RECONCILIATION'' ''k1'' (hex64 CHR ''a'') None = Inl err)"
  using sample_revoke
proof
  assume "\<exists>R1. revoke demo_env sample_registry ''auth'' ''RECONCILIATION'' None 1 0 = (Inr 1, R1)"
  then obtain R1 where R1: "revoke demo_env sample_registry ''auth'' ''RECONCILIATION'' None 1 0 = (Inr 1, R1)" ..
  from revoked_never_current [OF sample_run R1 runs_nil, of "''auth''" "''k1''" "hex64 CHR ''a''"] R1
  show ?thesis by auto
qed blast

lemma sample_current: "\<exists>rc. assert_current demo_env sample_registry ''auth'' ''RECONCILIATION'' ''k1'' (hex64 CHR ''a'') None = Inr rc"
  using step_current [OF step_register [OF sample_register] open_registry_ok, of "''RECONCILIATION''" "''RECONCILIATION''" None sample_row
      "''auth''" "''k1''" "hex64 CHR ''a''"] sample_scope
  by (simp add: sample_registry_def row_of_Cons asked_def sample_row_def)

lemma generation_names_one_key_witness:
  "\<exists>rc. assert_current demo_env sample_registry ''auth'' ''RECONCILIATION'' ''k1'' (hex64 CHR ''a'') None = Inr rc \<and>
     tc_key_id rc = ''k1''"
proof -
  obtain rc where rc: "assert_current demo_env sample_registry ''auth'' ''RECONCILIATION'' ''k1'' (hex64 CHR ''a'') None = Inr rc"
    using sample_current by blast
  from generation_names_one_key [OF sample_run runs_nil rc rc refl] rc show ?thesis
    using assert_current_Inr [OF rc] sample_scope by (auto simp: sample_registry_def row_of_Cons sample_row_def)
qed

lemma registry_history_verifies_witness:
  "trust_verify_chain demo_env sample_registry = Inr (digest_of registered_event)"
  using registry_history_verifies [OF sample_run] by (simp add: sample_registry_def)

lemma registry_compare_and_swap_witness:
  "length (filter (\<lambda>l. call_expects l = 0) [L_register ''auth'' ''RECONCILIATION'' ''k1'' (hex64 CHR ''a'') None 0]) \<le> 1"
  by (rule registry_compare_and_swap [OF sample_run])

lemma committed_mutation_is_current_witness:
  "\<exists>rc. register demo_env new_registry ''auth'' ''RECONCILIATION'' ''k1'' (hex64 CHR ''a'') None 0 = (Inr rc, sample_registry)"
  using committed_mutation_is_current [OF runs_nil, of demo_env "''auth''" "''RECONCILIATION''" "''k1''" "hex64 CHR ''a''" None 0]
    sample_register by blast

end
