(* ===== verification/Dispatch_Gate.thy ===== *)
theory Dispatch_Gate
  imports Vera_Prelude Complex_Main
begin

text \<open>
  \<^verbatim>\<open>vera_core.durable_dispatch_gate\<close>: admission of work under budgets, with a fencing
  token per work item. The record \<open>gate\<close> is the database file, which several gate
  objects share, one per lineage. \<^verbatim>\<open>claim\<close> is one transaction; \<^verbatim>\<open>complete\<close>
  runs a query and then a guarded update without a transaction, so the two are separate
  steps of the step relation. A float is the real number it denotes (an argument that is
  not finite is \<^const>\<open>None\<close>); the sum of two floats, which rounds and may be infinite,
  is the parameter \<open>fadd\<close>, infinity being a real above all finite floats.
\<close>

record budget_row =
  bg_lineage :: string
  bg_active :: int
  bg_retries :: int
  bg_backend :: int
  bg_generation :: int

record dispatch_lease =
  dl_lineage :: string
  dl_work :: string
  dl_holder :: string
  dl_token :: int
  dl_expires :: real
  dl_completed :: bool

record gate =
  gt_budgets :: "budget_row list"
  gt_leases :: "dispatch_lease list"

record dispatch_admission =
  da_lineage :: string
  da_work :: string
  da_holder :: string
  da_token :: int
  da_expires :: real
  da_generation :: int
  da_active :: int
  da_retries :: int
  da_backend :: int

datatype gate_error =
    Gate_text string
  | Gate_not_finite string
  | Ttl_not_positive
  | Expected_generation_negative
  | Initial_budgets_required
  | Budget_negative
  | Gate_overflow
  | Budget_not_found
  | Generation_mismatch
  | Active_exhausted
  | Backend_exhausted
  | Retry_exhausted
  | Completed_work
  | Lease_active
  | Generation_changed

section \<open>Operations\<close>

definition gate_text :: "string \<Rightarrow> string \<Rightarrow> (gate_error, string) result" where
  "gate_text value field = rbind (ensure (value \<noteq> []) (Gate_text field)) (\<lambda>_. Inr value)"

definition gate_finite :: "real option \<Rightarrow> string \<Rightarrow> (gate_error, real) result" where
  "gate_finite value field = or_raise value (Gate_not_finite field)"

text \<open>What an INTEGER column can hold.\<close>

abbreviation budget_of :: "string \<Rightarrow> gate \<Rightarrow> budget_row option" where
  "budget_of l G \<equiv> row_of bg_lineage l (gt_budgets G)"

abbreviation lease_key :: "dispatch_lease \<Rightarrow> string \<times> string" where
  "lease_key r \<equiv> (dl_lineage r, dl_work r)"

abbreviation lease_of :: "string \<Rightarrow> string \<Rightarrow> gate \<Rightarrow> dispatch_lease option" where
  "lease_of l w G \<equiv> row_of lease_key (l, w) (gt_leases G)"

definition open_gate ::
  "gate \<Rightarrow> string \<Rightarrow> int option \<Rightarrow> int option \<Rightarrow> int option \<Rightarrow> (gate_error, gate) result" where
  "open_gate G lineage0 active retries backend =
     rbind (gate_text lineage0 ''lineage_id'') (\<lambda>lineage.
       if budget_of lineage G \<noteq> None then Inr G
       else (case (active, retries, backend) of
               (Some a, Some r, Some b) \<Rightarrow>
                 rbind (ensure (\<not> (a < 0 \<or> r < 0 \<or> b < 0)) Budget_negative) (\<lambda>_.
                 rbind (ensure (fits64 a \<and> fits64 r \<and> fits64 b) Gate_overflow) (\<lambda>_.
                   Inr (G\<lparr>gt_budgets := gt_budgets G @ [\<lparr>bg_lineage = lineage, bg_active = a,
                     bg_retries = r, bg_backend = b, bg_generation = 0\<rparr>]\<rparr>)))
             | _ \<Rightarrow> Inl Initial_budgets_required))"

text \<open>The lease part of \<^verbatim>\<open>claim\<close>: the new token and the rewritten table.\<close>

definition take_lease ::
  "gate \<Rightarrow> string \<Rightarrow> string \<Rightarrow> string \<Rightarrow> real \<Rightarrow> real \<Rightarrow> (gate_error, int \<times> dispatch_lease list) result" where
  "take_lease G lineage work holder now expires =
     (case lease_of lineage work G of
        None \<Rightarrow>
          Inr (1, gt_leases G @ [\<lparr>dl_lineage = lineage, dl_work = work, dl_holder = holder,
                 dl_token = 1, dl_expires = expires, dl_completed = False\<rparr>])
      | Some existing \<Rightarrow>
          rbind (ensure (\<not> dl_completed existing) Completed_work) (\<lambda>_.
          rbind (ensure (\<not> now < dl_expires existing) Lease_active) (\<lambda>_.
            let token = dl_token existing + 1
            in rbind (ensure (fits64 token) Gate_overflow) (\<lambda>_.
                 Inr (token, upd_row lease_key (lineage, work)
                   (\<lambda>r. r\<lparr>dl_holder := holder, dl_token := token, dl_expires := expires,
                        dl_completed := False\<rparr>) (gt_leases G))))))"

definition claim ::
  "(real \<Rightarrow> real \<Rightarrow> real) \<Rightarrow> gate \<Rightarrow> string \<Rightarrow> string \<Rightarrow> string \<Rightarrow> real option \<Rightarrow> real option \<Rightarrow> int \<Rightarrow> bool \<Rightarrow>
     (gate_error, dispatch_admission \<times> gate) result" where
  "claim fadd G lineage work0 holder0 now0 ttl0 expected_generation retry =
     rbind (gate_text work0 ''work_id'') (\<lambda>work.
     rbind (gate_text holder0 ''holder'') (\<lambda>holder.
     rbind (gate_finite now0 ''now'') (\<lambda>now.
     rbind (gate_finite ttl0 ''ttl'') (\<lambda>ttl.
     rbind (ensure (\<not> ttl \<le> 0) Ttl_not_positive) (\<lambda>_.
     rbind (ensure (\<not> expected_generation < 0) Expected_generation_negative) (\<lambda>_.
     rbind (or_raise (budget_of lineage G) Budget_not_found) (\<lambda>budget.
     rbind (ensure (bg_generation budget = expected_generation) Generation_mismatch) (\<lambda>_.
     rbind (ensure (\<not> bg_active budget \<le> 0) Active_exhausted) (\<lambda>_.
     rbind (ensure (\<not> bg_backend budget \<le> 0) Backend_exhausted) (\<lambda>_.
     rbind (ensure (\<not> (retry \<and> bg_retries budget \<le> 0)) Retry_exhausted) (\<lambda>_.
     rbind (take_lease G lineage work holder now (fadd now ttl)) (\<lambda>(token, leases).
       let next_generation = bg_generation budget + 1;
           next_active = bg_active budget - 1;
           next_retries = bg_retries budget - (if retry then 1 else 0);
           next_backend = bg_backend budget - 1;
           matching = filter (\<lambda>r. bg_lineage r = lineage \<and> bg_generation r = bg_generation budget) (gt_budgets G)
       in rbind (ensure (fits64 next_generation) Gate_overflow) (\<lambda>_.
          rbind (ensure (length matching = 1) Generation_changed) (\<lambda>_.
            Inr (\<lparr>da_lineage = lineage, da_work = work, da_holder = holder, da_token = token,
                  da_expires = fadd now ttl, da_generation = next_generation, da_active = next_active,
                  da_retries = next_retries, da_backend = next_backend\<rparr>,
                 G\<lparr>gt_leases := leases,
                   gt_budgets := upd_row bg_lineage lineage
                     (\<lambda>r. r\<lparr>bg_active := next_active, bg_retries := next_retries,
                          bg_backend := next_backend, bg_generation := next_generation\<rparr>)
                     (gt_budgets G)\<rparr>)))))))))))))))"

text \<open>The query of \<^verbatim>\<open>complete\<close> and its guarded update with the row count.\<close>

definition complete_check :: "gate \<Rightarrow> string \<Rightarrow> dispatch_admission \<Rightarrow> real \<Rightarrow> bool" where
  "complete_check G lineage admission now =
     (case lease_of lineage (da_work admission) G of
        None \<Rightarrow> False
      | Some row \<Rightarrow> \<not> (dl_completed row \<or> dl_holder row \<noteq> da_holder admission
            \<or> dl_token row \<noteq> da_token admission \<or> now \<ge> dl_expires row))"

definition complete_matches :: "string \<Rightarrow> dispatch_admission \<Rightarrow> dispatch_lease \<Rightarrow> bool" where
  "complete_matches lineage admission r \<longleftrightarrow>
     dl_lineage r = lineage \<and> dl_work r = da_work admission \<and> dl_holder r = da_holder admission \<and>
     dl_token r = da_token admission \<and> \<not> dl_completed r"

definition complete_update :: "gate \<Rightarrow> string \<Rightarrow> dispatch_admission \<Rightarrow> bool \<times> gate" where
  "complete_update G lineage admission =
     (length (filter (complete_matches lineage admission) (gt_leases G)) = 1,
      G\<lparr>gt_leases := map (\<lambda>r. if complete_matches lineage admission r then r\<lparr>dl_completed := True\<rparr> else r)
          (gt_leases G)\<rparr>)"

definition complete ::
  "gate \<Rightarrow> string \<Rightarrow> dispatch_admission \<Rightarrow> real option \<Rightarrow> (gate_error, bool \<times> gate) result" where
  "complete G lineage admission now0 =
     rbind (gate_finite now0 ''now'') (\<lambda>now.
       if complete_check G lineage admission now then Inr (complete_update G lineage admission)
       else Inr (False, G))"

section \<open>Steps\<close>

datatype gate_call =
    G_claim string string string bool int
  | G_complete string dispatch_admission

inductive gate_step :: "(real \<Rightarrow> real \<Rightarrow> real) \<Rightarrow> gate \<Rightarrow> gate_call \<Rightarrow> gate \<Rightarrow> bool" for fadd where
  step_claim_gate: "claim fadd G l w h now ttl g retry = Inr (adm, G') \<Longrightarrow>
     gate_step fadd G (G_claim l w h retry g) G'"
| step_complete: "complete_update G l adm = (True, G') \<Longrightarrow> gate_step fadd G (G_complete l adm) G'"

definition gate_ok :: "gate \<Rightarrow> bool" where
  "gate_ok G \<longleftrightarrow> distinct_keys bg_lineage (gt_budgets G) \<and> distinct_keys lease_key (gt_leases G) \<and>
     (\<forall>b\<in>set (gt_budgets G). 0 \<le> bg_active b \<and> 0 \<le> bg_retries b \<and> 0 \<le> bg_backend b \<and> 0 \<le> bg_generation b) \<and>
     (\<forall>r\<in>set (gt_leases G). 1 \<le> dl_token r)"

lemma take_lease_Inr:
  assumes "take_lease G l w h now e = Inr (t, ls)"
  shows "(\<forall>k. row_of lease_key k ls = (if k = (l, w)
      then Some \<lparr>dl_lineage = l, dl_work = w, dl_holder = h, dl_token = t, dl_expires = e, dl_completed = False\<rparr>
      else row_of lease_key k (gt_leases G)))
    \<and> (distinct_keys lease_key (gt_leases G) \<longrightarrow> distinct_keys lease_key ls)
    \<and> (case lease_of l w G of None \<Rightarrow> t = 1 | Some r \<Rightarrow> t = dl_token r + 1 \<and> \<not> dl_completed r)"
proof (cases "lease_of l w G")
  case None
  then show ?thesis using assms
    by (auto simp: take_lease_def row_of_append distinct_keys_append split: option.splits)
next
  case (Some r)
  have "dl_lineage r = l" "dl_work r = w" using row_of_Some [OF Some] by auto
  then show ?thesis using assms Some
    by (auto simp: take_lease_def row_of_upd distinct_keys_upd result_simps Let_def)
qed

lemma claim_Inr:
  assumes "claim fadd G l w h now ttl g retry = Inr (adm, G')"
  shows "\<exists>b t ls n e. budget_of l G = Some b \<and> bg_generation b = g \<and> 0 < bg_active b \<and> 0 < bg_backend b
    \<and> (retry \<longrightarrow> 0 < bg_retries b) \<and> take_lease G l w h n e = Inr (t, ls)
    \<and> da_lineage adm = l \<and> da_work adm = w \<and> da_holder adm = h \<and> da_token adm = t \<and> w \<noteq> [] \<and> h \<noteq> []
    \<and> G' = G\<lparr>gt_leases := ls, gt_budgets := upd_row bg_lineage l
        (\<lambda>r. r\<lparr>bg_active := bg_active b - 1, bg_retries := bg_retries b - (if retry then 1 else 0),
             bg_backend := bg_backend b - 1, bg_generation := g + 1\<rparr>) (gt_budgets G)\<rparr>"
proof -
  from assms obtain b n tt t ls where "budget_of l G = Some b" "bg_generation b = g" "0 < bg_active b" "0 < bg_backend b"
    "retry \<longrightarrow> 0 < bg_retries b" "take_lease G l w h n (fadd n tt) = Inr (t, ls)"
    "da_lineage adm = l" "da_work adm = w" "da_holder adm = h" "da_token adm = t" "w \<noteq> []" "h \<noteq> []"
    "G' = G\<lparr>gt_leases := ls, gt_budgets := upd_row bg_lineage l
        (\<lambda>r. r\<lparr>bg_active := bg_active b - 1, bg_retries := bg_retries b - (if retry then 1 else 0),
             bg_backend := bg_backend b - 1, bg_generation := g + 1\<rparr>) (gt_budgets G)\<rparr>"
    by (auto simp: claim_def gate_text_def result_simps Let_def case_prod_beta not_le)
  then show ?thesis by blast
qed

lemma complete_row:
  "lease_of l w (snd (complete_update G k adm)) =
     map_option (\<lambda>r. if complete_matches k adm r then r\<lparr>dl_completed := True\<rparr> else r) (lease_of l w G)"
  by (simp add: complete_update_def row_of_map)

lemma gate_step_ok:
  assumes "gate_step fadd G c G'" "gate_ok G"
  shows "gate_ok G'"
  using assms(1)
proof cases
  case (step_claim_gate l w h now ttl g retry adm)
  obtain b t ls n e where c: "budget_of l G = Some b" "bg_generation b = g" "0 < bg_active b" "0 < bg_backend b"
    "retry \<longrightarrow> 0 < bg_retries b" "take_lease G l w h n e = Inr (t, ls)"
    "G' = G\<lparr>gt_leases := ls, gt_budgets := upd_row bg_lineage l
        (\<lambda>r. r\<lparr>bg_active := bg_active b - 1, bg_retries := bg_retries b - (if retry then 1 else 0),
             bg_backend := bg_backend b - 1, bg_generation := g + 1\<rparr>) (gt_budgets G)\<rparr>"
    using claim_Inr [OF step_claim_gate(2)] by blast
  note t = take_lease_Inr [OF c(6)]
  have b: "b \<in> set (gt_budgets G)" using row_of_Some [OF c(1)] by simp
  have dls: "distinct_keys lease_key ls" using t assms(2) by (simp add: gate_ok_def)
  have "1 \<le> dl_token r" if "r \<in> set ls" for r
  proof -
    have "row_of lease_key (lease_key r) ls = Some r" by (rule row_of_member [OF dls that])
    then have "r = \<lparr>dl_lineage = l, dl_work = w, dl_holder = h, dl_token = t, dl_expires = e, dl_completed = False\<rparr>
        \<or> row_of lease_key (lease_key r) (gt_leases G) = Some r" using t by (auto split: if_splits)
    moreover have "1 \<le> t" using t assms(2) row_of_Some by (fastforce simp: gate_ok_def split: option.splits)
    ultimately show ?thesis using assms(2) row_of_Some by (fastforce simp: gate_ok_def)
  qed
  moreover have "0 \<le> bg_active x \<and> 0 \<le> bg_retries x \<and> 0 \<le> bg_backend x \<and> 0 \<le> bg_generation x"
    if "x \<in> set (gt_budgets G')" for x
    using that assms(2) b c by (auto simp: gate_ok_def set_upd_row split: if_splits)
  ultimately show ?thesis using assms(2) dls c(7) by (simp add: gate_ok_def distinct_keys_upd)
next
  case (step_complete l adm)
  then have G': "G' = G\<lparr>gt_leases := map (\<lambda>r. if complete_matches l adm r then r\<lparr>dl_completed := True\<rparr> else r) (gt_leases G)\<rparr>"
    by (simp add: complete_update_def)
  have keys: "map lease_key (gt_leases G') = map lease_key (gt_leases G)" by (auto simp: G')
  have "distinct_keys lease_key (gt_leases G')"
    using assms(2) unfolding gate_ok_def distinct_keys_def keys by blast
  moreover have "\<forall>r\<in>set (gt_leases G'). 1 \<le> dl_token r" using assms(2) by (auto simp: G' gate_ok_def)
  ultimately show ?thesis using assms(2) by (simp add: gate_ok_def G')
qed

text \<open>What a step does to the lease of one work item.\<close>

definition lease_moves :: "gate_call \<Rightarrow> string \<Rightarrow> string \<Rightarrow> dispatch_lease option \<Rightarrow> dispatch_lease option \<Rightarrow> bool" where
  "lease_moves c l w old new \<longleftrightarrow>
     (case c of
        G_claim l' w' h retry g \<Rightarrow>
          if (l', w') = (l, w)
          then (\<exists>r'. new = Some r' \<and> \<not> dl_completed r' \<and> dl_holder r' = h \<and>
                  dl_token r' = (case old of None \<Rightarrow> 1 | Some r \<Rightarrow> dl_token r + 1) \<and>
                  (\<forall>r. old = Some r \<longrightarrow> \<not> dl_completed r))
          else new = old
      | G_complete l' adm \<Rightarrow>
          if (l', da_work adm) = (l, w)
          then (\<exists>r. old = Some r \<and> dl_token r = da_token adm \<and> \<not> dl_completed r \<and>
                  new = Some (r\<lparr>dl_completed := True\<rparr>))
          else new = old)"

lemma gate_step_lease:
  assumes "gate_step fadd G c G'" "gate_ok G"
  shows "lease_moves c l w (lease_of l w G) (lease_of l w G')"
  using assms(1)
proof cases
  case (step_claim_gate l' w' h now ttl g retry adm)
  obtain t ls n e where c: "take_lease G l' w' h n e = Inr (t, ls)" "gt_leases G' = ls"
    using claim_Inr [OF step_claim_gate(2)] by fastforce
  show ?thesis using take_lease_Inr [OF c(1)] c(2) step_claim_gate(1)
    by (auto simp: lease_moves_def split: option.splits)
next
  case (step_complete l' adm)
  have row: "lease_of l w G' = map_option (\<lambda>r. if complete_matches l' adm r then r\<lparr>dl_completed := True\<rparr> else r) (lease_of l w G)"
    using complete_row [of l w G l' adm] step_complete(2) by simp
  have "length (filter (complete_matches l' adm) (gt_leases G)) = 1"
    using step_complete(2) by (simp add: complete_update_def)
  then obtain r where r: "r \<in> set (gt_leases G)" "complete_matches l' adm r"
    by (metis filter_empty_conv length_0_conv zero_neq_one)
  have "lease_of l' (da_work adm) G = Some r"
    using row_of_member [of lease_key "gt_leases G" r] r assms(2) by (simp add: gate_ok_def complete_matches_def)
  then show ?thesis
  proof (cases "(l', da_work adm) = (l, w)")
    case True
    then have "lease_of l w G = Some r" using \<open>lease_of l' (da_work adm) G = Some r\<close> by simp
    then show ?thesis using row r(2) step_complete(1) True by (simp add: lease_moves_def complete_matches_def)
  next
    case False
    have "\<not> complete_matches l' adm x" if "lease_of l w G = Some x" for x
      using row_of_Some [OF that] False by (auto simp: complete_matches_def)
    then have "lease_of l w G' = lease_of l w G" using row by (cases "lease_of l w G") auto
    then show ?thesis using False step_complete(1) by (auto simp: lease_moves_def)
  qed
qed

section \<open>Budgets\<close>

lemma gate_step_budget:
  assumes "gate_step fadd G c G'" "budget_of l G = Some b"
  shows "\<exists>b'. budget_of l G' = Some b' \<and>
    (case c of
       G_claim l' w h retry g \<Rightarrow>
         if l' = l then bg_generation b = g \<and> bg_generation b' = g + 1 \<and> bg_active b' = bg_active b - 1 \<and>
           bg_backend b' = bg_backend b - 1 \<and> bg_retries b' = bg_retries b - (if retry then 1 else 0)
         else b' = b
     | G_complete l' adm \<Rightarrow> b' = b)"
  using assms(1)
proof cases
  case (step_claim_gate l' w h now ttl g retry adm)
  obtain b0 ls where c: "budget_of l' G = Some b0" "bg_generation b0 = g"
    "G' = G\<lparr>gt_leases := ls, gt_budgets := upd_row bg_lineage l'
        (\<lambda>r. r\<lparr>bg_active := bg_active b0 - 1, bg_retries := bg_retries b0 - (if retry then 1 else 0),
             bg_backend := bg_backend b0 - 1, bg_generation := g + 1\<rparr>) (gt_budgets G)\<rparr>"
    using claim_Inr [OF step_claim_gate(2)] by blast
  then show ?thesis using assms(2) step_claim_gate(1) by (auto simp: row_of_upd)
next
  case (step_complete l' adm)
  then show ?thesis using assms(2) by (auto simp: complete_update_def)
qed

definition claims_of :: "string \<Rightarrow> gate_call list \<Rightarrow> nat" where
  "claims_of l cs = length (filter (\<lambda>c. case c of G_claim l' w h retry g \<Rightarrow> l' = l | _ \<Rightarrow> False) cs)"

definition retries_of :: "string \<Rightarrow> gate_call list \<Rightarrow> nat" where
  "retries_of l cs = length (filter (\<lambda>c. case c of G_claim l' w h retry g \<Rightarrow> l' = l \<and> retry | _ \<Rightarrow> False) cs)"

lemma gate_run_budget:
  "runs (gate_step fadd) G cs G' \<Longrightarrow> budget_of l G = Some b \<Longrightarrow>
     \<exists>b'. budget_of l G' = Some b' \<and> bg_active b' = bg_active b - int (claims_of l cs)
        \<and> bg_backend b' = bg_backend b - int (claims_of l cs)
        \<and> bg_generation b' = bg_generation b + int (claims_of l cs)
        \<and> bg_retries b' = bg_retries b - int (retries_of l cs)"
proof (induction arbitrary: b rule: runs.induct)
  case (runs_step G c H cs K)
  obtain b1 where "budget_of l H = Some b1" and b1: "case c of
       G_claim l' w h retry g \<Rightarrow>
         if l' = l then bg_generation b = g \<and> bg_generation b1 = g + 1 \<and> bg_active b1 = bg_active b - 1 \<and>
           bg_backend b1 = bg_backend b - 1 \<and> bg_retries b1 = bg_retries b - (if retry then 1 else 0)
         else b1 = b
     | G_complete l' adm \<Rightarrow> b1 = b"
    using gate_step_budget [OF runs_step.hyps(1) runs_step.prems] by blast
  then show ?case using runs_step.IH [of b1]
    by (cases c) (auto simp: claims_of_def retries_of_def split: if_splits)
qed (simp add: claims_of_def retries_of_def)

lemma gate_run_ok: "runs (gate_step fadd) G cs G' \<Longrightarrow> gate_ok G \<Longrightarrow> gate_ok G'"
  by (rule runs_invariant [where I = gate_ok and step = "gate_step fadd"]) (blast intro: gate_step_ok)+

definition gate_version :: "string \<Rightarrow> gate \<Rightarrow> int" where
  "gate_version l G = (case budget_of l G of None \<Rightarrow> -1 | Some b \<Rightarrow> bg_generation b)"

definition gate_expects :: "string \<Rightarrow> gate_call \<Rightarrow> int option" where
  "gate_expects l c = (case c of G_claim l' w h retry g \<Rightarrow> if l' = l then Some g else None | _ \<Rightarrow> None)"

lemma gate_step_no_budget:
  assumes "gate_step fadd G c G'" "budget_of l G = None"
  shows "budget_of l G' = None \<and> gate_expects l c = None"
  using assms(1)
proof cases
  case (step_claim_gate l' w h now ttl g retry adm)
  obtain b0 ls f where c: "budget_of l' G = Some b0" "gt_budgets G' = upd_row bg_lineage l' f (gt_budgets G)"
    "\<And>r. bg_lineage (f r) = bg_lineage r"
    using claim_Inr [OF step_claim_gate(2)] by fastforce
  then show ?thesis using assms(2) step_claim_gate(1) by (auto simp: row_of_upd gate_expects_def)
next
  case (step_complete l' adm)
  then show ?thesis using assms(2) by (auto simp: complete_update_def gate_expects_def)
qed

interpretation gate_cas: cas_store "gate_step fadd" "gate_version l" "gate_expects l" for fadd l
proof unfold_locales
  fix G c G' n
  assume st: "gate_step fadd G c G'" and e: "gate_expects l c = Some n"
  then obtain b where b: "budget_of l G = Some b" using gate_step_no_budget by fastforce
  show "gate_version l G = n \<and> gate_version l G' = n + 1"
    using gate_step_budget [OF st b] e b
    by (cases c) (auto simp: gate_version_def gate_expects_def split: if_splits)
next
  fix G c G' assume st: "gate_step fadd G c G'"
  show "gate_version l G \<le> gate_version l G'"
  proof (cases "budget_of l G")
    case None
    then show ?thesis using gate_step_no_budget [OF st None] by (simp add: gate_version_def)
  next
    case (Some b)
    then show ?thesis using gate_step_budget [OF st Some]
      by (cases c) (auto simp: gate_version_def split: if_splits)
  qed
qed

section \<open>Fencing tokens\<close>

definition claims_work :: "string \<Rightarrow> string \<Rightarrow> gate_call \<Rightarrow> bool" where
  "claims_work l w c = (case c of G_claim l' w' h retry g \<Rightarrow> (l', w') = (l, w) | _ \<Rightarrow> False)"

definition completes_work :: "string \<Rightarrow> string \<Rightarrow> gate_call \<Rightarrow> bool" where
  "completes_work l w c = (case c of G_complete l' adm \<Rightarrow> (l', da_work adm) = (l, w) | _ \<Rightarrow> False)"

lemma lease_moves_token:
  assumes "lease_moves c l w (Some r) new"
  shows "\<exists>r'. new = Some r' \<and> dl_token r' = dl_token r + (if claims_work l w c then 1 else 0)
    \<and> dl_completed r' = (dl_completed r \<or> completes_work l w c)
    \<and> (dl_completed r \<longrightarrow> \<not> claims_work l w c \<and> \<not> completes_work l w c)"
  using assms by (cases c) (auto simp: lease_moves_def claims_work_def completes_work_def split: if_splits)

lemma gate_run_token:
  "runs (gate_step fadd) G cs G' \<Longrightarrow> gate_ok G \<Longrightarrow> lease_of l w G = Some r \<Longrightarrow>
     \<exists>r'. lease_of l w G' = Some r' \<and> dl_token r' = dl_token r + int (length (filter (claims_work l w) cs))
        \<and> (dl_completed r \<longrightarrow> dl_completed r' \<and> (\<forall>c\<in>set cs. \<not> claims_work l w c \<and> \<not> completes_work l w c))"
proof (induction arbitrary: r rule: runs.induct)
  case (runs_step G c H cs K)
  obtain r1 where r1: "lease_of l w H = Some r1" "dl_token r1 = dl_token r + (if claims_work l w c then 1 else 0)"
    "dl_completed r1 = (dl_completed r \<or> completes_work l w c)"
    "dl_completed r \<longrightarrow> \<not> claims_work l w c \<and> \<not> completes_work l w c"
    using lease_moves_token gate_step_lease [OF runs_step.hyps(1) runs_step.prems(1), of l w] runs_step.prems(2) by fastforce
  show ?case
    using runs_step.IH [OF gate_step_ok [OF runs_step.hyps(1) runs_step.prems(1)] r1(1)] r1(2-4) by auto
qed simp

lemma claim_lease:
  assumes "claim fadd G l w h now ttl g retry = Inr (adm, G')"
  shows "\<exists>r. lease_of l w G' = Some r \<and> dl_token r = da_token adm \<and> dl_holder r = h \<and> \<not> dl_completed r \<and> da_work adm = w"
proof -
  obtain b t ls n e where "take_lease G l w h n e = Inr (t, ls)" "gt_leases G' = ls" "da_token adm = t" "da_work adm = w"
    using claim_Inr [OF assms] by fastforce
  then show ?thesis using take_lease_Inr by fastforce
qed

lemma complete_refused:
  assumes "gate_ok G" "lease_of l (da_work adm) G = Some r" "dl_token r \<noteq> da_token adm \<or> dl_completed r"
  shows "complete G l adm (Some t) = Inr (False, G) \<and> \<not> fst (complete_update G l adm)"
proof -
  have "\<not> complete_matches l adm x" if "x \<in> set (gt_leases G)" for x
  proof
    assume m: "complete_matches l adm x"
    then have "lease_of l (da_work adm) G = Some x"
      using row_of_member [of lease_key "gt_leases G" x] that assms(1) by (simp add: gate_ok_def complete_matches_def)
    then show False using assms(2,3) m by (simp add: complete_matches_def)
  qed
  then have "filter (complete_matches l adm) (gt_leases G) = []" by (simp add: filter_empty_conv)
  then show ?thesis using assms(2,3)
    by (auto simp: complete_def gate_finite_def complete_check_def complete_update_def)
qed

section \<open>What the gate guarantees\<close>

text \<open>
  C24: Budgets are never overdrawn. In any sequence of accepted steps by any processes, each
  accepted claim of a lineage takes one active slot and one backend job and advances the
  generation by one, each retry takes one retry, and no counter goes below zero: the number
  of claims never exceeds what the lineage started with.
\<close>

theorem dispatch_budget_accounting:
  assumes "gate_ok G" "budget_of l G = Some b" "runs (gate_step fadd) G cs G'"
  shows "\<exists>b'. budget_of l G' = Some b' \<and> bg_active b' = bg_active b - int (claims_of l cs)
    \<and> bg_backend b' = bg_backend b - int (claims_of l cs) \<and> bg_generation b' = bg_generation b + int (claims_of l cs)
    \<and> bg_retries b' = bg_retries b - int (retries_of l cs)
    \<and> int (claims_of l cs) \<le> min (bg_active b) (bg_backend b) \<and> int (retries_of l cs) \<le> bg_retries b"
proof -
  obtain b' where b': "budget_of l G' = Some b'" "bg_active b' = bg_active b - int (claims_of l cs)"
    "bg_backend b' = bg_backend b - int (claims_of l cs)" "bg_generation b' = bg_generation b + int (claims_of l cs)"
    "bg_retries b' = bg_retries b - int (retries_of l cs)"
    using gate_run_budget [OF assms(3,2)] by blast
  have "0 \<le> bg_active b' \<and> 0 \<le> bg_retries b' \<and> 0 \<le> bg_backend b'"
    using gate_run_ok [OF assms(3,1)] row_of_Some [OF b'(1)] by (auto simp: gate_ok_def)
  then show ?thesis using b' by auto
qed

text \<open>
  A stale admission can never complete. Once the work item of an admission has been
  claimed again, \<^verbatim>\<open>complete\<close> with the old admission returns \<^verbatim>\<open>False\<close> at
  every later time and changes nothing, and its guarded update matches no row even when the
  check before it was made earlier.
\<close>

lemma stale_admission_fenced:
  assumes "gate_ok G" "claim fadd G l w h now ttl g retry = Inr (adm, G1)"
    and "runs (gate_step fadd) G1 cs G2" "\<exists>c\<in>set cs. claims_work l w c"
  shows "complete G2 l adm (Some t) = Inr (False, G2) \<and> \<not> fst (complete_update G2 l adm)"
proof -
  have ok: "gate_ok G1" "gate_ok G2"
    using gate_step_ok [OF step_claim_gate [OF assms(2)] assms(1)] gate_run_ok [OF assms(3)] by blast+
  obtain r where r: "lease_of l w G1 = Some r" "dl_token r = da_token adm" "da_work adm = w"
    using claim_lease [OF assms(2)] by blast
  obtain r2 where r2: "lease_of l w G2 = Some r2" "dl_token r2 = dl_token r + int (length (filter (claims_work l w) cs))"
    using gate_run_token [OF assms(3) ok(1) r(1)] by blast
  have "filter (claims_work l w) cs \<noteq> []" using assms(4) by (simp add: filter_empty_conv)
  then have "dl_token r2 \<noteq> da_token adm" using r2(2) r(2) by simp
  then show ?thesis using complete_refused [OF ok(2)] r2(1) r(3) by blast
qed

text \<open>
  Work completes once and stays completed: in any run, at most one accepted completion of
  a work item occurs, and after a completed item no claim and no completion of it is ever
  accepted again.
\<close>

lemma work_completes_once:
  assumes "gate_ok G" "runs (gate_step fadd) G cs G'"
  shows "length (filter (completes_work l w) cs) \<le> 1
    \<and> (\<forall>r. lease_of l w G = Some r \<and> dl_completed r \<longrightarrow> (\<forall>c\<in>set cs. \<not> claims_work l w c \<and> \<not> completes_work l w c))"
  using assms(2,1)
proof (induction rule: runs.induct)
  case (runs_step G c H cs K)
  have okH: "gate_ok H" by (rule gate_step_ok [OF runs_step.hyps(1) runs_step.prems])
  have "length (filter (completes_work l w) (c # cs)) \<le> 1"
  proof (cases "completes_work l w c")
    case True
    then obtain r where r: "lease_of l w H = Some r" "dl_completed r"
      using gate_step_lease [OF runs_step.hyps(1) runs_step.prems, of l w]
      by (cases c) (auto simp: lease_moves_def completes_work_def)
    then have "filter (completes_work l w) cs = []"
      using gate_run_token [OF runs_step.hyps(2) okH r(1)] by (auto simp: filter_empty_conv)
    then show ?thesis by simp
  qed (use runs_step.IH okH in simp)
  moreover have "\<forall>r. lease_of l w G = Some r \<and> dl_completed r \<longrightarrow>
      (\<forall>x\<in>set (c # cs). \<not> claims_work l w x \<and> \<not> completes_work l w x)"
    using gate_run_token [OF runs.runs_step [where step = "gate_step fadd", OF runs_step.hyps] runs_step.prems, of l w] by blast
  ultimately show ?case by blast
qed simp

text \<open>
  Claims are a compare-and-swap on the budget generation: at most one accepted claim of a
  lineage names a given expected generation.
\<close>

lemma dispatch_compare_and_swap:
  assumes "runs (gate_step fadd) G cs G'"
  shows "length (filter (\<lambda>c. gate_expects l c = Some g) cs) \<le> 1"
  by (rule gate_cas.run_at_most_one [OF assms])

section \<open>Concrete instances\<close>

definition sample_gate :: gate where
  "sample_gate = \<lparr>gt_budgets = [\<lparr>bg_lineage = ''L'', bg_active = 5, bg_retries = 2, bg_backend = 5, bg_generation = 0\<rparr>],
     gt_leases = []\<rparr>"

lemma sample_gate_open: "open_gate \<lparr>gt_budgets = [], gt_leases = []\<rparr> ''L'' (Some 5) (Some 2) (Some 5) = Inr sample_gate"
  by (simp add: open_gate_def gate_text_def fits64_def sample_gate_def)

lemma sample_gate_ok: "gate_ok sample_gate"
  by (simp add: gate_ok_def sample_gate_def distinct_keys_def)

lemmas gate_eval = claim_def gate_text_def gate_finite_def take_lease_def fits64_def sample_gate_def
  row_of_Cons upd_row_def Let_def

definition sample_admission :: "int \<Rightarrow> int \<Rightarrow> real \<Rightarrow> string \<Rightarrow> dispatch_admission" where
  "sample_admission token generation expires holder = \<lparr>da_lineage = ''L'', da_work = ''W'', da_holder = holder,
     da_token = token, da_expires = expires, da_generation = generation, da_active = 5 - generation,
     da_retries = 2, da_backend = 5 - generation\<rparr>"

lemma sample_claim:
  "\<exists>G1. claim (+) sample_gate ''L'' ''W'' ''h1'' (Some 0) (Some 10) 0 False = Inr (sample_admission 1 1 10 ''h1'', G1)
     \<and> (\<exists>a G2. claim (+) G1 ''L'' ''W'' ''h2'' (Some 20) (Some 10) 1 False = Inr (a, G2))"
  by (simp add: gate_eval sample_admission_def)

theorem dispatch_budget_accounting_witness:
  "\<exists>G1 b'. claim (+) sample_gate ''L'' ''W'' ''h1'' (Some 0) (Some 10) 0 False = Inr (sample_admission 1 1 10 ''h1'', G1)
     \<and> budget_of ''L'' G1 = Some b' \<and> bg_active b' = 4"
proof -
  obtain G1 where c: "claim (+) sample_gate ''L'' ''W'' ''h1'' (Some 0) (Some 10) 0 False = Inr (sample_admission 1 1 10 ''h1'', G1)"
    using sample_claim by blast
  have "budget_of ''L'' sample_gate = Some \<lparr>bg_lineage = ''L'', bg_active = 5, bg_retries = 2, bg_backend = 5, bg_generation = 0\<rparr>"
    by (simp add: sample_gate_def row_of_Cons)
  from dispatch_budget_accounting [OF sample_gate_ok this runs_one [where step = "gate_step (+)", OF step_claim_gate [OF c]]] c
  show ?thesis by (auto simp: claims_of_def)
qed

lemma stale_admission_fenced_witness:
  "\<exists>G1 a G2. claim (+) sample_gate ''L'' ''W'' ''h1'' (Some 0) (Some 10) 0 False = Inr (sample_admission 1 1 10 ''h1'', G1)
     \<and> claim (+) G1 ''L'' ''W'' ''h2'' (Some 20) (Some 10) 1 False = Inr (a, G2)
     \<and> complete G2 ''L'' (sample_admission 1 1 10 ''h1'') (Some 5) = Inr (False, G2)"
proof -
  obtain G1 a G2 where c: "claim (+) sample_gate ''L'' ''W'' ''h1'' (Some 0) (Some 10) 0 False = Inr (sample_admission 1 1 10 ''h1'', G1)"
    "claim (+) G1 ''L'' ''W'' ''h2'' (Some 20) (Some 10) 1 False = Inr (a, G2)"
    using sample_claim by blast
  from stale_admission_fenced [OF sample_gate_ok c(1) runs_one [where step = "gate_step (+)", OF step_claim_gate [OF c(2)]], of 5] c
  show ?thesis by (auto simp: claims_work_def)
qed

lemma work_completes_once_witness:
  "\<exists>G1. claim (+) sample_gate ''L'' ''W'' ''h1'' (Some 0) (Some 10) 0 False = Inr (sample_admission 1 1 10 ''h1'', G1)
     \<and> length (filter (completes_work ''L'' ''W'') [G_claim ''L'' ''W'' ''h1'' False 0]) \<le> 1"
proof -
  obtain G1 where c: "claim (+) sample_gate ''L'' ''W'' ''h1'' (Some 0) (Some 10) 0 False = Inr (sample_admission 1 1 10 ''h1'', G1)"
    using sample_claim by blast
  from work_completes_once [OF sample_gate_ok runs_one [where step = "gate_step (+)", OF step_claim_gate [OF c]], of "''L''" "''W''"] c
  show ?thesis by blast
qed

lemma dispatch_compare_and_swap_witness:
  "\<exists>G1. claim (+) sample_gate ''L'' ''W'' ''h1'' (Some 0) (Some 10) 0 False = Inr (sample_admission 1 1 10 ''h1'', G1)
     \<and> length (filter (\<lambda>c. gate_expects ''L'' c = Some 0) [G_claim ''L'' ''W'' ''h1'' False 0]) \<le> 1"
proof -
  obtain G1 where c: "claim (+) sample_gate ''L'' ''W'' ''h1'' (Some 0) (Some 10) 0 False = Inr (sample_admission 1 1 10 ''h1'', G1)"
    using sample_claim by blast
  from dispatch_compare_and_swap [OF runs_one [where step = "gate_step (+)", OF step_claim_gate [OF c]], of "''L''" 0] c
  show ?thesis by blast
qed

end
