(* ===== verification/Resource_Lease.thy ===== *)
theory Resource_Lease
  imports Vera_Prelude Py_Text "HOL-Library.Product_Lexorder" "HOL-Library.List_Lexorder"
    "HOL-Library.Char_ord" "HOL-Library.Sublist"
begin

text \<open>
  \<^verbatim>\<open>vera_core.resource_lease\<close>: in-process leases on hierarchical resources with
  capabilities and fencing tokens. The record \<open>lease_registry\<close> is the object; the lease
  dict is the list of its values in insertion order. Every operation runs under the lock, so
  it is one atomic step that returns its result or error together with the state it leaves:
  several errors are raised after the state has changed. \<^verbatim>\<open>hold\<close> is two steps, the
  entry and the exit of the context. The value a \<^verbatim>\<open>fence_allocator\<close> returns is an
  argument of \<open>open_lease\<close>.
\<close>

section \<open>Claims\<close>

datatype claim_mode = READ | WRITE

instantiation claim_mode :: linorder
begin

definition less_eq_claim_mode :: "claim_mode \<Rightarrow> claim_mode \<Rightarrow> bool" where
  "less_eq_claim_mode a b \<longleftrightarrow> a = READ \<or> b = WRITE"

definition less_claim_mode :: "claim_mode \<Rightarrow> claim_mode \<Rightarrow> bool" where
  "less_claim_mode a b \<longleftrightarrow> a = READ \<and> b = WRITE"

instance
proof
  fix x y z :: claim_mode
  show "(x < y) = (x \<le> y \<and> \<not> y \<le> x)" "x \<le> x" "x \<le> y \<or> y \<le> x"
    by (cases x; cases y; simp add: less_eq_claim_mode_def less_claim_mode_def)+
  show "x \<le> y \<Longrightarrow> y \<le> x \<Longrightarrow> x = y" "x \<le> y \<Longrightarrow> y \<le> z \<Longrightarrow> x \<le> z"
    by (cases x; cases y; cases z; simp add: less_eq_claim_mode_def)+
qed

end

record resource_claim =
  rc_key :: string
  rc_mode :: claim_mode

datatype lease_error =
    Claim_not_namespaced
  | Claim_empty_part
  | Claim_not_canonical
  | Lease_text string
  | Lease_not_positive string
  | Lease_negative string
  | Ceiling_empty_capability
  | Max_leases_invalid
  | Capability_empty
  | Capability_denied "string set"
  | Lease_id_active string
  | Max_leases_reached
  | Resource_collision string "resource_claim \<times> resource_claim"
  | Fence_not_increasing
  | Stale_fence
  | Lease_not_found string
  | Lease_expired string
  | Lease_busy string
  | Key_without_mode
  | Capability_lacking string
  | Claim_lacking string

definition make_claim :: "string \<Rightarrow> claim_mode \<Rightarrow> (lease_error, resource_claim) result" where
  "make_claim key mode =
     rbind (ensure (py_strip key \<noteq> [] \<and> CHR '':'' \<in> set key) Claim_not_namespaced) (\<lambda>_.
       let (namespace, value) = split_once CHR '':'' key;
           segments = split_all CHR ''/'' value
       in rbind (ensure (namespace \<noteq> [] \<and> value \<noteq> []) Claim_empty_part) (\<lambda>_.
          rbind (ensure (\<not> (key \<noteq> py_strip key \<or> namespace \<noteq> py_strip namespace \<or> value \<noteq> py_strip value
                    \<or> ends_with value ''/'' \<or> (\<exists>s\<in>set segments. s \<in> {[], ''.'', ''..''}))) Claim_not_canonical) (\<lambda>_.
            Inr \<lparr>rc_key = key, rc_mode = mode\<rparr>)))"

definition parts :: "string \<Rightarrow> string \<times> string" where
  "parts key = split_once CHR '':'' key"

definition resources_overlap :: "string \<Rightarrow> string \<Rightarrow> bool" where
  "resources_overlap left right =
     (let (left_namespace, left_value) = parts left; (right_namespace, right_value) = parts right
      in if left_namespace \<noteq> right_namespace then False
         else left_value = right_value \<or> starts_with left_value (right_value @ ''/'')
              \<or> starts_with right_value (left_value @ ''/''))"

definition claim_covers :: "resource_claim \<Rightarrow> resource_claim \<Rightarrow> bool" where
  "claim_covers claim requested =
     (if rc_mode requested = WRITE \<and> rc_mode claim \<noteq> WRITE then False
      else let (claim_namespace, claim_value) = parts (rc_key claim);
               (requested_namespace, requested_value) = parts (rc_key requested)
           in if claim_namespace \<noteq> requested_namespace then False
              else requested_value = claim_value \<or> starts_with requested_value (claim_value @ ''/''))"

definition conflicting :: "resource_claim \<Rightarrow> resource_claim \<Rightarrow> bool" where
  "conflicting a b \<longleftrightarrow> resources_overlap (rc_key a) (rc_key b) \<and> (rc_mode a = WRITE \<or> rc_mode b = WRITE)"

definition first_conflict ::
  "resource_claim list \<Rightarrow> resource_claim list \<Rightarrow> (resource_claim \<times> resource_claim) option" where
  "first_conflict left right = find (\<lambda>(a, b). conflicting a b) (List.product left right)"

section \<open>The registry\<close>

record resource_lease =
  rl_lease_id :: string
  rl_task_id :: string
  rl_capabilities :: "string set"
  rl_claims :: "resource_claim list"
  rl_token :: int
  rl_expires :: int

record lease_registry =
  rg_ceiling :: "string set"
  rg_max :: int
  rg_last_fence :: int
  rg_leases :: "resource_lease list"
  rg_inflight :: "string \<Rightarrow> int option"

definition lease_text :: "string \<Rightarrow> string \<Rightarrow> (lease_error, string) result" where
  "lease_text value label = rbind (ensure (py_strip value \<noteq> []) (Lease_text label)) (\<lambda>_. Inr value)"

definition positive_int :: "int \<Rightarrow> string \<Rightarrow> (lease_error, int) result" where
  "positive_int value label = rbind (ensure (1 \<le> value) (Lease_not_positive label)) (\<lambda>_. Inr value)"

definition nonnegative_int :: "int \<Rightarrow> string \<Rightarrow> (lease_error, int) result" where
  "nonnegative_int value label = rbind (ensure (0 \<le> value) (Lease_negative label)) (\<lambda>_. Inr value)"

definition new_lease_registry :: "string set \<Rightarrow> int \<Rightarrow> (lease_error, lease_registry) result" where
  "new_lease_registry ceiling max_leases =
     rbind (ensure (1 \<le> max_leases) Max_leases_invalid) (\<lambda>_.
     rbind (ensure ([] \<notin> ceiling) Ceiling_empty_capability) (\<lambda>_.
       Inr \<lparr>rg_ceiling = ceiling, rg_max = max_leases, rg_last_fence = 0, rg_leases = [],
            rg_inflight = (\<lambda>_. None)\<rparr>))"

abbreviation lease_at :: "string \<Rightarrow> lease_registry \<Rightarrow> resource_lease option" where
  "lease_at k S \<equiv> row_of rl_lease_id k (rg_leases S)"

definition inflight :: "lease_registry \<Rightarrow> string \<Rightarrow> int" where
  "inflight S k = (case rg_inflight S k of None \<Rightarrow> 0 | Some n \<Rightarrow> n)"

definition drop_lease :: "string \<Rightarrow> lease_registry \<Rightarrow> lease_registry" where
  "drop_lease k S = S\<lparr>rg_leases := filter (\<lambda>l. rl_lease_id l \<noteq> k) (rg_leases S)\<rparr>"

definition is_expired :: "lease_registry \<Rightarrow> int \<Rightarrow> resource_lease \<Rightarrow> bool" where
  "is_expired S now l \<longleftrightarrow> now \<ge> rl_expires l \<and> inflight S (rl_lease_id l) = 0"

definition reap_expired_locked :: "lease_registry \<Rightarrow> int \<Rightarrow> resource_lease list \<times> lease_registry" where
  "reap_expired_locked S now =
     (let expired = filter (is_expired S now) (rg_leases S)
      in (sort_key rl_lease_id expired, foldl (\<lambda>T l. drop_lease (rl_lease_id l) T) S expired))"

definition next_fence :: "lease_registry \<Rightarrow> int option \<Rightarrow> (lease_error, int) result \<times> lease_registry" where
  "next_fence S allocated =
     (let candidate = (case allocated of None \<Rightarrow> rg_last_fence S + 1 | Some c \<Rightarrow> c)
      in if candidate \<le> rg_last_fence S then (Inl Fence_not_increasing, S)
         else (Inr candidate, S\<lparr>rg_last_fence := candidate\<rparr>))"

definition lookup_fenced :: "lease_registry \<Rightarrow> string \<Rightarrow> int \<Rightarrow> (lease_error, resource_lease) result" where
  "lookup_fenced S lease_id0 token =
     rbind (lease_text lease_id0 ''lease_id'') (\<lambda>lease_id.
     rbind (ensure (1 \<le> token) Stale_fence) (\<lambda>_.
     rbind (or_raise (lease_at lease_id S) (Lease_not_found lease_id)) (\<lambda>lease.
     rbind (ensure (rl_token lease = token) Stale_fence) (\<lambda>_. Inr lease))))"

definition require_lease ::
  "lease_registry \<Rightarrow> string \<Rightarrow> int \<Rightarrow> int \<Rightarrow> (lease_error, resource_lease) result \<times> lease_registry" where
  "require_lease S lease_id token now =
     (case lookup_fenced S lease_id token of
        Inl e \<Rightarrow> (Inl e, S)
      | Inr lease \<Rightarrow>
          if now \<ge> rl_expires lease
          then (Inl (Lease_expired lease_id), if inflight S lease_id = 0 then drop_lease lease_id S else S)
          else (Inr lease, S))"

definition authorize_locked ::
  "lease_registry \<Rightarrow> string \<Rightarrow> int \<Rightarrow> string \<Rightarrow> (string \<times> claim_mode) option \<Rightarrow> int \<Rightarrow>
     (lease_error, resource_lease) result \<times> lease_registry" where
  "authorize_locked S lease_id token capability resource now =
     (case require_lease S lease_id token now of
        (Inl e, S') \<Rightarrow> (Inl e, S')
      | (Inr lease, S') \<Rightarrow>
          (rbind (ensure (capability \<in> rl_capabilities lease) (Capability_lacking capability)) (\<lambda>_.
             case resource of
               None \<Rightarrow> Inr lease
             | Some (key, mode) \<Rightarrow>
                 rbind (make_claim key mode) (\<lambda>probe.
                 rbind (ensure (\<exists>c\<in>set (rl_claims lease). claim_covers c probe) (Claim_lacking key)) (\<lambda>_.
                   Inr lease))), S'))"

text \<open>\<^verbatim>\<open>resource_key\<close> and \<^verbatim>\<open>resource_mode\<close> come together or not at all.\<close>

definition both_or_none :: "string option \<Rightarrow> claim_mode option \<Rightarrow> (lease_error, (string \<times> claim_mode) option) result" where
  "both_or_none key mode =
     (case (key, mode) of
        (None, None) \<Rightarrow> Inr None
      | (Some k, Some m) \<Rightarrow> Inr (Some (k, m))
      | _ \<Rightarrow> Inl Key_without_mode)"

definition sorted_claims :: "resource_claim list \<Rightarrow> resource_claim list" where
  "sorted_claims claims = sort_key (\<lambda>c. (rc_key c, rc_mode c)) (remdups claims)"

definition find_collision ::
  "resource_claim list \<Rightarrow> resource_lease list \<Rightarrow> (string \<times> resource_claim \<times> resource_claim) option" where
  "find_collision claims leases =
     (case find (\<lambda>l. first_conflict claims (rl_claims l) \<noteq> None) leases of
        None \<Rightarrow> None
      | Some l \<Rightarrow> map_option (\<lambda>c. (rl_lease_id l, c)) (first_conflict claims (rl_claims l)))"

definition open_lease ::
  "lease_registry \<Rightarrow> string \<Rightarrow> string \<Rightarrow> string set \<Rightarrow> resource_claim list \<Rightarrow> int \<Rightarrow> int \<Rightarrow> int option \<Rightarrow>
     (lease_error, resource_lease) result \<times> lease_registry" where
  "open_lease S lease_id0 task_id0 requested claims ttl0 now0 allocated =
     (case rbind (lease_text lease_id0 ''lease_id'') (\<lambda>lease_id.
           rbind (lease_text task_id0 ''task_id'') (\<lambda>task_id.
           rbind (positive_int ttl0 ''ttl_ns'') (\<lambda>ttl.
           rbind (nonnegative_int now0 ''now_ns'') (\<lambda>now.
           rbind (ensure ([] \<notin> requested) Capability_empty) (\<lambda>_.
           rbind (ensure (requested \<subseteq> rg_ceiling S) (Capability_denied (requested - rg_ceiling S))) (\<lambda>_.
             Inr (lease_id, task_id, ttl, now))))))) of
        Inl e \<Rightarrow> (Inl e, S)
      | Inr (lease_id, task_id, ttl, now) \<Rightarrow>
          let claim_tuple = sorted_claims claims;
              S1 = snd (reap_expired_locked S now)
          in if lease_at lease_id S1 \<noteq> None then (Inl (Lease_id_active lease_id), S1)
             else if int (length (rg_leases S1)) \<ge> rg_max S1 then (Inl Max_leases_reached, S1)
             else (case find_collision claim_tuple (rg_leases S1) of
                     Some (other, conflict) \<Rightarrow> (Inl (Resource_collision other conflict), S1)
                   | None \<Rightarrow>
                       (case next_fence S1 allocated of
                          (Inl e, S2) \<Rightarrow> (Inl e, S2)
                        | (Inr token, S2) \<Rightarrow>
                            let lease = \<lparr>rl_lease_id = lease_id, rl_task_id = task_id,
                                  rl_capabilities = requested, rl_claims = claim_tuple,
                                  rl_token = token, rl_expires = now + ttl\<rparr>
                            in (Inr lease, S2\<lparr>rg_leases := rg_leases S2 @ [lease]\<rparr>))))"

definition renew ::
  "lease_registry \<Rightarrow> string \<Rightarrow> int \<Rightarrow> int \<Rightarrow> int \<Rightarrow> (lease_error, resource_lease) result \<times> lease_registry" where
  "renew S lease_id token ttl0 now0 =
     (case rbind (positive_int ttl0 ''ttl_ns'') (\<lambda>ttl.
           rbind (nonnegative_int now0 ''now_ns'') (\<lambda>now. Inr (ttl, now))) of
        Inl e \<Rightarrow> (Inl e, S)
      | Inr (ttl, now) \<Rightarrow>
          (case require_lease S lease_id token now of
             (Inl e, S') \<Rightarrow> (Inl e, S')
           | (Inr lease, S') \<Rightarrow>
               let renewed = lease\<lparr>rl_expires := now + ttl\<rparr>
               in (Inr renewed, S'\<lparr>rg_leases := upd_row rl_lease_id lease_id (\<lambda>_. renewed) (rg_leases S')\<rparr>)))"

definition close_lease ::
  "lease_registry \<Rightarrow> string \<Rightarrow> int \<Rightarrow> int \<Rightarrow> (lease_error, resource_lease) result \<times> lease_registry" where
  "close_lease S lease_id token now0 =
     (case rbind (nonnegative_int now0 ''now_ns'') (\<lambda>now.
           rbind (lookup_fenced S lease_id token) (\<lambda>lease. Inr (now, lease))) of
        Inl e \<Rightarrow> (Inl e, S)
      | Inr (now, lease) \<Rightarrow>
          if inflight S lease_id > 0 then (Inl (Lease_busy lease_id), S)
          else if now \<ge> rl_expires lease then (Inl (Lease_expired lease_id), drop_lease lease_id S)
          else (Inr lease, drop_lease lease_id S))"

definition authorize ::
  "lease_registry \<Rightarrow> string \<Rightarrow> int \<Rightarrow> string \<Rightarrow> string option \<Rightarrow> claim_mode option \<Rightarrow> int \<Rightarrow>
     (lease_error, resource_lease) result \<times> lease_registry" where
  "authorize S lease_id token capability0 key mode now0 =
     (case rbind (lease_text capability0 ''capability'') (\<lambda>capability.
           rbind (nonnegative_int now0 ''now_ns'') (\<lambda>now.
           rbind (both_or_none key mode) (\<lambda>resource. Inr (capability, now, resource)))) of
        Inl e \<Rightarrow> (Inl e, S)
      | Inr (capability, now, resource) \<Rightarrow> authorize_locked S lease_id token capability resource now)"

definition hold_enter ::
  "lease_registry \<Rightarrow> string \<Rightarrow> int \<Rightarrow> string \<Rightarrow> string option \<Rightarrow> claim_mode option \<Rightarrow> int \<Rightarrow>
     (lease_error, resource_lease) result \<times> lease_registry" where
  "hold_enter S lease_id token capability key mode now =
     (case authorize S lease_id token capability key mode now of
        (Inl e, S') \<Rightarrow> (Inl e, S')
      | (Inr lease, S') \<Rightarrow>
          (Inr lease, S'\<lparr>rg_inflight := (rg_inflight S')(lease_id \<mapsto> inflight S' lease_id + 1)\<rparr>))"

definition hold_exit :: "lease_registry \<Rightarrow> string \<Rightarrow> lease_registry" where
  "hold_exit S lease_id =
     (let remaining = (case rg_inflight S lease_id of None \<Rightarrow> 1 | Some n \<Rightarrow> n) - 1
      in if remaining \<le> 0 then S\<lparr>rg_inflight := (rg_inflight S)(lease_id := None)\<rparr>
         else S\<lparr>rg_inflight := (rg_inflight S)(lease_id \<mapsto> remaining)\<rparr>)"

definition snapshot :: "lease_registry \<Rightarrow> int \<Rightarrow> (lease_error, resource_lease list) result \<times> lease_registry" where
  "snapshot S now0 =
     (case nonnegative_int now0 ''now_ns'' of
        Inl e \<Rightarrow> (Inl e, S)
      | Inr now \<Rightarrow>
          let S' = snd (reap_expired_locked S now)
          in (Inr (sort_key rl_lease_id (rg_leases S')), S'))"

definition reap_expired :: "lease_registry \<Rightarrow> int \<Rightarrow> (lease_error, resource_lease list) result \<times> lease_registry" where
  "reap_expired S now0 =
     (case nonnegative_int now0 ''now_ns'' of
        Inl e \<Rightarrow> (Inl e, S)
      | Inr now \<Rightarrow> (let (expired, S') = reap_expired_locked S now in (Inr expired, S')))"

end
