(* ===== verification/Lease_Guarantees.thy ===== *)
theory Lease_Guarantees
  imports Resource_Lease
begin

text \<open>
  What the resource lease registry guarantees under every interleaving of its operations:
  active leases never hold conflicting claims, so write access to a resource is exclusive;
  a fencing token that is gone never works again; and a held lease stays with its claims
  until the hold ends.
\<close>

section \<open>Claims as a tree\<close>

definition under :: "string \<Rightarrow> string \<Rightarrow> bool" where
  "under a v \<longleftrightarrow> v = a \<or> prefix (a @ ''/'') v"

lemma starts_with_prefix: "starts_with v p \<longleftrightarrow> prefix p v"
  unfolding starts_with_def prefix_def by (metis append_eq_conv_conj append_take_drop_id)

lemma under_trans: "under a b \<Longrightarrow> under b v \<Longrightarrow> under a v"
  by (auto simp: under_def prefix_def)

lemma under_linear:
  assumes "under a v" "under b v"
  shows "under a b \<or> under b a"
proof -
  have shorter: "under x y" if "prefix x v" "prefix (x @ ''/'') v \<or> x = v" "prefix y v" "length x < length y" for x y
  proof -
    have "prefix (x @ ''/'') v" using that prefix_length_le [of y v] by auto
    then have "prefix (x @ ''/'') y"
      using that prefix_length_prefix [of "x @ ''/''" v y] by simp
    then show ?thesis by (simp add: under_def)
  qed
  have pre: "prefix a v" "prefix b v" "prefix (a @ ''/'') v \<or> a = v" "prefix (b @ ''/'') v \<or> b = v"
    using assms append_prefixD by (auto simp: under_def)
  consider "length a < length b" | "length b < length a" | "length a = length b" by linarith
  then show ?thesis
  proof cases
    case 3
    then have "a = b" using pre(1,2) by (auto simp: prefix_def)
    then show ?thesis by (simp add: under_def)
  qed (use shorter pre in blast)+
qed

lemma overlap_iff:
  "resources_overlap x y \<longleftrightarrow> fst (parts x) = fst (parts y) \<and>
     (under (snd (parts x)) (snd (parts y)) \<or> under (snd (parts y)) (snd (parts x)))"
  by (auto simp: resources_overlap_def under_def starts_with_prefix case_prod_beta)

lemma covers_iff:
  "claim_covers c r \<longleftrightarrow> (rc_mode r = WRITE \<longrightarrow> rc_mode c = WRITE) \<and> fst (parts (rc_key c)) = fst (parts (rc_key r)) \<and>
     under (snd (parts (rc_key c))) (snd (parts (rc_key r)))"
  by (auto simp: claim_covers_def under_def starts_with_prefix case_prod_beta)

text \<open>Claims that cover overlapping resources overlap themselves.\<close>

lemma covers_overlap:
  assumes "claim_covers a x" "claim_covers b y" "resources_overlap (rc_key x) (rc_key y)"
  shows "resources_overlap (rc_key a) (rc_key b)"
proof -
  let ?v = "\<lambda>c. snd (parts (rc_key c))"
  have u: "under (?v a) (?v x)" "under (?v b) (?v y)" "under (?v x) (?v y) \<or> under (?v y) (?v x)"
    using assms by (simp_all add: covers_iff overlap_iff)
  from u(3) have "under (?v a) (?v b) \<or> under (?v b) (?v a)"
  proof
    assume "under (?v x) (?v y)"
    from under_linear [OF under_trans [OF u(1) this] u(2)] show ?thesis .
  next
    assume "under (?v y) (?v x)"
    from under_linear [OF u(1) under_trans [OF u(2) this]] show ?thesis .
  qed
  then show ?thesis using assms by (simp add: covers_iff overlap_iff)
qed

lemma first_conflict_None: "first_conflict xs ys = None \<longleftrightarrow> (\<forall>a\<in>set xs. \<forall>b\<in>set ys. \<not> conflicting a b)"
  by (auto simp: first_conflict_def find_None_iff)

lemma conflicting_sym: "conflicting a b \<longleftrightarrow> conflicting b a"
  by (auto simp: conflicting_def overlap_iff)

section \<open>The invariant\<close>

definition lease_ok :: "lease_registry \<Rightarrow> bool" where
  "lease_ok S \<longleftrightarrow> distinct_keys rl_lease_id (rg_leases S) \<and> distinct_keys rl_token (rg_leases S) \<and>
     (\<forall>a\<in>set (rg_leases S). \<forall>b\<in>set (rg_leases S). rl_lease_id a \<noteq> rl_lease_id b \<longrightarrow>
        first_conflict (rl_claims a) (rl_claims b) = None) \<and>
     (\<forall>l\<in>set (rg_leases S). rl_token l \<le> rg_last_fence S \<and> rl_capabilities l \<subseteq> rg_ceiling S) \<and>
     int (length (rg_leases S)) \<le> rg_max S \<and>
     (\<forall>k n. rg_inflight S k = Some n \<longrightarrow> 1 \<le> n \<and> lease_at k S \<noteq> None)"

text \<open>Removing leases that nobody holds.\<close>

definition shrunk :: "lease_registry \<Rightarrow> lease_registry \<Rightarrow> bool" where
  "shrunk S S' \<longleftrightarrow> (\<exists>P. S' = S\<lparr>rg_leases := filter P (rg_leases S)\<rparr> \<and>
     (\<forall>l\<in>set (rg_leases S). rg_inflight S (rl_lease_id l) \<noteq> None \<longrightarrow> P l))"

lemma shrunk_refl [simp]: "shrunk S S"
  unfolding shrunk_def by (intro exI [of _ "\<lambda>_. True"]) simp

lemma distinct_keys_filter: "distinct_keys key rows \<Longrightarrow> distinct_keys key (filter P rows)"
  by (simp add: distinct_keys_def distinct_map_filter)

lemma row_of_filter:
  assumes "distinct_keys key rows"
  shows "row_of key k (filter P rows) = (case row_of key k rows of None \<Rightarrow> None | Some r \<Rightarrow> if P r then Some r else None)"
proof (cases "row_of key k (filter P rows)")
  case None
  then show ?thesis
    using row_of_Some [of key k rows] by (force simp: row_of_None_iff split: option.splits)
next
  case (Some r)
  then have "r \<in> set rows" "P r" "key r = k" using row_of_Some [OF Some] by auto
  then show ?thesis using Some row_of_member [OF assms, of r] by simp
qed

lemma shrunk_lease:
  assumes "shrunk S S'" "lease_ok S"
  shows "lease_at k S' = None \<or> lease_at k S' = lease_at k S"
    and "rg_inflight S k \<noteq> None \<Longrightarrow> lease_at k S' = lease_at k S"
    and "rg_inflight S' = rg_inflight S" "rg_last_fence S' = rg_last_fence S" "rg_ceiling S' = rg_ceiling S"
    "rg_max S' = rg_max S"
proof -
  obtain P where P: "S' = S\<lparr>rg_leases := filter P (rg_leases S)\<rparr>"
    "\<And>l. l \<in> set (rg_leases S) \<Longrightarrow> rg_inflight S (rl_lease_id l) \<noteq> None \<Longrightarrow> P l"
    using assms(1) by (auto simp: shrunk_def)
  have row: "lease_at k S' = (case lease_at k S of None \<Rightarrow> None | Some r \<Rightarrow> if P r then Some r else None)"
    using assms(2) by (simp add: P(1) row_of_filter lease_ok_def)
  then show "lease_at k S' = None \<or> lease_at k S' = lease_at k S" by (auto split: option.splits)
  show "lease_at k S' = lease_at k S" if "rg_inflight S k \<noteq> None"
    using row P(2) that row_of_Some [of rl_lease_id k "rg_leases S"] by (cases "lease_at k S") auto
  show "rg_inflight S' = rg_inflight S" "rg_last_fence S' = rg_last_fence S" "rg_ceiling S' = rg_ceiling S"
    "rg_max S' = rg_max S" by (simp_all add: P(1))
qed

lemma shrunk_ok:
  assumes "shrunk S S'" "lease_ok S"
  shows "lease_ok S'"
proof -
  obtain P where P: "S' = S\<lparr>rg_leases := filter P (rg_leases S)\<rparr>" using assms(1) by (auto simp: shrunk_def)
  have "int (length (filter P (rg_leases S))) \<le> rg_max S"
    using length_filter_le [of P "rg_leases S"] assms(2) unfolding lease_ok_def by linarith
  moreover have "lease_at k S' \<noteq> None" if "rg_inflight S k = Some n" for k n
    using that shrunk_lease(2) [OF assms, of k] assms(2) by (auto simp: lease_ok_def)
  ultimately show ?thesis using assms(2)
    by (auto simp: P lease_ok_def distinct_keys_filter)
qed

lemma drop_shrunk: "rg_inflight S k = None \<Longrightarrow> shrunk S (drop_lease k S)"
  unfolding shrunk_def drop_lease_def by (intro exI [of _ "\<lambda>l. rl_lease_id l \<noteq> k"]) auto

lemma foldl_drop:
  "foldl (\<lambda>T l. drop_lease (rl_lease_id l) T) S es =
     S\<lparr>rg_leases := filter (\<lambda>l. rl_lease_id l \<notin> rl_lease_id ` set es) (rg_leases S)\<rparr>"
proof (induction es arbitrary: S)
  case (Cons e es)
  have "filter (\<lambda>l. rl_lease_id l \<notin> rl_lease_id ` set es) (filter (\<lambda>l. rl_lease_id l \<noteq> rl_lease_id e) (rg_leases S)) =
      filter (\<lambda>l. rl_lease_id l \<notin> rl_lease_id ` set (e # es)) (rg_leases S)"
    by (simp add: conj_commute)
  then show ?case using Cons by (simp add: drop_lease_def)
qed simp

lemma inflight_zero: "lease_ok S \<Longrightarrow> inflight S k = 0 \<longleftrightarrow> rg_inflight S k = None"
  by (cases "rg_inflight S k") (fastforce simp: inflight_def lease_ok_def)+

lemma reap_shrunk:
  assumes "lease_ok S"
  shows "shrunk S (snd (reap_expired_locked S now))"
proof -
  define es where "es = filter (is_expired S now) (rg_leases S)"
  have free: "rg_inflight S (rl_lease_id e) = None" if "e \<in> set es" for e
    using that inflight_zero [OF assms] by (auto simp: es_def is_expired_def)
  have eq: "snd (reap_expired_locked S now) =
      S\<lparr>rg_leases := filter (\<lambda>l. rl_lease_id l \<notin> rl_lease_id ` set es) (rg_leases S)\<rparr>"
    by (simp add: reap_expired_locked_def Let_def foldl_drop flip: es_def)
  show ?thesis unfolding shrunk_def eq
    by (intro exI [of _ "\<lambda>l. rl_lease_id l \<notin> rl_lease_id ` set es"]) (use free in auto)
qed

lemma lookup_Inr:
  "lookup_fenced S k t = Inr l \<Longrightarrow> lease_at k S = Some l \<and> rl_token l = t \<and> 1 \<le> t"
  by (auto simp: lookup_fenced_def lease_text_def result_simps)

lemma require_lease_result:
  assumes "lease_ok S" "require_lease S k t now = (r, S')"
  shows "shrunk S S' \<and> (\<forall>l. r = Inr l \<longrightarrow> S' = S \<and> lease_at k S = Some l \<and> rl_token l = t \<and> now < rl_expires l)"
proof (cases "lookup_fenced S k t")
  case (Inl e)
  then show ?thesis using assms(2) by (auto simp: require_lease_def)
next
  case (Inr l)
  then show ?thesis
    using assms(2) lookup_Inr [OF Inr] drop_shrunk [of S k] inflight_zero [OF assms(1), of k]
    by (auto simp: require_lease_def split: if_splits)
qed

lemma authorize_result:
  assumes "lease_ok S" "authorize S k t cap key mode now = (r, S')"
  shows "shrunk S S' \<and> (\<forall>l. r = Inr l \<longrightarrow> S' = S \<and> lease_at k S = Some l \<and> rl_token l = t \<and> now < rl_expires l \<and>
    cap \<in> rl_capabilities l \<and>
    (\<forall>x m. key = Some x \<and> mode = Some m \<longrightarrow> (\<exists>c\<in>set (rl_claims l). claim_covers c \<lparr>rc_key = x, rc_mode = m\<rparr>)))"
proof (cases "rbind (lease_text cap ''capability'') (\<lambda>capability.
           rbind (nonnegative_int now ''now_ns'') (\<lambda>now.
           rbind (both_or_none key mode) (\<lambda>resource. Inr (capability, now, resource))))")
  case (Inl e)
  then show ?thesis using assms(2) by (auto simp: authorize_def)
next
  case (Inr p)
  then obtain res where p: "p = (cap, now, res)" "both_or_none key mode = Inr res"
    by (auto simp: lease_text_def nonnegative_int_def result_simps)
  obtain r0 S0 where q: "require_lease S k t now = (r0, S0)" by (cases "require_lease S k t now")
  note req = require_lease_result [OF assms(1) q]
  show ?thesis
  proof (cases r0)
    case (Inl e)
    then show ?thesis using assms(2) Inr p q req by (auto simp: authorize_def authorize_locked_def)
  next
    case (Inr l)
    have "S' = S0" and r: "r = rbind (ensure (cap \<in> rl_capabilities l) (Capability_lacking cap)) (\<lambda>_.
             case res of None \<Rightarrow> Inr l
             | Some (key, mode) \<Rightarrow> rbind (make_claim key mode) (\<lambda>probe.
                 rbind (ensure (\<exists>c\<in>set (rl_claims l). claim_covers c probe) (Claim_lacking key)) (\<lambda>_. Inr l)))"
      using assms(2) \<open>rbind (lease_text cap ''capability'') _ = Inr p\<close> p q Inr
      by (simp_all add: authorize_def authorize_locked_def)
    have mk: "make_claim x m = Inr pr \<Longrightarrow> pr = \<lparr>rc_key = x, rc_mode = m\<rparr>" for x m pr
      by (auto simp: make_claim_def result_simps Let_def case_prod_beta)
    show ?thesis using req Inr \<open>S' = S0\<close> r p(2) mk
      by (auto simp: result_simps both_or_none_def split: option.splits)
  qed
qed

section \<open>Steps\<close>

datatype lease_call =
    O_open string string "string set" "resource_claim list" int int "int option"
  | O_renew string int int int
  | O_close string int int
  | O_authorize string int string "string option" "claim_mode option" int
  | O_enter string int string "string option" "claim_mode option" int
  | O_exit string
  | O_snapshot int
  | O_reap int

fun lease_exec :: "lease_registry \<Rightarrow> lease_call \<Rightarrow> lease_registry" where
  "lease_exec S (O_open k task caps claims ttl now alloc) = snd (open_lease S k task caps claims ttl now alloc)"
| "lease_exec S (O_renew k t ttl now) = snd (renew S k t ttl now)"
| "lease_exec S (O_close k t now) = snd (close_lease S k t now)"
| "lease_exec S (O_authorize k t cap key mode now) = snd (authorize S k t cap key mode now)"
| "lease_exec S (O_enter k t cap key mode now) = snd (hold_enter S k t cap key mode now)"
| "lease_exec S (O_exit k) = hold_exit S k"
| "lease_exec S (O_snapshot now) = snd (snapshot S now)"
| "lease_exec S (O_reap now) = snd (reap_expired S now)"

text \<open>A hold is left only after it was entered; every other operation may come at any time.\<close>

inductive lease_step :: "lease_registry \<Rightarrow> lease_call \<Rightarrow> lease_registry \<Rightarrow> bool" where
  step_lease: "(\<And>k. c = O_exit k \<Longrightarrow> rg_inflight S k \<noteq> None) \<Longrightarrow> lease_step S c (lease_exec S c)"

inductive_cases lease_stepE: "lease_step S c S'"

inductive effect :: "lease_registry \<Rightarrow> lease_call \<Rightarrow> lease_registry \<Rightarrow> bool" where
  eff_shrink: "shrunk S S' \<Longrightarrow> effect S c S'"
| eff_open: "shrunk S T \<Longrightarrow> lease_at (rl_lease_id l) T = None \<Longrightarrow> rg_last_fence T < rl_token l \<Longrightarrow>
     rl_capabilities l \<subseteq> rg_ceiling T \<Longrightarrow> int (length (rg_leases T)) < rg_max T \<Longrightarrow>
     (\<And>x. x \<in> set (rg_leases T) \<Longrightarrow> first_conflict (rl_claims l) (rl_claims x) = None) \<Longrightarrow>
     effect S c (T\<lparr>rg_last_fence := rl_token l, rg_leases := rg_leases T @ [l]\<rparr>)"
| eff_renew: "lease_at k S = Some l \<Longrightarrow>
     effect S c (S\<lparr>rg_leases := upd_row rl_lease_id k (\<lambda>_. l\<lparr>rl_expires := e\<rparr>) (rg_leases S)\<rparr>)"
| eff_enter: "lease_at k S = Some l \<Longrightarrow>
     effect S c (S\<lparr>rg_inflight := (rg_inflight S)(k \<mapsto> inflight S k + 1)\<rparr>)"
| eff_exit: "rg_inflight S k \<noteq> None \<Longrightarrow> effect S (O_exit k) (hold_exit S k)"

lemma open_effect:
  assumes "lease_ok S"
  shows "effect S c (snd (open_lease S k task caps claims ttl now alloc))"
proof (cases "rbind (lease_text k ''lease_id'') (\<lambda>lease_id.
           rbind (lease_text task ''task_id'') (\<lambda>task_id.
           rbind (positive_int ttl ''ttl_ns'') (\<lambda>ttl.
           rbind (nonnegative_int now ''now_ns'') (\<lambda>now.
           rbind (ensure ([] \<notin> caps) Capability_empty) (\<lambda>_.
           rbind (ensure (caps \<subseteq> rg_ceiling S) (Capability_denied (caps - rg_ceiling S))) (\<lambda>_.
             Inr (lease_id, task_id, ttl, now)))))))")
  case (Inl e)
  then show ?thesis by (simp add: open_lease_def eff_shrink)
next
  case (Inr p)
  then have p: "p = (k, task, ttl, now)" "caps \<subseteq> rg_ceiling S"
    by (auto simp: lease_text_def positive_int_def nonnegative_int_def result_simps)
  define T where "T = snd (reap_expired_locked S now)"
  have T: "shrunk S T" by (simp add: T_def reap_shrunk [OF assms])
  define tok where "tok = (case alloc of None \<Rightarrow> rg_last_fence T + 1 | Some c \<Rightarrow> c)"
  define l where "l = \<lparr>rl_lease_id = k, rl_task_id = task, rl_capabilities = caps, rl_claims = sorted_claims claims,
      rl_token = tok, rl_expires = now + ttl\<rparr>"
  show ?thesis
  proof (cases "lease_at k T = None \<and> \<not> rg_max T \<le> int (length (rg_leases T)) \<and>
      find_collision (sorted_claims claims) (rg_leases T) = None \<and> \<not> tok \<le> rg_last_fence T")
    case True
    have "snd (open_lease S k task caps claims ttl now alloc) = T\<lparr>rg_last_fence := tok, rg_leases := rg_leases T @ [l]\<rparr>"
      using Inr p True
      by (simp add: open_lease_def next_fence_def Let_def l_def flip: T_def tok_def)
    moreover have "first_conflict (sorted_claims claims) (rl_claims x) = None" if "x \<in> set (rg_leases T)" for x
    proof -
      have "find (\<lambda>l. first_conflict (sorted_claims claims) (rl_claims l) \<noteq> None) (rg_leases T) = None"
        using True by (auto simp: find_collision_def find_Some_iff split: option.splits)
      then show ?thesis using that unfolding find_None_iff by blast
    qed
    moreover have "rg_ceiling T = rg_ceiling S" by (rule shrunk_lease(5) [OF T assms])
    ultimately show ?thesis using True eff_open [OF T, of l c] p(2) by (simp add: l_def)
  next
    case False
    then have "snd (open_lease S k task caps claims ttl now alloc) = T"
      using Inr p
      by (auto simp: open_lease_def next_fence_def Let_def split: option.splits simp flip: T_def tok_def)
    then show ?thesis using T by (simp add: eff_shrink)
  qed
qed

lemma renew_effect:
  assumes "lease_ok S"
  shows "effect S c (snd (renew S k t ttl now))"
proof (cases "rbind (positive_int ttl ''ttl_ns'') (\<lambda>ttl.
           rbind (nonnegative_int now ''now_ns'') (\<lambda>now. Inr (ttl, now)))")
  case (Inl e)
  then show ?thesis by (simp add: renew_def eff_shrink)
next
  case (Inr p)
  then have p: "p = (ttl, now)" by (auto simp: positive_int_def nonnegative_int_def result_simps)
  obtain r T where q: "require_lease S k t now = (r, T)" by (cases "require_lease S k t now")
  note req = require_lease_result [OF assms q]
  show ?thesis
  proof (cases r)
    case (Inl e)
    then show ?thesis using Inr p q req by (simp add: renew_def eff_shrink)
  next
    case (Inr l)
    then show ?thesis using \<open>rbind (positive_int ttl ''ttl_ns'') _ = Inr p\<close> p q req
      by (simp add: renew_def Let_def eff_renew)
  qed
qed

lemma close_effect:
  assumes "lease_ok S"
  shows "effect S c (snd (close_lease S k t now))"
proof (cases "rbind (nonnegative_int now ''now_ns'') (\<lambda>now. rbind (lookup_fenced S k t) (\<lambda>lease. Inr (now, lease)))")
  case (Inr p)
  have "rg_inflight S k = None" if "\<not> 0 < inflight S k"
    using that assms by (cases "rg_inflight S k") (fastforce simp: inflight_def lease_ok_def)+
  then show ?thesis using Inr drop_shrunk [of S k]
    by (cases p) (auto simp: close_lease_def intro: eff_shrink)
qed (simp add: close_lease_def eff_shrink)

lemma step_effect:
  assumes "lease_step S c S'" "lease_ok S"
  shows "effect S c S'"
proof -
  have 1: "S' = lease_exec S c" "\<And>k. c = O_exit k \<Longrightarrow> rg_inflight S k \<noteq> None"
    using assms(1) by (auto elim: lease_stepE)
  show ?thesis
  proof (cases c)
    case (O_authorize k t cap key mode now)
    obtain r T where q: "authorize S k t cap key mode now = (r, T)" by fastforce
    have "S' = T" using 1 O_authorize q by simp
    then show ?thesis using authorize_result [OF assms(2) q] by (simp add: eff_shrink)
  next
    case (O_enter k t cap key mode now)
    obtain r T where q: "authorize S k t cap key mode now = (r, T)" by fastforce
    note a = authorize_result [OF assms(2) q]
    show ?thesis
    proof (cases r)
      case (Inl e)
      then show ?thesis using a 1 O_enter q by (auto simp: hold_enter_def intro: eff_shrink)
    next
      case (Inr l)
      then have "lease_at k S = Some l" "T = S" using a by auto
      then show ?thesis using Inr 1 O_enter q by (auto simp: hold_enter_def intro: eff_enter)
    qed
  next
    case (O_exit k)
    then show ?thesis using 1 by (auto intro: eff_exit)
  next
    case (O_snapshot now)
    then show ?thesis using 1 reap_shrunk [OF assms(2)]
      by (cases "nonnegative_int now ''now_ns''") (auto simp: snapshot_def Let_def intro: eff_shrink)
  next
    case (O_reap now)
    then show ?thesis using 1 reap_shrunk [OF assms(2)]
      by (cases "nonnegative_int now ''now_ns''") (auto simp: reap_expired_def case_prod_beta intro: eff_shrink)
  qed (use 1 assms(2) open_effect renew_effect close_effect in auto)
qed

section \<open>Preservation\<close>

lemma open_ok:
  assumes "lease_ok T" "lease_at (rl_lease_id l) T = None" "rg_last_fence T < rl_token l"
    and "rl_capabilities l \<subseteq> rg_ceiling T" "int (length (rg_leases T)) < rg_max T"
    and "\<And>x. x \<in> set (rg_leases T) \<Longrightarrow> first_conflict (rl_claims l) (rl_claims x) = None"
  shows "lease_ok (T\<lparr>rg_last_fence := rl_token l, rg_leases := rg_leases T @ [l]\<rparr>)"
proof -
  have tok: "rl_token x < rl_token l" if "x \<in> set (rg_leases T)" for x
    using assms(1,3) that by (fastforce simp: lease_ok_def)
  then have "row_of rl_token (rl_token l) (rg_leases T) = None" by (force simp: row_of_None_iff)
  moreover have "first_conflict (rl_claims x) (rl_claims l) = None" if "x \<in> set (rg_leases T)" for x
    using assms(6) [OF that] conflicting_sym by (auto simp: first_conflict_None)
  moreover have "row_of rl_lease_id j (rg_leases T @ [l]) \<noteq> None" if "lease_at j T \<noteq> None" for j
    using that by (auto simp: row_of_append)
  ultimately show ?thesis using assms tok
    unfolding lease_ok_def by (simp add: distinct_keys_append less_imp_le)
qed

lemma replace_leases_ok:
  assumes "lease_ok S" "distinct_keys rl_lease_id rows" "distinct_keys rl_token rows" "length rows = length (rg_leases S)"
    and "\<And>x. x \<in> set rows \<Longrightarrow> \<exists>y\<in>set (rg_leases S). rl_lease_id x = rl_lease_id y \<and> rl_token x = rl_token y \<and>
      rl_claims x = rl_claims y \<and> rl_capabilities x = rl_capabilities y"
    and "\<And>j. lease_at j S \<noteq> None \<Longrightarrow> row_of rl_lease_id j rows \<noteq> None"
  shows "lease_ok (S\<lparr>rg_leases := rows\<rparr>)"
proof -
  have "first_conflict (rl_claims a) (rl_claims b) = None"
    if "a \<in> set rows" "b \<in> set rows" "rl_lease_id a \<noteq> rl_lease_id b" for a b
    using assms(1) assms(5) [OF that(1)] assms(5) [OF that(2)] that(3) unfolding lease_ok_def by metis
  moreover have "rl_token x \<le> rg_last_fence S \<and> rl_capabilities x \<subseteq> rg_ceiling S" if "x \<in> set rows" for x
    using assms(1) assms(5) [OF that] unfolding lease_ok_def by metis
  ultimately show ?thesis using assms(1-4,6) by (simp add: lease_ok_def)
qed

lemma renew_ok:
  assumes "lease_ok S" "lease_at k S = Some l"
  shows "lease_ok (S\<lparr>rg_leases := upd_row rl_lease_id k (\<lambda>_. l\<lparr>rl_expires := e\<rparr>) (rg_leases S)\<rparr>)"
proof -
  let ?f = "\<lambda>x. if rl_lease_id x = k then l\<lparr>rl_expires := e\<rparr> else x"
  have same: "x = l" if "x \<in> set (rg_leases S)" "rl_lease_id x = k" for x
    using row_of_member [of rl_lease_id "rg_leases S" x] that assms by (simp add: lease_ok_def)
  have keep: "rl_lease_id (?f x) = rl_lease_id x \<and> rl_token (?f x) = rl_token x \<and> rl_claims (?f x) = rl_claims x
      \<and> rl_capabilities (?f x) = rl_capabilities x" if "x \<in> set (rg_leases S)" for x
    using same [OF that] by auto
  have "map rl_lease_id (map ?f (rg_leases S)) = map rl_lease_id (rg_leases S)"
    "map rl_token (map ?f (rg_leases S)) = map rl_token (rg_leases S)"
    using keep by auto
  then have "distinct_keys rl_lease_id (map ?f (rg_leases S))" "distinct_keys rl_token (map ?f (rg_leases S))"
    using assms(1) unfolding distinct_keys_def lease_ok_def by metis+
  moreover have "row_of rl_lease_id j (upd_row rl_lease_id k (\<lambda>_. l\<lparr>rl_expires := e\<rparr>) (rg_leases S)) \<noteq> None"
    if "lease_at j S \<noteq> None" for j
    using that row_of_Some [OF assms(2)] by (auto simp: row_of_upd)
  moreover have "\<exists>y\<in>set (rg_leases S). rl_lease_id x = rl_lease_id y \<and> rl_token x = rl_token y \<and>
      rl_claims x = rl_claims y \<and> rl_capabilities x = rl_capabilities y" if mem: "x \<in> set (map ?f (rg_leases S))" for x
  proof -
    obtain z where "z \<in> set (rg_leases S)" "x = ?f z" using mem unfolding list.set_map by (rule imageE)
    then show ?thesis using keep by blast
  qed
  ultimately show ?thesis
    unfolding upd_row_def by (intro replace_leases_ok [OF assms(1)]) simp_all
qed

lemma effect_ok:
  assumes "effect S c S'" "lease_ok S"
  shows "lease_ok S'"
  using assms(1)
proof cases
  case eff_shrink
  then show ?thesis using shrunk_ok assms(2) by blast
next
  case (eff_open T l)
  then show ?thesis using open_ok [OF shrunk_ok [OF eff_open(2) assms(2)]] by blast
next
  case (eff_renew k l e)
  then show ?thesis using renew_ok [OF assms(2)] by simp
next
  case (eff_enter k l)
  then show ?thesis using assms(2) by (fastforce simp: lease_ok_def inflight_def split: option.splits)
next
  case (eff_exit k)
  then show ?thesis using assms(2)
    by (auto simp: hold_exit_def lease_ok_def Let_def split: option.splits)
qed

lemma lease_step_ok: "lease_step S c S' \<Longrightarrow> lease_ok S \<Longrightarrow> lease_ok S'"
  using step_effect effect_ok by blast

lemma lease_run_ok: "runs lease_step S cs S' \<Longrightarrow> lease_ok S \<Longrightarrow> lease_ok S'"
  by (rule runs_invariant [where I = lease_ok and step = lease_step]) (blast intro: lease_step_ok)+

lemma new_lease_registry_ok: "new_lease_registry ceiling n = Inr S \<Longrightarrow> lease_ok S"
  by (auto simp: new_lease_registry_def result_simps lease_ok_def distinct_keys_def)

section \<open>Tokens and holds over time\<close>

definition dead :: "lease_registry \<Rightarrow> int \<Rightarrow> bool" where
  "dead S t \<longleftrightarrow> t \<le> rg_last_fence S \<and> (\<forall>l\<in>set (rg_leases S). rl_token l \<noteq> t)"

lemma shrunk_dead: "shrunk S T \<Longrightarrow> dead S t \<Longrightarrow> dead T t"
  by (auto simp: shrunk_def dead_def)

lemma effect_dead:
  assumes "effect S c S'" "dead S t"
  shows "dead S' t"
  using assms(1)
proof cases
  case eff_shrink
  then show ?thesis using shrunk_dead assms(2) by blast
next
  case (eff_open T l)
  then show ?thesis using shrunk_dead [OF eff_open(2) assms(2)] by (auto simp: dead_def)
next
  case (eff_renew j l e)
  then show ?thesis using assms(2) row_of_Some [OF eff_renew(2)] by (auto simp: dead_def upd_row_def)
qed (use assms(2) in \<open>auto simp: dead_def hold_exit_def Let_def\<close>)

lemma effect_fence_mono: "effect S c S' \<Longrightarrow> rg_last_fence S \<le> rg_last_fence S'"
  by (erule effect.cases) (auto simp: shrunk_def hold_exit_def Let_def)

lemma run_dead:
  "runs lease_step S cs S' \<Longrightarrow> lease_ok S \<Longrightarrow> dead S t \<Longrightarrow> dead S' t"
proof (induction rule: runs.induct)
  case (runs_step S c T cs U)
  then show ?case using step_effect effect_dead lease_step_ok by blast
qed simp

lemma run_fence_mono: "runs lease_step S cs S' \<Longrightarrow> lease_ok S \<Longrightarrow> rg_last_fence S \<le> rg_last_fence S'"
proof (induction rule: runs.induct)
  case (runs_step S c T cs U)
  then show ?case using step_effect effect_fence_mono lease_step_ok order_trans by metis
qed simp

lemma dead_lookup: "dead S t \<Longrightarrow> \<exists>e. lookup_fenced S k t = Inl e"
  using row_of_Some by (cases "lookup_fenced S k t") (fastforce dest: lookup_Inr simp: dead_def)+

lemma authorize_id:
  assumes "authorize S k t cap key mode now = (Inr l, S')"
  shows "py_strip k \<noteq> [] \<and> 1 \<le> t"
proof -
  obtain res where "authorize_locked S k t cap res now = (Inr l, S')"
    using assms by (auto simp: authorize_def lease_text_def nonnegative_int_def result_simps split: sum.splits)
  then obtain r where "fst (require_lease S k t now) = Inr r"
    by (auto simp: authorize_locked_def split: prod.splits sum.splits)
  then obtain r where "lookup_fenced S k t = Inr r"
    by (cases "lookup_fenced S k t") (auto simp: require_lease_def)
  then show ?thesis by (auto simp: lookup_fenced_def lease_text_def result_simps)
qed

lemma dead_require: "dead S t \<Longrightarrow> \<exists>e. require_lease S k t now = (Inl e, S)"
  using dead_lookup [of S t k] by (force simp: require_lease_def)

lemma dead_authorize: "dead S t \<Longrightarrow> isl (fst (authorize S k t cap key mode now))"
  using dead_require [of S t k now]
  by (auto simp: authorize_def authorize_locked_def lease_text_def nonnegative_int_def result_simps split: sum.splits)

definition pinned :: "lease_registry \<Rightarrow> string \<Rightarrow> resource_lease \<Rightarrow> bool" where
  "pinned S k l \<longleftrightarrow> rg_inflight S k \<noteq> None \<and>
     (\<exists>l'. lease_at k S = Some l' \<and> rl_token l' = rl_token l \<and> rl_claims l' = rl_claims l)"

lemma effect_pinned:
  assumes "effect S c S'" "lease_ok S" "pinned S k l" "c \<noteq> O_exit k"
  shows "pinned S' k l"
  using assms(1)
proof cases
  case eff_shrink
  then show ?thesis using shrunk_lease [OF eff_shrink assms(2)] assms(3) by (auto simp: pinned_def)
next
  case (eff_open T x)
  have "lease_at k T = lease_at k S" "rg_inflight T = rg_inflight S"
    using shrunk_lease [OF eff_open(2) assms(2)] assms(3) by (auto simp: pinned_def)
  then show ?thesis using eff_open assms(3) by (auto simp: pinned_def row_of_append)
next
  case (eff_renew j x e)
  then show ?thesis using assms(3) row_of_Some [OF eff_renew(2)] by (auto simp: pinned_def row_of_upd)
next
  case (eff_enter j x)
  then show ?thesis using assms(3) by (auto simp: pinned_def)
next
  case (eff_exit j)
  then show ?thesis using assms(3,4) by (auto simp: pinned_def hold_exit_def Let_def)
qed

lemma run_pinned:
  "runs lease_step S cs S' \<Longrightarrow> lease_ok S \<Longrightarrow> pinned S k l \<Longrightarrow> O_exit k \<notin> set cs \<Longrightarrow> pinned S' k l"
proof (induction rule: runs.induct)
  case (runs_step S c T cs U)
  have "c \<noteq> O_exit k" "O_exit k \<notin> set cs" using runs_step.prems(3) by auto
  then have "pinned T k l" using effect_pinned [OF step_effect] runs_step by blast
  then show ?case using runs_step.IH lease_step_ok [OF runs_step.hyps(1)] runs_step.prems(1) \<open>O_exit k \<notin> set cs\<close> by blast
qed simp

section \<open>The guarantees\<close>

lemma reachable_leases_ok:
  "new_lease_registry ceiling n = Inr S0 \<Longrightarrow> runs lease_step S0 cs S \<Longrightarrow> lease_ok S"
  using lease_run_ok new_lease_registry_ok by blast

lemma open_result:
  assumes "lease_ok S" "open_lease S k task caps claims ttl now alloc = (Inr l, S')"
  shows "rg_last_fence S < rl_token l \<and> rg_last_fence S' = rl_token l \<and> l \<in> set (rg_leases S')"
proof -
  define T where "T = snd (reap_expired_locked S now)"
  have "rg_last_fence T = rg_last_fence S"
    using shrunk_lease(4) [OF reap_shrunk [OF assms(1)] assms(1)] by (simp add: T_def)
  then show ?thesis using assms(2)
    by (auto simp: open_lease_def next_fence_def Let_def lease_text_def positive_int_def nonnegative_int_def result_simps
        simp flip: T_def split: sum.splits option.splits if_splits)
qed

lemma close_kills:
  assumes "lease_ok S" "close_lease S k t now = (Inr l, S')"
  shows "dead S' t"
proof -
  have l: "lease_at k S = Some l" "rl_token l = t" and S': "S' = drop_lease k S"
    using assms(2) lookup_Inr
    by (auto simp: close_lease_def nonnegative_int_def result_simps split: sum.splits if_splits)
  have mem: "l \<in> set (rg_leases S)" "rl_lease_id l = k" using row_of_Some [OF l(1)] by auto
  have "rl_token x \<noteq> t" if x: "x \<in> set (rg_leases S)" "rl_lease_id x \<noteq> k" for x
  proof
    assume "rl_token x = t"
    moreover have tok: "distinct_keys rl_token (rg_leases S)" using assms(1) by (simp add: lease_ok_def)
    ultimately have "x = l" using row_of_member [OF tok x(1)] row_of_member [OF tok mem(1)] l(2) by simp
    then show False using x(2) mem(2) by simp
  qed
  moreover have "t \<le> rg_last_fence S" using assms(1) mem l(2) by (auto simp: lease_ok_def)
  ultimately show ?thesis by (auto simp: dead_def S' drop_lease_def)
qed

text \<open>
  C7: Write access is exclusive. Whatever leases were opened, renewed, held, closed or expired
  before, if one caller is authorized to write a resource and another call is authorized to
  read or write the same resource, one above it or one below it, then both used the same
  lease with the same fencing token.
\<close>

theorem write_exclusive:
  assumes "new_lease_registry ceiling n = Inr S0" "runs lease_step S0 cs S"
    and "authorize S k t cap (Some x) (Some WRITE) now = (Inr a, Sa)"
    and "authorize S k' t' cap' (Some y) (Some m) now' = (Inr b, Sb)"
    and "resources_overlap x y"
  shows "k = k' \<and> t = t' \<and> a = b"
proof -
  have ok: "lease_ok S" by (rule reachable_leases_ok [OF assms(1,2)])
  obtain c d where a: "lease_at k S = Some a" "rl_token a = t" "c \<in> set (rl_claims a)" "claim_covers c \<lparr>rc_key = x, rc_mode = WRITE\<rparr>"
    and b: "lease_at k' S = Some b" "rl_token b = t'" "d \<in> set (rl_claims b)" "claim_covers d \<lparr>rc_key = y, rc_mode = m\<rparr>"
    using authorize_result [OF ok assms(3)] authorize_result [OF ok assms(4)] by auto
  have "conflicting c d"
    using covers_overlap [OF a(4) b(4)] assms(5) a(4) by (simp add: conflicting_def covers_iff)
  then have "first_conflict (rl_claims a) (rl_claims b) \<noteq> None"
    using a(3) b(3) unfolding first_conflict_None by blast
  then have "k = k'" using ok row_of_Some [OF a(1)] row_of_Some [OF b(1)] unfolding lease_ok_def by metis
  then show ?thesis using a(1,2) b(1,2) by simp
qed

text \<open>
  A closed lease is closed for good. After \<^verbatim>\<open>close\<close> returned, no later
  sequence of operations makes its fencing token work again, under any lease id:
  authorizing, holding, renewing and closing with it fail at every later state.
\<close>

lemma closed_token_never_works:
  assumes "new_lease_registry ceiling n = Inr S0" "runs lease_step S0 cs S"
    and "close_lease S k t now = (Inr l, S1)" "runs lease_step S1 ds S2"
  shows "isl (fst (authorize S2 j t cap key mode now')) \<and> isl (fst (hold_enter S2 j t cap key mode now'))
    \<and> isl (fst (renew S2 j t ttl now')) \<and> isl (fst (close_lease S2 j t now'))"
proof -
  have ok: "lease_ok S" by (rule reachable_leases_ok [OF assms(1,2)])
  then have "lease_ok S1" using effect_ok [OF close_effect [OF ok, of "O_close k t now" k t now]] assms(3) by simp
  then have dead: "dead S2 t" using run_dead [OF assms(4)] close_kills [OF ok assms(3)] by blast
  obtain e e' where e: "lookup_fenced S2 j t = Inl e" "require_lease S2 j t now' = (Inl e', S2)"
    using dead_lookup [OF dead] dead_require [OF dead] by metis
  have a: "isl (fst (authorize S2 j t cap key mode now'))" by (rule dead_authorize [OF dead])
  moreover have "isl (fst (hold_enter S2 j t cap key mode now'))"
    using a by (auto simp: hold_enter_def split: prod.splits sum.splits)
  moreover have "isl (fst (renew S2 j t ttl now'))"
    using e by (auto simp: renew_def positive_int_def nonnegative_int_def result_simps split: sum.splits)
  moreover have "isl (fst (close_lease S2 j t now'))"
    using e by (auto simp: close_lease_def nonnegative_int_def result_simps split: sum.splits)
  ultimately show ?thesis by simp
qed

text \<open>
  A hold pins its lease. While a hold is open, whatever other operations run and however
  much time passes, the lease stays in the registry with its token and claims, closing it
  fails with busy, and no other lease with a conflicting claim exists.
\<close>

lemma hold_pins_lease:
  assumes "new_lease_registry ceiling n = Inr S0" "runs lease_step S0 cs S"
    and "hold_enter S k t cap key mode now = (Inr l, S1)" "runs lease_step S1 ds S2" "O_exit k \<notin> set ds"
    and "0 \<le> now'"
  shows "(\<exists>l'. lease_at k S2 = Some l' \<and> rl_token l' = t \<and> rl_claims l' = rl_claims l)
    \<and> close_lease S2 k t now' = (Inl (Lease_busy k), S2)
    \<and> (\<forall>b\<in>set (rg_leases S2). rl_lease_id b \<noteq> k \<longrightarrow> first_conflict (rl_claims l) (rl_claims b) = None)"
proof -
  have ok: "lease_ok S" by (rule reachable_leases_ok [OF assms(1,2)])
  have a: "authorize S k t cap key mode now = (Inr l, S)"
    and S1: "S1 = S\<lparr>rg_inflight := (rg_inflight S)(k \<mapsto> inflight S k + 1)\<rparr>"
  proof -
    obtain r T where q: "authorize S k t cap key mode now = (r, T)" by fastforce
    then obtain r' where "r = Inr r'" using assms(3) by (cases r) (auto simp: hold_enter_def)
    moreover then have "T = S" using authorize_result [OF ok q] by blast
    ultimately show "authorize S k t cap key mode now = (Inr l, S)"
      "S1 = S\<lparr>rg_inflight := (rg_inflight S)(k \<mapsto> inflight S k + 1)\<rparr>"
      using q assms(3) by (auto simp: hold_enter_def)
  qed
  have l: "lease_at k S = Some l" "rl_token l = t" "1 \<le> t" "py_strip k \<noteq> []"
    using authorize_result [OF ok a] authorize_id [OF a] by auto
  have S1ok: "lease_ok S1" unfolding S1 by (rule effect_ok [OF eff_enter [OF l(1)] ok])
  have ok2: "lease_ok S2" by (rule lease_run_ok [OF assms(4) S1ok])
  have "pinned S1 k l" using l by (simp add: pinned_def S1)
  then have "pinned S2 k l" using run_pinned [OF assms(4) S1ok] assms(5) by blast
  then obtain l' where l': "lease_at k S2 = Some l'" "rl_token l' = t" "rl_claims l' = rl_claims l" "0 < inflight S2 k"
    using ok2 l(2) by (fastforce simp: pinned_def inflight_def lease_ok_def)
  then have "close_lease S2 k t now' = (Inl (Lease_busy k), S2)"
    using l(3,4) assms(6) by (simp add: close_lease_def nonnegative_int_def lookup_fenced_def lease_text_def)
  moreover have "first_conflict (rl_claims l) (rl_claims b) = None" if "b \<in> set (rg_leases S2)" "rl_lease_id b \<noteq> k" for b
    using ok2 that row_of_Some [OF l'(1)] l'(3) unfolding lease_ok_def by metis
  ultimately show ?thesis using l' by blast
qed

text \<open>
  C38: Fencing tokens grow. A lease opened later gets a strictly greater token than every
  lease opened before it, whatever happens in between and whatever the fence allocator
  returns.
\<close>

theorem fencing_tokens_increase:
  assumes "new_lease_registry ceiling n = Inr S0" "runs lease_step S0 cs S"
    and "open_lease S k task caps claims ttl now alloc = (Inr l, S1)" "runs lease_step S1 ds S2"
    and "open_lease S2 k' task' caps' claims' ttl' now' alloc' = (Inr l', S3)"
  shows "rl_token l < rl_token l'"
proof -
  have ok: "lease_ok S" by (rule reachable_leases_ok [OF assms(1,2)])
  have ok1: "lease_ok S1"
    using effect_ok [OF open_effect [OF ok, of "O_reap 0" k task caps claims ttl now alloc] ok] assms(3) by simp
  have "rl_token l = rg_last_fence S1" using open_result [OF ok assms(3)] by simp
  also have "\<dots> \<le> rg_last_fence S2" by (rule run_fence_mono [OF assms(4) ok1])
  also have "\<dots> < rl_token l'" using open_result [OF lease_run_ok [OF assms(4) ok1] assms(5)] by simp
  finally show ?thesis .
qed

text \<open>
  What an authorization means. In every reachable registry a successful
  \<^verbatim>\<open>authorize\<close> changes nothing, its lease is the registered one with the
  presented token and unexpired, its capability is one the lease was opened with and lies
  in the registry's ceiling, and a named resource is covered by a claim of that lease in a
  sufficient mode.
\<close>

lemma authorize_sound:
  assumes "new_lease_registry ceiling n = Inr S0" "runs lease_step S0 cs S"
    and "authorize S k t cap (Some x) (Some m) now = (Inr l, S')"
  shows "S' = S \<and> lease_at k S = Some l \<and> rl_token l = t \<and> now < rl_expires l \<and> cap \<in> rl_capabilities l
    \<and> cap \<in> rg_ceiling S \<and> (\<exists>c\<in>set (rl_claims l). claim_covers c \<lparr>rc_key = x, rc_mode = m\<rparr>)"
proof -
  have ok: "lease_ok S" by (rule reachable_leases_ok [OF assms(1,2)])
  have r: "S' = S" "lease_at k S = Some l" "rl_token l = t" "now < rl_expires l" "cap \<in> rl_capabilities l"
    "\<exists>c\<in>set (rl_claims l). claim_covers c \<lparr>rc_key = x, rc_mode = m\<rparr>"
    using authorize_result [OF ok assms(3)] by auto
  moreover have "rl_capabilities l \<subseteq> rg_ceiling S" using ok row_of_Some [OF r(2)] by (auto simp: lease_ok_def)
  ultimately show ?thesis by blast
qed

section \<open>Concrete instances\<close>

definition sample_lease :: "int \<Rightarrow> resource_lease" where
  "sample_lease tok = \<lparr>rl_lease_id = ''A'', rl_task_id = ''T'', rl_capabilities = {''fs''},
     rl_claims = [\<lparr>rc_key = ''repo:x/y'', rc_mode = WRITE\<rparr>], rl_token = tok, rl_expires = 100\<rparr>"

definition lease_sample :: "int \<Rightarrow> resource_lease list \<Rightarrow> lease_registry" where
  "lease_sample fence rows = \<lparr>rg_ceiling = {''fs''}, rg_max = 4, rg_last_fence = fence, rg_leases = rows,
     rg_inflight = (\<lambda>_. None)\<rparr>"

abbreviation sample_open :: lease_call where
  "sample_open \<equiv> O_open ''A'' ''T'' {''fs''} [\<lparr>rc_key = ''repo:x/y'', rc_mode = WRITE\<rparr>] 100 0 None"

lemmas sample_lease_defs = sample_lease_def lease_sample_def inflight_def nonnegative_int_def lease_text_def

lemma sample_strip: "py_strip ''A'' = ''A''" "py_strip ''T'' = ''T''" "py_strip ''fs'' = ''fs''"
  by code_simp+

lemma sample_probe:
  "make_claim ''repo:x/y'' WRITE = Inr \<lparr>rc_key = ''repo:x/y'', rc_mode = WRITE\<rparr>"
  "make_claim ''repo:x/y/z'' READ = Inr \<lparr>rc_key = ''repo:x/y/z'', rc_mode = READ\<rparr>"
  "claim_covers \<lparr>rc_key = ''repo:x/y'', rc_mode = WRITE\<rparr> \<lparr>rc_key = ''repo:x/y'', rc_mode = WRITE\<rparr>"
  "claim_covers \<lparr>rc_key = ''repo:x/y'', rc_mode = WRITE\<rparr> \<lparr>rc_key = ''repo:x/y/z'', rc_mode = READ\<rparr>"
  "resources_overlap ''repo:x/y'' ''repo:x/y/z''"
  by code_simp+

lemma sample_new: "new_lease_registry {''fs''} 4 = Inr (lease_sample 0 [])"
  by (simp add: new_lease_registry_def lease_sample_def)

lemma sample_open_eq:
  "open_lease (lease_sample n []) ''A'' ''T'' {''fs''} [\<lparr>rc_key = ''repo:x/y'', rc_mode = WRITE\<rparr>] 100 0 None =
     (Inr (sample_lease (n + 1)), lease_sample (n + 1) [sample_lease (n + 1)])"
  by (simp add: open_lease_def reap_expired_locked_def find_collision_def next_fence_def positive_int_def
      sorted_claims_def sample_strip sample_lease_defs Let_def)

lemma sample_opened: "runs lease_step (lease_sample n []) [sample_open] (lease_sample (n + 1) [sample_lease (n + 1)])"
  using step_lease [of sample_open "lease_sample n []"] sample_open_eq [of n]
  by (intro runs_one [where step = lease_step]) simp

lemma sample_authorize:
  "authorize (lease_sample 1 [sample_lease 1]) ''A'' 1 ''fs'' (Some ''repo:x/y'') (Some WRITE) 5 =
     (Inr (sample_lease 1), lease_sample 1 [sample_lease 1])"
  "authorize (lease_sample 1 [sample_lease 1]) ''A'' 1 ''fs'' (Some ''repo:x/y/z'') (Some READ) 6 =
     (Inr (sample_lease 1), lease_sample 1 [sample_lease 1])"
  by (simp add: authorize_def authorize_locked_def require_lease_def lookup_fenced_def both_or_none_def row_of_Cons
      sample_strip sample_probe sample_lease_defs)+

lemma sample_close:
  "close_lease (lease_sample 1 [sample_lease 1]) ''A'' 1 5 = (Inr (sample_lease 1), lease_sample 1 [])"
  by (simp add: close_lease_def lookup_fenced_def drop_lease_def row_of_Cons sample_strip sample_lease_defs)

theorem write_exclusive_witness:
  "\<exists>a Sa b Sb. authorize (lease_sample 1 [sample_lease 1]) ''A'' 1 ''fs'' (Some ''repo:x/y'') (Some WRITE) 5 = (Inr a, Sa)
    \<and> authorize (lease_sample 1 [sample_lease 1]) ''A'' 1 ''fs'' (Some ''repo:x/y/z'') (Some READ) 6 = (Inr b, Sb)
    \<and> a = b"
  using write_exclusive [OF sample_new sample_opened [of 0, simplified] sample_authorize sample_probe(5)]
    sample_authorize by simp

lemma closed_token_never_works_witness:
  "isl (fst (authorize (lease_sample 2 [sample_lease 2]) ''A'' 1 ''fs'' (Some ''repo:x/y'') (Some WRITE) 7))
    \<and> isl (fst (hold_enter (lease_sample 2 [sample_lease 2]) ''A'' 1 ''fs'' (Some ''repo:x/y'') (Some WRITE) 7))
    \<and> isl (fst (renew (lease_sample 2 [sample_lease 2]) ''A'' 1 50 7))
    \<and> isl (fst (close_lease (lease_sample 2 [sample_lease 2]) ''A'' 1 7))"
  using closed_token_never_works [OF sample_new sample_opened [of 0, simplified] sample_close sample_opened [of 1, simplified]]
  by blast

lemma sample_enter:
  "hold_enter (lease_sample 1 [sample_lease 1]) ''A'' 1 ''fs'' (Some ''repo:x/y'') (Some WRITE) 5 =
     (Inr (sample_lease 1), (lease_sample 1 [sample_lease 1])\<lparr>rg_inflight := [''A'' \<mapsto> 1]\<rparr>)"
  by (simp add: hold_enter_def sample_authorize) (simp add: sample_lease_defs)

lemma sample_reap:
  "lease_exec ((lease_sample 1 [sample_lease 1])\<lparr>rg_inflight := [''A'' \<mapsto> 1]\<rparr>) (O_reap 500) =
     (lease_sample 1 [sample_lease 1])\<lparr>rg_inflight := [''A'' \<mapsto> 1]\<rparr>"
  by (simp add: reap_expired_def reap_expired_locked_def is_expired_def sample_lease_defs)

lemma hold_pins_lease_witness:
  "\<exists>S2. runs lease_step ((lease_sample 1 [sample_lease 1])\<lparr>rg_inflight := [''A'' \<mapsto> 1]\<rparr>) [O_reap 500] S2
    \<and> close_lease S2 ''A'' 1 600 = (Inl (Lease_busy ''A''), S2)"
proof -
  let ?S = "(lease_sample 1 [sample_lease 1])\<lparr>rg_inflight := [''A'' \<mapsto> 1]\<rparr>"
  have run: "runs lease_step ?S [O_reap 500] ?S"
    using step_lease [of "O_reap 500" ?S] sample_reap by (intro runs_one [where step = lease_step]) simp
  show ?thesis
    using hold_pins_lease [OF sample_new sample_opened [of 0, simplified] sample_enter run, of 600] run by auto
qed

theorem fencing_tokens_increase_witness: "rl_token (sample_lease 1) < rl_token (sample_lease 2)"
proof -
  have run: "runs lease_step (lease_sample 1 [sample_lease 1]) [O_close ''A'' 1 5] (lease_sample 1 [])"
    using step_lease [of "O_close ''A'' 1 5" "lease_sample 1 [sample_lease 1]"] sample_close
    by (intro runs_one [where step = lease_step]) simp
  show ?thesis
    using fencing_tokens_increase [OF sample_new runs_nil sample_open_eq [of 0, simplified] run sample_open_eq [of 1, simplified]] .
qed

lemma authorize_sound_witness:
  "\<exists>l. authorize (lease_sample 1 [sample_lease 1]) ''A'' 1 ''fs'' (Some ''repo:x/y/z'') (Some READ) 6 =
      (Inr l, lease_sample 1 [sample_lease 1]) \<and> ''fs'' \<in> rl_capabilities l"
  using authorize_sound [OF sample_new sample_opened [of 0, simplified] sample_authorize(2)] sample_authorize(2) by blast

end
