(* ===== verification/PC_State_Machine.thy ===== *)
theory PC_State_Machine
  imports Vera_Prelude "HOL-Library.Sublist"
begin

text \<open>
  \<^verbatim>\<open>pc_connection.state_machine\<close>: the job, attempt and cancellation lifecycles of the
  PC command channel. The enums derive from \<^verbatim>\<open>str\<close>, so a caller passes a member or
  its text; the transition functions take the text and parse it as the enum constructor does.
  The lemmas show which runs of the machines are possible at all: nothing is executed without
  an authorization, a side effect that may have happened is never retried blindly, terminal
  states are final.
\<close>

section \<open>The enums\<close>

datatype job_state =
    JS_SUBMITTED | JS_PENDING_AUTHORIZATION | JS_AUTHORIZED | JS_QUEUED | JS_CLAIMED
  | JS_RUNNING | JS_RECOVERY_REQUIRED | JS_SUCCEEDED | JS_FAILED | JS_CANCELLED
  | JS_REJECTED | JS_EXPIRED

datatype attempt_state =
    AS_CLAIMED | AS_STARTING | AS_RUNNING | AS_SUCCEEDED | AS_FAILED
  | AS_CANCELLED | AS_LEASE_EXPIRED | AS_ABANDONED

datatype cancellation_state =
    CS_NONE | CS_REQUESTED | CS_OBSERVED | CS_STOPPING | CS_ACKNOWLEDGED

datatype side_effect_status =
    SE_NONE | SE_POSSIBLE | SE_CONFIRMED | SE_UNKNOWN

datatype job_event =
    JE_REQUEST_AUTHORIZATION | JE_AUTHORIZE | JE_REJECT | JE_QUEUE | JE_CLAIM
  | JE_START | JE_COMPLETE | JE_FAIL_TERMINAL | JE_FAIL_RETRYABLE | JE_LEASE_EXPIRE
  | JE_RECOVER_NO_EFFECT | JE_RECOVER_SUCCESS | JE_RECOVER_FAILURE | JE_REQUEST_CANCEL | JE_ACK_CANCEL
  | JE_EXPIRE

datatype attempt_event =
    AE_PREPARE_START | AE_START | AE_COMPLETE | AE_FAIL | AE_ACK_CANCEL
  | AE_LEASE_EXPIRE | AE_ABANDON

datatype cancellation_event =
    CE_REQUEST | CE_OBSERVE | CE_BEGIN_STOP | CE_ACKNOWLEDGE

fun job_state_value :: "job_state \<Rightarrow> string" where
  "job_state_value JS_SUBMITTED = ''SUBMITTED''"
| "job_state_value JS_PENDING_AUTHORIZATION = ''PENDING_AUTHORIZATION''"
| "job_state_value JS_AUTHORIZED = ''AUTHORIZED''"
| "job_state_value JS_QUEUED = ''QUEUED''"
| "job_state_value JS_CLAIMED = ''CLAIMED''"
| "job_state_value JS_RUNNING = ''RUNNING''"
| "job_state_value JS_RECOVERY_REQUIRED = ''RECOVERY_REQUIRED''"
| "job_state_value JS_SUCCEEDED = ''SUCCEEDED''"
| "job_state_value JS_FAILED = ''FAILED''"
| "job_state_value JS_CANCELLED = ''CANCELLED''"
| "job_state_value JS_REJECTED = ''REJECTED''"
| "job_state_value JS_EXPIRED = ''EXPIRED''"

definition job_state_of :: "string \<Rightarrow> job_state option" where
  "job_state_of s = find (\<lambda>q. job_state_value q = s)
     [JS_SUBMITTED, JS_PENDING_AUTHORIZATION, JS_AUTHORIZED, JS_QUEUED, JS_CLAIMED,
      JS_RUNNING, JS_RECOVERY_REQUIRED, JS_SUCCEEDED, JS_FAILED, JS_CANCELLED,
      JS_REJECTED, JS_EXPIRED]"

fun attempt_state_value :: "attempt_state \<Rightarrow> string" where
  "attempt_state_value AS_CLAIMED = ''CLAIMED''"
| "attempt_state_value AS_STARTING = ''STARTING''"
| "attempt_state_value AS_RUNNING = ''RUNNING''"
| "attempt_state_value AS_SUCCEEDED = ''SUCCEEDED''"
| "attempt_state_value AS_FAILED = ''FAILED''"
| "attempt_state_value AS_CANCELLED = ''CANCELLED''"
| "attempt_state_value AS_LEASE_EXPIRED = ''LEASE_EXPIRED''"
| "attempt_state_value AS_ABANDONED = ''ABANDONED''"

definition attempt_state_of :: "string \<Rightarrow> attempt_state option" where
  "attempt_state_of s = find (\<lambda>q. attempt_state_value q = s)
     [AS_CLAIMED, AS_STARTING, AS_RUNNING, AS_SUCCEEDED, AS_FAILED,
      AS_CANCELLED, AS_LEASE_EXPIRED, AS_ABANDONED]"

fun cancellation_state_value :: "cancellation_state \<Rightarrow> string" where
  "cancellation_state_value CS_NONE = ''NONE''"
| "cancellation_state_value CS_REQUESTED = ''REQUESTED''"
| "cancellation_state_value CS_OBSERVED = ''OBSERVED''"
| "cancellation_state_value CS_STOPPING = ''STOPPING''"
| "cancellation_state_value CS_ACKNOWLEDGED = ''ACKNOWLEDGED''"

definition cancellation_state_of :: "string \<Rightarrow> cancellation_state option" where
  "cancellation_state_of s = find (\<lambda>q. cancellation_state_value q = s)
     [CS_NONE, CS_REQUESTED, CS_OBSERVED, CS_STOPPING, CS_ACKNOWLEDGED]"

fun job_event_value :: "job_event \<Rightarrow> string" where
  "job_event_value JE_REQUEST_AUTHORIZATION = ''REQUEST_AUTHORIZATION''"
| "job_event_value JE_AUTHORIZE = ''AUTHORIZE''"
| "job_event_value JE_REJECT = ''REJECT''"
| "job_event_value JE_QUEUE = ''QUEUE''"
| "job_event_value JE_CLAIM = ''CLAIM''"
| "job_event_value JE_START = ''START''"
| "job_event_value JE_COMPLETE = ''COMPLETE''"
| "job_event_value JE_FAIL_TERMINAL = ''FAIL_TERMINAL''"
| "job_event_value JE_FAIL_RETRYABLE = ''FAIL_RETRYABLE''"
| "job_event_value JE_LEASE_EXPIRE = ''LEASE_EXPIRE''"
| "job_event_value JE_RECOVER_NO_EFFECT = ''RECOVER_NO_EFFECT''"
| "job_event_value JE_RECOVER_SUCCESS = ''RECOVER_SUCCESS''"
| "job_event_value JE_RECOVER_FAILURE = ''RECOVER_FAILURE''"
| "job_event_value JE_REQUEST_CANCEL = ''REQUEST_CANCEL''"
| "job_event_value JE_ACK_CANCEL = ''ACK_CANCEL''"
| "job_event_value JE_EXPIRE = ''EXPIRE''"

definition job_event_of :: "string \<Rightarrow> job_event option" where
  "job_event_of s = find (\<lambda>q. job_event_value q = s)
     [JE_REQUEST_AUTHORIZATION, JE_AUTHORIZE, JE_REJECT, JE_QUEUE, JE_CLAIM,
      JE_START, JE_COMPLETE, JE_FAIL_TERMINAL, JE_FAIL_RETRYABLE, JE_LEASE_EXPIRE,
      JE_RECOVER_NO_EFFECT, JE_RECOVER_SUCCESS, JE_RECOVER_FAILURE, JE_REQUEST_CANCEL, JE_ACK_CANCEL,
      JE_EXPIRE]"

fun attempt_event_value :: "attempt_event \<Rightarrow> string" where
  "attempt_event_value AE_PREPARE_START = ''PREPARE_START''"
| "attempt_event_value AE_START = ''START''"
| "attempt_event_value AE_COMPLETE = ''COMPLETE''"
| "attempt_event_value AE_FAIL = ''FAIL''"
| "attempt_event_value AE_ACK_CANCEL = ''ACK_CANCEL''"
| "attempt_event_value AE_LEASE_EXPIRE = ''LEASE_EXPIRE''"
| "attempt_event_value AE_ABANDON = ''ABANDON''"

definition attempt_event_of :: "string \<Rightarrow> attempt_event option" where
  "attempt_event_of s = find (\<lambda>q. attempt_event_value q = s)
     [AE_PREPARE_START, AE_START, AE_COMPLETE, AE_FAIL, AE_ACK_CANCEL,
      AE_LEASE_EXPIRE, AE_ABANDON]"

fun cancellation_event_value :: "cancellation_event \<Rightarrow> string" where
  "cancellation_event_value CE_REQUEST = ''REQUEST''"
| "cancellation_event_value CE_OBSERVE = ''OBSERVE''"
| "cancellation_event_value CE_BEGIN_STOP = ''BEGIN_STOP''"
| "cancellation_event_value CE_ACKNOWLEDGE = ''ACKNOWLEDGE''"

definition cancellation_event_of :: "string \<Rightarrow> cancellation_event option" where
  "cancellation_event_of s = find (\<lambda>q. cancellation_event_value q = s)
     [CE_REQUEST, CE_OBSERVE, CE_BEGIN_STOP, CE_ACKNOWLEDGE]"

definition TERMINAL_JOB_STATES :: "job_state list" where
  "TERMINAL_JOB_STATES = [JS_SUCCEEDED, JS_FAILED, JS_CANCELLED, JS_REJECTED, JS_EXPIRED]"

definition TERMINAL_ATTEMPT_STATES :: "attempt_state list" where
  "TERMINAL_ATTEMPT_STATES = [AS_SUCCEEDED, AS_FAILED, AS_CANCELLED, AS_LEASE_EXPIRED, AS_ABANDONED]"

datatype state_error =
    Unknown_job_state_or_event
  | Unknown_attempt_state_or_event
  | Unknown_cancellation_state_or_event
  | Version_conflict
  | Fence_required
  | Terminal_immutable string
  | Job_illegal string
  | Job_transition_illegal string string
  | Attempt_illegal string string
  | Cancellation_illegal string string

record transition_guards =
  tg_state_version :: int
  tg_expected_state_version :: int
  tg_lease_current :: bool
  tg_fence_current :: bool
  tg_attempts_remaining :: bool
  tg_side_effect_status :: side_effect_status
  tg_independent_readback :: bool
  tg_no_newer_attempt :: bool
  tg_cancellation_state :: cancellation_state
  tg_safe_to_expire :: bool

definition validate_version :: "transition_guards \<Rightarrow> (state_error, unit) result" where
  "validate_version g =
     ensure (\<not> (tg_state_version g < 0 \<or> tg_expected_state_version g \<noteq> tg_state_version g)) Version_conflict"

definition require_fence :: "transition_guards \<Rightarrow> (state_error, unit) result" where
  "require_fence g = ensure (\<not> (\<not> tg_lease_current g \<or> \<not> tg_fence_current g)) Fence_required"

section \<open>Job transitions\<close>

definition direct_table :: "((job_state \<times> job_event) \<times> job_state) list" where
  "direct_table =
     [((JS_SUBMITTED, JE_REQUEST_AUTHORIZATION), JS_PENDING_AUTHORIZATION),
      ((JS_PENDING_AUTHORIZATION, JE_AUTHORIZE), JS_AUTHORIZED),
      ((JS_PENDING_AUTHORIZATION, JE_REJECT), JS_REJECTED),
      ((JS_AUTHORIZED, JE_QUEUE), JS_QUEUED),
      ((JS_QUEUED, JE_CLAIM), JS_CLAIMED)]"

text \<open>The part of \<^verbatim>\<open>transition_job\<close> after the table of direct transitions.\<close>

definition guarded_job :: "job_state \<Rightarrow> job_event \<Rightarrow> transition_guards \<Rightarrow> (state_error, job_state) result" where
  "guarded_job current observed g =
     (if observed = JE_START then
        rbind (ensure (current = JS_CLAIMED) (Job_illegal ''only a claimed job may start'')) (\<lambda>_.
        rbind (require_fence g) (\<lambda>_. Inr JS_RUNNING))
      else if observed = JE_COMPLETE then
        rbind (ensure (current = JS_RUNNING) (Job_illegal ''completion requires RUNNING; CLAIMED cannot succeed directly'')) (\<lambda>_.
        rbind (require_fence g) (\<lambda>_. Inr JS_SUCCEEDED))
      else if observed = JE_FAIL_TERMINAL then
        rbind (ensure (current \<in> {JS_CLAIMED, JS_RUNNING, JS_RECOVERY_REQUIRED}) (Job_illegal ''terminal failure is not legal here'')) (\<lambda>_.
        rbind (if current \<noteq> JS_RECOVERY_REQUIRED then require_fence g else Inr ()) (\<lambda>_. Inr JS_FAILED))
      else if observed = JE_FAIL_RETRYABLE then
        rbind (ensure (current \<in> {JS_CLAIMED, JS_RUNNING}) (Job_illegal ''retryable failure is not legal here'')) (\<lambda>_.
        rbind (require_fence g) (\<lambda>_.
          if tg_side_effect_status g \<noteq> SE_NONE then Inr JS_RECOVERY_REQUIRED
          else Inr (if tg_attempts_remaining g then JS_QUEUED else JS_FAILED)))
      else if observed = JE_LEASE_EXPIRE then
        rbind (ensure (current \<in> {JS_CLAIMED, JS_RUNNING}) (Job_illegal ''lease expiry is not legal here'')) (\<lambda>_.
          if tg_side_effect_status g \<noteq> SE_NONE then Inr JS_RECOVERY_REQUIRED
          else Inr (if tg_attempts_remaining g then JS_QUEUED else JS_FAILED))
      else if observed = JE_RECOVER_NO_EFFECT then
        rbind (ensure (current = JS_RECOVERY_REQUIRED) (Job_illegal ''recovery resolution requires recovery state'')) (\<lambda>_.
        rbind (ensure (\<not> (\<not> tg_independent_readback g \<or> \<not> tg_no_newer_attempt g)) (Job_illegal ''independent exact readback is required'')) (\<lambda>_.
        rbind (ensure (tg_side_effect_status g = SE_NONE) (Job_illegal ''no-effect recovery requires NONE'')) (\<lambda>_.
          Inr (if tg_attempts_remaining g then JS_QUEUED else JS_FAILED))))
      else if observed = JE_RECOVER_SUCCESS then
        rbind (ensure (current = JS_RECOVERY_REQUIRED) (Job_illegal ''recovery resolution requires recovery state'')) (\<lambda>_.
        rbind (ensure (\<not> (\<not> tg_independent_readback g \<or> \<not> tg_no_newer_attempt g \<or> tg_side_effect_status g \<noteq> SE_CONFIRMED))
                 (Job_illegal ''recovery success requires confirmed independent readback'')) (\<lambda>_.
          Inr JS_SUCCEEDED))
      else if observed = JE_RECOVER_FAILURE then
        rbind (ensure (current = JS_RECOVERY_REQUIRED) (Job_illegal ''recovery resolution requires recovery state'')) (\<lambda>_.
        rbind (ensure (\<not> (\<not> tg_independent_readback g \<or> \<not> tg_no_newer_attempt g)) (Job_illegal ''independent exact readback is required'')) (\<lambda>_.
          Inr JS_FAILED))
      else if observed = JE_REQUEST_CANCEL then
        (if current \<in> {JS_SUBMITTED, JS_PENDING_AUTHORIZATION, JS_AUTHORIZED, JS_QUEUED} then Inr JS_CANCELLED
         else if current \<in> {JS_CLAIMED, JS_RUNNING, JS_RECOVERY_REQUIRED} then Inr current
         else Inl (Job_illegal ''cancellation request is not legal here''))
      else if observed = JE_ACK_CANCEL then
        rbind (ensure (current \<in> {JS_CLAIMED, JS_RUNNING, JS_RECOVERY_REQUIRED}) (Job_illegal ''cancellation acknowledgement is not legal'')) (\<lambda>_.
        rbind (ensure (tg_cancellation_state g \<in> {CS_REQUESTED, CS_OBSERVED, CS_STOPPING}) (Job_illegal ''cancellation was not requested'')) (\<lambda>_.
        rbind (if current \<noteq> JS_RECOVERY_REQUIRED then require_fence g else Inr ()) (\<lambda>_. Inr JS_CANCELLED)))
      else if observed = JE_EXPIRE then
        (if current \<in> {JS_RUNNING, JS_RECOVERY_REQUIRED}
            \<and> (\<not> tg_safe_to_expire g \<or> tg_side_effect_status g \<in> {SE_POSSIBLE, SE_UNKNOWN})
         then Inr JS_RECOVERY_REQUIRED
         else rbind (ensure (tg_safe_to_expire g) (Job_illegal ''safe expiry evidence is required'')) (\<lambda>_. Inr JS_EXPIRED))
      else Inl (Job_transition_illegal (job_state_value current) (job_event_value observed)))"

definition transition_job :: "string \<Rightarrow> string \<Rightarrow> transition_guards \<Rightarrow> (state_error, job_state) result" where
  "transition_job state event g =
     rbind (or_raise (job_state_of state) Unknown_job_state_or_event) (\<lambda>current.
     rbind (or_raise (job_event_of event) Unknown_job_state_or_event) (\<lambda>observed.
     rbind (validate_version g) (\<lambda>_.
     rbind (ensure (current \<notin> set TERMINAL_JOB_STATES) (Terminal_immutable (job_state_value current))) (\<lambda>_.
       case map_of direct_table (current, observed) of
         Some s \<Rightarrow> Inr s
       | None \<Rightarrow> guarded_job current observed g))))"

section \<open>Attempt and cancellation transitions\<close>

definition attempt_table :: "((attempt_state \<times> attempt_event) \<times> attempt_state) list" where
  "attempt_table =
     [((AS_CLAIMED, AE_PREPARE_START), AS_STARTING),
      ((AS_STARTING, AE_START), AS_RUNNING),
      ((AS_RUNNING, AE_COMPLETE), AS_SUCCEEDED),
      ((AS_CLAIMED, AE_FAIL), AS_FAILED),
      ((AS_STARTING, AE_FAIL), AS_FAILED),
      ((AS_RUNNING, AE_FAIL), AS_FAILED),
      ((AS_CLAIMED, AE_ACK_CANCEL), AS_CANCELLED),
      ((AS_STARTING, AE_ACK_CANCEL), AS_CANCELLED),
      ((AS_RUNNING, AE_ACK_CANCEL), AS_CANCELLED),
      ((AS_CLAIMED, AE_LEASE_EXPIRE), AS_LEASE_EXPIRED),
      ((AS_STARTING, AE_LEASE_EXPIRE), AS_LEASE_EXPIRED),
      ((AS_RUNNING, AE_LEASE_EXPIRE), AS_LEASE_EXPIRED),
      ((AS_CLAIMED, AE_ABANDON), AS_ABANDONED),
      ((AS_STARTING, AE_ABANDON), AS_ABANDONED)]"

definition transition_attempt :: "string \<Rightarrow> string \<Rightarrow> bool \<Rightarrow> bool \<Rightarrow> (state_error, attempt_state) result" where
  "transition_attempt state event lease_current fence_current =
     rbind (or_raise (attempt_state_of state) Unknown_attempt_state_or_event) (\<lambda>current.
     rbind (or_raise (attempt_event_of event) Unknown_attempt_state_or_event) (\<lambda>observed.
     rbind (ensure (current \<notin> set TERMINAL_ATTEMPT_STATES) (Terminal_immutable (attempt_state_value current))) (\<lambda>_.
     rbind (ensure (\<not> (\<not> lease_current \<or> \<not> fence_current)) Fence_required) (\<lambda>_.
       or_raise (map_of attempt_table (current, observed))
         (Attempt_illegal (attempt_state_value current) (attempt_event_value observed))))))"

definition cancellation_table :: "((cancellation_state \<times> cancellation_event) \<times> cancellation_state) list" where
  "cancellation_table =
     [((CS_NONE, CE_REQUEST), CS_REQUESTED),
      ((CS_REQUESTED, CE_OBSERVE), CS_OBSERVED),
      ((CS_OBSERVED, CE_BEGIN_STOP), CS_STOPPING),
      ((CS_REQUESTED, CE_ACKNOWLEDGE), CS_ACKNOWLEDGED),
      ((CS_OBSERVED, CE_ACKNOWLEDGE), CS_ACKNOWLEDGED),
      ((CS_STOPPING, CE_ACKNOWLEDGE), CS_ACKNOWLEDGED)]"

definition transition_cancellation :: "string \<Rightarrow> string \<Rightarrow> (state_error, cancellation_state) result" where
  "transition_cancellation state event =
     rbind (or_raise (cancellation_state_of state) Unknown_cancellation_state_or_event) (\<lambda>current.
     rbind (or_raise (cancellation_event_of event) Unknown_cancellation_state_or_event) (\<lambda>observed.
       or_raise (map_of cancellation_table (current, observed))
         (Cancellation_illegal (cancellation_state_value current) (cancellation_event_value observed))))"

section \<open>Parsing\<close>

lemma job_state_of_value [simp]: "job_state_of (job_state_value q) = Some q"
  by (cases q) (simp_all add: job_state_of_def)

lemma job_event_of_value [simp]: "job_event_of (job_event_value e) = Some e"
  by (cases e) (simp_all add: job_event_of_def)

lemma attempt_state_of_value [simp]: "attempt_state_of (attempt_state_value q) = Some q"
  by (cases q) (simp_all add: attempt_state_of_def)

lemma attempt_event_of_value [simp]: "attempt_event_of (attempt_event_value e) = Some e"
  by (cases e) (simp_all add: attempt_event_of_def)

lemma cancellation_state_of_value [simp]: "cancellation_state_of (cancellation_state_value q) = Some q"
  by (cases q) (simp_all add: cancellation_state_of_def)

lemma cancellation_event_of_value [simp]: "cancellation_event_of (cancellation_event_value e) = Some e"
  by (cases e) (simp_all add: cancellation_event_of_def)

lemma find_value: "find P xs = Some x \<Longrightarrow> P x"
  by (auto simp: find_Some_iff)

lemma job_state_of_Some: "job_state_of s = Some q \<Longrightarrow> s = job_state_value q"
  unfolding job_state_of_def by (drule find_value) simp

lemma job_event_of_Some: "job_event_of s = Some q \<Longrightarrow> s = job_event_value q"
  unfolding job_event_of_def by (drule find_value) simp

lemma attempt_state_of_Some: "attempt_state_of s = Some q \<Longrightarrow> s = attempt_state_value q"
  unfolding attempt_state_of_def by (drule find_value) simp

lemma attempt_event_of_Some: "attempt_event_of s = Some q \<Longrightarrow> s = attempt_event_value q"
  unfolding attempt_event_of_def by (drule find_value) simp

section \<open>Runs of the machines\<close>

definition version_ok :: "transition_guards \<Rightarrow> bool" where
  "version_ok g \<longleftrightarrow> 0 \<le> tg_state_version g \<and> tg_expected_state_version g = tg_state_version g"

definition fenced :: "transition_guards \<Rightarrow> bool" where
  "fenced g \<longleftrightarrow> tg_lease_current g \<and> tg_fence_current g"

inductive job_step :: "job_state \<Rightarrow> job_event \<times> transition_guards \<Rightarrow> job_state \<Rightarrow> bool" where
  step_job: "transition_job (job_state_value q) (job_event_value e) g = Inr q' \<Longrightarrow> job_step q (e, g) q'"

inductive_simps job_step_iff: "job_step q (e, g) q'"

inductive attempt_step :: "attempt_state \<Rightarrow> attempt_event \<times> bool \<times> bool \<Rightarrow> attempt_state \<Rightarrow> bool" where
  step_attempt: "transition_attempt (attempt_state_value q) (attempt_event_value e) l f = Inr q' \<Longrightarrow>
     attempt_step q (e, l, f) q'"

inductive_simps attempt_step_iff: "attempt_step q (e, l, f) q'"

inductive cancellation_step :: "cancellation_state \<Rightarrow> cancellation_event \<Rightarrow> cancellation_state \<Rightarrow> bool" where
  step_cancellation: "transition_cancellation (cancellation_state_value q) (cancellation_event_value e) = Inr q' \<Longrightarrow>
     cancellation_step q e q'"

inductive_simps cancellation_step_iff: "cancellation_step q e q'"

fun job_edge :: "job_state \<Rightarrow> job_state \<Rightarrow> bool" where
  "job_edge JS_SUBMITTED q \<longleftrightarrow> q \<in> {JS_PENDING_AUTHORIZATION, JS_CANCELLED, JS_EXPIRED}"
| "job_edge JS_PENDING_AUTHORIZATION q \<longleftrightarrow> q \<in> {JS_AUTHORIZED, JS_REJECTED, JS_CANCELLED, JS_EXPIRED}"
| "job_edge JS_AUTHORIZED q \<longleftrightarrow> q \<in> {JS_QUEUED, JS_CANCELLED, JS_EXPIRED}"
| "job_edge JS_QUEUED q \<longleftrightarrow> q \<in> {JS_CLAIMED, JS_CANCELLED, JS_EXPIRED}"
| "job_edge JS_CLAIMED q \<longleftrightarrow> q \<in> {JS_RUNNING, JS_FAILED, JS_RECOVERY_REQUIRED, JS_QUEUED, JS_CANCELLED, JS_EXPIRED}"
| "job_edge JS_RUNNING q \<longleftrightarrow> q \<in> {JS_SUCCEEDED, JS_FAILED, JS_RECOVERY_REQUIRED, JS_QUEUED, JS_CANCELLED, JS_EXPIRED}"
| "job_edge JS_RECOVERY_REQUIRED q \<longleftrightarrow> q \<in> {JS_SUCCEEDED, JS_FAILED, JS_QUEUED, JS_CANCELLED, JS_EXPIRED}"
| "job_edge _ q \<longleftrightarrow> False"

lemma transition_job_values:
  "transition_job (job_state_value q) (job_event_value e) g = Inr q' \<longleftrightarrow>
     version_ok g \<and> q \<notin> set TERMINAL_JOB_STATES \<and>
     (case map_of direct_table (q, e) of Some s \<Rightarrow> q' = s | None \<Rightarrow> guarded_job q e g = Inr q')"
  by (auto simp: transition_job_def validate_version_def version_ok_def result_simps split: option.splits)

lemma transition_job_Inr:
  assumes "transition_job s e g = Inr q'"
  shows "\<exists>q e'. s = job_state_value q \<and> e = job_event_value e'"
  using assms job_state_of_Some job_event_of_Some by (fastforce simp: transition_job_def result_simps)

lemma transition_attempt_values:
  "transition_attempt (attempt_state_value q) (attempt_event_value e) l f = Inr q' \<longleftrightarrow>
     q \<notin> set TERMINAL_ATTEMPT_STATES \<and> l \<and> f \<and> map_of attempt_table (q, e) = Some q'"
  by (auto simp: transition_attempt_def result_simps)

lemma transition_cancellation_values:
  "transition_cancellation (cancellation_state_value q) (cancellation_event_value e) = Inr q' \<longleftrightarrow>
     map_of cancellation_table (q, e) = Some q'"
  by (auto simp: transition_cancellation_def result_simps)

lemma job_step_edge: "job_step q l q' \<Longrightarrow> q' = q \<or> job_edge q q'"
proof (induction rule: job_step.induct)
  case (step_job q e g q')
  then show ?case
    unfolding transition_job_values
    by (cases q; cases e; auto simp: direct_table_def TERMINAL_JOB_STATES_def guarded_job_def result_simps split: if_splits)
qed

text \<open>A job is its own store with one entry, so the laws of status machines apply to its runs.\<close>

interpretation job_machine: status_machine job_step "\<lambda>q (_ :: unit). Some q" job_edge "\<lambda>q. q = JS_SUBMITTED"
  using job_step_edge by unfold_locales auto

lemma terminal_job_final:
  assumes "q \<in> set TERMINAL_JOB_STATES" "runs job_step q ls q'"
  shows "q' = q \<and> ls = []"
proof -
  have "\<not> job_edge q x" for x using assms(1) by (auto simp: TERMINAL_JOB_STATES_def)
  then have "Some q' = Some q" by (intro job_machine.run_terminal [OF assms(2)]) auto
  then have "q' = q" by simp
  moreover have "ls = []"
    using assms(2,1) by (cases rule: runs.cases) (auto simp: transition_job_values elim!: job_step.cases)
  ultimately show ?thesis by simp
qed

text \<open>The events a job in a state must have seen, in this order.\<close>

fun needed_events :: "job_state \<Rightarrow> job_event list" where
  "needed_events JS_PENDING_AUTHORIZATION = [JE_REQUEST_AUTHORIZATION]"
| "needed_events JS_REJECTED = [JE_REQUEST_AUTHORIZATION, JE_REJECT]"
| "needed_events JS_AUTHORIZED = [JE_REQUEST_AUTHORIZATION, JE_AUTHORIZE]"
| "needed_events JS_QUEUED = [JE_REQUEST_AUTHORIZATION, JE_AUTHORIZE, JE_QUEUE]"
| "needed_events JS_SUBMITTED = []"
| "needed_events JS_CANCELLED = []"
| "needed_events JS_EXPIRED = []"
| "needed_events _ = [JE_REQUEST_AUTHORIZATION, JE_AUTHORIZE, JE_QUEUE, JE_CLAIM]"

lemma job_step_needed: "job_step q (e, g) q' \<Longrightarrow> subseq (needed_events q') (needed_events q @ [e])"
  unfolding job_step_iff transition_job_values
  by (cases q; cases e; auto simp: direct_table_def TERMINAL_JOB_STATES_def guarded_job_def result_simps split: if_splits)

lemma job_run_needed:
  "runs job_step q ls q' \<Longrightarrow> subseq (needed_events q) pre \<Longrightarrow> subseq (needed_events q') (pre @ map fst ls)"
proof (induction arbitrary: pre rule: runs.induct)
  case (runs_step q l t ls u)
  obtain e g where l: "l = (e, g)" by (cases l)
  have "subseq (needed_events q @ [e]) (pre @ [e])" using runs_step.prems by simp
  then have "subseq (needed_events t) (pre @ [e])"
    using job_step_needed runs_step.hyps(1) subseq_order.order_trans unfolding l by blast
  from runs_step.IH [OF this] show ?case by (simp add: l)
qed simp

text \<open>How far an attempt has come, and the events that brought it there.\<close>

fun attempt_rank :: "attempt_state \<Rightarrow> nat" where
  "attempt_rank AS_CLAIMED = 0"
| "attempt_rank AS_STARTING = 1"
| "attempt_rank AS_RUNNING = 2"
| "attempt_rank _ = 3"

fun attempt_history :: "attempt_state \<Rightarrow> attempt_event list \<Rightarrow> bool" where
  "attempt_history AS_CLAIMED es \<longleftrightarrow> es = []"
| "attempt_history AS_STARTING es \<longleftrightarrow> es = [AE_PREPARE_START]"
| "attempt_history AS_RUNNING es \<longleftrightarrow> es = [AE_PREPARE_START, AE_START]"
| "attempt_history AS_SUCCEEDED es \<longleftrightarrow> es = [AE_PREPARE_START, AE_START, AE_COMPLETE]"
| "attempt_history _ es \<longleftrightarrow> True"

lemma attempt_step_facts:
  assumes "attempt_step q (e, l, f) q'"
  shows "l \<and> f \<and> attempt_rank q < attempt_rank q' \<and> (attempt_history q es \<longrightarrow> attempt_history q' (es @ [e]))"
  using assms unfolding attempt_step_iff transition_attempt_values
  by (cases q; cases e; auto simp: attempt_table_def TERMINAL_ATTEMPT_STATES_def)

lemma attempt_run_facts:
  "runs attempt_step q ls q' \<Longrightarrow> attempt_history q es \<Longrightarrow>
     attempt_rank q + length ls \<le> attempt_rank q' \<and> attempt_history q' (es @ map fst ls) \<and>
     (\<forall>(e, l, f)\<in>set ls. l \<and> f)"
proof (induction arbitrary: es rule: runs.induct)
  case (runs_step q x t ls u)
  obtain e l f where x: "x = (e, l, f)" by (cases x)
  have s: "l" "f" "attempt_rank q < attempt_rank t" "attempt_history t (es @ [e])"
    using attempt_step_facts [of q e l f t es] runs_step.hyps(1) runs_step.prems by (auto simp: x)
  from runs_step.IH [OF s(4)] s(1-3) show ?case by (simp add: x)
qed simp

lemma cancellation_run_first:
  "runs cancellation_step q cs q' \<Longrightarrow> q = CS_NONE \<Longrightarrow> q' \<noteq> CS_NONE \<Longrightarrow> \<exists>es. cs = CE_REQUEST # es"
proof (induction rule: runs.induct)
  case (runs_step q e t cs u)
  have "map_of cancellation_table (CS_NONE, e) = Some t"
    using runs_step.hyps(1) runs_step.prems(1) unfolding cancellation_step_iff transition_cancellation_values by simp
  then have "e = CE_REQUEST" by (cases e) (simp_all add: cancellation_table_def)
  then show ?case by simp
qed simp

section \<open>The guarantees\<close>

text \<open>
  C27: Nothing runs unauthorized. Every job that was claimed, is running, awaits recovery,
  succeeded or failed went through requesting authorization, being authorized, queued and
  claimed, in this order, whatever other events and guards came in between.
\<close>

theorem nothing_runs_unauthorized:
  assumes "runs job_step JS_SUBMITTED ls q"
    and "q \<in> {JS_CLAIMED, JS_RUNNING, JS_RECOVERY_REQUIRED, JS_SUCCEEDED, JS_FAILED}"
  shows "subseq [JE_REQUEST_AUTHORIZATION, JE_AUTHORIZE, JE_QUEUE, JE_CLAIM] (map fst ls)"
  using job_run_needed [OF assms(1), of "[]"] assms(2) by auto

text \<open>
  The only ways to succeed. \<^verbatim>\<open>transition_job\<close> returns
  \<^verbatim>\<open>SUCCEEDED\<close> exactly for a running job completed under a current lease and
  fence, or for a recovery with an independent readback, no newer attempt and a confirmed
  side effect, each with the current state version.
\<close>

lemma job_success_iff:
  "transition_job s e g = Inr JS_SUCCEEDED \<longleftrightarrow>
     version_ok g \<and>
     (s = ''RUNNING'' \<and> e = ''COMPLETE'' \<and> fenced g
      \<or> s = ''RECOVERY_REQUIRED'' \<and> e = ''RECOVER_SUCCESS'' \<and> tg_independent_readback g \<and>
        tg_no_newer_attempt g \<and> tg_side_effect_status g = SE_CONFIRMED)"
  (is "?L \<longleftrightarrow> ?R")
proof
  assume L: ?L
  then obtain q e' where v: "s = job_state_value q" "e = job_event_value e'"
    using transition_job_Inr by blast
  show ?R using L unfolding v transition_job_values
    by (cases q; cases e'; auto simp: direct_table_def TERMINAL_JOB_STATES_def guarded_job_def require_fence_def
        fenced_def result_simps split: if_splits)
next
  assume R: ?R
  then consider "s = job_state_value JS_RUNNING" "e = job_event_value JE_COMPLETE" "fenced g"
    | "s = job_state_value JS_RECOVERY_REQUIRED" "e = job_event_value JE_RECOVER_SUCCESS" "tg_independent_readback g"
      "tg_no_newer_attempt g" "tg_side_effect_status g = SE_CONFIRMED" by auto
  then show ?L
    by cases (use R in \<open>simp_all only: transition_job_values\<close>,
      simp_all add: direct_table_def TERMINAL_JOB_STATES_def guarded_job_def require_fence_def fenced_def)
qed

text \<open>
  No blind retry. Apart from queueing an authorized job, a transition puts a job back in
  the queue only when the guards report that no side effect happened and attempts remain;
  out of recovery only with an independent readback and no newer attempt as well.
\<close>

lemma requeue_only_without_effect:
  assumes "transition_job s e g = Inr JS_QUEUED"
  shows "s = ''AUTHORIZED'' \<and> e = ''QUEUE''
    \<or> tg_side_effect_status g = SE_NONE \<and> tg_attempts_remaining g \<and>
      (s = ''RECOVERY_REQUIRED'' \<and> tg_independent_readback g \<and> tg_no_newer_attempt g
       \<or> s \<in> {''CLAIMED'', ''RUNNING''} \<and> (e = ''LEASE_EXPIRE'' \<or> fenced g))"
proof -
  obtain q e' where v: "s = job_state_value q" "e = job_event_value e'"
    using transition_job_Inr [OF assms] by blast
  show ?thesis using assms unfolding v transition_job_values
    by (cases q; cases e'; auto simp: direct_table_def TERMINAL_JOB_STATES_def guarded_job_def require_fence_def
        fenced_def result_simps split: if_splits)
qed

text \<open>
  An attempt succeeds by one path. Every run of an attempt takes at most three
  transitions, all of them under a current lease and fence, and a successful one is exactly
  prepare, start, complete.
\<close>

lemma attempt_single_path:
  assumes "runs attempt_step AS_CLAIMED ls q"
  shows "length ls \<le> 3 \<and> (\<forall>(e, l, f)\<in>set ls. l \<and> f) \<and>
    (q = AS_SUCCEEDED \<longrightarrow> map fst ls = [AE_PREPARE_START, AE_START, AE_COMPLETE])"
proof -
  have "attempt_rank q \<le> 3" by (cases q) auto
  then show ?thesis using attempt_run_facts [OF assms, of "[]"] by auto
qed

text \<open>
  Cancellation is acknowledged only on request. A job acknowledges a cancellation only
  when its cancellation state, reached from none, began with a request.
\<close>

lemma cancellation_needs_request:
  assumes "runs cancellation_step CS_NONE cs c" "tg_cancellation_state g = c"
    and "transition_job s ''ACK_CANCEL'' g = Inr q"
  shows "q = JS_CANCELLED \<and> (\<exists>es. cs = CE_REQUEST # es) \<and> (fenced g \<or> s = ''RECOVERY_REQUIRED'')"
proof -
  obtain q0 where v: "s = job_state_value q0" using transition_job_Inr [OF assms(3)] by blast
  have "transition_job (job_state_value q0) (job_event_value JE_ACK_CANCEL) g = Inr q" using assms(3) v by simp
  then have "q = JS_CANCELLED" "c \<noteq> CS_NONE" "fenced g \<or> s = ''RECOVERY_REQUIRED''"
    unfolding transition_job_values v
    by (cases q0; auto simp: direct_table_def TERMINAL_JOB_STATES_def guarded_job_def require_fence_def
        fenced_def assms(2) result_simps split: if_splits)+
  then show ?thesis using cancellation_run_first [OF assms(1)] by blast
qed

section \<open>Concrete instances\<close>

definition sample_guards :: transition_guards where
  "sample_guards = \<lparr>tg_state_version = 3, tg_expected_state_version = 3, tg_lease_current = True,
     tg_fence_current = True, tg_attempts_remaining = True, tg_side_effect_status = SE_NONE,
     tg_independent_readback = False, tg_no_newer_attempt = False, tg_cancellation_state = CS_REQUESTED,
     tg_safe_to_expire = False\<rparr>"

lemma sample_job_steps:
  "job_step JS_SUBMITTED (JE_REQUEST_AUTHORIZATION, sample_guards) JS_PENDING_AUTHORIZATION"
  "job_step JS_PENDING_AUTHORIZATION (JE_AUTHORIZE, sample_guards) JS_AUTHORIZED"
  "job_step JS_AUTHORIZED (JE_QUEUE, sample_guards) JS_QUEUED"
  "job_step JS_QUEUED (JE_CLAIM, sample_guards) JS_CLAIMED"
  unfolding job_step_iff transition_job_values
  by (simp_all add: direct_table_def TERMINAL_JOB_STATES_def version_ok_def sample_guards_def)

theorem nothing_runs_unauthorized_witness:
  "\<exists>ls. runs job_step JS_SUBMITTED ls JS_CLAIMED \<and>
     subseq [JE_REQUEST_AUTHORIZATION, JE_AUTHORIZE, JE_QUEUE, JE_CLAIM] (map fst ls)"
proof -
  let ?ls = "[(JE_REQUEST_AUTHORIZATION, sample_guards), (JE_AUTHORIZE, sample_guards), (JE_QUEUE, sample_guards),
    (JE_CLAIM, sample_guards)]"
  have "runs job_step JS_SUBMITTED ?ls JS_CLAIMED"
    using runs_step [OF sample_job_steps(1) runs_step [OF sample_job_steps(2) runs_step [OF sample_job_steps(3)
          runs_one [where step = job_step, OF sample_job_steps(4)]]]] .
  then show ?thesis using nothing_runs_unauthorized [of ?ls JS_CLAIMED] by (intro exI [of _ ?ls] conjI) auto
qed

lemma sample_transitions:
  "transition_job ''RUNNING'' ''LEASE_EXPIRE'' sample_guards = Inr JS_QUEUED"
  "transition_job ''RUNNING'' ''ACK_CANCEL'' sample_guards = Inr JS_CANCELLED"
proof -
  have "transition_job (job_state_value JS_RUNNING) (job_event_value JE_LEASE_EXPIRE) sample_guards = Inr JS_QUEUED"
    "transition_job (job_state_value JS_RUNNING) (job_event_value JE_ACK_CANCEL) sample_guards = Inr JS_CANCELLED"
    unfolding transition_job_values
    by (simp_all add: direct_table_def TERMINAL_JOB_STATES_def guarded_job_def require_fence_def version_ok_def
        sample_guards_def)
  then show "transition_job ''RUNNING'' ''LEASE_EXPIRE'' sample_guards = Inr JS_QUEUED"
    "transition_job ''RUNNING'' ''ACK_CANCEL'' sample_guards = Inr JS_CANCELLED" by simp_all
qed

lemma requeue_only_without_effect_witness:
  "transition_job ''RUNNING'' ''LEASE_EXPIRE'' sample_guards = Inr JS_QUEUED \<and>
     tg_side_effect_status sample_guards = SE_NONE"
  using requeue_only_without_effect [OF sample_transitions(1)] sample_transitions(1) by simp

lemma sample_attempt_steps:
  "attempt_step AS_CLAIMED (AE_PREPARE_START, True, True) AS_STARTING"
  "attempt_step AS_STARTING (AE_START, True, True) AS_RUNNING"
  "attempt_step AS_RUNNING (AE_COMPLETE, True, True) AS_SUCCEEDED"
  unfolding attempt_step_iff transition_attempt_values
  by (simp_all add: attempt_table_def TERMINAL_ATTEMPT_STATES_def)

lemma attempt_single_path_witness:
  "\<exists>ls. runs attempt_step AS_CLAIMED ls AS_SUCCEEDED \<and> map fst ls = [AE_PREPARE_START, AE_START, AE_COMPLETE]"
proof -
  let ?ls = "[(AE_PREPARE_START, True, True), (AE_START, True, True), (AE_COMPLETE, True, True)]"
  have "runs attempt_step AS_CLAIMED ?ls AS_SUCCEEDED"
    using runs_step [OF sample_attempt_steps(1) runs_step [OF sample_attempt_steps(2)
          runs_one [where step = attempt_step, OF sample_attempt_steps(3)]]] .
  then show ?thesis using attempt_single_path [of ?ls AS_SUCCEEDED] by (intro exI [of _ ?ls] conjI) auto
qed

lemma cancellation_needs_request_witness:
  "transition_job ''RUNNING'' ''ACK_CANCEL'' sample_guards = Inr JS_CANCELLED \<and> fenced sample_guards"
proof -
  have c: "runs cancellation_step CS_NONE [CE_REQUEST] CS_REQUESTED"
    by (rule runs_one [where step = cancellation_step])
      (simp only: cancellation_step_iff transition_cancellation_values, simp add: cancellation_table_def)
  have "fenced sample_guards" by (simp add: fenced_def sample_guards_def)
  then show ?thesis
    using cancellation_needs_request [OF c _ sample_transitions(2)] sample_transitions(2) by simp
qed

end
