(* ===== verification/PC_Contract.thy ===== *)
theory PC_Contract
  imports Canonical Py_Values
begin

text \<open>
  \<^verbatim>\<open>pc_connection.canonical\<close> and \<^verbatim>\<open>pc_connection.validation\<close>: the
  length-prefixed encoding of text tuples with its domain-separated digest, and the
  validators of the closed contracts. Regular expressions are written out as predicates on
  the characters; \<^verbatim>\<open>fullmatch\<close> leaves no room for a trailing newline.
\<close>

section \<open>Text tuples\<close>

definition encode_text_tuple :: "string list \<Rightarrow> string" where
  "encode_text_tuple flds =
     ''T1|'' @ show_nat (length flds) @ ''|'' @
     concat (map (\<lambda>field. let encoded = utf8 field in show_nat (length encoded) @ '':'' @ encoded) flds)"

definition sha256_text_tuple :: "string list \<Rightarrow> string" where
  "sha256_text_tuple flds = sha256_hexdigest (encode_text_tuple flds)"

text \<open>What the envelopes and manifests demand beyond the shape of their fields.\<close>

datatype contract_rule =
    Unsupported_schema string
  | Unsupported_choice string
  | Operation_not_recognized
  | Operation_denied
  | Operation_not_enabled_in_phase
  | Write_root_not_none
  | Manifest_not_none
  | Freshness_invalid
  | Window_too_long
  | Not_local_only string
  | Unsafe_locator
  | Remote_transfer_enabled
  | Unsafe_relative_path
  | Operations_not_sorted
  | Content_id_mismatch
  | Executable_denied
  | Not_mime_type
  | Max_bytes_below_length
  | Retention_too_short
  | Manifest_digest_mismatch

datatype contract_error =
    Bad_domain
  | Missing_fields string "string list"
  | Unknown_fields string "string list"
  | Not_uuid7 string
  | Not_bounded_text string
  | Not_sha256 string
  | Not_in_range string int int
  | Not_utc_microseconds string
  | Strptime_failed string
  | Not_semver string
  | Unsafe_basename string
  | Reserved_device_name string
  | Wrong_type string
  | Rule contract_rule

definition ZERO_SHA256 :: string where
  "ZERO_SHA256 = replicate 64 CHR ''0''"

text \<open>The closed list of operations of \<^verbatim>\<open>pc_connection/__init__.py\<close>; the transfers are recognized, but denied.\<close>

definition REMOTE_TRANSFER_OPERATIONS :: "string list" where
  "REMOTE_TRANSFER_OPERATIONS = [''UPLOAD_ARTIFACT'', ''DOWNLOAD_ARTIFACT'']"

definition PHASE_ONE_OPERATIONS :: "string list" where
  "PHASE_ONE_OPERATIONS = [''PING'', ''GET_HOST_STATUS'', ''GET_GPU_STATUS'', ''LIST_PATH'', ''STAT_PATH'',
     ''HASH_FILE'', ''READ_TEXT'', ''SEARCH_TEXT'', ''GET_PROCESS_STATUS'']"

definition RECOGNIZED_PHASE_ONE_OPERATIONS :: "string list" where
  "RECOGNIZED_PHASE_ONE_OPERATIONS = PHASE_ONE_OPERATIONS @ REMOTE_TRANSFER_OPERATIONS"

definition line_feed :: char where
  "line_feed = char_of (10 :: nat)"

definition carriage_return :: char where
  "carriage_return = char_of (13 :: nat)"

definition sha256_domain_text_tuple :: "string \<Rightarrow> string list \<Rightarrow> (contract_error, string) result" where
  "sha256_domain_text_tuple domain flds =
     rbind (ensure (\<not> (domain = [] \<or> line_feed \<in> set domain \<or> carriage_return \<in> set domain)) Bad_domain) (\<lambda>_.
       let material = utf8 domain @ [line_feed]; material = material @ encode_text_tuple flds
       in Inr (sha256_hexdigest material))"

section \<open>Validators\<close>

definition closed_fields :: "(string \<times> json) list \<Rightarrow> string list \<Rightarrow> string \<Rightarrow> string list \<Rightarrow> (contract_error, unit) result" where
  "closed_fields value required contract optional =
     (let actual = map fst value;
          missing = sort (remdups (filter (\<lambda>k. k \<notin> set actual) required));
          unknown = sort (remdups (filter (\<lambda>k. k \<notin> set required \<and> k \<notin> set optional) actual))
      in rbind (ensure (missing = []) (Missing_fields contract missing)) (\<lambda>_.
         ensure (unknown = []) (Unknown_fields contract unknown)))"

text \<open>
  \<^verbatim>\<open>UUID(value)\<close> accepts several spellings, but \<^verbatim>\<open>str(parsed) != value\<close> rejects
  all of them except the canonical one: 8-4-4-4-12 lower-case hexadecimal digits. Version 7
  is the thirteenth digit and the RFC 4122 variant the two high bits of the seventeenth. A
  value that does not parse and one that is not canonical both raise
  \<^verbatim>\<open>ContractError\<close>.
\<close>

definition canonical_uuid_text :: "string \<Rightarrow> bool" where
  "canonical_uuid_text s \<longleftrightarrow> length s = 36 \<and>
     (\<forall>i\<in>set [0..<36]. if i \<in> {8, 13, 18, 23} then s ! i = CHR ''-'' else is_lower_hex (s ! i))"

definition uuid_v7 :: "string \<Rightarrow> string \<Rightarrow> (contract_error, string) result" where
  "uuid_v7 value field =
     rbind (ensure (canonical_uuid_text value \<and> value ! 14 = CHR ''7'' \<and>
        value ! 19 \<in> {CHR ''8'', CHR ''9'', CHR ''a'', CHR ''b''}) (Not_uuid7 field)) (\<lambda>_. Inr value)"

definition bounded_text :: "string \<Rightarrow> string \<Rightarrow> nat \<Rightarrow> (contract_error, string) result" where
  "bounded_text value field maximum =
     rbind (ensure (\<not> (value = [] \<or> maximum < length (utf8 value) \<or> (\<exists>c\<in>set value. code c < 32)))
        (Not_bounded_text field)) (\<lambda>_. Inr value)"

definition sha256_hex_field :: "string \<Rightarrow> string \<Rightarrow> (contract_error, string) result" where
  "sha256_hex_field value field =
     rbind (ensure (length value = 64 \<and> list_all is_lower_hex value) (Not_sha256 field)) (\<lambda>_. Inr value)"

definition uint_field :: "int \<Rightarrow> string \<Rightarrow> int \<Rightarrow> int \<Rightarrow> (contract_error, int) result" where
  "uint_field value field minimum maximum =
     rbind (ensure (\<not> (value < minimum \<or> maximum < value)) (Not_in_range field minimum maximum)) (\<lambda>_. Inr value)"

definition rfc3339_micro_utc :: "string \<Rightarrow> bool" where
  "rfc3339_micro_utc s \<longleftrightarrow> length s = 27 \<and>
     (\<forall>i\<in>set [0..<27].
        if i \<in> {4, 7} then s ! i = CHR ''-''
        else if i = 10 then s ! i = CHR ''T''
        else if i \<in> {13, 16} then s ! i = CHR '':''
        else if i = 19 then s ! i = CHR ''.''
        else if i = 26 then s ! i = CHR ''Z''
        else is_digit (s ! i))"

definition leap_year :: "nat \<Rightarrow> bool" where
  "leap_year y \<longleftrightarrow> 4 dvd y \<and> (\<not> 100 dvd y \<or> 400 dvd y)"

definition days_in_month :: "nat \<Rightarrow> nat \<Rightarrow> nat" where
  "days_in_month y m = (if m = 2 then (if leap_year y then 29 else 28) else if m \<in> {4, 6, 9, 11} then 30 else 31)"

text \<open>
  \<^verbatim>\<open>strptime\<close> with the fixed format on a text of that shape: it raises a plain
  \<^verbatim>\<open>ValueError\<close> when the fields are no date or time of day.
\<close>

definition utc_microseconds :: "string \<Rightarrow> string \<Rightarrow> (contract_error, utc_time) result" where
  "utc_microseconds value field =
     rbind (ensure (rfc3339_micro_utc value) (Not_utc_microseconds field)) (\<lambda>_.
       let part = (\<lambda>i n. read_nat (take n (drop i value)));
           t = \<lparr>t_year = part 0 4, t_month = part 5 2, t_day = part 8 2, t_hour = part 11 2,
                t_minute = part 14 2, t_second = part 17 2, t_micro = part 20 6\<rparr>
       in rbind (ensure (1 \<le> t_year t \<and> 1 \<le> t_month t \<and> t_month t \<le> 12 \<and> 1 \<le> t_day t \<and>
             t_day t \<le> days_in_month (t_year t) (t_month t) \<and> t_hour t < 24 \<and> t_minute t < 60 \<and>
             t_second t < 60) (Strptime_failed field)) (\<lambda>_. Inr t))"

definition semver_tail_char :: "char \<Rightarrow> bool" where
  "semver_tail_char c \<longleftrightarrow> is_digit c \<or> (65 \<le> code c \<and> code c \<le> 90) \<or> (97 \<le> code c \<and> code c \<le> 122) \<or>
     c \<in> {CHR ''.'', CHR ''-''}"

text \<open>Three dot-separated numbers, then optionally a plus or minus sign and a tail.\<close>

definition semver_text :: "string \<Rightarrow> bool" where
  "semver_text s =
     (let a = takeWhile is_digit s; r1 = dropWhile is_digit s
      in a \<noteq> [] \<and> (case r1 of [] \<Rightarrow> False | c # r2 \<Rightarrow> c = CHR ''.'' \<and>
        (let b = takeWhile is_digit r2; r3 = dropWhile is_digit r2
         in b \<noteq> [] \<and> (case r3 of [] \<Rightarrow> False | d # r4 \<Rightarrow> d = CHR ''.'' \<and>
           (let e = takeWhile is_digit r4; r5 = dropWhile is_digit r4
            in e \<noteq> [] \<and> (case r5 of [] \<Rightarrow> True
              | f # tail \<Rightarrow> f \<in> {CHR ''-'', CHR ''+''} \<and> tail \<noteq> [] \<and> list_all semver_tail_char tail))))))"

definition semver :: "string \<Rightarrow> string \<Rightarrow> (contract_error, string) result" where
  "semver value field = rbind (ensure (semver_text value) (Not_semver field)) (\<lambda>_. Inr value)"

definition safe_basename_char :: "char \<Rightarrow> bool" where
  "safe_basename_char c \<longleftrightarrow>
     32 \<le> code c \<and> c \<notin> {CHR ''<'', CHR ''>'', CHR '':'', CHR 0x22, CHR ''/'', CHR 0x5C, CHR ''|'', CHR ''?'', CHR ''*''}"

definition ascii_upper :: "char \<Rightarrow> char" where
  "ascii_upper c = (if 97 \<le> code c \<and> code c \<le> 122 then char_of (code c - 32) else c)"

definition RESERVED_WINDOWS_NAMES :: "string list" where
  "RESERVED_WINDOWS_NAMES =
     [''CON'', ''PRN'', ''AUX'', ''NUL''] @
     map (\<lambda>i. ''COM'' @ show_nat i) [1..<10] @ map (\<lambda>i. ''LPT'' @ show_nat i) [1..<10]"

definition safe_basename :: "string \<Rightarrow> string \<Rightarrow> (contract_error, string) result" where
  "safe_basename value field =
     rbind (ensure (\<not> (value = [] \<or> value \<in> {''.'', ''..''} \<or> 255 < length (utf8 value) \<or>
          \<not> list_all safe_basename_char value \<or> last value \<in> {CHR '' '', CHR ''.''}))
        (Unsafe_basename field)) (\<lambda>_.
     rbind (ensure (map ascii_upper (takeWhile (\<lambda>c. c \<noteq> CHR ''.'') value) \<notin> set RESERVED_WINDOWS_NAMES)
        (Reserved_device_name field)) (\<lambda>_. Inr value))"

definition canonical_scalar :: "py_env \<Rightarrow> json \<Rightarrow> string" where
  "canonical_scalar E value = (case value of JBool b \<Rightarrow> if b then ''true'' else ''false'' | _ \<Rightarrow> py_str E value)"

section \<open>The encoding is injective\<close>

lemma digits_then:
  assumes "list_all is_digit ds" "list_all is_digit es" "\<not> is_digit c"
    and "ds @ c # x = es @ c # y"
  shows "ds = es \<and> x = y"
proof -
  have split: "takeWhile is_digit (as @ c # z) = as" if "list_all is_digit as" for as z
    using that assms(3) by (induction as) auto
  have "ds = es" using split [OF assms(1), of x] split [OF assms(2), of y] assms(4) by simp
  then show ?thesis using assms(4) by simp
qed

lemma show_nat_then: "\<not> is_digit c \<Longrightarrow> show_nat m @ c # x = show_nat n @ c # y \<longleftrightarrow> m = n \<and> x = y"
  using digits_then [OF show_nat_digits [of m] show_nat_digits [of n], of c x y] unfolding show_nat_inj by blast

lemma not_digits [simp]: "\<not> is_digit CHR '':''" "\<not> is_digit CHR ''|''"
  by (simp_all add: is_digit_def)

lemma show_int_inj: "show_int i = show_int j \<longleftrightarrow> i = j"
proof -
  have minus: "CHR ''-'' # x \<noteq> show_nat n" for x n
  proof
    assume "CHR ''-'' # x = show_nat n"
    then show False using show_nat_digits [of n] by (auto simp: is_digit_def simp flip: \<open>_ = show_nat n\<close>)
  qed
  then show ?thesis using minus [THEN not_sym] by (auto simp: show_int_def show_nat_inj)
qed

definition text_chunk :: "string \<Rightarrow> string" where
  "text_chunk s = show_nat (length (utf8 s)) @ CHR '':'' # utf8 s"

lemma text_chunk_append: "text_chunk s @ x = text_chunk t @ y \<longleftrightarrow> s = t \<and> x = y"
proof -
  have "text_chunk s @ x = text_chunk t @ y \<longleftrightarrow>
      length (utf8 s) = length (utf8 t) \<and> utf8 s @ x = utf8 t @ y"
    by (simp add: text_chunk_def show_nat_then)
  also have "\<dots> \<longleftrightarrow> s = t \<and> x = y" using utf8_inj append_eq_append_conv by metis
  finally show ?thesis .
qed

lemma chunks_inj:
  "length fs = length gs \<Longrightarrow> concat (map text_chunk fs) = concat (map text_chunk gs) \<Longrightarrow> fs = gs"
  by (induction fs gs rule: list_induct2) (auto simp: text_chunk_append)

lemma encode_text_tuple_eq:
  "encode_text_tuple fs = ''T1|'' @ show_nat (length fs) @ CHR ''|'' # concat (map text_chunk fs)"
  by (simp add: encode_text_tuple_def text_chunk_def [abs_def] Let_def)

lemma encode_text_tuple_inj: "encode_text_tuple fs = encode_text_tuple gs \<longleftrightarrow> fs = gs"
  using chunks_inj [of fs gs] by (auto simp: encode_text_tuple_eq show_nat_then)

definition domain_material :: "string \<Rightarrow> string list \<Rightarrow> string" where
  "domain_material d fs = utf8 d @ line_feed # encode_text_tuple fs"

lemma domain_digest_iff:
  "sha256_domain_text_tuple d fs = Inr h \<longleftrightarrow>
     d \<noteq> [] \<and> line_feed \<notin> set d \<and> carriage_return \<notin> set d \<and> h = sha256_hexdigest (domain_material d fs)"
  by (auto simp: sha256_domain_text_tuple_def domain_material_def result_simps)

lemma utf8_no_line_feed: "line_feed \<notin> set d \<Longrightarrow> line_feed \<notin> set (utf8 d)"
proof (induction d)
  case (Cons c d)
  have "line_feed \<noteq> x" if "x \<in> set (utf8_char c)" for x
  proof (cases "code c < 128")
    case True
    then show ?thesis using that Cons.prems by (simp add: utf8_char_def)
  next
    case False
    have "code c < 256" by simp
    then have "(192 + code c div 64) mod 256 = 192 + code c div 64" by (intro mod_less) linarith
    then have "128 \<le> code x" using that False by (auto simp: utf8_char_def)
    then show ?thesis by (auto simp: line_feed_def)
  qed
  then show ?case using Cons by (auto simp: utf8_def)
qed (simp add: utf8_def)

lemma until_line_feed:
  assumes "line_feed \<notin> set a" "line_feed \<notin> set b" "a @ line_feed # x = b @ line_feed # y"
  shows "a = b \<and> x = y"
  using assms by (induction a arbitrary: b) (case_tac b; auto)+

lemma domain_material_inj:
  assumes "line_feed \<notin> set d" "line_feed \<notin> set d'"
  shows "domain_material d fs = domain_material d' fs' \<longleftrightarrow> d = d' \<and> fs = fs'"
  using until_line_feed [OF utf8_no_line_feed [OF assms(1)] utf8_no_line_feed [OF assms(2)]]
  unfolding domain_material_def utf8_inj using encode_text_tuple_inj by blast

text \<open>
  A domain digest binds its domain and every field. If two calls of
  \<^verbatim>\<open>sha256_domain_text_tuple\<close> return the same digest, they had the same domain and
  the same tuple, field by field, or the two encodings are an explicit SHA-256 collision.
  So no choice of field contents shifts a boundary between fields or between domain and
  tuple.
\<close>

lemma domain_digest_binds:
  assumes "sha256_domain_text_tuple d fs = Inr h" "sha256_domain_text_tuple d' fs' = Inr h"
  shows "d = d' \<and> fs = fs' \<or> collides (domain_material d fs) (domain_material d' fs')"
  using assms domain_material_inj [of d d' fs fs'] by (auto simp: domain_digest_iff collides_def)

lemma domain_digest_binds_witness:
  "\<exists>h. sha256_domain_text_tuple ''D'' [''a'', ''b''] = Inr h \<and>
     (sha256_domain_text_tuple ''D'' [''ab''] \<noteq> Inr h \<or>
      collides (domain_material ''D'' [''a'', ''b'']) (domain_material ''D'' [''ab'']))"
proof -
  have "sha256_domain_text_tuple ''D'' [''a'', ''b''] = Inr (sha256_hexdigest (domain_material ''D'' [''a'', ''b'']))"
    unfolding domain_digest_iff by (simp add: line_feed_def carriage_return_def char_of_def)
  then show ?thesis using domain_digest_binds by fastforce
qed

end
