(* ===== verification/PC_Journal.thy ===== *)
theory PC_Journal
  imports PC_Contract "HOL-Library.Product_Lexorder"
begin

text \<open>
  \<^verbatim>\<open>pc_connection.journal\<close>: the local journal of attempts of the PC bridge, a
  projection row per attempt and an append-only chain of events. Columns of type
  \<^verbatim>\<open>TEXT\<close> that hold enum values are strings here, so that a row changed behind the
  journal's back can be looked at; the enum constructor is \<open>pc_state_of\<close>. Every operation
  is one \<^verbatim>\<open>BEGIN IMMEDIATE\<close> transaction, except that \<^verbatim>\<open>commit_effect_start\<close>
  and \<^verbatim>\<open>confirm_terminal_readback\<close> first read the row in a transaction of its own.
\<close>

section \<open>States and identities\<close>

datatype pc_state =
    ST_CLAIMED | ST_PREPARING | ST_EFFECT_STARTED | ST_RESULT_OBSERVED
  | ST_RECOVERY_REQUIRED | ST_COMPLETING | ST_TERMINAL_CONFIRMED | ST_ABANDONED

datatype pc_event =
    EV_CLAIM_RECORDED | EV_PREPARATION_STARTED | EV_EFFECT_START_COMMITTED | EV_RESULT_RECORDED
  | EV_RECOVERY_REQUIRED | EV_COMPLETION_SUBMITTED | EV_TERMINAL_READBACK_CONFIRMED | EV_ATTEMPT_ABANDONED
  | EV_CORRUPTION_DETECTED

fun pc_state_value :: "pc_state \<Rightarrow> string" where
  "pc_state_value ST_CLAIMED = ''CLAIMED''"
| "pc_state_value ST_PREPARING = ''PREPARING''"
| "pc_state_value ST_EFFECT_STARTED = ''EFFECT_STARTED''"
| "pc_state_value ST_RESULT_OBSERVED = ''RESULT_OBSERVED''"
| "pc_state_value ST_RECOVERY_REQUIRED = ''RECOVERY_REQUIRED''"
| "pc_state_value ST_COMPLETING = ''COMPLETING''"
| "pc_state_value ST_TERMINAL_CONFIRMED = ''TERMINAL_CONFIRMED''"
| "pc_state_value ST_ABANDONED = ''ABANDONED''"

fun pc_event_value :: "pc_event \<Rightarrow> string" where
  "pc_event_value EV_CLAIM_RECORDED = ''CLAIM_RECORDED''"
| "pc_event_value EV_PREPARATION_STARTED = ''PREPARATION_STARTED''"
| "pc_event_value EV_EFFECT_START_COMMITTED = ''EFFECT_START_COMMITTED''"
| "pc_event_value EV_RESULT_RECORDED = ''RESULT_RECORDED''"
| "pc_event_value EV_RECOVERY_REQUIRED = ''RECOVERY_REQUIRED''"
| "pc_event_value EV_COMPLETION_SUBMITTED = ''COMPLETION_SUBMITTED''"
| "pc_event_value EV_TERMINAL_READBACK_CONFIRMED = ''TERMINAL_READBACK_CONFIRMED''"
| "pc_event_value EV_ATTEMPT_ABANDONED = ''ATTEMPT_ABANDONED''"
| "pc_event_value EV_CORRUPTION_DETECTED = ''CORRUPTION_DETECTED''"

definition pc_states :: "pc_state list" where
  "pc_states = [ST_CLAIMED, ST_PREPARING, ST_EFFECT_STARTED, ST_RESULT_OBSERVED, ST_RECOVERY_REQUIRED,
     ST_COMPLETING, ST_TERMINAL_CONFIRMED, ST_ABANDONED]"

definition pc_state_of :: "string \<Rightarrow> pc_state option" where
  "pc_state_of s = find (\<lambda>q. pc_state_value q = s) pc_states"

definition TERMINAL_STATES :: "pc_state list" where
  "TERMINAL_STATES = [ST_TERMINAL_CONFIRMED, ST_ABANDONED]"

definition JOURNAL_SCHEMA :: string where
  "JOURNAL_SCHEMA = ''VERA_PCCC_LOCAL_JOURNAL_V1''"

definition JOURNAL_EVENT_DOMAIN :: string where
  "JOURNAL_EVENT_DOMAIN = ''VERA-PCCC-LOCAL-JOURNAL-EVENT-V1''"

definition ZERO_UUID :: string where
  "ZERO_UUID = ''00000000-0000-0000-0000-000000000000''"

record attempt_identity =
  ai_job_id :: string
  ai_attempt_id :: string
  ai_host_id :: string
  ai_claim_generation :: int
  ai_lease_id :: string
  ai_lease_fence :: int
  ai_job_digest :: string
  ai_authorization_id :: string
  ai_authorization_revision :: int
  ai_issuer_revocation_epoch :: int
  ai_host_revocation_epoch :: int
  ai_operation_id :: string
  ai_operation_version :: int
  ai_retry_class :: string
  ai_side_effect_class :: string

datatype pc_error =
    Pc_contract contract_error
  | Path_not_fixed
  | Operation_not_enabled
  | Unsupported_retry_class
  | Side_effect_class_not_none
  | Journal_identity_mismatch
  | Identity_conflict
  | Stale_attempt
  | Server_divergence
  | Not_journaled
  | Not_a_state string
  | Illegal_transition string
  | Already_started
  | Effect_free_operation
  | Completion_not_submitted
  | Event_chain_invalid
  | Projection_divergence
  | Pc_integrity
  | Pc_overflow

definition int64_max :: int where
  "int64_max = 9223372036854775807"

definition validate_identity :: "attempt_identity \<Rightarrow> (pc_error, unit) result" where
  "validate_identity i =
     rbind (map_err Pc_contract (uuid_v7 (ai_job_id i) ''job_id'')) (\<lambda>_.
     rbind (map_err Pc_contract (uuid_v7 (ai_attempt_id i) ''attempt_id'')) (\<lambda>_.
     rbind (map_err Pc_contract (uuid_v7 (ai_host_id i) ''host_id'')) (\<lambda>_.
     rbind (map_err Pc_contract (uuid_v7 (ai_lease_id i) ''lease_id'')) (\<lambda>_.
     rbind (map_err Pc_contract (uuid_v7 (ai_authorization_id i) ''authorization_id'')) (\<lambda>_.
     rbind (map_err Pc_contract (uint_field (ai_claim_generation i) ''claim_generation'' 1 int64_max)) (\<lambda>_.
     rbind (map_err Pc_contract (uint_field (ai_lease_fence i) ''lease_fence'' 1 int64_max)) (\<lambda>_.
     rbind (map_err Pc_contract (sha256_hex_field (ai_job_digest i) ''job_digest'')) (\<lambda>_.
     rbind (map_err Pc_contract (uint_field (ai_authorization_revision i) ''authorization_revision'' 1 int64_max)) (\<lambda>_.
     rbind (map_err Pc_contract (uint_field (ai_issuer_revocation_epoch i) ''issuer_revocation_epoch'' 0 int64_max)) (\<lambda>_.
     rbind (map_err Pc_contract (uint_field (ai_host_revocation_epoch i) ''host_revocation_epoch'' 0 int64_max)) (\<lambda>_.
     rbind (ensure (ai_operation_id i \<in> set PHASE_ONE_OPERATIONS) Operation_not_enabled) (\<lambda>_.
     rbind (map_err Pc_contract (uint_field (ai_operation_version i) ''operation_version'' 1 4294967295)) (\<lambda>_.
     rbind (ensure (ai_retry_class i \<in> {''PURE_READ'', ''CONTENT_ADDRESSED_WRITE'', ''AT_MOST_ONCE''}) Unsupported_retry_class) (\<lambda>_.
       ensure (ai_side_effect_class i = ''NONE'') Side_effect_class_not_none))))))))))))))"

section \<open>Tables\<close>

text \<open>
  A row of \<^verbatim>\<open>pccc_local_attempts\<close> holds the fifteen columns of the identity and the
  projection; \<^verbatim>\<open>_identity_from_row\<close> and \<^verbatim>\<open>_same_identity\<close> read the former.
\<close>

record attempt_row =
  at_identity :: attempt_identity
  at_local_state :: string
  at_state_version :: int
  at_last_event_id :: string
  at_last_event_digest :: string
  at_result_digest :: string
  at_terminal_receipt_id :: string
  at_terminal_receipt_digest :: string
  at_server_request_id :: string
  at_server_readback_receipt_id :: string
  at_server_readback_digest :: string
  at_server_time_anchor :: string
  at_local_monotonic_ns :: int
  at_created_at :: string
  at_updated_at :: string

record event_row =
  ev_local_event_id :: string
  ev_job_id :: string
  ev_attempt_id :: string
  ev_event_sequence :: int
  ev_predecessor :: string
  ev_event_type :: string
  ev_prior_state :: string
  ev_committed_state :: string
  ev_state_version :: int
  ev_claim_generation :: int
  ev_lease_id :: string
  ev_lease_fence :: int
  ev_payload_digest :: string
  ev_server_time_anchor :: string
  ev_local_monotonic_ns :: int
  ev_record_time :: string
  ev_event_digest :: string

record pc_journal =
  pj_meta :: "(string \<times> string \<times> string) option"
  pj_attempts :: "attempt_row list"
  pj_events :: "event_row list"

abbreviation attempt_key :: "attempt_row \<Rightarrow> string \<times> string" where
  "attempt_key a \<equiv> (ai_job_id (at_identity a), ai_attempt_id (at_identity a))"

abbreviation event_key :: "event_row \<Rightarrow> string \<times> string" where
  "event_key e \<equiv> (ev_job_id e, ev_attempt_id e)"

abbreviation attempt_at :: "string \<times> string \<Rightarrow> pc_journal \<Rightarrow> attempt_row option" where
  "attempt_at k J \<equiv> row_of attempt_key k (pj_attempts J)"

definition attempt_events :: "string \<times> string \<Rightarrow> pc_journal \<Rightarrow> event_row list" where
  "attempt_events k J = sort_key ev_event_sequence (filter (\<lambda>e. event_key e = k) (pj_events J))"

text \<open>\<^verbatim>\<open>VerifiedJournalPath\<close>: the last path component, the alias and the receipt digest.\<close>

record verified_path =
  vp_name :: string
  vp_root_alias :: string
  vp_receipt :: string

definition make_verified_path :: "string \<Rightarrow> string \<Rightarrow> string \<Rightarrow> (pc_error, verified_path) result" where
  "make_verified_path name root_alias receipt =
     rbind (map_err Pc_contract (sha256_hex_field receipt ''verification_receipt_digest'')) (\<lambda>_.
     rbind (ensure (name = ''pccc_journal.sqlite3'') Path_not_fixed) (\<lambda>_.
       Inr \<lparr>vp_name = name, vp_root_alias = root_alias, vp_receipt = receipt\<rparr>))"

definition initialize :: "verified_path \<Rightarrow> pc_journal \<Rightarrow> (pc_error, pc_journal) result" where
  "initialize path J =
     (case pj_meta J of
        None \<Rightarrow> Inr (J\<lparr>pj_meta := Some (JOURNAL_SCHEMA, vp_root_alias path, vp_receipt path)\<rparr>)
      | Some row \<Rightarrow>
          rbind (ensure (row = (JOURNAL_SCHEMA, vp_root_alias path, vp_receipt path)) Journal_identity_mismatch) (\<lambda>_. Inr J))"

section \<open>Events\<close>

definition event_fields :: "event_row \<Rightarrow> string list" where
  "event_fields e =
     [ev_local_event_id e, ev_job_id e, ev_attempt_id e, show_int (ev_event_sequence e), ev_predecessor e,
      ev_event_type e, ev_prior_state e, ev_committed_state e, show_int (ev_state_version e),
      show_int (ev_claim_generation e), ev_lease_id e, show_int (ev_lease_fence e), ev_payload_digest e,
      ev_server_time_anchor e, show_int (ev_local_monotonic_ns e), ev_record_time e]"

definition event_digest :: "event_row \<Rightarrow> (pc_error, string) result" where
  "event_digest e = map_err Pc_contract (sha256_domain_text_tuple JOURNAL_EVENT_DOMAIN (event_fields e))"

text \<open>The keyword arguments every operation takes.\<close>

record event_input =
  in_event_id :: string
  in_payload_digest :: string
  in_time_anchor :: string
  in_monotonic_ns :: int
  in_record_time :: string

definition validate_event_inputs :: "event_input \<Rightarrow> (pc_error, unit) result" where
  "validate_event_inputs x =
     rbind (map_err Pc_contract (uuid_v7 (in_event_id x) ''local_event_id'')) (\<lambda>_.
     rbind (map_err Pc_contract (sha256_hex_field (in_payload_digest x) ''payload_digest'')) (\<lambda>_.
     rbind (if in_time_anchor x \<noteq> []
            then rbind (map_err Pc_contract (utc_microseconds (in_time_anchor x) ''server_time_anchor'')) (\<lambda>_. Inr ())
            else Inr ()) (\<lambda>_.
     rbind (map_err Pc_contract (uint_field (in_monotonic_ns x) ''local_monotonic_ns'' 0 int64_max)) (\<lambda>_.
     rbind (map_err Pc_contract (utc_microseconds (in_record_time x) ''record_time'')) (\<lambda>_. Inr ())))))"

definition new_event ::
  "attempt_identity \<Rightarrow> event_input \<Rightarrow> int \<Rightarrow> string \<Rightarrow> string \<Rightarrow> string \<Rightarrow> string \<Rightarrow> event_row" where
  "new_event i x sequence predecessor event_type prior committed =
     \<lparr>ev_local_event_id = in_event_id x, ev_job_id = ai_job_id i, ev_attempt_id = ai_attempt_id i,
      ev_event_sequence = sequence, ev_predecessor = predecessor, ev_event_type = event_type,
      ev_prior_state = prior, ev_committed_state = committed, ev_state_version = sequence,
      ev_claim_generation = ai_claim_generation i, ev_lease_id = ai_lease_id i,
      ev_lease_fence = ai_lease_fence i, ev_payload_digest = in_payload_digest x,
      ev_server_time_anchor = in_time_anchor x, ev_local_monotonic_ns = in_monotonic_ns x,
      ev_record_time = in_record_time x, ev_event_digest = []\<rparr>"

text \<open>
  The insert into \<^verbatim>\<open>pccc_local_events\<close> with its primary key and its unique triple;
  the foreign key and the checks hold by construction of the row.
\<close>

definition insert_event :: "event_row \<Rightarrow> pc_journal \<Rightarrow> (pc_error, pc_journal) result" where
  "insert_event e J =
     rbind (ensure (ev_local_event_id e \<notin> ev_local_event_id ` set (pj_events J) \<and>
        (event_key e, ev_event_sequence e) \<notin> (\<lambda>x. (event_key x, ev_event_sequence x)) ` set (pj_events J)) Pc_integrity) (\<lambda>_.
       Inr (J\<lparr>pj_events := pj_events J @ [e]\<rparr>))"

definition projection_from_row :: "attempt_row \<Rightarrow> (pc_error, attempt_row) result" where
  "projection_from_row row =
     rbind (or_raise (pc_state_of (at_local_state row)) (Not_a_state (at_local_state row))) (\<lambda>_. Inr row)"

section \<open>Operations\<close>

definition record_claim ::
  "pc_journal \<Rightarrow> attempt_identity \<Rightarrow> event_input \<Rightarrow> (pc_error, attempt_row \<times> pc_journal) result" where
  "record_claim J i x =
     rbind (validate_identity i) (\<lambda>_.
     rbind (validate_event_inputs x) (\<lambda>_.
       case attempt_at (ai_job_id i, ai_attempt_id i) J of
         Some row \<Rightarrow>
           rbind (ensure (at_identity row = i) Identity_conflict) (\<lambda>_.
           rbind (projection_from_row row) (\<lambda>p. Inr (p, J)))
       | None \<Rightarrow>
           (let e = new_event i x 1 ZERO_SHA256 (pc_event_value EV_CLAIM_RECORDED) ''NONE'' (pc_state_value ST_CLAIMED)
            in rbind (event_digest e) (\<lambda>digest.
               let row = \<lparr>at_identity = i, at_local_state = pc_state_value ST_CLAIMED, at_state_version = 1,
                     at_last_event_id = in_event_id x, at_last_event_digest = digest,
                     at_result_digest = ZERO_SHA256, at_terminal_receipt_id = ZERO_UUID,
                     at_terminal_receipt_digest = ZERO_SHA256, at_server_request_id = ZERO_UUID,
                     at_server_readback_receipt_id = ZERO_UUID, at_server_readback_digest = ZERO_SHA256,
                     at_server_time_anchor = in_time_anchor x, at_local_monotonic_ns = in_monotonic_ns x,
                     at_created_at = in_record_time x, at_updated_at = in_record_time x\<rparr>
               in rbind (insert_event (e\<lparr>ev_event_digest := digest\<rparr>) (J\<lparr>pj_attempts := pj_attempts J @ [row]\<rparr>)) (\<lambda>J'.
                  rbind (projection_from_row row) (\<lambda>p. Inr (p, J')))))))"

text \<open>The optional columns a transition may set; \<^verbatim>\<open>value or row[...]\<close> keeps the old one.\<close>

record updates =
  up_result_digest :: "string option"
  up_receipt_id :: "string option"
  up_receipt_digest :: "string option"
  up_request_id :: "string option"
  up_readback_id :: "string option"
  up_readback_digest :: "string option"

definition no_updates :: updates where
  "no_updates = \<lparr>up_result_digest = None, up_receipt_id = None, up_receipt_digest = None,
     up_request_id = None, up_readback_id = None, up_readback_digest = None\<rparr>"

definition or_old :: "string option \<Rightarrow> string \<Rightarrow> string" where
  "or_old new old = (case new of None \<Rightarrow> old | Some v \<Rightarrow> if v = [] then old else v)"

definition pc_transition ::
  "pc_journal \<Rightarrow> attempt_identity \<Rightarrow> pc_state set \<Rightarrow> pc_event \<Rightarrow> pc_state \<Rightarrow> event_input \<Rightarrow> updates \<Rightarrow>
     (pc_error, attempt_row \<times> pc_journal) result" where
  "pc_transition J i allowed event_type committed x u =
     rbind (validate_identity i) (\<lambda>_.
     rbind (validate_event_inputs x) (\<lambda>_.
     rbind (or_raise (attempt_at (ai_job_id i, ai_attempt_id i) J) Not_journaled) (\<lambda>row.
     rbind (ensure (at_identity row = i) Stale_attempt) (\<lambda>_.
     rbind (or_raise (pc_state_of (at_local_state row)) (Not_a_state (at_local_state row))) (\<lambda>current.
     rbind (ensure (current \<in> allowed) (Illegal_transition (pc_state_value current))) (\<lambda>_.
       let sequence = at_state_version row + 1;
           e = new_event i x sequence (at_last_event_digest row) (pc_event_value event_type)
                 (pc_state_value current) (pc_state_value committed)
       in rbind (event_digest e) (\<lambda>digest.
          rbind (ensure (fits64 sequence) Pc_overflow) (\<lambda>_.
          let row' = row\<lparr>at_local_state := pc_state_value committed, at_state_version := sequence,
                at_last_event_id := in_event_id x, at_last_event_digest := digest,
                at_result_digest := or_old (up_result_digest u) (at_result_digest row),
                at_terminal_receipt_id := or_old (up_receipt_id u) (at_terminal_receipt_id row),
                at_terminal_receipt_digest := or_old (up_receipt_digest u) (at_terminal_receipt_digest row),
                at_server_request_id := or_old (up_request_id u) (at_server_request_id row),
                at_server_readback_receipt_id := or_old (up_readback_id u) (at_server_readback_receipt_id row),
                at_server_readback_digest := or_old (up_readback_digest u) (at_server_readback_digest row),
                at_server_time_anchor := in_time_anchor x, at_local_monotonic_ns := in_monotonic_ns x,
                at_updated_at := in_record_time x\<rparr>
          in rbind (insert_event (e\<lparr>ev_event_digest := digest\<rparr>)
                 (J\<lparr>pj_attempts := upd_row attempt_key (ai_job_id i, ai_attempt_id i) (\<lambda>_. row') (pj_attempts J)\<rparr>)) (\<lambda>J'.
             rbind (projection_from_row row') (\<lambda>p. Inr (p, J')))))))))))"

definition start_preparation ::
  "pc_journal \<Rightarrow> attempt_identity \<Rightarrow> event_input \<Rightarrow> (pc_error, attempt_row \<times> pc_journal) result" where
  "start_preparation J i x = pc_transition J i {ST_CLAIMED} EV_PREPARATION_STARTED ST_PREPARING x no_updates"

definition pc_get :: "pc_journal \<Rightarrow> string \<Rightarrow> string \<Rightarrow> (pc_error, attempt_row option) result" where
  "pc_get J job_id attempt_id =
     rbind (map_err Pc_contract (uuid_v7 job_id ''job_id'')) (\<lambda>_.
     rbind (map_err Pc_contract (uuid_v7 attempt_id ''attempt_id'')) (\<lambda>_.
       case attempt_at (job_id, attempt_id) J of
         None \<Rightarrow> Inr None
       | Some row \<Rightarrow> rbind (projection_from_row row) (\<lambda>p. Inr (Some p))))"

definition commit_effect_start ::
  "pc_journal \<Rightarrow> attempt_identity \<Rightarrow> event_input \<Rightarrow> (pc_error, attempt_row \<times> pc_journal) result" where
  "commit_effect_start J i x =
     rbind (pc_get J (ai_job_id i) (ai_attempt_id i)) (\<lambda>current.
     rbind (ensure (\<not> (case current of None \<Rightarrow> False | Some row \<Rightarrow>
          pc_state_of (at_local_state row) \<in> Some ` {ST_EFFECT_STARTED, ST_RESULT_OBSERVED, ST_RECOVERY_REQUIRED,
            ST_COMPLETING, ST_TERMINAL_CONFIRMED})) Already_started) (\<lambda>_.
     rbind (ensure (ai_side_effect_class i \<noteq> ''NONE'') Effect_free_operation) (\<lambda>_.
       pc_transition J i {ST_PREPARING} EV_EFFECT_START_COMMITTED ST_EFFECT_STARTED x no_updates)))"

definition record_result ::
  "pc_journal \<Rightarrow> attempt_identity \<Rightarrow> string \<Rightarrow> event_input \<Rightarrow> (pc_error, attempt_row \<times> pc_journal) result" where
  "record_result J i result_digest x =
     rbind (map_err Pc_contract (sha256_hex_field result_digest ''result_digest'')) (\<lambda>_.
       pc_transition J i
         (if ai_side_effect_class i = ''NONE'' then {ST_PREPARING} else {ST_EFFECT_STARTED, ST_RECOVERY_REQUIRED})
         EV_RESULT_RECORDED ST_RESULT_OBSERVED x (no_updates\<lparr>up_result_digest := Some result_digest\<rparr>))"

definition require_recovery ::
  "pc_journal \<Rightarrow> attempt_identity \<Rightarrow> event_input \<Rightarrow> (pc_error, attempt_row \<times> pc_journal) result" where
  "require_recovery J i x =
     pc_transition J i {ST_CLAIMED, ST_PREPARING, ST_EFFECT_STARTED, ST_RESULT_OBSERVED, ST_COMPLETING}
       EV_RECOVERY_REQUIRED ST_RECOVERY_REQUIRED x no_updates"

definition submit_completion ::
  "pc_journal \<Rightarrow> attempt_identity \<Rightarrow> string \<Rightarrow> string \<Rightarrow> string \<Rightarrow> event_input \<Rightarrow>
     (pc_error, attempt_row \<times> pc_journal) result" where
  "submit_completion J i receipt_id receipt_digest server_request_id x =
     rbind (map_err Pc_contract (uuid_v7 receipt_id ''receipt_id'')) (\<lambda>_.
     rbind (map_err Pc_contract (sha256_hex_field receipt_digest ''receipt_digest'')) (\<lambda>_.
     rbind (map_err Pc_contract (uuid_v7 server_request_id ''server_request_id'')) (\<lambda>_.
       pc_transition J i {ST_RESULT_OBSERVED} EV_COMPLETION_SUBMITTED ST_COMPLETING x
         (no_updates\<lparr>up_receipt_id := Some receipt_id, up_receipt_digest := Some receipt_digest,
            up_request_id := Some server_request_id\<rparr>))))"

text \<open>The checks of \<^verbatim>\<open>confirm_terminal_readback\<close> before its transition, and the transition.\<close>

definition confirm_check ::
  "pc_journal \<Rightarrow> attempt_identity \<Rightarrow> string \<Rightarrow> string \<Rightarrow> string \<Rightarrow> string \<Rightarrow> (pc_error, unit) result" where
  "confirm_check J i readback_id readback_digest expected_result expected_receipt =
     rbind (map_err Pc_contract (uuid_v7 readback_id ''server_readback_receipt_id'')) (\<lambda>_.
     rbind (map_err Pc_contract (sha256_hex_field readback_digest ''server_readback_digest'')) (\<lambda>_.
     rbind (map_err Pc_contract (sha256_hex_field expected_result ''expected_result_digest'')) (\<lambda>_.
     rbind (map_err Pc_contract (sha256_hex_field expected_receipt ''expected_receipt_digest'')) (\<lambda>_.
     rbind (pc_get J (ai_job_id i) (ai_attempt_id i)) (\<lambda>found.
     rbind (or_raise found Completion_not_submitted) (\<lambda>row.
     rbind (ensure (pc_state_of (at_local_state row) = Some ST_COMPLETING) Completion_not_submitted) (\<lambda>_.
       ensure (\<not> (at_result_digest row \<noteq> expected_result \<or> at_terminal_receipt_digest row \<noteq> expected_receipt))
         Server_divergence)))))))"

definition confirm_transition ::
  "pc_journal \<Rightarrow> attempt_identity \<Rightarrow> string \<Rightarrow> string \<Rightarrow> event_input \<Rightarrow> (pc_error, attempt_row \<times> pc_journal) result" where
  "confirm_transition J i readback_id readback_digest x =
     pc_transition J i {ST_COMPLETING} EV_TERMINAL_READBACK_CONFIRMED ST_TERMINAL_CONFIRMED x
       (no_updates\<lparr>up_readback_id := Some readback_id, up_readback_digest := Some readback_digest\<rparr>)"

definition confirm_terminal_readback ::
  "pc_journal \<Rightarrow> attempt_identity \<Rightarrow> string \<Rightarrow> string \<Rightarrow> string \<Rightarrow> string \<Rightarrow> event_input \<Rightarrow>
     (pc_error, attempt_row \<times> pc_journal) result" where
  "confirm_terminal_readback J i readback_id readback_digest expected_result expected_receipt x =
     rbind (confirm_check J i readback_id readback_digest expected_result expected_receipt) (\<lambda>_.
       confirm_transition J i readback_id readback_digest x)"

definition abandon ::
  "pc_journal \<Rightarrow> attempt_identity \<Rightarrow> event_input \<Rightarrow> (pc_error, attempt_row \<times> pc_journal) result" where
  "abandon J i x =
     pc_transition J i (set pc_states - set TERMINAL_STATES) EV_ATTEMPT_ABANDONED ST_ABANDONED x no_updates"

definition recover_incomplete :: "pc_journal \<Rightarrow> (pc_error, attempt_row list) result" where
  "recover_incomplete J =
     rmap_list projection_from_row
       (sort_key (\<lambda>a. (at_created_at a, ai_job_id (at_identity a), ai_attempt_id (at_identity a)))
         (filter (\<lambda>a. at_local_state a \<notin> {''TERMINAL_CONFIRMED'', ''ABANDONED''}) (pj_attempts J)))"

section \<open>The integrity check\<close>

fun check_events :: "string \<Rightarrow> int \<Rightarrow> event_row list \<Rightarrow> (pc_error, string) result" where
  "check_events predecessor expected_sequence [] = Inr predecessor"
| "check_events predecessor expected_sequence (e # es) =
     rbind (ensure (\<not> (ev_event_sequence e \<noteq> expected_sequence \<or> ev_predecessor e \<noteq> predecessor)) Event_chain_invalid) (\<lambda>_.
     rbind (event_digest e) (\<lambda>recomputed.
     rbind (ensure (recomputed = ev_event_digest e) Event_chain_invalid) (\<lambda>_.
       check_events (ev_event_digest e) (expected_sequence + 1) es)))"

definition check_attempt :: "pc_journal \<Rightarrow> attempt_row \<Rightarrow> (pc_error, unit) result" where
  "check_attempt J a =
     (let events = attempt_events (attempt_key a) J
      in rbind (check_events ZERO_SHA256 1 events) (\<lambda>predecessor.
         ensure (\<not> (events = [] \<or> at_state_version a \<noteq> int (length events) \<or> at_last_event_digest a \<noteq> predecessor \<or>
              at_local_state a \<noteq> ev_committed_state (last events))) Projection_divergence))"

definition verify_integrity :: "pc_journal \<Rightarrow> (pc_error, unit) result" where
  "verify_integrity J = rbind (rmap_list (check_attempt J) (pj_attempts J)) (\<lambda>_. Inr ())"

text \<open>
  \<^verbatim>\<open>__init__\<close>: the meta row is committed before the integrity check, so it stays when
  the check raises.
\<close>

definition open_pc_journal :: "verified_path \<Rightarrow> pc_journal \<Rightarrow> (pc_error, unit) result \<times> pc_journal" where
  "open_pc_journal path J0 =
     (case initialize path J0 of
        Inl e \<Rightarrow> (Inl e, J0)
      | Inr J \<Rightarrow> (verify_integrity J, J))"

end
