(* ===== verification/PC_Journal_Guarantees.thy ===== *)
theory PC_Journal_Guarantees
  imports PC_Journal
begin

text \<open>
  What the journal of the PC bridge guarantees under every interleaving of its operations:
  each attempt moves along \<open>pc_edge\<close> and its events tell exactly that path, the integrity
  check accepts every journal the operations produce, and a confirmed completion carries the
  digests that were compared with the server.
\<close>

section \<open>The attempt machine\<close>

fun pc_edge :: "pc_state \<Rightarrow> pc_state \<Rightarrow> bool" where
  "pc_edge ST_CLAIMED q \<longleftrightarrow> q \<in> {ST_PREPARING, ST_RECOVERY_REQUIRED, ST_ABANDONED}"
| "pc_edge ST_PREPARING q \<longleftrightarrow> q \<in> {ST_RESULT_OBSERVED, ST_RECOVERY_REQUIRED, ST_ABANDONED}"
| "pc_edge ST_EFFECT_STARTED q \<longleftrightarrow> q \<in> {ST_RECOVERY_REQUIRED, ST_ABANDONED}"
| "pc_edge ST_RESULT_OBSERVED q \<longleftrightarrow> q \<in> {ST_COMPLETING, ST_RECOVERY_REQUIRED, ST_ABANDONED}"
| "pc_edge ST_COMPLETING q \<longleftrightarrow> q \<in> {ST_TERMINAL_CONFIRMED, ST_RECOVERY_REQUIRED, ST_ABANDONED}"
| "pc_edge ST_RECOVERY_REQUIRED q \<longleftrightarrow> q = ST_ABANDONED"
| "pc_edge _ q \<longleftrightarrow> False"

fun pc_rank :: "pc_state \<Rightarrow> nat" where
  "pc_rank ST_CLAIMED = 0"
| "pc_rank ST_PREPARING = 1"
| "pc_rank ST_EFFECT_STARTED = 1"
| "pc_rank ST_RESULT_OBSERVED = 2"
| "pc_rank ST_COMPLETING = 3"
| "pc_rank ST_TERMINAL_CONFIRMED = 4"
| "pc_rank ST_RECOVERY_REQUIRED = 4"
| "pc_rank ST_ABANDONED = 5"

fun event_for :: "pc_state \<Rightarrow> pc_event" where
  "event_for ST_CLAIMED = EV_CLAIM_RECORDED"
| "event_for ST_PREPARING = EV_PREPARATION_STARTED"
| "event_for ST_EFFECT_STARTED = EV_EFFECT_START_COMMITTED"
| "event_for ST_RESULT_OBSERVED = EV_RESULT_RECORDED"
| "event_for ST_RECOVERY_REQUIRED = EV_RECOVERY_REQUIRED"
| "event_for ST_COMPLETING = EV_COMPLETION_SUBMITTED"
| "event_for ST_TERMINAL_CONFIRMED = EV_TERMINAL_READBACK_CONFIRMED"
| "event_for ST_ABANDONED = EV_ATTEMPT_ABANDONED"

lemma pc_edge_rank: "pc_edge q q' \<Longrightarrow> pc_rank q < pc_rank q'"
  by (cases q; cases q'; simp)

lemma pc_edges_rank: "pc_edge\<^sup>*\<^sup>* q q' \<Longrightarrow> pc_rank q \<le> pc_rank q'"
  by (induction rule: rtranclp_induct) (auto dest: pc_edge_rank)

lemma pc_rank_le: "pc_rank q \<le> 5"
  by (cases q) auto

lemma pc_state_of_value [simp]: "pc_state_of (pc_state_value q) = Some q"
  by (cases q) (simp_all add: pc_state_of_def pc_states_def)

lemma pc_state_of_Some: "pc_state_of s = Some q \<Longrightarrow> s = pc_state_value q"
  by (auto simp: pc_state_of_def find_Some_iff)

lemma pc_state_value_inj [simp]: "pc_state_value q = pc_state_value q' \<longleftrightarrow> q = q'"
  by (metis option.inject pc_state_of_value)

text \<open>The states an attempt went through, first to last.\<close>

definition trail :: "pc_state list \<Rightarrow> bool" where
  "trail qs \<longleftrightarrow> qs \<noteq> [] \<and> hd qs = ST_CLAIMED \<and> successively pc_edge qs"

lemma trail_append: "trail qs \<Longrightarrow> pc_edge (last qs) q \<Longrightarrow> trail (qs @ [q])"
  by (auto simp: trail_def successively_append_iff)

lemma trail_last: "trail (qs @ [q]) \<Longrightarrow> qs \<noteq> [] \<Longrightarrow> trail qs \<and> pc_edge (last qs) q"
  by (auto simp: trail_def successively_append_iff)

lemma trail_length: "trail qs \<Longrightarrow> length qs \<le> pc_rank (last qs) + 1"
proof (induction qs rule: rev_induct)
  case (snoc q qs)
  show ?case
  proof (cases "qs = []")
    case False
    then have "length qs \<le> pc_rank (last qs) + 1" "pc_edge (last qs) q"
      using snoc trail_last by blast+
    then show ?thesis using pc_edge_rank by fastforce
  qed simp
qed (simp add: trail_def)

lemma trail_pred:
  assumes "trail qs" "last qs \<noteq> ST_CLAIMED"
  shows "\<exists>ps. qs = ps @ [last qs] \<and> trail ps \<and> pc_edge (last ps) (last qs)"
proof -
  obtain ps q where q: "qs = ps @ [q]" using assms(1) by (cases qs rule: rev_cases) (auto simp: trail_def)
  moreover have "ps \<noteq> []" using assms q by (auto simp: trail_def)
  ultimately show ?thesis using trail_last assms(1) by auto
qed

lemma no_edge_to: "pc_edge q ST_EFFECT_STARTED = False" "pc_edge q ST_CLAIMED = False"
  "pc_edge q ST_PREPARING \<longleftrightarrow> q = ST_CLAIMED" "pc_edge q ST_RESULT_OBSERVED \<longleftrightarrow> q = ST_PREPARING"
  "pc_edge q ST_COMPLETING \<longleftrightarrow> q = ST_RESULT_OBSERVED" "pc_edge q ST_TERMINAL_CONFIRMED \<longleftrightarrow> q = ST_COMPLETING"
  by (cases q; simp)+

lemma trail_claimed: "trail qs \<Longrightarrow> last qs = ST_CLAIMED \<Longrightarrow> qs = [ST_CLAIMED]"
  using trail_length [of qs] by (cases qs) (auto simp: trail_def)

lemma trail_effect_started: "trail qs \<Longrightarrow> last qs \<noteq> ST_EFFECT_STARTED"
  using trail_pred [of qs] no_edge_to(1) by (metis pc_state.distinct(3))

lemma trail_confirmed:
  assumes "trail qs" "last qs = ST_TERMINAL_CONFIRMED"
  shows "qs = [ST_CLAIMED, ST_PREPARING, ST_RESULT_OBSERVED, ST_COMPLETING, ST_TERMINAL_CONFIRMED]"
proof -
  obtain p1 where p1: "qs = p1 @ [ST_TERMINAL_CONFIRMED]" "trail p1" "last p1 = ST_COMPLETING"
    using trail_pred [OF assms(1)] assms(2) by (auto simp: no_edge_to)
  obtain p2 where p2: "p1 = p2 @ [ST_COMPLETING]" "trail p2" "last p2 = ST_RESULT_OBSERVED"
    using trail_pred [OF p1(2)] p1(3) by (auto simp: no_edge_to)
  obtain p3 where p3: "p2 = p3 @ [ST_RESULT_OBSERVED]" "trail p3" "last p3 = ST_PREPARING"
    using trail_pred [OF p2(2)] p2(3) by (auto simp: no_edge_to)
  obtain p4 where p4: "p3 = p4 @ [ST_PREPARING]" "trail p4" "last p4 = ST_CLAIMED"
    using trail_pred [OF p3(2)] p3(3) by (auto simp: no_edge_to)
  show ?thesis using trail_claimed [OF p4(2,3)] p1(1) p2(1) p3(1) p4(1) by simp
qed

section \<open>Events\<close>

definition event_material :: "event_row \<Rightarrow> string" where
  "event_material e = domain_material JOURNAL_EVENT_DOMAIN (event_fields e)"

lemma event_domain: "JOURNAL_EVENT_DOMAIN \<noteq> []" "line_feed \<notin> set JOURNAL_EVENT_DOMAIN"
  "carriage_return \<notin> set JOURNAL_EVENT_DOMAIN"
  by (simp_all add: JOURNAL_EVENT_DOMAIN_def line_feed_def carriage_return_def char_of_def)

lemma event_digest_eq: "event_digest e = Inr (sha256_hexdigest (event_material e))"
proof -
  have "sha256_domain_text_tuple JOURNAL_EVENT_DOMAIN (event_fields e) = Inr (sha256_hexdigest (event_material e))"
    unfolding domain_digest_iff event_material_def using event_domain by blast
  then show ?thesis by (simp add: event_digest_def)
qed

lemma event_fields_inj:
  "event_fields e = event_fields e' \<Longrightarrow> ev_event_digest e = ev_event_digest e' \<Longrightarrow> e = e'"
  by (simp add: event_fields_def show_int_inj)

lemma event_material_inj: "event_material e = event_material e' \<longleftrightarrow> event_fields e = event_fields e'"
  unfolding event_material_def using domain_material_inj [OF event_domain(2) event_domain(2)] by blast

definition sealed :: "event_row \<Rightarrow> event_row" where
  "sealed e = e\<lparr>ev_event_digest := sha256_hexdigest (event_material e)\<rparr>"

lemma sealed_simps [simp]:
  "ev_event_digest (sealed e) = sha256_hexdigest (event_material e)" "event_material (sealed e) = event_material e"
  "event_key (sealed e) = event_key e" "ev_event_sequence (sealed e) = ev_event_sequence e"
  "ev_predecessor (sealed e) = ev_predecessor e" "ev_event_type (sealed e) = ev_event_type e"
  "ev_committed_state (sealed e) = ev_committed_state e"
  by (simp_all add: sealed_def event_material_def event_fields_def)

fun sound_events :: "string \<Rightarrow> int \<Rightarrow> event_row list \<Rightarrow> bool" where
  "sound_events p n [] \<longleftrightarrow> True"
| "sound_events p n (e # es) \<longleftrightarrow> ev_event_sequence e = n \<and> ev_predecessor e = p \<and>
     ev_event_digest e = sha256_hexdigest (event_material e) \<and> sound_events (ev_event_digest e) (n + 1) es"

lemma sound_append:
  "sound_events p n (es @ [e]) \<longleftrightarrow> sound_events p n es \<and> ev_event_sequence e = n + int (length es) \<and>
     ev_predecessor e = chain_head ev_event_digest p es \<and> ev_event_digest e = sha256_hexdigest (event_material e)"
  by (induction es arbitrary: p n) auto

lemma sound_chained: "sound_events p n es \<Longrightarrow> chained ev_predecessor ev_event_digest event_material p es"
  by (induction es arbitrary: p n) auto

lemma sound_sequences: "sound_events p n es \<Longrightarrow> \<forall>e\<in>set es. n \<le> ev_event_sequence e"
  by (induction es arbitrary: p n) fastforce+

lemma sound_sorted: "sound_events p n es \<Longrightarrow> sorted (map ev_event_sequence es)"
  using sound_sequences by (induction es arbitrary: p n) fastforce+

lemma check_events_iff:
  "check_events p n es = Inr h \<longleftrightarrow> sound_events p n es \<and> h = chain_head ev_event_digest p es"
  by (induction es arbitrary: p n) (auto simp: result_simps event_digest_eq)

text \<open>An unsorted read of an attempt's events in insertion order.\<close>

definition own_events :: "string \<times> string \<Rightarrow> pc_journal \<Rightarrow> event_row list" where
  "own_events k J = filter (\<lambda>e. event_key e = k) (pj_events J)"

lemma own_events_sorted: "sound_events p n (own_events k J) \<Longrightarrow> attempt_events k J = own_events k J"
  using sound_sorted by (auto simp: attempt_events_def own_events_def intro: sort_key_id_if_sorted)

section \<open>What a step does\<close>

datatype pc_call =
    PC_claim attempt_identity event_input
  | PC_prepare attempt_identity event_input
  | PC_effect_start attempt_identity event_input
  | PC_result attempt_identity string event_input
  | PC_recovery attempt_identity event_input
  | PC_submit attempt_identity string string string event_input
  | PC_confirm attempt_identity string string event_input
  | PC_abandon attempt_identity event_input

text \<open>The atomic steps; a readback confirmation is its transition, whatever was checked before.\<close>

fun pc_exec :: "pc_journal \<Rightarrow> pc_call \<Rightarrow> (pc_error, attempt_row \<times> pc_journal) result" where
  "pc_exec J (PC_claim i x) = record_claim J i x"
| "pc_exec J (PC_prepare i x) = start_preparation J i x"
| "pc_exec J (PC_effect_start i x) = commit_effect_start J i x"
| "pc_exec J (PC_result i d x) = record_result J i d x"
| "pc_exec J (PC_recovery i x) = require_recovery J i x"
| "pc_exec J (PC_submit i a b c x) = submit_completion J i a b c x"
| "pc_exec J (PC_confirm i a b x) = confirm_transition J i a b x"
| "pc_exec J (PC_abandon i x) = abandon J i x"

inductive pc_step :: "pc_journal \<Rightarrow> pc_call \<Rightarrow> pc_journal \<Rightarrow> bool" where
  step_pc: "pc_exec J c = Inr (p, J') \<Longrightarrow> pc_step J c J'"

inductive_cases pc_stepE: "pc_step J c J'"

definition claim_event :: "attempt_identity \<Rightarrow> event_input \<Rightarrow> event_row" where
  "claim_event i x = sealed (new_event i x 1 ZERO_SHA256 (pc_event_value EV_CLAIM_RECORDED) ''NONE'' (pc_state_value ST_CLAIMED))"

definition move_event :: "attempt_row \<Rightarrow> event_input \<Rightarrow> pc_state \<Rightarrow> pc_state \<Rightarrow> event_row" where
  "move_event row x cur q = sealed (new_event (at_identity row) x (at_state_version row + 1) (at_last_event_digest row)
     (pc_event_value (event_for q)) (pc_state_value cur) (pc_state_value q))"

inductive pc_effect :: "pc_journal \<Rightarrow> pc_journal \<Rightarrow> bool" where
  pce_same: "pc_effect J J"
| pce_claim: "attempt_at (attempt_key row) J = None \<Longrightarrow> validate_identity (at_identity row) = Inr () \<Longrightarrow>
     at_local_state row = pc_state_value ST_CLAIMED \<Longrightarrow> at_state_version row = 1 \<Longrightarrow>
     at_last_event_digest row = ev_event_digest (claim_event (at_identity row) x) \<Longrightarrow>
     pc_effect J (J\<lparr>pj_attempts := pj_attempts J @ [row], pj_events := pj_events J @ [claim_event (at_identity row) x]\<rparr>)"
| pce_move: "attempt_at (attempt_key row) J = Some row \<Longrightarrow> at_local_state row = pc_state_value cur \<Longrightarrow>
     pc_edge cur q \<Longrightarrow> at_identity row' = at_identity row \<Longrightarrow> at_local_state row' = pc_state_value q \<Longrightarrow>
     at_state_version row' = at_state_version row + 1 \<Longrightarrow>
     at_last_event_digest row' = ev_event_digest (move_event row x cur q) \<Longrightarrow>
     pc_effect J (J\<lparr>pj_attempts := upd_row attempt_key (attempt_key row) (\<lambda>_. row') (pj_attempts J),
       pj_events := pj_events J @ [move_event row x cur q]\<rparr>)"

lemma transition_result:
  assumes "pc_transition J i allowed et q x u = Inr (p, J')"
  shows "\<exists>row cur. attempt_at (attempt_key row) J = Some row \<and> at_identity row = i \<and> validate_identity i = Inr () \<and>
    at_local_state row = pc_state_value cur \<and> cur \<in> allowed \<and>
    p = row\<lparr>at_local_state := pc_state_value q, at_state_version := at_state_version row + 1,
                at_last_event_id := in_event_id x, at_last_event_digest := at_last_event_digest p,
                at_result_digest := or_old (up_result_digest u) (at_result_digest row),
                at_terminal_receipt_id := or_old (up_receipt_id u) (at_terminal_receipt_id row),
                at_terminal_receipt_digest := or_old (up_receipt_digest u) (at_terminal_receipt_digest row),
                at_server_request_id := or_old (up_request_id u) (at_server_request_id row),
                at_server_readback_receipt_id := or_old (up_readback_id u) (at_server_readback_receipt_id row),
                at_server_readback_digest := or_old (up_readback_digest u) (at_server_readback_digest row),
                at_server_time_anchor := in_time_anchor x, at_local_monotonic_ns := in_monotonic_ns x,
                at_updated_at := in_record_time x\<rparr> \<and>
    (et = event_for q \<longrightarrow> at_last_event_digest p = ev_event_digest (move_event row x cur q) \<and>
      J' = J\<lparr>pj_attempts := upd_row attempt_key (attempt_key row) (\<lambda>_. p) (pj_attempts J),
             pj_events := pj_events J @ [move_event row x cur q]\<rparr>)"
proof -
  from assms obtain row where row: "attempt_at (ai_job_id i, ai_attempt_id i) J = Some row" "at_identity row = i"
    by (auto simp: pc_transition_def result_simps)
  from assms row obtain cur where cur: "pc_state_of (at_local_state row) = Some cur" "cur \<in> allowed"
    by (auto simp: pc_transition_def result_simps)
  show ?thesis
    using assms row cur pc_state_of_Some [OF cur(1)]
    by (intro exI [of _ row] exI [of _ cur])
      (auto simp: pc_transition_def result_simps Let_def event_digest_eq insert_event_def projection_from_row_def
        move_event_def sealed_def)
qed

lemma valid_effect_free: "validate_identity i = Inr () \<Longrightarrow> ai_side_effect_class i = ''NONE''"
  by (auto simp: validate_identity_def result_simps)

lemma transition_effect:
  assumes "pc_transition J i allowed et q x u = Inr (p, J')" "et = event_for q" "\<And>cur. cur \<in> allowed \<Longrightarrow> pc_edge cur q"
  shows "pc_effect J J'"
proof -
  obtain row cur where r: "attempt_at (attempt_key row) J = Some row" "at_local_state row = pc_state_value cur" "cur \<in> allowed"
    "at_identity p = at_identity row" "at_local_state p = pc_state_value q" "at_state_version p = at_state_version row + 1"
    "at_last_event_digest p = ev_event_digest (move_event row x cur q)"
    and J': "J' = J\<lparr>pj_attempts := upd_row attempt_key (attempt_key row) (\<lambda>_. p) (pj_attempts J),
             pj_events := pj_events J @ [move_event row x cur q]\<rparr>"
  proof -
    obtain row cur where t: "attempt_at (attempt_key row) J = Some row" "at_identity row = i" "at_local_state row = pc_state_value cur"
      "cur \<in> allowed" and p: "p = row\<lparr>at_local_state := pc_state_value q, at_state_version := at_state_version row + 1,
                at_last_event_id := in_event_id x, at_last_event_digest := at_last_event_digest p,
                at_result_digest := or_old (up_result_digest u) (at_result_digest row),
                at_terminal_receipt_id := or_old (up_receipt_id u) (at_terminal_receipt_id row),
                at_terminal_receipt_digest := or_old (up_receipt_digest u) (at_terminal_receipt_digest row),
                at_server_request_id := or_old (up_request_id u) (at_server_request_id row),
                at_server_readback_receipt_id := or_old (up_readback_id u) (at_server_readback_receipt_id row),
                at_server_readback_digest := or_old (up_readback_digest u) (at_server_readback_digest row),
                at_server_time_anchor := in_time_anchor x, at_local_monotonic_ns := in_monotonic_ns x,
                at_updated_at := in_record_time x\<rparr>"
      and d: "at_last_event_digest p = ev_event_digest (move_event row x cur q)"
      "J' = J\<lparr>pj_attempts := upd_row attempt_key (attempt_key row) (\<lambda>_. p) (pj_attempts J),
             pj_events := pj_events J @ [move_event row x cur q]\<rparr>"
      using transition_result [OF assms(1)] assms(2) by blast
    have "at_identity p = at_identity row \<and> at_local_state p = pc_state_value q \<and> at_state_version p = at_state_version row + 1"
      by (subst (1 2 3) p) simp
    then show ?thesis using that t d by blast
  qed
  show ?thesis unfolding J' by (rule pce_move [OF r(1,2) assms(3) [OF r(3)] r(4-7)])
qed

lemma claim_effect:
  assumes "record_claim J i x = Inr (p, J')"
  shows "pc_effect J J'"
proof (cases "attempt_at (ai_job_id i, ai_attempt_id i) J")
  case None
  define row where "row = \<lparr>at_identity = i, at_local_state = pc_state_value ST_CLAIMED, at_state_version = 1,
                     at_last_event_id = in_event_id x, at_last_event_digest = ev_event_digest (claim_event i x),
                     at_result_digest = ZERO_SHA256, at_terminal_receipt_id = ZERO_UUID,
                     at_terminal_receipt_digest = ZERO_SHA256, at_server_request_id = ZERO_UUID,
                     at_server_readback_receipt_id = ZERO_UUID, at_server_readback_digest = ZERO_SHA256,
                     at_server_time_anchor = in_time_anchor x, at_local_monotonic_ns = in_monotonic_ns x,
                     at_created_at = in_record_time x, at_updated_at = in_record_time x\<rparr>"
  have J': "J' = J\<lparr>pj_attempts := pj_attempts J @ [row], pj_events := pj_events J @ [claim_event (at_identity row) x]\<rparr>"
    and v: "validate_identity i = Inr ()"
    using assms None
    by (auto simp: record_claim_def result_simps Let_def event_digest_eq insert_event_def claim_event_def sealed_def row_def)
  show ?thesis unfolding J' by (rule pce_claim) (use None v in \<open>simp_all add: row_def\<close>)
next
  case (Some row)
  then show ?thesis using assms by (auto simp: record_claim_def result_simps intro: pce_same)
qed

lemma step_pc_effect: "pc_step J c J' \<Longrightarrow> pc_effect J J'"
proof (erule pc_stepE)
  fix p assume e: "pc_exec J c = Inr (p, J')"
  show "pc_effect J J'"
  proof (cases c)
    case (PC_claim i x)
    then show ?thesis using e claim_effect by simp
  next
    case (PC_prepare i x)
    then show ?thesis using e by (auto simp: start_preparation_def intro: transition_effect)
  next
    case (PC_effect_start i x)
    then have "ai_side_effect_class i \<noteq> ''NONE''"
      and t: "pc_transition J i {ST_PREPARING} EV_EFFECT_START_COMMITTED ST_EFFECT_STARTED x no_updates = Inr (p, J')"
      using e by (auto simp: commit_effect_start_def result_simps)
    moreover have "validate_identity i = Inr ()" using transition_result [OF t] by blast
    ultimately show ?thesis using valid_effect_free by blast
  next
    case (PC_result i d x)
    then obtain A u where A: "A = (if ai_side_effect_class i = ''NONE'' then {ST_PREPARING} else {ST_EFFECT_STARTED, ST_RECOVERY_REQUIRED})"
      and t: "pc_transition J i A EV_RESULT_RECORDED ST_RESULT_OBSERVED x u = Inr (p, J')"
      using e by (auto simp: record_result_def result_simps)
    moreover have "validate_identity i = Inr ()" using transition_result [OF t] by blast
    ultimately show ?thesis using valid_effect_free by (intro transition_effect [OF t]) auto
  next
    case (PC_recovery i x)
    then show ?thesis using e by (auto simp: require_recovery_def intro: transition_effect)
  next
    case (PC_submit i a b d x)
    then show ?thesis using e by (auto simp: submit_completion_def result_simps intro: transition_effect)
  next
    case (PC_confirm i a b x)
    then show ?thesis using e by (auto simp: confirm_transition_def intro: transition_effect)
  next
    case (PC_abandon i x)
    have "pc_edge cur ST_ABANDONED" if "cur \<in> set pc_states - set TERMINAL_STATES" for cur
      using that by (cases cur) (auto simp: TERMINAL_STATES_def)
    then show ?thesis using e PC_abandon by (auto simp: abandon_def intro: transition_effect)
  qed
qed

section \<open>The invariant\<close>

definition attempt_ok :: "attempt_row \<Rightarrow> event_row list \<Rightarrow> bool" where
  "attempt_ok a es \<longleftrightarrow> sound_events ZERO_SHA256 1 es \<and> at_state_version a = int (length es) \<and>
     at_last_event_digest a = chain_head ev_event_digest ZERO_SHA256 es \<and>
     (\<exists>qs. trail qs \<and> at_local_state a = pc_state_value (last qs) \<and> map ev_committed_state es = map pc_state_value qs \<and>
       map ev_event_type es = map (\<lambda>q. pc_event_value (event_for q)) qs)"

definition pc_ok :: "pc_journal \<Rightarrow> bool" where
  "pc_ok J \<longleftrightarrow> distinct_keys attempt_key (pj_attempts J) \<and>
     (\<forall>e\<in>set (pj_events J). attempt_at (event_key e) J \<noteq> None) \<and>
     (\<forall>k a. attempt_at k J = Some a \<longrightarrow> attempt_ok a (own_events k J))"

lemma pc_okD: "pc_ok J \<Longrightarrow> attempt_at k J = Some a \<Longrightarrow> attempt_ok a (own_events k J)"
  unfolding pc_ok_def by blast

lemma claim_ok: "attempt_ok row [claim_event (at_identity row) x]"
  if "at_local_state row = pc_state_value ST_CLAIMED" "at_state_version row = 1"
    "at_last_event_digest row = ev_event_digest (claim_event (at_identity row) x)"
proof -
  have "trail [ST_CLAIMED]" by (simp add: trail_def)
  then show ?thesis using that unfolding attempt_ok_def
    by (auto simp: claim_event_def new_event_def sealed_def event_material_def event_fields_def
        intro!: exI [of _ "[ST_CLAIMED]"])
qed

lemma move_ok:
  assumes "attempt_ok row es" "at_local_state row = pc_state_value cur" "pc_edge cur q"
    "at_local_state row' = pc_state_value q" "at_state_version row' = at_state_version row + 1"
    "at_last_event_digest row' = ev_event_digest (move_event row x cur q)"
  shows "attempt_ok row' (es @ [move_event row x cur q])"
proof -
  obtain qs where qs: "trail qs" "at_local_state row = pc_state_value (last qs)" "map ev_committed_state es = map pc_state_value qs"
    "map ev_event_type es = map (\<lambda>q. pc_event_value (event_for q)) qs" and es: "sound_events ZERO_SHA256 1 es"
    "at_state_version row = int (length es)" "at_last_event_digest row = chain_head ev_event_digest ZERO_SHA256 es"
    using assms(1) by (auto simp: attempt_ok_def)
  have "trail (qs @ [q])" using qs(1,2) assms(2,3) by (intro trail_append) simp_all
  moreover have "ev_committed_state (move_event row x cur q) = pc_state_value q"
    "ev_event_type (move_event row x cur q) = pc_event_value (event_for q)"
    by (simp_all add: move_event_def new_event_def)
  moreover have "sound_events ZERO_SHA256 1 (es @ [move_event row x cur q])"
    using es by (simp add: sound_append) (simp add: move_event_def new_event_def)
  ultimately show ?thesis using qs assms(4-6) es(2) unfolding attempt_ok_def
    by (auto intro!: exI [of _ "qs @ [q]"])
qed

lemma effect_pc_ok:
  assumes "pc_effect J J'" "pc_ok J"
  shows "pc_ok J'"
  using assms(1)
proof cases
  case pce_same
  then show ?thesis using assms(2) by simp
next
  case (pce_claim row x)
  let ?e = "claim_event (at_identity row) x"
  have key: "event_key ?e = attempt_key row" by (simp add: claim_event_def new_event_def)
  have "own_events (attempt_key row) J = []"
    using assms(2) pce_claim(2) unfolding pc_ok_def own_events_def filter_empty_conv by metis
  then have own: "own_events k J' = (if k = attempt_key row then [?e] else own_events k J)" for k
    using key pce_claim(1) by (auto simp: own_events_def)
  have at: "attempt_at k J' = (if k = attempt_key row then Some row else attempt_at k J)" for k
    using pce_claim(1,2) by (auto simp: row_of_append split: option.splits)
  have "distinct_keys attempt_key (pj_attempts J')"
    using assms(2) pce_claim(1,2) by (simp add: pc_ok_def distinct_keys_append)
  moreover have "\<forall>e\<in>set (pj_events J'). attempt_at (event_key e) J' \<noteq> None"
    unfolding at using assms(2) key pce_claim(1) by (simp add: pc_ok_def)
  moreover have "attempt_ok a (own_events k J')" if "attempt_at k J' = Some a" for k a
    using that pc_okD [OF assms(2), of k a] claim_ok [OF pce_claim(4-6)] unfolding at own by (simp split: if_splits)
  ultimately show ?thesis unfolding pc_ok_def by blast
next
  case (pce_move row cur q row' x)
  let ?e = "move_event row x cur q" and ?k = "attempt_key row"
  have key: "event_key ?e = ?k" by (simp add: move_event_def new_event_def)
  have own: "own_events k J' = (if k = ?k then own_events k J @ [?e] else own_events k J)" for k
    using key pce_move(1) by (auto simp: own_events_def)
  have at: "attempt_at k J' = (if k = ?k then Some row' else attempt_at k J)" for k
    using pce_move(1,2,5) by (auto simp: row_of_upd)
  have "distinct_keys attempt_key (pj_attempts J')"
  proof -
    have "map attempt_key (pj_attempts J') = map attempt_key (pj_attempts J)"
      using pce_move(1,5) by (auto simp: upd_row_def)
    then show ?thesis using assms(2) unfolding pc_ok_def distinct_keys_def by metis
  qed
  moreover have "attempt_ok row' (own_events ?k J @ [?e])"
    using assms(2) pce_move by (intro move_ok [of row]) (auto simp: pc_ok_def)
  moreover have "\<forall>e\<in>set (pj_events J'). attempt_at (event_key e) J' \<noteq> None"
    unfolding at using assms(2) key pce_move(1) by (simp add: pc_ok_def)
  moreover have "attempt_ok a (own_events k J')" if "attempt_at k J' = Some a" for k a
    using that pc_okD [OF assms(2), of k a] calculation(2) unfolding at own by (simp split: if_splits)
  ultimately show ?thesis unfolding pc_ok_def by blast
qed

lemma pc_step_ok: "pc_step J c J' \<Longrightarrow> pc_ok J \<Longrightarrow> pc_ok J'"
  using step_pc_effect effect_pc_ok by blast

lemma pc_run_ok: "runs pc_step J cs J' \<Longrightarrow> pc_ok J \<Longrightarrow> pc_ok J'"
  by (rule runs_invariant [where I = pc_ok and step = pc_step]) (blast intro: pc_step_ok)+

definition empty_journal :: pc_journal where
  "empty_journal = \<lparr>pj_meta = None, pj_attempts = [], pj_events = []\<rparr>"

lemma open_empty: "open_pc_journal path empty_journal =
    (Inr (), empty_journal\<lparr>pj_meta := Some (JOURNAL_SCHEMA, vp_root_alias path, vp_receipt path)\<rparr>)"
  by (simp add: open_pc_journal_def initialize_def empty_journal_def verify_integrity_def)

lemma opened_ok: "open_pc_journal path empty_journal = (Inr (), J) \<Longrightarrow> pc_ok J"
  unfolding open_empty by (auto simp: pc_ok_def empty_journal_def distinct_keys_def)

lemma effect_meta: "pc_effect J J' \<Longrightarrow> pj_meta J' = pj_meta J"
  by (erule pc_effect.cases) auto

lemma run_meta: "runs pc_step J cs J' \<Longrightarrow> pj_meta J' = pj_meta J"
  by (induction rule: runs.induct) (auto dest: step_pc_effect effect_meta)

lemma rmap_units: "(\<And>x. x \<in> set xs \<Longrightarrow> f x = Inr ()) \<Longrightarrow> \<exists>ys. rmap_list f xs = Inr ys"
  by (induction xs) auto

lemma pc_ok_verifies:
  assumes "pc_ok J"
  shows "verify_integrity J = Inr ()"
proof -
  have "check_attempt J a = Inr ()" if mem: "a \<in> set (pj_attempts J)" for a
  proof -
    have "attempt_at (attempt_key a) J = Some a" using assms mem row_of_member by (auto simp: pc_ok_def)
    then have ok: "attempt_ok a (own_events (attempt_key a) J)" by (rule pc_okD [OF assms])
    obtain qs where qs: "trail qs" "at_local_state a = pc_state_value (last qs)"
      "map ev_committed_state (own_events (attempt_key a) J) = map pc_state_value qs"
      using ok by (auto simp: attempt_ok_def)
    then have ne: "own_events (attempt_key a) J \<noteq> []" "qs \<noteq> []" by (auto simp: trail_def)
    then have "ev_committed_state (last (own_events (attempt_key a) J)) = pc_state_value (last qs)"
      using qs(3) last_map by metis
    moreover have "attempt_events (attempt_key a) J = own_events (attempt_key a) J"
      using ok own_events_sorted by (auto simp: attempt_ok_def)
    moreover have "check_events ZERO_SHA256 1 (own_events (attempt_key a) J) = Inr (at_last_event_digest a)"
      using ok by (simp add: check_events_iff attempt_ok_def)
    ultimately show ?thesis
      using ok ne qs(2) by (simp add: check_attempt_def Let_def attempt_ok_def)
  qed
  then show ?thesis using rmap_units [of "pj_attempts J" "check_attempt J"] by (auto simp: verify_integrity_def)
qed

section \<open>Attempts as a status machine\<close>

definition attempt_status :: "pc_journal \<Rightarrow> string \<times> string \<Rightarrow> pc_state option" where
  "attempt_status J k = (case attempt_at k J of None \<Rightarrow> None | Some a \<Rightarrow> pc_state_of (at_local_state a))"

text \<open>What an effect does to the row of one attempt.\<close>

lemma effect_row_cases:
  assumes "pc_effect J J'"
  obtains "attempt_at k J' = attempt_at k J"
  | a where "attempt_at k J = None" "attempt_at k J' = Some a" "at_local_state a = pc_state_value ST_CLAIMED"
  | a a' q q' where "attempt_at k J = Some a" "attempt_at k J' = Some a'" "at_local_state a = pc_state_value q"
      "at_local_state a' = pc_state_value q'" "pc_edge q q'" "at_identity a' = at_identity a"
  using assms
proof cases
  case pce_same
  then show ?thesis using that(1) by simp
next
  case (pce_claim row x)
  then show ?thesis using that(1,2) by (cases "k = attempt_key row") (auto simp: row_of_append split: option.splits)
next
  case (pce_move row cur q row' x)
  have at: "attempt_at k J' = (if k = attempt_key row then Some row' else attempt_at k J)"
    using pce_move(1,2,5) by (auto simp: row_of_upd)
  show ?thesis
  proof (cases "k = attempt_key row")
    case True
    then show ?thesis using that(3) [of row row' cur q] pce_move at by simp
  qed (use that(1) at in simp)
qed

interpretation pc_machine: status_machine pc_step attempt_status pc_edge "\<lambda>q. q = ST_CLAIMED"
proof unfold_locales
  fix J c J' k q
  assume s: "pc_step J c J'" "attempt_status J k = None" "attempt_status J' k = Some q"
  from effect_row_cases [OF step_pc_effect [OF s(1)], of k] show "q = ST_CLAIMED"
    using s(2,3) by cases (auto simp: attempt_status_def simp del: pc_state_value.simps)
next
  fix J c J' k q
  assume s: "pc_step J c J'" "attempt_status J k = Some q"
  from effect_row_cases [OF step_pc_effect [OF s(1)], of k]
  show "\<exists>q'. attempt_status J' k = Some q' \<and> (q' = q \<or> pc_edge q q')"
    using s(2) by cases (auto simp: attempt_status_def split: option.splits)
qed

lemma run_identity:
  "runs pc_step J cs J' \<Longrightarrow> attempt_at k J = Some a \<Longrightarrow> \<exists>a'. attempt_at k J' = Some a' \<and> at_identity a' = at_identity a"
proof (induction arbitrary: a rule: runs.induct)
  case (runs_step J c T cs U)
  from effect_row_cases [OF step_pc_effect [OF runs_step.hyps(1)], of k]
  obtain b where "attempt_at k T = Some b" "at_identity b = at_identity a"
    using runs_step.prems by cases auto
  then show ?case using runs_step.IH [of b] by auto
qed simp

text \<open>Once an attempt has left a state it never comes back, so its row did not change meanwhile.\<close>

lemma run_same_state:
  "runs pc_step J cs J' \<Longrightarrow> attempt_at k J = Some a \<Longrightarrow> attempt_at k J' = Some a' \<Longrightarrow>
     at_local_state a = pc_state_value q \<Longrightarrow> at_local_state a' = pc_state_value q \<Longrightarrow> a' = a"
proof (induction rule: runs.induct)
  case (runs_step J c T cs U)
  from effect_row_cases [OF step_pc_effect [OF runs_step.hyps(1)], of k] show ?case
  proof cases
    case 1
    then show ?thesis using runs_step by auto
  next
    case 2
    then show ?thesis using runs_step.prems by simp
  next
    case (3 b b' q1 q2)
    then have "pc_edge q q2" "attempt_status T k = Some q2" using runs_step.prems(1,3) by (auto simp: attempt_status_def)
    moreover have "attempt_status U k = Some q" using runs_step.prems by (simp add: attempt_status_def)
    ultimately have "pc_rank q < pc_rank q2" "pc_rank q2 \<le> pc_rank q"
      using pc_machine.run_edges [OF runs_step.hyps(2), of k q2] pc_edges_rank pc_edge_rank by auto
    then show ?thesis by simp
  qed
qed simp

interpretation event_chain: digest_chain ev_predecessor ev_event_digest event_material "\<lambda>_. True"
  by unfold_locales (auto simp: event_material_inj event_fields_def)

lemma rmap_list_all: "rmap_list f xs = Inr ys \<Longrightarrow> x \<in> set xs \<Longrightarrow> \<exists>y. f x = Inr y"
  by (induction xs arbitrary: ys) (auto simp: result_simps)

lemma checked_attempt:
  assumes "verify_integrity J = Inr ()" "a \<in> set (pj_attempts J)"
  defines "es \<equiv> attempt_events (attempt_key a) J"
  shows "sound_events ZERO_SHA256 1 es" "at_state_version a = int (length es)"
    "at_last_event_digest a = chain_head ev_event_digest ZERO_SHA256 es" "at_local_state a = ev_committed_state (last es)"
proof -
  have "check_attempt J a = Inr ()"
    using assms(1,2) rmap_list_all [of "check_attempt J" "pj_attempts J"] by (auto simp: verify_integrity_def result_simps)
  then show "sound_events ZERO_SHA256 1 es" "at_state_version a = int (length es)"
    "at_last_event_digest a = chain_head ev_event_digest ZERO_SHA256 es" "at_local_state a = ev_committed_state (last es)"
    by (auto simp: check_attempt_def es_def Let_def result_simps check_events_iff)
qed

lemma sound_digest: "sound_events p n es \<Longrightarrow> e \<in> set es \<Longrightarrow> ev_event_digest e = sha256_hexdigest (event_material e)"
  by (induction es arbitrary: p n) auto

section \<open>The guarantees\<close>

text \<open>
  The journal accepts itself. Whatever sequence of operations ran since the journal was
  created, opening the file again under the same verified path succeeds: the identity
  matches, every event chain verifies and every projection agrees with its events.
\<close>

lemma pc_journal_reopens:
  assumes "open_pc_journal path empty_journal = (Inr (), J0)" "runs pc_step J0 cs J"
  shows "open_pc_journal path J = (Inr (), J)"
proof -
  have "verify_integrity J = Inr ()" by (rule pc_ok_verifies [OF pc_run_ok [OF assms(2) opened_ok [OF assms(1)]]])
  moreover have "pj_meta J = Some (JOURNAL_SCHEMA, vp_root_alias path, vp_receipt path)"
    using run_meta [OF assms(2)] assms(1) unfolding open_empty by auto
  ultimately show ?thesis by (simp add: open_pc_journal_def initialize_def)
qed

lemma attempt_ok_length:
  assumes "attempt_ok a es"
  shows "length es \<le> 6"
proof -
  obtain qs where "trail qs" "map ev_committed_state es = map pc_state_value qs" using assms by (auto simp: attempt_ok_def)
  then show ?thesis using trail_length [of qs] pc_rank_le [of "last qs"] map_eq_imp_length_eq by fastforce
qed

lemma sound_sequences_below: "sound_events p n es \<Longrightarrow> e \<in> set es \<Longrightarrow> ev_event_sequence e < n + int (length es)"
  by (induction es arbitrary: p n) fastforce+

lemma attempt_ok_sequences: "attempt_ok a es \<Longrightarrow> e \<in> set es \<Longrightarrow> ev_event_sequence e \<noteq> at_state_version a + 1"
  using sound_sequences_below [of ZERO_SHA256 1 es e] by (auto simp: attempt_ok_def)

text \<open>
  The events tell the whole story. In every reachable journal the event types of an
  attempt are those of a path of its states, at most six of them; an attempt whose terminal
  readback was confirmed has exactly the events claim, preparation, result, completion and
  confirmation; and no attempt has ever committed the start of an effect.
\<close>

lemma attempt_history_exact:
  assumes "open_pc_journal path empty_journal = (Inr (), J0)" "runs pc_step J0 cs J"
    and "attempt_at k J = Some a"
  shows "length (attempt_events k J) \<le> 6 \<and> at_local_state a \<noteq> ''EFFECT_STARTED'' \<and>
    (at_local_state a = ''TERMINAL_CONFIRMED'' \<longrightarrow> map ev_event_type (attempt_events k J) =
      [''CLAIM_RECORDED'', ''PREPARATION_STARTED'', ''RESULT_RECORDED'', ''COMPLETION_SUBMITTED'', ''TERMINAL_READBACK_CONFIRMED''])"
proof -
  have ok: "attempt_ok a (own_events k J)"
    by (rule pc_okD [OF pc_run_ok [OF assms(2) opened_ok [OF assms(1)]] assms(3)])
  then have same: "attempt_events k J = own_events k J" by (intro own_events_sorted [where p = ZERO_SHA256 and n = 1]) (simp add: attempt_ok_def)
  obtain qs where qs: "trail qs" "at_local_state a = pc_state_value (last qs)"
    "map ev_committed_state (own_events k J) = map pc_state_value qs"
    "map ev_event_type (own_events k J) = map (\<lambda>q. pc_event_value (event_for q)) qs"
    using ok by (auto simp: attempt_ok_def)
  have "length (own_events k J) = length qs" using qs(3) map_eq_imp_length_eq by blast
  then have "length (own_events k J) \<le> 6"
    using trail_length [OF qs(1)] pc_rank_le [of "last qs"] by linarith
  moreover have "at_local_state a \<noteq> pc_state_value ST_EFFECT_STARTED"
    using qs(2) trail_effect_started [OF qs(1)] by (simp del: pc_state_value.simps)
  moreover have "map ev_event_type (own_events k J) =
      [''CLAIM_RECORDED'', ''PREPARATION_STARTED'', ''RESULT_RECORDED'', ''COMPLETION_SUBMITTED'', ''TERMINAL_READBACK_CONFIRMED'']"
    if "at_local_state a = pc_state_value ST_TERMINAL_CONFIRMED"
  proof -
    have "last qs = ST_TERMINAL_CONFIRMED" using that qs(2) by (simp del: pc_state_value.simps)
    then show ?thesis using trail_confirmed [OF qs(1)] qs(4) by simp
  qed
  ultimately show ?thesis by (simp add: same)
qed

text \<open>
  Phase one never starts an effect. \<^verbatim>\<open>commit_effect_start\<close> raises for every
  identity on every journal, because an identity that passes validation has side-effect
  class \<^verbatim>\<open>NONE\<close>.
\<close>

lemma effect_start_refused: "isl (commit_effect_start J i x)"
proof (cases "commit_effect_start J i x")
  case (Inr r)
  obtain p J' where r: "r = (p, J')" by (cases r)
  have "ai_side_effect_class i \<noteq> ''NONE''"
    and t: "pc_transition J i {ST_PREPARING} EV_EFFECT_START_COMMITTED ST_EFFECT_STARTED x no_updates = Inr (p, J')"
    using Inr r by (auto simp: commit_effect_start_def result_simps)
  then show ?thesis using transition_result [OF t] valid_effect_free by blast
qed simp

lemma move_enabled:
  assumes "pc_ok J" "attempt_at (attempt_key a) J = Some a" "at_local_state a = pc_state_value cur" "cur \<in> A"
    and "validate_identity (at_identity a) = Inr ()" "validate_event_inputs x = Inr ()"
    and "in_event_id x \<notin> ev_local_event_id ` set (pj_events J)"
  shows "\<exists>p J'. pc_transition J (at_identity a) A et q x u = Inr (p, J') \<and> attempt_at (attempt_key a) J' = Some p \<and>
    at_identity p = at_identity a \<and> at_local_state p = pc_state_value q \<and>
    at_result_digest p = or_old (up_result_digest u) (at_result_digest a) \<and>
    at_terminal_receipt_digest p = or_old (up_receipt_digest u) (at_terminal_receipt_digest a) \<and>
    ev_local_event_id ` set (pj_events J') = insert (in_event_id x) (ev_local_event_id ` set (pj_events J))"
proof -
  let ?k = "attempt_key a"
  define e where "e = new_event (at_identity a) x (at_state_version a + 1) (at_last_event_digest a) (pc_event_value et)
    (pc_state_value cur) (pc_state_value q)"
  have ok: "attempt_ok a (own_events ?k J)" by (rule pc_okD [OF assms(1,2)])
  then have "at_state_version a = int (length (own_events ?k J))" "length (own_events ?k J) \<le> 6"
    using attempt_ok_length by (auto simp: attempt_ok_def)
  then have fits: "fits64 (at_state_version a + 1)" by (simp add: fits64_def)
  have "(event_key y, ev_event_sequence y) \<noteq> (?k, at_state_version a + 1)" if "y \<in> set (pj_events J)" for y
    using attempt_ok_sequences [OF ok, of y] that by (auto simp: own_events_def)
  then have fresh: "(?k, at_state_version a + 1) \<notin> (\<lambda>y. (event_key y, ev_event_sequence y)) ` set (pj_events J)"
    by force
  have "insert_event (e\<lparr>ev_event_digest := d\<rparr>) (J\<lparr>pj_attempts := rows\<rparr>) =
      Inr (J\<lparr>pj_attempts := rows, pj_events := pj_events J @ [e\<lparr>ev_event_digest := d\<rparr>]\<rparr>)" for d rows
    using assms(7) fresh by (simp add: insert_event_def e_def new_event_def)
  then have "\<exists>p. pc_transition J (at_identity a) A et q x u = Inr (p, J\<lparr>pj_attempts := upd_row attempt_key ?k (\<lambda>_. p) (pj_attempts J),
       pj_events := pj_events J @ [e\<lparr>ev_event_digest := sha256_hexdigest (event_material e)\<rparr>]\<rparr>) \<and>
      at_identity p = at_identity a \<and> at_local_state p = pc_state_value q \<and>
      at_result_digest p = or_old (up_result_digest u) (at_result_digest a) \<and>
      at_terminal_receipt_digest p = or_old (up_receipt_digest u) (at_terminal_receipt_digest a)"
    using assms(2-6) fits
    by (simp add: pc_transition_def event_digest_eq projection_from_row_def Let_def flip: e_def)
  moreover have "ev_local_event_id (e\<lparr>ev_event_digest := d\<rparr>) = in_event_id x" for d
    by (simp add: e_def new_event_def)
  ultimately show ?thesis using assms(2) by (force simp: row_of_upd)
qed

text \<open>
  C37: Legal moves are never refused. On every journal that satisfies the
  invariant of the operations, a transition
  of a recorded attempt with valid event inputs and a fresh event id succeeds exactly when
  the attempt is in one of the allowed states: no constraint of the tables and no counter
  can stop it. It leaves the attempt in the committed state.
\<close>

theorem legal_move_succeeds:
  assumes "pc_ok J" "attempt_at (attempt_key a) J = Some a" "at_local_state a = pc_state_value cur"
    and "validate_identity (at_identity a) = Inr ()" "validate_event_inputs x = Inr ()"
    and "in_event_id x \<notin> ev_local_event_id ` set (pj_events J)"
  shows "(\<exists>p J'. pc_transition J (at_identity a) A et q x u = Inr (p, J') \<and> attempt_at (attempt_key a) J' = Some p \<and>
      at_local_state p = pc_state_value q) \<longleftrightarrow> cur \<in> A"
proof
  assume "\<exists>p J'. pc_transition J (at_identity a) A et q x u = Inr (p, J') \<and> attempt_at (attempt_key a) J' = Some p \<and>
      at_local_state p = pc_state_value q"
  then show "cur \<in> A" using assms(2,3) by (auto simp: pc_transition_def result_simps)
qed (use move_enabled [OF assms(1-3)] assms(4-6) in blast)

text \<open>
  C30: A confirmation carries what was compared. When the checks of
  \<^verbatim>\<open>confirm_terminal_readback\<close> passed on one state of the journal and its transition
  commits on a later one, whatever other operations ran in between, the confirmed attempt
  has exactly the result and receipt digests the caller expected, and the identity named.
\<close>

theorem confirmation_not_raced:
  assumes "confirm_check J i rid rd er ec = Inr ()" "runs pc_step J cs J'"
    and "confirm_transition J' i rid rd x = Inr (p, J'')"
  shows "at_result_digest p = er \<and> at_terminal_receipt_digest p = ec \<and> at_identity p = i \<and>
    at_local_state p = ''TERMINAL_CONFIRMED''"
proof -
  obtain a where a: "attempt_at (ai_job_id i, ai_attempt_id i) J = Some a" "pc_state_of (at_local_state a) = Some ST_COMPLETING"
    "at_result_digest a = er" "at_terminal_receipt_digest a = ec"
    using assms(1)
    by (auto simp: confirm_check_def pc_get_def projection_from_row_def result_simps split: option.splits)
  obtain row where row: "attempt_at (attempt_key row) J' = Some row" "at_identity row = i"
    "at_local_state row = pc_state_value ST_COMPLETING"
    and p: "at_result_digest p = at_result_digest row \<and> at_terminal_receipt_digest p = at_terminal_receipt_digest row
      \<and> at_identity p = at_identity row \<and> at_local_state p = pc_state_value ST_TERMINAL_CONFIRMED"
  proof -
    obtain row where row: "attempt_at (attempt_key row) J' = Some row" "at_identity row = i"
      "at_local_state row = pc_state_value ST_COMPLETING"
      and p: "p = row\<lparr>at_local_state := pc_state_value ST_TERMINAL_CONFIRMED, at_state_version := at_state_version row + 1,
                at_last_event_id := in_event_id x, at_last_event_digest := at_last_event_digest p,
                at_result_digest := at_result_digest row, at_terminal_receipt_id := at_terminal_receipt_id row,
                at_terminal_receipt_digest := at_terminal_receipt_digest row, at_server_request_id := at_server_request_id row,
                at_server_readback_receipt_id := or_old (Some rid) (at_server_readback_receipt_id row),
                at_server_readback_digest := or_old (Some rd) (at_server_readback_digest row),
                at_server_time_anchor := in_time_anchor x, at_local_monotonic_ns := in_monotonic_ns x,
                at_updated_at := in_record_time x\<rparr>"
      using transition_result [OF assms(3) [unfolded confirm_transition_def]]
      by (auto simp: no_updates_def or_old_def)
    have "at_result_digest p = at_result_digest row \<and> at_terminal_receipt_digest p = at_terminal_receipt_digest row
      \<and> at_identity p = at_identity row \<and> at_local_state p = pc_state_value ST_TERMINAL_CONFIRMED"
      by (subst (1 2 3 4) p) simp
    then show ?thesis using that row by blast
  qed
  have "row = a"
    using run_same_state [OF assms(2) a(1) _ pc_state_of_Some [OF a(2)] row(3)] row(1,2) by simp
  then show ?thesis using a(3,4) p row(2) by simp
qed

text \<open>
  The last event digest commits to an attempt's events. If two journal files, however
  they came about, both pass the integrity check and each holds an attempt with the same
  state version and last event digest, then these attempts have the same events, row by row,
  and the same local state; otherwise two of the event materials they hold are an explicit
  SHA-256 collision.
\<close>

lemma pc_events_tamper_evident:
  assumes "verify_integrity J = Inr ()" "verify_integrity J' = Inr ()"
    and "a \<in> set (pj_attempts J)" "a' \<in> set (pj_attempts J')"
    and "at_state_version a = at_state_version a'" "at_last_event_digest a = at_last_event_digest a'"
  shows "attempt_events (attempt_key a) J = attempt_events (attempt_key a') J' \<and> at_local_state a = at_local_state a'
    \<or> (\<exists>n<length (attempt_events (attempt_key a) J).
        collides (event_material (attempt_events (attempt_key a) J ! n)) (event_material (attempt_events (attempt_key a') J' ! n)))"
proof -
  let ?es = "attempt_events (attempt_key a) J" and ?es' = "attempt_events (attempt_key a') J'"
  note c = checked_attempt [OF assms(1,3)] checked_attempt [OF assms(2,4)]
  have len: "length ?es = length ?es'" using c(2,6) assms(5) by simp
  have "map event_material ?es = map event_material ?es'
    \<or> (\<exists>n<length ?es. collides (event_material (?es ! n)) (event_material (?es' ! n)))"
    by (rule event_chain.same_head_same_material [OF sound_chained [OF c(1)] sound_chained [OF c(5)] len])
      (use c(3,7) assms(6) in simp_all)
  then show ?thesis
  proof
    assume eq: "map event_material ?es = map event_material ?es'"
    have "?es ! n = ?es' ! n" if n: "n < length ?es" for n
    proof -
      have "map event_material ?es ! n = map event_material ?es' ! n" by (simp only: eq)
      then have m: "event_material (?es ! n) = event_material (?es' ! n)" using n len by simp
      have "?es' ! n \<in> set ?es'" using n len by simp
      then have "ev_event_digest (?es ! n) = ev_event_digest (?es' ! n)"
        using sound_digest [OF c(1) nth_mem [OF n]] sound_digest [OF c(5)] m by simp
      then show ?thesis using event_fields_inj m event_material_inj by blast
    qed
    then have "?es = ?es'" using len nth_equalityI by blast
    then show ?thesis using c(4,8) by simp
  qed simp
qed

section \<open>A complete attempt\<close>

definition sample_identity :: attempt_identity where
  "sample_identity = \<lparr>ai_job_id = ''01890000-0000-7000-8000-000000000001'', ai_attempt_id = ''01890000-0000-7000-8000-000000000002'',
     ai_host_id = ''01890000-0000-7000-8000-000000000003'', ai_claim_generation = 1,
     ai_lease_id = ''01890000-0000-7000-8000-000000000004'', ai_lease_fence = 1, ai_job_digest = hex64 CHR ''a'',
     ai_authorization_id = ''01890000-0000-7000-8000-000000000005'', ai_authorization_revision = 1,
     ai_issuer_revocation_epoch = 0, ai_host_revocation_epoch = 0, ai_operation_id = ''PING'',
     ai_operation_version = 1, ai_retry_class = ''PURE_READ'', ai_side_effect_class = ''NONE''\<rparr>"

definition sample_input :: "char \<Rightarrow> event_input" where
  "sample_input c = \<lparr>in_event_id = ''01890000-0000-7000-9000-00000000000'' @ [c], in_payload_digest = hex64 CHR ''b'',
     in_time_anchor = [], in_monotonic_ns = 7, in_record_time = ''2026-02-28T23:59:59.000001Z''\<rparr>"

definition sample_path :: verified_path where
  "sample_path = \<lparr>vp_name = ''pccc_journal.sqlite3'', vp_root_alias = ''TEST_ONLY'', vp_receipt = hex64 CHR ''f''\<rparr>"

abbreviation sample_key :: "string \<times> string" where
  "sample_key \<equiv> (ai_job_id sample_identity, ai_attempt_id sample_identity)"

lemma sample_identity_valid: "validate_identity sample_identity = Inr ()"
  by code_simp

lemma sample_inputs:
  "validate_event_inputs (sample_input CHR ''1'') = Inr ()" "validate_event_inputs (sample_input CHR ''2'') = Inr ()"
  "validate_event_inputs (sample_input CHR ''3'') = Inr ()" "validate_event_inputs (sample_input CHR ''4'') = Inr ()"
  "validate_event_inputs (sample_input CHR ''5'') = Inr ()"
  by code_simp+

definition sample_start :: pc_journal where
  "sample_start = empty_journal\<lparr>pj_meta := Some (JOURNAL_SCHEMA, ''TEST_ONLY'', hex64 CHR ''f'')\<rparr>"

lemma sample_opened_journal: "open_pc_journal sample_path empty_journal = (Inr (), sample_start)"
  unfolding open_empty by (simp add: sample_start_def sample_path_def)

text \<open>A point of the sample run: the attempt's state, digests and the event ids used so far.\<close>

definition sample_point :: "pc_journal \<Rightarrow> pc_state \<Rightarrow> char set \<Rightarrow> string \<Rightarrow> string \<Rightarrow> bool" where
  "sample_point J q used result receipt \<longleftrightarrow> pc_ok J \<and>
     ev_local_event_id ` set (pj_events J) = (\<lambda>c. in_event_id (sample_input c)) ` used \<and>
     (\<exists>a. attempt_at sample_key J = Some a \<and> at_identity a = sample_identity \<and> at_local_state a = pc_state_value q \<and>
       at_result_digest a = result \<and> at_terminal_receipt_digest a = receipt)"

lemma sample_move:
  assumes "sample_point J cur used res rec" "cur \<in> A" "pc_edge cur q" "c \<notin> used"
    "validate_event_inputs (sample_input c) = Inr ()"
  shows "\<exists>p J'. pc_transition J sample_identity A (event_for q) q (sample_input c) u = Inr (p, J') \<and>
    sample_point J' q (insert c used) (or_old (up_result_digest u) res) (or_old (up_receipt_digest u) rec)"
proof -
  obtain a where ok: "pc_ok J" and ids: "ev_local_event_id ` set (pj_events J) = (\<lambda>c. in_event_id (sample_input c)) ` used"
    and a: "attempt_at sample_key J = Some a" "at_identity a = sample_identity" "at_local_state a = pc_state_value cur"
    "at_result_digest a = res" "at_terminal_receipt_digest a = rec"
    using assms(1) by (auto simp: sample_point_def)
  have fresh: "in_event_id (sample_input c) \<notin> ev_local_event_id ` set (pj_events J)"
    using assms(4) unfolding ids by (auto simp: sample_input_def)
  have key: "attempt_key a = sample_key" by (simp add: a(2))
  obtain p J' where t: "pc_transition J sample_identity A (event_for q) q (sample_input c) u = Inr (p, J')"
    "attempt_at sample_key J' = Some p" "at_identity p = sample_identity" "at_local_state p = pc_state_value q"
    "at_result_digest p = or_old (up_result_digest u) res" "at_terminal_receipt_digest p = or_old (up_receipt_digest u) rec"
    "ev_local_event_id ` set (pj_events J') = insert (in_event_id (sample_input c)) (ev_local_event_id ` set (pj_events J))"
    using move_enabled [OF ok _ a(3) assms(2) _ assms(5) fresh, of "event_for q" q u] a sample_identity_valid key by auto
  have "pc_ok J'"
  proof -
    have "pc_transition J sample_identity {cur} (event_for q) q (sample_input c) u = Inr (p, J')"
      using t(1) a assms(2) by (simp add: pc_transition_def Let_def)
    then show ?thesis using transition_effect assms(3) effect_pc_ok ok by blast
  qed
  then show ?thesis using t ids by (auto simp: sample_point_def)
qed

lemma sample_claimed:
  "\<exists>J. runs pc_step sample_start [PC_claim sample_identity (sample_input CHR ''1'')] J \<and>
     sample_point J ST_CLAIMED {CHR ''1''} ZERO_SHA256 ZERO_SHA256"
proof -
  obtain p J where c: "record_claim sample_start sample_identity (sample_input CHR ''1'') = Inr (p, J)"
    and J: "attempt_at sample_key J = Some p" "ev_local_event_id ` set (pj_events J) = {in_event_id (sample_input CHR ''1'')}"
      "at_identity p = sample_identity" "at_local_state p = pc_state_value ST_CLAIMED"
      "at_result_digest p = ZERO_SHA256" "at_terminal_receipt_digest p = ZERO_SHA256"
    by (simp add: record_claim_def sample_identity_valid sample_inputs event_digest_eq insert_event_def sample_start_def
        empty_journal_def projection_from_row_def Let_def new_event_def row_of_Cons flip: pc_state_value.simps)
  have run: "runs pc_step sample_start [PC_claim sample_identity (sample_input CHR ''1'')] J"
    by (rule runs_one [where step = pc_step], rule step_pc [of _ _ p]) (simp add: c)
  then have "pc_ok J" using pc_run_ok opened_ok [OF sample_opened_journal] by blast
  then show ?thesis using run J by (auto simp: sample_point_def)
qed

abbreviation sample_calls :: "pc_call list" where
  "sample_calls \<equiv> [PC_claim sample_identity (sample_input CHR ''1''), PC_prepare sample_identity (sample_input CHR ''2''),
     PC_result sample_identity (hex64 CHR ''d'') (sample_input CHR ''3''),
     PC_submit sample_identity ''01890000-0000-7000-8000-000000000001'' (hex64 CHR ''e'') ''01890000-0000-7000-8000-000000000001'' (sample_input CHR ''4'')]"

lemma sample_text: "uuid_v7 ''01890000-0000-7000-8000-000000000001'' f = Inr ''01890000-0000-7000-8000-000000000001''"
  "sha256_hex_field (hex64 CHR ''d'') f = Inr (hex64 CHR ''d'')" "sha256_hex_field (hex64 CHR ''e'') f = Inr (hex64 CHR ''e'')"
  by (simp_all add: uuid_v7_def canonical_uuid_text_def sha256_hex_field_def hex64_def list_all_iff upt_rec
      is_lower_hex_def is_digit_def)

lemma hex64_nonempty: "hex64 c \<noteq> []"
  by (simp add: hex64_def)

lemma sample_completing:
  "\<exists>J. runs pc_step sample_start sample_calls J \<and>
     sample_point J ST_COMPLETING {CHR ''1'', CHR ''2'', CHR ''3'', CHR ''4''} (hex64 CHR ''d'') (hex64 CHR ''e'')"
proof -
  obtain J1 where J1: "runs pc_step sample_start [PC_claim sample_identity (sample_input CHR ''1'')] J1"
    "sample_point J1 ST_CLAIMED {CHR ''1''} ZERO_SHA256 ZERO_SHA256" using sample_claimed by blast
  obtain p2 J2 where J2: "start_preparation J1 sample_identity (sample_input CHR ''2'') = Inr (p2, J2)"
    "sample_point J2 ST_PREPARING {CHR ''2'', CHR ''1''} ZERO_SHA256 ZERO_SHA256"
    using sample_move [OF J1(2), of "{ST_CLAIMED}" ST_PREPARING "CHR ''2''" no_updates] sample_inputs
    by (auto simp: start_preparation_def no_updates_def or_old_def)
  obtain p3 J3 where J3: "record_result J2 sample_identity (hex64 CHR ''d'') (sample_input CHR ''3'') = Inr (p3, J3)"
    "sample_point J3 ST_RESULT_OBSERVED {CHR ''3'', CHR ''2'', CHR ''1''} (hex64 CHR ''d'') ZERO_SHA256"
    using sample_move [OF J2(2), of "{ST_PREPARING}" ST_RESULT_OBSERVED "CHR ''3''" "no_updates\<lparr>up_result_digest := Some (hex64 CHR ''d'')\<rparr>"]
      sample_inputs valid_effect_free [OF sample_identity_valid]
    by (auto simp: record_result_def sample_text no_updates_def or_old_def hex64_nonempty)
  obtain p4 J4 where J4: "submit_completion J3 sample_identity ''01890000-0000-7000-8000-000000000001'' (hex64 CHR ''e'')
      ''01890000-0000-7000-8000-000000000001'' (sample_input CHR ''4'') = Inr (p4, J4)"
    "sample_point J4 ST_COMPLETING {CHR ''4'', CHR ''3'', CHR ''2'', CHR ''1''} (hex64 CHR ''d'') (hex64 CHR ''e'')"
    using sample_move [OF J3(2), of "{ST_RESULT_OBSERVED}" ST_COMPLETING "CHR ''4''"
        "no_updates\<lparr>up_receipt_id := Some ''01890000-0000-7000-8000-000000000001'', up_receipt_digest := Some (hex64 CHR ''e''),
            up_request_id := Some ''01890000-0000-7000-8000-000000000001''\<rparr>"] sample_inputs
    by (auto simp: submit_completion_def sample_text no_updates_def or_old_def hex64_nonempty)
  have s: "pc_step J1 (PC_prepare sample_identity (sample_input CHR ''2'')) J2"
    "pc_step J2 (PC_result sample_identity (hex64 CHR ''d'') (sample_input CHR ''3'')) J3"
    "pc_step J3 (PC_submit sample_identity ''01890000-0000-7000-8000-000000000001'' (hex64 CHR ''e'')
      ''01890000-0000-7000-8000-000000000001'' (sample_input CHR ''4'')) J4"
    using J2(1) J3(1) J4(1) by (auto intro: step_pc)
  have "runs pc_step sample_start sample_calls J4"
    using runs_append [OF J1(1) runs_step [OF s(1) runs_step [OF s(2) runs_one [where step = pc_step, OF s(3)]]]] by simp
  moreover have "{CHR ''4'', CHR ''3'', CHR ''2'', CHR ''1''} = {CHR ''1'', CHR ''2'', CHR ''3'', CHR ''4''}" by auto
  ultimately show ?thesis using J4(2) by auto
qed

lemma sample_confirmed:
  "\<exists>J p J'. runs pc_step sample_start sample_calls J \<and>
     confirm_check J sample_identity ''01890000-0000-7000-8000-000000000001'' (hex64 CHR ''d'') (hex64 CHR ''d'') (hex64 CHR ''e'') = Inr () \<and>
     confirm_transition J sample_identity ''01890000-0000-7000-8000-000000000001'' (hex64 CHR ''d'') (sample_input CHR ''5'') = Inr (p, J') \<and>
     sample_point J' ST_TERMINAL_CONFIRMED {CHR ''5'', CHR ''1'', CHR ''2'', CHR ''3'', CHR ''4''} (hex64 CHR ''d'') (hex64 CHR ''e'')"
proof -
  obtain J where J: "runs pc_step sample_start sample_calls J"
    "sample_point J ST_COMPLETING {CHR ''1'', CHR ''2'', CHR ''3'', CHR ''4''} (hex64 CHR ''d'') (hex64 CHR ''e'')"
    using sample_completing by blast
  obtain a where a: "attempt_at sample_key J = Some a" "at_local_state a = pc_state_value ST_COMPLETING"
    "at_result_digest a = hex64 CHR ''d''" "at_terminal_receipt_digest a = hex64 CHR ''e''"
    using J(2) by (auto simp: sample_point_def)
  have ids: "uuid_v7 (ai_job_id sample_identity) f = Inr (ai_job_id sample_identity)"
    "uuid_v7 (ai_attempt_id sample_identity) f = Inr (ai_attempt_id sample_identity)" for f
    using sample_identity_valid by (auto simp: validate_identity_def uuid_v7_def result_simps)
  have "confirm_check J sample_identity ''01890000-0000-7000-8000-000000000001'' (hex64 CHR ''d'') (hex64 CHR ''d'') (hex64 CHR ''e'') = Inr ()"
    using a by (simp add: confirm_check_def sample_text pc_get_def ids projection_from_row_def del: pc_state_value.simps)
  moreover have "\<exists>p J'. confirm_transition J sample_identity ''01890000-0000-7000-8000-000000000001'' (hex64 CHR ''d'') (sample_input CHR ''5'') = Inr (p, J') \<and>
     sample_point J' ST_TERMINAL_CONFIRMED {CHR ''5'', CHR ''1'', CHR ''2'', CHR ''3'', CHR ''4''} (hex64 CHR ''d'') (hex64 CHR ''e'')"
    using sample_move [OF J(2), of "{ST_COMPLETING}" ST_TERMINAL_CONFIRMED "CHR ''5''"
        "no_updates\<lparr>up_readback_id := Some ''01890000-0000-7000-8000-000000000001'', up_readback_digest := Some (hex64 CHR ''d'')\<rparr>"] sample_inputs
    by (auto simp: confirm_transition_def no_updates_def or_old_def)
  ultimately show ?thesis using J(1) by blast
qed

lemma pc_journal_reopens_witness:
  "\<exists>J. runs pc_step sample_start sample_calls J \<and> open_pc_journal sample_path J = (Inr (), J)"
proof -
  obtain J where J: "runs pc_step sample_start sample_calls J" using sample_completing by blast
  from pc_journal_reopens [OF sample_opened_journal J] J show ?thesis by blast
qed

lemma attempt_history_exact_witness:
  "\<exists>J cs. runs pc_step sample_start cs J \<and> map ev_event_type (attempt_events sample_key J) =
     [''CLAIM_RECORDED'', ''PREPARATION_STARTED'', ''RESULT_RECORDED'', ''COMPLETION_SUBMITTED'', ''TERMINAL_READBACK_CONFIRMED'']"
proof -
  obtain J p J' where J: "runs pc_step sample_start sample_calls J"
    "confirm_transition J sample_identity ''01890000-0000-7000-8000-000000000001'' (hex64 CHR ''d'') (sample_input CHR ''5'') = Inr (p, J')"
    "sample_point J' ST_TERMINAL_CONFIRMED {CHR ''5'', CHR ''1'', CHR ''2'', CHR ''3'', CHR ''4''} (hex64 CHR ''d'') (hex64 CHR ''e'')"
    using sample_confirmed by blast
  have "pc_step J (PC_confirm sample_identity ''01890000-0000-7000-8000-000000000001'' (hex64 CHR ''d'') (sample_input CHR ''5'')) J'"
    using J(2) by (auto intro: step_pc)
  note run = runs_append [OF J(1) runs_one [where step = pc_step, OF this]]
  obtain a where "attempt_at sample_key J' = Some a" "at_local_state a = ''TERMINAL_CONFIRMED''"
    using J(3) by (auto simp: sample_point_def)
  then show ?thesis using attempt_history_exact [OF sample_opened_journal run] run by blast
qed

theorem legal_move_succeeds_witness:
  "\<exists>J. runs pc_step sample_start [PC_claim sample_identity (sample_input CHR ''1'')] J \<and>
     (\<exists>p J'. pc_transition J sample_identity {ST_CLAIMED} EV_PREPARATION_STARTED ST_PREPARING (sample_input CHR ''2'') no_updates = Inr (p, J'))"
proof -
  obtain J where J: "runs pc_step sample_start [PC_claim sample_identity (sample_input CHR ''1'')] J"
    "sample_point J ST_CLAIMED {CHR ''1''} ZERO_SHA256 ZERO_SHA256" using sample_claimed by blast
  then obtain a where a: "pc_ok J" "attempt_at (attempt_key a) J = Some a" "at_identity a = sample_identity"
    "at_local_state a = pc_state_value ST_CLAIMED"
    and ids: "ev_local_event_id ` set (pj_events J) = {in_event_id (sample_input CHR ''1'')}"
    by (auto simp: sample_point_def)
  have "in_event_id (sample_input CHR ''2'') \<notin> ev_local_event_id ` set (pj_events J)"
    unfolding ids by (simp add: sample_input_def)
  from legal_move_succeeds [OF a(1,2,4) _ sample_inputs(2) this, of "{ST_CLAIMED}" EV_PREPARATION_STARTED ST_PREPARING no_updates]
  show ?thesis using a(3) sample_identity_valid J(1) by auto
qed

theorem confirmation_not_raced_witness:
  "\<exists>J p J'. confirm_transition J sample_identity ''01890000-0000-7000-8000-000000000001'' (hex64 CHR ''d'') (sample_input CHR ''5'') = Inr (p, J') \<and>
     at_result_digest p = hex64 CHR ''d'' \<and> at_terminal_receipt_digest p = hex64 CHR ''e''"
proof -
  obtain J p J' where J:
    "confirm_check J sample_identity ''01890000-0000-7000-8000-000000000001'' (hex64 CHR ''d'') (hex64 CHR ''d'') (hex64 CHR ''e'') = Inr ()"
    "confirm_transition J sample_identity ''01890000-0000-7000-8000-000000000001'' (hex64 CHR ''d'') (sample_input CHR ''5'') = Inr (p, J')"
    using sample_confirmed by blast
  from confirmation_not_raced [OF J(1) runs_nil J(2)] J(2) show ?thesis by blast
qed

lemma pc_events_tamper_evident_witness:
  "\<exists>J a. a \<in> set (pj_attempts J) \<and> verify_integrity J = Inr () \<and>
     (attempt_events (attempt_key a) J = attempt_events (attempt_key a) J \<and> at_local_state a = at_local_state a
      \<or> (\<exists>n<length (attempt_events (attempt_key a) J).
          collides (event_material (attempt_events (attempt_key a) J ! n)) (event_material (attempt_events (attempt_key a) J ! n))))"
proof -
  obtain J where J: "sample_point J ST_COMPLETING {CHR ''1'', CHR ''2'', CHR ''3'', CHR ''4''} (hex64 CHR ''d'') (hex64 CHR ''e'')"
    using sample_completing by blast
  then have v: "verify_integrity J = Inr ()" using pc_ok_verifies by (simp add: sample_point_def)
  obtain a where a: "a \<in> set (pj_attempts J)" using J row_of_Some by (fastforce simp: sample_point_def)
  from pc_events_tamper_evident [OF v v a a refl refl] a v show ?thesis by blast
qed

end
