(* ===== verification/Outbound_Authority.thy ===== *)
theory Outbound_Authority
  imports Canonical
begin

text \<open>
  \<^verbatim>\<open>vera_core.outbound_authority\<close> and the authority of
  \<^verbatim>\<open>vera_core.effect_recovery\<close>: proofs signed with HMAC-SHA256 over a canonical
  text, each accepted once. A verifier's set of used tokens is the state that its
  \<^verbatim>\<open>verify\<close> takes and returns. What the verifiers have in common is the locale
  \<open>single_use_verifier\<close>.
\<close>

section \<open>HMAC-SHA256\<close>

definition sha256_digest :: "string \<Rightarrow> string" where
  "sha256_digest m = concat (map be_bytes (regs_words (sha_final m)))"

lemma hexdigest_of_digest: "sha256_hexdigest m = concat (map hex_byte (sha256_digest m))"
  by (simp add: sha256_hexdigest_def sha256_digest_def)

definition xor_char :: "nat \<Rightarrow> char \<Rightarrow> char" where
  "xor_char n c = char_of (xor (of_char c) n :: nat)"

definition hmac_key_block :: "string \<Rightarrow> string" where
  "hmac_key_block key =
     (let k = (if 64 < length key then sha256_digest key else key)
      in k @ replicate (64 - length k) (CHR 0x00))"

definition hmac_hexdigest :: "string \<Rightarrow> string \<Rightarrow> string" where
  "hmac_hexdigest key msg =
     (let block = hmac_key_block key
      in sha256_hexdigest (map (xor_char 0x5C) block @ sha256_digest (map (xor_char 0x36) block @ msg)))"

section \<open>Accepted once\<close>

text \<open>The answers of a verifier to a sequence of calls, with the set of used tags it starts from.\<close>

fun verdicts :: "(string set \<Rightarrow> 'p \<Rightarrow> 'x \<Rightarrow> bool \<times> string set) \<Rightarrow> string set \<Rightarrow> ('p \<times> 'x) list \<Rightarrow> bool list" where
  "verdicts verify u [] = []"
| "verdicts verify u ((p, x) # rest) = (let (b, u') = verify u p x in b # verdicts verify u' rest)"

text \<open>
  A verifier remembers a tag of every proof it accepts, refuses a proof whose tag it
  remembers, and changes nothing when it refuses. Then no sequence of calls, whatever they
  expect, has two accepted proofs with the same tag.
\<close>

locale single_use_verifier =
  fixes verify :: "string set \<Rightarrow> 'p \<Rightarrow> 'x \<Rightarrow> bool \<times> string set"
    and tag :: "'p \<Rightarrow> string"
  assumes accepts: "verify u p x = (True, u') \<Longrightarrow> tag p \<notin> u \<and> u' = insert (tag p) u"
    and refuses: "verify u p x = (False, u') \<Longrightarrow> u' = u"
begin

lemma verdicts_used:
  "tag p \<in> u \<Longrightarrow> filter (\<lambda>(c, b). b \<and> tag (fst c) = tag p) (zip cs (verdicts verify u cs)) = []"
proof (induction cs arbitrary: u)
  case (Cons c cs)
  obtain q x where c: "c = (q, x)" by (cases c)
  obtain b u' where v: "verify u q x = (b, u')" by fastforce
  show ?case
  proof (cases b)
    case True
    then show ?thesis using Cons.IH [of u'] Cons.prems accepts [of u q x u'] v c by auto
  next
    case False
    then show ?thesis using Cons.IH [of u] Cons.prems refuses [of u q x u'] v c by auto
  qed
qed simp

lemma accepted_at_most_once:
  "length (filter (\<lambda>(c, b). b \<and> tag (fst c) = tag p) (zip cs (verdicts verify u cs))) \<le> 1"
proof (induction cs arbitrary: u)
  case (Cons c cs)
  obtain q x where c: "c = (q, x)" by (cases c)
  obtain b u' where v: "verify u q x = (b, u')" by fastforce
  show ?case
  proof (cases "b \<and> tag q = tag p")
    case True
    then have "tag p \<in> u'" using accepts [of u q x u'] v by auto
    then show ?thesis using verdicts_used [of p u' cs] v c True by simp
  next
    case False
    then show ?thesis using Cons.IH [of u'] v c by auto
  qed
qed simp

end

section \<open>Authorities\<close>

record hmac_authority =
  ha_issuer_id :: string
  ha_secret :: string
  ha_key_id :: string
  ha_key_digest :: string

datatype authority_error = Empty_issuer | Short_secret | Empty_key_id | Empty_provider | Authority_canon canon_error

text \<open>The constructors of the three HMAC authorities; \<^verbatim>\<open>self.key_digest[:16]\<close> is in the default key id.\<close>

definition new_hmac_authority :: "string \<Rightarrow> string \<Rightarrow> string option \<Rightarrow> (authority_error, hmac_authority) result" where
  "new_hmac_authority issuer_id secret key_id =
     rbind (ensure (issuer_id \<noteq> []) Empty_issuer) (\<lambda>_.
     rbind (ensure (32 \<le> length secret) Short_secret) (\<lambda>_.
       let key_digest = sha256_hexdigest secret;
           kid = (case key_id of Some k \<Rightarrow> k | None \<Rightarrow> ''hmac-sha256:'' @ take 16 key_digest)
       in rbind (ensure (kid \<noteq> []) Empty_key_id) (\<lambda>_.
            Inr \<lparr>ha_issuer_id = issuer_id, ha_secret = secret, ha_key_id = kid, ha_key_digest = key_digest\<rparr>)))"

definition subject_of :: "py_env \<Rightarrow> string \<Rightarrow> json \<Rightarrow> (canon_error, string) result" where
  "subject_of E prefix body = rbind (canonical_digest E body) (\<lambda>d. Inr (prefix @ '':'' @ d))"

subsection \<open>Exact-subject proofs\<close>

text \<open>
  \<^verbatim>\<open>PCJobAuthorityProof\<close> and \<^verbatim>\<open>EffectReconciliationProof\<close> have the same
  fields, and the two classes that issue and verify them differ in the schema only.
\<close>

record authority_proof =
  ap_schema :: string
  ap_issuer_id :: string
  ap_subject :: string
  ap_token :: string

definition proof_body :: "authority_proof \<Rightarrow> json" where
  "proof_body p =
     JObj [(''schema'', JStr (ap_schema p)), (''issuer_id'', JStr (ap_issuer_id p)), (''subject'', JStr (ap_subject p))]"

definition issue_proof :: "py_env \<Rightarrow> string \<Rightarrow> hmac_authority \<Rightarrow> string \<Rightarrow> (canon_error, authority_proof) result" where
  "issue_proof E schema a subject =
     (let unsigned = \<lparr>ap_schema = schema, ap_issuer_id = ha_issuer_id a, ap_subject = subject, ap_token = []\<rparr>
      in rbind (canonical_json_bytes E (proof_body unsigned)) (\<lambda>b.
           Inr (unsigned\<lparr>ap_token := hmac_hexdigest (ha_secret a) b\<rparr>)))"

definition proof_tag :: "authority_proof \<Rightarrow> string" where
  "proof_tag p = ap_issuer_id p @ '':'' @ ap_token p"

definition verify_proof ::
  "py_env \<Rightarrow> string \<Rightarrow> hmac_authority \<Rightarrow> string set \<Rightarrow> authority_proof \<Rightarrow> string \<Rightarrow> bool \<times> string set" where
  "verify_proof E schema a used p expected_subject =
     (if ap_schema p \<noteq> schema then (False, used)
      else if ap_issuer_id p \<noteq> ha_issuer_id a then (False, used)
      else if ap_subject p \<noteq> expected_subject then (False, used)
      else case canonical_json_bytes E (proof_body p) of
        Inl _ \<Rightarrow> (False, used)
      | Inr b \<Rightarrow>
          if hmac_hexdigest (ha_secret a) b \<noteq> ap_token p then (False, used)
          else if proof_tag p \<in> used then (False, used)
          else (True, insert (proof_tag p) used))"

interpretation exact_subject: single_use_verifier "verify_proof E schema a" proof_tag for E schema a
  by unfold_locales (auto simp: verify_proof_def split: if_splits sum.splits)

definition PC_AUTHORITY_PROOF_SCHEMA :: string where
  "PC_AUTHORITY_PROOF_SCHEMA = ''VERA_MONO_PC_AUTHORITY_PROOF_V1''"

definition pc_authority_subject :: "py_env \<Rightarrow> string \<Rightarrow> string \<Rightarrow> string \<Rightarrow> (canon_error, string) result" where
  "pc_authority_subject E job_digest authorization_digest lifecycle_permit_digest =
     subject_of E ''vera-mono-pc-authority-v1''
       (JObj [(''job_digest'', JStr job_digest), (''authorization_digest'', JStr authorization_digest),
              (''lifecycle_permit_digest'', JStr lifecycle_permit_digest)])"

subsection \<open>Provider envelopes\<close>

record provider_envelope =
  pe_schema :: string
  pe_issuer_id :: string
  pe_provider_id :: string
  pe_operation :: string
  pe_subject :: string
  pe_token :: string

definition PROVIDER_AUTHORITY_SCHEMA :: string where
  "PROVIDER_AUTHORITY_SCHEMA = ''VERA_MONO_PROVIDER_AUTHORITY_V1''"

definition new_provider_authority ::
  "string \<Rightarrow> string \<Rightarrow> string \<Rightarrow> string option \<Rightarrow> (authority_error, hmac_authority \<times> string) result" where
  "new_provider_authority issuer_id provider_id secret key_id =
     rbind (ensure (issuer_id \<noteq> []) Empty_issuer) (\<lambda>_.
     rbind (ensure (provider_id \<noteq> []) Empty_provider) (\<lambda>_.
     rbind (new_hmac_authority issuer_id secret key_id) (\<lambda>a. Inr (a, provider_id))))"

definition provider_authority_subject ::
  "py_env \<Rightarrow> string \<Rightarrow> string \<Rightarrow> string \<Rightarrow> string \<Rightarrow> string \<Rightarrow> (canon_error, string) result" where
  "provider_authority_subject E effect_id provider_id operation request_digest lifecycle_permit_digest =
     subject_of E ''vera-mono-provider-authority-v1''
       (JObj [(''effect_id'', JStr effect_id), (''provider_id'', JStr provider_id), (''operation'', JStr operation),
              (''request_digest'', JStr request_digest), (''lifecycle_permit_digest'', JStr lifecycle_permit_digest)])"

definition envelope_body :: "provider_envelope \<Rightarrow> json" where
  "envelope_body p =
     JObj [(''schema'', JStr (pe_schema p)), (''issuer_id'', JStr (pe_issuer_id p)),
           (''provider_id'', JStr (pe_provider_id p)), (''operation'', JStr (pe_operation p)),
           (''subject'', JStr (pe_subject p))]"

definition envelope_tag :: "provider_envelope \<Rightarrow> string" where
  "envelope_tag p = pe_issuer_id p @ '':'' @ pe_token p"

definition provider_issue ::
  "py_env \<Rightarrow> hmac_authority \<Rightarrow> string \<Rightarrow> string \<Rightarrow> string \<Rightarrow> string \<Rightarrow> string \<Rightarrow> (canon_error, provider_envelope) result" where
  "provider_issue E a provider_id effect_id operation request_digest lifecycle_permit_digest =
     rbind (provider_authority_subject E effect_id provider_id operation request_digest lifecycle_permit_digest) (\<lambda>subject.
       let unsigned = \<lparr>pe_schema = PROVIDER_AUTHORITY_SCHEMA, pe_issuer_id = ha_issuer_id a,
             pe_provider_id = provider_id, pe_operation = operation, pe_subject = subject, pe_token = []\<rparr>
       in rbind (canonical_json_bytes E (envelope_body unsigned)) (\<lambda>b.
            Inr (unsigned\<lparr>pe_token := hmac_hexdigest (ha_secret a) b\<rparr>)))"

definition provider_verify ::
  "py_env \<Rightarrow> hmac_authority \<Rightarrow> string \<Rightarrow> string set \<Rightarrow> provider_envelope \<Rightarrow> string \<times> string \<times> string \<Rightarrow> bool \<times> string set" where
  "provider_verify E a provider_id used p expected =
     (case expected of (expected_provider_id, expected_operation, expected_subject) \<Rightarrow>
        if pe_schema p \<noteq> PROVIDER_AUTHORITY_SCHEMA then (False, used)
        else if pe_issuer_id p \<noteq> ha_issuer_id a then (False, used)
        else if pe_provider_id p \<noteq> provider_id then (False, used)
        else if pe_provider_id p \<noteq> expected_provider_id then (False, used)
        else if pe_operation p \<noteq> expected_operation then (False, used)
        else if pe_subject p \<noteq> expected_subject then (False, used)
        else case canonical_json_bytes E (envelope_body p) of
          Inl _ \<Rightarrow> (False, used)
        | Inr b \<Rightarrow>
            if hmac_hexdigest (ha_secret a) b \<noteq> pe_token p then (False, used)
            else if envelope_tag p \<in> used then (False, used)
            else (True, insert (envelope_tag p) used))"

interpretation provider: single_use_verifier "provider_verify E a pid" envelope_tag for E a pid
  by unfold_locales (auto simp: provider_verify_def split: if_splits sum.splits prod.splits)

section \<open>What an authority's signature covers\<close>

lemma proof_body_plain [simp]: "plain_json (proof_body p)"
  by (simp add: proof_body_def plain_eval)

lemma envelope_body_plain [simp]: "plain_json (envelope_body p)"
  by (simp add: envelope_body_def plain_eval)

lemma canonical_bytes_plain: "plain_json v \<Longrightarrow> canonical_json_bytes E v = Inr (utf8 (text_of v))"
  by (simp add: canonical_json_bytes_def canonical_text)

lemma envelope_body_inj:
  "text_of (envelope_body p) = text_of (envelope_body q) \<Longrightarrow>
     pe_schema p = pe_schema q \<and> pe_issuer_id p = pe_issuer_id q \<and> pe_provider_id p = pe_provider_id q
     \<and> pe_operation p = pe_operation q \<and> pe_subject p = pe_subject q"
proof -
  assume eq: "text_of (envelope_body p) = text_of (envelope_body q)"
  have wf: "wf_json (envelope_body p)" "wf_json (envelope_body q)" by (simp_all add: plain_is_wf)
  note f = text_of_field [OF wf [unfolded envelope_body_def] eq [unfolded envelope_body_def]]
  show ?thesis
    using f [of "''schema''"] f [of "''issuer_id''"] f [of "''provider_id''"] f [of "''operation''"] f [of "''subject''"] by simp
qed

lemma proof_body_inj:
  "text_of (proof_body p) = text_of (proof_body q) \<Longrightarrow>
     ap_schema p = ap_schema q \<and> ap_issuer_id p = ap_issuer_id q \<and> ap_subject p = ap_subject q"
proof -
  assume eq: "text_of (proof_body p) = text_of (proof_body q)"
  have wf: "wf_json (proof_body p)" "wf_json (proof_body q)" by (simp_all add: plain_is_wf)
  note f = text_of_field [OF wf [unfolded proof_body_def] eq [unfolded proof_body_def]]
  show ?thesis using f [of "''schema''"] f [of "''issuer_id''"] f [of "''subject''"] by simp
qed

section \<open>What the authorities guarantee\<close>

lemma provider_verify_issued:
  assumes "provider_issue E a pid eid op rq lp = Inr p" "envelope_tag p \<notin> used"
  shows "provider_verify E a pid used p (x, y, z) =
    (if (x, y, Inr z) = (pid, op, provider_authority_subject E eid pid op rq lp)
     then (True, insert (envelope_tag p) used) else (False, used))"
proof -
  obtain subj where s: "provider_authority_subject E eid pid op rq lp = Inr subj"
    "p = \<lparr>pe_schema = PROVIDER_AUTHORITY_SCHEMA, pe_issuer_id = ha_issuer_id a, pe_provider_id = pid, pe_operation = op,
       pe_subject = subj, pe_token = hmac_hexdigest (ha_secret a) (utf8 (text_of (envelope_body
         \<lparr>pe_schema = PROVIDER_AUTHORITY_SCHEMA, pe_issuer_id = ha_issuer_id a, pe_provider_id = pid, pe_operation = op,
          pe_subject = subj, pe_token = []\<rparr>)))\<rparr>"
    using assms(1) by (auto simp: provider_issue_def result_simps Let_def canonical_bytes_plain)
  have "envelope_body p = envelope_body (p\<lparr>pe_token := []\<rparr>)" by (simp add: envelope_body_def)
  then show ?thesis using s assms(2) by (auto simp: provider_verify_def canonical_bytes_plain)
qed

text \<open>
  A provider envelope is good for one dispatch of exactly what it names. The verifier
  accepts a freshly issued envelope when, and only when, it is asked for the provider, the
  operation and the subject (effect, request and lifecycle permit) it was issued for; and in
  any sequence of calls, with any envelopes and any expectations, it accepts at most one
  envelope with that issuer and token.
\<close>

lemma provider_envelope_exact:
  assumes "provider_issue E a pid eid op rq lp = Inr p" "envelope_tag p \<notin> used"
  shows "(fst (provider_verify E a pid used p (x, y, z)) \<longleftrightarrow>
      x = pid \<and> y = op \<and> provider_authority_subject E eid pid op rq lp = Inr z)
    \<and> length (filter (\<lambda>(c, b). b \<and> envelope_tag (fst c) = envelope_tag p) (zip cs (verdicts (provider_verify E a pid) used cs))) \<le> 1"
  using provider_verify_issued [OF assms] provider.accepted_at_most_once [of p cs E a pid used] by auto

lemma provider_envelope_exact_witness:
  "\<exists>p z. provider_issue demo_env \<lparr>ha_issuer_id = ''ops'', ha_secret = hex64 CHR ''a'', ha_key_id = ''k'', ha_key_digest = hex64 CHR ''b''\<rparr>
       ''mailer'' ''mail-1'' ''send'' (hex64 CHR ''c'') (hex64 CHR ''d'') = Inr p
     \<and> fst (provider_verify demo_env \<lparr>ha_issuer_id = ''ops'', ha_secret = hex64 CHR ''a'', ha_key_id = ''k'', ha_key_digest = hex64 CHR ''b''\<rparr>
       ''mailer'' {} p (''mailer'', ''send'', z))"
proof -
  let ?a = "\<lparr>ha_issuer_id = ''ops'', ha_secret = hex64 CHR ''a'', ha_key_id = ''k'', ha_key_digest = hex64 CHR ''b''\<rparr>"
  obtain z where z: "provider_authority_subject demo_env ''mail-1'' ''mailer'' ''send'' (hex64 CHR ''c'') (hex64 CHR ''d'') = Inr z"
    by (simp add: provider_authority_subject_def subject_of_def canonical_digest_of plain_eval)
  then obtain p where p: "provider_issue demo_env ?a ''mailer'' ''mail-1'' ''send'' (hex64 CHR ''c'') (hex64 CHR ''d'') = Inr p"
    by (simp add: provider_issue_def canonical_bytes_plain Let_def)
  have "envelope_tag p \<notin> {}" by simp
  from provider_envelope_exact [OF p this, of "''mailer''" "''send''" z] z p show ?thesis by blast
qed

end
