(* ===== verification/Outbound_Audit.thy ===== *)
theory Outbound_Audit
  imports Effect_Fence Py_Values
begin

text \<open>
  \<^verbatim>\<open>vera_core.outbound_audit\<close>: the append-only ledger that explains every outbound
  effect, and its repair from the effect fence after a restart. The record \<open>audit\<close> is the
  database file. Every append is a transaction of its own, so the repair keeps the events
  it wrote when a later one is refused: it returns the audit it leaves beside its result.
  The repair loop re-reads the ledger and need not end on a file that was tampered with; its
  value is then \<open>None\<close>.
\<close>

record audit_event =
  ae_sequence :: int
  ae_effect_id :: string
  ae_effect_kind :: string
  ae_event_type :: string
  ae_predecessor :: string
  ae_digest :: string
  ae_payload :: json

record audit_row =
  ar_sequence :: int
  ar_effect_id :: string
  ar_effect_kind :: string
  ar_event_type :: string
  ar_predecessor :: string
  ar_digest :: string
  ar_payload_json :: string

record audit =
  au_rows :: "audit_row list"
  au_sequence :: int
  au_head :: string

record audit_consistency =
  ac_audit_head :: string
  ac_fence_effect_count :: nat
  ac_audited_effect_count :: nat
  ac_authority_only :: "string list"
  ac_repaired :: "string list"

datatype audit_error =
    Audit_empty string
  | Unsupported_event_type string
  | Audit_replay_differs
  | Audit_integrity
  | No_audit_evidence
  | Audit_ahead_of_fence
  | Ambiguity_conflict
  | Terminal_conflict
  | Audit_assertion
  | Not_authority_first
  | Progress_absent_from_fence
  | Latest_state_mismatch
  | Authority_field_mismatch string
  | Lifecycle_permit_mismatch
  | Final_field_mismatch string
  | Result_digest_mismatch
  | Reconciliation_mismatch
  | Unaudited_effects "string list"
  | Audit_sequence_gap
  | Audit_predecessor_mismatch
  | Audit_unsupported_row
  | Effect_kind_changed
  | Terminal_has_later
  | Stage_order_invalid
  | Audit_digest_mismatch
  | Audit_meta_sequence
  | Audit_meta_head
  | Payload_not_object
  | Audit_canon canon_error
  | Audit_json json_error

section \<open>Operations\<close>

definition AUDIT_GENESIS :: string where
  "AUDIT_GENESIS = sha256_hexdigest ''vera-mono-outbound-execution-audit-genesis-v1''"

definition EVENT_TYPES :: "string set" where
  "EVENT_TYPES = {''AUTHORITY_VERIFIED'', ''RESERVED'', ''EXECUTING'', ''COMMITTED'', ''ATTEMPTED_UNKNOWN'',
     ''CANCELLED_PRE_DISPATCH'', ''RECONCILED_COMMITTED'', ''RECONCILED_NO_EFFECT''}"

definition open_audit :: "audit_row list \<Rightarrow> (int \<times> string) option \<Rightarrow> audit" where
  "open_audit rows meta =
     (let (sequence, head) = (case meta of None \<Rightarrow> (0, AUDIT_GENESIS) | Some m \<Rightarrow> m)
      in \<lparr>au_rows = rows, au_sequence = sequence, au_head = head\<rparr>)"

definition audit_row_event :: "audit_row \<Rightarrow> (audit_error, audit_event) result" where
  "audit_row_event row =
     rbind (map_err Audit_json (loads plain_hooks (ar_payload_json row))) (\<lambda>payload.
     rbind (ensure (is_dict payload) Payload_not_object) (\<lambda>_.
       Inr \<lparr>ae_sequence = ar_sequence row, ae_effect_id = ar_effect_id row,
            ae_effect_kind = ar_effect_kind row, ae_event_type = ar_event_type row,
            ae_predecessor = ar_predecessor row, ae_digest = ar_digest row, ae_payload = payload\<rparr>))"

definition audit_body :: "int \<Rightarrow> string \<Rightarrow> string \<Rightarrow> string \<Rightarrow> string \<Rightarrow> json \<Rightarrow> json" where
  "audit_body sequence effect_id effect_kind event_type predecessor payload =
     JObj [(''schema'', JStr ''VERA_MONO_OUTBOUND_EXECUTION_EVENT_V1''), (''sequence'', JInt sequence),
           (''effect_id'', JStr effect_id), (''effect_kind'', JStr effect_kind),
           (''event_type'', JStr event_type), (''predecessor_digest'', JStr predecessor),
           (''payload'', payload)]"

definition find_audit :: "string \<Rightarrow> string \<Rightarrow> audit \<Rightarrow> audit_row option" where
  "find_audit effect_id event_type A =
     find (\<lambda>r. ar_effect_id r = effect_id \<and> ar_event_type r = event_type) (au_rows A)"

definition audit_append ::
  "py_env \<Rightarrow> audit \<Rightarrow> string \<Rightarrow> string \<Rightarrow> string \<Rightarrow> (string \<times> json) list \<Rightarrow>
     (audit_error, audit_event \<times> audit) result" where
  "audit_append E A effect_id effect_kind event_type payload =
     rbind (ensure (effect_id \<noteq> []) (Audit_empty ''effect_id'')) (\<lambda>_.
     rbind (ensure (effect_kind \<noteq> []) (Audit_empty ''effect_kind'')) (\<lambda>_.
     rbind (ensure (event_type \<in> EVENT_TYPES) (Unsupported_event_type event_type)) (\<lambda>_.
     rbind (map_err Audit_canon (canonical_json E (JObj payload))) (\<lambda>payload_json.
       case find_audit effect_id event_type A of
         Some replay \<Rightarrow>
           rbind (audit_row_event replay) (\<lambda>existing.
           rbind (map_err Audit_canon (canonical_json E (ae_payload existing))) (\<lambda>existing_json.
           rbind (ensure (existing_json = payload_json) Audit_replay_differs) (\<lambda>_. Inr (existing, A))))
       | None \<Rightarrow>
           let next_sequence = au_sequence A + 1
           in rbind (map_err Audit_canon (canonical_digest E
                (audit_body next_sequence effect_id effect_kind event_type (au_head A) (JObj payload)))) (\<lambda>digest.
              rbind (ensure (next_sequence \<notin> ar_sequence ` set (au_rows A) \<and>
                             digest \<notin> ar_digest ` set (au_rows A)) Audit_integrity) (\<lambda>_.
                let row = \<lparr>ar_sequence = next_sequence, ar_effect_id = effect_id, ar_effect_kind = effect_kind,
                      ar_event_type = event_type, ar_predecessor = au_head A, ar_digest = digest,
                      ar_payload_json = payload_json\<rparr>
                in Inr (\<lparr>ae_sequence = next_sequence, ae_effect_id = effect_id, ae_effect_kind = effect_kind,
                         ae_event_type = event_type, ae_predecessor = au_head A, ae_digest = digest,
                         ae_payload = JObj payload\<rparr>,
                        \<lparr>au_rows = au_rows A @ [row], au_sequence = next_sequence, au_head = digest\<rparr>)))))))"

definition audit_events :: "audit \<Rightarrow> string option \<Rightarrow> (audit_error, audit_event list) result" where
  "audit_events A effect_id =
     rmap_list audit_row_event
       (sort_key ar_sequence
         (filter (\<lambda>r. effect_id = None \<or> effect_id = Some (ar_effect_id r)) (au_rows A)))"

definition audit_latest :: "audit \<Rightarrow> string \<Rightarrow> (audit_error, audit_event option) result" where
  "audit_latest A effect_id =
     (case sort_key (\<lambda>r. - ar_sequence r) (filter (\<lambda>r. ar_effect_id r = effect_id) (au_rows A)) of
        [] \<Rightarrow> Inr None
      | row # _ \<Rightarrow> rbind (audit_row_event row) (\<lambda>e. Inr (Some e)))"

fun target_event_type :: "effect_state \<Rightarrow> string" where
  "target_event_type RESERVED = ''RESERVED''"
| "target_event_type EXECUTING = ''EXECUTING''"
| "target_event_type COMMITTED = ''COMMITTED''"
| "target_event_type ATTEMPTED_UNKNOWN = ''ATTEMPTED_UNKNOWN''"
| "target_event_type RECONCILED_COMMITTED = ''RECONCILED_COMMITTED''"
| "target_event_type RECONCILED_NO_EFFECT = ''RECONCILED_NO_EFFECT''"
| "target_event_type CANCELLED_PRE_DISPATCH = ''CANCELLED_PRE_DISPATCH''"

definition receipt_payload :: "effect_receipt \<Rightarrow> string \<Rightarrow> bool \<Rightarrow> (string \<times> json) list" where
  "receipt_payload receipt event_type restart_reconstructed =
     [(''request_digest'', JStr (er_request_digest receipt)),
      (''mechanical_permit_digest'', JStr (er_permit receipt)),
      (''authority_evidence_digest'', JStr (er_authority receipt)),
      (''currentness_evidence_digest'', JStr (er_currentness receipt))]
     @ (if event_type \<in> {''COMMITTED'', ''RECONCILED_COMMITTED'', ''RECONCILED_NO_EFFECT''}
        then [(''result_digest'', opt_str (er_result receipt))] else [])
     @ (if event_type \<in> {''RECONCILED_COMMITTED'', ''RECONCILED_NO_EFFECT''}
        then [(''reconciliation_evidence_digest'', opt_str (er_reconciliation receipt))] else [])
     @ (if restart_reconstructed then [(''restart_reconstructed_from_effect_fence'', JBool True)] else [])"

text \<open>The stage the repair loop appends after \<open>current\<close> on the way to \<open>target\<close>.\<close>

definition next_stage :: "string \<Rightarrow> string \<Rightarrow> (audit_error, string) result" where
  "next_stage current target =
     (if current = ''AUTHORITY_VERIFIED'' then Inr ''RESERVED''
      else if current = ''RESERVED''
        then Inr (if target = ''CANCELLED_PRE_DISPATCH'' then ''CANCELLED_PRE_DISPATCH'' else ''EXECUTING'')
      else if current = ''EXECUTING''
        then rbind (ensure (target \<in> {''COMMITTED'', ''ATTEMPTED_UNKNOWN'', ''RECONCILED_COMMITTED'',
                                       ''RECONCILED_NO_EFFECT''}) Audit_ahead_of_fence) (\<lambda>_. Inr target)
      else if current = ''ATTEMPTED_UNKNOWN''
        then rbind (ensure (target \<in> {''RECONCILED_COMMITTED'', ''RECONCILED_NO_EFFECT''})
                Ambiguity_conflict) (\<lambda>_. Inr target)
      else Inl Terminal_conflict)"

partial_function (option) append_stages ::
  "py_env \<Rightarrow> effect_receipt \<Rightarrow> audit \<Rightarrow> audit_event \<Rightarrow> bool \<Rightarrow> ((audit_error, bool) result \<times> audit) option" where
  "append_stages E receipt A current repaired =
     (if ae_event_type current = target_event_type (er_state receipt) then Some (Inr repaired, A)
      else case next_stage (ae_event_type current) (target_event_type (er_state receipt)) of
        Inl e \<Rightarrow> Some (Inl e, A)
      | Inr next_type \<Rightarrow>
          (case audit_append E A (er_effect_id receipt) (ae_effect_kind current) next_type
                  (receipt_payload receipt next_type True) of
             Inl e \<Rightarrow> Some (Inl e, A)
           | Inr (_, A') \<Rightarrow>
               (case audit_latest A' (er_effect_id receipt) of
                  Inl e \<Rightarrow> Some (Inl e, A')
                | Inr None \<Rightarrow> Some (Inl Audit_assertion, A')
                | Inr (Some current') \<Rightarrow> append_stages E receipt A' current' True)))"

definition append_missing_mechanical_stages ::
  "py_env \<Rightarrow> audit \<Rightarrow> effect_receipt \<Rightarrow> ((audit_error, bool) result \<times> audit) option" where
  "append_missing_mechanical_stages E A receipt =
     (case audit_latest A (er_effect_id receipt) of
        Inl e \<Rightarrow> Some (Inl e, A)
      | Inr None \<Rightarrow> Some (Inl No_audit_evidence, A)
      | Inr (Some current) \<Rightarrow> append_stages E receipt A current False)"

section \<open>Verifying the chain\<close>

fun allowed_next :: "string option \<Rightarrow> string set" where
  "allowed_next None = {''AUTHORITY_VERIFIED''}"
| "allowed_next (Some prior) =
     (if prior = ''AUTHORITY_VERIFIED'' then {''RESERVED''}
      else if prior = ''RESERVED'' then {''EXECUTING'', ''CANCELLED_PRE_DISPATCH''}
      else if prior = ''EXECUTING''
        then {''COMMITTED'', ''ATTEMPTED_UNKNOWN'', ''RECONCILED_COMMITTED'', ''RECONCILED_NO_EFFECT''}
      else if prior = ''ATTEMPTED_UNKNOWN'' then {''RECONCILED_COMMITTED'', ''RECONCILED_NO_EFFECT''}
      else {})"

definition terminal_types :: "string set" where
  "terminal_types = {''COMMITTED'', ''CANCELLED_PRE_DISPATCH'', ''RECONCILED_COMMITTED'', ''RECONCILED_NO_EFFECT''}"

text \<open>The checks of one event against what its effect did before.\<close>

definition check_stage :: "string option \<Rightarrow> string option \<Rightarrow> string \<Rightarrow> string \<Rightarrow> (audit_error, unit) result" where
  "check_stage prior_type prior_kind effect_kind event_type =
     rbind (ensure (event_type \<in> EVENT_TYPES) Audit_unsupported_row) (\<lambda>_.
     rbind (ensure (prior_kind = None \<or> prior_kind = Some effect_kind) Effect_kind_changed) (\<lambda>_.
     rbind (ensure (prior_type \<notin> Some ` terminal_types) Terminal_has_later) (\<lambda>_.
       ensure (event_type \<in> allowed_next prior_type) Stage_order_invalid)))"

type_synonym audit_cursor = "string \<times> int \<times> (string \<rightharpoonup> string) \<times> (string \<rightharpoonup> string)"

text \<open>The body of the loop of \<^verbatim>\<open>verify_chain\<close>, with its four variables.\<close>

definition audit_walk_row :: "py_env \<Rightarrow> audit_cursor \<Rightarrow> audit_row \<Rightarrow> (audit_error, audit_cursor) result" where
  "audit_walk_row E cursor row =
     (case cursor of (predecessor, expected, last_type, effect_kinds) \<Rightarrow>
       rbind (audit_row_event row) (\<lambda>event.
       rbind (ensure (ae_sequence event = expected) Audit_sequence_gap) (\<lambda>_.
       rbind (ensure (ae_predecessor event = predecessor) Audit_predecessor_mismatch) (\<lambda>_.
       rbind (check_stage (last_type (ae_effect_id event)) (effect_kinds (ae_effect_id event))
                (ae_effect_kind event) (ae_event_type event)) (\<lambda>_.
       rbind (map_err Audit_canon (canonical_digest E (audit_body (ae_sequence event) (ae_effect_id event)
                (ae_effect_kind event) (ae_event_type event) (ae_predecessor event) (ae_payload event)))) (\<lambda>observed.
       rbind (ensure (observed = ae_digest event) Audit_digest_mismatch) (\<lambda>_.
         Inr (observed, expected + 1, last_type(ae_effect_id event \<mapsto> ae_event_type event),
              effect_kinds(ae_effect_id event \<mapsto> ae_effect_kind event)))))))))"

fun audit_walk :: "py_env \<Rightarrow> audit_cursor \<Rightarrow> audit_row list \<Rightarrow> (audit_error, audit_cursor) result" where
  "audit_walk E cursor [] = Inr cursor"
| "audit_walk E cursor (row # rows) = rbind (audit_walk_row E cursor row) (\<lambda>c. audit_walk E c rows)"

definition audit_view :: "audit \<Rightarrow> audit_row list" where
  "audit_view A = sort_key ar_sequence (au_rows A)"

definition verify_audit :: "py_env \<Rightarrow> audit \<Rightarrow> (audit_error, string) result" where
  "verify_audit E A =
     rbind (audit_walk E (AUDIT_GENESIS, 1, Map.empty, Map.empty) (audit_view A)) (\<lambda>(predecessor, expected, _, _).
     rbind (ensure (au_sequence A = expected - 1) Audit_meta_sequence) (\<lambda>_.
       let expected_head = (if audit_view A \<noteq> [] then predecessor else AUDIT_GENESIS)
       in rbind (ensure (au_head A = expected_head) Audit_meta_head) (\<lambda>_. Inr (au_head A))))"

section \<open>Consistency with the effect fence\<close>

fun check_fields :: "(string \<Rightarrow> audit_error) \<Rightarrow> json \<Rightarrow> (string \<times> string) list \<Rightarrow> (audit_error, unit) result" where
  "check_fields err payload [] = Inr ()"
| "check_fields err payload ((key, expected) # checks) =
     rbind (ensure (py_get key payload = JStr expected) (err key)) (\<lambda>_. check_fields err payload checks)"

definition check_authority :: "audit_event \<Rightarrow> effect_receipt \<Rightarrow> (audit_error, unit) result" where
  "check_authority first receipt =
     rbind (check_fields Authority_field_mismatch (ae_payload first)
        [(''request_digest'', er_request_digest receipt), (''mechanical_permit_digest'', er_permit receipt),
         (''authority_evidence_digest'', er_authority receipt)]) (\<lambda>_.
       let lifecycle_permit = py_get ''lifecycle_permit'' (ae_payload first)
       in ensure (is_dict lifecycle_permit \<and>
                  py_get ''permit_digest'' lifecycle_permit = JStr (er_currentness receipt)) Lifecycle_permit_mismatch)"

definition check_latest :: "audit_event \<Rightarrow> effect_receipt \<Rightarrow> (audit_error, unit) result" where
  "check_latest latest receipt =
     (let payload = ae_payload latest
      in rbind (check_fields Final_field_mismatch payload
           ([(''request_digest'', er_request_digest receipt), (''authority_evidence_digest'', er_authority receipt),
             (''currentness_evidence_digest'', er_currentness receipt)]
            @ (if jget ''mechanical_permit_digest'' payload \<noteq> None
               then [(''mechanical_permit_digest'', er_permit receipt)] else []))) (\<lambda>_.
         rbind (ensure (er_state receipt \<in> {COMMITTED, RECONCILED_COMMITTED, RECONCILED_NO_EFFECT} \<longrightarrow>
                  py_get ''result_digest'' payload = opt_str (er_result receipt)) Result_digest_mismatch) (\<lambda>_.
           ensure (er_state receipt \<in> {RECONCILED_COMMITTED, RECONCILED_NO_EFFECT} \<longrightarrow>
                  py_get ''reconciliation_evidence_digest'' payload = opt_str (er_reconciliation receipt))
             Reconciliation_mismatch)))"

text \<open>One round of the loop over the audited effects; the value says whether the effect is authority only.\<close>

definition check_effect :: "audit \<Rightarrow> fence \<Rightarrow> string \<Rightarrow> (audit_error, bool) result" where
  "check_effect A F effect_id =
     rbind (audit_events A (Some effect_id)) (\<lambda>events.
     rbind (ensure (ae_event_type (hd events) = ''AUTHORITY_VERIFIED'') Not_authority_first) (\<lambda>_.
       case row_of er_effect_id effect_id (all_effects F) of
         None \<Rightarrow> rbind (ensure (length events = 1) Progress_absent_from_fence) (\<lambda>_. Inr True)
       | Some receipt \<Rightarrow>
           rbind (ensure (ae_event_type (last events) = target_event_type (er_state receipt)) Latest_state_mismatch) (\<lambda>_.
           rbind (check_authority (hd events) receipt) (\<lambda>_.
           rbind (check_latest (last events) receipt) (\<lambda>_. Inr False)))))"

definition verify_fence_consistency ::
  "py_env \<Rightarrow> audit \<Rightarrow> fence \<Rightarrow> string list \<Rightarrow> (audit_error, audit_consistency) result" where
  "verify_fence_consistency E A F repaired_effect_ids =
     rbind (verify_audit E A) (\<lambda>audit_head.
     rbind (audit_events A None) (\<lambda>events.
       let audit_effect_ids = sort (remdups (map ae_effect_id events))
       in rbind (rmap_list (check_effect A F) audit_effect_ids) (\<lambda>only.
            let missing_audit = filter (\<lambda>i. i \<notin> set audit_effect_ids) (map er_effect_id (all_effects F))
            in rbind (ensure (missing_audit = []) (Unaudited_effects missing_audit)) (\<lambda>_.
                 Inr \<lparr>ac_audit_head = audit_head, ac_fence_effect_count = length (all_effects F),
                      ac_audited_effect_count = length audit_effect_ids,
                      ac_authority_only = map fst (filter snd (zip audit_effect_ids only)),
                      ac_repaired = sort (remdups repaired_effect_ids)\<rparr>))))"

fun repair_effects ::
  "py_env \<Rightarrow> audit \<Rightarrow> effect_receipt list \<Rightarrow> ((audit_error, string list) result \<times> audit) option" where
  "repair_effects E A [] = Some (Inr [], A)"
| "repair_effects E A (receipt # receipts) =
     (case append_missing_mechanical_stages E A receipt of
        None \<Rightarrow> None
      | Some (Inl e, A') \<Rightarrow> Some (Inl e, A')
      | Some (Inr repaired, A') \<Rightarrow>
          map_option (\<lambda>(res, A''). (rbind res (\<lambda>ids. Inr (if repaired then er_effect_id receipt # ids else ids)), A''))
            (repair_effects E A' receipts))"

definition repair_from_fence ::
  "py_env \<Rightarrow> audit \<Rightarrow> fence \<Rightarrow> ((audit_error, audit_consistency) result \<times> audit) option" where
  "repair_from_fence E A F =
     (case verify_audit E A of
        Inl e \<Rightarrow> Some (Inl e, A)
      | Inr _ \<Rightarrow>
          map_option (\<lambda>(res, A'). (rbind res (verify_fence_consistency E A' F), A'))
            (repair_effects E A (all_effects F)))"

definition audit_context :: "py_env \<Rightarrow> audit \<Rightarrow> (audit_error, int \<times> string \<times> nat) result" where
  "audit_context E A =
     rbind (verify_audit E A) (\<lambda>head.
     rbind (audit_events A None) (\<lambda>events.
       Inr (au_sequence A, head, length (remdups (map ae_effect_id events)))))"

end
