(* ===== verification/Audit_Guarantees.thy ===== *)
theory Audit_Guarantees
  imports Outbound_Audit "HOL-Library.Multiset"
begin

text \<open>
  What holds of the outbound audit: what an append does to the verdict of
  \<^verbatim>\<open>verify_chain\<close>, that the repair loop ends on every verified ledger, and that a
  ledger left behind by a fence that moved on is repaired to one consistent with it.
\<close>

section \<open>Rows in sequence order\<close>

lemma insort_key_snoc: "f a \<le> f x \<Longrightarrow> insort_key f a (ys @ [x]) = insort_key f a ys @ [x]"
  by (induction ys) auto

lemma sort_key_snoc: "\<forall>y\<in>set xs. f y \<le> f x \<Longrightarrow> sort_key f (xs @ [x]) = sort_key f xs @ [x]"
  by (induction xs) (auto simp: insort_key_snoc)

abbreviation of_effect :: "string \<Rightarrow> audit_row list \<Rightarrow> audit_row list" where
  "of_effect eid rows \<equiv> filter (\<lambda>r. ar_effect_id r = eid) rows"

lemma audit_walk_append:
  "audit_walk E c (xs @ ys) = rbind (audit_walk E c xs) (\<lambda>c'. audit_walk E c' ys)"
  by (induction xs arbitrary: c) (simp_all add: rbind_assoc)

lemma audit_walk_row_Inr:
  "audit_walk_row E (p, n, l, k) r = Inr c \<longleftrightarrow>
     (\<exists>w. audit_row_event r = Inr \<lparr>ae_sequence = n, ae_effect_id = ar_effect_id r,
            ae_effect_kind = ar_effect_kind r, ae_event_type = ar_event_type r,
            ae_predecessor = p, ae_digest = ar_digest r, ae_payload = w\<rparr>
        \<and> check_stage (l (ar_effect_id r)) (k (ar_effect_id r)) (ar_effect_kind r) (ar_event_type r) = Inr ()
        \<and> canonical_digest E (audit_body n (ar_effect_id r) (ar_effect_kind r) (ar_event_type r) p w) = Inr (ar_digest r)
        \<and> c = (ar_digest r, n + 1, l(ar_effect_id r \<mapsto> ar_event_type r), k(ar_effect_id r \<mapsto> ar_effect_kind r)))"
  by (auto simp: audit_walk_row_def audit_row_event_def result_simps)

lemma row_event_fields:
  "audit_row_event r = Inr e \<Longrightarrow> ae_sequence e = ar_sequence r \<and> ae_effect_id e = ar_effect_id r
     \<and> ae_effect_kind e = ar_effect_kind r \<and> ae_event_type e = ar_event_type r
     \<and> ae_predecessor e = ar_predecessor r \<and> is_dict (ae_payload e)"
  by (auto simp: audit_row_event_def result_simps)

lemma audit_walk_seq:
  "audit_walk E (p, n, l, k) rs = Inr (p', n', l', k') \<Longrightarrow>
     n' = n + int (length rs) \<and> sorted_wrt (<) (map ar_sequence rs) \<and> (\<forall>r\<in>set rs. n \<le> ar_sequence r \<and> ar_sequence r < n')"
proof (induction rs arbitrary: p n l k)
  case (Cons r rs)
  then obtain c where c: "audit_walk_row E (p, n, l, k) r = Inr c" "audit_walk E c rs = Inr (p', n', l', k')"
    by (auto simp: result_simps)
  then have n: "ar_sequence r = n" by (auto simp: audit_walk_row_Inr dest: row_event_fields)
  have "audit_walk E (ar_digest r, n + 1, l(ar_effect_id r \<mapsto> ar_event_type r), k(ar_effect_id r \<mapsto> ar_effect_kind r)) rs
      = Inr (p', n', l', k')"
    using c by (auto simp: audit_walk_row_Inr)
  from Cons.IH [OF this] show ?case using n by (auto simp: less_le_trans)
qed simp

lemma audit_walk_readable:
  "audit_walk E c rs = Inr c' \<Longrightarrow> r \<in> set rs \<Longrightarrow> \<exists>e. audit_row_event r = Inr e"
  by (induction rs arbitrary: c) (auto simp: result_simps audit_walk_row_def split: prod.splits)

text \<open>What the loop remembers of an effect is its last row.\<close>

lemma audit_walk_last:
  "audit_walk E (p, n, l, k) rs = Inr (p', n', l', k') \<Longrightarrow>
     l' eid = (if of_effect eid rs = [] then l eid else Some (ar_event_type (last (of_effect eid rs))))
     \<and> k' eid = (if of_effect eid rs = [] then k eid else Some (ar_effect_kind (last (of_effect eid rs))))"
proof (induction rs arbitrary: p' n' l' k' rule: rev_induct)
  case (snoc r rs)
  then obtain p1 n1 l1 k1 where "audit_walk E (p, n, l, k) rs = Inr (p1, n1, l1, k1)"
    "audit_walk_row E (p1, n1, l1, k1) r = Inr (p', n', l', k')"
    by (auto simp: audit_walk_append result_simps)
  then show ?case using snoc.IH by (auto simp: audit_walk_row_Inr)
qed simp

definition stage_rank :: "string \<Rightarrow> nat" where
  "stage_rank t = (if t = ''AUTHORITY_VERIFIED'' then 0 else if t = ''RESERVED'' then 1
     else if t = ''EXECUTING'' then 2 else if t = ''ATTEMPTED_UNKNOWN'' then 3 else 4)"

lemma allowed_next_rank: "t \<in> allowed_next (Some q) \<Longrightarrow> stage_rank q < stage_rank t"
  by (auto simp: stage_rank_def split: if_splits)

lemma stage_rank_le [simp]: "stage_rank t \<le> 4"
  by (simp add: stage_rank_def)

declare allowed_next.simps(2) [simp del]

lemma audit_walk_rank:
  "audit_walk E (p, n, l, k) rs = Inr (p', n', l', k') \<Longrightarrow> r \<in> set rs \<Longrightarrow>
     \<exists>q. l' (ar_effect_id r) = Some q \<and> stage_rank (ar_event_type r) \<le> stage_rank q
       \<and> k' (ar_effect_id r) = Some (ar_effect_kind r)"
proof (induction rs arbitrary: p' n' l' k' rule: rev_induct)
  case (snoc s rs)
  then obtain p1 n1 l1 k1 where s: "audit_walk E (p, n, l, k) rs = Inr (p1, n1, l1, k1)"
    "audit_walk_row E (p1, n1, l1, k1) s = Inr (p', n', l', k')"
    by (auto simp: audit_walk_append result_simps)
  show ?case
  proof (cases "r = s")
    case False
    then obtain q where q: "l1 (ar_effect_id r) = Some q" "stage_rank (ar_event_type r) \<le> stage_rank q"
      "k1 (ar_effect_id r) = Some (ar_effect_kind r)"
      using snoc.IH [OF s(1)] snoc.prems(2) by auto
    show ?thesis
    proof (cases "ar_effect_id s = ar_effect_id r")
      case True
      then have "ar_event_type s \<in> allowed_next (Some q)" "ar_effect_kind s = ar_effect_kind r"
        using s(2) q by (auto simp: audit_walk_row_Inr check_stage_def result_simps)
      then show ?thesis using s(2) q allowed_next_rank True by (fastforce simp: audit_walk_row_Inr)
    qed (use s(2) q in \<open>auto simp: audit_walk_row_Inr\<close>)
  qed (use s(2) in \<open>auto simp: audit_walk_row_Inr\<close>)
qed simp

lemma audit_walk_first:
  "audit_walk E (p, n, l, k) rs = Inr (p', n', l', k') \<Longrightarrow> l eid = None \<Longrightarrow> of_effect eid rs \<noteq> [] \<Longrightarrow>
     ar_event_type (hd (of_effect eid rs)) = ''AUTHORITY_VERIFIED''"
proof (induction rs arbitrary: p n l k)
  case (Cons r rs)
  then obtain p1 n1 l1 k1 where s: "audit_walk_row E (p, n, l, k) r = Inr (p1, n1, l1, k1)"
    "audit_walk E (p1, n1, l1, k1) rs = Inr (p', n', l', k')"
    by (auto simp: result_simps)
  then show ?case using Cons by (auto simp: audit_walk_row_Inr check_stage_def result_simps)
qed simp

section \<open>Verified ledgers\<close>

definition verified :: "py_env \<Rightarrow> audit \<Rightarrow> (string \<rightharpoonup> string) \<Rightarrow> (string \<rightharpoonup> string) \<Rightarrow> bool" where
  "verified E A l k \<longleftrightarrow> audit_walk E (AUDIT_GENESIS, 1, Map.empty, Map.empty) (audit_view A)
     = Inr (au_head A, au_sequence A + 1, l, k)"

lemma verify_audit_iff: "verify_audit E A = Inr h \<longleftrightarrow> h = au_head A \<and> (\<exists>l k. verified E A l k)"
  by (auto simp: verify_audit_def verified_def result_simps Let_def split: if_splits)

lemma verified_verify: "verified E A l k \<Longrightarrow> verify_audit E A = Inr (au_head A)"
  by (auto simp: verify_audit_iff)

lemma audit_view_set [simp]: "set (audit_view A) = set (au_rows A)"
  by (simp add: audit_view_def)

lemma verified_sequences:
  "verified E A l k \<Longrightarrow> r \<in> set (au_rows A) \<Longrightarrow> ar_sequence r \<le> au_sequence A"
  unfolding verified_def by (drule audit_walk_seq) auto

lemma audit_events_view: "audit_events A (Some eid) = rmap_list audit_row_event (of_effect eid (audit_view A))"
  "audit_events A None = rmap_list audit_row_event (audit_view A)"
  by (simp_all add: audit_events_def audit_view_def filter_sort eq_commute)

lemma audit_latest_view:
  assumes "verified E A l k"
  shows "audit_latest A eid =
    (if of_effect eid (audit_view A) = [] then Inr None
     else rbind (audit_row_event (last (of_effect eid (audit_view A)))) (\<lambda>e. Inr (Some e)))"
proof -
  let ?S = "of_effect eid (audit_view A)"
  have srt: "sorted_wrt (<) (map ar_sequence (audit_view A))"
    using assms audit_walk_seq by (auto simp: verified_def)
  then have srt': "sorted_wrt (<) (map ar_sequence ?S)" by (simp add: sorted_wrt_map sorted_wrt_filter)
  have "inj_on (\<lambda>r. - ar_sequence r) (set (audit_view A))"
    using srt by (simp add: strict_sorted_iff distinct_map inj_on_def)
  then have inj: "inj_on (\<lambda>r. - ar_sequence r) (set (of_effect eid (au_rows A)))"
    by (auto simp: inj_on_def)
  have "sorted (map (\<lambda>r. - ar_sequence r) (rev ?S))"
    using srt' by (simp add: rev_map [symmetric] sorted_wrt_rev sorted_wrt_map) (auto elim: sorted_wrt_mono_rel [rotated])
  moreover have "mset (of_effect eid (au_rows A)) = mset (rev ?S)" by (simp add: audit_view_def)
  ultimately have "sort_key (\<lambda>r. - ar_sequence r) (of_effect eid (au_rows A)) = rev ?S"
    using inj by (intro sort_key_inj_key_eq) auto
  then show ?thesis by (cases ?S rule: rev_cases) (simp_all add: audit_latest_def)
qed

lemma verified_latest:
  assumes "verified E A l k"
  shows "\<exists>prior. audit_latest A eid = Inr prior \<and> l eid = map_option ae_event_type prior
     \<and> k eid = map_option ae_effect_kind prior"
proof (cases "of_effect eid (audit_view A) = []")
  case True
  then show ?thesis using audit_walk_last [OF assms [unfolded verified_def], of eid]
    by (simp add: audit_latest_view [OF assms])
next
  case False
  let ?r = "last (of_effect eid (audit_view A))"
  have "?r \<in> set (audit_view A)" using last_in_set [OF False] by simp
  then obtain e where e: "audit_row_event ?r = Inr e"
    using assms audit_walk_readable unfolding verified_def by blast
  have "l eid = Some (ar_event_type ?r)" "k eid = Some (ar_effect_kind ?r)"
    using audit_walk_last [OF assms [unfolded verified_def], of eid] False by auto
  then show ?thesis using row_event_fields [OF e] False
    by (intro exI [of _ "Some e"]) (simp add: audit_latest_view [OF assms] e)
qed

section \<open>Appending to a verified ledger\<close>

lemma audit_normalize_body:
  assumes "normalize_value E None (JObj kvs) = Inr w" "normalize_value E None w = Inr w"
  shows "canonical_digest E (audit_body s i k t p w) = canonical_digest E (audit_body s i k t p (JObj kvs))"
proof -
  have hint: "normalize_value E (Some ''payload'') (JObj xs) = normalize_value E None (JObj xs)" for xs by simp
  obtain ws where w: "w = JObj ws" using assms(1) unfolding normalize_obj_Inr by blast
  have "normalize_value E (Some ''payload'') w = Inr w" using assms(2) hint w by metis
  then have "normalize_value E None (audit_body s i k t p w) = normalize_value E None (audit_body s i k t p (JObj kvs))"
    using assms(1) hint [of kvs] by (simp add: audit_body_def del: normalize_value.simps(7)) simp
  then show ?thesis by (simp add: canonical_digest_def canonical_json_bytes_def canonical_json_def)
qed

text \<open>A payload whose normal form is stable: any payload when timestamps are, any plain payload always.\<close>

definition payload_settled :: "py_env \<Rightarrow> (string \<times> json) list \<Rightarrow> bool" where
  "payload_settled E payload \<longleftrightarrow>
     (\<forall>w. normalize_value E None (JObj payload) = Inr w \<longrightarrow> normalize_value E None w = Inr w)"

lemma payload_settled_stable: "iso_stable E \<Longrightarrow> payload_settled E payload"
  using normalize_idem by (auto simp: payload_settled_def simp del: normalize_value.simps)

lemma payload_settled_plain: "plain_json (JObj payload) \<Longrightarrow> payload_settled E payload"
  using normalize_plain [of "JObj payload" None E] normalize_plain [of "sorted_keys (JObj payload)" None E]
    sorted_keys_plain [of "JObj payload"] sorted_keys_idem [of "JObj payload"]
  by (simp add: payload_settled_def path_hint_def time_hint_def del: plain_json.simps sorted_keys.simps normalize_value.simps)

definition new_row :: "audit \<Rightarrow> string \<Rightarrow> string \<Rightarrow> string \<Rightarrow> json \<Rightarrow> string \<Rightarrow> audit_row" where
  "new_row A eid kind t w d = \<lparr>ar_sequence = au_sequence A + 1, ar_effect_id = eid, ar_effect_kind = kind,
     ar_event_type = t, ar_predecessor = au_head A, ar_digest = d, ar_payload_json = json_text w\<rparr>"

definition grown :: "audit \<Rightarrow> audit_row \<Rightarrow> audit" where
  "grown A r = \<lparr>au_rows = au_rows A @ [r], au_sequence = au_sequence A + 1, au_head = ar_digest r\<rparr>"

lemma append_new_row:
  assumes "audit_append E A eid kind t payload = Inr (ev, A')" "find_audit eid t A = None" "payload_settled E payload"
  obtains w d where "normalize_value E None (JObj payload) = Inr w" "is_dict w" "t \<in> EVENT_TYPES"
    "canonical_digest E (audit_body (au_sequence A + 1) eid kind t (au_head A) w) = Inr d"
    "A' = grown A (new_row A eid kind t w d)" "ae_digest ev = d"
proof -
  from assms(1,2) obtain w d where w: "normalize_value E None (JObj payload) = Inr w" "t \<in> EVENT_TYPES"
    and d: "canonical_digest E (audit_body (au_sequence A + 1) eid kind t (au_head A) (JObj payload)) = Inr d"
    and A': "A' = grown A (new_row A eid kind t w d)" "ae_digest ev = d"
    by (auto simp: audit_append_def canonical_json_def result_simps Let_def grown_def new_row_def simp del: normalize_value.simps)
  moreover have "is_dict w" using w(1) unfolding normalize_obj_Inr by (auto simp: is_dict_def)
  moreover have "canonical_digest E (audit_body (au_sequence A + 1) eid kind t (au_head A) w) = Inr d"
    using d audit_normalize_body [OF w(1)] assms(3) w(1) by (simp add: payload_settled_def del: normalize_value.simps)
  ultimately show ?thesis using that by blast
qed

lemma new_row_event:
  assumes "wf_json w" "is_dict w"
  shows "audit_row_event (new_row A eid kind t w d) = Inr \<lparr>ae_sequence = au_sequence A + 1, ae_effect_id = eid,
    ae_effect_kind = kind, ae_event_type = t, ae_predecessor = au_head A, ae_digest = d, ae_payload = w\<rparr>"
  using assms by (simp add: audit_row_event_def new_row_def)

lemma grown_view: "verified E A l k \<Longrightarrow> audit_view (grown A (new_row A eid kind t w d)) = audit_view A @ [new_row A eid kind t w d]"
  unfolding audit_view_def grown_def using verified_sequences [of E A l k]
  by (simp, intro sort_key_snoc) (fastforce simp: new_row_def)

lemma append_new_verdict:
  assumes "verified E A l k" "normalize_value E None (JObj payload) = Inr w" "is_dict w" "t \<in> EVENT_TYPES"
    and "canonical_digest E (audit_body (au_sequence A + 1) eid kind t (au_head A) w) = Inr d"
  shows "audit_walk E (AUDIT_GENESIS, 1, Map.empty, Map.empty) (audit_view (grown A (new_row A eid kind t w d)))
    = rbind (check_stage (l eid) (k eid) kind t) (\<lambda>_. Inr (d, au_sequence A + 2, l(eid \<mapsto> t), k(eid \<mapsto> kind)))"
  using assms(1) assms(5) normalize_wf [OF assms(2)] assms(3)
  by (simp add: grown_view audit_walk_append verified_def audit_walk_row_def new_row_event rbind_assoc ac_simps)

lemma append_allowed_verified:
  assumes "verified E A l k" "audit_append E A eid kind t payload = Inr (ev, A')" "find_audit eid t A = None"
    and "payload_settled E payload" "check_stage (l eid) (k eid) kind t = Inr ()"
  shows "\<exists>w d. normalize_value E None (JObj payload) = Inr w \<and> audit_view A' = audit_view A @ [new_row A eid kind t w d]
    \<and> verified E A' (l(eid \<mapsto> t)) (k(eid \<mapsto> kind)) \<and> A' = grown A (new_row A eid kind t w d)"
proof -
  obtain w d where w: "normalize_value E None (JObj payload) = Inr w" "is_dict w" "t \<in> EVENT_TYPES"
    "canonical_digest E (audit_body (au_sequence A + 1) eid kind t (au_head A) w) = Inr d"
    "A' = grown A (new_row A eid kind t w d)"
    using append_new_row [OF assms(2-4)] by metis
  then show ?thesis
    using append_new_verdict [OF assms(1) w(1-4)] assms(5) grown_view [OF assms(1)]
    by (auto simp: verified_def grown_def new_row_def)
qed

lemma open_audit_verified: "verified E (open_audit [] None) Map.empty Map.empty"
  by (simp add: verified_def open_audit_def audit_view_def)

section \<open>The repair loop\<close>

abbreviation target_of :: "effect_receipt \<Rightarrow> string" where
  "target_of r \<equiv> target_event_type (er_state r)"

lemma next_stage_allowed:
  assumes "next_stage q (target_event_type st) = Inr t" "q \<noteq> target_event_type st"
  shows "t \<in> allowed_next (Some q) \<and> t \<in> EVENT_TYPES \<and> q \<notin> terminal_types"
  using assms by (cases st) (auto simp: next_stage_def allowed_next.simps(2) EVENT_TYPES_def terminal_types_def ensure_def split: if_splits)

lemma stage_fresh:
  assumes "verified E A l k" "l eid = Some q" "t \<in> allowed_next (Some q)"
  shows "find_audit eid t A = None"
proof (rule ccontr)
  assume "find_audit eid t A \<noteq> None"
  then obtain r where r: "r \<in> set (audit_view A)" "ar_effect_id r = eid" "ar_event_type r = t"
    by (auto simp: find_audit_def find_None_iff)
  have "stage_rank t \<le> stage_rank q"
    using audit_walk_rank [OF assms(1) [unfolded verified_def] r(1)] r(2,3) assms(2) by auto
  then show False using allowed_next_rank [OF assms(3)] by simp
qed

lemma receipt_payload_plain: "plain_json (JObj (receipt_payload r t b))"
  by (simp add: receipt_payload_def plain_eval)

definition stage_progress :: "string \<Rightarrow> audit \<Rightarrow> audit \<Rightarrow> bool" where
  "stage_progress eid A A' \<longleftrightarrow>
     (\<forall>i. i \<noteq> eid \<longrightarrow> of_effect i (audit_view A') = of_effect i (audit_view A))
     \<and> (\<exists>xs. of_effect eid (audit_view A') = of_effect eid (audit_view A) @ xs)
     \<and> ar_effect_kind ` set (au_rows A') = ar_effect_kind ` set (au_rows A)
     \<and> (\<exists>rows. au_rows A' = au_rows A @ rows)"

lemma stage_progress_refl [simp]: "stage_progress eid A A"
  by (simp add: stage_progress_def)

lemma stage_progress_trans: "stage_progress eid A B \<Longrightarrow> stage_progress eid B C \<Longrightarrow> stage_progress eid A C"
  by (auto simp: stage_progress_def)

text \<open>One round: the append is refused, or the ledger stays verified with the new stage on top.\<close>

lemma repair_round:
  assumes v: "verified E A l k" and q: "l eid = Some q" "k eid = Some kind" "q \<noteq> target_of r"
    and t: "next_stage q (target_of r) = Inr t"
    and a: "audit_append E A eid kind t (receipt_payload r t True) = Inr (ev, A')"
  shows "\<exists>cur. verified E A' (l(eid \<mapsto> t)) (k(eid \<mapsto> kind)) \<and> audit_latest A' eid = Inr (Some cur)
    \<and> ae_event_type cur = t \<and> ae_effect_kind cur = kind
    \<and> ae_payload cur = sorted_keys (JObj (receipt_payload r t True))
    \<and> stage_progress eid A A' \<and> au_sequence A' = au_sequence A + 1 \<and> stage_rank q < stage_rank t"
proof -
  note al = next_stage_allowed [OF t q(3)]
  have fresh: "find_audit eid t A = None" using stage_fresh [OF v q(1)] al by blast
  note plain = receipt_payload_plain [of r t True]
  obtain w d where w: "normalize_value E None (JObj (receipt_payload r t True)) = Inr w" "is_dict w" "t \<in> EVENT_TYPES"
    "canonical_digest E (audit_body (au_sequence A + 1) eid kind t (au_head A) w) = Inr d"
    "A' = grown A (new_row A eid kind t w d)"
    using append_new_row [OF a fresh payload_settled_plain [OF plain]] by metis
  have w': "w = sorted_keys (JObj (receipt_payload r t True))"
    using w(1) normalize_plain [OF plain, of None E] by (simp add: path_hint_def time_hint_def del: normalize_value.simps sorted_keys.simps)
  have "check_stage (l eid) (k eid) kind t = Inr ()"
    using al q by (auto simp: check_stage_def result_simps)
  then have v': "verified E A' (l(eid \<mapsto> t)) (k(eid \<mapsto> kind))"
    using append_new_verdict [OF v w(1-4)] w(5) by (simp add: verified_def grown_def new_row_def)
  have view: "audit_view A' = audit_view A @ [new_row A eid kind t w d]" using grown_view [OF v] w(5) by simp
  have "\<exists>r\<in>set (au_rows A). ar_effect_kind r = kind"
  proof -
    have "of_effect eid (audit_view A) \<noteq> []" "ar_effect_kind (last (of_effect eid (audit_view A))) = kind"
      using audit_walk_last [OF v [unfolded verified_def], of eid] q by (auto split: if_splits)
    then show ?thesis using last_in_set [of "of_effect eid (audit_view A)"] by auto
  qed
  moreover have "au_rows A' = au_rows A @ [new_row A eid kind t w d]" by (simp add: w(5) grown_def)
  ultimately have "stage_progress eid A A'"
    unfolding stage_progress_def view by (auto simp: new_row_def)
  moreover have "audit_latest A' eid = Inr (Some \<lparr>ae_sequence = au_sequence A + 1, ae_effect_id = eid,
    ae_effect_kind = kind, ae_event_type = t, ae_predecessor = au_head A, ae_digest = d, ae_payload = w\<rparr>)"
    using new_row_event [OF normalize_wf [OF w(1)] w(2)]
    by (simp add: audit_latest_view [OF v'] view) (simp add: new_row_def)
  moreover have "stage_rank q < stage_rank t" using al allowed_next_rank by blast
  ultimately show ?thesis using v' w' w(5) by (auto simp: grown_def)
qed

lemma repair_round_refused:
  assumes v: "verified E A l k" and q: "l eid = Some q" "q \<noteq> target_of r"
    and t: "next_stage q (target_of r) = Inr t"
    and a: "audit_append E A eid kind t (receipt_payload r t True) = Inl e"
    and "eid \<noteq> []" "kind \<noteq> []" "au_sequence A + 1 \<le> MAX_SAFE_INTEGER"
  shows "e = Audit_integrity"
proof -
  note al = next_stage_allowed [OF t q(2)]
  have fresh: "find_audit eid t A = None" using stage_fresh [OF v q(1)] al by blast
  note plain = receipt_payload_plain [of r t True]
  have "0 \<le> au_sequence A" using audit_walk_seq [OF v [unfolded verified_def]] by simp
  then have "plain_json (audit_body (au_sequence A + 1) eid kind t (au_head A) (JObj (receipt_payload r t True)))"
    using plain assms(8) by (simp add: audit_body_def plain_eval)
  then show ?thesis using a assms(6,7) al fresh plain
    by (auto simp: audit_append_def canonical_text canonical_digest_of Let_def ensure_def
        simp del: plain_json.simps split: if_splits)
qed

definition reaches :: "string \<Rightarrow> effect_state \<Rightarrow> bool" where
  "reaches q st \<longleftrightarrow> q = ''AUTHORITY_VERIFIED'' \<or> (\<exists>s. q = target_event_type s \<and> fence_edge\<^sup>*\<^sup>* s st)"

lemma target_event_type_inj [simp]: "target_event_type s = target_event_type s' \<longleftrightarrow> s = s'"
  by (cases s; cases s') simp_all

lemma target_not_authority [simp]: "target_event_type s \<noteq> ''AUTHORITY_VERIFIED''"
  by (cases s) simp_all

lemma fence_reach_D:
  "fence_edge\<^sup>*\<^sup>* s st \<Longrightarrow> s = st \<or> s = RESERVED \<or> (s = EXECUTING \<and> st \<notin> {RESERVED, CANCELLED_PRE_DISPATCH})
     \<or> (s = ATTEMPTED_UNKNOWN \<and> st \<in> {RECONCILED_COMMITTED, RECONCILED_NO_EFFECT})"
proof (induction rule: rtranclp_induct)
  case (step y z)
  then show ?case by (cases y) auto
qed simp

lemma fence_reach_reserved: "fence_edge\<^sup>*\<^sup>* RESERVED st"
proof -
  have "fence_edge\<^sup>*\<^sup>* RESERVED EXECUTING" by (rule r_into_rtranclp) simp
  then show ?thesis
    by (cases st) (auto intro: rtranclp.rtrancl_into_rtrancl)
qed

lemma fence_reach_executing: "st \<notin> {RESERVED, CANCELLED_PRE_DISPATCH} \<Longrightarrow> fence_edge\<^sup>*\<^sup>* EXECUTING st"
  by (cases st) (auto intro: r_into_rtranclp)

lemma reaches_next:
  assumes "reaches q st" "q \<noteq> target_event_type st"
  shows "\<exists>t. next_stage q (target_event_type st) = Inr t \<and> reaches t st"
proof (cases "q = ''AUTHORITY_VERIFIED''")
  case True
  then show ?thesis using fence_reach_reserved [of st]
    by (auto simp: next_stage_def reaches_def intro!: exI [of _ RESERVED])
next
  case False
  then obtain s where s: "q = target_event_type s" "fence_edge\<^sup>*\<^sup>* s st" using assms(1) by (auto simp: reaches_def)
  have self: "reaches (target_event_type st) st" by (auto simp: reaches_def)
  consider "s = RESERVED" "st = CANCELLED_PRE_DISPATCH"
    | "s = RESERVED" "st \<notin> {RESERVED, CANCELLED_PRE_DISPATCH}"
    | "s = EXECUTING" "st \<notin> {RESERVED, EXECUTING, CANCELLED_PRE_DISPATCH}"
    | "s = ATTEMPTED_UNKNOWN" "st \<in> {RECONCILED_COMMITTED, RECONCILED_NO_EFFECT}"
    using fence_reach_D [OF s(2)] s(1) assms(2) by auto
  then show ?thesis
  proof cases
    case 2
    then have "reaches ''EXECUTING'' st" unfolding reaches_def using fence_reach_executing [of st]
      by (metis target_event_type.simps(2))
    then show ?thesis using 2 by (cases st) (auto simp: s(1) next_stage_def)
  qed (use self in \<open>cases st; auto simp: s(1) next_stage_def\<close>)+
qed

text \<open>
  What the loop leaves when it starts at stage \<open>q\<close>: a verified ledger that only grew at this
  effect; after a success, the stage of the fence with its payload on top; and no failure but a
  digest that is already taken, when the stage can reach the fence's and the inputs are in range.
\<close>

definition at_target :: "effect_receipt \<Rightarrow> audit \<Rightarrow> bool" where
  "at_target r A \<longleftrightarrow> (\<exists>e. audit_latest A (er_effect_id r) = Inr (Some e) \<and> ae_event_type e = target_of r
     \<and> ae_payload e = sorted_keys (JObj (receipt_payload r (target_of r) True)))"

definition repairable :: "effect_receipt \<Rightarrow> audit \<Rightarrow> string \<Rightarrow> string \<Rightarrow> bool" where
  "repairable r A q kind \<longleftrightarrow> reaches q (er_state r) \<and> er_effect_id r \<noteq> [] \<and> kind \<noteq> []
     \<and> au_sequence A + 4 \<le> MAX_SAFE_INTEGER + int (stage_rank q)"

definition loop_outcome ::
  "py_env \<Rightarrow> effect_receipt \<Rightarrow> audit \<Rightarrow> string \<Rightarrow> string \<Rightarrow> bool \<Rightarrow> (audit_error, bool) result \<Rightarrow> audit \<Rightarrow> bool" where
  "loop_outcome E r A q kind rep res A' \<longleftrightarrow>
     (\<exists>l k. verified E A' l k) \<and> stage_progress (er_effect_id r) A A'
     \<and> au_sequence A' + int (stage_rank q) \<le> au_sequence A + 4
     \<and> (\<forall>b. res = Inr b \<longrightarrow> b = (rep \<or> q \<noteq> target_of r) \<and> (if q = target_of r then A' = A else at_target r A'))
     \<and> (repairable r A q kind \<longrightarrow> (\<exists>b. res = Inr b) \<or> res = Inl Audit_integrity)"

lemma outcome_done: "verified E A l k \<Longrightarrow> loop_outcome E r A (target_of r) kind rep (Inr rep) A"
  using stage_rank_le [of "target_of r"] by (auto simp: loop_outcome_def)

lemma outcome_stuck:
  assumes "verified E A l k" "q \<noteq> target_of r" "next_stage q (target_of r) = Inl e"
  shows "loop_outcome E r A q kind rep (Inl e) A"
  using assms reaches_next [of q "er_state r"] stage_rank_le [of q] by (auto simp: loop_outcome_def repairable_def)

lemma outcome_refused:
  assumes "verified E A l k" "l (er_effect_id r) = Some q" "q \<noteq> target_of r" "next_stage q (target_of r) = Inr t"
    and "audit_append E A (er_effect_id r) kind t (receipt_payload r t True) = Inl e"
  shows "loop_outcome E r A q kind rep (Inl e) A"
proof -
  have "stage_rank q < 4"
    using next_stage_allowed [OF assms(4,3)] allowed_next_rank [of t q] stage_rank_le [of t] by linarith
  then have "repairable r A q kind \<Longrightarrow> e = Audit_integrity"
    by (intro repair_round_refused [OF assms(1-5)]) (auto simp: repairable_def)
  then show ?thesis using assms(1) \<open>stage_rank q < 4\<close> by (auto simp: loop_outcome_def)
qed

lemma outcome_step:
  assumes "q \<noteq> target_of r" "next_stage q (target_of r) = Inr t" "stage_progress (er_effect_id r) A B"
    and "au_sequence B = au_sequence A + 1" "stage_rank q < stage_rank t" "t = target_of r \<Longrightarrow> at_target r B"
    and out: "loop_outcome E r B t kind True res A'"
  shows "loop_outcome E r A q kind rep res A'"
proof -
  have "repairable r A q kind \<Longrightarrow> repairable r B t kind"
    using reaches_next [OF _ assms(1)] assms(2,4,5) by (auto simp: repairable_def)
  moreover have "at_target r A'" if "res = Inr b" for b
    using out that assms(6) by (cases "t = target_of r") (auto simp: loop_outcome_def)
  ultimately show ?thesis
    using out assms(1,4,5) stage_progress_trans [OF assms(3)] by (auto simp: loop_outcome_def)
qed

lemma append_stages_outcome:
  assumes "verified E A l k" "l (er_effect_id r) = Some (ae_event_type cur)" "k (er_effect_id r) = Some (ae_effect_kind cur)"
  shows "\<exists>res A'. append_stages E r A cur rep = Some (res, A')
    \<and> loop_outcome E r A (ae_event_type cur) (ae_effect_kind cur) rep res A'"
  using assms
proof (induction "4 - stage_rank (ae_event_type cur)" arbitrary: A l k cur rep rule: less_induct)
  case less
  let ?q = "ae_event_type cur" and ?kind = "ae_effect_kind cur" and ?eid = "er_effect_id r"
  note eq = append_stages.simps [of E r A cur rep]
  consider "?q = target_of r"
    | e where "?q \<noteq> target_of r" "next_stage ?q (target_of r) = Inl e"
    | t e where "?q \<noteq> target_of r" "next_stage ?q (target_of r) = Inr t"
        "audit_append E A ?eid ?kind t (receipt_payload r t True) = Inl e"
    | t ev B where "?q \<noteq> target_of r" "next_stage ?q (target_of r) = Inr t"
        "audit_append E A ?eid ?kind t (receipt_payload r t True) = Inr (ev, B)"
    by (metis old.sum.exhaust surj_pair)
  then show ?case
  proof cases
    case 1
    then show ?thesis using eq outcome_done [OF less.prems(1)] by simp
  next
    case 2
    then show ?thesis using eq outcome_stuck [OF less.prems(1) 2] by simp
  next
    case 3
    then show ?thesis using eq outcome_refused [OF less.prems(1,2) 3] by simp
  next
    case 4
    obtain cur' where B: "verified E B (l(?eid \<mapsto> t)) (k(?eid \<mapsto> ?kind))" "audit_latest B ?eid = Inr (Some cur')"
      "ae_event_type cur' = t" "ae_effect_kind cur' = ?kind" "ae_payload cur' = sorted_keys (JObj (receipt_payload r t True))"
      "stage_progress ?eid A B" "au_sequence B = au_sequence A + 1" "stage_rank ?q < stage_rank t"
      using repair_round [OF less.prems(1-3) 4] by blast
    have less': "4 - stage_rank (ae_event_type cur') < 4 - stage_rank ?q"
      by (metis B(3,8) diff_less_mono2 less_le_trans stage_rank_le)
    obtain res A' where IH: "append_stages E r B cur' True = Some (res, A')" "loop_outcome E r B t ?kind True res A'"
      using less.hyps [OF less' B(1), of True] B(3,4) by auto
    have "loop_outcome E r A ?q ?kind rep res A'"
      using B by (intro outcome_step [OF 4(1,2) B(6-8) _ IH(2)]) (auto simp: at_target_def)
    then show ?thesis using eq 4 B(2) IH(1) by simp
  qed
qed

section \<open>Repairing every effect\<close>

definition audit_stage :: "audit \<Rightarrow> string \<Rightarrow> string option" where
  "audit_stage A eid = (case audit_latest A eid of Inr (Some e) \<Rightarrow> Some (ae_event_type e) | _ \<Rightarrow> None)"

lemma audit_latest_same:
  assumes "verified E A l k" "verified E B l' k'" "of_effect i (audit_view B) = of_effect i (audit_view A)"
  shows "audit_latest B i = audit_latest A i" "audit_stage B i = audit_stage A i"
  using assms(3) by (simp_all add: audit_latest_view [OF assms(1)] audit_latest_view [OF assms(2)] audit_stage_def)

lemma verified_stage: "verified E A l k \<Longrightarrow> l eid = audit_stage A eid"
  using verified_latest [of E A l k eid] by (auto simp: audit_stage_def split: option.splits)

text \<open>The ledger can be brought to what the fence holds of the effect.\<close>

definition behind :: "audit \<Rightarrow> effect_receipt \<Rightarrow> bool" where
  "behind A r \<longleftrightarrow> er_effect_id r \<noteq> [] \<and> (\<exists>q. audit_stage A (er_effect_id r) = Some q \<and> reaches q (er_state r))"

definition caught_up :: "audit \<Rightarrow> effect_receipt \<Rightarrow> audit \<Rightarrow> bool" where
  "caught_up A r A' \<longleftrightarrow>
     (if audit_stage A (er_effect_id r) = Some (target_of r)
      then of_effect (er_effect_id r) (audit_view A') = of_effect (er_effect_id r) (audit_view A)
      else at_target r A')"

definition kinds_named :: "audit \<Rightarrow> bool" where
  "kinds_named A \<longleftrightarrow> [] \<notin> ar_effect_kind ` set (au_rows A)"

lemma verified_kind_named:
  assumes "verified E A l k" "kinds_named A" "k eid = Some kind"
  shows "kind \<noteq> []"
proof -
  have "of_effect eid (audit_view A) \<noteq> []" "kind = ar_effect_kind (last (of_effect eid (audit_view A)))"
    using audit_walk_last [OF assms(1) [unfolded verified_def], of eid] assms(3) by (auto split: if_splits)
  moreover have "last (of_effect eid (audit_view A)) \<in> set (au_rows A)"
    using last_in_set [OF calculation(1)] by simp
  ultimately show ?thesis using assms(2) by (metis imageI kinds_named_def)
qed

lemma append_missing_outcome:
  assumes "verified E A l k"
  obtains res A' l' k' where "append_missing_mechanical_stages E A r = Some (res, A')" "verified E A' l' k'"
    "stage_progress (er_effect_id r) A A'" "au_sequence A' \<le> au_sequence A + 4"
    "\<forall>b. res = Inr b \<longrightarrow> b = (audit_stage A (er_effect_id r) \<noteq> Some (target_of r)) \<and> caught_up A r A'"
    "behind A r \<longrightarrow> kinds_named A \<longrightarrow> au_sequence A + 4 \<le> MAX_SAFE_INTEGER \<longrightarrow> (\<exists>b. res = Inr b) \<or> res = Inl Audit_integrity"
proof -
  let ?eid = "er_effect_id r"
  obtain prior where prior: "audit_latest A ?eid = Inr prior" "l ?eid = map_option ae_event_type prior"
    "k ?eid = map_option ae_effect_kind prior"
    using verified_latest [OF assms] by blast
  show ?thesis
  proof (cases prior)
    case None
    then show ?thesis using prior assms
      by (intro that [of "Inl No_audit_evidence" A l k])
        (auto simp: append_missing_mechanical_stages_def behind_def audit_stage_def)
  next
    case (Some cur)
    then obtain res A' where out: "append_stages E r A cur False = Some (res, A')"
      "loop_outcome E r A (ae_event_type cur) (ae_effect_kind cur) False res A'"
      using append_stages_outcome [OF assms, of r cur False] prior by auto
    have stage: "audit_stage A ?eid = Some (ae_event_type cur)" using prior Some by (simp add: audit_stage_def)
    have "repairable r A (ae_event_type cur) (ae_effect_kind cur)"
      if "behind A r" "kinds_named A" "au_sequence A + 4 \<le> MAX_SAFE_INTEGER"
      using that stage verified_kind_named [OF assms that(2)] prior Some by (auto simp: behind_def repairable_def)
    moreover have am: "append_missing_mechanical_stages E A r = Some (res, A')"
      using prior(1) Some out(1) by (simp add: append_missing_mechanical_stages_def)
    moreover obtain l' k' where v: "verified E A' l' k'" "stage_progress ?eid A A'" "au_sequence A' \<le> au_sequence A + 4"
      "repairable r A (ae_event_type cur) (ae_effect_kind cur) \<Longrightarrow> (\<exists>b. res = Inr b) \<or> res = Inl Audit_integrity"
      using out(2) by (auto simp: loop_outcome_def)
    moreover have up: "b = (audit_stage A ?eid \<noteq> Some (target_of r)) \<and> caught_up A r A'" if "res = Inr b" for b
      using out(2) stage that by (simp add: loop_outcome_def caught_up_def split: if_splits)
    ultimately show ?thesis by (intro that [OF am v(1-3)]) simp_all
  qed
qed

definition ledger_grew :: "audit \<Rightarrow> audit \<Rightarrow> bool" where
  "ledger_grew A A' \<longleftrightarrow> (\<forall>i. \<exists>xs. of_effect i (audit_view A') = of_effect i (audit_view A) @ xs)
     \<and> ar_effect_kind ` set (au_rows A') = ar_effect_kind ` set (au_rows A) \<and> (\<exists>rows. au_rows A' = au_rows A @ rows)"

lemma stage_progress_grew: "stage_progress eid A A' \<Longrightarrow> ledger_grew A A'"
  by (auto simp: stage_progress_def ledger_grew_def)

lemma ledger_grew_refl [simp]: "ledger_grew A A"
  by (simp add: ledger_grew_def)

lemma ledger_grew_trans:
  assumes "ledger_grew A B" "ledger_grew B C"
  shows "ledger_grew A C"
proof -
  have "\<exists>xs. of_effect i (audit_view C) = of_effect i (audit_view A) @ xs" for i
    using assms unfolding ledger_grew_def by (metis append.assoc)
  then show ?thesis using assms unfolding ledger_grew_def by auto
qed

definition repair_outcome ::
  "py_env \<Rightarrow> audit \<Rightarrow> effect_receipt list \<Rightarrow> (audit_error, string list) result \<Rightarrow> audit \<Rightarrow> bool" where
  "repair_outcome E A rs res A' \<longleftrightarrow>
     (\<exists>l k. verified E A' l k) \<and> ledger_grew A A'
     \<and> (\<forall>i. i \<notin> er_effect_id ` set rs \<longrightarrow> of_effect i (audit_view A') = of_effect i (audit_view A))
     \<and> (\<forall>ids. res = Inr ids \<longrightarrow> (\<forall>r\<in>set rs. caught_up A r A')
          \<and> set ids = er_effect_id ` {r \<in> set rs. audit_stage A (er_effect_id r) \<noteq> Some (target_of r)})
     \<and> ((\<forall>r\<in>set rs. behind A r) \<longrightarrow> kinds_named A \<longrightarrow> au_sequence A + 4 * int (length rs) \<le> MAX_SAFE_INTEGER \<longrightarrow>
          (\<exists>ids. res = Inr ids) \<or> res = Inl Audit_integrity)"

lemma repair_outcome_Cons:
  assumes A: "verified E A l k" and B: "verified E B lB kB" "stage_progress (er_effect_id r) A B"
    "au_sequence B \<le> au_sequence A + 4"
    and up: "b = (audit_stage A (er_effect_id r) \<noteq> Some (target_of r))" "caught_up A r B"
    and new: "er_effect_id r \<notin> er_effect_id ` set rs"
    and out: "repair_outcome E B rs res A'"
  shows "repair_outcome E A (r # rs) (rbind res (\<lambda>ids. Inr (if b then er_effect_id r # ids else ids))) A'"
proof -
  have other: "of_effect (er_effect_id s) (audit_view B) = of_effect (er_effect_id s) (audit_view A)"
    "audit_stage B (er_effect_id s) = audit_stage A (er_effect_id s)" if "s \<in> set rs" for s
    using that new B(2) audit_latest_same(2) [OF A B(1)] by (auto simp: stage_progress_def image_iff)
  have self: "of_effect (er_effect_id r) (audit_view A') = of_effect (er_effect_id r) (audit_view B)"
    using out new by (auto simp: repair_outcome_def)
  obtain l' k' where A': "verified E A' l' k'" using out by (auto simp: repair_outcome_def)
  have "at_target r A' = at_target r B" unfolding at_target_def audit_latest_same(1) [OF B(1) A' self] ..
  then have "caught_up A r A'" using up(2) self by (simp add: caught_up_def)
  have same: "caught_up A s A' \<longleftrightarrow> caught_up B s A'" "behind A s \<longleftrightarrow> behind B s" if "s \<in> set rs" for s
    using other [OF that] by (simp_all add: caught_up_def behind_def)
  have kinds: "kinds_named A \<longleftrightarrow> kinds_named B" using B(2) by (simp add: kinds_named_def stage_progress_def)
  have stages: "{s \<in> set rs. audit_stage B (er_effect_id s) \<noteq> Some (target_of s)}
      = {s \<in> set rs. audit_stage A (er_effect_id s) \<noteq> Some (target_of s)}" using other by auto
  have "(\<forall>s\<in>set (r # rs). caught_up A s A')
      \<and> set (if b then er_effect_id r # ids else ids)
        = er_effect_id ` {s \<in> set (r # rs). audit_stage A (er_effect_id s) \<noteq> Some (target_of s)}" if "res = Inr ids" for ids
    using out that up(1) \<open>caught_up A r A'\<close> same(1) by (auto simp: repair_outcome_def stages)
  moreover have "(\<exists>ids. res = Inr ids) \<or> res = Inl Audit_integrity"
    if "\<forall>s\<in>set (r # rs). behind A s" "kinds_named A" "au_sequence A + 4 * int (length (r # rs)) \<le> MAX_SAFE_INTEGER"
    using out that B(3) same(2) kinds by (auto simp: repair_outcome_def)
  moreover have "of_effect i (audit_view A') = of_effect i (audit_view A)" if "i \<notin> er_effect_id ` set (r # rs)" for i
    using that out B(2) by (simp add: repair_outcome_def stage_progress_def)
  moreover have "ledger_grew A A'"
    using ledger_grew_trans [OF stage_progress_grew [OF B(2)]] out by (simp add: repair_outcome_def)
  ultimately show ?thesis using A' unfolding repair_outcome_def rbind_Inr_iff by (cases res) (simp_all, blast+)
qed

lemma repair_effects_outcome:
  assumes "verified E A l k" "distinct (map er_effect_id rs)"
  shows "\<exists>res A'. repair_effects E A rs = Some (res, A') \<and> repair_outcome E A rs res A'"
  using assms
proof (induction rs arbitrary: A l k)
  case Nil
  then show ?case by (auto simp: repair_outcome_def)
next
  case (Cons r rs)
  obtain res B lB kB where B: "append_missing_mechanical_stages E A r = Some (res, B)" "verified E B lB kB"
    "stage_progress (er_effect_id r) A B" "au_sequence B \<le> au_sequence A + 4"
    "\<forall>b. res = Inr b \<longrightarrow> b = (audit_stage A (er_effect_id r) \<noteq> Some (target_of r)) \<and> caught_up A r B"
    "behind A r \<longrightarrow> kinds_named A \<longrightarrow> au_sequence A + 4 \<le> MAX_SAFE_INTEGER \<longrightarrow> (\<exists>b. res = Inr b) \<or> res = Inl Audit_integrity"
    by (rule append_missing_outcome [OF Cons.prems(1)])
  show ?case
  proof (cases res)
    case (Inl e)
    then show ?thesis using B stage_progress_grew [OF B(3)]
      by (auto simp: repair_outcome_def stage_progress_def)
  next
    case (Inr b)
    obtain res' A' where IH: "repair_effects E B rs = Some (res', A')" "repair_outcome E B rs res' A'"
      using Cons.IH [OF B(2)] Cons.prems(2) by auto
    have "repair_outcome E A (r # rs) (rbind res' (\<lambda>ids. Inr (if b then er_effect_id r # ids else ids))) A'"
      using B(5) Inr Cons.prems(2) by (intro repair_outcome_Cons [OF Cons.prems(1) B(2-4) _ _ _ IH(2)]) auto
    then show ?thesis using B(1) Inr IH(1) by simp
  qed
qed

end
