(* ===== verification/Audit_Repair.thy ===== *)
theory Audit_Repair
  imports Audit_Guarantees
begin

text \<open>
  The outbound audit and the effect fence together: what the consistency check establishes,
  and the repair of a ledger that the fence has left behind, over every run of the fence.
\<close>

lemma rmap_list_snoc: "rmap_list f (xs @ [x]) = rbind (rmap_list f xs) (\<lambda>ys. rbind (f x) (\<lambda>y. Inr (ys @ [y])))"
  by (induction xs) (simp_all add: rbind_assoc)

section \<open>The fence over a run\<close>

lemma fence_edge_rank: "fence_edge s s' \<Longrightarrow> stage_rank (target_event_type s) < stage_rank (target_event_type s')"
  by (cases s; cases s') (simp_all add: stage_rank_def)

text \<open>A row that a run leaves in its state is left alone.\<close>

lemma fence_run_row:
  "runs fence_step F ls F' \<Longrightarrow> effect_row k F = Some r \<Longrightarrow>
     \<exists>r'. effect_row k F' = Some r' \<and> same_binding r r' \<and> fence_edge\<^sup>*\<^sup>* (er_state r) (er_state r')
       \<and> (r' = r \<or> stage_rank (target_of r) < stage_rank (target_of r'))"
proof (induction arbitrary: r rule: runs.induct)
  case (runs_nil s)
  then show ?case by (simp add: same_binding_def)
next
  case (runs_step F l G ls H)
  obtain s where s: "effect_row k G = Some s" "same_binding r s"
    "s = r \<or> fence_edge (er_state r) (er_state s)"
    using fence_step_row [OF runs_step.hyps(1), of k] runs_step.prems by (auto simp: same_binding_def)
  obtain r' where r': "effect_row k H = Some r'" "same_binding s r'" "fence_edge\<^sup>*\<^sup>* (er_state s) (er_state r')"
    "r' = s \<or> stage_rank (target_of s) < stage_rank (target_of r')"
    using runs_step.IH [OF s(1)] by blast
  have "same_binding r r'" using s(2) r'(2) by (simp add: same_binding_def)
  then show ?case using s(3) r' fence_edge_rank [of "er_state r" "er_state s"]
    by (auto intro: converse_rtranclp_into_rtranclp)
qed

lemma fence_run_ok: "runs fence_step F ls F' \<Longrightarrow> fence_ok F \<Longrightarrow> fence_ok F'"
  by (rule runs_invariant [where I = fence_ok and step = fence_step]) (blast intro: fence_step_ok)+

lemma all_effects_row: "fence_ok F \<Longrightarrow> row_of er_effect_id i (all_effects F) = effect_row i F"
proof (cases "effect_row i F")
  case None
  then have "row_of er_effect_id i (all_effects F) = None" by (simp add: row_of_None_iff all_effects_def)
  then show ?thesis using None by simp
next
  case (Some r)
  assume ok: "fence_ok F"
  have "distinct_keys er_effect_id (all_effects F)"
    using ok by (simp add: fence_ok_def distinct_keys_def all_effects_def distinct_map)
  moreover have "r \<in> set (all_effects F)" "er_effect_id r = i"
    using row_of_Some [OF Some] by (simp_all add: all_effects_def)
  ultimately show ?thesis using row_of_member [of er_effect_id "all_effects F" r] Some by simp
qed

lemma fence_row_iff: "fence_ok F \<Longrightarrow> effect_row i F = Some r \<longleftrightarrow> r \<in> set F \<and> er_effect_id r = i"
  using row_of_member [of er_effect_id F r] by (auto simp: fence_ok_def dest: row_of_Some)

section \<open>The consistency check\<close>

lemma check_authority_binding: "same_binding r r' \<Longrightarrow> check_authority e r' = check_authority e r"
  by (simp add: check_authority_def same_binding_def)

lemma payload_get:
  "py_get key (sorted_keys (JObj (receipt_payload r t b))) =
     (case map_of (receipt_payload r t b) key of None \<Rightarrow> JNull | Some v \<Rightarrow> sorted_keys v)"
  "jget key (sorted_keys (JObj (receipt_payload r t b))) = map_option sorted_keys (map_of (receipt_payload r t b) key)"
proof -
  have d: "distinct (map fst (receipt_payload r t b))" by (simp add: receipt_payload_def)
  show "py_get key (sorted_keys (JObj (receipt_payload r t b))) =
     (case map_of (receipt_payload r t b) key of None \<Rightarrow> JNull | Some v \<Rightarrow> sorted_keys v)"
    by (rule py_get_sorted [OF d])
  show "jget key (sorted_keys (JObj (receipt_payload r t b))) = map_option sorted_keys (map_of (receipt_payload r t b) key)"
    by (rule jget_sorted_keys [OF d])
qed

lemma check_latest_repaired:
  assumes "ae_payload e = sorted_keys (JObj (receipt_payload r (target_of r) True))"
  shows "check_latest e r = Inr ()"
  unfolding check_latest_def Let_def assms
  by (cases "er_state r") (simp_all add: payload_get del: sorted_keys.simps(2), simp_all add: receipt_payload_def)

text \<open>What a verified ledger shows of an audited effect.\<close>

lemma verified_effect:
  assumes "verified E A l k" "of_effect i (audit_view A) \<noteq> []"
  obtains evs where "audit_events A (Some i) = Inr evs" "evs \<noteq> []" "length evs = length (of_effect i (audit_view A))"
    "audit_row_event (hd (of_effect i (audit_view A))) = Inr (hd evs)"
    "audit_latest A i = Inr (Some (last evs))" "ae_event_type (hd evs) = ''AUTHORITY_VERIFIED''"
proof -
  let ?rows = "of_effect i (audit_view A)"
  have "\<exists>e. audit_row_event r = Inr e" if "r \<in> set ?rows" for r
    using audit_walk_readable [OF assms(1) [unfolded verified_def]] that by auto
  then obtain evs where evs: "rmap_list audit_row_event ?rows = Inr evs" using rmap_list_total by metis
  note hl = rmap_list_hd_last [OF evs assms(2)]
  moreover have "ar_event_type (hd ?rows) = ''AUTHORITY_VERIFIED''"
    using audit_walk_first [OF assms(1) [unfolded verified_def] _ assms(2)] by simp
  ultimately show ?thesis
    using evs assms(2) row_event_fields [of "hd ?rows" "hd evs"]
    by (intro that [of evs]) (auto simp: audit_events_view audit_latest_view [OF assms(1)] rmap_list_length)
qed

lemma check_effect_verified:
  assumes "verified E A l k" "of_effect i (audit_view A) \<noteq> []" "fence_ok F" "audit_events A (Some i) = Inr evs"
  shows "ok (check_effect A F i) \<longleftrightarrow>
    (case effect_row i F of
       None \<Rightarrow> length (of_effect i (audit_view A)) = 1
     | Some r \<Rightarrow> audit_stage A i = Some (target_of r) \<and> check_authority (hd evs) r = Inr ()
         \<and> check_latest (last evs) r = Inr ())"
proof -
  obtain evs' where e: "audit_events A (Some i) = Inr evs'" "evs' \<noteq> []" "length evs' = length (of_effect i (audit_view A))"
    "audit_latest A i = Inr (Some (last evs'))" "ae_event_type (hd evs') = ''AUTHORITY_VERIFIED''"
    using verified_effect [OF assms(1,2)] by metis
  then have "evs' = evs" using assms(4) by simp
  with e show ?thesis
    by (auto simp: check_effect_def all_effects_row [OF assms(3)] audit_stage_def result_simps split: option.splits)
qed

lemma audited_iff: "i \<in> ar_effect_id ` set (au_rows A) \<longleftrightarrow> of_effect i (audit_view A) \<noteq> []"
  by (auto simp: filter_empty_conv image_iff)

lemma consistency_verified:
  assumes "verified E A l k"
  shows "ok (verify_fence_consistency E A F rep) \<longleftrightarrow>
    (\<forall>i\<in>ar_effect_id ` set (au_rows A). ok (check_effect A F i))
    \<and> er_effect_id ` set F \<subseteq> ar_effect_id ` set (au_rows A)" (is "?lhs \<longleftrightarrow> ?rhs")
    and "verify_fence_consistency E A F rep = Inr c \<Longrightarrow> ac_audit_head c = au_head A \<and> ac_repaired c = sort (remdups rep)"
proof -
  have "\<exists>e. audit_row_event r = Inr e" if "r \<in> set (audit_view A)" for r
    using audit_walk_readable [OF assms [unfolded verified_def] that] .
  then obtain evs where evs: "rmap_list audit_row_event (audit_view A) = Inr evs" using rmap_list_total by metis
  have "map ae_effect_id evs = map ar_effect_id (audit_view A)"
    using evs by (rule rmap_list_map) (auto dest: row_event_fields)
  then have ids: "set (sort (remdups (map ae_effect_id evs))) = ar_effect_id ` set (au_rows A)"
    by (simp add: audit_view_def)
  define xs where "xs = sort (remdups (map ae_effect_id evs))"
  have eq: "verify_fence_consistency E A F rep =
    rbind (rmap_list (check_effect A F) xs) (\<lambda>only.
      let missing = filter (\<lambda>i. i \<notin> set xs) (map er_effect_id (all_effects F))
      in rbind (ensure (missing = []) (Unaudited_effects missing)) (\<lambda>_.
           Inr \<lparr>ac_audit_head = au_head A, ac_fence_effect_count = length (all_effects F),
                ac_audited_effect_count = length xs, ac_authority_only = map fst (filter snd (zip xs only)),
                ac_repaired = sort (remdups rep)\<rparr>))"
    by (simp add: verify_fence_consistency_def verified_verify [OF assms] audit_events_view evs xs_def Let_def)
  then show "verify_fence_consistency E A F rep = Inr c \<Longrightarrow> ac_audit_head c = au_head A \<and> ac_repaired c = sort (remdups rep)"
    by (auto simp: result_simps Let_def)
  have xs: "set xs = ar_effect_id ` set (au_rows A)" using ids by (simp only: xs_def)
  have "?lhs \<longleftrightarrow> ok (rmap_list (check_effect A F) xs) \<and> er_effect_id ` set F \<subseteq> set xs"
    unfolding eq by (auto simp: result_simps Let_def filter_empty_conv all_effects_def)
  moreover have "ok (rmap_list (check_effect A F) xs) \<longleftrightarrow> (\<forall>i\<in>set xs. ok (check_effect A F i))"
    using rmap_list_total [of xs "check_effect A F"] rmap_list_member [of "check_effect A F" xs] by blast
  ultimately show "?lhs \<longleftrightarrow> ?rhs" by (simp only: xs)
qed

section \<open>A ledger the fence left behind\<close>

text \<open>
  The situation after a crash: the ledger agreed with the fence, the fence ran on, and every
  effect that was reserved since has its authority event in the ledger.
\<close>

definition left_behind :: "py_env \<Rightarrow> audit \<Rightarrow> fence \<Rightarrow> fence \<Rightarrow> bool" where
  "left_behind E A F F' \<longleftrightarrow>
     (\<exists>rep c. verify_fence_consistency E A F rep = Inr c) \<and> fence_ok F \<and> (\<exists>ls. runs fence_step F ls F')
     \<and> (\<forall>r\<in>set F'. effect_row (er_effect_id r) F = None \<longrightarrow>
          (\<exists>e. audit_events A (Some (er_effect_id r)) = Inr [e] \<and> check_authority e r = Inr ()))"

lemma left_behind_verified: "left_behind E A F F' \<Longrightarrow> \<exists>l k. verified E A l k"
  by (auto simp: left_behind_def verify_fence_consistency_def result_simps verify_audit_iff)

text \<open>What the ledger already holds of an effect that the fence now has in state \<open>r'\<close>.\<close>

definition lags :: "audit \<Rightarrow> fence \<Rightarrow> effect_receipt \<Rightarrow> audit_event list \<Rightarrow> bool" where
  "lags A F r' evs \<longleftrightarrow> behind A r' \<and> check_authority (hd evs) r' = Inr ()
     \<and> (audit_stage A (er_effect_id r') = Some (target_of r') \<longleftrightarrow> effect_status F (er_effect_id r') = Some (er_state r'))
     \<and> (audit_stage A (er_effect_id r') = Some (target_of r') \<longrightarrow> check_latest (last evs) r' = Inr ())"

lemma lags_known:
  assumes v: "verified E A l k" and h: "ok (verify_fence_consistency E A F rep)" "fence_ok F" "runs fence_step F ls F'"
    and r: "effect_row i F = Some r" "effect_row i F' = Some r'" "er_effect_id r' = i" "i \<noteq> []"
  shows "\<exists>evs. of_effect i (audit_view A) \<noteq> [] \<and> audit_events A (Some i) = Inr evs \<and> lags A F r' evs"
proof -
  note con = consistency_verified(1) [OF v, THEN iffD1, OF h(1)]
  have "i \<in> er_effect_id ` set F" using r(1) by (auto dest: row_of_Some)
  then have aud: "i \<in> ar_effect_id ` set (au_rows A)" using con by blast
  then have ne: "of_effect i (audit_view A) \<noteq> []" by (rule audited_iff [THEN iffD1])
  obtain evs where evs: "audit_events A (Some i) = Inr evs" using verified_effect [OF v ne] by metis
  have chk: "audit_stage A i = Some (target_of r)" "check_authority (hd evs) r = Inr ()" "check_latest (last evs) r = Inr ()"
    using con aud check_effect_verified [OF v ne h(2) evs] r(1) by auto
  have r': "same_binding r r'" "fence_edge\<^sup>*\<^sup>* (er_state r) (er_state r')" "er_state r' = er_state r \<Longrightarrow> r' = r"
    using fence_run_row [OF h(3) r(1)] r(2) by auto
  have "behind A r'" using chk(1) r r'(2) by (auto simp: behind_def reaches_def)
  moreover have "check_authority (hd evs) r' = Inr ()" using chk(2) check_authority_binding [OF r'(1)] by simp
  ultimately have "lags A F r' evs"
    using chk(1,3) r r'(3) unfolding lags_def by (auto simp: effect_status_def)
  then show ?thesis using ne evs by blast
qed

lemma lags_new:
  assumes v: "verified E A l k" and r: "effect_row i F = None" "er_effect_id r' = i" "i \<noteq> []"
    and e: "audit_events A (Some i) = Inr [e]" "check_authority e r' = Inr ()"
  shows "of_effect i (audit_view A) \<noteq> [] \<and> lags A F r' [e]"
proof -
  have ne: "of_effect i (audit_view A) \<noteq> []" using e(1) by (auto simp: audit_events_view)
  obtain evs where "audit_events A (Some i) = Inr evs" "audit_latest A i = Inr (Some (last evs))"
    "ae_event_type (hd evs) = ''AUTHORITY_VERIFIED''"
    using verified_effect [OF v ne] by metis
  then have "audit_stage A i = Some ''AUTHORITY_VERIFIED''" using e(1) by (auto simp: audit_stage_def)
  then show ?thesis using ne r e(2) target_not_authority [of "er_state r'", symmetric]
    by (auto simp: lags_def behind_def reaches_def effect_status_def)
qed

lemma left_behind_effect:
  assumes lb: "left_behind E A F F'" and v: "verified E A l k" and i: "effect_row i F' = Some r'"
  shows "\<exists>evs. of_effect i (audit_view A) \<noteq> [] \<and> audit_events A (Some i) = Inr evs \<and> lags A F r' evs"
proof -
  obtain rep c ls where h: "verify_fence_consistency E A F rep = Inr c" "fence_ok F" "runs fence_step F ls F'"
    using lb by (auto simp: left_behind_def)
  have id: "er_effect_id r' = i" "r' \<in> set F'" "i \<noteq> []"
    using i fence_run_ok [OF h(3,2)] row_of_Some [of er_effect_id i F' r'] by (auto simp: fence_ok_def receipt_ok_def)
  show ?thesis
  proof (cases "effect_row i F")
    case (Some r)
    then show ?thesis using h(1) by (intro lags_known [OF v _ h(2,3) Some i id(1,3)]) blast
  next
    case None
    then obtain e where "audit_events A (Some i) = Inr [e]" "check_authority e r' = Inr ()"
      using lb id unfolding left_behind_def by blast
    then show ?thesis using lags_new [OF v None id(1,3)] by blast
  qed
qed

lemma repaired_present:
  assumes v: "verified E A l k" "verified E A' l' k'" and ok': "fence_ok F'" and r: "effect_row i F' = Some r" "er_effect_id r = i"
    and e: "of_effect i (audit_view A) \<noteq> []" "audit_events A (Some i) = Inr evs" "lags A F r evs"
    and up: "caught_up A r A'" and grew: "of_effect i (audit_view A') = of_effect i (audit_view A) @ xs"
  shows "ok (check_effect A' F' i)"
proof -
  have ne': "of_effect i (audit_view A') \<noteq> []" using e(1) grew by simp
  obtain evs' where evs': "audit_events A' (Some i) = Inr evs'" "audit_latest A' i = Inr (Some (last evs'))"
    "audit_row_event (hd (of_effect i (audit_view A'))) = Inr (hd evs')"
    using verified_effect [OF v(2) ne'] by metis
  have "audit_row_event (hd (of_effect i (audit_view A))) = Inr (hd evs)"
    using verified_effect [OF v(1) e(1)] e(2) by (metis sum.inject(2))
  then have "hd evs' = hd evs" using evs'(3) e(1) unfolding grew by simp
  moreover have "audit_stage A' i = Some (target_of r) \<and> check_latest (last evs') r = Inr ()"
  proof (cases "audit_stage A i = Some (target_of r)")
    case True
    then have eq: "of_effect i (audit_view A') = of_effect i (audit_view A)" using up r(2) by (simp add: caught_up_def)
    then have "evs' = evs" using evs'(1) e(2) by (simp add: audit_events_view)
    then show ?thesis using True e(3) r(2) audit_latest_same(2) [OF v eq] by (simp add: lags_def)
  next
    case False
    then have "at_target r A'" using up r(2) by (simp add: caught_up_def)
    then show ?thesis using evs'(2) r(2) check_latest_repaired
      by (auto simp: at_target_def audit_stage_def simp del: sorted_keys.simps)
  qed
  ultimately show ?thesis using check_effect_verified [OF v(2) ne' ok' evs'(1)] r(1) e(3) by (simp add: lags_def)
qed

lemma repaired_absent:
  assumes v: "verified E A l k" "verified E A' l' k'" and ok: "fence_ok F" "fence_ok F'"
    and r: "effect_row i F = None" "effect_row i F' = None"
    and same: "of_effect i (audit_view A') = of_effect i (audit_view A)"
    and chk: "ok (check_effect A F i)" and ne: "of_effect i (audit_view A) \<noteq> []"
  shows "ok (check_effect A' F' i)"
proof -
  obtain evs where evs: "audit_events A (Some i) = Inr evs" using verified_effect [OF v(1) ne] by metis
  then have "audit_events A' (Some i) = Inr evs" by (simp add: audit_events_view same)
  then show ?thesis
    using check_effect_verified [OF v(1) ne ok(1) evs] chk r check_effect_verified [OF v(2) _ ok(2)] ne same by simp
qed

lemma left_behind_repaired:
  assumes lb: "left_behind E A F F'" and v: "verified E A l k" "verified E A' l' k'"
    and out: "repair_outcome E A (all_effects F') (Inr ids) A'"
  shows "ok (verify_fence_consistency E A' F' ids)"
proof -
  obtain rep c ls where h: "verify_fence_consistency E A F rep = Inr c" "fence_ok F" "runs fence_step F ls F'"
    using lb by (auto simp: left_behind_def)
  note con = consistency_verified(1) [OF v(1), THEN iffD1, OF exI, OF h(1)]
  have ok': "fence_ok F'" using fence_run_ok [OF h(3,2)] .
  have grew: "\<exists>xs. of_effect i (audit_view A') = of_effect i (audit_view A) @ xs" for i
    using out by (auto simp: repair_outcome_def ledger_grew_def)
  have chk: "ok (check_effect A' F' i)" if "i \<in> ar_effect_id ` set (au_rows A')" for i
  proof (cases "effect_row i F'")
    case None
    then have same: "of_effect i (audit_view A') = of_effect i (audit_view A)"
      using out by (auto simp: repair_outcome_def all_effects_def row_of_None_iff)
    have ne: "of_effect i (audit_view A) \<noteq> []" using audited_iff [THEN iffD1, OF that] same by simp
    have "effect_row i F = None" using None fence_run_row [OF h(3), of i] by (cases "effect_row i F") auto
    then show ?thesis using con audited_iff [THEN iffD2, OF ne]
      by (intro repaired_absent [OF v h(2) ok' _ None same _ ne]) blast+
  next
    case (Some r)
    then have "r \<in> set (all_effects F')" "er_effect_id r = i" using fence_row_iff [OF ok'] by (auto simp: all_effects_def)
    moreover obtain evs where "of_effect i (audit_view A) \<noteq> []" "audit_events A (Some i) = Inr evs" "lags A F r evs"
      using left_behind_effect [OF lb v(1) Some] by blast
    moreover obtain xs where "of_effect i (audit_view A') = of_effect i (audit_view A) @ xs" using grew by blast
    ultimately show ?thesis using out by (intro repaired_present [OF v ok' Some]) (simp_all add: repair_outcome_def)
  qed
  have "i \<in> ar_effect_id ` set (au_rows A')" if i: "i \<in> er_effect_id ` set F'" for i
  proof -
    obtain r where "r \<in> set F'" "er_effect_id r = i" using i by blast
    then have "effect_row i F' = Some r" by (simp add: fence_row_iff [OF ok'])
    then have "of_effect i (audit_view A') \<noteq> []" using left_behind_effect [OF lb v(1)] grew [of i] by force
    then show ?thesis by (rule audited_iff [THEN iffD2])
  qed
  then show ?thesis using consistency_verified(1) [OF v(2), of F' ids] chk by blast
qed

lemma left_behind_ids:
  assumes lb: "left_behind E A F F'" and v: "verified E A l k"
    and out: "repair_outcome E A (all_effects F') (Inr ids) A'"
  shows "set ids = {i. effect_status F' i \<noteq> effect_status F i}"
proof -
  obtain ls where h: "fence_ok F" "runs fence_step F ls F'" using lb by (auto simp: left_behind_def)
  have ok': "fence_ok F'" using fence_run_ok [OF h(2,1)] .
  have "i \<in> set ids \<longleftrightarrow> effect_status F' i \<noteq> effect_status F i" for i
  proof (cases "effect_row i F'")
    case None
    then have "effect_row i F = None" using fence_run_row [OF h(2), of i] by (cases "effect_row i F") auto
    moreover have "i \<notin> set ids" using None out by (auto simp: repair_outcome_def all_effects_def row_of_None_iff)
    ultimately show ?thesis using None by (simp add: effect_status_def)
  next
    case (Some r)
    then have r: "r \<in> set F'" "er_effect_id r = i" by (simp_all add: fence_row_iff [OF ok'])
    have only: "s = r" if "s \<in> set F'" "er_effect_id s = i" for s
      using that Some fence_row_iff [OF ok', of i s] by simp
    have "set ids = er_effect_id ` {s \<in> set F'. audit_stage A (er_effect_id s) \<noteq> Some (target_of s)}"
      using out by (simp add: repair_outcome_def all_effects_def)
    then have "i \<in> set ids \<longleftrightarrow> (\<exists>s\<in>set F'. er_effect_id s = i \<and> audit_stage A (er_effect_id s) \<noteq> Some (target_of s))"
      by (simp add: image_iff) blast
    then have "i \<in> set ids \<longleftrightarrow> audit_stage A i \<noteq> Some (target_of r)" using r only by metis
    moreover obtain evs where "lags A F r evs" using left_behind_effect [OF lb v Some] by blast
    moreover have "effect_status F' i = Some (er_state r)" using Some by (simp add: effect_status_def)
    ultimately show ?thesis using r(2) by (simp add: lags_def) metis
  qed
  then show ?thesis by blast
qed

lemma row_event_not_integrity: "audit_row_event r \<noteq> Inl Audit_integrity"
  by (auto simp: audit_row_event_def rbind_Inl_iff ensure_Inl_iff map_err_Inl_iff)

lemma audit_body_sequence:
  assumes "canonical_json_bytes E (audit_body s i k t p w) = Inr b" "canonical_json_bytes E (audit_body s' i' k' t' p' w') = Inr b"
  shows "s = s'"
proof -
  have seq: "\<exists>W. wf_json W \<and> b = utf8 (json_text W) \<and> jget ''sequence'' W = Some (JInt s)"
    if e: "canonical_json_bytes E (audit_body s i k t p w) = Inr b" for s i k t p w
  proof -
    obtain W where W: "normalize_value E None (audit_body s i k t p w) = Inr W" "b = utf8 (json_text W)"
      using e by (auto simp: canonical_json_bytes_def canonical_json_def result_simps simp del: normalize_value.simps)
    have "jget ''sequence'' W = Some (JInt s)"
      using normalize_obj_get [OF W(1) [unfolded audit_body_def], of "''sequence''" "JInt s"] by (auto simp: result_simps)
    then show ?thesis using W normalize_wf [OF W(1)] by blast
  qed
  then show ?thesis using seq [OF assms(1)] seq [OF assms(2)] by (auto simp: utf8_inj json_text_inj)
qed

lemma audit_walk_digest:
  "audit_walk E c rs = Inr c' \<Longrightarrow> r \<in> set rs \<Longrightarrow> \<exists>e. audit_row_event r = Inr e
     \<and> canonical_digest E (audit_body (ar_sequence r) (ar_effect_id r) (ar_effect_kind r) (ar_event_type r)
          (ar_predecessor r) (ae_payload e)) = Inr (ar_digest r)"
proof (induction rs arbitrary: c)
  case (Cons s rs)
  obtain p n l k where c: "c = (p, n, l, k)" by (metis prod_cases4)
  then obtain c1 where c1: "audit_walk_row E (p, n, l, k) s = Inr c1" "audit_walk E c1 rs = Inr c'"
    using Cons.prems(1) by (auto simp: result_simps)
  show ?case
  proof (cases "r = s")
    case True
    obtain w where w: "audit_row_event s = Inr \<lparr>ae_sequence = n, ae_effect_id = ar_effect_id s,
            ae_effect_kind = ar_effect_kind s, ae_event_type = ar_event_type s,
            ae_predecessor = p, ae_digest = ar_digest s, ae_payload = w\<rparr>"
      "canonical_digest E (audit_body n (ar_effect_id s) (ar_effect_kind s) (ar_event_type s) p w) = Inr (ar_digest s)"
      using c1(1) unfolding audit_walk_row_Inr by blast
    then show ?thesis using True row_event_fields [OF w(1)] by simp
  qed (use Cons.IH [OF c1(2)] Cons.prems(2) in simp)
qed simp

text \<open>
  Keeping step: the fence moves one effect on and the ledger gains the event that says so.
\<close>

lemma keeping_step:
  assumes v: "verified E A l k" "verified E A' l' k'" and view: "audit_view A' = audit_view A @ [row]"
    and F: "fence_ok F" "fence_ok F'" "ok (verify_fence_consistency E A F rep)"
    and row: "ar_effect_id row = i" "audit_row_event row = Inr e"
    and r: "effect_row i F = Some r" "effect_row i F' = Some r'" "same_binding r r'"
    and e: "ae_event_type e = target_of r'" "check_latest e r' = Inr ()"
    and other: "\<And>j. j \<noteq> i \<Longrightarrow> effect_row j F' = effect_row j F" "er_effect_id ` set F' = er_effect_id ` set F"
  shows "ok (verify_fence_consistency E A' F' rep')"
proof -
  note con = consistency_verified(1) [OF v(1), THEN iffD1, OF F(3)]
  have "i \<in> er_effect_id ` set F" using r(1) by (auto dest: row_of_Some)
  then have i: "i \<in> ar_effect_id ` set (au_rows A)" using con by blast
  have "set (au_rows A') = insert row (set (au_rows A))" using view audit_view_set [of A'] by simp
  then have ids: "ar_effect_id ` set (au_rows A') = ar_effect_id ` set (au_rows A)"
    using i row(1) by (simp only: image_insert insert_absorb)
  have "ok (check_effect A' F' j)" if j: "j \<in> ar_effect_id ` set (au_rows A')" for j
  proof -
    have ne: "of_effect j (audit_view A) \<noteq> []" using j unfolding ids by (rule audited_iff [THEN iffD1])
    obtain evs where evs: "audit_events A (Some j) = Inr evs" "evs \<noteq> []" using verified_effect [OF v(1) ne] by metis
    have chk: "ok (check_effect A F j)" by (rule bspec [OF conjunct1 [OF con] j [unfolded ids]])
    show ?thesis
    proof (cases "j = i")
      case False
      then have same: "of_effect j (audit_view A') = of_effect j (audit_view A)" using row(1) by (simp add: view)
      then have "audit_events A' (Some j) = Inr evs" using evs(1) by (simp add: audit_events_view)
      then show ?thesis
        using chk ne check_effect_verified [OF v(1) ne F(1) evs(1)]
          check_effect_verified [OF v(2) _ F(2), of j evs, unfolded same audit_latest_same(2) [OF v same] other(1) [OF False]]
        by simp
    next
      case True
      have ne': "of_effect i (audit_view A') \<noteq> []" using row(1) by (simp add: view)
      have ev': "audit_events A' (Some i) = Inr (evs @ [e])"
        using evs(1) row True by (simp add: audit_events_view view rmap_list_snoc)
      have "audit_stage A' i = Some (target_of r')"
        using row e(1) by (simp add: audit_stage_def audit_latest_view [OF v(2)] view)
      then show ?thesis
        using chk check_effect_verified [OF v(1) ne F(1) evs(1)] check_effect_verified [OF v(2) ne' F(2) ev'] True r
          evs(2) e(2) check_authority_binding [OF r(3)] by simp
    qed
  qed
  moreover have "er_effect_id ` set F' \<subseteq> ar_effect_id ` set (au_rows A')" using con other(2) ids by simp
  ultimately show ?thesis using consistency_verified(1) [OF v(2), of F' rep'] by blast
qed

section \<open>A concrete ledger\<close>

definition demo_authority :: "(string \<times> json) list" where
  "demo_authority = [(''request_digest'', JStr (hex64 CHR ''a'')), (''mechanical_permit_digest'', JStr (hex64 CHR ''b'')),
     (''authority_evidence_digest'', JStr (hex64 CHR ''c'')),
     (''lifecycle_permit'', JObj [(''permit_digest'', JStr (hex64 CHR ''d''))])]"

lemma demo_append:
  "\<exists>ev A. audit_append demo_env (open_audit [] None) ''mail-1'' ''MAIL'' ''AUTHORITY_VERIFIED'' demo_authority = Inr (ev, A)"
proof -
  have p: "plain_json (JObj demo_authority)"
    "plain_json (audit_body 1 ''mail-1'' ''MAIL'' ''AUTHORITY_VERIFIED'' AUDIT_GENESIS (JObj demo_authority))"
    by (simp_all add: audit_body_def demo_authority_def plain_eval)
  show ?thesis
    using canonical_text [OF p(1), of demo_env] canonical_digest_of [OF p(2), of demo_env]
    by (simp add: audit_append_def open_audit_def find_audit_def Let_def EVENT_TYPES_def)
qed

lemma demo_ledger:
  assumes "audit_append demo_env (open_audit [] None) ''mail-1'' ''MAIL'' ''AUTHORITY_VERIFIED'' demo_authority = Inr (ev, A)"
  shows "left_behind demo_env A [] fence_example \<and> kinds_named A \<and> au_sequence A = 1"
proof -
  let ?A0 = "open_audit [] None"
  have stage: "check_stage None None ''MAIL'' ''AUTHORITY_VERIFIED'' = Inr ()"
    by (simp add: check_stage_def EVENT_TYPES_def)
  have plain: "plain_json (JObj demo_authority)" by (simp add: demo_authority_def plain_eval)
  obtain w d l k where w: "normalize_value demo_env None (JObj demo_authority) = Inr w" "verified demo_env A l k"
    "audit_view A = [new_row ?A0 ''mail-1'' ''MAIL'' ''AUTHORITY_VERIFIED'' w d]"
    "A = grown ?A0 (new_row ?A0 ''mail-1'' ''MAIL'' ''AUTHORITY_VERIFIED'' w d)"
    using append_allowed_verified [OF open_audit_verified assms _ payload_settled_plain [OF plain]] stage
    by (auto simp: find_audit_def open_audit_def audit_view_def)
  have w': "w = sorted_keys (JObj demo_authority)"
    using w(1) normalize_plain [OF plain, of None demo_env] by (simp add: path_hint_def time_hint_def del: normalize_value.simps sorted_keys.simps)
  have one: "of_effect ''mail-1'' (audit_view A) = [new_row ?A0 ''mail-1'' ''MAIL'' ''AUTHORITY_VERIFIED'' w d]"
    "set (au_rows A) = {new_row ?A0 ''mail-1'' ''MAIL'' ''AUTHORITY_VERIFIED'' w d}"
    using w(3) audit_view_set [of A] by (simp_all add: new_row_def)
  have ids: "ar_effect_id ` set (au_rows A) = {''mail-1''}" "ar_effect_kind ` set (au_rows A) = {''MAIL''}"
    using one by (simp_all add: new_row_def)
  have "is_dict w" by (simp add: w')
  then obtain e where e: "audit_events A (Some ''mail-1'') = Inr [e]" "ae_payload e = w"
    using new_row_event [OF normalize_wf [OF w(1)], of ?A0 "''mail-1''" "''MAIL''" "''AUTHORITY_VERIFIED''" d] one
    by (simp add: audit_events_view)
  have "ok (check_effect A [] ''mail-1'')"
    using check_effect_verified [OF w(2) _ _ e(1), of "[]"] one by (simp add: fence_ok_def distinct_keys_def)
  then have con: "ok (verify_fence_consistency demo_env A [] [])"
    using consistency_verified(1) [OF w(2), of "[]" "[]"] ids by simp
  have auth: "check_authority e (hd fence_example) = Inr ()"
    unfolding check_authority_def e(2) w' Let_def
    by (simp add: demo_authority_def fence_example_def py_get_sorted del: sorted_keys.simps(2))
  obtain r1 F1 where "reserve [] ''mail-1'' (hex64 CHR ''a'') (hex64 CHR ''b'') (hex64 CHR ''c'') (hex64 CHR ''d'') = Inr (r1, F1)"
    "fence_step F1 (L_claim ''mail-1'') fence_example"
    using claim_dispatch_claims [OF fence_example_run] by blast
  then have "\<exists>ls. runs fence_step [] ls fence_example" by (blast intro: runs.intros step_reserve)
  moreover have "set fence_example = {hd fence_example}" "er_effect_id (hd fence_example) = ''mail-1''"
    by (simp_all add: fence_example_def)
  ultimately show ?thesis using con e(1) auth w(4) ids(2)
    by (auto simp: left_behind_def fence_ok_def distinct_keys_def kinds_named_def grown_def open_audit_def)
qed

section \<open>What the audit guarantees\<close>

text \<open>
  C8: A ledger that the fence left behind is repaired. Take a ledger consistent with the
  effect fence, let the fence run on through any sequence of reservations, claims,
  settlements, cancellations and reconciliations of which the ledger is told nothing but the
  authority event of each new effect, and repair. The repair ends; it ends with a ledger
  that verifies and is consistent with the fence, and the effects it reports as repaired are
  exactly those whose state in the fence changed. The one other way it can end is a row
  refused because its digest is already taken.
\<close>

theorem repair_after_crash:
  assumes "left_behind E A F F'" "kinds_named A" "au_sequence A + 4 * int (length F') \<le> MAX_SAFE_INTEGER"
  shows "\<exists>res A'. repair_from_fence E A F' = Some (res, A') \<and> verify_audit E A' = Inr (au_head A') \<and>
    (res = Inl Audit_integrity \<or>
     (\<exists>c. res = Inr c \<and> ac_audit_head c = au_head A' \<and> verify_fence_consistency E A' F' (ac_repaired c) = Inr c
        \<and> set (ac_repaired c) = {i. effect_status F' i \<noteq> effect_status F i}))"
proof -
  obtain l k where v: "verified E A l k" using left_behind_verified [OF assms(1)] by blast
  have ok': "fence_ok F'" using assms(1) fence_run_ok by (auto simp: left_behind_def)
  have "distinct (map er_effect_id (all_effects F'))"
    using ok' by (simp add: fence_ok_def distinct_keys_def all_effects_def distinct_map)
  then obtain res A' where rep: "repair_effects E A (all_effects F') = Some (res, A')"
    and out: "repair_outcome E A (all_effects F') res A'"
    using repair_effects_outcome [OF v] by blast
  obtain l' k' where v': "verified E A' l' k'" using out by (auto simp: repair_outcome_def)
  have whole: "repair_from_fence E A F' = Some (rbind res (verify_fence_consistency E A' F'), A')"
    using rep by (simp add: repair_from_fence_def verified_verify [OF v])
  have "behind A r" if "r \<in> set F'" for r
    using that left_behind_effect [OF assms(1) v, of "er_effect_id r" r] fence_row_iff [OF ok'] by (auto simp: lags_def)
  then have "(\<exists>ids. res = Inr ids) \<or> res = Inl Audit_integrity"
    using out assms(2,3) by (simp add: repair_outcome_def all_effects_def)
  then show ?thesis
  proof
    assume "\<exists>ids. res = Inr ids"
    then obtain ids where ids: "res = Inr ids" by blast
    obtain c where c: "verify_fence_consistency E A' F' ids = Inr c"
      using left_behind_repaired [OF assms(1) v v'] out ids by blast
    have "ac_repaired c = sort (remdups ids)" "ac_audit_head c = au_head A'"
      using consistency_verified(2) [OF v' c] by simp_all
    moreover have "verify_fence_consistency E A' F' (sort (remdups ids)) = Inr c"
      using c by (simp add: verify_fence_consistency_def distinct_remdups_id sort_key_id_if_sorted)
    ultimately show ?thesis
      using whole ids c verified_verify [OF v'] left_behind_ids [OF assms(1) v] out by auto
  qed (use whole verified_verify [OF v'] in auto)
qed

theorem repair_after_crash_witness:
  "\<exists>A res A'. left_behind demo_env A [] fence_example \<and> repair_from_fence demo_env A fence_example = Some (res, A') \<and>
     (res = Inl Audit_integrity \<or> (\<exists>c. res = Inr c \<and> set (ac_repaired c) = {''mail-1''}))"
proof -
  obtain ev A where "audit_append demo_env (open_audit [] None) ''mail-1'' ''MAIL'' ''AUTHORITY_VERIFIED'' demo_authority = Inr (ev, A)"
    using demo_append by blast
  from demo_ledger [OF this] have A: "left_behind demo_env A [] fence_example" "kinds_named A"
    "au_sequence A + 4 * int (length fence_example) \<le> MAX_SAFE_INTEGER"
    by (simp_all add: fence_example_def MAX_SAFE_INTEGER_def)
  have "{i. effect_status fence_example i \<noteq> effect_status [] i} = {''mail-1''}"
    by (auto simp: effect_status_def fence_example_def row_of_Cons)
  then show ?thesis using repair_after_crash [OF A] A(1) by auto
qed

text \<open>
  C33: The repair always ends. On any fence with its primary key and any audit file, tampered
  with or not, \<^verbatim>\<open>repair_from_fence\<close> returns or raises; it only ever appends, and
  a ledger that verified before verifies after, whichever way it ends.
\<close>

theorem repair_returns:
  assumes "distinct_keys er_effect_id F"
  shows "\<exists>res A'. repair_from_fence E A F = Some (res, A') \<and> (\<exists>rows. au_rows A' = au_rows A @ rows)
    \<and> (ok (verify_audit E A) = ok (verify_audit E A'))"
proof (cases "verify_audit E A")
  case (Inl e)
  then show ?thesis by (simp add: repair_from_fence_def)
next
  case (Inr h)
  then obtain l k where v: "verified E A l k" by (auto simp: verify_audit_iff)
  have "distinct (map er_effect_id (all_effects F))"
    using assms by (simp add: distinct_keys_def all_effects_def distinct_map)
  then obtain res A' where rep: "repair_effects E A (all_effects F) = Some (res, A')"
    and out: "repair_outcome E A (all_effects F) res A'"
    using repair_effects_outcome [OF v] by blast
  then show ?thesis
    using Inr verified_verify by (fastforce simp: repair_from_fence_def repair_outcome_def ledger_grew_def)
qed

theorem repair_returns_witness:
  "\<exists>res A'. repair_from_fence demo_env (open_audit [] None) fence_example = Some (res, A')"
proof -
  have "distinct_keys er_effect_id fence_example" by (simp add: distinct_keys_def fence_example_def)
  from repair_returns [OF this, of demo_env "open_audit [] None"] show ?thesis by blast
qed

text \<open>
  C36: What an append does to a verified ledger. Appending a new event to a ledger that
  verifies gives one whose verification ends in exactly the stage check of the new event
  against the latest event of the same effect: accepted with the new digest as head when the
  stage may follow and the kind is the same, refused with the check's error otherwise.
  \<^verbatim>\<open>append\<close> itself makes no such check.
\<close>

theorem append_verdict:
  assumes "iso_stable E" "ok (verify_audit E A)" "audit_append E A eid kind t payload = Inr (ev, A')"
    and "find_audit eid t A = None" "audit_latest A eid = Inr prior"
  shows "verify_audit E A' =
    rbind (check_stage (map_option ae_event_type prior) (map_option ae_effect_kind prior) kind t) (\<lambda>_. Inr (ae_digest ev))"
proof -
  obtain l k where v: "verified E A l k" using assms(2) by (auto simp: verify_audit_iff)
  have prior: "l eid = map_option ae_event_type prior" "k eid = map_option ae_effect_kind prior"
    using verified_latest [OF v, of eid] assms(5) by auto
  obtain w d where w: "normalize_value E None (JObj payload) = Inr w" "is_dict w" "t \<in> EVENT_TYPES"
    "canonical_digest E (audit_body (au_sequence A + 1) eid kind t (au_head A) w) = Inr d"
    "A' = grown A (new_row A eid kind t w d)" "ae_digest ev = d"
    using append_new_row [OF assms(3,4) payload_settled_stable [OF assms(1)]] by metis
  show ?thesis
    using append_new_verdict [OF v w(1-4)] prior w(5,6)
    by (cases "check_stage (l eid) (k eid) kind t") (simp_all add: verify_audit_def grown_view [OF v], simp_all add: grown_def new_row_def)
qed

theorem append_verdict_witness:
  "\<exists>ev A. audit_append demo_env (open_audit [] None) ''mail-1'' ''MAIL'' ''AUTHORITY_VERIFIED'' demo_authority = Inr (ev, A)
     \<and> verify_audit demo_env A = Inr (ae_digest ev)"
proof -
  obtain ev A where a: "audit_append demo_env (open_audit [] None) ''mail-1'' ''MAIL'' ''AUTHORITY_VERIFIED'' demo_authority = Inr (ev, A)"
    using demo_append by blast
  have h: "ok (verify_audit demo_env (open_audit [] None))" "find_audit ''mail-1'' ''AUTHORITY_VERIFIED'' (open_audit [] None) = None"
    "audit_latest (open_audit [] None) ''mail-1'' = Inr None"
    using verified_verify [OF open_audit_verified [of demo_env]] by (simp_all add: find_audit_def open_audit_def audit_latest_def)
  from append_verdict [OF demo_env_stable h(1) a h(2,3)] a show ?thesis
    by (auto simp: check_stage_def EVENT_TYPES_def)
qed

text \<open>
  A row refused for its digest is a SHA-256 collision. When \<^verbatim>\<open>append\<close> fails
  on a verified ledger because a unique column is taken, the body of the new event and the
  body of a stored event are two different byte strings with the same digest.
\<close>

lemma integrity_error_is_collision:
  assumes "ok (verify_audit E A)" "audit_append E A eid kind t payload = Inl Audit_integrity"
  shows "\<exists>r\<in>set (au_rows A). \<exists>e b b'. audit_row_event r = Inr e
    \<and> canonical_json_bytes E (audit_body (ar_sequence r) (ar_effect_id r) (ar_effect_kind r) (ar_event_type r)
          (ar_predecessor r) (ae_payload e)) = Inr b
    \<and> canonical_json_bytes E (audit_body (au_sequence A + 1) eid kind t (au_head A) (JObj payload)) = Inr b'
    \<and> collides b b'"
proof -
  obtain l k where v: "verified E A l k" using assms(1) by (auto simp: verify_audit_iff)
  have "au_sequence A + 1 \<notin> ar_sequence ` set (au_rows A)" using verified_sequences [OF v] by force
  then obtain d where d: "canonical_digest E (audit_body (au_sequence A + 1) eid kind t (au_head A) (JObj payload)) = Inr d"
    and taken: "d \<in> ar_digest ` set (au_rows A)"
    using assms(2) by (auto simp: audit_append_def Let_def rbind_Inl_iff ensure_Inl_iff map_err_Inl_iff
        result_simps row_event_not_integrity split: option.splits)
  from taken obtain r where r: "r \<in> set (au_rows A)" "ar_digest r = d" by blast
  obtain e b b' where b: "audit_row_event r = Inr e" "canonical_json_bytes E (audit_body (ar_sequence r) (ar_effect_id r)
      (ar_effect_kind r) (ar_event_type r) (ar_predecessor r) (ae_payload e)) = Inr b"
    "canonical_json_bytes E (audit_body (au_sequence A + 1) eid kind t (au_head A) (JObj payload)) = Inr b'"
    "sha256_hexdigest b = sha256_hexdigest b'"
    using audit_walk_digest [OF v [unfolded verified_def], of r] r d by (auto simp: canonical_digest_def result_simps)
  moreover have "b \<noteq> b'"
    using audit_body_sequence [OF b(2)] b(3) verified_sequences [OF v r(1)] by fastforce
  ultimately show ?thesis using r(1) unfolding collides_def by blast
qed

end
