(* ===== verification/Effect_Recovery.thy ===== *)
theory Effect_Recovery
  imports Outbound_Authority Trust_Guarantees Audit_Repair
begin

text \<open>
  \<^verbatim>\<open>vera_core.effect_recovery\<close>: settling an effect whose outcome is unknown, under
  the proof of a trusted authority. \<open>reconcile\<close> composes the effect fence, the trust
  registry, the verifier and the outbound audit in the order of the code. The registry's
  action lock is held throughout, so the registry does not change; the fence and the audit
  are changed by transactions of their own, so both are returned even when a later step
  raises, and so is the verifier's state.
\<close>

datatype recovery_error =
    Not_ambiguous
  | Occurred_needs_digest
  | Occurred_not_hex
  | No_effect_with_digest
  | Issuer_not_trusted
  | Proof_refused
  | Missing_audit
  | Recovery_canon canon_error
  | Recovery_fence fence_error
  | Recovery_trust trust_error
  | Recovery_audit audit_error

definition RECONCILIATION_PROOF_SCHEMA :: string where
  "RECONCILIATION_PROOF_SCHEMA = ''VERA_MONO_EFFECT_RECONCILIATION_PROOF_V1''"

definition subject_body :: "effect_receipt \<Rightarrow> bool \<Rightarrow> string option \<Rightarrow> json" where
  "subject_body receipt effect_occurred result_digest =
     JObj [(''schema'', JStr ''VERA_MONO_EFFECT_RECONCILIATION_SUBJECT_V1''), (''effect_id'', JStr (er_effect_id receipt)),
           (''request_digest'', JStr (er_request_digest receipt)),
           (''ambiguous_state'', JStr (target_event_type (er_state receipt))),
           (''mechanical_permit_digest'', JStr (er_permit receipt)),
           (''authority_evidence_digest'', JStr (er_authority receipt)),
           (''currentness_evidence_digest'', JStr (er_currentness receipt)),
           (''effect_occurred'', JBool effect_occurred), (''result_digest'', opt_str result_digest)]"

definition reconciliation_subject ::
  "py_env \<Rightarrow> effect_receipt \<Rightarrow> bool \<Rightarrow> string option \<Rightarrow> (recovery_error, string) result" where
  "reconciliation_subject E receipt effect_occurred result_digest =
     rbind (ensure (er_state receipt \<in> {EXECUTING, ATTEMPTED_UNKNOWN}) Not_ambiguous) (\<lambda>_.
     rbind (if effect_occurred
            then (case result_digest of
                    None \<Rightarrow> Inl Occurred_needs_digest
                  | Some d \<Rightarrow>
                      if length d \<noteq> 64 then Inl Occurred_needs_digest
                      else if \<not> int16_accepts d then Inl Occurred_not_hex else Inr ())
            else ensure (result_digest = None) No_effect_with_digest) (\<lambda>_.
     rbind (map_err Recovery_canon (canonical_digest E (subject_body receipt effect_occurred result_digest))) (\<lambda>d.
       Inr (''vera-mono-effect-reconciliation-v1:'' @ d))))"

definition recon_issue ::
  "py_env \<Rightarrow> hmac_authority \<Rightarrow> effect_receipt \<Rightarrow> bool \<Rightarrow> string option \<Rightarrow> (recovery_error, authority_proof) result" where
  "recon_issue E a receipt effect_occurred result_digest =
     rbind (reconciliation_subject E receipt effect_occurred result_digest) (\<lambda>subject.
       map_err Recovery_canon (issue_proof E RECONCILIATION_PROOF_SCHEMA a subject))"

text \<open>
  \<^verbatim>\<open>EffectReconciliationVerifier\<close> is a protocol: the identity of a verifier and its
  \<^verbatim>\<open>verify\<close>, on a state of its own. \<open>hmac_verifier\<close> is the class that the
  repository provides.
\<close>

record 'v reconciliation_verifier =
  rv_authority_id :: string
  rv_key_id :: string
  rv_key_digest :: string
  rv_verify :: "'v \<Rightarrow> authority_proof \<Rightarrow> string \<Rightarrow> bool \<times> 'v"

definition hmac_verifier :: "py_env \<Rightarrow> hmac_authority \<Rightarrow> string set reconciliation_verifier" where
  "hmac_verifier E a = \<lparr>rv_authority_id = ha_issuer_id a, rv_key_id = ha_key_id a, rv_key_digest = ha_key_digest a,
     rv_verify = verify_proof E RECONCILIATION_PROOF_SCHEMA a\<rparr>"

definition evidence_body :: "authority_proof \<Rightarrow> currentness_receipt \<Rightarrow> json" where
  "evidence_body p tr =
     JObj [(''schema'', JStr ''VERA_MONO_VERIFIED_RECONCILIATION_EVIDENCE_V1''),
           (''proof'', JObj [(''schema'', JStr (ap_schema p)), (''issuer_id'', JStr (ap_issuer_id p)),
              (''subject'', JStr (ap_subject p)), (''verification_token'', JStr (ap_token p))]),
           (''authority_currentness'', JObj [(''schema'', JStr ''VERA_MONO_AUTHORITY_CURRENTNESS_RECEIPT_V1''),
              (''authority_id'', JStr (tc_authority_id tr)), (''role'', JStr (tc_role tr)),
              (''provider_id'', opt_str (tc_provider_id tr)), (''authority_generation'', JInt (tc_generation tr)),
              (''revocation_epoch'', JInt (tc_epoch tr)), (''key_id'', JStr (tc_key_id tr)),
              (''key_digest'', JStr (tc_key_digest tr)), (''registry_generation'', JInt (tc_registry_generation tr)),
              (''registry_head_digest'', JStr (tc_registry_head tr)), (''receipt_digest'', JStr (tc_receipt_digest tr))])]"

definition reconciled_payload :: "effect_receipt \<Rightarrow> currentness_receipt \<Rightarrow> (string \<times> json) list" where
  "reconciled_payload r tr =
     [(''request_digest'', JStr (er_request_digest r)), (''result_digest'', opt_str (er_result r)),
      (''authority_evidence_digest'', JStr (er_authority r)), (''currentness_evidence_digest'', JStr (er_currentness r)),
      (''reconciliation_evidence_digest'', opt_str (er_reconciliation r)),
      (''reconciliation_authority_currentness'', JObj [(''authority_id'', JStr (tc_authority_id tr)),
         (''authority_generation'', JInt (tc_generation tr)), (''revocation_epoch'', JInt (tc_epoch tr)),
         (''key_id'', JStr (tc_key_id tr)), (''key_digest'', JStr (tc_key_digest tr)),
         (''registry_generation'', JInt (tc_registry_generation tr)),
         (''registry_head_digest'', JStr (tc_registry_head tr)), (''receipt_digest'', JStr (tc_receipt_digest tr))])]"

text \<open>Everything up to the verifier's answer: nothing durable changes.\<close>

definition recovery_admitted ::
  "py_env \<Rightarrow> fence \<Rightarrow> registry \<Rightarrow> 'v reconciliation_verifier \<Rightarrow> string \<Rightarrow> authority_proof \<Rightarrow> bool \<Rightarrow> string option \<Rightarrow>
     (recovery_error, string \<times> currentness_receipt) result" where
  "recovery_admitted E F R V effect_id pf effect_occurred result_digest =
     rbind (map_err Recovery_fence (read_effect F effect_id)) (\<lambda>receipt.
     rbind (reconciliation_subject E receipt effect_occurred result_digest) (\<lambda>subject.
     rbind (ensure (ap_issuer_id pf = rv_authority_id V) Issuer_not_trusted) (\<lambda>_.
     rbind (map_err Recovery_trust (assert_current E R (rv_authority_id V) ''RECONCILIATION'' (rv_key_id V)
              (rv_key_digest V) None)) (\<lambda>tr. Inr (subject, tr)))))"

text \<open>The end of the call: the audit event that follows the fence's transaction.\<close>

definition audit_reconciled ::
  "py_env \<Rightarrow> audit option \<Rightarrow> string \<Rightarrow> bool \<Rightarrow> effect_receipt \<Rightarrow> currentness_receipt \<Rightarrow>
     (recovery_error, effect_receipt) result \<times> audit option" where
  "audit_reconciled E A effect_id effect_occurred recon tr =
     (case A of
        None \<Rightarrow> (Inr recon, None)
      | Some L \<Rightarrow>
          (case audit_latest L effect_id of
             Inl e \<Rightarrow> (Inl (Recovery_audit e), A)
           | Inr None \<Rightarrow> (Inl Missing_audit, A)
           | Inr (Some previous) \<Rightarrow>
               (case audit_append E L effect_id (ae_effect_kind previous)
                       (if effect_occurred then ''RECONCILED_COMMITTED'' else ''RECONCILED_NO_EFFECT'')
                       (reconciled_payload recon tr) of
                  Inl e \<Rightarrow> (Inl (Recovery_audit e), A)
                | Inr (_, L') \<Rightarrow> (Inr recon, Some L'))))"

definition reconcile ::
  "py_env \<Rightarrow> fence \<Rightarrow> registry \<Rightarrow> audit option \<Rightarrow> 'v reconciliation_verifier \<Rightarrow> 'v \<Rightarrow>
     string \<Rightarrow> authority_proof \<Rightarrow> bool \<Rightarrow> string option \<Rightarrow>
     (recovery_error, effect_receipt) result \<times> fence \<times> audit option \<times> 'v" where
  "reconcile E F R A V v effect_id pf effect_occurred result_digest =
     (case recovery_admitted E F R V effect_id pf effect_occurred result_digest of
        Inl e \<Rightarrow> (Inl e, F, A, v)
      | Inr (subject, tr) \<Rightarrow>
          (case rv_verify V v pf subject of (accepted, v') \<Rightarrow>
             if \<not> accepted then (Inl Proof_refused, F, A, v')
             else case canonical_digest E (evidence_body pf tr) of
               Inl e \<Rightarrow> (Inl (Recovery_canon e), F, A, v')
             | Inr evidence_digest \<Rightarrow>
                 (case reconcile_unknown F effect_id effect_occurred result_digest evidence_digest of
                    Inl e \<Rightarrow> (Inl (Recovery_fence e), F, A, v')
                  | Inr (recon, F') \<Rightarrow>
                      (case audit_reconciled E A effect_id effect_occurred recon tr of
                         (res, A') \<Rightarrow> (res, F', A', v')))))"

section \<open>One reconciliation\<close>

text \<open>The fence moved exactly when the call got past the verifier and the fence.\<close>

lemma reconcile_cases:
  assumes "reconcile E F R A V v eid pf occ res = (out, F', A', v')"
  obtains (refused) e where "out = Inl e" "F' = F" "A' = A"
  | (moved) subject tr ev rec where
      "recovery_admitted E F R V eid pf occ res = Inr (subject, tr)" "rv_verify V v pf subject = (True, v')"
      "canonical_digest E (evidence_body pf tr) = Inr ev" "reconcile_unknown F eid occ res ev = Inr (rec, F')"
      "audit_reconciled E A eid occ rec tr = (out, A')"
  using assms unfolding reconcile_def
  by (auto split: sum.splits prod.splits if_splits)

lemma reconcile_unknown_row:
  assumes "reconcile_unknown F eid occ res ev = Inr (rec, F')"
  obtains r d where "effect_row eid F = Some r" "er_state r \<in> {EXECUTING, ATTEMPTED_UNKNOWN}" "effect_row eid F' = Some rec"
    "same_binding r rec" "er_state rec = (if occ then RECONCILED_COMMITTED else RECONCILED_NO_EFFECT)"
    "digest_check ev = Inr d" "er_reconciliation rec = Some d"
    "\<forall>k. k \<noteq> eid \<longrightarrow> effect_row k F' = effect_row k F" "map er_effect_id F' = map er_effect_id F"
proof -
  obtain d result target r where o: "digest_check ev = Inr d" "effect_row eid F = Some r" "er_state r \<in> {EXECUTING, ATTEMPTED_UNKNOWN}"
    "target = (if occ then RECONCILED_COMMITTED else RECONCILED_NO_EFFECT)"
    "F' = fst (update_effects eid {EXECUTING, ATTEMPTED_UNKNOWN}
             (\<lambda>r. r\<lparr>er_state := target, er_result := result, er_reconciliation := Some d\<rparr>) F)"
    "rec = r\<lparr>er_state := target, er_result := result, er_reconciliation := Some d\<rparr>"
    using assms by (auto simp: reconcile_unknown_def require_digest_def result_simps Let_def case_prod_beta split: if_splits option.splits)
  have "er_effect_id r = eid" using row_of_Some [OF o(2)] by simp
  with o show ?thesis
    by (intro that [of r d]) (auto simp: effect_row_update update_effects_keys same_binding_def)
qed

lemma admitted_Inr:
  assumes "recovery_admitted E F R V eid pf occ res = Inr (subject, tr)"
  obtains r where "effect_row eid F = Some r" "reconciliation_subject E r occ res = Inr subject"
    "ap_issuer_id pf = rv_authority_id V"
    "assert_current E R (rv_authority_id V) ''RECONCILIATION'' (rv_key_id V) (rv_key_digest V) None = Inr tr"
  using assms by (auto simp: recovery_admitted_def read_effect_def result_simps)

lemma audit_reconciled_Inr: "audit_reconciled E A eid occ rec tr = (Inr out, A') \<Longrightarrow> out = rec"
  by (auto simp: audit_reconciled_def split: option.splits sum.splits prod.splits)

section \<open>The audit keeps up\<close>

text \<open>What the registry has signed off on can be put in an audit payload.\<close>

lemma current_receipt_plain:
  assumes "assert_current E R aid role kid kd prov = Inr tr"
  shows "plain_json (JObj (reconciled_payload rec tr))"
proof -
  obtain row d where "canonical_digest E (receipt_body row R aid role prov kid d) = Inr (tc_receipt_digest tr)"
    "tc_generation tr = au_generation row" "tc_epoch tr = au_epoch row" "tc_registry_generation tr = tr_generation R"
    using assms by (auto simp: assert_current_def trust_require_text_def trust_require_digest_def result_simps)
  then have "\<bar>tc_generation tr\<bar> \<le> MAX_SAFE_INTEGER" "\<bar>tc_epoch tr\<bar> \<le> MAX_SAFE_INTEGER" "\<bar>tc_registry_generation tr\<bar> \<le> MAX_SAFE_INTEGER"
    unfolding receipt_body_def by (auto dest: canonical_digest_int)
  then show ?thesis by (simp add: reconciled_payload_def path_hint_def time_hint_def ends_with_def)
qed

lemma check_latest_reconciled:
  assumes "ae_payload e = sorted_keys (JObj (reconciled_payload rec tr))"
  shows "check_latest e rec = Inr ()"
proof -
  have d: "distinct (map fst (reconciled_payload rec tr))" by (simp add: reconciled_payload_def)
  note get = py_get_sorted [OF d] jget_sorted_keys [OF d]
  show ?thesis
    unfolding check_latest_def Let_def assms by (simp add: get del: sorted_keys.simps(2)) (simp add: reconciled_payload_def)
qed

lemma ambiguous_next:
  assumes "st \<in> {EXECUTING, ATTEMPTED_UNKNOWN}"
  shows "check_stage (Some (target_event_type st)) (Some kind) kind
      (target_event_type (if occ then RECONCILED_COMMITTED else RECONCILED_NO_EFFECT)) = Inr ()"
    and "target_event_type (if occ then RECONCILED_COMMITTED else RECONCILED_NO_EFFECT) \<in> allowed_next (Some (target_event_type st))"
  using assms by (auto simp: check_stage_def EVENT_TYPES_def terminal_types_def allowed_next.simps(2))

lemma reconcile_keeps_consistent:
  assumes con: "ok (verify_fence_consistency E L F rep)" and F: "fence_ok F"
    and tr: "assert_current E R aid role kid kd prov = Inr tr"
    and rec: "reconcile_unknown F eid occ res ev = Inr (rec, F')"
    and aud: "audit_reconciled E (Some L) eid occ rec tr = (Inr out, A')"
  shows "\<exists>L'. A' = Some L' \<and> ok (verify_fence_consistency E L' F' rep')"
proof -
  let ?t = "target_event_type (if occ then RECONCILED_COMMITTED else RECONCILED_NO_EFFECT)"
  obtain prev ev' L' where a: "audit_latest L eid = Inr (Some prev)" "A' = Some L'"
    "audit_append E L eid (ae_effect_kind prev) ?t (reconciled_payload rec tr) = Inr (ev', L')"
    using aud by (auto simp: audit_reconciled_def split: option.splits sum.splits prod.splits if_splits)
  obtain r d where r: "effect_row eid F = Some r" "er_state r \<in> {EXECUTING, ATTEMPTED_UNKNOWN}" "effect_row eid F' = Some rec"
    "same_binding r rec" "er_state rec = (if occ then RECONCILED_COMMITTED else RECONCILED_NO_EFFECT)"
    "\<forall>k. k \<noteq> eid \<longrightarrow> effect_row k F' = effect_row k F" "map er_effect_id F' = map er_effect_id F"
    using reconcile_unknown_row [OF rec] by blast
  obtain l k where v: "verified E L l k"
    using con by (auto simp: verify_fence_consistency_def result_simps verify_audit_iff)
  have "eid \<in> er_effect_id ` set F" using row_of_Some [OF r(1)] by (metis imageI)
  then have i: "eid \<in> ar_effect_id ` set (au_rows L)" using consistency_verified(1) [OF v, THEN iffD1, OF con] by blast
  then have ne: "of_effect eid (audit_view L) \<noteq> []" by (rule audited_iff [THEN iffD1])
  obtain evs where evs: "audit_events L (Some eid) = Inr evs" using verified_effect [OF v ne] by metis
  have "audit_stage L eid = Some (target_of r)"
    using check_effect_verified [OF v ne F evs] bspec [OF conjunct1 [OF consistency_verified(1) [OF v, THEN iffD1, OF con]] i] r(1) by simp
  then have lk: "l eid = Some (target_of r)" "k eid = Some (ae_effect_kind prev)"
    using verified_stage [OF v, of eid] verified_latest [OF v, of eid] a(1) by auto
  note plain = current_receipt_plain [OF tr, of rec]
  have fresh: "find_audit eid ?t L = None" by (rule stage_fresh [OF v lk(1) ambiguous_next(2) [OF r(2)]])
  obtain w d' where w: "normalize_value E None (JObj (reconciled_payload rec tr)) = Inr w"
    "audit_view L' = audit_view L @ [new_row L eid (ae_effect_kind prev) ?t w d']"
    "verified E L' (l(eid \<mapsto> ?t)) (k(eid \<mapsto> ae_effect_kind prev))"
    using append_allowed_verified [OF v a(3) fresh payload_settled_plain [OF plain]] ambiguous_next(1) [OF r(2)] lk by auto
  have w': "w = sorted_keys (JObj (reconciled_payload rec tr))"
    using w(1) normalize_plain [OF plain, of None E] by (simp add: path_hint_def time_hint_def del: normalize_value.simps sorted_keys.simps)
  have "is_dict w" by (simp add: w')
  then obtain e where e: "audit_row_event (new_row L eid (ae_effect_kind prev) ?t w d') = Inr e"
    "ae_event_type e = ?t" "ae_payload e = w"
    using new_row_event [OF normalize_wf [OF w(1)], of L eid "ae_effect_kind prev" ?t d'] by simp
  have F': "fence_ok F'" by (rule fence_step_ok [OF step_reconcile [OF rec] F])
  have "ok (verify_fence_consistency E L' F' rep')"
  proof (rule keeping_step [OF v w(3) w(2) F F' con _ e(1) r(1,3,4)])
    show "ar_effect_id (new_row L eid (ae_effect_kind prev) ?t w d') = eid" by (simp add: new_row_def)
    show "ae_event_type e = target_of rec" using e(2) r(5) by simp
    show "check_latest e rec = Inr ()" using check_latest_reconciled e(3) w' by simp
    show "er_effect_id ` set F' = er_effect_id ` set F" using r(7) by (metis set_map)
  qed (use r(6) in blast)
  then show ?thesis using a(2) by blast
qed

lemma reconcile_leaves_behind:
  assumes con: "verify_fence_consistency E L F rep = Inr c" and F: "fence_ok F"
    and rec: "reconcile_unknown F eid occ res ev = Inr (rec, F')"
  shows "left_behind E L F F'"
proof -
  obtain r where "map er_effect_id F' = map er_effect_id F" "effect_row eid F = Some r"
    using reconcile_unknown_row [OF rec] by blast
  then have ids: "er_effect_id ` set F' = er_effect_id ` set F" by (metis set_map)
  have "runs fence_step F [L_reconcile eid occ res ev] F'"
    by (rule runs_one [where step = fence_step, OF step_reconcile [OF rec]])
  moreover have "effect_row (er_effect_id r) F \<noteq> None" if "r \<in> set F'" for r
  proof -
    have "er_effect_id r \<in> er_effect_id ` set F" using that ids by blast
    then show ?thesis by (simp add: row_of_None_iff)
  qed
  ultimately show ?thesis using con F unfolding left_behind_def by blast
qed

section \<open>A proof that was issued\<close>

lemma current_receipt_safe:
  assumes "assert_current E R aid role kid kd prov = Inr tr"
  shows "plain_json (evidence_body pf tr)"
  using current_receipt_plain [OF assms, of undefined]
  by (simp add: reconciled_payload_def evidence_body_def path_hint_def time_hint_def ends_with_def)

lemma issued_verifies:
  assumes "issue_proof E schema a subject = Inr p" "proof_tag p \<notin> used"
  shows "verify_proof E schema a used p subject = (True, insert (proof_tag p) used)"
proof -
  define u where "u = \<lparr>ap_schema = schema, ap_issuer_id = ha_issuer_id a, ap_subject = subject, ap_token = []\<rparr>"
  have p: "p = u\<lparr>ap_token := hmac_hexdigest (ha_secret a) (utf8 (text_of (proof_body u)))\<rparr>"
    using assms(1) by (simp add: issue_proof_def canonical_bytes_plain u_def)
  have "proof_body p = proof_body u" by (simp add: p proof_body_def)
  then show ?thesis using assms(2) by (simp add: verify_proof_def canonical_bytes_plain) (simp add: p u_def)
qed

lemma subject_digest:
  "reconciliation_subject E r occ res = Inr s \<Longrightarrow>
     er_state r \<in> {EXECUTING, ATTEMPTED_UNKNOWN} \<and>
     (if occ then \<exists>d. res = Some d \<and> digest_check d = Inr (py_lower d) else res = None)"
  by (auto simp: reconciliation_subject_def digest_check_def result_simps split: if_splits option.splits)

lemma reconcile_unknown_total:
  assumes "fence_ok F" "effect_row eid F = Some r" "reconciliation_subject E r occ res = Inr s" "digest_check ev = Inr d"
  shows "\<exists>rec F'. reconcile_unknown F eid occ res ev = Inr (rec, F')"
proof -
  note sd = subject_digest [OF assms(3)]
  have "eid \<noteq> []" using row_of_Some [OF assms(2)] assms(1) by (auto simp: fence_ok_def receipt_ok_def)
  moreover have "snd (update_effects eid {EXECUTING, ATTEMPTED_UNKNOWN} f F) = 1" for f
    using assms(1,2) sd by (intro update_effects_count) (auto simp: fence_ok_def)
  ultimately show ?thesis using sd assms(2,4)
    by (cases occ) (auto simp: reconcile_unknown_def require_id_def require_digest_def Let_def case_prod_beta)
qed

lemma issued_proof_reconciles:
  assumes F: "fence_ok F" "effect_row eid F = Some r" and issued: "recon_issue E a r occ res = Inr pf"
    and tr: "assert_current E R (ha_issuer_id a) ''RECONCILIATION'' (ha_key_id a) (ha_key_digest a) None = Inr tr"
    and fresh: "proof_tag pf \<notin> used"
  shows "\<exists>rec F'. \<forall>A. reconcile E F R A (hmac_verifier E a) used eid pf occ res =
    (case audit_reconciled E A eid occ rec tr of (out, A') \<Rightarrow> (out, F', A', insert (proof_tag pf) used))"
proof -
  obtain s where s: "reconciliation_subject E r occ res = Inr s" "issue_proof E RECONCILIATION_PROOF_SCHEMA a s = Inr pf"
    using issued by (auto simp: recon_issue_def result_simps)
  have "ap_issuer_id pf = ha_issuer_id a" using s(2) by (auto simp: issue_proof_def result_simps Let_def)
  then have adm: "recovery_admitted E F R (hmac_verifier E a) eid pf occ res = Inr (s, tr)"
    using F(2) s(1) tr by (simp add: recovery_admitted_def read_effect_def hmac_verifier_def)
  have ev: "canonical_digest E (evidence_body pf tr) = Inr (digest_of (evidence_body pf tr))"
    by (rule canonical_digest_of [OF current_receipt_safe [OF tr]])
  obtain rec F' where rec: "reconcile_unknown F eid occ res (digest_of (evidence_body pf tr)) = Inr (rec, F')"
    using reconcile_unknown_total [OF F s(1), of "digest_of (evidence_body pf tr)"] by (auto simp: digest_of_def sha256_hex_def)
  show ?thesis
    using adm issued_verifies [OF s(2) fresh] ev rec
    by (intro exI [of _ rec] exI [of _ F']) (simp add: reconcile_def hmac_verifier_def)
qed

section \<open>A concrete recovery\<close>

definition demo_recovery_authority :: hmac_authority where
  "demo_recovery_authority =
     \<lparr>ha_issuer_id = ''auth'', ha_secret = hex64 CHR ''b'', ha_key_id = ''k1'', ha_key_digest = hex64 CHR ''a''\<rparr>"

lemma demo_proof:
  "\<exists>pf tr. recon_issue demo_env demo_recovery_authority (hd fence_example) True (Some (hex64 CHR ''e'')) = Inr pf
     \<and> assert_current demo_env sample_registry ''auth'' ''RECONCILIATION'' ''k1'' (hex64 CHR ''a'') None = Inr tr"
proof -
  have "digest_check (hex64 CHR ''e'') = Inr (hex64 CHR ''e'')" by simp
  then have "int16_accepts (hex64 CHR ''e'')" by (auto simp: digest_check_def split: if_splits)
  moreover have "plain_json (subject_body (hd fence_example) True (Some (hex64 CHR ''e'')))"
    by (simp add: subject_body_def plain_eval)
  ultimately have "\<exists>pf. recon_issue demo_env demo_recovery_authority (hd fence_example) True (Some (hex64 CHR ''e'')) = Inr pf"
    by (simp add: recon_issue_def reconciliation_subject_def canonical_digest_of issue_proof_def canonical_bytes_plain Let_def)
      (simp add: fence_example_def)
  then show ?thesis using sample_current by blast
qed

lemma fence_example_ok: "fence_ok fence_example" "effect_row ''mail-1'' fence_example = Some (hd fence_example)"
  by (simp_all add: fence_example_def fence_ok_def distinct_keys_def receipt_ok_def row_of_Cons)

lemma demo_recovery:
  "\<exists>pf tr rec F'. \<forall>A. reconcile demo_env fence_example sample_registry A (hmac_verifier demo_env demo_recovery_authority) {}
       ''mail-1'' pf True (Some (hex64 CHR ''e'')) =
     (case audit_reconciled demo_env A ''mail-1'' True rec tr of (out, A') \<Rightarrow> (out, F', A', {proof_tag pf}))"
proof -
  obtain pf tr where p: "recon_issue demo_env demo_recovery_authority (hd fence_example) True (Some (hex64 CHR ''e'')) = Inr pf"
    "assert_current demo_env sample_registry ''auth'' ''RECONCILIATION'' ''k1'' (hex64 CHR ''a'') None = Inr tr"
    using demo_proof by blast
  have "proof_tag pf \<notin> {}" by simp
  from issued_proof_reconciles [OF fence_example_ok p(1) _ this, of sample_registry tr] p(2)
  show ?thesis by (auto simp: demo_recovery_authority_def)
qed

section \<open>What recovery guarantees\<close>

text \<open>
  An unknown outcome is settled under a current authority's proof, and only so. When
  \<^verbatim>\<open>reconcile\<close> returns, the effect had been dispatched and its outcome was not
  known; the verifier's identity and key were current for reconciliation in the trust
  registry; the proof came from that authority and was accepted for the subject of exactly
  this effect, state and claimed outcome; and the fence now holds the effect under its old
  binding in the claimed outcome, with the digest of the proof and of the currentness
  receipt as its evidence.
\<close>

lemma reconcile_sound:
  assumes "reconcile E F R A V v eid pf occ res = (Inr rec, F', A', v')"
  shows "\<exists>r subject tr ev. effect_row eid F = Some r \<and> er_state r \<in> {EXECUTING, ATTEMPTED_UNKNOWN}
    \<and> assert_current E R (rv_authority_id V) ''RECONCILIATION'' (rv_key_id V) (rv_key_digest V) None = Inr tr
    \<and> ap_issuer_id pf = rv_authority_id V \<and> reconciliation_subject E r occ res = Inr subject
    \<and> rv_verify V v pf subject = (True, v') \<and> canonical_digest E (evidence_body pf tr) = Inr ev
    \<and> effect_row eid F' = Some rec \<and> same_binding r rec \<and> er_reconciliation rec = Some ev
    \<and> er_state rec = (if occ then RECONCILED_COMMITTED else RECONCILED_NO_EFFECT)"
  using assms
proof (cases rule: reconcile_cases)
  case (moved subject tr ev rec')
  have rec: "rec' = rec" using audit_reconciled_Inr [OF moved(5)] by simp
  obtain r where r: "effect_row eid F = Some r" "reconciliation_subject E r occ res = Inr subject"
    "ap_issuer_id pf = rv_authority_id V"
    "assert_current E R (rv_authority_id V) ''RECONCILIATION'' (rv_key_id V) (rv_key_digest V) None = Inr tr"
    by (rule admitted_Inr [OF moved(1)])
  obtain r0 d where r0: "effect_row eid F = Some r0" "er_state r0 \<in> {EXECUTING, ATTEMPTED_UNKNOWN}" "effect_row eid F' = Some rec"
    "same_binding r0 rec" "er_state rec = (if occ then RECONCILED_COMMITTED else RECONCILED_NO_EFFECT)"
    "digest_check ev = Inr d" "er_reconciliation rec = Some d"
    using reconcile_unknown_row [OF moved(4)] unfolding rec by blast
  have "r0 = r" using r(1) r0(1) by simp
  moreover have "d = ev" using r0(6) moved(3) by (auto simp: canonical_digest_def result_simps)
  ultimately show ?thesis
    using r r0(2-5,7) moved(2,3)
    by (intro exI [of _ r] exI [of _ subject] exI [of _ tr] exI [of _ ev] conjI) (simp_all only:)
qed simp

lemma reconcile_sound_witness:
  "\<exists>pf rec F'. reconcile demo_env fence_example sample_registry None (hmac_verifier demo_env demo_recovery_authority) {}
       ''mail-1'' pf True (Some (hex64 CHR ''e'')) = (Inr rec, F', None, {proof_tag pf})
     \<and> effect_row ''mail-1'' F' = Some rec \<and> er_state rec = RECONCILED_COMMITTED"
proof -
  obtain pf rec F' where r: "reconcile demo_env fence_example sample_registry None (hmac_verifier demo_env demo_recovery_authority) {}
       ''mail-1'' pf True (Some (hex64 CHR ''e'')) = (Inr rec, F', None, {proof_tag pf})"
  proof -
    obtain pf tr rec F' where "\<forall>A. reconcile demo_env fence_example sample_registry A (hmac_verifier demo_env demo_recovery_authority) {}
       ''mail-1'' pf True (Some (hex64 CHR ''e'')) =
      (case audit_reconciled demo_env A ''mail-1'' True rec tr of (out, A') \<Rightarrow> (out, F', A', {proof_tag pf}))"
      using demo_recovery by blast
    from spec [OF this, of None] show ?thesis by (intro that) (simp add: audit_reconciled_def)
  qed
  from reconcile_sound [OF r] r show ?thesis by auto
qed

text \<open>
  C21: Fence and audit stay in step through a recovery, or can be brought back in step. From
  a consistent pair, a reconciliation that returns leaves a consistent pair; one that raises
  has changed nothing, or it has changed the fence alone, and then the ledger is one that
  was left behind in the sense of the repair theorem.
\<close>

theorem reconcile_keeps_audit:
  assumes "verify_fence_consistency E L F rep = Inr c" "fence_ok F"
    and "reconcile E F R (Some L) V v eid pf occ res = (out, F', A', v')"
  shows "case out of
      Inr rec \<Rightarrow> \<exists>L'. A' = Some L' \<and> ok (verify_fence_consistency E L' F' rep')
    | Inl e \<Rightarrow> A' = Some L \<and> (F' = F \<or> left_behind E L F F')"
  using assms(3)
proof (cases rule: reconcile_cases)
  case (refused e)
  then show ?thesis by simp
next
  case (moved subject tr ev rec)
  have tr: "assert_current E R (rv_authority_id V) ''RECONCILIATION'' (rv_key_id V) (rv_key_digest V) None = Inr tr"
    using admitted_Inr [OF moved(1)] by blast
  have con: "ok (verify_fence_consistency E L F rep)" using assms(1) by blast
  show ?thesis
  proof (cases out)
    case (Inl e)
    then have "A' = Some L"
      using moved(5) by (auto simp: audit_reconciled_def split: option.splits sum.splits prod.splits)
    then show ?thesis using Inl reconcile_leaves_behind [OF assms(1,2) moved(4)] by simp
  next
    case (Inr r)
    have "\<exists>L'. A' = Some L' \<and> ok (verify_fence_consistency E L' F' rep')"
      by (rule reconcile_keeps_consistent [OF con assms(2) tr moved(4) moved(5) [unfolded Inr]])
    then show ?thesis using Inr by simp
  qed
qed

lemma demo_repaired:
  "\<exists>A res L. repair_effects demo_env A (all_effects fence_example) = Some (res, L)
     \<and> (res = Inl Audit_integrity \<or> ok (verify_fence_consistency demo_env L fence_example []))"
proof -
  obtain ev A where "audit_append demo_env (open_audit [] None) ''mail-1'' ''MAIL'' ''AUTHORITY_VERIFIED'' demo_authority = Inr (ev, A)"
    using demo_append by blast
  note A = demo_ledger [OF this]
  then obtain l k where v: "verified demo_env A l k" using left_behind_verified by blast
  have one: "all_effects fence_example = [hd fence_example]" "er_effect_id (hd fence_example) = ''mail-1''"
    by (simp_all add: fence_example_def all_effects_def)
  then obtain res L where rep: "repair_effects demo_env A (all_effects fence_example) = Some (res, L)"
    "repair_outcome demo_env A (all_effects fence_example) res L"
    using repair_effects_outcome [OF v, of "all_effects fence_example"] by auto
  obtain l' k' where v': "verified demo_env L l' k'" using rep(2) by (auto simp: repair_outcome_def)
  have "behind A (hd fence_example)"
    using left_behind_effect [OF conjunct1 [OF A] v fence_example_ok(2)] by (auto simp: lags_def)
  then have "(\<exists>ids. res = Inr ids) \<or> res = Inl Audit_integrity"
    using rep(2) A one by (simp add: repair_outcome_def MAX_SAFE_INTEGER_def)
  moreover have "ok (verify_fence_consistency demo_env L fence_example [])" if ids: "res = Inr ids" for ids
  proof -
    have "ok (verify_fence_consistency demo_env L fence_example ids)"
      by (rule left_behind_repaired [OF conjunct1 [OF A] v v' rep(2) [unfolded ids]])
    then show ?thesis unfolding consistency_verified(1) [OF v'] .
  qed
  ultimately show ?thesis using rep(1) by blast
qed

theorem reconcile_keeps_audit_witness:
  "\<exists>A res L. repair_effects demo_env A (all_effects fence_example) = Some (res, L) \<and> (res = Inl Audit_integrity \<or>
     (\<exists>pf out F' A' u. reconcile demo_env fence_example sample_registry (Some L) (hmac_verifier demo_env demo_recovery_authority) {}
        ''mail-1'' pf True (Some (hex64 CHR ''e'')) = (out, F', A', u) \<and>
        (case out of Inr rec \<Rightarrow> \<exists>L'. A' = Some L' \<and> ok (verify_fence_consistency demo_env L' F' [])
         | Inl e \<Rightarrow> A' = Some L \<and> (F' = fence_example \<or> left_behind demo_env L fence_example F'))))"
proof -
  obtain A res L where L: "repair_effects demo_env A (all_effects fence_example) = Some (res, L)"
    "res = Inl Audit_integrity \<or> ok (verify_fence_consistency demo_env L fence_example [])"
    using demo_repaired by blast
  obtain pf :: authority_proof and out F' A' u where
    r: "reconcile demo_env fence_example sample_registry (Some L) (hmac_verifier demo_env demo_recovery_authority) {}
        ''mail-1'' pf True (Some (hex64 CHR ''e'')) = (out, F', A', u)"
    by (metis prod_cases4)
  show ?thesis
  proof (cases "res = Inl Audit_integrity")
    case False
    then obtain c where c: "verify_fence_consistency demo_env L fence_example [] = Inr c" using L(2) by blast
    from reconcile_keeps_audit [OF c fence_example_ok(1) r, of "[]"] L(1) r show ?thesis by blast
  qed (use L(1) in blast)
qed

text \<open>
  C25: A revoked authority settles nothing. After the reconciliation scope has been revoked,
  and after any sequence of registry mutations that does not reactivate it,
  \<^verbatim>\<open>reconcile\<close> refuses every proof of every verifier and leaves fence, audit and
  verifier as they were.
\<close>

theorem revoked_cannot_reconcile:
  assumes "runs (trust_step E) (open_registry [] [] None) ls0 R"
    and "revoke E R aid ''RECONCILIATION'' None g e = (Inr n, R1)" "runs (trust_step E) R1 ls R2"
    and "\<forall>l\<in>set ls. call_event l = ''REACTIVATE'' \<longrightarrow> call_scope l \<noteq> scope_key ''RECONCILIATION'' (opt_str None)"
  shows "\<exists>err. reconcile E F R2 A V v eid pf occ res = (Inl err, F, A, v)"
proof -
  obtain k b where "scope_key ''RECONCILIATION'' (opt_str None) = Inr k" "authority_of k R2 = Some b" "au_enabled b = 0"
    using revoke_disables [OF assms] by blast
  then obtain err where "assert_current E R2 (rv_authority_id V) ''RECONCILIATION'' (rv_key_id V) (rv_key_digest V) None = Inl err"
    using disabled_not_current by blast
  then have "\<not> ok (recovery_admitted E F R2 V eid pf occ res)"
    by (auto simp: recovery_admitted_def result_simps)
  then obtain e where "recovery_admitted E F R2 V eid pf occ res = Inl e"
    by (cases "recovery_admitted E F R2 V eid pf occ res") auto
  then show ?thesis by (simp add: reconcile_def)
qed

theorem revoked_cannot_reconcile_witness:
  "collides (utf8 (text_of revoked_event)) (utf8 (text_of registered_event)) \<or>
     (\<exists>R1 pf err. revoke demo_env sample_registry ''auth'' ''RECONCILIATION'' None 1 0 = (Inr 1, R1) \<and>
        recon_issue demo_env demo_recovery_authority (hd fence_example) True (Some (hex64 CHR ''e'')) = Inr pf \<and>
        reconcile demo_env fence_example R1 None (hmac_verifier demo_env demo_recovery_authority) {}
          ''mail-1'' pf True (Some (hex64 CHR ''e'')) = (Inl err, fence_example, None, {}))"
  using sample_revoke
proof
  assume "\<exists>R1. revoke demo_env sample_registry ''auth'' ''RECONCILIATION'' None 1 0 = (Inr 1, R1)"
  then obtain R1 where R1: "revoke demo_env sample_registry ''auth'' ''RECONCILIATION'' None 1 0 = (Inr 1, R1)" ..
  obtain pf where pf: "recon_issue demo_env demo_recovery_authority (hd fence_example) True (Some (hex64 CHR ''e'')) = Inr pf"
    using demo_proof by blast
  from revoked_cannot_reconcile [OF sample_run R1 runs_nil, of fence_example None "hmac_verifier demo_env demo_recovery_authority"
      "{}" "''mail-1''" pf True "Some (hex64 CHR ''e'')"] R1 pf
  show ?thesis by auto
qed blast

end
