(* ===== verification/Command_Journal.thy ===== *)
theory Command_Journal
  imports Canonical
begin

text \<open>
  \<^verbatim>\<open>vera_core.coordination_command_journal\<close>: which command id is bound to which
  invocation, and what the command returned. The record \<open>command_journal\<close> is the database
  file: the two tables and the singleton row of counts and projection digest. \<open>bind\<close> and
  \<open>record_command_result\<close> first read and then write in a transaction of their own (\<open>bind_tx\<close>,
  \<open>record_tx\<close>), which are the atomic steps.
\<close>

record command_binding =
  cb_command_id :: string
  cb_effect_id :: string
  cb_command :: string
  cb_actor_workstream :: string
  cb_lifecycle_permit :: string
  cb_invocation :: string
  cb_request :: string
  cb_digest :: string

record command_result =
  co_command_id :: string
  co_result_digest :: string
  co_result_class :: string
  co_write_confirmed :: bool
  co_event_id :: "string option"
  co_event_sequence :: "int option"
  co_record_digest :: string

text \<open>A row of \<^verbatim>\<open>command_results\<close>, where the flag is an integer column.\<close>

record result_row =
  cw_command_id :: string
  cw_result_digest :: string
  cw_result_class :: string
  cw_write_confirmed :: int
  cw_event_id :: "string option"
  cw_event_sequence :: "int option"
  cw_record_digest :: string

record command_journal =
  cj_bindings :: "command_binding list"
  cj_results :: "result_row list"
  cj_meta :: "(int \<times> int \<times> string) option"

record command_health =
  ch_projection_digest :: string
  ch_binding_count :: nat
  ch_result_count :: nat
  ch_unresolved :: "string list"
  ch_confirmed :: nat
  ch_unconfirmed :: nat
  ch_class_counts :: "(string \<times> nat) list"

datatype command_error =
    Command_empty string
  | Command_digest string digest_fault
  | Binding_digest_mismatch
  | Result_without_binding
  | Result_record_mismatch
  | Command_meta_missing
  | Binding_count_mismatch
  | Result_count_mismatch
  | Projection_digest_mismatch
  | Binds_different_invocation
  | Binding_uniqueness
  | Event_sequence_invalid
  | Result_replay_diverged
  | Result_integrity
  | Command_key_error string
  | Command_canon canon_error

section \<open>Digests\<close>

definition COMMAND_SCHEMA :: string where
  "COMMAND_SCHEMA = ''VERA_MONO_COORDINATION_COMMAND_JOURNAL_V1''"

definition command_require_text :: "string \<Rightarrow> string \<Rightarrow> (command_error, string) result" where
  "command_require_text value label = rbind (ensure (value \<noteq> []) (Command_empty label)) (\<lambda>_. Inr value)"

definition command_require_digest :: "string \<Rightarrow> string \<Rightarrow> (command_error, string) result" where
  "command_require_digest value label = map_err (Command_digest label) (digest_check value)"

definition binding_body :: "command_binding \<Rightarrow> json" where
  "binding_body b =
     JObj [(''schema'', JStr COMMAND_SCHEMA), (''record'', JStr ''BINDING''), (''command_id'', JStr (cb_command_id b)),
           (''effect_id'', JStr (cb_effect_id b)), (''command'', JStr (cb_command b)),
           (''actor_workstream'', JStr (cb_actor_workstream b)),
           (''lifecycle_permit_digest'', JStr (cb_lifecycle_permit b)),
           (''invocation_digest'', JStr (cb_invocation b)), (''request_digest'', JStr (cb_request b))]"

definition binding_digest :: "py_env \<Rightarrow> command_binding \<Rightarrow> (command_error, string) result" where
  "binding_digest E b = map_err Command_canon (canonical_digest E (binding_body b))"

definition opt_int :: "int option \<Rightarrow> json" where
  "opt_int i = (case i of None \<Rightarrow> JNull | Some n \<Rightarrow> JInt n)"

definition result_body :: "command_binding \<Rightarrow> command_result \<Rightarrow> json" where
  "result_body b r =
     JObj [(''schema'', JStr COMMAND_SCHEMA), (''record'', JStr ''RESULT''), (''binding_digest'', JStr (cb_digest b)),
           (''result_digest'', JStr (co_result_digest r)), (''result_class'', JStr (co_result_class r)),
           (''database_write_confirmed'', JBool (co_write_confirmed r)), (''event_id'', opt_str (co_event_id r)),
           (''event_sequence'', opt_int (co_event_sequence r))]"

definition result_record_digest :: "py_env \<Rightarrow> command_binding \<Rightarrow> command_result \<Rightarrow> (command_error, string) result" where
  "result_record_digest E b r = map_err Command_canon (canonical_digest E (result_body b r))"

definition result_from_row :: "result_row \<Rightarrow> command_result" where
  "result_from_row row =
     \<lparr>co_command_id = cw_command_id row, co_result_digest = cw_result_digest row,
      co_result_class = cw_result_class row, co_write_confirmed = (cw_write_confirmed row \<noteq> 0),
      co_event_id = cw_event_id row, co_event_sequence = cw_event_sequence row,
      co_record_digest = cw_record_digest row\<rparr>"

section \<open>The projection and its check\<close>

definition binding_material :: "command_binding \<Rightarrow> json" where
  "binding_material b =
     JObj [(''command_id'', JStr (cb_command_id b)), (''effect_id'', JStr (cb_effect_id b)),
           (''command'', JStr (cb_command b)), (''actor_workstream'', JStr (cb_actor_workstream b)),
           (''lifecycle_permit_digest'', JStr (cb_lifecycle_permit b)),
           (''invocation_digest'', JStr (cb_invocation b)), (''request_digest'', JStr (cb_request b)),
           (''binding_digest'', JStr (cb_digest b))]"

definition result_material :: "command_result \<Rightarrow> json" where
  "result_material r =
     JObj [(''command_id'', JStr (co_command_id r)), (''result_digest'', JStr (co_result_digest r)),
           (''result_class'', JStr (co_result_class r)), (''database_write_confirmed'', JBool (co_write_confirmed r)),
           (''event_id'', opt_str (co_event_id r)), (''event_sequence'', opt_int (co_event_sequence r)),
           (''result_record_digest'', JStr (co_record_digest r))]"

definition check_binding :: "py_env \<Rightarrow> command_binding \<Rightarrow> (command_error, command_binding) result" where
  "check_binding E b =
     rbind (binding_digest E b) (\<lambda>expected.
     rbind (ensure (expected = cb_digest b) Binding_digest_mismatch) (\<lambda>_. Inr b))"

definition check_result :: "py_env \<Rightarrow> command_binding list \<Rightarrow> command_result \<Rightarrow> (command_error, command_result) result" where
  "check_result E bindings r =
     rbind (or_raise (row_of cb_command_id (co_command_id r) bindings) Result_without_binding) (\<lambda>b.
     rbind (result_record_digest E b r) (\<lambda>expected.
     rbind (ensure (expected = co_record_digest r) Result_record_mismatch) (\<lambda>_. Inr r)))"

definition binding_rows :: "command_journal \<Rightarrow> command_binding list" where
  "binding_rows J = sort_key cb_command_id (cj_bindings J)"

definition result_rows :: "command_journal \<Rightarrow> command_result list" where
  "result_rows J = map result_from_row (sort_key cw_command_id (cj_results J))"

definition projection_body :: "command_journal \<Rightarrow> json" where
  "projection_body J =
     JObj [(''schema'', JStr ''VERA_MONO_COORDINATION_COMMAND_PROJECTION_V1''),
           (''bindings'', JArr (map binding_material (binding_rows J))),
           (''results'', JArr (map result_material (result_rows J)))]"

definition projection_state :: "py_env \<Rightarrow> command_journal \<Rightarrow> (command_error, int \<times> int \<times> string) result" where
  "projection_state E J =
     rbind (rmap_list (check_binding E) (binding_rows J)) (\<lambda>bindings.
     rbind (rmap_list (check_result E bindings) (result_rows J)) (\<lambda>_.
     rbind (map_err Command_canon (canonical_digest E (projection_body J))) (\<lambda>digest.
       Inr (int (length (binding_rows J)), int (length (result_rows J)), digest))))"

text \<open>The constructor: a missing singleton row is computed from what the tables hold.\<close>

definition open_commands ::
  "py_env \<Rightarrow> command_binding list \<Rightarrow> result_row list \<Rightarrow> (int \<times> int \<times> string) option \<Rightarrow>
     (command_error, command_journal) result" where
  "open_commands E bs rs meta =
     (let J = \<lparr>cj_bindings = bs, cj_results = rs, cj_meta = meta\<rparr>
      in if meta = None then rbind (projection_state E J) (\<lambda>m. Inr (J\<lparr>cj_meta := Some m\<rparr>)) else Inr J)"

definition write_meta :: "py_env \<Rightarrow> command_journal \<Rightarrow> (command_error, command_journal) result" where
  "write_meta E J = rbind (projection_state E J) (\<lambda>m. Inr (J\<lparr>cj_meta := map_option (\<lambda>_. m) (cj_meta J)\<rparr>))"

definition verify_commands :: "py_env \<Rightarrow> command_journal \<Rightarrow> (command_error, string) result" where
  "verify_commands E J =
     rbind (or_raise (cj_meta J) Command_meta_missing) (\<lambda>(observed_bindings, observed_results, observed_digest).
     rbind (projection_state E J) (\<lambda>(binding_count, result_count, digest).
     rbind (ensure (observed_bindings = binding_count) Binding_count_mismatch) (\<lambda>_.
     rbind (ensure (observed_results = result_count) Result_count_mismatch) (\<lambda>_.
     rbind (ensure (observed_digest = digest) Projection_digest_mismatch) (\<lambda>_. Inr digest)))))"

section \<open>Operations\<close>

text \<open>The checks of \<^verbatim>\<open>bind\<close> on its arguments, and the binding it then tries to store.\<close>

definition bind_candidate ::
  "py_env \<Rightarrow> string \<Rightarrow> string \<Rightarrow> string \<Rightarrow> string \<Rightarrow> string \<Rightarrow> string \<Rightarrow> string \<Rightarrow> (command_error, command_binding) result" where
  "bind_candidate E command_id0 effect_id0 command0 actor0 permit0 invocation0 request0 =
     rbind (command_require_text command_id0 ''command_id'') (\<lambda>command_id.
     rbind (command_require_text effect_id0 ''effect_id'') (\<lambda>effect_id.
     rbind (command_require_text command0 ''command'') (\<lambda>command.
     rbind (command_require_text actor0 ''actor_workstream'') (\<lambda>actor.
     rbind (command_require_digest permit0 ''lifecycle_permit_digest'') (\<lambda>permit.
     rbind (command_require_digest invocation0 ''invocation_digest'') (\<lambda>invocation.
     rbind (command_require_digest request0 ''request_digest'') (\<lambda>request.
       let b = \<lparr>cb_command_id = command_id, cb_effect_id = effect_id, cb_command = command,
             cb_actor_workstream = actor, cb_lifecycle_permit = permit, cb_invocation = invocation,
             cb_request = request, cb_digest = []\<rparr>
       in rbind (binding_digest E b) (\<lambda>digest. Inr (b\<lparr>cb_digest := digest\<rparr>)))))))))"

definition bind_tx ::
  "py_env \<Rightarrow> command_journal \<Rightarrow> command_binding \<Rightarrow> (command_error, command_binding \<times> command_journal) result" where
  "bind_tx E J candidate =
     (case row_of cb_command_id (cb_command_id candidate) (cj_bindings J) of
        Some observed \<Rightarrow> rbind (ensure (observed = candidate) Binds_different_invocation) (\<lambda>_. Inr (observed, J))
      | None \<Rightarrow>
          rbind (ensure (cb_effect_id candidate \<notin> cb_effect_id ` set (cj_bindings J) \<and>
                         cb_digest candidate \<notin> cb_digest ` set (cj_bindings J)) Binding_uniqueness) (\<lambda>_.
          rbind (write_meta E (J\<lparr>cj_bindings := cj_bindings J @ [candidate]\<rparr>)) (\<lambda>J'. Inr (candidate, J'))))"

definition bind ::
  "py_env \<Rightarrow> command_journal \<Rightarrow> string \<Rightarrow> string \<Rightarrow> string \<Rightarrow> string \<Rightarrow> string \<Rightarrow> string \<Rightarrow> string \<Rightarrow>
     (command_error, command_binding \<times> command_journal) result" where
  "bind E J command_id effect_id command actor permit invocation request =
     rbind (verify_commands E J) (\<lambda>_.
     rbind (bind_candidate E command_id effect_id command actor permit invocation request) (\<lambda>candidate.
       bind_tx E J candidate))"

definition read_binding :: "py_env \<Rightarrow> command_journal \<Rightarrow> string \<Rightarrow> (command_error, command_binding) result" where
  "read_binding E J command_id =
     rbind (or_raise (row_of cb_command_id command_id (cj_bindings J)) (Command_key_error command_id)) (check_binding E)"

definition read_result :: "py_env \<Rightarrow> command_journal \<Rightarrow> string \<Rightarrow> (command_error, command_result option) result" where
  "read_result E J command_id =
     rbind (read_binding E J command_id) (\<lambda>binding.
       case row_of cw_command_id command_id (cj_results J) of
         None \<Rightarrow> Inr None
       | Some row \<Rightarrow>
           let r = result_from_row row
           in rbind (result_record_digest E binding r) (\<lambda>expected.
              rbind (ensure (expected = co_record_digest r) Result_record_mismatch) (\<lambda>_. Inr (Some r))))"

text \<open>The checks of \<^verbatim>\<open>record_result\<close> on its arguments, against the binding it has read.\<close>

definition result_candidate ::
  "py_env \<Rightarrow> command_binding \<Rightarrow> string \<Rightarrow> string \<Rightarrow> string \<Rightarrow> bool \<Rightarrow> string option \<Rightarrow> int option \<Rightarrow>
     (command_error, command_result) result" where
  "result_candidate E binding command_id result_digest0 result_class0 confirmed event_id event_sequence =
     rbind (command_require_digest result_digest0 ''result_digest'') (\<lambda>result_digest.
     rbind (command_require_text result_class0 ''result_class'') (\<lambda>result_class.
     rbind (case event_id of None \<Rightarrow> Inr [] | Some i \<Rightarrow> command_require_text i ''event_id'') (\<lambda>_.
     rbind (ensure (case event_sequence of None \<Rightarrow> True | Some n \<Rightarrow> 0 < n) Event_sequence_invalid) (\<lambda>_.
       let r = \<lparr>co_command_id = command_id, co_result_digest = result_digest, co_result_class = result_class,
             co_write_confirmed = confirmed, co_event_id = event_id, co_event_sequence = event_sequence,
             co_record_digest = []\<rparr>
       in rbind (result_record_digest E binding r) (\<lambda>digest. Inr (r\<lparr>co_record_digest := digest\<rparr>))))))"

definition row_of_result :: "command_result \<Rightarrow> result_row" where
  "row_of_result r =
     \<lparr>cw_command_id = co_command_id r, cw_result_digest = co_result_digest r, cw_result_class = co_result_class r,
      cw_write_confirmed = (if co_write_confirmed r then 1 else 0), cw_event_id = co_event_id r,
      cw_event_sequence = co_event_sequence r, cw_record_digest = co_record_digest r\<rparr>"

definition record_tx ::
  "py_env \<Rightarrow> command_journal \<Rightarrow> command_result \<Rightarrow> (command_error, command_result \<times> command_journal) result" where
  "record_tx E J candidate =
     (case row_of cw_command_id (co_command_id candidate) (cj_results J) of
        Some row \<Rightarrow>
          rbind (ensure (result_from_row row = candidate) Result_replay_diverged) (\<lambda>_. Inr (result_from_row row, J))
      | None \<Rightarrow>
          rbind (ensure (co_record_digest candidate \<notin> cw_record_digest ` set (cj_results J) \<and>
                         co_command_id candidate \<in> cb_command_id ` set (cj_bindings J)) Result_integrity) (\<lambda>_.
          rbind (write_meta E (J\<lparr>cj_results := cj_results J @ [row_of_result candidate]\<rparr>)) (\<lambda>J'. Inr (candidate, J'))))"

definition record_command_result ::
  "py_env \<Rightarrow> command_journal \<Rightarrow> string \<Rightarrow> string \<Rightarrow> string \<Rightarrow> bool \<Rightarrow> string option \<Rightarrow> int option \<Rightarrow>
     (command_error, command_result \<times> command_journal) result" where
  "record_command_result E J command_id result_digest result_class confirmed event_id event_sequence =
     rbind (verify_commands E J) (\<lambda>_.
     rbind (read_binding E J command_id) (\<lambda>binding.
     rbind (result_candidate E binding command_id result_digest result_class confirmed event_id event_sequence)
       (\<lambda>candidate. record_tx E J candidate)))"

definition bindings :: "py_env \<Rightarrow> command_journal \<Rightarrow> (command_error, command_binding list) result" where
  "bindings E J = rmap_list (read_binding E J) (map cb_command_id (binding_rows J))"

text \<open>
  The dict \<^verbatim>\<open>results\<close> of the two projections lists the bindings in order; the class
  counts are built by increments and listed with their keys sorted.
\<close>

definition all_results :: "py_env \<Rightarrow> command_journal \<Rightarrow> (command_error, (string \<times> command_result option) list) result" where
  "all_results E J =
     rbind (bindings E J) (\<lambda>bs.
       rmap_list (\<lambda>b. rbind (read_result E J (cb_command_id b)) (\<lambda>r. Inr (cb_command_id b, r))) bs)"

definition class_counts :: "command_result list \<Rightarrow> (string \<times> nat) list" where
  "class_counts recorded =
     map (\<lambda>c. (c, length (filter (\<lambda>r. co_result_class r = c) recorded))) (sort (remdups (map co_result_class recorded)))"

definition health_projection :: "py_env \<Rightarrow> command_journal \<Rightarrow> (command_error, command_health) result" where
  "health_projection E J =
     rbind (verify_commands E J) (\<lambda>digest.
     rbind (bindings E J) (\<lambda>bs.
     rbind (all_results E J) (\<lambda>results.
       let recorded = List.map_filter snd results
       in Inr \<lparr>ch_projection_digest = digest, ch_binding_count = length bs, ch_result_count = length recorded,
               ch_unresolved = sort (map fst (filter (\<lambda>(_, r). r = None) results)),
               ch_confirmed = length (filter co_write_confirmed recorded),
               ch_unconfirmed = length (filter (\<lambda>r. \<not> co_write_confirmed r) recorded),
               ch_class_counts = class_counts recorded\<rparr>)))"

definition command_context ::
  "py_env \<Rightarrow> command_journal \<Rightarrow> (command_error, string \<times> nat \<times> nat \<times> command_health \<times> (command_binding \<times> bool) list) result" where
  "command_context E J =
     rbind (verify_commands E J) (\<lambda>digest.
     rbind (bindings E J) (\<lambda>bs.
     rbind (all_results E J) (\<lambda>results.
     rbind (health_projection E J) (\<lambda>health.
       Inr (digest, length bs, length (filter (\<lambda>(_, r). r \<noteq> None) results), health,
            map (\<lambda>b. (b, map_of results (cb_command_id b) \<noteq> Some None)) bs)))))"

end
