(* ===== verification/Command_Guarantees.thy ===== *)
theory Command_Guarantees
  imports Command_Journal
begin

text \<open>
  What holds of the coordination command journal: the integrity check accepts every file the
  operations produce, a command id keeps its first binding and its first result, a verified
  projection digest pins the content down, and the health figures add up.
\<close>

section \<open>Checked rows\<close>

lemma binding_body_plain [simp]: "plain_json (binding_body b)"
  by (simp add: binding_body_def plain_eval)

lemma binding_digest_of: "binding_digest E b = Inr (digest_of (binding_body b))"
  by (simp add: binding_digest_def canonical_digest_of)

definition sequence_safe :: "int option \<Rightarrow> bool" where
  "sequence_safe n = (case n of None \<Rightarrow> True | Some i \<Rightarrow> \<bar>i\<bar> \<le> MAX_SAFE_INTEGER)"

lemma plain_opt_int [simp]: "plain_json (opt_int n) = sequence_safe n" "sorted_keys (opt_int n) = opt_int n"
  "opt_int n = opt_int m \<longleftrightarrow> n = m"
  by (auto simp: opt_int_def sequence_safe_def split: option.splits)

lemma result_body_plain: "plain_json (result_body b r) = sequence_safe (co_event_sequence r)"
  by (simp add: result_body_def plain_eval)

lemma result_record_digest_safe: "result_record_digest E b r = Inr d \<Longrightarrow> sequence_safe (co_event_sequence r)"
proof (cases "co_event_sequence r")
  case (Some n)
  moreover assume "result_record_digest E b r = Inr d"
  ultimately show ?thesis
    using canonical_digest_int [of E _ d "''event_sequence''" n]
    by (auto simp: result_record_digest_def result_body_def result_simps sequence_safe_def opt_int_def)
qed (simp add: sequence_safe_def)

lemma result_record_digest_iff:
  "result_record_digest E b r = Inr d \<longleftrightarrow> sequence_safe (co_event_sequence r) \<and> d = digest_of (result_body b r)"
  using result_record_digest_safe [of E b r d] canonical_digest_of [of "result_body b r" E]
  by (auto simp: result_record_digest_def result_simps result_body_plain)

definition binding_sound :: "command_binding \<Rightarrow> bool" where
  "binding_sound b \<longleftrightarrow> cb_digest b = digest_of (binding_body b)"

definition result_sound :: "command_binding list \<Rightarrow> command_result \<Rightarrow> bool" where
  "result_sound bs r \<longleftrightarrow> sequence_safe (co_event_sequence r) \<and>
     (\<exists>b. row_of cb_command_id (co_command_id r) bs = Some b \<and> co_record_digest r = digest_of (result_body b r))"

lemma check_binding_iff: "check_binding E b = Inr b' \<longleftrightarrow> b' = b \<and> binding_sound b"
  by (auto simp: check_binding_def binding_digest_of binding_sound_def result_simps)

lemma check_result_iff: "check_result E bs r = Inr r' \<longleftrightarrow> r' = r \<and> result_sound bs r"
  by (auto simp: check_result_def result_sound_def result_simps result_record_digest_iff)

lemma rmap_list_check:
  assumes "\<And>x y. f x = Inr y \<longleftrightarrow> y = x \<and> P x"
  shows "rmap_list f xs = Inr ys \<longleftrightarrow> ys = xs \<and> (\<forall>x\<in>set xs. P x)"
  by (induction xs arbitrary: ys) (auto simp: result_simps assms)

lemma binding_rows_set [simp]: "set (binding_rows J) = set (cj_bindings J)" "length (binding_rows J) = length (cj_bindings J)"
  by (simp_all add: binding_rows_def)

lemma result_rows_set [simp]: "set (result_rows J) = result_from_row ` set (cj_results J)"
  "length (result_rows J) = length (cj_results J)"
  by (simp_all add: result_rows_def)

lemma result_from_row_simps [simp]:
  "co_command_id (result_from_row row) = cw_command_id row" "result_from_row (row_of_result r) = r"
  "cw_command_id (row_of_result r) = co_command_id r"
  by (simp_all add: result_from_row_def row_of_result_def)

text \<open>The primary keys of the two tables and the unique column of effect ids.\<close>

definition command_keys :: "command_journal \<Rightarrow> bool" where
  "command_keys J \<longleftrightarrow> distinct_keys cb_command_id (cj_bindings J) \<and> distinct_keys cb_effect_id (cj_bindings J)
     \<and> distinct_keys cw_command_id (cj_results J)"

lemma row_of_sorted:
  assumes "distinct_keys f xs"
  shows "row_of f k (sort_key g xs) = row_of f k xs"
proof (cases "row_of f k xs")
  case None
  then have "row_of f k (sort_key g xs) = None" by (simp add: row_of_None_iff)
  then show ?thesis using None by simp
next
  case (Some r)
  have "distinct_keys f (sort_key g xs)" using assms by (simp add: distinct_keys_def distinct_map)
  then show ?thesis using row_of_Some [OF Some] row_of_member [of f "sort_key g xs" r] Some by simp
qed

definition rows_sound :: "command_journal \<Rightarrow> bool" where
  "rows_sound J \<longleftrightarrow> (\<forall>b\<in>set (cj_bindings J). binding_sound b) \<and>
     (\<forall>row\<in>set (cj_results J). result_sound (cj_bindings J) (result_from_row row))"

lemma projection_body_plain:
  "rows_sound J \<Longrightarrow> plain_json (projection_body J)"
  by (auto simp: projection_body_def rows_sound_def result_sound_def binding_material_def result_material_def plain_eval)

lemma projection_state_iff:
  assumes "command_keys J"
  shows "projection_state E J = Inr m \<longleftrightarrow> rows_sound J \<and>
    m = (int (length (cj_bindings J)), int (length (cj_results J)), digest_of (projection_body J))"
proof -
  have "result_sound (binding_rows J) r \<longleftrightarrow> result_sound (cj_bindings J) r" for r
    using assms by (simp add: result_sound_def binding_rows_def row_of_sorted command_keys_def)
  then have "projection_state E J = Inr m \<longleftrightarrow> rows_sound J \<and>
      (\<exists>d. canonical_digest E (projection_body J) = Inr d \<and> m = (int (length (cj_bindings J)), int (length (cj_results J)), d))"
    by (auto simp: projection_state_def result_simps rmap_list_check [OF check_binding_iff]
        rmap_list_check [OF check_result_iff] rows_sound_def)
  then show ?thesis using projection_body_plain [of J] canonical_digest_of [of "projection_body J" E] by auto
qed

lemma verify_integrity_iff:
  assumes "command_keys J"
  shows "verify_commands E J = Inr d \<longleftrightarrow> rows_sound J \<and> d = digest_of (projection_body J) \<and>
    cj_meta J = Some (int (length (cj_bindings J)), int (length (cj_results J)), d)"
  by (auto simp: verify_commands_def result_simps projection_state_iff [OF assms])

definition journal_sound :: "command_journal \<Rightarrow> bool" where
  "journal_sound J \<longleftrightarrow> command_keys J \<and> rows_sound J \<and>
     cj_meta J = Some (int (length (cj_bindings J)), int (length (cj_results J)), digest_of (projection_body J))"

lemma journal_sound_verify: "journal_sound J \<Longrightarrow> verify_commands E J = Inr (digest_of (projection_body J))"
  by (simp add: journal_sound_def verify_integrity_iff)

lemma verify_journal_sound: "command_keys J \<Longrightarrow> verify_commands E J = Inr d \<Longrightarrow> journal_sound J"
  by (auto simp: journal_sound_def verify_integrity_iff)

lemma projection_body_meta [simp]: "projection_body (J\<lparr>cj_meta := m\<rparr>) = projection_body J"
  by (simp add: projection_body_def binding_rows_def result_rows_def)

lemma write_meta_iff:
  assumes "command_keys J" "cj_meta J \<noteq> None"
  shows "write_meta E J = Inr J' \<longleftrightarrow> rows_sound J \<and> journal_sound J' \<and>
    J' = J\<lparr>cj_meta := Some (int (length (cj_bindings J)), int (length (cj_results J)), digest_of (projection_body J))\<rparr>"
  using assms
  by (auto simp: write_meta_def result_simps projection_state_iff journal_sound_def command_keys_def rows_sound_def)

section \<open>The transactions\<close>

lemma result_sound_append:
  "result_sound bs r \<Longrightarrow> result_sound (bs @ [b]) r"
  by (auto simp: result_sound_def row_of_append)

lemma bind_tx_new:
  assumes "journal_sound J" "row_of cb_command_id (cb_command_id c) (cj_bindings J) = None"
  shows "bind_tx E J c = Inr (b, J') \<longleftrightarrow> binding_sound c \<and> b = c \<and>
    cb_effect_id c \<notin> cb_effect_id ` set (cj_bindings J) \<and> cb_digest c \<notin> cb_digest ` set (cj_bindings J) \<and>
    journal_sound J' \<and> cj_bindings J' = cj_bindings J @ [c] \<and> cj_results J' = cj_results J"
proof (cases "cb_effect_id c \<in> cb_effect_id ` set (cj_bindings J)")
  case False
  let ?K = "J\<lparr>cj_bindings := cj_bindings J @ [c]\<rparr>"
  have K: "command_keys ?K" "cj_meta ?K \<noteq> None"
    using assms False by (auto simp: journal_sound_def command_keys_def distinct_keys_append row_of_None_iff)
  have "rows_sound ?K \<longleftrightarrow> binding_sound c"
    using assms(1) result_sound_append by (auto simp: journal_sound_def rows_sound_def)
  moreover have "journal_sound J' \<and> cj_bindings J' = cj_bindings J @ [c] \<and> cj_results J' = cj_results J \<longleftrightarrow>
      journal_sound J' \<and> J' = ?K\<lparr>cj_meta := Some (int (length (cj_bindings ?K)), int (length (cj_results ?K)), digest_of (projection_body ?K))\<rparr>"
    by (cases J'; cases J) (auto simp: journal_sound_def projection_body_def binding_rows_def result_rows_def)
  ultimately show ?thesis
    using assms(2) by (auto simp: bind_tx_def result_simps write_meta_iff [OF K])
qed (use assms(2) in \<open>auto simp: bind_tx_def\<close>)

lemma record_tx_new:
  assumes "journal_sound J" "row_of cw_command_id (co_command_id r) (cj_results J) = None"
  shows "record_tx E J r = Inr (r', J') \<longleftrightarrow> result_sound (cj_bindings J) r \<and> r' = r \<and>
    co_record_digest r \<notin> cw_record_digest ` set (cj_results J) \<and>
    journal_sound J' \<and> cj_bindings J' = cj_bindings J \<and> cj_results J' = cj_results J @ [row_of_result r]"
proof -
  let ?K = "J\<lparr>cj_results := cj_results J @ [row_of_result r]\<rparr>"
  have K: "command_keys ?K" "cj_meta ?K \<noteq> None"
    using assms by (auto simp: journal_sound_def command_keys_def distinct_keys_append)
  have "rows_sound ?K \<longleftrightarrow> result_sound (cj_bindings J) r"
    using assms(1) by (auto simp: journal_sound_def rows_sound_def)
  moreover have "journal_sound J' \<and> cj_bindings J' = cj_bindings J \<and> cj_results J' = cj_results J @ [row_of_result r] \<longleftrightarrow>
      journal_sound J' \<and> J' = ?K\<lparr>cj_meta := Some (int (length (cj_bindings ?K)), int (length (cj_results ?K)), digest_of (projection_body ?K))\<rparr>"
    by (cases J'; cases J) (auto simp: journal_sound_def projection_body_def binding_rows_def result_rows_def)
  moreover have "result_sound (cj_bindings J) r \<Longrightarrow> co_command_id r \<in> cb_command_id ` set (cj_bindings J)"
    unfolding result_sound_def by (metis option.distinct(1) row_of_None_iff)
  ultimately show ?thesis
    using assms(2) by (auto simp: record_tx_def result_simps write_meta_iff [OF K])
qed

datatype command_label = L_bind command_binding | L_record command_result

text \<open>
  The atomic steps, with any candidate at all: what \<^verbatim>\<open>bind\<close> and
  \<^verbatim>\<open>record_result\<close> check and read before is not needed for what follows.
\<close>

inductive command_step :: "py_env \<Rightarrow> command_journal \<Rightarrow> command_label \<Rightarrow> command_journal \<Rightarrow> bool" for E where
  step_bind: "bind_tx E J c = Inr (b, J') \<Longrightarrow> command_step E J (L_bind c) J'"
| step_record: "record_tx E J r = Inr (r', J') \<Longrightarrow> command_step E J (L_record r) J'"

inductive_cases command_stepE: "command_step E J l J'"

lemma bind_tx_found:
  "row_of cb_command_id (cb_command_id c) (cj_bindings J) = Some b \<Longrightarrow>
     bind_tx E J c = (if b = c then Inr (b, J) else Inl Binds_different_invocation)"
  by (simp add: bind_tx_def ensure_def)

lemma record_tx_found:
  "row_of cw_command_id (co_command_id r) (cj_results J) = Some row \<Longrightarrow>
     record_tx E J r = (if result_from_row row = r then Inr (r, J) else Inl Result_replay_diverged)"
  by (auto simp: record_tx_def ensure_def)

lemma command_step_cases:
  assumes "command_step E J l J'" "journal_sound J"
  shows "J' = J \<or> (journal_sound J' \<and>
     ((\<exists>c. row_of cb_command_id (cb_command_id c) (cj_bindings J) = None \<and> cb_effect_id c \<notin> cb_effect_id ` set (cj_bindings J) \<and>
        cj_bindings J' = cj_bindings J @ [c] \<and> cj_results J' = cj_results J)
      \<or> (\<exists>r. row_of cw_command_id (co_command_id r) (cj_results J) = None \<and> result_sound (cj_bindings J) r \<and>
        cj_bindings J' = cj_bindings J \<and> cj_results J' = cj_results J @ [row_of_result r])))"
  using assms(1)
proof (rule command_stepE)
  fix c b assume b: "bind_tx E J c = Inr (b, J')"
  show ?thesis
  proof (cases "row_of cb_command_id (cb_command_id c) (cj_bindings J)")
    case None
    then show ?thesis using b bind_tx_new [OF assms(2) None] by blast
  qed (use b in \<open>auto simp: bind_tx_found split: if_splits\<close>)
next
  fix r r' assume r: "record_tx E J r = Inr (r', J')"
  show ?thesis
  proof (cases "row_of cw_command_id (co_command_id r) (cj_results J)")
    case None
    then show ?thesis using r record_tx_new [OF assms(2) None] by blast
  qed (use r in \<open>auto simp: record_tx_found split: if_splits\<close>)
qed

lemma command_step_sound: "command_step E J l J' \<Longrightarrow> journal_sound J \<Longrightarrow> journal_sound J'"
  using command_step_cases by blast

lemma command_run_sound: "runs (command_step E) J ls J' \<Longrightarrow> journal_sound J \<Longrightarrow> journal_sound J'"
  by (rule runs_invariant [where I = journal_sound and step = "command_step E"]) (blast intro: command_step_sound)+

text \<open>Rows stay: a bound command keeps its binding, a recorded one its result.\<close>

lemma command_step_rows:
  assumes "command_step E J l J'" "journal_sound J"
  shows "row_of cb_command_id k (cj_bindings J) = Some b \<Longrightarrow> row_of cb_command_id k (cj_bindings J') = Some b"
    and "row_of cw_command_id k (cj_results J) = Some row \<Longrightarrow> row_of cw_command_id k (cj_results J') = Some row"
  using command_step_cases [OF assms] by (auto simp: row_of_append)

lemma command_run_binding:
  assumes "runs (command_step E) J ls J'" "journal_sound J" "row_of cb_command_id k (cj_bindings J) = Some b"
  shows "row_of cb_command_id k (cj_bindings J') = Some b"
proof -
  have "journal_sound J' \<and> row_of cb_command_id k (cj_bindings J') = Some b"
    by (rule runs_invariant [where step = "command_step E", OF _ assms(1)])
      (use assms command_step_sound command_step_rows(1) in blast)+
  then show ?thesis by blast
qed

lemma command_run_result:
  assumes "runs (command_step E) J ls J'" "journal_sound J" "row_of cw_command_id k (cj_results J) = Some row"
  shows "row_of cw_command_id k (cj_results J') = Some row"
proof -
  have "journal_sound J' \<and> row_of cw_command_id k (cj_results J') = Some row"
    by (rule runs_invariant [where step = "command_step E", OF _ assms(1)])
      (use assms command_step_sound command_step_rows(2) in blast)+
  then show ?thesis by blast
qed

lemma candidate_ids:
  "bind_candidate E cid eid cmd actor p i q = Inr c \<Longrightarrow> cb_command_id c = cid \<and> cb_effect_id c = eid"
  by (auto simp: bind_candidate_def command_require_text_def result_simps Let_def)

lemma bind_leaves:
  assumes "bind E J cid eid cmd actor p i q = Inr (b, J')" "command_keys J"
  shows "journal_sound J' \<and> row_of cb_command_id cid (cj_bindings J') = Some b \<and>
    bind_candidate E cid eid cmd actor p i q = Inr b"
proof -
  obtain c d where c: "verify_commands E J = Inr d" "bind_candidate E cid eid cmd actor p i q = Inr c"
    "bind_tx E J c = Inr (b, J')"
    using assms(1) by (auto simp: bind_def result_simps)
  have J: "journal_sound J" by (rule verify_journal_sound [OF assms(2) c(1)])
  have id: "cb_command_id c = cid"
    using c(2) by (auto simp: bind_candidate_def command_require_text_def result_simps Let_def)
  show ?thesis
  proof (cases "row_of cb_command_id cid (cj_bindings J)")
    case None
    then show ?thesis using c J id bind_tx_new [OF J, of c] by (auto simp: row_of_append)
  next
    case (Some b0)
    then show ?thesis using c J id by (auto simp: bind_tx_found split: if_splits)
  qed
qed

lemma read_binding_sound:
  "journal_sound J \<Longrightarrow> row_of cb_command_id k (cj_bindings J) = Some b \<Longrightarrow> read_binding E J k = Inr b"
  using row_of_Some [of cb_command_id k "cj_bindings J" b]
  by (auto simp: read_binding_def check_binding_iff journal_sound_def rows_sound_def)

lemma read_result_sound:
  assumes "journal_sound J" "row_of cb_command_id k (cj_bindings J) = Some b"
  shows "read_result E J k = Inr (map_option result_from_row (row_of cw_command_id k (cj_results J)))"
proof (cases "row_of cw_command_id k (cj_results J)")
  case (Some row)
  then have "result_sound (cj_bindings J) (result_from_row row)" "cw_command_id row = k"
    using row_of_Some [OF Some] assms(1) by (auto simp: journal_sound_def rows_sound_def)
  then show ?thesis
    using assms(2) Some by (auto simp: read_result_def read_binding_sound [OF assms] result_sound_def Let_def
        result_simps result_record_digest_iff)
qed (simp add: read_result_def read_binding_sound [OF assms])

lemma record_result_sound:
  assumes "journal_sound J" "row_of cb_command_id cid (cj_bindings J) = Some b"
  shows "record_command_result E J cid rd rc conf ev sq = rbind (result_candidate E b cid rd rc conf ev sq) (record_tx E J)"
  by (simp add: record_command_result_def journal_sound_verify [OF assms(1)] read_binding_sound [OF assms])

lemma result_candidate_id: "result_candidate E b cid rd rc conf ev sq = Inr r \<Longrightarrow> co_command_id r = cid"
  by (auto simp: result_candidate_def result_simps Let_def)

lemma record_leaves:
  assumes "record_command_result E J cid rd rc conf ev sq = Inr (r, J')" "command_keys J"
  obtains b row where "journal_sound J'" "row_of cb_command_id cid (cj_bindings J') = Some b"
    "row_of cw_command_id cid (cj_results J') = Some row" "result_from_row row = r"
proof -
  obtain d b c where c: "verify_commands E J = Inr d" "read_binding E J cid = Inr b"
    "result_candidate E b cid rd rc conf ev sq = Inr c" "record_tx E J c = Inr (r, J')"
    using assms(1) by (auto simp: record_command_result_def result_simps)
  have J: "journal_sound J" by (rule verify_journal_sound [OF assms(2) c(1)])
  have b: "row_of cb_command_id cid (cj_bindings J) = Some b"
    using c(2) by (auto simp: read_binding_def result_simps check_binding_iff)
  note id = result_candidate_id [OF c(3)]
  show ?thesis
  proof (cases "row_of cw_command_id cid (cj_results J)")
    case None
    then show ?thesis using c(4) b id record_tx_new [OF J, of c E r J']
      by (intro that [of b "row_of_result c"]) (auto simp: row_of_append)
  next
    case (Some row)
    then show ?thesis using c(4) b id J by (intro that [of b row]) (auto simp: record_tx_found split: if_splits)
  qed
qed

text \<open>On a verified file the transactions accept what they should.\<close>

lemma write_meta_total: "command_keys J \<Longrightarrow> rows_sound J \<Longrightarrow> \<exists>J'. write_meta E J = Inr J'"
  using projection_state_iff [of J E] by (auto simp: write_meta_def result_simps)

lemma bind_tx_accepts:
  assumes "journal_sound J" "binding_sound c" "row_of cb_command_id (cb_command_id c) (cj_bindings J) = None"
    and "cb_effect_id c \<notin> cb_effect_id ` set (cj_bindings J)" "cb_digest c \<notin> cb_digest ` set (cj_bindings J)"
  shows "\<exists>J'. bind_tx E J c = Inr (c, J')"
proof -
  let ?K = "J\<lparr>cj_bindings := cj_bindings J @ [c]\<rparr>"
  have "command_keys ?K" "rows_sound ?K"
    using assms result_sound_append
    by (auto simp: journal_sound_def command_keys_def distinct_keys_append row_of_None_iff rows_sound_def)
  then obtain J' where "write_meta E ?K = Inr J'" using write_meta_total by blast
  then show ?thesis using assms by (simp add: bind_tx_def)
qed

lemma record_tx_accepts:
  assumes "journal_sound J" "result_sound (cj_bindings J) r" "row_of cw_command_id (co_command_id r) (cj_results J) = None"
    and "co_record_digest r \<notin> cw_record_digest ` set (cj_results J)"
  shows "\<exists>J'. record_tx E J r = Inr (r, J')"
proof -
  let ?K = "J\<lparr>cj_results := cj_results J @ [row_of_result r]\<rparr>"
  have "command_keys ?K" "rows_sound ?K"
    using assms by (auto simp: journal_sound_def command_keys_def distinct_keys_append rows_sound_def)
  moreover have "co_command_id r \<in> cb_command_id ` set (cj_bindings J)"
    using assms(2) unfolding result_sound_def by (metis option.distinct(1) row_of_None_iff)
  ultimately show ?thesis using assms write_meta_total [of ?K E] by (auto simp: record_tx_def)
qed

lemma open_commands_sound: "\<exists>J. open_commands E [] [] None = Inr J \<and> journal_sound J \<and> cj_bindings J = [] \<and> cj_results J = []"
proof -
  let ?J = "\<lparr>cj_bindings = [], cj_results = [], cj_meta = None\<rparr>"
  have keys: "command_keys ?J" by (simp add: command_keys_def distinct_keys_def)
  have "projection_state E ?J = Inr (0, 0, digest_of (projection_body ?J))"
    by (simp add: projection_state_iff [OF keys] rows_sound_def)
  then have "open_commands E [] [] None = Inr (?J\<lparr>cj_meta := Some (0, 0, digest_of (projection_body ?J))\<rparr>)"
    by (simp add: open_commands_def Let_def)
  then show ?thesis using projection_body_meta [where J = ?J and m = "Some (0, 0, digest_of (projection_body ?J))"]
    by (simp add: journal_sound_def command_keys_def distinct_keys_def rows_sound_def)
qed

section \<open>A concrete file\<close>

abbreviation demo_bind :: "command_journal \<Rightarrow> (command_error, command_binding \<times> command_journal) result" where
  "demo_bind J \<equiv> bind demo_env J ''cmd-1'' ''mail-1'' ''post'' ''ws-1'' (hex64 CHR ''a'') (hex64 CHR ''b'') (hex64 CHR ''c'')"

lemma demo_bind_ok:
  "\<exists>J b J1. open_commands demo_env [] [] None = Inr J \<and> command_keys J \<and> demo_bind J = Inr (b, J1) \<and> journal_sound J1
     \<and> cj_bindings J1 = [b] \<and> cj_results J1 = [] \<and> cb_command_id b = ''cmd-1''"
proof -
  obtain J where J: "open_commands demo_env [] [] None = Inr J" "journal_sound J" "cj_bindings J = []" "cj_results J = []"
    using open_commands_sound by blast
  obtain c where c: "bind_candidate demo_env ''cmd-1'' ''mail-1'' ''post'' ''ws-1'' (hex64 CHR ''a'') (hex64 CHR ''b'') (hex64 CHR ''c'') = Inr c"
    "binding_sound c"
    by (simp add: bind_candidate_def command_require_text_def command_require_digest_def binding_digest_of Let_def
        binding_sound_def binding_body_def)
  obtain J1 where J1: "bind_tx demo_env J c = Inr (c, J1)" using bind_tx_accepts [OF J(2) c(2)] J(3) by auto
  have "demo_bind J = Inr (c, J1)" using c(1) J1 by (simp add: bind_def journal_sound_verify [OF J(2)])
  moreover have "journal_sound J1" "cj_bindings J1 = [c]" "cj_results J1 = []" "cb_command_id c = ''cmd-1''"
    using bind_tx_new [OF J(2), of c demo_env c J1] J1 J(3,4) candidate_ids [OF c(1)] by auto
  moreover have "command_keys J" using J(2) by (simp add: journal_sound_def)
  ultimately show ?thesis using J(1) by blast
qed

lemma demo_record_ok:
  assumes "journal_sound J1" "cj_bindings J1 = [b]" "cj_results J1 = []" "cb_command_id b = ''cmd-1''"
  shows "\<exists>r J2. record_command_result demo_env J1 ''cmd-1'' (hex64 CHR ''d'') ''WRITTEN'' True None (Some 7) = Inr (r, J2)"
proof -
  have b: "row_of cb_command_id ''cmd-1'' (cj_bindings J1) = Some b" using assms by (simp add: row_of_Cons)
  obtain c where c: "result_candidate demo_env b ''cmd-1'' (hex64 CHR ''d'') ''WRITTEN'' True None (Some 7) = Inr c"
    "result_sound (cj_bindings J1) c"
    using b by (auto simp: result_candidate_def command_require_text_def command_require_digest_def Let_def result_sound_def
        result_record_digest_def canonical_digest_of result_body_plain sequence_safe_def plain_eval result_body_def)
  obtain J2 where "record_tx demo_env J1 c = Inr (c, J2)" using record_tx_accepts [OF assms(1) c(2)] assms(3) by auto
  then show ?thesis using c(1) by (simp add: record_result_sound [OF assms(1) b])
qed

section \<open>A verified projection\<close>

lemma binding_material_inj: "sorted_keys (binding_material b) = sorted_keys (binding_material b') \<Longrightarrow> b = b'"
proof -
  assume eq: "sorted_keys (binding_material b) = sorted_keys (binding_material b')"
  have get: "map_option sorted_keys (jget k (binding_material b)) = map_option sorted_keys (jget k (binding_material b'))" for k
  proof -
    have "jget k (sorted_keys (binding_material b)) = jget k (sorted_keys (binding_material b'))" by (simp only: eq)
    then show ?thesis unfolding binding_material_def
      by (subst (asm) (1 2) jget_sorted_keys) (simp_all del: sorted_keys.simps(2))
  qed
  show ?thesis
    using get [of "''command_id''"] get [of "''effect_id''"] get [of "''command''"] get [of "''actor_workstream''"]
      get [of "''lifecycle_permit_digest''"] get [of "''invocation_digest''"] get [of "''request_digest''"] get [of "''binding_digest''"]
    by (cases b; cases b') (simp add: binding_material_def)
qed

lemma result_material_inj: "sorted_keys (result_material r) = sorted_keys (result_material r') \<Longrightarrow> r = r'"
proof -
  assume eq: "sorted_keys (result_material r) = sorted_keys (result_material r')"
  have get: "map_option sorted_keys (jget k (result_material r)) = map_option sorted_keys (jget k (result_material r'))" for k
  proof -
    have "jget k (sorted_keys (result_material r)) = jget k (sorted_keys (result_material r'))" by (simp only: eq)
    then show ?thesis unfolding result_material_def
      by (subst (asm) (1 2) jget_sorted_keys) (simp_all del: sorted_keys.simps(2))
  qed
  show ?thesis
    using get [of "''command_id''"] get [of "''result_digest''"] get [of "''result_class''"] get [of "''database_write_confirmed''"]
      get [of "''event_id''"] get [of "''event_sequence''"] get [of "''result_record_digest''"]
    by (cases r; cases r') (simp add: result_material_def)
qed

lemma projection_text_inj:
  assumes "rows_sound J" "rows_sound J'" "text_of (projection_body J) = text_of (projection_body J')"
  shows "binding_rows J = binding_rows J' \<and> result_rows J = result_rows J'"
proof -
  have wf: "wf_json (projection_body J)" "wf_json (projection_body J')"
    using assms(1,2) projection_body_plain plain_is_wf by blast+
  note field = text_of_field [OF wf [unfolded projection_body_def] assms(3) [unfolded projection_body_def]]
  have "map (\<lambda>b. sorted_keys (binding_material b)) (binding_rows J) = map (\<lambda>b. sorted_keys (binding_material b)) (binding_rows J')"
    using field [of "''bindings''"] by (simp add: comp_def)
  moreover have "map (\<lambda>r. sorted_keys (result_material r)) (result_rows J) = map (\<lambda>r. sorted_keys (result_material r)) (result_rows J')"
    using field [of "''results''"] by (simp add: comp_def)
  ultimately show ?thesis
    using binding_material_inj result_material_inj by (auto dest!: map_injective simp: inj_def)
qed

section \<open>Health\<close>

lemma rmap_list_known: "(\<And>x. x \<in> set xs \<Longrightarrow> f x = Inr (g x)) \<Longrightarrow> rmap_list f xs = Inr (map g xs)"
  by (induction xs) auto

lemma bound_row:
  "journal_sound J \<Longrightarrow> b \<in> set (cj_bindings J) \<Longrightarrow> row_of cb_command_id (cb_command_id b) (cj_bindings J) = Some b"
  by (simp add: journal_sound_def command_keys_def row_of_member)

lemma bindings_sound: "journal_sound J \<Longrightarrow> bindings E J = Inr (binding_rows J)"
proof -
  assume J: "journal_sound J"
  have "rmap_list (\<lambda>b. read_binding E J (cb_command_id b)) (binding_rows J) = Inr (map id (binding_rows J))"
    by (rule rmap_list_known) (simp add: read_binding_sound [OF J bound_row [OF J]])
  moreover have "rmap_list f (map g xs) = rmap_list (\<lambda>x. f (g x)) xs" for f :: "string \<Rightarrow> (command_error, command_binding) result" and g and xs :: "command_binding list"
    by (induction xs) auto
  ultimately show ?thesis by (simp add: bindings_def)
qed

abbreviation stored_result :: "command_journal \<Rightarrow> command_binding \<Rightarrow> command_result option" where
  "stored_result J b \<equiv> map_option result_from_row (row_of cw_command_id (cb_command_id b) (cj_results J))"

lemma all_results_sound:
  "journal_sound J \<Longrightarrow> all_results E J = Inr (map (\<lambda>b. (cb_command_id b, stored_result J b)) (binding_rows J))"
  by (simp add: all_results_def bindings_sound)
    (rule rmap_list_known, simp add: read_result_sound bound_row)

text \<open>Every result row belongs to exactly one bound command.\<close>

lemma recorded_count:
  assumes J: "journal_sound J"
  shows "length (filter (\<lambda>b. row_of cw_command_id (cb_command_id b) (cj_results J) \<noteq> None) (binding_rows J)) = length (cj_results J)"
proof -
  let ?bs = "filter (\<lambda>b. row_of cw_command_id (cb_command_id b) (cj_results J) \<noteq> None) (binding_rows J)"
  have keys: "distinct (map cb_command_id (cj_bindings J))" "distinct (map cw_command_id (cj_results J))"
    using J by (simp_all add: journal_sound_def command_keys_def distinct_keys_def)
  then have "distinct (map cb_command_id (binding_rows J))" by (simp add: binding_rows_def distinct_map)
  then have dist: "distinct (map cb_command_id ?bs)" by (rule distinct_map_filter)
  have "cw_command_id row \<in> cb_command_id ` set ?bs" if "row \<in> set (cj_results J)" for row
  proof -
    have "result_sound (cj_bindings J) (result_from_row row)" using J that by (simp add: journal_sound_def rows_sound_def)
    then obtain b where b: "row_of cb_command_id (cw_command_id row) (cj_bindings J) = Some b" by (auto simp: result_sound_def)
    then have "b \<in> set ?bs" using row_of_Some [OF b] that by (auto simp: row_of_None_iff)
    then show ?thesis using row_of_Some [OF b] by (metis imageI)
  qed
  then have "cb_command_id ` set ?bs = cw_command_id ` set (cj_results J)" by (auto simp: row_of_None_iff)
  then have "length (map cb_command_id ?bs) = length (map cw_command_id (cj_results J))"
    using distinct_card [OF dist] distinct_card [OF keys(2)] by simp
  then show ?thesis by simp
qed

lemma map_filter_count: "length (List.map_filter f xs) = length (filter (\<lambda>x. f x \<noteq> None) xs)"
  by (simp add: map_filter_def)

lemma class_counts_total: "sum_list (map snd (class_counts rs)) = length rs"
proof -
  have "sum_list (map (\<lambda>c. length (filter (\<lambda>r. co_result_class r = c) rs)) cs) = length (filter (\<lambda>r. co_result_class r \<in> set cs) rs)"
    if "distinct cs" for cs
    using that
  proof (induction cs)
    case (Cons c cs)
    have "length (filter (\<lambda>r. co_result_class r \<in> set (c # cs)) rs) =
        length (filter (\<lambda>r. co_result_class r = c) rs) + length (filter (\<lambda>r. co_result_class r \<in> set cs) rs)"
      using Cons.prems by (induction rs) auto
    then show ?case using Cons by simp
  qed simp
  from this [of "sort (remdups (map co_result_class rs))"] show ?thesis
    by (simp add: class_counts_def comp_def)
qed

lemma filter_split: "length (filter P xs) + length (filter (\<lambda>x. \<not> P x) xs) = length xs"
  by (rule sum_length_filter_compl)

section \<open>What the command journal guarantees\<close>

text \<open>
  C28: A command id is bound once and for all. After \<^verbatim>\<open>bind\<close> has answered with a
  binding, and after any further transactions of any number of processes, the binding reads
  back; binding the same id again answers with it when the checked arguments are the same
  and is refused without effect when any of them differs; and no other command id can be
  bound to the same effect.
\<close>

theorem command_bound_once:
  assumes "command_keys J" "bind E J cid eid cmd actor p i q = Inr (b, J1)" "runs (command_step E) J1 ls J2"
    and "bind_candidate E cid' eid' cmd' actor' p' i' q' = Inr b'"
  shows "read_binding E J2 cid = Inr b
    \<and> (cid' = cid \<longrightarrow> bind E J2 cid' eid' cmd' actor' p' i' q' =
          (if b' = b then Inr (b, J2) else Inl Binds_different_invocation))
    \<and> (cid' \<noteq> cid \<longrightarrow> eid' = eid \<longrightarrow> \<not> ok (bind E J2 cid' eid' cmd' actor' p' i' q'))"
proof -
  have J1: "journal_sound J1" "row_of cb_command_id cid (cj_bindings J1) = Some b" "bind_candidate E cid eid cmd actor p i q = Inr b"
    using bind_leaves [OF assms(2,1)] by blast+
  have J2: "journal_sound J2" "row_of cb_command_id cid (cj_bindings J2) = Some b"
    using command_run_sound [OF assms(3) J1(1)] command_run_binding [OF assms(3) J1(1,2)] by blast+
  have tx: "bind E J2 cid' eid' cmd' actor' p' i' q' = bind_tx E J2 b'"
    by (simp add: bind_def journal_sound_verify [OF J2(1)] assms(4))
  note ids = candidate_ids [OF J1(3)] candidate_ids [OF assms(4)]
  have "\<not> ok (bind_tx E J2 b')" if "cid' \<noteq> cid" "eid' = eid"
  proof (cases "row_of cb_command_id cid' (cj_bindings J2)")
    case None
    have "eid \<in> cb_effect_id ` set (cj_bindings J2)" using row_of_Some [OF J2(2)] ids by (metis imageI)
    then show ?thesis using None that ids bind_tx_new [OF J2(1), of b'] by auto
  next
    case (Some b0)
    have "b0 \<noteq> b'"
    proof
      assume "b0 = b'"
      then have "cb_effect_id b0 = cb_effect_id b" using ids that by simp
      moreover have "distinct_keys cb_effect_id (cj_bindings J2)" using J2(1) by (simp add: journal_sound_def command_keys_def)
      ultimately have "b0 = b" using row_of_Some [OF Some] row_of_Some [OF J2(2)] row_of_member by (metis option.inject)
      then show False using \<open>b0 = b'\<close> ids that by simp
    qed
    then show ?thesis using Some ids by (simp add: bind_tx_found)
  qed
  then show ?thesis unfolding tx using read_binding_sound [OF J2] J2(2) ids by (auto simp: bind_tx_found)
qed

theorem command_bound_once_witness:
  "\<exists>J b J1. demo_bind J = Inr (b, J1) \<and> read_binding demo_env J1 ''cmd-1'' = Inr b \<and> demo_bind J1 = Inr (b, J1)"
proof -
  obtain J b J1 where J: "command_keys J" "demo_bind J = Inr (b, J1)" using demo_bind_ok by blast
  have "bind_candidate demo_env ''cmd-1'' ''mail-1'' ''post'' ''ws-1'' (hex64 CHR ''a'') (hex64 CHR ''b'') (hex64 CHR ''c'') = Inr b"
    using bind_leaves [OF J(2,1)] by blast
  from command_bound_once [OF J runs_nil this] J(2) show ?thesis by auto
qed

text \<open>
  A command's result is recorded once and for all. After \<^verbatim>\<open>record_result\<close> has
  answered, and after any further transactions, the result reads back, so a restarted caller
  learns it without running the command again; recording it again answers with it, and
  recording anything else for the command is refused without effect.
\<close>

lemma command_result_once:
  assumes "command_keys J" "record_command_result E J cid rd rc conf ev sq = Inr (r, J1)" "runs (command_step E) J1 ls J2"
  shows "read_result E J2 cid = Inr (Some r) \<and>
    (\<exists>b. read_binding E J2 cid = Inr b \<and>
      (\<forall>r'. result_candidate E b cid rd' rc' conf' ev' sq' = Inr r' \<longrightarrow>
        record_command_result E J2 cid rd' rc' conf' ev' sq' = (if r' = r then Inr (r, J2) else Inl Result_replay_diverged)))"
proof -
  obtain b row where J1: "journal_sound J1" "row_of cb_command_id cid (cj_bindings J1) = Some b"
    "row_of cw_command_id cid (cj_results J1) = Some row" "result_from_row row = r"
    by (rule record_leaves [OF assms(2,1)])
  have J2: "journal_sound J2" "row_of cb_command_id cid (cj_bindings J2) = Some b"
    "row_of cw_command_id cid (cj_results J2) = Some row"
    using command_run_sound [OF assms(3) J1(1)] command_run_binding [OF assms(3) J1(1,2)]
      command_run_result [OF assms(3) J1(1,3)] by blast+
  then show ?thesis
    using J1(4) read_binding_sound [OF J2(1,2)] read_result_sound [OF J2(1,2)] result_candidate_id
    by (auto simp: record_result_sound [OF J2(1,2)] record_tx_found)
qed

lemma command_result_once_witness:
  "\<exists>J r J1. record_command_result demo_env J ''cmd-1'' (hex64 CHR ''d'') ''WRITTEN'' True None (Some 7) = Inr (r, J1)
     \<and> read_result demo_env J1 ''cmd-1'' = Inr (Some r)"
proof -
  obtain b J where J: "journal_sound J" "cj_bindings J = [b]" "cj_results J = []" "cb_command_id b = ''cmd-1''"
    using demo_bind_ok by blast
  obtain r J1 where r: "record_command_result demo_env J ''cmd-1'' (hex64 CHR ''d'') ''WRITTEN'' True None (Some 7) = Inr (r, J1)"
    using demo_record_ok [OF J] by blast
  have "command_keys J" using J(1) by (simp add: journal_sound_def)
  from command_result_once [OF this r runs_nil] r show ?thesis by blast
qed

text \<open>
  Two files whose integrity check returns the same projection digest hold the same
  bindings and the same results, field by field, or their two projection texts are an
  explicit SHA-256 collision.
\<close>

lemma projection_tamper_evident:
  assumes "command_keys J" "command_keys J'" "verify_commands E J = Inr d" "verify_commands E J' = Inr d"
  shows "(binding_rows J = binding_rows J' \<and> result_rows J = result_rows J')
    \<or> collides (utf8 (text_of (projection_body J))) (utf8 (text_of (projection_body J')))"
proof -
  have "rows_sound J" "rows_sound J'" "digest_of (projection_body J) = digest_of (projection_body J')"
    using assms by (auto simp: verify_integrity_iff)
  then show ?thesis using projection_text_inj [of J J'] by (auto simp: collides_def digest_of_def sha256_hex_def utf8_inj)
qed

lemma projection_tamper_evident_witness:
  "\<exists>J b J1 d. demo_bind J = Inr (b, J1) \<and> verify_commands demo_env J1 = Inr d \<and>
     (binding_rows J1 = binding_rows J1 \<and> result_rows J1 = result_rows J1
      \<or> collides (utf8 (text_of (projection_body J1))) (utf8 (text_of (projection_body J1))))"
proof -
  obtain J b J1 where J: "demo_bind J = Inr (b, J1)" "journal_sound J1" using demo_bind_ok by blast
  have "command_keys J1" using J(2) by (simp add: journal_sound_def)
  from projection_tamper_evident [OF this this journal_sound_verify [OF J(2)] journal_sound_verify [OF J(2)]]
  show ?thesis using J(1) journal_sound_verify [OF J(2)] by blast
qed

text \<open>
  The health figures of a verified file add up: the results and the unresolved commands
  partition the bindings, the confirmed and unconfirmed results and the counts per class
  each sum to the results, and the unresolved ids are the bound commands with no result row.
\<close>

lemma health_adds_up:
  assumes "command_keys J" "verify_commands E J = Inr d"
  shows "\<exists>h. health_projection E J = Inr h \<and> ch_projection_digest h = d
    \<and> ch_binding_count h = length (cj_bindings J) \<and> ch_result_count h = length (cj_results J)
    \<and> ch_result_count h + length (ch_unresolved h) = ch_binding_count h
    \<and> ch_confirmed h + ch_unconfirmed h = ch_result_count h
    \<and> sum_list (map snd (ch_class_counts h)) = ch_result_count h
    \<and> set (ch_unresolved h) = cb_command_id ` set (cj_bindings J) - cw_command_id ` set (cj_results J)"
proof -
  have J: "journal_sound J" by (rule verify_journal_sound [OF assms])
  let ?results = "map (\<lambda>b. (cb_command_id b, stored_result J b)) (binding_rows J)"
  let ?recorded = "List.map_filter snd ?results"
  have n: "length ?recorded = length (cj_results J)"
    using recorded_count [OF J] by (simp add: map_filter_count filter_map comp_def)
  have "length (filter (\<lambda>b. row_of cw_command_id (cb_command_id b) (cj_results J) = None) (binding_rows J)) + length (cj_results J)
      = length (cj_bindings J)"
    using recorded_count [OF J] filter_split [of "\<lambda>b. row_of cw_command_id (cb_command_id b) (cj_results J) = None" "binding_rows J"]
    by simp
  then show ?thesis
    using n class_counts_total [of ?recorded] filter_split [of co_write_confirmed ?recorded]
    by (simp add: health_projection_def assms(2) bindings_sound [OF J] all_results_sound [OF J] Let_def filter_map comp_def)
      (auto simp: row_of_None_iff)
qed

lemma health_adds_up_witness:
  "\<exists>J b J1 h. demo_bind J = Inr (b, J1) \<and> health_projection demo_env J1 = Inr h \<and> set (ch_unresolved h) = {''cmd-1''}"
proof -
  obtain J b J1 where J: "demo_bind J = Inr (b, J1)" "journal_sound J1" "cj_bindings J1 = [b]" "cj_results J1 = []" "cb_command_id b = ''cmd-1''"
    using demo_bind_ok by blast
  have "command_keys J1" using J(2) by (simp add: journal_sound_def)
  from health_adds_up [OF this journal_sound_verify [OF J(2), of demo_env]] J(3-5)
  obtain h where "health_projection demo_env J1 = Inr h" "set (ch_unresolved h) = {''cmd-1''}" by auto
  then show ?thesis using J(1) by blast
qed

text \<open>
  Every file the journal writes verifies: from an empty database, after any sequence of
  accepted transactions of any number of processes, \<^verbatim>\<open>verify_integrity\<close> succeeds
  and returns the stored projection digest, and both tables satisfy their unique keys.
\<close>

lemma command_journal_verifies:
  assumes "open_commands E [] [] None = Inr J" "runs (command_step E) J ls J'"
  shows "command_keys J' \<and> (\<exists>d. verify_commands E J' = Inr d \<and>
    cj_meta J' = Some (int (length (cj_bindings J')), int (length (cj_results J')), d))"
proof -
  have "journal_sound J" using open_commands_sound [of E] assms(1) by auto
  then have "journal_sound J'" by (rule command_run_sound [OF assms(2)])
  then show ?thesis using journal_sound_verify [of J' E] by (simp add: journal_sound_def)
qed

lemma command_journal_verifies_witness:
  "\<exists>J c b J1. open_commands demo_env [] [] None = Inr J \<and> bind_tx demo_env J c = Inr (b, J1) \<and> ok (verify_commands demo_env J1)"
proof -
  obtain J b J1 where J: "open_commands demo_env [] [] None = Inr J" "demo_bind J = Inr (b, J1)" using demo_bind_ok by blast
  then obtain c where c: "bind_tx demo_env J c = Inr (b, J1)" by (auto simp: bind_def result_simps)
  from command_journal_verifies [OF J(1) runs_one [where step = "command_step demo_env", OF step_bind [OF c]]] J(1) c
  show ?thesis by blast
qed

end
