(* ===== verification/Drift.thy ===== *)
theory Drift
  imports Py_Values
begin

text \<open>
  \<^verbatim>\<open>vera_assurance.drift\<close>: the comparison of a candidate snapshot with a baseline
  under a policy that names the fields that may not change, those that may, and those that
  must be there. The values of a snapshot are a dict, here the list of its items.
\<close>

record drift_snapshot =
  sn_subject_id :: string
  sn_values :: "(string \<times> json) list"

record drift_policy =
  dp_critical_fields :: "string list"
  dp_mutable_fields :: "string list"
  dp_required_fields :: "string list"

record drift_finding =
  df_field :: string
  df_baseline :: json
  df_candidate :: json
  df_severity :: string
  df_code :: string

record drift_report =
  dr_subject_id :: string
  dr_baseline_digest :: string
  dr_candidate_digest :: string
  dr_status :: string
  dr_findings :: "drift_finding list"
  dr_independent_review :: bool
  dr_claim_ceiling :: string

datatype drift_error =
    Empty_subject_id
  | Empty_policy_field
  | Critical_is_mutable
  | Subject_mismatch
  | Drift_canon canon_error

definition make_snapshot :: "string \<Rightarrow> (string \<times> json) list \<Rightarrow> (drift_error, drift_snapshot) result" where
  "make_snapshot subject_id values =
     rbind (ensure (subject_id \<noteq> []) Empty_subject_id) (\<lambda>_.
       Inr \<lparr>sn_subject_id = subject_id, sn_values = values\<rparr>)"

definition snapshot_digest :: "py_env \<Rightarrow> drift_snapshot \<Rightarrow> (drift_error, string) result" where
  "snapshot_digest E s =
     map_err Drift_canon (canonical_digest E
       (JObj [(''subject_id'', JStr (sn_subject_id s)), (''values'', JObj (sn_values s))]))"

definition make_policy :: "string list \<Rightarrow> string list \<Rightarrow> string list \<Rightarrow> (drift_error, drift_policy) result" where
  "make_policy critical_fields mutable_fields required_fields =
     rbind (ensure ([] \<notin> set (critical_fields @ mutable_fields @ required_fields)) Empty_policy_field) (\<lambda>_.
     rbind (ensure (set critical_fields \<inter> set mutable_fields = {}) Critical_is_mutable) (\<lambda>_.
       Inr \<lparr>dp_critical_fields = critical_fields, dp_mutable_fields = mutable_fields,
            dp_required_fields = required_fields\<rparr>))"

definition dict_get :: "(string \<times> json) list \<Rightarrow> string \<Rightarrow> json" where
  "dict_get d k = (case map_of d k of None \<Rightarrow> JNull | Some v \<Rightarrow> v)"

text \<open>The two loops of \<^verbatim>\<open>compare_snapshots\<close>, each as the findings it appends.\<close>

definition missing_findings :: "(string \<times> json) list \<Rightarrow> (string \<times> json) list \<Rightarrow> string list \<Rightarrow> drift_finding list" where
  "missing_findings base cand required =
     map (\<lambda>field. \<lparr>df_field = field, df_baseline = dict_get base field, df_candidate = JNull,
                   df_severity = ''BLOCK'', df_code = ''REQUIRED_FIELD_MISSING''\<rparr>)
       (filter (\<lambda>field. field \<notin> fst ` set cand) required)"

definition drifting_fields :: "py_env \<Rightarrow> (string \<times> json) list \<Rightarrow> (string \<times> json) list \<Rightarrow> string list \<Rightarrow> string list" where
  "drifting_fields E base cand mutable =
     filter (\<lambda>field. \<not> py_eq E (dict_get base field) (dict_get cand field) \<and> field \<notin> set mutable)
       (sort (remdups (map fst base @ map fst cand)))"

definition drift_findings ::
  "py_env \<Rightarrow> (string \<times> json) list \<Rightarrow> (string \<times> json) list \<Rightarrow> drift_policy \<Rightarrow> drift_finding list" where
  "drift_findings E base cand policy =
     map (\<lambda>field. let critical = field \<in> set (dp_critical_fields policy) in
            \<lparr>df_field = field, df_baseline = dict_get base field, df_candidate = dict_get cand field,
             df_severity = (if critical then ''BLOCK'' else ''WARN''),
             df_code = (if critical then ''CRITICAL_DRIFT'' else ''UNDECLARED_DRIFT'')\<rparr>)
       (drifting_fields E base cand (dp_mutable_fields policy))"

definition compare_snapshots ::
  "py_env \<Rightarrow> drift_snapshot \<Rightarrow> drift_snapshot \<Rightarrow> drift_policy \<Rightarrow> (drift_error, drift_report) result" where
  "compare_snapshots E baseline candidate policy =
     rbind (ensure (sn_subject_id baseline = sn_subject_id candidate) Subject_mismatch) (\<lambda>_.
       let base = sn_values baseline; cand = sn_values candidate;
           findings = missing_findings base cand (dp_required_fields policy) @ drift_findings E base cand policy;
           status = (if \<exists>f\<in>set findings. df_severity f = ''BLOCK'' then ''BLOCK''
                     else if findings \<noteq> [] then ''WARN'' else ''PASS'')
       in rbind (snapshot_digest E baseline) (\<lambda>baseline_digest.
          rbind (snapshot_digest E candidate) (\<lambda>candidate_digest.
            Inr \<lparr>dr_subject_id = sn_subject_id baseline, dr_baseline_digest = baseline_digest,
                 dr_candidate_digest = candidate_digest, dr_status = status, dr_findings = findings,
                 dr_independent_review = False,
                 dr_claim_ceiling = ''INTERNAL_DETERMINISTIC_CHECK_NOT_INDEPENDENT_VALIDATION''\<rparr>)))"

definition drifted :: "drift_report \<Rightarrow> bool" where
  "drifted r = (dr_findings r \<noteq> [])"

section \<open>What the comparison decides\<close>

lemma drifting_iff:
  "field \<in> set (drifting_fields E base cand mutable) \<longleftrightarrow>
     field \<in> fst ` set base \<union> fst ` set cand \<and> \<not> py_eq E (dict_get base field) (dict_get cand field)
     \<and> field \<notin> set mutable"
  by (auto simp: drifting_fields_def)

text \<open>
  A comparison blocks exactly when the candidate lacks a required field or changes a
  critical one that is not declared mutable, warns exactly when it does not block and some
  other undeclared field changed, and passes exactly when nothing but mutable fields changed;
  the digests in the report are those of the two snapshots.
\<close>

lemma comparison_verdict:
  assumes "compare_snapshots E b c policy = Inr r"
  defines "changed \<equiv> {f \<in> fst ` set (sn_values b) \<union> fst ` set (sn_values c).
      \<not> py_eq E (dict_get (sn_values b) f) (dict_get (sn_values c) f)} - set (dp_mutable_fields policy)"
  defines "missing \<equiv> set (dp_required_fields policy) - fst ` set (sn_values c)"
  shows "(dr_status r = ''BLOCK'' \<longleftrightarrow> missing \<noteq> {} \<or> changed \<inter> set (dp_critical_fields policy) \<noteq> {})
    \<and> (dr_status r = ''PASS'' \<longleftrightarrow> missing = {} \<and> changed = {})
    \<and> dr_status r \<in> {''BLOCK'', ''WARN'', ''PASS''} \<and> (drifted r \<longleftrightarrow> dr_status r \<noteq> ''PASS'')
    \<and> snapshot_digest E b = Inr (dr_baseline_digest r) \<and> snapshot_digest E c = Inr (dr_candidate_digest r)"
proof -
  let ?m = "missing_findings (sn_values b) (sn_values c) (dp_required_fields policy)"
  let ?d = "drift_findings E (sn_values b) (sn_values c) policy"
  have m: "?m = [] \<longleftrightarrow> missing = {}" "\<forall>f\<in>set ?m. df_severity f = ''BLOCK''"
    by (auto simp: missing_findings_def missing_def filter_empty_conv)
  have changed: "set (drifting_fields E (sn_values b) (sn_values c) (dp_mutable_fields policy)) = changed"
    unfolding changed_def set_eq_iff drifting_iff by blast
  have d: "(\<exists>f\<in>set ?d. df_severity f = ''BLOCK'') \<longleftrightarrow> changed \<inter> set (dp_critical_fields policy) \<noteq> {}"
    "?d = [] \<longleftrightarrow> changed = {}"
    unfolding changed [symmetric] by (auto simp: drift_findings_def Let_def)
  have block: "(\<exists>f\<in>set (?m @ ?d). df_severity f = ''BLOCK'') \<longleftrightarrow>
      missing \<noteq> {} \<or> changed \<inter> set (dp_critical_fields policy) \<noteq> {}"
    using m d(1) by (cases ?m) auto
  show ?thesis
    using assms(1) m(1) d block
    by (auto simp: compare_snapshots_def result_simps Let_def drifted_def split: if_splits)
qed

definition drift_demo :: "json \<Rightarrow> drift_snapshot" where
  "drift_demo v = \<lparr>sn_subject_id = ''run'', sn_values = [(''mode'', v)]\<rparr>"

lemma drift_demo_digest: "\<bar>i\<bar> \<le> MAX_SAFE_INTEGER \<Longrightarrow> snapshot_digest E (drift_demo (JInt i)) =
    Inr (digest_of (JObj [(''subject_id'', JStr ''run''), (''values'', JObj [(''mode'', JInt i)])]))"
  by (simp add: snapshot_digest_def drift_demo_def canonical_digest_of plain_eval)

lemma comparison_verdict_witness:
  "\<exists>r. compare_snapshots demo_env (drift_demo (JInt 1)) (drift_demo (JInt 2)) \<lparr>dp_critical_fields = [''mode''],
     dp_mutable_fields = [], dp_required_fields = []\<rparr> = Inr r \<and> dr_status r = ''BLOCK''"
proof -
  let ?p = "\<lparr>dp_critical_fields = [''mode''], dp_mutable_fields = [], dp_required_fields = []\<rparr>"
  obtain r where r: "compare_snapshots demo_env (drift_demo (JInt 1)) (drift_demo (JInt 2)) ?p = Inr r"
    by (simp add: compare_snapshots_def drift_demo_digest MAX_SAFE_INTEGER_def Let_def) (simp add: drift_demo_def)
  from comparison_verdict [OF this] r show ?thesis by (auto simp: drift_demo_def dict_get_def)
qed

end
