(* ===== verification/Crash_Steps.thy ===== *)
theory Crash_Steps
  imports Vera_Prelude
begin

text \<open>
  Operations made of several transactions. A transaction commits a state of its own, so an
  operation that raises half way, or a process that dies half way, leaves what was committed
  until then. An \<open>action\<close> therefore returns its result together with the states its
  transactions committed, oldest first: the last of them is the state it leaves, and all of
  them, with the state it started from, are the states a crash can leave. \<open>guarantees\<close> is the
  weakest precondition of an action for an assertion at every crash point and an assertion
  about the result; the laws of the combinators compute it.
\<close>

type_synonym ('s, 'e, 'a) action = "'s \<Rightarrow> ('e, 'a) result \<times> 's list"

definition left_at :: "'s \<Rightarrow> 's list \<Rightarrow> 's" where
  "left_at s tr = last (s # tr)"

text \<open>A step that reads or raises, and a step that commits one transaction.\<close>

definition act_read :: "('s \<Rightarrow> ('e, 'a) result) \<Rightarrow> ('s, 'e, 'a) action" where
  "act_read f s = (f s, [])"

definition act_tx :: "('s \<Rightarrow> ('e, 'a \<times> 's) result) \<Rightarrow> ('s, 'e, 'a) action" where
  "act_tx f s = (case f s of Inl e \<Rightarrow> (Inl e, []) | Inr (x, s') \<Rightarrow> (Inr x, [s']))"

definition act_bind :: "('s, 'e, 'a) action \<Rightarrow> ('a \<Rightarrow> ('s, 'e, 'b) action) \<Rightarrow> ('s, 'e, 'b) action" where
  "act_bind m f s =
     (case m s of
        (Inl e, tr) \<Rightarrow> (Inl e, tr)
      | (Inr x, tr) \<Rightarrow> (case f x (left_at s tr) of (res, tr') \<Rightarrow> (res, tr @ tr')))"

definition crash_points :: "('s, 'e, 'a) action \<Rightarrow> 's \<Rightarrow> 's set" where
  "crash_points m s = set (s # snd (m s))"

definition guarantees ::
  "('s, 'e, 'a) action \<Rightarrow> 's \<Rightarrow> ('s \<Rightarrow> bool) \<Rightarrow> (('e, 'a) result \<Rightarrow> 's \<Rightarrow> bool) \<Rightarrow> bool" where
  "guarantees m s P Q \<longleftrightarrow> (\<forall>t\<in>set (snd (m s)). P t) \<and> Q (fst (m s)) (left_at s (snd (m s)))"

named_theorems wp_simps

lemma left_at_simps [simp]: "left_at s [] = s" "left_at s [t] = t"
  by (simp_all add: left_at_def)

lemma left_at_append: "left_at s (xs @ ys) = left_at (left_at s xs) ys"
  by (cases "ys = []") (auto simp: left_at_def)

lemma left_at_crash_point: "left_at s (snd (m s)) \<in> crash_points m s"
  by (cases "snd (m s) = []") (auto simp: left_at_def crash_points_def)

lemma wp_read [wp_simps]: "guarantees (act_read f) s P Q \<longleftrightarrow> Q (f s) s"
  by (simp add: guarantees_def act_read_def)

lemma wp_tx [wp_simps]:
  "guarantees (act_tx f) s P Q \<longleftrightarrow>
     (case f s of Inl e \<Rightarrow> Q (Inl e) s | Inr (x, s') \<Rightarrow> P s' \<and> Q (Inr x) s')"
  by (simp add: guarantees_def act_tx_def split: sum.splits prod.splits)

lemma wp_bind [wp_simps]:
  "guarantees (act_bind m f) s P Q \<longleftrightarrow>
     guarantees m s P (\<lambda>res t. case res of Inl e \<Rightarrow> Q (Inl e) t | Inr x \<Rightarrow> guarantees (f x) t P Q)"
  by (auto simp: guarantees_def act_bind_def left_at_append split: sum.splits prod.splits)

lemma guarantees_mono:
  "guarantees m s P Q \<Longrightarrow> (\<And>t. P t \<Longrightarrow> P' t) \<Longrightarrow> (\<And>res t. Q res t \<Longrightarrow> Q' res t) \<Longrightarrow> guarantees m s P' Q'"
  by (auto simp: guarantees_def)

lemma guarantees_conj:
  "guarantees m s P Q \<Longrightarrow> guarantees m s P' Q' \<Longrightarrow> guarantees m s (\<lambda>t. P t \<and> P' t) (\<lambda>res t. Q res t \<and> Q' res t)"
  by (auto simp: guarantees_def)

lemma guarantees_crash: "guarantees m s P Q \<Longrightarrow> P s \<Longrightarrow> t \<in> crash_points m s \<Longrightarrow> P t"
  by (auto simp: guarantees_def crash_points_def)

lemma guarantees_result: "guarantees m s P Q \<Longrightarrow> m s = (res, tr) \<Longrightarrow> Q res (left_at s tr)"
  by (simp add: guarantees_def)

lemma guarantees_self: "guarantees m s (\<lambda>t. t \<in> crash_points m s) (\<lambda>res t. m s = (res, snd (m s)) \<and> t = left_at s (snd (m s)))"
  by (auto simp: guarantees_def crash_points_def)

text \<open>A bind that has returned came through both of its actions.\<close>

lemma act_bind_Inr:
  "act_bind m f s = (Inr y, tr) \<longleftrightarrow>
     (\<exists>x t1 t2. m s = (Inr x, t1) \<and> f x (left_at s t1) = (Inr y, t2) \<and> tr = t1 @ t2)"
  by (auto simp: act_bind_def split: sum.splits prod.splits)

lemma act_read_eq [simp]: "act_read f s = (res, tr) \<longleftrightarrow> f s = res \<and> tr = []"
  by (auto simp: act_read_def)

lemma act_tx_Inr: "act_tx f s = (Inr x, tr) \<longleftrightarrow> (\<exists>s'. f s = Inr (x, s') \<and> tr = [s'])"
  by (auto simp: act_tx_def split: sum.splits prod.splits)

end
