(* ===== verification/Lifecycle.thy ===== *)
theory Lifecycle
  imports Drift Crash_Steps Memory_Ledger Recovery_Checkpoints Lifecycle_Journal Outbound_Audit
begin

text \<open>
  \<^verbatim>\<open>vera_core.lifecycle\<close>: memory head, recovery checkpoint, control source and
  currentness wired into one accepted state. The record \<open>lifecycle\<close> is the object with the
  stores it was given; each store operation is one transaction, and an operation of the
  lifecycle is an \<open>action\<close>, so the states a crash can leave are part of its meaning. The
  action lock serialises the operations and is not a state. The digest that
  \<^verbatim>\<open>local_r10_source_digest\<close> takes of the installed control resources is the argument
  \<open>control\<close>.
\<close>

record lifecycle =
  lf_memory :: ledger
  lf_checkpoints :: ckpt_store
  lf_currentness :: currentness
  lf_project_id :: string
  lf_identity_id :: string
  lf_subject_id :: string
  lf_fence :: "fence option"
  lf_audit :: "audit option"
  lf_journal :: journal

record reconstruction =
  rc_status :: string
  rc_project_id :: string
  rc_identity_id :: string
  rc_live_memory_head :: string
  rc_control_source_digest :: string
  rc_currentness_generation :: "int option"
  rc_currentness_snapshot_digest :: "string option"
  rc_accepted_checkpoint_id :: "string option"
  rc_accepted_checkpoint_digest :: "string option"
  rc_accepted_runtime_id :: "string option"
  rc_accepted_memory_head :: "string option"
  rc_latest_checkpoint_id :: "string option"
  rc_latest_checkpoint_digest :: "string option"
  rc_latest_checkpoint_generation :: "int option"
  rc_pending_checkpoint_id :: "string option"
  rc_resume_checkpoint_id :: "string option"
  rc_commitments :: "json list"
  rc_unfinished_work :: "json list"
  rc_unresolved_effects :: "(string \<times> string) list"
  rc_journal_head :: string

record permit =
  pm_schema :: string
  pm_project_id :: string
  pm_identity_id :: string
  pm_runtime_id :: string
  pm_memory_head_digest :: string
  pm_checkpoint_id :: string
  pm_checkpoint_digest :: string
  pm_checkpoint_generation :: int
  pm_control_source_digest :: string
  pm_subject_id :: string
  pm_currentness_generation :: int
  pm_snapshot_digest :: string
  pm_payload_digest :: string
  pm_journal_head :: string
  pm_permit_digest :: string

record lifecycle_receipt =
  nl_project_id :: string
  nl_identity_id :: string
  nl_runtime_id :: string
  nl_memory_head_digest :: string
  nl_checkpoint_id :: string
  nl_checkpoint_digest :: string
  nl_checkpoint_generation :: int
  nl_control_source_digest :: string
  nl_subject_id :: string
  nl_currentness_generation :: int
  nl_snapshot_digest :: string
  nl_assurance_status :: string
  nl_baseline_digest :: string
  nl_candidate_digest :: string
  nl_journal_head :: string
  nl_receipt_digest :: string

datatype lifecycle_error =
    Store_project_mismatch
  | Store_identity_mismatch
  | Empty_currentness_subject
  | Audit_needs_fence
  | Assurance_blocked drift_report
  | Payload_not_object
  | Payload_field_set
  | Payload_other_identity
  | Accepted_checkpoint_missing
  | Payload_not_its_checkpoint
  | Payload_generation_mismatch
  | Denied_from string
  | Denied_incomplete
  | Permit_schema
  | Permit_digest_mismatch
  | Stale_permit_field string
  | Memory_head_changed
  | L_fence fence_error
  | L_audit audit_error
  | L_journal journal_error
  | L_ckpt ckpt_error
  | L_drift drift_error
  | L_canon canon_error
  | L_py py_exc

definition new_lifecycle ::
  "ledger \<Rightarrow> ckpt_store \<Rightarrow> currentness \<Rightarrow> string \<Rightarrow> string \<Rightarrow> string \<Rightarrow> journal \<Rightarrow> fence option \<Rightarrow> audit option \<Rightarrow>
     (lifecycle_error, lifecycle) result" where
  "new_lifecycle memory checkpoints currentness project_id identity_id subject_id journal effect_fence effect_audit =
     rbind (ensure (ld_project_id memory = project_id \<and> ks_project_id checkpoints = project_id) Store_project_mismatch) (\<lambda>_.
     rbind (ensure (ld_identity_id memory = identity_id \<and> ks_identity_id checkpoints = identity_id)
              Store_identity_mismatch) (\<lambda>_.
     rbind (ensure (subject_id \<noteq> []) Empty_currentness_subject) (\<lambda>_.
     rbind (ensure (\<not> (effect_audit \<noteq> None \<and> effect_fence = None)) Audit_needs_fence) (\<lambda>_.
       Inr \<lparr>lf_memory = memory, lf_checkpoints = checkpoints, lf_currentness = currentness,
            lf_project_id = project_id, lf_identity_id = identity_id, lf_subject_id = subject_id,
            lf_fence = effect_fence, lf_audit = effect_audit, lf_journal = journal\<rparr>))))"

definition assert_outbound_integrity :: "py_env \<Rightarrow> lifecycle \<Rightarrow> (lifecycle_error, unit) result" where
  "assert_outbound_integrity E L =
     (case lf_audit L of
        None \<Rightarrow> Inr ()
      | Some A \<Rightarrow>
          (case lf_fence L of
             None \<Rightarrow> Inl Audit_needs_fence
           | Some F \<Rightarrow> rbind (map_err L_audit (verify_fence_consistency E A F [])) (\<lambda>_. Inr ())))"

definition assert_effects_clear :: "lifecycle \<Rightarrow> (lifecycle_error, unit) result" where
  "assert_effects_clear L =
     (case lf_fence L of None \<Rightarrow> Inr () | Some F \<Rightarrow> map_err L_fence (assert_clear F))"

definition candidate_values :: "lifecycle \<Rightarrow> checkpoint \<Rightarrow> (string \<times> json) list" where
  "candidate_values L recovery =
     [(''project_id'', JStr (lf_project_id L)), (''identity_id'', JStr (lf_identity_id L)),
      (''runtime_id'', JStr (cp_runtime_id recovery)), (''memory_head_digest'', JStr (cp_memory_head_digest recovery)),
      (''recovery_checkpoint_digest'', JStr (cp_checkpoint_digest recovery)),
      (''recovery_checkpoint_generation'', JInt (cp_generation recovery)),
      (''control_source_digest'', JStr (cp_control_source_digest recovery))]"

definition journal_event ::
  "py_env \<Rightarrow> string \<Rightarrow> string \<Rightarrow> (string \<times> json) list \<Rightarrow> (lifecycle, lifecycle_error, lifecycle_event) action" where
  "journal_event E transition_id event_type payload =
     act_tx (\<lambda>L. rbind (map_err L_journal (journal_append E (lf_journal L) transition_id event_type payload))
       (\<lambda>(event, J). Inr (event, L\<lparr>lf_journal := J\<rparr>)))"

definition generation_json :: "int option \<Rightarrow> json" where
  "generation_json g = (case g of None \<Rightarrow> JNull | Some i \<Rightarrow> JInt i)"

section \<open>Restart reconstruction\<close>

definition make_reconstruction ::
  "lifecycle \<Rightarrow> string \<Rightarrow> string \<Rightarrow> currentness_snapshot option \<Rightarrow> checkpoint option \<Rightarrow> checkpoint option \<Rightarrow>
     checkpoint option \<Rightarrow> checkpoint option \<Rightarrow> reconstruction" where
  "make_reconstruction L status control current accepted latest pending resume =
     \<lparr>rc_status = status, rc_project_id = lf_project_id L, rc_identity_id = lf_identity_id L,
      rc_live_memory_head = ld_head (lf_memory L), rc_control_source_digest = control,
      rc_currentness_generation = map_option cs_generation current,
      rc_currentness_snapshot_digest = map_option cs_snapshot_digest current,
      rc_accepted_checkpoint_id = map_option cp_checkpoint_id accepted,
      rc_accepted_checkpoint_digest = map_option cp_checkpoint_digest accepted,
      rc_accepted_runtime_id = map_option cp_runtime_id accepted,
      rc_accepted_memory_head = map_option cp_memory_head_digest accepted,
      rc_latest_checkpoint_id = map_option cp_checkpoint_id latest,
      rc_latest_checkpoint_digest = map_option cp_checkpoint_digest latest,
      rc_latest_checkpoint_generation = map_option cp_generation latest,
      rc_pending_checkpoint_id = map_option cp_checkpoint_id pending,
      rc_resume_checkpoint_id = map_option cp_checkpoint_id resume,
      rc_commitments = (case resume of None \<Rightarrow> [] | Some c \<Rightarrow> cp_commitments c),
      rc_unfinished_work = (case resume of None \<Rightarrow> [] | Some c \<Rightarrow> cp_unfinished_work c),
      rc_unresolved_effects = (case lf_fence L of None \<Rightarrow> []
        | Some F \<Rightarrow> map (\<lambda>r. (er_effect_id r, target_event_type (er_state r))) (unresolved F)),
      rc_journal_head = jn_head (lf_journal L)\<rparr>"

definition read_current :: "py_env \<Rightarrow> lifecycle \<Rightarrow> (lifecycle_error, currentness_snapshot option) result" where
  "read_current E L =
     (case read_currentness E (lf_currentness L) (lf_subject_id L) of
        Inr s \<Rightarrow> Inr (Some s)
      | Inl (Fence_key_error _) \<Rightarrow> Inr None
      | Inl e \<Rightarrow> Inl (L_fence e))"

definition candidate_status :: "lifecycle \<Rightarrow> checkpoint \<Rightarrow> (lifecycle_error, string) result" where
  "candidate_status L latest =
     rbind (map_err L_journal (journal_latest (lf_journal L) (Some (cp_checkpoint_id latest)))) (\<lambda>event.
       Inr (case event of
              None \<Rightarrow> ''INTERRUPTED_CANDIDATE''
            | Some e \<Rightarrow> if le_event_type e = ''ASSURANCE_BLOCKED'' then ''BLOCKED_CANDIDATE''
                        else ''INTERRUPTED_CANDIDATE''))"

definition PAYLOAD_FIELDS :: "string set" where
  "PAYLOAD_FIELDS = {''project_id'', ''identity_id'', ''runtime_id'', ''memory_head_digest'',
     ''recovery_checkpoint_digest'', ''recovery_checkpoint_generation'', ''control_source_digest''}"

fun json_keys :: "json \<Rightarrow> string set" where
  "json_keys (JObj kvs) = fst ` set kvs"
| "json_keys _ = {}"

text \<open>\<^verbatim>\<open>except KeyError\<close> around \<^verbatim>\<open>read_digest\<close>: a missing row, or a missing key of its payload.\<close>

definition read_accepted :: "py_env \<Rightarrow> ckpt_store \<Rightarrow> string \<Rightarrow> (lifecycle_error, checkpoint) result" where
  "read_accepted E S digest =
     (case read_checkpoint_digest E S digest of
        Inr c \<Rightarrow> Inr c
      | Inl (Ckpt_key_error _) \<Rightarrow> Inl Accepted_checkpoint_missing
      | Inl (Ckpt_py (KeyError _)) \<Rightarrow> Inl Accepted_checkpoint_missing
      | Inl e \<Rightarrow> Inl (L_ckpt e))"

definition accepted_checkpoint :: "py_env \<Rightarrow> lifecycle \<Rightarrow> (lifecycle_error, checkpoint) result" where
  "accepted_checkpoint E L =
     rbind (map_err L_fence (read_payload (lf_currentness L) (lf_subject_id L))) (\<lambda>payload.
     rbind (ensure (is_dict payload) Payload_not_object) (\<lambda>_.
     rbind (ensure (json_keys payload = PAYLOAD_FIELDS) Payload_field_set) (\<lambda>_.
     rbind (ensure (py_get ''project_id'' payload = JStr (lf_project_id L) \<and>
                    py_get ''identity_id'' payload = JStr (lf_identity_id L)) Payload_other_identity) (\<lambda>_.
     rbind (read_accepted E (lf_checkpoints L) (py_str E (py_get ''recovery_checkpoint_digest'' payload))) (\<lambda>accepted.
     rbind (ensure (py_eq E payload (JObj (candidate_values L accepted))) Payload_not_its_checkpoint) (\<lambda>_.
     rbind (map_err L_py (py_int E (py_get ''recovery_checkpoint_generation'' payload))) (\<lambda>generation.
     rbind (ensure (generation = cp_generation accepted) Payload_generation_mismatch) (\<lambda>_. Inr accepted))))))))"

definition committed_in_journal :: "lifecycle \<Rightarrow> checkpoint \<Rightarrow> bool" where
  "committed_in_journal L accepted \<longleftrightarrow>
     has_event (lf_journal L) (cp_checkpoint_id accepted) ''CURRENTNESS_COMMITTED'' \<or>
     has_event (lf_journal L) (cp_checkpoint_id accepted) ''RESTART_RECONCILED_COMMITTED''"

text \<open>The journal's note of a publication, after it or at the restart that finds it missing.\<close>

definition committed_payload :: "string \<Rightarrow> currentness_snapshot \<Rightarrow> (string \<times> json) list" where
  "committed_payload candidate_digest current =
     [(''candidate_digest'', JStr candidate_digest), (''currentness_generation'', JInt (cs_generation current)),
      (''currentness_snapshot_digest'', JStr (cs_snapshot_digest current)),
      (''currentness_payload_digest'', JStr (cs_payload_digest current))]"

definition candidate_digest :: "py_env \<Rightarrow> lifecycle \<Rightarrow> checkpoint \<Rightarrow> (lifecycle_error, string) result" where
  "candidate_digest E L recovery =
     map_err L_drift (rbind (make_snapshot (lf_subject_id L) (candidate_values L recovery)) (snapshot_digest E))"

definition reconcile_commit ::
  "py_env \<Rightarrow> bool \<Rightarrow> checkpoint \<Rightarrow> currentness_snapshot \<Rightarrow> (lifecycle, lifecycle_error, bool) action" where
  "reconcile_commit E reconcile_journal accepted current =
     (\<lambda>L. if \<not> committed_in_journal L accepted \<and> reconcile_journal
          then act_bind (act_read (\<lambda>L. candidate_digest E L accepted)) (\<lambda>digest.
               act_bind (journal_event E (cp_checkpoint_id accepted) ''RESTART_RECONCILED_COMMITTED''
                           (committed_payload digest current)) (\<lambda>_.
                 act_read (\<lambda>_. Inr True))) L
          else act_read (\<lambda>_. Inr False) L)"

definition no_currentness ::
  "string \<Rightarrow> checkpoint option \<Rightarrow> lifecycle \<Rightarrow> (lifecycle_error, reconstruction) result" where
  "no_currentness control latest L =
     (case latest of
        None \<Rightarrow> Inr (make_reconstruction L ''EMPTY'' control None None None None None)
      | Some c \<Rightarrow> rbind (candidate_status L c) (\<lambda>status.
          Inr (make_reconstruction L status control None None latest latest latest)))"

text \<open>The end of \<^verbatim>\<open>reconstruct\<close>, once there is an accepted checkpoint.\<close>

definition with_accepted ::
  "string \<Rightarrow> checkpoint option \<Rightarrow> currentness_snapshot \<Rightarrow> checkpoint \<Rightarrow> bool \<Rightarrow> lifecycle \<Rightarrow>
     (lifecycle_error, reconstruction) result" where
  "with_accepted control latest current accepted was_recorded L =
     (let settled = (if cp_control_source_digest accepted \<noteq> control then ''CONTROL_SOURCE_DRIFT''
                     else if ld_head (lf_memory L) \<noteq> cp_memory_head_digest accepted then ''MEMORY_AHEAD_OF_CURRENTNESS''
                     else if was_recorded then ''ACCEPTED_RECONCILED'' else ''ACCEPTED_CURRENT'');
          at_rest = Inr (make_reconstruction L settled control (Some current) (Some accepted) latest None (Some accepted))
      in case latest of
           None \<Rightarrow> at_rest
         | Some c \<Rightarrow>
             if cp_generation accepted < cp_generation c
             then rbind (candidate_status L c) (\<lambda>status.
                    Inr (make_reconstruction L status control (Some current) (Some accepted) latest latest latest))
             else at_rest)"

definition reconstruct_reads ::
  "py_env \<Rightarrow> lifecycle \<Rightarrow> (lifecycle_error, checkpoint option \<times> currentness_snapshot option) result" where
  "reconstruct_reads E L =
     rbind (assert_outbound_integrity E L) (\<lambda>_.
     rbind (map_err L_journal (verify_chain E (lf_journal L))) (\<lambda>_.
     rbind (map_err L_ckpt (latest_checkpoint E (lf_checkpoints L))) (\<lambda>latest.
     rbind (read_current E L) (\<lambda>current. Inr (latest, current)))))"

definition reconstruct ::
  "py_env \<Rightarrow> string \<Rightarrow> bool \<Rightarrow> (lifecycle, lifecycle_error, reconstruction) action" where
  "reconstruct E control reconcile_journal =
     act_bind (act_read (reconstruct_reads E)) (\<lambda>(latest, current).
       case current of
         None \<Rightarrow> act_read (no_currentness control latest)
       | Some cur \<Rightarrow>
           act_bind (act_read (accepted_checkpoint E)) (\<lambda>accepted.
           act_bind (reconcile_commit E reconcile_journal accepted cur) (\<lambda>was_recorded.
             act_read (with_accepted control latest cur accepted was_recorded))))"

definition resume_context :: "reconstruction \<Rightarrow> json" where
  "resume_context r =
     JObj [(''schema'', JStr ''VERA_MONO_RESTART_CONTEXT_V1''), (''status'', JStr (rc_status r)),
       (''project_id'', JStr (rc_project_id r)), (''identity_id'', JStr (rc_identity_id r)),
       (''accepted_runtime_id'', opt_str (rc_accepted_runtime_id r)),
       (''accepted_checkpoint_id'', opt_str (rc_accepted_checkpoint_id r)),
       (''accepted_checkpoint_digest'', opt_str (rc_accepted_checkpoint_digest r)),
       (''live_memory_head'', JStr (rc_live_memory_head r)),
       (''accepted_memory_head_digest'', opt_str (rc_accepted_memory_head r)),
       (''pending_checkpoint_id'', opt_str (rc_pending_checkpoint_id r)),
       (''resume_checkpoint_id'', opt_str (rc_resume_checkpoint_id r)),
       (''commitments'', JArr (rc_commitments r)), (''unfinished_work'', JArr (rc_unfinished_work r)),
       (''effect_recovery_required'', JBool (rc_unresolved_effects r \<noteq> [])),
       (''unresolved_effects'', JArr (map (\<lambda>(effect_id, state).
          JObj [(''effect_id'', JStr effect_id), (''state'', JStr state)]) (rc_unresolved_effects r))),
       (''currentness_generation'', generation_json (rc_currentness_generation r)),
       (''currentness_snapshot_digest'', opt_str (rc_currentness_snapshot_digest r)),
       (''current_control_source_digest'', JStr (rc_control_source_digest r)),
       (''lifecycle_journal_head'', JStr (rc_journal_head r)),
       (''claim_ceiling'', JStr ''DETERMINISTIC_LOCAL_RESTART_RECONSTRUCTION_NOT_INDEPENDENT_REVIEW_NOT_EFFECT_AUTHORITY'')]"

section \<open>Permits\<close>

definition PERMIT_SCHEMA :: string where
  "PERMIT_SCHEMA = ''VERA_MONO_ACCEPTED_LIFECYCLE_PERMIT_V1''"

definition permit_body :: "permit \<Rightarrow> (string \<times> json) list" where
  "permit_body p =
     [(''schema'', JStr (pm_schema p)), (''project_id'', JStr (pm_project_id p)),
      (''identity_id'', JStr (pm_identity_id p)), (''runtime_id'', JStr (pm_runtime_id p)),
      (''memory_head_digest'', JStr (pm_memory_head_digest p)),
      (''recovery_checkpoint_id'', JStr (pm_checkpoint_id p)),
      (''recovery_checkpoint_digest'', JStr (pm_checkpoint_digest p)),
      (''recovery_checkpoint_generation'', JInt (pm_checkpoint_generation p)),
      (''control_source_digest'', JStr (pm_control_source_digest p)),
      (''currentness_subject_id'', JStr (pm_subject_id p)),
      (''currentness_generation'', JInt (pm_currentness_generation p)),
      (''currentness_snapshot_digest'', JStr (pm_snapshot_digest p)),
      (''currentness_payload_digest'', JStr (pm_payload_digest p)),
      (''lifecycle_journal_head'', JStr (pm_journal_head p))]"

definition permit_digest :: "py_env \<Rightarrow> permit \<Rightarrow> (lifecycle_error, string) result" where
  "permit_digest E p = map_err L_canon (canonical_digest E (JObj (permit_body p)))"

text \<open>The end of \<^verbatim>\<open>accepted_action_permit\<close>, after the reconstruction.\<close>

definition mint_permit :: "py_env \<Rightarrow> reconstruction \<Rightarrow> lifecycle \<Rightarrow> (lifecycle_error, permit) result" where
  "mint_permit E state L =
     rbind (ensure (rc_status state \<in> {''ACCEPTED_CURRENT'', ''ACCEPTED_RECONCILED''}) (Denied_from (rc_status state))) (\<lambda>_.
     rbind (or_raise (rc_accepted_checkpoint_id state) Denied_incomplete) (\<lambda>cid.
     rbind (or_raise (rc_accepted_checkpoint_digest state) Denied_incomplete) (\<lambda>digest.
     rbind (or_raise (rc_accepted_runtime_id state) Denied_incomplete) (\<lambda>runtime_id.
     rbind (or_raise (rc_accepted_memory_head state) Denied_incomplete) (\<lambda>memory_head.
     rbind (or_raise (rc_currentness_generation state) Denied_incomplete) (\<lambda>_.
     rbind (or_raise (rc_currentness_snapshot_digest state) Denied_incomplete) (\<lambda>_.
     rbind (map_err L_fence (read_currentness E (lf_currentness L) (lf_subject_id L))) (\<lambda>current.
     rbind (case rc_latest_checkpoint_generation state of
              Some g \<Rightarrow> if rc_latest_checkpoint_id state = Some cid then Inr g
                        else rbind (map_err L_ckpt (read_checkpoint E (lf_checkpoints L) cid)) (\<lambda>c. Inr (cp_generation c))
            | None \<Rightarrow> rbind (map_err L_ckpt (read_checkpoint E (lf_checkpoints L) cid)) (\<lambda>c. Inr (cp_generation c)))
       (\<lambda>generation.
         let p = \<lparr>pm_schema = PERMIT_SCHEMA, pm_project_id = lf_project_id L, pm_identity_id = lf_identity_id L,
               pm_runtime_id = runtime_id, pm_memory_head_digest = memory_head, pm_checkpoint_id = cid,
               pm_checkpoint_digest = digest, pm_checkpoint_generation = generation,
               pm_control_source_digest = rc_control_source_digest state, pm_subject_id = lf_subject_id L,
               pm_currentness_generation = cs_generation current, pm_snapshot_digest = cs_snapshot_digest current,
               pm_payload_digest = cs_payload_digest current, pm_journal_head = jn_head (lf_journal L),
               pm_permit_digest = []\<rparr>
         in rbind (permit_digest E p) (\<lambda>d. Inr (p\<lparr>pm_permit_digest := d\<rparr>)))))))))))"

definition accepted_action_permit :: "py_env \<Rightarrow> string \<Rightarrow> (lifecycle, lifecycle_error, permit) action" where
  "accepted_action_permit E control =
     act_bind (act_read (\<lambda>L. rbind (assert_effects_clear L) (\<lambda>_. assert_outbound_integrity E L))) (\<lambda>_.
     act_bind (reconstruct E control True) (\<lambda>state. act_read (mint_permit E state)))"

definition expected_permit :: "lifecycle \<Rightarrow> string \<Rightarrow> currentness_snapshot \<Rightarrow> checkpoint \<Rightarrow> permit" where
  "expected_permit L control current accepted =
     \<lparr>pm_schema = PERMIT_SCHEMA, pm_project_id = lf_project_id L, pm_identity_id = lf_identity_id L,
      pm_runtime_id = cp_runtime_id accepted, pm_memory_head_digest = cp_memory_head_digest accepted,
      pm_checkpoint_id = cp_checkpoint_id accepted, pm_checkpoint_digest = cp_checkpoint_digest accepted,
      pm_checkpoint_generation = cp_generation accepted, pm_control_source_digest = control,
      pm_subject_id = lf_subject_id L, pm_currentness_generation = cs_generation current,
      pm_snapshot_digest = cs_snapshot_digest current, pm_payload_digest = cs_payload_digest current,
      pm_journal_head = jn_head (lf_journal L), pm_permit_digest = []\<rparr>"

text \<open>The loop that compares the permit with the expected values, field by field.\<close>

fun match_fields :: "(string \<times> json) list \<Rightarrow> (string \<times> json) list \<Rightarrow> (lifecycle_error, unit) result" where
  "match_fields [] _ = Inr ()"
| "match_fields ((key, expected) # rest) observed =
     rbind (ensure (map_of observed key = Some expected) (Stale_permit_field key)) (\<lambda>_. match_fields rest observed)"

definition validate_action_permit ::
  "py_env \<Rightarrow> string \<Rightarrow> permit \<Rightarrow> lifecycle \<Rightarrow> (lifecycle_error, permit) result" where
  "validate_action_permit E control p L =
     rbind (ensure (pm_schema p = PERMIT_SCHEMA) Permit_schema) (\<lambda>_.
     rbind (permit_digest E p) (\<lambda>d.
     rbind (ensure (d = pm_permit_digest p) Permit_digest_mismatch) (\<lambda>_.
     rbind (assert_outbound_integrity E L) (\<lambda>_.
     rbind (fst (reconstruct E control False L)) (\<lambda>state.
     rbind (ensure (rc_status state = ''ACCEPTED_CURRENT'') (Denied_from (rc_status state))) (\<lambda>_.
     rbind (map_err L_fence (read_currentness E (lf_currentness L) (lf_subject_id L))) (\<lambda>current.
     rbind (map_err L_ckpt (read_checkpoint E (lf_checkpoints L)
              (case rc_accepted_checkpoint_id state of None \<Rightarrow> [] | Some cid \<Rightarrow> cid))) (\<lambda>accepted.
     rbind (match_fields (tl (permit_body (expected_permit L control current accepted))) (permit_body p)) (\<lambda>_.
       Inr p)))))))))"

section \<open>Checkpoints\<close>

definition default_policy :: drift_policy where
  "default_policy =
     \<lparr>dp_critical_fields = [''project_id'', ''identity_id'', ''control_source_digest''],
      dp_mutable_fields = [''runtime_id'', ''memory_head_digest'', ''recovery_checkpoint_digest'',
        ''recovery_checkpoint_generation''],
      dp_required_fields = [''project_id'', ''identity_id'', ''runtime_id'', ''memory_head_digest'',
        ''recovery_checkpoint_digest'', ''recovery_checkpoint_generation'', ''control_source_digest'']\<rparr>"

text \<open>The arguments of \<^verbatim>\<open>checkpoint\<close>, with the clock's text.\<close>

record checkpoint_call =
  cc_checkpoint_id :: string
  cc_runtime_id :: string
  cc_expected_memory_head :: string
  cc_expected_checkpoint_head :: string
  cc_expected_generation :: "int option"
  cc_commitments :: "string list"
  cc_unfinished_work :: "string list"
  cc_baseline :: "(string \<times> json) list option"
  cc_policy :: "drift_policy option"
  cc_created_at :: "string option"
  cc_now :: string

definition checkpoint_guards :: "py_env \<Rightarrow> checkpoint_call \<Rightarrow> lifecycle \<Rightarrow> (lifecycle_error, unit) result" where
  "checkpoint_guards E call L =
     rbind (assert_effects_clear L) (\<lambda>_.
     rbind (assert_outbound_integrity E L) (\<lambda>_.
     rbind (map_err L_journal (verify_chain E (lf_journal L))) (\<lambda>_.
       ensure (ld_head (lf_memory L) = cc_expected_memory_head call) Memory_head_changed)))"

definition append_candidate :: "py_env \<Rightarrow> string \<Rightarrow> checkpoint_call \<Rightarrow> (lifecycle, lifecycle_error, checkpoint) action" where
  "append_candidate E control call =
     act_tx (\<lambda>L. rbind (map_err L_ckpt (append_checkpoint E (lf_checkpoints L) (cc_checkpoint_id call)
         (cc_runtime_id call) (ld_head (lf_memory L)) control (cc_expected_checkpoint_head call)
         (cc_commitments call) (cc_unfinished_work call) (cc_created_at call) (cc_now call)))
       (\<lambda>(recovery, S). Inr (recovery, L\<lparr>lf_checkpoints := S\<rparr>)))"

definition prepared_payload ::
  "string \<Rightarrow> checkpoint_call \<Rightarrow> string \<Rightarrow> checkpoint \<Rightarrow> string \<Rightarrow> (string \<times> json) list" where
  "prepared_payload control call memory_head recovery digest =
     [(''checkpoint_digest'', JStr (cp_checkpoint_digest recovery)),
      (''checkpoint_generation'', JInt (cp_generation recovery)), (''candidate_digest'', JStr digest),
      (''expected_currentness_generation'', generation_json (cc_expected_generation call)),
      (''memory_head_digest'', JStr memory_head), (''control_source_digest'', JStr control)]"

definition assure ::
  "py_env \<Rightarrow> checkpoint_call \<Rightarrow> checkpoint \<Rightarrow> lifecycle \<Rightarrow> (lifecycle_error, drift_report) result" where
  "assure E call recovery L = map_err L_drift (
     let values = candidate_values L recovery
     in rbind (make_snapshot (lf_subject_id L) values) (\<lambda>candidate.
        rbind (make_snapshot (lf_subject_id L) (case cc_baseline call of None \<Rightarrow> values | Some b \<Rightarrow> b)) (\<lambda>baseline.
          compare_snapshots E baseline candidate
            (case cc_policy call of None \<Rightarrow> default_policy | Some p \<Rightarrow> p))))"

definition blocked_payload :: "string \<Rightarrow> drift_report \<Rightarrow> (string \<times> json) list" where
  "blocked_payload digest report =
     [(''candidate_digest'', JStr digest), (''baseline_digest'', JStr (dr_baseline_digest report)),
      (''candidate_assurance_digest'', JStr (dr_candidate_digest report)),
      (''finding_codes'', JArr (map (\<lambda>f. JStr (df_code f)) (dr_findings report)))]"

definition passed_payload :: "string \<Rightarrow> drift_report \<Rightarrow> (string \<times> json) list" where
  "passed_payload digest report =
     [(''candidate_digest'', JStr digest), (''baseline_digest'', JStr (dr_baseline_digest report)),
      (''candidate_assurance_digest'', JStr (dr_candidate_digest report)),
      (''assurance_status'', JStr (dr_status report))]"

definition publish_candidate ::
  "py_env \<Rightarrow> checkpoint_call \<Rightarrow> checkpoint \<Rightarrow> (lifecycle, lifecycle_error, currentness_snapshot) action" where
  "publish_candidate E call recovery =
     act_tx (\<lambda>L. rbind (map_err L_fence (publish E (lf_currentness L) (lf_subject_id L)
         (JObj (candidate_values L recovery)) (cc_expected_generation call)))
       (\<lambda>(current, C). Inr (current, L\<lparr>lf_currentness := C\<rparr>)))"

definition receipt_of ::
  "py_env \<Rightarrow> string \<Rightarrow> checkpoint_call \<Rightarrow> string \<Rightarrow> checkpoint \<Rightarrow> drift_report \<Rightarrow> currentness_snapshot \<Rightarrow> lifecycle_event \<Rightarrow>
     lifecycle \<Rightarrow> (lifecycle_error, lifecycle_receipt) result" where
  "receipt_of E control call memory_head recovery report current event L =
     rbind (map_err L_canon (canonical_digest E (JObj
       [(''schema'', JStr ''VERA_MONO_NATIVE_LIFECYCLE_RECEIPT_V1''), (''project_id'', JStr (lf_project_id L)),
        (''identity_id'', JStr (lf_identity_id L)), (''runtime_id'', JStr (cc_runtime_id call)),
        (''memory_head_digest'', JStr memory_head), (''recovery_checkpoint_id'', JStr (cp_checkpoint_id recovery)),
        (''recovery_checkpoint_digest'', JStr (cp_checkpoint_digest recovery)),
        (''recovery_checkpoint_generation'', JInt (cp_generation recovery)),
        (''control_source_digest'', JStr control), (''currentness_subject_id'', JStr (lf_subject_id L)),
        (''currentness_generation'', JInt (cs_generation current)),
        (''currentness_snapshot_digest'', JStr (cs_snapshot_digest current)),
        (''assurance_status'', JStr (dr_status report)),
        (''assurance_baseline_digest'', JStr (dr_baseline_digest report)),
        (''assurance_candidate_digest'', JStr (dr_candidate_digest report)),
        (''lifecycle_journal_head'', JStr (le_digest event)),
        (''claim_ceiling'', JStr ''LOCAL_MONOREPO_LIFECYCLE_INVARIANT_PASS_NOT_INDEPENDENT_REVIEW_NOT_EFFECT_AUTHORITY'')])))
       (\<lambda>d. Inr \<lparr>nl_project_id = lf_project_id L, nl_identity_id = lf_identity_id L, nl_runtime_id = cc_runtime_id call,
          nl_memory_head_digest = memory_head, nl_checkpoint_id = cp_checkpoint_id recovery,
          nl_checkpoint_digest = cp_checkpoint_digest recovery, nl_checkpoint_generation = cp_generation recovery,
          nl_control_source_digest = control, nl_subject_id = lf_subject_id L,
          nl_currentness_generation = cs_generation current, nl_snapshot_digest = cs_snapshot_digest current,
          nl_assurance_status = dr_status report, nl_baseline_digest = dr_baseline_digest report,
          nl_candidate_digest = dr_candidate_digest report, nl_journal_head = le_digest event,
          nl_receipt_digest = d\<rparr>)"

text \<open>The stages of \<^verbatim>\<open>_checkpoint_unlocked\<close>, last one first.\<close>

definition commit_candidate ::
  "py_env \<Rightarrow> string \<Rightarrow> checkpoint_call \<Rightarrow> string \<Rightarrow> checkpoint \<Rightarrow> string \<Rightarrow> drift_report \<Rightarrow>
     (lifecycle, lifecycle_error, lifecycle_receipt) action" where
  "commit_candidate E control call memory_head recovery digest report =
     act_bind (publish_candidate E call recovery) (\<lambda>current.
     act_bind (journal_event E (cc_checkpoint_id call) ''CURRENTNESS_COMMITTED'' (committed_payload digest current)) (\<lambda>event.
       act_read (receipt_of E control call memory_head recovery report current event)))"

definition judge_candidate ::
  "py_env \<Rightarrow> string \<Rightarrow> checkpoint_call \<Rightarrow> string \<Rightarrow> checkpoint \<Rightarrow> string \<Rightarrow> drift_report \<Rightarrow>
     (lifecycle, lifecycle_error, lifecycle_receipt) action" where
  "judge_candidate E control call memory_head recovery digest report =
     (if dr_status report = ''BLOCK''
      then act_bind (journal_event E (cc_checkpoint_id call) ''ASSURANCE_BLOCKED'' (blocked_payload digest report))
             (\<lambda>_. act_read (\<lambda>_. Inl (Assurance_blocked report)))
      else act_bind (journal_event E (cc_checkpoint_id call) ''ASSURANCE_PASSED'' (passed_payload digest report))
             (\<lambda>_. commit_candidate E control call memory_head recovery digest report))"

definition progress_candidate ::
  "py_env \<Rightarrow> string \<Rightarrow> checkpoint_call \<Rightarrow> string \<Rightarrow> checkpoint \<Rightarrow> (lifecycle, lifecycle_error, lifecycle_receipt) action" where
  "progress_candidate E control call memory_head recovery =
     act_bind (act_read (\<lambda>L. candidate_digest E L recovery)) (\<lambda>digest.
     act_bind (journal_event E (cc_checkpoint_id call) ''CANDIDATE_PREPARED''
                 (prepared_payload control call memory_head recovery digest)) (\<lambda>_.
     act_bind (act_read (assure E call recovery)) (judge_candidate E control call memory_head recovery digest)))"

definition checkpoint_unlocked ::
  "py_env \<Rightarrow> string \<Rightarrow> checkpoint_call \<Rightarrow> (lifecycle, lifecycle_error, lifecycle_receipt) action" where
  "checkpoint_unlocked E control call =
     act_bind (act_read (checkpoint_guards E call)) (\<lambda>_.
     act_bind (act_read (\<lambda>L. Inr (ld_head (lf_memory L)))) (\<lambda>memory_head.
     act_bind (append_candidate E control call) (progress_candidate E control call memory_head)))"

end
