(* ===== verification/Lifecycle_Spec.thy ===== *)
theory Lifecycle_Spec
  imports Lifecycle
begin

text \<open>
  What the lifecycle promises, over a state without encodings, digests or tables: the
  candidates in the order of their checkpoints, the accepted one, and the events noted for
  each. \<open>implements\<close> is the simulation relation between it and the stores; the lemmas here
  give what each read and each transaction of the lifecycle is under it.
\<close>

section \<open>The abstract lifecycle\<close>

record lifecycle_spec =
  sp_history :: "checkpoint list"
  sp_accepted :: "checkpoint option"
  sp_events :: "(string \<times> string) list"

definition adopt :: "checkpoint \<Rightarrow> lifecycle_spec \<Rightarrow> lifecycle_spec" where
  "adopt c sp = (if c \<in> set (sp_history sp) then sp else sp\<lparr>sp_history := sp_history sp @ [c]\<rparr>)"

definition noted :: "string \<Rightarrow> string \<Rightarrow> lifecycle_spec \<Rightarrow> lifecycle_spec" where
  "noted cid event_type sp =
     (if (cid, event_type) \<in> set (sp_events sp) then sp
      else sp\<lparr>sp_events := sp_events sp @ [(cid, event_type)]\<rparr>)"

definition accept :: "checkpoint \<Rightarrow> lifecycle_spec \<Rightarrow> lifecycle_spec" where
  "accept c sp = sp\<lparr>sp_accepted := Some c\<rparr>"

definition last_note :: "lifecycle_spec \<Rightarrow> string \<Rightarrow> string option" where
  "last_note sp cid =
     (case filter (\<lambda>e. fst e = cid) (sp_events sp) of [] \<Rightarrow> None | es \<Rightarrow> Some (snd (last es)))"

definition is_recorded :: "lifecycle_spec \<Rightarrow> string \<Rightarrow> bool" where
  "is_recorded sp cid \<longleftrightarrow> (cid, ''CURRENTNESS_COMMITTED'') \<in> set (sp_events sp) \<or>
     (cid, ''RESTART_RECONCILED_COMMITTED'') \<in> set (sp_events sp)"

text \<open>The states a checkpoint goes through, up to its block or its commitment.\<close>

definition judged :: "string \<Rightarrow> checkpoint \<Rightarrow> bool \<Rightarrow> lifecycle_spec \<Rightarrow> lifecycle_spec list" where
  "judged cid c blocked sp =
     (if blocked then [noted cid ''ASSURANCE_BLOCKED'' sp]
      else let s3 = noted cid ''ASSURANCE_PASSED'' sp; s4 = accept c s3
           in [s3, s4, noted cid ''CURRENTNESS_COMMITTED'' s4])"

definition checkpoint_trace :: "lifecycle_spec \<Rightarrow> checkpoint \<Rightarrow> bool \<Rightarrow> lifecycle_spec list" where
  "checkpoint_trace sp c blocked =
     (let cid = cp_checkpoint_id c; s1 = adopt c sp; s2 = noted cid ''CANDIDATE_PREPARED'' s1
      in s1 # s2 # judged cid c blocked s2)"

definition latest_of :: "lifecycle_spec \<Rightarrow> checkpoint option" where
  "latest_of sp = (if sp_history sp = [] then None else Some (last (sp_history sp)))"

text \<open>A candidate that is newer than the accepted checkpoint.\<close>

definition pending_of :: "lifecycle_spec \<Rightarrow> checkpoint option" where
  "pending_of sp =
     (case latest_of sp of
        None \<Rightarrow> None
      | Some c \<Rightarrow> (case sp_accepted sp of
           None \<Rightarrow> Some c
         | Some a \<Rightarrow> if cp_generation a < cp_generation c then Some c else None))"

definition pending_status :: "lifecycle_spec \<Rightarrow> checkpoint \<Rightarrow> string" where
  "pending_status sp c =
     (if last_note sp (cp_checkpoint_id c) = Some ''ASSURANCE_BLOCKED'' then ''BLOCKED_CANDIDATE''
      else ''INTERRUPTED_CANDIDATE'')"

definition spec_status :: "lifecycle_spec \<Rightarrow> string \<Rightarrow> string \<Rightarrow> bool \<Rightarrow> string" where
  "spec_status sp memory_head control was_recorded =
     (case pending_of sp of
        Some c \<Rightarrow> pending_status sp c
      | None \<Rightarrow>
          (case sp_accepted sp of
             None \<Rightarrow> ''EMPTY''
           | Some a \<Rightarrow>
               if cp_control_source_digest a \<noteq> control then ''CONTROL_SOURCE_DRIFT''
               else if memory_head \<noteq> cp_memory_head_digest a then ''MEMORY_AHEAD_OF_CURRENTNESS''
               else if was_recorded then ''ACCEPTED_RECONCILED'' else ''ACCEPTED_CURRENT''))"

definition spec_reconstruct :: "lifecycle_spec \<Rightarrow> lifecycle_spec" where
  "spec_reconstruct sp =
     (case sp_accepted sp of
        None \<Rightarrow> sp
      | Some a \<Rightarrow> if is_recorded sp (cp_checkpoint_id a) then sp
                  else noted (cp_checkpoint_id a) ''RESTART_RECONCILED_COMMITTED'' sp)"

section \<open>The simulation relation\<close>

text \<open>The currentness row that a publication of a candidate leaves.\<close>

definition published :: "py_env \<Rightarrow> lifecycle \<Rightarrow> checkpoint \<Rightarrow> currentness_row \<Rightarrow> bool" where
  "published E L c r \<longleftrightarrow> cr_subject_id r = lf_subject_id L \<and> \<bar>cp_generation c\<bar> \<le> MAX_SAFE_INTEGER \<and>
     cr_payload_json r = Some (text_of (JObj (candidate_values L c))) \<and>
     cr_payload_digest r = sha256_hex (text_of (JObj (candidate_values L c))) \<and>
     canonical_digest E (snapshot_body (lf_subject_id L) (cr_generation r) (cr_payload_digest r)) = Inr (cr_snapshot_digest r)"

abbreviation subject_row :: "lifecycle \<Rightarrow> currentness_row option" where
  "subject_row L \<equiv> row_of cr_subject_id (lf_subject_id L) (lf_currentness L)"

definition implements :: "py_env \<Rightarrow> lifecycle \<Rightarrow> lifecycle_spec \<Rightarrow> bool" where
  "implements E L sp \<longleftrightarrow> lf_subject_id L \<noteq> [] \<and> ckpt_ok (lf_checkpoints L) \<and> journal_ok E (lf_journal L) \<and>
     (\<forall>c\<in>set (sp_history sp). valid_cp c \<and> cp_checkpoint_id c \<noteq> []) \<and> ks_rows (lf_checkpoints L) = map row_for (sp_history sp) \<and>
     map (\<lambda>r. (lr_transition_id r, lr_event_type r)) (jn_rows (lf_journal L)) = sp_events sp \<and>
     (case subject_row L of
        None \<Rightarrow> sp_accepted sp = None
      | Some r \<Rightarrow> \<exists>c\<in>set (sp_history sp). sp_accepted sp = Some c \<and> published E L c r)"

lemma implements_parts:
  assumes "implements E L sp"
  shows "lf_subject_id L \<noteq> []" "ckpt_ok (lf_checkpoints L)" "journal_ok E (lf_journal L)"
    "\<forall>c\<in>set (sp_history sp). valid_cp c" "ks_rows (lf_checkpoints L) = map row_for (sp_history sp)"
    "map (\<lambda>r. (lr_transition_id r, lr_event_type r)) (jn_rows (lf_journal L)) = sp_events sp"
    "sp_accepted sp = None \<longleftrightarrow> subject_row L = None" "\<forall>c\<in>set (sp_history sp). cp_checkpoint_id c \<noteq> []"
  using assms by (auto simp: implements_def split: option.splits)

lemma implements_accepted:
  assumes "implements E L sp" "sp_accepted sp = Some c"
  shows "c \<in> set (sp_history sp) \<and> valid_cp c \<and> cp_checkpoint_id c \<noteq> [] \<and> (\<exists>r. subject_row L = Some r \<and> published E L c r)"
  using assms by (auto simp: implements_def split: option.splits)

text \<open>Memory, fence and audit are not part of the abstract state.\<close>

lemma candidate_values_same:
  "lf_project_id L' = lf_project_id L \<Longrightarrow> lf_identity_id L' = lf_identity_id L \<Longrightarrow>
     candidate_values L' c = candidate_values L c"
  by (simp add: candidate_values_def)

lemma implements_other [simp]:
  "implements E (L\<lparr>lf_memory := M\<rparr>) sp = implements E L sp"
  "implements E (L\<lparr>lf_fence := F\<rparr>) sp = implements E L sp"
  "implements E (L\<lparr>lf_audit := A\<rparr>) sp = implements E L sp"
  by (simp_all add: implements_def published_def candidate_values_def cong: option.case_cong)

lemma new_implements:
  assumes "new_lifecycle M S [] p i s (open_journal [] None) F A = Inr L" "open_checkpoints E p i [] None = Inr S"
  shows "implements E L \<lparr>sp_history = [], sp_accepted = None, sp_events = []\<rparr>"
  using assms open_checkpoints_ok [OF assms(2)] open_journal_ok [of E]
  by (auto simp: new_lifecycle_def result_simps implements_def open_checkpoints_def open_journal_def)

section \<open>The journal under the relation\<close>

lemma sound_row_event:
  assumes "sound_row E r"
  shows "\<exists>ev. lifecycle_row_event r = Inr ev \<and> le_event_type ev = lr_event_type r"
  using assms by (auto simp: sound_row_def lifecycle_row_event_def normalize_wf)

lemma linked_rows: "linked E p n rs \<Longrightarrow> r \<in> set rs \<Longrightarrow> sound_row E r \<and> n \<le> lr_sequence r"
  by (induction rs arbitrary: p n) fastforce+

lemma linked_filter_latest:
  assumes "linked E p n rs" "filter P rs \<noteq> []"
  shows "hd (sort_key (\<lambda>r. - lr_sequence r) (filter P rs)) = last (filter P rs) \<and> sound_row E (last (filter P rs))"
  using assms
proof (induction rs arbitrary: rule: rev_induct)
  case (snoc r rs)
  have l: "linked E p n rs" "lr_sequence r = n + int (length rs)" "sound_row E r"
    using snoc.prems(1) by (auto simp: linked_append)
  have less: "lr_sequence x < lr_sequence r" if "x \<in> set rs" for x
    using that l(1,2)
  proof (induction rs arbitrary: p n)
    case (Cons y ys)
    then have ys: "linked E (lr_digest y) (n + 1) ys" "lr_sequence y = n" "lr_sequence r = (n + 1) + int (length ys)" by auto
    show ?case using Cons.IH [OF _ ys(1,3)] Cons.prems(1) ys(2,3) by auto
  qed simp
  show ?case
  proof (cases "P r")
    case True
    have "sort_key (\<lambda>r. - lr_sequence r) (filter P rs @ [r]) = r # sort_key (\<lambda>r. - lr_sequence r) (filter P rs)"
      by (rule sort_key_least_last) (use less in force)
    then show ?thesis using True l(3) by simp
  next
    case False
    then show ?thesis using snoc l(1) by simp
  qed
qed simp

lemma journal_latest_type:
  assumes "journal_ok E J" "map (\<lambda>r. (lr_transition_id r, lr_event_type r)) (jn_rows J) = sp_events sp"
  shows "\<exists>ev. journal_latest J (Some cid) = Inr ev \<and> map_option le_event_type ev = last_note sp cid"
proof -
  let ?P = "\<lambda>r. cid = lr_transition_id r"
  have l: "linked E GENESIS_HEAD 1 (jn_rows J)" using assms(1) by (simp add: journal_ok_def)
  have events: "filter (\<lambda>e. fst e = cid) (sp_events sp)
      = map (\<lambda>r. (lr_transition_id r, lr_event_type r)) (filter ?P (jn_rows J))"
    unfolding assms(2) [symmetric] filter_map comp_def by (simp add: eq_commute)
  show ?thesis
  proof (cases "filter ?P (jn_rows J) = []")
    case True
    then show ?thesis using events by (simp add: journal_latest_def last_note_def)
  next
    case False
    note h = linked_filter_latest [OF l False]
    obtain rs where s: "sort_key (\<lambda>r. - lr_sequence r) (filter ?P (jn_rows J)) = last (filter ?P (jn_rows J)) # rs"
      using h False by (metis hd_Cons_tl length_0_conv length_sort)
    obtain ev where ev: "lifecycle_row_event (last (filter ?P (jn_rows J))) = Inr ev"
      "le_event_type ev = lr_event_type (last (filter ?P (jn_rows J)))"
      using sound_row_event h by blast
    have "last_note sp cid = Some (lr_event_type (last (filter ?P (jn_rows J))))"
      using False unfolding last_note_def events by (cases "filter ?P (jn_rows J)") (simp_all add: last_map)
    then show ?thesis using s ev by (simp add: journal_latest_def)
  qed
qed

lemma has_event_iff:
  assumes "map (\<lambda>r. (lr_transition_id r, lr_event_type r)) (jn_rows J) = sp_events sp"
  shows "has_event J cid t \<longleftrightarrow> (cid, t) \<in> set (sp_events sp)"
  unfolding assms [symmetric] by (auto simp: has_event_def find_event_def find_None_iff)

lemma committed_iff:
  "implements E L sp \<Longrightarrow> committed_in_journal L c = is_recorded sp (cp_checkpoint_id c)"
  using has_event_iff [OF implements_parts(6)] by (simp add: committed_in_journal_def is_recorded_def)

lemma candidate_status_is:
  "implements E L sp \<Longrightarrow> candidate_status L c = Inr (pending_status sp c)"
  using journal_latest_type [OF implements_parts(3) implements_parts(6), where cid = "cp_checkpoint_id c"]
  by (fastforce simp: candidate_status_def pending_status_def split: option.splits)

text \<open>An accepted event is a replay or a new note; either way it is the note of the abstract state.\<close>

lemma journal_append_notes:
  assumes "implements E L sp" "iso_stable E" "journal_append E (lf_journal L) cid t payload = Inr (ev, J)"
  shows "implements E (L\<lparr>lf_journal := J\<rparr>) (noted cid t sp)"
proof -
  note h = implements_parts [OF assms(1)]
  have ok: "journal_ok E J" by (rule journal_step_ok [OF step_journal [OF assms(3)] h(3) assms(2)])
  have "map (\<lambda>r. (lr_transition_id r, lr_event_type r)) (jn_rows J) = sp_events (noted cid t sp)"
  proof (cases "find_event cid t (lf_journal L)")
    case None
    then have "(cid, t) \<notin> set (sp_events sp)" using has_event_iff [OF h(6), of cid t] by (simp add: has_event_def)
    then show ?thesis using append_new [OF assms(3) None assms(2)] h(6) by (auto simp: noted_def)
  next
    case (Some r)
    then have "(cid, t) \<in> set (sp_events sp)" using has_event_iff [OF h(6), of cid t] by (simp add: has_event_def)
    then show ?thesis using append_replay [OF assms(3) Some] h(6) by (simp add: noted_def)
  qed
  then show ?thesis using assms(1) ok
    by (auto simp: implements_def published_def candidate_values_def noted_def split: option.splits if_splits)
qed

text \<open>An event that is in range is refused only because its digest is already taken.\<close>

lemma append_new_answers:
  assumes "journal_ok E J" "find_event cid t J = None" "cid \<noteq> []" "t \<noteq> []" "plain_json (JObj payload)"
    and "jn_sequence J < MAX_SAFE_INTEGER"
  shows "(\<exists>ev J'. journal_append E J cid t payload = Inr (ev, J')) \<or> journal_append E J cid t payload = Inl Journal_integrity"
proof -
  have seq: "jn_sequence J = int (length (jn_rows J))" using assms(1) by (simp add: journal_ok_def)
  have "lr_sequence r < 1 + int (length rs) + (n - 1)" if "linked E p n rs" "r \<in> set rs" for p n rs and r :: lifecycle_row
    using that by (induction rs arbitrary: p n) fastforce+
  then have "jn_sequence J + 1 \<notin> lr_sequence ` set (jn_rows J)"
    using assms(1) seq by (force simp: journal_ok_def)
  moreover have "plain_json (event_body (jn_sequence J + 1) cid t (jn_head J) (JObj payload))"
    using assms(5,6) seq by (simp add: event_body_def plain_eval)
  ultimately show ?thesis
    using assms(2-5) canonical_text [OF assms(5), of E]
    by (auto simp: journal_append_def canonical_digest_of Let_def ensure_def)
qed

section \<open>The reads under the relation\<close>

lemma plain_candidate: "plain_json (JObj (candidate_values L c)) \<longleftrightarrow> \<bar>cp_generation c\<bar> \<le> MAX_SAFE_INTEGER"
  by (simp add: candidate_values_def plain_eval)

lemma candidate_keys: "distinct (map fst (candidate_values L c))" "fst ` set (candidate_values L c) = PAYLOAD_FIELDS"
  by (auto simp: candidate_values_def PAYLOAD_FIELDS_def)

lemma candidate_atoms: "(k, v) \<in> set (candidate_values L c) \<Longrightarrow> sorted_keys v = v \<and> py_eq E v v"
  by (auto simp: candidate_values_def)

lemma sorted_candidate:
  "sorted_keys (JObj (candidate_values L c)) = JObj (sort_key key_order (candidate_values L c))"
proof -
  have "map (\<lambda>kv. (fst kv, sorted_keys (snd kv))) (candidate_values L c) = candidate_values L c"
    by (rule map_idI) (use candidate_atoms in auto)
  then show ?thesis by simp
qed

lemma py_eq_candidate: "py_eq E (sorted_keys (JObj (candidate_values L c))) (JObj (candidate_values L c))"
proof -
  have "map_of (candidate_values L c) k = Some v" if "(k, v) \<in> set (candidate_values L c)" for k v
    using that candidate_keys(1) [of L c] by simp
  then show ?thesis using candidate_atoms [of _ _ L c E]
    by (auto simp: sorted_candidate split: option.splits)
qed

lemma candidate_get:
  "py_get k (sorted_keys (JObj (candidate_values L c))) =
     (case map_of (candidate_values L c) k of None \<Rightarrow> JNull | Some v \<Rightarrow> sorted_keys v)"
  by (rule py_get_sorted) (rule candidate_keys(1))

lemma candidate_digest_is:
  "lf_subject_id L \<noteq> [] \<Longrightarrow> \<bar>cp_generation c\<bar> \<le> MAX_SAFE_INTEGER \<Longrightarrow> \<exists>d. candidate_digest E L c = Inr d"
  using plain_candidate [of L c]
  by (simp add: candidate_digest_def make_snapshot_def snapshot_digest_def canonical_digest_of plain_eval)

lemma digest_in_history:
  assumes "implements E L sp" "c \<in> set (sp_history sp)"
  shows "read_checkpoint_digest E (lf_checkpoints L) (cp_checkpoint_digest c) = Inr c"
    "read_checkpoint E (lf_checkpoints L) (cp_checkpoint_id c) = Inr c"
    "row_of kr_checkpoint_id (cp_checkpoint_id c) (ks_rows (lf_checkpoints L)) = Some (row_for c)"
proof -
  note h = implements_parts [OF assms(1)]
  have v: "valid_cp c" using h(4) assms(2) by blast
  have mem: "row_for c \<in> set (ks_rows (lf_checkpoints L))" using h(5) assms(2) by simp
  have d: "row_of kr_checkpoint_digest (cp_checkpoint_digest c) (ks_rows (lf_checkpoints L)) = Some (row_for c)"
    and i: "row_of kr_checkpoint_id (cp_checkpoint_id c) (ks_rows (lf_checkpoints L)) = Some (row_for c)"
    using row_of_member [of kr_checkpoint_digest _ "row_for c"] row_of_member [of kr_checkpoint_id _ "row_for c"] mem h(2)
    by (auto simp: ckpt_ok_def)
  show "row_of kr_checkpoint_id (cp_checkpoint_id c) (ks_rows (lf_checkpoints L)) = Some (row_for c)" by (rule i)
  show "read_checkpoint E (lf_checkpoints L) (cp_checkpoint_id c) = Inr c"
    by (simp add: read_checkpoint_def i read_row_own v)
  have "digest_check (cp_checkpoint_digest c) = Inr (cp_checkpoint_digest c)"
    using v by (simp add: valid_cp_def digest_of_def sha256_hex_def)
  then show "read_checkpoint_digest E (lf_checkpoints L) (cp_checkpoint_digest c) = Inr c"
    by (simp add: read_checkpoint_digest_def ckpt_require_digest_def d read_row_own v)
qed

lemma history_positions:
  assumes "implements E L sp" "i < length (sp_history sp)"
  shows "cp_generation (sp_history sp ! i) = int i + 1"
  using implements_parts(2,5) [OF assms(1)] assms(2) by (auto simp: ckpt_ok_def)

lemma history_inj:
  assumes "implements E L sp" "c \<in> set (sp_history sp)" "c' \<in> set (sp_history sp)"
  shows "cp_generation c = cp_generation c' \<longleftrightarrow> c = c'" "cp_checkpoint_id c = cp_checkpoint_id c' \<longleftrightarrow> c = c'"
proof -
  obtain i j where i: "i < length (sp_history sp)" "c = sp_history sp ! i"
    and j: "j < length (sp_history sp)" "c' = sp_history sp ! j"
    using assms(2,3) by (metis in_set_conv_nth)
  show "cp_generation c = cp_generation c' \<longleftrightarrow> c = c'"
  proof
    assume "cp_generation c = cp_generation c'"
    then have "i = j" using history_positions [OF assms(1) i(1)] history_positions [OF assms(1) j(1)] i(2) j(2) by simp
    then show "c = c'" using i(2) j(2) by simp
  qed simp
  show "cp_checkpoint_id c = cp_checkpoint_id c' \<longleftrightarrow> c = c'"
    using digest_in_history(2) [OF assms(1,2)] digest_in_history(2) [OF assms(1,3)] by (metis sum.inject(2))
qed

lemma generation_le_latest:
  assumes "implements E L sp" "c \<in> set (sp_history sp)"
  shows "cp_generation c \<le> cp_generation (last (sp_history sp))" "cp_generation c \<le> int (length (sp_history sp))" "0 < cp_generation c"
proof -
  obtain i where i: "i < length (sp_history sp)" "c = sp_history sp ! i" using assms(2) by (metis in_set_conv_nth)
  define n where "n = length (sp_history sp) - 1"
  have n: "n < length (sp_history sp)" "int (length (sp_history sp)) = int n + 1" "last (sp_history sp) = sp_history sp ! n"
    using i(1) last_conv_nth [of "sp_history sp"] by (cases "sp_history sp"; simp add: n_def)+
  have "cp_generation (last (sp_history sp)) = int (length (sp_history sp))"
    unfolding n(2,3) by (rule history_positions [OF assms(1) n(1)])
  then show "cp_generation c \<le> cp_generation (last (sp_history sp))" "cp_generation c \<le> int (length (sp_history sp))" "0 < cp_generation c"
    using history_positions [OF assms(1) i(1)] i by auto
qed

lemma latest_is:
  assumes "implements E L sp"
  shows "latest_checkpoint E (lf_checkpoints L) = Inr (latest_of sp)"
proof (cases "sp_history sp = []")
  case True
  then show ?thesis using implements_parts(5) [OF assms] by (simp add: latest_checkpoint_def latest_of_def)
next
  case False
  then have "ks_rows (lf_checkpoints L) = map row_for (butlast (sp_history sp)) @ [row_for (last (sp_history sp))]"
    using implements_parts(5) [OF assms] by (metis append_butlast_last_id list.simps(8,9) map_append)
  moreover have "valid_cp (last (sp_history sp))" using implements_parts(4) [OF assms] False by simp
  ultimately show ?thesis using latest_last [OF implements_parts(2) [OF assms]] False by (simp add: latest_of_def)
qed

definition snapshot_of :: "currentness_row \<Rightarrow> currentness_snapshot" where
  "snapshot_of r = \<lparr>cs_subject_id = cr_subject_id r, cs_generation = cr_generation r,
     cs_snapshot_digest = cr_snapshot_digest r, cs_payload_digest = cr_payload_digest r\<rparr>"

lemma current_is:
  assumes "implements E L sp"
  shows "read_current E L = Inr (map_option snapshot_of (subject_row L))"
    "subject_row L = Some r \<Longrightarrow> read_currentness E (lf_currentness L) (lf_subject_id L) = Inr (snapshot_of r)"
proof -
  show some: "subject_row L = Some r \<Longrightarrow> read_currentness E (lf_currentness L) (lf_subject_id L) = Inr (snapshot_of r)" for r
    using assms by (auto simp: implements_def read_currentness_def published_def snapshot_of_def)
  show "read_current E L = Inr (map_option snapshot_of (subject_row L))"
    using some by (cases "subject_row L") (auto simp: read_current_def read_currentness_def)
qed

lemma accepted_is:
  assumes "implements E L sp" "sp_accepted sp = Some c"
  shows "accepted_checkpoint E L = Inr c"
proof -
  obtain r where r: "subject_row L = Some r" "published E L c r" and c: "c \<in> set (sp_history sp)"
    using implements_accepted [OF assms] by blast
  let ?v = "sorted_keys (JObj (candidate_values L c))"
  have plain: "plain_json (JObj (candidate_values L c))" unfolding plain_candidate using r(2) by (simp add: published_def)
  have payload: "read_payload (lf_currentness L) (lf_subject_id L) = Inr ?v"
    using r loads_text_of [OF plain] by (simp add: read_payload_def published_def)
  have keys: "is_dict ?v" "json_keys ?v = PAYLOAD_FIELDS"
    using candidate_keys(2) [of L c] by (simp_all only: sorted_candidate is_dict_simps json_keys.simps set_sort)
  have get: "py_get ''project_id'' ?v = JStr (lf_project_id L)" "py_get ''identity_id'' ?v = JStr (lf_identity_id L)"
    "py_get ''recovery_checkpoint_digest'' ?v = JStr (cp_checkpoint_digest c)"
    "py_get ''recovery_checkpoint_generation'' ?v = JInt (cp_generation c)"
    unfolding candidate_get by (simp_all add: candidate_values_def)
  have "read_accepted E (lf_checkpoints L) (cp_checkpoint_digest c) = Inr c"
    using digest_in_history(1) [OF assms(1) c] by (simp add: read_accepted_def)
  then show ?thesis
    unfolding accepted_checkpoint_def payload using keys get py_eq_candidate [of E L c] by simp
qed

end
