(* ===== verification/Lifecycle_Guarantees.thy ===== *)
theory Lifecycle_Guarantees
  imports Lifecycle_Spec
begin

text \<open>
  The lifecycle implements its abstract state: reconstruction computes the abstract status and
  a checkpoint, wherever it stops, has gone through a prefix of the abstract trace. From the
  two follow what a restart finds after a crash and what a permit is worth.
\<close>

section \<open>Reconstruction\<close>

definition resume_of :: "lifecycle_spec \<Rightarrow> checkpoint option" where
  "resume_of sp = (case pending_of sp of None \<Rightarrow> sp_accepted sp | Some c \<Rightarrow> Some c)"

definition found :: "lifecycle \<Rightarrow> lifecycle_spec \<Rightarrow> string \<Rightarrow> bool \<Rightarrow> reconstruction" where
  "found L sp control was_recorded =
     make_reconstruction L (spec_status sp (ld_head (lf_memory L)) control was_recorded) control
       (map_option snapshot_of (subject_row L)) (sp_accepted sp) (latest_of sp) (pending_of sp) (resume_of sp)"

lemma noted_simps [simp]:
  "sp_history (noted cid t sp) = sp_history sp" "sp_accepted (noted cid t sp) = sp_accepted sp"
  "latest_of (noted cid t sp) = latest_of sp" "pending_of (noted cid t sp) = pending_of sp"
  "resume_of (noted cid t sp) = resume_of sp"
  "set (sp_events (noted cid t sp)) = insert (cid, t) (set (sp_events sp))"
  by (auto simp: noted_def latest_of_def pending_of_def resume_of_def cong: option.case_cong if_cong)

lemma spec_reconstruct_same:
  "spec_reconstruct sp = sp \<Longrightarrow> sp_accepted sp = Some a \<Longrightarrow> is_recorded sp (cp_checkpoint_id a)"
proof (rule ccontr)
  assume a: "spec_reconstruct sp = sp" "sp_accepted sp = Some a" "\<not> is_recorded sp (cp_checkpoint_id a)"
  then have "noted (cp_checkpoint_id a) ''RESTART_RECONCILED_COMMITTED'' sp = sp" by (simp add: spec_reconstruct_def)
  then have "set (sp_events sp) = insert (cp_checkpoint_id a, ''RESTART_RECONCILED_COMMITTED'') (set (sp_events sp))"
    using noted_simps(6) by metis
  then show False using a(3) by (auto simp: is_recorded_def)
qed

lemma reads_are:
  assumes "implements E L sp" "assert_outbound_integrity E L = Inr ()"
  shows "reconstruct_reads E L = Inr (latest_of sp, map_option snapshot_of (subject_row L))"
  using assms(2) journal_ok_verifies [OF implements_parts(3) [OF assms(1)]] latest_is [OF assms(1)] current_is(1) [OF assms(1)]
  by (simp add: reconstruct_reads_def)

lemma with_accepted_is:
  assumes "implements E L sp" "sp_accepted sp = Some a" "subject_row L = Some r"
  shows "with_accepted control (latest_of sp) (snapshot_of r) a was L = Inr (found L sp control was)"
  using assms(2,3) candidate_status_is [OF assms(1)]
  by (auto simp: with_accepted_def found_def Let_def spec_status_def resume_of_def pending_of_def split: option.splits)

lemma no_currentness_is:
  assumes "implements E L sp" "sp_accepted sp = None"
  shows "no_currentness control (latest_of sp) L = Inr (found L sp control was)"
proof -
  have "subject_row L = None" using implements_parts(7) [OF assms(1)] assms(2) by simp
  then show ?thesis
    using assms(2) candidate_status_is [OF assms(1)]
    by (auto simp: no_currentness_def found_def spec_status_def resume_of_def pending_of_def split: option.splits)
qed

text \<open>A reconstruction that has nothing to note only reads.\<close>

lemma reconstruct_reads_only:
  assumes "implements E L sp" "assert_outbound_integrity E L = Inr ()"
    and "\<not> rj \<or> spec_reconstruct sp = sp"
  shows "reconstruct E control rj L = (Inr (found L sp control False), [])"
proof (cases "sp_accepted sp")
  case None
  then have "subject_row L = None" using implements_parts(7) [OF assms(1)] by simp
  then show ?thesis using reads_are [OF assms(1,2)] no_currentness_is [OF assms(1) None]
    by (simp add: reconstruct_def act_bind_def act_read_def)
next
  case (Some a)
  obtain r where r: "subject_row L = Some r" using implements_accepted [OF assms(1) Some] by blast
  have "rj \<longrightarrow> committed_in_journal L a"
    using assms(3) Some committed_iff [OF assms(1)] spec_reconstruct_same by blast
  then show ?thesis
    using reads_are [OF assms(1,2)] accepted_is [OF assms(1) Some] with_accepted_is [OF assms(1) Some r] r
    by (auto simp: reconstruct_def act_bind_def act_read_def reconcile_commit_def)
qed

text \<open>What no operation of the lifecycle touches.\<close>

definition same_stores :: "lifecycle \<Rightarrow> lifecycle \<Rightarrow> bool" where
  "same_stores L t \<longleftrightarrow> lf_memory t = lf_memory L \<and> lf_fence t = lf_fence L \<and> lf_audit t = lf_audit L \<and>
     lf_project_id t = lf_project_id L \<and> lf_identity_id t = lf_identity_id L \<and> lf_subject_id t = lf_subject_id L"

lemma integrity_same:
  "same_stores L t \<Longrightarrow> assert_outbound_integrity E t = assert_outbound_integrity E L"
  by (simp add: assert_outbound_integrity_def same_stores_def cong: option.case_cong)

text \<open>One that has something to note commits the note, or finds its digest taken.\<close>

lemma reconstruct_notes:
  assumes "implements E L sp" "iso_stable E" "assert_outbound_integrity E L = Inr ()"
    and "spec_reconstruct sp \<noteq> sp" "jn_sequence (lf_journal L) < MAX_SAFE_INTEGER"
  shows "reconstruct E control True L = (Inl (L_journal Journal_integrity), []) \<or>
    (\<exists>J. implements E (L\<lparr>lf_journal := J\<rparr>) (spec_reconstruct sp) \<and>
      reconstruct E control True L = (Inr (found (L\<lparr>lf_journal := J\<rparr>) (spec_reconstruct sp) control True), [L\<lparr>lf_journal := J\<rparr>]))"
proof -
  obtain a where a: "sp_accepted sp = Some a" "\<not> is_recorded sp (cp_checkpoint_id a)"
    "spec_reconstruct sp = noted (cp_checkpoint_id a) ''RESTART_RECONCILED_COMMITTED'' sp"
    using assms(4) by (auto simp: spec_reconstruct_def split: option.splits if_splits)
  obtain r where r: "subject_row L = Some r" "published E L a r" and mem: "a \<in> set (sp_history sp)"
    using implements_accepted [OF assms(1) a(1)] by blast
  have nc: "\<not> committed_in_journal L a" using committed_iff [OF assms(1)] a(2) by simp
  obtain d where d: "candidate_digest E L a = Inr d"
    using candidate_digest_is [OF implements_parts(1) [OF assms(1)], of a E] r(2) by (auto simp: published_def)
  let ?p = "committed_payload d (snapshot_of r)"
  have new: "find_event (cp_checkpoint_id a) ''RESTART_RECONCILED_COMMITTED'' (lf_journal L) = None"
    using nc by (simp add: committed_in_journal_def has_event_def)
  have cid: "cp_checkpoint_id a \<noteq> []" using implements_accepted [OF assms(1) a(1)] by blast
  have "\<bar>cr_generation r\<bar> \<le> MAX_SAFE_INTEGER"
    using r(2) canonical_digest_int [of E _ _ "''generation''" "cr_generation r"]
    unfolding published_def snapshot_body_def by auto
  then have "plain_json (JObj ?p)" by (simp add: committed_payload_def snapshot_of_def plain_eval)
  note answers = append_new_answers [OF implements_parts(3) [OF assms(1)] new cid _ this assms(5)]
  note head = reads_are [OF assms(1,3)] accepted_is [OF assms(1) a(1)] r(1) nc d
  from answers consider (ans) ev J where "journal_append E (lf_journal L) (cp_checkpoint_id a) ''RESTART_RECONCILED_COMMITTED'' ?p = Inr (ev, J)"
    | (taken) "journal_append E (lf_journal L) (cp_checkpoint_id a) ''RESTART_RECONCILED_COMMITTED'' ?p = Inl Journal_integrity"
    by auto
  then show ?thesis
  proof cases
    case ans
    let ?L = "L\<lparr>lf_journal := J\<rparr>"
    have i: "implements E ?L (spec_reconstruct sp)" unfolding a(3) by (rule journal_append_notes [OF assms(1,2) ans])
    have "with_accepted control (latest_of sp) (snapshot_of r) a True ?L = Inr (found ?L (spec_reconstruct sp) control True)"
      using with_accepted_is [OF i, of a r] a(1,3) r(1) by simp
    then show ?thesis
      using head ans i
      by (auto simp: reconstruct_def act_bind_def act_read_def act_tx_def reconcile_commit_def journal_event_def)
  next
    case taken
    then show ?thesis
      using head by (simp add: reconstruct_def act_bind_def act_read_def act_tx_def reconcile_commit_def journal_event_def)
  qed
qed

lemma reconstruct_implements:
  assumes "implements E L sp" "iso_stable E" "assert_outbound_integrity E L = Inr ()"
    and "jn_sequence (lf_journal L) < MAX_SAFE_INTEGER"
  shows "\<exists>res tr. reconstruct E control True L = (res, tr) \<and>
    (res = Inl (L_journal Journal_integrity) \<and> tr = [] \<and> spec_reconstruct sp \<noteq> sp \<or>
     res = Inr (found (left_at L tr) (spec_reconstruct sp) control (spec_reconstruct sp \<noteq> sp)) \<and>
     implements E (left_at L tr) (spec_reconstruct sp) \<and> same_stores L (left_at L tr) \<and>
     lf_currentness (left_at L tr) = lf_currentness L)"
proof (cases "spec_reconstruct sp = sp")
  case True
  then show ?thesis using reconstruct_reads_only [OF assms(1,3), of True control] assms(1) by (simp add: same_stores_def)
next
  case False
  from reconstruct_notes [OF assms(1-3) False assms(4), of control] show ?thesis
    using False by (fastforce simp: same_stores_def)
qed

text \<open>
  C11: Restart reconstruction implements the abstract status. From stores that implement an
  abstract lifecycle, with a consistent effect audit, \<^verbatim>\<open>reconstruct\<close> returns
  the status, the accepted, latest and pending checkpoints and the resume point that the
  abstract state has, and it leaves stores that implement the abstract state in which the
  publication of the accepted checkpoint is noted. The one way it can raise is that the
  digest of that note is already taken by another event.
\<close>

theorem reconstruct_refines:
  assumes "implements E L sp" "iso_stable E" "assert_outbound_integrity E L = Inr ()"
    and "jn_sequence (lf_journal L) < MAX_SAFE_INTEGER"
  shows "\<exists>res tr. reconstruct E control True L = (res, tr) \<and>
    (res = Inl (L_journal Journal_integrity) \<and> tr = [] \<and> spec_reconstruct sp \<noteq> sp \<or>
     res = Inr (found (left_at L tr) (spec_reconstruct sp) control (spec_reconstruct sp \<noteq> sp)) \<and>
     implements E (left_at L tr) (spec_reconstruct sp) \<and> same_stores L (left_at L tr) \<and>
     lf_currentness (left_at L tr) = lf_currentness L)"
  using assms by (rule reconstruct_implements)

section \<open>Checkpoints\<close>

text \<open>
  The states an action committed implement, one by one, a prefix of the given abstract
  states, and all of them when it returned, which only an unblocked one does.
\<close>

definition follows ::
  "py_env \<Rightarrow> lifecycle \<Rightarrow> bool \<Rightarrow> ('e, 'a) result \<times> lifecycle list \<Rightarrow> lifecycle_spec list \<Rightarrow> bool" where
  "follows E L blocked out sps \<longleftrightarrow> length (snd out) \<le> length sps \<and> (\<forall>t\<in>set (snd out). same_stores L t) \<and>
     list_all2 (implements E) (snd out) (take (length (snd out)) sps) \<and>
     (ok (fst out) \<longrightarrow> \<not> blocked \<and> length (snd out) = length sps)"

lemma follows_read:
  "(\<And>x. f s = Inr x \<Longrightarrow> follows E L blocked (k x s) sps) \<Longrightarrow> follows E L blocked (act_bind (act_read f) k s) sps"
  by (cases "f s") (auto simp: act_bind_def act_read_def follows_def split: prod.splits)

lemma follows_tx:
  assumes "\<And>x t. g s = Inr (x, t) \<Longrightarrow> implements E t sp \<and> same_stores L t \<and> follows E L blocked (k x t) sps"
  shows "follows E L blocked (act_bind (act_tx g) k s) (sp # sps)"
proof (cases "g s")
  case (Inr y)
  obtain x t where y: "y = (x, t)" by (cases y)
  obtain res tr where k: "k x t = (res, tr)" by fastforce
  show ?thesis using assms [of x t] Inr y k by (auto simp: act_bind_def act_tx_def follows_def)
qed (simp add: act_bind_def act_tx_def follows_def)

lemma follows_end: "(\<And>x. f s = Inr x \<Longrightarrow> \<not> blocked) \<Longrightarrow> follows E L blocked (act_read f s) []"
  by (auto simp: follows_def act_read_def)

lemma journal_event_follows:
  assumes "implements E s sp" "iso_stable E" "same_stores L s"
    and "\<And>x t. implements E t (noted cid e sp) \<Longrightarrow> same_stores L t \<Longrightarrow> lf_currentness t = lf_currentness s \<Longrightarrow>
           follows E L blocked (k x t) sps"
  shows "follows E L blocked (act_bind (journal_event E cid e payload) k s) (noted cid e sp # sps)"
  unfolding journal_event_def
proof (rule follows_tx)
  fix x t
  assume "rbind (map_err L_journal (journal_append E (lf_journal s) cid e payload)) (\<lambda>(event, J). Inr (event, s\<lparr>lf_journal := J\<rparr>)) = Inr (x, t)"
  then obtain J where J: "journal_append E (lf_journal s) cid e payload = Inr (x, J)" "t = s\<lparr>lf_journal := J\<rparr>"
    by (auto simp: result_simps)
  have t: "implements E t (noted cid e sp)" "same_stores L t"
    using journal_append_notes [OF assms(1,2) J(1)] J(2) assms(3) by (simp_all add: same_stores_def)
  then show "implements E t (noted cid e sp) \<and> same_stores L t \<and> follows E L blocked (k x t) sps"
    using assms(4) J(2) by simp
qed

lemma replay_returns:
  assumes "append_checkpoint E S cid rid mem ctl h xs ys t now = Inr (c, S')" "row_of kr_checkpoint_id cid (ks_rows S) = Some r"
  shows "\<exists>payload. strict_loads (kr_payload_json r) = Inr payload \<and> from_row E (kr_checkpoint_digest r) payload = Inr c \<and> S' = S"
  using assms by (cases t) (auto simp: append_checkpoint_def ckpt_require_text_def result_simps)

lemma checkpoint_adopted:
  assumes "implements E L sp" "append_checkpoint E (lf_checkpoints L) cid rid mem ctl h xs ys t now = Inr (c, S)"
  shows "implements E (L\<lparr>lf_checkpoints := S\<rparr>) (adopt c sp) \<and> c \<in> set (sp_history (adopt c sp)) \<and>
    cp_checkpoint_id c = cid \<and>
    (cid \<notin> cp_checkpoint_id ` set (sp_history sp) \<longrightarrow> c \<notin> set (sp_history sp) \<and>
       cp_generation c = int (length (sp_history sp)) + 1 \<and>
       digest_check mem = Inr (cp_memory_head_digest c) \<and> digest_check ctl = Inr (cp_control_source_digest c))"
proof (cases "row_of kr_checkpoint_id cid (ks_rows (lf_checkpoints L))")
  case None
  note h = implements_parts [OF assms(1)]
  note a = append_adds [OF assms(2) None]
  have cid: "cid \<noteq> []" using assms(2) by (auto simp: append_checkpoint_def ckpt_require_text_def result_simps)
  have "cid \<notin> cp_checkpoint_id ` set (sp_history sp)"
    using None h(5) by (simp add: row_of_None_iff image_image)
  then have new: "c \<notin> set (sp_history sp)" using a by blast
  have "implements E (L\<lparr>lf_checkpoints := S\<rparr>) (adopt c sp)"
    using assms(1) a new cid append_ok [OF assms(2) h(2)]
    by (auto simp: implements_def adopt_def published_def candidate_values_def split: option.splits)
  moreover have "ks_generation (lf_checkpoints L) = int (length (sp_history sp))"
    using h(2,5) by (simp add: ckpt_ok_def)
  ultimately show ?thesis using a new by (simp add: adopt_def)
next
  case (Some r)
  note h = implements_parts [OF assms(1)]
  obtain c0 where c0: "c0 \<in> set (sp_history sp)" "r = row_for c0" "cp_checkpoint_id c0 = cid"
  proof -
    have "r \<in> row_for ` set (sp_history sp)" and id: "kr_checkpoint_id r = cid"
      using row_of_Some [OF Some] unfolding h(5) by simp_all
    then obtain c1 where "c1 \<in> set (sp_history sp)" "r = row_for c1" by blast
    then show thesis using that [of c1] id by simp
  qed
  have v: "valid_cp c0" using h(4) c0(1) by blast
  obtain payload where "strict_loads (kr_payload_json r) = Inr payload" "from_row E (kr_checkpoint_digest r) payload = Inr c"
    "S = lf_checkpoints L"
    using replay_returns [OF assms(2) Some] by blast
  then have "S = lf_checkpoints L" "c = c0"
    using c0(2) strict_loads_own [OF v] from_row_own(2) [OF v, of E] by (simp_all del: sorted_keys.simps)
  then show ?thesis using assms(1) c0 by (auto simp: adopt_def)
qed

lemma candidate_published:
  assumes "implements E L sp" "c \<in> set (sp_history sp)"
    and "publish E (lf_currentness L) (lf_subject_id L) (JObj (candidate_values L c)) g = Inr (cur, C)"
  shows "implements E (L\<lparr>lf_currentness := C\<rparr>) (accept c sp)"
    "\<exists>r. row_of cr_subject_id (lf_subject_id L) C = Some r \<and> cr_generation r = stored (lf_currentness L) (lf_subject_id L) + 1"
proof -
  obtain t row where t: "canonical_json E (JObj (candidate_values L c)) = Inr t"
    "row = \<lparr>cr_subject_id = lf_subject_id L, cr_generation = stored (lf_currentness L) (lf_subject_id L) + 1,
           cr_snapshot_digest = cs_snapshot_digest cur, cr_payload_digest = sha256_hex t, cr_payload_json = Some t\<rparr>"
    "canonical_digest E (snapshot_body (lf_subject_id L) (stored (lf_currentness L) (lf_subject_id L) + 1) (sha256_hex t))
       = Inr (cs_snapshot_digest cur)"
    "C = upsert_currentness row (lf_currentness L)"
    using publish_Inr [OF assms(3)] by blast
  have bound: "\<bar>cp_generation c\<bar> \<le> MAX_SAFE_INTEGER"
    using canonical_json_int [OF t(1), of "''recovery_checkpoint_generation''"] by (simp add: candidate_values_def)
  have encoded: "t = text_of (JObj (candidate_values L c))"
    using t(1) canonical_text [of "JObj (candidate_values L c)" E] bound unfolding plain_candidate [of L c, symmetric] by simp
  have row: "row_of cr_subject_id (lf_subject_id L) C = Some row" by (simp add: t(2,4) row_of_upsert)
  have "published E (L\<lparr>lf_currentness := C\<rparr>) c row"
    using bound encoded t(2,3) by (simp add: published_def candidate_values_def)
  then show "implements E (L\<lparr>lf_currentness := C\<rparr>) (accept c sp)"
    using assms(1,2) row by (simp add: implements_def accept_def)
  show "\<exists>r. row_of cr_subject_id (lf_subject_id L) C = Some r \<and> cr_generation r = stored (lf_currentness L) (lf_subject_id L) + 1"
    using row t(2) by simp
qed

lemma same_candidate:
  "same_stores L t \<Longrightarrow> candidate_values t c = candidate_values L c \<and> candidate_digest E t c = candidate_digest E L c
     \<and> assure E call c t = assure E call c L"
  by (simp add: same_stores_def candidate_values_def candidate_digest_def assure_def)

definition blocks :: "py_env \<Rightarrow> checkpoint_call \<Rightarrow> lifecycle \<Rightarrow> checkpoint \<Rightarrow> bool" where
  "blocks E call L c \<longleftrightarrow> (\<exists>report. assure E call c L = Inr report \<and> dr_status report = ''BLOCK'')"

text \<open>The stages, last one first.\<close>

lemma commit_follows:
  assumes "implements E t sp" "iso_stable E" "same_stores L t" "c \<in> set (sp_history sp)"
  shows "follows E L False (commit_candidate E control call m c digest report t)
    [accept c sp, noted (cc_checkpoint_id call) ''CURRENTNESS_COMMITTED'' (accept c sp)]"
  unfolding commit_candidate_def publish_candidate_def
proof (rule follows_tx)
  fix current t'
  assume "rbind (map_err L_fence (publish E (lf_currentness t) (lf_subject_id t) (JObj (candidate_values t c))
      (cc_expected_generation call))) (\<lambda>(current, C). Inr (current, t\<lparr>lf_currentness := C\<rparr>)) = Inr (current, t')"
  then obtain C where C: "publish E (lf_currentness t) (lf_subject_id t) (JObj (candidate_values t c))
      (cc_expected_generation call) = Inr (current, C)" "t' = t\<lparr>lf_currentness := C\<rparr>"
    by (auto simp: result_simps)
  have t': "implements E t' (accept c sp)" "same_stores L t'"
    using candidate_published(1) [OF assms(1,4) C(1)] C(2) assms(3) by (simp_all add: same_stores_def)
  then show "implements E t' (accept c sp) \<and> same_stores L t' \<and> follows E L False
      (act_bind (journal_event E (cc_checkpoint_id call) ''CURRENTNESS_COMMITTED'' (committed_payload digest current))
        (\<lambda>event. act_read (receipt_of E control call m c report current event)) t')
      [noted (cc_checkpoint_id call) ''CURRENTNESS_COMMITTED'' (accept c sp)]"
    by (intro conjI journal_event_follows [OF _ assms(2)] follows_end) simp_all
qed

lemma judge_follows:
  assumes "implements E t sp" "iso_stable E" "same_stores L t" "c \<in> set (sp_history sp)" "assure E call c t = Inr report"
  shows "follows E L (blocks E call L c) (judge_candidate E control call m c digest report t)
    (judged (cc_checkpoint_id call) c (blocks E call L c) sp)"
proof -
  have b: "blocks E call L c \<longleftrightarrow> dr_status report = ''BLOCK''"
    using assms(5) same_candidate [OF assms(3), of c E call] by (simp add: blocks_def)
  show ?thesis
  proof (cases "blocks E call L c")
    case True
    have "follows E L True (act_bind (journal_event E (cc_checkpoint_id call) ''ASSURANCE_BLOCKED'' (blocked_payload digest report))
        (\<lambda>_. act_read (\<lambda>_. Inl (Assurance_blocked report) :: (lifecycle_error, lifecycle_receipt) result)) t)
        [noted (cc_checkpoint_id call) ''ASSURANCE_BLOCKED'' sp]"
      by (intro journal_event_follows [OF assms(1-3)] follows_end) simp
    then show ?thesis using True b by (simp add: judge_candidate_def judged_def)
  next
    case False
    have "follows E L False (act_bind (journal_event E (cc_checkpoint_id call) ''ASSURANCE_PASSED'' (passed_payload digest report))
        (\<lambda>_. commit_candidate E control call m c digest report) t)
        [noted (cc_checkpoint_id call) ''ASSURANCE_PASSED'' sp, accept c (noted (cc_checkpoint_id call) ''ASSURANCE_PASSED'' sp),
         noted (cc_checkpoint_id call) ''CURRENTNESS_COMMITTED'' (accept c (noted (cc_checkpoint_id call) ''ASSURANCE_PASSED'' sp))]"
      by (intro journal_event_follows [OF assms(1-3)] commit_follows) (simp_all add: assms(2,4))
    then show ?thesis using False b by (simp add: judge_candidate_def judged_def Let_def)
  qed
qed

lemma progress_follows:
  fixes call :: checkpoint_call
  assumes "implements E t sp" "iso_stable E" "same_stores L t" "c \<in> set (sp_history sp)"
  defines "s2 \<equiv> noted (cc_checkpoint_id call) ''CANDIDATE_PREPARED'' sp"
  shows "follows E L (blocks E call L c) (progress_candidate E control call m c t)
    (s2 # judged (cc_checkpoint_id call) c (blocks E call L c) s2)"
  unfolding progress_candidate_def
proof (rule follows_read)
  fix digest
  have "c \<in> set (sp_history s2)" using assms(4) by (simp add: s2_def)
  then show "follows E L (blocks E call L c) (act_bind (journal_event E (cc_checkpoint_id call) ''CANDIDATE_PREPARED''
       (prepared_payload control call m c digest)) (\<lambda>_. act_bind (act_read (assure E call c))
         (judge_candidate E control call m c digest)) t)
    (s2 # judged (cc_checkpoint_id call) c (blocks E call L c) s2)"
    unfolding s2_def by (intro journal_event_follows [OF assms(1-3)] follows_read judge_follows assms(2))
qed

lemma checkpoint_follows:
  assumes "implements E L sp" "iso_stable E"
  shows "(\<exists>e. checkpoint_unlocked E control call L = (Inl e, [])) \<or>
    (\<exists>c. cp_checkpoint_id c = cc_checkpoint_id call \<and>
      (cc_checkpoint_id call \<notin> cp_checkpoint_id ` set (sp_history sp) \<longrightarrow> c \<notin> set (sp_history sp)) \<and>
      follows E L (blocks E call L c) (checkpoint_unlocked E control call L) (checkpoint_trace sp c (blocks E call L c)))"
proof (cases "checkpoint_guards E call L")
  case (Inl e)
  then show ?thesis by (simp add: checkpoint_unlocked_def act_bind_def act_read_def)
next
  case (Inr u)
  let ?append = "append_checkpoint E (lf_checkpoints L) (cc_checkpoint_id call) (cc_runtime_id call) (ld_head (lf_memory L))
     control (cc_expected_checkpoint_head call) (cc_commitments call) (cc_unfinished_work call) (cc_created_at call) (cc_now call)"
  show ?thesis
  proof (cases ?append)
    case Inl
    then show ?thesis using \<open>checkpoint_guards E call L = Inr u\<close>
      by (simp add: checkpoint_unlocked_def append_candidate_def act_bind_def act_read_def act_tx_def)
  next
    case (Inr cS)
    obtain c S where cS: "?append = Inr (c, S)" using Inr by (cases cS) simp
    note ad = checkpoint_adopted [OF assms(1) cS]
    let ?t = "L\<lparr>lf_checkpoints := S\<rparr>"
    have same: "same_stores L ?t" by (simp add: same_stores_def)
    have t: "implements E ?t (adopt c sp)" "c \<in> set (sp_history (adopt c sp))" "cp_checkpoint_id c = cc_checkpoint_id call"
      using ad by blast+
    have trace: "checkpoint_trace sp c b = adopt c sp # noted (cc_checkpoint_id call) ''CANDIDATE_PREPARED'' (adopt c sp) #
       judged (cc_checkpoint_id call) c b (noted (cc_checkpoint_id call) ''CANDIDATE_PREPARED'' (adopt c sp))" for b
      using t(3) by (simp add: checkpoint_trace_def Let_def)
    have "follows E L (blocks E call L c) (checkpoint_unlocked E control call L) (checkpoint_trace sp c (blocks E call L c))"
      unfolding checkpoint_unlocked_def append_candidate_def trace
    proof (intro follows_read follows_tx)
      fix m x s'
      assume "rbind (map_err L_ckpt ?append) (\<lambda>(recovery, S). Inr (recovery, L\<lparr>lf_checkpoints := S\<rparr>)) = Inr (x, s')"
      then have "x = c" "s' = ?t" using cS by simp_all
      then show "implements E s' (adopt c sp) \<and> same_stores L s' \<and> follows E L (blocks E call L c) (progress_candidate E control call m x s')
          (noted (cc_checkpoint_id call) ''CANDIDATE_PREPARED'' (adopt c sp) # judged (cc_checkpoint_id call) c (blocks E call L c)
             (noted (cc_checkpoint_id call) ''CANDIDATE_PREPARED'' (adopt c sp)))"
        using t same progress_follows [OF t(1) assms(2) same t(2)] by simp
    qed
    then show ?thesis using ad by blast
  qed
qed

text \<open>
  C34: A checkpoint implements the abstract checkpoint at every crash point. Whatever
  \<^verbatim>\<open>checkpoint\<close> does (return, raise, or die between two transactions), either it
  has changed nothing, or the states it committed are, one by one, a prefix of the abstract
  trace: adopt the candidate, note it, note the verdict, publish, note the publication. It
  returns only at the end of a trace that assurance did not block, and memory, fence and audit
  are as they were throughout.
\<close>

theorem checkpoint_refines:
  assumes "implements E L sp" "iso_stable E"
  shows "(\<exists>e. checkpoint_unlocked E control call L = (Inl e, [])) \<or>
    (\<exists>c. cp_checkpoint_id c = cc_checkpoint_id call \<and>
      (cc_checkpoint_id call \<notin> cp_checkpoint_id ` set (sp_history sp) \<longrightarrow> c \<notin> set (sp_history sp)) \<and>
      follows E L (blocks E call L c) (checkpoint_unlocked E control call L) (checkpoint_trace sp c (blocks E call L c)))"
  using assms by (rule checkpoint_follows)

section \<open>After a crash\<close>

lemma spec_reconstruct_simps [simp]:
  "sp_history (spec_reconstruct sp) = sp_history sp" "sp_accepted (spec_reconstruct sp) = sp_accepted sp"
  "latest_of (spec_reconstruct sp) = latest_of sp" "pending_of (spec_reconstruct sp) = pending_of sp"
  "resume_of (spec_reconstruct sp) = resume_of sp"
  by (auto simp: spec_reconstruct_def split: option.splits)

lemma found_simps [simp]:
  "rc_status (found L sp control was) = spec_status sp (ld_head (lf_memory L)) control was"
  "rc_accepted_checkpoint_id (found L sp control was) = map_option cp_checkpoint_id (sp_accepted sp)"
  "rc_accepted_checkpoint_digest (found L sp control was) = map_option cp_checkpoint_digest (sp_accepted sp)"
  "rc_accepted_runtime_id (found L sp control was) = map_option cp_runtime_id (sp_accepted sp)"
  "rc_accepted_memory_head (found L sp control was) = map_option cp_memory_head_digest (sp_accepted sp)"
  "rc_latest_checkpoint_id (found L sp control was) = map_option cp_checkpoint_id (latest_of sp)"
  "rc_latest_checkpoint_generation (found L sp control was) = map_option cp_generation (latest_of sp)"
  "rc_pending_checkpoint_id (found L sp control was) = map_option cp_checkpoint_id (pending_of sp)"
  "rc_resume_checkpoint_id (found L sp control was) = map_option cp_checkpoint_id (resume_of sp)"
  "rc_control_source_digest (found L sp control was) = control"
  "rc_currentness_generation (found L sp control was) = map_option (cs_generation \<circ> snapshot_of) (subject_row L)"
  "rc_currentness_snapshot_digest (found L sp control was) = map_option (cs_snapshot_digest \<circ> snapshot_of) (subject_row L)"
  by (simp_all add: found_def make_reconstruction_def option.map_comp)

lemma trace_states:
  assumes "x \<in> set (checkpoint_trace sp c b)" "c \<notin> set (sp_history sp)"
  shows "sp_history x = sp_history sp @ [c] \<and> (sp_accepted x = sp_accepted sp \<or> sp_accepted x = Some c)"
  using assms
  by (auto simp: checkpoint_trace_def judged_def Let_def adopt_def accept_def split: if_splits)

text \<open>A crash point of a checkpoint with a new id: nothing, a pending candidate, or an accepted one.\<close>

lemma crash_state:
  assumes "implements E L sp" "iso_stable E" "cc_checkpoint_id call \<notin> cp_checkpoint_id ` set (sp_history sp)"
    and "t \<in> set (snd (checkpoint_unlocked E control call L))"
  obtains c x where "implements E t x" "same_stores L t" "cp_checkpoint_id c = cc_checkpoint_id call"
    "c \<notin> set (sp_history sp)" "latest_of x = Some c"
    "sp_accepted x = sp_accepted sp \<and> pending_of x = Some c \<or> sp_accepted x = Some c \<and> pending_of x = None"
proof -
  obtain c b where c: "cp_checkpoint_id c = cc_checkpoint_id call" "c \<notin> set (sp_history sp)"
    and f: "follows E L b (checkpoint_unlocked E control call L) (checkpoint_trace sp c b)"
    using checkpoint_follows [OF assms(1,2), of control call] assms(3,4) by fastforce
  let ?tr = "snd (checkpoint_unlocked E control call L)"
  obtain i where i: "i < length ?tr" "t = ?tr ! i" using assms(4) by (metis in_set_conv_nth)
  define x where "x = checkpoint_trace sp c b ! i"
  have len: "i < length (checkpoint_trace sp c b)" and same: "same_stores L t"
    using f i assms(4) by (auto simp: follows_def)
  have imp: "implements E t x"
    using f i len by (auto simp: follows_def list_all2_conv_all_nth x_def)
  have "x \<in> set (checkpoint_trace sp c b)" using len by (simp add: x_def)
  note x = trace_states [OF this c(2)]
  have latest: "latest_of x = Some c" using x by (simp add: latest_of_def)
  have "cp_generation a < cp_generation c" if "a \<in> set (sp_history sp)" for a
  proof -
    have "cp_generation c = int (length (sp_history x))"
      using history_positions [OF imp, of "length (sp_history sp)"] x by (simp add: nth_append)
    moreover have "cp_generation a \<le> int (length (sp_history sp))" by (rule generation_le_latest [OF assms(1) that])
    ultimately show ?thesis using x by simp
  qed
  then have "sp_accepted x = sp_accepted sp \<longrightarrow> pending_of x = Some c"
    using implements_accepted [OF assms(1)] latest by (auto simp: pending_of_def split: option.splits)
  moreover have "sp_accepted x = Some c \<longrightarrow> pending_of x = None" using latest by (simp add: pending_of_def)
  ultimately show thesis using that [OF imp same c latest] x by blast
qed


section \<open>Permits\<close>

lemma match_fields_iff:
  "match_fields es os = Inr () \<longleftrightarrow> (\<forall>(k, v)\<in>set es. map_of os k = Some v)"
  by (induction es) (auto simp: result_simps)

lemma matches_expected:
  "match_fields (tl (permit_body (expected_permit L control cur a))) (permit_body p) = Inr () \<and> pm_schema p = PERMIT_SCHEMA
     \<longleftrightarrow> p\<lparr>pm_permit_digest := []\<rparr> = expected_permit L control cur a"
  unfolding match_fields_iff by (cases p) (auto simp: permit_body_def expected_permit_def)

lemma permit_digest_unsealed [simp]: "permit_digest E (p\<lparr>pm_permit_digest := d\<rparr>) = permit_digest E p"
  by (simp add: permit_digest_def permit_body_def)

text \<open>A permit minted from a reconstruction of the stores is the expected one, sealed.\<close>

lemma minted_is_expected:
  assumes "implements E L sp" "sp_accepted sp = Some a" "subject_row L = Some r"
    and "mint_permit E (found L sp control was) L = Inr p"
  shows "p\<lparr>pm_permit_digest := []\<rparr> = expected_permit L control (snapshot_of r) a \<and> permit_digest E p = Inr (pm_permit_digest p)"
proof -
  have mem: "a \<in> set (sp_history sp)" using implements_accepted [OF assms(1,2)] by blast
  obtain c where c: "latest_of sp = Some c" "c \<in> set (sp_history sp)"
    using mem by (cases "sp_history sp = []") (auto simp: latest_of_def)
  have "cp_checkpoint_id c = cp_checkpoint_id a \<longrightarrow> cp_generation c = cp_generation a"
    using history_inj(2) [OF assms(1) c(2) mem] by auto
  then obtain d where "permit_digest E (expected_permit L control (snapshot_of r) a) = Inr d"
      "p = (expected_permit L control (snapshot_of r) a)\<lparr>pm_permit_digest := d\<rparr>"
    using assms(2-4) c(1) current_is(2) [OF assms(1,3)] digest_in_history(2) [OF assms(1) mem]
    by (cases "cp_checkpoint_id c = cp_checkpoint_id a")
      (auto simp: mint_permit_def result_simps expected_permit_def Let_def)
  moreover have "(expected_permit L control (snapshot_of r) a)\<lparr>pm_permit_digest := []\<rparr> = expected_permit L control (snapshot_of r) a"
    by (simp add: expected_permit_def)
  ultimately show ?thesis by simp
qed

lemma accepted_status:
  "spec_status sp memory_head control was \<in> {''ACCEPTED_CURRENT'', ''ACCEPTED_RECONCILED''} \<longleftrightarrow>
     pending_of sp = None \<and> (\<exists>a. sp_accepted sp = Some a \<and> cp_control_source_digest a = control \<and>
       cp_memory_head_digest a = memory_head)"
  by (auto simp: spec_status_def pending_status_def split: option.splits)

lemma minted_from:
  "mint_permit E state L = Inr p \<Longrightarrow> rc_status state \<in> {''ACCEPTED_CURRENT'', ''ACCEPTED_RECONCILED''} \<and>
     rc_accepted_checkpoint_id state \<noteq> None"
  by (auto simp: mint_permit_def result_simps)

lemma permit_valid_iff:
  assumes "implements E L sp"
  shows "validate_action_permit E control p L = Inr q \<longleftrightarrow>
    q = p \<and> assert_outbound_integrity E L = Inr () \<and> pending_of sp = None \<and>
    permit_digest E p = Inr (pm_permit_digest p) \<and>
    (\<exists>a r. sp_accepted sp = Some a \<and> subject_row L = Some r \<and> cp_control_source_digest a = control \<and>
       cp_memory_head_digest a = ld_head (lf_memory L) \<and>
       p\<lparr>pm_permit_digest := []\<rparr> = expected_permit L control (snapshot_of r) a)"
proof (cases "assert_outbound_integrity E L = Inr ()")
  case True
  note rec = reconstruct_reads_only [OF assms True, of False control]
  show ?thesis
  proof (cases "sp_accepted sp")
    case None
    then show ?thesis using True rec
      by (auto simp: validate_action_permit_def result_simps spec_status_def pending_status_def split: option.splits if_splits)
  next
    case (Some a)
    obtain r where a: "a \<in> set (sp_history sp)" "subject_row L = Some r" using implements_accepted [OF assms Some] by blast
    have st: "spec_status sp (ld_head (lf_memory L)) control False = ''ACCEPTED_CURRENT'' \<longleftrightarrow>
        pending_of sp = None \<and> cp_control_source_digest a = control \<and> cp_memory_head_digest a = ld_head (lf_memory L)"
      using Some by (auto simp: spec_status_def pending_status_def split: option.splits)
    show ?thesis
      using True rec Some a(2) st digest_in_history(2) [OF assms a(1)] current_is(2) [OF assms a(2)]
        matches_expected [of L control "snapshot_of r" a p]
      by (auto simp: validate_action_permit_def result_simps)
  qed
qed (auto simp: validate_action_permit_def result_simps)

text \<open>
  C12: A permit is worth exactly the accepted state it names. \<^verbatim>\<open>validate_action_permit\<close>
  accepts a permit if and only if the effect audit is consistent, no candidate is newer than
  the accepted checkpoint, the control source and the live memory head are those of that
  checkpoint, every field of the permit is that of the accepted checkpoint, of the published
  currentness and of the journal head, and the permit's digest is that of its fields.
\<close>

theorem permit_exact:
  assumes "implements E L sp"
  shows "validate_action_permit E control p L = Inr q \<longleftrightarrow>
    q = p \<and> assert_outbound_integrity E L = Inr () \<and> pending_of sp = None \<and>
    permit_digest E p = Inr (pm_permit_digest p) \<and>
    (\<exists>a r. sp_accepted sp = Some a \<and> subject_row L = Some r \<and> cp_control_source_digest a = control \<and>
       cp_memory_head_digest a = ld_head (lf_memory L) \<and>
       p\<lparr>pm_permit_digest := []\<rparr> = expected_permit L control (snapshot_of r) a)"
  using assms by (rule permit_valid_iff)

text \<open>
  A minted permit is good where it was minted. What \<^verbatim>\<open>accepted_action_permit\<close>
  returns is accepted by \<^verbatim>\<open>validate_action_permit\<close> in the stores it leaves, also when
  it had to note a publication first; and it is only minted while no effect is unresolved.
\<close>

lemma minted_permit_validates:
  assumes "implements E L sp" "iso_stable E" "jn_sequence (lf_journal L) < MAX_SAFE_INTEGER"
    and "accepted_action_permit E control L = (Inr p, tr)"
  shows "validate_action_permit E control p (left_at L tr) = Inr p \<and> assert_effects_clear L = Inr ()"
proof -
  obtain state where g: "assert_effects_clear L = Inr ()" "assert_outbound_integrity E L = Inr ()"
    and state: "reconstruct E control True L = (Inr state, tr)" and m: "mint_permit E state (left_at L tr) = Inr p"
    using assms(4) unfolding accepted_action_permit_def act_bind_Inr act_read_eq rbind_Inr_iff left_at_simps by auto
  let ?t = "left_at L tr" and ?sp = "spec_reconstruct sp"
  have t: "state = found ?t ?sp control (?sp \<noteq> sp)" "implements E ?t ?sp" "same_stores L ?t"
    using reconstruct_implements [OF assms(1,2) g(2) assms(3), of control] state by auto
  obtain a where a: "sp_accepted ?sp = Some a"
    using minted_from [OF m] t(1) by auto
  obtain r where r: "subject_row ?t = Some r" and mem: "a \<in> set (sp_history ?sp)"
    using implements_accepted [OF t(2) a] by blast
  have st: "pending_of ?sp = None" "cp_control_source_digest a = control" "cp_memory_head_digest a = ld_head (lf_memory ?t)"
    using minted_from [OF m] a unfolding t(1) found_simps accepted_status by simp_all
  have "p\<lparr>pm_permit_digest := []\<rparr> = expected_permit ?t control (snapshot_of r) a \<and> permit_digest E p = Inr (pm_permit_digest p)"
    using minted_is_expected [OF t(2) a r] m t(1) by blast
  then show ?thesis
    using permit_valid_iff [OF t(2), of control p p] st a r integrity_same [OF t(3)] g by simp
qed

text \<open>
  A permit dies with the first transaction of the next checkpoint. A permit that
  validates is refused at every state that a checkpoint with a new id commits, whether it
  is interrupted, blocked or completed, and whatever control source is installed then.
\<close>

lemma permit_dies_with_checkpoint:
  assumes "implements E L sp" "iso_stable E" "validate_action_permit E control p L = Inr p"
    and "cc_checkpoint_id call \<notin> cp_checkpoint_id ` set (sp_history sp)"
  shows "\<forall>t\<in>set (snd (checkpoint_unlocked E control' call L)). \<not> ok (validate_action_permit E control' p t)"
proof (intro ballI notI)
  fix t assume t: "t \<in> set (snd (checkpoint_unlocked E control' call L))" and "ok (validate_action_permit E control' p t)"
  then obtain q where q: "validate_action_permit E control' p t = Inr q" by blast
  obtain c x where x: "implements E t x" "cp_checkpoint_id c = cc_checkpoint_id call"
    "sp_accepted x = sp_accepted sp \<and> pending_of x = Some c \<or> sp_accepted x = Some c \<and> pending_of x = None"
    using crash_state [OF assms(1,2,4) t] by metis
  obtain a r where a: "sp_accepted x = Some a" "pending_of x = None"
    "p\<lparr>pm_permit_digest := []\<rparr> = expected_permit t control' (snapshot_of r) a"
    using q unfolding permit_valid_iff [OF x(1)] by blast
  obtain a0 r0 where a0: "sp_accepted sp = Some a0" "p\<lparr>pm_permit_digest := []\<rparr> = expected_permit L control (snapshot_of r0) a0"
    using assms(3) unfolding permit_valid_iff [OF assms(1)] by blast
  have "pm_checkpoint_id p = cp_checkpoint_id a" "pm_checkpoint_id p = cp_checkpoint_id a0"
    using arg_cong [OF a(3), of pm_checkpoint_id] arg_cong [OF a0(2), of pm_checkpoint_id] by (simp_all add: expected_permit_def)
  moreover have "a = c" using x(3) a(1,2) by auto
  moreover have "a0 \<in> set (sp_history sp)" using implements_accepted [OF assms(1) a0(1)] by blast
  ultimately show False using assms(4) x(2) by (metis imageI)
qed

section \<open>A concrete lifecycle\<close>

definition demo_start :: lifecycle where
  "demo_start = \<lparr>lf_memory = sample_ledger\<lparr>ld_head := hex64 CHR ''a''\<rparr>, lf_checkpoints = sample_store, lf_currentness = [],
     lf_project_id = ''vera'', lf_identity_id = ''id'', lf_subject_id = ''vera-runtime'', lf_fence = None, lf_audit = None,
     lf_journal = open_journal [] None\<rparr>"

definition demo_call :: checkpoint_call where
  "demo_call = \<lparr>cc_checkpoint_id = ''k1'', cc_runtime_id = ''rt'', cc_expected_memory_head = hex64 CHR ''a'',
     cc_expected_checkpoint_head = genesis_digest, cc_expected_generation = None, cc_commitments = [''keep''],
     cc_unfinished_work = [], cc_baseline = None, cc_policy = None, cc_created_at = None,
     cc_now = ''2026-01-01T00:00:00+00:00''\<rparr>"

abbreviation empty_spec :: lifecycle_spec where
  "empty_spec \<equiv> \<lparr>sp_history = [], sp_accepted = None, sp_events = []\<rparr>"

lemma demo_start_implements: "implements E demo_start empty_spec"
  using open_journal_ok [of E] sample_store_ok
  by (simp add: implements_def demo_start_def open_journal_def sample_store_def)

lemma demo_start_guards: "checkpoint_guards E demo_call demo_start = Inr ()" "assert_outbound_integrity E demo_start = Inr ()"
  using journal_ok_verifies [OF open_journal_ok]
  by (simp_all add: checkpoint_guards_def assert_effects_clear_def assert_outbound_integrity_def demo_start_def demo_call_def)

text \<open>Its first checkpoint is appended and published, and its publication noted.\<close>

lemma demo_checkpoint:
  obtains c S where "append_checkpoint E sample_store ''k1'' ''rt'' (hex64 CHR ''a'') (hex64 CHR ''b'') genesis_digest
      [''keep''] [] None ''2026-01-01T00:00:00+00:00'' = Inr (c, S)"
    "implements E (demo_start\<lparr>lf_checkpoints := S\<rparr>) \<lparr>sp_history = [c], sp_accepted = None, sp_events = []\<rparr>"
    "cp_checkpoint_id c = ''k1''" "cp_generation c = 1" "cp_memory_head_digest c = hex64 CHR ''a''"
    "cp_control_source_digest c = hex64 CHR ''b''"
proof -
  obtain c S where a: "append_checkpoint E sample_store ''k1'' ''rt'' (hex64 CHR ''a'') (hex64 CHR ''b'') genesis_digest
      [''keep''] [] None ''2026-01-01T00:00:00+00:00'' = Inr (c, S)" using sample_append by blast
  then have "append_checkpoint E (lf_checkpoints demo_start) ''k1'' ''rt'' (hex64 CHR ''a'') (hex64 CHR ''b'') genesis_digest
      [''keep''] [] None ''2026-01-01T00:00:00+00:00'' = Inr (c, S)" by (simp add: demo_start_def)
  from checkpoint_adopted [OF demo_start_implements this] a show thesis by (auto simp: adopt_def intro: that)
qed

lemma demo_publish:
  assumes "cp_generation c = 1"
  shows "ok (publish E [] ''vera-runtime'' (JObj (candidate_values L c)) None)"
proof -
  have p: "plain_json (JObj (candidate_values L c))" unfolding plain_candidate using assms by (simp add: MAX_SAFE_INTEGER_def)
  have "plain_json (snapshot_body s 0 d)" for s d by (simp add: snapshot_body_def plain_eval)
  then show ?thesis by (simp add: publish_def Let_def canonical_text [OF p] canonical_digest_of)
qed

lemma demo_accepted:
  obtains L c where "implements E L \<lparr>sp_history = [c], sp_accepted = Some c, sp_events = []\<rparr>"
    "cp_checkpoint_id c = ''k1''" "cp_generation c = 1" "cp_memory_head_digest c = hex64 CHR ''a''"
    "cp_control_source_digest c = hex64 CHR ''b''" "same_stores demo_start L" "lf_journal L = open_journal [] None"
proof -
  obtain c S where c: "implements E (demo_start\<lparr>lf_checkpoints := S\<rparr>) \<lparr>sp_history = [c], sp_accepted = None, sp_events = []\<rparr>"
    "cp_checkpoint_id c = ''k1''" "cp_generation c = 1" "cp_memory_head_digest c = hex64 CHR ''a''"
    "cp_control_source_digest c = hex64 CHR ''b''" by (rule demo_checkpoint [of E])
  let ?L = "demo_start\<lparr>lf_checkpoints := S\<rparr>"
  obtain cur C where C: "publish E (lf_currentness ?L) (lf_subject_id ?L) (JObj (candidate_values ?L c)) None = Inr (cur, C)"
    using demo_publish [OF c(3), of E ?L] by (auto simp: demo_start_def)
  from candidate_published(1) [OF c(1) _ C] show thesis
    by (intro that [of "?L\<lparr>lf_currentness := C\<rparr>" c] c(2-5)) (simp_all add: accept_def same_stores_def demo_start_def)
qed

lemma demo_noted:
  assumes "iso_stable E"
  obtains L c where "implements E L \<lparr>sp_history = [c], sp_accepted = Some c, sp_events = [(''k1'', ''CURRENTNESS_COMMITTED'')]\<rparr>"
    "cp_checkpoint_id c = ''k1''" "cp_generation c = 1" "cp_memory_head_digest c = hex64 CHR ''a''"
    "cp_control_source_digest c = hex64 CHR ''b''" "same_stores demo_start L" "jn_sequence (lf_journal L) = 1"
proof -
  obtain L c where c: "implements E L \<lparr>sp_history = [c], sp_accepted = Some c, sp_events = []\<rparr>"
    "cp_checkpoint_id c = ''k1''" "cp_generation c = 1" "cp_memory_head_digest c = hex64 CHR ''a''"
    "cp_control_source_digest c = hex64 CHR ''b''" "same_stores demo_start L" "lf_journal L = open_journal [] None"
    by (rule demo_accepted [of E])
  have "plain_json (event_body 1 ''k1'' ''CURRENTNESS_COMMITTED'' p (JObj []))" for p
    by (simp add: event_body_def plain_eval)
  then obtain ev J where J: "journal_append E (lf_journal L) ''k1'' ''CURRENTNESS_COMMITTED'' [] = Inr (ev, J)" "jn_sequence J = 1"
    by (simp add: c(7) journal_append_def open_journal_def find_event_def canonical_text canonical_digest_of Let_def)
  from journal_append_notes [OF c(1) assms J(1)] show thesis
    by (intro that [of "L\<lparr>lf_journal := J\<rparr>" c] c(2-5)) (use J(2) c(6) in \<open>simp_all add: noted_def same_stores_def\<close>)
qed

lemma demo_integrity:
  "same_stores demo_start L \<Longrightarrow> assert_outbound_integrity E L = Inr () \<and> assert_effects_clear L = Inr () \<and>
     ld_head (lf_memory L) = hex64 CHR ''a''"
  by (simp add: same_stores_def demo_start_def assert_outbound_integrity_def assert_effects_clear_def)

theorem reconstruct_refines_witness:
  "\<exists>L sp res tr. sp_accepted sp \<noteq> None \<and> reconstruct demo_env (hex64 CHR ''b'') True L = (res, tr) \<and>
    (res = Inl (L_journal Journal_integrity) \<or> implements demo_env (left_at L tr) (spec_reconstruct sp))"
proof -
  obtain L c where L: "implements demo_env L \<lparr>sp_history = [c], sp_accepted = Some c, sp_events = []\<rparr>"
    "same_stores demo_start L" "lf_journal L = open_journal [] None"
    by (rule demo_accepted [of demo_env])
  have seq: "jn_sequence (lf_journal L) < MAX_SAFE_INTEGER" using L(3) by (simp add: open_journal_def MAX_SAFE_INTEGER_def)
  have int: "assert_outbound_integrity demo_env L = Inr ()" using demo_integrity [OF L(2)] by blast
  show ?thesis
    using reconstruct_refines [OF L(1) demo_env_stable int seq, of "hex64 CHR ''b''"]
    by (intro exI [of _ L] exI [of _ "\<lparr>sp_history = [c], sp_accepted = Some c, sp_events = []\<rparr>"]) auto
qed

lemma demo_crash:
  obtains t where "t \<in> set (snd (checkpoint_unlocked E (hex64 CHR ''b'') demo_call demo_start))" "t \<noteq> demo_start"
    "lf_journal t = open_journal [] None"
proof -
  obtain c S where c: "append_checkpoint E sample_store ''k1'' ''rt'' (hex64 CHR ''a'') (hex64 CHR ''b'') genesis_digest
      [''keep''] [] None ''2026-01-01T00:00:00+00:00'' = Inr (c, S)"
    "implements E (demo_start\<lparr>lf_checkpoints := S\<rparr>) \<lparr>sp_history = [c], sp_accepted = None, sp_events = []\<rparr>"
    by (rule demo_checkpoint [of E])
  let ?t = "demo_start\<lparr>lf_checkpoints := S\<rparr>"
  have "append_candidate E (hex64 CHR ''b'') demo_call demo_start = (Inr c, [?t])"
    using c(1) by (simp add: append_candidate_def act_tx_def demo_start_def demo_call_def)
  then have "?t \<in> set (snd (checkpoint_unlocked E (hex64 CHR ''b'') demo_call demo_start))"
    by (simp add: checkpoint_unlocked_def act_bind_def act_read_def demo_start_guards(1) split: prod.split)
  moreover have "ks_rows (lf_checkpoints ?t) \<noteq> ks_rows (lf_checkpoints demo_start)"
    using implements_parts(5) [OF c(2)] implements_parts(5) [OF demo_start_implements [of E]] by simp
  then have "?t \<noteq> demo_start" by metis
  ultimately show thesis by (rule that) (simp add: demo_start_def)
qed

theorem checkpoint_refines_witness:
  "\<exists>c. cp_checkpoint_id c = ''k1'' \<and> follows demo_env demo_start (blocks demo_env demo_call demo_start c)
     (checkpoint_unlocked demo_env (hex64 CHR ''b'') demo_call demo_start)
     (checkpoint_trace empty_spec c (blocks demo_env demo_call demo_start c))"
proof -
  obtain t where "t \<in> set (snd (checkpoint_unlocked demo_env (hex64 CHR ''b'') demo_call demo_start))"
    by (rule demo_crash [of demo_env])
  then show ?thesis
    using checkpoint_refines [OF demo_start_implements demo_env_stable, of "hex64 CHR ''b''" demo_call]
    by (auto simp: demo_call_def)
qed


text \<open>A permit of the demonstration state.\<close>

lemma demo_permit:
  assumes "same_stores demo_start L" "implements E L sp" "sp_history sp = [c]" "sp_accepted sp = Some c"
    "cp_generation c = 1" "cp_memory_head_digest c = hex64 CHR ''a''" "cp_control_source_digest c = hex64 CHR ''b''"
  obtains p where "validate_action_permit E (hex64 CHR ''b'') p L = Inr p"
    "mint_permit E (found L sp (hex64 CHR ''b'') False) L = Inr p"
proof -
  obtain r where r: "subject_row L = Some r" "published E L c r" using implements_accepted [OF assms(2,4)] by blast
  let ?e = "expected_permit L (hex64 CHR ''b'') (snapshot_of r) c"
  have "\<bar>cr_generation r\<bar> \<le> MAX_SAFE_INTEGER"
    using r(2) canonical_digest_int [of E _ _ "''generation''" "cr_generation r"] unfolding published_def snapshot_body_def by auto
  then have "plain_json (JObj (permit_body ?e))"
    using assms(5) by (simp add: permit_body_def expected_permit_def snapshot_of_def plain_eval)
  then obtain d where d: "permit_digest E ?e = Inr d" by (simp add: permit_digest_def canonical_digest_of)
  let ?p = "?e\<lparr>pm_permit_digest := d\<rparr>"
  have pend: "pending_of sp = None" using assms(3,4) by (simp add: pending_of_def latest_of_def)
  have head: "assert_outbound_integrity E L = Inr ()" "ld_head (lf_memory L) = hex64 CHR ''a''"
    using demo_integrity [OF assms(1), of E] by blast+
  have "?p\<lparr>pm_permit_digest := []\<rparr> = ?e" "permit_digest E ?p = Inr (pm_permit_digest ?p)"
    using d by (simp_all add: expected_permit_def permit_digest_def permit_body_def)
  then have v: "validate_action_permit E (hex64 CHR ''b'') ?p L = Inr ?p"
    using permit_valid_iff [OF assms(2), of "hex64 CHR ''b''" ?p ?p] head pend assms(4,6,7) r(1) by simp
  have "mint_permit E (found L sp (hex64 CHR ''b'') False) L = Inr ?p"
    using d head pend assms(3-7) r(1) current_is(2) [OF assms(2) r(1)]
    by (simp add: mint_permit_def spec_status_def latest_of_def expected_permit_def Let_def)
  with v show thesis by (rule that)
qed

theorem permit_exact_witness:
  "\<exists>L p. validate_action_permit demo_env (hex64 CHR ''b'') p L = Inr p \<and> pm_checkpoint_id p = ''k1'' \<and>
    \<not> ok (validate_action_permit demo_env (hex64 CHR ''c'') p L)"
proof -
  obtain L c where c: "implements demo_env L \<lparr>sp_history = [c], sp_accepted = Some c, sp_events = []\<rparr>"
    "cp_checkpoint_id c = ''k1''" "cp_generation c = 1" "cp_memory_head_digest c = hex64 CHR ''a''"
    "cp_control_source_digest c = hex64 CHR ''b''" "same_stores demo_start L"
    by (rule demo_accepted [of demo_env])
  obtain p where p: "validate_action_permit demo_env (hex64 CHR ''b'') p L = Inr p"
    by (rule demo_permit [OF c(6,1) _ _ c(3-5)]) simp_all
  obtain r where "p\<lparr>pm_permit_digest := []\<rparr> = expected_permit L (hex64 CHR ''b'') (snapshot_of r) c"
    using p unfolding permit_exact [OF c(1)] by auto
  from arg_cong [OF this, of pm_checkpoint_id] have "pm_checkpoint_id p = ''k1''"
    using c(2) by (simp add: expected_permit_def)
  moreover have "validate_action_permit demo_env (hex64 CHR ''c'') p L \<noteq> Inr q" for q
    using c(5) unfolding permit_exact [OF c(1)] by (auto simp: hex64_def)
  ultimately show ?thesis using p by blast
qed

lemma minted_permit_validates_witness:
  "\<exists>L p. accepted_action_permit demo_env (hex64 CHR ''b'') L = (Inr p, []) \<and>
    validate_action_permit demo_env (hex64 CHR ''b'') p L = Inr p"
proof -
  obtain L c where c: "implements demo_env L \<lparr>sp_history = [c], sp_accepted = Some c, sp_events = [(''k1'', ''CURRENTNESS_COMMITTED'')]\<rparr>"
    "cp_checkpoint_id c = ''k1''" "cp_generation c = 1" "cp_memory_head_digest c = hex64 CHR ''a''"
    "cp_control_source_digest c = hex64 CHR ''b''" "same_stores demo_start L" "jn_sequence (lf_journal L) = 1"
    by (rule demo_noted [OF demo_env_stable])
  let ?sp = "\<lparr>sp_history = [c], sp_accepted = Some c, sp_events = [(''k1'', ''CURRENTNESS_COMMITTED'')]\<rparr>"
  obtain p where p: "mint_permit demo_env (found L ?sp (hex64 CHR ''b'') False) L = Inr p"
    by (rule demo_permit [OF c(6,1) _ _ c(3-5)]) simp_all
  have same: "spec_reconstruct ?sp = ?sp" using c(2) by (simp add: spec_reconstruct_def is_recorded_def)
  have clear: "assert_outbound_integrity demo_env L = Inr ()" "assert_effects_clear L = Inr ()"
    using demo_integrity [OF c(6)] by blast+
  have seq: "jn_sequence (lf_journal L) < MAX_SAFE_INTEGER" using c(7) by (simp add: MAX_SAFE_INTEGER_def)
  have "accepted_action_permit demo_env (hex64 CHR ''b'') L = (Inr p, [])"
    using reconstruct_reads_only [OF c(1) clear(1), of True "hex64 CHR ''b''"] p clear same
    by (simp add: accepted_action_permit_def act_bind_def act_read_def)
  with minted_permit_validates [OF c(1) demo_env_stable seq this] show ?thesis by (metis left_at_simps(1))
qed

lemma permit_dies_with_checkpoint_witness:
  "\<exists>L p. validate_action_permit demo_env (hex64 CHR ''b'') p L = Inr p \<and>
    (\<forall>t\<in>set (snd (checkpoint_unlocked demo_env (hex64 CHR ''b'') (demo_call\<lparr>cc_checkpoint_id := ''k2''\<rparr>) L)).
       \<not> ok (validate_action_permit demo_env (hex64 CHR ''b'') p t))"
proof -
  obtain L c where c: "implements demo_env L \<lparr>sp_history = [c], sp_accepted = Some c, sp_events = []\<rparr>"
    "cp_checkpoint_id c = ''k1''" "cp_generation c = 1" "cp_memory_head_digest c = hex64 CHR ''a''"
    "cp_control_source_digest c = hex64 CHR ''b''" "same_stores demo_start L"
    by (rule demo_accepted [of demo_env])
  obtain p where p: "validate_action_permit demo_env (hex64 CHR ''b'') p L = Inr p"
    by (rule demo_permit [OF c(6,1) _ _ c(3-5)]) simp_all
  have "cc_checkpoint_id (demo_call\<lparr>cc_checkpoint_id := ''k2''\<rparr>) \<notin>
      cp_checkpoint_id ` set (sp_history \<lparr>sp_history = [c], sp_accepted = Some c, sp_events = []\<rparr>)"
    using c(2) by simp
  from permit_dies_with_checkpoint [OF c(1) demo_env_stable p this] p show ?thesis by blast
qed

end
