(* ===== verification/PC_Times.thy ===== *)
theory PC_Times
  imports PC_Contract
begin

text \<open>
  The order of the timestamps of the PC contracts. \<^verbatim>\<open>datetime\<close> values are compared,
  and subtracted, as points in time: the proleptic Gregorian ordinal of the day and the
  microseconds in it, as the standard library computes them. One of the checks
  (\<^verbatim>\<open>validate_pc_authorization_binding\<close>) compares the texts instead; on texts the
  contract accepts that is the same.
\<close>

section \<open>Points in time\<close>

definition days_before_year :: "nat \<Rightarrow> nat" where
  "days_before_year y = (y - 1) * 365 + (y - 1) div 4 - (y - 1) div 100 + (y - 1) div 400"

definition days_before_month :: "nat \<Rightarrow> nat \<Rightarrow> nat" where
  "days_before_month y m = sum_list (map (days_in_month y) [1..<m])"

definition utc_ordinal :: "utc_time \<Rightarrow> nat" where
  "utc_ordinal t = days_before_year (t_year t) + days_before_month (t_year t) (t_month t) + t_day t"

definition utc_micros :: "utc_time \<Rightarrow> nat" where
  "utc_micros t =
     (((utc_ordinal t * 24 + t_hour t) * 60 + t_minute t) * 60 + t_second t) * 1000000 + t_micro t"

definition valid_time :: "utc_time \<Rightarrow> bool" where
  "valid_time t \<longleftrightarrow> 1 \<le> t_year t \<and> 1 \<le> t_month t \<and> t_month t \<le> 12 \<and> 1 \<le> t_day t \<and>
     t_day t \<le> days_in_month (t_year t) (t_month t) \<and> t_hour t < 24 \<and> t_minute t < 60 \<and>
     t_second t < 60 \<and> t_micro t < 1000000"

text \<open>The fields in the order of their weight.\<close>

definition earlier_fields :: "utc_time \<Rightarrow> utc_time \<Rightarrow> bool" where
  "earlier_fields t u \<longleftrightarrow>
     t_year t < t_year u \<or> t_year t = t_year u \<and> (t_month t < t_month u \<or> t_month t = t_month u \<and>
       (t_day t < t_day u \<or> t_day t = t_day u \<and> (t_hour t < t_hour u \<or> t_hour t = t_hour u \<and>
         (t_minute t < t_minute u \<or> t_minute t = t_minute u \<and> (t_second t < t_second u \<or>
            t_second t = t_second u \<and> t_micro t < t_micro u)))))"

section \<open>The calendar is monotone\<close>

lemma days_before_month_Suc: "1 \<le> m \<Longrightarrow> days_before_month y (Suc m) = days_before_month y m + days_in_month y m"
  by (simp add: days_before_month_def)

lemma days_before_month_mono: "m \<le> n \<Longrightarrow> 1 \<le> m \<Longrightarrow> days_before_month y m \<le> days_before_month y n"
  by (induction rule: dec_induct) (simp_all add: days_before_month_Suc le_add1 trans_le_add1)

lemma day_in_month:
  assumes "1 \<le> m" "m < n" "d \<le> days_in_month y m"
  shows "days_before_month y m + d \<le> days_before_month y n"
  using days_before_month_mono [of "Suc m" n y] assms by (simp add: days_before_month_Suc)

lemma year_length: "days_before_month y 13 = (if leap_year y then 366 else 365)"
  by (simp add: days_before_month_def upt_conv_Cons days_in_month_def)

lemma div_next: "0 < k \<Longrightarrow> Suc n div k = n div k + (if k dvd Suc n then 1 else 0)"
  for k n :: nat
  by (simp add: div_Suc dvd_eq_mod_eq_0)

lemma days_before_year_Suc:
  assumes "1 \<le> y"
  shows "days_before_year (Suc y) = days_before_year y + (if leap_year y then 366 else 365)"
proof -
  obtain n where y: "y = Suc n" using assms by (cases y) auto
  have "n div 100 \<le> n div 4" by (rule div_le_mono2) simp_all
  then obtain e where e: "n div 4 = n div 100 + e" using le_Suc_ex by blast
  have dvd: "400 dvd y \<Longrightarrow> 100 dvd y" "100 dvd y \<Longrightarrow> 4 dvd y"
    by (auto intro: dvd_trans [of 100 400] dvd_trans [of 4 100])
  have step: "y div 4 = n div 4 + (if 4 dvd y then 1 else 0)" "y div 100 = n div 100 + (if 100 dvd y then 1 else 0)"
    "y div 400 = n div 400 + (if 400 dvd y then 1 else 0)"
    unfolding y by (rule div_next; simp)+
  have "days_before_year (Suc y) = y * 365 + y div 4 - y div 100 + y div 400" by (simp add: days_before_year_def)
  also have "\<dots> = n * 365 + n div 4 - n div 100 + n div 400 + (if leap_year y then 366 else 365)"
    unfolding step leap_year_def e using dvd y by (cases "400 dvd y"; cases "100 dvd y"; cases "4 dvd y") simp_all
  also have "n * 365 + n div 4 - n div 100 + n div 400 = days_before_year y" by (simp add: days_before_year_def y)
  finally show ?thesis .
qed

lemma days_before_year_mono: "y \<le> z \<Longrightarrow> 1 \<le> y \<Longrightarrow> days_before_year y \<le> days_before_year z"
  by (induction rule: dec_induct) (simp_all add: days_before_year_Suc trans_le_add1)

lemma ordinal_in_year:
  assumes "valid_time t"
  shows "days_before_year (t_year t) < utc_ordinal t" "utc_ordinal t \<le> days_before_year (Suc (t_year t))"
proof -
  show "days_before_year (t_year t) < utc_ordinal t" using assms by (simp add: utc_ordinal_def valid_time_def)
  have "days_before_month (t_year t) (t_month t) + t_day t \<le> days_before_month (t_year t) 13"
    using assms by (intro day_in_month) (simp_all add: valid_time_def)
  then show "utc_ordinal t \<le> days_before_year (Suc (t_year t))"
    using assms by (simp add: utc_ordinal_def days_before_year_Suc year_length valid_time_def)
qed

lemma ordinal_less:
  assumes "valid_time t" "valid_time u"
    and "t_year t < t_year u \<or> t_year t = t_year u \<and> (t_month t < t_month u \<or> t_month t = t_month u \<and> t_day t < t_day u)"
  shows "utc_ordinal t < utc_ordinal u"
  using assms(3)
proof (elim disjE conjE)
  assume "t_year t < t_year u"
  then have "days_before_year (Suc (t_year t)) \<le> days_before_year (t_year u)"
    using assms(1) by (intro days_before_year_mono) (simp_all add: valid_time_def)
  then show ?thesis using ordinal_in_year(2) [OF assms(1)] ordinal_in_year(1) [OF assms(2)] by simp
next
  assume y: "t_year t = t_year u" and "t_month t < t_month u"
  then have "days_before_month (t_year t) (t_month t) + t_day t \<le> days_before_month (t_year t) (t_month u)"
    using assms(1) by (intro day_in_month) (simp_all add: valid_time_def)
  then show ?thesis using y assms(2) by (simp add: utc_ordinal_def valid_time_def)
qed (simp add: utc_ordinal_def)

lemma mixed_less:
  fixes a b c d k :: nat
  assumes "b < k" "d < k"
  shows "a * k + b < c * k + d \<longleftrightarrow> a < c \<or> a = c \<and> b < d"
proof -
  have "a * k + b < c * k + d" if "a < c"
  proof -
    have "Suc a * k \<le> c * k" using that by (intro mult_le_mono1) simp
    then show ?thesis using assms(1) by simp
  qed
  moreover have "c * k + d < a * k + b" if "c < a"
  proof -
    have "Suc c * k \<le> a * k" using that by (intro mult_le_mono1) simp
    then show ?thesis using assms(2) by simp
  qed
  ultimately show ?thesis by (cases a c rule: linorder_cases) auto
qed

lemma micros_less_iff:
  assumes "valid_time t" "valid_time u"
  shows "utc_micros t < utc_micros u \<longleftrightarrow> earlier_fields t u"
proof -
  have bounds: "t_hour t < 24" "t_hour u < 24" "t_minute t < 60" "t_minute u < 60" "t_second t < 60" "t_second u < 60"
    "t_micro t < 1000000" "t_micro u < 1000000"
    using assms by (simp_all add: valid_time_def)
  let ?d = "\<lambda>t u. t_year t < t_year u \<or> t_year t = t_year u \<and> (t_month t < t_month u \<or> t_month t = t_month u \<and> t_day t < t_day u)"
  have lin: "?d t u \<or> ?d u t \<or> t_year t = t_year u \<and> t_month t = t_month u \<and> t_day t = t_day u" by arith
  have same: "utc_ordinal t = utc_ordinal u" if "t_year t = t_year u" "t_month t = t_month u" "t_day t = t_day u"
    using that by (simp add: utc_ordinal_def)
  have ord: "utc_ordinal t < utc_ordinal u \<longleftrightarrow> ?d t u"
    using ordinal_less [OF assms] ordinal_less [OF assms(2,1)] same lin by (metis less_asym less_irrefl)
  have eq: "utc_ordinal t = utc_ordinal u \<longleftrightarrow> t_year t = t_year u \<and> t_month t = t_month u \<and> t_day t = t_day u"
    using ordinal_less [OF assms] ordinal_less [OF assms(2,1)] same lin by (metis less_irrefl)
  have h: "a * 24 + t_hour t = b * 24 + t_hour u \<longleftrightarrow> a = b \<and> t_hour t = t_hour u" for a b
    using mixed_less [OF bounds(1,2), of a b] mixed_less [OF bounds(2,1), of b a] by (metis nat_neq_iff)
  have m: "a * 60 + t_minute t = b * 60 + t_minute u \<longleftrightarrow> a = b \<and> t_minute t = t_minute u" for a b
    using mixed_less [OF bounds(3,4), of a b] mixed_less [OF bounds(4,3), of b a] by (metis nat_neq_iff)
  have s: "a * 60 + t_second t = b * 60 + t_second u \<longleftrightarrow> a = b \<and> t_second t = t_second u" for a b
    using mixed_less [OF bounds(5,6), of a b] mixed_less [OF bounds(6,5), of b a] by (metis nat_neq_iff)
  show ?thesis
    unfolding utc_micros_def mixed_less [OF bounds(7,8)] mixed_less [OF bounds(5,6)] mixed_less [OF bounds(3,4)]
      mixed_less [OF bounds(1,2)] h m s ord eq earlier_fields_def
    by auto
qed

section \<open>The order of the texts\<close>

lemma lex_append:
  fixes a b :: "'a::linorder list"
  assumes "length a = length b"
  shows "a @ x < b @ y \<longleftrightarrow> a < b \<or> a = b \<and> x < y"
  using assms by (induction a b rule: list_induct2) auto

lemma read_nat_Cons: "read_nat (d # ds) = digit_val d * 10 ^ length ds + read_nat ds"
  by (induction ds rule: rev_induct) (simp_all add: read_nat_append read_nat_def algebra_simps)

lemma read_nat_bound: "list_all is_digit ds \<Longrightarrow> read_nat ds < 10 ^ length ds"
proof (induction ds)
  case (Cons d ds)
  then have d: "digit_val d \<le> 9" "read_nat ds < 10 ^ length ds" by (auto simp: digit_val_def is_digit_def)
  then have "digit_val d * 10 ^ length ds \<le> 9 * 10 ^ length ds" by (intro mult_le_mono1)
  then have "digit_val d * 10 ^ length ds + read_nat ds < 9 * 10 ^ length ds + 10 ^ length ds" using d(2) by (rule add_le_less_mono)
  then show ?case by (simp add: read_nat_Cons)
qed (simp add: read_nat_def)

lemma char_less_code: "c < d \<longleftrightarrow> code c < code d" for c d :: char
  by (simp add: less_char_def)

lemma digits_order:
  assumes "length a = length b" "list_all is_digit a" "list_all is_digit b"
  shows "a < b \<longleftrightarrow> read_nat a < read_nat b" "a = b \<longleftrightarrow> read_nat a = read_nat b"
proof -
  have "(a < b \<longleftrightarrow> read_nat a < read_nat b) \<and> (a = b \<longleftrightarrow> read_nat a = read_nat b)"
    using assms
  proof (induction a b rule: list_induct2)
    case (Cons c cs d ds)
    then have IH: "cs < ds \<longleftrightarrow> read_nat cs < read_nat ds" "cs = ds \<longleftrightarrow> read_nat cs = read_nat ds" by simp_all
    have val: "c < d \<longleftrightarrow> digit_val c < digit_val d"
      using Cons.prems by (auto simp: char_less_code digit_val_def is_digit_def)
    have val': "digit_val d < digit_val c \<longleftrightarrow> d < c"
      using Cons.prems by (auto simp: char_less_code digit_val_def is_digit_def)
    have same: "c = d \<longleftrightarrow> digit_val c = digit_val d" using val val' by (metis less_irrefl neq_iff)
    have "read_nat cs < 10 ^ length ds" "read_nat ds < 10 ^ length ds"
      using read_nat_bound [of cs] read_nat_bound [of ds] Cons.prems Cons.hyps by simp_all
    note mix = mixed_less [OF this] mixed_less [OF this(2,1)]
    have "read_nat (c # cs) < read_nat (d # ds) \<longleftrightarrow> c # cs < d # ds"
      using mix(1) [of "digit_val c" "digit_val d"] IH val same Cons.hyps by (simp add: read_nat_Cons)
    moreover have "read_nat (c # cs) = read_nat (d # ds) \<longleftrightarrow> c # cs = d # ds"
      using mix(1) [of "digit_val c" "digit_val d"] mix(2) [of "digit_val d" "digit_val c"] IH same Cons.hyps
      by (simp add: read_nat_Cons) (metis nat_neq_iff)
    ultimately show ?case by blast
  qed (simp add: read_nat_def)
  then show "a < b \<longleftrightarrow> read_nat a < read_nat b" "a = b \<longleftrightarrow> read_nat a = read_nat b" by blast+
qed

text \<open>A text of the contract's shape is its seven numbers with the separators between them.\<close>

definition text_part :: "string \<Rightarrow> nat \<Rightarrow> nat \<Rightarrow> string" where
  "text_part v i n = take n (drop i v)"

lemma text_part_digits:
  assumes "rfc3339_micro_utc v" "\<forall>j\<in>set [i..<i + n]. j \<notin> {4, 7, 10, 13, 16, 19, 26}" "i + n \<le> 27"
  shows "list_all is_digit (text_part v i n)" "length (text_part v i n) = n"
proof -
  have len: "length v = 27" using assms(1) by (simp add: rfc3339_micro_utc_def)
  then show "length (text_part v i n) = n" using assms(3) by (simp add: text_part_def)
  have "is_digit (v ! (i + k))" if "k < n" for k
  proof -
    have k: "i + k \<in> set [i..<i + n]" "i + k \<in> set [0..<27]" using that assms(3) by auto
    have "i + k \<notin> {4, 7, 10, 13, 16, 19, 26}" using assms(2) k(1) by blast
    then show ?thesis using assms(1) k(2) unfolding rfc3339_micro_utc_def by simp
  qed
  then show "list_all is_digit (text_part v i n)"
    using len assms(3) by (auto simp: list_all_length text_part_def)
qed

lemma split_part: "drop i v = text_part v i n @ drop (i + n) v"
  unfolding text_part_def drop_drop [symmetric, of n] by (metis add.commute append_take_drop_id drop_drop)

lemma separator_at:
  assumes "rfc3339_micro_utc v" "i < 27"
  shows "i \<in> {4, 7} \<Longrightarrow> v ! i = CHR ''-''" "i = 10 \<Longrightarrow> v ! i = CHR ''T''" "i \<in> {13, 16} \<Longrightarrow> v ! i = CHR '':''"
    "i = 19 \<Longrightarrow> v ! i = CHR ''.''" "i = 26 \<Longrightarrow> v ! i = CHR ''Z''"
proof -
  have "i \<in> set [0..<27]" using assms(2) by simp
  note this [THEN bspec [OF conjunct2 [OF assms(1) [unfolded rfc3339_micro_utc_def]]]]
  then show "i \<in> {4, 7} \<Longrightarrow> v ! i = CHR ''-''" "i = 10 \<Longrightarrow> v ! i = CHR ''T''" "i \<in> {13, 16} \<Longrightarrow> v ! i = CHR '':''"
    "i = 19 \<Longrightarrow> v ! i = CHR ''.''" "i = 26 \<Longrightarrow> v ! i = CHR ''Z''" by auto
qed

lemma separators:
  assumes "rfc3339_micro_utc v"
  shows "drop 4 v = CHR ''-'' # drop 5 v" "drop 7 v = CHR ''-'' # drop 8 v" "drop 10 v = CHR ''T'' # drop 11 v"
    "drop 13 v = CHR '':'' # drop 14 v" "drop 16 v = CHR '':'' # drop 17 v" "drop 19 v = CHR ''.'' # drop 20 v"
    "drop 26 v = [CHR ''Z'']"
proof -
  have len: "length v = 27" using assms by (simp add: rfc3339_micro_utc_def)
  note sep = separator_at [OF assms]
  show "drop 4 v = CHR ''-'' # drop 5 v" using Cons_nth_drop_Suc [of 4 v] len sep by simp
  show "drop 7 v = CHR ''-'' # drop 8 v" using Cons_nth_drop_Suc [of 7 v] len sep by simp
  show "drop 10 v = CHR ''T'' # drop 11 v" using Cons_nth_drop_Suc [of 10 v] len sep by simp
  show "drop 13 v = CHR '':'' # drop 14 v" using Cons_nth_drop_Suc [of 13 v] len sep by simp
  show "drop 16 v = CHR '':'' # drop 17 v" using Cons_nth_drop_Suc [of 16 v] len sep by simp
  show "drop 19 v = CHR ''.'' # drop 20 v" using Cons_nth_drop_Suc [of 19 v] len sep by simp
  show "drop 26 v = [CHR ''Z'']" using Cons_nth_drop_Suc [of 26 v] len sep by simp
qed

lemma micro_text:
  assumes "rfc3339_micro_utc v"
  shows "v = text_part v 0 4 @ CHR ''-'' # text_part v 5 2 @ CHR ''-'' # text_part v 8 2 @ CHR ''T'' #
    text_part v 11 2 @ CHR '':'' # text_part v 14 2 @ CHR '':'' # text_part v 17 2 @ CHR ''.'' # text_part v 20 6 @ [CHR ''Z'']"
proof -
  note sep = separators [OF assms]
  have "v = text_part v 0 4 @ drop 4 v" using split_part [of 0 v 4] by simp
  moreover have "drop 5 v = text_part v 5 2 @ drop 7 v" "drop 8 v = text_part v 8 2 @ drop 10 v"
    "drop 11 v = text_part v 11 2 @ drop 13 v" "drop 14 v = text_part v 14 2 @ drop 16 v"
    "drop 17 v = text_part v 17 2 @ drop 19 v" "drop 20 v = text_part v 20 6 @ drop 26 v"
    using split_part [of 5 v 2] split_part [of 8 v 2] split_part [of 11 v 2] split_part [of 14 v 2]
      split_part [of 17 v 2] split_part [of 20 v 6] by simp_all
  ultimately show ?thesis using sep by metis
qed

definition time_of_text :: "string \<Rightarrow> utc_time" where
  "time_of_text v = \<lparr>t_year = read_nat (text_part v 0 4), t_month = read_nat (text_part v 5 2),
     t_day = read_nat (text_part v 8 2), t_hour = read_nat (text_part v 11 2), t_minute = read_nat (text_part v 14 2),
     t_second = read_nat (text_part v 17 2), t_micro = read_nat (text_part v 20 6)\<rparr>"

lemma utc_microseconds_Inr:
  "utc_microseconds v f = Inr t \<longleftrightarrow> rfc3339_micro_utc v \<and> t = time_of_text v \<and> valid_time t"
proof -
  have "read_nat (text_part v 20 6) < 1000000" if "rfc3339_micro_utc v"
    using read_nat_bound [OF text_part_digits(1) [OF that, of 20 6]] text_part_digits(2) [OF that, of 20 6]
    by (simp add: upt_rec)
  then show ?thesis
    by (auto simp: utc_microseconds_def result_simps Let_def time_of_text_def valid_time_def text_part_def)
qed

text \<open>
  The texts are ordered like the times. For any two texts that
  \<^verbatim>\<open>utc_microseconds\<close> accepts, comparing the texts as Python strings, as
  \<^verbatim>\<open>validate_pc_authorization_binding\<close> does, gives the order of the points in time
  they denote, which is what the other checks compare.
\<close>

lemma text_order_is_time_order:
  assumes "utc_microseconds v f = Inr t" "utc_microseconds w g = Inr u"
  shows "v < w \<longleftrightarrow> utc_micros t < utc_micros u"
proof -
  have shape: "rfc3339_micro_utc v" "rfc3339_micro_utc w" and t: "t = time_of_text v" "valid_time t" and u: "u = time_of_text w" "valid_time u"
    using assms unfolding utc_microseconds_Inr by metis+
  let ?parts = "{(0, 4), (5, 2), (8, 2), (11, 2), (14, 2), (17, 2), (20, 6 :: nat)} :: (nat \<times> nat) set"
  have dig: "list_all is_digit (text_part x i n) \<and> length (text_part x i n) = n" if "x \<in> {v, w}" "(i, n) \<in> ?parts" for x i n
    using that text_part_digits [of x i n] shape by (auto simp: upt_rec)
  have ord: "text_part v i n < text_part w i n \<longleftrightarrow> read_nat (text_part v i n) < read_nat (text_part w i n)"
    "text_part v i n = text_part w i n \<longleftrightarrow> read_nat (text_part v i n) = read_nat (text_part w i n)"
    "length (text_part v i n) = length (text_part w i n)"
    if "(i, n) \<in> ?parts" for i n
    using dig [OF _ that, of v] dig [OF _ that, of w] digits_order [of "text_part v i n" "text_part w i n"] by simp_all
  have in_parts: "(0, 4) \<in> ?parts" "(5, 2) \<in> ?parts" "(8, 2) \<in> ?parts" "(11, 2) \<in> ?parts" "(14, 2) \<in> ?parts"
    "(17, 2) \<in> ?parts" "(20, 6) \<in> ?parts" by simp_all
  note less = in_parts [THEN ord(1)] and eq = in_parts [THEN ord(2)] and len = in_parts [THEN ord(3)]
  have "v < w \<longleftrightarrow> earlier_fields t u"
    by (subst micro_text [OF shape(1)], subst micro_text [OF shape(2)])
      (simp add: lex_append len less eq t(1) u(1) time_of_text_def earlier_fields_def)
  then show ?thesis using micros_less_iff [OF t(2) u(2)] by simp
qed

end
