(* ===== verification/PC_Envelopes.thy ===== *)
theory PC_Envelopes
  imports PC_Times Outbound_Authority
begin

text \<open>
  \<^verbatim>\<open>pc_connection.envelopes\<close>: the job and authorization envelopes of the PC bridge,
  their validation and their domain-separated digests, and
  \<^verbatim>\<open>validate_pc_authorization_binding\<close> of \<^verbatim>\<open>outbound_authority.py\<close>. A field of
  the wrong JSON type, which the validators refuse each with an error of its own, is
  \<open>Wrong_type\<close> here.
\<close>

section \<open>The envelopes\<close>

definition JOB_SCHEMA :: string where
  "JOB_SCHEMA = ''VERA_PCCC_JOB_V1''"

definition AUTHORIZATION_SCHEMA :: string where
  "AUTHORIZATION_SCHEMA = ''VERA_PCCC_AUTHORIZATION_V1''"

definition JOB_DOMAIN :: string where
  "JOB_DOMAIN = ''VERA-PCCC-JOB-V1''"

definition AUTHORIZATION_DOMAIN :: string where
  "AUTHORIZATION_DOMAIN = ''VERA-PCCC-AUTHORIZATION-V1''"

record job_envelope =
  jb_schema_version :: string
  jb_envelope_id :: string
  jb_request_id :: string
  jb_idempotency_key :: string
  jb_project_id :: string
  jb_requester_principal_id :: string
  jb_requester_principal_type :: string
  jb_host_id :: string
  jb_operation_id :: string
  jb_operation_version :: int
  jb_parameters_digest :: string
  jb_artifact_manifest_digest :: string
  jb_read_roots_digest :: string
  jb_write_root_id :: string
  jb_authorization_id :: string
  jb_authorization_revision :: int
  jb_not_before :: string
  jb_expires_at :: string
  jb_timeout_seconds :: int
  jb_max_attempts :: int
  jb_lease_ttl_seconds :: int
  jb_retry_class :: string
  jb_protocol_min_version :: string
  jb_agent_min_version :: string
  jb_required_local_policy_digest :: string
  jb_required_capability_digest :: string
  jb_issuer_revocation_epoch :: int
  jb_host_revocation_epoch :: int
  jb_nonce :: string
  jb_trace_correlation_id :: string

record authorization_envelope =
  az_schema_version :: string
  az_envelope_id :: string
  az_job_id :: string
  az_issuer_id :: string
  az_subject_user_id :: string
  az_host_id :: string
  az_operation :: string
  az_operation_version :: int
  az_parameters_digest :: string
  az_artifact_manifest_digest :: string
  az_read_roots_digest :: string
  az_write_root_id :: string
  az_authorization_id :: string
  az_authorization_revision :: int
  az_issued_at :: string
  az_not_before :: string
  az_expires_at :: string
  az_nonce :: string
  az_max_attempts :: int
  az_lease_ttl_seconds :: int
  az_protocol_min_version :: string
  az_agent_min_version :: string
  az_issuer_revocation_epoch :: int
  az_host_revocation_epoch :: int

definition JOB_FIELDS :: "string list" where
  "JOB_FIELDS =
     [''schema_version'', ''envelope_id'', ''request_id'', ''idempotency_key'', ''project_id'',
      ''requester_principal_id'', ''requester_principal_type'', ''host_id'', ''operation_id'',
      ''operation_version'', ''parameters_digest'', ''artifact_manifest_digest'', ''read_roots_digest'',
      ''write_root_id'', ''authorization_id'', ''authorization_revision'', ''not_before'', ''expires_at'',
      ''timeout_seconds'', ''max_attempts'', ''lease_ttl_seconds'', ''retry_class'',
      ''protocol_min_version'', ''agent_min_version'', ''required_local_policy_digest'',
      ''required_capability_digest'', ''issuer_revocation_epoch'', ''host_revocation_epoch'', ''nonce'',
      ''trace_correlation_id'']"

definition AUTHORIZATION_FIELDS :: "string list" where
  "AUTHORIZATION_FIELDS =
     [''schema_version'', ''envelope_id'', ''job_id'', ''issuer_id'', ''subject_user_id'', ''host_id'',
      ''operation'', ''operation_version'', ''parameters_digest'', ''artifact_manifest_digest'',
      ''read_roots_digest'', ''write_root_id'', ''authorization_id'', ''authorization_revision'',
      ''issued_at'', ''not_before'', ''expires_at'', ''nonce'', ''max_attempts'', ''lease_ttl_seconds'',
      ''protocol_min_version'', ''agent_min_version'', ''issuer_revocation_epoch'', ''host_revocation_epoch'']"

text \<open>The fields in the order of \<^verbatim>\<open>FIELDS\<close>, with their values.\<close>

definition job_fields :: "job_envelope \<Rightarrow> (string \<times> json) list" where
  "job_fields j =
     [(''schema_version'', JStr (jb_schema_version j)), (''envelope_id'', JStr (jb_envelope_id j)),
      (''request_id'', JStr (jb_request_id j)), (''idempotency_key'', JStr (jb_idempotency_key j)),
      (''project_id'', JStr (jb_project_id j)),
      (''requester_principal_id'', JStr (jb_requester_principal_id j)),
      (''requester_principal_type'', JStr (jb_requester_principal_type j)),
      (''host_id'', JStr (jb_host_id j)), (''operation_id'', JStr (jb_operation_id j)),
      (''operation_version'', JInt (jb_operation_version j)),
      (''parameters_digest'', JStr (jb_parameters_digest j)),
      (''artifact_manifest_digest'', JStr (jb_artifact_manifest_digest j)),
      (''read_roots_digest'', JStr (jb_read_roots_digest j)), (''write_root_id'', JStr (jb_write_root_id j)),
      (''authorization_id'', JStr (jb_authorization_id j)),
      (''authorization_revision'', JInt (jb_authorization_revision j)),
      (''not_before'', JStr (jb_not_before j)), (''expires_at'', JStr (jb_expires_at j)),
      (''timeout_seconds'', JInt (jb_timeout_seconds j)), (''max_attempts'', JInt (jb_max_attempts j)),
      (''lease_ttl_seconds'', JInt (jb_lease_ttl_seconds j)), (''retry_class'', JStr (jb_retry_class j)),
      (''protocol_min_version'', JStr (jb_protocol_min_version j)),
      (''agent_min_version'', JStr (jb_agent_min_version j)),
      (''required_local_policy_digest'', JStr (jb_required_local_policy_digest j)),
      (''required_capability_digest'', JStr (jb_required_capability_digest j)),
      (''issuer_revocation_epoch'', JInt (jb_issuer_revocation_epoch j)),
      (''host_revocation_epoch'', JInt (jb_host_revocation_epoch j)), (''nonce'', JStr (jb_nonce j)),
      (''trace_correlation_id'', JStr (jb_trace_correlation_id j))]"

definition authorization_fields :: "authorization_envelope \<Rightarrow> (string \<times> json) list" where
  "authorization_fields a =
     [(''schema_version'', JStr (az_schema_version a)), (''envelope_id'', JStr (az_envelope_id a)),
      (''job_id'', JStr (az_job_id a)), (''issuer_id'', JStr (az_issuer_id a)),
      (''subject_user_id'', JStr (az_subject_user_id a)), (''host_id'', JStr (az_host_id a)),
      (''operation'', JStr (az_operation a)), (''operation_version'', JInt (az_operation_version a)),
      (''parameters_digest'', JStr (az_parameters_digest a)),
      (''artifact_manifest_digest'', JStr (az_artifact_manifest_digest a)),
      (''read_roots_digest'', JStr (az_read_roots_digest a)), (''write_root_id'', JStr (az_write_root_id a)),
      (''authorization_id'', JStr (az_authorization_id a)),
      (''authorization_revision'', JInt (az_authorization_revision a)),
      (''issued_at'', JStr (az_issued_at a)), (''not_before'', JStr (az_not_before a)),
      (''expires_at'', JStr (az_expires_at a)), (''nonce'', JStr (az_nonce a)),
      (''max_attempts'', JInt (az_max_attempts a)), (''lease_ttl_seconds'', JInt (az_lease_ttl_seconds a)),
      (''protocol_min_version'', JStr (az_protocol_min_version a)),
      (''agent_min_version'', JStr (az_agent_min_version a)),
      (''issuer_revocation_epoch'', JInt (az_issuer_revocation_epoch a)),
      (''host_revocation_epoch'', JInt (az_host_revocation_epoch a))]"

definition digest_fields :: "py_env \<Rightarrow> (string \<times> json) list \<Rightarrow> string list" where
  "digest_fields E flds = map (\<lambda>(_, value). canonical_scalar E value) flds"

section \<open>Validation\<close>

definition validate_operation_scope :: "string \<Rightarrow> string \<Rightarrow> string \<Rightarrow> (contract_error, unit) result" where
  "validate_operation_scope operation write_root_id artifact_manifest_digest =
     rbind (ensure (operation \<in> set RECOGNIZED_PHASE_ONE_OPERATIONS) (Rule Operation_not_recognized)) (\<lambda>_.
     rbind (ensure (operation \<notin> set REMOTE_TRANSFER_OPERATIONS) (Rule Operation_denied)) (\<lambda>_.
     rbind (ensure (operation \<in> set PHASE_ONE_OPERATIONS) (Rule Operation_not_enabled_in_phase)) (\<lambda>_.
     rbind (ensure (write_root_id = ''NONE'') (Rule Write_root_not_none)) (\<lambda>_.
       ensure (artifact_manifest_digest = ZERO_SHA256) (Rule Manifest_not_none)))))"

text \<open>\<^verbatim>\<open>(expires - start).total_seconds() > 3600\<close>.\<close>

definition longer_than_hour :: "utc_time \<Rightarrow> utc_time \<Rightarrow> bool" where
  "longer_than_hour start expires \<longleftrightarrow> int (utc_micros expires) - int (utc_micros start) > 3600 * 1000000"

definition max_uint64 :: int where
  "max_uint64 = 18446744073709551615"

definition validate_job :: "job_envelope \<Rightarrow> (contract_error, unit) result" where
  "validate_job j =
     rbind (ensure (jb_schema_version j = JOB_SCHEMA) (Rule (Unsupported_schema ''job''))) (\<lambda>_.
     rbind (rmap_list (\<lambda>(value, field). uuid_v7 value field)
        [(jb_envelope_id j, ''envelope_id''), (jb_request_id j, ''request_id''), (jb_host_id j, ''host_id''),
         (jb_authorization_id j, ''authorization_id''), (jb_nonce j, ''nonce''),
         (jb_trace_correlation_id j, ''trace_correlation_id'')]) (\<lambda>_.
     rbind (bounded_text (jb_idempotency_key j) ''idempotency_key'' 256) (\<lambda>_.
     rbind (bounded_text (jb_project_id j) ''project_id'' 256) (\<lambda>_.
     rbind (bounded_text (jb_requester_principal_id j) ''requester_principal_id'' 256) (\<lambda>_.
     rbind (ensure (jb_requester_principal_type j \<in> {''USER'', ''SERVICE'', ''CONNECTOR''})
              (Rule (Unsupported_choice ''requester_principal_type''))) (\<lambda>_.
     rbind (uint_field (jb_operation_version j) ''operation_version'' 1 4294967295) (\<lambda>_.
     rbind (rmap_list (\<lambda>(value, field). sha256_hex_field value field)
        [(jb_parameters_digest j, ''parameters_digest''), (jb_artifact_manifest_digest j, ''artifact_manifest_digest''),
         (jb_read_roots_digest j, ''read_roots_digest''),
         (jb_required_local_policy_digest j, ''required_local_policy_digest''),
         (jb_required_capability_digest j, ''required_capability_digest'')]) (\<lambda>_.
     rbind (validate_operation_scope (jb_operation_id j) (jb_write_root_id j) (jb_artifact_manifest_digest j)) (\<lambda>_.
     rbind (uint_field (jb_authorization_revision j) ''authorization_revision'' 1 max_uint64) (\<lambda>_.
     rbind (utc_microseconds (jb_not_before j) ''not_before'') (\<lambda>not_before.
     rbind (utc_microseconds (jb_expires_at j) ''expires_at'') (\<lambda>expires.
     rbind (ensure (\<not> (utc_micros expires \<le> utc_micros not_before \<or> longer_than_hour not_before expires))
              (Rule Freshness_invalid)) (\<lambda>_.
     rbind (uint_field (jb_timeout_seconds j) ''timeout_seconds'' 1 3600) (\<lambda>_.
     rbind (uint_field (jb_max_attempts j) ''max_attempts'' 1 5) (\<lambda>_.
     rbind (uint_field (jb_lease_ttl_seconds j) ''lease_ttl_seconds'' 30 300) (\<lambda>_.
     rbind (ensure (jb_retry_class j \<in> {''PURE_READ'', ''CONTENT_ADDRESSED_WRITE'', ''AT_MOST_ONCE''})
              (Rule (Unsupported_choice ''retry_class''))) (\<lambda>_.
     rbind (semver (jb_protocol_min_version j) ''protocol_min_version'') (\<lambda>_.
     rbind (semver (jb_agent_min_version j) ''agent_min_version'') (\<lambda>_.
     rbind (uint_field (jb_issuer_revocation_epoch j) ''issuer_revocation_epoch'' 0 max_uint64) (\<lambda>_.
     rbind (uint_field (jb_host_revocation_epoch j) ''host_revocation_epoch'' 0 max_uint64) (\<lambda>_.
       Inr ())))))))))))))))))))))"

definition validate_authorization :: "authorization_envelope \<Rightarrow> (contract_error, unit) result" where
  "validate_authorization a =
     rbind (ensure (az_schema_version a = AUTHORIZATION_SCHEMA) (Rule (Unsupported_schema ''authorization''))) (\<lambda>_.
     rbind (rmap_list (\<lambda>(value, field). uuid_v7 value field)
        [(az_envelope_id a, ''envelope_id''), (az_job_id a, ''job_id''), (az_host_id a, ''host_id''),
         (az_authorization_id a, ''authorization_id''), (az_nonce a, ''nonce'')]) (\<lambda>_.
     rbind (bounded_text (az_issuer_id a) ''issuer_id'' 128) (\<lambda>_.
     rbind (bounded_text (az_subject_user_id a) ''subject_user_id'' 128) (\<lambda>_.
     rbind (uint_field (az_operation_version a) ''operation_version'' 1 4294967295) (\<lambda>_.
     rbind (rmap_list (\<lambda>(value, field). sha256_hex_field value field)
        [(az_parameters_digest a, ''parameters_digest''), (az_artifact_manifest_digest a, ''artifact_manifest_digest''),
         (az_read_roots_digest a, ''read_roots_digest'')]) (\<lambda>_.
     rbind (validate_operation_scope (az_operation a) (az_write_root_id a) (az_artifact_manifest_digest a)) (\<lambda>_.
     rbind (uint_field (az_authorization_revision a) ''authorization_revision'' 1 max_uint64) (\<lambda>_.
     rbind (utc_microseconds (az_issued_at a) ''issued_at'') (\<lambda>issued.
     rbind (utc_microseconds (az_not_before a) ''not_before'') (\<lambda>not_before.
     rbind (utc_microseconds (az_expires_at a) ''expires_at'') (\<lambda>expires.
     rbind (ensure (utc_micros issued \<le> utc_micros not_before \<and> utc_micros not_before < utc_micros expires)
              (Rule Freshness_invalid)) (\<lambda>_.
     rbind (ensure (\<not> longer_than_hour not_before expires) (Rule Window_too_long)) (\<lambda>_.
     rbind (uint_field (az_max_attempts a) ''max_attempts'' 1 5) (\<lambda>_.
     rbind (uint_field (az_lease_ttl_seconds a) ''lease_ttl_seconds'' 30 300) (\<lambda>_.
     rbind (semver (az_protocol_min_version a) ''protocol_min_version'') (\<lambda>_.
     rbind (semver (az_agent_min_version a) ''agent_min_version'') (\<lambda>_.
     rbind (uint_field (az_issuer_revocation_epoch a) ''issuer_revocation_epoch'' 0 max_uint64) (\<lambda>_.
     rbind (uint_field (az_host_revocation_epoch a) ''host_revocation_epoch'' 0 max_uint64) (\<lambda>_.
       Inr ())))))))))))))))))))"

definition job_digest :: "py_env \<Rightarrow> job_envelope \<Rightarrow> (contract_error, string) result" where
  "job_digest E j =
     rbind (validate_job j) (\<lambda>_. sha256_domain_text_tuple JOB_DOMAIN (digest_fields E (job_fields j)))"

definition authorization_digest :: "py_env \<Rightarrow> authorization_envelope \<Rightarrow> (contract_error, string) result" where
  "authorization_digest E a =
     rbind (validate_authorization a) (\<lambda>_.
       sha256_domain_text_tuple AUTHORIZATION_DOMAIN (digest_fields E (authorization_fields a)))"

subsection \<open>Reading a mapping\<close>

definition str_value :: "(string \<times> json) list \<Rightarrow> string \<Rightarrow> (contract_error, string) result" where
  "str_value value field = (case map_of value field of Some (JStr s) \<Rightarrow> Inr s | _ \<Rightarrow> Inl (Wrong_type field))"

definition int_value :: "(string \<times> json) list \<Rightarrow> string \<Rightarrow> (contract_error, int) result" where
  "int_value value field = (case map_of value field of Some (JInt i) \<Rightarrow> Inr i | _ \<Rightarrow> Inl (Wrong_type field))"

definition job_from_mapping :: "(string \<times> json) list \<Rightarrow> (contract_error, job_envelope) result" where
  "job_from_mapping value =
     rbind (closed_fields value JOB_FIELDS ''job envelope'' []) (\<lambda>_.
     rbind (str_value value ''schema_version'') (\<lambda>schema_version.
     rbind (str_value value ''envelope_id'') (\<lambda>envelope_id.
     rbind (str_value value ''request_id'') (\<lambda>request_id.
     rbind (str_value value ''idempotency_key'') (\<lambda>idempotency_key.
     rbind (str_value value ''project_id'') (\<lambda>project_id.
     rbind (str_value value ''requester_principal_id'') (\<lambda>requester_principal_id.
     rbind (str_value value ''requester_principal_type'') (\<lambda>requester_principal_type.
     rbind (str_value value ''host_id'') (\<lambda>host_id.
     rbind (str_value value ''operation_id'') (\<lambda>operation_id.
     rbind (int_value value ''operation_version'') (\<lambda>operation_version.
     rbind (str_value value ''parameters_digest'') (\<lambda>parameters_digest.
     rbind (str_value value ''artifact_manifest_digest'') (\<lambda>artifact_manifest_digest.
     rbind (str_value value ''read_roots_digest'') (\<lambda>read_roots_digest.
     rbind (str_value value ''write_root_id'') (\<lambda>write_root_id.
     rbind (str_value value ''authorization_id'') (\<lambda>authorization_id.
     rbind (int_value value ''authorization_revision'') (\<lambda>authorization_revision.
     rbind (str_value value ''not_before'') (\<lambda>not_before.
     rbind (str_value value ''expires_at'') (\<lambda>expires_at.
     rbind (int_value value ''timeout_seconds'') (\<lambda>timeout_seconds.
     rbind (int_value value ''max_attempts'') (\<lambda>max_attempts.
     rbind (int_value value ''lease_ttl_seconds'') (\<lambda>lease_ttl_seconds.
     rbind (str_value value ''retry_class'') (\<lambda>retry_class.
     rbind (str_value value ''protocol_min_version'') (\<lambda>protocol_min_version.
     rbind (str_value value ''agent_min_version'') (\<lambda>agent_min_version.
     rbind (str_value value ''required_local_policy_digest'') (\<lambda>required_local_policy_digest.
     rbind (str_value value ''required_capability_digest'') (\<lambda>required_capability_digest.
     rbind (int_value value ''issuer_revocation_epoch'') (\<lambda>issuer_revocation_epoch.
     rbind (int_value value ''host_revocation_epoch'') (\<lambda>host_revocation_epoch.
     rbind (str_value value ''nonce'') (\<lambda>nonce.
     rbind (str_value value ''trace_correlation_id'') (\<lambda>trace_correlation_id.
       let envelope = \<lparr>jb_schema_version = schema_version, jb_envelope_id = envelope_id, jb_request_id = request_id,
         jb_idempotency_key = idempotency_key, jb_project_id = project_id,
         jb_requester_principal_id = requester_principal_id,
         jb_requester_principal_type = requester_principal_type, jb_host_id = host_id,
         jb_operation_id = operation_id, jb_operation_version = operation_version,
         jb_parameters_digest = parameters_digest, jb_artifact_manifest_digest = artifact_manifest_digest,
         jb_read_roots_digest = read_roots_digest, jb_write_root_id = write_root_id,
         jb_authorization_id = authorization_id, jb_authorization_revision = authorization_revision,
         jb_not_before = not_before, jb_expires_at = expires_at, jb_timeout_seconds = timeout_seconds,
         jb_max_attempts = max_attempts, jb_lease_ttl_seconds = lease_ttl_seconds,
         jb_retry_class = retry_class, jb_protocol_min_version = protocol_min_version,
         jb_agent_min_version = agent_min_version,
         jb_required_local_policy_digest = required_local_policy_digest,
         jb_required_capability_digest = required_capability_digest,
         jb_issuer_revocation_epoch = issuer_revocation_epoch,
         jb_host_revocation_epoch = host_revocation_epoch, jb_nonce = nonce,
         jb_trace_correlation_id = trace_correlation_id\<rparr>
       in rbind (validate_job envelope) (\<lambda>_. Inr envelope))))))))))))))))))))))))))))))))"

definition authorization_from_mapping :: "(string \<times> json) list \<Rightarrow> (contract_error, authorization_envelope) result" where
  "authorization_from_mapping value =
     rbind (closed_fields value AUTHORIZATION_FIELDS ''authorization envelope'' []) (\<lambda>_.
     rbind (str_value value ''schema_version'') (\<lambda>schema_version.
     rbind (str_value value ''envelope_id'') (\<lambda>envelope_id.
     rbind (str_value value ''job_id'') (\<lambda>job_id.
     rbind (str_value value ''issuer_id'') (\<lambda>issuer_id.
     rbind (str_value value ''subject_user_id'') (\<lambda>subject_user_id.
     rbind (str_value value ''host_id'') (\<lambda>host_id.
     rbind (str_value value ''operation'') (\<lambda>operation.
     rbind (int_value value ''operation_version'') (\<lambda>operation_version.
     rbind (str_value value ''parameters_digest'') (\<lambda>parameters_digest.
     rbind (str_value value ''artifact_manifest_digest'') (\<lambda>artifact_manifest_digest.
     rbind (str_value value ''read_roots_digest'') (\<lambda>read_roots_digest.
     rbind (str_value value ''write_root_id'') (\<lambda>write_root_id.
     rbind (str_value value ''authorization_id'') (\<lambda>authorization_id.
     rbind (int_value value ''authorization_revision'') (\<lambda>authorization_revision.
     rbind (str_value value ''issued_at'') (\<lambda>issued_at.
     rbind (str_value value ''not_before'') (\<lambda>not_before.
     rbind (str_value value ''expires_at'') (\<lambda>expires_at.
     rbind (str_value value ''nonce'') (\<lambda>nonce.
     rbind (int_value value ''max_attempts'') (\<lambda>max_attempts.
     rbind (int_value value ''lease_ttl_seconds'') (\<lambda>lease_ttl_seconds.
     rbind (str_value value ''protocol_min_version'') (\<lambda>protocol_min_version.
     rbind (str_value value ''agent_min_version'') (\<lambda>agent_min_version.
     rbind (int_value value ''issuer_revocation_epoch'') (\<lambda>issuer_revocation_epoch.
     rbind (int_value value ''host_revocation_epoch'') (\<lambda>host_revocation_epoch.
       let envelope = \<lparr>az_schema_version = schema_version, az_envelope_id = envelope_id, az_job_id = job_id,
         az_issuer_id = issuer_id, az_subject_user_id = subject_user_id, az_host_id = host_id,
         az_operation = operation, az_operation_version = operation_version,
         az_parameters_digest = parameters_digest, az_artifact_manifest_digest = artifact_manifest_digest,
         az_read_roots_digest = read_roots_digest, az_write_root_id = write_root_id,
         az_authorization_id = authorization_id, az_authorization_revision = authorization_revision,
         az_issued_at = issued_at, az_not_before = not_before, az_expires_at = expires_at, az_nonce = nonce,
         az_max_attempts = max_attempts, az_lease_ttl_seconds = lease_ttl_seconds,
         az_protocol_min_version = protocol_min_version, az_agent_min_version = agent_min_version,
         az_issuer_revocation_epoch = issuer_revocation_epoch,
         az_host_revocation_epoch = host_revocation_epoch\<rparr>
       in rbind (validate_authorization envelope) (\<lambda>_. Inr envelope))))))))))))))))))))))))))"

section \<open>The binding of a job to its authorization\<close>

datatype binding_error =
    Binding_contract contract_error
  | Not_bound string
  | Attempts_exceed
  | Lease_exceeds
  | Starts_early
  | Expires_late

definition bound_fields :: "job_envelope \<Rightarrow> authorization_envelope \<Rightarrow> (string \<times> json \<times> json) list" where
  "bound_fields j a =
     [(''authorization_id'', JStr (jb_authorization_id j), JStr (az_authorization_id a)),
      (''authorization_revision'', JInt (jb_authorization_revision j), JInt (az_authorization_revision a)),
      (''host_id'', JStr (jb_host_id j), JStr (az_host_id a)),
      (''operation'', JStr (jb_operation_id j), JStr (az_operation a)),
      (''operation_version'', JInt (jb_operation_version j), JInt (az_operation_version a)),
      (''parameters_digest'', JStr (jb_parameters_digest j), JStr (az_parameters_digest a)),
      (''artifact_manifest_digest'', JStr (jb_artifact_manifest_digest j), JStr (az_artifact_manifest_digest a)),
      (''read_roots_digest'', JStr (jb_read_roots_digest j), JStr (az_read_roots_digest a)),
      (''write_root_id'', JStr (jb_write_root_id j), JStr (az_write_root_id a)),
      (''protocol_min_version'', JStr (jb_protocol_min_version j), JStr (az_protocol_min_version a)),
      (''agent_min_version'', JStr (jb_agent_min_version j), JStr (az_agent_min_version a)),
      (''issuer_revocation_epoch'', JInt (jb_issuer_revocation_epoch j), JInt (az_issuer_revocation_epoch a)),
      (''host_revocation_epoch'', JInt (jb_host_revocation_epoch j), JInt (az_host_revocation_epoch a))]"

text \<open>The loop over the fields that must agree.\<close>

fun check_bound :: "(string \<times> json \<times> json) list \<Rightarrow> (binding_error, unit) result" where
  "check_bound [] = Inr ()"
| "check_bound ((field, job_value, authority_value) # rest) =
     rbind (ensure (job_value = authority_value) (Not_bound field)) (\<lambda>_. check_bound rest)"

text \<open>The last two comparisons are of the texts of the timestamps.\<close>

definition validate_binding :: "job_envelope \<Rightarrow> authorization_envelope \<Rightarrow> (binding_error, unit) result" where
  "validate_binding j a =
     rbind (map_err Binding_contract (validate_job j)) (\<lambda>_.
     rbind (map_err Binding_contract (validate_authorization a)) (\<lambda>_.
     rbind (check_bound (bound_fields j a)) (\<lambda>_.
     rbind (ensure (jb_max_attempts j \<le> az_max_attempts a) Attempts_exceed) (\<lambda>_.
     rbind (ensure (jb_lease_ttl_seconds j \<le> az_lease_ttl_seconds a) Lease_exceeds) (\<lambda>_.
     rbind (ensure (\<not> jb_not_before j < az_not_before a) Starts_early) (\<lambda>_.
       ensure (\<not> az_expires_at a < jb_expires_at j) Expires_late))))))"

section \<open>What the digests bind\<close>

lemma canonical_scalar_simps [simp]: "canonical_scalar E (JStr s) = s" "canonical_scalar E (JInt i) = show_int i"
  by (simp_all add: canonical_scalar_def)

lemma job_text_inj: "digest_fields E (job_fields j) = digest_fields E (job_fields j') \<longleftrightarrow> j = j'"
  by (cases j; cases j') (auto simp: digest_fields_def job_fields_def show_int_inj)

lemma authorization_text_inj:
  "digest_fields E (authorization_fields a) = digest_fields E (authorization_fields a') \<longleftrightarrow> a = a'"
  by (cases a; cases a') (auto simp: digest_fields_def authorization_fields_def show_int_inj)

text \<open>The bytes an envelope's digest is taken of.\<close>

definition job_material :: "py_env \<Rightarrow> job_envelope \<Rightarrow> string" where
  "job_material E j = domain_material JOB_DOMAIN (digest_fields E (job_fields j))"

definition authorization_material :: "py_env \<Rightarrow> authorization_envelope \<Rightarrow> string" where
  "authorization_material E a = domain_material AUTHORIZATION_DOMAIN (digest_fields E (authorization_fields a))"

text \<open>
  An envelope's digest is a name for the envelope. Two valid jobs with the same digest are
  the same job in all thirty fields, two valid authorizations with the same digest the same
  authorization, and a job never has the digest of an authorization, unless the two encodings
  are an explicit SHA-256 collision; an envelope that is not valid has no digest.
\<close>

lemma envelope_digest_names:
  shows "job_digest E j = Inr h \<Longrightarrow> validate_job j = Inr () \<and>
      (job_digest E j' = Inr h \<longrightarrow> j' = j \<or> collides (job_material E j') (job_material E j)) \<and>
      (authorization_digest E a = Inr h \<longrightarrow> collides (authorization_material E a) (job_material E j)) \<and>
      (authorization_digest E a = Inr g \<and> authorization_digest E a' = Inr g \<longrightarrow>
         a' = a \<or> collides (authorization_material E a') (authorization_material E a))"
proof -
  assume j: "job_digest E j = Inr h"
  have "j' = j \<or> collides (job_material E j') (job_material E j)" if "job_digest E j' = Inr h"
    using domain_digest_binds [of JOB_DOMAIN "digest_fields E (job_fields j')" h JOB_DOMAIN "digest_fields E (job_fields j)"] j that
    by (auto simp: job_digest_def result_simps job_material_def job_text_inj)
  moreover have "collides (authorization_material E a) (job_material E j)" if "authorization_digest E a = Inr h"
    using domain_digest_binds [of AUTHORIZATION_DOMAIN "digest_fields E (authorization_fields a)" h JOB_DOMAIN
        "digest_fields E (job_fields j)"] j that
    by (auto simp: job_digest_def authorization_digest_def result_simps job_material_def authorization_material_def
      JOB_DOMAIN_def AUTHORIZATION_DOMAIN_def)
  moreover have "a' = a \<or> collides (authorization_material E a') (authorization_material E a)"
    if "authorization_digest E a = Inr g" "authorization_digest E a' = Inr g"
    using domain_digest_binds [of AUTHORIZATION_DOMAIN "digest_fields E (authorization_fields a')" g AUTHORIZATION_DOMAIN
        "digest_fields E (authorization_fields a)"] that
    by (auto simp: authorization_digest_def result_simps authorization_material_def authorization_text_inj)
  moreover have "validate_job j = Inr ()" using j by (auto simp: job_digest_def result_simps)
  ultimately show ?thesis by blast
qed

section \<open>Round trip and binding\<close>

lemma closed_fields_exact: "map fst value = required \<Longrightarrow> closed_fields value required contract [] = Inr ()"
  by (auto simp: closed_fields_def ensure_def Let_def filter_empty_conv)

lemma job_field_names: "map fst (job_fields j) = JOB_FIELDS"
  by (simp add: job_fields_def JOB_FIELDS_def)

lemma authorization_field_names: "map fst (authorization_fields a) = AUTHORIZATION_FIELDS"
  by (simp add: authorization_fields_def AUTHORIZATION_FIELDS_def)

lemma value_at:
  assumes "distinct (map fst kvs)"
  shows "(k, JStr s) \<in> set kvs \<Longrightarrow> str_value kvs k = Inr s" "(k, JInt i) \<in> set kvs \<Longrightarrow> int_value kvs k = Inr i"
  using map_of_is_SomeI [OF assms] by (auto simp: str_value_def int_value_def)

lemma job_fields_distinct: "distinct (map fst (job_fields j))"
  by (simp add: job_fields_def)

lemma job_values:
  "str_value (job_fields j) ''schema_version'' = Inr (jb_schema_version j)"
  "str_value (job_fields j) ''envelope_id'' = Inr (jb_envelope_id j)"
  "str_value (job_fields j) ''request_id'' = Inr (jb_request_id j)"
  "str_value (job_fields j) ''idempotency_key'' = Inr (jb_idempotency_key j)"
  "str_value (job_fields j) ''project_id'' = Inr (jb_project_id j)"
  "str_value (job_fields j) ''requester_principal_id'' = Inr (jb_requester_principal_id j)"
  "str_value (job_fields j) ''requester_principal_type'' = Inr (jb_requester_principal_type j)"
  "str_value (job_fields j) ''host_id'' = Inr (jb_host_id j)"
  "str_value (job_fields j) ''operation_id'' = Inr (jb_operation_id j)"
  "int_value (job_fields j) ''operation_version'' = Inr (jb_operation_version j)"
  "str_value (job_fields j) ''parameters_digest'' = Inr (jb_parameters_digest j)"
  "str_value (job_fields j) ''artifact_manifest_digest'' = Inr (jb_artifact_manifest_digest j)"
  "str_value (job_fields j) ''read_roots_digest'' = Inr (jb_read_roots_digest j)"
  "str_value (job_fields j) ''write_root_id'' = Inr (jb_write_root_id j)"
  "str_value (job_fields j) ''authorization_id'' = Inr (jb_authorization_id j)"
  "int_value (job_fields j) ''authorization_revision'' = Inr (jb_authorization_revision j)"
  "str_value (job_fields j) ''not_before'' = Inr (jb_not_before j)"
  "str_value (job_fields j) ''expires_at'' = Inr (jb_expires_at j)"
  "int_value (job_fields j) ''timeout_seconds'' = Inr (jb_timeout_seconds j)"
  "int_value (job_fields j) ''max_attempts'' = Inr (jb_max_attempts j)"
  "int_value (job_fields j) ''lease_ttl_seconds'' = Inr (jb_lease_ttl_seconds j)"
  "str_value (job_fields j) ''retry_class'' = Inr (jb_retry_class j)"
  "str_value (job_fields j) ''protocol_min_version'' = Inr (jb_protocol_min_version j)"
  "str_value (job_fields j) ''agent_min_version'' = Inr (jb_agent_min_version j)"
  "str_value (job_fields j) ''required_local_policy_digest'' = Inr (jb_required_local_policy_digest j)"
  "str_value (job_fields j) ''required_capability_digest'' = Inr (jb_required_capability_digest j)"
  "int_value (job_fields j) ''issuer_revocation_epoch'' = Inr (jb_issuer_revocation_epoch j)"
  "int_value (job_fields j) ''host_revocation_epoch'' = Inr (jb_host_revocation_epoch j)"
  "str_value (job_fields j) ''nonce'' = Inr (jb_nonce j)"
  "str_value (job_fields j) ''trace_correlation_id'' = Inr (jb_trace_correlation_id j)"
  by (rule value_at [OF job_fields_distinct]; simp add: job_fields_def)+

lemma job_mapping_roundtrip: "job_from_mapping (job_fields j) = rbind (validate_job j) (\<lambda>_. Inr j)"
proof -
  have fields: "closed_fields (job_fields j) JOB_FIELDS ''job envelope'' [] = Inr ()"
    by (rule closed_fields_exact [OF job_field_names])
  show ?thesis unfolding job_from_mapping_def fields job_values rbind.simps Let_def by (cases j) simp
qed

lemma check_bound_iff: "check_bound fs = Inr () \<longleftrightarrow> (\<forall>(f, x, y)\<in>set fs. x = y)"
  by (induction fs rule: check_bound.induct) (auto simp: result_simps)

lemma job_window:
  assumes "validate_job j = Inr ()"
  obtains nb ex where "utc_microseconds (jb_not_before j) ''not_before'' = Inr nb"
    "utc_microseconds (jb_expires_at j) ''expires_at'' = Inr ex" "utc_micros nb < utc_micros ex"
    "utc_micros ex \<le> utc_micros nb + 3600 * 1000000"
proof -
  obtain nb ex where "utc_microseconds (jb_not_before j) ''not_before'' = Inr nb"
    "utc_microseconds (jb_expires_at j) ''expires_at'' = Inr ex"
    "\<not> (utc_micros ex \<le> utc_micros nb \<or> longer_than_hour nb ex)"
    using assms unfolding validate_job_def rbind_Inr_iff ensure_Inr_iff by (elim exE conjE) (rule that)
  then show thesis using that by (simp add: longer_than_hour_def)
qed

lemma authorization_window:
  assumes "validate_authorization a = Inr ()"
  obtains nb ex where "utc_microseconds (az_not_before a) ''not_before'' = Inr nb"
    "utc_microseconds (az_expires_at a) ''expires_at'' = Inr ex" "utc_micros nb < utc_micros ex"
  using assms unfolding validate_authorization_def rbind_Inr_iff ensure_Inr_iff by (elim exE conjE) (rule that)

text \<open>
  C26: A job runs within what its authorization allows. \<^verbatim>\<open>validate_pc_authorization_binding\<close>
  accepts exactly the pairs of valid envelopes that agree in the authorization, its revision,
  the host, the operation and its version, parameters, artifacts, roots, the minimal versions
  and both revocation epochs, where the job asks for no more attempts and no longer lease, and
  where the job's time window, as points in time, lies in the authorization's.
\<close>

theorem binding_exact:
  "validate_binding j a = Inr () \<longleftrightarrow>
    validate_job j = Inr () \<and> validate_authorization a = Inr () \<and>
    jb_authorization_id j = az_authorization_id a \<and> jb_authorization_revision j = az_authorization_revision a \<and>
    jb_host_id j = az_host_id a \<and> jb_operation_id j = az_operation a \<and> jb_operation_version j = az_operation_version a \<and>
    jb_parameters_digest j = az_parameters_digest a \<and> jb_artifact_manifest_digest j = az_artifact_manifest_digest a \<and>
    jb_read_roots_digest j = az_read_roots_digest a \<and> jb_write_root_id j = az_write_root_id a \<and>
    jb_protocol_min_version j = az_protocol_min_version a \<and> jb_agent_min_version j = az_agent_min_version a \<and>
    jb_issuer_revocation_epoch j = az_issuer_revocation_epoch a \<and>
    jb_host_revocation_epoch j = az_host_revocation_epoch a \<and>
    jb_max_attempts j \<le> az_max_attempts a \<and> jb_lease_ttl_seconds j \<le> az_lease_ttl_seconds a \<and>
    (\<exists>nb ex nb' ex'. utc_microseconds (jb_not_before j) ''not_before'' = Inr nb \<and>
       utc_microseconds (jb_expires_at j) ''expires_at'' = Inr ex \<and>
       utc_microseconds (az_not_before a) ''not_before'' = Inr nb' \<and>
       utc_microseconds (az_expires_at a) ''expires_at'' = Inr ex' \<and>
       utc_micros nb' \<le> utc_micros nb \<and> utc_micros nb < utc_micros ex \<and> utc_micros ex \<le> utc_micros ex')"
  (is "_ \<longleftrightarrow> ?valid")
proof (cases "validate_job j = Inr () \<and> validate_authorization a = Inr ()")
  case True
  obtain nb ex where j: "utc_microseconds (jb_not_before j) ''not_before'' = Inr nb"
    "utc_microseconds (jb_expires_at j) ''expires_at'' = Inr ex" "utc_micros nb < utc_micros ex"
    using job_window True by metis
  obtain nb' ex' where a: "utc_microseconds (az_not_before a) ''not_before'' = Inr nb'"
    "utc_microseconds (az_expires_at a) ''expires_at'' = Inr ex'"
    using authorization_window True by metis
  have order: "jb_not_before j < az_not_before a \<longleftrightarrow> utc_micros nb < utc_micros nb'"
    "az_expires_at a < jb_expires_at j \<longleftrightarrow> utc_micros ex' < utc_micros ex"
    using text_order_is_time_order [OF j(1) a(1)] text_order_is_time_order [OF a(2) j(2)] by blast+
  show ?thesis
    using True j(3) by (simp add: validate_binding_def result_simps check_bound_iff bound_fields_def order j(1,2) a)
      (auto simp: not_less)
qed (auto simp: validate_binding_def result_simps)

section \<open>A concrete job\<close>

definition demo_uuid :: string where
  "demo_uuid = ''01890a5d-ac96-774b-bcce-b302099a8057''"

definition demo_job :: job_envelope where
  "demo_job = \<lparr>jb_schema_version = JOB_SCHEMA, jb_envelope_id = demo_uuid,
     jb_request_id = demo_uuid, jb_idempotency_key = ''key-1'',
     jb_project_id = ''vera'', jb_requester_principal_id = ''user-1'',
     jb_requester_principal_type = ''USER'', jb_host_id = demo_uuid,
     jb_operation_id = ''PING'', jb_operation_version = 1, jb_parameters_digest = ZERO_SHA256,
     jb_artifact_manifest_digest = ZERO_SHA256, jb_read_roots_digest = ZERO_SHA256,
     jb_write_root_id = ''NONE'', jb_authorization_id = demo_uuid,
     jb_authorization_revision = 1, jb_not_before = ''2026-01-01T00:00:00.000000Z'',
     jb_expires_at = ''2026-01-01T00:10:00.000000Z'', jb_timeout_seconds = 60, jb_max_attempts = 1,
     jb_lease_ttl_seconds = 30, jb_retry_class = ''PURE_READ'', jb_protocol_min_version = ''1.0.0'',
     jb_agent_min_version = ''1.0.0'', jb_required_local_policy_digest = ZERO_SHA256,
     jb_required_capability_digest = ZERO_SHA256, jb_issuer_revocation_epoch = 0,
     jb_host_revocation_epoch = 0, jb_nonce = demo_uuid,
     jb_trace_correlation_id = demo_uuid\<rparr>"

definition demo_authorization :: authorization_envelope where
  "demo_authorization = \<lparr>az_schema_version = AUTHORIZATION_SCHEMA, az_envelope_id = demo_uuid,
     az_job_id = demo_uuid, az_issuer_id = ''issuer-1'',
     az_subject_user_id = ''user-1'', az_host_id = demo_uuid,
     az_operation = ''PING'', az_operation_version = 1, az_parameters_digest = ZERO_SHA256,
     az_artifact_manifest_digest = ZERO_SHA256, az_read_roots_digest = ZERO_SHA256,
     az_write_root_id = ''NONE'', az_authorization_id = demo_uuid,
     az_authorization_revision = 1, az_issued_at = ''2026-01-01T00:00:00.000000Z'',
     az_not_before = ''2026-01-01T00:00:00.000000Z'', az_expires_at = ''2026-01-01T00:10:00.000000Z'',
     az_nonce = demo_uuid, az_max_attempts = 1, az_lease_ttl_seconds = 30,
     az_protocol_min_version = ''1.0.0'', az_agent_min_version = ''1.0.0'', az_issuer_revocation_epoch = 0,
     az_host_revocation_epoch = 0\<rparr>"

lemma demo_values:
  "uuid_v7 demo_uuid f = Inr demo_uuid" "sha256_hex_field ZERO_SHA256 f = Inr ZERO_SHA256"
  "semver ''1.0.0'' f = Inr ''1.0.0''"
  by code_simp+

lemma demo_texts: "bounded_text ''key-1'' f 256 = Inr ''key-1''" "bounded_text ''vera'' f 256 = Inr ''vera''"
  "bounded_text ''user-1'' f 256 = Inr ''user-1''" "bounded_text ''user-1'' f 128 = Inr ''user-1''"
  "bounded_text ''issuer-1'' f 128 = Inr ''issuer-1''"
  by code_simp+

lemma demo_times:
  "utc_microseconds ''2026-01-01T00:00:00.000000Z'' f = Inr \<lparr>t_year = 2026, t_month = 1, t_day = 1, t_hour = 0, t_minute = 0, t_second = 0, t_micro = 0\<rparr>"
  "utc_microseconds ''2026-01-01T00:10:00.000000Z'' f = Inr \<lparr>t_year = 2026, t_month = 1, t_day = 1, t_hour = 0, t_minute = 10, t_second = 0, t_micro = 0\<rparr>"
  by code_simp+

lemma demo_scope: "validate_operation_scope ''PING'' ''NONE'' ZERO_SHA256 = Inr ()"
  by code_simp

lemma demo_envelopes: "validate_job demo_job = Inr ()" "validate_authorization demo_authorization = Inr ()"
  by (simp_all add: validate_job_def demo_job_def validate_authorization_def demo_authorization_def demo_values demo_texts
    demo_times demo_scope utc_micros_def utc_ordinal_def longer_than_hour_def uint_field_def max_uint64_def)

lemma envelope_digest_names_witness:
  "\<exists>h. job_digest demo_env demo_job = Inr h \<and>
    (authorization_digest demo_env demo_authorization \<noteq> Inr h \<or>
     collides (authorization_material demo_env demo_authorization) (job_material demo_env demo_job))"
proof -
  have "\<exists>h. job_digest demo_env demo_job = Inr h"
    unfolding job_digest_def demo_envelopes rbind.simps domain_digest_iff
    by (simp add: JOB_DOMAIN_def line_feed_def carriage_return_def char_of_def)
  then show ?thesis using envelope_digest_names [of demo_env demo_job] by blast
qed

end
