(* ===== verification/PC_Artifacts.thy ===== *)
theory PC_Artifacts
  imports PC_Envelopes "HOL-Library.Sublist"
begin

text \<open>
  \<^verbatim>\<open>pc_connection.artifacts\<close>: the artifact manifest with its four parts, read from a
  mapping and checked field by field. A value of the wrong JSON type is \<open>Wrong_type\<close>, as for the
  envelopes.
\<close>

section \<open>Values of a mapping\<close>

definition bool_value :: "(string \<times> json) list \<Rightarrow> string \<Rightarrow> (contract_error, bool) result" where
  "bool_value value field = (case map_of value field of Some (JBool b) \<Rightarrow> Inr b | _ \<Rightarrow> Inl (Wrong_type field))"

definition dict_value :: "(string \<times> json) list \<Rightarrow> string \<Rightarrow> (contract_error, (string \<times> json) list) result" where
  "dict_value value field = (case map_of value field of Some (JObj kvs) \<Rightarrow> Inr kvs | _ \<Rightarrow> Inl (Wrong_type field))"

fun str_items :: "json list \<Rightarrow> string list option" where
  "str_items [] = Some []"
| "str_items (JStr s # vs) = map_option (Cons s) (str_items vs)"
| "str_items (_ # vs) = None"

text \<open>\<^verbatim>\<open>sep.join(values)\<close>.\<close>

fun join_with :: "string \<Rightarrow> string list \<Rightarrow> string" where
  "join_with sep [] = []"
| "join_with sep [s] = s"
| "join_with sep (s # t # ts) = s @ sep @ join_with sep (t # ts)"

section \<open>The parts of a manifest\<close>

definition MAX_ARTIFACT_BYTES :: int where
  "MAX_ARTIFACT_BYTES = 10 * 1024 * 1024 * 1024"

definition CHUNK_SIZE_BYTES :: int where
  "CHUNK_SIZE_BYTES = 8 * 1024 * 1024"

record artifact_source =
  as_store :: string
  as_locator :: string
  as_immutable_locator_version :: string

definition source_from_mapping :: "(string \<times> json) list \<Rightarrow> (contract_error, artifact_source) result" where
  "source_from_mapping value =
     rbind (closed_fields value [''store'', ''locator'', ''immutable_locator_version''] ''artifact source'' []) (\<lambda>_.
     rbind (str_value value ''store'') (\<lambda>store.
     rbind (str_value value ''locator'') (\<lambda>locator.
     rbind (str_value value ''immutable_locator_version'') (\<lambda>version.
     rbind (ensure (store = ''LOCAL_ONLY'') (Rule (Not_local_only ''artifact source''))) (\<lambda>_.
     rbind (bounded_text locator ''source.locator'' 1024) (\<lambda>_.
     rbind (ensure (\<not> (sublist ''://'' locator \<or> CHR '':'' \<in> set locator)) (Rule Unsafe_locator)) (\<lambda>_.
     rbind (bounded_text version ''source.immutable_locator_version'' 256) (\<lambda>_.
       Inr \<lparr>as_store = store, as_locator = locator, as_immutable_locator_version = version\<rparr>))))))))"

record destination_policy =
  ds_store :: string
  ds_backend_profile_id :: string
  ds_backend_profile_digest :: string
  ds_remote_transfer_enabled :: bool
  ds_relative_path :: string

definition backslash :: char where
  "backslash = CHR 0x5C"

definition windows_separators :: "string \<Rightarrow> string" where
  "windows_separators s = map (\<lambda>c. if c = CHR ''/'' then backslash else c) s"

definition unsafe_relative_path :: "string \<Rightarrow> bool" where
  "unsafe_relative_path s \<longleftrightarrow>
     starts_with s [CHR ''/''] \<or> starts_with s [backslash] \<or> CHR '':'' \<in> set s \<or>
     ''..'' \<in> set (split_all backslash (windows_separators s))"

definition destination_from_mapping :: "(string \<times> json) list \<Rightarrow> (contract_error, destination_policy) result" where
  "destination_from_mapping value =
     rbind (closed_fields value [''store'', ''backend_profile_id'', ''backend_profile_digest'',
        ''remote_transfer_enabled'', ''relative_path''] ''destination policy'' []) (\<lambda>_.
     rbind (str_value value ''store'') (\<lambda>store.
     rbind (str_value value ''backend_profile_id'') (\<lambda>profile.
     rbind (str_value value ''backend_profile_digest'') (\<lambda>digest.
     rbind (bool_value value ''remote_transfer_enabled'') (\<lambda>remote.
     rbind (str_value value ''relative_path'') (\<lambda>path.
     rbind (ensure (\<not> (store \<noteq> ''LOCAL_ONLY'' \<or> profile \<noteq> ''LOCAL_ONLY'')) (Rule (Not_local_only ''destination''))) (\<lambda>_.
     rbind (sha256_hex_field digest ''backend_profile_digest'') (\<lambda>_.
     rbind (ensure (remote = False) (Rule Remote_transfer_enabled)) (\<lambda>_.
     rbind (bounded_text path ''destination relative_path'' 1024) (\<lambda>_.
     rbind (ensure (\<not> unsafe_relative_path path) (Rule Unsafe_relative_path)) (\<lambda>_.
       Inr \<lparr>ds_store = store, ds_backend_profile_id = profile, ds_backend_profile_digest = digest,
            ds_remote_transfer_enabled = remote, ds_relative_path = path\<rparr>)))))))))))"

record artifact_authorization =
  aa_authorization_id :: string
  aa_revision :: int
  aa_allowed_host_id :: string
  aa_allowed_job_id :: string
  aa_allowed_operations :: "string list"
  aa_max_bytes :: int
  aa_issued_at :: string
  aa_expires_at :: string

definition allowed_operations :: "(string \<times> json) list \<Rightarrow> (contract_error, string list) result" where
  "allowed_operations value =
     rbind (or_raise (case map_of value ''allowed_operations'' of Some (JArr vs) \<Rightarrow> str_items vs | _ \<Rightarrow> None)
              (Rule Operations_not_sorted)) (\<lambda>operations.
     rbind (ensure (operations \<noteq> [] \<and> distinct operations \<and> operations = sort operations) (Rule Operations_not_sorted)) (\<lambda>_.
     rbind (ensure (set operations \<subseteq> set PHASE_ONE_OPERATIONS) (Rule Operation_denied)) (\<lambda>_. Inr operations)))"

definition authorization_part_from_mapping ::
  "(string \<times> json) list \<Rightarrow> (contract_error, artifact_authorization) result" where
  "authorization_part_from_mapping value =
     rbind (closed_fields value [''authorization_id'', ''revision'', ''allowed_host_id'', ''allowed_job_id'',
        ''allowed_operations'', ''max_bytes'', ''issued_at'', ''expires_at''] ''artifact authorization'' []) (\<lambda>_.
     rbind (allowed_operations value) (\<lambda>operations.
     rbind (str_value value ''authorization_id'') (\<lambda>authorization_id.
     rbind (int_value value ''revision'') (\<lambda>revision.
     rbind (str_value value ''allowed_host_id'') (\<lambda>host.
     rbind (str_value value ''allowed_job_id'') (\<lambda>job.
     rbind (int_value value ''max_bytes'') (\<lambda>max_bytes.
     rbind (str_value value ''issued_at'') (\<lambda>issued_at.
     rbind (str_value value ''expires_at'') (\<lambda>expires_at.
     rbind (rmap_list (\<lambda>(v, field). uuid_v7 v field)
        [(authorization_id, ''authorization_id''), (host, ''allowed_host_id''), (job, ''allowed_job_id'')]) (\<lambda>_.
     rbind (uint_field revision ''authorization revision'' 1 max_uint64) (\<lambda>_.
     rbind (uint_field max_bytes ''authorization max_bytes'' 0 MAX_ARTIFACT_BYTES) (\<lambda>_.
     rbind (utc_microseconds issued_at ''authorization issued_at'') (\<lambda>issued.
     rbind (utc_microseconds expires_at ''authorization expires_at'') (\<lambda>expires.
     rbind (ensure (\<not> (utc_micros expires \<le> utc_micros issued \<or> longer_than_hour issued expires))
              (Rule Freshness_invalid)) (\<lambda>_.
       Inr \<lparr>aa_authorization_id = authorization_id, aa_revision = revision, aa_allowed_host_id = host,
            aa_allowed_job_id = job, aa_allowed_operations = operations, aa_max_bytes = max_bytes,
            aa_issued_at = issued_at, aa_expires_at = expires_at\<rparr>)))))))))))))))"

record retention_policy =
  rp_retention_class :: string
  rp_retain_until :: string

definition retention_from_mapping :: "(string \<times> json) list \<Rightarrow> (contract_error, retention_policy) result" where
  "retention_from_mapping value =
     rbind (closed_fields value [''class'', ''retain_until''] ''retention policy'' []) (\<lambda>_.
     rbind (str_value value ''class'') (\<lambda>retention_class.
     rbind (str_value value ''retain_until'') (\<lambda>retain_until.
     rbind (ensure (retention_class \<in> {''EPHEMERAL'', ''PROJECT'', ''RELEASE'', ''LEGAL_HOLD''})
              (Rule (Unsupported_choice ''retention class''))) (\<lambda>_.
     rbind (utc_microseconds retain_until ''retain_until'') (\<lambda>_.
       Inr \<lparr>rp_retention_class = retention_class, rp_retain_until = retain_until\<rparr>)))))"

section \<open>The manifest\<close>

definition ARTIFACT_SCHEMA :: string where
  "ARTIFACT_SCHEMA = ''VERA_PCCC_ARTIFACT_MANIFEST_V1''"

definition ARTIFACT_DOMAIN :: string where
  "ARTIFACT_DOMAIN = ''VERA-PCCC-ARTIFACT-MANIFEST-V1''"

record artifact_manifest =
  mf_schema_version :: string
  mf_manifest_id :: string
  mf_manifest_digest_algorithm :: string
  mf_manifest_sha256 :: string
  mf_artifact_id :: string
  mf_content_id :: string
  mf_logical_name :: string
  mf_declared_filename :: string
  mf_byte_length :: int
  mf_sha256 :: string
  mf_content_class :: string
  mf_privacy_class :: string
  mf_execution_class :: string
  mf_archive_class :: string
  mf_media_type_declared :: string
  mf_source :: artifact_source
  mf_destination_policy :: destination_policy
  mf_authorization :: artifact_authorization
  mf_retention :: retention_policy
  mf_created_at :: string

definition manifest_digest_fields :: "py_env \<Rightarrow> artifact_manifest \<Rightarrow> string list" where
  "manifest_digest_fields E m =
     [mf_schema_version m, mf_manifest_id m, mf_manifest_digest_algorithm m, mf_artifact_id m, mf_content_id m,
      mf_logical_name m, mf_declared_filename m, show_int (mf_byte_length m), mf_sha256 m, mf_content_class m,
      mf_privacy_class m, mf_execution_class m, mf_archive_class m, mf_media_type_declared m,
      as_store (mf_source m), as_locator (mf_source m), as_immutable_locator_version (mf_source m),
      ds_store (mf_destination_policy m), ds_backend_profile_id (mf_destination_policy m),
      ds_backend_profile_digest (mf_destination_policy m),
      canonical_scalar E (JBool (ds_remote_transfer_enabled (mf_destination_policy m))),
      ds_relative_path (mf_destination_policy m), aa_authorization_id (mf_authorization m),
      show_int (aa_revision (mf_authorization m)), aa_allowed_host_id (mf_authorization m),
      aa_allowed_job_id (mf_authorization m), join_with '','' (aa_allowed_operations (mf_authorization m)),
      show_int (aa_max_bytes (mf_authorization m)), aa_issued_at (mf_authorization m),
      aa_expires_at (mf_authorization m), rp_retention_class (mf_retention m), rp_retain_until (mf_retention m),
      mf_created_at m]"

definition computed_manifest_sha256 :: "py_env \<Rightarrow> artifact_manifest \<Rightarrow> (contract_error, string) result" where
  "computed_manifest_sha256 E m = sha256_domain_text_tuple ARTIFACT_DOMAIN (manifest_digest_fields E m)"

definition CONTENT_CLASSES :: "string list" where
  "CONTENT_CLASSES = [''SOURCE'', ''CONFIG'', ''LOG'', ''RECEIPT'', ''TEST_EVIDENCE'', ''DATASET'', ''MODEL_WEIGHT'',
     ''CHECKPOINT'', ''ARCHIVE'', ''USER_DOCUMENT'', ''OTHER'', ''UNKNOWN'']"

definition PRIVACY_CLASSES :: "string list" where
  "PRIVACY_CLASSES = [''PUBLIC'', ''PROJECT'', ''PRIVATE'', ''SENSITIVE'']"

definition ARCHIVE_CLASSES :: "string list" where
  "ARCHIVE_CLASSES = [''NOT_ARCHIVE'', ''ZIP'', ''TAR'', ''TAR_GZ'', ''UNKNOWN'']"

definition validate_manifest :: "py_env \<Rightarrow> artifact_manifest \<Rightarrow> (contract_error, unit) result" where
  "validate_manifest E m =
     rbind (ensure (mf_schema_version m = ARTIFACT_SCHEMA) (Rule (Unsupported_schema ''artifact manifest''))) (\<lambda>_.
     rbind (ensure (mf_manifest_digest_algorithm m = ''SHA-256'') (Rule (Unsupported_choice ''manifest_digest_algorithm''))) (\<lambda>_.
     rbind (uuid_v7 (mf_manifest_id m) ''manifest_id'') (\<lambda>_.
     rbind (uuid_v7 (mf_artifact_id m) ''artifact_id'') (\<lambda>_.
     rbind (sha256_hex_field (mf_manifest_sha256 m) ''manifest_sha256'') (\<lambda>_.
     rbind (bounded_text (mf_logical_name m) ''logical_name'' 256) (\<lambda>_.
     rbind (safe_basename (mf_declared_filename m) ''declared_filename'') (\<lambda>_.
     rbind (uint_field (mf_byte_length m) ''byte_length'' 0 MAX_ARTIFACT_BYTES) (\<lambda>_.
     rbind (sha256_hex_field (mf_sha256 m) ''sha256'') (\<lambda>digest.
     rbind (ensure (mf_content_id m = ''urn:sha256:'' @ digest @ '':'' @ show_int (mf_byte_length m))
              (Rule Content_id_mismatch)) (\<lambda>_.
     rbind (ensure (mf_content_class m \<in> set CONTENT_CLASSES) (Rule (Unsupported_choice ''content_class''))) (\<lambda>_.
     rbind (ensure (mf_privacy_class m \<in> set PRIVACY_CLASSES) (Rule (Unsupported_choice ''privacy_class''))) (\<lambda>_.
     rbind (ensure (mf_execution_class m = ''NON_EXECUTABLE'') (Rule Executable_denied)) (\<lambda>_.
     rbind (ensure (mf_archive_class m \<in> set ARCHIVE_CLASSES) (Rule (Unsupported_choice ''archive_class''))) (\<lambda>_.
     rbind (bounded_text (mf_media_type_declared m) ''media_type_declared'' 127) (\<lambda>_.
     rbind (ensure (CHR ''/'' \<in> set (mf_media_type_declared m)) (Rule Not_mime_type)) (\<lambda>_.
     rbind (ensure (\<not> aa_max_bytes (mf_authorization m) < mf_byte_length m) (Rule Max_bytes_below_length)) (\<lambda>_.
     rbind (utc_microseconds (mf_created_at m) ''created_at'') (\<lambda>created.
     rbind (utc_microseconds (rp_retain_until (mf_retention m)) ''retain_until'') (\<lambda>retain_until.
     rbind (ensure (\<not> utc_micros retain_until < utc_micros created) (Rule Retention_too_short)) (\<lambda>_.
     rbind (computed_manifest_sha256 E m) (\<lambda>computed.
       ensure (mf_manifest_sha256 m = computed) (Rule Manifest_digest_mismatch))))))))))))))))))))))"

text \<open>The four parts are read, in this order, before the manifest is validated.\<close>

definition manifest_parts ::
  "(string \<times> json) list \<Rightarrow>
     (contract_error, artifact_source \<times> destination_policy \<times> artifact_authorization \<times> retention_policy) result" where
  "manifest_parts value =
     rbind (rbind (dict_value value ''source'') source_from_mapping) (\<lambda>src.
     rbind (rbind (dict_value value ''destination_policy'') destination_from_mapping) (\<lambda>destination.
     rbind (rbind (dict_value value ''authorization'') authorization_part_from_mapping) (\<lambda>authorization.
     rbind (rbind (dict_value value ''retention'') retention_from_mapping) (\<lambda>retention.
       Inr (src, destination, authorization, retention)))))"

definition MANIFEST_FIELDS :: "string list" where
  "MANIFEST_FIELDS =
     [''schema_version'', ''manifest_id'', ''manifest_digest_algorithm'', ''manifest_sha256'',
      ''artifact_id'', ''content_id'', ''logical_name'', ''declared_filename'', ''byte_length'', ''sha256'',
      ''content_class'', ''privacy_class'', ''execution_class'', ''archive_class'', ''media_type_declared'',
      ''source'', ''destination_policy'', ''authorization'', ''retention'', ''created_at'']"

definition manifest_from_mapping :: "py_env \<Rightarrow> (string \<times> json) list \<Rightarrow> (contract_error, artifact_manifest) result" where
  "manifest_from_mapping E value =
     rbind (closed_fields value MANIFEST_FIELDS ''artifact manifest'' []) (\<lambda>_.
     rbind (manifest_parts value) (\<lambda>(src, destination, authorization, retention).
     rbind (str_value value ''schema_version'') (\<lambda>schema_version.
     rbind (str_value value ''manifest_id'') (\<lambda>manifest_id.
     rbind (str_value value ''manifest_digest_algorithm'') (\<lambda>manifest_digest_algorithm.
     rbind (str_value value ''manifest_sha256'') (\<lambda>manifest_sha256.
     rbind (str_value value ''artifact_id'') (\<lambda>artifact_id.
     rbind (str_value value ''content_id'') (\<lambda>content_id.
     rbind (str_value value ''logical_name'') (\<lambda>logical_name.
     rbind (str_value value ''declared_filename'') (\<lambda>declared_filename.
     rbind (int_value value ''byte_length'') (\<lambda>byte_length.
     rbind (str_value value ''sha256'') (\<lambda>sha256.
     rbind (str_value value ''content_class'') (\<lambda>content_class.
     rbind (str_value value ''privacy_class'') (\<lambda>privacy_class.
     rbind (str_value value ''execution_class'') (\<lambda>execution_class.
     rbind (str_value value ''archive_class'') (\<lambda>archive_class.
     rbind (str_value value ''media_type_declared'') (\<lambda>media_type_declared.
     rbind (str_value value ''created_at'') (\<lambda>created_at.
       let manifest = \<lparr>mf_schema_version = schema_version, mf_manifest_id = manifest_id,
         mf_manifest_digest_algorithm = manifest_digest_algorithm, mf_manifest_sha256 = manifest_sha256,
         mf_artifact_id = artifact_id, mf_content_id = content_id, mf_logical_name = logical_name,
         mf_declared_filename = declared_filename, mf_byte_length = byte_length, mf_sha256 = sha256,
         mf_content_class = content_class, mf_privacy_class = privacy_class,
         mf_execution_class = execution_class, mf_archive_class = archive_class,
         mf_media_type_declared = media_type_declared, mf_source = src, mf_destination_policy = destination,
         mf_authorization = authorization, mf_retention = retention, mf_created_at = created_at\<rparr>
       in rbind (validate_manifest E manifest) (\<lambda>_. Inr manifest)))))))))))))))))))"

section \<open>What an accepted manifest is\<close>

lemma operations_no_comma: "s \<in> set PHASE_ONE_OPERATIONS \<Longrightarrow> CHR '','' \<notin> set s"
  by (auto simp: PHASE_ONE_OPERATIONS_def)

lemma split_all_append: "c \<notin> set s \<Longrightarrow> split_all c (s @ c # t) = s # split_all c t"
  by (induction s) auto

lemma split_all_fresh: "c \<notin> set s \<Longrightarrow> split_all c s = [s]"
  by (induction s) auto

lemma split_join: "xs \<noteq> [] \<Longrightarrow> \<forall>x\<in>set xs. c \<notin> set x \<Longrightarrow> split_all c (join_with [c] xs) = xs"
  by (induction "[c]" xs rule: join_with.induct) (simp_all add: split_all_append split_all_fresh)

lemma join_inj:
  assumes "xs \<noteq> []" "ys \<noteq> []" "set xs \<subseteq> set PHASE_ONE_OPERATIONS" "set ys \<subseteq> set PHASE_ONE_OPERATIONS"
    and "join_with '','' xs = join_with '','' ys"
  shows "xs = ys"
  using split_join [of xs "CHR '',''"] split_join [of ys "CHR '',''"] operations_no_comma assms
  by (metis subsetD)

lemma source_accepted:
  assumes "source_from_mapping value = Inr s"
  shows "as_store s = ''LOCAL_ONLY'' \<and> CHR '':'' \<notin> set (as_locator s)"
  using assms unfolding source_from_mapping_def rbind_Inr_iff ensure_Inr_iff by auto

lemma bounded_nonempty: "bounded_text value field n = Inr v \<Longrightarrow> value \<noteq> []"
  by (auto simp: bounded_text_def result_simps)

lemma destination_accepted:
  assumes "destination_from_mapping value = Inr d"
  shows "ds_store d = ''LOCAL_ONLY'' \<and> \<not> ds_remote_transfer_enabled d \<and> ds_relative_path d \<noteq> [] \<and> \<not> unsafe_relative_path (ds_relative_path d)"
  using assms unfolding destination_from_mapping_def rbind_Inr_iff ensure_Inr_iff by (auto dest: bounded_nonempty)

text \<open>A time window of at most an hour, as points in time.\<close>

definition hour_window :: "string \<Rightarrow> string \<Rightarrow> bool" where
  "hour_window start stop \<longleftrightarrow> (\<exists>t u. (\<forall>field. utc_microseconds start field = Inr t \<and> utc_microseconds stop field = Inr u) \<and>
     utc_micros t < utc_micros u \<and> utc_micros u \<le> utc_micros t + 3600 * 1000000)"

lemma utc_any_field: "utc_microseconds value field = Inr t \<Longrightarrow> utc_microseconds value field' = Inr t"
  by (auto simp: utc_microseconds_def result_simps Let_def)

lemma operations_accepted:
  "allowed_operations value = Inr ops \<Longrightarrow> ops \<noteq> [] \<and> distinct ops \<and> sorted ops \<and> set ops \<subseteq> set PHASE_ONE_OPERATIONS"
  by (auto simp: allowed_operations_def result_simps sorted_sort_id) (metis sorted_sort)

lemma authorization_part_accepted:
  assumes "authorization_part_from_mapping value = Inr a"
  shows "aa_allowed_operations a \<noteq> [] \<and> distinct (aa_allowed_operations a) \<and> set (aa_allowed_operations a) \<subseteq> set PHASE_ONE_OPERATIONS
    \<and> aa_max_bytes a \<le> MAX_ARTIFACT_BYTES" "hour_window (aa_issued_at a) (aa_expires_at a)"
proof -
  show "aa_allowed_operations a \<noteq> [] \<and> distinct (aa_allowed_operations a) \<and> set (aa_allowed_operations a) \<subseteq> set PHASE_ONE_OPERATIONS
    \<and> aa_max_bytes a \<le> MAX_ARTIFACT_BYTES"
    using assms unfolding authorization_part_from_mapping_def rbind_Inr_iff ensure_Inr_iff uint_field_def
    by (clarsimp dest!: operations_accepted)
  have "\<exists>t u. utc_microseconds (aa_issued_at a) ''authorization issued_at'' = Inr t
      \<and> utc_microseconds (aa_expires_at a) ''authorization expires_at'' = Inr u \<and> \<not> (utc_micros u \<le> utc_micros t \<or> longer_than_hour t u)"
    using assms unfolding authorization_part_from_mapping_def rbind_Inr_iff ensure_Inr_iff by clarsimp
  then obtain t u where t: "utc_microseconds (aa_issued_at a) ''authorization issued_at'' = Inr t"
    "utc_microseconds (aa_expires_at a) ''authorization expires_at'' = Inr u" "utc_micros t < utc_micros u"
    "utc_micros u \<le> utc_micros t + 3600 * 1000000"
    by (auto simp: longer_than_hour_def)
  then show "hour_window (aa_issued_at a) (aa_expires_at a)"
    unfolding hour_window_def using utc_any_field [OF t(1)] utc_any_field [OF t(2)] by blast
qed

lemma parts_accepted:
  assumes "manifest_parts value = Inr (s, d, a, r)"
  shows "as_store s = ''LOCAL_ONLY'' \<and> CHR '':'' \<notin> set (as_locator s)"
    "ds_store d = ''LOCAL_ONLY'' \<and> \<not> ds_remote_transfer_enabled d \<and> ds_relative_path d \<noteq> [] \<and> \<not> unsafe_relative_path (ds_relative_path d)"
    "aa_allowed_operations a \<noteq> [] \<and> distinct (aa_allowed_operations a) \<and> set (aa_allowed_operations a) \<subseteq> set PHASE_ONE_OPERATIONS
      \<and> aa_max_bytes a \<le> MAX_ARTIFACT_BYTES"
    "hour_window (aa_issued_at a) (aa_expires_at a)"
proof -
  obtain v1 v2 v3 where v: "source_from_mapping v1 = Inr s" "destination_from_mapping v2 = Inr d"
    "authorization_part_from_mapping v3 = Inr a"
    using assms unfolding manifest_parts_def rbind_Inr_iff by auto
  note * = source_accepted [OF v(1)] destination_accepted [OF v(2)] authorization_part_accepted [OF v(3)]
  show "as_store s = ''LOCAL_ONLY'' \<and> CHR '':'' \<notin> set (as_locator s)" by (rule *)
  show "ds_store d = ''LOCAL_ONLY'' \<and> \<not> ds_remote_transfer_enabled d \<and> ds_relative_path d \<noteq> [] \<and> \<not> unsafe_relative_path (ds_relative_path d)"
    by (rule *)
  show "aa_allowed_operations a \<noteq> [] \<and> distinct (aa_allowed_operations a) \<and> set (aa_allowed_operations a) \<subseteq> set PHASE_ONE_OPERATIONS
      \<and> aa_max_bytes a \<le> MAX_ARTIFACT_BYTES"
    by (rule *)
  show "hour_window (aa_issued_at a) (aa_expires_at a)" by (rule *)
qed

lemma manifest_accepted:
  assumes "manifest_from_mapping E value = Inr m"
  shows "manifest_parts value = Inr (mf_source m, mf_destination_policy m, mf_authorization m, mf_retention m)"
    "validate_manifest E m = Inr ()"
  using assms unfolding manifest_from_mapping_def rbind_Inr_iff Let_def
  by (elim exE conjE; clarsimp simp: result_simps)+

lemma valid_manifest_fields:
  assumes "validate_manifest E m = Inr ()"
  shows "computed_manifest_sha256 E m = Inr (mf_manifest_sha256 m)"
    "0 \<le> mf_byte_length m" "mf_byte_length m \<le> aa_max_bytes (mf_authorization m)"
    "mf_content_id m = ''urn:sha256:'' @ mf_sha256 m @ '':'' @ show_int (mf_byte_length m)"
    "mf_execution_class m = ''NON_EXECUTABLE''" "length (mf_sha256 m) = 64"
  using assms unfolding validate_manifest_def rbind_Inr_iff ensure_Inr_iff
  by (elim exE conjE; simp add: uint_field_def sha256_hex_field_def result_simps)+

lemma valid_manifest_retention:
  assumes "validate_manifest E m = Inr ()"
  shows "\<exists>t u. (\<forall>field. utc_microseconds (mf_created_at m) field = Inr t \<and> utc_microseconds (rp_retain_until (mf_retention m)) field = Inr u)
    \<and> utc_micros t \<le> utc_micros u"
proof -
  obtain t u where t: "utc_microseconds (mf_created_at m) ''created_at'' = Inr t"
    "utc_microseconds (rp_retain_until (mf_retention m)) ''retain_until'' = Inr u" "\<not> utc_micros u < utc_micros t"
    using assms unfolding validate_manifest_def rbind_Inr_iff ensure_Inr_iff by (elim exE conjE) (rule that)
  then show ?thesis using utc_any_field [OF t(1)] utc_any_field [OF t(2)] by (intro exI [of _ t] exI [of _ u]) auto
qed

lemma manifest_text_inj:
  assumes "manifest_digest_fields E m = manifest_digest_fields E m'" "mf_manifest_sha256 m = mf_manifest_sha256 m'"
    and "aa_allowed_operations (mf_authorization m) = aa_allowed_operations (mf_authorization m')"
  shows "m = m'"
proof -
  have "mf_source m = mf_source m'" using assms(1) by (auto simp: manifest_digest_fields_def intro!: artifact_source.equality)
  moreover have "mf_destination_policy m = mf_destination_policy m'"
    using assms(1) by (auto simp: manifest_digest_fields_def canonical_scalar_def split: if_splits intro!: destination_policy.equality)
  moreover have "mf_authorization m = mf_authorization m'"
    using assms(1,3) by (auto simp: manifest_digest_fields_def show_int_inj intro!: artifact_authorization.equality)
  moreover have "mf_retention m = mf_retention m'"
    using assms(1) by (auto simp: manifest_digest_fields_def intro!: retention_policy.equality)
  ultimately show ?thesis
    using assms(1,2) by (auto simp: manifest_digest_fields_def show_int_inj intro!: artifact_manifest.equality)
qed

section \<open>Where a destination leads\<close>

text \<open>
  A relative path, name by name: either separator splits it, the empty name and the dot stay in
  the directory, the double dot leaves it.
\<close>

fun path_names :: "string \<Rightarrow> string list" where
  "path_names [] = [[]]"
| "path_names (c # cs) =
     (if c = CHR ''/'' \<or> c = CHR 0x5C then [] # path_names cs
      else (case path_names cs of [] \<Rightarrow> [[c]] | w # ws \<Rightarrow> (c # w) # ws))"

fun walk :: "string list \<Rightarrow> string list \<Rightarrow> string list" where
  "walk dir [] = dir"
| "walk dir (n # ns) = walk (if n = [] \<or> n = ''.'' then dir else if n = ''..'' then butlast dir else dir @ [n]) ns"

lemma path_names_split: "path_names s = split_all backslash (windows_separators s)"
  by (induction s) (auto simp: backslash_def windows_separators_def split: list.splits)

lemma walk_down: "''..'' \<notin> set ns \<Longrightarrow> \<exists>below. walk dir ns = dir @ below"
proof (induction ns arbitrary: dir)
  case (Cons n ns)
  show ?case
  proof (cases "n = [] \<or> n = ''.''")
    case False
    obtain below where "walk (dir @ [n]) ns = (dir @ [n]) @ below" using Cons.IH [of "dir @ [n]"] Cons.prems by auto
    moreover have "n \<noteq> ''..''" using Cons.prems by auto
    ultimately show ?thesis using False by simp
  qed (use Cons in auto)
qed simp

text \<open>A path that stays below the directory it is put in.\<close>

definition stays_below :: "string \<Rightarrow> bool" where
  "stays_below p \<longleftrightarrow> p \<noteq> [] \<and> hd p \<noteq> CHR ''/'' \<and> hd p \<noteq> CHR 0x5C \<and> CHR '':'' \<notin> set p \<and>
     (\<forall>dir n. \<exists>below. walk dir (take n (path_names p)) = dir @ below)"

lemma safe_path_stays:
  assumes "\<not> unsafe_relative_path p" "p \<noteq> []"
  shows "stays_below p"
proof -
  have "''..'' \<notin> set (take n (path_names p))" for n
    using assms(1) in_set_takeD by (fastforce simp: unsafe_relative_path_def path_names_split)
  moreover have "hd p \<noteq> CHR ''/'' \<and> hd p \<noteq> CHR 0x5C \<and> CHR '':'' \<notin> set p"
    using assms by (cases p) (auto simp: unsafe_relative_path_def backslash_def)
  ultimately show ?thesis using walk_down assms(2) by (simp add: stays_below_def)
qed

text \<open>
  C35: An accepted manifest is well formed. Whatever mapping \<^verbatim>\<open>from_mapping\<close> accepts,
  the manifest it returns names a destination that stays where it is put: it is relative, without
  drive or stream, and walking it name by name from any directory, along either separator, never
  leaves that directory. The content is local and not executable, its length is between zero and
  what the authorization allows, at most ten GiB; the authorization lasts at most an hour and
  retention does not end before the manifest was made, as points in time; the operations are some
  of phase one's that transfer nothing, each once. And the content id identifies the content: all
  accepted manifests with the same content id have the same digest and length.
\<close>

theorem manifest_well_formed:
  assumes "manifest_from_mapping E value = Inr m"
  shows "stays_below (ds_relative_path (mf_destination_policy m)) \<and>
    as_store (mf_source m) = ''LOCAL_ONLY'' \<and> CHR '':'' \<notin> set (as_locator (mf_source m)) \<and>
    ds_store (mf_destination_policy m) = ''LOCAL_ONLY'' \<and> \<not> ds_remote_transfer_enabled (mf_destination_policy m) \<and>
    mf_execution_class m = ''NON_EXECUTABLE'' \<and>
    0 \<le> mf_byte_length m \<and> mf_byte_length m \<le> aa_max_bytes (mf_authorization m) \<and>
    aa_max_bytes (mf_authorization m) \<le> 10 * 1024 ^ 3 \<and>
    hour_window (aa_issued_at (mf_authorization m)) (aa_expires_at (mf_authorization m)) \<and>
    (\<exists>t u. (\<forall>field. utc_microseconds (mf_created_at m) field = Inr t \<and>
       utc_microseconds (rp_retain_until (mf_retention m)) field = Inr u) \<and> utc_micros t \<le> utc_micros u) \<and>
    aa_allowed_operations (mf_authorization m) \<noteq> [] \<and> distinct (aa_allowed_operations (mf_authorization m)) \<and>
    set (aa_allowed_operations (mf_authorization m)) \<subseteq> set PHASE_ONE_OPERATIONS - set REMOTE_TRANSFER_OPERATIONS \<and>
    (\<forall>value' m'. manifest_from_mapping E value' = Inr m' \<and> mf_content_id m' = mf_content_id m \<longrightarrow>
       mf_sha256 m' = mf_sha256 m \<and> mf_byte_length m' = mf_byte_length m)"
proof -
  note p = parts_accepted [OF manifest_accepted(1) [OF assms]] and v = valid_manifest_fields [OF manifest_accepted(2) [OF assms]]
  have ops: "set PHASE_ONE_OPERATIONS \<inter> set REMOTE_TRANSFER_OPERATIONS = {}"
    by (simp add: PHASE_ONE_OPERATIONS_def REMOTE_TRANSFER_OPERATIONS_def)
  have same: "mf_sha256 m' = mf_sha256 m \<and> mf_byte_length m' = mf_byte_length m"
    if "manifest_from_mapping E value' = Inr m'" "mf_content_id m' = mf_content_id m" for value' m'
    using valid_manifest_fields [OF manifest_accepted(2) [OF that(1)]] v(4,6) that(2) by (simp add: show_int_inj)
  show ?thesis
    using safe_path_stays p v(2,3,5) valid_manifest_retention [OF manifest_accepted(2) [OF assms]] ops same
    by (auto simp: MAX_ARTIFACT_BYTES_def)
qed

text \<open>
  A manifest's own digest names it. Two accepted manifests with the same
  \<^verbatim>\<open>manifest_sha256\<close> are the same manifest, all parts and the list of allowed operations
  included, or the two encodings are an explicit SHA-256 collision.
\<close>

lemma manifest_digest_names:
  assumes "manifest_from_mapping E value = Inr m" "manifest_from_mapping E value' = Inr m'"
    and "mf_manifest_sha256 m = mf_manifest_sha256 m'"
  shows "m = m' \<or> collides (domain_material ARTIFACT_DOMAIN (manifest_digest_fields E m))
                           (domain_material ARTIFACT_DOMAIN (manifest_digest_fields E m'))"
proof -
  note a = manifest_accepted [OF assms(1)] and a' = manifest_accepted [OF assms(2)]
  have d: "sha256_domain_text_tuple ARTIFACT_DOMAIN (manifest_digest_fields E m) = Inr (mf_manifest_sha256 m)"
    "sha256_domain_text_tuple ARTIFACT_DOMAIN (manifest_digest_fields E m') = Inr (mf_manifest_sha256 m)"
    using valid_manifest_fields(1) [OF a(2)] valid_manifest_fields(1) [OF a'(2)] assms(3)
    by (simp_all add: computed_manifest_sha256_def)
  have "m = m'" if same: "manifest_digest_fields E m = manifest_digest_fields E m'"
  proof (rule manifest_text_inj [OF same assms(3)])
    have "join_with '','' (aa_allowed_operations (mf_authorization m)) = join_with '','' (aa_allowed_operations (mf_authorization m'))"
      using same by (simp add: manifest_digest_fields_def)
    then show "aa_allowed_operations (mf_authorization m) = aa_allowed_operations (mf_authorization m')"
      using join_inj parts_accepted(3) [OF a(1)] parts_accepted(3) [OF a'(1)] by blast
  qed
  then show ?thesis using domain_digest_binds [OF d] by blast
qed

section \<open>A concrete manifest\<close>

definition demo_parts :: "(string \<times> json) list" where
  "demo_parts =
     [(''source'', JObj [(''store'', JStr ''LOCAL_ONLY''), (''locator'', JStr ''out''),
        (''immutable_locator_version'', JStr ''v1'')]),
      (''destination_policy'', JObj [(''store'', JStr ''LOCAL_ONLY''), (''backend_profile_id'', JStr ''LOCAL_ONLY''),
        (''backend_profile_digest'', JStr ZERO_SHA256), (''remote_transfer_enabled'', JBool False),
        (''relative_path'', JStr ''out/./log.txt'')]),
      (''authorization'', JObj [(''authorization_id'', JStr demo_uuid), (''revision'', JInt 1),
        (''allowed_host_id'', JStr demo_uuid), (''allowed_job_id'', JStr demo_uuid),
        (''allowed_operations'', JArr [JStr ''HASH_FILE'', JStr ''PING'']), (''max_bytes'', JInt 7),
        (''issued_at'', JStr ''2026-01-01T00:00:00.000000Z''), (''expires_at'', JStr ''2026-01-01T00:10:00.000000Z'')]),
      (''retention'', JObj [(''class'', JStr ''PROJECT''), (''retain_until'', JStr ''2026-01-01T00:10:00.000000Z'')])]"

definition demo_source :: artifact_source where
  "demo_source = \<lparr>as_store = ''LOCAL_ONLY'', as_locator = ''out'', as_immutable_locator_version = ''v1''\<rparr>"

definition demo_destination :: destination_policy where
  "demo_destination = \<lparr>ds_store = ''LOCAL_ONLY'', ds_backend_profile_id = ''LOCAL_ONLY'',
     ds_backend_profile_digest = ZERO_SHA256, ds_remote_transfer_enabled = False, ds_relative_path = ''out/./log.txt''\<rparr>"

definition demo_allowance :: artifact_authorization where
  "demo_allowance = \<lparr>aa_authorization_id = demo_uuid, aa_revision = 1, aa_allowed_host_id = demo_uuid,
     aa_allowed_job_id = demo_uuid, aa_allowed_operations = [''HASH_FILE'', ''PING''], aa_max_bytes = 7,
     aa_issued_at = ''2026-01-01T00:00:00.000000Z'', aa_expires_at = ''2026-01-01T00:10:00.000000Z''\<rparr>"

definition demo_retention :: retention_policy where
  "demo_retention = \<lparr>rp_retention_class = ''PROJECT'', rp_retain_until = ''2026-01-01T00:10:00.000000Z''\<rparr>"

lemma demo_source_accepted:
  "source_from_mapping [(''store'', JStr ''LOCAL_ONLY''), (''locator'', JStr ''out''), (''immutable_locator_version'', JStr ''v1'')]
     = Inr demo_source"
  by code_simp

lemma demo_destination_accepted:
  "destination_from_mapping [(''store'', JStr ''LOCAL_ONLY''), (''backend_profile_id'', JStr ''LOCAL_ONLY''),
     (''backend_profile_digest'', JStr ZERO_SHA256), (''remote_transfer_enabled'', JBool False), (''relative_path'', JStr ''out/./log.txt'')]
     = Inr demo_destination"
  by code_simp

lemma demo_operations: "allowed_operations
    [(''authorization_id'', JStr demo_uuid), (''revision'', JInt 1), (''allowed_host_id'', JStr demo_uuid),
     (''allowed_job_id'', JStr demo_uuid), (''allowed_operations'', JArr [JStr ''HASH_FILE'', JStr ''PING'']), (''max_bytes'', JInt 7),
     (''issued_at'', JStr ''2026-01-01T00:00:00.000000Z''), (''expires_at'', JStr ''2026-01-01T00:10:00.000000Z'')]
   = Inr [''HASH_FILE'', ''PING'']"
  by code_simp

lemma demo_allowance_accepted: "authorization_part_from_mapping
    [(''authorization_id'', JStr demo_uuid), (''revision'', JInt 1), (''allowed_host_id'', JStr demo_uuid),
     (''allowed_job_id'', JStr demo_uuid), (''allowed_operations'', JArr [JStr ''HASH_FILE'', JStr ''PING'']), (''max_bytes'', JInt 7),
     (''issued_at'', JStr ''2026-01-01T00:00:00.000000Z''), (''expires_at'', JStr ''2026-01-01T00:10:00.000000Z'')]
   = Inr demo_allowance"
  by (simp add: authorization_part_from_mapping_def demo_operations closed_fields_exact str_value_def int_value_def
    demo_values demo_times uint_field_def max_uint64_def MAX_ARTIFACT_BYTES_def utc_micros_def utc_ordinal_def
    longer_than_hour_def demo_allowance_def)

lemma demo_retention_accepted:
  "retention_from_mapping [(''class'', JStr ''PROJECT''), (''retain_until'', JStr ''2026-01-01T00:10:00.000000Z'')] = Inr demo_retention"
  by (simp add: retention_from_mapping_def closed_fields_exact str_value_def demo_times demo_retention_def)

lemma demo_parts_accepted:
  assumes "\<And>k. k \<in> {''source'', ''destination_policy'', ''authorization'', ''retention''} \<Longrightarrow> map_of value k = map_of demo_parts k"
  shows "manifest_parts value = Inr (demo_source, demo_destination, demo_allowance, demo_retention)"
  by (simp add: manifest_parts_def dict_value_def assms demo_parts_def demo_source_accepted demo_destination_accepted
    demo_allowance_accepted demo_retention_accepted)

definition demo_manifest :: "string \<Rightarrow> artifact_manifest" where
  "demo_manifest d = \<lparr>mf_schema_version = ARTIFACT_SCHEMA, mf_manifest_id = demo_uuid, mf_manifest_digest_algorithm = ''SHA-256'',
     mf_manifest_sha256 = d, mf_artifact_id = demo_uuid, mf_content_id = ''urn:sha256:'' @ ZERO_SHA256 @ '':7'',
     mf_logical_name = ''vera'', mf_declared_filename = ''out.txt'', mf_byte_length = 7, mf_sha256 = ZERO_SHA256,
     mf_content_class = ''LOG'', mf_privacy_class = ''PROJECT'', mf_execution_class = ''NON_EXECUTABLE'',
     mf_archive_class = ''NOT_ARCHIVE'', mf_media_type_declared = ''text/plain'', mf_source = demo_source,
     mf_destination_policy = demo_destination, mf_authorization = demo_allowance, mf_retention = demo_retention,
     mf_created_at = ''2026-01-01T00:00:00.000000Z''\<rparr>"

definition demo_mapping :: "string \<Rightarrow> (string \<times> json) list" where
  "demo_mapping d =
     [(''schema_version'', JStr ARTIFACT_SCHEMA), (''manifest_id'', JStr demo_uuid), (''manifest_digest_algorithm'', JStr ''SHA-256''),
      (''manifest_sha256'', JStr d), (''artifact_id'', JStr demo_uuid), (''content_id'', JStr (''urn:sha256:'' @ ZERO_SHA256 @ '':7'')),
      (''logical_name'', JStr ''vera''), (''declared_filename'', JStr ''out.txt''), (''byte_length'', JInt 7),
      (''sha256'', JStr ZERO_SHA256), (''content_class'', JStr ''LOG''), (''privacy_class'', JStr ''PROJECT''),
      (''execution_class'', JStr ''NON_EXECUTABLE''), (''archive_class'', JStr ''NOT_ARCHIVE''),
      (''media_type_declared'', JStr ''text/plain'')] @ demo_parts @ [(''created_at'', JStr ''2026-01-01T00:00:00.000000Z'')]"

lemma demo_manifest_valid:
  "\<exists>d. validate_manifest demo_env (demo_manifest d) = Inr ()"
proof -
  define d where "d = sha256_hexdigest (domain_material ARTIFACT_DOMAIN (manifest_digest_fields demo_env (demo_manifest [])))"
  have "manifest_digest_fields demo_env (demo_manifest d) = manifest_digest_fields demo_env (demo_manifest [])"
    by (simp add: manifest_digest_fields_def demo_manifest_def)
  then have c: "computed_manifest_sha256 demo_env (demo_manifest d) = Inr d"
    unfolding computed_manifest_sha256_def domain_digest_iff d_def
    by (simp add: ARTIFACT_DOMAIN_def line_feed_def carriage_return_def char_of_def)
  have h: "sha256_hex_field d f = Inr d" for f by (simp add: sha256_hex_field_def d_def sha256_lower_hex)
  have t: "bounded_text ''text/plain'' f 127 = Inr ''text/plain''" "safe_basename ''out.txt'' g = Inr ''out.txt''" for f g
    by code_simp+
  have "show_int 7 = ''7''" by code_simp
  then have "validate_manifest demo_env (demo_manifest d) = Inr ()"
    unfolding validate_manifest_def c
    by (simp add: demo_manifest_def demo_values demo_texts demo_times h t uint_field_def MAX_ARTIFACT_BYTES_def demo_allowance_def
      demo_retention_def CONTENT_CLASSES_def PRIVACY_CLASSES_def ARCHIVE_CLASSES_def utc_micros_def utc_ordinal_def)
  then show ?thesis by blast
qed

lemma demo_mapping_distinct: "distinct (map fst (demo_mapping d))"
  by (simp add: demo_mapping_def demo_parts_def)

lemma demo_mapping_values:
  "str_value (demo_mapping d) ''schema_version'' = Inr (mf_schema_version (demo_manifest d))"
  "str_value (demo_mapping d) ''manifest_id'' = Inr (mf_manifest_id (demo_manifest d))"
  "str_value (demo_mapping d) ''manifest_digest_algorithm'' = Inr (mf_manifest_digest_algorithm (demo_manifest d))"
  "str_value (demo_mapping d) ''manifest_sha256'' = Inr (mf_manifest_sha256 (demo_manifest d))"
  "str_value (demo_mapping d) ''artifact_id'' = Inr (mf_artifact_id (demo_manifest d))"
  "str_value (demo_mapping d) ''content_id'' = Inr (mf_content_id (demo_manifest d))"
  "str_value (demo_mapping d) ''logical_name'' = Inr (mf_logical_name (demo_manifest d))"
  "str_value (demo_mapping d) ''declared_filename'' = Inr (mf_declared_filename (demo_manifest d))"
  "int_value (demo_mapping d) ''byte_length'' = Inr (mf_byte_length (demo_manifest d))"
  "str_value (demo_mapping d) ''sha256'' = Inr (mf_sha256 (demo_manifest d))"
  "str_value (demo_mapping d) ''content_class'' = Inr (mf_content_class (demo_manifest d))"
  "str_value (demo_mapping d) ''privacy_class'' = Inr (mf_privacy_class (demo_manifest d))"
  "str_value (demo_mapping d) ''execution_class'' = Inr (mf_execution_class (demo_manifest d))"
  "str_value (demo_mapping d) ''archive_class'' = Inr (mf_archive_class (demo_manifest d))"
  "str_value (demo_mapping d) ''media_type_declared'' = Inr (mf_media_type_declared (demo_manifest d))"
  "str_value (demo_mapping d) ''created_at'' = Inr (mf_created_at (demo_manifest d))"
  by (rule value_at [OF demo_mapping_distinct]; simp add: demo_mapping_def demo_manifest_def)+

lemma demo_mapping_accepted: "\<exists>d. manifest_from_mapping demo_env (demo_mapping d) = Inr (demo_manifest d)"
proof -
  obtain d where d: "validate_manifest demo_env (demo_manifest d) = Inr ()" using demo_manifest_valid by blast
  have fields: "closed_fields (demo_mapping d) MANIFEST_FIELDS ''artifact manifest'' [] = Inr ()"
    by (rule closed_fields_exact) (simp only: demo_mapping_def demo_parts_def MANIFEST_FIELDS_def list.map append.simps fst_conv)
  have parts: "manifest_parts (demo_mapping d) = Inr (demo_source, demo_destination, demo_allowance, demo_retention)"
    by (rule demo_parts_accepted, elim insertE emptyE) (simp_all add: demo_mapping_def map_add_def demo_parts_def)
  have "manifest_from_mapping demo_env (demo_mapping d) = rbind (validate_manifest demo_env (demo_manifest d)) (\<lambda>_. Inr (demo_manifest d))"
    unfolding manifest_from_mapping_def fields parts demo_mapping_values rbind.simps prod.case Let_def
    by (simp add: demo_manifest_def)
  then show ?thesis using d by auto
qed

theorem manifest_well_formed_witness:
  "\<exists>d. manifest_from_mapping demo_env (demo_mapping d) = Inr (demo_manifest d)
     \<and> stays_below (ds_relative_path (mf_destination_policy (demo_manifest d)))
     \<and> walk [''data''] (path_names (ds_relative_path (mf_destination_policy (demo_manifest d)))) = [''data'', ''out'', ''log.txt'']
     \<and> hour_window (aa_issued_at (mf_authorization (demo_manifest d))) (aa_expires_at (mf_authorization (demo_manifest d)))"
proof -
  obtain d where d: "manifest_from_mapping demo_env (demo_mapping d) = Inr (demo_manifest d)" using demo_mapping_accepted by blast
  have "walk [''data''] (path_names ''out/./log.txt'') = [''data'', ''out'', ''log.txt'']" by simp
  then show ?thesis using d manifest_well_formed [OF d] by (auto simp: demo_manifest_def demo_destination_def)
qed

lemma manifest_digest_names_witness:
  "\<exists>d. manifest_from_mapping demo_env (demo_mapping d) = Inr (demo_manifest d) \<and>
    (demo_manifest d = demo_manifest d \<or> collides (domain_material ARTIFACT_DOMAIN (manifest_digest_fields demo_env (demo_manifest d)))
       (domain_material ARTIFACT_DOMAIN (manifest_digest_fields demo_env (demo_manifest d))))"
  using demo_mapping_accepted manifest_digest_names by blast

end
