(* ===== verification/PC_Paths.thy ===== *)
theory PC_Paths
  imports PC_Artifacts
begin

text \<open>
  \<^verbatim>\<open>pc_connection.path_policy\<close>: the lexical check of remote reads and of the agent's own
  writes. A \<^verbatim>\<open>PureWindowsPath\<close> is its parts. Comparison is by
  \<^verbatim>\<open>str.casefold\<close>, which leaves Latin-1 for one character, so a folded part is a list of
  code points.
\<close>

section \<open>Windows paths\<close>

type_synonym win_path = "string list"

text \<open>
  \<^verbatim>\<open>PureWindowsPath(s).parts\<close> of a text without a colon that does not start with a
  separator, hence without drive and root: empty and single-dot segments are dropped.
\<close>

definition relative_parts :: "string \<Rightarrow> win_path" where
  "relative_parts s = filter (\<lambda>p. p \<noteq> [] \<and> p \<noteq> ''.'') (split_all backslash (windows_separators s))"

fun fold_char :: "char \<Rightarrow> nat list" where
  "fold_char c =
     (let n = code c in
      if 65 \<le> n \<and> n \<le> 90 \<or> 192 \<le> n \<and> n \<le> 222 \<and> n \<noteq> 215 then [n + 32]
      else if n = 223 then [115, 115]
      else if n = 181 then [956]
      else [n])"

definition casefold :: "string \<Rightarrow> nat list" where
  "casefold s = concat (map fold_char s)"

definition casefold_parts :: "win_path \<Rightarrow> nat list list" where
  "casefold_parts path = map casefold path"

definition is_within :: "win_path \<Rightarrow> win_path \<Rightarrow> bool" where
  "is_within path root \<longleftrightarrow> take (length (casefold_parts root)) (casefold_parts path) = casefold_parts root"

section \<open>The policy\<close>

definition READ_ROOTS :: "(string \<times> win_path) list" where
  "READ_ROOTS = [(''VERA_ROOT'', [''C:'' @ [backslash], ''VERA'']),
     (''USER_VERA_ROOT'', [''C:'' @ [backslash], ''Users'', ''patri'', ''VERA''])]"

definition WRITE_ROOT_ID :: string where
  "WRITE_ROOT_ID = ''PCCC_WRITE_ROOT_V1''"

definition WRITE_ROOT :: win_path where
  "WRITE_ROOT = [''C:'' @ [backslash], ''VERA'', ''PCCC'']"

datatype path_error =
    Empty_relative_path
  | Rooted_path
  | Device_namespace
  | Drive_or_stream
  | Control_character
  | Names_no_target
  | Dot_segment
  | Trailing_dot_or_space
  | Forbidden_character
  | Reserved_name
  | Unknown_read_root
  | Escaped_root
  | Writable_subtree

definition FORBIDDEN_CHARS :: "char list" where
  "FORBIDDEN_CHARS = ''<>:'' @ [CHR 0x22] @ ''|?*''"

text \<open>
  The checks of one part. The set of reserved names is that of the validators; the upper-casing of
  a Latin-1 text is in it only if the ASCII upper-casing is.
\<close>

definition check_part :: "string \<Rightarrow> (path_error, unit) result" where
  "check_part part =
     rbind (ensure (part \<notin> {[], ''.'', ''..''}) Dot_segment) (\<lambda>_.
     rbind (ensure (last part \<notin> {CHR '' '', CHR ''.''}) Trailing_dot_or_space) (\<lambda>_.
     rbind (ensure (set part \<inter> set FORBIDDEN_CHARS = {}) Forbidden_character) (\<lambda>_.
       ensure (map ascii_upper (fst (split_once CHR ''.'' part)) \<notin> set RESERVED_WINDOWS_NAMES) Reserved_name)))"

text \<open>
  The text has no colon and no leading separator when it becomes a path, so the test for an
  absolute one cannot fail.
\<close>

definition validate_relative :: "string \<Rightarrow> (path_error, win_path) result" where
  "validate_relative value =
     rbind (ensure (value \<noteq> []) Empty_relative_path) (\<lambda>_.
     rbind (ensure (hd value \<notin> {CHR ''/'', backslash}) Rooted_path) (\<lambda>_.
     rbind (ensure (CHR '':'' \<notin> set value) Drive_or_stream) (\<lambda>_.
     rbind (ensure (\<forall>c\<in>set value. \<not> code c < 32) Control_character) (\<lambda>_.
     rbind (ensure (relative_parts value \<noteq> []) Names_no_target) (\<lambda>_.
     rbind (rmap_list check_part (relative_parts value)) (\<lambda>_. Inr (relative_parts value)))))))"

record authorized_path =
  ap_root_id :: string
  ap_relative_path :: string
  ap_absolute_path :: win_path

definition resolve_remote_read :: "string \<Rightarrow> string \<Rightarrow> (path_error, authorized_path) result" where
  "resolve_remote_read root_id relative_path =
     rbind (or_raise (map_of READ_ROOTS root_id) Unknown_read_root) (\<lambda>root.
     rbind (validate_relative relative_path) (\<lambda>rel.
       let absolute = root @ rel
       in rbind (ensure (is_within absolute root) Escaped_root) (\<lambda>_.
          rbind (ensure (\<not> is_within absolute WRITE_ROOT) Writable_subtree) (\<lambda>_.
            Inr \<lparr>ap_root_id = root_id, ap_relative_path = join_with [backslash] rel, ap_absolute_path = absolute\<rparr>))))"

definition resolve_runtime_write :: "string \<Rightarrow> (path_error, authorized_path) result" where
  "resolve_runtime_write relative_path =
     rbind (validate_relative relative_path) (\<lambda>rel.
       let absolute = WRITE_ROOT @ rel
       in rbind (ensure (is_within absolute WRITE_ROOT) Escaped_root) (\<lambda>_.
            Inr \<lparr>ap_root_id = WRITE_ROOT_ID, ap_relative_path = join_with [backslash] rel, ap_absolute_path = absolute\<rparr>))"

section \<open>Parts and texts\<close>

lemma split_all_parts: "p \<in> set (split_all c s) \<Longrightarrow> c \<notin> set p \<and> set p \<subseteq> set s"
proof (induction s arbitrary: p)
  case (Cons a s)
  then show ?case by (cases "split_all c s") (fastforce split: if_splits)+
qed simp

lemma relative_parts_fresh: "p \<in> set (relative_parts s) \<Longrightarrow> backslash \<notin> set p"
  by (auto simp: relative_parts_def dest: split_all_parts)

lemma relative_parts_no_slash: "p \<in> set (relative_parts s) \<Longrightarrow> CHR ''/'' \<notin> set p"
proof -
  assume "p \<in> set (relative_parts s)"
  then have "set p \<subseteq> set (windows_separators s)" by (auto simp: relative_parts_def dest: split_all_parts)
  moreover have "CHR ''/'' \<notin> set (windows_separators s)" by (auto simp: windows_separators_def backslash_def)
  ultimately show ?thesis by blast
qed

lemma relative_parts_chars: "p \<in> set (relative_parts s) \<Longrightarrow> c \<in> set p \<Longrightarrow> c \<in> set s"
proof -
  assume p: "p \<in> set (relative_parts s)" and c: "c \<in> set p"
  then have "c \<in> set (windows_separators s)" by (auto simp: relative_parts_def dest: split_all_parts)
  then have "c = backslash \<or> c \<in> set s" by (auto simp: windows_separators_def split: if_splits)
  then show ?thesis using relative_parts_fresh [OF p] c by blast
qed

lemma join_chars: "xs \<noteq> [] \<Longrightarrow> c \<in> set (join_with [d] xs) \<longleftrightarrow> (\<exists>x\<in>set xs. c \<in> set x) \<or> c = d \<and> 1 < length xs"
  by (induction "[d]" xs rule: join_with.induct) auto

text \<open>Joining the parts again and splitting gives them back.\<close>

lemma relative_parts_join:
  assumes "xs \<noteq> []" "\<forall>p\<in>set xs. p \<noteq> [] \<and> p \<noteq> ''.'' \<and> backslash \<notin> set p \<and> CHR ''/'' \<notin> set p"
  shows "relative_parts (join_with [backslash] xs) = xs"
proof -
  have "CHR ''/'' \<notin> set (join_with [backslash] xs)" using assms by (simp add: join_chars backslash_def)
  then have "windows_separators (join_with [backslash] xs) = join_with [backslash] xs"
    unfolding windows_separators_def by (intro map_idI) auto
  then show ?thesis using split_join [OF assms(1)] assms(2) by (simp add: relative_parts_def)
qed

lemma join_hd: "xs \<noteq> [] \<Longrightarrow> hd xs \<noteq> [] \<Longrightarrow> hd (join_with sep xs) = hd (hd xs) \<and> join_with sep xs \<noteq> []"
  by (induction sep xs rule: join_with.induct) auto

lemma valid_relative:
  "validate_relative v = Inr rel \<longleftrightarrow> v \<noteq> [] \<and> hd v \<notin> {CHR ''/'', backslash} \<and> CHR '':'' \<notin> set v \<and>
     (\<forall>c\<in>set v. \<not> code c < 32) \<and> relative_parts v \<noteq> [] \<and> (\<forall>p\<in>set (relative_parts v). check_part p = Inr ()) \<and>
     rel = relative_parts v"
proof -
  have "ok (rmap_list check_part xs) \<longleftrightarrow> (\<forall>p\<in>set xs. check_part p = Inr ())" for xs
    using rmap_list_total [of xs check_part] rmap_list_member [of check_part xs] by fastforce
  from this [of "relative_parts v"] show ?thesis by (auto simp: validate_relative_def result_simps)
qed

lemma valid_relative_join:
  assumes "validate_relative v = Inr rel"
  shows "validate_relative (join_with [backslash] rel) = Inr rel"
proof -
  have v: "rel = relative_parts v" "rel \<noteq> []" "CHR '':'' \<notin> set v" "\<forall>c\<in>set v. \<not> code c < 32" "\<forall>p\<in>set rel. check_part p = Inr ()"
    using assms by (simp_all add: valid_relative)
  have part: "p \<noteq> [] \<and> p \<noteq> ''.'' \<and> backslash \<notin> set p \<and> CHR ''/'' \<notin> set p \<and> set p \<subseteq> set v" if "p \<in> set rel" for p
    using that v(1) relative_parts_fresh relative_parts_no_slash relative_parts_chars by (auto simp: relative_parts_def)
  have h: "hd rel \<in> set rel" "hd rel \<noteq> []" using v(2) part by auto
  have "hd (hd rel) \<noteq> CHR ''/''" "hd (hd rel) \<noteq> backslash" using part [OF h(1)] hd_in_set [OF h(2)] by metis+
  then have "hd (join_with [backslash] rel) \<notin> {CHR ''/'', backslash}"
    using join_hd [OF v(2) h(2), of "[backslash]"] by simp
  moreover have "c \<in> set v \<or> c = backslash" if "c \<in> set (join_with [backslash] rel)" for c
    using that part by (auto simp: join_chars [OF v(2)])
  then have "CHR '':'' \<notin> set (join_with [backslash] rel)" "\<forall>c\<in>set (join_with [backslash] rel). \<not> code c < 32"
    using v(3,4) by (force simp: backslash_def)+
  moreover have "relative_parts (join_with [backslash] rel) = rel"
    using relative_parts_join [OF v(2)] part by blast
  ultimately show ?thesis using v(2,5) join_hd [OF v(2) h(2), of "[backslash]"] by (simp add: valid_relative)
qed

section \<open>What the policy guarantees\<close>

lemma within_prefix: "is_within path root \<longleftrightarrow> prefix (casefold_parts root) (casefold_parts path)"
  unfolding is_within_def by (metis append_eq_conv_conj prefix_def take_is_prefix)

lemma same_within:
  assumes "prefix (casefold_parts path) (casefold_parts root)" "length root \<le> length path"
  shows "is_within path root"
proof -
  obtain zs where "casefold_parts root = casefold_parts path @ zs" using assms(1) by (auto simp: prefix_def)
  moreover from arg_cong [OF this, of length] have "zs = []" using assms(2) by (simp add: casefold_parts_def)
  ultimately show ?thesis by (simp add: within_prefix)
qed

lemma is_within_append [simp]: "is_within (root @ rel) root"
  by (simp add: is_within_def casefold_parts_def)

lemma remote_read_Inr:
  "resolve_remote_read rid rel = Inr p \<longleftrightarrow>
     (\<exists>root parts. map_of READ_ROOTS rid = Some root \<and> validate_relative rel = Inr parts \<and>
        \<not> is_within (root @ parts) WRITE_ROOT \<and>
        p = \<lparr>ap_root_id = rid, ap_relative_path = join_with [backslash] parts, ap_absolute_path = root @ parts\<rparr>)"
  by (auto simp: resolve_remote_read_def result_simps Let_def)

lemma runtime_write_Inr:
  "resolve_runtime_write rel = Inr p \<longleftrightarrow>
     (\<exists>parts. validate_relative rel = Inr parts \<and>
        p = \<lparr>ap_root_id = WRITE_ROOT_ID, ap_relative_path = join_with [backslash] parts, ap_absolute_path = WRITE_ROOT @ parts\<rparr>)"
  by (auto simp: resolve_runtime_write_def result_simps Let_def)

lemma read_root_cases:
  assumes "map_of READ_ROOTS rid = Some root"
  obtains "root = [''C:'' @ [backslash], ''VERA'']" | "root = [''C:'' @ [backslash], ''Users'', ''patri'', ''VERA'']"
  using assms by (auto simp: READ_ROOTS_def split: if_splits)

text \<open>
  C31: What a remote job can read and what the agent writes lie apart. Whatever path a remote
  read resolves to lies below the read root it names, no part of it climbs or holds a separator, a
  stream or a drive; and compared as Windows compares names, it never lies below a path the
  agent may write, nor such a path below it.
\<close>

theorem reads_apart_from_writes:
  assumes "resolve_remote_read rid r = Inr p" "resolve_runtime_write w = Inr q"
  shows "(\<exists>root parts. map_of READ_ROOTS rid = Some root \<and> ap_absolute_path p = root @ parts \<and> parts \<noteq> [] \<and>
      (\<forall>part\<in>set parts. part \<notin> {[], ''.'', ''..''} \<and> set part \<inter> {CHR ''/'', backslash, CHR '':''} = {})) \<and>
    is_within (ap_absolute_path q) WRITE_ROOT \<and>
    \<not> is_within (ap_absolute_path p) (ap_absolute_path q) \<and> \<not> is_within (ap_absolute_path q) (ap_absolute_path p)"
proof -
  obtain root parts where root: "map_of READ_ROOTS rid = Some root" "validate_relative r = Inr parts"
    and out: "\<not> is_within (root @ parts) WRITE_ROOT" and p: "ap_absolute_path p = root @ parts"
    using assms(1) unfolding remote_read_Inr by auto
  have q: "is_within (ap_absolute_path q) WRITE_ROOT" using assms(2) by (auto simp: runtime_write_Inr)
  have ne: "parts \<noteq> []" using root(2) by (simp add: valid_relative)
  have "length WRITE_ROOT \<le> length (root @ parts)"
    using root(1) ne by (cases rule: read_root_cases) (auto simp: WRITE_ROOT_def Suc_le_eq)
  then have "\<not> prefix (casefold_parts (root @ parts)) (casefold_parts WRITE_ROOT)"
    using out same_within [of "root @ parts" WRITE_ROOT] by blast
  then have "\<not> is_within (ap_absolute_path q) (root @ parts)"
    using prefix_same_cases out q unfolding within_prefix by blast
  moreover have "\<not> is_within (root @ parts) (ap_absolute_path q)"
    using out q prefix_order.trans unfolding within_prefix by blast
  moreover have "part \<notin> {[], ''.'', ''..''} \<and> set part \<inter> {CHR ''/'', backslash, CHR '':''} = {}" if "part \<in> set parts" for part
    using that root(2) relative_parts_fresh relative_parts_no_slash relative_parts_chars
    by (fastforce simp: valid_relative check_part_def result_simps)
  ultimately show ?thesis using root(1) ne p q by auto
qed

lemma demo_paths:
  "resolve_remote_read ''VERA_ROOT'' ''docs/./a.txt'' = Inr \<lparr>ap_root_id = ''VERA_ROOT'', ap_relative_path = ''docs'' @ [backslash] @ ''a.txt'',
     ap_absolute_path = [''C:'' @ [backslash], ''VERA'', ''docs'', ''a.txt'']\<rparr>"
  "resolve_runtime_write ''log'' = Inr \<lparr>ap_root_id = WRITE_ROOT_ID, ap_relative_path = ''log'',
     ap_absolute_path = WRITE_ROOT @ [''log'']\<rparr>"
  by code_simp+

theorem reads_apart_from_writes_witness:
  "\<exists>p q. resolve_remote_read ''VERA_ROOT'' ''docs/./a.txt'' = Inr p \<and> resolve_runtime_write ''log'' = Inr q \<and>
    \<not> is_within (ap_absolute_path p) (ap_absolute_path q)"
  using demo_paths reads_apart_from_writes [OF demo_paths] by blast

text \<open>
  A resolved path is its own canonical form. The relative path a read or a write returns
  resolves again, to the same path: nothing of it is dropped or changed the second time, so
  what was checked is what is opened.
\<close>

lemma resolved_path_canonical:
  "(resolve_remote_read rid r = Inr p \<longrightarrow> resolve_remote_read rid (ap_relative_path p) = Inr p) \<and>
   (resolve_runtime_write w = Inr q \<longrightarrow> resolve_runtime_write (ap_relative_path q) = Inr q)"
proof (intro conjI impI)
  assume "resolve_remote_read rid r = Inr p"
  then obtain root parts where p: "map_of READ_ROOTS rid = Some root" "validate_relative r = Inr parts"
    "\<not> is_within (root @ parts) WRITE_ROOT"
    "p = \<lparr>ap_root_id = rid, ap_relative_path = join_with [backslash] parts, ap_absolute_path = root @ parts\<rparr>"
    unfolding remote_read_Inr by blast
  show "resolve_remote_read rid (ap_relative_path p) = Inr p"
    unfolding remote_read_Inr using p(1,3,4) valid_relative_join [OF p(2)] by auto
next
  assume "resolve_runtime_write w = Inr q"
  then obtain parts where q: "validate_relative w = Inr parts"
    "q = \<lparr>ap_root_id = WRITE_ROOT_ID, ap_relative_path = join_with [backslash] parts, ap_absolute_path = WRITE_ROOT @ parts\<rparr>"
    unfolding runtime_write_Inr by blast
  show "resolve_runtime_write (ap_relative_path q) = Inr q"
    unfolding runtime_write_Inr using q(2) valid_relative_join [OF q(1)] by auto
qed

lemma resolved_path_canonical_witness:
  "resolve_remote_read ''VERA_ROOT'' (''docs'' @ [backslash] @ ''a.txt'') = resolve_remote_read ''VERA_ROOT'' ''docs/./a.txt''"
  using resolved_path_canonical [of "''VERA_ROOT''" "''docs/./a.txt''" _ "[]" undefined, THEN conjunct1, THEN mp, OF demo_paths(1)]
  unfolding demo_paths(1) by (simp only: authorized_path.simps)

end
