(* ===== verification/Action_Values.thy ===== *)
theory Action_Values
  imports Py_Values
begin

text \<open>
  The Python values that \<^verbatim>\<open>vera_core.action_gate\<close> puts under a digest, and
  \<^verbatim>\<open>_normalize\<close> and \<^verbatim>\<open>_digest\<close>, which make a JSON value and the digest
  of its canonical text of them. A dict and a dataclass instance are association lists; a key
  that is not a string is \<open>None\<close>. \<open>VOther\<close> is a value of any other type, which is refused.
\<close>

datatype py_value =
    VNone
  | VBool bool
  | VInt int
  | VFloat string
  | VStr string
  | VBytes string
  | VList "py_value list"
  | VSet "py_value list"
  | VDict "(string option \<times> py_value) list"
  | VData "(string \<times> py_value) list"
  | VEnum py_value
  | VPath string
  | VOther string

datatype value_error =
    Non_string_key
  | Unsupported_value string
  | Value_canon canon_error

definition key_text :: "string option \<times> 'a \<Rightarrow> string" where
  "key_text kv = (case fst kv of Some k \<Rightarrow> k | None \<Rightarrow> [])"

lemma pair_size: "kv \<in> set kvs \<Longrightarrow> size (snd kv) < Suc (size_list (size_prod f size) kvs)"
  by (rule less_SucI, rule size_list_estimation, assumption) (cases kv, simp)

text \<open>
  A dataclass is the dict of its fields, in their order until the keys are sorted. The items of a
  set are listed in the order of their \<^verbatim>\<open>repr\<close>.
\<close>

function (sequential) normalize_action :: "py_env \<Rightarrow> py_value \<Rightarrow> (value_error, json) result" where
  "normalize_action E VNone = Inr JNull"
| "normalize_action E (VBool b) = Inr (JBool b)"
| "normalize_action E (VInt i) = Inr (JInt i)"
| "normalize_action E (VFloat t) = Inr (JFloat t)"
| "normalize_action E (VStr s) = Inr (JStr s)"
| "normalize_action E (VBytes b) = Inr (JObj [(''bytes_sha256'', JStr (sha256_hexdigest b))])"
| "normalize_action E (VList vs) = rbind (rmap_list (normalize_action E) vs) (\<lambda>ws. Inr (JArr ws))"
| "normalize_action E (VSet vs) =
     rbind (rmap_list (normalize_action E) vs) (\<lambda>ws. Inr (JArr (sort_key (py_repr E) ws)))"
| "normalize_action E (VDict kvs) =
     rbind (ensure (None \<notin> fst ` set kvs) Non_string_key) (\<lambda>_.
     rbind (rmap_list (\<lambda>kv. rbind (normalize_action E (snd kv)) (\<lambda>w. Inr (key_text kv, w))) (sort_key key_text kvs))
       (\<lambda>ws. Inr (JObj ws)))"
| "normalize_action E (VData kvs) =
     rbind (rmap_list (\<lambda>kv. rbind (normalize_action E (snd kv)) (\<lambda>w. Inr (fst kv, w))) (sort_key fst kvs))
       (\<lambda>ws. Inr (JObj ws))"
| "normalize_action E (VEnum v) = normalize_action E v"
| "normalize_action E (VPath s) = Inr (JStr s)"
| "normalize_action E (VOther t) = Inl (Unsupported_value t)"
  by pat_completeness auto

termination
  by (relation "measure (\<lambda>(_, v). size v)")
    (auto simp: less_Suc_eq_le size_list_estimation' dest!: pair_size [THEN less_Suc_eq_le [THEN iffD1]])

definition action_digest :: "py_env \<Rightarrow> py_value \<Rightarrow> (value_error, string) result" where
  "action_digest E v = rbind (normalize_action E v) (\<lambda>w. map_err Value_canon (canonical_digest E w))"

section \<open>Dicts with string keys\<close>

definition VObj :: "(string \<times> py_value) list \<Rightarrow> py_value" where
  "VObj kvs = VDict (map (\<lambda>(k, v). (Some k, v)) kvs)"

definition opt_value :: "string option \<Rightarrow> py_value" where
  "opt_value s = (case s of None \<Rightarrow> VNone | Some t \<Rightarrow> VStr t)"

text \<open>A JSON value as the Python value it is.\<close>

fun value_of :: "json \<Rightarrow> py_value" where
  "value_of JNull = VNone"
| "value_of (JBool b) = VBool b"
| "value_of (JInt i) = VInt i"
| "value_of (JFloat t) = VFloat t"
| "value_of (JStr s) = VStr s"
| "value_of (JArr vs) = VList (map value_of vs)"
| "value_of (JObj kvs) = VDict (map (\<lambda>kv. (Some (fst kv), value_of (snd kv))) kvs)"

lemma action_digest_hex: "action_digest E v = Inr d \<Longrightarrow> digest_check d = Inr d"
  by (auto simp: action_digest_def canonical_digest_def result_simps)

lemma insort_key_map: "insort_key g (f x) (map f xs) = map f (insort_key (\<lambda>a. g (f a)) x xs)"
  by (induction xs) auto

lemma sort_key_map: "sort_key g (map f xs) = map f (sort_key (\<lambda>a. g (f a)) xs)"
  by (induction xs) (simp_all add: insort_key_map)

lemma rmap_list_map_arg: "rmap_list f (map g xs) = rmap_list (f \<circ> g) xs"
  by (induction xs) auto

lemma normalize_VObj:
  "normalize_action E (VObj kvs) =
     rbind (rmap_list (\<lambda>kv. rbind (normalize_action E (snd kv)) (\<lambda>w. Inr (fst kv, w))) (sort_key fst kvs))
       (\<lambda>ws. Inr (JObj ws))"
proof -
  let ?f = "\<lambda>(k, v). (Some k, v) :: string option \<times> py_value"
  have "(\<lambda>a. key_text (?f a)) = fst" by (auto simp: key_text_def fun_eq_iff)
  moreover have "(\<lambda>kv. rbind (normalize_action E (snd kv)) (\<lambda>w. Inr (key_text kv, w))) \<circ> ?f
    = (\<lambda>kv. rbind (normalize_action E (snd kv)) (\<lambda>w. Inr (fst kv, w)))"
    by (auto simp: key_text_def fun_eq_iff)
  moreover have "None \<notin> fst ` set (map ?f kvs)" by auto
  ultimately show ?thesis by (simp add: VObj_def sort_key_map rmap_list_map_arg)
qed

lemma normalize_pairs_keys:
  "rmap_list (\<lambda>kv. rbind (f (snd kv)) (\<lambda>w. Inr (g kv, w))) xs = Inr ws \<Longrightarrow>
     map fst ws = map g xs \<and> list_all2 (\<lambda>kv p. f (snd kv) = Inr (snd p)) xs ws"
  by (induction xs arbitrary: ws) (auto simp: result_simps)

text \<open>
  \<^verbatim>\<open>_normalize\<close> of its own result is that result, so the calls that normalize a payload
  before they put it into a dict that is normalized again change nothing.
\<close>

lemma value_of_pairs:
  assumes "sorted (map fst ws)" "\<And>kv. kv \<in> set ws \<Longrightarrow> normalize_action E (value_of (snd kv)) = Inr (snd kv)"
  shows "normalize_action E (value_of (JObj ws)) = Inr (JObj ws)"
proof -
  have eq: "value_of (JObj ws) = VObj (map (\<lambda>kv. (fst kv, value_of (snd kv))) ws)" by (simp add: VObj_def)
  have "sort_key (\<lambda>a. fst (fst a, value_of (snd a))) ws = ws"
    by (rule sort_key_id_if_sorted) (simp add: assms(1))
  moreover have "rmap_list (\<lambda>kv. rbind (normalize_action E (value_of (snd kv))) (\<lambda>w. Inr (fst kv, w))) ws = Inr ws"
    using assms(2) by (intro rmap_list_fixed) simp
  ultimately show ?thesis unfolding eq by (simp add: normalize_VObj sort_key_map rmap_list_map_arg comp_def)
qed

lemma value_of_list:
  assumes "\<And>w. w \<in> set ws \<Longrightarrow> normalize_action E (value_of w) = Inr w"
  shows "normalize_action E (value_of (JArr ws)) = Inr (JArr ws)"
  using assms by (simp add: rmap_list_map_arg rmap_list_fixed)

lemma list_all2_second: "list_all2 P xs ys \<Longrightarrow> y \<in> set ys \<Longrightarrow> \<exists>x\<in>set xs. P x y"
  by (induction xs ys rule: list_all2_induct) auto

lemma rmap_list_all2: "rmap_list f xs = Inr ys \<Longrightarrow> list_all2 (\<lambda>x y. f x = Inr y) xs ys"
  by (induction xs arbitrary: ys) (auto simp: result_simps)

lemma normalize_twice: "normalize_action E v = Inr w \<Longrightarrow> normalize_action E (value_of w) = Inr w"
proof (induction E v arbitrary: w rule: normalize_action.induct)
  case (7 E vs)
  then obtain ws where w: "w = JArr ws" "rmap_list (normalize_action E) vs = Inr ws" by (auto simp: result_simps)
  have "normalize_action E (value_of x) = Inr x" if "x \<in> set ws" for x
    using list_all2_second [OF rmap_list_all2 [OF w(2)] that] 7(1) by blast
  then show ?case unfolding w(1) by (rule value_of_list)
next
  case (8 E vs)
  then obtain ws where w: "w = JArr (sort_key (py_repr E) ws)" "rmap_list (normalize_action E) vs = Inr ws" by (auto simp: result_simps)
  have "normalize_action E (value_of x) = Inr x" if "x \<in> set (sort_key (py_repr E) ws)" for x
    using list_all2_second [OF rmap_list_all2 [OF w(2)], of x] 8(1) that unfolding set_sort by blast
  then show ?case unfolding w(1) by (rule value_of_list)
next
  case (9 E kvs)
  then obtain ws where w: "w = JObj ws"
    "rmap_list (\<lambda>kv. rbind (normalize_action E (snd kv)) (\<lambda>w. Inr (key_text kv, w))) (sort_key key_text kvs) = Inr ws"
    "None \<notin> fst ` set kvs"
    by (auto simp: result_simps)
  note ks = normalize_pairs_keys [OF w(2)]
  have "normalize_action E (value_of (snd p)) = Inr (snd p)" if "p \<in> set ws" for p
    using list_all2_second [OF conjunct2 [OF ks] that] 9(1) w(3) by (auto simp: ensure_def)
  then show ?case unfolding w(1) using ks by (intro value_of_pairs) simp_all
next
  case (10 E kvs)
  then obtain ws where w: "w = JObj ws"
    "rmap_list (\<lambda>kv. rbind (normalize_action E (snd kv)) (\<lambda>w. Inr (fst kv, w))) (sort_key fst kvs) = Inr ws"
    by (auto simp: result_simps)
  note ks = normalize_pairs_keys [OF w(2)]
  have "normalize_action E (value_of (snd p)) = Inr (snd p)" if "p \<in> set ws" for p
    using list_all2_second [OF conjunct2 [OF ks] that] 10(1) by auto
  then show ?case unfolding w(1) using ks by (intro value_of_pairs) simp_all
qed (auto simp: key_text_def)

end
