(* ===== verification/Action_Gate.thy ===== *)
theory Action_Gate
  imports Action_Values Effect_Recovery Lifecycle PC_Envelopes
begin

text \<open>
  \<^verbatim>\<open>vera_core.action_gate\<close>: \<^verbatim>\<open>LifecycleEffectGateway\<close>, the path of every
  effect on the outside. The state is what the gateway holds: the lifecycle with the effect fence
  and the audit ledger it was given (\<^verbatim>\<open>qualified_runtime\<close> gives the gateway the same
  two), the trust registry, the memory of the authority verifiers, and the outside world, which
  only \<^verbatim>\<open>execute\<close> changes. A dispatch is an \<open>action\<close>: each of its transactions is a
  step, and a process can die between any two of them. The action locks serialise the dispatches
  and the mutations of the stores and are not a state.
\<close>

datatype gate_rule =
    Empty_effect_id
  | Empty_effect_kind
  | No_fence
  | No_pc_verifier
  | Project_mismatch
  | Dependency_mismatch
  | No_trust_registry
  | Issuer_mismatch
  | Epoch_stale
  | Naive_clock
  | Outside_job_window
  | Outside_authority_window
  | Authority_refused
  | Empty_provider_id
  | Empty_operation
  | Unknown_provider
  | Provider_identity_mismatch
  | Execution_raised

datatype action_error =
    Gate_rule gate_rule
  | Gate_value value_error
  | Gate_evidence digest_fault
  | Gate_canon canon_error
  | Gate_lifecycle lifecycle_error
  | Gate_fence fence_error
  | Gate_audit audit_error
  | Gate_trust trust_error
  | Gate_contract contract_error
  | Gate_binding binding_error

record ('v, 'p, 'w) gateway =
  gw_lifecycle :: lifecycle
  gw_trust :: "registry option"
  gw_pc :: 'v
  gw_providers :: 'p
  gw_world :: 'w

type_synonym ('v, 'p, 'w, 'a) gate_action = "(('v, 'p, 'w) gateway, action_error, 'a) action"

definition gate_fence :: "('v, 'p, 'w) gateway \<Rightarrow> fence option" where
  "gate_fence s = lf_fence (gw_lifecycle s)"

definition gate_audit :: "('v, 'p, 'w) gateway \<Rightarrow> audit option" where
  "gate_audit s = lf_audit (gw_lifecycle s)"

definition put_fence :: "fence \<Rightarrow> ('v, 'p, 'w) gateway \<Rightarrow> ('v, 'p, 'w) gateway" where
  "put_fence F s = s\<lparr>gw_lifecycle := (gw_lifecycle s)\<lparr>lf_fence := Some F\<rparr>\<rparr>"

definition put_audit :: "audit \<Rightarrow> ('v, 'p, 'w) gateway \<Rightarrow> ('v, 'p, 'w) gateway" where
  "put_audit A s = s\<lparr>gw_lifecycle := (gw_lifecycle s)\<lparr>lf_audit := Some A\<rparr>\<rparr>"

section \<open>Transactions of the gateway\<close>

definition fence_tx ::
  "(fence \<Rightarrow> (fence_error, effect_receipt \<times> fence) result) \<Rightarrow> ('v, 'p, 'w, effect_receipt) gate_action" where
  "fence_tx f =
     act_tx (\<lambda>s. rbind (or_raise (gate_fence s) (Gate_rule No_fence)) (\<lambda>F.
       rbind (map_err Gate_fence (f F)) (\<lambda>(r, F'). Inr (r, put_fence F' s))))"

text \<open>\<^verbatim>\<open>if self.audit is not None: self.audit.append(...)\<close>\<close>

definition audit_note ::
  "py_env \<Rightarrow> string \<Rightarrow> string \<Rightarrow> string \<Rightarrow> (string \<times> json) list \<Rightarrow> ('v, 'p, 'w, unit) gate_action" where
  "audit_note E eid kind t payload =
     act_tx (\<lambda>s. case gate_audit s of
         None \<Rightarrow> Inr ((), s)
       | Some A \<Rightarrow> rbind (map_err Gate_audit (audit_append E A eid kind t payload)) (\<lambda>(_, A'). Inr ((), put_audit A' s)))"

definition check_permit :: "py_env \<Rightarrow> string \<Rightarrow> permit \<Rightarrow> ('v, 'p, 'w, permit) gate_action" where
  "check_permit E control p =
     act_read (\<lambda>s. map_err Gate_lifecycle (validate_action_permit E control p (gw_lifecycle s)))"

definition check_clear :: "('v, 'p, 'w, unit) gate_action" where
  "check_clear =
     act_read (\<lambda>s. rbind (or_raise (gate_fence s) (Gate_rule No_fence)) (\<lambda>F. map_err Gate_fence (assert_clear F)))"

section \<open>What an effect is identified by\<close>

definition effect_request_digest ::
  "py_env \<Rightarrow> permit \<Rightarrow> string \<Rightarrow> string \<Rightarrow> py_value \<Rightarrow> (value_error, string) result" where
  "effect_request_digest E p eid kind payload =
     rbind (normalize_action E payload) (\<lambda>w.
       action_digest E (VObj [(''schema'', VStr ''VERA_MONO_LIFECYCLE_BOUND_EFFECT_REQUEST_V1''),
         (''effect_id'', VStr eid), (''effect_kind'', VStr kind), (''request_payload'', value_of w),
         (''lifecycle_permit_digest'', VStr (pm_permit_digest p))]))"

definition mechanical_permit_digest :: "py_env \<Rightarrow> permit \<Rightarrow> string \<Rightarrow> string \<Rightarrow> (value_error, string) result" where
  "mechanical_permit_digest E p eid req_digest =
     action_digest E (VObj [(''schema'', VStr ''VERA_MONO_EFFECT_MECHANICAL_PERMIT_V1''), (''effect_id'', VStr eid),
       (''request_digest'', VStr req_digest), (''lifecycle_permit_digest'', VStr (pm_permit_digest p))])"

definition effect_result_digest :: "py_env \<Rightarrow> string \<Rightarrow> string \<Rightarrow> py_value \<Rightarrow> (value_error, string) result" where
  "effect_result_digest E eid kind v =
     rbind (normalize_action E v) (\<lambda>w.
       action_digest E (VObj [(''schema'', VStr ''VERA_MONO_EFFECT_RESULT_V1''), (''effect_id'', VStr eid),
         (''effect_kind'', VStr kind), (''value'', value_of w)]))"

record authority_evidence =
  av_digest :: string
  av_details :: "(string \<times> py_value) list"

record effect_result =
  ef_effect_id :: string
  ef_effect_kind :: string
  ef_request_digest :: string
  ef_permit_digest :: string
  ef_result_digest :: string
  ef_receipt :: effect_receipt
  ef_value :: py_value

text \<open>The local variables of \<^verbatim>\<open>_dispatch_verified\<close> once the digests are computed.\<close>

record effect_call =
  ec_permit :: permit
  ec_effect_id :: string
  ec_effect_kind :: string
  ec_request :: string
  ec_mechanical :: string

section \<open>The payloads of the audit events\<close>

definition permit_json :: "permit \<Rightarrow> json" where
  "permit_json p = JObj (permit_body p @ [(''permit_digest'', JStr (pm_permit_digest p))])"

definition verified_payload :: "effect_call \<Rightarrow> string \<Rightarrow> json \<Rightarrow> (string \<times> json) list" where
  "verified_payload c evidence details =
     [(''request_digest'', JStr (ec_request c)), (''mechanical_permit_digest'', JStr (ec_mechanical c)),
      (''lifecycle_permit'', permit_json (ec_permit c)), (''authority_evidence_digest'', JStr evidence),
      (''authority_details'', details)]"

definition mechanical_payload :: "effect_receipt \<Rightarrow> (string \<times> json) list" where
  "mechanical_payload r =
     [(''request_digest'', JStr (er_request_digest r)), (''mechanical_permit_digest'', JStr (er_permit r)),
      (''authority_evidence_digest'', JStr (er_authority r)), (''currentness_evidence_digest'', JStr (er_currentness r))]"

definition unknown_payload :: "effect_receipt \<Rightarrow> (string \<times> json) list" where
  "unknown_payload r =
     [(''request_digest'', JStr (er_request_digest r)), (''authority_evidence_digest'', JStr (er_authority r)),
      (''currentness_evidence_digest'', JStr (er_currentness r))]"

definition committed_event :: "effect_receipt \<Rightarrow> (string \<times> json) list" where
  "committed_event r =
     [(''request_digest'', JStr (er_request_digest r)), (''result_digest'', opt_str (er_result r)),
      (''authority_evidence_digest'', JStr (er_authority r)), (''currentness_evidence_digest'', JStr (er_currentness r))]"

section \<open>The dispatch\<close>

text \<open>
  The call of \<^verbatim>\<open>execute\<close>: it changes the outside world and returns a value, or raises
  (\<open>None\<close>).
\<close>

definition run_effect :: "('w \<Rightarrow> py_value option \<times> 'w) \<Rightarrow> ('v, 'p, 'w, py_value option) gate_action" where
  "run_effect execute =
     act_tx (\<lambda>s. case execute (gw_world s) of (v, w) \<Rightarrow> Inr (v, s\<lparr>gw_world := w\<rparr>))"

text \<open>The \<^verbatim>\<open>except BaseException\<close> branch, which raises again what was raised.\<close>

definition outcome_unknown ::
  "py_env \<Rightarrow> effect_call \<Rightarrow> action_error \<Rightarrow> ('v, 'p, 'w, effect_result) gate_action" where
  "outcome_unknown E c raised =
     act_bind (fence_tx (\<lambda>F. settle F (ec_effect_id c) None False)) (\<lambda>r.
     act_bind (audit_note E (ec_effect_id c) (ec_effect_kind c) ''ATTEMPTED_UNKNOWN'' (unknown_payload r)) (\<lambda>_.
       act_read (\<lambda>_. Inl raised)))"

definition outcome_known ::
  "py_env \<Rightarrow> effect_call \<Rightarrow> py_value \<Rightarrow> string \<Rightarrow> ('v, 'p, 'w, effect_result) gate_action" where
  "outcome_known E c v digest =
     act_bind (fence_tx (\<lambda>F. settle F (ec_effect_id c) (Some digest) True)) (\<lambda>r.
     act_bind (audit_note E (ec_effect_id c) (ec_effect_kind c) ''COMMITTED'' (committed_event r)) (\<lambda>_.
       act_read (\<lambda>_. Inr \<lparr>ef_effect_id = ec_effect_id c, ef_effect_kind = ec_effect_kind c,
         ef_request_digest = ec_request c, ef_permit_digest = pm_permit_digest (ec_permit c),
         ef_result_digest = digest, ef_receipt = r, ef_value = v\<rparr>)))"

definition conclude_effect ::
  "py_env \<Rightarrow> effect_call \<Rightarrow> py_value option \<Rightarrow> ('v, 'p, 'w, effect_result) gate_action" where
  "conclude_effect E c outcome =
     (case outcome of
        None \<Rightarrow> outcome_unknown E c (Gate_rule Execution_raised)
      | Some v \<Rightarrow>
          (case effect_result_digest E (ec_effect_id c) (ec_effect_kind c) v of
             Inl e \<Rightarrow> outcome_unknown E c (Gate_value e)
           | Inr digest \<Rightarrow> outcome_known E c v digest))"

definition reserve_effect :: "effect_call \<Rightarrow> string \<Rightarrow> ('v, 'p, 'w, effect_receipt) gate_action" where
  "reserve_effect c evidence =
     fence_tx (\<lambda>F. reserve F (ec_effect_id c) (ec_request c) (ec_mechanical c) evidence (pm_permit_digest (ec_permit c)))"

text \<open>The two transactions of \<^verbatim>\<open>claim_dispatch\<close>, with the receipt it makes.\<close>

definition claim_effect :: "effect_call \<Rightarrow> string \<Rightarrow> ('v, 'p, 'w, effect_receipt) gate_action" where
  "claim_effect c evidence =
     act_bind (reserve_effect c evidence) (\<lambda>requested.
       fence_tx (\<lambda>F. rbind (claim_tx F (ec_effect_id c)) (\<lambda>F'.
         Inr (requested\<lparr>er_state := EXECUTING, er_result := None, er_reconciliation := None\<rparr>, F'))))"

definition execute_claimed ::
  "py_env \<Rightarrow> effect_call \<Rightarrow> ('w \<Rightarrow> py_value option \<times> 'w) \<Rightarrow> effect_receipt \<Rightarrow> ('v, 'p, 'w, effect_result) gate_action" where
  "execute_claimed E c execute executing =
     act_bind (audit_note E (ec_effect_id c) (ec_effect_kind c) ''EXECUTING'' (mechanical_payload executing)) (\<lambda>_.
     act_bind (run_effect execute) (conclude_effect E c))"

definition claim_reserved ::
  "py_env \<Rightarrow> string \<Rightarrow> effect_call \<Rightarrow> ('w \<Rightarrow> py_value option \<times> 'w) \<Rightarrow> string \<Rightarrow> effect_receipt \<Rightarrow>
     ('v, 'p, 'w, effect_result) gate_action" where
  "claim_reserved E control c execute evidence reserved =
     act_bind (audit_note E (ec_effect_id c) (ec_effect_kind c) ''RESERVED'' (mechanical_payload reserved)) (\<lambda>_.
     act_bind (check_permit E control (ec_permit c)) (\<lambda>_.
     act_bind (claim_effect c evidence) (execute_claimed E c execute)))"

definition authority_note ::
  "py_env \<Rightarrow> effect_call \<Rightarrow> string \<Rightarrow> (string \<times> py_value) list \<Rightarrow> ('v, 'p, 'w, unit) gate_action" where
  "authority_note E c evidence details =
     act_tx (\<lambda>s. case gate_audit s of
         None \<Rightarrow> Inr ((), s)
       | Some A \<Rightarrow>
           rbind (map_err Gate_value (normalize_action E (VObj details))) (\<lambda>w.
           rbind (map_err Gate_audit (audit_append E A (ec_effect_id c) (ec_effect_kind c) ''AUTHORITY_VERIFIED''
                    (verified_payload c evidence w))) (\<lambda>(_, A'). Inr ((), put_audit A' s))))"

definition dispatch_authorized ::
  "py_env \<Rightarrow> string \<Rightarrow> effect_call \<Rightarrow> ('w \<Rightarrow> py_value option \<times> 'w) \<Rightarrow> authority_evidence \<Rightarrow>
     ('v, 'p, 'w, effect_result) gate_action" where
  "dispatch_authorized E control c execute evidence =
     act_bind (act_read (\<lambda>_. map_err Gate_evidence (digest_check (av_digest evidence)))) (\<lambda>digest.
     act_bind (authority_note E c digest (av_details evidence)) (\<lambda>_.
     act_bind (reserve_effect c digest) (claim_reserved E control c execute digest)))"

definition dispatch_locked ::
  "py_env \<Rightarrow> string \<Rightarrow> effect_call \<Rightarrow> ('v, 'p, 'w, authority_evidence) gate_action \<Rightarrow>
     ('w \<Rightarrow> py_value option \<times> 'w) \<Rightarrow> ('v, 'p, 'w, effect_result) gate_action" where
  "dispatch_locked E control c verify_authority execute =
     act_bind check_clear (\<lambda>_.
     act_bind (check_permit E control (ec_permit c)) (\<lambda>_.
     act_bind verify_authority (dispatch_authorized E control c execute)))"

definition effect_call_of ::
  "py_env \<Rightarrow> permit \<Rightarrow> string \<Rightarrow> string \<Rightarrow> py_value \<Rightarrow> (action_error, effect_call) result" where
  "effect_call_of E p eid kind payload =
     rbind (ensure (eid \<noteq> []) (Gate_rule Empty_effect_id)) (\<lambda>_.
     rbind (ensure (kind \<noteq> []) (Gate_rule Empty_effect_kind)) (\<lambda>_.
     rbind (map_err Gate_value (effect_request_digest E p eid kind payload)) (\<lambda>request.
     rbind (map_err Gate_value (mechanical_permit_digest E p eid request)) (\<lambda>mechanical.
       Inr \<lparr>ec_permit = p, ec_effect_id = eid, ec_effect_kind = kind, ec_request = request,
            ec_mechanical = mechanical\<rparr>))))"

definition dispatch_verified ::
  "py_env \<Rightarrow> string \<Rightarrow> permit \<Rightarrow> string \<Rightarrow> string \<Rightarrow> py_value \<Rightarrow> ('v, 'p, 'w, authority_evidence) gate_action \<Rightarrow>
     ('w \<Rightarrow> py_value option \<times> 'w) \<Rightarrow> ('v, 'p, 'w, effect_result) gate_action" where
  "dispatch_verified E control p eid kind payload verify_authority execute =
     act_bind (act_read (\<lambda>_. effect_call_of E p eid kind payload)) (\<lambda>c.
       dispatch_locked E control c verify_authority execute)"

end
