(* ===== verification/Gate_Authorities.thy ===== *)
theory Gate_Authorities
  imports Action_Gate
begin

text \<open>
  The two public operations of \<^verbatim>\<open>LifecycleEffectGateway\<close>,
  \<^verbatim>\<open>dispatch_pc_job\<close> and \<^verbatim>\<open>dispatch_provider_effect\<close>, with the
  authority checks they hand to \<^verbatim>\<open>_dispatch_verified\<close>. A verifier is a protocol:
  its identity and its \<^verbatim>\<open>verify\<close>, on a memory of its own that is part of the gateway's
  state. The clock's answer is the argument \<open>now\<close>, \<open>None\<close> where it is not an aware datetime.
\<close>

section \<open>What goes into the evidence\<close>

record task_dependency =
  td_task_id :: string
  td_dependency_id :: string
  td_kind :: string
  td_target_id :: string
  td_binding_event_digest :: string

definition dependency_body :: "task_dependency \<Rightarrow> py_value" where
  "dependency_body d =
     VObj [(''task_id'', VStr (td_task_id d)), (''dependency_id'', VStr (td_dependency_id d)), (''kind'', VStr (td_kind d)),
       (''target_id'', VStr (td_target_id d)), (''binding_event_digest'', VStr (td_binding_event_digest d))]"

definition dependency_value :: "task_dependency option \<Rightarrow> py_value" where
  "dependency_value d = (case d of None \<Rightarrow> VNone | Some t \<Rightarrow> dependency_body t)"

definition check_dependency :: "string \<Rightarrow> string \<Rightarrow> task_dependency option \<Rightarrow> (action_error, unit) result" where
  "check_dependency kind target d =
     (case d of None \<Rightarrow> Inr ()
      | Some t \<Rightarrow> ensure (td_kind t = kind \<and> td_target_id t = target) (Gate_rule Dependency_mismatch))"

definition receipt_value :: "currentness_receipt \<Rightarrow> py_value" where
  "receipt_value tr =
     VData [(''schema'', VStr ''VERA_MONO_AUTHORITY_CURRENTNESS_RECEIPT_V1''),
       (''authority_id'', VStr (tc_authority_id tr)), (''role'', VStr (tc_role tr)),
       (''provider_id'', opt_value (tc_provider_id tr)), (''authority_generation'', VInt (tc_generation tr)),
       (''revocation_epoch'', VInt (tc_epoch tr)), (''key_id'', VStr (tc_key_id tr)),
       (''key_digest'', VStr (tc_key_digest tr)), (''registry_generation'', VInt (tc_registry_generation tr)),
       (''registry_head_digest'', VStr (tc_registry_head tr)), (''receipt_digest'', VStr (tc_receipt_digest tr))]"

definition proof_value :: "authority_proof \<Rightarrow> py_value" where
  "proof_value pf =
     VData [(''schema'', VStr (ap_schema pf)), (''issuer_id'', VStr (ap_issuer_id pf)),
       (''subject'', VStr (ap_subject pf)), (''verification_token'', VStr (ap_token pf))]"

definition envelope_value :: "provider_envelope \<Rightarrow> py_value" where
  "envelope_value e =
     VData [(''schema'', VStr (pe_schema e)), (''issuer_id'', VStr (pe_issuer_id e)),
       (''provider_id'', VStr (pe_provider_id e)), (''operation'', VStr (pe_operation e)),
       (''subject'', VStr (pe_subject e)), (''verification_token'', VStr (pe_token e))]"

definition fields_value :: "(string \<times> json) list \<Rightarrow> py_value" where
  "fields_value kvs = VData (map (\<lambda>(k, v). (k, value_of v)) kvs)"

section \<open>PC jobs\<close>

type_synonym 'v pc_verifier = "'v reconciliation_verifier"

definition in_window :: "utc_time \<Rightarrow> utc_time \<Rightarrow> utc_time \<Rightarrow> bool" where
  "in_window not_before now expires \<longleftrightarrow> utc_micros not_before \<le> utc_micros now \<and> utc_micros now < utc_micros expires"

text \<open>The part of \<^verbatim>\<open>verify_authority\<close> before the verifier is asked.\<close>

definition pc_windows ::
  "job_envelope \<Rightarrow> authorization_envelope \<Rightarrow> utc_time \<Rightarrow> (action_error, unit) result" where
  "pc_windows j a now =
     rbind (map_err Gate_contract (utc_microseconds (jb_not_before j) ''job.not_before'')) (\<lambda>job_not_before.
     rbind (map_err Gate_contract (utc_microseconds (jb_expires_at j) ''job.expires_at'')) (\<lambda>job_expires.
     rbind (map_err Gate_contract (utc_microseconds (az_not_before a) ''authorization.not_before'')) (\<lambda>auth_not_before.
     rbind (map_err Gate_contract (utc_microseconds (az_expires_at a) ''authorization.expires_at'')) (\<lambda>auth_expires.
     rbind (ensure (in_window job_not_before now job_expires) (Gate_rule Outside_job_window)) (\<lambda>_.
       ensure (in_window auth_not_before now auth_expires) (Gate_rule Outside_authority_window))))))"

definition pc_subject ::
  "py_env \<Rightarrow> permit \<Rightarrow> job_envelope \<Rightarrow> authorization_envelope \<Rightarrow> (action_error, string) result" where
  "pc_subject E p j a =
     rbind (map_err Gate_contract (job_digest E j)) (\<lambda>jd.
     rbind (map_err Gate_contract (authorization_digest E a)) (\<lambda>ad.
       map_err Gate_canon (pc_authority_subject E jd ad (pm_permit_digest p))))"

definition pc_admitted ::
  "py_env \<Rightarrow> registry option \<Rightarrow> 'v pc_verifier \<Rightarrow> permit \<Rightarrow> job_envelope \<Rightarrow> authorization_envelope \<Rightarrow> authority_proof \<Rightarrow>
     utc_time option \<Rightarrow> (action_error, string \<times> currentness_receipt) result" where
  "pc_admitted E trust V p j a pf now =
     rbind (map_err Gate_binding (validate_binding j a)) (\<lambda>_.
     rbind (or_raise trust (Gate_rule No_trust_registry)) (\<lambda>R.
     rbind (ensure (rv_authority_id V = az_issuer_id a \<and> ap_issuer_id pf = az_issuer_id a)
              (Gate_rule Issuer_mismatch)) (\<lambda>_.
     rbind (map_err Gate_trust (assert_current E R (az_issuer_id a) ''PC'' (rv_key_id V) (rv_key_digest V) None)) (\<lambda>tr.
     rbind (ensure (az_issuer_revocation_epoch a = tc_epoch tr) (Gate_rule Epoch_stale)) (\<lambda>_.
     rbind (or_raise now (Gate_rule Naive_clock)) (\<lambda>t.
     rbind (pc_windows j a t) (\<lambda>_.
     rbind (pc_subject E p j a) (\<lambda>subject. Inr (subject, tr)))))))))"

definition pc_evidence ::
  "py_env \<Rightarrow> 'v pc_verifier \<Rightarrow> permit \<Rightarrow> job_envelope \<Rightarrow> authorization_envelope \<Rightarrow> authority_proof \<Rightarrow> currentness_receipt \<Rightarrow>
     task_dependency option \<Rightarrow> (action_error, authority_evidence) result" where
  "pc_evidence E V p j a pf tr dep =
     rbind (map_err Gate_contract (job_digest E j)) (\<lambda>jd.
     rbind (map_err Gate_contract (authorization_digest E a)) (\<lambda>ad.
     rbind (map_err Gate_value (action_digest E (VObj [(''schema'', VStr ''VERA_MONO_PC_VERIFIED_AUTHORITY_EVIDENCE_V1''),
         (''job_digest'', VStr jd), (''authorization_digest'', VStr ad), (''authority_proof'', proof_value pf),
         (''authority_currentness'', receipt_value tr), (''lifecycle_permit_digest'', VStr (pm_permit_digest p)),
         (''task_dependency'', dependency_value dep)]))) (\<lambda>digest.
       Inr \<lparr>av_digest = digest,
            av_details = [(''kind'', VStr ''PC''), (''authority_id'', VStr (rv_authority_id V)),
              (''key_id'', VStr (rv_key_id V)), (''key_digest'', VStr (rv_key_digest V)),
              (''proof_issuer_id'', VStr (ap_issuer_id pf)), (''authority_subject'', VStr (ap_subject pf)),
              (''job_digest'', VStr jd), (''authorization_digest'', VStr ad),
              (''authority_currentness'', receipt_value tr), (''task_dependency'', dependency_value dep)]\<rparr>)))"

definition ask_pc_verifier :: "'v pc_verifier \<Rightarrow> authority_proof \<Rightarrow> string \<Rightarrow> ('v, 'p, 'w, bool) gate_action" where
  "ask_pc_verifier V pf subject =
     act_tx (\<lambda>s. case rv_verify V (gw_pc s) pf subject of (accepted, v) \<Rightarrow> Inr (accepted, s\<lparr>gw_pc := v\<rparr>))"

definition verify_pc_authority ::
  "py_env \<Rightarrow> 'v pc_verifier \<Rightarrow> permit \<Rightarrow> job_envelope \<Rightarrow> authorization_envelope \<Rightarrow> authority_proof \<Rightarrow> utc_time option \<Rightarrow>
     task_dependency option \<Rightarrow> ('v, 'p, 'w, authority_evidence) gate_action" where
  "verify_pc_authority E V p j a pf now dep =
     act_bind (act_read (\<lambda>s. pc_admitted E (gw_trust s) V p j a pf now)) (\<lambda>(subject, tr).
     act_bind (ask_pc_verifier V pf subject) (\<lambda>accepted.
     act_bind (act_read (\<lambda>_. ensure accepted (Gate_rule Authority_refused))) (\<lambda>_.
       act_read (\<lambda>_. pc_evidence E V p j a pf tr dep))))"

definition pc_request :: "py_env \<Rightarrow> job_envelope \<Rightarrow> authorization_envelope \<Rightarrow> authority_proof \<Rightarrow> (action_error, py_value) result" where
  "pc_request E j a pf =
     rbind (map_err Gate_contract (job_digest E j)) (\<lambda>jd.
     rbind (map_err Gate_contract (authorization_digest E a)) (\<lambda>ad.
       Inr (VObj [(''job_digest'', VStr jd), (''authorization_digest'', VStr ad), (''job'', fields_value (job_fields j)),
         (''authorization'', fields_value (authorization_fields a)), (''authority_subject'', VStr (ap_subject pf))])))"

definition pc_job_checks ::
  "'v pc_verifier option \<Rightarrow> job_envelope \<Rightarrow> authorization_envelope \<Rightarrow> task_dependency option \<Rightarrow>
     ('v, 'p, 'w) gateway \<Rightarrow> (action_error, 'v pc_verifier) result" where
  "pc_job_checks verifier j a dep s =
     rbind (or_raise verifier (Gate_rule No_pc_verifier)) (\<lambda>V.
     rbind (map_err Gate_contract (validate_job j)) (\<lambda>_.
     rbind (map_err Gate_contract (validate_authorization a)) (\<lambda>_.
     rbind (ensure (jb_project_id j = lf_project_id (gw_lifecycle s)) (Gate_rule Project_mismatch)) (\<lambda>_.
     rbind (check_dependency ''EFFECT'' (''pc:'' @ jb_envelope_id j) dep) (\<lambda>_. Inr V)))))"

definition dispatch_pc_job ::
  "py_env \<Rightarrow> string \<Rightarrow> 'v pc_verifier option \<Rightarrow> permit \<Rightarrow> job_envelope \<Rightarrow> authorization_envelope \<Rightarrow> authority_proof \<Rightarrow>
     utc_time option \<Rightarrow> task_dependency option \<Rightarrow> ('w \<Rightarrow> py_value option \<times> 'w) \<Rightarrow> ('v, 'p, 'w, effect_result) gate_action" where
  "dispatch_pc_job E control verifier p j a pf now dep execute =
     act_bind (act_read (pc_job_checks verifier j a dep)) (\<lambda>V.
     act_bind (act_read (\<lambda>_. pc_request E j a pf)) (\<lambda>payload.
       dispatch_verified E control p (''pc:'' @ jb_envelope_id j) (''PC/'' @ jb_operation_id j) payload
         (verify_pc_authority E V p j a pf now dep) execute))"

section \<open>Provider effects\<close>

record 'p provider_verifier =
  pv_provider_id :: string
  pv_authority_id :: string
  pv_key_id :: string
  pv_key_digest :: string
  pv_verify :: "'p \<Rightarrow> provider_envelope \<Rightarrow> string \<times> string \<times> string \<Rightarrow> bool \<times> 'p"

text \<open>The checks of \<^verbatim>\<open>__init__\<close> on the registry of provider verifiers.\<close>

fun check_providers :: "(string \<times> 'p provider_verifier) list \<Rightarrow> (action_error, unit) result" where
  "check_providers [] = Inr ()"
| "check_providers ((provider_id, V) # rest) =
     rbind (ensure (provider_id \<noteq> []) (Gate_rule Empty_provider_id)) (\<lambda>_.
     rbind (ensure (pv_provider_id V = provider_id) (Gate_rule Provider_identity_mismatch)) (\<lambda>_.
       check_providers rest))"

definition provider_authority_currentness ::
  "py_env \<Rightarrow> (string \<times> 'p provider_verifier) list \<Rightarrow> string \<Rightarrow> ('v, 'p, 'w) gateway \<Rightarrow>
     (action_error, currentness_receipt) result" where
  "provider_authority_currentness E verifiers provider_id s =
     rbind (ensure (provider_id \<noteq> []) (Gate_rule Empty_provider_id)) (\<lambda>_.
     rbind (or_raise (map_of verifiers provider_id) (Gate_rule Unknown_provider)) (\<lambda>V.
     rbind (or_raise (gw_trust s) (Gate_rule No_trust_registry)) (\<lambda>R.
       map_err Gate_trust (assert_current E R (pv_authority_id V) ''PROVIDER'' (pv_key_id V) (pv_key_digest V)
         (Some provider_id)))))"

definition provider_request_digest ::
  "py_env \<Rightarrow> string \<Rightarrow> string \<Rightarrow> py_value \<Rightarrow> (action_error, string) result" where
  "provider_request_digest E provider_id operation payload =
     rbind (ensure (provider_id \<noteq> []) (Gate_rule Empty_provider_id)) (\<lambda>_.
     rbind (ensure (operation \<noteq> []) (Gate_rule Empty_operation)) (\<lambda>_.
       map_err Gate_value (action_digest E (VObj [(''schema'', VStr ''VERA_MONO_PROVIDER_REQUEST_V1''),
         (''provider_id'', VStr provider_id), (''operation'', VStr operation), (''request_payload'', payload)]))))"

definition provider_admitted ::
  "py_env \<Rightarrow> registry option \<Rightarrow> 'p provider_verifier \<Rightarrow> permit \<Rightarrow> string \<Rightarrow> string \<Rightarrow> string \<Rightarrow> string \<Rightarrow> provider_envelope \<Rightarrow>
     (action_error, string \<times> currentness_receipt) result" where
  "provider_admitted E trust V p effect_id provider_id operation req_digest e =
     rbind (or_raise trust (Gate_rule No_trust_registry)) (\<lambda>R.
     rbind (ensure (pv_authority_id V = pe_issuer_id e \<and> pv_provider_id V = provider_id)
              (Gate_rule Provider_identity_mismatch)) (\<lambda>_.
     rbind (map_err Gate_trust (assert_current E R (pe_issuer_id e) ''PROVIDER'' (pv_key_id V) (pv_key_digest V)
              (Some provider_id))) (\<lambda>tr.
     rbind (map_err Gate_canon (provider_authority_subject E effect_id provider_id operation req_digest
              (pm_permit_digest p))) (\<lambda>subject. Inr (subject, tr)))))"

definition provider_evidence ::
  "py_env \<Rightarrow> 'p provider_verifier \<Rightarrow> permit \<Rightarrow> string \<Rightarrow> string \<Rightarrow> string \<Rightarrow> provider_envelope \<Rightarrow> currentness_receipt \<Rightarrow>
     task_dependency option \<Rightarrow> (action_error, authority_evidence) result" where
  "provider_evidence E V p provider_id operation req_digest e tr dep =
     rbind (map_err Gate_value (action_digest E (VObj [(''schema'', VStr ''VERA_MONO_PROVIDER_VERIFIED_AUTHORITY_EVIDENCE_V1''),
         (''provider_request_digest'', VStr req_digest), (''authority'', envelope_value e),
         (''authority_currentness'', receipt_value tr), (''lifecycle_permit_digest'', VStr (pm_permit_digest p)),
         (''task_dependency'', dependency_value dep)]))) (\<lambda>digest.
       Inr \<lparr>av_digest = digest,
            av_details = [(''kind'', VStr ''PROVIDER''), (''provider_id'', VStr provider_id), (''operation'', VStr operation),
              (''authority_id'', VStr (pv_authority_id V)), (''key_id'', VStr (pv_key_id V)),
              (''key_digest'', VStr (pv_key_digest V)), (''authority_issuer_id'', VStr (pe_issuer_id e)),
              (''authority_subject'', VStr (pe_subject e)), (''provider_request_digest'', VStr req_digest),
              (''authority_currentness'', receipt_value tr), (''task_dependency'', dependency_value dep)]\<rparr>)"

definition ask_provider_verifier ::
  "'p provider_verifier \<Rightarrow> provider_envelope \<Rightarrow> string \<times> string \<times> string \<Rightarrow> ('v, 'p, 'w, bool) gate_action" where
  "ask_provider_verifier V e expected =
     act_tx (\<lambda>s. case pv_verify V (gw_providers s) e expected of
       (accepted, v) \<Rightarrow> Inr (accepted, s\<lparr>gw_providers := v\<rparr>))"

definition verify_provider_authority ::
  "py_env \<Rightarrow> 'p provider_verifier \<Rightarrow> permit \<Rightarrow> string \<Rightarrow> string \<Rightarrow> string \<Rightarrow> string \<Rightarrow> provider_envelope \<Rightarrow>
     task_dependency option \<Rightarrow> ('v, 'p, 'w, authority_evidence) gate_action" where
  "verify_provider_authority E V p effect_id provider_id operation req_digest e dep =
     act_bind (act_read (\<lambda>s. provider_admitted E (gw_trust s) V p effect_id provider_id operation req_digest e))
       (\<lambda>(subject, tr).
     act_bind (ask_provider_verifier V e (provider_id, operation, subject)) (\<lambda>accepted.
     act_bind (act_read (\<lambda>_. ensure accepted (Gate_rule Authority_refused))) (\<lambda>_.
       act_read (\<lambda>_. provider_evidence E V p provider_id operation req_digest e tr dep))))"

definition provider_request :: "string \<Rightarrow> py_value \<Rightarrow> provider_envelope \<Rightarrow> py_value" where
  "provider_request req_digest payload e =
     VObj [(''provider_request_digest'', VStr req_digest), (''request_payload'', payload),
       (''authority_subject'', VStr (pe_subject e))]"

definition provider_checks ::
  "py_env \<Rightarrow> (string \<times> 'p provider_verifier) list \<Rightarrow> string \<Rightarrow> string \<Rightarrow> string \<Rightarrow> py_value \<Rightarrow> task_dependency option \<Rightarrow>
     (action_error, 'p provider_verifier \<times> string) result" where
  "provider_checks E verifiers effect_id provider_id operation payload dep =
     rbind (ensure (provider_id \<noteq> []) (Gate_rule Empty_provider_id)) (\<lambda>_.
     rbind (ensure (operation \<noteq> []) (Gate_rule Empty_operation)) (\<lambda>_.
     rbind (check_dependency ''PROVIDER_EFFECT'' effect_id dep) (\<lambda>_.
     rbind (or_raise (map_of verifiers provider_id) (Gate_rule Unknown_provider)) (\<lambda>V.
     rbind (provider_request_digest E provider_id operation payload) (\<lambda>digest. Inr (V, digest))))))"

definition dispatch_provider_effect ::
  "py_env \<Rightarrow> string \<Rightarrow> (string \<times> 'p provider_verifier) list \<Rightarrow> permit \<Rightarrow> string \<Rightarrow> string \<Rightarrow> string \<Rightarrow> py_value \<Rightarrow>
     provider_envelope \<Rightarrow> task_dependency option \<Rightarrow> ('w \<Rightarrow> py_value option \<times> 'w) \<Rightarrow> ('v, 'p, 'w, effect_result) gate_action" where
  "dispatch_provider_effect E control verifiers p effect_id provider_id operation payload e dep execute =
     act_bind (act_read (\<lambda>_. provider_checks E verifiers effect_id provider_id operation payload dep)) (\<lambda>(V, digest).
       dispatch_verified E control p (''provider:'' @ provider_id @ '':'' @ effect_id)
         (''PROVIDER/'' @ provider_id @ ''/'' @ operation) (provider_request digest payload e)
         (verify_provider_authority E V p effect_id provider_id operation digest e dep) execute)"

end
