(* ===== verification/Gate_Execution.thy ===== *)
theory Gate_Execution
  imports Gate_Authorities
begin

text \<open>
  When the gateway lets an effect run: what must have been checked before
  \<^verbatim>\<open>execute\<close> is called, and that it is called at most once for an effect id, over
  every point at which the process can die.
\<close>

definition gate_status :: "('v, 'p, 'w) gateway \<Rightarrow> string \<Rightarrow> effect_state option" where
  "gate_status s eid = (case gate_fence s of None \<Rightarrow> None | Some F \<Rightarrow> effect_status F eid)"

text \<open>
  An action of an authority check may change the memory of the verifiers, and nothing else.
\<close>

definition same_but_verifiers :: "('v, 'p, 'w) gateway \<Rightarrow> ('v, 'p, 'w) gateway \<Rightarrow> bool" where
  "same_but_verifiers s t \<longleftrightarrow>
     gw_lifecycle t = gw_lifecycle s \<and> gw_trust t = gw_trust s \<and> gw_world t = gw_world s"

definition quiet :: "('v, 'p, 'w, 'a) gate_action \<Rightarrow> bool" where
  "quiet m \<longleftrightarrow> (\<forall>s. \<forall>t\<in>crash_points m s. same_but_verifiers s t)"

lemma same_but_verifiers_trans:
  "same_but_verifiers s t \<Longrightarrow> same_but_verifiers t u \<Longrightarrow> same_but_verifiers s u"
  by (simp add: same_but_verifiers_def)

lemma same_but_verifiers_refl [simp]: "same_but_verifiers s s"
  by (simp add: same_but_verifiers_def)

lemma quiet_guarantees:
  assumes "quiet m"
  shows "guarantees m s (same_but_verifiers s) (\<lambda>res t. same_but_verifiers s t \<and> fst (m s) = res)"
proof -
  have "left_at s (snd (m s)) \<in> crash_points m s" by (rule left_at_crash_point)
  then have "same_but_verifiers s (left_at s (snd (m s)))" using assms unfolding quiet_def by blast
  then show ?thesis using assms by (simp add: quiet_def guarantees_def crash_points_def)
qed

lemma quiet_read [simp]: "quiet (act_read f)"
  by (simp add: quiet_def crash_points_def act_read_def)

lemma quiet_bind: "quiet m \<Longrightarrow> (\<And>x. quiet (f x)) \<Longrightarrow> quiet (act_bind m f)"
proof -
  assume q: "quiet m" "\<And>x. quiet (f x)"
  have "same_but_verifiers s t" if "t \<in> crash_points (act_bind m f) s" for s t
  proof (cases "m s")
    case (Pair res tr)
    have tr: "same_but_verifiers s u" if "u \<in> set tr" for u
      using q(1) that Pair by (auto simp: quiet_def crash_points_def)
    have "same_but_verifiers s (left_at s tr)"
      using tr by (cases "tr = []") (auto simp: left_at_def)
    then have "same_but_verifiers s u" if "u \<in> set (snd (f x (left_at s tr)))" for u x
      using q(2) [of x] that by (auto simp: quiet_def crash_points_def intro: same_but_verifiers_trans)
    then show ?thesis using that tr Pair
      by (auto simp: crash_points_def act_bind_def split: sum.splits prod.splits)
        (metis same_but_verifiers_trans snd_conv)+
  qed
  then show ?thesis by (simp add: quiet_def)
qed

lemma quiet_pc [simp]: "quiet (verify_pc_authority E V p j a pf now dep)"
proof -
  have "quiet (ask_pc_verifier V pf subject)" for subject
    by (auto simp: quiet_def crash_points_def ask_pc_verifier_def act_tx_def same_but_verifiers_def split: prod.splits)
  then show ?thesis by (auto simp: verify_pc_authority_def intro!: quiet_bind split: prod.split)
qed

lemma quiet_provider [simp]: "quiet (verify_provider_authority E V p eid pid op rd e dep)"
proof -
  have "quiet (ask_provider_verifier V e x)" for x
    by (auto simp: quiet_def crash_points_def ask_provider_verifier_def act_tx_def same_but_verifiers_def split: prod.splits)
  then show ?thesis by (auto simp: verify_provider_authority_def intro!: quiet_bind split: prod.split)
qed

section \<open>The transactions\<close>

lemma put_simps [simp]:
  "gate_fence (put_fence F s) = Some F" "gate_audit (put_fence F s) = gate_audit s" "gw_world (put_fence F s) = gw_world s"
  "gate_fence (put_audit A s) = gate_fence s" "gate_audit (put_audit A s) = Some A" "gw_world (put_audit A s) = gw_world s"
  "gate_fence (s\<lparr>gw_world := w\<rparr>) = gate_fence s" "gate_audit (s\<lparr>gw_world := w\<rparr>) = gate_audit s"
  by (simp_all add: gate_fence_def gate_audit_def put_fence_def put_audit_def)

text \<open>A fence transaction and an audit transaction leave the outside world alone.\<close>

lemma wp_fence:
  assumes "\<And>F r F'. gate_fence s = Some F \<Longrightarrow> f F = Inr (r, F') \<Longrightarrow> P (put_fence F' s) \<and> Q (Inr r) (put_fence F' s)"
    and "\<And>e. Q (Inl e) s"
  shows "guarantees (fence_tx f) s P Q"
  using assms unfolding fence_tx_def wp_tx
  by (auto simp: result_simps split: sum.splits prod.splits)

lemma wp_audit:
  assumes "\<And>A ev A'. gate_audit s = Some A \<Longrightarrow> audit_append E A eid kind t payload = Inr (ev, A') \<Longrightarrow>
      P (put_audit A' s) \<and> Q (Inr ()) (put_audit A' s)"
    and "gate_audit s = None \<Longrightarrow> P s \<and> Q (Inr ()) s" and "\<And>e. Q (Inl e) s"
  shows "guarantees (audit_note E eid kind t payload) s P Q"
  using assms unfolding audit_note_def wp_tx
  by (auto simp: result_simps split: sum.splits prod.splits option.splits)

lemma wp_authority:
  assumes "\<And>A w evt A'. gate_audit s = Some A \<Longrightarrow> normalize_action E (VObj details) = Inr w \<Longrightarrow>
      audit_append E A (ec_effect_id c) (ec_effect_kind c) ''AUTHORITY_VERIFIED'' (verified_payload c ev w) = Inr (evt, A') \<Longrightarrow>
      P (put_audit A' s) \<and> Q (Inr ()) (put_audit A' s)"
    and "gate_audit s = None \<Longrightarrow> P s \<and> Q (Inr ()) s" and "\<And>e. Q (Inl e) s"
  shows "guarantees (authority_note E c ev details) s P Q"
  using assms unfolding authority_note_def wp_tx
  by (auto simp: result_simps split: sum.splits prod.splits option.splits)

lemma act_bind_wp:
  "guarantees m s P R \<Longrightarrow> (\<And>e t. R (Inl e) t \<Longrightarrow> Q (Inl e) t) \<Longrightarrow> (\<And>x t. R (Inr x) t \<Longrightarrow> guarantees (f x) t P Q) \<Longrightarrow>
     guarantees (act_bind m f) s P Q"
  unfolding wp_bind by (erule guarantees_mono) (auto split: sum.split)

section \<open>What runs, runs claimed\<close>

definition begun :: "effect_state set" where
  "begun = {EXECUTING, ATTEMPTED_UNKNOWN, COMMITTED}"

text \<open>The state of a dispatch at a point after its effect ran.\<close>

definition effect_ran :: "string \<Rightarrow> ('w \<Rightarrow> py_value option \<times> 'w) \<Rightarrow> ('v, 'p, 'w) gateway \<Rightarrow> ('v, 'p, 'w) gateway \<Rightarrow> bool" where
  "effect_ran eid execute s t \<longleftrightarrow> gw_world t = snd (execute (gw_world s)) \<and> (\<exists>q\<in>begun. gate_status t eid = Some q)"

lemma gate_status_simps [simp]:
  "gate_status (put_fence F s) eid = effect_status F eid" "gate_status (put_audit A s) eid = gate_status s eid"
  "gate_status (s\<lparr>gw_world := w\<rparr>) eid = gate_status s eid"
  by (simp_all add: gate_status_def)

lemma settle_status: "settle F eid d known = Inr (r, F') \<Longrightarrow> effect_status F' eid = Some (settled known)"
  using settle_Inr [of F eid d known r F'] by (fastforce simp: effect_status_def effect_row_update)

lemma claim_status: "claim_tx F eid = Inr F' \<Longrightarrow> effect_status F eid = Some RESERVED \<and> effect_status F' eid = Some EXECUTING"
  using claim_tx_Inr [of F eid F'] by (fastforce simp: effect_status_def effect_row_update)

lemma reserve_status:
  "reserve F eid rd pd ad cd = Inr (r, F') \<Longrightarrow>
     effect_status F' eid = (if effect_status F eid = None then Some RESERVED else effect_status F eid)"
  using reserve_Inr [of F eid rd pd ad cd r F'] by (auto simp: effect_status_def row_of_append row_of_Cons)

lemma outcome_begun:
  assumes "\<exists>q\<in>begun. gate_status s (ec_effect_id c) = Some q" "gw_world s = w"
  shows "guarantees (conclude_effect E c outcome) s
    (\<lambda>t. gw_world t = w \<and> (\<exists>q\<in>begun. gate_status t (ec_effect_id c) = Some q))
    (\<lambda>res t. gw_world t = w \<and> (\<exists>q\<in>begun. gate_status t (ec_effect_id c) = Some q))" (is "guarantees _ _ ?P _")
proof -
  have settles: "guarantees (act_bind (fence_tx (\<lambda>F. settle F (ec_effect_id c) d known)) (\<lambda>r.
      act_bind (audit_note E (ec_effect_id c) (ec_effect_kind c) t (payload r)) (\<lambda>_. act_read (\<lambda>_. x r)))) s ?P (\<lambda>_. ?P)"
    for d known t payload and x :: "effect_receipt \<Rightarrow> (action_error, effect_result) result"
    using assms settle_status
    by (intro act_bind_wp wp_fence wp_audit) (auto simp: wp_read begun_def settled_def)
  show ?thesis
    unfolding conclude_effect_def outcome_unknown_def outcome_known_def
    by (auto split: option.split sum.split intro!: settles)
qed

lemma execute_claimed_runs:
  assumes "gate_status s (ec_effect_id c) = Some EXECUTING"
  shows "guarantees (execute_claimed E c execute r) s
    (\<lambda>t. gw_world t = gw_world s \<or> effect_ran (ec_effect_id c) execute s t)
    (\<lambda>res t. gw_world t = gw_world s \<or> effect_ran (ec_effect_id c) execute s t)" (is "guarantees _ _ ?P _")
proof -
  have run: "guarantees (act_bind (run_effect execute) (conclude_effect E c)) t ?P (\<lambda>_. ?P)"
    if t: "gate_status t (ec_effect_id c) = Some EXECUTING" "gw_world t = gw_world s" for t
  proof -
    obtain v w where v: "execute (gw_world s) = (v, w)" by fastforce
    have "guarantees (conclude_effect E c v) (t\<lparr>gw_world := w\<rparr>) ?P (\<lambda>_. ?P)"
      by (rule guarantees_mono [OF outcome_begun [where w = w]]) (use t v in \<open>auto simp: begun_def effect_ran_def\<close>)
    moreover have "effect_ran (ec_effect_id c) execute s (t\<lparr>gw_world := w\<rparr>)" using t v by (simp add: effect_ran_def begun_def)
    ultimately show ?thesis unfolding wp_bind run_effect_def wp_tx using t v by simp
  qed
  show ?thesis unfolding execute_claimed_def
    by (rule act_bind_wp [where R = "\<lambda>res t. gate_status t (ec_effect_id c) = Some EXECUTING \<and> gw_world t = gw_world s"],
        rule wp_audit) (use assms run in auto)
qed

lemma claim_effect_status:
  "guarantees (claim_effect c ev) s (\<lambda>t. gw_world t = gw_world s)
    (\<lambda>res t. gw_world t = gw_world s \<and> (ok res \<longrightarrow> gate_status t (ec_effect_id c) = Some EXECUTING
       \<and> gate_status s (ec_effect_id c) \<in> {None, Some RESERVED}))"
proof -
  let ?R = "\<lambda>res t. gw_world t = gw_world s \<and> (gate_status t (ec_effect_id c) = Some RESERVED \<longrightarrow>
      gate_status s (ec_effect_id c) \<in> {None, Some RESERVED})"
  show ?thesis unfolding claim_effect_def reserve_effect_def
    by (rule act_bind_wp [where R = ?R], rule wp_fence)
      (auto simp: result_simps gate_status_def split: if_splits dest!: reserve_status claim_status intro!: wp_fence)
qed

definition world_kept :: "string \<Rightarrow> ('w \<Rightarrow> py_value option \<times> 'w) \<Rightarrow> ('v, 'p, 'w) gateway \<Rightarrow> ('v, 'p, 'w) gateway \<Rightarrow> bool" where
  "world_kept eid execute s t \<longleftrightarrow> gw_world t = gw_world s \<or>
     effect_ran eid execute s t \<and> gate_status s eid \<in> {None, Some RESERVED}"

lemma claim_reserved_runs:
  "guarantees (claim_reserved E control c execute ev r) s (world_kept (ec_effect_id c) execute s)
    (\<lambda>res. world_kept (ec_effect_id c) execute s)"
proof -
  let ?P = "world_kept (ec_effect_id c) execute s"
  have claimed: "guarantees (act_bind (claim_effect c ev) (execute_claimed E c execute)) u ?P (\<lambda>_. ?P)"
    if u: "gw_world u = gw_world s" "gate_status u (ec_effect_id c) = gate_status s (ec_effect_id c)" for u
  proof (rule act_bind_wp)
    show "guarantees (claim_effect c ev) u ?P (\<lambda>res t. gw_world t = gw_world s \<and> (ok res \<longrightarrow>
        gate_status t (ec_effect_id c) = Some EXECUTING \<and> gate_status s (ec_effect_id c) \<in> {None, Some RESERVED}))"
      by (rule guarantees_mono [OF claim_effect_status]) (use u in \<open>auto simp: world_kept_def\<close>)
    show "guarantees (execute_claimed E c execute x) t ?P (\<lambda>_. ?P)"
      if t: "gw_world t = gw_world s \<and> (ok (Inr x) \<longrightarrow>
        gate_status t (ec_effect_id c) = Some EXECUTING \<and> gate_status s (ec_effect_id c) \<in> {None, Some RESERVED})" for x t
      by (rule guarantees_mono [OF execute_claimed_runs]) (use t in \<open>auto simp: world_kept_def effect_ran_def\<close>)
  qed (auto simp: world_kept_def)
  show ?thesis
    unfolding claim_reserved_def
    by (rule act_bind_wp [where R = "\<lambda>res t. gw_world t = gw_world s \<and> gate_status t (ec_effect_id c) = gate_status s (ec_effect_id c)"],
        rule wp_audit)
      (auto simp: world_kept_def check_permit_def wp_bind [of "act_read f" for f] wp_read claimed split: sum.split)
qed

lemma dispatch_authorized_runs:
  "guarantees (dispatch_authorized E control c execute ev) s (world_kept (ec_effect_id c) execute s)
    (\<lambda>res. world_kept (ec_effect_id c) execute s)"
proof -
  let ?P = "world_kept (ec_effect_id c) execute s"
  have reserved: "guarantees (act_bind (reserve_effect c d) (claim_reserved E control c execute d)) u ?P (\<lambda>_. ?P)"
    if u: "gw_world u = gw_world s" "gate_status u (ec_effect_id c) = gate_status s (ec_effect_id c)" for u d
  proof (rule act_bind_wp)
    show "guarantees (reserve_effect c d) u ?P (\<lambda>res t. gw_world t = gw_world s \<and>
        (gate_status t (ec_effect_id c) \<in> {None, Some RESERVED} \<longrightarrow> gate_status s (ec_effect_id c) \<in> {None, Some RESERVED}))"
      unfolding reserve_effect_def
      by (rule wp_fence) (use u in \<open>auto simp: world_kept_def gate_status_def dest!: reserve_status split: if_splits\<close>)
    show "guarantees (claim_reserved E control c execute d x) t ?P (\<lambda>_. ?P)"
      if t: "gw_world t = gw_world s \<and>
        (gate_status t (ec_effect_id c) \<in> {None, Some RESERVED} \<longrightarrow> gate_status s (ec_effect_id c) \<in> {None, Some RESERVED})" for x t
      by (rule guarantees_mono [OF claim_reserved_runs]) (use t in \<open>auto simp: world_kept_def effect_ran_def\<close>)
  qed (auto simp: world_kept_def)
  have noted: "guarantees (authority_note E c d details) s ?P
    (\<lambda>res t. gw_world t = gw_world s \<and> gate_status t (ec_effect_id c) = gate_status s (ec_effect_id c))" for d details
    by (rule wp_authority) (auto simp: world_kept_def)
  have "guarantees (act_bind (authority_note E c d (av_details ev))
      (\<lambda>_. act_bind (reserve_effect c d) (claim_reserved E control c execute d))) s ?P (\<lambda>_. ?P)" for d
    by (rule act_bind_wp [OF noted]) (auto simp: world_kept_def intro: reserved)
  then show ?thesis
    unfolding dispatch_authorized_def wp_bind [of "act_read f" for f] wp_read
    by (auto simp: world_kept_def split: sum.split)
qed

text \<open>A changed world: everything was checked, on the state the dispatch began in.\<close>

definition effect_admitted ::
  "py_env \<Rightarrow> string \<Rightarrow> permit \<Rightarrow> string \<Rightarrow> ('v, 'p, 'w, authority_evidence) gate_action \<Rightarrow> ('v, 'p, 'w) gateway \<Rightarrow> bool" where
  "effect_admitted E control p eid verify s \<longleftrightarrow>
     (\<exists>F ev. gate_fence s = Some F \<and> assert_clear F = Inr () \<and> effect_row eid F = None
        \<and> validate_action_permit E control p (gw_lifecycle s) = Inr p \<and> fst (verify s) = Inr ev)"

lemma validated_is_permit: "validate_action_permit E control p L = Inr q \<Longrightarrow> q = p"
  by (auto simp: validate_action_permit_def result_simps)

lemma clear_status: "assert_clear F = Inr () \<Longrightarrow> effect_status F eid \<noteq> Some RESERVED"
  by (fastforce simp: assert_clear_iff effect_status_def dest: row_of_Some)

lemma dispatch_locked_runs:
  assumes "quiet verify"
  shows "guarantees (dispatch_locked E control c verify execute) s
    (\<lambda>t. gw_world t = gw_world s \<or> effect_ran (ec_effect_id c) execute s t \<and>
      effect_admitted E control (ec_permit c) (ec_effect_id c) verify s)
    (\<lambda>res t. gw_world t = gw_world s \<or> effect_ran (ec_effect_id c) execute s t \<and>
      effect_admitted E control (ec_permit c) (ec_effect_id c) verify s)" (is "guarantees _ _ ?P _")
proof -
  have verified: "guarantees (act_bind verify (dispatch_authorized E control c execute)) s ?P (\<lambda>_. ?P)"
    if h: "gate_fence s = Some F" "assert_clear F = Inr ()" "validate_action_permit E control (ec_permit c) (gw_lifecycle s) = Inr q" for F q
  proof (rule act_bind_wp)
    show "guarantees verify s ?P (\<lambda>res t. same_but_verifiers s t \<and> fst (verify s) = res)"
      by (rule guarantees_mono [OF quiet_guarantees [OF assms]]) (auto simp: same_but_verifiers_def)
    show "guarantees (dispatch_authorized E control c execute ev) t ?P (\<lambda>_. ?P)"
      if t: "same_but_verifiers s t \<and> fst (verify s) = Inr ev" for ev t
    proof (rule guarantees_mono [OF dispatch_authorized_runs])
      have valid: "q = ec_permit c" using h(3) by (rule validated_is_permit)
      have same: "gate_fence t = Some F" "gw_world t = gw_world s"
        using t h(1) by (simp_all add: same_but_verifiers_def gate_fence_def)
      then have "effect_admitted E control (ec_permit c) (ec_effect_id c) verify s"
        if "gate_status t (ec_effect_id c) \<in> {None, Some RESERVED}"
        using that h t valid clear_status [OF h(2), of "ec_effect_id c"]
        by (auto simp: effect_admitted_def gate_status_def effect_status_def)
      then show "?P u" if "world_kept (ec_effect_id c) execute t u" for u
        using that same by (auto simp: world_kept_def effect_ran_def)
      then show "?P u" if "world_kept (ec_effect_id c) execute t u" for u using that by blast
    qed
  qed (auto simp: same_but_verifiers_def)
  show ?thesis
    unfolding dispatch_locked_def check_clear_def check_permit_def wp_bind [of "act_read f" for f] wp_read
    using verified by (auto simp: result_simps split: sum.split)
qed

lemma dispatch_runs_admitted:
  assumes "quiet verify" "t \<in> crash_points (dispatch_verified E control p eid kind payload verify execute) s"
    and "gw_world t \<noteq> gw_world s"
  shows "effect_ran eid execute s t \<and> effect_admitted E control p eid verify s"
proof -
  let ?P = "\<lambda>t. gw_world t = gw_world s \<or> effect_ran eid execute s t \<and> effect_admitted E control p eid verify s"
  have "guarantees (dispatch_verified E control p eid kind payload verify execute) s ?P (\<lambda>_. ?P)"
    unfolding dispatch_verified_def wp_bind [of "act_read f" for f] wp_read
  proof (cases "effect_call_of E p eid kind payload")
    case (Inr c)
    then have "ec_effect_id c = eid" "ec_permit c = p" by (auto simp: effect_call_of_def result_simps)
    then show "case effect_call_of E p eid kind payload of
        Inl e \<Rightarrow> ?P s | Inr c \<Rightarrow> guarantees (dispatch_locked E control c verify execute) s ?P (\<lambda>_. ?P)"
      using dispatch_locked_runs [OF assms(1), of E control c execute s] Inr by simp
  qed simp
  from guarantees_crash [OF this _ assms(2)] show ?thesis using assms(3) by simp
qed

end
