(* ===== verification/Gate_Audit.thy ===== *)
theory Gate_Audit
  imports Gate_Execution
begin

text \<open>
  The audit ledger through a dispatch. The fence moves first and the ledger is told after, each
  in a transaction of its own; \<open>in_step\<close> is what holds between two such pairs and \<open>trails\<close> what
  holds inside one, which is what the repair of the ledger starts from.
\<close>

definition in_step :: "py_env \<Rightarrow> audit \<Rightarrow> fence \<Rightarrow> bool" where
  "in_step E A F \<longleftrightarrow> fence_ok F \<and> ok (verify_fence_consistency E A F [])"

definition trails :: "py_env \<Rightarrow> audit \<Rightarrow> fence \<Rightarrow> bool" where
  "trails E A F \<longleftrightarrow> (\<exists>F0. left_behind E A F0 F)"

text \<open>All events of an effect carry its kind.\<close>

definition named_as :: "audit \<Rightarrow> string \<Rightarrow> string \<Rightarrow> bool" where
  "named_as A eid kind \<longleftrightarrow> (\<forall>r\<in>set (au_rows A). ar_effect_id r = eid \<longrightarrow> ar_effect_kind r = kind)"

lemma in_step_trails: "in_step E A F \<Longrightarrow> trails E A F"
proof -
  assume s: "in_step E A F"
  have "effect_row (er_effect_id r) F \<noteq> None" if "r \<in> set F" for r
    using that by (auto simp: row_of_None_iff)
  then show ?thesis using s runs_nil [of fence_step F] unfolding in_step_def trails_def left_behind_def by blast
qed

lemma trails_fence_ok: "trails E A F \<Longrightarrow> fence_ok F"
  by (auto simp: trails_def left_behind_def intro: fence_run_ok)

lemma consistent_in_step: "fence_ok F \<Longrightarrow> verify_fence_consistency E A F [] = Inr c \<Longrightarrow> in_step E A F"
  by (auto simp: in_step_def)

lemma in_step_verified: "in_step E A F \<Longrightarrow> \<exists>l k. verified E A l k"
  by (auto simp: in_step_def verify_fence_consistency_def result_simps verify_audit_iff)

section \<open>One row of the fence moves\<close>

definition fence_moves :: "fence \<Rightarrow> string \<Rightarrow> effect_receipt \<Rightarrow> effect_receipt \<Rightarrow> fence \<Rightarrow> bool" where
  "fence_moves F eid r r' F' \<longleftrightarrow> effect_row eid F = Some r \<and> effect_row eid F' = Some r' \<and> same_binding r r'
     \<and> fence_edge (er_state r) (er_state r') \<and> (\<forall>k. k \<noteq> eid \<longrightarrow> effect_row k F' = effect_row k F)
     \<and> map er_effect_id F' = map er_effect_id F \<and> (\<exists>l. fence_step F l F')"

lemma claim_moves:
  assumes "claim_tx F eid = Inr F'"
  shows "\<exists>r. fence_moves F eid r (r\<lparr>er_state := EXECUTING\<rparr>) F' \<and> er_state r = RESERVED"
proof -
  obtain r where "effect_row eid F = Some r" "er_state r = RESERVED"
    "F' = fst (update_effects eid {RESERVED} (\<lambda>r. r\<lparr>er_state := EXECUTING\<rparr>) F)"
    using claim_tx_Inr [OF assms] by blast
  then show ?thesis using step_claim [OF assms]
    by (intro exI [of _ r]) (auto simp: fence_moves_def effect_row_update update_effects_keys same_binding_def)
qed

lemma settle_moves:
  assumes "settle F eid d0 known = Inr (r', F')" "fence_ok F"
  shows "\<exists>r d. fence_moves F eid r r' F' \<and> er_state r' = settled known \<and> er_result r' = d
    \<and> (case d0 of None \<Rightarrow> d = None | Some x \<Rightarrow> \<exists>y. digest_check x = Inr y \<and> d = Some y)"
proof -
  obtain r d where r: "effect_row eid F = Some r" "er_state r = EXECUTING"
    "case d0 of None \<Rightarrow> d = None | Some x \<Rightarrow> \<exists>y. digest_check x = Inr y \<and> d = Some y"
    and F': "F' = fst (update_effects eid {EXECUTING} (\<lambda>r. r\<lparr>er_state := settled known, er_result := d\<rparr>) F)"
    and r': "r' = r\<lparr>er_state := settled known, er_result := d, er_reconciliation := None\<rparr>"
    using assms(1) unfolding settle_def settled_def
    by (cases d0) (auto simp: result_simps Let_def case_prod_beta require_digest_def split: if_splits)
  have "receipt_ok r" using row_of_Some [OF r(1)] assms(2) by (simp add: fence_ok_def)
  then have "r' = r\<lparr>er_state := settled known, er_result := d\<rparr>" using r(2) r' by (simp add: receipt_ok_def)
  then show ?thesis using r F' step_settle [OF assms(1)]
    by (intro exI [of _ r] exI [of _ d]) (auto simp: fence_moves_def effect_row_update update_effects_keys same_binding_def settled_def)
qed

lemma moves_ok: "fence_moves F eid r r' F' \<Longrightarrow> fence_ok F \<Longrightarrow> fence_ok F'"
  by (auto simp: fence_moves_def intro: fence_step_ok)

lemma moves_trail: "in_step E A F \<Longrightarrow> fence_moves F eid r r' F' \<Longrightarrow> trails E A F'"
proof -
  assume s: "in_step E A F" and m: "fence_moves F eid r r' F'"
  obtain l where "fence_step F l F'" "map er_effect_id F' = map er_effect_id F" using m by (auto simp: fence_moves_def)
  then have "runs fence_step F [l] F'" "er_effect_id ` set F' = er_effect_id ` set F"
    using runs_one [where step = fence_step] by (blast, metis set_map)
  moreover have "effect_row (er_effect_id x) F \<noteq> None" if "er_effect_id x \<in> er_effect_id ` set F" for x
    using that by (simp add: row_of_None_iff)
  ultimately show ?thesis using s unfolding in_step_def trails_def left_behind_def by blast
qed

lemma edge_allowed:
  assumes "fence_edge s s'"
  shows "target_event_type s' \<in> allowed_next (Some (target_event_type s))"
    "check_stage (Some (target_event_type s)) (Some kind) kind (target_event_type s') = Inr ()"
  using assms by (cases s; cases s'; simp add: check_stage_def EVENT_TYPES_def terminal_types_def allowed_next.simps(2))+

text \<open>The ledger is told of the move: fence and ledger are in step again.\<close>

lemma moves_noted:
  assumes s: "in_step E A F" and m: "fence_moves F eid r r' F'" and n: "named_as A eid kind"
    and a: "audit_append E A eid kind (target_of r') payload = Inr (ev, A')"
    and plain: "plain_json (JObj payload)"
    and latest: "\<And>e. ae_payload e = sorted_keys (JObj payload) \<Longrightarrow> check_latest e r' = Inr ()"
  shows "in_step E A' F' \<and> named_as A' eid kind"
proof -
  have F: "fence_ok F" "ok (verify_fence_consistency E A F [])" using s by (simp_all add: in_step_def)
  have r: "effect_row eid F = Some r" "effect_row eid F' = Some r'" "same_binding r r'" "fence_edge (er_state r) (er_state r')"
    "\<forall>k. k \<noteq> eid \<longrightarrow> effect_row k F' = effect_row k F" "map er_effect_id F' = map er_effect_id F"
    using m by (auto simp: fence_moves_def)
  obtain l k where v: "verified E A l k" using in_step_verified [OF s] by blast
  note con = consistency_verified(1) [OF v, THEN iffD1, OF F(2)]
  have "eid \<in> er_effect_id ` set F" using row_of_Some [OF r(1)] by (metis imageI)
  then have i: "eid \<in> ar_effect_id ` set (au_rows A)" using con by blast
  then have ne: "of_effect eid (audit_view A) \<noteq> []" by (rule audited_iff [THEN iffD1])
  obtain evs where evs: "audit_events A (Some eid) = Inr evs" using verified_effect [OF v ne] by metis
  have "audit_stage A eid = Some (target_of r)"
    using check_effect_verified [OF v ne F(1) evs] bspec [OF conjunct1 [OF con] i] r(1) by simp
  then have l: "l eid = Some (target_of r)" using verified_stage [OF v, of eid] by simp
  have "last (of_effect eid (audit_view A)) \<in> set (au_rows A)" "ar_effect_id (last (of_effect eid (audit_view A))) = eid"
    using last_in_set [OF ne] by auto
  then have k: "k eid = Some kind"
    using audit_walk_last [OF v [unfolded verified_def], of eid] ne n by (simp add: named_as_def)
  have fresh: "find_audit eid (target_of r') A = None" by (rule stage_fresh [OF v l edge_allowed(1) [OF r(4)]])
  obtain w d' where w: "normalize_value E None (JObj payload) = Inr w"
    "audit_view A' = audit_view A @ [new_row A eid kind (target_of r') w d']"
    "verified E A' (l(eid \<mapsto> target_of r')) (k(eid \<mapsto> kind))" "A' = grown A (new_row A eid kind (target_of r') w d')"
    using append_allowed_verified [OF v a fresh payload_settled_plain [OF plain]] edge_allowed(2) [OF r(4)] l k by auto
  have w': "w = sorted_keys (JObj payload)"
    using w(1) normalize_plain [OF plain, of None E] by (simp add: path_hint_def time_hint_def del: normalize_value.simps sorted_keys.simps)
  have "is_dict w" by (simp add: w')
  then obtain e where e: "audit_row_event (new_row A eid kind (target_of r') w d') = Inr e"
    "ae_event_type e = target_of r'" "ae_payload e = w"
    using new_row_event [OF normalize_wf [OF w(1)], of A eid kind "target_of r'" d'] by simp
  have F': "fence_ok F'" by (rule moves_ok [OF m F(1)])
  have "ok (verify_fence_consistency E A' F' [])"
  proof (rule keeping_step [OF v w(3) w(2) F(1) F' F(2) _ e(1) r(1-3) e(2)])
    show "ar_effect_id (new_row A eid kind (target_of r') w d') = eid" by (simp add: new_row_def)
    show "check_latest e r' = Inr ()" using latest e(3) w' by simp
    show "er_effect_id ` set F' = er_effect_id ` set F" using r(6) by (metis set_map)
  qed (use r(5) in blast)
  moreover have "named_as A' eid kind" using n w(4) by (simp add: named_as_def grown_def new_row_def)
  ultimately show ?thesis using F' by (simp add: in_step_def)
qed

section \<open>The authority event\<close>

text \<open>What a value held under a key, seen through its normal form.\<close>

lemma norm_items_back:
  "list_all2 (norm_item E) kvs ws \<Longrightarrow> map_of ws k = Some x \<Longrightarrow>
     \<exists>v. map_of kvs k = Some v \<and> normalize_value E (Some k) v = Inr x"
  by (induction kvs ws rule: list_all2_induct) (auto simp: norm_item_def split: if_splits)

lemma normalize_back:
  assumes "normalize_value E h w0 = Inr w" "is_dict w0" "jget k w = Some x"
  shows "\<exists>v. jget k w0 = Some v \<and> normalize_value E (Some k) v = Inr x"
proof -
  obtain kvs where kvs: "w0 = JObj kvs" using assms(2) by (auto simp: is_dict_def split: json.splits)
  obtain ws where ws: "w = JObj (sort_key key_order ws)" "list_all2 (norm_item E) kvs ws" "distinct (map fst kvs)"
    using assms(1) unfolding kvs normalize_obj_Inr by blast
  then have "map_of ws k = Some x" using assms(3) norm_item_keys [OF ws(2)] by (simp add: map_of_sort_key)
  then show ?thesis using norm_items_back [OF ws(2)] by (simp add: kvs)
qed

lemma normalize_str_back: "normalize_value E (Some k) v = Inr (JStr s) \<Longrightarrow> \<not> path_hint (Some k) \<Longrightarrow> \<not> time_hint (Some k) \<Longrightarrow> v = JStr s"
  by (cases v) (auto simp: result_simps)

lemma normalize_dict_back: "normalize_value E h v = Inr w \<Longrightarrow> is_dict w \<Longrightarrow> is_dict v"
  by (cases v) (auto simp: result_simps is_dict_def split: if_splits)

lemma normalize_str_get:
  assumes "normalize_value E None (JObj kvs) = Inr w" "normalize_value E None w0 = Inr w" "is_dict w0"
    and "map_of kvs k = Some (JStr s)" "\<not> path_hint (Some k)" "\<not> time_hint (Some k)"
  shows "py_get k w0 = JStr s"
proof -
  have "jget k w = Some (JStr s)" using normalize_obj_get [OF assms(1,4)] assms(5,6) by auto
  then obtain v where "jget k w0 = Some v" "normalize_value E (Some k) v = Inr (JStr s)"
    using normalize_back [OF assms(2,3)] by blast
  then show ?thesis using normalize_str_back assms(5,6) by (auto simp: py_get_def)
qed

lemma authority_matches:
  assumes p: "normalize_value E None (JObj (verified_payload c d details)) = Inr w"
    and e: "normalize_value E None (ae_payload e) = Inr w" "is_dict (ae_payload e)"
    and r: "er_request_digest r = ec_request c" "er_permit r = ec_mechanical c" "er_authority r = d"
      "er_currentness r = pm_permit_digest (ec_permit c)"
  shows "check_authority e r = Inr ()"
proof -
  have hints: "\<not> path_hint (Some k)" "\<not> time_hint (Some k)"
    if "k \<in> {''request_digest'', ''mechanical_permit_digest'', ''authority_evidence_digest'', ''permit_digest'', ''lifecycle_permit''}" for k
    using that by (auto simp: plain_eval)
  note get = normalize_str_get [OF p e(1,2)]
  have str: "py_get ''request_digest'' (ae_payload e) = JStr (ec_request c)"
    "py_get ''mechanical_permit_digest'' (ae_payload e) = JStr (ec_mechanical c)"
    "py_get ''authority_evidence_digest'' (ae_payload e) = JStr d"
    by (rule get; simp add: verified_payload_def hints)+
  obtain x where x: "normalize_value E (Some ''lifecycle_permit'') (permit_json (ec_permit c)) = Inr x" "jget ''lifecycle_permit'' w = Some x"
    using normalize_obj_get [OF p, of "''lifecycle_permit''" "permit_json (ec_permit c)"] by (auto simp: verified_payload_def)
  obtain v where v: "jget ''lifecycle_permit'' (ae_payload e) = Some v" "normalize_value E (Some ''lifecycle_permit'') v = Inr x"
    using normalize_back [OF e x(2)] by blast
  have "is_dict x" using x(1) by (auto simp: permit_json_def result_simps)
  then have dict: "is_dict v" using normalize_dict_back [OF v(2)] by simp
  have unhinted: "normalize_value E (Some k) (JObj kvs) = normalize_value E None (JObj kvs)" for k kvs by simp
  obtain kvs where kvs: "v = JObj kvs" using dict by (auto simp: is_dict_def split: json.splits)
  have "py_get ''permit_digest'' v = JStr (pm_permit_digest (ec_permit c))"
    using x(1) v(2) unfolding permit_json_def kvs unhinted
    by (rule normalize_str_get) (auto simp: hints permit_body_def)
  then show ?thesis using str v(1) dict r by (simp add: check_authority_def py_get_def)
qed

text \<open>An effect whose row and events stay is judged as before.\<close>

lemma check_effect_same:
  assumes v: "verified E A l k" "verified E A' l' k'" and F: "fence_ok F" "fence_ok F'"
    and j: "effect_row j F' = effect_row j F" "of_effect j (audit_view A') = of_effect j (audit_view A)"
      "j \<in> ar_effect_id ` set (au_rows A)"
    and chk: "ok (check_effect A F j)"
  shows "ok (check_effect A' F' j)"
proof -
  have ne: "of_effect j (audit_view A) \<noteq> []" by (rule audited_iff [THEN iffD1, OF j(3)])
  obtain evs where ev: "audit_events A (Some j) = Inr evs" using verified_effect [OF v(1) ne] by metis
  then have "audit_events A' (Some j) = Inr evs" by (simp add: audit_events_view j(2))
  then show ?thesis
    using chk ne check_effect_verified [OF v(1) ne F(1) ev]
      check_effect_verified [OF v(2) _ F(2), of j evs, unfolded j(2) j(1) audit_latest_same(2) [OF v j(2)]]
    by simp
qed

text \<open>An effect that has an event at all has its authority event.\<close>

lemma first_event_found:
  assumes "verified E A l k" "of_effect eid (audit_view A) \<noteq> []"
  shows "find_audit eid ''AUTHORITY_VERIFIED'' A \<noteq> None"
proof -
  let ?r = "hd (of_effect eid (audit_view A))"
  have "ar_event_type ?r = ''AUTHORITY_VERIFIED''"
    using audit_walk_first [OF assms(1) [unfolded verified_def] _ assms(2)] by simp
  moreover have "?r \<in> set (au_rows A)" "ar_effect_id ?r = eid" using hd_in_set [OF assms(2)] by auto
  ultimately show ?thesis by (auto simp: find_audit_def find_None_iff)
qed

definition authority_on_file :: "py_env \<Rightarrow> audit \<Rightarrow> string \<Rightarrow> (string \<times> json) list \<Rightarrow> bool" where
  "authority_on_file E A eid payload \<longleftrightarrow>
     (\<exists>e w. audit_events A (Some eid) = Inr [e] \<and> is_dict (ae_payload e)
        \<and> normalize_value E None (ae_payload e) = Inr w \<and> normalize_value E None (JObj payload) = Inr w)"

lemma authority_replayed:
  assumes s: "in_step E A F" and row: "find_audit eid ''AUTHORITY_VERIFIED'' A = Some row"
    and a: "audit_append E A eid kind ''AUTHORITY_VERIFIED'' payload = Inr (ev, A')"
  shows "A' = A \<and> (effect_row eid F = None \<longrightarrow> authority_on_file E A eid payload)"
proof -
  obtain e t where e: "audit_row_event row = Inr e" "canonical_json E (ae_payload e) = Inr t" "canonical_json E (JObj payload) = Inr t"
    and A': "A' = A"
    using a row by (auto simp: audit_append_def result_simps)
  have r: "row \<in> set (au_rows A)" "ar_effect_id row = eid" using row by (auto simp: find_audit_def find_Some_iff)
  obtain l k where v: "verified E A l k" using in_step_verified [OF s] by blast
  have in_view: "row \<in> set (of_effect eid (audit_view A))" using r by simp
  have F: "fence_ok F" "ok (verify_fence_consistency E A F [])" using s by (simp_all add: in_step_def)
  have "authority_on_file E A eid payload" if none: "effect_row eid F = None"
  proof -
    have ne: "of_effect eid (audit_view A) \<noteq> []" using in_view by force
    obtain evs where evs: "audit_events A (Some eid) = Inr evs" using verified_effect [OF v ne] by metis
    have "ok (check_effect A F eid)"
      using consistency_verified(1) [OF v, THEN iffD1, OF F(2)] r by blast
    then have "length (of_effect eid (audit_view A)) = 1" using check_effect_verified [OF v ne F(1) evs] none by simp
    then have "of_effect eid (audit_view A) = [row]"
      using in_view by (cases "of_effect eid (audit_view A)") auto
    then have ev: "audit_events A (Some eid) = Inr [e]" using e(1) by (simp add: audit_events_view)
    obtain w w' where w: "normalize_value E None (ae_payload e) = Inr w" "normalize_value E None (JObj payload) = Inr w'"
      "json_text w = json_text w'"
      using e(2,3) by (auto simp: canonical_json_def result_simps simp del: normalize_value.simps)
    then have "w = w'" using normalize_wf [OF w(1)] normalize_wf [OF w(2)] by (simp add: json_text_inj)
    then show ?thesis using ev w row_event_fields [OF e(1)] unfolding authority_on_file_def by blast
  qed
  then show ?thesis using A' by simp
qed

lemma authority_noted:
  assumes E: "iso_stable E" and s: "in_step E A F" and n: "named_as A eid kind"
    and a: "audit_append E A eid kind ''AUTHORITY_VERIFIED'' payload = Inr (ev, A')"
  shows "in_step E A' F \<and> named_as A' eid kind \<and> (effect_row eid F = None \<longrightarrow> authority_on_file E A' eid payload)"
proof (cases "find_audit eid ''AUTHORITY_VERIFIED'' A")
  case (Some row)
  then show ?thesis using authority_replayed [OF s Some a] s n by simp
next
  case None
  have F: "fence_ok F" "ok (verify_fence_consistency E A F [])" using s by (simp_all add: in_step_def)
  obtain l k where v: "verified E A l k" using in_step_verified [OF s] by blast
  note con = consistency_verified(1) [OF v, THEN iffD1, OF F(2)]
  have empty: "of_effect eid (audit_view A) = []" using first_event_found [OF v] None by blast
  then have lk: "l eid = None" "k eid = None" using audit_walk_last [OF v [unfolded verified_def], of eid] by simp_all
  have stage: "check_stage (l eid) (k eid) kind ''AUTHORITY_VERIFIED'' = Inr ()"
    by (simp add: lk check_stage_def EVENT_TYPES_def)
  let ?row = "\<lambda>w d. new_row A eid kind ''AUTHORITY_VERIFIED'' w d"
  obtain w d where w: "normalize_value E None (JObj payload) = Inr w" "audit_view A' = audit_view A @ [?row w d]"
    "verified E A' (l(eid \<mapsto> ''AUTHORITY_VERIFIED'')) (k(eid \<mapsto> kind))" "A' = grown A (?row w d)"
    using append_allowed_verified [OF v a None payload_settled_stable [OF E] stage] by blast
  have "is_dict w" using w(1) by (auto simp: result_simps)
  then obtain e where e: "audit_row_event (?row w d) = Inr e" "ae_payload e = w"
    using new_row_event [OF normalize_wf [OF w(1)], of A eid kind "''AUTHORITY_VERIFIED''" d] by simp
  have view: "of_effect eid (audit_view A') = [?row w d]" using empty by (simp add: w(2) new_row_def)
  then have evs: "audit_events A' (Some eid) = Inr [e]" by (simp add: audit_events_view e(1))
  have "eid \<notin> ar_effect_id ` set (au_rows A)" using empty audited_iff [of eid A] by simp
  then have absent: "effect_row eid F = None" using con by (auto simp: row_of_None_iff)
  have rows: "ar_effect_id ` set (au_rows A') = insert eid (ar_effect_id ` set (au_rows A))"
    by (simp add: w(4) grown_def new_row_def)
  have "ok (check_effect A' F j)" if j: "j \<in> ar_effect_id ` set (au_rows A')" for j
  proof (cases "j = eid")
    case True
    then show ?thesis using check_effect_verified [OF w(3) _ F(1) evs] view absent by simp
  next
    case False
    then have j': "j \<in> ar_effect_id ` set (au_rows A)" using j rows by blast
    have "of_effect j (audit_view A') = of_effect j (audit_view A)" using False by (simp add: w(2) new_row_def)
    moreover have "ok (check_effect A F j)" by (rule bspec [OF conjunct1 [OF con] j'])
    ultimately show ?thesis by (rule check_effect_same [OF v w(3) F(1) F(1) refl _ j'])
  qed
  moreover have "er_effect_id ` set F \<subseteq> ar_effect_id ` set (au_rows A')"
    unfolding rows by (rule subset_insertI2) (rule conjunct2 [OF con])
  ultimately have "ok (verify_fence_consistency E A' F [])"
    unfolding consistency_verified(1) [OF w(3), of F "[]"] by simp
  moreover have "named_as A' eid kind" using n by (simp add: named_as_def w(4) grown_def new_row_def)
  moreover have "authority_on_file E A' eid payload"
    unfolding authority_on_file_def
    by (rule exI [of _ e], rule exI [of _ w]) (simp only: evs e(2) w(1) \<open>is_dict w\<close> normalize_idem [OF E w(1)] simp_thms)
  ultimately show ?thesis using F(1) by (simp add: in_step_def)
qed

section \<open>The reservation\<close>

text \<open>What lies behind the authority event came through the reservation.\<close>

lemma audit_walk_reserved:
  "audit_walk E (p, n, l, k) rs = Inr (p', n', l', k') \<Longrightarrow> l eid = None \<Longrightarrow> l' eid = Some q \<Longrightarrow> q \<noteq> ''AUTHORITY_VERIFIED'' \<Longrightarrow>
     \<exists>r\<in>set rs. ar_effect_id r = eid \<and> ar_event_type r = ''RESERVED''"
proof (induction rs arbitrary: p' n' l' k' q rule: rev_induct)
  case (snoc r rs)
  then obtain p1 n1 l1 k1 where s: "audit_walk E (p, n, l, k) rs = Inr (p1, n1, l1, k1)"
    "audit_walk_row E (p1, n1, l1, k1) r = Inr (p', n', l', k')"
    by (auto simp: audit_walk_append result_simps)
  show ?case
  proof (cases "ar_effect_id r = eid")
    case False
    then have "l1 eid = Some q" using s(2) snoc.prems(3) by (auto simp: audit_walk_row_Inr)
    then show ?thesis using snoc.IH [OF s(1) snoc.prems(2) _ snoc.prems(4)] by auto
  next
    case True
    then have r: "q = ar_event_type r" "q \<in> allowed_next (l1 eid)"
      using s(2) snoc.prems(3) by (auto simp: audit_walk_row_Inr check_stage_def result_simps)
    then obtain q1 where q1: "l1 eid = Some q1" "q \<in> allowed_next (Some q1)" using snoc.prems(4) by (cases "l1 eid") auto
    show ?thesis
    proof (cases "q1 = ''AUTHORITY_VERIFIED''")
      case True
      then show ?thesis using r(1) q1(2) \<open>ar_effect_id r = eid\<close> by (simp add: allowed_next.simps(2))
    qed (use snoc.IH [OF s(1) snoc.prems(2) q1(1)] in auto)
  qed
qed simp

lemma reserved_event_found:
  assumes "verified E A l k" "l eid = Some q" "q \<noteq> ''AUTHORITY_VERIFIED''"
  shows "find_audit eid ''RESERVED'' A \<noteq> None"
  using audit_walk_reserved [OF assms(1) [unfolded verified_def] _ assms(2,3)]
  by (auto simp: find_audit_def find_None_iff)

text \<open>A reservation of an effect that is in the fence already changes neither fence nor ledger.\<close>

lemma replayed_reservation:
  assumes s: "in_step E A F" and r: "effect_row eid F = Some r"
    and a: "audit_append E A eid kind ''RESERVED'' payload = Inr (ev, A')"
  shows "A' = A"
proof -
  obtain l k where v: "verified E A l k" using in_step_verified [OF s] by blast
  have F: "fence_ok F" "ok (verify_fence_consistency E A F [])" using s by (simp_all add: in_step_def)
  note con = consistency_verified(1) [OF v, THEN iffD1, OF F(2)]
  have "eid \<in> er_effect_id ` set F" using row_of_Some [OF r] by (metis imageI)
  then have i: "eid \<in> ar_effect_id ` set (au_rows A)" using con by blast
  then have ne: "of_effect eid (audit_view A) \<noteq> []" by (rule audited_iff [THEN iffD1])
  obtain evs where evs: "audit_events A (Some eid) = Inr evs" using verified_effect [OF v ne] by metis
  have "audit_stage A eid = Some (target_of r)"
    using check_effect_verified [OF v ne F(1) evs] bspec [OF conjunct1 [OF con] i] r by simp
  then have "l eid = Some (target_of r)" using verified_stage [OF v, of eid] by simp
  then have "find_audit eid ''RESERVED'' A \<noteq> None" using reserved_event_found [OF v] target_not_authority by blast
  then show ?thesis using a by (auto simp: audit_append_def result_simps)
qed

lemma reservation_trails:
  assumes s: "in_step E A F" and absent: "effect_row eid F = None" and res: "reserve F eid rd pd ad cd = Inr (r, F')"
    and e: "audit_events A (Some eid) = Inr [e]" "check_authority e r = Inr ()"
  shows "trails E A F'"
proof -
  have F: "fence_ok F" "ok (verify_fence_consistency E A F [])" using s by (simp_all add: in_step_def)
  have r: "F' = F @ [r]" "er_effect_id r = eid" using reserve_Inr [OF res] absent by auto
  have "\<exists>e. audit_events A (Some (er_effect_id x)) = Inr [e] \<and> check_authority e x = Inr ()"
    if "x \<in> set F'" "effect_row (er_effect_id x) F = None" for x
  proof -
    have "x = r" using that r(1) by (auto simp: row_of_None_iff)
    then show ?thesis using e r(2) by auto
  qed
  moreover have "runs fence_step F [L_reserve eid rd pd ad cd] F'"
    by (rule runs_one [where step = fence_step, OF step_reserve [OF res]])
  ultimately show ?thesis using F unfolding trails_def left_behind_def by blast
qed

lemma reservation_noted:
  assumes s: "in_step E A F" and n: "named_as A eid kind" and absent: "effect_row eid F = None"
    and res: "reserve F eid rd pd ad cd = Inr (r, F')"
    and e: "audit_events A (Some eid) = Inr [e0]" "check_authority e0 r = Inr ()"
    and a: "audit_append E A eid kind ''RESERVED'' payload = Inr (ev, A')"
    and plain: "plain_json (JObj payload)"
    and latest: "\<And>e. ae_payload e = sorted_keys (JObj payload) \<Longrightarrow> check_latest e r = Inr ()"
  shows "in_step E A' F' \<and> named_as A' eid kind"
proof -
  have F: "fence_ok F" "ok (verify_fence_consistency E A F [])" using s by (simp_all add: in_step_def)
  have r: "F' = F @ [r]" "er_effect_id r = eid" "er_state r = RESERVED" "effect_row eid F' = Some r"
    using reserve_Inr [OF res] absent by (auto simp: row_of_append row_of_Cons)
  have F': "fence_ok F'" by (rule fence_step_ok [OF step_reserve [OF res] F(1)])
  obtain l k where v: "verified E A l k" using in_step_verified [OF s] by blast
  note con = consistency_verified(1) [OF v, THEN iffD1, OF F(2)]
  have ne: "of_effect eid (audit_view A) \<noteq> []" using e(1) by (auto simp: audit_events_view)
  have i: "eid \<in> ar_effect_id ` set (au_rows A)" by (rule audited_iff [THEN iffD2, OF ne])
  have first: "ae_event_type e0 = ''AUTHORITY_VERIFIED''" "audit_latest A eid = Inr (Some e0)"
    using verified_effect [OF v ne] e(1) by auto
  then have l: "l eid = Some ''AUTHORITY_VERIFIED''" using verified_latest [OF v, of eid] by auto
  have "last (of_effect eid (audit_view A)) \<in> set (au_rows A)" "ar_effect_id (last (of_effect eid (audit_view A))) = eid"
    using last_in_set [OF ne] by auto
  then have k: "k eid = Some kind"
    using audit_walk_last [OF v [unfolded verified_def], of eid] ne n by (simp add: named_as_def)
  have "''RESERVED'' \<in> allowed_next (Some ''AUTHORITY_VERIFIED'')" by (simp add: allowed_next.simps(2))
  then have fresh: "find_audit eid ''RESERVED'' A = None" by (rule stage_fresh [OF v l])
  have stage: "check_stage (l eid) (k eid) kind ''RESERVED'' = Inr ()"
    by (simp add: l k check_stage_def EVENT_TYPES_def terminal_types_def allowed_next.simps(2))
  obtain w d where w: "normalize_value E None (JObj payload) = Inr w"
    "audit_view A' = audit_view A @ [new_row A eid kind ''RESERVED'' w d]"
    "verified E A' (l(eid \<mapsto> ''RESERVED'')) (k(eid \<mapsto> kind))" "A' = grown A (new_row A eid kind ''RESERVED'' w d)"
    using append_allowed_verified [OF v a fresh payload_settled_plain [OF plain] stage] by blast
  have w': "w = sorted_keys (JObj payload)"
    using w(1) normalize_plain [OF plain, of None E] by (simp add: path_hint_def time_hint_def del: normalize_value.simps sorted_keys.simps)
  have "is_dict w" by (simp add: w')
  then obtain e1 where e1: "audit_row_event (new_row A eid kind ''RESERVED'' w d) = Inr e1" "ae_event_type e1 = ''RESERVED''" "ae_payload e1 = w"
    using new_row_event [OF normalize_wf [OF w(1)], of A eid kind "''RESERVED''" d] by simp
  have view: "of_effect eid (audit_view A') = of_effect eid (audit_view A) @ [new_row A eid kind ''RESERVED'' w d]"
    by (simp add: w(2) new_row_def)
  have evs: "audit_events A' (Some eid) = Inr [e0, e1]" using e(1) e1(1) by (simp add: audit_events_view view rmap_list_snoc)
  have "audit_stage A' eid = Some ''RESERVED''" using verified_stage [OF w(3), of eid] by simp
  then have mine: "ok (check_effect A' F' eid)"
    using check_effect_verified [OF w(3) _ F' evs] view r e(2) latest e1(3) w' by simp
  have rows: "ar_effect_id ` set (au_rows A') = ar_effect_id ` set (au_rows A)"
    using i by (simp add: w(4) grown_def new_row_def insert_absorb)
  have "ok (check_effect A' F' j)" if j: "j \<in> ar_effect_id ` set (au_rows A)" for j
  proof (cases "j = eid")
    case False
    have "effect_row j F' = effect_row j F" using False r(1,2) by (simp add: row_of_append row_of_Cons split: option.splits)
    moreover have "of_effect j (audit_view A') = of_effect j (audit_view A)" using False by (simp add: w(2) new_row_def)
    moreover have "ok (check_effect A F j)" by (rule bspec [OF conjunct1 [OF con] j])
    ultimately show ?thesis by (rule check_effect_same [OF v w(3) F(1) F' _ _ j])
  qed (use mine in simp)
  moreover have "er_effect_id ` set F' \<subseteq> ar_effect_id ` set (au_rows A')"
    using conjunct2 [OF con] i r(1,2) unfolding rows by simp
  ultimately have "ok (verify_fence_consistency E A' F' [])"
    unfolding consistency_verified(1) [OF w(3), of F' "[]"] rows by blast
  moreover have "named_as A' eid kind" using n by (simp add: named_as_def w(4) grown_def new_row_def)
  ultimately show ?thesis using F' by (simp add: in_step_def)
qed

end
