(* ===== verification/Gate_Guarantees.thy ===== *)
theory Gate_Guarantees
  imports Gate_Audit
begin

text \<open>
  What a dispatch guarantees: at every point at which the process can die the audit ledger is
  one that the repair can bring up to the fence, a dispatch that returns leaves the two in step
  with the effect committed, and an effect runs at most once and only when it was authorized.
\<close>

section \<open>The payloads\<close>

lemma gate_payloads_plain:
  "plain_json (JObj (mechanical_payload r))" "plain_json (JObj (unknown_payload r))" "plain_json (JObj (committed_event r))"
  by (simp_all add: mechanical_payload_def unknown_payload_def committed_event_def plain_eval)

lemma check_latest_mechanical:
  assumes "ae_payload e = sorted_keys (JObj (mechanical_payload r))" "er_state r \<in> {RESERVED, EXECUTING}"
  shows "check_latest e r = Inr ()"
proof -
  have d: "distinct (map fst (mechanical_payload r))" by (simp add: mechanical_payload_def)
  note get = py_get_sorted [OF d] jget_sorted_keys [OF d]
  show ?thesis unfolding check_latest_def Let_def assms(1) using assms(2)
    by (simp add: get del: sorted_keys.simps(2)) (auto simp: mechanical_payload_def)
qed

lemma check_latest_unknown:
  assumes "ae_payload e = sorted_keys (JObj (unknown_payload r))" "er_state r = ATTEMPTED_UNKNOWN"
  shows "check_latest e r = Inr ()"
proof -
  have d: "distinct (map fst (unknown_payload r))" by (simp add: unknown_payload_def)
  note get = py_get_sorted [OF d] jget_sorted_keys [OF d]
  show ?thesis unfolding check_latest_def Let_def assms(1) using assms(2)
    by (simp add: get del: sorted_keys.simps(2)) (simp add: unknown_payload_def)
qed

lemma check_latest_committed:
  assumes "ae_payload e = sorted_keys (JObj (committed_event r))" "er_state r = COMMITTED"
  shows "check_latest e r = Inr ()"
proof -
  have d: "distinct (map fst (committed_event r))" by (simp add: committed_event_def)
  note get = py_get_sorted [OF d] jget_sorted_keys [OF d]
  show ?thesis unfolding check_latest_def Let_def assms(1) using assms(2)
    by (simp add: get del: sorted_keys.simps(2)) (simp add: committed_event_def)
qed

section \<open>The stages\<close>

definition recoverable :: "py_env \<Rightarrow> ('v, 'p, 'w) gateway \<Rightarrow> bool" where
  "recoverable E s \<longleftrightarrow> (\<exists>F A. gate_fence s = Some F \<and> gate_audit s = Some A \<and> trails E A F)"

text \<open>Fence and ledger are in step, and the fence holds the effect in the row \<open>r\<close>.\<close>

definition synced :: "py_env \<Rightarrow> effect_call \<Rightarrow> effect_receipt \<Rightarrow> ('v, 'p, 'w) gateway \<Rightarrow> bool" where
  "synced E c r s \<longleftrightarrow> (\<exists>F A. gate_fence s = Some F \<and> gate_audit s = Some A \<and> in_step E A F
     \<and> named_as A (ec_effect_id c) (ec_effect_kind c) \<and> effect_row (ec_effect_id c) F = Some r)"

lemma synced_recoverable: "synced E c r s \<Longrightarrow> recoverable E s"
  by (auto simp: synced_def recoverable_def intro: in_step_trails)

definition bound_to :: "effect_call \<Rightarrow> effect_receipt \<Rightarrow> bool" where
  "bound_to c r \<longleftrightarrow> er_request_digest r = ec_request c \<and> er_permit r = ec_mechanical c
     \<and> er_currentness r = pm_permit_digest (ec_permit c)"

lemma bound_to_same: "same_binding r r' \<Longrightarrow> bound_to c r' = bound_to c r"
  by (simp add: bound_to_def same_binding_def)

text \<open>What a returned result says, and what the stores say with it.\<close>

definition result_stored :: "py_env \<Rightarrow> effect_call \<Rightarrow> effect_result \<Rightarrow> ('v, 'p, 'w) gateway \<Rightarrow> bool" where
  "result_stored E c x s \<longleftrightarrow> synced E c (ef_receipt x) s \<and> bound_to c (ef_receipt x)
     \<and> er_state (ef_receipt x) = COMMITTED \<and> er_result (ef_receipt x) = Some (ef_result_digest x)
     \<and> effect_result_digest E (ec_effect_id c) (ec_effect_kind c) (ef_value x) = Inr (ef_result_digest x)
     \<and> ef_effect_id x = ec_effect_id c \<and> ef_effect_kind x = ec_effect_kind c \<and> ef_request_digest x = ec_request c
     \<and> ef_permit_digest x = pm_permit_digest (ec_permit c)"

definition left_ok :: "py_env \<Rightarrow> effect_call \<Rightarrow> (action_error, effect_result) result \<Rightarrow> ('v, 'p, 'w) gateway \<Rightarrow> bool" where
  "left_ok E c res s \<longleftrightarrow> recoverable E s \<and> (\<forall>x. res = Inr x \<longrightarrow> result_stored E c x s)"

lemma left_ok_Inl [simp]: "left_ok E c (Inl e) s \<longleftrightarrow> recoverable E s"
  by (simp add: left_ok_def)

text \<open>A move of the fence that the ledger is told of next.\<close>

lemma wp_move:
  assumes s: "synced E c r s"
    and f: "\<And>F r' F'. gate_fence s = Some F \<Longrightarrow> fence_ok F \<Longrightarrow> f F = Inr (r', F') \<Longrightarrow> fence_moves F (ec_effect_id c) r r' F' \<and> X r'"
    and t: "\<And>r'. X r' \<Longrightarrow> t = target_of r' \<and> plain_json (JObj (payload r')) \<and>
        (\<forall>e. ae_payload e = sorted_keys (JObj (payload r')) \<longrightarrow> check_latest e r' = Inr ())"
    and k: "\<And>r' u. X r' \<Longrightarrow> same_binding r r' \<Longrightarrow> synced E c r' u \<Longrightarrow> guarantees (m r') u (recoverable E) Q"
    and Q: "\<And>e u. recoverable E u \<Longrightarrow> Q (Inl e) u"
  shows "guarantees (act_bind (fence_tx f) (\<lambda>r'. act_bind (audit_note E (ec_effect_id c) (ec_effect_kind c) t (payload r')) (\<lambda>_. m r')))
    s (recoverable E) Q"
proof -
  obtain F A where F: "gate_fence s = Some F" "gate_audit s = Some A" "in_step E A F"
    "named_as A (ec_effect_id c) (ec_effect_kind c)" "effect_row (ec_effect_id c) F = Some r"
    using s by (auto simp: synced_def)
  have ok: "fence_ok F" using F(3) by (simp add: in_step_def)
  let ?R = "\<lambda>res u. recoverable E u \<and> (\<forall>r'. res = Inr r' \<longrightarrow> (\<exists>F'. u = put_fence F' s \<and> fence_moves F (ec_effect_id c) r r' F' \<and> X r'))"
  have moved: "recoverable E (put_fence F' s) \<and> ?R (Inr r') (put_fence F' s)" if "f F = Inr (r', F')" for r' F'
    using f [OF F(1) ok that] moves_trail [OF F(3)] F(2) by (auto simp: recoverable_def)
  have noted: "guarantees (act_bind (audit_note E (ec_effect_id c) (ec_effect_kind c) t (payload r')) (\<lambda>_. m r')) u (recoverable E) Q"
    if u: "?R (Inr r') u" for r' u
  proof -
    obtain F' where F': "u = put_fence F' s" "fence_moves F (ec_effect_id c) r r' F'" "X r'" using u by blast
    have told: "synced E c r' (put_audit A' u)"
      if "audit_append E A (ec_effect_id c) (ec_effect_kind c) t (payload r') = Inr (ev, A')" for ev A'
    proof -
      have "in_step E A' F' \<and> named_as A' (ec_effect_id c) (ec_effect_kind c)"
        using moves_noted [OF F(3) F'(2) F(4), of "payload r'" ev A'] that t [OF F'(3)] by blast
      then show ?thesis using F' by (simp add: synced_def fence_moves_def)
    qed
    show ?thesis
    proof (rule act_bind_wp [where R = "\<lambda>res v. recoverable E v \<and> (ok res \<longrightarrow> synced E c r' v)"])
      show "guarantees (audit_note E (ec_effect_id c) (ec_effect_kind c) t (payload r')) u (recoverable E)
          (\<lambda>res v. recoverable E v \<and> (ok res \<longrightarrow> synced E c r' v))"
        by (rule wp_audit) (use u F' F(2) told synced_recoverable in \<open>auto\<close>)
    qed (use k [OF F'(3)] Q F'(2) in \<open>auto simp: fence_moves_def\<close>)
  qed
  show ?thesis
    by (rule act_bind_wp [where R = ?R], rule wp_fence)
      (use moved noted Q F(1) synced_recoverable [OF s] in auto)
qed

lemma conclude_synced:
  assumes s: "synced E c r s" "er_state r = EXECUTING" and b: "bound_to c r"
  shows "guarantees (conclude_effect E c outcome) s (recoverable E) (left_ok E c)"
proof -
  have unknown: "guarantees (outcome_unknown E c raised) s (recoverable E) (left_ok E c)" for raised
    unfolding outcome_unknown_def
  proof (rule wp_move [OF s(1), where X = "\<lambda>r'. er_state r' = ATTEMPTED_UNKNOWN"])
    show "fence_moves F (ec_effect_id c) r r' F' \<and> er_state r' = ATTEMPTED_UNKNOWN"
      if "gate_fence s = Some F" "fence_ok F" "settle F (ec_effect_id c) None False = Inr (r', F')" for F r' F'
      using settle_moves [OF that(3,2)] s(1) that(1) by (auto simp: settled_def synced_def fence_moves_def)
  qed (auto simp: gate_payloads_plain check_latest_unknown wp_read synced_recoverable simp del: plain_json.simps)
  have known: "guarantees (outcome_known E c v d) s (recoverable E) (left_ok E c)"
    if d: "effect_result_digest E (ec_effect_id c) (ec_effect_kind c) v = Inr d" for v d
    unfolding outcome_known_def
  proof (rule wp_move [OF s(1), where X = "\<lambda>r'. er_state r' = COMMITTED \<and> er_result r' = Some d"])
    have hex: "digest_check d = Inr d"
      using d by (auto simp: effect_result_digest_def result_simps intro: action_digest_hex)
    show "fence_moves F (ec_effect_id c) r r' F' \<and> er_state r' = COMMITTED \<and> er_result r' = Some d"
      if "gate_fence s = Some F" "fence_ok F" "settle F (ec_effect_id c) (Some d) True = Inr (r', F')" for F r' F'
      using settle_moves [OF that(3,2)] s(1) that(1) hex by (auto simp: settled_def synced_def fence_moves_def)
    show "guarantees (act_read (\<lambda>_. Inr \<lparr>ef_effect_id = ec_effect_id c, ef_effect_kind = ec_effect_kind c,
         ef_request_digest = ec_request c, ef_permit_digest = pm_permit_digest (ec_permit c),
         ef_result_digest = d, ef_receipt = r', ef_value = v\<rparr>)) u (recoverable E) (left_ok E c)"
      if "er_state r' = COMMITTED \<and> er_result r' = Some d" "same_binding r r'" "synced E c r' u" for r' u
      using that d b bound_to_same [OF that(2)] synced_recoverable [OF that(3)]
      by (simp add: wp_read left_ok_def result_stored_def)
  qed (auto simp: gate_payloads_plain check_latest_committed simp del: plain_json.simps)
  show ?thesis unfolding conclude_effect_def using unknown known by (auto split: option.split sum.split)
qed

text \<open>What a successful reservation or claim fixes of the row.\<close>

definition call_ok :: "effect_call \<Rightarrow> bool" where
  "call_ok c \<longleftrightarrow> digest_check (ec_request c) = Inr (ec_request c) \<and> digest_check (ec_mechanical c) = Inr (ec_mechanical c)
     \<and> digest_check (pm_permit_digest (ec_permit c)) = Inr (pm_permit_digest (ec_permit c))"

lemma reserve_binds:
  assumes "call_ok c" "digest_check d = Inr d"
    and "reserve F (ec_effect_id c) (ec_request c) (ec_mechanical c) d (pm_permit_digest (ec_permit c)) = Inr (r, F')"
  shows "bound_to c r \<and> er_authority r = d"
  using assms by (auto simp: reserve_ok_iff digests_bind_def call_ok_def bound_to_def)

lemma execute_synced:
  assumes "synced E c r s" "er_state r = EXECUTING" "bound_to c r"
  shows "guarantees (act_bind (run_effect execute) (conclude_effect E c)) s (recoverable E) (left_ok E c)"
proof -
  have u: "synced E c r (s\<lparr>gw_world := w\<rparr>)" for w using assms(1) by (simp add: synced_def)
  then show ?thesis
    unfolding wp_bind run_effect_def wp_tx
    using conclude_synced [OF u assms(2,3)] synced_recoverable [OF u] by (simp split: prod.split)
qed

lemma claim_synced:
  assumes s: "synced E c r s" and b: "bound_to c r" "er_authority r = d" "call_ok c" "digest_check d = Inr d"
  shows "guarantees (act_bind (claim_effect c d) (execute_claimed E c execute)) s (recoverable E) (left_ok E c)"
proof -
  obtain F A where F: "gate_fence s = Some F" "gate_audit s = Some A" "effect_row (ec_effect_id c) F = Some r"
    using s by (auto simp: synced_def)
  have again: "guarantees (reserve_effect c d) s (recoverable E) (\<lambda>res t. recoverable E t \<and> (\<forall>x. res = Inr x \<longrightarrow> x = r \<and> synced E c r t))"
    unfolding reserve_effect_def
  proof (rule wp_fence)
    fix G x G' assume G: "gate_fence s = Some G"
      "reserve G (ec_effect_id c) (ec_request c) (ec_mechanical c) d (pm_permit_digest (ec_permit c)) = Inr (x, G')"
    then have "G' = F" "x = r" using F by (auto simp: reserve_ok_iff)
    then have "synced E c r (put_fence G' s)" using s F by (auto simp: synced_def)
    then show "recoverable E (put_fence G' s) \<and> recoverable E (put_fence G' s) \<and>
        (\<forall>y. Inr x = Inr y \<longrightarrow> y = r \<and> synced E c r (put_fence G' s))"
      using \<open>x = r\<close> synced_recoverable by auto
  qed (use synced_recoverable [OF s] in auto)
  have claimed: "guarantees (act_bind (fence_tx (\<lambda>F. rbind (claim_tx F (ec_effect_id c)) (\<lambda>F'.
      Inr (r\<lparr>er_state := EXECUTING, er_result := None, er_reconciliation := None\<rparr>, F')))) (execute_claimed E c execute))
     t (recoverable E) (left_ok E c)" if t: "synced E c r t" for t
    unfolding execute_claimed_def
  proof (rule wp_move [OF t, where X = "\<lambda>r'. er_state r' = EXECUTING"])
    fix F r' F' assume F: "gate_fence t = Some F" "fence_ok F" and
      r': "rbind (claim_tx F (ec_effect_id c)) (\<lambda>F'. Inr (r\<lparr>er_state := EXECUTING, er_result := None, er_reconciliation := None\<rparr>, F')) = Inr (r', F')"
    then have c: "claim_tx F (ec_effect_id c) = Inr F'" "r' = r\<lparr>er_state := EXECUTING, er_result := None, er_reconciliation := None\<rparr>"
      by (auto simp: result_simps)
    have row: "effect_row (ec_effect_id c) F = Some r" using t F(1) by (auto simp: synced_def)
    then have "fence_moves F (ec_effect_id c) r (r\<lparr>er_state := EXECUTING\<rparr>) F'" "er_state r = RESERVED"
      using claim_moves [OF c(1)] by (auto simp: fence_moves_def)
    moreover have "receipt_ok r" using row_of_Some [OF row] F(2) by (simp add: fence_ok_def)
    ultimately have "r' = r\<lparr>er_state := EXECUTING\<rparr>" using c(2) by (cases r) (simp add: receipt_ok_def)
    then show "fence_moves F (ec_effect_id c) r r' F' \<and> er_state r' = EXECUTING"
      using \<open>fence_moves F (ec_effect_id c) r (r\<lparr>er_state := EXECUTING\<rparr>) F'\<close> by simp
  next
    show "guarantees (act_bind (run_effect execute) (conclude_effect E c)) u (recoverable E) (left_ok E c)"
      if "er_state r' = EXECUTING" "same_binding r r'" "synced E c r' u" for r' u
      using execute_synced [OF that(3,1)] bound_to_same [OF that(2)] b(1) by simp
  qed (auto simp: gate_payloads_plain check_latest_mechanical simp del: plain_json.simps)
  have "guarantees (claim_effect c d) s (recoverable E) (\<lambda>res t. case res of Inl e \<Rightarrow> left_ok E c (Inl e) t
     | Inr x \<Rightarrow> guarantees (execute_claimed E c execute x) t (recoverable E) (left_ok E c))"
    unfolding claim_effect_def
  proof (rule act_bind_wp [OF again])
    show "guarantees (fence_tx (\<lambda>F. rbind (claim_tx F (ec_effect_id c)) (\<lambda>F'.
        Inr (x\<lparr>er_state := EXECUTING, er_result := None, er_reconciliation := None\<rparr>, F')))) t (recoverable E)
       (\<lambda>res t. case res of Inl e \<Rightarrow> left_ok E c (Inl e) t
     | Inr x \<Rightarrow> guarantees (execute_claimed E c execute x) t (recoverable E) (left_ok E c))"
      if "recoverable E t \<and> (\<forall>y. Inr x = Inr y \<longrightarrow> y = r \<and> synced E c r t)" for x t
      using claimed [of t] that unfolding wp_bind by simp
  qed auto
  then show ?thesis unfolding wp_bind .
qed

lemma reserved_synced:
  assumes s: "synced E c r s" and b: "bound_to c r" "er_authority r = d" "call_ok c" "digest_check d = Inr d"
  shows "guarantees (act_bind (check_permit E control (ec_permit c))
      (\<lambda>_. act_bind (claim_effect c d) (execute_claimed E c execute))) s (recoverable E) (left_ok E c)"
  unfolding check_permit_def wp_bind [of "act_read f" for f] wp_read
  using claim_synced [OF s b] synced_recoverable [OF s] by (simp split: sum.split)

text \<open>The reservation of a new effect, with the event that follows it.\<close>

lemma new_reservation:
  assumes s: "gate_fence s = Some F" "gate_audit s = Some A" "in_step E A F" "named_as A (ec_effect_id c) (ec_effect_kind c)"
    and absent: "effect_row (ec_effect_id c) F = None"
    and filed: "authority_on_file E A (ec_effect_id c) (verified_payload c d w)"
    and c: "call_ok c" "digest_check d = Inr d"
    and res: "reserve F (ec_effect_id c) (ec_request c) (ec_mechanical c) d (pm_permit_digest (ec_permit c)) = Inr (r, F')"
  shows "recoverable E (put_fence F' s)"
    and "guarantees (claim_reserved E control c execute d r) (put_fence F' s) (recoverable E) (left_ok E c)"
proof -
  have b: "bound_to c r" "er_authority r = d" using reserve_binds [OF c res] by blast+
  obtain e w' where e: "audit_events A (Some (ec_effect_id c)) = Inr [e]" "is_dict (ae_payload e)"
    "normalize_value E None (ae_payload e) = Inr w'" "normalize_value E None (JObj (verified_payload c d w)) = Inr w'"
    using filed by (auto simp: authority_on_file_def)
  have auth: "check_authority e r = Inr ()"
    by (rule authority_matches [OF e(4,3,2)]) (use b in \<open>simp_all add: bound_to_def\<close>)
  show rec: "recoverable E (put_fence F' s)"
    using reservation_trails [OF s(3) absent res e(1) auth] s(2) by (auto simp: recoverable_def)
  have r: "effect_row (ec_effect_id c) F' = Some r" "er_state r = RESERVED"
    using reserve_Inr [OF res] absent by (auto simp: row_of_append row_of_Cons)
  have told: "synced E c r (put_audit A' (put_fence F' s))"
    if a: "audit_append E A (ec_effect_id c) (ec_effect_kind c) ''RESERVED'' (mechanical_payload r) = Inr (ev, A')" for ev A'
    using reservation_noted [OF s(3,4) absent res e(1) auth a gate_payloads_plain(1)] check_latest_mechanical r
    by (simp add: synced_def)
  show "guarantees (claim_reserved E control c execute d r) (put_fence F' s) (recoverable E) (left_ok E c)"
    unfolding claim_reserved_def
    by (rule act_bind_wp [where R = "\<lambda>res u. recoverable E u \<and> (ok res \<longrightarrow> synced E c r u)"], rule wp_audit)
      (use rec told s(2) synced_recoverable reserved_synced [OF _ b c] in auto)
qed

lemma old_reservation:
  assumes s: "synced E c r s" and b: "bound_to c r" "er_authority r = d" "call_ok c" "digest_check d = Inr d"
  shows "guarantees (claim_reserved E control c execute d r) s (recoverable E) (left_ok E c)"
proof -
  obtain F A where F: "gate_fence s = Some F" "gate_audit s = Some A" "in_step E A F" "effect_row (ec_effect_id c) F = Some r"
    using s by (auto simp: synced_def)
  have told: "synced E c r (put_audit A' s)"
    if a: "audit_append E A (ec_effect_id c) (ec_effect_kind c) ''RESERVED'' (mechanical_payload r) = Inr (ev, A')" for ev A'
    using replayed_reservation [OF F(3,4) a] s F by (auto simp: synced_def)
  show ?thesis unfolding claim_reserved_def
    by (rule act_bind_wp [where R = "\<lambda>res u. recoverable E u \<and> (ok res \<longrightarrow> synced E c r u)"], rule wp_audit)
      (use told F(2) synced_recoverable [OF s] synced_recoverable reserved_synced [OF _ b] in auto)
qed

lemma reserve_synced:
  assumes s: "gate_fence s = Some F" "gate_audit s = Some A" "in_step E A F" "named_as A (ec_effect_id c) (ec_effect_kind c)"
    and filed: "effect_row (ec_effect_id c) F = None \<longrightarrow> authority_on_file E A (ec_effect_id c) (verified_payload c d w)"
    and c: "call_ok c" "digest_check d = Inr d"
  shows "guarantees (act_bind (reserve_effect c d) (claim_reserved E control c execute d)) s (recoverable E) (left_ok E c)"
proof -
  have rec: "recoverable E s" using s(1-3) by (auto simp: recoverable_def intro: in_step_trails)
  have go: "recoverable E (put_fence F' s) \<and> guarantees (claim_reserved E control c execute d r) (put_fence F' s) (recoverable E) (left_ok E c)"
    if res: "reserve F (ec_effect_id c) (ec_request c) (ec_mechanical c) d (pm_permit_digest (ec_permit c)) = Inr (r, F')" for r F'
  proof (cases "effect_row (ec_effect_id c) F")
    case None
    then show ?thesis using new_reservation [OF s None _ c res] filed by blast
  next
    case (Some r0)
    then have same: "r = r0" "F' = F" using res by (auto simp: reserve_ok_iff)
    then have y: "synced E c r (put_fence F' s)" using s Some by (simp add: synced_def)
    show ?thesis using old_reservation [OF y] reserve_binds [OF c res] c synced_recoverable [OF y] by blast
  qed
  show ?thesis
    by (rule act_bind_wp [where R = "\<lambda>res u. recoverable E u \<and> (\<forall>r. res = Inr r \<longrightarrow>
        guarantees (claim_reserved E control c execute d r) u (recoverable E) (left_ok E c))"])
      (use go rec s(1) in \<open>auto simp: reserve_effect_def intro!: wp_fence\<close>)
qed

text \<open>The authority event of the call is on file where the effect is not in the fence yet.\<close>

definition filed_for :: "py_env \<Rightarrow> effect_call \<Rightarrow> string \<Rightarrow> fence \<Rightarrow> ('v, 'p, 'w) gateway \<Rightarrow> bool" where
  "filed_for E c d F s \<longleftrightarrow> (\<exists>A w. gate_fence s = Some F \<and> gate_audit s = Some A \<and> in_step E A F
     \<and> named_as A (ec_effect_id c) (ec_effect_kind c)
     \<and> (effect_row (ec_effect_id c) F = None \<longrightarrow> authority_on_file E A (ec_effect_id c) (verified_payload c d w)))"

lemma filed_recoverable: "filed_for E c d F s \<Longrightarrow> recoverable E s"
  by (auto simp: filed_for_def recoverable_def intro: in_step_trails)

lemma filed_synced:
  assumes "filed_for E c d F s" "call_ok c" "digest_check d = Inr d"
  shows "guarantees (act_bind (reserve_effect c d) (claim_reserved E control c execute d)) s (recoverable E) (left_ok E c)"
proof -
  obtain A w where s: "gate_fence s = Some F" "gate_audit s = Some A" "in_step E A F"
    "named_as A (ec_effect_id c) (ec_effect_kind c)"
    "effect_row (ec_effect_id c) F = None \<longrightarrow> authority_on_file E A (ec_effect_id c) (verified_payload c d w)"
    using assms(1) unfolding filed_for_def by (elim exE conjE)
  show ?thesis by (rule reserve_synced [OF s assms(2,3)])
qed

lemma authorized_synced:
  assumes E: "iso_stable E" and c: "call_ok c"
    and s: "gate_fence s = Some F" "gate_audit s = Some A" "in_step E A F" "named_as A (ec_effect_id c) (ec_effect_kind c)"
  shows "guarantees (dispatch_authorized E control c execute ev) s (recoverable E) (left_ok E c)"
proof -
  have rec: "recoverable E s" using s(1-3) by (auto simp: recoverable_def intro: in_step_trails)
  have noted: "guarantees (act_bind (authority_note E c d (av_details ev))
      (\<lambda>_. act_bind (reserve_effect c d) (claim_reserved E control c execute d))) s (recoverable E) (left_ok E c)"
    if d: "digest_check d = Inr d" for d
  proof (rule act_bind_wp [where R = "\<lambda>res u. recoverable E u \<and> (ok res \<longrightarrow> filed_for E c d F u)"])
    show "guarantees (authority_note E c d (av_details ev)) s (recoverable E)
        (\<lambda>res u. recoverable E u \<and> (ok res \<longrightarrow> filed_for E c d F u))"
    proof (rule wp_authority)
      fix A0 w evt A'
      assume a: "gate_audit s = Some A0" "audit_append E A0 (ec_effect_id c) (ec_effect_kind c) ''AUTHORITY_VERIFIED''
          (verified_payload c d w) = Inr (evt, A')"
      have n: "in_step E A' F \<and> named_as A' (ec_effect_id c) (ec_effect_kind c) \<and> (effect_row (ec_effect_id c) F = None \<longrightarrow>
          authority_on_file E A' (ec_effect_id c) (verified_payload c d w))"
        using authority_noted [OF E s(3,4)] a s(2) by simp
      have filed: "filed_for E c d F (put_audit A' s)" unfolding filed_for_def
        by (rule exI [of _ A'], rule exI [of _ w]) (use n s(1) in simp)
      then show "recoverable E (put_audit A' s) \<and> recoverable E (put_audit A' s) \<and> (ok (Inr ()) \<longrightarrow> filed_for E c d F (put_audit A' s))"
        using filed_recoverable by simp
    qed (use rec s(2) in auto)
    show "guarantees (act_bind (reserve_effect c d) (claim_reserved E control c execute d)) u (recoverable E) (left_ok E c)"
      if "recoverable E u \<and> (ok (Inr x) \<longrightarrow> filed_for E c d F u)" for x :: unit and u
      by (rule filed_synced [OF _ c d, of E F]) (use that in simp)
  qed simp
  show ?thesis
    unfolding dispatch_authorized_def wp_bind [of "act_read f" for f] wp_read
    using noted [OF digest_check_idem] rec by (auto split: sum.split simp: result_simps)
qed

section \<open>A whole dispatch\<close>

lemma permit_hex: "validate_action_permit E control p L = Inr q \<Longrightarrow> digest_check (pm_permit_digest p) = Inr (pm_permit_digest p)"
proof -
  assume "validate_action_permit E control p L = Inr q"
  then obtain b where "sha256_hexdigest b = pm_permit_digest p"
    by (auto simp: validate_action_permit_def permit_digest_def canonical_digest_def result_simps)
  then show ?thesis by (metis digest_check_sha256)
qed

lemma effect_call_fields:
  assumes "effect_call_of E p eid kind payload = Inr c"
  shows "ec_permit c = p" "ec_effect_id c = eid" "ec_effect_kind c = kind"
    "digest_check (ec_request c) = Inr (ec_request c)" "digest_check (ec_mechanical c) = Inr (ec_mechanical c)"
  using assms by (auto simp: effect_call_of_def effect_request_digest_def mechanical_permit_digest_def result_simps intro: action_digest_hex)

text \<open>The permit's validation reads that fence and ledger are in step.\<close>

lemma permitted_in_step:
  assumes "validate_action_permit E control p (gw_lifecycle s) = Inr q" "recoverable E s"
  shows "\<exists>F A. gate_fence s = Some F \<and> gate_audit s = Some A \<and> in_step E A F"
proof -
  obtain F A where F: "gate_fence s = Some F" "gate_audit s = Some A" "trails E A F"
    using assms(2) by (auto simp: recoverable_def)
  have "assert_outbound_integrity E (gw_lifecycle s) = Inr ()"
    using assms(1) by (auto simp: validate_action_permit_def result_simps)
  then have "ok (verify_fence_consistency E A F [])"
    using F by (auto simp: assert_outbound_integrity_def gate_fence_def gate_audit_def result_simps)
  then show ?thesis using F trails_fence_ok by (auto simp: in_step_def)
qed

lemma dispatch_locked_synced:
  assumes s: "recoverable E s" and E: "iso_stable E" and q: "quiet verify"
    and n: "\<And>A. gate_audit s = Some A \<Longrightarrow> named_as A (ec_effect_id c) (ec_effect_kind c)"
    and c: "digest_check (ec_request c) = Inr (ec_request c)" "digest_check (ec_mechanical c) = Inr (ec_mechanical c)"
  shows "guarantees (dispatch_locked E control c verify execute) s (recoverable E) (left_ok E c)"
proof -
  have same: "recoverable E t" if "same_but_verifiers s t" for t
    using s that by (simp add: recoverable_def same_but_verifiers_def gate_fence_def gate_audit_def)
  have verified: "guarantees (act_bind verify (dispatch_authorized E control c execute)) s (recoverable E) (left_ok E c)"
    if p: "validate_action_permit E control (ec_permit c) (gw_lifecycle s) = Inr p" for p
  proof (rule act_bind_wp)
    show "guarantees verify s (recoverable E) (\<lambda>res t. same_but_verifiers s t)"
      by (rule guarantees_mono [OF quiet_guarantees [OF q]]) (use same in auto)
    obtain F A where F: "gate_fence s = Some F" "gate_audit s = Some A" "in_step E A F"
      using permitted_in_step [OF p s] by blast
    have ok: "call_ok c" using c permit_hex [OF p] by (simp add: call_ok_def)
    show "guarantees (dispatch_authorized E control c execute ev) t (recoverable E) (left_ok E c)"
      if t: "same_but_verifiers s t" for ev t
    proof (rule authorized_synced [OF E ok _ _ F(3) n [OF F(2)]])
      show "gate_fence t = Some F" "gate_audit t = Some A"
        using t F by (simp_all add: same_but_verifiers_def gate_fence_def gate_audit_def)
    qed
  qed (use same in auto)
  show ?thesis
    unfolding dispatch_locked_def check_clear_def check_permit_def wp_bind [of "act_read f" for f] wp_read
    using verified s by (auto simp: result_simps split: sum.split)
qed

text \<open>The same of the whole of \<^verbatim>\<open>_dispatch_verified\<close>.\<close>

lemma dispatch_synced:
  assumes "recoverable E s" "iso_stable E" "quiet verify" "\<And>A. gate_audit s = Some A \<Longrightarrow> named_as A eid kind"
  shows "guarantees (dispatch_verified E control p eid kind payload verify execute) s (recoverable E)
    (\<lambda>res t. recoverable E t \<and> (\<forall>x. res = Inr x \<longrightarrow>
       (\<exists>c. effect_call_of E p eid kind payload = Inr c \<and> result_stored E c x t)))"
proof (cases "effect_call_of E p eid kind payload")
  case (Inl e)
  then show ?thesis using assms(1) by (simp add: dispatch_verified_def wp_bind [of "act_read f" for f] wp_read)
next
  case (Inr c)
  note f = effect_call_fields [OF Inr]
  have "guarantees (dispatch_locked E control c verify execute) s (recoverable E) (left_ok E c)"
    by (rule dispatch_locked_synced [OF assms(1-3) _ f(4,5)]) (use assms(4) f in simp)
  then have "guarantees (dispatch_locked E control c verify execute) s (recoverable E)
    (\<lambda>res t. recoverable E t \<and> (\<forall>x. res = Inr x \<longrightarrow> result_stored E c x t))"
    by (rule guarantees_mono) (auto simp: left_ok_def)
  then show ?thesis using Inr by (simp add: dispatch_verified_def wp_bind [of "act_read f" for f] wp_read)
qed

end
