(* ===== verification/Gate_Contract.thy ===== *)
theory Gate_Contract
  imports Gate_Guarantees Lifecycle_Guarantees
begin

text \<open>
  What the action gate promises: an effect runs at most once and only when it was authorized,
  the audit ledger follows the fence at every point of a dispatch, and an authorized effect is
  performed.
\<close>

section \<open>At most once\<close>

text \<open>
  C2: An effect runs at most once. When a dispatch has changed the outside world by any point at
  which the process can die, then after any further operations of the effect fence, recovery
  included, no dispatch of the same effect id changes the world again, at any of its crash
  points and whatever its permit, payload, authority and effect.
\<close>

theorem effect_runs_once:
  assumes "quiet verify" "t \<in> crash_points (dispatch_verified E control p eid kind payload verify execute) s"
    and "gw_world t \<noteq> gw_world s" "gate_fence t = Some F" "runs fence_step F ls F'" "gate_fence s' = Some F'"
    and "quiet verify'" "t' \<in> crash_points (dispatch_verified E' control' p' eid kind' payload' verify' execute') s'"
  shows "gw_world t' = gw_world s'"
proof (rule ccontr)
  assume "gw_world t' \<noteq> gw_world s'"
  then have absent: "effect_row eid F' = None"
    using dispatch_runs_admitted [OF assms(7,8)] assms(6) by (auto simp: effect_admitted_def)
  obtain r where "effect_row eid F = Some r"
    using dispatch_runs_admitted [OF assms(1-3)] assms(4) by (auto simp: effect_ran_def gate_status_def effect_status_def)
  then show False using fence_run_row [OF assms(5)] absent by force
qed

section \<open>Only when authorized\<close>

lemma read_crash_points:
  "t \<in> crash_points (act_bind (act_read f) m) s \<longleftrightarrow> t = s \<or> (\<exists>x. f s = Inr x \<and> t \<in> crash_points (m x) s)"
  by (auto simp: crash_points_def act_bind_def act_read_def split: sum.splits prod.splits)

lemma pc_authority_given:
  assumes "fst (verify_pc_authority E V p j a pf now dep s) = Inr ev"
  shows "\<exists>subject tr. pc_admitted E (gw_trust s) V p j a pf now = Inr (subject, tr) \<and> fst (rv_verify V (gw_pc s) pf subject)"
  using assms
  by (auto simp: verify_pc_authority_def act_bind_def act_read_def act_tx_def ask_pc_verifier_def ensure_def
      split: sum.splits prod.splits if_splits)

lemma provider_authority_given:
  assumes "fst (verify_provider_authority E V p eid pid op rd e dep s) = Inr ev"
  shows "\<exists>subject tr. provider_admitted E (gw_trust s) V p eid pid op rd e = Inr (subject, tr)
    \<and> fst (pv_verify V (gw_providers s) e (pid, op, subject))"
  using assms
  by (auto simp: verify_provider_authority_def act_bind_def act_read_def act_tx_def ask_provider_verifier_def ensure_def
      split: sum.splits prod.splits if_splits)

text \<open>
  C3: A PC job runs only when everything authorizes it. When a dispatch of a job has changed the
  outside world, the job belongs to the gateway's project and is bound to the authorization,
  the issuer's key is current in the trust registry in the role \<^verbatim>\<open>PC\<close> at the
  revocation epoch the authorization names, the clock was inside the windows of both envelopes,
  the verifier accepted the proof for the subject made of the digests of job, authorization and
  permit, the permit was valid, the fence was clear, and the effect was new.
\<close>

theorem pc_job_runs_authorized:
  assumes "t \<in> crash_points (dispatch_pc_job E control verifier p j a pf now dep execute) s" "gw_world t \<noteq> gw_world s"
  shows "\<exists>V R n tr subject F. verifier = Some V \<and> gw_trust s = Some R \<and> now = Some n \<and> gate_fence s = Some F
    \<and> jb_project_id j = lf_project_id (gw_lifecycle s) \<and> validate_binding j a = Inr ()
    \<and> rv_authority_id V = az_issuer_id a \<and> ap_issuer_id pf = az_issuer_id a
    \<and> assert_current E R (az_issuer_id a) ''PC'' (rv_key_id V) (rv_key_digest V) None = Inr tr
    \<and> az_issuer_revocation_epoch a = tc_epoch tr \<and> pc_windows j a n = Inr ()
    \<and> pc_subject E p j a = Inr subject \<and> fst (rv_verify V (gw_pc s) pf subject)
    \<and> validate_action_permit E control p (gw_lifecycle s) = Inr p
    \<and> assert_clear F = Inr () \<and> effect_row (''pc:'' @ jb_envelope_id j) F = None"
proof -
  obtain V payload where V: "pc_job_checks verifier j a dep s = Inr V"
    "t \<in> crash_points (dispatch_verified E control p (''pc:'' @ jb_envelope_id j) (''PC/'' @ jb_operation_id j) payload
         (verify_pc_authority E V p j a pf now dep) execute) s"
    using assms unfolding dispatch_pc_job_def read_crash_points by auto
  have verifier: "verifier = Some V" "jb_project_id j = lf_project_id (gw_lifecycle s)"
    using V(1) by (auto simp: pc_job_checks_def result_simps)
  obtain F ev where F: "gate_fence s = Some F" "assert_clear F = Inr ()" "effect_row (''pc:'' @ jb_envelope_id j) F = None"
    "validate_action_permit E control p (gw_lifecycle s) = Inr p" "fst (verify_pc_authority E V p j a pf now dep s) = Inr ev"
    using dispatch_runs_admitted [OF quiet_pc V(2) assms(2)] unfolding effect_admitted_def by blast
  obtain subject tr where ok: "pc_admitted E (gw_trust s) V p j a pf now = Inr (subject, tr)" "fst (rv_verify V (gw_pc s) pf subject)"
    using pc_authority_given [OF F(5)] by blast
  have "validate_binding j a = Inr () \<and> rv_authority_id V = az_issuer_id a \<and> ap_issuer_id pf = az_issuer_id a
      \<and> az_issuer_revocation_epoch a = tc_epoch tr \<and> pc_subject E p j a = Inr subject
      \<and> (\<exists>R n. gw_trust s = Some R \<and> now = Some n \<and> pc_windows j a n = Inr ()
        \<and> assert_current E R (az_issuer_id a) ''PC'' (rv_key_id V) (rv_key_digest V) None = Inr tr)"
    using ok(1) by (auto simp: pc_admitted_def result_simps)
  then show ?thesis using verifier F ok(2) by blast
qed

text \<open>
  C14: A provider effect runs only when everything authorizes it. When a dispatch to a provider
  has changed the outside world, a verifier is registered for the provider under its own id, its
  key is current in the trust registry in the role \<^verbatim>\<open>PROVIDER\<close> of that provider,
  it accepted the envelope for the provider, the operation and the subject made of effect,
  request and permit, the permit was valid, the fence was clear, and the effect was new.
\<close>

theorem provider_effect_runs_authorized:
  assumes "t \<in> crash_points (dispatch_provider_effect E control verifiers p eid pid op payload e dep execute) s"
    and "gw_world t \<noteq> gw_world s"
  shows "\<exists>V R tr digest subject F. map_of verifiers pid = Some V \<and> gw_trust s = Some R \<and> gate_fence s = Some F
    \<and> pv_provider_id V = pid \<and> pv_authority_id V = pe_issuer_id e
    \<and> assert_current E R (pe_issuer_id e) ''PROVIDER'' (pv_key_id V) (pv_key_digest V) (Some pid) = Inr tr
    \<and> provider_request_digest E pid op payload = Inr digest
    \<and> provider_authority_subject E eid pid op digest (pm_permit_digest p) = Inr subject
    \<and> fst (pv_verify V (gw_providers s) e (pid, op, subject))
    \<and> validate_action_permit E control p (gw_lifecycle s) = Inr p
    \<and> assert_clear F = Inr () \<and> effect_row (''provider:'' @ pid @ '':'' @ eid) F = None"
proof -
  obtain V digest where V: "provider_checks E verifiers eid pid op payload dep = Inr (V, digest)"
    "t \<in> crash_points (dispatch_verified E control p (''provider:'' @ pid @ '':'' @ eid) (''PROVIDER/'' @ pid @ ''/'' @ op)
         (provider_request digest payload e) (verify_provider_authority E V p eid pid op digest e dep) execute) s"
    using assms unfolding dispatch_provider_effect_def read_crash_points by auto
  have found: "map_of verifiers pid = Some V" "provider_request_digest E pid op payload = Inr digest"
    using V(1) by (auto simp: provider_checks_def result_simps)
  obtain F ev where F: "gate_fence s = Some F" "assert_clear F = Inr ()" "effect_row (''provider:'' @ pid @ '':'' @ eid) F = None"
    "validate_action_permit E control p (gw_lifecycle s) = Inr p"
    "fst (verify_provider_authority E V p eid pid op digest e dep s) = Inr ev"
    using dispatch_runs_admitted [OF quiet_provider V(2) assms(2)] unfolding effect_admitted_def by blast
  obtain subject tr where ok: "provider_admitted E (gw_trust s) V p eid pid op digest e = Inr (subject, tr)"
    "fst (pv_verify V (gw_providers s) e (pid, op, subject))"
    using provider_authority_given [OF F(5)] by blast
  have "pv_provider_id V = pid \<and> pv_authority_id V = pe_issuer_id e
      \<and> provider_authority_subject E eid pid op digest (pm_permit_digest p) = Inr subject
      \<and> (\<exists>R. gw_trust s = Some R
        \<and> assert_current E R (pe_issuer_id e) ''PROVIDER'' (pv_key_id V) (pv_key_digest V) (Some pid) = Inr tr)"
    using ok(1) by (auto simp: provider_admitted_def result_simps)
  then show ?thesis using found F ok(2) by blast
qed

section \<open>The ledger follows the fence\<close>

text \<open>
  C9: A dispatch keeps the audit ledger. From a fence and a ledger that is a consistent one or
  one that a crash left behind the fence, every point at which a dispatch can die leaves such a
  pair again, from which the repair brings the ledger up to the fence. A dispatch that returns
  leaves the two consistent, with the effect \<^verbatim>\<open>COMMITTED\<close> under the digest of the
  value it returns and bound to the request, the mechanical permit and the lifecycle permit.
\<close>

theorem dispatch_keeps_audit:
  assumes "recoverable E s" "iso_stable E" "quiet verify" "\<forall>A. gate_audit s = Some A \<longrightarrow> named_as A eid kind"
  shows "(\<forall>t\<in>crash_points (dispatch_verified E control p eid kind payload verify execute) s. recoverable E t) \<and>
    (\<forall>x tr. dispatch_verified E control p eid kind payload verify execute s = (Inr x, tr) \<longrightarrow>
       (\<exists>c. effect_call_of E p eid kind payload = Inr c \<and> result_stored E c x (left_at s tr)))"
proof -
  have g: "guarantees (dispatch_verified E control p eid kind payload verify execute) s (recoverable E)
    (\<lambda>res t. recoverable E t \<and> (\<forall>x. res = Inr x \<longrightarrow>
       (\<exists>c. effect_call_of E p eid kind payload = Inr c \<and> result_stored E c x t)))"
    by (rule dispatch_synced) (use assms in auto)
  show ?thesis using guarantees_crash [OF g assms(1)] guarantees_result [OF g] by blast
qed

section \<open>What is authorized is performed\<close>

text \<open>The row of a new effect through its moves, at the end of the table.\<close>

lemma update_new:
  assumes "effect_row eid F = None" "er_effect_id r = eid" "er_state r \<in> S"
  shows "update_effects eid S f (F @ [r]) = (F @ [f r], 1)"
proof -
  have none: "x \<in> set F \<Longrightarrow> er_effect_id x \<noteq> eid" for x using assms(1) by (auto simp: row_of_None_iff)
  then have "filter (\<lambda>r. er_effect_id r = eid \<and> er_state r \<in> S) F = []" by (auto simp: filter_empty_conv)
  moreover have "map (\<lambda>r. if er_effect_id r = eid \<and> er_state r \<in> S then f r else r) F = F"
    using none by (intro map_idI) auto
  ultimately show ?thesis using assms(2,3) by (simp add: update_effects_def)
qed

definition new_receipt :: "effect_call \<Rightarrow> string \<Rightarrow> effect_receipt" where
  "new_receipt c d = \<lparr>er_effect_id = ec_effect_id c, er_request_digest = ec_request c, er_state = RESERVED,
     er_permit = ec_mechanical c, er_authority = d, er_currentness = pm_permit_digest (ec_permit c),
     er_result = None, er_reconciliation = None\<rparr>"

lemma new_moves:
  assumes "effect_row (ec_effect_id c) F = None" "call_ok c" "digest_check d = Inr d" "ec_effect_id c \<noteq> []"
  shows "reserve F (ec_effect_id c) (ec_request c) (ec_mechanical c) d (pm_permit_digest (ec_permit c))
      = Inr (new_receipt c d, F @ [new_receipt c d])"
    and "reserve (F @ [new_receipt c d]) (ec_effect_id c) (ec_request c) (ec_mechanical c) d (pm_permit_digest (ec_permit c))
      = Inr (new_receipt c d, F @ [new_receipt c d])"
    and "claim_tx (F @ [new_receipt c d]) (ec_effect_id c) = Inr (F @ [(new_receipt c d)\<lparr>er_state := EXECUTING\<rparr>])"
    and "digest_check v = Inr v \<Longrightarrow> settle (F @ [(new_receipt c d)\<lparr>er_state := EXECUTING\<rparr>]) (ec_effect_id c) (Some v) True
      = Inr ((new_receipt c d)\<lparr>er_state := COMMITTED, er_result := Some v\<rparr>,
             F @ [(new_receipt c d)\<lparr>er_state := COMMITTED, er_result := Some v\<rparr>])"
proof -
  note row = row_of_append row_of_Cons new_receipt_def assms(1)
  show "reserve F (ec_effect_id c) (ec_request c) (ec_mechanical c) d (pm_permit_digest (ec_permit c))
      = Inr (new_receipt c d, F @ [new_receipt c d])"
    "reserve (F @ [new_receipt c d]) (ec_effect_id c) (ec_request c) (ec_mechanical c) d (pm_permit_digest (ec_permit c))
      = Inr (new_receipt c d, F @ [new_receipt c d])"
    using assms(2-4) by (simp_all add: reserve_ok_iff row call_ok_def digests_bind_def)
  show "claim_tx (F @ [new_receipt c d]) (ec_effect_id c) = Inr (F @ [(new_receipt c d)\<lparr>er_state := EXECUTING\<rparr>])"
    using update_new [OF assms(1), of "new_receipt c d" "{RESERVED}"] by (simp add: claim_tx_def row)
  show "settle (F @ [(new_receipt c d)\<lparr>er_state := EXECUTING\<rparr>]) (ec_effect_id c) (Some v) True
      = Inr ((new_receipt c d)\<lparr>er_state := COMMITTED, er_result := Some v\<rparr>,
             F @ [(new_receipt c d)\<lparr>er_state := COMMITTED, er_result := Some v\<rparr>])" if "digest_check v = Inr v"
    using update_new [OF assms(1), of "(new_receipt c d)\<lparr>er_state := EXECUTING\<rparr>" "{EXECUTING}"] that assms(4)
    by (simp add: settle_def require_id_def require_digest_def row Let_def)
qed

text \<open>Without a ledger the permit does not read the fence.\<close>

lemma implements_any_fence: "implements E L sp \<Longrightarrow> implements E (L\<lparr>lf_fence := G\<rparr>) sp"
proof -
  have "subject_row (L\<lparr>lf_fence := G\<rparr>) = subject_row L" "published E (L\<lparr>lf_fence := G\<rparr>) = published E L"
    by (simp_all add: fun_eq_iff published_def candidate_values_def)
  then show "implements E L sp \<Longrightarrow> ?thesis" by (simp add: implements_def cong: option.case_cong)
qed

lemma implements_any_ledger: "implements E L sp \<Longrightarrow> implements E (L\<lparr>lf_fence := G, lf_audit := A\<rparr>) sp"
proof -
  have "subject_row (L\<lparr>lf_fence := G, lf_audit := A\<rparr>) = subject_row L"
    "published E (L\<lparr>lf_fence := G, lf_audit := A\<rparr>) = published E L"
    by (simp_all add: fun_eq_iff published_def candidate_values_def)
  then show "implements E L sp \<Longrightarrow> ?thesis" by (simp add: implements_def cong: option.case_cong)
qed

lemma permit_any_fence:
  assumes "implements E L sp" "lf_audit L = None"
  shows "validate_action_permit E control p (L\<lparr>lf_fence := G\<rparr>) = Inr q \<longleftrightarrow> validate_action_permit E control p L = Inr q"
proof -
  note i = implements_any_fence [OF assms(1), of G]
  show ?thesis unfolding permit_valid_iff [OF i] permit_valid_iff [OF assms(1)] using assms(2)
    by (simp add: assert_outbound_integrity_def expected_permit_def)
qed

text \<open>The last steps, from the authority evidence on.\<close>

lemma fence_point: "gate_fence s = Some F \<Longrightarrow> f F = Inr (r, F') \<Longrightarrow>
    guarantees (fence_tx f) s (\<lambda>_. True) Q \<longleftrightarrow> Q (Inr r) (put_fence F' s)"
  by (simp add: fence_tx_def wp_tx)

lemma unaudited_note:
  "gate_audit s = None \<Longrightarrow> guarantees (audit_note E eid kind t pl) s (\<lambda>_. True) Q \<longleftrightarrow> Q (Inr ()) s"
  "gate_audit s = None \<Longrightarrow> guarantees (authority_note E c d det) s (\<lambda>_. True) Q \<longleftrightarrow> Q (Inr ()) s"
  by (simp_all add: audit_note_def authority_note_def wp_tx)

definition performed :: "effect_call \<Rightarrow> string \<Rightarrow> fence \<Rightarrow> py_value \<Rightarrow> string \<Rightarrow> 'w \<Rightarrow>
    (action_error, effect_result) result \<Rightarrow> ('v, 'p, 'w) gateway \<Rightarrow> bool" where
  "performed c d F v h w res t \<longleftrightarrow> (\<exists>x. res = Inr x \<and> ef_value x = v \<and> ef_result_digest x = h
     \<and> ef_request_digest x = ec_request c
     \<and> ef_receipt x = (new_receipt c d)\<lparr>er_state := COMMITTED, er_result := Some h\<rparr>
     \<and> gate_fence t = Some (F @ [ef_receipt x]) \<and> gw_world t = w)"

lemma authorized_performed:
  assumes s: "gate_audit s = None" "gate_fence s = Some F"
    and new: "effect_row (ec_effect_id c) F = None" "call_ok c" "digest_check (av_digest ev) = Inr d" "ec_effect_id c \<noteq> []"
    and p: "\<And>G. validate_action_permit E control (ec_permit c) ((gw_lifecycle s)\<lparr>lf_fence := G\<rparr>) = Inr (ec_permit c)"
    and x: "execute (gw_world s) = (Some v, w)" "effect_result_digest E (ec_effect_id c) (ec_effect_kind c) v = Inr h"
  shows "guarantees (dispatch_authorized E control c execute ev) s (\<lambda>_. True) (performed c d F v h w)"
proof -
  have hex: "digest_check h = Inr h"
    using x(2) by (auto simp: effect_result_digest_def result_simps intro: action_digest_hex)
  note moves = new_moves [OF new(1,2) digest_check_idem [OF new(3)] new(4)]
  have life: "gw_lifecycle (put_fence G u) = (gw_lifecycle u)\<lparr>lf_fence := Some G\<rparr>" for G and u :: "('a, 'b, 'c) gateway"
    by (simp add: put_fence_def)
  show ?thesis
    unfolding dispatch_authorized_def claim_reserved_def claim_effect_def reserve_effect_def execute_claimed_def
      check_permit_def run_effect_def wp_bind wp_read
    using s new(3) x moves(1-3) moves(4) [OF hex] p
    by (simp add: unaudited_note fence_point life wp_tx conclude_effect_def outcome_known_def wp_bind wp_read performed_def new_receipt_def)
qed

text \<open>A new effect without a ledger, from the permit on.\<close>

lemma new_effect_commits:
  assumes "implements E (gw_lifecycle s) sp" "gate_audit s = None" "gate_fence s = Some F" "assert_clear F = Inr ()"
    and "effect_row eid F = None" "validate_action_permit E control p (gw_lifecycle s) = Inr p"
    and "quiet verify" "fst (verify s) = Inr ev" "digest_check (av_digest ev) = Inr d"
    and "effect_call_of E p eid kind payload = Inr c" "execute (gw_world s) = (Some v, w)"
    and "effect_result_digest E eid kind v = Inr h"
  shows "\<exists>x tr. dispatch_verified E control p eid kind payload verify execute s = (Inr x, tr)
    \<and> ef_value x = v \<and> ef_result_digest x = h \<and> ef_request_digest x = ec_request c \<and> gw_world (left_at s tr) = w
    \<and> ef_receipt x = (new_receipt c d)\<lparr>er_state := COMMITTED, er_result := Some h\<rparr>
    \<and> gate_fence (left_at s tr) = Some (F @ [ef_receipt x])"
proof -
  note f = effect_call_fields [OF assms(10)]
  have eid: "eid \<noteq> []" using assms(10) by (auto simp: effect_call_of_def result_simps)
  have call: "call_ok c" using f permit_hex [OF assms(6)] by (simp add: call_ok_def)
  have "guarantees (act_bind verify (dispatch_authorized E control c execute)) s (\<lambda>_. True) (performed c d F v h w)"
    unfolding wp_bind
  proof (rule guarantees_mono [OF quiet_guarantees [OF assms(7)]])
    fix res t assume t: "same_but_verifiers s t \<and> fst (verify s) = res"
    have same: "gw_lifecycle t = gw_lifecycle s" "gate_audit t = None" "gate_fence t = Some F" "gw_world t = gw_world s"
      using t assms(2,3) by (simp_all add: same_but_verifiers_def gate_fence_def gate_audit_def)
    have "guarantees (dispatch_authorized E control c execute ev) t (\<lambda>_. True) (performed c d F v h w)"
      by (rule authorized_performed [OF same(2,3) _ call assms(9)])
        (use f eid assms(2,5,6,11,12) permit_any_fence [OF assms(1)] same in \<open>auto simp: gate_audit_def\<close>)
    moreover have "res = Inr ev" using t assms(8) by simp
    ultimately show "case res of Inl e \<Rightarrow> performed c d F v h w (Inl e) t
      | Inr x \<Rightarrow> guarantees (dispatch_authorized E control c execute x) t (\<lambda>_. True) (performed c d F v h w)"
      by simp
  qed simp
  then have g: "guarantees (dispatch_verified E control p eid kind payload verify execute) s (\<lambda>_. True) (performed c d F v h w)"
    unfolding dispatch_verified_def dispatch_locked_def check_clear_def check_permit_def wp_bind [of "act_read f" for f] wp_read
    using assms(3,4,6,10) f(1) by simp
  obtain res tr where r: "dispatch_verified E control p eid kind payload verify execute s = (res, tr)" by fastforce
  show ?thesis using guarantees_result [OF g r] r by (auto simp: performed_def)
qed

text \<open>
  C15: What is authorized is performed. On a gateway without an audit ledger, a dispatch of a
  new effect with a valid permit, a clear fence and an accepted authority, whose effect returns
  a value that has a digest, returns that value with its digest; the effect has run once, and
  the fence has gained exactly one row, \<^verbatim>\<open>COMMITTED\<close> with that digest and bound to
  the request, the permits and the evidence.
\<close>

theorem authorized_effect_commits:
  assumes "implements E (gw_lifecycle s) sp" "gate_audit s = None" "gate_fence s = Some F" "assert_clear F = Inr ()"
    and "effect_row eid F = None" "validate_action_permit E control p (gw_lifecycle s) = Inr p"
    and "quiet verify" "fst (verify s) = Inr ev" "digest_check (av_digest ev) = Inr d"
    and "effect_call_of E p eid kind payload = Inr c" "execute (gw_world s) = (Some v, w)"
    and "effect_result_digest E eid kind v = Inr h"
  shows "\<exists>x tr. dispatch_verified E control p eid kind payload verify execute s = (Inr x, tr)
    \<and> ef_value x = v \<and> ef_result_digest x = h \<and> gw_world (left_at s tr) = w
    \<and> ef_receipt x = (new_receipt c d)\<lparr>er_state := COMMITTED, er_result := Some h\<rparr>
    \<and> gate_fence (left_at s tr) = Some (F @ [ef_receipt x])"
  using new_effect_commits [where verify = verify and execute = execute and s = s, OF assms] by blast

end
