(* ===== verification/Gate_Examples.thy ===== *)
theory Gate_Examples
  imports Gate_Contract
begin

text \<open>
  Concrete gateways on which the action gate runs effects: a lifecycle with an accepted
  checkpoint and a valid permit, a registry with one current authority, and a verifier that
  accepts. The outside world is a flag that the effect sets.
\<close>

section \<open>Values that have a digest\<close>

fun tame_json :: "json \<Rightarrow> bool" where
  "tame_json (JFloat t) = False"
| "tame_json (JInt i) = (\<bar>i\<bar> \<le> MAX_SAFE_INTEGER)"
| "tame_json (JArr vs) = (\<forall>v\<in>set vs. tame_json v)"
| "tame_json (JObj kvs) = (distinct (map fst kvs) \<and> (\<forall>kv\<in>set kvs. \<not> path_hint (Some (fst kv)) \<and> tame_json (snd kv)))"
| "tame_json _ = True"

definition reads_times :: "py_env \<Rightarrow> bool" where
  "reads_times E \<longleftrightarrow> (\<forall>s. \<exists>t. fromisoformat E s = Iso_utc t)"

lemma list_all2_choice: "(\<And>x. x \<in> set xs \<Longrightarrow> \<exists>y. P x y) \<Longrightarrow> \<exists>ys. list_all2 P xs ys"
proof (induction xs)
  case (Cons x xs)
  obtain y where "P x y" using Cons.prems by auto
  moreover obtain ys where "list_all2 P xs ys" using Cons by auto
  ultimately show ?case by (intro exI [of _ "y # ys"]) simp
qed (auto intro: exI [of _ "[]"])

lemma tame_normalizes:
  "reads_times E \<Longrightarrow> tame_json v \<Longrightarrow> \<not> path_hint h \<Longrightarrow> \<exists>w. normalize_value E h v = Inr w"
proof (induction v arbitrary: h)
  case (JStr s)
  have "\<exists>t. normalize_timestamp E x = Inr t" for x
  proof -
    obtain t where "fromisoformat E (if ends_with (py_strip x) ''Z'' then butlast (py_strip x) @ ''+00:00'' else py_strip x) = Iso_utc t"
      using JStr(1) unfolding reads_times_def by blast
    then show ?thesis by (simp add: normalize_timestamp_def Let_def)
  qed
  then show ?case using JStr(3) by (auto simp: result_simps)
next
  case (JArr vs)
  have "\<exists>ws. list_all2 (\<lambda>v w. normalize_value E None v = Inr w) vs ws"
    using JArr by (intro list_all2_choice) (auto simp: path_hint_def)
  then show ?case by (auto simp: result_simps normalize_list_Inr)
next
  case (JObj kvs)
  have "\<exists>w. norm_item E kv w" if kv: "kv \<in> set kvs" for kv
  proof -
    have "snd kv \<in> Basic_BNFs.snds kv" by (cases kv) simp
    moreover have "tame_json (snd kv)" "\<not> path_hint (Some (fst kv))" using JObj.prems(2) kv by auto
    ultimately obtain w where "normalize_value E (Some (fst kv)) (snd kv) = Inr w"
      using JObj.IH [OF kv] JObj.prems(1) by blast
    then show ?thesis by (intro exI [of _ "(fst kv, w)"]) (simp add: norm_item_def)
  qed
  then have "\<exists>ws. list_all2 (norm_item E) kvs ws" by (rule list_all2_choice)
  then show ?case using JObj.prems(2) unfolding normalize_obj_Inr by auto
qed auto

lemma canonical_digest_tame: "reads_times E \<Longrightarrow> tame_json v \<Longrightarrow> \<exists>d. canonical_digest E v = Inr d"
  using tame_normalizes [of E v None]
  by (auto simp: canonical_digest_def canonical_json_bytes_def canonical_json_def path_hint_def)

fun tame_value :: "py_value \<Rightarrow> bool" where
  "tame_value VNone = True"
| "tame_value (VBool b) = True"
| "tame_value (VInt i) = (\<bar>i\<bar> \<le> MAX_SAFE_INTEGER)"
| "tame_value (VStr s) = True"
| "tame_value (VList vs) = (\<forall>v\<in>set vs. tame_value v)"
| "tame_value (VDict kvs) = (distinct (map fst kvs) \<and>
     (\<forall>kv\<in>set kvs. fst kv \<noteq> None \<and> \<not> path_hint (fst kv) \<and> tame_value (snd kv)))"
| "tame_value (VData kvs) = (distinct (map fst kvs) \<and> (\<forall>kv\<in>set kvs. \<not> path_hint (Some (fst kv)) \<and> tame_value (snd kv)))"
| "tame_value _ = False"

lemma rmap_list_choice: "\<exists>ys. list_all2 (\<lambda>x y. f x = Inr y \<and> Q x y) xs ys \<Longrightarrow> \<exists>ys. rmap_list f xs = Inr ys \<and> list_all2 Q xs ys"
proof -
  have "rmap_list f xs = Inr ys \<and> list_all2 Q xs ys" if "list_all2 (\<lambda>x y. f x = Inr y \<and> Q x y) xs ys" for ys
    using that by (induction xs ys rule: list_all2_induct) auto
  then show "\<exists>ys. list_all2 (\<lambda>x y. f x = Inr y \<and> Q x y) xs ys \<Longrightarrow> ?thesis" by blast
qed

lemma tame_fields:
  assumes "\<And>kv. kv \<in> set kvs \<Longrightarrow> \<not> path_hint (Some (g kv)) \<and> (\<exists>w. normalize_action E (snd kv) = Inr w \<and> tame_json w)"
    and "distinct (map g kvs)"
  shows "\<exists>ws. rmap_list (\<lambda>kv. rbind (normalize_action E (snd kv)) (\<lambda>w. Inr (g kv, w))) kvs = Inr ws \<and> tame_json (JObj ws)"
proof -
  let ?Q = "\<lambda>kv p. fst p = g kv \<and> \<not> path_hint (Some (fst p)) \<and> tame_json (snd p)"
  have "\<exists>ws. list_all2 (\<lambda>kv p. rbind (normalize_action E (snd kv)) (\<lambda>w. Inr (g kv, w)) = Inr p \<and> ?Q kv p) kvs ws"
  proof (rule list_all2_choice)
    fix kv assume "kv \<in> set kvs"
    then obtain w where "\<not> path_hint (Some (g kv))" "normalize_action E (snd kv) = Inr w" "tame_json w" using assms(1) by blast
    then show "\<exists>p. rbind (normalize_action E (snd kv)) (\<lambda>w. Inr (g kv, w)) = Inr p \<and> ?Q kv p"
      by (intro exI [of _ "(g kv, w)"]) simp
  qed
  from rmap_list_choice [OF this] obtain ws
    where ws: "rmap_list (\<lambda>kv. rbind (normalize_action E (snd kv)) (\<lambda>w. Inr (g kv, w))) kvs = Inr ws" "list_all2 ?Q kvs ws" by blast
  have "map fst ws = map g kvs" "\<forall>p\<in>set ws. \<not> path_hint (Some (fst p)) \<and> tame_json (snd p)"
    using ws(2) by (induction kvs ws rule: list_all2_induct) auto
  then show ?thesis using ws(1) assms(2) by simp
qed

lemma tame_action: "tame_value v \<Longrightarrow> \<exists>w. normalize_action E v = Inr w \<and> tame_json w"
proof (induction E v rule: normalize_action.induct)
  case (7 E vs)
  have "\<exists>ws. list_all2 (\<lambda>v w. normalize_action E v = Inr w \<and> tame_json w) vs ws"
    by (rule list_all2_choice) (use 7 in auto)
  from rmap_list_choice [OF this] obtain ws
    where "rmap_list (normalize_action E) vs = Inr ws" "list_all2 (\<lambda>v w. tame_json w) vs ws" by blast
  moreover have "\<forall>w\<in>set ws. tame_json w" using calculation(2) by (induction vs ws rule: list_all2_induct) auto
  ultimately show ?case by simp
next
  case (9 E kvs)
  have key: "fst kv = Some (key_text kv)" if "kv \<in> set kvs" for kv using 9(2) that by (auto simp: key_text_def)
  have "map fst (sort_key key_text kvs) = map Some (map key_text (sort_key key_text kvs))" using key by simp
  moreover have "distinct (map fst (sort_key key_text kvs))" using 9(2) by (simp add: distinct_sort_key)
  ultimately have "distinct (map key_text (sort_key key_text kvs))" by (metis distinct_map)
  moreover have "None \<notin> fst ` set kvs" using 9(2) by force
  moreover have "\<not> path_hint (Some (key_text kv)) \<and> (\<exists>w. normalize_action E (snd kv) = Inr w \<and> tame_json w)"
    if "kv \<in> set (sort_key key_text kvs)" for kv
    using that 9(1) [of "()" kv] 9(2) key [of kv] \<open>None \<notin> fst ` set kvs\<close> by (auto simp: ensure_def)
  ultimately have "\<exists>ws. rmap_list (\<lambda>kv. rbind (normalize_action E (snd kv)) (\<lambda>w. Inr (key_text kv, w))) (sort_key key_text kvs) = Inr ws
      \<and> tame_json (JObj ws)" by (intro tame_fields)
  then show ?case using \<open>None \<notin> fst ` set kvs\<close> by (auto simp: ensure_def)
next
  case (10 E kvs)
  have "\<exists>ws. rmap_list (\<lambda>kv. rbind (normalize_action E (snd kv)) (\<lambda>w. Inr (fst kv, w))) (sort_key fst kvs) = Inr ws
      \<and> tame_json (JObj ws)"
    by (rule tame_fields) (use 10 in \<open>auto simp: distinct_sort_key\<close>)
  then show ?case by auto
qed (auto simp: key_text_def)

lemma tame_value_of: "tame_json w \<Longrightarrow> tame_value (value_of w)"
  by (induction w) (auto simp: comp_def distinct_map inj_on_def)

lemma tame_VObj: "tame_value (VObj kvs) \<longleftrightarrow> distinct (map fst kvs) \<and> (\<forall>kv\<in>set kvs. \<not> path_hint (Some (fst kv)) \<and> tame_value (snd kv))"
proof -
  have "map fst (map (\<lambda>(k, v). (Some k, v)) kvs) = map Some (map fst kvs)" by auto
  then have "distinct (map fst (map (\<lambda>(k, v). (Some k, v)) kvs)) = distinct (map fst kvs)"
    by (simp only: distinct_map inj_on_def option.inject) simp
  then show ?thesis unfolding VObj_def tame_value.simps by auto
qed

lemma tame_digest: "reads_times E \<Longrightarrow> tame_value v \<Longrightarrow> \<exists>d. action_digest E v = Inr d"
  using tame_action [of v E] canonical_digest_tame [of E] by (fastforce simp: action_digest_def)

lemma tame_call:
  assumes "reads_times E" "tame_value payload" "eid \<noteq> []" "kind \<noteq> []"
  shows "\<exists>c. effect_call_of E p eid kind payload = Inr c"
proof -
  obtain w where w: "normalize_action E payload = Inr w" "tame_json w" using tame_action [OF assms(2)] by blast
  note d = tame_digest [OF assms(1)]
  have "\<exists>rd. effect_request_digest E p eid kind payload = Inr rd"
    unfolding effect_request_digest_def w(1) rbind.simps
    by (rule d) (use tame_value_of [OF w(2)] in \<open>simp add: tame_VObj plain_eval\<close>)
  then obtain rd where rd: "effect_request_digest E p eid kind payload = Inr rd" ..
  have "\<exists>m. mechanical_permit_digest E p eid rd = Inr m"
    unfolding mechanical_permit_digest_def by (rule d) (simp add: tame_VObj plain_eval)
  then show ?thesis using assms(3,4) rd by (auto simp: effect_call_of_def)
qed

lemma tame_result:
  assumes "reads_times E" "tame_value v"
  shows "\<exists>d. effect_result_digest E eid kind v = Inr d"
proof -
  obtain w where w: "normalize_action E v = Inr w" "tame_json w" using tame_action [OF assms(2)] by blast
  show ?thesis unfolding effect_result_digest_def w(1) rbind.simps
    by (rule tame_digest [OF assms(1)]) (use tame_value_of [OF w(2)] in \<open>simp add: tame_VObj plain_eval\<close>)
qed

section \<open>A concrete gateway\<close>

text \<open>A registry with one authority in it, at epoch 0.\<close>

lemma registered_current:
  assumes "scope_key role (opt_str prov) = Inr k" "aid \<noteq> []"
  shows "\<exists>R tr. assert_current E R aid role ''k1'' (hex64 CHR ''a'') prov = Inr tr \<and> tc_epoch tr = 0
    \<and> tc_generation tr = 1 \<and> tc_registry_generation tr = 1"
proof -
  let ?payload = "authority_payload aid role prov 1 0 ''k1'' (hex64 CHR ''a'') True"
  have plain: "plain_json (JObj ?payload)" by (simp add: authority_payload_def opt_str_def plain_eval split: option.split)
  then have ev: "plain_json (trust_event_body 1 k ''REGISTER'' TRUST_GENESIS_HEAD (JObj ?payload))"
    by (rule plain_trust_body) (simp add: MAX_SAFE_INTEGER_def)
  let ?row = "\<lparr>au_scope_key = k, au_authority_id = aid, au_role = role, au_provider_id = prov, au_generation = 1,
      au_epoch = 0, au_key_id = ''k1'', au_key_digest = hex64 CHR ''a'', au_enabled = 1\<rparr>"
  obtain R where R: "register_tx E new_registry aid role ''k1'' (hex64 CHR ''a'') prov 0 = Inr R"
    "tr_authorities R = [?row]" "tr_generation R = 1"
    using assms(1,2) by (simp add: register_tx_def trust_require_text_def trust_require_digest_def open_registry_def
      append_event_def canonical_digest_of [OF ev] canonical_text [OF plain])
  from step_current [OF step_register [OF R(1)] open_registry_ok _ assms(1), of ?row aid "''k1''" "hex64 CHR ''a''"]
  obtain tr where tr: "assert_current E R aid role ''k1'' (hex64 CHR ''a'') prov = Inr tr"
    using R(2) assms(1,2) by (auto simp: row_of_Cons asked_def)
  have "tc_epoch tr = 0" "tc_generation tr = 1" "tc_registry_generation tr = 1"
    using assert_current_Inr [OF tr] R(2,3) assms(1) by (auto simp: row_of_Cons)
  then show ?thesis using tr by blast
qed


text \<open>An environment whose clock text is always one instant.\<close>

definition gate_env :: py_env where
  "gate_env = demo_env\<lparr>fromisoformat := (\<lambda>_. Iso_utc
     \<lparr>t_year = 2026, t_month = 1, t_day = 1, t_hour = 0, t_minute = 5, t_second = 0, t_micro = 0\<rparr>)\<rparr>"

lemma gate_env_facts: "reads_times gate_env" "iso_stable gate_env"
  by (simp_all add: gate_env_def reads_times_def iso_stable_def)

definition set_flag :: "bool \<Rightarrow> py_value option \<times> bool" where
  "set_flag w = (Some (VStr ''done''), True)"

text \<open>The lifecycle of a gateway, with an empty fence, and a permit of it.\<close>

lemma gate_lifecycle:
  obtains L sp p where "implements gate_env L sp" "lf_audit L = None" "lf_fence L = Some []" "lf_project_id L = ''vera''"
    "validate_action_permit gate_env (hex64 CHR ''b'') p L = Inr p"
proof -
  obtain L c where c: "implements gate_env L \<lparr>sp_history = [c], sp_accepted = Some c, sp_events = []\<rparr>"
    "cp_generation c = 1" "cp_memory_head_digest c = hex64 CHR ''a''"
    "cp_control_source_digest c = hex64 CHR ''b''" "same_stores demo_start L"
    by (rule demo_accepted [of gate_env])
  obtain p where p: "validate_action_permit gate_env (hex64 CHR ''b'') p L = Inr p"
    by (rule demo_permit [OF c(5,1) _ _ c(2-4)]) simp_all
  have a: "lf_audit L = None" "lf_project_id L = ''vera''" using c(5) by (simp_all add: same_stores_def demo_start_def)
  let ?L = "L\<lparr>lf_fence := Some []\<rparr>"
  have "validate_action_permit gate_env (hex64 CHR ''b'') p ?L = Inr p"
    using p permit_any_fence [OF c(1) a(1)] by simp
  moreover have "implements gate_env ?L \<lparr>sp_history = [c], sp_accepted = Some c, sp_events = []\<rparr>"
    by (rule implements_any_fence [OF c(1)])
  ultimately show thesis by (intro that [of ?L]) (use a in simp_all)
qed

definition gate_of :: "lifecycle \<Rightarrow> registry \<Rightarrow> (unit, unit, bool) gateway" where
  "gate_of L R = \<lparr>gw_lifecycle = L, gw_trust = Some R, gw_pc = (), gw_providers = (), gw_world = False\<rparr>"

text \<open>What such a gateway does with an authorized effect.\<close>

lemma gate_performs:
  assumes "implements gate_env L sp" "lf_audit L = None" "lf_fence L = Some []"
    and "validate_action_permit gate_env (hex64 CHR ''b'') p L = Inr p"
    and "quiet verify" "fst (verify (gate_of L R)) = Inr ev" "digest_check (av_digest ev) = Inr d"
    and "effect_call_of gate_env p eid kind payload = Inr c"
  shows "\<exists>x tr. dispatch_verified gate_env (hex64 CHR ''b'') p eid kind payload verify set_flag (gate_of L R) = (Inr x, tr)
    \<and> ef_value x = VStr ''done'' \<and> gw_world (left_at (gate_of L R) tr) \<and> gate_fence (left_at (gate_of L R) tr) = Some [ef_receipt x]
    \<and> er_state (ef_receipt x) = COMMITTED"
proof -
  obtain h where h: "effect_result_digest gate_env eid kind (VStr ''done'') = Inr h"
    using tame_result [OF gate_env_facts(1), of "VStr ''done''"] by auto
  have s: "implements gate_env (gw_lifecycle (gate_of L R)) sp" "gate_audit (gate_of L R) = None" "gate_fence (gate_of L R) = Some []"
    "assert_clear [] = Inr ()" "effect_row eid [] = None"
    "validate_action_permit gate_env (hex64 CHR ''b'') p (gw_lifecycle (gate_of L R)) = Inr p"
    "set_flag (gw_world (gate_of L R)) = (Some (VStr ''done''), True)"
    using assms(1-4) by (simp_all add: gate_of_def gate_audit_def gate_fence_def set_flag_def assert_clear_iff)
  from new_effect_commits [where s = "gate_of L R" and execute = set_flag, OF s(1-6) assms(5-8) s(7) h]
  show ?thesis by fastforce
qed

lemma gate_of_simps [simp]:
  "gw_lifecycle (gate_of L R) = L" "gw_trust (gate_of L R) = Some R" "gw_pc (gate_of L R) = ()"
  "gw_providers (gate_of L R) = ()" "gw_world (gate_of L R) = False"
  by (simp_all add: gate_of_def)

lemma tame_receipt:
  "tc_epoch tr = 0 \<Longrightarrow> tc_generation tr = 1 \<Longrightarrow> tc_registry_generation tr = 1 \<Longrightarrow> tame_value (receipt_value tr)"
  by (simp add: receipt_value_def opt_value_def plain_eval split: option.split)

lemma tame_dependency [simp]: "tame_value (dependency_value None)"
  by (simp add: dependency_value_def)

subsection \<open>A provider effect\<close>

definition demo_provider :: "unit provider_verifier" where
  "demo_provider = \<lparr>pv_provider_id = ''prov'', pv_authority_id = ''auth'', pv_key_id = ''k1'', pv_key_digest = hex64 CHR ''a'',
     pv_verify = (\<lambda>v _ _. (True, v))\<rparr>"

definition demo_envelope :: provider_envelope where
  "demo_envelope = \<lparr>pe_schema = PROVIDER_AUTHORITY_SCHEMA, pe_issuer_id = ''auth'', pe_provider_id = ''prov'', pe_operation = ''send'',
     pe_subject = ''s'', pe_token = ''t''\<rparr>"

abbreviation demo_provider_dispatch ::
  "permit \<Rightarrow> string \<Rightarrow> (unit, unit, bool, effect_result) gate_action" where
  "demo_provider_dispatch p eid \<equiv> dispatch_provider_effect gate_env (hex64 CHR ''b'') [(''prov'', demo_provider)] p eid
     ''prov'' ''send'' VNone demo_envelope None set_flag"

lemma provider_example:
  assumes "implements gate_env L sp" "lf_audit L = None" "lf_fence L = Some []"
    and "validate_action_permit gate_env (hex64 CHR ''b'') p L = Inr p"
    and "assert_current gate_env R ''auth'' ''PROVIDER'' ''k1'' (hex64 CHR ''a'') (Some ''prov'') = Inr tr"
    and "tc_epoch tr = 0" "tc_generation tr = 1" "tc_registry_generation tr = 1"
  shows "\<exists>x tr. demo_provider_dispatch p ''e1'' (gate_of L R) = (Inr x, tr) \<and> ef_value x = VStr ''done''
    \<and> gw_world (left_at (gate_of L R) tr) \<and> gate_fence (left_at (gate_of L R) tr) = Some [ef_receipt x]
    \<and> er_state (ef_receipt x) = COMMITTED"
proof -
  note digest = tame_digest [OF gate_env_facts(1)]
  have "\<exists>d. provider_request_digest gate_env ''prov'' ''send'' VNone = Inr d"
    using digest [of "VObj [(''schema'', VStr ''VERA_MONO_PROVIDER_REQUEST_V1''), (''provider_id'', VStr ''prov''),
      (''operation'', VStr ''send''), (''request_payload'', VNone)]"]
    by (auto simp: provider_request_digest_def tame_VObj plain_eval)
  then obtain d where d: "provider_request_digest gate_env ''prov'' ''send'' VNone = Inr d" ..
  have "\<exists>b. provider_authority_subject gate_env ''e1'' ''prov'' ''send'' d (pm_permit_digest p) = Inr b"
    by (simp add: provider_authority_subject_def subject_of_def canonical_digest_of plain_eval)
  then obtain subject where subject: "provider_authority_subject gate_env ''e1'' ''prov'' ''send'' d (pm_permit_digest p) = Inr subject" ..
  have "\<exists>ev. provider_evidence gate_env demo_provider p ''prov'' ''send'' d demo_envelope tr None = Inr ev \<and>
      digest_check (av_digest ev) = Inr (av_digest ev)"
    using digest [of "VObj [(''schema'', VStr ''VERA_MONO_PROVIDER_VERIFIED_AUTHORITY_EVIDENCE_V1''),
         (''provider_request_digest'', VStr d), (''authority'', envelope_value demo_envelope),
         (''authority_currentness'', receipt_value tr), (''lifecycle_permit_digest'', VStr (pm_permit_digest p)),
         (''task_dependency'', dependency_value None)]"] tame_receipt [OF assms(6-8)] action_digest_hex
    by (fastforce simp: provider_evidence_def tame_VObj envelope_value_def plain_eval)
  then obtain ev where ev: "provider_evidence gate_env demo_provider p ''prov'' ''send'' d demo_envelope tr None = Inr ev"
    "digest_check (av_digest ev) = Inr (av_digest ev)" by blast
  let ?verify = "verify_provider_authority gate_env demo_provider p ''e1'' ''prov'' ''send'' d demo_envelope None
    :: (unit, unit, bool, authority_evidence) gate_action"
  have verified: "fst (?verify (gate_of L R)) = Inr ev"
    using subject assms(5) ev(1)
    by (simp add: verify_provider_authority_def provider_admitted_def act_bind_def act_read_def ask_provider_verifier_def act_tx_def
        demo_provider_def demo_envelope_def)
  have payload: "tame_value (provider_request d VNone demo_envelope)" by (simp add: provider_request_def tame_VObj plain_eval)
  obtain c where c: "effect_call_of gate_env p ''provider:prov:e1'' ''PROVIDER/prov/send'' (provider_request d VNone demo_envelope) = Inr c"
    using tame_call [OF gate_env_facts(1) payload, of "''provider:prov:e1''" "''PROVIDER/prov/send''" p] by auto
  have checks: "provider_checks gate_env [(''prov'', demo_provider)] ''e1'' ''prov'' ''send'' VNone None = Inr (demo_provider, d)"
    using d by (simp add: provider_checks_def check_dependency_def)
  show ?thesis
    using gate_performs [OF assms(1-4) quiet_provider verified ev(2) c] checks
    by (simp add: dispatch_provider_effect_def act_bind_def act_read_def split: prod.splits)
qed

lemma provider_registry:
  obtains R tr where "assert_current gate_env R ''auth'' ''PROVIDER'' ''k1'' (hex64 CHR ''a'') (Some ''prov'') = Inr tr"
    "tc_epoch tr = 0" "tc_generation tr = 1" "tc_registry_generation tr = 1"
proof -
  have "scope_key ''PROVIDER'' (opt_str (Some ''prov'')) = Inr ''PROVIDER:prov''"
    by (simp add: scope_key_def trust_require_text_def TRUST_ROLES_def opt_str_def)
  from registered_current [OF this, of "''auth''" gate_env] show thesis by (auto intro: that)
qed

theorem provider_effect_runs_authorized_witness:
  "\<exists>p t s. t \<in> crash_points (demo_provider_dispatch p ''e1'') s \<and> gw_world t \<noteq> gw_world s
     \<and> validate_action_permit gate_env (hex64 CHR ''b'') p (gw_lifecycle s) = Inr p"
proof -
  obtain L sp p where L: "implements gate_env L sp" "lf_audit L = None" "lf_fence L = Some []"
    "validate_action_permit gate_env (hex64 CHR ''b'') p L = Inr p" by (rule gate_lifecycle) blast
  obtain R tr where R: "assert_current gate_env R ''auth'' ''PROVIDER'' ''k1'' (hex64 CHR ''a'') (Some ''prov'') = Inr tr"
    "tc_epoch tr = 0" "tc_generation tr = 1" "tc_registry_generation tr = 1" by (rule provider_registry)
  obtain x steps where x: "demo_provider_dispatch p ''e1'' (gate_of L R) = (Inr x, steps)" "gw_world (left_at (gate_of L R) steps)"
    using provider_example [OF L R] by blast
  have t: "left_at (gate_of L R) steps \<in> crash_points (demo_provider_dispatch p ''e1'') (gate_of L R)"
    using left_at_crash_point [of "gate_of L R" "demo_provider_dispatch p ''e1''"] x(1) by simp
  have "gw_world (left_at (gate_of L R) steps) \<noteq> gw_world (gate_of L R)" using x(2) by simp
  with provider_effect_runs_authorized [OF t this] t show ?thesis by blast
qed

subsection \<open>A PC job\<close>

definition demo_pc_verifier :: "unit pc_verifier" where
  "demo_pc_verifier = \<lparr>rv_authority_id = ''issuer-1'', rv_key_id = ''k1'', rv_key_digest = hex64 CHR ''a'',
     rv_verify = (\<lambda>v _ _. (True, v))\<rparr>"

definition demo_pc_proof :: authority_proof where
  "demo_pc_proof = \<lparr>ap_schema = PC_AUTHORITY_PROOF_SCHEMA, ap_issuer_id = ''issuer-1'', ap_subject = ''s'', ap_token = ''t''\<rparr>"

definition demo_now :: utc_time where
  "demo_now = \<lparr>t_year = 2026, t_month = 1, t_day = 1, t_hour = 0, t_minute = 5, t_second = 0, t_micro = 0\<rparr>"

abbreviation demo_pc_dispatch :: "permit \<Rightarrow> (unit, unit, bool, effect_result) gate_action" where
  "demo_pc_dispatch p \<equiv> dispatch_pc_job gate_env (hex64 CHR ''b'') (Some demo_pc_verifier) p demo_job demo_authorization
     demo_pc_proof (Some demo_now) None set_flag"

lemma demo_digests:
  "\<exists>h. job_digest E demo_job = Inr h" "\<exists>h. authorization_digest E demo_authorization = Inr h"
  unfolding job_digest_def authorization_digest_def demo_envelopes rbind.simps domain_digest_iff
  by (simp_all add: JOB_DOMAIN_def AUTHORIZATION_DOMAIN_def line_feed_def carriage_return_def char_of_def)

lemma demo_binding: "validate_binding demo_job demo_authorization = Inr ()"
  by (simp add: validate_binding_def demo_envelopes)
    (simp add: check_bound_iff bound_fields_def demo_job_def demo_authorization_def)

lemma demo_windows: "pc_windows demo_job demo_authorization demo_now = Inr ()"
  by (simp add: pc_windows_def demo_job_def demo_authorization_def demo_times in_window_def utc_micros_def utc_ordinal_def demo_now_def)

lemma tame_job: "tame_value (fields_value (job_fields demo_job))" "tame_value (fields_value (authorization_fields demo_authorization))"
  by (simp_all add: fields_value_def job_fields_def authorization_fields_def demo_job_def demo_authorization_def plain_eval)

lemma pc_example:
  assumes "implements gate_env L sp" "lf_audit L = None" "lf_fence L = Some []" "lf_project_id L = ''vera''"
    and "validate_action_permit gate_env (hex64 CHR ''b'') p L = Inr p"
    and "assert_current gate_env R ''issuer-1'' ''PC'' ''k1'' (hex64 CHR ''a'') None = Inr tr"
    and "tc_epoch tr = 0" "tc_generation tr = 1" "tc_registry_generation tr = 1"
  shows "\<exists>x tr. demo_pc_dispatch p (gate_of L R) = (Inr x, tr) \<and> gw_world (left_at (gate_of L R) tr)"
proof -
  note digest = tame_digest [OF gate_env_facts(1)]
  obtain jd ad where jd: "job_digest gate_env demo_job = Inr jd" "authorization_digest gate_env demo_authorization = Inr ad"
    using demo_digests by blast
  have "\<exists>b. pc_subject gate_env p demo_job demo_authorization = Inr b"
    by (simp add: pc_subject_def jd pc_authority_subject_def subject_of_def canonical_digest_of plain_eval)
  then obtain subject where subject: "pc_subject gate_env p demo_job demo_authorization = Inr subject" ..
  let ?body = "VObj [(''schema'', VStr ''VERA_MONO_PC_VERIFIED_AUTHORITY_EVIDENCE_V1''),
         (''job_digest'', VStr jd), (''authorization_digest'', VStr ad), (''authority_proof'', proof_value demo_pc_proof),
         (''authority_currentness'', receipt_value tr), (''lifecycle_permit_digest'', VStr (pm_permit_digest p)),
         (''task_dependency'', dependency_value None)]"
  have "tame_value ?body" using tame_receipt [OF assms(7-9)] by (simp add: tame_VObj proof_value_def plain_eval)
  then obtain d where d: "action_digest gate_env ?body = Inr d" using digest by blast
  then obtain ev where ev: "pc_evidence gate_env demo_pc_verifier p demo_job demo_authorization demo_pc_proof tr None = Inr ev"
    "digest_check (av_digest ev) = Inr (av_digest ev)"
    using action_digest_hex [OF d] by (simp add: pc_evidence_def jd)
  let ?verify = "verify_pc_authority gate_env demo_pc_verifier p demo_job demo_authorization demo_pc_proof (Some demo_now) None
    :: (unit, unit, bool, authority_evidence) gate_action"
  have a: "az_issuer_id demo_authorization = ''issuer-1''" "az_issuer_revocation_epoch demo_authorization = 0"
    by (simp_all add: demo_authorization_def)
  have verified: "fst (?verify (gate_of L R)) = Inr ev"
    using subject assms(6,7) ev(1) a demo_binding demo_windows
    by (simp add: verify_pc_authority_def pc_admitted_def act_bind_def act_read_def ask_pc_verifier_def act_tx_def
        demo_pc_verifier_def demo_pc_proof_def)
  obtain payload where payload: "pc_request gate_env demo_job demo_authorization demo_pc_proof = Inr payload" "tame_value payload"
    using tame_job by (auto simp: pc_request_def jd tame_VObj plain_eval)
  let ?eid = "''pc:'' @ jb_envelope_id demo_job" and ?kind = "''PC/'' @ jb_operation_id demo_job"
  obtain c where c: "effect_call_of gate_env p ?eid ?kind payload = Inr c"
    using tame_call [OF gate_env_facts(1) payload(2), of ?eid ?kind p] by auto
  have checks: "pc_job_checks (Some demo_pc_verifier) demo_job demo_authorization None (gate_of L R) = Inr demo_pc_verifier"
    using assms(4) by (simp add: pc_job_checks_def demo_envelopes check_dependency_def) (simp add: demo_job_def)
  show ?thesis
    using gate_performs [OF assms(1-3,5) quiet_pc verified ev(2) c] checks payload(1)
    by (simp add: dispatch_pc_job_def act_bind_def act_read_def split: prod.splits) blast
qed

theorem pc_job_runs_authorized_witness:
  "\<exists>p t s. t \<in> crash_points (demo_pc_dispatch p) s \<and> gw_world t \<noteq> gw_world s
     \<and> validate_action_permit gate_env (hex64 CHR ''b'') p (gw_lifecycle s) = Inr p"
proof -
  obtain L sp p where L: "implements gate_env L sp" "lf_audit L = None" "lf_fence L = Some []" "lf_project_id L = ''vera''"
    "validate_action_permit gate_env (hex64 CHR ''b'') p L = Inr p" by (rule gate_lifecycle)
  have "scope_key ''PC'' (opt_str None) = Inr ''PC''"
    by (simp add: scope_key_def trust_require_text_def TRUST_ROLES_def opt_str_def)
  from registered_current [OF this, of "''issuer-1''" gate_env]
  obtain R tr where R: "assert_current gate_env R ''issuer-1'' ''PC'' ''k1'' (hex64 CHR ''a'') None = Inr tr"
    "tc_epoch tr = 0" "tc_generation tr = 1" "tc_registry_generation tr = 1" by auto
  obtain x steps where x: "demo_pc_dispatch p (gate_of L R) = (Inr x, steps)" "gw_world (left_at (gate_of L R) steps)"
    using pc_example [OF L R] by blast
  have t: "left_at (gate_of L R) steps \<in> crash_points (demo_pc_dispatch p) (gate_of L R)"
    using left_at_crash_point [of "gate_of L R" "demo_pc_dispatch p"] x(1) by simp
  have "gw_world (left_at (gate_of L R) steps) \<noteq> gw_world (gate_of L R)" using x(2) by simp
  with pc_job_runs_authorized [OF t this] t show ?thesis by blast
qed

subsection \<open>One effect twice\<close>

definition demo_evidence :: authority_evidence where
  "demo_evidence = \<lparr>av_digest = hex64 CHR ''e'', av_details = []\<rparr>"

abbreviation demo_dispatch :: "permit \<Rightarrow> (unit, unit, bool, effect_result) gate_action" where
  "demo_dispatch p \<equiv> dispatch_verified gate_env (hex64 CHR ''b'') p ''e1'' ''DEMO'' VNone (act_read (\<lambda>_. Inr demo_evidence)) set_flag"

lemma demo_effect_call: "\<exists>c. effect_call_of gate_env p ''e1'' ''DEMO'' VNone = Inr c"
  by (rule tame_call [OF gate_env_facts(1)]) simp_all

lemma demo_evidence_digest: "digest_check (av_digest demo_evidence) = Inr (hex64 CHR ''e'')"
  by (simp add: demo_evidence_def)

theorem authorized_effect_commits_witness:
  "\<exists>p s x tr. demo_dispatch p s = (Inr x, tr) \<and> ef_value x = VStr ''done'' \<and> gw_world (left_at s tr)
     \<and> gate_fence (left_at s tr) = Some [ef_receipt x] \<and> er_state (ef_receipt x) = COMMITTED"
proof -
  obtain L sp p where L: "implements gate_env L sp" "lf_audit L = None" "lf_fence L = Some []"
    "validate_action_permit gate_env (hex64 CHR ''b'') p L = Inr p" by (rule gate_lifecycle) blast
  obtain c where c: "effect_call_of gate_env p ''e1'' ''DEMO'' VNone = Inr c" using demo_effect_call by blast
  obtain h where h: "effect_result_digest gate_env ''e1'' ''DEMO'' (VStr ''done'') = Inr h"
    using tame_result [OF gate_env_facts(1), of "VStr ''done''"] by auto
  have s: "implements gate_env (gw_lifecycle (gate_of L R)) sp" "gate_audit (gate_of L R) = None" "gate_fence (gate_of L R) = Some []"
    "validate_action_permit gate_env (hex64 CHR ''b'') p (gw_lifecycle (gate_of L R)) = Inr p"
    "set_flag (gw_world (gate_of L R)) = (Some (VStr ''done''), True)" for R
    using L by (simp_all add: gate_audit_def gate_fence_def set_flag_def)
  have "assert_clear [] = Inr ()" "effect_row ''e1'' [] = None" by (simp_all add: assert_clear_iff)
  from authorized_effect_commits [where verify = "act_read (\<lambda>_. Inr demo_evidence)" and execute = set_flag,
      OF s(1-3) this s(4) quiet_read _ demo_evidence_digest c s(5) h]
  show ?thesis by (fastforce simp: act_read_def)
qed

theorem effect_runs_once_witness:
  "\<exists>p s t F. t \<in> crash_points (demo_dispatch p) s \<and> gw_world t \<noteq> gw_world s \<and> gate_fence t = Some F \<and>
     (\<forall>w. \<forall>u\<in>crash_points (demo_dispatch p) (t\<lparr>gw_world := w\<rparr>). gw_world u = w)"
proof -
  obtain L sp p where L: "implements gate_env L sp" "lf_audit L = None" "lf_fence L = Some []"
    "validate_action_permit gate_env (hex64 CHR ''b'') p L = Inr p" by (rule gate_lifecycle) blast
  obtain c where c: "effect_call_of gate_env p ''e1'' ''DEMO'' VNone = Inr c" using demo_effect_call by blast
  fix R
  let ?s = "gate_of L R"
  have given: "fst (act_read (\<lambda>_. Inr demo_evidence :: (action_error, authority_evidence) result) ?s) = Inr demo_evidence"
    by (simp add: act_read_def)
  from gate_performs [OF L quiet_read given demo_evidence_digest c]
  obtain x tr where x: "demo_dispatch p ?s = (Inr x, tr)" "gw_world (left_at ?s tr)" "gate_fence (left_at ?s tr) = Some [ef_receipt x]"
    by blast
  let ?t = "left_at ?s tr"
  have t: "?t \<in> crash_points (demo_dispatch p) ?s" using left_at_crash_point [of ?s "demo_dispatch p"] x(1) by simp
  have changed: "gw_world ?t \<noteq> gw_world ?s" using x(2) by simp
  have "gw_world u = w" if "u \<in> crash_points (demo_dispatch p) (?t\<lparr>gw_world := w\<rparr>)" for u w
    using effect_runs_once [OF quiet_read t changed x(3) runs_nil _ quiet_read that] x(3) by simp
  then show ?thesis using t changed x(3) by blast
qed

subsection \<open>A gateway with a ledger\<close>

lemma tame_permit:
  assumes "validate_action_permit E control p L = Inr p"
  shows "tame_json (permit_json p)"
proof -
  have "\<exists>d. canonical_digest E (JObj (permit_body p)) = Inr d"
    using assms by (auto simp: validate_action_permit_def permit_digest_def result_simps)
  then have "\<bar>pm_checkpoint_generation p\<bar> \<le> MAX_SAFE_INTEGER" "\<bar>pm_currentness_generation p\<bar> \<le> MAX_SAFE_INTEGER"
    using canonical_digest_int by (fastforce simp: permit_body_def)+
  then show ?thesis by (simp add: permit_json_def permit_body_def plain_eval)
qed

lemma empty_in_step: "in_step E (open_audit [] None) []"
proof -
  have "ok (verify_fence_consistency E (open_audit [] None) [] [])"
    unfolding consistency_verified(1) [OF open_audit_verified] by (simp add: open_audit_def)
  then show ?thesis by (simp add: in_step_def fence_ok_def distinct_keys_def)
qed

lemma audited_lifecycle:
  obtains L p where "lf_fence L = Some []" "lf_audit L = Some (open_audit [] None)"
    "validate_action_permit gate_env (hex64 CHR ''b'') p L = Inr p"
proof -
  obtain L c where c: "implements gate_env L \<lparr>sp_history = [c], sp_accepted = Some c, sp_events = []\<rparr>"
    "cp_generation c = 1" "cp_memory_head_digest c = hex64 CHR ''a''"
    "cp_control_source_digest c = hex64 CHR ''b''" "same_stores demo_start L"
    by (rule demo_accepted [of gate_env])
  let ?L = "L\<lparr>lf_fence := Some [], lf_audit := Some (open_audit [] None)\<rparr>"
  obtain p where p: "validate_action_permit gate_env (hex64 CHR ''b'') p L = Inr p"
    by (rule demo_permit [OF c(5,1) _ _ c(2-4)]) simp_all
  have "assert_outbound_integrity gate_env ?L = Inr ()"
    using empty_in_step [of gate_env] by (auto simp: assert_outbound_integrity_def in_step_def)
  then have "validate_action_permit gate_env (hex64 CHR ''b'') p ?L = Inr p"
    using p unfolding permit_valid_iff [OF implements_any_ledger [OF c(1)]] permit_valid_iff [OF c(1)]
    by (simp add: expected_permit_def)
  then show thesis by (intro that [of ?L]) simp_all
qed

text \<open>The first transaction of its first dispatch files the authority event.\<close>

lemma first_event:
  assumes "call_ok c" "tame_json (permit_json (ec_permit c))" "ec_effect_id c \<noteq> []" "ec_effect_kind c \<noteq> []"
  shows "\<exists>ev A. audit_append gate_env (open_audit [] None) (ec_effect_id c) (ec_effect_kind c) ''AUTHORITY_VERIFIED''
    (verified_payload c d (JObj [])) = Inr (ev, A)"
proof -
  have tame: "tame_json (JObj (verified_payload c d (JObj [])))" using assms(2) by (simp add: verified_payload_def plain_eval)
  then have "tame_json (audit_body 1 (ec_effect_id c) (ec_effect_kind c) ''AUTHORITY_VERIFIED'' h (JObj (verified_payload c d (JObj []))))" for h
    by (simp add: audit_body_def plain_eval)
  note body = canonical_digest_tame [OF gate_env_facts(1) this]
  obtain w where "normalize_value gate_env None (JObj (verified_payload c d (JObj []))) = Inr w"
    using tame_normalizes [OF gate_env_facts(1) tame, of None] by (auto simp: path_hint_def simp del: normalize_value.simps)
  then have "canonical_json gate_env (JObj (verified_payload c d (JObj []))) = Inr (json_text w)"
    by (simp add: canonical_json_def del: normalize_value.simps)
  moreover obtain h where "canonical_digest gate_env (audit_body 1 (ec_effect_id c) (ec_effect_kind c) ''AUTHORITY_VERIFIED''
      AUDIT_GENESIS (JObj (verified_payload c d (JObj [])))) = Inr h" using body by blast
  ultimately show ?thesis using assms(3,4)
    by (simp add: audit_append_def open_audit_def find_audit_def EVENT_TYPES_def Let_def)
qed

theorem dispatch_keeps_audit_witness:
  "\<exists>p s t. t \<in> crash_points (demo_dispatch p) s \<and> gate_audit t \<noteq> gate_audit s \<and>
     (\<forall>u\<in>crash_points (demo_dispatch p) s. recoverable gate_env u)"
proof -
  obtain L p where L: "lf_fence L = Some []" "lf_audit L = Some (open_audit [] None)"
    "validate_action_permit gate_env (hex64 CHR ''b'') p L = Inr p" by (rule audited_lifecycle)
  fix R
  let ?s = "gate_of L R"
  have g: "gate_fence ?s = Some []" "gate_audit ?s = Some (open_audit [] None)" using L by (simp_all add: gate_fence_def gate_audit_def)
  have rec: "recoverable gate_env ?s" using g in_step_trails [OF empty_in_step] by (auto simp: recoverable_def)
  have named: "\<forall>A. gate_audit ?s = Some A \<longrightarrow> named_as A ''e1'' ''DEMO''" using g by (simp add: named_as_def open_audit_def)
  obtain c where c: "effect_call_of gate_env p ''e1'' ''DEMO'' VNone = Inr c" using demo_effect_call by blast
  note f = effect_call_fields [OF c]
  have call: "call_ok c" using f permit_hex [OF L(3)] by (simp add: call_ok_def)
  obtain ev A where A: "audit_append gate_env (open_audit [] None) (ec_effect_id c) (ec_effect_kind c) ''AUTHORITY_VERIFIED''
      (verified_payload c (hex64 CHR ''e'') (JObj [])) = Inr (ev, A)"
    using first_event [OF call, of "hex64 CHR ''e''"] tame_permit [OF L(3)] f by auto
  have "authority_note gate_env c (hex64 CHR ''e'') [] ?s = (Inr (), [put_audit A ?s])"
    using g A by (simp add: authority_note_def act_tx_def normalize_VObj)
  then have filed: "put_audit A ?s \<in> crash_points (act_bind (authority_note gate_env c (hex64 CHR ''e'') []) m) ?s"
    for m :: "unit \<Rightarrow> (unit, unit, bool, effect_result) gate_action"
    by (simp add: crash_points_def act_bind_def split: prod.split)
  have clear: "assert_clear [] = Inr ()" by (simp add: assert_clear_iff)
  have t: "put_audit A ?s \<in> crash_points (demo_dispatch p) ?s"
    unfolding dispatch_verified_def dispatch_locked_def check_clear_def check_permit_def dispatch_authorized_def read_crash_points
    using c f(1) g L(3) filed by (simp add: clear demo_evidence_def)
  have "au_rows A \<noteq> []" using A by (auto simp: audit_append_def open_audit_def find_audit_def result_simps Let_def)
  then have "gate_audit (put_audit A ?s) \<noteq> gate_audit ?s" using g by (auto simp: open_audit_def)
  with t dispatch_keeps_audit [OF rec gate_env_facts(2) quiet_read named] show ?thesis by blast
qed

end
