(* ===== verification/Coordination_Gate.thy ===== *)
theory Coordination_Gate
  imports Gate_Contract Command_Guarantees
begin

text \<open>
  \<^verbatim>\<open>vera_core.action_gate\<close>: \<^verbatim>\<open>LifecycleBoundCoordinationBus\<close>, the
  lifecycle-gated facade over the coordination commands. The state is that of its gateway (the
  bus keeps its events in the outside world) with the command journal it may have. The bus is
  an argument: the methods it has and the \<^verbatim>\<open>get\<close> of its repository.
\<close>

record actor_context =
  ax_workstream :: "string option"
  ax_permissions :: "string list"

record command_args =
  ca_args :: "py_value list"
  ca_kwargs :: "(string \<times> py_value) list"

text \<open>A method changes the world and returns a value or raises (\<open>None\<close>).\<close>

type_synonym 'w bus_method = "actor_context \<Rightarrow> command_args \<Rightarrow> 'w \<Rightarrow> py_value option \<times> 'w"

record 'w command_bus =
  bs_method :: "string \<Rightarrow> 'w bus_method option"
  bs_get :: "('w \<Rightarrow> string \<Rightarrow> (string \<times> int) option) option"

datatype coordination_rule =
    Unsupported_command string
  | Command_not_implemented string
  | Command_raised
  | Missing_command_id
  | Command_dependency_mismatch
  | Request_diverged
  | No_receipted_result
  | Receipt_unreadable
  | Recovery_needs_journal
  | Not_reserved
  | Reservation_unaudited

datatype coordination_error =
    Coordination_rule coordination_rule
  | Coordination_gate action_error
  | Coordination_value value_error
  | Coordination_journal command_error

record ('v, 'p, 'w) coordination =
  cx_gateway :: "('v, 'p, 'w) gateway"
  cx_journal :: "command_journal option"

type_synonym ('v, 'p, 'w, 'a) coordination_action = "(('v, 'p, 'w) coordination, coordination_error, 'a) action"

definition READ_COMMANDS :: "string set" where
  "READ_COMMANDS = {''coordination_read_inbox'', ''entry_checkpoint''}"

definition WRITE_COMMANDS :: "string set" where
  "WRITE_COMMANDS = {''coordination_post'', ''coordination_acknowledge'', ''coordination_publish_status'',
     ''coordination_request_review'', ''coordination_resolve_thread'', ''exit_checkpoint''}"

definition COMMANDS :: "string set" where
  "COMMANDS = READ_COMMANDS \<union> WRITE_COMMANDS"

text \<open>An action of the gateway, and a transaction of the journal if there is one.\<close>

definition in_gateway :: "('v, 'p, 'w, 'a) gate_action \<Rightarrow> ('v, 'p, 'w, 'a) coordination_action" where
  "in_gateway m s =
     (case m (cx_gateway s) of (res, tr) \<Rightarrow> (map_err Coordination_gate res, map (\<lambda>g. s\<lparr>cx_gateway := g\<rparr>) tr))"

definition journal_tx ::
  "(command_journal \<Rightarrow> (coordination_error, command_journal) result) \<Rightarrow> ('v, 'p, 'w, unit) coordination_action" where
  "journal_tx f =
     act_tx (\<lambda>s. case cx_journal s of
         None \<Rightarrow> Inr ((), s)
       | Some J \<Rightarrow> rbind (f J) (\<lambda>J'. Inr ((), s\<lparr>cx_journal := Some J'\<rparr>)))"

section \<open>Invocation\<close>

definition workstream_text :: "actor_context \<Rightarrow> string" where
  "workstream_text a = (case ax_workstream a of None \<Rightarrow> ''None'' | Some w \<Rightarrow> w)"

definition actor_binding :: "actor_context \<Rightarrow> py_value" where
  "actor_binding a =
     VObj [(''workstream'', opt_value (ax_workstream a)), (''permissions'', VList (map VStr (sort (ax_permissions a))))]"

text \<open>The local variables of \<^verbatim>\<open>invoke\<close> before the journal is told.\<close>

record command_call =
  cl_effect_id :: string
  cl_effect_kind :: string
  cl_payload :: py_value
  cl_request :: string
  cl_invocation :: string
  cl_evidence :: authority_evidence

definition command_dependency :: "string \<Rightarrow> task_dependency option \<Rightarrow> (coordination_error, unit) result" where
  "command_dependency command_id d =
     (case d of None \<Rightarrow> Inr ()
      | Some t \<Rightarrow> ensure (td_kind t = ''COORDINATION_COMMAND'' \<and> td_target_id t = command_id)
                    (Coordination_rule Command_dependency_mismatch))"

definition authority_binding_digest ::
  "py_env \<Rightarrow> string \<Rightarrow> actor_context \<Rightarrow> task_dependency option \<Rightarrow> (value_error, string) result" where
  "authority_binding_digest E command actor dep =
     action_digest E (VObj [(''schema'', VStr ''VERA_MONO_COORDINATION_AUTHORITY_BINDING_V1''),
       (''actor'', actor_binding actor), (''command'', VStr command), (''task_dependency'', dependency_value dep)])"

definition invocation_fields :: "string \<Rightarrow> actor_context \<Rightarrow> command_args \<Rightarrow> (string \<times> py_value) list" where
  "invocation_fields command actor args =
     [(''command'', VStr command), (''actor'', actor_binding actor), (''args'', VList (ca_args args)),
      (''kwargs'', VObj (ca_kwargs args))]"

definition prepare_command ::
  "py_env \<Rightarrow> permit \<Rightarrow> string \<Rightarrow> actor_context \<Rightarrow> string \<Rightarrow> command_args \<Rightarrow> task_dependency option \<Rightarrow>
     (coordination_error, command_call) result" where
  "prepare_command E p command actor command_id args dep =
     rbind (ensure (command_id \<noteq> []) (Coordination_rule Missing_command_id)) (\<lambda>_.
     rbind (command_dependency command_id dep) (\<lambda>_.
     rbind (map_err Coordination_value (authority_binding_digest E command actor dep)) (\<lambda>authority.
       let effect_id = ''coordination:'' @ command_id;
           effect_kind = ''COORDINATION/'' @ command;
           payload = VObj (invocation_fields command actor args)
       in rbind (map_err Coordination_value (effect_request_digest E p effect_id effect_kind payload)) (\<lambda>request.
          rbind (map_err Coordination_value (action_digest E
                   (VObj ((''schema'', VStr ''VERA_MONO_COORDINATION_INVOCATION_V1'') # invocation_fields command actor args))))
            (\<lambda>invocation.
              Inr \<lparr>cl_effect_id = effect_id, cl_effect_kind = effect_kind, cl_payload = payload, cl_request = request,
                   cl_invocation = invocation,
                   cl_evidence = \<lparr>av_digest = authority,
                     av_details = [(''kind'', VStr ''COORDINATION''), (''command'', VStr command),
                       (''actor'', actor_binding actor), (''task_dependency'', dependency_value dep)]\<rparr>\<rparr>)))))"

definition bind_command ::
  "py_env \<Rightarrow> permit \<Rightarrow> string \<Rightarrow> actor_context \<Rightarrow> string \<Rightarrow> command_call \<Rightarrow> ('v, 'p, 'w, unit) coordination_action" where
  "bind_command E p command actor command_id call =
     journal_tx (\<lambda>J. rbind (map_err Coordination_journal (bind E J command_id (cl_effect_id call) command
         (workstream_text actor) (pm_permit_digest p) (cl_invocation call) (cl_request call))) (\<lambda>(_, J'). Inr J'))"

text \<open>
  The receipt of a result, \<^verbatim>\<open>getattr(result.value, "receipt", None)\<close>, with the fields
  that are recorded, in the types of \<^verbatim>\<open>CoordinationReceipt\<close>.
\<close>

definition value_field :: "string \<Rightarrow> py_value \<Rightarrow> py_value option" where
  "value_field name v = (case v of VData kvs \<Rightarrow> map_of kvs name | _ \<Rightarrow> None)"

definition value_receipt :: "py_value \<Rightarrow> (coordination_error, py_value) result" where
  "value_receipt v =
     (case value_field ''receipt'' v of
        None \<Rightarrow> Inl (Coordination_rule No_receipted_result)
      | Some r \<Rightarrow> rbind (ensure (r \<noteq> VNone) (Coordination_rule No_receipted_result)) (\<lambda>_. Inr r))"

definition opt_text :: "py_value option \<Rightarrow> (coordination_error, string option) result" where
  "opt_text v =
     (case v of Some VNone \<Rightarrow> Inr None | Some (VStr s) \<Rightarrow> Inr (Some s) | _ \<Rightarrow> Inl (Coordination_rule Receipt_unreadable))"

definition opt_number :: "py_value option \<Rightarrow> (coordination_error, int option) result" where
  "opt_number v =
     (case v of Some VNone \<Rightarrow> Inr None | Some (VInt n) \<Rightarrow> Inr (Some n) | _ \<Rightarrow> Inl (Coordination_rule Receipt_unreadable))"

definition receipt_fields ::
  "py_value \<Rightarrow> (coordination_error, string \<times> bool \<times> string option \<times> int option) result" where
  "receipt_fields r =
     (case (value_field ''result_class'' r, value_field ''database_write_confirmed'' r) of
        (Some (VStr result_class), Some (VBool confirmed)) \<Rightarrow>
          rbind (opt_text (value_field ''event_id'' r)) (\<lambda>event_id.
          rbind (opt_number (value_field ''event_sequence'' r)) (\<lambda>event_sequence.
            Inr (result_class, confirmed, event_id, event_sequence)))
      | _ \<Rightarrow> Inl (Coordination_rule Receipt_unreadable))"

definition record_outcome ::
  "py_env \<Rightarrow> string \<Rightarrow> effect_result \<Rightarrow> command_journal \<Rightarrow> (coordination_error, command_journal) result" where
  "record_outcome E command_id x J =
     rbind (value_receipt (ef_value x)) (\<lambda>r.
     rbind (receipt_fields r) (\<lambda>(result_class, confirmed, event_id, event_sequence).
     rbind (map_err Coordination_journal (record_command_result E J command_id (ef_result_digest x) result_class confirmed
              event_id event_sequence)) (\<lambda>(_, J'). Inr J')))"

datatype invocation = Read_value py_value | Write_result effect_result

definition invoke_read ::
  "py_env \<Rightarrow> string \<Rightarrow> permit \<Rightarrow> 'w bus_method \<Rightarrow> actor_context \<Rightarrow> command_args \<Rightarrow> ('v, 'p, 'w, invocation) coordination_action" where
  "invoke_read E control p call actor args =
     act_bind (in_gateway (check_permit E control p)) (\<lambda>_.
     act_bind (in_gateway (run_effect (call actor args))) (\<lambda>v.
       act_read (\<lambda>_. rbind (or_raise v (Coordination_rule Command_raised)) (\<lambda>x. Inr (Read_value x)))))"

definition invoke_write ::
  "py_env \<Rightarrow> string \<Rightarrow> permit \<Rightarrow> 'w bus_method \<Rightarrow> string \<Rightarrow> actor_context \<Rightarrow> string \<Rightarrow> command_args \<Rightarrow> task_dependency option \<Rightarrow>
     ('v, 'p, 'w, invocation) coordination_action" where
  "invoke_write E control p call command actor command_id args dep =
     act_bind (act_read (\<lambda>_. prepare_command E p command actor command_id args dep)) (\<lambda>c.
     act_bind (bind_command E p command actor command_id c) (\<lambda>_.
     act_bind (in_gateway (dispatch_verified E control p (cl_effect_id c) (cl_effect_kind c) (cl_payload c)
                (act_read (\<lambda>_. Inr (cl_evidence c))) (call actor args))) (\<lambda>x.
     act_bind (act_read (\<lambda>_. ensure (ef_request_digest x = cl_request c) (Coordination_rule Request_diverged))) (\<lambda>_.
     act_bind (journal_tx (record_outcome E command_id x)) (\<lambda>_.
       act_read (\<lambda>_. Inr (Write_result x)))))))"

definition invoke ::
  "py_env \<Rightarrow> string \<Rightarrow> 'w command_bus \<Rightarrow> string \<Rightarrow> permit \<Rightarrow> actor_context \<Rightarrow> string \<Rightarrow> command_args \<Rightarrow> task_dependency option \<Rightarrow>
     ('v, 'p, 'w, invocation) coordination_action" where
  "invoke E control bus command p actor command_id args dep =
     act_bind (act_read (\<lambda>_. ensure (command \<in> COMMANDS) (Coordination_rule (Unsupported_command command)))) (\<lambda>_.
     act_bind (act_read (\<lambda>_. or_raise (bs_method bus command) (Coordination_rule (Command_not_implemented command)))) (\<lambda>call.
       if command \<in> READ_COMMANDS then invoke_read E control p call actor args
       else invoke_write E control p call command actor command_id args dep))"

section \<open>Assessment of a command\<close>

record assessment =
  am_command_id :: string
  am_effect_id :: string
  am_command :: string
  am_actor_workstream :: string
  am_request :: string
  am_result_recorded :: bool
  am_fence_state :: "effect_state option"
  am_permit_current :: "bool option"
  am_retry_allowed :: bool
  am_cancel_allowed :: bool
  am_recovery_required :: bool
  am_terminal :: bool
  am_reason :: string

text \<open>\<^verbatim>\<open>except (LifecycleActionDenied, EffectFenceError)\<close>\<close>

definition is_fence_error :: "fence_error \<Rightarrow> bool" where
  "is_fence_error e =
     (case e of Fence_key_error _ \<Rightarrow> False | Row_is_none \<Rightarrow> False | Fence_canon _ \<Rightarrow> False | Fence_json _ \<Rightarrow> False | _ \<Rightarrow> True)"

definition permit_denied :: "lifecycle_error \<Rightarrow> bool" where
  "permit_denied e =
     (case e of Audit_needs_fence \<Rightarrow> True | Denied_from _ \<Rightarrow> True | Denied_incomplete \<Rightarrow> True | Permit_schema \<Rightarrow> True
      | Permit_digest_mismatch \<Rightarrow> True | Stale_permit_field _ \<Rightarrow> True | L_fence f \<Rightarrow> is_fence_error f | _ \<Rightarrow> False)"

definition current_permit :: "py_env \<Rightarrow> string \<Rightarrow> ('v, 'p, 'w, permit option) coordination_action" where
  "current_permit E control s =
     (case accepted_action_permit E control (gw_lifecycle (cx_gateway s)) of (res, tr) \<Rightarrow>
        (case res of
           Inr p \<Rightarrow> Inr (Some p)
         | Inl e \<Rightarrow> if permit_denied e then Inr None else Inl (Coordination_gate (Gate_lifecycle e)),
         map (\<lambda>L. s\<lparr>cx_gateway := (cx_gateway s)\<lparr>gw_lifecycle := L\<rparr>\<rparr>) tr))"

definition repository_consistent :: "'w command_bus \<Rightarrow> command_result \<Rightarrow> 'w \<Rightarrow> bool" where
  "repository_consistent bus r w =
     (if co_write_confirmed r
      then (case (co_event_id r, co_event_sequence r, bs_get bus) of
              (Some event_id, Some event_sequence, Some get) \<Rightarrow> get w event_id = Some (event_id, event_sequence)
            | _ \<Rightarrow> False)
      else co_event_id r = None \<and> co_event_sequence r = None)"

definition assessed ::
  "command_binding \<Rightarrow> bool \<Rightarrow> effect_receipt option \<Rightarrow> bool option \<Rightarrow> bool \<Rightarrow> bool \<Rightarrow> bool \<Rightarrow> bool \<Rightarrow> string \<Rightarrow> assessment" where
  "assessed b recorded fence current retry cancel recovery terminal reason =
     \<lparr>am_command_id = cb_command_id b, am_effect_id = cb_effect_id b, am_command = cb_command b,
      am_actor_workstream = cb_actor_workstream b, am_request = cb_request b, am_result_recorded = recorded,
      am_fence_state = map_option er_state fence, am_permit_current = current, am_retry_allowed = retry,
      am_cancel_allowed = cancel, am_recovery_required = recovery, am_terminal = terminal, am_reason = reason\<rparr>"

definition assess_recorded ::
  "command_binding \<Rightarrow> command_result \<Rightarrow> effect_receipt option \<Rightarrow> bool option \<Rightarrow> bool \<Rightarrow> assessment" where
  "assess_recorded b r fence current consistent =
     (if (case fence of None \<Rightarrow> False
          | Some f \<Rightarrow> er_state f \<in> {COMMITTED, RECONCILED_COMMITTED} \<and> er_result f = Some (co_result_digest r)) \<and> consistent
      then assessed b True fence current False False False True
             ''coordination result journal and terminal effect fence agree''
      else assessed b True fence current False False True False
             ''coordination result evidence does not match terminal mechanical effect state'')"

definition assess_unrecorded :: "command_binding \<Rightarrow> effect_receipt option \<Rightarrow> bool option \<Rightarrow> assessment" where
  "assess_unrecorded b fence current =
     (case fence of
        None \<Rightarrow> assessed b False None current (current = Some True) False False False
          (if current = Some True then ''coordination command is bound but no mechanical effect exists''
           else ''coordination command binding is not current for retry'')
      | Some f \<Rightarrow>
          (if er_state f = RESERVED
           then assessed b False fence current False True False False
             ''coordination effect is durably reserved pre-dispatch; cancel it rather than reusing the effect identity''
           else if er_state f \<in> {EXECUTING, ATTEMPTED_UNKNOWN, COMMITTED, RECONCILED_COMMITTED}
           then assessed b False fence current False False True False
             ''coordination effect may have executed but durable command result evidence is missing; do not replay''
           else assessed b False fence current False False False True
             ''coordination effect reached a terminal no-replay mechanical state''))"

definition assess ::
  "command_binding \<Rightarrow> command_result option \<Rightarrow> effect_receipt option \<Rightarrow> bool option \<Rightarrow> bool \<Rightarrow> assessment" where
  "assess b result fence current consistent =
     (case result of
        Some r \<Rightarrow> assess_recorded b r fence current consistent
      | None \<Rightarrow> assess_unrecorded b fence current)"

text \<open>What \<^verbatim>\<open>assess_command\<close> reads before it asks for the current permit.\<close>

definition assess_reads ::
  "py_env \<Rightarrow> string \<Rightarrow> ('v, 'p, 'w) coordination \<Rightarrow>
     (coordination_error, command_binding \<times> command_result option \<times> effect_receipt option) result" where
  "assess_reads E command_id s =
     rbind (or_raise (cx_journal s) (Coordination_rule Recovery_needs_journal)) (\<lambda>J.
     rbind (map_err Coordination_journal (verify_commands E J)) (\<lambda>_.
     rbind (map_err Coordination_journal (read_binding E J command_id)) (\<lambda>b.
     rbind (map_err Coordination_journal (read_result E J command_id)) (\<lambda>result.
     rbind (or_raise (gate_fence (cx_gateway s)) (Coordination_gate (Gate_rule No_fence))) (\<lambda>F.
     rbind (case gate_audit (cx_gateway s) of None \<Rightarrow> Inr ()
            | Some A \<Rightarrow> rbind (map_err (\<lambda>e. Coordination_gate (Gate_audit e)) (verify_fence_consistency E A F [])) (\<lambda>_. Inr ()))
       (\<lambda>_. Inr (b, result, effect_row (cb_effect_id b) F)))))))"

definition assess_command ::
  "py_env \<Rightarrow> string \<Rightarrow> 'w command_bus \<Rightarrow> string \<Rightarrow> ('v, 'p, 'w, assessment) coordination_action" where
  "assess_command E control bus command_id =
     act_bind (act_read (assess_reads E command_id)) (\<lambda>(b, result, fence).
     act_bind (current_permit E control) (\<lambda>current.
       act_read (\<lambda>s. Inr (assess b result fence (map_option (\<lambda>p. pm_permit_digest p = cb_lifecycle_permit b) current)
         (case result of None \<Rightarrow> False | Some r \<Rightarrow> repository_consistent bus r (gw_world (cx_gateway s)))))))"

fun act_list :: "('a \<Rightarrow> ('s, 'e, 'b) action) \<Rightarrow> 'a list \<Rightarrow> ('s, 'e, 'b list) action" where
  "act_list f [] = act_read (\<lambda>_. Inr [])"
| "act_list f (x # xs) = act_bind (f x) (\<lambda>y. act_bind (act_list f xs) (\<lambda>ys. act_read (\<lambda>_. Inr (y # ys))))"

definition recover_commands ::
  "py_env \<Rightarrow> string \<Rightarrow> 'w command_bus \<Rightarrow> ('v, 'p, 'w, assessment list) coordination_action" where
  "recover_commands E control bus =
     act_bind (act_read (\<lambda>s. case cx_journal s of None \<Rightarrow> Inr []
         | Some J \<Rightarrow> rbind (map_err Coordination_journal (bindings E J)) (\<lambda>bs. Inr (map cb_command_id bs))))
       (act_list (assess_command E control bus))"

text \<open>The cancellation of a reservation, with its event.\<close>

definition cancel_note ::
  "py_env \<Rightarrow> string \<Rightarrow> effect_receipt \<Rightarrow> ('v, 'p, 'w, unit) coordination_action" where
  "cancel_note E effect_id cancelled =
     act_tx (\<lambda>s. case gate_audit (cx_gateway s) of
         None \<Rightarrow> Inr ((), s)
       | Some A \<Rightarrow>
           rbind (map_err (\<lambda>e. Coordination_gate (Gate_audit e)) (audit_latest A effect_id)) (\<lambda>latest.
           rbind (or_raise latest (Coordination_rule Reservation_unaudited)) (\<lambda>previous.
           rbind (map_err (\<lambda>e. Coordination_gate (Gate_audit e)) (audit_append E A effect_id (ae_effect_kind previous)
                    ''CANCELLED_PRE_DISPATCH'' (mechanical_payload cancelled))) (\<lambda>(_, A').
             Inr ((), s\<lparr>cx_gateway := put_audit A' (cx_gateway s)\<rparr>)))))"

definition cancel_reserved_command ::
  "py_env \<Rightarrow> string \<Rightarrow> 'w command_bus \<Rightarrow> string \<Rightarrow> ('v, 'p, 'w, assessment) coordination_action" where
  "cancel_reserved_command E control bus command_id =
     act_bind (assess_command E control bus command_id) (\<lambda>a.
     act_bind (act_read (\<lambda>_. ensure (am_cancel_allowed a) (Coordination_rule Not_reserved))) (\<lambda>_.
     act_bind (in_gateway (fence_tx (\<lambda>F. cancel_before_dispatch F (am_effect_id a)))) (\<lambda>cancelled.
     act_bind (cancel_note E (am_effect_id a) cancelled) (\<lambda>_.
       assess_command E control bus command_id))))"

end
