(* ===== verification/Coordination_Safety.thy ===== *)
theory Coordination_Safety
  imports Coordination_Gate
begin

text \<open>
  What the coordination facade promises: a command runs only when it is bound in the journal and
  admitted by the gateway, a command that has returned is assessed from the records it left, and
  an assessment never offers to repeat an effect that may have happened.
\<close>

section \<open>The combinators\<close>

lemma wp_in_gateway:
  "guarantees (in_gateway m) s P Q \<longleftrightarrow>
     guarantees m (cx_gateway s) (\<lambda>g. P (s\<lparr>cx_gateway := g\<rparr>)) (\<lambda>res g. Q (map_err Coordination_gate res) (s\<lparr>cx_gateway := g\<rparr>))"
proof (cases "m (cx_gateway s)")
  case (Pair res tr)
  have "left_at s (map (\<lambda>g. s\<lparr>cx_gateway := g\<rparr>) tr) = s\<lparr>cx_gateway := left_at (cx_gateway s) tr\<rparr>"
    by (cases "tr = []") (simp_all add: left_at_def last_map)
  then show ?thesis using Pair by (simp add: guarantees_def in_gateway_def)
qed

lemma guarantees_top: "guarantees m s (\<lambda>_. True) (\<lambda>_ _. True)"
  by (simp add: guarantees_def)

lemma wp_journal:
  "guarantees (journal_tx f) s P Q \<longleftrightarrow>
     (case cx_journal s of None \<Rightarrow> P s \<and> Q (Inr ()) s
      | Some J \<Rightarrow> (case f J of Inl e \<Rightarrow> Q (Inl e) s
          | Inr J' \<Rightarrow> P (s\<lparr>cx_journal := Some J'\<rparr>) \<and> Q (Inr ()) (s\<lparr>cx_journal := Some J'\<rparr>)))"
  by (auto simp: journal_tx_def wp_tx split: option.split sum.split)

section \<open>What is bound\<close>

definition command_bound ::
  "py_env \<Rightarrow> permit \<Rightarrow> string \<Rightarrow> actor_context \<Rightarrow> string \<Rightarrow> command_call \<Rightarrow> ('v, 'p, 'w) coordination \<Rightarrow> bool" where
  "command_bound E p command actor cid c s \<longleftrightarrow> (\<exists>J b. cx_journal s = Some J \<and> journal_sound J \<and>
     row_of cb_command_id cid (cj_bindings J) = Some b \<and> cb_effect_id b = cl_effect_id c \<and>
     bind_candidate E cid (cl_effect_id c) command (workstream_text actor) (pm_permit_digest p) (cl_invocation c)
       (cl_request c) = Inr b)"

lemma command_bound_gateway [simp]:
  "command_bound E p command actor cid c (s\<lparr>cx_gateway := g\<rparr>) = command_bound E p command actor cid c s"
  by (simp add: command_bound_def)

lemma record_keeps_bindings:
  "record_command_result E J cid rd rc conf ev sq = Inr (r, J') \<Longrightarrow> cj_bindings J' = cj_bindings J"
  by (auto simp: record_command_result_def record_tx_def write_meta_def result_simps split: option.splits)

lemma bind_bounds:
  assumes "cx_journal s = Some J" "command_keys J"
    and "bind E J cid (cl_effect_id c) command (workstream_text actor) (pm_permit_digest p) (cl_invocation c) (cl_request c) = Inr (b, J')"
  shows "command_bound E p command actor cid c (s\<lparr>cx_journal := Some J'\<rparr>)"
  using bind_leaves [OF assms(3,2)] candidate_ids by (fastforce simp: command_bound_def)

text \<open>The record of an outcome, from the bound command on.\<close>

definition outcome_recorded :: "string \<Rightarrow> effect_result \<Rightarrow> ('v, 'p, 'w) coordination \<Rightarrow> bool" where
  "outcome_recorded cid x s \<longleftrightarrow> (\<exists>J row. cx_journal s = Some J \<and> row_of cw_command_id cid (cj_results J) = Some row \<and>
     digest_check (ef_result_digest x) = Inr (co_result_digest (result_from_row row)))"

lemma record_outcome_leaves:
  assumes "cx_journal s = Some J" "command_bound E p command actor cid c s" "record_outcome E cid x J = Inr J'"
  shows "command_bound E p command actor cid c (s\<lparr>cx_journal := Some J'\<rparr>) \<and> outcome_recorded cid x (s\<lparr>cx_journal := Some J'\<rparr>)"
proof -
  obtain b where b: "journal_sound J" "row_of cb_command_id cid (cj_bindings J) = Some b" "cb_effect_id b = cl_effect_id c"
    "bind_candidate E cid (cl_effect_id c) command (workstream_text actor) (pm_permit_digest p) (cl_invocation c) (cl_request c) = Inr b"
    using assms(1,2) by (auto simp: command_bound_def)
  obtain rc conf ev sq r where r: "record_command_result E J cid (ef_result_digest x) rc conf ev sq = Inr (r, J')"
    using assms(3) by (auto simp: record_outcome_def result_simps)
  have keys: "command_keys J" using b(1) by (simp add: journal_sound_def)
  obtain b' row where J': "journal_sound J'" "row_of cw_command_id cid (cj_results J') = Some row" "result_from_row row = r"
    by (rule record_leaves [OF r keys])
  obtain cand where cand: "result_candidate E b cid (ef_result_digest x) rc conf ev sq = Inr cand" "record_tx E J cand = Inr (r, J')"
    using r by (auto simp: record_result_sound [OF b(1,2)] result_simps)
  have "co_result_digest r = co_result_digest cand"
    using cand(2) by (auto simp: record_tx_def result_simps split: option.splits)
  then have "digest_check (ef_result_digest x) = Inr (co_result_digest r)"
    using cand(1) by (auto simp: result_candidate_def command_require_digest_def result_simps Let_def)
  then show ?thesis using J' b record_keeps_bindings [OF r] by (simp add: command_bound_def outcome_recorded_def)
qed

section \<open>What runs is bound\<close>

lemma prepared_fields:
  assumes "prepare_command E p command actor cid args dep = Inr c"
  shows "cl_effect_id c = ''coordination:'' @ cid" "cl_effect_kind c = ''COORDINATION/'' @ command"
    "effect_request_digest E p (cl_effect_id c) (cl_effect_kind c) (cl_payload c) = Inr (cl_request c)"
  using assms by (auto simp: prepare_command_def result_simps Let_def)

text \<open>The write path, for an assertion about the world and one about the result.\<close>

definition command_ran ::
  "py_env \<Rightarrow> string \<Rightarrow> permit \<Rightarrow> 'w bus_method \<Rightarrow> string \<Rightarrow> actor_context \<Rightarrow> string \<Rightarrow> command_args \<Rightarrow> command_call \<Rightarrow>
     ('v, 'p, 'w) gateway \<Rightarrow> ('v, 'p, 'w) coordination \<Rightarrow> bool" where
  "command_ran E control p call command actor cid args c g t \<longleftrightarrow>
     command_bound E p command actor cid c t \<and> effect_ran (cl_effect_id c) (call actor args) g (cx_gateway t) \<and>
     (\<exists>F. gate_fence g = Some F \<and> assert_clear F = Inr () \<and> effect_row (cl_effect_id c) F = None \<and>
        validate_action_permit E control p (gw_lifecycle g) = Inr p)"

lemma command_ran_journal:
  "cx_journal s = Some J \<Longrightarrow> record_outcome E cid x J = Inr J' \<Longrightarrow> command_ran E control p call command actor cid args c g s \<Longrightarrow>
     command_ran E control p call command actor cid args c g (s\<lparr>cx_journal := Some J'\<rparr>)"
  using record_outcome_leaves [of s J E p command actor cid c x J'] by (simp add: command_ran_def)

lemma write_runs_bound:
  assumes J: "cx_journal s = Some J" "command_keys J" and c: "prepare_command E p command actor cid args dep = Inr c"
  shows "guarantees (invoke_write E control p call command actor cid args dep) s
    (\<lambda>t. gw_world (cx_gateway t) = gw_world (cx_gateway s) \<or> command_ran E control p call command actor cid args c (cx_gateway s) t)
    (\<lambda>res t. gw_world (cx_gateway t) = gw_world (cx_gateway s) \<or> command_ran E control p call command actor cid args c (cx_gateway s) t)"
    (is "guarantees _ _ ?P _")
proof -
  let ?g = "cx_gateway s"
  let ?d = "dispatch_verified E control p (cl_effect_id c) (cl_effect_kind c) (cl_payload c) (act_read (\<lambda>_. Inr (cl_evidence c))) (call actor args)"
  have ran: "gw_world h = gw_world ?g \<or> effect_ran (cl_effect_id c) (call actor args) ?g h \<and>
      effect_admitted E control p (cl_effect_id c) (act_read (\<lambda>_. Inr (cl_evidence c))) ?g" if "h \<in> crash_points ?d ?g" for h
    using dispatch_runs_admitted [OF quiet_read that] by blast
  have dispatched: "guarantees (in_gateway ?d) u ?P (\<lambda>res. ?P)"
    if u: "cx_gateway u = ?g" "command_bound E p command actor cid c u" for u
    unfolding wp_in_gateway u(1)
    by (rule guarantees_mono [OF guarantees_self])
      (use ran u left_at_crash_point [of ?g ?d] in \<open>auto simp: command_ran_def effect_admitted_def\<close>)
  have recorded: "guarantees (journal_tx (record_outcome E cid x)) u ?P (\<lambda>res. ?P)" if "?P u" for x u
    unfolding wp_journal using that by (auto split: option.split sum.split intro: command_ran_journal)
  have later: "guarantees (act_bind (in_gateway ?d) (\<lambda>x.
     act_bind (act_read (\<lambda>_. ensure (ef_request_digest x = cl_request c) (Coordination_rule Request_diverged))) (\<lambda>_.
     act_bind (journal_tx (record_outcome E cid x)) (\<lambda>_. act_read (\<lambda>_. Inr (Write_result x)))))) u ?P (\<lambda>res. ?P)"
    if u: "cx_gateway u = ?g" "command_bound E p command actor cid c u" for u
  proof (rule act_bind_wp [OF dispatched [OF u]])
    show "guarantees (act_bind (act_read (\<lambda>_. ensure (ef_request_digest x = cl_request c) (Coordination_rule Request_diverged))) (\<lambda>_.
       act_bind (journal_tx (record_outcome E cid x)) (\<lambda>_. act_read (\<lambda>_. Inr (Write_result x))))) v ?P (\<lambda>res. ?P)" if v: "?P v" for x v
      unfolding wp_bind [of "act_read f" for f] wp_read
      using v by (auto split: sum.split intro!: act_bind_wp [OF recorded] simp: wp_read)
  qed
  have bound: "guarantees (bind_command E p command actor cid c) s ?P
      (\<lambda>res u. cx_gateway u = ?g \<and> (ok res \<longrightarrow> command_bound E p command actor cid c u))"
    unfolding bind_command_def wp_journal J(1)
    using bind_bounds [OF J] by (auto simp: result_simps split: sum.split)
  show ?thesis unfolding invoke_write_def wp_bind [of "act_read f" for f] wp_read c sum.case
    by (rule act_bind_wp [OF bound]) (use later in auto)
qed

text \<open>
  C4: A coordination command runs only when it is bound and admitted, and only once. When an
  invocation of a write command has changed the outside world by any point at which the process
  can die, the journal holds the binding of the command id to the effect, the actor, the
  invocation and the request under the permit; the world is what one call of the bus method made
  of it; the effect fence holds the effect as begun; and before the call the permit was valid,
  the fence clear and the effect new.
\<close>

theorem command_runs_bound:
  assumes "t \<in> crash_points (invoke E control bus command p actor cid args dep) s" "gw_world (cx_gateway t) \<noteq> gw_world (cx_gateway s)"
    and "command \<in> WRITE_COMMANDS" "cx_journal s = Some J" "command_keys J"
  shows "\<exists>call c F. bs_method bus command = Some call \<and> prepare_command E p command actor cid args dep = Inr c
    \<and> command_bound E p command actor cid c t \<and> gw_world (cx_gateway t) = snd (call actor args (gw_world (cx_gateway s)))
    \<and> (\<exists>q\<in>begun. gate_status (cx_gateway t) (''coordination:'' @ cid) = Some q)
    \<and> gate_fence (cx_gateway s) = Some F \<and> assert_clear F = Inr () \<and> effect_row (''coordination:'' @ cid) F = None
    \<and> validate_action_permit E control p (gw_lifecycle (cx_gateway s)) = Inr p"
proof -
  have "command \<notin> READ_COMMANDS" using assms(3) by (auto simp: READ_COMMANDS_def WRITE_COMMANDS_def)
  then obtain call where call: "bs_method bus command = Some call"
    "t \<in> crash_points (invoke_write E control p call command actor cid args dep) s"
    using assms(1,2) unfolding invoke_def read_crash_points by (auto simp: or_raise_Inr_iff)
  then obtain c where c: "prepare_command E p command actor cid args dep = Inr c"
    using assms(2) unfolding invoke_write_def read_crash_points by auto
  have "command_ran E control p call command actor cid args c (cx_gateway s) t"
    using guarantees_crash [OF write_runs_bound [OF assms(4,5) c] _ call(2)] assms(2) by simp
  then show ?thesis using call(1) c prepared_fields [OF c] by (auto simp: command_ran_def effect_ran_def)
qed

section \<open>Assessments\<close>

lemma reconstruct_same: "guarantees (reconstruct E control rj) L (same_stores L) (\<lambda>_. same_stores L)"
proof -
  have refl: "same_stores L L" by (simp add: same_stores_def)
  have commit: "guarantees (reconcile_commit E rj a cur) L (same_stores L) (\<lambda>_. same_stores L)" for a cur
  proof -
    have noted: "guarantees (act_bind (act_read (\<lambda>L. candidate_digest E L a)) (\<lambda>digest.
        act_bind (journal_event E (cp_checkpoint_id a) ''RESTART_RECONCILED_COMMITTED'' (committed_payload digest cur)) (\<lambda>_.
          act_read (\<lambda>_. Inr True)))) L (same_stores L) (\<lambda>_. same_stores L)"
      unfolding journal_event_def wp_simps using refl by (auto simp: same_stores_def result_simps split: sum.split prod.split)
    show ?thesis
    proof (cases "\<not> committed_in_journal L a \<and> rj")
      case True
      then show ?thesis using noted by (simp add: guarantees_def reconcile_commit_def)
    next
      case False
      then show ?thesis using refl by (auto simp: guarantees_def reconcile_commit_def act_read_def)
    qed
  qed
  show ?thesis unfolding reconstruct_def wp_bind [of "act_read f" for f] wp_read
  proof (cases "reconstruct_reads E L")
    case (Inr x)
    obtain latest current where x: "x = (latest, current)" by (cases x)
    have "guarantees (act_bind (reconcile_commit E rj a cur) (\<lambda>w. act_read (with_accepted control latest cur a w))) L
        (same_stores L) (\<lambda>_. same_stores L)" for a cur
      by (rule act_bind_wp [OF commit]) (auto simp: wp_read)
    then show "case reconstruct_reads E L of Inl e \<Rightarrow> same_stores L L
      | Inr x \<Rightarrow> guarantees (case x of (latest, current) \<Rightarrow> case current of None \<Rightarrow> act_read (no_currentness control latest)
         | Some cur \<Rightarrow> act_bind (act_read (accepted_checkpoint E)) (\<lambda>accepted. act_bind (reconcile_commit E rj accepted cur)
             (\<lambda>w. act_read (with_accepted control latest cur accepted w)))) L (same_stores L) (\<lambda>_. same_stores L)"
      using refl Inr x by (auto simp: wp_read wp_bind [of "act_read f" for f] split: option.split sum.split)
  qed (simp add: refl)
qed

lemma permit_same: "guarantees (accepted_action_permit E control) L (same_stores L) (\<lambda>_. same_stores L)"
proof -
  have "guarantees (act_bind (reconstruct E control True) (\<lambda>state. act_read (mint_permit E state))) L (same_stores L) (\<lambda>_. same_stores L)"
    by (rule act_bind_wp [OF reconstruct_same]) (auto simp: wp_read)
  then show ?thesis unfolding accepted_action_permit_def wp_bind [of "act_read f" for f] wp_read
    by (auto simp: same_stores_def split: sum.split)
qed

lemma assess_stores:
  "guarantees (current_permit E control) s (\<lambda>_. True) (\<lambda>_ t. gate_fence (cx_gateway t) = gate_fence (cx_gateway s) \<and>
      gw_world (cx_gateway t) = gw_world (cx_gateway s))"
proof -
  obtain res tr where m: "accepted_action_permit E control (gw_lifecycle (cx_gateway s)) = (res, tr)" by fastforce
  have L: "lf_fence (left_at (gw_lifecycle (cx_gateway s)) tr) = lf_fence (gw_lifecycle (cx_gateway s))"
    using permit_same [of E control "gw_lifecycle (cx_gateway s)"] m by (simp add: guarantees_def same_stores_def)
  have "left_at s (map (\<lambda>L. s\<lparr>cx_gateway := (cx_gateway s)\<lparr>gw_lifecycle := L\<rparr>\<rparr>) tr) =
     s\<lparr>cx_gateway := (cx_gateway s)\<lparr>gw_lifecycle := left_at (gw_lifecycle (cx_gateway s)) tr\<rparr>\<rparr>"
    by (cases "tr = []") (simp_all add: left_at_def last_map)
  then show ?thesis using m L by (simp add: guarantees_def current_permit_def gate_fence_def)
qed

lemma assess_returns:
  fixes s :: "('v, 'p, 'w) coordination"
  assumes "assess_command E control bus cid s = (Inr a, tr)"
  shows "\<exists>b result F current consistent. assess_reads E cid s = Inr (b, result, effect_row (cb_effect_id b) F)
    \<and> gate_fence (cx_gateway s) = Some F \<and> a = assess b result (effect_row (cb_effect_id b) F) current consistent
    \<and> (\<forall>r. result = Some r \<longrightarrow> consistent = repository_consistent bus r (gw_world (cx_gateway s)))"
proof -
  obtain b result fence where r: "assess_reads E cid s = Inr (b, result, fence)"
    using assms by (auto simp: assess_command_def act_bind_def act_read_def split: sum.splits prod.splits)
  then obtain F where F: "gate_fence (cx_gateway s) = Some F" "fence = effect_row (cb_effect_id b) F"
    by (auto simp: assess_reads_def result_simps)
  let ?Q = "\<lambda>res (t :: ('v, 'p, 'w) coordination). \<forall>a. res = Inr a \<longrightarrow> (\<exists>current consistent. a = assess b result fence current consistent
    \<and> (\<forall>r. result = Some r \<longrightarrow> consistent = repository_consistent bus r (gw_world (cx_gateway s))))"
  have "guarantees (assess_command E control bus cid) s (\<lambda>_. True) ?Q"
    unfolding assess_command_def wp_bind [of "act_read f" for f] wp_read r sum.case prod.case
  proof (rule act_bind_wp [OF assess_stores])
    fix x :: "permit option" and t :: "('v, 'p, 'w) coordination"
    assume t: "gate_fence (cx_gateway t) = gate_fence (cx_gateway s) \<and> gw_world (cx_gateway t) = gw_world (cx_gateway s)"
    show "guarantees (act_read (\<lambda>s. Inr (assess b result fence (map_option (\<lambda>p. pm_permit_digest p = cb_lifecycle_permit b) x)
         (case result of None \<Rightarrow> False | Some r \<Rightarrow> repository_consistent bus r (gw_world (cx_gateway s)))))) t (\<lambda>_. True) ?Q"
      unfolding wp_read using t
      by (intro allI impI exI [of _ "map_option (\<lambda>p. pm_permit_digest p = cb_lifecycle_permit b) x"]
          exI [of _ "case result of None \<Rightarrow> False | Some r \<Rightarrow> repository_consistent bus r (gw_world (cx_gateway s))"])
        (auto split: option.splits)
  qed simp
  from guarantees_result [OF this assms] show ?thesis using r F by blast
qed

lemma assess_cases:
  "assess b result fence current consistent = a \<Longrightarrow>
     am_effect_id a = cb_effect_id b \<and> am_fence_state a = map_option er_state fence \<and> am_result_recorded a = (result \<noteq> None)
     \<and> am_permit_current a = current \<and> (am_retry_allowed a \<longleftrightarrow> result = None \<and> fence = None \<and> current = Some True)
     \<and> (am_cancel_allowed a \<longleftrightarrow> result = None \<and> map_option er_state fence = Some RESERVED)
     \<and> (am_recovery_required a \<longleftrightarrow> (if result = None then map_option er_state fence \<in>
          Some ` {EXECUTING, ATTEMPTED_UNKNOWN, COMMITTED, RECONCILED_COMMITTED} else \<not> am_terminal a))
     \<and> (am_terminal a \<longleftrightarrow> (case result of
          None \<Rightarrow> map_option er_state fence \<in> Some ` {CANCELLED_PRE_DISPATCH, RECONCILED_NO_EFFECT}
        | Some r \<Rightarrow> consistent \<and> (\<exists>f. fence = Some f \<and> er_state f \<in> {COMMITTED, RECONCILED_COMMITTED}
             \<and> er_result f = Some (co_result_digest r))))"
proof (cases result)
  case (Some r)
  assume "assess b result fence current consistent = a"
  then show ?thesis using Some by (cases fence) (auto simp: assess_def assess_recorded_def assessed_def split: if_splits)
next
  case None
  assume a: "assess b result fence current consistent = a"
  show ?thesis
  proof (cases fence)
    case (Some f)
    then show ?thesis using a None by (cases "er_state f") (auto simp: assess_def assess_unrecorded_def assessed_def)
  qed (use a None in \<open>auto simp: assess_def assess_unrecorded_def assessed_def\<close>)
qed


section \<open>A command that has returned\<close>

definition committed_in :: "string \<Rightarrow> string \<Rightarrow> ('v, 'p, 'w) gateway \<Rightarrow> bool" where
  "committed_in eid d g \<longleftrightarrow> (\<exists>F r. gate_fence g = Some F \<and> effect_row eid F = Some r \<and> er_state r = COMMITTED
     \<and> er_result r = Some d \<and> digest_check d = Inr d)"

lemma committed_in_audit [simp]: "committed_in eid d (put_audit A g) = committed_in eid d g"
  by (simp add: committed_in_def)

lemma settle_committed:
  assumes "settle F eid (Some d) True = Inr (r, F')" "digest_check d = Inr d"
  shows "committed_in eid d (put_fence F' g)"
proof -
  obtain q where "effect_row eid F = Some q" "er_state q = EXECUTING"
    "F' = fst (update_effects eid {EXECUTING} (\<lambda>r. r\<lparr>er_state := COMMITTED, er_result := Some d\<rparr>) F)"
    using assms unfolding settle_def by (auto simp: result_simps Let_def case_prod_beta require_digest_def split: if_splits)
  then show ?thesis using assms(2) by (simp add: committed_in_def effect_row_update)
qed

lemma conclude_committed:
  "guarantees (conclude_effect E c outcome) s (\<lambda>_. True) (\<lambda>res g. \<forall>x. res = Inr x \<longrightarrow> committed_in (ec_effect_id c) (ef_result_digest x) g)"
proof -
  have known: "guarantees (outcome_known E c v d) s (\<lambda>_. True) (\<lambda>res g. \<forall>x. res = Inr x \<longrightarrow> committed_in (ec_effect_id c) (ef_result_digest x) g)"
    if "effect_result_digest E (ec_effect_id c) (ec_effect_kind c) v = Inr d" for v d
  proof -
    have hex: "digest_check d = Inr d"
      using that by (auto simp: effect_result_digest_def result_simps intro: action_digest_hex)
    have noted: "guarantees (audit_note E i k t pl) u (\<lambda>_. True) (\<lambda>_ w. committed_in (ec_effect_id c) d w)"
      if "committed_in (ec_effect_id c) d u" for i k t pl and u :: "('a, 'b, 'c) gateway"
      by (rule wp_audit) (use that in auto)
    show ?thesis unfolding outcome_known_def
      by (rule act_bind_wp [where R = "\<lambda>res u. ok res \<longrightarrow> committed_in (ec_effect_id c) d u"], rule wp_fence)
        (auto simp: wp_read settle_committed [OF _ hex] intro!: act_bind_wp [OF noted])
  qed
  have unknown: "guarantees (outcome_unknown E c e) s (\<lambda>_. True) (\<lambda>res g. \<forall>x. res = Inr x \<longrightarrow> committed_in (ec_effect_id c) (ef_result_digest x) g)" for e
    unfolding outcome_unknown_def
    by (intro act_bind_wp [OF guarantees_mono [OF guarantees_top]]) (auto simp: wp_read)
  show ?thesis unfolding conclude_effect_def using known unknown by (auto split: option.split sum.split)
qed

lemma only_last_matters:
  "(\<And>e t. Q (Inl e) t) \<Longrightarrow> (\<And>x t. guarantees (f x) t (\<lambda>_. True) Q) \<Longrightarrow> guarantees (act_bind m f) s (\<lambda>_. True) Q"
  by (rule act_bind_wp [OF guarantees_top]) auto

lemma dispatch_committed:
  "guarantees (dispatch_verified E control p eid kind payload verify execute) s (\<lambda>_. True)
     (\<lambda>res g. \<forall>x. res = Inr x \<longrightarrow> committed_in eid (ef_result_digest x) g)"
proof -
  let ?Q = "\<lambda>c res g. \<forall>x. res = Inr x \<longrightarrow> committed_in (ec_effect_id c) (ef_result_digest x) g"
  note seq = only_last_matters
  have whole: "guarantees (dispatch_locked E control c verify execute) u (\<lambda>_. True) (?Q c)" for c u
  proof -
    have run: "guarantees (act_bind (run_effect execute) (conclude_effect E c)) u (\<lambda>_. True) (?Q c)" for u
      by (rule seq) (auto intro: conclude_committed)
    have executed: "guarantees (execute_claimed E c execute r) u (\<lambda>_. True) (?Q c)" for r u
      unfolding execute_claimed_def by (rule seq) (use run in auto)
    have claimed: "guarantees (act_bind (claim_effect c d) (execute_claimed E c execute)) u (\<lambda>_. True) (?Q c)" for d u
      by (rule seq) (use executed in auto)
    have checked: "guarantees (act_bind (check_permit E control (ec_permit c)) (\<lambda>_. act_bind (claim_effect c d) (execute_claimed E c execute)))
        u (\<lambda>_. True) (?Q c)" for d u
      by (rule seq) (use claimed in auto)
    have reserved: "guarantees (claim_reserved E control c execute d r) u (\<lambda>_. True) (?Q c)" for d r u
      unfolding claim_reserved_def by (rule seq) (use checked in auto)
    have filed: "guarantees (act_bind (reserve_effect c d) (claim_reserved E control c execute d)) u (\<lambda>_. True) (?Q c)" for d u
      by (rule seq) (use reserved in auto)
    have told: "guarantees (act_bind (authority_note E c d det) (\<lambda>_. act_bind (reserve_effect c d) (claim_reserved E control c execute d)))
        u (\<lambda>_. True) (?Q c)" for d det u
      by (rule seq) (use filed in auto)
    have authorized: "guarantees (dispatch_authorized E control c execute ev) u (\<lambda>_. True) (?Q c)" for ev u
      unfolding dispatch_authorized_def by (rule seq) (use told in auto)
    have verified: "guarantees (act_bind verify (dispatch_authorized E control c execute)) u (\<lambda>_. True) (?Q c)" for u
      by (rule seq) (use authorized in auto)
    have permitted: "guarantees (act_bind (check_permit E control (ec_permit c)) (\<lambda>_. act_bind verify (dispatch_authorized E control c execute)))
        u (\<lambda>_. True) (?Q c)" for u
      by (rule seq) (use verified in auto)
    show ?thesis unfolding dispatch_locked_def by (rule seq) (use permitted in auto)
  qed
  have locked: "guarantees (dispatch_locked E control c verify execute) u (\<lambda>_. True)
      (\<lambda>res g. \<forall>x. res = Inr x \<longrightarrow> committed_in eid (ef_result_digest x) g)" if c: "ec_effect_id c = eid" for c u
    using whole [of c u] by (simp only: c)
  show ?thesis unfolding dispatch_verified_def wp_bind [of "act_read f" for f] wp_read
  proof (cases "effect_call_of E p eid kind payload")
    case (Inr c)
    have "guarantees (dispatch_locked E control c verify execute) s (\<lambda>_. True)
      (\<lambda>res g. \<forall>x. res = Inr x \<longrightarrow> committed_in eid (ef_result_digest x) g)"
      by (rule locked) (rule effect_call_fields(2) [OF Inr])
    with Inr show "case effect_call_of E p eid kind payload of Inl e \<Rightarrow> \<forall>x. Inl e = Inr x \<longrightarrow> committed_in eid (ef_result_digest x) s
      | Inr c \<Rightarrow> guarantees (dispatch_locked E control c verify execute) s (\<lambda>_. True)
          (\<lambda>res g. \<forall>x. res = Inr x \<longrightarrow> committed_in eid (ef_result_digest x) g)"
      by simp
  qed simp
qed

text \<open>What \<^verbatim>\<open>invoke\<close> leaves when it returns from a write.\<close>

definition command_settled ::
  "py_env \<Rightarrow> permit \<Rightarrow> string \<Rightarrow> actor_context \<Rightarrow> string \<Rightarrow> command_call \<Rightarrow> effect_result \<Rightarrow> ('v, 'p, 'w) coordination \<Rightarrow> bool" where
  "command_settled E p command actor cid c x s \<longleftrightarrow> command_bound E p command actor cid c s \<and> outcome_recorded cid x s
     \<and> committed_in (cl_effect_id c) (ef_result_digest x) (cx_gateway s)"

lemma write_settles:
  assumes J: "cx_journal s = Some J" "command_keys J" and c: "prepare_command E p command actor cid args dep = Inr c"
  shows "guarantees (invoke_write E control p call command actor cid args dep) s (\<lambda>_. True)
    (\<lambda>res t. \<forall>x. res = Inr (Write_result x) \<longrightarrow> command_settled E p command actor cid c x t)" (is "guarantees _ _ _ ?Q")
proof -
  let ?d = "dispatch_verified E control p (cl_effect_id c) (cl_effect_kind c) (cl_payload c) (act_read (\<lambda>_. Inr (cl_evidence c))) (call actor args)"
  let ?R = "\<lambda>x u. command_bound E p command actor cid c u \<and> committed_in (cl_effect_id c) (ef_result_digest x) (cx_gateway u)"
  have dispatched: "guarantees (in_gateway ?d) u (\<lambda>_. True) (\<lambda>res v. \<forall>x. res = Inr x \<longrightarrow> ?R x v)"
    if u: "command_bound E p command actor cid c u" for u
    unfolding wp_in_gateway by (rule guarantees_mono [OF dispatch_committed]) (use u in \<open>auto simp: result_simps\<close>)
  have recorded: "guarantees (act_bind (journal_tx (record_outcome E cid x)) (\<lambda>_. act_read (\<lambda>_. Inr (Write_result x)))) u (\<lambda>_. True) ?Q"
    if u: "?R x u" for x u
    unfolding wp_bind wp_journal wp_read
    using u record_outcome_leaves [OF _ conjunct1 [OF u]]
    by (auto simp: command_settled_def command_bound_def split: option.split sum.split)
  have checked: "guarantees (act_bind (act_read (\<lambda>_. ensure (ef_request_digest x = cl_request c) (Coordination_rule Request_diverged))) (\<lambda>_.
      act_bind (journal_tx (record_outcome E cid x)) (\<lambda>_. act_read (\<lambda>_. Inr (Write_result x))))) u (\<lambda>_. True) ?Q"
    if "?R x u" for x u
    unfolding wp_bind [of "act_read f" for f] wp_read using recorded [OF that] by (auto split: sum.split)
  have later: "guarantees (act_bind (in_gateway ?d) (\<lambda>x.
     act_bind (act_read (\<lambda>_. ensure (ef_request_digest x = cl_request c) (Coordination_rule Request_diverged))) (\<lambda>_.
     act_bind (journal_tx (record_outcome E cid x)) (\<lambda>_. act_read (\<lambda>_. Inr (Write_result x)))))) u (\<lambda>_. True) ?Q"
    if u: "command_bound E p command actor cid c u" for u
    by (rule act_bind_wp [OF dispatched [OF u]]) (use checked in auto)
  have bound: "guarantees (bind_command E p command actor cid c) s (\<lambda>_. True) (\<lambda>res u. ok res \<longrightarrow> command_bound E p command actor cid c u)"
    unfolding bind_command_def wp_journal J(1)
    using bind_bounds [OF J] by (auto simp: result_simps split: sum.split)
  show ?thesis unfolding invoke_write_def wp_bind [of "act_read f" for f] wp_read c sum.case
    by (rule act_bind_wp [OF bound]) (use later in auto)
qed

lemma invoke_settles:
  assumes "invoke E control bus command p actor cid args dep s = (Inr (Write_result x), tr)" "cx_journal s = Some J" "command_keys J"
  shows "\<exists>c. prepare_command E p command actor cid args dep = Inr c \<and> command_settled E p command actor cid c x (left_at s tr)"
proof -
  obtain call where call: "(if command \<in> READ_COMMANDS then invoke_read E control p call actor args
      else invoke_write E control p call command actor cid args dep) s = (Inr (Write_result x), tr)"
    using assms(1) unfolding invoke_def by (auto simp: act_bind_def act_read_def split: sum.splits prod.splits)
  have "guarantees (invoke_read E control p call actor args) s (\<lambda>_. True) (\<lambda>res _. \<forall>x. res \<noteq> Inr (Write_result x))"
    unfolding invoke_read_def
    by (rule only_last_matters, simp, rule only_last_matters, simp) (auto simp: wp_read result_simps)
  then have w: "invoke_write E control p call command actor cid args dep s = (Inr (Write_result x), tr)"
    using call guarantees_result by (fastforce split: if_splits)
  then obtain c where c: "prepare_command E p command actor cid args dep = Inr c"
    unfolding invoke_write_def by (auto simp: act_bind_def act_read_def split: sum.splits prod.splits)
  show ?thesis using guarantees_result [OF write_settles [OF assms(2,3) c] w] c by blast
qed

text \<open>What later operations on the fence and the journal leave of it.\<close>

lemma committed_stays:
  assumes "effect_row eid F = Some r" "er_state r = COMMITTED" "runs fence_step F ls F'"
  shows "\<exists>r'. effect_row eid F' = Some r' \<and> er_state r' = COMMITTED \<and> er_result r' = er_result r"
proof -
  obtain r' where r': "effect_row eid F' = Some r'" "fence_edge\<^sup>*\<^sup>* (er_state r) (er_state r')"
    "r' = r \<or> stage_rank (target_of r) < stage_rank (target_of r')"
    using fence_run_row [OF assms(3,1)] by blast
  have "er_state r' = COMMITTED" using r'(2) assms(2) by (auto elim: converse_rtranclpE)
  then have "r' = r" using r'(3) assms(2) by auto
  then show ?thesis using r'(1) assms(2) by blast
qed

text \<open>
  C16: A command that has returned is settled. After \<^verbatim>\<open>invoke\<close> has returned the
  result of a write command, and after any further operations of the fence and of the journal, an
  assessment of the command finds its effect committed and its result recorded with the digest
  that was returned: it allows neither a retry nor a cancellation, is terminal exactly where the
  bus repository still agrees with the recorded receipt, and asks for recovery otherwise.
\<close>

theorem returned_command_settled:
  assumes "invoke E control bus command p actor cid args dep s = (Inr (Write_result x), tr)" "cx_journal s = Some J" "command_keys J"
    and "gate_fence (cx_gateway (left_at s tr)) = Some F" "runs fence_step F ls F'" "gate_fence (cx_gateway u) = Some F'"
    and "cx_journal (left_at s tr) = Some J1" "runs (command_step E) J1 ks J2" "cx_journal u = Some J2"
    and "assess_command E control' bus' cid u = (Inr a, tr')"
  shows "am_effect_id a = ''coordination:'' @ cid \<and> am_fence_state a = Some COMMITTED \<and> am_result_recorded a
    \<and> \<not> am_retry_allowed a \<and> \<not> am_cancel_allowed a \<and> am_recovery_required a = (\<not> am_terminal a)
    \<and> (\<exists>r. read_result E J2 cid = Inr (Some r) \<and> co_result_digest r = ef_result_digest x
         \<and> am_terminal a = repository_consistent bus' r (gw_world (cx_gateway u)))"
proof -
  obtain c where c: "prepare_command E p command actor cid args dep = Inr c" "command_settled E p command actor cid c x (left_at s tr)"
    using invoke_settles [OF assms(1-3)] by blast
  note eid = prepared_fields(1) [OF c(1)]
  have set: "command_bound E p command actor cid c (left_at s tr)" "outcome_recorded cid x (left_at s tr)"
    "committed_in (cl_effect_id c) (ef_result_digest x) (cx_gateway (left_at s tr))"
    using c(2) by (simp_all add: command_settled_def)
  obtain b where b: "journal_sound J1" "row_of cb_command_id cid (cj_bindings J1) = Some b" "cb_effect_id b = cl_effect_id c"
    using set(1) assms(7) by (auto simp: command_bound_def)
  obtain row where row: "row_of cw_command_id cid (cj_results J1) = Some row"
    "digest_check (ef_result_digest x) = Inr (co_result_digest (result_from_row row))"
    using set(2) assms(7) by (auto simp: outcome_recorded_def)
  obtain q where "effect_row (cl_effect_id c) F = Some q" "er_state q = COMMITTED" "er_result q = Some (ef_result_digest x)"
    "digest_check (ef_result_digest x) = Inr (ef_result_digest x)"
    using set(3) assms(4) by (auto simp: committed_in_def)
  with committed_stays [OF _ _ assms(5)] row(2)
  obtain q' where q': "effect_row (cl_effect_id c) F' = Some q'" "er_state q' = COMMITTED"
    "er_result q' = Some (ef_result_digest x)" "co_result_digest (result_from_row row) = ef_result_digest x" by fastforce
  have b': "row_of cb_command_id cid (cj_bindings J2) = Some b" "row_of cw_command_id cid (cj_results J2) = Some row"
    "journal_sound J2"
    using command_run_binding [OF assms(8) b(1,2)] command_run_result [OF assms(8) b(1) row(1)] command_run_sound [OF assms(8) b(1)] .
  have read: "read_binding E J2 cid = Inr b" "read_result E J2 cid = Inr (Some (result_from_row row))"
    using read_binding_sound [OF b'(3,1)] read_result_sound [OF b'(3,1)] b'(2) by simp_all
  obtain b2 result F2 current consistent where r: "assess_reads E cid u = Inr (b2, result, effect_row (cb_effect_id b2) F2)"
    "gate_fence (cx_gateway u) = Some F2" "a = assess b2 result (effect_row (cb_effect_id b2) F2) current consistent"
    "\<forall>r. result = Some r \<longrightarrow> consistent = repository_consistent bus' r (gw_world (cx_gateway u))"
    using assess_returns [OF assms(10)] by blast
  have "b2 = b" "result = Some (result_from_row row)" "F2 = F'"
    using r(1,2) assms(6,9) read by (auto simp: assess_reads_def result_simps)
  then show ?thesis using assess_cases [OF r(3) [symmetric]] r(4) read(2) q' b(3) eid by simp
qed

end
