(* ===== verification/Coordination_Examples.thy ===== *)
theory Coordination_Examples
  imports Gate_Examples Coordination_Safety
begin

text \<open>
  A concrete coordination facade: the gateway of the gate examples, an empty command journal and
  a bus whose one method publishes an event and returns its receipt.
\<close>

text \<open>A lifecycle that also mints a permit again, whatever its fence once holds.\<close>

lemma minting_lifecycle:
  obtains L sp p where "implements gate_env L sp" "lf_audit L = None" "lf_fence L = Some []"
    "validate_action_permit gate_env (hex64 CHR ''b'') p L = Inr p"
    "\<And>F. assert_clear F = Inr () \<Longrightarrow> accepted_action_permit gate_env (hex64 CHR ''b'') (L\<lparr>lf_fence := Some F\<rparr>) = (Inr p, [])"
proof -
  obtain L c where c: "implements gate_env L \<lparr>sp_history = [c], sp_accepted = Some c, sp_events = [(''k1'', ''CURRENTNESS_COMMITTED'')]\<rparr>"
    "cp_checkpoint_id c = ''k1''" "cp_generation c = 1" "cp_memory_head_digest c = hex64 CHR ''a''"
    "cp_control_source_digest c = hex64 CHR ''b''" "same_stores demo_start L" "jn_sequence (lf_journal L) = 1"
    by (rule demo_noted [OF gate_env_facts(2)])
  let ?sp = "\<lparr>sp_history = [c], sp_accepted = Some c, sp_events = [(''k1'', ''CURRENTNESS_COMMITTED'')]\<rparr>"
  obtain p where p: "validate_action_permit gate_env (hex64 CHR ''b'') p L = Inr p"
    "mint_permit gate_env (found L ?sp (hex64 CHR ''b'') False) L = Inr p"
    by (rule demo_permit [OF c(6,1) _ _ c(3-5)]) simp_all
  have same: "spec_reconstruct ?sp = ?sp" using c(2) by (simp add: spec_reconstruct_def is_recorded_def)
  have a: "lf_audit L = None" using c(6) by (simp add: same_stores_def demo_start_def)
  have mint: "accepted_action_permit gate_env (hex64 CHR ''b'') (L\<lparr>lf_fence := Some F\<rparr>) = (Inr p, [])"
    if F: "assert_clear F = Inr ()" for F
  proof -
    let ?L = "L\<lparr>lf_fence := Some F\<rparr>"
    have clear: "assert_outbound_integrity gate_env ?L = Inr ()" "assert_effects_clear ?L = Inr ()"
      using a F by (simp_all add: assert_outbound_integrity_def assert_effects_clear_def)
    have "unresolved F = []" "lf_fence L = None \<or> lf_fence L = Some []"
      using F c(6) by (auto simp: assert_clear_def result_simps same_stores_def demo_start_def)
    then have "found ?L ?sp (hex64 CHR ''b'') False = found L ?sp (hex64 CHR ''b'') False"
      by (auto simp: found_def make_reconstruction_def unresolved_def)
    moreover have "mint_permit gate_env r ?L = mint_permit gate_env r L" for r
      by (simp add: mint_permit_def cong: option.case_cong if_cong)
    ultimately show ?thesis
      using reconstruct_reads_only [OF implements_any_fence [OF c(1)] clear(1), of True "hex64 CHR ''b''"] p(2) clear same
      by (simp add: accepted_action_permit_def act_bind_def act_read_def)
  qed
  let ?L = "L\<lparr>lf_fence := Some []\<rparr>"
  have "validate_action_permit gate_env (hex64 CHR ''b'') p ?L = Inr p" using p(1) permit_any_fence [OF c(1) a] by simp
  with mint show thesis by (intro that [OF implements_any_fence [OF c(1)], of "Some []"]) (use a in simp_all)
qed

section \<open>A bus that publishes one event\<close>

definition posted :: py_value where
  "posted = VData [(''receipt'', VData [(''result_class'', VStr ''POSTED''), (''database_write_confirmed'', VBool True),
     (''event_id'', VStr ''ev-1''), (''event_sequence'', VInt 1)])]"

definition demo_bus :: "bool command_bus" where
  "demo_bus = \<lparr>bs_method = (\<lambda>m. if m = ''coordination_post'' then Some (\<lambda>actor args w. (Some posted, True)) else None),
     bs_get = Some (\<lambda>w i. if w \<and> i = ''ev-1'' then Some (''ev-1'', 1) else None)\<rparr>"

definition demo_actor :: actor_context where
  "demo_actor = \<lparr>ax_workstream = Some ''ws-1'', ax_permissions = [''post'']\<rparr>"

definition demo_args :: command_args where
  "demo_args = \<lparr>ca_args = [VStr ''hello''], ca_kwargs = [(''thread'', VStr ''t-1'')]\<rparr>"

abbreviation demo_invoke :: "permit \<Rightarrow> (unit, unit, bool, invocation) coordination_action" where
  "demo_invoke p \<equiv> invoke gate_env (hex64 CHR ''b'') demo_bus ''coordination_post'' p demo_actor ''c1'' demo_args None"

lemma demo_prepared:
  "\<exists>c k. prepare_command gate_env p ''coordination_post'' demo_actor ''c1'' demo_args None = Inr c
     \<and> effect_call_of gate_env p (cl_effect_id c) (cl_effect_kind c) (cl_payload c) = Inr k \<and> ec_request k = cl_request c
     \<and> cl_effect_id c = ''coordination:c1'' \<and> digest_check (cl_request c) = Inr (cl_request c)
     \<and> digest_check (cl_invocation c) = Inr (cl_invocation c)
     \<and> digest_check (av_digest (cl_evidence c)) = Inr (av_digest (cl_evidence c))"
proof -
  note digest = tame_digest [OF gate_env_facts(1)]
  have actor: "tame_value (actor_binding demo_actor)"
    by (simp add: actor_binding_def demo_actor_def opt_value_def tame_VObj plain_eval)
  have fields: "tame_value (VObj (invocation_fields ''coordination_post'' demo_actor demo_args))"
    "tame_value (VObj ((''schema'', VStr ''VERA_MONO_COORDINATION_INVOCATION_V1'') # invocation_fields ''coordination_post'' demo_actor demo_args))"
    using actor by (simp_all add: invocation_fields_def demo_args_def tame_VObj plain_eval)
  obtain k where k: "effect_call_of gate_env p ''coordination:c1'' ''COORDINATION/coordination_post''
      (VObj (invocation_fields ''coordination_post'' demo_actor demo_args)) = Inr k"
    using tame_call [OF gate_env_facts(1) fields(1), of "''coordination:c1''" "''COORDINATION/coordination_post''" p] by auto
  then have request: "effect_request_digest gate_env p ''coordination:c1'' ''COORDINATION/coordination_post''
      (VObj (invocation_fields ''coordination_post'' demo_actor demo_args)) = Inr (ec_request k)"
    by (auto simp: effect_call_of_def result_simps)
  obtain i where i: "action_digest gate_env (VObj ((''schema'', VStr ''VERA_MONO_COORDINATION_INVOCATION_V1'')
      # invocation_fields ''coordination_post'' demo_actor demo_args)) = Inr i" using digest [OF fields(2)] by blast
  obtain a where a: "authority_binding_digest gate_env ''coordination_post'' demo_actor None = Inr a"
    using digest [of "VObj [(''schema'', VStr ''VERA_MONO_COORDINATION_AUTHORITY_BINDING_V1''), (''actor'', actor_binding demo_actor),
      (''command'', VStr ''coordination_post''), (''task_dependency'', dependency_value None)]"] actor
    by (auto simp: authority_binding_digest_def tame_VObj plain_eval)
  have hex: "digest_check i = Inr i" "digest_check a = Inr a"
    using i a action_digest_hex by (auto simp: authority_binding_digest_def)
  show ?thesis using k request i a hex effect_call_fields(4) [OF k]
    by (simp add: prepare_command_def command_dependency_def Let_def)
qed

text \<open>The binding and the result that the invocation leaves in the journal.\<close>

lemma demo_bound:
  assumes "journal_sound J" "cj_bindings J = []" "cj_results J = []" "digest_check (pm_permit_digest p) = Inr (pm_permit_digest p)"
    and "cl_effect_id c = ''coordination:c1''" "digest_check (cl_request c) = Inr (cl_request c)"
    and "digest_check (cl_invocation c) = Inr (cl_invocation c)"
  shows "\<exists>b J1. bind gate_env J ''c1'' (cl_effect_id c) ''coordination_post'' (workstream_text demo_actor) (pm_permit_digest p)
      (cl_invocation c) (cl_request c) = Inr (b, J1) \<and> journal_sound J1 \<and> cj_bindings J1 = [b] \<and> cj_results J1 = []
      \<and> cb_command_id b = ''c1'' \<and> cb_effect_id b = ''coordination:c1''"
proof -
  obtain b where b: "bind_candidate gate_env ''c1'' (cl_effect_id c) ''coordination_post'' (workstream_text demo_actor) (pm_permit_digest p)
      (cl_invocation c) (cl_request c) = Inr b" "binding_sound b"
    using assms(4-7)
    by (simp add: bind_candidate_def command_require_text_def command_require_digest_def binding_digest_of Let_def
        binding_sound_def binding_body_def workstream_text_def demo_actor_def)
  obtain J1 where J1: "bind_tx gate_env J b = Inr (b, J1)" using bind_tx_accepts [OF assms(1) b(2)] assms(2) by auto
  show ?thesis using bind_tx_new [OF assms(1), of b gate_env b J1] J1 assms(2,3,5) candidate_ids [OF b(1)] b(1)
    by (intro exI [of _ b] exI [of _ J1]) (simp add: bind_def journal_sound_verify [OF assms(1)])
qed

lemma demo_outcome:
  assumes "journal_sound J1" "cj_bindings J1 = [b]" "cj_results J1 = []" "cb_command_id b = ''c1''"
    and "ef_value x = posted" "digest_check (ef_result_digest x) = Inr (ef_result_digest x)"
  shows "\<exists>J2. record_outcome gate_env ''c1'' x J1 = Inr J2 \<and> journal_sound J2"
proof -
  have b: "row_of cb_command_id ''c1'' (cj_bindings J1) = Some b" using assms(2,4) by (simp add: row_of_Cons)
  obtain r where r: "result_candidate gate_env b ''c1'' (ef_result_digest x) ''POSTED'' True (Some ''ev-1'') (Some 1) = Inr r"
    "result_sound (cj_bindings J1) r"
    using b assms(6) by (auto simp: result_candidate_def command_require_text_def command_require_digest_def Let_def result_sound_def
        result_record_digest_def canonical_digest_of result_body_plain sequence_safe_def plain_eval result_body_def MAX_SAFE_INTEGER_def)
  obtain J2 where J2: "record_tx gate_env J1 r = Inr (r, J2)" using record_tx_accepts [OF assms(1) r(2)] assms(3) by auto
  have "journal_sound J2" using record_tx_new [OF assms(1), of r gate_env r J2] J2 assms(3) by simp
  moreover have "record_command_result gate_env J1 ''c1'' (ef_result_digest x) ''POSTED'' True (Some ''ev-1'') (Some 1) = Inr (r, J2)"
    using r(1) J2 by (simp add: record_result_sound [OF assms(1) b])
  ultimately show ?thesis using assms(5)
    by (simp add: record_outcome_def value_receipt_def receipt_fields_def value_field_def posted_def opt_text_def opt_number_def)
qed

text \<open>The whole invocation.\<close>

lemma demo_invocation:
  assumes L: "implements gate_env L sp" "lf_audit L = None" "lf_fence L = Some []" "validate_action_permit gate_env (hex64 CHR ''b'') p L = Inr p"
    and J: "journal_sound J" "cj_bindings J = []" "cj_results J = []"
  shows "\<exists>x tr J2. demo_invoke p \<lparr>cx_gateway = gate_of L R, cx_journal = Some J\<rparr> = (Inr (Write_result x), tr)
    \<and> gw_world (cx_gateway (left_at \<lparr>cx_gateway = gate_of L R, cx_journal = Some J\<rparr> tr))
    \<and> gate_fence (cx_gateway (left_at \<lparr>cx_gateway = gate_of L R, cx_journal = Some J\<rparr> tr)) = Some [ef_receipt x]
    \<and> er_state (ef_receipt x) = COMMITTED
    \<and> cx_journal (left_at \<lparr>cx_gateway = gate_of L R, cx_journal = Some J\<rparr> tr) = Some J2 \<and> journal_sound J2"
proof -
  let ?s = "\<lparr>cx_gateway = gate_of L R, cx_journal = Some J\<rparr>"
  let ?call = "\<lambda>actor args w :: bool. (Some posted, True)"
  obtain c k where c: "prepare_command gate_env p ''coordination_post'' demo_actor ''c1'' demo_args None = Inr c"
    "effect_call_of gate_env p (cl_effect_id c) (cl_effect_kind c) (cl_payload c) = Inr k" "ec_request k = cl_request c"
    "cl_effect_id c = ''coordination:c1''" "digest_check (cl_request c) = Inr (cl_request c)"
    "digest_check (cl_invocation c) = Inr (cl_invocation c)" "digest_check (av_digest (cl_evidence c)) = Inr (av_digest (cl_evidence c))"
    using demo_prepared by blast
  obtain b J1 where b: "bind gate_env J ''c1'' (cl_effect_id c) ''coordination_post'' (workstream_text demo_actor) (pm_permit_digest p)
      (cl_invocation c) (cl_request c) = Inr (b, J1)" "journal_sound J1" "cj_bindings J1 = [b]" "cj_results J1 = []" "cb_command_id b = ''c1''"
    using demo_bound [OF J permit_hex [OF L(4)] c(4-6)] by blast
  obtain h where h: "effect_result_digest gate_env (cl_effect_id c) (cl_effect_kind c) posted = Inr h"
    using tame_result [OF gate_env_facts(1), of posted] by (auto simp: posted_def plain_eval MAX_SAFE_INTEGER_def)
  then have hex: "digest_check h = Inr h" by (auto simp: effect_result_digest_def result_simps intro: action_digest_hex)
  have s: "implements gate_env (gw_lifecycle (gate_of L R)) sp" "gate_audit (gate_of L R) = None" "gate_fence (gate_of L R) = Some []"
    "assert_clear [] = Inr ()" "effect_row (cl_effect_id c) [] = None"
    "validate_action_permit gate_env (hex64 CHR ''b'') p (gw_lifecycle (gate_of L R)) = Inr p"
    "fst (act_read (\<lambda>_. Inr (cl_evidence c) :: (action_error, authority_evidence) result) (gate_of L R)) = Inr (cl_evidence c)"
    using L by (simp_all add: gate_audit_def gate_fence_def assert_clear_iff act_read_def)
  obtain x tr where x: "dispatch_verified gate_env (hex64 CHR ''b'') p (cl_effect_id c) (cl_effect_kind c) (cl_payload c)
      (act_read (\<lambda>_. Inr (cl_evidence c))) (?call demo_actor demo_args) (gate_of L R) = (Inr x, tr)"
    "ef_value x = posted" "ef_result_digest x = h" "ef_request_digest x = ec_request k" "gw_world (left_at (gate_of L R) tr)"
    "gate_fence (left_at (gate_of L R) tr) = Some [ef_receipt x]" "er_state (ef_receipt x) = COMMITTED"
    using new_effect_commits [where s = "gate_of L R" and execute = "?call demo_actor demo_args" and w = True and v = posted,
        OF s(1-6) quiet_read s(7) c(7,2) _ h] by fastforce
  obtain J2 where J2: "record_outcome gate_env ''c1'' x J1 = Inr J2" "journal_sound J2"
    using demo_outcome [OF b(2-5) x(2)] hex x(3) by auto
  let ?u = "?s\<lparr>cx_journal := Some J1\<rparr>"
  let ?v = "left_at ?u (map (\<lambda>g. ?u\<lparr>cx_gateway := g\<rparr>) tr)"
  have v: "?v = ?u\<lparr>cx_gateway := left_at (gate_of L R) tr\<rparr>" by (cases "tr = []") (simp_all add: left_at_def last_map)
  have call: "bs_method demo_bus ''coordination_post'' = Some ?call" by (simp add: demo_bus_def)
  have "''coordination_post'' \<in> COMMANDS" "''coordination_post'' \<notin> READ_COMMANDS"
    by (simp_all add: COMMANDS_def READ_COMMANDS_def WRITE_COMMANDS_def)
  then have "demo_invoke p ?s = invoke_write gate_env (hex64 CHR ''b'') p ?call ''coordination_post'' demo_actor ''c1'' demo_args None ?s"
    by (simp add: invoke_def call act_bind_def act_read_def)
  also have "\<dots> = (Inr (Write_result x), ?u # map (\<lambda>g. ?u\<lparr>cx_gateway := g\<rparr>) tr @ [?v\<lparr>cx_journal := Some J2\<rparr>])"
    using c(1,3) b(1) x(1,4) J2(1) v
    by (simp add: invoke_write_def bind_command_def journal_tx_def act_bind_def act_read_def act_tx_def in_gateway_def)
  finally obtain steps where run: "demo_invoke p ?s = (Inr (Write_result x), steps)" "left_at ?s steps = ?v\<lparr>cx_journal := Some J2\<rparr>"
    by (simp add: left_at_def)
  have "left_at ?s steps = \<lparr>cx_gateway = left_at (gate_of L R) tr, cx_journal = Some J2\<rparr>" unfolding run(2) v by simp
  with run(1) show ?thesis using x(5-7) J2(2) by (intro exI [of _ x] exI [of _ steps] exI [of _ J2]) simp
qed

text \<open>The facade before the invocation, what it returns, and an assessment in a later process.\<close>

lemma demo_assessed:
  assumes "implements gate_env L sp" "lf_audit L = None"
    and "\<And>F. assert_clear F = Inr () \<Longrightarrow> accepted_action_permit gate_env (hex64 CHR ''b'') (L\<lparr>lf_fence := Some F\<rparr>) = (Inr p, [])"
    and "command_bound gate_env p command actor cid c s" "cx_journal s = Some J2" "assert_clear F = Inr ()"
  shows "\<exists>a. assess_command gate_env (hex64 CHR ''b'') bus cid \<lparr>cx_gateway = gate_of (L\<lparr>lf_fence := Some F\<rparr>) R, cx_journal = Some J2\<rparr> = (Inr a, [])"
proof -
  obtain b where b: "journal_sound J2" "row_of cb_command_id cid (cj_bindings J2) = Some b"
    using assms(4,5) by (auto simp: command_bound_def)
  show ?thesis using assms(2) assms(3) [OF assms(6)] b
    by (simp add: assess_command_def act_bind_def act_read_def assess_reads_def journal_sound_verify read_binding_sound
        read_result_sound current_permit_def gate_fence_def gate_audit_def)
qed

lemma demo_facade:
  obtains p s J x tr J2 and u :: "(unit, unit, bool) coordination" and a where "demo_invoke p s = (Inr (Write_result x), tr)" "cx_journal s = Some J" "command_keys J"
    "gw_world (cx_gateway (left_at s tr)) \<noteq> gw_world (cx_gateway s)"
    "gate_fence (cx_gateway (left_at s tr)) = Some [ef_receipt x]" "gate_fence (cx_gateway u) = Some [ef_receipt x]"
    "cx_journal (left_at s tr) = Some J2" "cx_journal u = Some J2"
    "assess_command gate_env (hex64 CHR ''b'') demo_bus ''c1'' u = (Inr a, [])"
proof -
  obtain L sp p where L: "implements gate_env L sp" "lf_audit L = None" "lf_fence L = Some []"
    "validate_action_permit gate_env (hex64 CHR ''b'') p L = Inr p"
    "\<And>F. assert_clear F = Inr () \<Longrightarrow> accepted_action_permit gate_env (hex64 CHR ''b'') (L\<lparr>lf_fence := Some F\<rparr>) = (Inr p, [])"
    by (rule minting_lifecycle) blast
  obtain J where J: "journal_sound J" "cj_bindings J = []" "cj_results J = []" using open_commands_sound by blast
  fix R
  let ?s = "\<lparr>cx_gateway = gate_of L R, cx_journal = Some J\<rparr>"
  obtain x tr J2 where x: "demo_invoke p ?s = (Inr (Write_result x), tr)" "gw_world (cx_gateway (left_at ?s tr))"
    "gate_fence (cx_gateway (left_at ?s tr)) = Some [ef_receipt x]" "er_state (ef_receipt x) = COMMITTED"
    "cx_journal (left_at ?s tr) = Some J2"
    using demo_invocation [OF L(1-4) J, of R] by blast
  have keys: "cx_journal ?s = Some J" "command_keys J" using J(1) by (simp_all add: journal_sound_def)
  obtain c where c: "command_bound gate_env p ''coordination_post'' demo_actor ''c1'' c (left_at ?s tr)"
    using invoke_settles [OF x(1) keys] by (auto simp: command_settled_def)
  have clear: "assert_clear [ef_receipt x] = Inr ()" using x(4) by (simp add: assert_clear_iff)
  let ?u = "\<lparr>cx_gateway = gate_of (L\<lparr>lf_fence := Some [ef_receipt x]\<rparr>) R, cx_journal = Some J2\<rparr>"
  obtain a where a: "assess_command gate_env (hex64 CHR ''b'') demo_bus ''c1'' ?u = (Inr a, [])"
    using demo_assessed [OF L(1,2,5) c x(5) clear] by blast
  have u: "gate_fence (cx_gateway ?u) = Some [ef_receipt x]" "cx_journal ?u = Some J2" by (simp_all add: gate_fence_def)
  have moved: "gw_world (cx_gateway (left_at ?s tr)) \<noteq> gw_world (cx_gateway ?s)" using x(2) by simp
  show thesis by (rule that [OF x(1) keys moved x(3) u(1) x(5) u(2) a])
qed

theorem command_runs_bound_witness:
  "\<exists>p s t c. t \<in> crash_points (demo_invoke p) s \<and> gw_world (cx_gateway t) \<noteq> gw_world (cx_gateway s) \<and>
     command_bound gate_env p ''coordination_post'' demo_actor ''c1'' c t"
proof -
  obtain p s J x tr where i: "demo_invoke p s = (Inr (Write_result x), tr)" "cx_journal s = Some J" "command_keys J"
    "gw_world (cx_gateway (left_at s tr)) \<noteq> gw_world (cx_gateway s)" by (rule demo_facade)
  have t: "left_at s tr \<in> crash_points (demo_invoke p) s" using left_at_crash_point [of s "demo_invoke p"] i(1) by simp
  have "''coordination_post'' \<in> WRITE_COMMANDS" by (simp add: WRITE_COMMANDS_def)
  from command_runs_bound [OF t i(4) this i(2,3)] t i(4) show ?thesis by blast
qed

theorem returned_command_settled_witness:
  "\<exists>(u :: (unit, unit, bool) coordination) a tr. assess_command gate_env (hex64 CHR ''b'') demo_bus ''c1'' u = (Inr a, tr) \<and> am_fence_state a = Some COMMITTED
     \<and> am_result_recorded a \<and> \<not> am_retry_allowed a \<and> \<not> am_cancel_allowed a"
proof -
  obtain p s J x tr J2 and u :: "(unit, unit, bool) coordination" and a
    where i: "demo_invoke p s = (Inr (Write_result x), tr)" "cx_journal s = Some J" "command_keys J" "gate_fence (cx_gateway (left_at s tr)) = Some [ef_receipt x]" "gate_fence (cx_gateway u) = Some [ef_receipt x]"
    "cx_journal (left_at s tr) = Some J2" "cx_journal u = Some J2"
    "assess_command gate_env (hex64 CHR ''b'') demo_bus ''c1'' u = (Inr a, [])" by (rule demo_facade)
  note settled = returned_command_settled [OF i(1-4) runs_nil i(5,6) runs_nil i(7,8)]
  show ?thesis by (intro exI [of _ u] exI [of _ a] exI [of _ "[]"]) (simp add: i(8) settled)
qed


end
