(* ===== verification/Bus_Contracts.thy ===== *)
theory Bus_Contracts
  imports Py_Values
begin

text \<open>
  \<^verbatim>\<open>coordination_bus.contracts\<close>: the vocabulary of the coordination bus, its actors,
  drafts, events and receipts, and the canonical text they are identified by. An exception is
  its class with its message, because the message of a refused operation is part of its receipt.
\<close>

section \<open>Vocabulary\<close>

definition WORKSTREAMS :: "string list" where
  "WORKSTREAMS = [''workstream/memory'', ''workstream/time'', ''workstream/initiatives'', ''workstream/integration'',
     ''workstream/coordination'', ''workstream/identity'', ''workstream/project-architecture'', ''workstream/github-repo'']"

definition OBSOLETE_WORKSTREAMS :: "string list" where
  "OBSOLETE_WORKSTREAMS = [''workstream/initiative'']"

definition BUS_EVENT_TYPES :: "string list" where
  "BUS_EVENT_TYPES = [''STATUS'', ''ISSUE'', ''ACKNOWLEDGEMENT'', ''REVIEW'', ''DECISION'', ''RESOLUTION'']"

definition STATUSES :: "string list" where
  "STATUSES = [''DRAFT'', ''READY_FOR_REVIEW'', ''IN_PROGRESS'', ''BLOCKED'', ''DEGRADED'', ''ACKNOWLEDGED'',
     ''CHANGES_REQUESTED'', ''APPROVED'', ''RESOLVED'', ''CANCELLED'']"

definition EVENT_STATUS_PAIRS :: "(string \<times> string) list" where
  "EVENT_STATUS_PAIRS =
     [(''STATUS'', ''DRAFT''), (''STATUS'', ''READY_FOR_REVIEW''), (''STATUS'', ''IN_PROGRESS''), (''STATUS'', ''BLOCKED''),
      (''STATUS'', ''DEGRADED''), (''STATUS'', ''CANCELLED''), (''ISSUE'', ''READY_FOR_REVIEW''), (''ISSUE'', ''BLOCKED''),
      (''ISSUE'', ''DEGRADED''), (''ACKNOWLEDGEMENT'', ''ACKNOWLEDGED''), (''REVIEW'', ''READY_FOR_REVIEW''),
      (''REVIEW'', ''CHANGES_REQUESTED''), (''REVIEW'', ''APPROVED''), (''DECISION'', ''APPROVED''),
      (''DECISION'', ''CANCELLED''), (''RESOLUTION'', ''RESOLVED''), (''RESOLUTION'', ''CANCELLED'')]"

definition PERMISSION_READ_SELF :: string where "PERMISSION_READ_SELF = ''coordination:read:self''"
definition PERMISSION_READ_ANY :: string where "PERMISSION_READ_ANY = ''coordination:read:any''"
definition PERMISSION_POST :: string where "PERMISSION_POST = ''coordination:post''"
definition PERMISSION_ACKNOWLEDGE :: string where "PERMISSION_ACKNOWLEDGE = ''coordination:acknowledge''"
definition PERMISSION_STATUS :: string where "PERMISSION_STATUS = ''coordination:status''"
definition PERMISSION_REVIEW :: string where "PERMISSION_REVIEW = ''coordination:review''"
definition PERMISSION_RESOLVE :: string where "PERMISSION_RESOLVE = ''coordination:resolve''"
definition PERMISSION_DECIDE :: string where "PERMISSION_DECIDE = ''coordination:decide''"

definition ALL_PERMISSIONS :: "string list" where
  "ALL_PERMISSIONS = [PERMISSION_READ_SELF, PERMISSION_READ_ANY, PERMISSION_POST, PERMISSION_ACKNOWLEDGE, PERMISSION_STATUS,
     PERMISSION_REVIEW, PERMISSION_RESOLVE, PERMISSION_DECIDE]"

text \<open>
  The exceptions by the clause of \<^verbatim>\<open>_receipted\<close> that catches them;
  \<^verbatim>\<open>CoordinationRepositoryCorrupt\<close> is a \<^verbatim>\<open>RepositoryConflict\<close>.
\<close>

datatype bus_error =
    Bus_denied string
  | Bus_invalid string
  | Bus_conflict string
  | Bus_corrupt string
  | Bus_not_found string

fun error_text :: "bus_error \<Rightarrow> string" where
  "error_text (Bus_denied m) = m"
| "error_text (Bus_invalid m) = m"
| "error_text (Bus_conflict m) = m"
| "error_text (Bus_corrupt m) = m"
| "error_text (Bus_not_found m) = m"

section \<open>Canonical values\<close>

fun canonicalize :: "py_env \<Rightarrow> json \<Rightarrow> (canon_error, json) result" where
  "canonicalize E (JFloat t) = rbind (or_raise (float_repr E t) Float_not_finite) (\<lambda>_. Inr (JFloat t))"
| "canonicalize E (JArr vs) = rbind (rmap_list (canonicalize E) vs) (\<lambda>ws. Inr (JArr ws))"
| "canonicalize E (JObj kvs) =
     rbind (rmap_list (\<lambda>kv. rbind (canonicalize E (snd kv)) (\<lambda>w. Inr (fst kv, w))) (sort_key fst kvs)) (\<lambda>d. Inr (JObj d))"
| "canonicalize E v = Inr v"

definition not_finite :: "canon_error \<Rightarrow> bus_error" where
  "not_finite e = Bus_invalid ''non-finite floats are not valid JSON''"

definition canonical_value :: "py_env \<Rightarrow> json \<Rightarrow> (bus_error, json) result" where
  "canonical_value E v = map_err not_finite (canonicalize E v)"

definition canonical_hash :: "py_env \<Rightarrow> json \<Rightarrow> (bus_error, string) result" where
  "canonical_hash E v =
     rbind (canonical_value E v) (\<lambda>w. rbind (map_err not_finite (canonical_dumps E w)) (\<lambda>t. Inr (sha256_hexdigest (utf8 t))))"

section \<open>Validation\<close>

definition text_fault :: "string \<Rightarrow> string option" where
  "text_fault value =
     (if py_strip value = [] then Some '' must be a non-empty string''
      else if \<exists>c\<in>set value. code c < 32 \<and> c \<notin> {CHR 0x09, CHR 0x0A, CHR 0x0D} then Some '' contains control characters''
      else None)"

definition validate_text :: "string \<Rightarrow> string \<Rightarrow> (bus_error, unit) result" where
  "validate_text value name = (case text_fault value of None \<Rightarrow> Inr () | Some m \<Rightarrow> Inl (Bus_invalid (name @ m)))"

definition validate_optional_text :: "string option \<Rightarrow> string \<Rightarrow> (bus_error, unit) result" where
  "validate_optional_text value name = (case value of None \<Rightarrow> Inr () | Some s \<Rightarrow> validate_text s name)"

definition validate_json_object :: "py_env \<Rightarrow> json \<Rightarrow> string \<Rightarrow> (bus_error, unit) result" where
  "validate_json_object E value name =
     rbind (ensure (is_dict value) (Bus_invalid (name @ '' must be a JSON object''))) (\<lambda>_.
     rbind (canonical_value E value) (\<lambda>_. Inr ()))"

definition validate_workstream :: "string \<Rightarrow> string \<Rightarrow> (bus_error, unit) result" where
  "validate_workstream value name =
     rbind (ensure (value \<notin> set OBSOLETE_WORKSTREAMS)
       (Bus_invalid (name @ '' uses obsolete route '' @ repr_str value @ ''; use '' @ repr_str ''workstream/initiatives''))) (\<lambda>_.
     ensure (value \<in> set WORKSTREAMS)
       (Bus_invalid (name @ '' must be one of ['' @ comma_join (map repr_str (sort WORKSTREAMS)) @ '']'')))"

definition validate_stored_address :: "string \<Rightarrow> string \<Rightarrow> (bus_error, unit) result" where
  "validate_stored_address value name =
     rbind (validate_text value name) (\<lambda>_. ensure (length value \<le> 256) (Bus_invalid (name @ '' is too long'')))"

definition classify_stored_address :: "string \<Rightarrow> string" where
  "classify_stored_address value = (if value \<in> set WORKSTREAMS then ''CANONICAL'' else ''LEGACY'')"

section \<open>Actors\<close>

record actor =
  ac_workstream :: string
  ac_permissions :: "string list"

text \<open>The constructor with its \<^verbatim>\<open>__post_init__\<close>.\<close>

definition make_actor :: "string \<Rightarrow> string list \<Rightarrow> (bus_error, actor) result" where
  "make_actor workstream permissions =
     (case validate_workstream workstream ''workstream'' of
        Inr _ \<Rightarrow> Inr \<lparr>ac_workstream = workstream, ac_permissions = permissions\<rparr>
      | Inl e \<Rightarrow> Inl (if workstream \<in> set OBSOLETE_WORKSTREAMS
           then Bus_invalid (''STRICT_ACTOR_OBSOLETE_ROUTE: use '' @ repr_str ''workstream/initiatives'') else e))"

definition validate_actor :: "actor \<Rightarrow> (bus_error, unit) result" where
  "validate_actor a =
     rbind (validate_workstream (ac_workstream a) ''workstream'') (\<lambda>_.
       let unknown = sort (remdups (filter (\<lambda>p. p \<notin> set ALL_PERMISSIONS) (ac_permissions a)))
       in ensure (unknown = []) (Bus_invalid (''unknown permissions: '' @ comma_join unknown)))"

definition require :: "actor \<Rightarrow> string \<Rightarrow> (bus_error, unit) result" where
  "require a permission =
     rbind (validate_actor a) (\<lambda>_.
     ensure (permission \<in> set (ac_permissions a))
       (Bus_denied (ac_workstream a @ '' lacks required permission '' @ repr_str permission)))"

section \<open>Drafts\<close>

text \<open>The columns a draft, an event and a stored row have in common.\<close>

record draft_columns =
  dt_thread :: string
  dt_source :: string
  dt_target :: "string option"
  dt_type :: string
  dt_status :: string
  dt_objective :: string
  dt_summary :: string
  dt_active_issue :: "string option"
  dt_requested :: "string option"
  dt_supersedes :: "string option"
  dt_acknowledges :: "string option"

record event_draft = draft_columns +
  dt_payload :: json
  dt_reference :: json

definition given :: "string option \<Rightarrow> bool" where
  "given s = (case s of None \<Rightarrow> False | Some t \<Rightarrow> t \<noteq> [])"

definition validate_draft :: "py_env \<Rightarrow> event_draft \<Rightarrow> (bus_error, unit) result" where
  "validate_draft E d =
     rbind (validate_text (dt_thread d) ''thread_key'') (\<lambda>_.
     rbind (validate_workstream (dt_source d) ''source_branch'') (\<lambda>_.
     rbind (case dt_target d of None \<Rightarrow> Inr () | Some t \<Rightarrow> validate_workstream t ''target_branch'') (\<lambda>_.
     rbind (ensure (dt_type d \<in> set BUS_EVENT_TYPES) (Bus_invalid (''unsupported event_type '' @ repr_str (dt_type d)))) (\<lambda>_.
     rbind (ensure (dt_status d \<in> set STATUSES) (Bus_invalid (''unsupported status '' @ repr_str (dt_status d)))) (\<lambda>_.
     rbind (ensure ((dt_type d, dt_status d) \<in> set EVENT_STATUS_PAIRS)
       (Bus_invalid (''invalid event_type/status pair: '' @ dt_type d @ ''/'' @ dt_status d))) (\<lambda>_.
     rbind (validate_text (dt_objective d) ''objective'') (\<lambda>_.
     rbind (validate_text (dt_summary d) ''summary'') (\<lambda>_.
     rbind (validate_optional_text (dt_active_issue d) ''active_issue'') (\<lambda>_.
     rbind (validate_optional_text (dt_requested d) ''requested_perspective'') (\<lambda>_.
     rbind (validate_optional_text (dt_supersedes d) ''supersedes_event_id'') (\<lambda>_.
     rbind (validate_optional_text (dt_acknowledges d) ''acknowledges_event_id'') (\<lambda>_.
     rbind (validate_json_object E (dt_payload d) ''payload'') (\<lambda>_.
     rbind (validate_json_object E (dt_reference d) ''reference_data'') (\<lambda>_.
     rbind (ensure (dt_type d \<in> {''ACKNOWLEDGEMENT'', ''REVIEW'', ''RESOLUTION''} \<longrightarrow> given (dt_acknowledges d))
       (Bus_invalid (dt_type d @ '' requires acknowledges_event_id''))) (\<lambda>_.
     rbind (ensure (dt_type d = ''ISSUE'' \<longrightarrow> dt_active_issue d \<noteq> None) (Bus_invalid ''ISSUE requires active_issue'')) (\<lambda>_.
     ensure (dt_type d = ''REVIEW'' \<longrightarrow> dt_requested d = None)
       (Bus_invalid ''REVIEW must answer, not request, a perspective'')))))))))))))))))"

definition draft_fields :: "'a draft_columns_scheme \<Rightarrow> json \<Rightarrow> json \<Rightarrow> (string \<times> json) list" where
  "draft_fields d payload reference =
     [(''thread_key'', JStr (dt_thread d)), (''source_branch'', JStr (dt_source d)), (''target_branch'', opt_str (dt_target d)),
      (''event_type'', JStr (dt_type d)), (''status'', JStr (dt_status d)), (''objective'', JStr (dt_objective d)),
      (''summary'', JStr (dt_summary d)), (''active_issue'', opt_str (dt_active_issue d)),
      (''requested_perspective'', opt_str (dt_requested d)), (''supersedes_event_id'', opt_str (dt_supersedes d)),
      (''acknowledges_event_id'', opt_str (dt_acknowledges d)), (''payload'', payload), (''reference_data'', reference)]"

definition canonical_dict :: "py_env \<Rightarrow> event_draft \<Rightarrow> (bus_error, (string \<times> json) list) result" where
  "canonical_dict E d =
     rbind (validate_draft E d) (\<lambda>_.
     rbind (canonical_value E (dt_payload d)) (\<lambda>payload.
     rbind (canonical_value E (dt_reference d)) (\<lambda>reference. Inr (draft_fields d payload reference))))"

section \<open>Events\<close>

record bus_event =
  be_id :: string
  be_sequence :: int
  be_draft :: event_draft
  be_record_time :: string
  be_source_class :: string
  be_target_class :: "string option"

text \<open>\<^verbatim>\<open>asdict\<close> of an event; the fields it shares with a draft are kept as one.\<close>

definition bus_event_fields :: "bus_event \<Rightarrow> (string \<times> json) list" where
  "bus_event_fields e =
     [(''event_id'', JStr (be_id e)), (''event_sequence'', JInt (be_sequence e))]
     @ draft_fields (be_draft e) (dt_payload (be_draft e)) (dt_reference (be_draft e))
     @ [(''record_time'', JStr (be_record_time e)), (''source_address_class'', JStr (be_source_class e)),
        (''target_address_class'', opt_str (be_target_class e)), (''record_class'', JStr ''OPERATIONAL_COORDINATION''),
        (''instruction_trust'', JStr ''DATA_NOT_INSTRUCTION''), (''canonical_memory_eligible'', JBool False)]"

definition event_dict :: "py_env \<Rightarrow> bus_event \<Rightarrow> (bus_error, json) result" where
  "event_dict E e = canonical_value E (JObj (bus_event_fields e))"

text \<open>The identity of an event: the first half of the digest of its draft at its place.\<close>

definition event_identity :: "py_env \<Rightarrow> int \<Rightarrow> (string \<times> json) list \<Rightarrow> (bus_error, string) result" where
  "event_identity E sequence kvs =
     rbind (canonical_hash E (JObj ([(''schema'', JStr ''VERA_COORDINATION_EVENT_ID_V1''), (''sequence'', JInt sequence)] @ kvs)))
       (\<lambda>d. Inr (take 32 d))"

text \<open>The event both repositories make of a draft.\<close>

definition make_event :: "py_env \<Rightarrow> string \<Rightarrow> int \<Rightarrow> event_draft \<Rightarrow> (bus_error, bus_event) result" where
  "make_event E record_time sequence d =
     rbind (canonical_dict E d) (\<lambda>kvs.
     rbind (event_identity E sequence kvs) (\<lambda>eid.
     rbind (canonical_value E (dt_payload d)) (\<lambda>payload.
     rbind (canonical_value E (dt_reference d)) (\<lambda>reference.
       Inr \<lparr>be_id = eid, be_sequence = sequence, be_draft = d\<lparr>dt_payload := payload, dt_reference := reference\<rparr>,
            be_record_time = record_time, be_source_class = ''CANONICAL'',
            be_target_class = map_option classify_stored_address (dt_target d)\<rparr>))))"

text \<open>\<^verbatim>\<open>from_row\<close>, on the columns of a row with its two JSON columns decoded.\<close>

definition event_of_columns :: "py_env \<Rightarrow> string \<Rightarrow> int \<Rightarrow> event_draft \<Rightarrow> string \<Rightarrow> (bus_error, bus_event) result" where
  "event_of_columns E eid sequence d record_time =
     rbind (ensure (dt_type d \<in> set BUS_EVENT_TYPES) (Bus_invalid (''unsupported stored event_type '' @ repr_str (dt_type d)))) (\<lambda>_.
     rbind (ensure (dt_status d \<in> set STATUSES \<and> (dt_type d, dt_status d) \<in> set EVENT_STATUS_PAIRS)
       (Bus_invalid (''invalid stored event_type/status pair: '' @ dt_type d @ ''/'' @ dt_status d))) (\<lambda>_.
     rbind (validate_stored_address (dt_source d) ''source_branch'') (\<lambda>_.
     rbind (case dt_target d of None \<Rightarrow> Inr () | Some t \<Rightarrow> validate_stored_address t ''target_branch'') (\<lambda>_.
     rbind (validate_json_object E (dt_payload d) ''payload'') (\<lambda>_.
     rbind (validate_json_object E (dt_reference d) ''reference_data'') (\<lambda>_.
     rbind (canonical_value E (dt_payload d)) (\<lambda>payload.
     rbind (canonical_value E (dt_reference d)) (\<lambda>reference.
     rbind (validate_text eid ''event_id'') (\<lambda>_.
     rbind (validate_text (dt_thread d) ''thread_key'') (\<lambda>_.
     rbind (validate_text (dt_objective d) ''objective'') (\<lambda>_.
     rbind (validate_text (dt_summary d) ''summary'') (\<lambda>_.
     rbind (validate_text record_time ''record_time'') (\<lambda>_.
     rbind (ensure (0 < sequence) (Bus_invalid ''event_sequence must be positive'')) (\<lambda>_.
       Inr \<lparr>be_id = eid, be_sequence = sequence, be_draft = d\<lparr>dt_payload := payload, dt_reference := reference\<rparr>,
            be_record_time = record_time, be_source_class = classify_stored_address (dt_source d),
            be_target_class = map_option classify_stored_address (dt_target d)\<rparr>))))))))))))))"

section \<open>Receipts\<close>

record bus_receipt =
  br_operation :: string
  br_result_class :: string
  br_outcome :: string
  br_workstream :: string
  br_thread :: "string option"
  br_event_id :: "string option"
  br_event_sequence :: "int option"
  br_target :: "string option"
  br_confirmed :: bool
  br_acknowledges :: "string option"
  br_hash :: string
  br_error :: "string option"
  br_limitations :: "string list"

record bus_result =
  bs_receipt :: bus_receipt
  bs_events :: "bus_event list"

definition py_upper :: "string \<Rightarrow> string" where
  "py_upper s = map (\<lambda>c. if CHR ''a'' \<le> c \<and> c \<le> CHR ''z'' then char_of (code c - 32) else c) s"

definition opt_num :: "int option \<Rightarrow> json" where
  "opt_num n = (case n of None \<Rightarrow> JNull | Some i \<Rightarrow> JInt i)"

definition bus_receipt_body :: "bus_receipt \<Rightarrow> json list \<Rightarrow> json" where
  "bus_receipt_body r events =
     JObj [(''schema'', JStr ''VERA_COORDINATION_RECEIPT_V1''), (''operation'', JStr (br_operation r)),
           (''result_class'', JStr (br_result_class r)), (''outcome_code'', JStr (br_outcome r)),
           (''actor_workstream'', JStr (br_workstream r)), (''thread_key'', opt_str (br_thread r)),
           (''event_id'', opt_str (br_event_id r)), (''event_sequence'', opt_num (br_event_sequence r)),
           (''target_branch'', opt_str (br_target r)), (''database_write_confirmed'', JBool (br_confirmed r)),
           (''acknowledges_event_id'', opt_str (br_acknowledges r)), (''record_class'', JStr ''OPERATIONAL_COORDINATION''),
           (''instruction_trust'', JStr ''DATA_NOT_INSTRUCTION''), (''canonical_memory_eligible'', JBool False),
           (''events'', JArr events), (''error'', opt_str (br_error r)),
           (''limitations'', JArr (map JStr (br_limitations r)))]"

definition make_result ::
  "py_env \<Rightarrow> string \<Rightarrow> string \<Rightarrow> actor \<Rightarrow> bus_event list \<Rightarrow> bool \<Rightarrow> string option \<Rightarrow> string option \<Rightarrow> string option \<Rightarrow>
     string list \<Rightarrow> string option \<Rightarrow> (bus_error, bus_result) result" where
  "make_result E operation result_class a events confirmed thread_key target acknowledges limitations error =
     (let event = (if events = [] then None else Some (last events));
          r = \<lparr>br_operation = operation, br_result_class = result_class, br_outcome = py_upper operation @ ''_'' @ result_class,
               br_workstream = ac_workstream a, br_thread = thread_key, br_event_id = map_option be_id event,
               br_event_sequence = map_option be_sequence event, br_target = target, br_confirmed = confirmed,
               br_acknowledges = acknowledges, br_hash = [], br_error = error, br_limitations = limitations\<rparr>
      in rbind (rmap_list (event_dict E) events) (\<lambda>dicts.
         rbind (canonical_hash E (bus_receipt_body r dicts)) (\<lambda>h.
           Inr \<lparr>bs_receipt = r\<lparr>br_hash := h\<rparr>, bs_events = events\<rparr>)))"

end
