(* ===== verification/Bus_Store.thy ===== *)
theory Bus_Store
  imports Bus_Contracts
begin

text \<open>
  \<^verbatim>\<open>coordination_bus.sqlite_repository\<close>: the append-only, digest-chained event store of
  the coordination bus. A table is the list of its rows in insertion order; \<open>now\<close> is the text
  \<^verbatim>\<open>datetime.now(...)\<close> gives.
\<close>

definition BUS_SCHEMA :: string where
  "BUS_SCHEMA = ''VERA_MONO_COORDINATION_SQLITE_V1''"

definition BUS_GENESIS :: string where
  "BUS_GENESIS = digest_of (JObj [(''schema'', JStr ''VERA_MONO_COORDINATION_SQLITE_GENESIS_V1'')])"

record bus_row = draft_columns +
  bw_sequence :: int
  bw_id :: string
  bw_payload_json :: string
  bw_reference_json :: string
  bw_record_time :: string
  bw_predecessor :: string
  bw_digest :: string

record bus_meta =
  bm_schema :: string
  bm_sequence :: int
  bm_head :: string

record bus_store =
  sq_rows :: "bus_row list"
  sq_meta :: "bus_meta option"

section \<open>Rows and events\<close>

definition bus_json :: "py_env \<Rightarrow> json \<Rightarrow> (bus_error, string) result" where
  "bus_json E v = rbind (canonical_value E v) (\<lambda>w. map_err not_finite (canonical_dumps E w))"

definition decode_object :: "string \<Rightarrow> string \<Rightarrow> (bus_error, json) result" where
  "decode_object value label =
     rbind (map_err (\<lambda>_. Bus_corrupt (label @ '' is not valid JSON'')) (loads plain_hooks value)) (\<lambda>decoded.
     rbind (ensure (is_dict decoded) (Bus_corrupt (label @ '' must decode to an object''))) (\<lambda>_. Inr decoded))"

definition with_json :: "'a draft_columns_scheme \<Rightarrow> json \<Rightarrow> json \<Rightarrow> event_draft" where
  "with_json c payload reference =
     \<lparr>dt_thread = dt_thread c, dt_source = dt_source c, dt_target = dt_target c, dt_type = dt_type c, dt_status = dt_status c,
      dt_objective = dt_objective c, dt_summary = dt_summary c, dt_active_issue = dt_active_issue c,
      dt_requested = dt_requested c, dt_supersedes = dt_supersedes c, dt_acknowledges = dt_acknowledges c,
      dt_payload = payload, dt_reference = reference\<rparr>"

definition event_from_row :: "py_env \<Rightarrow> bus_row \<Rightarrow> (bus_error, bus_event) result" where
  "event_from_row E row =
     rbind (decode_object (bw_payload_json row) ''coordination payload'') (\<lambda>payload.
     rbind (decode_object (bw_reference_json row) ''coordination reference_data'') (\<lambda>reference.
       event_of_columns E (bw_id row) (bw_sequence row) (with_json row payload reference) (bw_record_time row)))"

definition bus_event_digest :: "py_env \<Rightarrow> bus_event \<Rightarrow> string \<Rightarrow> (bus_error, string) result" where
  "bus_event_digest E e predecessor =
     rbind (event_dict E e) (\<lambda>body.
       canonical_hash E (JObj [(''schema'', JStr ''VERA_MONO_COORDINATION_SQLITE_EVENT_V1''),
         (''predecessor_digest'', JStr predecessor), (''event'', body)]))"

definition read_meta :: "bus_store \<Rightarrow> (bus_error, bus_meta) result" where
  "read_meta S = or_raise (sq_meta S) (Bus_corrupt ''coordination repository meta row is missing'')"

section \<open>Verification\<close>

text \<open>The lineage checks of one event against the events before it.\<close>

definition check_lineage :: "bus_event list \<Rightarrow> string list \<Rightarrow> bus_event \<Rightarrow> (bus_error, string list) result" where
  "check_lineage seen successors e =
     rbind (case dt_acknowledges (be_draft e) of None \<Rightarrow> Inr ()
            | Some k \<Rightarrow> ensure (\<exists>original. row_of be_id k seen = Some original \<and>
                           dt_thread (be_draft original) = dt_thread (be_draft e))
                         (Bus_corrupt ''coordination acknowledgement lineage is invalid'')) (\<lambda>_.
     (case dt_supersedes (be_draft e) of None \<Rightarrow> Inr successors
      | Some k \<Rightarrow>
          rbind (ensure (\<exists>prior. row_of be_id k seen = Some prior \<and> dt_thread (be_draft prior) = dt_thread (be_draft e))
            (Bus_corrupt ''coordination supersession lineage is invalid'')) (\<lambda>_.
          rbind (ensure (k \<notin> set successors) (Bus_corrupt ''coordination event has multiple successors'')) (\<lambda>_.
            Inr (successors @ [k])))))"

definition verify_event ::
  "py_env \<Rightarrow> string \<Rightarrow> int \<Rightarrow> bus_event list \<Rightarrow> string list \<Rightarrow> bus_row \<Rightarrow> (bus_error, bus_event \<times> string list) result" where
  "verify_event E predecessor expected seen successors row =
     rbind (ensure (bw_sequence row = expected) (Bus_corrupt ''coordination event sequence gap'')) (\<lambda>_.
     rbind (ensure (bw_predecessor row = predecessor) (Bus_corrupt ''coordination predecessor digest mismatch'')) (\<lambda>_.
     rbind (event_from_row E row) (\<lambda>e.
     rbind (ensure (be_id e \<notin> be_id ` set seen) (Bus_corrupt ''duplicate coordination event identity'')) (\<lambda>_.
     rbind (canonical_value E (dt_payload (be_draft e))) (\<lambda>payload.
     rbind (canonical_value E (dt_reference (be_draft e))) (\<lambda>reference.
     rbind (event_identity E (be_sequence e) (draft_fields (be_draft e) payload reference)) (\<lambda>expected_id.
     rbind (ensure (expected_id = be_id e) (Bus_corrupt ''coordination event identity mismatch'')) (\<lambda>_.
     rbind (check_lineage seen successors e) (\<lambda>successors'.
     rbind (bus_event_digest E e predecessor) (\<lambda>observed.
     rbind (ensure (observed = bw_digest row) (Bus_corrupt ''coordination event digest mismatch'')) (\<lambda>_.
       Inr (e, successors'))))))))))))"

fun verify_bus_events ::
  "py_env \<Rightarrow> string \<Rightarrow> int \<Rightarrow> bus_event list \<Rightarrow> string list \<Rightarrow> bus_row list \<Rightarrow> (bus_error, string \<times> int) result" where
  "verify_bus_events E predecessor expected seen successors [] = Inr (predecessor, expected)"
| "verify_bus_events E predecessor expected seen successors (row # rows) =
     rbind (verify_event E predecessor expected seen successors row) (\<lambda>(e, successors').
       verify_bus_events E (bw_digest row) (expected + 1) (seen @ [e]) successors' rows)"

definition verify_bus :: "py_env \<Rightarrow> bus_store \<Rightarrow> (bus_error, string) result" where
  "verify_bus E S =
     rbind (read_meta S) (\<lambda>meta.
     rbind (verify_bus_events E BUS_GENESIS 1 [] [] (sort_key bw_sequence (sq_rows S))) (\<lambda>(expected_head, expected).
     rbind (ensure (bm_sequence meta = expected - 1) (Bus_corrupt ''coordination meta sequence mismatch'')) (\<lambda>_.
     rbind (ensure (bm_head meta = expected_head) (Bus_corrupt ''coordination meta head mismatch'')) (\<lambda>_.
       Inr (bm_head meta)))))"

section \<open>Operations\<close>

text \<open>The constructor, on the rows and the meta row of the file.\<close>

definition open_bus :: "py_env \<Rightarrow> bus_store \<Rightarrow> (bus_error, bus_store) result" where
  "open_bus E S =
     rbind (case sq_meta S of
              None \<Rightarrow> Inr (S\<lparr>sq_meta := Some \<lparr>bm_schema = BUS_SCHEMA, bm_sequence = 0, bm_head = BUS_GENESIS\<rparr>\<rparr>)
            | Some meta \<Rightarrow> rbind (ensure (bm_schema meta = BUS_SCHEMA)
                (Bus_corrupt ''coordination repository schema identity mismatch'')) (\<lambda>_. Inr S)) (\<lambda>S'.
     rbind (verify_bus E S') (\<lambda>_. Inr S'))"

definition same_thread :: "bus_store \<Rightarrow> string \<Rightarrow> string \<Rightarrow> string \<Rightarrow> string \<Rightarrow> (bus_error, unit) result" where
  "same_thread S thread_key k missing elsewhere =
     rbind (or_raise (row_of bw_id k (sq_rows S)) (Bus_conflict missing)) (\<lambda>row.
     ensure (dt_thread row = thread_key) (Bus_conflict elsewhere))"

definition append_lineage :: "bus_store \<Rightarrow> event_draft \<Rightarrow> (bus_error, unit) result" where
  "append_lineage S d =
     rbind (case dt_acknowledges d of None \<Rightarrow> Inr ()
            | Some k \<Rightarrow> same_thread S (dt_thread d) k ''acknowledged coordination event does not exist''
                          ''acknowledgement must stay in same thread'') (\<lambda>_.
     (case dt_supersedes d of None \<Rightarrow> Inr ()
      | Some k \<Rightarrow>
          rbind (ensure (dt_acknowledges d \<noteq> Some k) (Bus_conflict ''one reference cannot acknowledge and supersede'')) (\<lambda>_.
          same_thread S (dt_thread d) k ''superseded coordination event does not exist''
            ''supersession must stay in same thread'')))"

definition row_of_event :: "bus_event \<Rightarrow> string \<Rightarrow> string \<Rightarrow> string \<Rightarrow> string \<Rightarrow> bus_row" where
  "row_of_event e payload_json reference_json predecessor digest =
     (let d = be_draft e
      in \<lparr>dt_thread = dt_thread d, dt_source = dt_source d, dt_target = dt_target d, dt_type = dt_type d, dt_status = dt_status d,
          dt_objective = dt_objective d, dt_summary = dt_summary d, dt_active_issue = dt_active_issue d,
          dt_requested = dt_requested d, dt_supersedes = dt_supersedes d, dt_acknowledges = dt_acknowledges d,
          bw_sequence = be_sequence e, bw_id = be_id e, bw_payload_json = payload_json, bw_reference_json = reference_json,
          bw_record_time = be_record_time e, bw_predecessor = predecessor, bw_digest = digest\<rparr>)"

text \<open>The primary key, the unique columns and the partial unique index of successors.\<close>

definition unique_in :: "bus_row list \<Rightarrow> bus_row \<Rightarrow> bool" where
  "unique_in rows row \<longleftrightarrow> bw_sequence row \<notin> bw_sequence ` set rows \<and> bw_id row \<notin> bw_id ` set rows
     \<and> bw_digest row \<notin> bw_digest ` set rows \<and> (dt_supersedes row \<noteq> None \<longrightarrow> dt_supersedes row \<notin> dt_supersedes ` set rows)"

definition insert_bus_event :: "bus_store \<Rightarrow> bus_row \<Rightarrow> (bus_error, bus_store) result" where
  "insert_bus_event S row =
     rbind (ensure (unique_in (sq_rows S) row) (Bus_conflict ''coordination append uniqueness conflict'')) (\<lambda>_.
       Inr (S\<lparr>sq_rows := sq_rows S @ [row],
              sq_meta := map_option (\<lambda>m. m\<lparr>bm_sequence := bw_sequence row, bm_head := bw_digest row\<rparr>) (sq_meta S)\<rparr>))"

definition store_append :: "py_env \<Rightarrow> string \<Rightarrow> event_draft \<Rightarrow> bus_store \<Rightarrow> (bus_error, bus_event \<times> bus_store) result" where
  "store_append E now d S =
     rbind (validate_draft E d) (\<lambda>_.
     rbind (read_meta S) (\<lambda>meta.
     rbind (append_lineage S d) (\<lambda>_.
     rbind (make_event E now (bm_sequence meta + 1) d) (\<lambda>e.
     rbind (bus_event_digest E e (bm_head meta)) (\<lambda>digest.
     rbind (bus_json E (dt_payload (be_draft e))) (\<lambda>payload_json.
     rbind (bus_json E (dt_reference (be_draft e))) (\<lambda>reference_json.
     rbind (insert_bus_event S (row_of_event e payload_json reference_json (bm_head meta) digest)) (\<lambda>S'.
       Inr (e, S')))))))))"

definition store_get :: "py_env \<Rightarrow> string \<Rightarrow> bus_store \<Rightarrow> (bus_error, bus_event option) result" where
  "store_get E k S =
     rbind (verify_bus E S) (\<lambda>_.
     (case row_of bw_id k (sq_rows S) of None \<Rightarrow> Inr None
      | Some row \<Rightarrow> rbind (event_from_row E row) (\<lambda>e. Inr (Some e))))"

definition store_thread :: "py_env \<Rightarrow> string \<Rightarrow> bus_store \<Rightarrow> (bus_error, bus_event list) result" where
  "store_thread E thread_key S =
     rbind (verify_bus E S) (\<lambda>_.
       rmap_list (event_from_row E) (sort_key bw_sequence (filter (\<lambda>r. dt_thread r = thread_key) (sq_rows S))))"

text \<open>The \<^verbatim>\<open>NOT EXISTS\<close> of the query, and \<^verbatim>\<open>LIMIT\<close>, which a negative bound lifts.\<close>

definition responded :: "string \<Rightarrow> ('a draft_columns_scheme) list \<Rightarrow> string \<Rightarrow> bool" where
  "responded target rows k \<longleftrightarrow> (\<exists>r\<in>set rows. dt_acknowledges r = Some k \<and> dt_source r = target)"

definition sql_limit :: "int \<Rightarrow> 'a list \<Rightarrow> 'a list" where
  "sql_limit n xs = (if n < 0 then xs else take (nat n) xs)"

definition store_inbox :: "py_env \<Rightarrow> string \<Rightarrow> int \<Rightarrow> int \<Rightarrow> bool \<Rightarrow> bus_store \<Rightarrow> (bus_error, bus_event list) result" where
  "store_inbox E target after limit include_acknowledged S =
     rbind (verify_bus E S) (\<lambda>_.
       rmap_list (event_from_row E) (sql_limit limit (sort_key bw_sequence
         (filter (\<lambda>r. dt_target r = Some target \<and> after < bw_sequence r \<and>
            (include_acknowledged \<or> \<not> responded target (sq_rows S) (bw_id r))) (sq_rows S)))))"

definition store_context :: "py_env \<Rightarrow> bus_store \<Rightarrow> (bus_error, int \<times> string) result" where
  "store_context E S =
     rbind (read_meta S) (\<lambda>meta. rbind (verify_bus E S) (\<lambda>head. Inr (bm_sequence meta, head)))"

section \<open>The repository in memory\<close>

text \<open>
  \<^verbatim>\<open>coordination_bus.in_memory\<close>: the reference repository, a list of events. Its clock is
  a text made of the sequence number, a parameter here as well.
\<close>

definition py_take :: "int \<Rightarrow> 'a list \<Rightarrow> 'a list" where
  "py_take n xs = (if n < 0 then take (length xs - nat (- n)) xs else take (nat n) xs)"

definition memory_append :: "py_env \<Rightarrow> (int \<Rightarrow> string) \<Rightarrow> event_draft \<Rightarrow> bus_event list \<Rightarrow> (bus_error, bus_event \<times> bus_event list) result" where
  "memory_append E clock d es =
     rbind (validate_draft E d) (\<lambda>_.
     let sequence = int (length es) + 1
     in rbind (make_event E (clock sequence) sequence d) (\<lambda>e. Inr (e, es @ [e])))"

definition memory_get :: "string \<Rightarrow> bus_event list \<Rightarrow> bus_event option" where
  "memory_get k es = row_of be_id k es"

definition memory_thread :: "string \<Rightarrow> bus_event list \<Rightarrow> bus_event list" where
  "memory_thread thread_key es = filter (\<lambda>e. dt_thread (be_draft e) = thread_key) es"

definition memory_inbox :: "string \<Rightarrow> int \<Rightarrow> int \<Rightarrow> bool \<Rightarrow> bus_event list \<Rightarrow> bus_event list" where
  "memory_inbox target after limit include_acknowledged es =
     (let answered = (\<lambda>e. dt_acknowledges (be_draft e)) ` {e \<in> set es. dt_source (be_draft e) = target \<and> given (dt_acknowledges (be_draft e))}
      in py_take limit (sort_key be_sequence (filter (\<lambda>e. dt_target (be_draft e) = Some target \<and> after < be_sequence e \<and>
           (include_acknowledged \<or> Some (be_id e) \<notin> answered)) es)))"

end
