(* ===== verification/Bus_Guarantees.thy ===== *)
theory Bus_Guarantees
  imports Bus_Store
begin

text \<open>
  What the event store of the coordination bus promises. A store holds a history: the rows are
  the rows of its events, each linked to the one before. Appending extends the history by one
  event, verification accepts every history, and the reads are those of the repository in
  memory.
\<close>

section \<open>Canonical values without floats\<close>

lemma canonicalize_wf: "wf_json v \<Longrightarrow> canonicalize E v = Inr (sorted_keys v)"
proof (induction v)
  case (JArr vs)
  then have "rmap_list (canonicalize E) vs = Inr (map sorted_keys vs)" by (induction vs) auto
  then show ?case by simp
next
  case (JObj kvs)
  have item: "canonicalize E (snd kv) = r8_prepare E (snd kv)" if "kv \<in> set kvs" for kv
    using that JObj r8_prepare_plain by (metis snds.intros wf_json.simps(3))
  have "rmap_list (\<lambda>kv. rbind (canonicalize E (snd kv)) (\<lambda>w. Inr (fst kv, w))) (sort_key fst kvs)
      = rmap_list (\<lambda>kv. rbind (r8_prepare E (snd kv)) (\<lambda>w. Inr (fst kv, w))) (sort_key fst kvs)"
    by (rule rmap_list_cong) (simp_all add: item)
  then show ?case using r8_prepare_plain [OF JObj.prems, of E] by simp
qed auto

lemma canonical_value_wf: "wf_json v \<Longrightarrow> canonical_value E v = Inr (sorted_keys v)"
  by (simp add: canonical_value_def canonicalize_wf)

lemma canonical_hash_wf: "wf_json v \<Longrightarrow> canonical_hash E v = Inr (digest_of v)"
  by (simp add: canonical_hash_def canonical_value_wf canonical_dumps_wf sorted_keys_wf digest_of_def sha256_hex_def)

lemma bus_json_wf: "wf_json v \<Longrightarrow> bus_json E v = Inr (text_of v)"
  by (simp add: bus_json_def canonical_value_wf canonical_dumps_wf sorted_keys_wf)

lemma is_dict_sorted [simp]: "is_dict (sorted_keys v) = is_dict v"
  by (cases v) (simp_all add: is_dict_def)

lemma decode_text: "wf_json v \<Longrightarrow> is_dict v \<Longrightarrow> decode_object (text_of v) label = Inr (sorted_keys v)"
  by (simp add: decode_object_def text_of_def sorted_keys_wf)

lemma json_object_wf: "wf_json v \<Longrightarrow> validate_json_object E v name = Inr () \<longleftrightarrow> is_dict v"
  by (auto simp: validate_json_object_def canonical_value_wf result_simps)

lemma json_object_ok: "wf_json v \<Longrightarrow> is_dict v \<Longrightarrow> validate_json_object E v name = Inr ()"
  by (simp add: json_object_wf)

lemma opt_str_wf [simp]: "wf_json (opt_str s)"
  by (simp add: opt_str_def split: option.split)

lemma genesis_hash: "canonical_hash E (JObj [(''schema'', JStr ''VERA_MONO_COORDINATION_SQLITE_GENESIS_V1'')]) = Inr BUS_GENESIS"
  by (simp add: canonical_hash_wf BUS_GENESIS_def)

section \<open>Events\<close>

lemma draft_fields_wf: "wf_json payload \<Longrightarrow> wf_json reference \<Longrightarrow>
    wf_json (JObj ([(''schema'', JStr x), (''sequence'', JInt n)] @ draft_fields d payload reference))"
  by (simp add: draft_fields_def)

definition event_sound :: "py_env \<Rightarrow> bus_event \<Rightarrow> bool" where
  "event_sound E e \<longleftrightarrow> event_of_columns E (be_id e) (be_sequence e) (be_draft e) (be_record_time e) = Inr e
     \<and> wf_json (dt_payload (be_draft e)) \<and> wf_json (dt_reference (be_draft e))
     \<and> event_identity E (be_sequence e) (draft_fields (be_draft e) (dt_payload (be_draft e)) (dt_reference (be_draft e))) = Inr (be_id e)"

lemma from_row_canonical:
  assumes "event_of_columns E eid n d t = Inr e"
  shows "be_id e = eid" "be_sequence e = n" "be_record_time e = t" "0 < n"
    "canonical_value E (dt_payload d) = Inr (dt_payload (be_draft e))"
    "canonical_value E (dt_reference d) = Inr (dt_reference (be_draft e))"
    "be_draft e = d\<lparr>dt_payload := dt_payload (be_draft e), dt_reference := dt_reference (be_draft e)\<rparr>"
    "is_dict (dt_payload d)" "is_dict (dt_reference d)"
    "be_source_class e = classify_stored_address (dt_source d)" "be_target_class e = map_option classify_stored_address (dt_target d)"
  using assms by (auto simp: event_of_columns_def result_simps validate_json_object_def)

lemma sound_canonical:
  assumes "event_sound E e"
  shows "sorted_keys (dt_payload (be_draft e)) = dt_payload (be_draft e)"
    "sorted_keys (dt_reference (be_draft e)) = dt_reference (be_draft e)"
    "is_dict (dt_payload (be_draft e))" "is_dict (dt_reference (be_draft e))"
    "wf_json (dt_payload (be_draft e))" "wf_json (dt_reference (be_draft e))" "0 < be_sequence e"
  using assms from_row_canonical [of E "be_id e" "be_sequence e" "be_draft e" "be_record_time e" e]
  by (auto simp: event_sound_def canonical_value_wf)

text \<open>The body of an event and the digest that links it.\<close>

definition event_mark :: "string \<Rightarrow> bus_event \<Rightarrow> string" where
  "event_mark p e = digest_of (JObj [(''schema'', JStr ''VERA_MONO_COORDINATION_SQLITE_EVENT_V1''),
     (''predecessor_digest'', JStr p), (''event'', JObj (bus_event_fields e))])"

lemma event_fields_wf:
  "wf_json (dt_payload (be_draft e)) \<Longrightarrow> wf_json (dt_reference (be_draft e)) \<Longrightarrow> wf_json (JObj (bus_event_fields e))"
  by (simp add: bus_event_fields_def draft_fields_def)

lemma event_digest_mark:
  assumes "wf_json (dt_payload (be_draft e))" "wf_json (dt_reference (be_draft e))"
  shows "bus_event_digest E e p = Inr (event_mark p e)"
proof -
  note w = event_fields_wf [OF assms]
  have "wf_json (JObj [(''schema'', JStr x), (''predecessor_digest'', JStr p), (''event'', sorted_keys (JObj (bus_event_fields e)))])" for x
    using sorted_keys_wf [OF w] by (simp del: sorted_keys.simps)
  then show ?thesis
    by (simp add: bus_event_digest_def event_dict_def canonical_value_wf [OF w] canonical_hash_wf event_mark_def digest_of_def text_of_def
        sorted_keys_idem [of "JObj (bus_event_fields e)", unfolded sorted_keys.simps]
        del: wf_json.simps)
qed

section \<open>The event of a draft\<close>

text \<open>A draft without floats; the clock gives a text that is not blank.\<close>

definition draft_plain :: "event_draft \<Rightarrow> bool" where
  "draft_plain d \<longleftrightarrow> wf_json (dt_payload d) \<and> wf_json (dt_reference d)"

lemma no_fault: "x \<noteq> [] \<Longrightarrow> \<forall>c\<in>set x. 32 < code c \<and> code c < 127 \<Longrightarrow> text_fault x = None"
proof -
  assume x: "x \<noteq> []" "\<forall>c\<in>set x. 32 < code c \<and> code c < 127"
  have graphic: "\<not> is_py_space c" if "c \<in> set x" for c using x(2) that by (auto simp: is_py_space_def is_c_space_def)
  then have "dropWhile is_py_space x = x" using x(1) by (cases x) auto
  moreover have "dropWhile is_py_space (rev x) = rev x" using graphic x(1) by (cases "rev x") (auto simp: dropWhile_eq_self_iff hd_rev)
  ultimately have "py_strip x = x" by (simp add: py_strip_def)
  moreover have "\<not> code c < 32" if "c \<in> set x" for c using x(2) that by force
  ultimately show ?thesis using x(1) by (auto simp: text_fault_def)
qed

lemma workstream_address:
  assumes "w \<in> set WORKSTREAMS"
  shows "validate_stored_address w name = Inr ()" "classify_stored_address w = ''CANONICAL''"
proof -
  have "list_all (\<lambda>w. w \<noteq> [] \<and> list_all (\<lambda>c. 32 < code c \<and> code c < 127) w \<and> length w \<le> 256) WORKSTREAMS"
    by code_simp
  then have "w \<noteq> [] \<and> (\<forall>c\<in>set w. 32 < code c \<and> code c < 127) \<and> length w \<le> 256"
    using assms by (auto simp: list_all_iff)
  then show "validate_stored_address w name = Inr ()" by (simp add: validate_stored_address_def validate_text_def no_fault)
  show "classify_stored_address w = ''CANONICAL''" using assms by (simp add: classify_stored_address_def)
qed

lemma identity_text:
  assumes "event_identity E n kvs = Inr i"
  shows "text_fault i = None"
proof -
  obtain m where i: "i = take 32 (sha256_hexdigest m)"
    using assms by (auto simp: event_identity_def canonical_hash_def result_simps)
  have hex: "is_lower_hex c" if "c \<in> set i" for c
    using sha256_lower_hex [of m] that by (auto simp: i list_all_iff dest: in_set_takeD)
  have len: "length i = 32" by (simp add: i)
  show ?thesis by (rule no_fault) (use hex len in \<open>force simp: is_lower_hex_def is_digit_def\<close>)+
qed

text \<open>What is made of a valid draft reads back as itself.\<close>

lemma make_event_fields:
  assumes "make_event E t n d = Inr e" "draft_plain d"
  shows "validate_draft E d = Inr ()" "be_sequence e = n" "be_record_time e = t"
    "be_draft e = d\<lparr>dt_payload := sorted_keys (dt_payload d), dt_reference := sorted_keys (dt_reference d)\<rparr>"
    "event_identity E n (draft_fields d (sorted_keys (dt_payload d)) (sorted_keys (dt_reference d))) = Inr (be_id e)"
    "be_source_class e = ''CANONICAL''" "be_target_class e = map_option classify_stored_address (dt_target d)"
  using assms by (auto simp: make_event_def canonical_dict_def result_simps draft_plain_def canonical_value_wf)

lemma draft_fields_same [simp]:
  "draft_fields (d\<lparr>dt_payload := p, dt_reference := q\<rparr>) = draft_fields (d :: event_draft)"
  by (simp add: fun_eq_iff draft_fields_def)

lemma valid_draft_facts:
  assumes "validate_draft E d = Inr ()" "draft_plain d"
  shows "text_fault (dt_thread d) = None" "dt_source d \<in> set WORKSTREAMS" "\<forall>t. dt_target d = Some t \<longrightarrow> t \<in> set WORKSTREAMS"
    "dt_type d \<in> set BUS_EVENT_TYPES" "dt_status d \<in> set STATUSES" "(dt_type d, dt_status d) \<in> set EVENT_STATUS_PAIRS"
    "text_fault (dt_objective d) = None" "text_fault (dt_summary d) = None" "is_dict (dt_payload d)" "is_dict (dt_reference d)"
  using assms
  by (auto simp: validate_draft_def result_simps validate_text_def validate_workstream_def draft_plain_def json_object_wf
      split: option.splits)

lemma make_event_sound:
  assumes "make_event E t n d = Inr e" "draft_plain d" "text_fault t = None" "0 < n"
  shows "event_sound E e"
proof -
  note f = make_event_fields [OF assms(1,2)]
  note v = valid_draft_facts [OF f(1) assms(2)]
  have plain: "wf_json (sorted_keys (dt_payload d))" "wf_json (sorted_keys (dt_reference d))"
    using assms(2) by (simp_all add: draft_plain_def sorted_keys_wf)
  have "event_of_columns E (be_id e) n (be_draft e) t = Inr e"
    using f v plain assms(3,4) identity_text [OF f(5)] workstream_address
    by (cases "dt_target d"; cases e)
      (auto simp: event_of_columns_def validate_text_def json_object_ok canonical_value_wf sorted_keys_idem)
  then show ?thesis using f plain by (simp add: event_sound_def)
qed

section \<open>Histories\<close>

definition superseded :: "bus_event list \<Rightarrow> string list" where
  "superseded es = List.map_filter (\<lambda>e. dt_supersedes (be_draft e)) es"

lemma superseded_simps [simp]:
  "superseded [] = []" "superseded (es @ fs) = superseded es @ superseded fs"
  "superseded [e] = (case dt_supersedes (be_draft e) of None \<Rightarrow> [] | Some k \<Rightarrow> [k])"
  by (simp_all add: superseded_def map_filter_def split: option.split)

lemma lineage_successors: "check_lineage seen succs e = Inr s \<Longrightarrow> s = succs @ superseded [e]"
  by (auto simp: check_lineage_def result_simps split: option.splits)

text \<open>An event that may come next.\<close>

definition follows_history :: "py_env \<Rightarrow> bus_event list \<Rightarrow> bus_event \<Rightarrow> bool" where
  "follows_history E seen e \<longleftrightarrow> event_sound E e \<and> be_sequence e = int (length seen) + 1 \<and> be_id e \<notin> be_id ` set seen
     \<and> ok (check_lineage seen (superseded seen) e)"

fun history_from :: "py_env \<Rightarrow> bus_event list \<Rightarrow> bus_event list \<Rightarrow> bool" where
  "history_from E seen [] = True"
| "history_from E seen (e # es) = (follows_history E seen e \<and> history_from E (seen @ [e]) es)"

abbreviation bus_history :: "py_env \<Rightarrow> bus_event list \<Rightarrow> bool" where
  "bus_history E es \<equiv> history_from E [] es"

lemma bus_history_append: "history_from E seen (es @ fs) \<longleftrightarrow> history_from E seen es \<and> history_from E (seen @ es) fs"
  by (induction es arbitrary: seen) auto

lemma history_sound: "history_from E seen es \<Longrightarrow> e \<in> set es \<Longrightarrow> event_sound E e"
  by (induction es arbitrary: seen) (auto simp: follows_history_def)

lemma history_numbered:
  "history_from E seen es \<Longrightarrow> map be_sequence es = map (\<lambda>i. int (length seen) + 1 + int i) [0..<length es]"
proof (induction es arbitrary: seen rule: rev_induct)
  case (snoc e es)
  then show ?case by (simp add: bus_history_append follows_history_def)
qed simp

lemma history_ids: "history_from E seen es \<Longrightarrow> distinct (map be_id seen) \<Longrightarrow> distinct (map be_id (seen @ es))"
proof (induction es rule: rev_induct)
  case (snoc e es)
  then show ?case by (auto simp: bus_history_append follows_history_def)
qed simp

text \<open>The rows of a history.\<close>

definition bus_row_of :: "string \<Rightarrow> bus_event \<Rightarrow> bus_row" where
  "bus_row_of p e = row_of_event e (text_of (dt_payload (be_draft e))) (text_of (dt_reference (be_draft e))) p (event_mark p e)"

fun bus_rows :: "string \<Rightarrow> bus_event list \<Rightarrow> bus_row list" where
  "bus_rows p [] = []"
| "bus_rows p (e # es) = bus_row_of p e # bus_rows (event_mark p e) es"

fun bus_head :: "string \<Rightarrow> bus_event list \<Rightarrow> string" where
  "bus_head p [] = p"
| "bus_head p (e # es) = bus_head (event_mark p e) es"

definition holds_history :: "py_env \<Rightarrow> bus_store \<Rightarrow> bus_event list \<Rightarrow> bool" where
  "holds_history E S es \<longleftrightarrow> bus_history E es \<and> sq_rows S = bus_rows BUS_GENESIS es \<and>
     sq_meta S = Some \<lparr>bm_schema = BUS_SCHEMA, bm_sequence = int (length es), bm_head = bus_head BUS_GENESIS es\<rparr>"

lemma bus_rows_append: "bus_rows p (es @ [e]) = bus_rows p es @ [bus_row_of (bus_head p es) e]"
  "bus_head p (es @ [e]) = event_mark (bus_head p es) e"
  by (induction es arbitrary: p) simp_all

lemma bus_row_simps [simp]:
  "bw_id (bus_row_of p e) = be_id e" "bw_sequence (bus_row_of p e) = be_sequence e" "bw_predecessor (bus_row_of p e) = p"
  "bw_digest (bus_row_of p e) = event_mark p e" "bw_record_time (bus_row_of p e) = be_record_time e"
  "dt_thread (bus_row_of p e) = dt_thread (be_draft e)" "dt_target (bus_row_of p e) = dt_target (be_draft e)"
  "dt_source (bus_row_of p e) = dt_source (be_draft e)" "dt_acknowledges (bus_row_of p e) = dt_acknowledges (be_draft e)"
  "dt_supersedes (bus_row_of p e) = dt_supersedes (be_draft e)"
  by (simp_all add: bus_row_of_def row_of_event_def Let_def)

lemma bus_row_columns: "with_json (bus_row_of p e) payload reference = (be_draft e)\<lparr>dt_payload := payload, dt_reference := reference\<rparr>"
  by (simp add: with_json_def bus_row_of_def row_of_event_def Let_def)

lemma row_reads_back:
  assumes "event_sound E e"
  shows "event_from_row E (bus_row_of p e) = Inr e"
proof -
  note c = sound_canonical [OF assms]
  have "bw_payload_json (bus_row_of p e) = text_of (dt_payload (be_draft e))" "bw_reference_json (bus_row_of p e) = text_of (dt_reference (be_draft e))"
    by (simp_all add: bus_row_of_def row_of_event_def Let_def)
  moreover have "(be_draft e)\<lparr>dt_payload := dt_payload (be_draft e), dt_reference := dt_reference (be_draft e)\<rparr> = be_draft e"
    by simp
  ultimately show ?thesis using assms c
    by (simp add: event_from_row_def decode_text bus_row_columns event_sound_def)
qed

lemma verify_history:
  assumes "history_from E seen es"
  shows "verify_bus_events E p (int (length seen) + 1) seen (superseded seen) (bus_rows p es)
    = Inr (bus_head p es, int (length seen) + int (length es) + 1)"
  using assms
proof (induction es arbitrary: seen p)
  case (Cons e es)
  then have e: "event_sound E e" "be_sequence e = int (length seen) + 1" "be_id e \<notin> be_id ` set seen"
    "ok (check_lineage seen (superseded seen) e)" "history_from E (seen @ [e]) es"
    by (simp_all add: follows_history_def)
  obtain s where s: "check_lineage seen (superseded seen) e = Inr s" using e(4) by (cases "check_lineage seen (superseded seen) e") auto
  note c = sound_canonical [OF e(1)]
  have "verify_event E p (int (length seen) + 1) seen (superseded seen) (bus_row_of p e) = Inr (e, superseded (seen @ [e]))"
    using e(1-3) s lineage_successors [OF s] c row_reads_back [OF e(1), of p]
    by (simp add: verify_event_def canonical_value_wf event_sound_def event_digest_mark)
  then show ?case using Cons.IH [OF e(5), of "event_mark p e"] by (simp add: algebra_simps)
qed simp

lemma bus_rows_sequence: "map bw_sequence (bus_rows p es) = map be_sequence es" "length (bus_rows p es) = length es"
  by (induction es arbitrary: p) simp_all

lemma rows_in_order:
  assumes "history_from E seen es"
  shows "sorted (map bw_sequence (bus_rows p es))"
  unfolding bus_rows_sequence history_numbered [OF assms] by (simp add: sorted_iff_nth_mono)

lemma verify_held:
  assumes "holds_history E S es"
  shows "verify_bus E S = Inr (bus_head BUS_GENESIS es)"
  using assms verify_history [of E "[]" es BUS_GENESIS] rows_in_order [of E "[]" es BUS_GENESIS]
  by (simp add: verify_bus_def holds_history_def read_meta_def sort_key_id_if_sorted)

section \<open>Appending and reading\<close>

lemma row_of_bus_rows:
  "row_of bw_id k (bus_rows p es) = None \<longleftrightarrow> row_of be_id k es = None"
  "row_of bw_id k (bus_rows p es) = Some row \<Longrightarrow> \<exists>q e. row = bus_row_of q e \<and> row_of be_id k es = Some e"
  by (induction es arbitrary: p) (auto simp: row_of_Cons split: if_splits)

lemma superseded_rows: "dt_supersedes ` set (bus_rows p es) = (dt_supersedes \<circ> be_draft) ` set es"
  by (induction es arbitrary: p) auto

lemma superseded_set: "k \<in> set (superseded es) \<longleftrightarrow> (\<exists>e\<in>set es. dt_supersedes (be_draft e) = Some k)"
  by (induction es) (auto simp: superseded_def map_filter_def split: option.split)

lemma same_thread_held:
  assumes "holds_history E S es" "same_thread S t k a b = Inr ()"
  shows "\<exists>original. row_of be_id k es = Some original \<and> dt_thread (be_draft original) = t"
  using assms row_of_bus_rows(2) [of k BUS_GENESIS es]
  by (fastforce simp: same_thread_def holds_history_def result_simps)

lemma lineage_held:
  assumes "holds_history E S es" "append_lineage S d = Inr ()" "unique_in (sq_rows S) row" "dt_supersedes row = dt_supersedes d"
    and e: "dt_thread (be_draft e) = dt_thread d" "dt_acknowledges (be_draft e) = dt_acknowledges d"
      "dt_supersedes (be_draft e) = dt_supersedes d"
  shows "ok (check_lineage es (superseded es) e)"
proof -
  note same = same_thread_held [OF assms(1)]
  have once: "dt_supersedes d = Some k \<Longrightarrow> k \<notin> set (superseded es)" for k
    using assms(1,3,4) by (force simp: unique_in_def holds_history_def superseded_rows superseded_set)
  have "case dt_acknowledges d of None \<Rightarrow> True
      | Some k \<Rightarrow> (\<exists>original. row_of be_id k es = Some original \<and> dt_thread (be_draft original) = dt_thread d)"
    using assms(2) same by (auto simp: append_lineage_def result_simps split: option.splits)
  moreover have "case dt_supersedes d of None \<Rightarrow> True
      | Some k \<Rightarrow> (\<exists>prior. row_of be_id k es = Some prior \<and> dt_thread (be_draft prior) = dt_thread d)"
    using assms(2) same by (auto simp: append_lineage_def result_simps split: option.splits)
  ultimately show ?thesis using e once by (auto simp: check_lineage_def split: option.splits)
qed

lemma append_holds:
  assumes "holds_history E S es" "store_append E now d S = Inr (e, S')" "draft_plain d" "text_fault now = None"
  shows "holds_history E S' (es @ [e])" "make_event E now (int (length es) + 1) d = Inr e"
proof -
  let ?head = "bus_head BUS_GENESIS es"
  have h: "sq_rows S = bus_rows BUS_GENESIS es" "sq_meta S = Some \<lparr>bm_schema = BUS_SCHEMA, bm_sequence = int (length es), bm_head = ?head\<rparr>"
    "bus_history E es" using assms(1) by (simp_all add: holds_history_def)
  obtain digest pj rj where a: "append_lineage S d = Inr ()" "make_event E now (int (length es) + 1) d = Inr e"
    "bus_event_digest E e ?head = Inr digest" "bus_json E (dt_payload (be_draft e)) = Inr pj"
    "bus_json E (dt_reference (be_draft e)) = Inr rj" "insert_bus_event S (row_of_event e pj rj ?head digest) = Inr S'"
    using assms(2) h(2) by (auto simp: store_append_def read_meta_def result_simps)
  show "make_event E now (int (length es) + 1) d = Inr e" by (rule a(2))
  have sound: "event_sound E e" by (rule make_event_sound [OF a(2) assms(3,4)]) simp
  note c = sound_canonical [OF sound] and f = make_event_fields [OF a(2) assms(3)]
  have row: "row_of_event e pj rj ?head digest = bus_row_of ?head e"
    using a(3-5) c by (simp add: event_digest_mark bus_json_wf bus_row_of_def)
  have u: "unique_in (sq_rows S) (bus_row_of ?head e)" and S': "S' = S\<lparr>sq_rows := sq_rows S @ [bus_row_of ?head e],
      sq_meta := map_option (\<lambda>m. m\<lparr>bm_sequence := be_sequence e, bm_head := event_mark ?head e\<rparr>) (sq_meta S)\<rparr>"
    using a(6) by (simp_all add: row insert_bus_event_def result_simps)
  have draft: "dt_thread (be_draft e) = dt_thread d" "dt_acknowledges (be_draft e) = dt_acknowledges d"
    "dt_supersedes (be_draft e) = dt_supersedes d" by (simp_all add: f(4))
  have "be_id e \<notin> be_id ` set es"
    using u h(1) row_of_bus_rows(1) [of "be_id e" BUS_GENESIS es] by (simp add: unique_in_def row_of_None_iff)
  then have "follows_history E es e"
    using sound f(2) lineage_held [OF assms(1) a(1) u _ draft] draft by (simp add: follows_history_def)
  then show "holds_history E S' (es @ [e])"
    using h f(2) by (simp add: holds_history_def S' bus_history_append bus_rows_append)
qed

lemma reads_back_rows:
  assumes "\<forall>e\<in>set es. event_sound E e"
  shows "rmap_list (event_from_row E) (filter (\<lambda>r. P (bw_id r) (bw_sequence r) (dt_target r) (dt_thread r)) (bus_rows p es))
    = Inr (filter (\<lambda>e. P (be_id e) (be_sequence e) (dt_target (be_draft e)) (dt_thread (be_draft e))) es)"
  using assms by (induction es arbitrary: p) (auto simp: row_reads_back)

lemma filter_in_order: "sorted (map f xs) \<Longrightarrow> sort_key f (filter P xs) = filter P xs"
  by (simp add: sort_key_id_if_sorted sorted_filter)

lemma rmap_take: "rmap_list f xs = Inr ys \<Longrightarrow> rmap_list f (take n xs) = Inr (take n ys)"
  by (induction xs arbitrary: ys n) (auto simp: result_simps take_Cons' split: nat.splits)

lemma responded_rows: "responded t (bus_rows p es) k \<longleftrightarrow> (\<exists>e\<in>set es. dt_source (be_draft e) = t \<and> dt_acknowledges (be_draft e) = Some k)"
  by (induction es arbitrary: p) (auto simp: responded_def)

definition answered :: "string \<Rightarrow> bus_event list \<Rightarrow> string \<Rightarrow> bool" where
  "answered t es k \<longleftrightarrow> (\<exists>e\<in>set es. dt_source (be_draft e) = t \<and> dt_acknowledges (be_draft e) = Some k)"

text \<open>What \<^verbatim>\<open>read_inbox\<close> gives without its limit.\<close>

definition inbox_of :: "string \<Rightarrow> int \<Rightarrow> bool \<Rightarrow> bus_event list \<Rightarrow> bus_event list" where
  "inbox_of t after acknowledged es =
     filter (\<lambda>e. dt_target (be_draft e) = Some t \<and> after < be_sequence e \<and> (acknowledged \<or> \<not> answered t es (be_id e))) es"

lemma events_in_order: "history_from E seen es \<Longrightarrow> sorted (map be_sequence es)"
  using rows_in_order [of E seen es BUS_GENESIS] by (simp add: bus_rows_sequence)

lemma sound_id: "event_sound E e \<Longrightarrow> be_id e \<noteq> []"
proof
  assume e: "event_sound E e" "be_id e = []"
  have "text_fault [] = None"
    using e by (auto simp: event_sound_def event_of_columns_def result_simps validate_text_def split: option.splits)
  then show False by (simp add: text_fault_def py_strip_def)
qed

lemma memory_inbox_of:
  assumes "bus_history E es"
  shows "memory_inbox t after limit acknowledged es = py_take limit (inbox_of t after acknowledged es)"
proof -
  let ?answered = "(\<lambda>e. dt_acknowledges (be_draft e)) ` {e \<in> set es. dt_source (be_draft e) = t \<and> given (dt_acknowledges (be_draft e))}"
  have a: "Some (be_id e) \<in> ?answered \<longleftrightarrow> answered t es (be_id e)" if "e \<in> set es" for e
    using sound_id [OF history_sound [OF assms that]] by (force simp: answered_def given_def)
  have "filter (\<lambda>e. dt_target (be_draft e) = Some t \<and> after < be_sequence e \<and> (acknowledged \<or> Some (be_id e) \<notin> ?answered)) es
      = inbox_of t after acknowledged es"
    unfolding inbox_of_def by (rule filter_cong [OF refl]) (simp only: a)
  moreover have "sort_key be_sequence (inbox_of t after acknowledged es) = inbox_of t after acknowledged es"
    unfolding inbox_of_def by (rule filter_in_order [OF events_in_order [OF assms]])
  ultimately show ?thesis unfolding memory_inbox_def Let_def by simp
qed

lemma store_reads:
  assumes "holds_history E S es"
  shows "store_get E k S = Inr (memory_get k es)" "store_thread E t S = Inr (memory_thread t es)"
    "0 \<le> limit \<Longrightarrow> store_inbox E w after limit acknowledged S = Inr (memory_inbox w after limit acknowledged es)"
proof -
  have h: "bus_history E es" "sq_rows S = bus_rows BUS_GENESIS es" using assms by (simp_all add: holds_history_def)
  have sound: "\<forall>e\<in>set es. event_sound E e" using history_sound [OF h(1)] by blast
  note order = rows_in_order [OF h(1), of BUS_GENESIS]
  show "store_get E k S = Inr (memory_get k es)"
  proof (cases "row_of bw_id k (bus_rows BUS_GENESIS es)")
    case None
    then show ?thesis using row_of_bus_rows(1) [of k BUS_GENESIS es]
      by (simp add: store_get_def verify_held [OF assms] h(2) memory_get_def)
  next
    case (Some row)
    then obtain q e where "row = bus_row_of q e" "row_of be_id k es = Some e" using row_of_bus_rows(2) by blast
    then show ?thesis using Some sound row_of_Some [of be_id k es e]
      by (simp add: store_get_def verify_held [OF assms] h(2) memory_get_def row_reads_back)
  qed
  show "store_thread E t S = Inr (memory_thread t es)"
    using reads_back_rows [OF sound, of "\<lambda>_ _ _ x. x = t" BUS_GENESIS] filter_in_order [OF order]
    by (simp add: store_thread_def verify_held [OF assms] h(2) memory_thread_def)
  show "store_inbox E w after limit acknowledged S = Inr (memory_inbox w after limit acknowledged es)" if "0 \<le> limit"
    using rmap_take [OF reads_back_rows [OF sound, of "\<lambda>i n x _. x = Some w \<and> after < n \<and> (acknowledged \<or> \<not> answered w es i)" BUS_GENESIS],
        of "nat limit"] filter_in_order [OF order] that
    by (simp add: store_inbox_def verify_held [OF assms] h(2) memory_inbox_of [OF h(1)] inbox_of_def sql_limit_def py_take_def
        responded_rows answered_def)
qed

text \<open>
  C13: The durable store is the reference repository with a memory. Where a store holds a
  history, its reads return what the repository in memory returns of that history: the event of
  an id, the events of a thread, the inbox of a target from a cursor on up to a limit; and an
  append that succeeds returns the event the repository in memory would have returned at the
  same time, and leaves a store that holds the history with that event at its end.
\<close>

theorem store_refines_memory:
  assumes "holds_history E S es" "draft_plain d" "text_fault now = None"
  shows "store_get E k S = Inr (memory_get k es) \<and> store_thread E t S = Inr (memory_thread t es)
    \<and> (0 \<le> limit \<longrightarrow> store_inbox E w after limit acknowledged S = Inr (memory_inbox w after limit acknowledged es))
    \<and> (\<forall>e S'. store_append E now d S = Inr (e, S') \<longrightarrow>
         memory_append E (\<lambda>_. now) d es = Inr (e, es @ [e]) \<and> holds_history E S' (es @ [e]))"
proof -
  have "memory_append E (\<lambda>_. now) d es = Inr (e, es @ [e]) \<and> holds_history E S' (es @ [e])"
    if "store_append E now d S = Inr (e, S')" for e S'
    using append_holds [OF assms(1) that assms(2,3)] that by (auto simp: memory_append_def store_append_def result_simps Let_def)
  then show ?thesis using store_reads [OF assms(1)] by blast
qed

section \<open>A verified store\<close>

definition bus_events :: "py_env \<Rightarrow> bus_store \<Rightarrow> (bus_error, bus_event list) result" where
  "bus_events E S = rmap_list (event_from_row E) (sort_key bw_sequence (sq_rows S))"

definition float_free :: "bus_event \<Rightarrow> bool" where
  "float_free e \<longleftrightarrow> wf_json (dt_payload (be_draft e)) \<and> wf_json (dt_reference (be_draft e))"

text \<open>The text whose digest links an event, and the links of a history.\<close>

definition mark_text :: "string \<Rightarrow> bus_event \<Rightarrow> string" where
  "mark_text p e = utf8 (text_of (JObj [(''schema'', JStr ''VERA_MONO_COORDINATION_SQLITE_EVENT_V1''),
     (''predecessor_digest'', JStr p), (''event'', JObj (bus_event_fields e))]))"

lemma mark_of_text: "event_mark p e = sha256_hexdigest (mark_text p e)"
  by (simp add: event_mark_def mark_text_def digest_of_def sha256_hex_def)

fun bus_links :: "string \<Rightarrow> bus_event list \<Rightarrow> (string \<times> bus_event) list" where
  "bus_links p [] = []"
| "bus_links p (e # es) = (p, e) # bus_links (event_mark p e) es"

lemma links_chained:
  "chained fst (\<lambda>r. event_mark (fst r) (snd r)) (\<lambda>r. mark_text (fst r) (snd r)) p (bus_links p es)"
  "chain_head (\<lambda>r. event_mark (fst r) (snd r)) p (bus_links p es) = bus_head p es" "map snd (bus_links p es) = es"
  by (induction es arbitrary: p) (simp_all add: mark_of_text)

lemma links_length [simp]: "length (bus_links p es) = length es"
  by (induction es arbitrary: p) simp_all

lemma mark_text_fields:
  assumes "float_free e" "float_free f" "mark_text p e = mark_text q f"
  shows "p = q" "sorted_keys (JObj (bus_event_fields e)) = sorted_keys (JObj (bus_event_fields f))"
proof -
  let ?body = "\<lambda>p e. [(''schema'', JStr ''VERA_MONO_COORDINATION_SQLITE_EVENT_V1''), (''predecessor_digest'', JStr p),
    (''event'', JObj (bus_event_fields e))]"
  have wf: "wf_json (JObj (bus_event_fields e))" "wf_json (JObj (bus_event_fields f))"
    using assms(1,2) event_fields_wf by (simp_all add: float_free_def del: wf_json.simps)
  have "text_of (JObj (?body p e)) = text_of (JObj (?body q f))" using assms(3) by (simp add: mark_text_def utf8_inj)
  from text_of_field [OF _ _ this] wf
  have "map_option sorted_keys (map_of (?body p e) k) = map_option sorted_keys (map_of (?body q f) k)" for k
    by (simp del: sorted_keys.simps)
  from this [of "''predecessor_digest''"] this [of "''event''"]
  show "p = q" "sorted_keys (JObj (bus_event_fields e)) = sorted_keys (JObj (bus_event_fields f))" by (simp_all del: sorted_keys.simps(2))
qed

interpretation bus_chain: digest_chain fst "\<lambda>r. event_mark (fst r) (snd r)" "\<lambda>r. mark_text (fst r) (snd r)" "\<lambda>r. float_free (snd r)"
  by unfold_locales (rule mark_text_fields(1))

text \<open>Events that came out of rows are told apart by their fields.\<close>

definition from_some_row :: "py_env \<Rightarrow> bus_event \<Rightarrow> bool" where
  "from_some_row E e \<longleftrightarrow> (\<exists>row. event_from_row E row = Inr e)"

lemma read_canonical:
  assumes "from_some_row E e"
  shows "\<exists>p q. canonical_value E p = Inr (dt_payload (be_draft e)) \<and> canonical_value E q = Inr (dt_reference (be_draft e))"
    "be_source_class e = classify_stored_address (dt_source (be_draft e))"
    "be_target_class e = map_option classify_stored_address (dt_target (be_draft e))"
proof -
  obtain i n d t where r: "event_of_columns E i n d t = Inr e"
    using assms by (auto simp: from_some_row_def event_from_row_def result_simps)
  note c = from_row_canonical [OF r]
  have d: "dt_source (be_draft e) = dt_source d" "dt_target (be_draft e) = dt_target d"
    by (subst c(7); simp)+
  show "\<exists>p q. canonical_value E p = Inr (dt_payload (be_draft e)) \<and> canonical_value E q = Inr (dt_reference (be_draft e))"
    using c(5,6) by blast
  show "be_source_class e = classify_stored_address (dt_source (be_draft e))"
    "be_target_class e = map_option classify_stored_address (dt_target (be_draft e))" using c(10,11) d by simp_all
qed

lemma canonicalize_keeps: "canonicalize E v = Inr w \<Longrightarrow> wf_json w \<Longrightarrow> sorted_keys w = w"
proof (induction E v arbitrary: w rule: canonicalize.induct)
  case (2 E vs)
  then obtain ws where ws: "w = JArr ws" "rmap_list (canonicalize E) vs = Inr ws" by (auto simp: result_simps)
  have "map sorted_keys ws = ws"
    using 2 ws rmap_list_set [OF ws(2)] by (intro map_idI) force
  then show ?case using ws(1) by simp
next
  case (3 E kvs)
  let ?f = "\<lambda>kv. rbind (canonicalize E (snd kv)) (\<lambda>w. Inr (fst kv, w))"
  obtain ws where ws: "w = JObj ws" "rmap_list ?f (sort_key fst kvs) = Inr ws" using 3(2) by (auto simp: result_simps)
  have keys: "map fst ws = map fst (sort_key fst kvs)"
    by (rule rmap_list_map [OF ws(2)]) (auto simp: result_simps)
  have vals: "map (\<lambda>kv. (fst kv, sorted_keys (snd kv))) ws = ws"
  proof (rule map_idI)
    fix kw assume kw: "kw \<in> set ws"
    then obtain kv where kv: "kv \<in> set (sort_key fst kvs)" "?f kv = Inr kw" using rmap_list_set [OF ws(2)] by blast
    then obtain x where x: "canonicalize E (snd kv) = Inr x" "kw = (fst kv, x)" by (auto simp: result_simps)
    have "wf_json x" using 3(3) ws(1) kw x(2) by auto
    then show "(fst kw, sorted_keys (snd kw)) = kw" using 3(1) [OF _ x(1)] kv(1) x(2) by simp
  qed
  have "sort_key fst ws = ws" by (rule sort_key_id_if_sorted) (simp add: keys)
  then show ?case using ws(1) vals by (simp add: sort_key_order_fst)
qed (auto simp: result_simps)

lemma event_by_fields:
  assumes "sorted_keys (JObj (bus_event_fields e)) = sorted_keys (JObj (bus_event_fields f))" "float_free e" "float_free f"
    "from_some_row E e" "from_some_row E f"
  shows "e = f"
proof -
  have "wf_json (JObj (bus_event_fields e))" "wf_json (JObj (bus_event_fields f))"
    using assms(2,3) event_fields_wf by (simp_all add: float_free_def del: wf_json.simps)
  then have get: "map_option sorted_keys (map_of (bus_event_fields e) k) = map_option sorted_keys (map_of (bus_event_fields f) k)" for k
    using assms(1) jget_sorted_keys by (metis wf_json.simps(3))
  have sorted: "sorted_keys (dt_payload (be_draft g)) = dt_payload (be_draft g)" "sorted_keys (dt_reference (be_draft g)) = dt_reference (be_draft g)"
    if "float_free g" "from_some_row E g" for g
    using read_canonical(1) [OF that(2)] that(1) canonicalize_keeps
    by (auto simp: canonical_value_def result_simps float_free_def)
  note g = get [unfolded bus_event_fields_def draft_fields_def]
  have a: "be_id e = be_id f" "be_sequence e = be_sequence f" "be_record_time e = be_record_time f"
    using g [of "''event_id''"] g [of "''event_sequence''"] g [of "''record_time''"] by simp_all
  have "dt_thread (be_draft e) = dt_thread (be_draft f)" "dt_source (be_draft e) = dt_source (be_draft f)"
    "dt_target (be_draft e) = dt_target (be_draft f)" "dt_type (be_draft e) = dt_type (be_draft f)"
    "dt_status (be_draft e) = dt_status (be_draft f)" "dt_objective (be_draft e) = dt_objective (be_draft f)"
    using g [of "''thread_key''"] g [of "''source_branch''"] g [of "''target_branch''"] g [of "''event_type''"]
      g [of "''status''"] g [of "''objective''"] by simp_all
  moreover have "dt_summary (be_draft e) = dt_summary (be_draft f)" "dt_active_issue (be_draft e) = dt_active_issue (be_draft f)"
    "dt_requested (be_draft e) = dt_requested (be_draft f)" "dt_supersedes (be_draft e) = dt_supersedes (be_draft f)"
    "dt_acknowledges (be_draft e) = dt_acknowledges (be_draft f)"
    using g [of "''summary''"] g [of "''active_issue''"] g [of "''requested_perspective''"] g [of "''supersedes_event_id''"]
      g [of "''acknowledges_event_id''"] by simp_all
  moreover have "dt_payload (be_draft e) = dt_payload (be_draft f)" "dt_reference (be_draft e) = dt_reference (be_draft f)"
    using g [of "''payload''"] g [of "''reference_data''"] sorted assms(2-5) by simp_all
  ultimately have "be_draft e = be_draft f" by simp
  with a read_canonical(2,3) [OF assms(4)] read_canonical(2,3) [OF assms(5)] show ?thesis by simp
qed

lemma verified_events:
  assumes "verify_bus_events E p n seen succs rows = Inr (h, m)"
  shows "\<exists>es. rmap_list (event_from_row E) rows = Inr es \<and> m = n + int (length es)
    \<and> ((\<forall>e\<in>set es. float_free e) \<longrightarrow> h = bus_head p es)"
  using assms
proof (induction rows arbitrary: p n seen succs)
  case (Cons row rows)
  obtain e s where e: "verify_event E p n seen succs row = Inr (e, s)"
    "verify_bus_events E (bw_digest row) (n + 1) (seen @ [e]) s rows = Inr (h, m)"
    using Cons.prems by (auto simp: result_simps)
  obtain es where es: "rmap_list (event_from_row E) rows = Inr es" "m = n + 1 + int (length es)"
    "(\<forall>e\<in>set es. float_free e) \<longrightarrow> h = bus_head (bw_digest row) es" using Cons.IH [OF e(2)] by blast
  have "event_from_row E row = Inr e" "bus_event_digest E e p = Inr (bw_digest row)"
    using e(1) by (auto simp: verify_event_def result_simps)
  then show ?case using es by (auto simp: float_free_def event_digest_mark)
qed simp

lemma context_events:
  assumes "store_context E S = Inr (n, h)"
  shows "\<exists>es. bus_events E S = Inr es \<and> n = int (length es) \<and> (\<forall>e\<in>set es. from_some_row E e)
    \<and> ((\<forall>e\<in>set es. float_free e) \<longrightarrow> h = bus_head BUS_GENESIS es)"
proof -
  obtain k where "verify_bus_events E BUS_GENESIS 1 [] [] (sort_key bw_sequence (sq_rows S)) = Inr (h, k)" "n = k - 1"
    using assms by (auto simp: store_context_def verify_bus_def result_simps)
  then obtain es where es: "bus_events E S = Inr es" "n = int (length es)" "(\<forall>e\<in>set es. float_free e) \<longrightarrow> h = bus_head BUS_GENESIS es"
    using verified_events by (fastforce simp: bus_events_def)
  moreover have "\<forall>e\<in>set es. from_some_row E e"
    using rmap_list_set es(1) by (fastforce simp: bus_events_def from_some_row_def)
  ultimately show ?thesis by blast
qed

text \<open>
  C23: The head of a verified store names its events. Two stores of events without floats that
  verify with the same sequence number and the same head, as \<^verbatim>\<open>context()\<close> reports
  them, hold the same events in the same order, unless two of the texts they hash at the same
  place collide under SHA-256.
\<close>

theorem bus_head_names_events:
  assumes "store_context E S = Inr (n, h)" "store_context E S' = Inr (n, h)"
    and "bus_events E S = Inr es" "bus_events E S' = Inr es'" "\<forall>e\<in>set es \<union> set es'. float_free e"
  shows "es = es' \<or> (\<exists>i<length es. collides (mark_text (bus_head BUS_GENESIS (take i es)) (es ! i))
    (mark_text (bus_head BUS_GENESIS (take i es')) (es' ! i)))"
proof -
  have c: "length es = length es'" "bus_head BUS_GENESIS es = h" "bus_head BUS_GENESIS es' = h"
    "\<forall>e\<in>set es \<union> set es'. from_some_row E e"
    using context_events [OF assms(1)] context_events [OF assms(2)] assms(3-5) by auto
  have nth: "bus_links p fs ! i = (bus_head p (take i fs), fs ! i)" if "i < length fs" for p fs and i
    using that by (induction fs arbitrary: p i) (auto simp: nth_Cons' take_Cons')
  have "map (\<lambda>r. mark_text (fst r) (snd r)) (bus_links BUS_GENESIS es) = map (\<lambda>r. mark_text (fst r) (snd r)) (bus_links BUS_GENESIS es')
      \<or> (\<exists>i<length (bus_links BUS_GENESIS es). collides (mark_text (fst (bus_links BUS_GENESIS es ! i)) (snd (bus_links BUS_GENESIS es ! i)))
          (mark_text (fst (bus_links BUS_GENESIS es' ! i)) (snd (bus_links BUS_GENESIS es' ! i))))"
  proof (rule bus_chain.same_head_same_material [OF links_chained(1) links_chained(1)])
    have "snd ` set (bus_links BUS_GENESIS fs) = set fs" for fs using links_chained(3) [of BUS_GENESIS fs] by (metis set_map)
    then show "\<forall>r\<in>set (bus_links BUS_GENESIS es). float_free (snd r)" "\<forall>r\<in>set (bus_links BUS_GENESIS es'). float_free (snd r)"
      using assms(5) by (metis UnCI image_eqI)+
  qed (use c in \<open>simp_all add: links_chained(2)\<close>)
  then show ?thesis
  proof
    assume m: "map (\<lambda>r. mark_text (fst r) (snd r)) (bus_links BUS_GENESIS es) = map (\<lambda>r. mark_text (fst r) (snd r)) (bus_links BUS_GENESIS es')"
    have "es ! i = es' ! i" if i: "i < length es" for i
    proof -
      have "mark_text (bus_head BUS_GENESIS (take i es)) (es ! i) = mark_text (bus_head BUS_GENESIS (take i es')) (es' ! i)"
        using arg_cong [OF m, of "\<lambda>xs. xs ! i"] i c(1) by (simp add: nth)
      from mark_text_fields(2) [OF _ _ this] show ?thesis
        using event_by_fields [of "es ! i" "es' ! i" E] assms(5) c(1,4) i by simp
    qed
    then show ?thesis using c(1) by (simp add: nth_equalityI)
  next
    assume "\<exists>i<length (bus_links BUS_GENESIS es). collides (mark_text (fst (bus_links BUS_GENESIS es ! i)) (snd (bus_links BUS_GENESIS es ! i)))
          (mark_text (fst (bus_links BUS_GENESIS es' ! i)) (snd (bus_links BUS_GENESIS es' ! i)))"
    then show ?thesis using c(1) by (auto simp: nth)
  qed
qed

end
