(* ===== verification/Bus_Core.thy ===== *)
theory Bus_Core
  imports Bus_Guarantees
begin

text \<open>
  \<^verbatim>\<open>coordination_bus.core\<close>: the receipted operations of the coordination bus over a
  repository, which is a record of the four methods of the protocol. An operation returns its
  result, or the exception it raises, and the state of the repository it leaves. The class
  modelled is the one of \<^verbatim>\<open>core.py\<close>; its subclasses, which add temporal evidence and
  decisions, are not.
\<close>

record 'r repository =
  rp_append :: "event_draft \<Rightarrow> 'r \<Rightarrow> (bus_error, bus_event \<times> 'r) result"
  rp_get :: "string \<Rightarrow> 'r \<Rightarrow> (bus_error, bus_event option) result"
  rp_thread :: "string \<Rightarrow> 'r \<Rightarrow> (bus_error, bus_event list) result"
  rp_inbox :: "string \<Rightarrow> int \<Rightarrow> int \<Rightarrow> bool \<Rightarrow> 'r \<Rightarrow> (bus_error, bus_event list) result"

type_synonym 'r bus_operation = "'r \<Rightarrow> (bus_error, bus_result) result \<times> 'r"

section \<open>Receipts of failures\<close>

text \<open>What \<^verbatim>\<open>_failure\<close> finds in the arguments of the call.\<close>

record failure_context =
  fc_thread :: "string option"
  fc_target :: "string option"
  fc_event :: "string option"
  fc_acknowledges :: "string option"
  fc_draft :: "event_draft option"

definition py_or :: "string option \<Rightarrow> string option \<Rightarrow> string option" where
  "py_or x y = (if given x then x else y)"

fun failure_class :: "bus_error \<Rightarrow> string" where
  "failure_class (Bus_denied m) = ''DENIED''"
| "failure_class (Bus_invalid m) = ''INVALID''"
| "failure_class (Bus_conflict m) = ''CONFLICT''"
| "failure_class (Bus_corrupt m) = ''CONFLICT''"
| "failure_class (Bus_not_found m) = ''NOT_FOUND''"

definition failure :: "py_env \<Rightarrow> string \<Rightarrow> actor \<Rightarrow> bus_error \<Rightarrow> failure_context \<Rightarrow> (bus_error, bus_result) result" where
  "failure E operation a e c =
     make_result E operation (failure_class e) a [] False
       (py_or (fc_thread c) (map_option dt_thread (fc_draft c)))
       (py_or (fc_target c) (Option.bind (fc_draft c) dt_target))
       (py_or (py_or (fc_event c) (fc_acknowledges c)) (Option.bind (fc_draft c) dt_acknowledges))
       [''No database write was confirmed.''] (Some (error_text e))"

definition receipted :: "py_env \<Rightarrow> string \<Rightarrow> actor \<Rightarrow> failure_context \<Rightarrow> 'r bus_operation \<Rightarrow> 'r bus_operation" where
  "receipted E operation a c f S =
     (case f S of (Inr x, S') \<Rightarrow> (Inr x, S') | (Inl e, S') \<Rightarrow> (failure E operation a e c, S'))"

section \<open>The shared steps\<close>

definition bus_find_event :: "'r repository \<Rightarrow> string \<Rightarrow> 'r \<Rightarrow> (bus_error, bus_event) result" where
  "bus_find_event repo k S =
     rbind (validate_text k ''event_id'') (\<lambda>_.
     rbind (rp_get repo k S) (\<lambda>found. or_raise found (Bus_not_found (''event '' @ repr_str k @ '' not found''))))"

definition addressed_target :: "actor \<Rightarrow> bus_event \<Rightarrow> (bus_error, unit) result" where
  "addressed_target a e =
     ensure (dt_target (be_draft e) = Some (ac_workstream a)) (Bus_denied ''only addressed target may acknowledge or review'')"

definition participant :: "actor \<Rightarrow> bus_event \<Rightarrow> bool" where
  "participant a e \<longleftrightarrow> Some (ac_workstream a) \<in> {Some (dt_source (be_draft e)), dt_target (be_draft e)}"

definition other_participant :: "actor \<Rightarrow> bus_event \<Rightarrow> string option" where
  "other_participant a e =
     (if ac_workstream a \<noteq> dt_source (be_draft e) then Some (dt_source (be_draft e)) else dt_target (be_draft e))"

definition bus_lineage :: "'r repository \<Rightarrow> event_draft \<Rightarrow> 'r \<Rightarrow> (bus_error, unit) result" where
  "bus_lineage repo d S =
     rbind (if given (dt_acknowledges d)
            then rbind (bus_find_event repo (the (dt_acknowledges d)) S) (\<lambda>original.
                 rbind (ensure (dt_thread (be_draft original) = dt_thread d) (Bus_conflict ''acknowledgement must stay in same thread''))
                 (\<lambda>_. ensure (Some (be_id original) \<noteq> dt_supersedes d) (Bus_conflict ''one reference cannot acknowledge and supersede'')))
            else Inr ()) (\<lambda>_.
     if given (dt_supersedes d)
     then rbind (bus_find_event repo (the (dt_supersedes d)) S) (\<lambda>prior.
          rbind (ensure (dt_thread (be_draft prior) = dt_thread d) (Bus_conflict ''supersession must stay in same thread'')) (\<lambda>_.
          rbind (rp_thread repo (dt_thread d) S) (\<lambda>events.
          ensure (\<forall>e\<in>set events. dt_supersedes (be_draft e) \<noteq> Some (be_id prior))
            (Bus_conflict ''superseded event already has a successor''))))
     else Inr ())"

definition bus_append :: "py_env \<Rightarrow> 'r repository \<Rightarrow> string \<Rightarrow> actor \<Rightarrow> event_draft \<Rightarrow> 'r bus_operation" where
  "bus_append E repo operation a d S =
     (case rbind (validate_actor a) (\<lambda>_.
           rbind (validate_draft E d) (\<lambda>_.
           rbind (ensure (dt_source d = ac_workstream a) (Bus_denied ''source_branch must equal actor workstream'')) (\<lambda>_.
           rbind (bus_lineage repo d S) (\<lambda>_. rp_append repo d S)))) of
        Inl e \<Rightarrow> (Inl e, S)
      | Inr (e, S') \<Rightarrow>
          (make_result E operation ''COMPLETE'' a [e] True (Some (dt_thread (be_draft e))) (dt_target (be_draft e))
             (dt_acknowledges (be_draft e))
             [''Confirmed write proves persistence of this event only.'',
              ''Target consumption requires an explicit acknowledgement or linked response.'',
              ''Coordination events are not canonical memory records.'',
              ''Exactly-once delivery is not claimed; retry idempotency remains a runtime/storage gate.''] None, S'))"

definition bus_read ::
  "py_env \<Rightarrow> 'r repository \<Rightarrow> string \<Rightarrow> actor \<Rightarrow> string option \<Rightarrow> int \<Rightarrow> int \<Rightarrow> bool \<Rightarrow> 'r bus_operation" where
  "bus_read E repo operation a target after limit include_acknowledged S =
     (rbind (validate_actor a) (\<lambda>_.
      let t = (if given target then the target else ac_workstream a)
      in rbind (validate_workstream t ''target_branch'') (\<lambda>_.
         rbind (require a (if t = ac_workstream a then PERMISSION_READ_SELF else PERMISSION_READ_ANY)) (\<lambda>_.
         rbind (ensure (\<not> after < 0) (Bus_invalid ''after_sequence must be non-negative'')) (\<lambda>_.
         rbind (ensure (1 \<le> limit \<and> limit \<le> 500) (Bus_invalid ''limit must be between 1 and 500'')) (\<lambda>_.
         rbind (rp_inbox repo t after limit include_acknowledged S) (\<lambda>events.
           make_result E operation ''COMPLETE'' a events False None (Some t) None
             [''Read completion proves only rows returned at this invocation.'',
              ''Reading does not acknowledge or consume an event.'',
              ''Coordination events are not canonical memory records.''] None)))))), S)"

text \<open>A check that runs before the append and reads the repository.\<close>

definition after_check :: "('r \<Rightarrow> (bus_error, 'a) result) \<Rightarrow> ('a \<Rightarrow> 'r bus_operation) \<Rightarrow> 'r bus_operation" where
  "after_check f g S = (case f S of Inl e \<Rightarrow> (Inl e, S) | Inr x \<Rightarrow> g x S)"

section \<open>The operations\<close>

definition authorize_generic_post :: "py_env \<Rightarrow> 'r repository \<Rightarrow> actor \<Rightarrow> event_draft \<Rightarrow> 'r \<Rightarrow> (bus_error, unit) result" where
  "authorize_generic_post E repo a d S =
     rbind (validate_draft E d) (\<lambda>_.
     let original = bus_find_event repo (case dt_acknowledges d of None \<Rightarrow> [] | Some k \<Rightarrow> k) S
     in if dt_type d = ''ACKNOWLEDGEMENT''
        then rbind (require a PERMISSION_ACKNOWLEDGE) (\<lambda>_. rbind original (\<lambda>e. rbind (addressed_target a e) (\<lambda>_.
             ensure (dt_target d = Some (dt_source (be_draft e))) (Bus_denied ''acknowledgement target must be original source''))))
        else if dt_type d = ''REVIEW''
        then rbind (require a PERMISSION_REVIEW) (\<lambda>_. rbind original (\<lambda>e. rbind (addressed_target a e) (\<lambda>_.
             ensure (dt_target d = Some (dt_source (be_draft e))) (Bus_denied ''review target must be original source''))))
        else if dt_type d = ''RESOLUTION''
        then rbind (require a PERMISSION_RESOLVE) (\<lambda>_. rbind original (\<lambda>e.
             rbind (ensure (participant a e) (Bus_denied ''only a participant may resolve the thread'')) (\<lambda>_.
             ensure (dt_target d = other_participant a e) (Bus_denied ''resolution target must be other participant''))))
        else if dt_type d = ''DECISION''
        then Inl (Bus_denied ''DECISION requires an externally verified decision-authority capability'')
        else require a PERMISSION_POST)"

text \<open>The commands with the arguments they take.\<close>

datatype bus_command =
    Read_inbox "string option" int int bool
  | Post event_draft
  | Acknowledge string string json json
  | Publish_status string "string option" string string string "string option" "string option" "string option" json json
  | Request_review string string string string string "string option" json json
  | Resolve_thread string string json json
  | Entry_checkpoint int int
  | Exit_checkpoint string "string option" string string bool string "string option" "string option" json

definition plain_draft :: "string \<Rightarrow> string \<Rightarrow> string option \<Rightarrow> string \<Rightarrow> string \<Rightarrow> string \<Rightarrow> string \<Rightarrow> json \<Rightarrow> json \<Rightarrow> event_draft" where
  "plain_draft thread_key source target event_type status objective summary payload reference =
     \<lparr>dt_thread = thread_key, dt_source = source, dt_target = target, dt_type = event_type, dt_status = status,
      dt_objective = objective, dt_summary = summary, dt_active_issue = None, dt_requested = None, dt_supersedes = None,
      dt_acknowledges = None, dt_payload = payload, dt_reference = reference\<rparr>"

definition no_context :: failure_context where
  "no_context = \<lparr>fc_thread = None, fc_target = None, fc_event = None, fc_acknowledges = None, fc_draft = None\<rparr>"

fun run_command :: "py_env \<Rightarrow> 'r repository \<Rightarrow> actor \<Rightarrow> bus_command \<Rightarrow> 'r bus_operation" where
  "run_command E repo a (Read_inbox target after limit include_acknowledged) =
     receipted E ''coordination_read_inbox'' a (no_context\<lparr>fc_target := target\<rparr>)
       (bus_read E repo ''coordination_read_inbox'' a target after limit include_acknowledged)"
| "run_command E repo a (Post d) =
     receipted E ''coordination_post'' a (no_context\<lparr>fc_draft := Some d\<rparr>)
       (after_check (authorize_generic_post E repo a d) (\<lambda>_. bus_append E repo ''coordination_post'' a d))"
| "run_command E repo a (Acknowledge event_id summary payload reference) =
     receipted E ''coordination_acknowledge'' a (no_context\<lparr>fc_event := Some event_id\<rparr>)
       (after_check (\<lambda>S. rbind (require a PERMISSION_ACKNOWLEDGE) (\<lambda>_. rbind (bus_find_event repo event_id S) (\<lambda>original.
          rbind (addressed_target a original) (\<lambda>_. Inr original)))) (\<lambda>original.
        bus_append E repo ''coordination_acknowledge'' a
          ((plain_draft (dt_thread (be_draft original)) (ac_workstream a) (Some (dt_source (be_draft original))) ''ACKNOWLEDGEMENT''
             ''ACKNOWLEDGED'' (dt_objective (be_draft original)) summary payload reference)
           \<lparr>dt_acknowledges := Some (be_id original)\<rparr>)))"
| "run_command E repo a (Publish_status thread_key target status objective summary issue acknowledges supersedes payload reference) =
     receipted E ''coordination_publish_status'' a
       (no_context\<lparr>fc_thread := Some thread_key, fc_target := target, fc_acknowledges := acknowledges\<rparr>)
       (after_check (\<lambda>S. require a PERMISSION_STATUS) (\<lambda>_.
        bus_append E repo ''coordination_publish_status'' a
          ((plain_draft thread_key (ac_workstream a) target ''STATUS'' status objective summary payload reference)
           \<lparr>dt_active_issue := issue, dt_acknowledges := acknowledges, dt_supersedes := supersedes\<rparr>)))"
| "run_command E repo a (Request_review thread_key target objective summary perspective acknowledges payload reference) =
     receipted E ''coordination_request_review'' a
       (no_context\<lparr>fc_thread := Some thread_key, fc_target := Some target, fc_acknowledges := acknowledges\<rparr>)
       (after_check (\<lambda>S. rbind (require a PERMISSION_REVIEW) (\<lambda>_. validate_text perspective ''requested_perspective'')) (\<lambda>_.
        bus_append E repo ''coordination_request_review'' a
          ((plain_draft thread_key (ac_workstream a) (Some target) ''STATUS'' ''READY_FOR_REVIEW'' objective summary payload reference)
           \<lparr>dt_requested := Some perspective, dt_acknowledges := acknowledges\<rparr>)))"
| "run_command E repo a (Resolve_thread acknowledges summary payload reference) =
     receipted E ''coordination_resolve_thread'' a (no_context\<lparr>fc_acknowledges := Some acknowledges\<rparr>)
       (after_check (\<lambda>S. rbind (require a PERMISSION_RESOLVE) (\<lambda>_. rbind (bus_find_event repo acknowledges S) (\<lambda>original.
          rbind (ensure (participant a original) (Bus_denied ''only a participant may resolve the thread'')) (\<lambda>_. Inr original))))
        (\<lambda>original.
        bus_append E repo ''coordination_resolve_thread'' a
          ((plain_draft (dt_thread (be_draft original)) (ac_workstream a) (other_participant a original) ''RESOLUTION'' ''RESOLVED''
             (dt_objective (be_draft original)) summary payload reference)
           \<lparr>dt_acknowledges := Some (be_id original)\<rparr>)))"
| "run_command E repo a (Entry_checkpoint after limit) =
     receipted E ''coordination_entry_checkpoint'' a no_context
       (bus_read E repo ''coordination_entry_checkpoint'' a (Some (ac_workstream a)) after limit False)"
| "run_command E repo a (Exit_checkpoint thread_key target objective summary material status issue acknowledges reference) =
     receipted E ''coordination_exit_checkpoint'' a
       (no_context\<lparr>fc_thread := Some thread_key, fc_target := target, fc_acknowledges := acknowledges\<rparr>)
       (after_check (\<lambda>S. validate_actor a) (\<lambda>_.
        if \<not> material
        then (\<lambda>S. (make_result E ''coordination_exit_checkpoint'' ''COMPLETE'' a [] False (Some thread_key) target None
               [''No event written because the exit was not material.''] None, S))
        else after_check (\<lambda>S. require a PERMISSION_STATUS) (\<lambda>_.
          bus_append E repo ''coordination_exit_checkpoint'' a
            ((plain_draft thread_key (ac_workstream a) target ''STATUS'' status objective summary (JObj []) reference)
             \<lparr>dt_active_issue := issue, dt_acknowledges := acknowledges\<rparr>))))"

section \<open>The two repositories\<close>

definition sqlite_repository :: "py_env \<Rightarrow> string \<Rightarrow> bus_store repository" where
  "sqlite_repository E now =
     \<lparr>rp_append = store_append E now, rp_get = store_get E, rp_thread = store_thread E, rp_inbox = store_inbox E\<rparr>"

definition memory_repository :: "py_env \<Rightarrow> (int \<Rightarrow> string) \<Rightarrow> bus_event list repository" where
  "memory_repository E clock =
     \<lparr>rp_append = memory_append E clock, rp_get = (\<lambda>k es. Inr (memory_get k es)), rp_thread = (\<lambda>t es. Inr (memory_thread t es)),
      rp_inbox = (\<lambda>w after limit ack es. Inr (memory_inbox w after limit ack es))\<rparr>"

end
