(* ===== verification/Bus_Safety.thy ===== *)
theory Bus_Safety
  imports Bus_Core
begin

text \<open>
  What the operations of the coordination bus promise over any repository that keeps a history:
  a receipt says whether an event was written and which, nothing is written without it, and an
  event is written only by an actor who may write it, in the thread it answers.
\<close>

section \<open>Results\<close>

lemma event_dict_free: "float_free e \<Longrightarrow> event_dict E e = Inr (sorted_keys (JObj (bus_event_fields e)))"
  using event_fields_wf [of e] by (simp add: event_dict_def float_free_def canonical_value_wf del: wf_json.simps sorted_keys.simps)

lemma make_result_made:
  assumes "\<forall>e\<in>set events. float_free e"
  shows "\<exists>x. make_result E operation cls a events confirmed t w k ls err = Inr x \<and> bs_events x = events
    \<and> br_confirmed (bs_receipt x) = confirmed \<and> br_result_class (bs_receipt x) = cls \<and> br_error (bs_receipt x) = err
    \<and> br_event_id (bs_receipt x) = (if events = [] then None else Some (be_id (last events)))
    \<and> br_event_sequence (bs_receipt x) = (if events = [] then None else Some (be_sequence (last events)))"
proof -
  have dicts: "rmap_list (event_dict E) events = Inr (map (\<lambda>e. sorted_keys (JObj (bus_event_fields e))) events)"
    using assms by (induction events) (simp_all add: event_dict_free del: sorted_keys.simps)
  have "wf_json (sorted_keys (JObj (bus_event_fields e)))" if "e \<in> set events" for e
    using event_fields_wf [of e] assms that by (intro sorted_keys_wf) (simp add: float_free_def)
  then have "wf_json (bus_receipt_body r (map (\<lambda>e. sorted_keys (JObj (bus_event_fields e))) events))" for r
    by (simp add: bus_receipt_body_def opt_num_def del: sorted_keys.simps split: option.split)
  then show ?thesis by (simp add: make_result_def dicts canonical_hash_wf Let_def del: sorted_keys.simps)
qed

section \<open>Who may write\<close>

definition names_earlier :: "bus_event list \<Rightarrow> string \<Rightarrow> bus_event \<Rightarrow> bus_event \<Rightarrow> bool" where
  "names_earlier es k e original \<longleftrightarrow> row_of be_id k es = Some original \<and> dt_thread (be_draft original) = dt_thread (be_draft e)"

definition lineage_kept :: "bus_event list \<Rightarrow> bus_event \<Rightarrow> bool" where
  "lineage_kept es e \<longleftrightarrow>
     (\<forall>k. dt_acknowledges (be_draft e) = Some k \<longrightarrow> k \<noteq> [] \<longrightarrow> (\<exists>original. names_earlier es k e original)) \<and>
     (\<forall>k. dt_supersedes (be_draft e) = Some k \<longrightarrow> k \<noteq> [] \<longrightarrow> (\<exists>prior. names_earlier es k e prior) \<and>
        (\<forall>f\<in>set es. dt_thread (be_draft f) = dt_thread (be_draft e) \<longrightarrow> dt_supersedes (be_draft f) \<noteq> Some k))"

definition answers :: "bus_event list \<Rightarrow> bus_event \<Rightarrow> bus_event \<Rightarrow> bool" where
  "answers es e original \<longleftrightarrow> (\<exists>k. dt_acknowledges (be_draft e) = Some k \<and> row_of be_id k es = Some original)"

definition may_write :: "actor \<Rightarrow> bus_event list \<Rightarrow> bus_event \<Rightarrow> bool" where
  "may_write a es e \<longleftrightarrow> (let permitted = (\<lambda>p. p \<in> set (ac_permissions a)); d = be_draft e in
     validate_actor a = Inr () \<and> dt_source d = ac_workstream a \<and>
     (if dt_type d \<in> {''ACKNOWLEDGEMENT'', ''REVIEW''}
      then permitted (if dt_type d = ''REVIEW'' then PERMISSION_REVIEW else PERMISSION_ACKNOWLEDGE) \<and>
        (\<exists>original. answers es e original \<and> dt_target (be_draft original) = Some (ac_workstream a) \<and>
           dt_target d = Some (dt_source (be_draft original)))
      else if dt_type d = ''RESOLUTION''
      then permitted PERMISSION_RESOLVE \<and>
        (\<exists>original. answers es e original \<and> participant a original \<and> dt_target d = other_participant a original)
      else if dt_type d = ''STATUS''
      then permitted PERMISSION_POST \<or> permitted PERMISSION_STATUS \<or> permitted PERMISSION_REVIEW
      else dt_type d = ''ISSUE'' \<and> permitted PERMISSION_POST))"

section \<open>The interface of a repository\<close>

definition command_plain :: "bus_command \<Rightarrow> bool" where
  "command_plain c \<longleftrightarrow> (case c of
       Post d \<Rightarrow> draft_plain d
     | Acknowledge _ _ p q \<Rightarrow> wf_json p \<and> wf_json q
     | Publish_status _ _ _ _ _ _ _ _ p q \<Rightarrow> wf_json p \<and> wf_json q
     | Request_review _ _ _ _ _ _ p q \<Rightarrow> wf_json p \<and> wf_json q
     | Resolve_thread _ _ p q \<Rightarrow> wf_json p \<and> wf_json q
     | Exit_checkpoint _ _ _ _ _ _ _ _ q \<Rightarrow> wf_json q
     | _ \<Rightarrow> True)"

text \<open>The columns of the event that a repository makes of a draft.\<close>

definition event_of_draft :: "event_draft \<Rightarrow> bus_event \<Rightarrow> bool" where
  "event_of_draft d e \<longleftrightarrow> be_draft e = d\<lparr>dt_payload := dt_payload (be_draft e), dt_reference := dt_reference (be_draft e)\<rparr>"

lemma make_event_for: "make_event E t n d = Inr e \<Longrightarrow> event_of_draft d e \<and> validate_draft E d = Inr ()"
  by (auto simp: make_event_def canonical_dict_def event_of_draft_def result_simps)

lemma event_for_columns:
  assumes "event_of_draft d e"
  shows "dt_thread (be_draft e) = dt_thread d" "dt_source (be_draft e) = dt_source d" "dt_target (be_draft e) = dt_target d"
    "dt_type (be_draft e) = dt_type d" "dt_acknowledges (be_draft e) = dt_acknowledges d"
    "dt_supersedes (be_draft e) = dt_supersedes d"
  by (subst assms [unfolded event_of_draft_def]; simp)+

locale event_repository =
  fixes E :: py_env and repo :: "'r repository" and holds :: "'r \<Rightarrow> bus_event list \<Rightarrow> bool"
  assumes get_law: "holds S es \<Longrightarrow> rp_get repo k S = Inr (row_of be_id k es)"
    and thread_law: "holds S es \<Longrightarrow> rp_thread repo t S = Inr (filter (\<lambda>e. dt_thread (be_draft e) = t) es)"
    and inbox_law: "holds S es \<Longrightarrow> 0 \<le> limit \<Longrightarrow> rp_inbox repo w after limit ack S = Inr events \<Longrightarrow> set events \<subseteq> set es"
    and append_law: "holds S es \<Longrightarrow> draft_plain d \<Longrightarrow> rp_append repo d S = Inr (e, S') \<Longrightarrow> holds S' (es @ [e]) \<and> event_of_draft d e"
    and free_law: "holds S es \<Longrightarrow> e \<in> set es \<Longrightarrow> float_free e"
begin

text \<open>The outcome of an operation that wrote nothing, or one event that satisfies \<open>P\<close>.\<close>

definition unwritten :: "'r \<Rightarrow> (bus_error, bus_result) result \<times> 'r \<Rightarrow> bool" where
  "unwritten S out \<longleftrightarrow> snd out = S \<and> (\<forall>x. fst out = Inr x \<longrightarrow> \<not> br_confirmed (bs_receipt x))"

definition wrote :: "bus_event list \<Rightarrow> (bus_event \<Rightarrow> bool) \<Rightarrow> (bus_error, bus_result) result \<times> 'r \<Rightarrow> bool" where
  "wrote es P out \<longleftrightarrow> (\<exists>x e. fst out = Inr x \<and> br_confirmed (bs_receipt x) \<and> br_result_class (bs_receipt x) = ''COMPLETE''
     \<and> bs_events x = [e] \<and> br_event_id (bs_receipt x) = Some (be_id e) \<and> br_event_sequence (bs_receipt x) = Some (be_sequence e)
     \<and> holds (snd out) (es @ [e]) \<and> P e)"

abbreviation honest :: "'r \<Rightarrow> bus_event list \<Rightarrow> (bus_event \<Rightarrow> bool) \<Rightarrow> (bus_error, bus_result) result \<times> 'r \<Rightarrow> bool" where
  "honest S es P out \<equiv> unwritten S out \<or> wrote es P out"

lemma failed_receipt: "\<exists>x. failure E op a e c = Inr x \<and> \<not> br_confirmed (bs_receipt x) \<and> br_result_class (bs_receipt x) = failure_class e
    \<and> br_error (bs_receipt x) = Some (error_text e) \<and> bs_events x = []"
  unfolding failure_def using make_result_made [of "[]"] by (metis empty_iff empty_set)

lemma receipted_honest:
  assumes "honest S es P (f S)"
  shows "honest S es P (receipted E op a c f S) \<and> (\<exists>x. fst (receipted E op a c f S) = Inr x)"
proof (cases "f S")
  case (Pair res S')
  show ?thesis
  proof (cases res)
    case (Inl e)
    then have "S' = S" using assms Pair by (auto simp: unwritten_def wrote_def)
    then show ?thesis using failed_receipt [of op a e c] Inl Pair by (auto simp: receipted_def unwritten_def)
  qed (use assms Pair in \<open>auto simp: receipted_def unwritten_def wrote_def\<close>)
qed

lemma after_check_honest: "(\<And>x. f S = Inr x \<Longrightarrow> honest S es P (g x S)) \<Longrightarrow> honest S es P (after_check f g S)"
  by (cases "f S") (auto simp: after_check_def unwritten_def)

lemma found_event:
  assumes "holds S es"
  shows "bus_find_event repo k S = Inr e \<longleftrightarrow> text_fault k = None \<and> row_of be_id k es = Some e"
  by (auto simp: bus_find_event_def get_law [OF assms] result_simps validate_text_def split: option.splits)

lemma lineage_checked:
  assumes "holds S es" "bus_lineage repo d S = Inr ()" "event_of_draft d e"
  shows "lineage_kept es e"
proof -
  note c = event_for_columns [OF assms(3)]
  have "\<exists>original. names_earlier es k e original" if "dt_acknowledges d = Some k" "k \<noteq> []" for k
    using assms(2) that by (auto simp: bus_lineage_def given_def result_simps found_event [OF assms(1)] names_earlier_def c)
  moreover have "(\<exists>prior. names_earlier es k e prior) \<and>
      (\<forall>f\<in>set es. dt_thread (be_draft f) = dt_thread (be_draft e) \<longrightarrow> dt_supersedes (be_draft f) \<noteq> Some k)"
    if "dt_supersedes d = Some k" "k \<noteq> []" for k
    using assms(2) that row_of_Some [of be_id k es]
    by (auto simp: bus_lineage_def given_def result_simps found_event [OF assms(1)] thread_law [OF assms(1)] names_earlier_def c)
  ultimately show ?thesis by (simp add: lineage_kept_def c)
qed

lemma append_honest:
  assumes "holds S es" "draft_plain d"
    and "\<And>e. event_of_draft d e \<Longrightarrow> validate_actor a = Inr () \<Longrightarrow> dt_source d = ac_workstream a \<Longrightarrow> lineage_kept es e \<Longrightarrow> P e"
  shows "honest S es P (bus_append E repo op a d S)"
proof (cases "rbind (validate_actor a) (\<lambda>_. rbind (validate_draft E d) (\<lambda>_.
    rbind (ensure (dt_source d = ac_workstream a) (Bus_denied ''source_branch must equal actor workstream'')) (\<lambda>_.
    rbind (bus_lineage repo d S) (\<lambda>_. rp_append repo d S))))")
  case (Inl e)
  then show ?thesis by (simp add: bus_append_def unwritten_def)
next
  case (Inr x)
  obtain e S' where x: "x = (e, S')" by (cases x)
  then have r: "validate_actor a = Inr ()" "dt_source d = ac_workstream a" "bus_lineage repo d S = Inr ()" "rp_append repo d S = Inr (e, S')"
    using Inr by (auto simp: result_simps)
  have h: "holds S' (es @ [e])" "event_of_draft d e" using append_law [OF assms(1,2) r(4)] by blast+
  have "float_free e" using free_law [OF h(1)] by simp
  then obtain y where y: "bus_append E repo op a d S = (Inr y, S')" "bs_events y = [e]" "br_confirmed (bs_receipt y)"
    "br_result_class (bs_receipt y) = ''COMPLETE''" "br_event_id (bs_receipt y) = Some (be_id e)"
    "br_event_sequence (bs_receipt y) = Some (be_sequence e)"
    using make_result_made [of "[e]" E op "''COMPLETE''" a True "Some (dt_thread (be_draft e))" "dt_target (be_draft e)"
        "dt_acknowledges (be_draft e)"]
    unfolding bus_append_def Inr x sum.case prod.case by fastforce
  then have "wrote es P (bus_append E repo op a d S)"
    using h(1) assms(3) [OF h(2) r(1,2) lineage_checked [OF assms(1) r(3) h(2)]] by (simp add: wrote_def)
  then show ?thesis by blast
qed

lemma read_honest:
  assumes "holds S es"
  shows "honest S es P (bus_read E repo op a t after limit ack S)"
proof -
  have "\<not> br_confirmed (bs_receipt x)" if x: "fst (bus_read E repo op a t after limit ack S) = Inr x" for x
  proof -
    obtain events ls w where e: "make_result E op ''COMPLETE'' a events False None (Some w) None ls None = Inr x"
      using x by (auto simp: bus_read_def result_simps Let_def)
    show ?thesis using e by (auto simp: make_result_def result_simps Let_def)
  qed
  then show ?thesis by (simp add: unwritten_def bus_read_def)
qed

lemma required: "require a p = Inr () \<longleftrightarrow> validate_actor a = Inr () \<and> p \<in> set (ac_permissions a)"
  by (auto simp: require_def result_simps)

lemma answers_found: "row_of be_id k es = Some original \<Longrightarrow> dt_acknowledges (be_draft e) = Some (be_id original) \<Longrightarrow> answers es e original"
  using row_of_Some [of be_id k es original] by (auto simp: answers_def)

lemma answers_for: "row_of be_id k es = Some original \<Longrightarrow> event_of_draft d e \<Longrightarrow> dt_acknowledges d = Some (be_id original) \<Longrightarrow> answers es e original"
  using answers_found by (simp add: event_for_columns(5))

lemma answers_own: "row_of be_id k es = Some original \<Longrightarrow> dt_acknowledges (be_draft e) = Some k \<Longrightarrow> answers es e original"
  by (simp add: answers_def)

lemma checked_append:
  assumes "holds S es" "\<And>x. f S = Inr x \<Longrightarrow> draft_plain (d x)"
    and "\<And>x e. f S = Inr x \<Longrightarrow> event_of_draft (d x) e \<Longrightarrow> validate_actor a = Inr () \<Longrightarrow> dt_source (d x) = ac_workstream a \<Longrightarrow> may_write a es e"
  shows "honest S es (\<lambda>e. may_write a es e \<and> lineage_kept es e) (after_check f (\<lambda>x. bus_append E repo op a (d x)) S)"
  by (rule after_check_honest, rule append_honest [OF assms(1)]) (use assms(2,3) in auto)

lemma post_permitted:
  assumes h: "holds S es" and p: "authorize_generic_post E repo a d S = Inr ()" and e: "event_of_draft d e"
    and a: "validate_actor a = Inr ()" "dt_source d = ac_workstream a"
  shows "may_write a es e"
proof -
  note c = event_for_columns [OF e]
  have types: "dt_type d \<in> {''STATUS'', ''ISSUE'', ''ACKNOWLEDGEMENT'', ''REVIEW'', ''DECISION'', ''RESOLUTION''}"
    using p by (auto simp: authorize_generic_post_def validate_draft_def result_simps BUS_EVENT_TYPES_def)
  have never: "text_fault [] \<noteq> None" by (simp add: text_fault_def py_strip_def)
  show ?thesis
    using p types a c never answers_own [of _ es _ e]
    by (auto simp: authorize_generic_post_def may_write_def Let_def result_simps required found_event [OF h] addressed_target_def
        split: option.splits if_splits)
qed

lemma command_honest:
  assumes h: "holds S es" and plain: "command_plain c"
  shows "honest S es (\<lambda>e. may_write a es e \<and> lineage_kept es e) (run_command E repo a c S) \<and> (\<exists>x. fst (run_command E repo a c S) = Inr x)"
proof (cases c)
  case (Read_inbox t after limit ack)
  show ?thesis unfolding Read_inbox run_command.simps by (rule receipted_honest, rule read_honest [OF h])
next
  case (Post d)
  show ?thesis unfolding Post run_command.simps
    by (rule receipted_honest, rule checked_append [OF h]) (use plain Post post_permitted [OF h] in \<open>auto simp: command_plain_def\<close>)
next
  case (Acknowledge k summary p q)
  show ?thesis unfolding Acknowledge run_command.simps
    by (rule receipted_honest, rule checked_append [OF h])
      (use plain Acknowledge in \<open>auto intro!: exI [of _ "the (row_of be_id k es)"] intro: answers_for simp: command_plain_def draft_plain_def plain_draft_def result_simps required
          found_event [OF h] addressed_target_def may_write_def event_for_columns\<close>)
next
  case (Publish_status t w st ob su ai ack sup p q)
  show ?thesis unfolding Publish_status run_command.simps
    by (rule receipted_honest, rule checked_append [OF h])
      (use plain Publish_status in \<open>auto simp: command_plain_def draft_plain_def plain_draft_def result_simps required
          may_write_def event_for_columns\<close>)
next
  case (Request_review t w ob su pe ack p q)
  show ?thesis unfolding Request_review run_command.simps
    by (rule receipted_honest, rule checked_append [OF h])
      (use plain Request_review in \<open>auto simp: command_plain_def draft_plain_def plain_draft_def result_simps required
          may_write_def event_for_columns\<close>)
next
  case (Resolve_thread k summary p q)
  show ?thesis unfolding Resolve_thread run_command.simps
    by (rule receipted_honest, rule checked_append [OF h])
      (use plain Resolve_thread in \<open>auto intro!: exI [of _ "the (row_of be_id k es)"] intro: answers_for simp: command_plain_def draft_plain_def plain_draft_def result_simps required
          found_event [OF h] may_write_def event_for_columns\<close>)
next
  case (Entry_checkpoint after limit)
  show ?thesis unfolding Entry_checkpoint run_command.simps by (rule receipted_honest, rule read_honest [OF h])
next
  case (Exit_checkpoint t w ob su m st ai ack q)
  have quiet: "honest S es P (make_result E op cls a [] False x y z ls None, S)" for P op cls x y z ls
    using make_result_made [of "[]" E op cls a False x y z ls None] by (auto simp: unwritten_def)
  have material: "honest S es (\<lambda>e. may_write a es e \<and> lineage_kept es e) (after_check (\<lambda>S. require a PERMISSION_STATUS) (\<lambda>_.
      bus_append E repo op a ((plain_draft t (ac_workstream a) w ''STATUS'' st ob su (JObj []) q)
        \<lparr>dt_active_issue := ai, dt_acknowledges := ack\<rparr>)) S)" for op
    by (rule checked_append [OF h])
      (use plain Exit_checkpoint in \<open>auto simp: command_plain_def draft_plain_def plain_draft_def result_simps required
          may_write_def event_for_columns\<close>)
  show ?thesis unfolding Exit_checkpoint run_command.simps
    by (rule receipted_honest, rule after_check_honest) (use quiet material in auto)
qed

end

section \<open>The repositories keep the contract\<close>

lemma history_free: "bus_history E es \<Longrightarrow> e \<in> set es \<Longrightarrow> float_free e"
  using history_sound by (simp add: float_free_def event_sound_def)

interpretation sqlite: event_repository E "sqlite_repository E now" "\<lambda>S es. holds_history E S es \<and> text_fault now = None" for E now
proof unfold_locales
  fix S es limit w after ack events
  assume "holds_history E S es \<and> text_fault now = None" "0 \<le> limit" "rp_inbox (sqlite_repository E now) w after limit ack S = Inr events"
  then show "set events \<subseteq> set es"
    using store_reads(3) [of E S es limit w after ack] memory_inbox_of [of E es w after limit ack]
    by (auto simp: sqlite_repository_def holds_history_def inbox_of_def py_take_def dest!: in_set_takeD)
next
  fix S es d e S'
  assume "holds_history E S es \<and> text_fault now = None" "draft_plain d" "rp_append (sqlite_repository E now) d S = Inr (e, S')"
  then show "(holds_history E S' (es @ [e]) \<and> text_fault now = None) \<and> event_of_draft d e"
    using append_holds [of E S es now d e S'] make_event_for by (auto simp: sqlite_repository_def)
qed (auto simp: sqlite_repository_def store_reads memory_get_def memory_thread_def holds_history_def intro: history_free)

interpretation in_memory: event_repository E "memory_repository E clock" "\<lambda>S es. S = es \<and> (\<forall>e\<in>set es. float_free e)" for E clock
proof unfold_locales
  fix S es limit w after ack events
  assume "S = es \<and> (\<forall>e\<in>set es. float_free e)" "0 \<le> limit" "rp_inbox (memory_repository E clock) w after limit ack S = Inr events"
  then show "set events \<subseteq> set es"
    by (auto simp: memory_repository_def memory_inbox_def py_take_def Let_def dest!: in_set_takeD)
next
  fix S es d e S'
  assume a: "S = es \<and> (\<forall>e\<in>set es. float_free e)" "draft_plain d" "rp_append (memory_repository E clock) d S = Inr (e, S')"
  then have m: "make_event E (clock (int (length es) + 1)) (int (length es) + 1) d = Inr e" "S' = es @ [e]"
    by (auto simp: memory_repository_def memory_append_def result_simps Let_def)
  have "float_free e" using make_event_fields(4) [OF m(1) a(2)] a(2) by (simp add: float_free_def draft_plain_def sorted_keys_wf)
  then show "(S' = es @ [e] \<and> (\<forall>f\<in>set (es @ [e]). float_free f)) \<and> event_of_draft d e" using a(1) m make_event_for by auto
qed (auto simp: memory_repository_def memory_get_def memory_thread_def)

section \<open>The bus over the durable store\<close>

text \<open>
  C19: A receipt of the bus is true. On a store that holds a history, every command returns a
  result; if its receipt confirms a write, exactly one event was appended to the history, it is
  the event the result carries, and the receipt names its id and sequence number and says
  COMPLETE; if it does not, the store is as it was.
\<close>

theorem bus_receipts_true:
  assumes "holds_history E S es" "command_plain c" "text_fault now = None"
    and "run_command E (sqlite_repository E now) a c S = (res, S')"
  shows "\<exists>x. res = Inr x \<and> (if br_confirmed (bs_receipt x)
    then \<exists>e. bs_events x = [e] \<and> br_result_class (bs_receipt x) = ''COMPLETE'' \<and> br_event_id (bs_receipt x) = Some (be_id e)
      \<and> br_event_sequence (bs_receipt x) = Some (int (length es) + 1) \<and> holds_history E S' (es @ [e])
    else S' = S)"
proof -
  have h: "holds_history E S es \<and> text_fault now = None" using assms(1,3) by simp
  have number: "be_sequence e = int (length es) + 1" if "holds_history E S' (es @ [e])" for S' e
    using that by (simp add: holds_history_def bus_history_append follows_history_def)
  show ?thesis using sqlite.command_honest [OF h assms(2), of a] assms(4) number
    by (auto simp: sqlite.unwritten_def sqlite.wrote_def)
qed

text \<open>
  C5: Only who may write writes. When a command has changed the store, the history has one more
  event, and its actor is valid, is the source of the event and has the permission its type
  asks for: an acknowledgement or a review comes from the target of the event it answers and
  goes back to its source, a resolution comes from a participant and goes to the other one, no
  decision is written at all; and the event answers and supersedes only earlier events of its
  thread, each superseded at most once. This is the bus of \<^verbatim>\<open>core.py\<close>; its subclass in
  \<^verbatim>\<open>verified_temporal.py\<close> also posts decisions, under a verified authority.
\<close>

theorem bus_writes_authorized:
  assumes "holds_history E S es" "command_plain c" "text_fault now = None"
    and "run_command E (sqlite_repository E now) a c S = (res, S')" "S' \<noteq> S"
  shows "\<exists>e. holds_history E S' (es @ [e]) \<and> may_write a es e \<and> lineage_kept es e \<and> dt_type (be_draft e) \<noteq> ''DECISION''"
proof -
  have h: "holds_history E S es \<and> text_fault now = None" using assms(1,3) by simp
  have "may_write a es e \<Longrightarrow> dt_type (be_draft e) \<noteq> ''DECISION''" for e
    by (auto simp: may_write_def Let_def split: if_splits)
  then show ?thesis using sqlite.command_honest [OF h assms(2), of a] assms(4,5)
    by (auto simp: sqlite.unwritten_def sqlite.wrote_def)
qed

section \<open>Reading on\<close>

lemma filter_after_take:
  assumes "sorted_wrt (\<lambda>x y. f x < (f y :: int)) ys" "0 < n" "ys \<noteq> []"
  shows "filter (\<lambda>y. f (last (take n ys)) < f y) ys = drop n ys"
proof -
  have last: "last (take n ys) \<in> set (take n ys)" using assms(2,3) by simp
  have s: "sorted_wrt (\<lambda>x y. f x < f y) (take n ys @ drop n ys)" using assms(1) by simp
  then have upper: "f (last (take n ys)) < f y" if "y \<in> set (drop n ys)" for y
    using last that unfolding sorted_wrt_append by blast
  have lower: "\<not> f (last (take n ys)) < f y" if "y \<in> set (take n ys)" for y
  proof -
    have ne: "take n ys \<noteq> []" using assms(2,3) by simp
    have "sorted_wrt (\<lambda>x y. f x < f y) (butlast (take n ys) @ [last (take n ys)])" using s ne by (simp add: sorted_wrt_append)
    moreover have "y \<in> set (butlast (take n ys)) \<or> y = last (take n ys)" using that ne by (metis append_butlast_last_id in_set_conv_decomp set_ConsD UnE set_append empty_iff empty_set list.set_intros(1))
    ultimately show ?thesis unfolding sorted_wrt_append by fastforce
  qed
  have "filter (\<lambda>y. f (last (take n ys)) < f y) (take n ys @ drop n ys) = drop n ys"
    using upper lower by (simp add: filter_empty_conv filter_id_conv del: append_take_drop_id)
  then show ?thesis by simp
qed

lemma history_increases: "history_from E seen es \<Longrightarrow> sorted_wrt (\<lambda>x y. be_sequence x < be_sequence y) es"
proof (induction es rule: rev_induct)
  case (snoc e es)
  then have "be_sequence x < be_sequence e" if "x \<in> set es" for x
  proof -
    have es: "history_from E seen es" "be_sequence e = int (length seen) + int (length es) + 1"
      using snoc.prems by (simp_all add: bus_history_append follows_history_def)
    have "be_sequence x \<in> set (map be_sequence es)" using that by simp
    then show ?thesis unfolding history_numbered [OF es(1)] es(2) by auto
  qed
  then show ?case using snoc by (simp add: bus_history_append sorted_wrt_append)
qed simp

lemma inbox_continues:
  assumes "bus_history E es" "0 < n"
  shows "inbox_of t after ack es = take n (inbox_of t after ack es) @
    inbox_of t (if inbox_of t after ack es = [] then after else be_sequence (last (take n (inbox_of t after ack es)))) ack es"
proof (cases "inbox_of t after ack es = []")
  case False
  let ?ys = "inbox_of t after ack es"
  let ?c = "be_sequence (last (take n ?ys))"
  have "last (take n ?ys) \<in> set ?ys" using False assms(2) by (metis in_set_takeD last_in_set take_eq_Nil less_irrefl)
  then have c: "after < ?c" by (simp add: inbox_of_def)
  have "filter (\<lambda>e. ?c < be_sequence e) ?ys = inbox_of t ?c ack es"
    using c unfolding inbox_of_def filter_filter by (intro filter_cong) auto
  moreover have "sorted_wrt (\<lambda>x y. be_sequence x < be_sequence y) ?ys"
    unfolding inbox_of_def by (rule sorted_wrt_filter [OF history_increases [OF assms(1)]])
  ultimately have rest: "drop n ?ys = inbox_of t ?c ack es" using filter_after_take [of be_sequence ?ys n] False assms(2) by simp
  have "?ys = take n ?ys @ drop n ?ys" by (rule append_take_drop_id [symmetric])
  then show ?thesis unfolding rest using False by (simp only: if_False)
qed simp

text \<open>
  C29: An inbox is read completely and in order. A read that reports no error returns the first
  events, up to its limit, that are addressed to the target, come after the cursor and were not
  yet answered by the target; reading on from the last of them returns what is left, so that
  reads that follow their cursor deliver every such event exactly once. A read changes nothing,
  and reading the inbox of another workstream takes the permission to read any.
\<close>

theorem inbox_read_in_order:
  assumes "holds_history E S es" "text_fault now = None"
    and "run_command E (sqlite_repository E now) a (Read_inbox target after limit ack) S = (Inr x, S')" "br_error (bs_receipt x) = None"
  shows "let t = (if given target then the target else ac_workstream a); all = inbox_of t after ack es;
      cursor = (if bs_events x = [] then after else be_sequence (last (bs_events x)))
    in S' = S \<and> bs_events x = take (nat limit) all \<and> all = bs_events x @ inbox_of t cursor ack es
      \<and> (t = ac_workstream a \<or> PERMISSION_READ_ANY \<in> set (ac_permissions a))"
proof -
  let ?op = "''coordination_read_inbox''"
  let ?t = "if given target then the target else ac_workstream a"
  have h: "bus_history E es" using assms(1) by (simp add: holds_history_def)
  obtain res where r: "bus_read E (sqlite_repository E now) ?op a target after limit ack S = (res, S)"
    by (simp add: bus_read_def)
  have "res = Inr x \<and> S' = S"
  proof (cases res)
    case (Inl e)
    then have "failure E ?op a e (no_context\<lparr>fc_target := target\<rparr>) = Inr x" using assms(3) r by (simp add: receipted_def)
    then have False using sqlite.failed_receipt [of E ?op a e "no_context\<lparr>fc_target := target\<rparr>"] assms(4) by auto
    then show ?thesis ..
  qed (use assms(3) r in \<open>simp add: receipted_def\<close>)
  then obtain events ls where e: "0 \<le> limit" "1 \<le> limit" "store_inbox E ?t after limit ack S = Inr events"
    "make_result E ?op ''COMPLETE'' a events False None (Some ?t) None ls None = Inr x"
    "?t = ac_workstream a \<or> PERMISSION_READ_ANY \<in> set (ac_permissions a)" and S: "S' = S"
    using r by (auto simp: bus_read_def result_simps Let_def sqlite_repository_def require_def split: if_splits)
  have events: "events = take (nat limit) (inbox_of ?t after ack es)"
    using e(1,3) store_reads(3) [OF assms(1) e(1)] memory_inbox_of [OF h] by (simp add: py_take_def)
  have x: "bs_events x = events" using e(4) by (auto simp: make_result_def result_simps Let_def)
  have "(take (nat limit) (inbox_of ?t after ack es) = []) = (inbox_of ?t after ack es = [])" using e(2) by auto
  then show ?thesis using inbox_continues [OF h, of "nat limit" ?t after ack] e(2,5) S
    unfolding Let_def x events by simp
qed

end
