(* ===== verification/Bus_Guard.thy ===== *)
theory Bus_Guard
  imports Bus_Safety
begin

text \<open>
  \<^verbatim>\<open>coordination_bus.retry_guard\<close> and \<^verbatim>\<open>coordination_bus.operator_policy\<close>:
  the process-local guard that suppresses a retried post inside a short window, and the policy
  that admits a plan of bus writes. The ordered dictionary is the list of its items.
\<close>

section \<open>The guard\<close>

datatype guard_error = Invalid_guard_window | Invalid_guard_key | Invalid_guard_time | Guard_clock_regression

record retry_guard =
  tg_window :: int
  tg_seen :: "(string \<times> int) list"
  tg_last :: "int option"

definition make_guard :: "int \<Rightarrow> (guard_error, retry_guard) result" where
  "make_guard window =
     rbind (ensure (\<not> window < 0) Invalid_guard_window) (\<lambda>_. Inr \<lparr>tg_window = window, tg_seen = [], tg_last = None\<rparr>)"

definition check_guard_call :: "string \<Rightarrow> int \<Rightarrow> (guard_error, unit) result" where
  "check_guard_call key now =
     rbind (ensure (key \<noteq> []) Invalid_guard_key) (\<lambda>_. ensure (\<not> now < 0) Invalid_guard_time)"

text \<open>The loop that drops the oldest items.\<close>

fun prune_seen :: "int \<Rightarrow> string \<Rightarrow> (string \<times> int) list \<Rightarrow> (string \<times> int) list" where
  "prune_seen cutoff key [] = []"
| "prune_seen cutoff key ((k, seen) # rest) =
     (if cutoff \<le> seen then (k, seen) # rest
      else if k = key then (k, seen) # rest
      else prune_seen cutoff key rest)"

definition guard_accept :: "string \<Rightarrow> int \<Rightarrow> retry_guard \<Rightarrow> (guard_error, bool \<times> retry_guard) result" where
  "guard_accept key now g =
     rbind (check_guard_call key now) (\<lambda>_.
     rbind (ensure (case tg_last g of None \<Rightarrow> True | Some l \<Rightarrow> \<not> now < l) Guard_clock_regression) (\<lambda>_.
       let g1 = g\<lparr>tg_last := Some now\<rparr>
       in if (case map_of (tg_seen g) key of None \<Rightarrow> False | Some previous \<Rightarrow> now - previous \<le> tg_window g)
          then Inr (False, g1)
          else let moved = filter (\<lambda>kv. fst kv \<noteq> key) (tg_seen g) @ [(key, now)]
               in Inr (True, g1\<lparr>tg_seen := prune_seen (now - tg_window g) key moved\<rparr>)))"

definition guard_rollback :: "string \<Rightarrow> int \<Rightarrow> retry_guard \<Rightarrow> (guard_error, bool \<times> retry_guard) result" where
  "guard_rollback key accepted_at g =
     rbind (check_guard_call key accepted_at) (\<lambda>_.
       if map_of (tg_seen g) key \<noteq> Some accepted_at then Inr (False, g)
       else Inr (True, g\<lparr>tg_seen := filter (\<lambda>kv. fst kv \<noteq> key) (tg_seen g)\<rparr>))"

section \<open>A guarded post\<close>

datatype guard_state = GUARD_WRITTEN | DUPLICATE_SUPPRESSED | GUARD_FAILED

record guarded_result =
  gp_state :: guard_state
  gp_key :: string
  gp_result :: "bus_result option"
  gp_rolled_back :: bool

datatype guard_fault = Guard_bus bus_error | Guard_call guard_error

definition coordination_retry_key :: "py_env \<Rightarrow> actor \<Rightarrow> event_draft \<Rightarrow> (bus_error, string) result" where
  "coordination_retry_key E a d =
     rbind (validate_actor a) (\<lambda>_.
     rbind (validate_draft E d) (\<lambda>_.
     rbind (ensure (dt_source d = ac_workstream a) (Bus_invalid ''draft source_branch must equal actor workstream'')) (\<lambda>_.
     rbind (canonical_dict E d) (\<lambda>kvs.
       canonical_hash E (JObj [(''schema'', JStr ''VERA_COORDINATION_RETRY_KEY_V1''), (''operation'', JStr ''coordination_post''),
         (''actor_workstream'', JStr (ac_workstream a)), (''draft'', JObj kvs)])))))"

text \<open>The reservation is taken back; whether it was is part of the result.\<close>

definition release :: "string \<Rightarrow> int \<Rightarrow> retry_guard \<Rightarrow> bool \<times> retry_guard" where
  "release key now g = (case guard_rollback key now g of Inl _ \<Rightarrow> (False, g) | Inr r \<Rightarrow> r)"

definition guarded_post ::
  "py_env \<Rightarrow> 'r repository \<Rightarrow> actor \<Rightarrow> event_draft \<Rightarrow> int \<Rightarrow> retry_guard \<times> 'r \<Rightarrow> (guard_fault, guarded_result) result \<times> retry_guard \<times> 'r" where
  "guarded_post E repo a d now s =
     (case s of (g, S) \<Rightarrow>
       (case rbind (map_err Guard_bus (coordination_retry_key E a d)) (\<lambda>key.
             rbind (map_err Guard_call (ensure (\<not> now < 0) Invalid_guard_time)) (\<lambda>_.
             rbind (map_err Guard_call (guard_accept key now g)) (\<lambda>r. Inr (key, r)))) of
          Inl e \<Rightarrow> (Inl e, g, S)
        | Inr (key, accepted, g1) \<Rightarrow>
            if \<not> accepted
            then (Inr \<lparr>gp_state = DUPLICATE_SUPPRESSED, gp_key = key, gp_result = None, gp_rolled_back = False\<rparr>, g1, S)
            else (case run_command E repo a (Post d) S of (res, S') \<Rightarrow>
               (case res of
                  Inl e \<Rightarrow> (Inl (Guard_bus e), snd (release key now g1), S')
                | Inr x \<Rightarrow>
                    if br_confirmed (bs_receipt x)
                    then (Inr \<lparr>gp_state = GUARD_WRITTEN, gp_key = key, gp_result = Some x, gp_rolled_back = False\<rparr>, g1, S')
                    else (case release key now g1 of (rolled_back, g2) \<Rightarrow>
                      (Inr \<lparr>gp_state = GUARD_FAILED, gp_key = key, gp_result = Some x, gp_rolled_back = rolled_back\<rparr>, g2, S'))))))"

section \<open>What the guard remembers\<close>

datatype guard_label = G_accept string int | G_rollback string int

inductive guard_step :: "retry_guard \<Rightarrow> guard_label \<Rightarrow> retry_guard \<Rightarrow> bool" where
  step_accept: "guard_accept key now g = Inr (b, g') \<Longrightarrow> guard_step g (G_accept key now) g'"
| step_rollback: "guard_rollback key t g = Inr (b, g') \<Longrightarrow> guard_step g (G_rollback key t) g'"

inductive_cases guard_stepE: "guard_step g l g'"

definition guard_ok :: "retry_guard \<Rightarrow> bool" where
  "guard_ok g \<longleftrightarrow> distinct (map fst (tg_seen g)) \<and> sorted (map snd (tg_seen g)) \<and>
     (\<forall>kv\<in>set (tg_seen g). \<exists>l. tg_last g = Some l \<and> snd kv \<le> l)"

lemma prune_suffix: "\<exists>dropped. xs = dropped @ prune_seen cutoff key xs \<and> (\<forall>kv\<in>set dropped. snd kv < cutoff \<and> fst kv \<noteq> key)"
proof (induction cutoff key xs rule: prune_seen.induct)
  case (2 cutoff key k seen rest)
  show ?case
  proof (cases "cutoff \<le> seen \<or> k = key")
    case True
    then show ?thesis by (intro exI [of _ "[]"]) auto
  next
    case False
    then obtain dropped where d: "rest = dropped @ prune_seen cutoff key rest" "\<forall>kv\<in>set dropped. snd kv < cutoff \<and> fst kv \<noteq> key"
      using 2 by blast
    have "prune_seen cutoff key ((k, seen) # rest) = prune_seen cutoff key rest" using False by simp
    moreover have "\<forall>kv\<in>set ((k, seen) # dropped). snd kv < cutoff \<and> fst kv \<noteq> key" using False d(2) by simp
    moreover have "(k, seen) # rest = ((k, seen) # dropped) @ prune_seen cutoff key rest" using d(1) by simp
    ultimately show ?thesis by (intro exI [of _ "(k, seen) # dropped"]) simp
  qed
qed simp

text \<open>The list after an accepted call.\<close>

lemma accept_cases:
  assumes "guard_accept key now g = Inr (b, g')"
  shows "tg_last g' = Some now \<and> tg_window g' = tg_window g \<and> (\<forall>l. tg_last g = Some l \<longrightarrow> l \<le> now)
    \<and> (if b then (\<forall>t. map_of (tg_seen g) key = Some t \<longrightarrow> tg_window g < now - t) \<and>
         tg_seen g' = prune_seen (now - tg_window g) key (filter (\<lambda>kv. fst kv \<noteq> key) (tg_seen g) @ [(key, now)])
       else (\<exists>t. map_of (tg_seen g) key = Some t \<and> now - t \<le> tg_window g) \<and> tg_seen g' = tg_seen g)"
  using assms by (auto simp: guard_accept_def result_simps Let_def split: option.splits if_splits)

lemma map_of_suffix: "distinct (map fst (xs @ ys)) \<Longrightarrow> map_of (xs @ ys) k = Some v \<Longrightarrow> (k, v) \<notin> set xs \<Longrightarrow> map_of ys k = Some v"
  by (metis Un_iff distinct_append map_append map_of_SomeD map_of_is_SomeI set_append)

lemma step_guard_ok:
  assumes "guard_step g l g'" "guard_ok g"
  shows "guard_ok g'"
  using assms(1)
proof (rule guard_stepE)
  fix key now b assume "guard_accept key now g = Inr (b, g')"
  note c = accept_cases [OF this]
  let ?moved = "filter (\<lambda>kv. fst kv \<noteq> key) (tg_seen g) @ [(key, now)]"
  have le: "snd kv \<le> now" if "kv \<in> set (tg_seen g)" for kv
    using that assms(2) c by (auto simp: guard_ok_def intro: order.trans)
  have moved: "distinct (map fst ?moved)" "sorted (map snd ?moved)" "\<forall>kv\<in>set ?moved. snd kv \<le> now"
    using assms(2) le by (auto simp: guard_ok_def distinct_map_filter sorted_append sorted_filter)
  define pruned where "pruned = prune_seen (now - tg_window g) key ?moved"
  obtain dropped where d: "?moved = dropped @ pruned" using prune_suffix [of ?moved] unfolding pruned_def by blast
  have "distinct (map fst pruned)" "sorted (map snd pruned)" using moved(1,2) unfolding d by (simp_all add: sorted_append)
  moreover have "set pruned \<subseteq> set ?moved" unfolding d by simp
  ultimately have p: "distinct (map fst pruned)" "sorted (map snd pruned)" "\<forall>kv\<in>set pruned. snd kv \<le> now" using moved(3) by auto
  show "guard_ok g'"
  proof (cases b)
    case True
    then have "tg_seen g' = pruned" "tg_last g' = Some now" using c by (simp_all add: pruned_def)
    then show ?thesis using p by (simp add: guard_ok_def)
  next
    case False
    then show ?thesis using c assms(2) le by (simp add: guard_ok_def)
  qed
next
  fix key t b assume "guard_rollback key t g = Inr (b, g')"
  then have "g' = g \<or> g' = g\<lparr>tg_seen := filter (\<lambda>kv. fst kv \<noteq> key) (tg_seen g)\<rparr>"
    by (auto simp: guard_rollback_def result_simps split: if_splits)
  then show "guard_ok g'" using assms(2) by (elim disjE) (simp_all add: guard_ok_def distinct_map_filter sorted_filter)
qed

text \<open>A key that was accepted at a time is remembered until the window is over.\<close>

definition remembers :: "string \<Rightarrow> int \<Rightarrow> retry_guard \<Rightarrow> bool" where
  "remembers key t g \<longleftrightarrow> (\<exists>l. tg_last g = Some l \<and> t \<le> l \<and> (map_of (tg_seen g) key = Some t \<or> t + tg_window g < l))"

lemma accepted_remembers:
  assumes "guard_accept key now g = Inr (True, g')" "guard_ok g"
  shows "remembers key now g'"
proof -
  note c = accept_cases [OF assms(1)]
  let ?moved = "filter (\<lambda>kv. fst kv \<noteq> key) (tg_seen g) @ [(key, now)]"
  obtain dropped where d: "?moved = dropped @ prune_seen (now - tg_window g) key ?moved" "\<forall>kv\<in>set dropped. fst kv \<noteq> key"
    using prune_suffix by blast
  have "distinct (map fst ?moved)" using assms(2) by (auto simp: guard_ok_def distinct_map_filter)
  moreover have "map_of ?moved key = Some now"
    using calculation by (intro map_of_is_SomeI) auto
  moreover have "(key, now) \<notin> set dropped" using d(2) by force
  ultimately have "map_of (prune_seen (now - tg_window g) key ?moved) key = Some now" using map_of_suffix d(1) by metis
  then show ?thesis using c by (simp add: remembers_def)
qed

lemma step_remembers:
  assumes "guard_step g l g'" "guard_ok g" "remembers key t g" "l \<noteq> G_rollback key t"
  shows "remembers key t g'"
  using assms(1)
proof (rule guard_stepE)
  fix k now b assume l: "l = G_accept k now" and "guard_accept k now g = Inr (b, g')"
  note c = accept_cases [OF this(2)]
  obtain m where m: "tg_last g = Some m" "t \<le> m" "map_of (tg_seen g) key = Some t \<or> t + tg_window g < m" "m \<le> now"
    using assms(3) c by (auto simp: remembers_def)
  show "remembers key t g'"
  proof (cases "t + tg_window g < now")
    case True
    then show ?thesis using c m by (simp add: remembers_def)
  next
    case False
    then have t: "map_of (tg_seen g) key = Some t" using m by linarith
    have keep: "map_of (tg_seen g') key = Some t" if b: b
    proof -
      have k: "k \<noteq> key" using c t False b by auto
      let ?moved = "filter (\<lambda>kv. fst kv \<noteq> k) (tg_seen g) @ [(k, now)]"
      obtain dropped where d: "?moved = dropped @ prune_seen (now - tg_window g) k ?moved" "\<forall>kv\<in>set dropped. snd kv < now - tg_window g"
        using prune_suffix by blast
      have dm: "distinct (map fst ?moved)" using assms(2) by (auto simp: guard_ok_def distinct_map_filter)
      have "(key, t) \<in> set ?moved" using map_of_SomeD [OF t] k by auto
      then have "map_of ?moved key = Some t" using dm by (rule map_of_is_SomeI [rotated])
      moreover have "(key, t) \<notin> set dropped" using d(2) False by force
      ultimately have "map_of (prune_seen (now - tg_window g) k ?moved) key = Some t" using map_of_suffix dm d(1) by metis
      then show ?thesis using c b by simp
    qed
    show ?thesis using c m keep t by (cases b) (auto simp: remembers_def)
  qed
next
  fix k u b assume l: "l = G_rollback k u" and r: "guard_rollback k u g = Inr (b, g')"
  have other: "map_of (filter (\<lambda>kv. fst kv \<noteq> k) xs) key = map_of xs key" if "k \<noteq> key" for xs :: "(string \<times> int) list"
    using that by (induction xs) auto
  obtain m where m: "tg_last g = Some m" "t \<le> m" "map_of (tg_seen g) key = Some t \<or> t + tg_window g < m"
    using assms(3) by (auto simp: remembers_def)
  have keep: "tg_last g' = tg_last g" "tg_window g' = tg_window g" using r by (auto simp: guard_rollback_def result_simps split: if_splits)
  have "map_of (tg_seen g') key = Some t" if t: "map_of (tg_seen g) key = Some t"
  proof (cases "k = key")
    case True
    then have "u \<noteq> t" using assms(4) l by simp
    then show ?thesis using r t True by (auto simp: guard_rollback_def result_simps split: if_splits)
  next
    case False
    then show ?thesis using r t other [OF False, of "tg_seen g"] by (auto simp: guard_rollback_def result_simps split: if_splits)
  qed
  then show "remembers key t g'" using m keep by (auto simp: remembers_def)
qed

lemma run_remembers:
  assumes "runs guard_step g ls g'" "guard_ok g" "remembers key t g" "G_rollback key t \<notin> set ls"
  shows "guard_ok g' \<and> remembers key t g'"
  using assms
proof (induction rule: runs.induct)
  case (runs_step g l h ls g')
  then show ?case using step_guard_ok [of g l h] step_remembers [of g l h key t] by auto
qed simp

text \<open>
  C18: A retry inside the window writes nothing. After a guarded post of a draft was written at
  one time, and whatever other calls the guard then served, as long as nobody takes back this
  very reservation, a guarded post of the same draft by the same actor not later than the window
  allows leaves the repository as it is: it is suppressed as a duplicate, or refused because its
  clock runs backwards.
\<close>

theorem retry_writes_nothing:
  assumes "guarded_post E repo a d t (g, S) = (Inr x, g1, S1)" "gp_state x = GUARD_WRITTEN" "guard_ok g"
    and "runs guard_step g1 ls g2" "G_rollback (gp_key x) t \<notin> set ls" "now \<le> t + tg_window g2"
    and "guarded_post E repo a d now (g2, S2) = (res, g3, S3)"
  shows "S3 = S2 \<and> (res = Inl (Guard_call Guard_clock_regression) \<or> res = Inl (Guard_call Invalid_guard_time)
    \<or> (\<exists>y. res = Inr y \<and> gp_state y = DUPLICATE_SUPPRESSED \<and> gp_result y = None))"
proof -
  obtain key where key: "coordination_retry_key E a d = Inr key" "gp_key x = key" "guard_accept key t g = Inr (True, g1)"
    using assms(1,2) by (auto simp: guarded_post_def result_simps Let_def split: sum.splits prod.splits if_splits)
  have "guard_ok g1" using step_guard_ok [OF step_accept [OF key(3)] assms(3)] .
  then have r: "remembers key t g2" using run_remembers [OF assms(4) _ accepted_remembers [OF key(3) assms(3)]] assms(5) key(2) by simp
  have refused: "\<not> b" if "guard_accept key now g2 = Inr (b, h)" for b h
    using accept_cases [OF that] r assms(6) by (auto simp: remembers_def split: if_splits)
  show ?thesis
  proof (cases "guard_accept key now g2")
    case (Inl e)
    have "key \<noteq> []" using key(3) by (auto simp: guard_accept_def check_guard_call_def result_simps)
    then have "e = Guard_clock_regression \<or> e = Invalid_guard_time"
      using Inl by (auto simp: guard_accept_def check_guard_call_def rbind_Inl_iff ensure_Inl_iff Let_def split: if_splits)
    then show ?thesis using assms(7) key(1) Inl by (auto simp: guarded_post_def ensure_def split: if_splits)
  next
    case (Inr v)
    then show ?thesis using assms(7) key(1) refused by (cases v) (auto simp: guarded_post_def ensure_def split: if_splits)
  qed
qed

section \<open>The policy of bus writes\<close>

datatype policy_error =
    Empty_expected_branch
  | Wrong_writer_branch
  | Bad_message_path
  | Bad_git_oid string
  | Forced_ref_update
  | Branch_frontier_mismatch
  | Head_blob_mismatch
  | Forbidden_action string
  | Unknown_action string
  | Wrong_action_sequence

definition REQUIRED_BUS_WRITE_ACTIONS :: "string list" where
  "REQUIRED_BUS_WRITE_ACTIONS =
     [''READ_BRANCH_HEAD'', ''READ_HEAD_JSON'', ''CREATE_APPEND_ONLY_MESSAGE'', ''REFRESH_BRANCH_HEAD'', ''REFRESH_HEAD_JSON'',
      ''CAS_UPDATE_HEAD_JSON'', ''NONFORCE_UPDATE_BRANCH_REF'', ''VERIFY_MESSAGE_READBACK'', ''VERIFY_HEAD_JSON_READBACK'']"

definition FORBIDDEN_BUS_WRITE_ACTIONS :: "string set" where
  "FORBIDDEN_BUS_WRITE_ACTIONS = {''CREATE_PULL_REQUEST'', ''MERGE_PULL_REQUEST'', ''DELETE_REF'', ''FORCE_UPDATE_REF''}"

record bus_write_plan =
  wp_writer_branch :: string
  wp_message_path :: string
  wp_initial_branch_head :: string
  wp_initial_head_blob :: string
  wp_refreshed_branch_head :: string
  wp_refreshed_head_blob :: string
  wp_cas_branch_head :: string
  wp_cas_head_blob :: string
  wp_force :: bool
  wp_actions :: "string list"

definition validate_git_oid :: "string \<Rightarrow> string \<Rightarrow> (policy_error, unit) result" where
  "validate_git_oid value field = ensure (length value = 40 \<and> int16_accepts value) (Bad_git_oid field)"

definition validate_action :: "string \<Rightarrow> (policy_error, unit) result" where
  "validate_action action =
     rbind (ensure (action \<notin> FORBIDDEN_BUS_WRITE_ACTIONS) (Forbidden_action action)) (\<lambda>_.
       ensure (action \<in> set REQUIRED_BUS_WRITE_ACTIONS) (Unknown_action action))"

definition validate_action_sequence :: "string list \<Rightarrow> (policy_error, unit) result" where
  "validate_action_sequence actions =
     rbind (rmap_list validate_action actions) (\<lambda>_.
       ensure (actions = REQUIRED_BUS_WRITE_ACTIONS) Wrong_action_sequence)"

definition validate_bus_write_plan :: "bus_write_plan \<Rightarrow> string \<Rightarrow> (policy_error, bus_write_plan) result" where
  "validate_bus_write_plan plan expected =
     rbind (ensure (expected \<noteq> []) Empty_expected_branch) (\<lambda>_.
     rbind (ensure (wp_writer_branch plan = expected) Wrong_writer_branch) (\<lambda>_.
     rbind (ensure (starts_with (wp_message_path plan) ''messages/'' \<and> wp_message_path plan \<noteq> ''messages/'' \<and>
              CHR 0x5C \<notin> set (wp_message_path plan) \<and> ''..'' \<notin> set (split_all CHR ''/'' (wp_message_path plan)))
              Bad_message_path) (\<lambda>_.
     rbind (rmap_list (\<lambda>(field, value). validate_git_oid value field)
              [(''initial_branch_head'', wp_initial_branch_head plan), (''initial_head_blob'', wp_initial_head_blob plan),
               (''refreshed_branch_head'', wp_refreshed_branch_head plan), (''refreshed_head_blob'', wp_refreshed_head_blob plan),
               (''cas_expected_branch_head'', wp_cas_branch_head plan), (''cas_expected_head_blob'', wp_cas_head_blob plan)]) (\<lambda>_.
     rbind (ensure (\<not> wp_force plan) Forced_ref_update) (\<lambda>_.
     rbind (ensure (wp_cas_branch_head plan = wp_refreshed_branch_head plan) Branch_frontier_mismatch) (\<lambda>_.
     rbind (ensure (wp_cas_head_blob plan = wp_refreshed_head_blob plan) Head_blob_mismatch) (\<lambda>_.
     rbind (validate_action_sequence (wp_actions plan)) (\<lambda>_. Inr plan))))))))"

lemma admitted_plan:
  "validate_bus_write_plan plan expected = Inr p \<Longrightarrow> p = plan \<and> wp_writer_branch plan = expected \<and> \<not> wp_force plan
     \<and> wp_actions plan = REQUIRED_BUS_WRITE_ACTIONS \<and> wp_cas_branch_head plan = wp_refreshed_branch_head plan
     \<and> wp_cas_head_blob plan = wp_refreshed_head_blob plan"
  by (auto simp: validate_bus_write_plan_def validate_action_sequence_def result_simps)

lemma required_actions_admitted: "validate_action_sequence REQUIRED_BUS_WRITE_ACTIONS = Inr ()"
  by (simp add: validate_action_sequence_def validate_action_def REQUIRED_BUS_WRITE_ACTIONS_def FORBIDDEN_BUS_WRITE_ACTIONS_def)

end
