(* ===== verification/Bus_Examples.thy ===== *)
theory Bus_Examples
  imports Bus_Guard
begin

text \<open>A concrete store of the coordination bus, with a first event in it.\<close>

definition empty_bus :: bus_store where
  "empty_bus = \<lparr>sq_rows = [], sq_meta = Some \<lparr>bm_schema = BUS_SCHEMA, bm_sequence = 0, bm_head = BUS_GENESIS\<rparr>\<rparr>"

lemma empty_bus_holds: "holds_history E empty_bus []"
  by (simp add: holds_history_def empty_bus_def)

lemma opened_empty: "open_bus E \<lparr>sq_rows = [], sq_meta = None\<rparr> = Inr empty_bus"
  using verify_held [OF empty_bus_holds [of E]] by (simp add: open_bus_def empty_bus_def)

text \<open>A first event without references can always be appended.\<close>

lemma first_append:
  assumes "validate_draft E d = Inr ()" "draft_plain d" "dt_acknowledges d = None" "dt_supersedes d = None" "text_fault now = None"
  shows "\<exists>e S. store_append E now d empty_bus = Inr (e, S)"
proof -
  have wf: "wf_json (sorted_keys (dt_payload d))" "wf_json (sorted_keys (dt_reference d))"
    using assms(2) by (simp_all add: draft_plain_def sorted_keys_wf)
  have "\<exists>i. event_identity E 1 (draft_fields d (sorted_keys (dt_payload d)) (sorted_keys (dt_reference d))) = Inr i"
    unfolding event_identity_def canonical_hash_wf [OF draft_fields_wf [OF wf]] by simp
  then obtain e where e: "make_event E now 1 d = Inr e"
    using assms(1,2) by (auto simp: make_event_def canonical_dict_def canonical_value_wf draft_plain_def)
  note c = sound_canonical [OF make_event_sound [OF e assms(2,5)]]
  show ?thesis using e assms(1,3,4) c
    by (simp add: store_append_def empty_bus_def read_meta_def append_lineage_def event_digest_mark bus_json_wf insert_bus_event_def
        unique_in_def)
qed

lemma first_post:
  assumes "validate_draft E d = Inr ()" "draft_plain d" "dt_acknowledges d = None" "dt_supersedes d = None" "text_fault now = None"
    and "validate_actor a = Inr ()" "dt_source d = ac_workstream a" "PERMISSION_POST \<in> set (ac_permissions a)" "dt_type d = ''STATUS''"
  shows "\<exists>x S. run_command E (sqlite_repository E now) a (Post d) empty_bus = (Inr x, S) \<and> br_confirmed (bs_receipt x) \<and> S \<noteq> empty_bus
    \<and> (\<exists>e. holds_history E S [e])"
proof -
  obtain e S where S: "store_append E now d empty_bus = Inr (e, S)" using first_append [OF assms(1-5)] by blast
  have h: "holds_history E S [e]" using append_holds(1) [OF empty_bus_holds S assms(2,5)] by simp
  then have ne: "S \<noteq> empty_bus" by (auto simp: holds_history_def empty_bus_def)
  have "\<forall>f\<in>set [e]. float_free f" using history_free [of E "[e]" e] h by (simp add: holds_history_def)
  from make_result_made [OF this] obtain x where x: "make_result E ''coordination_post'' ''COMPLETE'' a [e] True (Some (dt_thread (be_draft e)))
      (dt_target (be_draft e)) (dt_acknowledges (be_draft e))
      [''Confirmed write proves persistence of this event only.'',
              ''Target consumption requires an explicit acknowledgement or linked response.'',
              ''Coordination events are not canonical memory records.'',
              ''Exactly-once delivery is not claimed; retry idempotency remains a runtime/storage gate.''] None = Inr x"
    "br_confirmed (bs_receipt x)" by blast
  have "bus_append E (sqlite_repository E now) ''coordination_post'' a d empty_bus = (Inr x, S)"
    using S x(1) assms by (simp add: bus_append_def bus_lineage_def given_def sqlite_repository_def)
  moreover have "authorize_generic_post E (sqlite_repository E now) a d empty_bus = Inr ()"
    using assms by (simp add: authorize_generic_post_def require_def)
  ultimately show ?thesis using x(2) h ne by (auto simp: receipted_def after_check_def)
qed

definition demo_poster :: actor where
  "demo_poster = \<lparr>ac_workstream = ''workstream/memory'', ac_permissions = [PERMISSION_POST, PERMISSION_READ_SELF]\<rparr>"

definition demo_post :: event_draft where
  "demo_post = (plain_draft ''t-1'' ''workstream/memory'' (Some ''workstream/memory'') ''STATUS'' ''IN_PROGRESS'' ''objective'' ''summary''
     (JObj []) (JObj []))"

definition bus_clock :: string where
  "bus_clock = ''2026-07-30T00:00:00.000000+00:00''"

lemma demo_bus_texts: "text_fault ''t-1'' = None" "text_fault ''objective'' = None" "text_fault ''summary'' = None" "text_fault bus_clock = None"
  by code_simp+

lemma demo_post_valid:
  "validate_draft E demo_post = Inr ()" "draft_plain demo_post" "dt_acknowledges demo_post = None" "dt_supersedes demo_post = None"
  "validate_actor demo_poster = Inr ()" "dt_source demo_post = ac_workstream demo_poster"
  "PERMISSION_POST \<in> set (ac_permissions demo_poster)" "dt_type demo_post = ''STATUS''"
  using demo_bus_texts
  by (simp_all add: validate_draft_def demo_post_def plain_draft_def validate_text_def validate_optional_text_def draft_plain_def
      validate_workstream_def OBSOLETE_WORKSTREAMS_def WORKSTREAMS_def BUS_EVENT_TYPES_def STATUSES_def EVENT_STATUS_PAIRS_def json_object_ok
      is_dict_def validate_actor_def demo_poster_def ALL_PERMISSIONS_def)

lemmas demo_first_post = first_post [OF demo_post_valid(1-4) demo_bus_texts(4) demo_post_valid(5-8)]

section \<open>The properties of the bus on it\<close>

theorem store_refines_memory_witness:
  "\<exists>e S. store_append demo_env bus_clock demo_post empty_bus = Inr (e, S) \<and> holds_history demo_env S [e]
     \<and> memory_append demo_env (\<lambda>_. bus_clock) demo_post [] = Inr (e, [e])"
proof -
  obtain e S where S: "store_append demo_env bus_clock demo_post empty_bus = Inr (e, S)"
    using first_append [OF demo_post_valid(1-4) demo_bus_texts(4)] by blast
  with store_refines_memory [OF empty_bus_holds demo_post_valid(2) demo_bus_texts(4)] show ?thesis by fastforce
qed

theorem bus_receipts_true_witness:
  "\<exists>x S. run_command demo_env (sqlite_repository demo_env bus_clock) demo_poster (Post demo_post) empty_bus = (Inr x, S)
     \<and> br_confirmed (bs_receipt x) \<and> br_event_sequence (bs_receipt x) = Some 1"
proof -
  obtain x S where x: "run_command demo_env (sqlite_repository demo_env bus_clock) demo_poster (Post demo_post) empty_bus = (Inr x, S)"
    "br_confirmed (bs_receipt x)" using demo_first_post by blast
  have "command_plain (Post demo_post)" using demo_post_valid(2) by (simp add: command_plain_def)
  from bus_receipts_true [OF empty_bus_holds this demo_bus_texts(4) x(1)] x show ?thesis by auto
qed

theorem bus_writes_authorized_witness:
  "\<exists>x S e. run_command demo_env (sqlite_repository demo_env bus_clock) demo_poster (Post demo_post) empty_bus = (Inr x, S)
     \<and> holds_history demo_env S [e] \<and> may_write demo_poster [] e"
proof -
  obtain x S where x: "run_command demo_env (sqlite_repository demo_env bus_clock) demo_poster (Post demo_post) empty_bus = (Inr x, S)"
    "S \<noteq> empty_bus" using demo_first_post by blast
  have "command_plain (Post demo_post)" using demo_post_valid(2) by (simp add: command_plain_def)
  from bus_writes_authorized [OF empty_bus_holds this demo_bus_texts(4) x] x(1) show ?thesis by auto
qed

lemma demo_store: "\<exists>S e. holds_history demo_env S [e] \<and> be_draft e = demo_post"
proof -
  obtain e S where S: "store_append demo_env bus_clock demo_post empty_bus = Inr (e, S)"
    using first_append [OF demo_post_valid(1-4) demo_bus_texts(4)] by blast
  note h = append_holds [OF empty_bus_holds S demo_post_valid(2) demo_bus_texts(4)]
  have "be_draft e = demo_post" using make_event_fields(4) [OF h(2) demo_post_valid(2)] by (simp add: demo_post_def plain_draft_def)
  then show ?thesis using h(1) by auto
qed

lemma demo_read:
  assumes "holds_history E S es"
  shows "\<exists>x. run_command E (sqlite_repository E bus_clock) demo_poster (Read_inbox None 0 10 False) S = (Inr x, S)
    \<and> br_error (bs_receipt x) = None"
proof -
  have inbox: "store_inbox E ''workstream/memory'' 0 10 False S = Inr (memory_inbox ''workstream/memory'' 0 10 False es)"
    using store_reads(3) [OF assms] by simp
  have "set (memory_inbox ''workstream/memory'' 0 10 False es) \<subseteq> set es"
    by (auto simp: memory_inbox_def py_take_def Let_def dest!: in_set_takeD)
  then have "\<forall>e\<in>set (memory_inbox ''workstream/memory'' 0 10 False es). float_free e"
    using history_free assms by (auto simp: holds_history_def)
  from make_result_made [OF this] obtain x where x: "make_result E ''coordination_read_inbox'' ''COMPLETE'' demo_poster
      (memory_inbox ''workstream/memory'' 0 10 False es) False None (Some ''workstream/memory'') None
      [''Read completion proves only rows returned at this invocation.'', ''Reading does not acknowledge or consume an event.'',
       ''Coordination events are not canonical memory records.''] None = Inr x" "br_error (bs_receipt x) = None" by blast
  have "bus_read E (sqlite_repository E bus_clock) ''coordination_read_inbox'' demo_poster None 0 10 False S = (Inr x, S)"
    using x(1) inbox demo_post_valid(5)
    by (simp add: bus_read_def given_def demo_poster_def validate_workstream_def OBSOLETE_WORKSTREAMS_def WORKSTREAMS_def require_def
        sqlite_repository_def)
  then show ?thesis using x(2) by (simp add: receipted_def)
qed

theorem inbox_read_in_order_witness:
  "\<exists>S e x. holds_history demo_env S [e] \<and> run_command demo_env (sqlite_repository demo_env bus_clock) demo_poster (Read_inbox None 0 10 False) S
     = (Inr x, S) \<and> bs_events x = [e]"
proof -
  obtain S e where S: "holds_history demo_env S [e]" "be_draft e = demo_post" using demo_store by blast
  obtain x where x: "run_command demo_env (sqlite_repository demo_env bus_clock) demo_poster (Read_inbox None 0 10 False) S = (Inr x, S)"
    "br_error (bs_receipt x) = None" using demo_read [OF S(1)] by blast
  have "0 < be_sequence e" using S(1) by (simp add: holds_history_def follows_history_def)
  then have "inbox_of ''workstream/memory'' 0 False [e] = [e]"
    using S(2) by (simp add: inbox_of_def answered_def demo_post_def plain_draft_def)
  then have "bs_events x = [e]"
    using inbox_read_in_order [OF S(1) demo_bus_texts(4) x] by (simp add: Let_def given_def demo_poster_def)
  then show ?thesis using S(1) x(1) by blast
qed

theorem bus_head_names_events_witness:
  "\<exists>S n h e. store_context demo_env S = Inr (n, h) \<and> bus_events demo_env S = Inr [e] \<and> float_free e"
proof -
  obtain S e where S: "holds_history demo_env S [e]" "be_draft e = demo_post" using demo_store by blast
  have c: "store_context demo_env S = Inr (1, bus_head BUS_GENESIS [e])"
    using verify_held [OF S(1)] S(1) by (simp add: store_context_def read_meta_def holds_history_def)
  have free: "float_free e" using history_free [of demo_env "[e]" e] S(1) by (simp add: holds_history_def)
  have events: "bus_events demo_env S = Inr [e]"
    using S(1) row_reads_back [of demo_env e] by (simp add: bus_events_def holds_history_def follows_history_def)
  have "[e] = [e] \<or> (\<exists>i<length [e]. collides (mark_text (bus_head BUS_GENESIS (take i [e])) ([e] ! i))
      (mark_text (bus_head BUS_GENESIS (take i [e])) ([e] ! i)))"
    by (rule bus_head_names_events [OF c c events events]) (use free in simp)
  with c events free show ?thesis by blast
qed

definition fresh_guard :: retry_guard where
  "fresh_guard = \<lparr>tg_window = 500, tg_seen = [], tg_last = None\<rparr>"

lemma demo_retry_key: "\<exists>key. coordination_retry_key demo_env demo_poster demo_post = Inr key \<and> key \<noteq> []"
proof -
  let ?body = "JObj [(''schema'', JStr ''VERA_COORDINATION_RETRY_KEY_V1''), (''operation'', JStr ''coordination_post''),
         (''actor_workstream'', JStr (ac_workstream demo_poster)), (''draft'', JObj (draft_fields demo_post (JObj []) (JObj [])))]"
  have wf: "wf_json ?body" by (simp add: draft_fields_def)
  have "canonical_dict demo_env demo_post = Inr (draft_fields demo_post (JObj []) (JObj []))"
    using demo_post_valid(1) by (simp add: canonical_dict_def canonical_value_wf demo_post_def plain_draft_def)
  then have "coordination_retry_key demo_env demo_poster demo_post = Inr (digest_of ?body)"
    using demo_post_valid canonical_hash_wf [OF wf] by (simp add: coordination_retry_key_def)
  moreover have "length (digest_of ?body) = 64" by (simp add: digest_of_def sha256_hex_def)
  then have "digest_of ?body \<noteq> []" by force
  ultimately show ?thesis by blast
qed

theorem retry_writes_nothing_witness:
  "\<exists>x g1 S1 y g2. guarded_post demo_env (sqlite_repository demo_env bus_clock) demo_poster demo_post 0 (fresh_guard, empty_bus) = (Inr x, g1, S1)
     \<and> S1 \<noteq> empty_bus
     \<and> guarded_post demo_env (sqlite_repository demo_env bus_clock) demo_poster demo_post 100 (g1, S1) = (Inr y, g2, S1)"
proof -
  let ?repo = "sqlite_repository demo_env bus_clock"
  obtain key where key: "coordination_retry_key demo_env demo_poster demo_post = Inr key" "key \<noteq> []" using demo_retry_key by blast
  obtain r S1 where r: "run_command demo_env ?repo demo_poster (Post demo_post) empty_bus = (Inr r, S1)" "br_confirmed (bs_receipt r)" "S1 \<noteq> empty_bus"
    using demo_first_post by blast
  let ?g1 = "\<lparr>tg_window = 500, tg_seen = [(key, 0)], tg_last = Some 0\<rparr>"
  let ?g2 = "\<lparr>tg_window = 500, tg_seen = [(key, 0)], tg_last = Some 100\<rparr>"
  have "guard_accept key 0 fresh_guard = Inr (True, ?g1)" "guard_accept key 100 ?g1 = Inr (False, ?g2)"
    using key(2) by (simp_all add: guard_accept_def check_guard_call_def fresh_guard_def)
  then obtain x y where x: "guarded_post demo_env ?repo demo_poster demo_post 0 (fresh_guard, empty_bus) = (Inr x, ?g1, S1)" "gp_state x = GUARD_WRITTEN"
    and y: "guarded_post demo_env ?repo demo_poster demo_post 100 (?g1, S1) = (Inr y, ?g2, S1)"
    using key(1) r(1,2) by (simp add: guarded_post_def del: run_command.simps)
  have ok: "guard_ok fresh_guard" by (simp add: guard_ok_def fresh_guard_def)
  have "gp_state y = DUPLICATE_SUPPRESSED" using retry_writes_nothing [OF x ok runs_nil _ _ y] by simp
  with x y r(3) show ?thesis by blast
qed

end
