(* ===== verification/Canonical_Keys.thy ===== *)
theory Canonical_Keys
  imports Canonical
begin

text \<open>
  The order of object keys in the two canonical encoders, on all of Unicode. The strings of the
  other theories are Latin-1, where UTF-16 order and code point order are the same; here a Python
  string is the list of its code points, which is what \<^verbatim>\<open>str\<close> compares and
  \<^verbatim>\<open>encode\<close> reads.
\<close>

section \<open>Keys as code points\<close>

definition code_point_range :: "nat list \<Rightarrow> bool" where
  "code_point_range s \<longleftrightarrow> (\<forall>c\<in>set s. c < 0x110000)"

definition surrogate :: "nat \<Rightarrow> bool" where
  "surrogate c \<longleftrightarrow> 0xD800 \<le> c \<and> c \<le> 0xDFFF"

text \<open>\<^verbatim>\<open>_validate_string\<close>.\<close>

definition validate_points :: "nat list \<Rightarrow> (canon_error, nat list) result" where
  "validate_points s = rbind (ensure (\<not> (\<exists>c\<in>set s. surrogate c)) Surrogate_code_point) (\<lambda>_. Inr s)"

text \<open>\<^verbatim>\<open>_utf16_sort_key\<close>: UTF-16, big endian, with surrogate pairs beyond the BMP.\<close>

definition utf16_units :: "nat \<Rightarrow> nat list" where
  "utf16_units c =
     (if c < 0x10000 then [c] else [0xD800 + (c - 0x10000) div 0x400, 0xDC00 + (c - 0x10000) mod 0x400])"

definition utf16_bytes :: "nat list \<Rightarrow> nat list" where
  "utf16_bytes s = concat (map (\<lambda>u. [u div 0x100, u mod 0x100]) (concat (map utf16_units s)))"

text \<open>
  The loop of \<^verbatim>\<open>normalize_value\<close> over the keys of a \<^verbatim>\<open>dict\<close>, and its order.
  The message of the error, which names the key, is left out.
\<close>

fun checked_keys :: "nat list list \<Rightarrow> nat list list \<Rightarrow> (canon_error, nat list list) result" where
  "checked_keys seen [] = Inr seen"
| "checked_keys seen (raw # raws) =
     rbind (validate_points raw) (\<lambda>k.
     rbind (ensure (k \<notin> set seen) (Duplicate_key_after_validation [])) (\<lambda>_. checked_keys (seen @ [k]) raws))"

definition lantern_keys :: "nat list list \<Rightarrow> (canon_error, nat list list) result" where
  "lantern_keys raws = rbind (checked_keys [] raws) (\<lambda>normalized. Inr (sort_key utf16_bytes normalized))"

text \<open>\<^verbatim>\<open>sort_keys=True\<close> of \<^verbatim>\<open>json.dumps\<close>, which the recovery slice uses.\<close>

definition recovery_keys :: "nat list list \<Rightarrow> nat list list" where
  "recovery_keys raws = sort raws"

section \<open>The UTF-16 order\<close>

text \<open>
  Two keys are swapped when, where they first differ, one has a character of U+E000 to U+FFFF and
  the other one beyond the BMP: a surrogate is below the first and stands for the second.
\<close>

fun swapped :: "nat list \<Rightarrow> nat list \<Rightarrow> bool" where
  "swapped (c # s) (d # t) = (if c = d then swapped s t else 0xE000 \<le> c \<and> c < 0x10000 \<and> 0x10000 \<le> d)"
| "swapped _ _ = False"

lemmas swapped_induct = swapped.induct [case_names 1 2 3]

definition scalars :: "nat list \<Rightarrow> bool" where
  "scalars s \<longleftrightarrow> code_point_range s \<and> (\<forall>c\<in>set s. \<not> surrogate c)"

lemma digits_less:
  fixes u v b :: nat
  assumes "0 < b"
  shows "u div b < v div b \<or> u div b = v div b \<and> u mod b < v mod b \<longleftrightarrow> u < v"
proof -
  have d: "u = u div b * b + u mod b" "v = v div b * b + v mod b" by simp_all
  consider "u div b < v div b" | "v div b < u div b" | "u div b = v div b" by linarith
  then show ?thesis
  proof cases
    case 1
    then show ?thesis using div_le_mono [of v u b] by (metis linorder_not_less)
  next
    case 2
    then show ?thesis using div_le_mono [of u v b] by (metis linorder_not_less nat_neq_iff order.asym)
  next
    case 3
    then have "u < v \<longleftrightarrow> u mod b < v mod b" using d by (metis nat_add_left_cancel_less)
    with 3 show ?thesis by simp
  qed
qed

lemma same_digits: "(u :: nat) div b = v div b \<and> u mod b = v mod b \<longleftrightarrow> u = v"
  by (metis div_mult_mod_eq)

lemma bytes_less:
  "concat (map (\<lambda>u. [u div 0x100, u mod 0x100]) us) < concat (map (\<lambda>u. [u div 0x100, u mod 0x100]) vs) \<longleftrightarrow> us < (vs :: nat list)"
proof (induction us arbitrary: vs)
  case Nil
  then show ?case by (cases vs) auto
next
  case (Cons u us)
  show ?case
  proof (cases vs)
    case (Cons v ws)
    then show ?thesis using Cons.IH [of ws] digits_less [of "0x100" u v] same_digits [of u "0x100" v] by auto
  qed simp
qed

lemma units_bmp: "c < 0x10000 \<Longrightarrow> utf16_units c = [c]"
  by (simp add: utf16_units_def)

lemma units_pair: "utf16_units (0x10000 + p) = [0xD800 + p div 0x400, 0xDC00 + p mod 0x400]"
  by (simp add: utf16_units_def)

lemma units_less:
  assumes "c < 0x110000" "d < 0x110000" "\<not> surrogate c" "\<not> surrogate d" "c \<noteq> d"
  shows "utf16_units c @ x < utf16_units d @ y \<longleftrightarrow> (if swapped [c] [d] \<or> swapped [d] [c] then d < c else c < d)"
proof -
  have mixed: "e < 0xD800 + p div 0x400 \<longleftrightarrow> e < 0xE000" "e \<noteq> 0xD800 + p div 0x400"
    if "0x10000 + p < 0x110000" "e < 0x10000" "\<not> surrogate e" for e p
  proof -
    have "p div 0x400 < 0x400" using that(1) by (simp add: less_mult_imp_div_less)
    then show "e < 0xD800 + p div 0x400 \<longleftrightarrow> e < 0xE000" "e \<noteq> 0xD800 + p div 0x400"
      using that(3) by (auto simp: surrogate_def)
  qed
  consider "c < 0x10000" "d < 0x10000" | q where "c < 0x10000" "d = 0x10000 + q"
    | p where "c = 0x10000 + p" "d < 0x10000" | p q where "c = 0x10000 + p" "d = 0x10000 + q"
    by (metis le_iff_add linorder_not_less)
  then show ?thesis
  proof cases
    case 1
    then show ?thesis using assms(5) by (auto simp: units_bmp)
  next
    case (2 q)
    then show ?thesis using mixed [of q c] assms by (auto simp: units_bmp units_pair)
  next
    case (3 p)
    then show ?thesis using mixed [of p d] assms by (auto simp: units_bmp units_pair)
  next
    case (4 p q)
    then show ?thesis using digits_less [of "0x400" p q] assms(5) same_digits [of p "0x400" q]
      by (auto simp: units_pair)
  qed
qed

lemma units_nonempty [simp]: "utf16_units c \<noteq> []" "[] < utf16_units c @ x" "\<not> utf16_units c @ x < []"
  by (auto simp: utf16_units_def)

lemma append_less: "xs @ ys < xs @ zs \<longleftrightarrow> ys < (zs :: nat list)"
  by (induction xs) auto

lemma utf16_less:
  assumes "scalars s" "scalars t"
  shows "utf16_bytes s < utf16_bytes t \<longleftrightarrow> (if swapped s t \<or> swapped t s then t < s else s < t)"
  using assms unfolding utf16_bytes_def bytes_less
proof (induction s t rule: swapped_induct)
  case (1 c s d t)
  show ?case
  proof (cases "c = d")
    case True
    then show ?thesis using 1 by (auto simp: append_less scalars_def code_point_range_def)
  next
    case False
    then show ?thesis using 1(2,3) units_less [of c d]
      by (auto simp: scalars_def code_point_range_def split: if_splits)
  qed
next
  case (2 t)
  then show ?case by (cases t) auto
next
  case (3 s)
  then show ?case by (cases s) auto
qed

lemma swapped_less: "swapped s t \<Longrightarrow> s < t"
  by (induction s t rule: swapped.induct) (auto split: if_splits)

lemma utf16_le:
  assumes "scalars s" "scalars t" "s < t"
  shows "utf16_bytes s \<le> utf16_bytes t \<longleftrightarrow> \<not> swapped s t"
proof -
  have "\<not> swapped t s" using swapped_less [of t s] assms(3) by auto
  then show ?thesis using utf16_less [OF assms(1,2)] utf16_less [OF assms(2,1)] assms(3) by (auto simp: not_less [symmetric])
qed

lemma swapped_iff:
  "swapped s t \<longleftrightarrow> (\<exists>i. i < length s \<and> i < length t \<and> take i s = take i t \<and> 0xE000 \<le> s ! i \<and> s ! i < 0x10000 \<and> 0x10000 \<le> t ! i)"
proof (induction s t rule: swapped.induct)
  case (1 c s d t)
  have split: "(\<exists>i. P i) \<longleftrightarrow> P 0 \<or> (\<exists>i. P (Suc i))" for P by (metis not0_implies_Suc)
  show ?case by (subst split) (auto simp: 1)
qed auto

text \<open>On Latin-1 strings the order of this theory is the one of \<open>Canonical\<close>.\<close>

lemma utf16_of_latin1: "utf16_bytes (map code s) = map code (utf16_sort_key s)"
proof (induction s)
  case (Cons c s)
  have c: "code c < 0x100" using nat_of_char_less_256 [of c] by simp
  then have "code c < 0x10000" by linarith
  with c show ?case using Cons by (simp add: utf16_bytes_def utf16_sort_key_def units_bmp)
qed (simp add: utf16_bytes_def utf16_sort_key_def)

section \<open>Sorting by two orders\<close>

lemma sort_key_agrees:
  assumes "\<And>x y. x \<in> set xs \<Longrightarrow> y \<in> set xs \<Longrightarrow> f x \<le> f y \<longleftrightarrow> g x \<le> g y"
  shows "sort_key f xs = sort_key g xs"
proof -
  have ins: "insort_key f x ys = insort_key g x ys" if "insert x (set ys) \<subseteq> set xs" for x ys
    using that by (induction ys) (auto simp: assms)
  have "sort_key f ys = sort_key g ys" if "set ys \<subseteq> set xs" for ys
    using that by (induction ys) (simp_all add: ins)
  then show ?thesis by simp
qed

lemma sorts_alike:
  fixes ks :: "'a::linorder list" and f :: "'a \<Rightarrow> 'b::linorder"
  assumes "distinct ks" "inj_on f (set ks)"
  shows "sort_key f ks = sort ks \<longleftrightarrow> (\<forall>x\<in>set ks. \<forall>y\<in>set ks. x < y \<longrightarrow> f x \<le> f y)"
proof
  assume same: "sort_key f ks = sort ks"
  show "\<forall>x\<in>set ks. \<forall>y\<in>set ks. x < y \<longrightarrow> f x \<le> f y"
  proof (intro ballI impI)
    fix x y assume xy: "x \<in> set ks" "y \<in> set ks" "x < y"
    then obtain as bs where s: "sort ks = as @ y # bs" by (metis set_sort split_list)
    have "sorted (as @ y # bs)" using sorted_sort [of ks] s by simp
    then have "x \<in> set as" using xy arg_cong [OF s, of set] by (auto simp: sorted_append)
    moreover have "sorted (map f (as @ y # bs))" using sorted_sort_key [of f ks] by (simp add: same s)
    ultimately show "f x \<le> f y" by (auto simp: sorted_append)
  qed
next
  assume mono: "\<forall>x\<in>set ks. \<forall>y\<in>set ks. x < y \<longrightarrow> f x \<le> f y"
  have "f x \<le> f y \<longleftrightarrow> x \<le> y" if "x \<in> set ks" "y \<in> set ks" for x y
    using mono that inj_onD [OF assms(2), of x y] by (metis linorder_not_less nle_le order.strict_implies_order)
  then show "sort_key f ks = sort ks" by (intro sort_key_agrees) auto
qed

lemma checked_keys_iff:
  "checked_keys seen ks = Inr d \<longleftrightarrow> d = seen @ ks \<and> distinct ks \<and> set ks \<inter> set seen = {} \<and> (\<forall>k\<in>set ks. \<forall>c\<in>set k. \<not> surrogate c)"
proof (induction ks arbitrary: seen)
  case (Cons k ks)
  show ?case by (auto simp: result_simps validate_points_def Cons)
qed auto

lemma utf16_inj: "scalars s \<Longrightarrow> scalars t \<Longrightarrow> utf16_bytes s = utf16_bytes t \<Longrightarrow> s = t"
  using utf16_less [of s t] utf16_less [of t s] by (metis linorder_neqE order_less_irrefl)

section \<open>When the encoders agree\<close>

text \<open>
  C40: The two canonical encoders order keys alike exactly when no two keys are swapped. Lantern
  normalizes the keys of an object to what the recovery slice sorts them to if and only if the
  keys are distinct, none has a surrogate, and no two of them first differ where one has a
  character of U+E000 to U+FFFF and the other one beyond the Basic Multilingual Plane. So on keys
  of the Basic Multilingual Plane without surrogates the encoders agree, and on other keys they
  need not.
\<close>

theorem encoders_order_keys_alike:
  assumes "\<forall>k\<in>set ks. code_point_range k"
  shows "lantern_keys ks = Inr (recovery_keys ks) \<longleftrightarrow>
    distinct ks \<and> (\<forall>k\<in>set ks. \<forall>c\<in>set k. \<not> surrogate c) \<and>
    \<not> (\<exists>k\<in>set ks. \<exists>k'\<in>set ks. \<exists>i. i < length k \<and> i < length k' \<and> take i k = take i k' \<and>
         0xE000 \<le> k ! i \<and> k ! i < 0x10000 \<and> 0x10000 \<le> k' ! i)"
proof (cases "distinct ks \<and> (\<forall>k\<in>set ks. \<forall>c\<in>set k. \<not> surrogate c)")
  case True
  then have sc: "scalars k" if "k \<in> set ks" for k using assms that by (simp add: scalars_def)
  have "lantern_keys ks = Inr (recovery_keys ks) \<longleftrightarrow> sort_key utf16_bytes ks = sort ks"
    using checked_keys_iff [of "[]" ks ks] True by (simp add: lantern_keys_def recovery_keys_def)
  also have "\<dots> \<longleftrightarrow> (\<forall>x\<in>set ks. \<forall>y\<in>set ks. x < y \<longrightarrow> \<not> swapped x y)"
    using sorts_alike [of ks utf16_bytes] True sc utf16_le utf16_inj by (simp add: inj_on_def)
  also have "\<dots> \<longleftrightarrow> \<not> (\<exists>x\<in>set ks. \<exists>y\<in>set ks. swapped x y)" using swapped_less by blast
  finally show ?thesis using True by (simp add: swapped_iff)
next
  case False
  then have "lantern_keys ks \<noteq> Inr (recovery_keys ks)"
    by (auto simp: lantern_keys_def result_simps checked_keys_iff)
  then show ?thesis using False by blast
qed

theorem encoders_order_keys_alike_witness:
  "lantern_keys [[0x10000], [0x7A, 0xE000]] = Inr (recovery_keys [[0x10000], [0x7A, 0xE000]])
   \<and> lantern_keys [[0xE000], [0x10000]] \<noteq> Inr (recovery_keys [[0xE000], [0x10000]])"
proof -
  have "\<forall>k\<in>set [[0x10000], [0x7A, 0xE000]]. code_point_range k" "\<forall>k\<in>set [[0xE000], [0x10000]]. code_point_range k"
    by (simp_all add: code_point_range_def)
  from this [THEN encoders_order_keys_alike] show ?thesis
    by (auto simp: surrogate_def less_Suc_eq)
qed

end
