(* ===== verification/Spec2Isabelle.thy ===== *)
theory Spec2Isabelle
  imports Effect_Fence Memory_Ledger Recovery_Checkpoints Lifecycle_Journal Trust_Guarantees Dispatch_Gate
    Lease_Guarantees PC_State_Machine PC_Journal_Guarantees Effect_Recovery Command_Guarantees
    Lifecycle_Guarantees PC_Paths Coordination_Examples Bus_Examples Canonical_Keys
begin

text \<open>
  \<^bold>\<open>What this is.\<close> A development about the durable core of \<^verbatim>\<open>vera-mono\<close>:
  the stores, journals, fences and gates that decide which effect may run, which memory is
  current, which authority is trusted and which job may be executed. Conversation, prompting,
  transports and evaluation sit on top of these and are not modelled.

  \<^bold>\<open>How the parts interact.\<close> Every store identifies its content by the SHA-256
  digest of a canonical JSON text and refuses writers that name a stale head, generation or
  fencing token. The runtime reserves an effect in the effect fence, claims it once,
  dispatches it under a budget of the dispatch gate and a lease of the resource registry,
  records the lifecycle in the journal, admits what it learned to the memory ledger and
  binds the ledger's head into recovery checkpoints. Outbound authorities are looked up in
  the trust registry; jobs for the PC bridge run through its state machine, and the bridge
  records every attempt in a local journal. Each outbound effect is explained in an audit
  ledger that is kept beside the fence: a crash between the two transactions leaves it
  behind, and the repair brings it up to the fence again. An effect with an unknown outcome
  is settled by the recovery, on the proof of an authority that the trust registry says is
  current. Workstreams talk over the coordination bus, an append-only event history with
  receipted commands; the commands that go through the lifecycle are bound, and their results
  recorded, in a journal of their own. The lifecycle coordinator ties the stores together: a checkpoint binds the memory head,
  appends a recovery checkpoint, lets the drift comparison judge it and publishes it as the
  accepted state, each of these a transaction of another store; reconstruction tells after a
  crash which state is accepted and which candidate is pending, and only an accepted state
  yields a permit for outbound actions.

  \<^bold>\<open>Theories and what they model\<close> (paths under \<^verbatim>\<open>src/packages\<close>).
  \<^item> \<open>Vera_Prelude\<close>: results with an error branch, tables of keyed rows, labelled runs, and
    the interface locales \<open>status_machine\<close> (a store whose entries move along the edges of a
    machine) and \<open>cas_store\<close> (a store with a compare-and-swap version).
  \<^item> \<open>Sha256\<close>, \<open>Py_Text\<close>, \<open>Py_Values\<close>, \<open>Json\<close>: the parts of Python and its standard library
    that the sources use: \<^verbatim>\<open>hashlib.sha256\<close> on 32-bit words, string operations,
    \<^verbatim>\<open>int(s, 16)\<close>, UTF-8, \<^verbatim>\<open>json.dumps\<close> and \<^verbatim>\<open>json.loads\<close> with their
    hooks. The locale \<open>json_reader\<close> holds the round trip for both hook sets.
  \<^item> \<open>Canonical\<close>: \<^verbatim>\<open>portfolio_runtime/.../lantern/canonical.py\<close> and
    \<^verbatim>\<open>vera_recovery/src/r8a0/canonical.py\<close>. The locale \<open>canonical_codec\<close> is what a
    client relies on (the text reads back, the digest binds the value); \<open>digest_chain\<close> is
    the tamper evidence of a hash chain. \<open>Canonical_Keys\<close>: the key orders of the two encoders
    on all of Unicode, with strings as lists of code points.
  \<^item> \<open>Effect_Fence\<close>: \<^verbatim>\<open>vera_assurance/.../effect_fence.py\<close>. \<open>fence\<close> is the effects
    table, \<open>currentness\<close> the currentness table.
  \<^item> \<open>Memory_Ledger\<close>: \<^verbatim>\<open>vera_memory/.../ledger.py\<close>.
  \<^item> \<open>Recovery_Checkpoints\<close>: \<^verbatim>\<open>vera_recovery/.../native.py\<close>.
  \<^item> \<open>Lifecycle_Journal\<close>: \<^verbatim>\<open>vera_core/.../lifecycle_journal.py\<close>.
  \<^item> \<open>Outbound_Trust\<close>, \<open>Trust_Guarantees\<close>: \<^verbatim>\<open>vera_core/.../outbound_trust.py\<close>, its
    operations and what holds over their runs.
  \<^item> \<open>Dispatch_Gate\<close>: \<^verbatim>\<open>vera_core/.../durable_dispatch_gate.py\<close>.
  \<^item> \<open>Resource_Lease\<close>, \<open>Lease_Guarantees\<close>: \<^verbatim>\<open>vera_core/.../resource_lease.py\<close>.
  \<^item> \<open>PC_State_Machine\<close>: \<^verbatim>\<open>vera_pc_connection/.../state_machine.py\<close>.
  \<^item> \<open>PC_Contract\<close>: \<^verbatim>\<open>vera_pc_connection/.../canonical.py\<close> and
    \<^verbatim>\<open>validation.py\<close>; \<open>PC_Journal\<close>, \<open>PC_Journal_Guarantees\<close>:
    \<^verbatim>\<open>vera_pc_connection/.../journal.py\<close>, the local journal of attempts.
  \<^item> \<open>PC_Times\<close>, \<open>PC_Envelopes\<close>, \<open>PC_Artifacts\<close>, \<open>PC_Paths\<close>: the contracts of the
    bridge, \<^verbatim>\<open>vera_pc_connection/.../envelopes.py\<close>, \<^verbatim>\<open>artifacts.py\<close> and
    \<^verbatim>\<open>path_policy.py\<close>, with the calendar their time windows compare by and the
    binding of a job to its authorization from \<^verbatim>\<open>outbound_authority.py\<close>.
  \<^item> \<open>Outbound_Audit\<close>: \<^verbatim>\<open>vera_core/.../outbound_audit.py\<close>; \<open>Audit_Guarantees\<close> has the
    loop of the repair, \<open>Audit_Repair\<close> the properties.
  \<^item> \<open>Outbound_Authority\<close>: \<^verbatim>\<open>vera_core/.../outbound_authority.py\<close>, with
    HMAC-SHA256. The locale \<open>single_use_verifier\<close> is what the verifiers have in common.
  \<^item> \<open>Effect_Recovery\<close>: \<^verbatim>\<open>vera_core/.../effect_recovery.py\<close>, over the fence, the
    trust registry, a verifier and the audit.
  \<^item> \<open>Command_Journal\<close>, \<open>Command_Guarantees\<close>:
    \<^verbatim>\<open>vera_core/.../coordination_command_journal.py\<close>.
  \<^item> \<open>Crash_Steps\<close>: operations over several stores, with the states they commit on the way;
    \<open>Drift\<close>: \<^verbatim>\<open>vera_assurance/.../drift.py\<close>.
  \<^item> \<open>Lifecycle\<close>: \<^verbatim>\<open>vera_core/.../lifecycle.py\<close>; \<open>Lifecycle_Spec\<close> is the abstract
    lifecycle (a history of checkpoints, the accepted one, the notes) and the relation
    \<open>implements\<close> to it, \<open>Lifecycle_Guarantees\<close> the refinement and what follows from it.
  \<^item> \<open>Action_Values\<close>, \<open>Action_Gate\<close>, \<open>Gate_Authorities\<close>: the gateway of
    \<^verbatim>\<open>vera_core/.../action_gate.py\<close>, the values it digests, the dispatch of one effect
    over fence, ledger, permit and trust registry, and the two operations that use it for PC jobs
    and provider effects. \<open>Gate_Execution\<close> shows when an effect runs, \<open>Gate_Audit\<close> and
    \<open>Gate_Guarantees\<close> follow the ledger through a dispatch (\<open>in_step\<close>, \<open>trails\<close>),
    \<open>Gate_Contract\<close> holds the properties and \<open>Gate_Examples\<close> gateways that run effects.
  \<^item> \<open>Coordination_Gate\<close>: the coordination facade of the same file, over the gateway and
    the command journal; \<open>Coordination_Safety\<close> shows what an invocation leaves and what an
    assessment may conclude from it, \<open>Coordination_Examples\<close> runs one.
  \<^item> \<open>Bus_Contracts\<close>, \<open>Bus_Store\<close>, \<open>Bus_Core\<close>, \<open>Bus_Guard\<close>: the coordination bus,
    \<^verbatim>\<open>vera_coordination/src/coordination_bus\<close>: \<^verbatim>\<open>contracts.py\<close>, the two
    repositories (\<^verbatim>\<open>sqlite_repository.py\<close>, \<^verbatim>\<open>in_memory.py\<close>), the receipted
    commands of \<^verbatim>\<open>core.py\<close> over a record of the repository's methods, and
    \<^verbatim>\<open>retry_guard.py\<close> with \<^verbatim>\<open>operator_policy.py\<close>. \<open>Bus_Guarantees\<close> relates
    the durable store to the history it holds (\<open>holds_history\<close>) and so to the repository in
    memory; the locale \<open>event_repository\<close> of \<open>Bus_Safety\<close> is what the commands rely on, with
    both repositories as instances; \<open>Bus_Examples\<close> posts, reads and retries.

  \<^bold>\<open>Reading the definitions.\<close> A table is the list of its rows in insertion order, a
  Python object its record. An operation takes the state and returns \<open>Inl\<close> an error or
  \<open>Inr\<close> the result with the new state; a transaction that raises is rolled back, so it
  returns no state. Operations that raise after changing in-memory state (the lease registry)
  return the error together with the state they leave. Each store has a labelled step relation
  whose steps are its atomic transactions; \<open>runs\<close> composes them, so a theorem over \<open>runs\<close>
  covers every interleaving of callers. Operations that use two transactions
  (\<^verbatim>\<open>claim_dispatch\<close> and the trust mutations with their final check,
  \<^verbatim>\<open>complete\<close>, \<^verbatim>\<open>confirm_terminal_readback\<close>) are also split into those steps.
  An operation over several stores is an \<open>action\<close>: its result together with the states it
  commits, in order. \<open>crash_points\<close> of it are the states a process that dies in it can leave.

  \<^bold>\<open>What the lemmas show.\<close> Each component has an invariant (\<open>fence_ok\<close>, \<open>ledger_ok\<close>,
  \<open>head_ok\<close>, \<open>ckpt_ok\<close>, \<open>journal_ok\<close>, \<open>trust_ok\<close>, \<open>gate_ok\<close>, \<open>lease_ok\<close>, \<open>pc_ok\<close>,
  \<open>verified\<close>, \<open>journal_sound\<close>, \<open>implements\<close>, \<open>holds_history\<close>) established by
  its constructor and kept by every step, and properties over runs: an effect is dispatched
  once, a revoked authority is never current, write access is exclusive, budgets are never
  overdrawn, hash chains commit to their content, stale tokens and versions are refused,
  stored content reads back.

  \<^bold>\<open>Assumptions and bounds.\<close> SHA-256 is computed, not assumed collision free: where two
  contents could only differ by a collision the theorem names the two byte strings
  (\<open>collides\<close>). Strings are the Latin-1 part of Python's, except in
  \<open>Canonical_Keys\<close>: on them the test for surrogates never fails and UTF-16 order is code point
  order, so what the other theories say of the two canonical encoders says nothing about keys
  beyond the Basic Multilingual Plane, where the encoders differ; JSON integers are below the digit
  limit of \<^verbatim>\<open>int\<close>. \<^verbatim>\<open>datetime.fromisoformat\<close> and the formatting of floats are
  the parameter \<open>E\<close>; the one law used of them is \<open>iso_stable\<close> (a normalized timestamp
  normalizes to itself), and the comparison of floats. The digest of the packaged control source
  is the argument \<open>control\<close> of the lifecycle's operations. Reconstruction asks for a free
  sequence number of the lifecycle journal, and may raise \<open>Journal_integrity\<close> when the digest
  of the note it has to make is already taken. The verifiers of authorities and the effect itself are
  protocols of the caller: functions over a memory of their own and over the outside world. The properties of the bus take drafts whose payloads hold no floats (\<open>draft_plain\<close>), since
  reading a float back is a law of the parameter \<open>E\<close>, and a clock that gives a text
  (\<open>text_fault now = None\<close>). That
  an authority check touches nothing else is \<open>quiet\<close>, proved of the two checks of the gateway;
  that all events of an effect id carry one kind is \<open>named_as\<close>. The sum of two floats in the dispatch gate is the parameter \<open>fadd\<close>,
  and the fence allocator's answer an argument. SQLite integers are checked against 64 bits
  where the program can reach them. Every recursive function is total: the JSON scanner
  terminates on the length of its input, so no fuel is used anywhere. The one loop that need
  not end is that of the audit's repair on an unverified ledger: it is a
  \<^theory_text>\<open>partial_function (option)\<close>, \<open>None\<close> is not returning, and \<open>repair_returns\<close> proves that
  the public operation, which verifies first, returns. The repair theorem asks for four free
  sequence numbers per effect below \<^verbatim>\<open>_MAX_SAFE_INTEGER\<close>, the most stages an effect can lack.

  \<^bold>\<open>Not modelled.\<close> Type checks on arguments of the wrong Python type; file locks,
  durability and other behaviour of SQLite and the operating system; transports, command
  line, prompting, training and evaluation code; the remote database of coordination events and
  the exported subclass of the bus (\<^verbatim>\<open>temporal.py\<close>, \<^verbatim>\<open>verified_temporal.py\<close>),
  which attaches temporal evidence to receipts, reads one row more than a page to tell whether
  more follow, and posts a decision when a verifier accepts an authority for the very draft: what
  is proved of the bus is about the base class of \<^verbatim>\<open>core.py\<close>; the verification and attestation receipts
  of \<^verbatim>\<open>vera_core\<close> and its orchestration (\<^verbatim>\<open>qualified_runtime.py\<close>,
  \<^verbatim>\<open>task_execution.py\<close>), whose durable state lives in the stores above. What these add is glue: they
  call the operations modelled here in the order their inputs ask for and collect the answers.
\<close>

section \<open>Properties that span components\<close>

text \<open>
  C39: Canonical text reads back. Whatever Lantern's \<^verbatim>\<open>canonical_json\<close> accepts, its
  text is read by the strict reader as the normalized value, and normalizing and encoding
  that value again gives the same text. So a stored payload can be parsed, re-encoded and
  compared with its digest.
\<close>

theorem canonical_json_roundtrip:
  assumes "iso_stable E" "wf_json v" "canonical_json E v = Inr t"
  shows "\<exists>w. normalize_value E None v = Inr w \<and> strict_json_loads t = Inr w \<and> canonical_json E w = Inr t"
proof -
  obtain w where w: "normalize_value E None v = Inr w" "loads strict_hooks t = Inr w"
    using lantern.enc_loads [OF assms(2,3)] by blast
  have "normalize_value E None w = Inr w" by (rule normalize_idem [OF assms(1) w(1)])
  moreover have "t = json_text w" using assms(3) w(1) by (simp add: canonical_json_def)
  ultimately show ?thesis using w by (auto simp: strict_json_loads_def canonical_json_def)
qed

text \<open>
  On Latin-1 strings the two encoders agree. On every value without floats, unsafe integers and
  keys that Lantern normalizes, whose strings are Latin-1, the encoder of the Lantern package and
  the one of the recovery slice give the same text and the same digest. \<open>Canonical_Keys\<close> says
  for which other keys this stops to hold.
\<close>

lemma canonical_encoders_agree:
  assumes "plain_json v"
  shows "canonical_json E v = canonical_dumps E' v \<and> canonical_digest E v = canonical_sha256 E' v"
  using assms by (simp add: canonical_text canonical_digest_of canonical_dumps_wf canonical_sha256_wf plain_is_wf)

section \<open>Concrete instances\<close>

definition sample_value :: json where
  "sample_value = JObj [(''name'', JStr ''vera''), (''count'', JInt 7), (''tags'', JArr [JNull, JBool True])]"

lemma sample_value_plain: "plain_json sample_value"
  by (simp add: sample_value_def plain_eval)

theorem canonical_json_roundtrip_witness:
  "\<exists>w. strict_json_loads (text_of sample_value) = Inr w \<and> canonical_json demo_env w = Inr (text_of sample_value)"
  using canonical_json_roundtrip [OF demo_env_stable plain_is_wf [OF sample_value_plain] canonical_text [OF sample_value_plain]]
  by blast

lemma canonical_encoders_agree_witness:
  "canonical_json demo_env sample_value = canonical_dumps demo_env sample_value"
  using canonical_encoders_agree [OF sample_value_plain] by blast

end
